(* ===== verification/Prelude.thy ===== *)
theory Prelude
  imports Main "HOL-Library.AList" "HOL-Library.Sublist"
begin

text \<open>
  Shared vocabulary of the development. Everything here is independent of the
  modelled program: the fact collections the component theories extend, the generic
  lemmas on association lists (a Go map that the code ranges over is an association
  list with distinct keys), on list update and on sums over shards.
\<close>

section \<open>Fact collections\<close>

named_theorems go_simps \<open>unfolding rules of the modelled Go library functions\<close>
named_theorems inv_intros \<open>introduction rules: an operation keeps its invariant\<close>
named_theorems frame_simps \<open>frame facts: fields an operation leaves unchanged\<close>

section \<open>Association lists with a counted predicate\<close>

abbreviation keys_distinct :: "('k \<times> 'v) list \<Rightarrow> bool" where
  "keys_distinct al \<equiv> distinct (map fst al)"

definition acount :: "('v \<Rightarrow> bool) \<Rightarrow> ('k \<times> 'v) list \<Rightarrow> nat" where
  "acount P al = length (filter (\<lambda>kv. P (snd kv)) al)"

definition ohas :: "('v \<Rightarrow> bool) \<Rightarrow> 'v option \<Rightarrow> nat" where
  "ohas P x = (case x of None \<Rightarrow> 0 | Some v \<Rightarrow> if P v then 1 else 0)"

lemma ohas_simps [simp]:
  "ohas P None = 0" "P v \<Longrightarrow> ohas P (Some v) = 1" "\<not> P v \<Longrightarrow> ohas P (Some v) = 0"
  by (simp_all add: ohas_def)

lemma acount_Nil [simp]: "acount P [] = 0"
  by (simp add: acount_def)

lemma acount_Cons [simp]: "acount P (kv # al) = ohas P (Some (snd kv)) + acount P al"
  by (simp add: acount_def ohas_def)

lemma acount_append [simp]: "acount P (xs @ ys) = acount P xs + acount P ys"
  by (simp add: acount_def)

lemma acount_update:
  "keys_distinct al \<Longrightarrow>
    acount P (AList.update k v al) + ohas P (map_of al k) = acount P al + ohas P (Some v)"
proof (induction al)
  case Nil
  then show ?case by simp
next
  case (Cons kv al)
  obtain k' v' where kv: "kv = (k', v')" by (cases kv)
  show ?case
  proof (cases "k' = k")
    case True
    with kv show ?thesis by simp
  next
    case False
    with Cons kv show ?thesis by simp
  qed
qed

lemma acount_delete_absent: "map_of al k = None \<Longrightarrow> AList.delete k al = al"
  by (induction al) (auto split: if_splits)

lemma acount_delete:
  "keys_distinct al \<Longrightarrow> acount P (AList.delete k al) + ohas P (map_of al k) = acount P al"
proof (induction al)
  case Nil
  then show ?case by simp
next
  case (Cons kv al)
  obtain k' v' where kv: "kv = (k', v')" by (cases kv)
  show ?case
  proof (cases "k' = k")
    case True
    from Cons.prems kv True have "map_of al k = None"
      by (auto simp: map_of_eq_None_iff)
    then have "AList.delete k al = al" by (rule acount_delete_absent)
    with kv True show ?thesis by simp
  next
    case False
    with Cons kv show ?thesis by simp
  qed
qed

lemma acount_member:
  "map_of al k = Some v \<Longrightarrow> P v \<Longrightarrow> 0 < acount P al"
  by (induction al) (auto split: if_splits simp: ohas_def)

lemma keys_distinct_delete: "keys_distinct al \<Longrightarrow> keys_distinct (AList.delete k al)"
  by (rule distinct_delete)

lemma keys_distinct_update: "keys_distinct al \<Longrightarrow> keys_distinct (AList.update k v al)"
  by (rule distinct_update)

lemma set_update_subset: "set (AList.update k v al) \<subseteq> insert (k, v) (set al)"
  by (induction al) auto

lemma set_delete_subset: "set (AList.delete k al) \<subseteq> set al"
  by (induction al) auto

lemma acount_mono: "(\<And>v. P v \<Longrightarrow> Q v) \<Longrightarrow> acount P al \<le> acount Q al"
  by (induction al) (auto simp: ohas_def intro: le_SucI)

section \<open>List update and sums\<close>

lemma sum_list_update_nat:
  fixes f :: "'a \<Rightarrow> nat"
  shows "i < length xs \<Longrightarrow>
    sum_list (map f (xs[i := y])) + f (xs ! i) = sum_list (map f xs) + f y"
proof (induction xs arbitrary: i)
  case Nil
  then show ?case by simp
next
  case (Cons x xs)
  then show ?case by (cases i) auto
qed

lemma sum_list_ge_nth:
  fixes f :: "'a \<Rightarrow> nat"
  shows "i < length xs \<Longrightarrow> f (xs ! i) \<le> sum_list (map f xs)"
  by (induction xs arbitrary: i) (auto simp: nth_Cons split: nat.splits intro: trans_le_add2)

section \<open>Prefixes\<close>

lemma prefix_drop_append: "prefix p s \<Longrightarrow> p @ drop (length p) s = s"
  by (auto simp: prefix_def)

lemma prefix_append_mid:
  assumes "prefix p (xs @ c # ys)" and "c \<notin> set p"
  shows "prefix p xs"
proof -
  from assms(1) have "prefix p xs \<or> (\<exists>us. p = xs @ us \<and> prefix us (c # ys))"
    unfolding prefix_append .
  with assms(2) show ?thesis by (auto simp: prefix_Cons)
qed

lemma suffix_append_mid:
  assumes "suffix p (xs @ c # ys)" and "c \<notin> set p"
  shows "suffix p ys"
proof -
  from assms(1) have "suffix p (c # ys) \<or> (\<exists>zs. p = zs @ c # ys)"
    unfolding suffix_append by auto
  with assms(2) show ?thesis by (auto simp: suffix_Cons)
qed

end
