(* ===== verification/GoBase.thy ===== *)
theory GoBase
  imports Prelude "HOL-Library.Word"
begin

unbundle bit_operations_syntax

text \<open>
  The parts of the Go language and its standard library that every component uses:
  the two's complement wrap-around of \<open>int\<close> and \<open>int64\<close>, \<open>time.Duration\<close>,
  \<open>time.Time\<close> and the 32-bit FNV-1a hash of \<open>hash/fnv\<close>. An \<open>int\<close>, an \<open>int64\<close> and a
  duration are HOL integers; \<open>wrap64\<close> is written where an operation can leave the
  64-bit range.
\<close>

section \<open>64-bit integers\<close>

definition int64_min :: int where "int64_min = - (2 ^ 63)"
definition int64_max :: int where "int64_max = 2 ^ 63 - 1"

definition in64 :: "int \<Rightarrow> bool" where
  "in64 x \<longleftrightarrow> int64_min \<le> x \<and> x \<le> int64_max"

definition wrap64 :: "int \<Rightarrow> int" where
  "wrap64 x = (x + 2 ^ 63) mod 2 ^ 64 - 2 ^ 63"

lemma wrap64_id: "in64 x \<Longrightarrow> wrap64 x = x"
  by (simp add: in64_def int64_min_def int64_max_def wrap64_def)

lemma in64_wrap64: "in64 (wrap64 x)"
proof -
  have "0 \<le> (x + 2 ^ 63) mod 2 ^ 64" "(x + 2 ^ 63) mod 2 ^ 64 < 2 ^ 64"
    by simp_all
  then show ?thesis
    by (simp add: in64_def int64_min_def int64_max_def wrap64_def)
qed

lemma in64I: "- 9223372036854775808 \<le> x \<Longrightarrow> x \<le> 9223372036854775807 \<Longrightarrow> in64 x"
  by (simp add: in64_def int64_min_def int64_max_def)

lemma in64D: "in64 x \<Longrightarrow> - 9223372036854775808 \<le> x \<and> x \<le> 9223372036854775807"
  by (simp add: in64_def int64_min_def int64_max_def)

text \<open>A setting that is not positive is replaced by its default.\<close>

definition positive_or :: "int \<Rightarrow> int \<Rightarrow> int" where
  "positive_or d x = (if x \<le> 0 then d else x)"

text \<open>Go's integer division and remainder truncate towards zero.\<close>

definition go_div :: "int \<Rightarrow> int \<Rightarrow> int" where
  "go_div a b = sgn a * sgn b * (\<bar>a\<bar> div \<bar>b\<bar>)"

definition go_mod :: "int \<Rightarrow> int \<Rightarrow> int" where
  "go_mod a b = a - b * go_div a b"

lemma go_div_nonneg: "0 \<le> a \<Longrightarrow> 0 < b \<Longrightarrow> go_div a b = a div b"
  by (cases "a = 0") (simp_all add: go_div_def)

lemma go_mod_nonneg: "0 \<le> a \<Longrightarrow> 0 < b \<Longrightarrow> go_mod a b = a mod b"
  by (simp add: go_mod_def go_div_nonneg minus_mult_div_eq_mod)

section \<open>Durations and instants\<close>

type_synonym duration = int

definition Millisecond :: duration where "Millisecond = 1000000"
definition Second :: duration where "Second = 1000000000"
definition Minute :: duration where "Minute = 60000000000"
definition Hour :: duration where "Hour = 3600000000000"

lemmas duration_units [go_simps] = Millisecond_def Second_def Minute_def Hour_def

text \<open>
  An instant is the number of nanoseconds since January 1 of the year 1, UTC, so that
  Go's zero time is 0. \<open>Sub\<close> saturates at the bounds of a duration.
\<close>

type_synonym instant = int

definition zero_time :: instant where "zero_time = 0"

definition unix_epoch :: instant where "unix_epoch = 62135596800000000000"

definition IsZero :: "instant \<Rightarrow> bool" where "IsZero t \<longleftrightarrow> t = zero_time"

definition time_Sub :: "instant \<Rightarrow> instant \<Rightarrow> duration" where
  "time_Sub t u = max int64_min (min int64_max (t - u))"

definition time_Add :: "instant \<Rightarrow> duration \<Rightarrow> instant" where
  "time_Add t d = t + d"

definition time_After :: "instant \<Rightarrow> instant \<Rightarrow> bool" where "time_After t u \<longleftrightarrow> u < t"
definition time_Before :: "instant \<Rightarrow> instant \<Rightarrow> bool" where "time_Before t u \<longleftrightarrow> t < u"

definition UnixNano :: "instant \<Rightarrow> int" where "UnixNano t = wrap64 (t - unix_epoch)"
definition Unix :: "instant \<Rightarrow> int" where "Unix t = (t - unix_epoch) div Second"
definition UnixMilli :: "instant \<Rightarrow> int" where "UnixMilli t = (t - unix_epoch) div Millisecond"

lemmas time_simps [go_simps] =
  time_Add_def time_After_def time_Before_def IsZero_def zero_time_def

lemma time_Sub_exact: "in64 (t - u) \<Longrightarrow> time_Sub t u = t - u"
  by (simp add: time_Sub_def in64_def)

lemma time_Sub_ge_iff: "0 < d \<Longrightarrow> in64 d \<Longrightarrow> d \<le> time_Sub t u \<longleftrightarrow> d \<le> t - u"
  by (auto simp: time_Sub_def in64_def int64_min_def int64_max_def)

lemma time_Sub_mono: "t \<le> t' \<Longrightarrow> time_Sub t u \<le> time_Sub t' u"
  by (simp add: time_Sub_def)

lemma time_Sub_self [simp]: "time_Sub t t = 0"
  by (simp add: time_Sub_def int64_min_def int64_max_def)

definition Milliseconds :: "duration \<Rightarrow> int" where "Milliseconds d = go_div d Millisecond"

section \<open>FNV-1a, 32 bit\<close>

definition fnv32_offset :: "32 word" where "fnv32_offset = 2166136261"
definition fnv32_prime :: "32 word" where "fnv32_prime = 16777619"

fun fnv32a_write :: "32 word \<Rightarrow> char list \<Rightarrow> 32 word" where
  "fnv32a_write h [] = h"
| "fnv32a_write h (c # cs) = fnv32a_write ((h XOR of_char c) * fnv32_prime) cs"

definition Sum32a :: "string \<Rightarrow> int" where
  "Sum32a key = uint (fnv32a_write fnv32_offset key)"

lemma Sum32a_range: "0 \<le> Sum32a key" "Sum32a key < 2 ^ 32"
  using uint_lt2p [of "fnv32a_write fnv32_offset key"] by (simp_all add: Sum32a_def)

lemma int_and_pow2_mask: "(x::int) AND (2 ^ k - 1) = x mod 2 ^ k"
  by (simp add: take_bit_eq_mod [symmetric] take_bit_eq_mask mask_eq_exp_minus_1)

end
