(* ===== verification/GoStrings.thy ===== *)
theory GoStrings
  imports GoBase
begin

text \<open>
  The functions of Go's \<open>strings\<close> and \<open>strconv\<close> packages that the program uses. A Go
  string is a list of bytes. \<open>TrimSpace\<close> knows the UTF-8 encodings of every code point
  with the Unicode property White_Space; \<open>ToLower\<close> maps ASCII letters and leaves every
  byte above 127 as it is, so it is exact on ASCII text.
\<close>

section \<open>strings.TrimSpace\<close>

definition go_spaces :: "string list" where
  "go_spaces =
    [[CHR 0x09], [CHR 0x0A], [CHR 0x0B], [CHR 0x0C], [CHR 0x0D], [CHR 0x20],
     [CHR 0xC2, CHR 0x85], [CHR 0xC2, CHR 0xA0], [CHR 0xE1, CHR 0x9A, CHR 0x80],
     [CHR 0xE2, CHR 0x80, CHR 0x80], [CHR 0xE2, CHR 0x80, CHR 0x81],
     [CHR 0xE2, CHR 0x80, CHR 0x82], [CHR 0xE2, CHR 0x80, CHR 0x83],
     [CHR 0xE2, CHR 0x80, CHR 0x84], [CHR 0xE2, CHR 0x80, CHR 0x85],
     [CHR 0xE2, CHR 0x80, CHR 0x86], [CHR 0xE2, CHR 0x80, CHR 0x87],
     [CHR 0xE2, CHR 0x80, CHR 0x88], [CHR 0xE2, CHR 0x80, CHR 0x89],
     [CHR 0xE2, CHR 0x80, CHR 0x8A], [CHR 0xE2, CHR 0x80, CHR 0xA8],
     [CHR 0xE2, CHR 0x80, CHR 0xA9], [CHR 0xE2, CHR 0x80, CHR 0xAF],
     [CHR 0xE2, CHR 0x81, CHR 0x9F], [CHR 0xE3, CHR 0x80, CHR 0x80]]"

definition find_pat :: "string list \<Rightarrow> string \<Rightarrow> string option" where
  "find_pat ps s = List.find (\<lambda>p. p \<noteq> [] \<and> prefix p s) ps"

lemma find_pat_SomeD: "find_pat ps s = Some p \<Longrightarrow> p \<in> set ps \<and> p \<noteq> [] \<and> prefix p s"
  by (auto simp: find_pat_def find_Some_iff in_set_conv_nth)

lemma find_pat_None_iff: "find_pat ps s = None \<longleftrightarrow> (\<forall>p\<in>set ps. p \<noteq> [] \<longrightarrow> \<not> prefix p s)"
  by (auto simp: find_pat_def find_None_iff)

function strip_all :: "string list \<Rightarrow> string \<Rightarrow> string" where
  "strip_all ps s = (case find_pat ps s of None \<Rightarrow> s | Some p \<Rightarrow> strip_all ps (drop (length p) s))"
  by pat_completeness auto
termination
proof (relation "measure (\<lambda>(ps, s). length s)")
  fix ps s p
  assume "find_pat ps s = Some p"
  then have "p \<noteq> []" "prefix p s" by (auto dest: find_pat_SomeD)
  then have "0 < length p" "length p \<le> length s" by (auto dest: prefix_length_le)
  then have "length s - length p < length s" by (intro diff_less) auto
  then show "((ps, drop (length p) s), ps, s) \<in> measure (\<lambda>(ps, s). length s)" by simp
qed simp

declare strip_all.simps [simp del]

definition TrimSpace :: "string \<Rightarrow> string" where
  "TrimSpace s = rev (strip_all (map rev go_spaces) (rev (strip_all go_spaces s)))"

definition no_space_prefix :: "string \<Rightarrow> bool" where
  "no_space_prefix s \<longleftrightarrow> find_pat go_spaces s = None"

definition no_space_suffix :: "string \<Rightarrow> bool" where
  "no_space_suffix s \<longleftrightarrow> find_pat (map rev go_spaces) (rev s) = None"

lemma strip_all_fixed: "find_pat ps s = None \<Longrightarrow> strip_all ps s = s"
  by (simp add: strip_all.simps [of ps s])

lemma strip_all_None: "find_pat ps (strip_all ps s) = None"
proof (induction ps s rule: strip_all.induct)
  case (1 ps s)
  then show ?case
    by (cases "find_pat ps s") (simp_all add: strip_all.simps [of ps s])
qed

lemma strip_all_suffix: "suffix (strip_all ps s) s"
proof (induction ps s rule: strip_all.induct)
  case (1 ps s)
  show ?case
  proof (cases "find_pat ps s")
    case None
    then show ?thesis by (simp add: strip_all_fixed)
  next
    case (Some p)
    with 1 have "suffix (strip_all ps (drop (length p) s)) (drop (length p) s)" by blast
    moreover have "suffix (drop (length p) s) s" by (rule suffix_drop)
    ultimately show ?thesis
      using Some by (simp add: strip_all.simps [of ps s] suffix_order.trans)
  qed
qed

lemma find_pat_prefix_None:
  "find_pat ps s = None \<Longrightarrow> prefix t s \<Longrightarrow> find_pat ps t = None"
  unfolding find_pat_None_iff using prefix_order.trans by blast

lemma TrimSpace_no_suffix: "no_space_suffix (TrimSpace s)"
  by (simp add: no_space_suffix_def TrimSpace_def strip_all_None)

lemma TrimSpace_no_prefix: "no_space_prefix (TrimSpace s)"
proof -
  let ?l = "strip_all go_spaces s"
  have "suffix (strip_all (map rev go_spaces) (rev ?l)) (rev ?l)" by (rule strip_all_suffix)
  then have "prefix (TrimSpace s) ?l"
    by (simp add: TrimSpace_def suffix_to_prefix)
  with strip_all_None [of go_spaces s] show ?thesis
    unfolding no_space_prefix_def by (rule find_pat_prefix_None)
qed

lemma TrimSpace_fixed: "no_space_prefix s \<Longrightarrow> no_space_suffix s \<Longrightarrow> TrimSpace s = s"
  by (simp add: TrimSpace_def no_space_prefix_def no_space_suffix_def strip_all_fixed)

lemma TrimSpace_idem [simp]: "TrimSpace (TrimSpace s) = TrimSpace s"
  by (rule TrimSpace_fixed [OF TrimSpace_no_prefix TrimSpace_no_suffix])

lemma TrimSpace_Nil [simp]: "TrimSpace [] = []"
proof (rule TrimSpace_fixed)
  show "no_space_prefix []" by code_simp
  show "no_space_suffix []" by code_simp
qed

text \<open>Text that starts with a visible byte and holds another one stays as it is.\<close>

definition visible :: "char \<Rightarrow> bool" where
  "visible c \<longleftrightarrow> (\<forall>p\<in>set go_spaces. c \<notin> set p)"

lemma no_space_prefix_visible: "visible c \<Longrightarrow> no_space_prefix (c # s)"
  unfolding no_space_prefix_def find_pat_None_iff visible_def
  by (auto simp: prefix_Cons)

lemma no_space_suffix_visible:
  assumes "visible c" and "no_space_suffix t"
  shows "no_space_suffix (s @ c # t)"
  unfolding no_space_suffix_def find_pat_None_iff
proof (intro ballI impI notI)
  fix p
  assume p: "p \<in> set (map rev go_spaces)" "p \<noteq> []" "prefix p (rev (s @ c # t))"
  then obtain q where q: "q \<in> set go_spaces" "p = rev q" by auto
  with p(3) have "suffix q (s @ c # t)" by (simp add: suffix_to_prefix)
  moreover from assms(1) q(1) have "c \<notin> set q" by (auto simp: visible_def)
  ultimately have "suffix q t" by (rule suffix_append_mid)
  then have "prefix p (rev t)" by (simp add: q(2) suffix_to_prefix)
  with p assms(2) show False
    unfolding no_space_suffix_def find_pat_None_iff by blast
qed

lemma TrimSpace_visible_append:
  assumes "visible a" and "visible c"
  shows "TrimSpace (a # s @ c # TrimSpace t) = a # s @ c # TrimSpace t"
proof (rule TrimSpace_fixed)
  show "no_space_prefix (a # s @ c # TrimSpace t)"
    by (rule no_space_prefix_visible [OF assms(1)])
  have "no_space_suffix ((a # s) @ c # TrimSpace t)"
    by (rule no_space_suffix_visible [OF assms(2) TrimSpace_no_suffix])
  then show "no_space_suffix (a # s @ c # TrimSpace t)" by simp
qed

section \<open>Prefixes, suffixes, search\<close>

definition HasPrefix :: "string \<Rightarrow> string \<Rightarrow> bool" where "HasPrefix s p \<longleftrightarrow> prefix p s"
definition HasSuffix :: "string \<Rightarrow> string \<Rightarrow> bool" where "HasSuffix s p \<longleftrightarrow> suffix p s"

definition TrimPrefix :: "string \<Rightarrow> string \<Rightarrow> string" where
  "TrimPrefix s p = (if HasPrefix s p then drop (length p) s else s)"

definition TrimSuffix :: "string \<Rightarrow> string \<Rightarrow> string" where
  "TrimSuffix s p = (if HasSuffix s p then take (length s - length p) s else s)"

text \<open>\<open>IndexChar\<close> is \<open>strings.Index\<close> for a pattern of one byte; \<open>None\<close> is \<open>-1\<close>.\<close>

fun IndexChar :: "string \<Rightarrow> char \<Rightarrow> nat option" where
  "IndexChar [] c = None"
| "IndexChar (x # xs) c = (if x = c then Some 0 else map_option Suc (IndexChar xs c))"

lemma IndexChar_Some: "IndexChar s c = Some i \<Longrightarrow> s = take i s @ c # drop (Suc i) s \<and> i < length s"
  by (induction s arbitrary: i) (auto split: if_splits)

lemma IndexChar_append: "c \<notin> set xs \<Longrightarrow> IndexChar (xs @ c # ys) c = Some (length xs)"
  by (induction xs) auto

definition ContainsChar :: "string \<Rightarrow> char \<Rightarrow> bool" where "ContainsChar s c \<longleftrightarrow> c \<in> set s"

lemma TrimPrefix_append [simp]: "TrimPrefix (p @ s) p = s"
  by (simp add: TrimPrefix_def HasPrefix_def)

definition lower_char :: "char \<Rightarrow> char" where
  "lower_char c = (let n = of_char c :: nat in
     if 65 \<le> n \<and> n \<le> 90 then char_of (n + 32) else c)"

definition ToLower :: "string \<Rightarrow> string" where "ToLower s = map lower_char s"

section \<open>Decimal numbers\<close>

function digits_of :: "nat \<Rightarrow> string" where
  "digits_of n = (if n < 10 then [char_of (48 + n)]
     else digits_of (n div 10) @ [char_of (48 + n mod 10)])"
  by pat_completeness auto
termination by (relation "measure id") auto

declare digits_of.simps [simp del]

definition FormatInt :: "int \<Rightarrow> string" where
  "FormatInt x = (if x < 0 then CHR ''-'' # digits_of (nat (- x)) else digits_of (nat x))"

definition digit_val :: "char \<Rightarrow> nat option" where
  "digit_val c = (let n = of_char c :: nat in if 48 \<le> n \<and> n \<le> 57 then Some (n - 48) else None)"

fun parse_digits :: "nat \<Rightarrow> string \<Rightarrow> nat option" where
  "parse_digits acc [] = Some acc"
| "parse_digits acc (c # cs) =
     (case digit_val c of None \<Rightarrow> None | Some d \<Rightarrow> parse_digits (10 * acc + d) cs)"

definition parse_unsigned :: "string \<Rightarrow> nat option" where
  "parse_unsigned s = (if s = [] then None else parse_digits 0 s)"

text \<open>\<open>strconv.ParseInt(s, 10, 64)\<close>; \<open>None\<close> stands for the syntax and range errors.\<close>

definition ParseInt :: "string \<Rightarrow> int option" where
  "ParseInt s =
    (case s of
       [] \<Rightarrow> None
     | c # cs \<Rightarrow>
         (let (neg, body) = (if c = CHR ''-'' then (True, cs)
                             else if c = CHR ''+'' then (False, cs) else (False, s))
          in case parse_unsigned body of
               None \<Rightarrow> None
             | Some n \<Rightarrow> (let v = (if neg then - int n else int n)
                         in if in64 v then Some v else None)))"

lemma digit_val_digit: "d < 10 \<Longrightarrow> digit_val (char_of (48 + d)) = Some d"
  by (simp add: digit_val_def)

lemma parse_digits_append:
  "parse_digits acc (xs @ ys) =
    (case parse_digits acc xs of None \<Rightarrow> None | Some a \<Rightarrow> parse_digits a ys)"
  by (induction acc xs rule: parse_digits.induct) (auto split: option.splits)

lemma parse_digits_of: "parse_digits 0 (digits_of n) = Some n"
proof (induction n rule: digits_of.induct)
  case (1 n)
  show ?case
  proof (cases "n < 10")
    case True
    then show ?thesis by (simp add: digits_of.simps [of n] digit_val_digit)
  next
    case False
    with 1 have "parse_digits 0 (digits_of (n div 10)) = Some (n div 10)" by simp
    with False show ?thesis
      by (simp add: digits_of.simps [of n] parse_digits_append digit_val_digit)
  qed
qed

lemma digits_of_Cons: "\<exists>(d::nat) cs. d < 10 \<and> digits_of n = char_of (48 + d) # cs"
proof (induction n rule: digits_of.induct)
  case (1 n)
  show ?case
  proof (cases "n < 10")
    case True
    then show ?thesis by (intro exI [of _ n] exI [of _ "[]"]) (simp add: digits_of.simps [of n])
  next
    case False
    with 1 obtain d :: nat and cs where "d < 10" "digits_of (n div 10) = char_of (48 + d) # cs"
      by blast
    with False show ?thesis
      by (intro exI [of _ d] exI [of _ "cs @ [char_of (48 + n mod 10)]"])
        (simp add: digits_of.simps [of n])
  qed
qed

lemma char_of_digit_not_sign:
  fixes d :: nat
  assumes "d < 10"
  shows "char_of (48 + d) \<noteq> CHR ''-''" "char_of (48 + d) \<noteq> CHR ''+''"
proof -
  from assms have e: "of_char (char_of (48 + d) :: char) = (48 + d :: nat)" by simp
  show "char_of (48 + d) \<noteq> CHR ''-''"
  proof
    assume "char_of (48 + d) = CHR ''-''"
    with e have "48 + d = of_char (CHR ''-'')" by metis
    then show False by simp
  qed
  show "char_of (48 + d) \<noteq> CHR ''+''"
  proof
    assume "char_of (48 + d) = CHR ''+''"
    with e have "48 + d = of_char (CHR ''+'')" by metis
    then show False by simp
  qed
qed

lemma ParseInt_FormatInt:
  assumes "in64 x"
  shows "ParseInt (FormatInt x) = Some x"
proof (cases "x < 0")
  case True
  obtain d :: nat and cs where "digits_of (nat (- x)) = char_of (48 + d) # cs"
    using digits_of_Cons by blast
  then have "parse_unsigned (digits_of (nat (- x))) = Some (nat (- x))"
    using parse_digits_of [of "nat (- x)"] by (simp add: parse_unsigned_def)
  with True assms show ?thesis by (simp add: ParseInt_def FormatInt_def)
next
  case False
  obtain d :: nat and cs where d: "digits_of (nat x) = char_of (48 + d) # cs" "d < 10"
    using digits_of_Cons by blast
  then have "parse_unsigned (digits_of (nat x)) = Some (nat x)"
    using parse_digits_of [of "nat x"] by (simp add: parse_unsigned_def)
  with False assms d show ?thesis
    by (simp add: ParseInt_def FormatInt_def char_of_digit_not_sign)
qed

text \<open>A decimal number keeps its digits when it is trimmed.\<close>

lemma strip_all_keeps:
  "(\<forall>p\<in>set ps. ch \<notin> set p) \<Longrightarrow> ch \<in> set s \<Longrightarrow> ch \<in> set (strip_all ps s)"
proof (induction ps s rule: strip_all.induct)
  case (1 ps s)
  show ?case
  proof (cases "find_pat ps s")
    case None
    with "1.prems"(2) show ?thesis by (simp add: strip_all_fixed)
  next
    case (Some p)
    from find_pat_SomeD [OF this] have p: "p \<in> set ps" "prefix p s" by simp_all
    then have "ch \<in> set (drop (length p) s)" using "1.prems" by (auto simp: prefix_def)
    with "1.IH" [OF Some] "1.prems"(1) Some show ?thesis by (simp add: strip_all.simps [of ps s])
  qed
qed

lemma TrimSpace_visible: "visible ch \<Longrightarrow> ch \<in> set s \<Longrightarrow> TrimSpace s \<noteq> []"
  using strip_all_keeps [of go_spaces ch s] strip_all_keeps [of "map rev go_spaces" ch "rev (strip_all go_spaces s)"]
  by (auto simp: TrimSpace_def visible_def)

lemma visible_digit:
  fixes d :: nat
  assumes "d < 10"
  shows "visible (char_of (48 + d))"
proof -
  from assms have "d \<in> {0, 1, 2, 3, 4, 5, 6, 7, 8, 9}" by auto
  then show ?thesis by (auto simp: visible_def go_spaces_def char_of_def)
qed

lemma TrimSpace_FormatInt: "TrimSpace (FormatInt x) \<noteq> []"
proof -
  have "\<exists>ch\<in>set (FormatInt x). visible ch"
    using digits_of_Cons [of "nat x"] digits_of_Cons [of "nat (- x)"] visible_digit by (fastforce simp: FormatInt_def)
  then show ?thesis using TrimSpace_visible by blast
qed

end
