(* ===== verification/CacheKeys.thy ===== *)
theory CacheKeys
  imports GoStrings
begin

text \<open>
  The Redis keys of the user cache (internal/pkg/usercache/keys.go): how a user name
  becomes the key of its lease and of its depth counter, and how the calibration scan
  reads the user name back out of a key.
\<close>

section \<open>Constants\<close>

definition userPrefix :: string where "userPrefix = ''user:''"
definition emailPrefix :: string where "emailPrefix = ''user:email:''"
definition phonePrefix :: string where "phonePrefix = ''user:phone:''"
definition negativeCounterPrefix :: string where "negativeCounterPrefix = ''user:negative-counter:''"
definition blockCounterPrefix :: string where "blockCounterPrefix = ''user:block-counter:''"
definition blacklistPrefix :: string where "blacklistPrefix = ''user:blacklist:''"
definition pendingCreatePrefix :: string where "pendingCreatePrefix = ''user:pending:''"
definition pendingUserDepthPrefix :: string where "pendingUserDepthPrefix = ''user:pending:depth:''"
definition NegativeCacheSentinel :: string where "NegativeCacheSentinel = ''rate_limit_prevention''"
definition BlacklistSentinel :: string where "BlacklistSentinel = ''rate_limit_blacklisted''"
definition pendingHashTag :: string where "pendingHashTag = ''{pending}''"

section \<open>Key construction\<close>

definition UserKey :: "string \<Rightarrow> string" where "UserKey username = userPrefix @ username"

definition NormalizeEmail :: "string \<Rightarrow> string" where
  "NormalizeEmail email = ToLower (TrimSpace email)"

definition NormalizePhone :: "string \<Rightarrow> string" where "NormalizePhone phone = TrimSpace phone"

definition EmailKey :: "string \<Rightarrow> string" where
  "EmailKey email = (let normalized = NormalizeEmail email
     in if normalized = [] then [] else emailPrefix @ normalized)"

definition PhoneKey :: "string \<Rightarrow> string" where
  "PhoneKey phone = (let normalized = NormalizePhone phone
     in if normalized = [] then [] else phonePrefix @ normalized)"

definition NegativeCounterKey :: "string \<Rightarrow> string" where
  "NegativeCounterKey username = (let trimmed = TrimSpace username
     in if trimmed = [] then [] else negativeCounterPrefix @ trimmed)"

definition BlockCounterKey :: "string \<Rightarrow> string" where
  "BlockCounterKey username = (let trimmed = TrimSpace username
     in if trimmed = [] then [] else blockCounterPrefix @ trimmed)"

definition BlacklistKey :: "string \<Rightarrow> string" where
  "BlacklistKey username = (let trimmed = TrimSpace username
     in if trimmed = [] then [] else blacklistPrefix @ trimmed)"

definition normalizeKeyPrefix :: "string \<Rightarrow> string" where
  "normalizeKeyPrefix pre =
    (let normalized = TrimSpace pre
     in if normalized = [] then []
        else if \<not> HasSuffix normalized '':'' then normalized @ '':'' else normalized)"

definition userHashTag :: "string \<Rightarrow> string" where "userHashTag username = pendingHashTag"

definition userScopedKey :: "string \<Rightarrow> string \<Rightarrow> string" where
  "userScopedKey pre username =
    (let trimmed = TrimSpace username
     in if trimmed = [] then []
        else let normalizedPrefix = normalizeKeyPrefix pre
          in if normalizedPrefix = [] then userHashTag trimmed @ '':'' @ trimmed
             else normalizedPrefix @ userHashTag trimmed @ '':'' @ trimmed)"

definition PendingCreateKey :: "string \<Rightarrow> string" where
  "PendingCreateKey username = userScopedKey pendingCreatePrefix username"

definition PendingCreatePrefix :: string where "PendingCreatePrefix = pendingCreatePrefix"

definition PendingUserDepthKey :: "string \<Rightarrow> string" where
  "PendingUserDepthKey username = userScopedKey pendingUserDepthPrefix username"

definition PendingUserDepthPrefix :: string where "PendingUserDepthPrefix = pendingUserDepthPrefix"

definition ensurePendingMetricsKey :: "string \<Rightarrow> string" where
  "ensurePendingMetricsKey base =
    (let trimmed0 = TrimSpace base;
         trimmed = (if trimmed0 = [] then ''user:pending:active'' else trimmed0)
     in if ContainsChar trimmed (CHR ''{'') then trimmed
        else if HasSuffix trimmed '':'' then trimmed @ pendingHashTag
        else trimmed @ '':'' @ pendingHashTag)"

section \<open>Key parsing\<close>

text \<open>The generic part of the parser: what follows the first colon, unless it is blank.\<close>

definition after_colon :: "string \<Rightarrow> string" where
  "after_colon trimmed =
    (case IndexChar trimmed (CHR '':'') of
       None \<Rightarrow> trimmed
     | Some idx \<Rightarrow> (let candidate = TrimSpace (drop (Suc idx) trimmed)
                   in if candidate \<noteq> [] then candidate else trimmed))"

definition usernameFromTaggedKey :: "string \<Rightarrow> string" where
  "usernameFromTaggedKey raw =
    (let trimmed = TrimSpace raw
     in if trimmed = [] then []
        else if HasPrefix trimmed ''{user:'' then
          (case IndexChar trimmed (CHR ''}'') of
             None \<Rightarrow> after_colon trimmed
           | Some end \<Rightarrow>
               (let remainder = TrimSpace (TrimPrefix (TrimSpace (drop (Suc end) trimmed)) '':'');
                    inside = TrimSpace (drop 6 (take end trimmed))
                in if remainder \<noteq> [] then remainder
                   else if inside \<noteq> [] then inside
                   else after_colon trimmed))
        else after_colon trimmed)"

definition usernameFromKeyWithPrefix :: "string \<Rightarrow> string \<Rightarrow> string" where
  "usernameFromKeyWithPrefix key pre =
    (let trimmedKey = TrimSpace key
     in if trimmedKey = [] then []
        else let normalizedPrefix = normalizeKeyPrefix pre;
                 rest = (if normalizedPrefix \<noteq> [] \<and> HasPrefix trimmedKey normalizedPrefix
                         then TrimSpace (TrimPrefix trimmedKey normalizedPrefix) else trimmedKey)
             in usernameFromTaggedKey rest)"

section \<open>Lemmas\<close>

lemma visible_ascii [simp]:
  "visible (CHR ''u'')" "visible (CHR ''{'')" "visible (CHR ''}'')" "visible (CHR '':'')"
  by (simp_all add: visible_def go_spaces_def)

lemma normalizeKeyPrefix_Nil_iff: "normalizeKeyPrefix pre = [] \<longleftrightarrow> TrimSpace pre = []"
  by (simp add: normalizeKeyPrefix_def Let_def)

lemma normalizeKeyPrefix_colon: "TrimSpace pre \<noteq> [] \<Longrightarrow> \<exists>s. normalizeKeyPrefix pre = s @ '':''"
  by (auto simp: normalizeKeyPrefix_def Let_def HasSuffix_def suffix_def)

lemma normalizeKeyPrefix_trimmed: "TrimSpace (normalizeKeyPrefix pre) = normalizeKeyPrefix pre"
proof (cases "TrimSpace pre = [] \<or> HasSuffix (TrimSpace pre) '':''")
  case True
  then show ?thesis by (auto simp: normalizeKeyPrefix_def Let_def)
next
  case False
  then have eq: "normalizeKeyPrefix pre = TrimSpace pre @ '':''"
    by (simp add: normalizeKeyPrefix_def)
  have "no_space_suffix (TrimSpace pre @ CHR '':'' # TrimSpace [])"
    by (rule no_space_suffix_visible [OF _ TrimSpace_no_suffix]) simp
  moreover have "no_space_prefix (TrimSpace pre @ '':'')"
    unfolding no_space_prefix_def find_pat_None_iff
  proof (intro ballI impI notI)
    fix p assume p: "p \<in> set go_spaces" "p \<noteq> []" "prefix p (TrimSpace pre @ '':'')"
    have "CHR '':'' \<notin> set p"
      using p(1) visible_ascii(4) by (auto simp: visible_def)
    with p(3) have "prefix p (TrimSpace pre)" by (rule prefix_append_mid)
    then show False
      using p TrimSpace_no_prefix [of pre]
      unfolding no_space_prefix_def find_pat_None_iff by blast
  qed
  ultimately show ?thesis by (simp add: eq TrimSpace_fixed)
qed

lemma after_colon_tag:
  "TrimSpace t = t \<Longrightarrow> t \<noteq> [] \<Longrightarrow> after_colon (pendingHashTag @ CHR '':'' # t) = t"
proof -
  assume t: "TrimSpace t = t" "t \<noteq> []"
  have "IndexChar (pendingHashTag @ CHR '':'' # t) (CHR '':'') = Some (length pendingHashTag)"
    by (rule IndexChar_append) (simp add: pendingHashTag_def)
  with t show ?thesis by (simp add: after_colon_def Let_def)
qed

lemma usernameFromTaggedKey_tag:
  assumes "TrimSpace t = t" and "t \<noteq> []"
  shows "usernameFromTaggedKey (pendingHashTag @ CHR '':'' # t) = t"
proof -
  have "TrimSpace (CHR ''{'' # ''pending}'' @ CHR '':'' # TrimSpace t)
      = CHR ''{'' # ''pending}'' @ CHR '':'' # TrimSpace t"
    by (rule TrimSpace_visible_append) simp_all
  with assms have "TrimSpace (pendingHashTag @ CHR '':'' # t) = pendingHashTag @ CHR '':'' # t"
    by (simp add: pendingHashTag_def)
  moreover have "\<not> HasPrefix (pendingHashTag @ CHR '':'' # t) ''{user:''"
    by (simp add: HasPrefix_def pendingHashTag_def)
  ultimately show ?thesis
    using after_colon_tag [OF assms] by (simp add: usernameFromTaggedKey_def Let_def pendingHashTag_def)
qed

lemma userScopedKey_form:
  "TrimSpace username \<noteq> [] \<Longrightarrow>
    userScopedKey pre username =
      normalizeKeyPrefix pre @ pendingHashTag @ CHR '':'' # TrimSpace username"
  by (simp add: userScopedKey_def Let_def userHashTag_def)

lemma TrimSpace_scoped:
  assumes "TrimSpace pre \<noteq> []" and "TrimSpace u \<noteq> []"
  shows "TrimSpace (userScopedKey pre u) = userScopedKey pre u"
proof (rule TrimSpace_fixed)
  have "no_space_suffix ((normalizeKeyPrefix pre @ pendingHashTag) @ CHR '':'' # TrimSpace u)"
    by (rule no_space_suffix_visible [OF _ TrimSpace_no_suffix]) simp
  then show "no_space_suffix (userScopedKey pre u)"
    by (simp add: userScopedKey_form [OF assms(2)])
  let ?q = "normalizeKeyPrefix pre"
  obtain s where s: "?q = s @ '':''" using normalizeKeyPrefix_colon [OF assms(1)] by blast
  show "no_space_prefix (userScopedKey pre u)"
    unfolding no_space_prefix_def find_pat_None_iff
  proof (intro ballI impI notI)
    fix p assume p: "p \<in> set go_spaces" "p \<noteq> []" "prefix p (userScopedKey pre u)"
    have c: "CHR '':'' \<notin> set p"
      using p(1) visible_ascii(4) by (auto simp: visible_def)
    from p(3) have "prefix p (s @ CHR '':'' # pendingHashTag @ CHR '':'' # TrimSpace u)"
      by (simp add: userScopedKey_form [OF assms(2)] s)
    then have "prefix p s" using c by (rule prefix_append_mid)
    then have "prefix p ?q" by (simp add: s)
    moreover have "no_space_prefix ?q"
      using TrimSpace_no_prefix [of ?q] by (simp add: normalizeKeyPrefix_trimmed)
    ultimately show False
      using p unfolding no_space_prefix_def find_pat_None_iff by blast
  qed
qed

lemma scoped_key_roundtrip:
  assumes "TrimSpace pre \<noteq> []" and "TrimSpace u \<noteq> []"
  shows "usernameFromKeyWithPrefix (userScopedKey pre u) pre = TrimSpace u"
proof -
  let ?q = "normalizeKeyPrefix pre" and ?t = "pendingHashTag @ CHR '':'' # TrimSpace u"
  have k: "userScopedKey pre u = ?q @ ?t" by (rule userScopedKey_form [OF assms(2)])
  have q: "?q \<noteq> []" using assms(1) by (simp add: normalizeKeyPrefix_Nil_iff)
  have "TrimSpace (CHR ''{'' # ''pending}'' @ CHR '':'' # TrimSpace u)
      = CHR ''{'' # ''pending}'' @ CHR '':'' # TrimSpace u"
    by (rule TrimSpace_visible_append) simp_all
  then have t: "TrimSpace ?t = ?t" by (simp add: pendingHashTag_def)
  have "usernameFromKeyWithPrefix (?q @ ?t) pre = usernameFromTaggedKey ?t"
    using q t TrimSpace_scoped [OF assms]
    by (simp add: usernameFromKeyWithPrefix_def Let_def HasPrefix_def k)
  also have "\<dots> = TrimSpace u"
    by (rule usernameFromTaggedKey_tag) (simp_all add: assms(2))
  finally show ?thesis by (simp add: k)
qed

lemma userScopedKey_inj:
  assumes "TrimSpace u \<noteq> []" and "TrimSpace v \<noteq> []"
  shows "userScopedKey pre u = userScopedKey pre v \<longleftrightarrow> TrimSpace u = TrimSpace v"
  by (simp add: userScopedKey_form assms)

lemma pending_prefix_trim [simp]:
  "TrimSpace pendingCreatePrefix = pendingCreatePrefix"
  "TrimSpace pendingUserDepthPrefix = pendingUserDepthPrefix"
  by code_simp+

lemma pending_prefix_normal [simp]:
  "normalizeKeyPrefix pendingCreatePrefix = pendingCreatePrefix"
  "normalizeKeyPrefix pendingUserDepthPrefix = pendingUserDepthPrefix"
  by (simp_all add: normalizeKeyPrefix_def Let_def)
    (simp_all add: pendingCreatePrefix_def pendingUserDepthPrefix_def HasSuffix_def suffix_def)

lemma pending_prefix_ne [simp]: "pendingCreatePrefix \<noteq> []" "pendingUserDepthPrefix \<noteq> []"
  by (simp_all add: pendingCreatePrefix_def pendingUserDepthPrefix_def)

end
