(* ===== verification/Backpressure.thy ===== *)
theory Backpressure
  imports GoStrings "HOL-Library.Multiset"
begin

text \<open>
  Backpressure levels (internal/pkg/usercache/pending_state_machine.go): the levels and
  their rank, the merge of the global, user and instance level, and the aggregate
  decision with its two isolation switches and its anti-shake window. The window is a
  small state machine; a run of it is a fold over the sampled levels.
\<close>

section \<open>Levels\<close>

text \<open>
  \<open>BackpressureLevel\<close> is a string type with three constants; the empty string is its
  zero value and a level read back from Redis can be any other string.
\<close>

datatype BackpressureLevel =
    BackpressureUnset
  | BackpressureNone
  | BackpressureElevated
  | BackpressureSevere
  | BackpressureOther string

definition level_of_string :: "string \<Rightarrow> BackpressureLevel" where
  "level_of_string s =
    (if s = [] then BackpressureUnset
     else if s = ''none'' then BackpressureNone
     else if s = ''elevated'' then BackpressureElevated
     else if s = ''severe'' then BackpressureSevere
     else BackpressureOther s)"

fun string_of_level :: "BackpressureLevel \<Rightarrow> string" where
  "string_of_level BackpressureUnset = []"
| "string_of_level BackpressureNone = ''none''"
| "string_of_level BackpressureElevated = ''elevated''"
| "string_of_level BackpressureSevere = ''severe''"
| "string_of_level (BackpressureOther s) = s"

lemma string_of_level_of_string [simp]: "string_of_level (level_of_string s) = s"
  by (simp add: level_of_string_def)

definition backpressureRank :: "BackpressureLevel \<Rightarrow> nat" where
  "backpressureRank level =
    (case level of BackpressureSevere \<Rightarrow> 2 | BackpressureElevated \<Rightarrow> 1 | _ \<Rightarrow> 0)"

lemma backpressureRank_simps [simp]:
  "backpressureRank BackpressureUnset = 0" "backpressureRank BackpressureNone = 0"
  "backpressureRank BackpressureElevated = 1" "backpressureRank BackpressureSevere = 2"
  "backpressureRank (BackpressureOther s) = 0"
  by (simp_all add: backpressureRank_def)

lemma rank_le_2: "backpressureRank l \<le> 2"
  by (cases l) simp_all

lemma rank_2_iff: "backpressureRank l = 2 \<longleftrightarrow> l = BackpressureSevere"
  by (cases l) simp_all

lemma rank_1_iff: "backpressureRank l = 1 \<longleftrightarrow> l = BackpressureElevated"
  by (cases l) simp_all

text \<open>The three levels a decision can return.\<close>

definition proper_level :: "BackpressureLevel \<Rightarrow> bool" where
  "proper_level l \<longleftrightarrow> l \<in> {BackpressureNone, BackpressureElevated, BackpressureSevere}"

lemma proper_rank_inj:
  "proper_level a \<Longrightarrow> proper_level b \<Longrightarrow> backpressureRank a = backpressureRank b \<Longrightarrow> a = b"
  by (auto simp: proper_level_def)

section \<open>Merging\<close>

fun merge_loop :: "BackpressureLevel \<Rightarrow> BackpressureLevel list \<Rightarrow> BackpressureLevel" where
  "merge_loop result [] = result"
| "merge_loop result (lvl # levels) =
    (case lvl of
       BackpressureSevere \<Rightarrow> BackpressureSevere
     | BackpressureElevated \<Rightarrow>
         merge_loop (if result = BackpressureNone then BackpressureElevated else result) levels
     | _ \<Rightarrow> merge_loop result levels)"

definition mergeBackpressureLevels :: "BackpressureLevel list \<Rightarrow> BackpressureLevel" where
  "mergeBackpressureLevels levels = merge_loop BackpressureNone levels"

text \<open>The reference: the highest rank of a list of levels.\<close>

fun max_rank :: "BackpressureLevel list \<Rightarrow> nat" where
  "max_rank [] = 0"
| "max_rank (l # ls) = max (backpressureRank l) (max_rank ls)"

lemma max_rank_le_2: "max_rank ls \<le> 2"
  by (induction ls) (simp_all add: rank_le_2)

lemma max_rank_mset: "mset ls = mset ls' \<Longrightarrow> max_rank ls = max_rank ls'"
proof -
  have "max_rank xs = fold_mset (\<lambda>l m. max (backpressureRank l) m) 0 (mset xs)" for xs
    by (induction xs)
      (simp_all add: comp_fun_commute.fold_mset_add_mset comp_fun_commute_def fun_eq_iff max.left_commute)
  then show "mset ls = mset ls' \<Longrightarrow> max_rank ls = max_rank ls'" by simp
qed

lemma merge_loop_rank:
  "proper_level r \<Longrightarrow> proper_level (merge_loop r ls) \<and>
    backpressureRank (merge_loop r ls) = max (backpressureRank r) (max_rank ls)"
proof (induction r ls rule: merge_loop.induct)
  case (1 r)
  then show ?case by simp
next
  case (2 r l ls)
  then show ?case
    using max_rank_le_2 [of ls] rank_le_2 [of r]
    by (cases l) (auto simp: proper_level_def)
qed

lemma merge_proper: "proper_level (mergeBackpressureLevels ls)"
  unfolding mergeBackpressureLevels_def
  by (rule merge_loop_rank [THEN conjunct1]) (simp add: proper_level_def)

lemma merge_rank: "backpressureRank (mergeBackpressureLevels ls) = max_rank ls"
  using merge_loop_rank [of BackpressureNone ls]
  by (simp add: mergeBackpressureLevels_def proper_level_def)

lemma merge_severe_iff:
  "mergeBackpressureLevels [a, b, c] = BackpressureSevere \<longleftrightarrow>
    a = BackpressureSevere \<or> b = BackpressureSevere \<or> c = BackpressureSevere"
  by (cases a; cases b; cases c) (simp_all add: mergeBackpressureLevels_def)

section \<open>Samples\<close>

record BackpressureSample =
  bs_Username :: string
  bs_GlobalDepth :: int
  bs_GlobalLevel :: BackpressureLevel
  bs_GlobalErr :: bool
  bs_UserDepth :: int
  bs_UserLevel :: BackpressureLevel
  bs_UserErr :: bool
  bs_InstanceDepth :: int
  bs_InstanceLevel :: BackpressureLevel
  bs_AggregateLevel :: BackpressureLevel
  bs_SampledAt :: instant
  bs_Source :: string

definition MaxDepth :: "BackpressureSample \<Rightarrow> int" where
  "MaxDepth s =
    (let m = bs_GlobalDepth s;
         m = (if m < bs_UserDepth s then bs_UserDepth s else m)
     in if m < bs_InstanceDepth s then bs_InstanceDepth s else m)"

definition ShouldReject :: "BackpressureSample \<Rightarrow> BackpressureLevel \<Rightarrow> bool" where
  "ShouldReject s threshold \<longleftrightarrow>
    backpressureRank threshold \<le> backpressureRank (bs_AggregateLevel s)"

section \<open>The aggregate decision\<close>

record decision_cfg =
  IsolateInstanceSevere :: bool
  IsolateUserSevere :: bool
  BackpressureAntiShakeInterval :: duration

record decision_state =
  lastAggregateLevel :: BackpressureLevel
  lastAggregateAt :: instant
  pendingAggregateLevel :: BackpressureLevel
  pendingAggregateSince :: instant

definition init_decision :: decision_state where
  "init_decision = \<lparr>lastAggregateLevel = BackpressureUnset, lastAggregateAt = zero_time,
     pendingAggregateLevel = BackpressureUnset, pendingAggregateSince = zero_time\<rparr>"

text \<open>The isolation step: a severe level of one local dimension alone may be demoted.\<close>

definition isolate_levels ::
  "decision_cfg \<Rightarrow> BackpressureLevel \<Rightarrow> BackpressureLevel \<Rightarrow> BackpressureLevel \<Rightarrow> BackpressureLevel" where
  "isolate_levels cfg global user inst =
    (let agg = mergeBackpressureLevels [global, user, inst]
     in if agg = BackpressureSevere then
          (let agg1 = (if IsolateInstanceSevere cfg \<and> global \<noteq> BackpressureSevere
                         \<and> user \<noteq> BackpressureSevere then BackpressureElevated else agg)
           in if IsolateUserSevere cfg \<and> global \<noteq> BackpressureSevere
                \<and> inst \<noteq> BackpressureSevere then BackpressureElevated else agg1)
        else agg)"

text \<open>The anti-shake step on the isolated level.\<close>

definition antishake_step ::
  "duration \<Rightarrow> BackpressureLevel \<Rightarrow> instant \<Rightarrow> decision_state \<Rightarrow> BackpressureLevel \<times> decision_state" where
  "antishake_step hold agg now st =
    (if lastAggregateLevel st = BackpressureUnset \<or> agg = lastAggregateLevel st then
       (agg, st\<lparr>lastAggregateLevel := agg, lastAggregateAt := now,
                pendingAggregateLevel := BackpressureUnset, pendingAggregateSince := zero_time\<rparr>)
     else if pendingAggregateLevel st \<noteq> agg then
       (lastAggregateLevel st,
        st\<lparr>pendingAggregateLevel := agg, pendingAggregateSince := now\<rparr>)
     else if \<not> IsZero (pendingAggregateSince st)
          \<and> hold \<le> time_Sub now (pendingAggregateSince st) then
       (agg, st\<lparr>lastAggregateLevel := agg, lastAggregateAt := now,
                pendingAggregateLevel := BackpressureUnset, pendingAggregateSince := zero_time\<rparr>)
     else (lastAggregateLevel st, st))"

definition decideAggregateLevel ::
  "decision_cfg \<Rightarrow> BackpressureLevel \<Rightarrow> BackpressureLevel \<Rightarrow> BackpressureLevel \<Rightarrow> instant
    \<Rightarrow> decision_state \<Rightarrow> BackpressureLevel \<times> decision_state" where
  "decideAggregateLevel cfg global user inst now st =
    (let agg = isolate_levels cfg global user inst;
         hold = BackpressureAntiShakeInterval cfg
     in if hold \<le> 0 then (agg, st) else antishake_step hold agg now st)"

lemma isolate_proper: "proper_level (isolate_levels cfg g u i)"
  using merge_proper [of "[g, u, i]"]
  by (auto simp: isolate_levels_def Let_def proper_level_def)

lemma isolate_rank_le:
  "backpressureRank (isolate_levels cfg g u i) \<le> backpressureRank (mergeBackpressureLevels [g, u, i])"
  by (auto simp: isolate_levels_def Let_def)

lemma isolate_off:
  "\<not> IsolateInstanceSevere cfg \<Longrightarrow> \<not> IsolateUserSevere cfg \<Longrightarrow>
    isolate_levels cfg g u i = mergeBackpressureLevels [g, u, i]"
  by (simp add: isolate_levels_def Let_def)

lemma isolate_global: "isolate_levels cfg BackpressureSevere u i = BackpressureSevere"
  by (simp add: isolate_levels_def merge_severe_iff mergeBackpressureLevels_def)

lemma isolate_two_severe:
  "u = BackpressureSevere \<Longrightarrow> i = BackpressureSevere \<Longrightarrow>
    isolate_levels cfg g u i = BackpressureSevere"
  by (simp add: isolate_levels_def Let_def merge_severe_iff)

section \<open>Runs of the anti-shake machine\<close>

type_synonym level_sample = "BackpressureLevel \<times> instant"

fun antishake_run :: "duration \<Rightarrow> level_sample list \<Rightarrow> decision_state \<Rightarrow> decision_state" where
  "antishake_run hold [] st = st"
| "antishake_run hold ((agg, now) # samples) st =
    antishake_run hold samples (snd (antishake_step hold agg now st))"

lemma antishake_run_append:
  "antishake_run hold (xs @ ys) st = antishake_run hold ys (antishake_run hold xs st)"
  by (induction hold xs st rule: antishake_run.induct) simp_all

lemma antishake_output: "fst (antishake_step hold agg now st)
    = lastAggregateLevel (snd (antishake_step hold agg now st))"
  by (simp add: antishake_step_def)

text \<open>
  What a pending switch means: the pending level was sampled at \<open>pendingAggregateSince\<close>
  and every sample since then had that level.
\<close>

definition streak :: "level_sample list \<Rightarrow> BackpressureLevel \<Rightarrow> instant \<Rightarrow> bool" where
  "streak samples l t \<longleftrightarrow>
    (\<exists>xs ys. samples = xs @ (l, t) # ys \<and> (\<forall>(a, s) \<in> set ys. a = l))"

definition pending_inv :: "level_sample list \<Rightarrow> decision_state \<Rightarrow> bool" where
  "pending_inv samples st \<longleftrightarrow>
    (pendingAggregateLevel st \<noteq> BackpressureUnset \<longrightarrow>
       streak samples (pendingAggregateLevel st) (pendingAggregateSince st))"

lemma streak_snoc: "streak samples l t \<Longrightarrow> streak (samples @ [(l, now)]) l t"
  unfolding streak_def by fastforce

lemma streak_new: "streak (samples @ [(l, t)]) l t"
  unfolding streak_def by (intro exI [of _ samples] exI [of _ "[]"]) simp

lemma antishake_step_pending:
  "pending_inv samples st \<Longrightarrow>
    pending_inv (samples @ [(agg, now)]) (snd (antishake_step hold agg now st))"
  by (auto simp: pending_inv_def antishake_step_def streak_new intro: streak_snoc)

lemma antishake_run_pending: "pending_inv samples (antishake_run hold samples init_decision)"
proof (induction samples rule: rev_induct)
  case Nil
  then show ?case by (simp add: pending_inv_def init_decision_def)
next
  case (snoc x xs)
  then show ?case
    by (cases x) (simp add: antishake_run_append antishake_step_pending)
qed

text \<open>A step that changes the reported level ends a streak of at least the window.\<close>

lemma antishake_switch:
  assumes inv: "pending_inv samples st"
    and last: "lastAggregateLevel st \<noteq> BackpressureUnset"
    and proper: "proper_level agg"
    and switch: "fst (antishake_step hold agg now st) \<noteq> lastAggregateLevel st"
  shows "fst (antishake_step hold agg now st) = agg \<and>
    (\<exists>t. streak (samples @ [(agg, now)]) agg t \<and> hold \<le> time_Sub now t)"
proof -
  from last switch have p: "pendingAggregateLevel st = agg"
    "hold \<le> time_Sub now (pendingAggregateSince st)"
    and out: "fst (antishake_step hold agg now st) = agg"
    by (auto simp: antishake_step_def split: if_splits)
  from p(1) proper inv have "streak samples agg (pendingAggregateSince st)"
    by (auto simp: pending_inv_def proper_level_def)
  then have "streak (samples @ [(agg, now)]) agg (pendingAggregateSince st)" by (rule streak_snoc)
  with p(2) out show ?thesis by blast
qed

text \<open>A level that keeps being sampled is reported once the window has passed.\<close>

lemma antishake_hold_run:
  assumes "pendingAggregateLevel st = l" and "lastAggregateLevel st \<notin> {BackpressureUnset, l}"
    and "pendingAggregateSince st = t" and "t \<noteq> zero_time"
    and "\<forall>(a, s) \<in> set samples. a = l \<and> \<not> hold \<le> time_Sub s t"
  shows "antishake_run hold samples st = st"
  using assms
proof (induction samples)
  case Nil
  then show ?case by simp
next
  case (Cons x xs)
  obtain a s where x: "x = (a, s)" by (cases x)
  with Cons.prems have "snd (antishake_step hold a s st) = st"
    by (auto simp: antishake_step_def IsZero_def)
  with Cons x show ?case by simp
qed

lemma antishake_settles:
  assumes last: "lastAggregateLevel st \<notin> {BackpressureUnset, l}"
    and pend: "pendingAggregateLevel st \<noteq> l" and l: "l \<noteq> BackpressureUnset" and t: "t \<noteq> zero_time"
    and mid: "\<forall>(a, s) \<in> set samples. a = l \<and> \<not> hold \<le> time_Sub s t"
    and settled: "hold \<le> time_Sub now t"
  shows "lastAggregateLevel (antishake_run hold ((l, t) # samples @ [(l, now)]) st) = l"
proof -
  let ?st = "snd (antishake_step hold l t st)"
  from last pend have st: "?st = st\<lparr>pendingAggregateLevel := l, pendingAggregateSince := t\<rparr>"
    by (auto simp: antishake_step_def)
  then have "antishake_run hold samples ?st = ?st"
    using last t mid by (intro antishake_hold_run [where l = l and t = t]) auto
  then have "antishake_run hold ((l, t) # samples @ [(l, now)]) st
      = snd (antishake_step hold l now ?st)"
    by (simp add: antishake_run_append)
  moreover have "lastAggregateLevel (snd (antishake_step hold l now ?st)) = l"
    using st last t settled by (simp add: antishake_step_def IsZero_def)
  ultimately show ?thesis by simp
qed

end
