(* ===== verification/GoFloat.thy ===== *)
theory GoFloat
  imports GoBase Complex_Main "HOL-Library.Log_Nat" GoStrings
begin

text \<open>
  The part of Go's \<open>float64\<close> arithmetic the program uses: each operation returns the
  exact rational result rounded to 53 significant bits, ties to even. Overflow to
  infinity and subnormal results are outside the model: the program's operands are
  durations, counts and rates, between \<open>2^-63\<close> and \<open>2^63\<close> in magnitude or zero.
\<close>

section \<open>Binades\<close>

definition rat_exp :: "rat \<Rightarrow> int" where
  "rat_exp x = (let (a, b) = quotient_of x;
                    e = int (floorlog 2 (nat a)) - int (floorlog 2 (nat b))
                in if x < 2 powi e then e - 1 else e)"

lemma floorlog_nat_bounds:
  assumes "0 < (n::int)"
  shows "(2::rat) powi (int (floorlog 2 (nat n)) - 1) \<le> of_int n"
    and "(of_int n :: rat) < 2 powi int (floorlog 2 (nat n))"
proof -
  let ?k = "floorlog 2 (nat n)"
  have b: "2 ^ (?k - 1) \<le> nat n" "nat n < 2 ^ ?k"
    using floorlog_bounds [of "nat n" 2] assms by auto
  have k: "0 < ?k" using assms by (simp add: floorlog_def)
  have "(2::int) ^ (?k - 1) \<le> n"
    using b(1) assms by (metis of_nat_le_iff of_nat_numeral of_nat_power nat_0_le less_imp_le)
  then have "(of_int (2 ^ (?k - 1)) :: rat) \<le> of_int n" by (rule of_int_le_iff [THEN iffD2])
  moreover have "(2::rat) powi (int ?k - 1) = 2 ^ (?k - 1)"
    using k by (metis of_nat_1 of_nat_diff Suc_leI One_nat_def power_int_of_nat)
  ultimately show "(2::rat) powi (int ?k - 1) \<le> of_int n" by simp
  have "n < (2::int) ^ ?k"
    using b(2) assms by (metis of_nat_less_iff of_nat_numeral of_nat_power nat_0_le less_imp_le)
  then have "(of_int n :: rat) < of_int (2 ^ ?k)" by (rule of_int_less_iff [THEN iffD2])
  then show "(of_int n :: rat) < 2 powi int ?k" by simp
qed

lemma rat_exp_bounds:
  assumes "0 < x"
  shows "2 powi rat_exp x \<le> x" and "x < 2 powi (rat_exp x + 1)"
proof -
  obtain a b where q: "quotient_of x = (a, b)" by (cases "quotient_of x")
  then have b: "0 < b" and xab: "x = of_int a / of_int b"
    using quotient_of_denom_pos quotient_of_div by blast+
  with assms have a: "0 < a" by (simp add: zero_less_divide_iff)
  let ?la = "int (floorlog 2 (nat a))" and ?lb = "int (floorlog 2 (nat b))"
  note A = floorlog_nat_bounds [OF a] and B = floorlog_nat_bounds [OF b]
  have bp: "(0::rat) < of_int b" using b by simp
  have "(2::rat) powi (?la - ?lb - 1) * of_int b \<le> 2 powi (?la - ?lb - 1) * 2 powi ?lb"
    using B(2) by (intro mult_left_mono) auto
  also have "\<dots> = 2 powi (?la - 1)"
    by (subst power_int_add [symmetric]) auto
  also have "\<dots> \<le> of_int a" by (rule A(1))
  finally have lo: "2 powi (?la - ?lb - 1) \<le> x"
    by (simp add: xab pos_le_divide_eq [OF bp])
  have "of_int a < (2::rat) powi ?la" by (rule A(2))
  also have "\<dots> = 2 powi (?la - ?lb + 1) * 2 powi (?lb - 1)"
    by (subst power_int_add [symmetric]) auto
  also have "\<dots> \<le> 2 powi (?la - ?lb + 1) * of_int b"
    using B(1) by (intro mult_left_mono) auto
  finally have hi: "x < 2 powi (?la - ?lb + 1)"
    by (simp add: xab pos_divide_less_eq [OF bp])
  have e: "rat_exp x = (if x < 2 powi (?la - ?lb) then ?la - ?lb - 1 else ?la - ?lb)"
    by (simp add: rat_exp_def q)
  show "2 powi rat_exp x \<le> x" using lo by (auto simp: e)
  show "x < 2 powi (rat_exp x + 1)" using hi by (auto simp: e)
qed

section \<open>Rounding\<close>

definition round_even :: "rat \<Rightarrow> int" where
  "round_even y = (let f = \<lfloor>y\<rfloor>; r = y - of_int f
     in if r < 1 / 2 then f else if 1 / 2 < r then f + 1 else if even f then f else f + 1)"

definition f64 :: "rat \<Rightarrow> rat" where
  "f64 x = (if x = 0 then 0
     else let q = 2 powi (rat_exp \<bar>x\<bar> - 52)
          in sgn x * (of_int (round_even (\<bar>x\<bar> / q)) * q))"

text \<open>Conversion of a float to an integer type truncates towards zero.\<close>

definition f64_trunc :: "rat \<Rightarrow> int" where
  "f64_trunc x = (if 0 \<le> x then \<lfloor>x\<rfloor> else \<lceil>x\<rceil>)"

lemma round_even_le_ceil: "y \<le> of_int n \<Longrightarrow> round_even y \<le> n"
proof -
  assume y: "y \<le> of_int n"
  show ?thesis
  proof (cases "\<lfloor>y\<rfloor> = n")
    case True
    with y have "y - of_int \<lfloor>y\<rfloor> \<le> 0" by simp
    then show ?thesis using True by (simp add: round_even_def Let_def)
  next
    case False
    with y have "\<lfloor>y\<rfloor> < n" by (metis floor_mono floor_of_int order_le_less)
    then show ?thesis by (auto simp: round_even_def Let_def)
  qed
qed

lemma round_even_ge_floor: "of_int n \<le> y \<Longrightarrow> n \<le> round_even y"
  by (auto simp: round_even_def Let_def le_floor_iff) (metis le_floor_iff zle_add1_eq_le order_le_less)+

lemma f64_0 [simp]: "f64 0 = 0" by (simp add: f64_def)

lemma f64_pos_form:
  "0 < x \<Longrightarrow> f64 x = of_int (round_even (x / 2 powi (rat_exp x - 52))) * 2 powi (rat_exp x - 52)"
  by (simp add: f64_def Let_def)

lemma f64_nonneg: "0 \<le> x \<Longrightarrow> 0 \<le> f64 x"
proof (cases "x = 0")
  case False
  assume "0 \<le> x"
  with False have x: "0 < x" by simp
  have "(of_int 0 :: rat) \<le> x / 2 powi (rat_exp x - 52)" using x by simp
  then have "0 \<le> round_even (x / 2 powi (rat_exp x - 52))" by (rule round_even_ge_floor)
  then show ?thesis using x by (simp add: f64_pos_form)
qed simp

lemma powi_le_imp: "(2::rat) powi a \<le> x \<Longrightarrow> x < 2 powi b \<Longrightarrow> a < b"
  by (meson linorder_not_less one_le_numeral order_trans power_int_increasing)

lemma int_over_quantum:
  assumes "e \<le> 52"
  shows "(of_int n :: rat) / 2 powi (e - 52) = of_int (n * 2 ^ nat (52 - e))"
proof -
  have "(2::rat) powi (e - 52) * 2 powi (52 - e) = 1"
    by (subst power_int_add [symmetric]) auto
  moreover have "(2::rat) powi (52 - e) = 2 ^ nat (52 - e)"
    using assms by (metis diff_ge_0_iff_ge int_nat_eq power_int_of_nat)
  ultimately show ?thesis by (simp add: field_simps)
qed

text \<open>An integer of at most 53 bits is a bound that rounding respects.\<close>

lemma f64_le_int:
  assumes "0 \<le> x" and "x \<le> of_int n" and "n < 2 ^ 53"
  shows "f64 x \<le> of_int n"
proof (cases "x = 0")
  case True
  with assms show ?thesis by simp
next
  case False
  with assms have x: "0 < x" by simp
  let ?e = "rat_exp x" and ?q = "(2::rat) powi (rat_exp x - 52)"
  note B = rat_exp_bounds [OF x]
  have q: "0 < ?q" by simp
  have "(of_int n :: rat) < of_int (2 ^ 53)" using assms(3) by (rule of_int_less_iff [THEN iffD2])
  then have "(of_int n :: rat) < 2 powi 53" by simp
  then have e: "?e \<le> 52" using powi_le_imp [of ?e x 53] B(1) assms(2) by simp
  have "x / ?q \<le> of_int n / ?q" using assms(2) q by (simp add: divide_right_mono)
  also have "\<dots> = of_int (n * 2 ^ nat (52 - ?e))" by (rule int_over_quantum [OF e])
  finally have "round_even (x / ?q) \<le> n * 2 ^ nat (52 - ?e)" by (rule round_even_le_ceil)
  then have "(of_int (round_even (x / ?q)) :: rat) \<le> of_int (n * 2 ^ nat (52 - ?e))"
    by (rule of_int_le_iff [THEN iffD2])
  then have "of_int (round_even (x / ?q)) \<le> (of_int n :: rat) / ?q"
    by (simp only: int_over_quantum [OF e, of n])
  then show ?thesis using q by (simp add: f64_pos_form [OF x] pos_le_divide_eq)
qed

lemma f64_int:
  assumes "0 \<le> n" and "n < 2 ^ 53"
  shows "f64 (of_int n) = of_int n"
proof (cases "n = 0")
  case False
  with assms have x: "0 < (of_int n :: rat)" by simp
  let ?e = "rat_exp (of_int n)" and ?q = "(2::rat) powi (rat_exp (of_int n) - 52)"
  have "(of_int n :: rat) < of_int (2 ^ 53)" using assms(2) by (rule of_int_less_iff [THEN iffD2])
  then have "(of_int n :: rat) < 2 powi 53" by simp
  then have e: "?e \<le> 52" using powi_le_imp [of ?e "of_int n" 53] rat_exp_bounds(1) [OF x] by simp
  have i: "(of_int n :: rat) / ?q = of_int (n * 2 ^ nat (52 - ?e))" by (rule int_over_quantum [OF e])
  have "round_even ((of_int n :: rat) / ?q) = n * 2 ^ nat (52 - ?e)"
    unfolding i by (intro antisym round_even_le_ceil round_even_ge_floor) simp_all
  then have "of_int (round_even ((of_int n :: rat) / ?q)) = (of_int n :: rat) / ?q"
    by (simp only: i)
  then show ?thesis by (simp add: f64_pos_form [OF x])
qed simp

lemma f64_1 [simp]: "f64 1 = 1"
  using f64_int [of 1] by simp

lemma f64_trunc_le: "0 \<le> x \<Longrightarrow> x \<le> of_int n \<Longrightarrow> f64_trunc x \<le> n"
  by (simp add: f64_trunc_def) (metis floor_mono floor_of_int)

lemma f64_trunc_nonneg: "0 \<le> x \<Longrightarrow> 0 \<le> f64_trunc x"
  by (simp add: f64_trunc_def)

lemma f64_trunc_int [simp]: "f64_trunc (of_int n) = n"
  by (simp add: f64_trunc_def)

text \<open>
  Reading a duration the way the Go library does (time.ParseDuration): a sign, then numbers with an
  optional fraction, each followed by its unit. A fraction is scaled in floating point.
  \<open>None\<close> stands for every error.
\<close>

text \<open>The leading digits with the rest; \<open>None\<close> when the number leaves the range.\<close>

fun leadingInt :: "int \<Rightarrow> string \<Rightarrow> (int \<times> string) option" where
  "leadingInt x [] = Some (x, [])"
| "leadingInt x (c # cs) =
    (case digit_val c of
       None \<Rightarrow> Some (x, c # cs)
     | Some d \<Rightarrow>
         if 2 ^ 63 div 10 < x then None
         else if 2 ^ 63 < x * 10 + int d then None
         else leadingInt (x * 10 + int d) cs)"

text \<open>The digits of a fraction with their scale; digits beyond the range are skipped.\<close>

fun leadingFraction :: "int \<Rightarrow> rat \<Rightarrow> bool \<Rightarrow> string \<Rightarrow> int \<times> rat \<times> string" where
  "leadingFraction x scale overflow [] = (x, scale, [])"
| "leadingFraction x scale overflow (c # cs) =
    (case digit_val c of
       None \<Rightarrow> (x, scale, c # cs)
     | Some d \<Rightarrow>
         if overflow \<or> (2 ^ 63 - 1) div 10 < x \<or> 2 ^ 63 < x * 10 + int d then leadingFraction x scale True cs
         else leadingFraction (x * 10 + int d) (f64 (scale * 10)) False cs)"

lemma leadingInt_length: "leadingInt x s = Some (v, rest) \<Longrightarrow> length rest \<le> length s"
  by (induction x s rule: leadingInt.induct) (auto split: option.splits if_splits)

lemma leadingFraction_length: "leadingFraction x sc ov s = (v, sc', rest) \<Longrightarrow> length rest \<le> length s"
  by (induction x sc ov s rule: leadingFraction.induct) (auto split: option.splits if_splits)

definition unit_of :: "string \<Rightarrow> int option" where
  "unit_of u =
    (if u = ''ns'' then Some 1
     else if u \<in> {''us'', [CHR 0xC2, CHR 0xB5, CHR ''s''], [CHR 0xCE, CHR 0xBC, CHR ''s'']} then Some 1000
     else if u = ''ms'' then Some Millisecond
     else if u = ''s'' then Some Second
     else if u = ''m'' then Some Minute
     else if u = ''h'' then Some Hour else None)"

definition unit_char :: "char \<Rightarrow> bool" where
  "unit_char c \<longleftrightarrow> c \<noteq> CHR ''.'' \<and> digit_val c = None"

text \<open>One number with its unit: its value in nanoseconds, and the rest.\<close>

definition duration_item :: "string \<Rightarrow> (int \<times> string) option" where
  "duration_item s =
    (case s of
       [] \<Rightarrow> None
     | c # cs \<Rightarrow>
         if c \<noteq> CHR ''.'' \<and> digit_val c = None then None
         else case leadingInt 0 s of
                None \<Rightarrow> None
              | Some (v, s1) \<Rightarrow>
                  (let pre = (length s \<noteq> length s1);
                       (f, scale, s2) = (case s1 of c1 # r \<Rightarrow> if c1 = CHR ''.'' then leadingFraction 0 1 False r else (0, 1, s1) | [] \<Rightarrow> (0, 1, s1));
                       post = (case s1 of c1 # r \<Rightarrow> c1 = CHR ''.'' \<and> length r \<noteq> length s2 | [] \<Rightarrow> False);
                       u = takeWhile unit_char s2
                   in if \<not> pre \<and> \<not> post then None
                      else if u = [] then None
                      else case unit_of u of
                             None \<Rightarrow> None
                           | Some unit \<Rightarrow>
                               if 2 ^ 63 div unit < v then None
                               else (let v1 = v * unit;
                                         v2 = (if 0 < f then v1 + f64_trunc (f64 (f64 (of_int f) * f64 (of_int unit / scale))) else v1)
                                     in if 2 ^ 63 < v2 then None else Some (v2, dropWhile unit_char s2))))"

lemma takeWhile_drop_length: "takeWhile P s \<noteq> [] \<Longrightarrow> length (dropWhile P s) < length s"
  by (induction s) (auto simp: le_imp_less_Suc length_dropWhile_le split: if_splits)

lemma duration_item_length:
  assumes "duration_item s = Some (v, rest)"
  shows "length rest < length s"
proof -
  from assms obtain v0 s1 where l: "leadingInt 0 s = Some (v0, s1)"
    by (auto simp: duration_item_def split: list.splits if_splits option.splits)
  obtain f scale s2 where f: "(case s1 of c1 # r \<Rightarrow> if c1 = CHR ''.'' then leadingFraction 0 1 False r else (0, 1, s1) | [] \<Rightarrow> (0, 1, s1)) = (f, scale, s2)"
    by (cases "case s1 of c1 # r \<Rightarrow> if c1 = CHR ''.'' then leadingFraction 0 1 False r else (0, 1, s1) | [] \<Rightarrow> (0, 1, s1)") blast
  have "length s2 \<le> length s1" using f leadingFraction_length by (fastforce split: list.splits if_splits)
  moreover have "length s1 \<le> length s" by (rule leadingInt_length [OF l])
  moreover have "takeWhile unit_char s2 \<noteq> []" "rest = dropWhile unit_char s2"
    using assms l f by (auto simp: duration_item_def Let_def split: list.splits if_splits option.splits)
  ultimately show ?thesis using takeWhile_drop_length [of unit_char s2] by simp
qed

function duration_loop :: "int \<Rightarrow> string \<Rightarrow> int option" where
  "duration_loop d s =
    (if s = [] then Some d
     else case duration_item s of
            None \<Rightarrow> None
          | Some (v, rest) \<Rightarrow> if 2 ^ 63 < d + v then None else duration_loop (d + v) rest)"
  by pat_completeness auto
termination by (relation "measure (\<lambda>(d, s). length s)") (auto dest: duration_item_length)

declare duration_loop.simps [simp del]

definition ParseDuration :: "string \<Rightarrow> duration option" where
  "ParseDuration s0 =
    (let neg = (s0 \<noteq> [] \<and> hd s0 = CHR ''-'');
         s = (if s0 \<noteq> [] \<and> hd s0 \<in> {CHR ''-'', CHR ''+''} then tl s0 else s0)
     in if s = ''0'' then Some 0
        else if s = [] then None
        else case duration_loop 0 s of
               None \<Rightarrow> None
             | Some d \<Rightarrow> if neg then Some (- d) else if 2 ^ 63 - 1 < d then None else Some d)"

lemma ParseDuration_examples:
  "ParseDuration ''1m30s'' = Some (90 * Second)"
  "ParseDuration ''-20ms'' = Some (- 20000000)" "ParseDuration ''5'' = None"
  by code_simp+

section \<open>Seconds\<close>

text \<open>\<open>Duration.Seconds\<close> is a float; the code truncates it.\<close>

definition duration_Seconds :: "duration \<Rightarrow> rat" where
  "duration_Seconds d = f64 (of_int (go_div d Second) + f64 (of_int (go_mod d Second) / 1000000000))"

definition windowSeconds :: "duration \<Rightarrow> int" where
  "windowSeconds window = f64_trunc (duration_Seconds window)"

end
