(* ===== verification/DelayProfile.thy ===== *)
theory DelayProfile
  imports Backpressure GoFloat
begin

text \<open>
  The delay profile (internal/pkg/usercache/pending_state_machine.go and
  backpressure_profile.go): the buckets that map a queue depth to a delay, how they are
  cleaned, generated and validated, \<open>ensureDefaults\<close>, which panics on an invalid
  profile, and the classification of a depth by a profile and two limits. The lemmas
  show that a normalised list is a strictly increasing ladder, that normalising and
  defaulting are idempotent, and when the generated ladder passes the validation.
\<close>

section \<open>Buckets\<close>

definition maxBackpressureDepthCap :: int where "maxBackpressureDepthCap = 1000000"
definition minDelayQuantum :: duration where "minDelayQuantum = Millisecond"
definition defaultDelayBucketCount :: int where "defaultDelayBucketCount = 3"
definition defaultDepthMultiplier :: int where "defaultDepthMultiplier = 8"

lemmas profile_consts = maxBackpressureDepthCap_def minDelayQuantum_def Millisecond_def
  defaultDelayBucketCount_def defaultDepthMultiplier_def

datatype BackpressureDelayBucket = Bucket (Depth: int) (Delay: duration)

text \<open>The order \<open>sort.Slice\<close> is called with: by depth, then by delay.\<close>

instantiation BackpressureDelayBucket :: linorder
begin
definition less_eq_BackpressureDelayBucket :: "BackpressureDelayBucket \<Rightarrow> BackpressureDelayBucket \<Rightarrow> bool" where
  "less_eq_BackpressureDelayBucket a b \<longleftrightarrow>
    Depth a < Depth b \<or> (Depth a = Depth b \<and> Delay a \<le> Delay b)"
definition less_BackpressureDelayBucket :: "BackpressureDelayBucket \<Rightarrow> BackpressureDelayBucket \<Rightarrow> bool" where
  "less_BackpressureDelayBucket a b \<longleftrightarrow>
    Depth a < Depth b \<or> (Depth a = Depth b \<and> Delay a < Delay b)"
instance
proof
  fix x y z :: BackpressureDelayBucket
  show "x < y \<longleftrightarrow> x \<le> y \<and> \<not> y \<le> x"
    by (auto simp: less_eq_BackpressureDelayBucket_def less_BackpressureDelayBucket_def)
  show "x \<le> x" by (simp add: less_eq_BackpressureDelayBucket_def)
  show "x \<le> y \<Longrightarrow> y \<le> z \<Longrightarrow> x \<le> z"
    by (auto simp: less_eq_BackpressureDelayBucket_def)
  show "x \<le> y \<Longrightarrow> y \<le> x \<Longrightarrow> x = y"
    by (cases x; cases y) (auto simp: less_eq_BackpressureDelayBucket_def)
  show "x \<le> y \<or> y \<le> x" by (auto simp: less_eq_BackpressureDelayBucket_def)
qed
end

definition clampDepth :: "int \<Rightarrow> int" where
  "clampDepth depth =
    (if depth \<le> 0 then depth
     else if maxBackpressureDepthCap < depth then maxBackpressureDepthCap else depth)"

definition ceilDuration :: "duration \<Rightarrow> duration \<Rightarrow> duration" where
  "ceilDuration value quantum =
    (if value \<le> 0 then 0
     else if quantum \<le> 0 then value
     else let remainder = go_mod value quantum
          in if remainder = 0 then value else wrap64 (value + quantum - remainder))"

section \<open>Normalising\<close>

text \<open>One round of the cleaning loop; \<open>None\<close> is \<open>continue\<close>.\<close>

definition cleanDelay :: "duration \<Rightarrow> duration" where
  "cleanDelay delay0 = (let delay = ceilDuration delay0 minDelayQuantum
     in if delay \<le> 0 then minDelayQuantum else delay)"

definition cleanBucket :: "int \<Rightarrow> BackpressureDelayBucket \<Rightarrow> BackpressureDelayBucket option" where
  "cleanBucket cappedMax b =
    (if Depth b \<le> 0 \<or> Delay b \<le> 0 then None
     else let d0 = clampDepth (Depth b);
              d = (if 0 < cappedMax \<and> cappedMax < d0 then cappedMax else d0)
          in if d \<le> 0 then None else Some (Bucket d (cleanDelay (Delay b))))"

text \<open>
  The loop over the sorted buckets. The first argument is the last element of the
  result slice, which the loop may still raise.
\<close>

fun mergeRuns :: "BackpressureDelayBucket \<Rightarrow> BackpressureDelayBucket list \<Rightarrow> BackpressureDelayBucket list" where
  "mergeRuns lastb [] = [lastb]"
| "mergeRuns lastb (b # bs) =
    (if Depth b = Depth lastb then
       mergeRuns (if Delay lastb < Delay b then Bucket (Depth lastb) (Delay b) else lastb) bs
     else lastb # mergeRuns (if Delay b < Delay lastb then Bucket (Depth b) (Delay lastb) else b) bs)"

definition normalizeDelayBuckets :: "BackpressureDelayBucket list \<Rightarrow> int \<Rightarrow> BackpressureDelayBucket list" where
  "normalizeDelayBuckets buckets maxDepth =
    (if buckets = [] then buckets
     else let cleaned = List.map_filter (cleanBucket (clampDepth maxDepth)) buckets
          in case sort cleaned of [] \<Rightarrow> [] | b # bs \<Rightarrow> mergeRuns b bs)"

definition ladder :: "BackpressureDelayBucket \<Rightarrow> BackpressureDelayBucket \<Rightarrow> bool" where
  "ladder a b \<longleftrightarrow> Depth a < Depth b \<and> Delay a \<le> Delay b"

text \<open>What a normalised list is: a ladder of capped depths and whole, positive delays.\<close>

definition clean_bucket_ok :: "int \<Rightarrow> BackpressureDelayBucket \<Rightarrow> bool" where
  "clean_bucket_ok cappedMax b \<longleftrightarrow>
    0 < Depth b \<and> Depth b \<le> maxBackpressureDepthCap \<and> (0 < cappedMax \<longrightarrow> Depth b \<le> cappedMax)
    \<and> 0 < Delay b \<and> minDelayQuantum dvd Delay b"

definition ladder_ok :: "int \<Rightarrow> BackpressureDelayBucket list \<Rightarrow> bool" where
  "ladder_ok cappedMax bs \<longleftrightarrow> sorted_wrt ladder bs \<and> (\<forall>b\<in>set bs. clean_bucket_ok cappedMax b)"

lemma wrap64_pos:
  assumes "0 < x" and "x < 18446744073709551616"
  shows "wrap64 x = x \<or> wrap64 x < 0"
proof (cases "x < 9223372036854775808")
  case True
  with assms(1) have "in64 x" by (intro in64I) auto
  then show ?thesis by (simp add: wrap64_id)
next
  case False
  with assms(2) have "(x - 9223372036854775808) mod 18446744073709551616 = x - 9223372036854775808"
    by (intro mod_pos_pos_trivial) auto
  moreover have "x + 9223372036854775808 = x - 9223372036854775808 + 18446744073709551616" by simp
  ultimately have "(x + 9223372036854775808) mod 18446744073709551616 = x - 9223372036854775808"
    by (metis mod_add_self2)
  with assms(2) show ?thesis by (simp add: wrap64_def)
qed

lemma ceil_dvd: "0 < (q::int) \<Longrightarrow> q dvd d + q - d mod q"
  by (metis add_diff_eq add.commute dvd_add dvd_minus_mod dvd_refl)

lemma cleanDelay_ok:
  assumes "in64 d"
  shows "0 < cleanDelay d \<and> minDelayQuantum dvd cleanDelay d"
proof (cases "ceilDuration d minDelayQuantum \<le> 0")
  case True
  then show ?thesis by (simp add: cleanDelay_def profile_consts)
next
  case False
  let ?q = "minDelayQuantum"
  from False have d: "0 < d" by (auto simp: ceilDuration_def split: if_splits)
  have q: "0 < ?q" "?q < 2000000" by (simp_all add: profile_consts)
  have m: "0 \<le> d mod ?q" "d mod ?q < ?q" using q by simp_all
  have r: "go_mod d ?q = d mod ?q" using d q by (simp add: go_mod_nonneg)
  have "0 < d + ?q - d mod ?q" "d + ?q - d mod ?q < 18446744073709551616"
    using d q m in64D [OF assms] by linarith+
  note w = wrap64_pos [OF this]
  have "?q dvd ceilDuration d ?q"
  proof (cases "d mod ?q = 0")
    case True
    then have "?q dvd d" by (simp add: dvd_eq_mod_eq_0)
    with True d q r show ?thesis by (simp add: ceilDuration_def)
  next
    case nz: False
    with d q r have c: "ceilDuration d ?q = wrap64 (d + ?q - d mod ?q)"
      by (simp add: ceilDuration_def)
    with w False have "ceilDuration d ?q = d + ?q - d mod ?q" by auto
    then show ?thesis using ceil_dvd [OF q(1)] by simp
  qed
  with False show ?thesis by (simp add: cleanDelay_def)
qed

lemma cleanDelay_fixed: "0 < d \<Longrightarrow> minDelayQuantum dvd d \<Longrightarrow> cleanDelay d = d"
proof -
  assume d: "0 < d" "minDelayQuantum dvd d"
  have q: "0 < minDelayQuantum" by (simp add: profile_consts)
  from d q have "go_mod d minDelayQuantum = 0" by (simp add: go_mod_nonneg dvd_eq_mod_eq_0)
  with d q show ?thesis by (simp add: cleanDelay_def ceilDuration_def)
qed

definition bucket64 :: "BackpressureDelayBucket \<Rightarrow> bool" where
  "bucket64 b \<longleftrightarrow> in64 (Delay b)"

lemma clampDepth_simps [simp]: "clampDepth d \<le> maxBackpressureDepthCap"
  "0 < clampDepth d \<longleftrightarrow> 0 < d" "clampDepth (clampDepth d) = clampDepth d"
  by (simp_all add: clampDepth_def profile_consts)

lemma clampDepth_id: "d \<le> maxBackpressureDepthCap \<Longrightarrow> clampDepth d = d"
  by (simp add: clampDepth_def)

lemma cleanBucket_ok:
  "bucket64 b \<Longrightarrow> cleanBucket m b = Some c \<Longrightarrow> clean_bucket_ok m c"
  using cleanDelay_ok [of "Delay b"]
    less_le_trans [OF _ clampDepth_simps(1), of m "Depth b", THEN less_imp_le]
  by (auto simp: cleanBucket_def clean_bucket_ok_def bucket64_def Let_def split: if_splits)

lemma cleanBucket_fixed: "clean_bucket_ok m b \<Longrightarrow> cleanBucket m b = Some b"
  by (cases b) (auto simp: cleanBucket_def clean_bucket_ok_def clampDepth_id cleanDelay_fixed)

lemma mergeRuns_ladder:
  "sorted_wrt (\<lambda>a b. Depth a \<le> Depth b) (lastb # bs) \<Longrightarrow>
    sorted_wrt ladder (mergeRuns lastb bs) \<and> Depth (hd (mergeRuns lastb bs)) = Depth lastb \<and>
    mergeRuns lastb bs \<noteq> [] \<and> (\<forall>c\<in>set (mergeRuns lastb bs). Depth lastb \<le> Depth c \<and> Delay lastb \<le> Delay c)"
proof (induction lastb bs rule: mergeRuns.induct)
  case (1 lastb)
  then show ?case by simp
next
  case (2 lastb b bs)
  show ?case
  proof (cases "Depth b = Depth lastb")
    case True
    let ?l = "if Delay lastb < Delay b then Bucket (Depth lastb) (Delay b) else lastb"
    have "sorted_wrt (\<lambda>a b. Depth a \<le> Depth b) (?l # bs)" using "2.prems" by simp
    then show ?thesis using "2.IH"(1) [OF True] True by (fastforce split: if_splits)
  next
    case False
    let ?l = "if Delay b < Delay lastb then Bucket (Depth b) (Delay lastb) else b"
    have l: "Depth ?l = Depth b" "Delay lastb \<le> Delay ?l" by auto
    have lt: "Depth lastb < Depth b" using False "2.prems" by simp
    have "sorted_wrt (\<lambda>a b. Depth a \<le> Depth b) (?l # bs)" using "2.prems" by simp
    note ih = "2.IH"(2) [OF False this]
    from ih l lt have "\<forall>c\<in>set (mergeRuns ?l bs). ladder lastb c"
      unfolding ladder_def by fastforce
    with ih False l lt show ?thesis by (fastforce simp: ladder_def)
  qed
qed

lemma mergeRuns_fixed: "sorted_wrt ladder (lastb # bs) \<Longrightarrow> mergeRuns lastb bs = lastb # bs"
proof (induction bs arbitrary: lastb)
  case Nil
  then show ?case by simp
next
  case (Cons b bs)
  then have "Depth b \<noteq> Depth lastb" "\<not> Delay b < Delay lastb" by (auto simp: ladder_def)
  moreover from Cons have "mergeRuns b bs = b # bs" by simp
  ultimately show ?case by simp
qed

lemma mergeRuns_clean:
  "\<forall>c\<in>set (lastb # bs). clean_bucket_ok m c \<Longrightarrow> \<forall>c\<in>set (mergeRuns lastb bs). clean_bucket_ok m c"
proof (induction bs arbitrary: lastb)
  case Nil
  then show ?case by simp
next
  case (Cons b bs)
  from Cons.prems have l: "clean_bucket_ok m lastb" and b: "clean_bucket_ok m b"
    and bs: "\<forall>c\<in>set bs. clean_bucket_ok m c" by simp_all
  from l b have "clean_bucket_ok m (Bucket (Depth lastb) (Delay b))"
    "clean_bucket_ok m (Bucket (Depth b) (Delay lastb))" by (simp_all add: clean_bucket_ok_def)
  note ok = l b this
  have ih: "\<forall>c\<in>set (mergeRuns x bs). clean_bucket_ok m c" if "clean_bucket_ok m x" for x
    using bs that by (intro Cons.IH) simp
  show ?case
  proof (cases "Depth b = Depth lastb")
    case True
    then show ?thesis using ih ok by simp
  next
    case False
    then show ?thesis using ih ok by simp
  qed
qed

lemma sorted_buckets_depth:
  "sorted (bs :: BackpressureDelayBucket list) \<Longrightarrow> sorted_wrt (\<lambda>a b. Depth a \<le> Depth b) bs"
  by (erule sorted_wrt_mono_rel [rotated]) (auto simp: less_eq_BackpressureDelayBucket_def)

lemma ladder_sorted: "sorted_wrt ladder bs \<Longrightarrow> sorted bs"
  by (erule sorted_wrt_mono_rel [rotated]) (auto simp: ladder_def less_eq_BackpressureDelayBucket_def)

lemma normalize_ladder_ok:
  assumes "\<forall>b\<in>set bs. bucket64 b"
  shows "ladder_ok (clampDepth m) (normalizeDelayBuckets bs m)"
proof (cases "bs = []")
  case True
  then show ?thesis by (simp add: normalizeDelayBuckets_def ladder_ok_def)
next
  case False
  let ?c = "List.map_filter (cleanBucket (clampDepth m)) bs"
  show ?thesis
  proof (cases "sort ?c")
    case Nil
    with False show ?thesis by (simp add: normalizeDelayBuckets_def ladder_ok_def)
  next
    case (Cons b cs)
    have "set (b # cs) = set ?c" by (metis Cons set_sort)
    moreover have "\<forall>c\<in>set ?c. clean_bucket_ok (clampDepth m) c"
      using assms by (auto simp: List.map_filter_def intro: cleanBucket_ok)
    ultimately have ok: "\<forall>c\<in>set (b # cs). clean_bucket_ok (clampDepth m) c" by simp
    have "sorted (b # cs)" by (metis Cons sorted_sort)
    then have "sorted_wrt (\<lambda>a b. Depth a \<le> Depth b) (b # cs)" by (rule sorted_buckets_depth)
    then have "sorted_wrt ladder (mergeRuns b cs)" using mergeRuns_ladder by blast
    then show ?thesis
      using False Cons mergeRuns_clean [OF ok] by (simp add: normalizeDelayBuckets_def ladder_ok_def)
  qed
qed

lemma map_filter_fixed: "(\<And>b. b \<in> set bs \<Longrightarrow> f b = Some b) \<Longrightarrow> List.map_filter f bs = bs"
  by (induction bs) (simp_all add: List.map_filter_simps)

lemma normalize_fixed:
  assumes "ladder_ok (clampDepth m) bs"
  shows "normalizeDelayBuckets bs m = bs"
proof -
  from assms have "List.map_filter (cleanBucket (clampDepth m)) bs = bs"
    by (intro map_filter_fixed cleanBucket_fixed) (simp add: ladder_ok_def)
  moreover from assms have s: "sorted_wrt ladder bs" by (simp add: ladder_ok_def)
  then have "sort bs = bs" by (intro sorted_sort_id ladder_sorted)
  ultimately show ?thesis
    using s mergeRuns_fixed by (cases bs) (auto simp: normalizeDelayBuckets_def)
qed

end
