(* ===== verification/ProfileDefaults.thy ===== *)
theory ProfileDefaults
  imports DelayProfile
begin

text \<open>
  Generating, validating and defaulting a delay profile, picking a delay from it, and
  classifying a depth with it (pending_state_machine.go, backpressure_profile.go). The
  panic of \<open>ensureDefaults\<close> is the left value of its result.
\<close>

section \<open>Generating buckets\<close>

text \<open>The depth of bucket \<open>i > 0\<close>: twice the last, kept below the rest of the ladder.\<close>

definition next_depth :: "int \<Rightarrow> int \<Rightarrow> int \<Rightarrow> int" where
  "next_depth cappedMax remaining depth =
    (let next = wrap64 (depth * 2);
         next = (if next \<le> depth then depth + 1 else next);
         maxAllowed = (if 0 < remaining then cappedMax - remaining else cappedMax);
         next = (if 0 < cappedMax \<and> maxAllowed < next then maxAllowed else next);
         next = (if maxBackpressureDepthCap < next then maxBackpressureDepthCap else next)
     in if next \<le> depth then depth + 1 else next)"

definition bucket_delay :: "int \<Rightarrow> int \<Rightarrow> duration \<Rightarrow> duration \<Rightarrow> duration" where
  "bucket_delay i cnt baseDelay maxDelay =
    (let delay = (if cnt = 1 then maxDelay
           else (let fraction = f64 (f64 (of_int i) / f64 (of_int (cnt - 1)))
                 in wrap64 (baseDelay + f64_trunc (f64 (fraction * f64 (of_int (wrap64 (maxDelay - baseDelay))))))))
     in cleanDelay delay)"

fun build_loop :: "int \<Rightarrow> int \<Rightarrow> int \<Rightarrow> duration \<Rightarrow> duration \<Rightarrow> nat \<Rightarrow> int \<Rightarrow> BackpressureDelayBucket list" where
  "build_loop baseDepth cnt cappedMax baseDelay maxDelay 0 depth = []"
| "build_loop baseDepth cnt cappedMax baseDelay maxDelay (Suc k) depth =
    (let i = cnt - 1 - int k;
         depth = (if i = 0 then baseDepth else next_depth cappedMax (cnt - i - 1) depth);
         depth = (if 0 < cappedMax \<and> i = cnt - 1 then cappedMax else depth)
     in Bucket depth (bucket_delay i cnt baseDelay maxDelay)
        # build_loop baseDepth cnt cappedMax baseDelay maxDelay k depth)"

definition buildDelayBuckets :: "int \<Rightarrow> int \<Rightarrow> duration \<Rightarrow> duration \<Rightarrow> int \<Rightarrow> BackpressureDelayBucket list" where
  "buildDelayBuckets baseDepth0 cnt baseDelay0 maxDelay0 maxDepth =
    (if cnt \<le> 0 then []
     else let baseDepth = (if baseDepth0 \<le> 0 then 1 else baseDepth0);
              cappedMax = clampDepth maxDepth;
              cappedMax = (if 0 < cappedMax \<and> cappedMax < baseDepth then baseDepth else cappedMax);
              baseDelay = (if baseDelay0 \<le> 0 then minDelayQuantum else baseDelay0);
              maxDelay = (if maxDelay0 \<le> 0 then baseDelay else maxDelay0);
              maxDelay = (if maxDelay < baseDelay then baseDelay else maxDelay)
          in normalizeDelayBuckets
               (build_loop baseDepth cnt cappedMax baseDelay maxDelay (nat cnt) baseDepth) cappedMax)"

section \<open>Validation\<close>

datatype bucket_error =
    NoBuckets
  | CountMismatch int int
  | DelayNotPositive nat
  | DepthNotBase nat int int
  | DepthNotIncreasing nat int int
  | DepthNotPositive nat
  | MaxDepthMismatch int int

fun validate_loop :: "int \<Rightarrow> nat \<Rightarrow> int \<Rightarrow> BackpressureDelayBucket list \<Rightarrow> bucket_error + int" where
  "validate_loop baseDepth idx boundary [] = Inr boundary"
| "validate_loop baseDepth idx boundary (b # bs) =
    (if Delay b \<le> 0 then Inl (DelayNotPositive idx)
     else if idx = 0 \<and> 0 < baseDepth \<and> Depth b \<noteq> baseDepth then Inl (DepthNotBase idx (Depth b) baseDepth)
     else if idx \<noteq> 0 \<and> Depth b \<le> boundary then Inl (DepthNotIncreasing idx (Depth b) boundary)
     else if Depth b \<le> 0 then Inl (DepthNotPositive idx)
     else validate_loop baseDepth (Suc idx) (Depth b) bs)"

definition validateDelayBuckets ::
  "BackpressureDelayBucket list \<Rightarrow> int \<Rightarrow> int \<Rightarrow> int \<Rightarrow> bucket_error option" where
  "validateDelayBuckets buckets baseDepth expectedCount configuredMax =
    (if buckets = [] then Some NoBuckets
     else if 0 < expectedCount \<and> int (length buckets) \<noteq> expectedCount
       then Some (CountMismatch expectedCount (int (length buckets)))
     else case validate_loop baseDepth 0 baseDepth buckets of
            Inl e \<Rightarrow> Some e
          | Inr boundary \<Rightarrow>
              if 0 < configuredMax \<and> boundary \<noteq> configuredMax
              then Some (MaxDepthMismatch configuredMax boundary) else None)"

section \<open>Profiles\<close>

record BackpressureDelayProfile =
  Elevated :: "BackpressureDelayBucket list"
  Severe :: "BackpressureDelayBucket list"
  ElevatedBucketCount :: int
  SevereBucketCount :: int
  ElevatedMaxDepth :: int
  SevereMaxDepth :: int

definition empty_profile :: BackpressureDelayProfile where
  "empty_profile = \<lparr>Elevated = [], Severe = [], ElevatedBucketCount = 0, SevereBucketCount = 0,
     ElevatedMaxDepth = 0, SevereMaxDepth = 0\<rparr>"

text \<open>
  One side of the profile. \<open>ensureDefaults\<close> does the same steps for the elevated and the
  severe buckets: it resolves the deepest bucket, generates or normalises the list,
  validates it, and writes back the bucket count and the deepest depth.
\<close>

definition resolve_max_depth :: "int \<Rightarrow> int \<Rightarrow> int" where
  "resolve_max_depth base configured =
    (let m = clampDepth configured;
         m = (if m \<le> 0 then clampDepth (wrap64 (base * defaultDepthMultiplier)) else m)
     in if m < base then base else m)"

definition ensure_side ::
  "int \<Rightarrow> duration \<Rightarrow> duration \<Rightarrow> BackpressureDelayBucket list \<Rightarrow> int \<Rightarrow> int
    \<Rightarrow> bucket_error + BackpressureDelayBucket list \<times> int \<times> int" where
  "ensure_side base lo hi buckets bucketCount configuredMax =
    (let cnt = (if bucketCount \<le> 0 then defaultDelayBucketCount else bucketCount);
         maxDepth = resolve_max_depth base configuredMax;
         bs = (if buckets = [] then buildDelayBuckets base cnt lo hi maxDepth
               else normalizeDelayBuckets buckets maxDepth)
     in case validateDelayBuckets bs base bucketCount configuredMax of
          Some e \<Rightarrow> Inl e
        | None \<Rightarrow> Inr (bs, if bucketCount \<le> 0 then int (length bs) else bucketCount,
                      if configuredMax \<le> 0 \<and> bs \<noteq> [] then Depth (last bs) else configuredMax))"

definition delay_range :: "duration \<Rightarrow> duration \<Rightarrow> duration \<Rightarrow> duration \<times> duration" where
  "delay_range dflt base mx =
    (let base = (if base \<le> 0 then dflt else base);
         mx = (if mx \<le> 0 then base else mx)
     in (base, if mx < base then base else mx))"

definition ensureDefaults ::
  "int \<Rightarrow> int \<Rightarrow> duration \<Rightarrow> duration \<Rightarrow> duration \<Rightarrow> duration \<Rightarrow> BackpressureDelayProfile
    \<Rightarrow> bucket_error + BackpressureDelayProfile" where
  "ensureDefaults soft0 hard0 elevatedBase elevatedMax severeBase severeMax p =
    (let soft = (if soft0 \<le> 0 then 1 else soft0);
         hard = (if hard0 \<le> 0 then soft else hard0);
         (elo, ehi) = delay_range (20 * Millisecond) elevatedBase elevatedMax;
         (slo, shi) = delay_range (80 * Millisecond) severeBase severeMax
     in case ensure_side soft elo ehi (Elevated p) (ElevatedBucketCount p) (ElevatedMaxDepth p) of
          Inl e \<Rightarrow> Inl e
        | Inr (ebs, ec, em) \<Rightarrow>
            (case ensure_side hard slo shi (Severe p) (SevereBucketCount p) (SevereMaxDepth p) of
               Inl e \<Rightarrow> Inl e
             | Inr (sbs, sc, sm) \<Rightarrow>
                 Inr (p\<lparr>Elevated := ebs, ElevatedBucketCount := ec, ElevatedMaxDepth := em,
                        Severe := sbs, SevereBucketCount := sc, SevereMaxDepth := sm\<rparr>)))"

definition cloneBuckets :: "BackpressureDelayBucket list \<Rightarrow> BackpressureDelayBucket list" where
  "cloneBuckets src = (if src = [] then [] else src)"

definition profile_clone :: "BackpressureDelayProfile \<Rightarrow> BackpressureDelayProfile" where
  "profile_clone p = \<lparr>Elevated = cloneBuckets (Elevated p), Severe = cloneBuckets (Severe p),
     ElevatedBucketCount = ElevatedBucketCount p, SevereBucketCount = SevereBucketCount p,
     ElevatedMaxDepth = ElevatedMaxDepth p, SevereMaxDepth = SevereMaxDepth p\<rparr>"

lemma profile_clone_id [simp]: "profile_clone p = p"
  by (simp add: profile_clone_def cloneBuckets_def)

section \<open>Picking a delay\<close>

fun pick_loop :: "duration \<Rightarrow> BackpressureDelayBucket list \<Rightarrow> int \<Rightarrow> duration" where
  "pick_loop result [] depth = result"
| "pick_loop result (b # bs) depth =
    pick_loop (if Depth b \<le> 0 \<or> Delay b \<le> 0 then result
               else if Depth b \<le> depth \<and> result < Delay b then Delay b else result) bs depth"

definition pickDelay :: "BackpressureDelayBucket list \<Rightarrow> int \<Rightarrow> duration" where
  "pickDelay buckets depth = pick_loop 0 buckets (if depth < 0 then 0 else depth)"

definition profile_delay :: "BackpressureDelayProfile \<Rightarrow> BackpressureLevel \<Rightarrow> int \<Rightarrow> duration" where
  "profile_delay p level depth =
    (case level of
       BackpressureElevated \<Rightarrow> pickDelay (Elevated p) depth
     | BackpressureSevere \<Rightarrow> pickDelay (Severe p) depth
     | _ \<Rightarrow> 0)"

section \<open>Classifying a depth\<close>

fun meets_loop :: "int \<Rightarrow> BackpressureDelayBucket list \<Rightarrow> bool" where
  "meets_loop depth [] = False"
| "meets_loop depth (b # bs) =
    (if Depth b \<le> 0 then meets_loop depth bs
     else if Depth b \<le> depth then True else meets_loop depth bs)"

definition meetsBackpressureBucket :: "int \<Rightarrow> BackpressureDelayBucket list \<Rightarrow> bool" where
  "meetsBackpressureBucket depth buckets = (if depth \<le> 0 then False else meets_loop depth buckets)"

definition classifyDepthWithProfile ::
  "int \<Rightarrow> BackpressureDelayProfile \<Rightarrow> int \<Rightarrow> int \<Rightarrow> BackpressureLevel" where
  "classifyDepthWithProfile depth profile softLimit hardLimit =
    (if depth \<le> 0 then BackpressureNone
     else if meetsBackpressureBucket depth (Severe profile) then BackpressureSevere
     else if meetsBackpressureBucket depth (Elevated profile) then BackpressureElevated
     else if 0 < hardLimit \<and> hardLimit \<le> depth then BackpressureSevere
     else if 0 < softLimit \<and> softLimit \<le> depth then BackpressureElevated
     else BackpressureNone)"

end
