(* ===== verification/ProfileProperties.thy ===== *)
theory ProfileProperties
  imports ProfileDefaults
begin

text \<open>
  The properties of the delay profile: what normalisation returns, what the defaulting
  step accepts and refuses, how a delay is picked, and what a level means.
\<close>

text \<open>
  Facts about the delay profile: which lists the validation accepts, what
  \<open>ensureDefaults\<close> returns and when it panics, that it is idempotent, that a picked
  delay grows with the depth, and that classification by a validated profile is the
  pair of thresholds it was built from.
\<close>

section \<open>Validation of ladders\<close>

lemma validate_loop_ladder:
  "sorted_wrt ladder bs \<Longrightarrow> \<forall>b\<in>set bs. 0 < Depth b \<and> 0 < Delay b \<and> boundary < Depth b \<Longrightarrow>
    validate_loop base (Suc i) boundary bs = Inr (if bs = [] then boundary else Depth (last bs))"
proof (induction bs arbitrary: i boundary)
  case Nil
  then show ?case by simp
next
  case (Cons b bs)
  from Cons.prems have "\<forall>c\<in>set bs. 0 < Depth c \<and> 0 < Delay c \<and> Depth b < Depth c"
    by (auto simp: ladder_def)
  with Cons.IH [of "Depth b" "Suc i"] Cons.prems show ?case by auto
qed

lemma validate_ladder:
  assumes "ladder_ok m (b # bs)"
  shows "validateDelayBuckets (b # bs) base ec cm = None \<longleftrightarrow>
    (0 < base \<longrightarrow> Depth b = base) \<and> (0 < ec \<longrightarrow> int (length (b # bs)) = ec)
    \<and> (0 < cm \<longrightarrow> Depth (last (b # bs)) = cm)"
proof -
  from assms have s: "sorted_wrt ladder bs" "0 < Depth b" "0 < Delay b"
    and a: "\<forall>c\<in>set bs. 0 < Depth c \<and> 0 < Delay c \<and> Depth b < Depth c"
    by (auto simp: ladder_ok_def clean_bucket_ok_def ladder_def)
  have "validate_loop base (Suc 0) (Depth b) bs = Inr (Depth (last (b # bs)))"
    using validate_loop_ladder [OF s(1) a] by simp
  with s show ?thesis by (auto simp: validateDelayBuckets_def)
qed

lemma validate_nonempty: "validateDelayBuckets bs base ec cm = None \<Longrightarrow> bs \<noteq> []"
  by (auto simp: validateDelayBuckets_def)

section \<open>The shape of a generated list\<close>

lemma cleanDelay_in64: "in64 d \<Longrightarrow> in64 (cleanDelay d)"
  by (auto simp: cleanDelay_def ceilDuration_def Let_def in64_wrap64 profile_consts intro: in64I)

lemma bucket_delay_in64: "in64 mx \<Longrightarrow> in64 (bucket_delay i n lo mx)"
  by (simp add: bucket_delay_def Let_def cleanDelay_in64 in64_wrap64)

lemma build_loop_in64:
  "in64 mx \<Longrightarrow> \<forall>b\<in>set (build_loop base n cap lo mx k depth). bucket64 b"
  by (induction k arbitrary: depth) (simp_all add: Let_def bucket64_def bucket_delay_in64)

lemma ladder_ok_weaken: "ladder_ok m bs \<Longrightarrow> ladder_ok 0 bs"
  by (simp add: ladder_ok_def clean_bucket_ok_def)

lemma normalize_ladder_ok0: "\<forall>b\<in>set bs. bucket64 b \<Longrightarrow> ladder_ok 0 (normalizeDelayBuckets bs m)"
  by (rule ladder_ok_weaken [OF normalize_ladder_ok])

lemma build_ladder_ok:
  assumes "in64 lo" and "in64 hi"
  shows "ladder_ok 0 (buildDelayBuckets base n lo hi mx)"
proof -
  have "in64 minDelayQuantum" by (simp add: profile_consts in64I)
  with assms show ?thesis
    by (simp add: buildDelayBuckets_def Let_def normalize_ladder_ok0 build_loop_in64)
      (simp add: ladder_ok_def)
qed

lemma ensure_side_ladder:
  assumes "in64 lo" and "in64 hi" and "\<forall>b\<in>set bs. bucket64 b"
    and "ensure_side base lo hi bs n cm = Inr (bs', n', cm')" and "0 < base"
  shows "ladder_ok 0 bs' \<and> bs' \<noteq> [] \<and> Depth (hd bs') = base
    \<and> n' = int (length bs') \<and> cm' = Depth (last bs')"
proof -
  let ?gen = "if bs = [] then buildDelayBuckets base (if n \<le> 0 then defaultDelayBucketCount else n)
      lo hi (resolve_max_depth base cm) else normalizeDelayBuckets bs (resolve_max_depth base cm)"
  have ok: "ladder_ok 0 ?gen"
    using build_ladder_ok [OF assms(1,2)] normalize_ladder_ok0 [OF assms(3)] by simp
  from assms(4) have v: "validateDelayBuckets ?gen base n cm = None" and bs': "bs' = ?gen"
    and n': "n' = (if n \<le> 0 then int (length ?gen) else n)"
    and cm': "cm' = (if cm \<le> 0 \<and> ?gen \<noteq> [] then Depth (last ?gen) else cm)"
    by (auto simp: ensure_side_def Let_def split: option.splits)
  from validate_nonempty [OF v] obtain c cs where g: "?gen = c # cs" by (cases ?gen) auto
  from ok have "ladder_ok 0 (c # cs)" by (simp only: g)
  note V = validate_ladder [OF this, of base n cm]
  from v have "(0 < base \<longrightarrow> Depth c = base) \<and> (0 < n \<longrightarrow> int (length (c # cs)) = n)
      \<and> (0 < cm \<longrightarrow> Depth (last (c # cs)) = cm)"
    by (simp only: g V)
  with ok assms(5) show ?thesis unfolding bs' n' cm' g by auto
qed

lemma ladder_last_max: "sorted_wrt ladder bs \<Longrightarrow> b \<in> set bs \<Longrightarrow> Depth b \<le> Depth (last bs)"
  by (induction bs) (auto simp: ladder_def split: if_splits intro: less_imp_le)

lemma ladder_hd_min: "sorted_wrt ladder bs \<Longrightarrow> b \<in> set bs \<Longrightarrow> Depth (hd bs) \<le> Depth b"
  by (cases bs) (auto simp: ladder_def)

text \<open>A second pass over what one pass returned changes nothing.\<close>

lemma ensure_side_fixed:
  assumes ok: "ladder_ok 0 bs" and ne: "bs \<noteq> []" and hd: "Depth (hd bs) = base"
  shows "ensure_side base lo hi bs (int (length bs)) (Depth (last bs))
    = Inr (bs, int (length bs), Depth (last bs))"
proof -
  from ok have s: "sorted_wrt ladder bs" by (simp add: ladder_ok_def)
  let ?l = "Depth (last bs)"
  have l: "0 < ?l" "?l \<le> maxBackpressureDepthCap" "base \<le> ?l"
    using ok ne ladder_hd_min [OF s, of "last bs"]
    by (auto simp: ladder_ok_def clean_bucket_ok_def hd [symmetric])
  then have r: "resolve_max_depth base ?l = ?l"
    by (simp add: resolve_max_depth_def clampDepth_id)
  have "ladder_ok (clampDepth ?l) bs"
    using ok ladder_last_max [OF s] l
    by (auto simp: ladder_ok_def clean_bucket_ok_def clampDepth_id)
  then have n: "normalizeDelayBuckets bs ?l = bs" by (rule normalize_fixed)
  obtain c cs where bs: "bs = c # cs" using ne by (cases bs) auto
  have "validateDelayBuckets bs base (int (length bs)) ?l = None"
    using validate_ladder [of 0 c cs base] ok hd unfolding bs by simp
  with ne n r l(1) show ?thesis by (simp add: ensure_side_def)
qed

section \<open>ensureDefaults\<close>

definition profile64 :: "BackpressureDelayProfile \<Rightarrow> bool" where
  "profile64 p \<longleftrightarrow> (\<forall>b\<in>set (Elevated p) \<union> set (Severe p). bucket64 b)"

definition effective_soft :: "int \<Rightarrow> int" where
  "effective_soft soft = (if soft \<le> 0 then 1 else soft)"

definition effective_hard :: "int \<Rightarrow> int \<Rightarrow> int" where
  "effective_hard soft hard = (if hard \<le> 0 then effective_soft soft else hard)"

definition valid_profile :: "int \<Rightarrow> int \<Rightarrow> BackpressureDelayProfile \<Rightarrow> bool" where
  "valid_profile soft hard p \<longleftrightarrow>
    ladder_ok 0 (Elevated p) \<and> Elevated p \<noteq> [] \<and> Depth (hd (Elevated p)) = soft
    \<and> ElevatedBucketCount p = int (length (Elevated p)) \<and> ElevatedMaxDepth p = Depth (last (Elevated p))
    \<and> ladder_ok 0 (Severe p) \<and> Severe p \<noteq> [] \<and> Depth (hd (Severe p)) = hard
    \<and> SevereBucketCount p = int (length (Severe p)) \<and> SevereMaxDepth p = Depth (last (Severe p))"

lemma delay_range_in64:
  "in64 d \<Longrightarrow> in64 a \<Longrightarrow> in64 b \<Longrightarrow>
    in64 (fst (delay_range d a b)) \<and> in64 (snd (delay_range d a b))"
  by (simp add: delay_range_def Let_def)

lemma effective_pos: "0 < effective_soft soft" "0 < effective_hard soft hard"
  by (simp_all add: effective_soft_def effective_hard_def)

lemma ensureDefaults_sides:
  "ensureDefaults soft hard eb em sb sm p =
    (case ensure_side (effective_soft soft) (fst (delay_range (20 * Millisecond) eb em))
        (snd (delay_range (20 * Millisecond) eb em))
        (Elevated p) (ElevatedBucketCount p) (ElevatedMaxDepth p) of
       Inl e \<Rightarrow> Inl e
     | Inr (ebs, ec, emx) \<Rightarrow>
         (case ensure_side (effective_hard soft hard) (fst (delay_range (80 * Millisecond) sb sm))
             (snd (delay_range (80 * Millisecond) sb sm))
             (Severe p) (SevereBucketCount p) (SevereMaxDepth p) of
            Inl e \<Rightarrow> Inl e
          | Inr (sbs, sc, smx) \<Rightarrow>
              Inr (p\<lparr>Elevated := ebs, ElevatedBucketCount := ec, ElevatedMaxDepth := emx,
                     Severe := sbs, SevereBucketCount := sc, SevereMaxDepth := smx\<rparr>)))"
  unfolding ensureDefaults_def effective_soft_def effective_hard_def Let_def case_prod_beta
  by (rule refl)

lemma ensureDefaults_valid:
  assumes "profile64 p" and "in64 eb" "in64 em" "in64 sb" "in64 sm"
    and "ensureDefaults soft hard eb em sb sm p = Inr p'"
  shows "valid_profile (effective_soft soft) (effective_hard soft hard) p'"
proof -
  have c: "in64 (20 * Millisecond)" "in64 (80 * Millisecond)"
    by (simp_all add: Millisecond_def in64I)
  note E = delay_range_in64 [OF c(1) assms(2,3)] and S = delay_range_in64 [OF c(2) assms(4,5)]
  from assms(1) have b: "\<forall>b\<in>set (Elevated p). bucket64 b" "\<forall>b\<in>set (Severe p). bucket64 b"
    by (simp_all add: profile64_def)
  from assms(6) show ?thesis
    unfolding ensureDefaults_sides valid_profile_def
    using ensure_side_ladder [OF E [THEN conjunct1] E [THEN conjunct2] b(1) _ effective_pos(1)]
      ensure_side_ladder [OF S [THEN conjunct1] S [THEN conjunct2] b(2) _ effective_pos(2)]
    by (fastforce split: sum.splits prod.splits)
qed

lemma ensureDefaults_fixed:
  assumes "valid_profile (effective_soft soft) (effective_hard soft hard) p"
  shows "ensureDefaults soft hard eb em sb sm p = Inr p"
  using assms unfolding valid_profile_def ensureDefaults_sides
  by (simp add: ensure_side_fixed)

section \<open>When generated buckets are accepted\<close>

lemma next_depth_gt: "depth < next_depth cap r depth"
  by (simp add: next_depth_def Let_def)

lemma next_depth_le:
  assumes "depth + 1 \<le> m - r" and "0 \<le> r" and "0 < m"
  shows "next_depth m r depth \<le> m - r"
  using assms by (simp add: next_depth_def Let_def)

lemma mergeRuns_strict:
  "sorted_wrt (\<lambda>a b. Depth a < Depth b) (lastb # bs) \<Longrightarrow>
    map Depth (mergeRuns lastb bs) = map Depth (lastb # bs)"
proof (induction bs arbitrary: lastb)
  case Nil
  then show ?case by simp
next
  case (Cons b bs)
  then have ne: "Depth b \<noteq> Depth lastb" by auto
  let ?l = "if Delay b < Delay lastb then Bucket (Depth b) (Delay lastb) else b"
  have "sorted_wrt (\<lambda>a b. Depth a < Depth b) (?l # bs)" using Cons.prems by auto
  then have "map Depth (mergeRuns ?l bs) = map Depth (?l # bs)" by (rule Cons.IH)
  with ne show ?case by simp
qed

lemma clean_map_strict:
  assumes "\<forall>b\<in>set bs. 0 < Depth b \<and> Depth b \<le> m \<and> 0 < Delay b" and "m \<le> maxBackpressureDepthCap"
  shows "map Depth (List.map_filter (cleanBucket m) bs) = map Depth bs"
  using assms
  by (induction bs) (auto simp: List.map_filter_simps cleanBucket_def clampDepth_id)

lemma sorted_wrt_map_Depth:
  "map Depth xs = map Depth ys \<Longrightarrow>
    sorted_wrt (\<lambda>a b. Depth a < Depth b) xs \<longleftrightarrow> sorted_wrt (\<lambda>a b. Depth a < Depth b) ys"
  by (metis sorted_wrt_map)

text \<open>A strictly increasing list of capped depths keeps its depths when normalised.\<close>

lemma normalize_strict:
  assumes s: "sorted_wrt (\<lambda>a b. Depth a < Depth b) bs"
    and b: "\<forall>b\<in>set bs. 0 < Depth b \<and> Depth b \<le> m \<and> 0 < Delay b" and m: "m \<le> maxBackpressureDepthCap"
  shows "map Depth (normalizeDelayBuckets bs m) = map Depth bs"
proof (cases bs)
  case Nil
  then show ?thesis by (simp add: normalizeDelayBuckets_def)
next
  case (Cons c cs)
  let ?c = "List.map_filter (cleanBucket m) bs"
  have d: "map Depth ?c = map Depth bs" by (rule clean_map_strict [OF b m])
  with s have s': "sorted_wrt (\<lambda>a b. Depth a < Depth b) ?c" using sorted_wrt_map_Depth by blast
  then have "sorted ?c"
    by (rule sorted_wrt_mono_rel [rotated]) (simp add: less_eq_BackpressureDelayBucket_def)
  then have so: "sort ?c = ?c" by (rule sorted_sort_id)
  from d Cons obtain x xs where x: "?c = x # xs" by (cases ?c) auto
  have "map Depth (mergeRuns x xs) = map Depth (x # xs)"
    using s' unfolding x by (rule mergeRuns_strict)
  with so x d m Cons show ?thesis
    by (simp add: normalizeDelayBuckets_def Let_def clampDepth_id)
qed

lemma bucket_delay_pos: "in64 mx \<Longrightarrow> 0 < bucket_delay i n lo mx"
  by (simp add: bucket_delay_def Let_def cleanDelay_ok in64_wrap64)

lemma build_loop_strict:
  assumes "in64 hi" and "0 < m" and "base \<le> depth" and "0 < base"
    and "depth + int k \<le> m" and "1 \<le> n - int k"
  shows "let bs = build_loop base n m lo hi k depth in
    length bs = k \<and> sorted_wrt (\<lambda>a b. Depth a < Depth b) bs
    \<and> (\<forall>b\<in>set bs. depth < Depth b \<and> Depth b \<le> m \<and> 0 < Delay b)
    \<and> (0 < k \<longrightarrow> Depth (last bs) = m)"
  using assms
proof (induction k arbitrary: depth)
  case 0
  then show ?case by simp
next
  case (Suc k)
  let ?i = "n - 1 - int k"
  have i: "?i \<noteq> 0" "n - ?i - 1 = int k" using Suc.prems by simp_all
  show ?case
  proof (cases "k = 0")
    case True
    with Suc.prems i bucket_delay_pos [OF Suc.prems(1)] show ?thesis by (simp add: Let_def)
  next
    case False
    let ?d = "next_depth m (int k) depth"
    have d: "depth < ?d" "?d \<le> m - int k"
      using next_depth_gt next_depth_le [of depth m "int k"] Suc.prems by simp_all
    have "?d + int k \<le> m" "1 \<le> n - int k" "base \<le> ?d" using d Suc.prems by simp_all
    note ih = Suc.IH [OF Suc.prems(1,2) this(3) Suc.prems(4) this(1,2)]
    have ni: "\<not> (?i = n - 1)" using False by simp
    have eq: "build_loop base n m lo hi (Suc k) depth
        = Bucket ?d (bucket_delay ?i n lo hi) # build_loop base n m lo hi k ?d"
      using i ni by (simp add: Let_def)
    have ne: "build_loop base n m lo hi k ?d \<noteq> []" using ih False by (auto simp: Let_def)
    have "?d \<le> m" using d by simp
    with ih d(1) ne False bucket_delay_pos [OF Suc.prems(1), of ?i n lo] show ?thesis
      unfolding eq Let_def by (auto simp del: build_loop.simps)
  qed
qed

text \<open>The whole generated list, for at least two buckets that fit below the cap.\<close>

lemma build_depths:
  assumes "in64 lo" "in64 hi" and "0 < base" and "2 \<le> n" and "base + (n - 1) \<le> m"
    and "m \<le> maxBackpressureDepthCap"
  shows "length (buildDelayBuckets base n lo hi m) = nat n"
    and "Depth (hd (buildDelayBuckets base n lo hi m)) = base"
    and "Depth (last (buildDelayBuckets base n lo hi m)) = m"
proof -
  let ?lo = "if lo \<le> 0 then minDelayQuantum else lo"
  let ?h = "if hi \<le> 0 then ?lo else hi"
  let ?hi = "if ?h < ?lo then ?lo else ?h"
  let ?bs = "build_loop base n m ?lo ?hi (nat n) base"
  define k where "k = nat (n - 1)"
  have k: "nat n = Suc k" "int k = n - 1" "0 < k" using assms(4) by (simp_all add: k_def)
  have hi: "in64 ?hi" using assms(1,2) by (simp add: profile_consts in64I)
  let ?tl = "build_loop base n m ?lo ?hi k base"
  have B: "?bs = Bucket base (bucket_delay 0 n ?lo ?hi) # ?tl"
    using k(2,3) unfolding k(1) by (simp add: Let_def del: build_loop.simps add: build_loop.simps(2))
  have "let bs = ?tl in length bs = k \<and> sorted_wrt (\<lambda>a b. Depth a < Depth b) bs
      \<and> (\<forall>b\<in>set bs. base < Depth b \<and> Depth b \<le> m \<and> 0 < Delay b) \<and> (0 < k \<longrightarrow> Depth (last bs) = m)"
    using assms k by (intro build_loop_strict hi) simp_all
  then have T: "length ?tl = k" "sorted_wrt (\<lambda>a b. Depth a < Depth b) ?tl"
    "\<forall>b\<in>set ?tl. base < Depth b \<and> Depth b \<le> m \<and> 0 < Delay b" "Depth (last ?tl) = m"
    using k(3) by (simp_all add: Let_def)
  have ne: "?tl \<noteq> []" using T(1) k(3) by auto
  have s: "sorted_wrt (\<lambda>a b. Depth a < Depth b) ?bs" using T unfolding B by simp
  have b: "\<forall>b\<in>set ?bs. 0 < Depth b \<and> Depth b \<le> m \<and> 0 < Delay b"
    using T(3) assms bucket_delay_pos [OF hi, of 0 n ?lo] unfolding B by fastforce
  have norm: "map Depth (normalizeDelayBuckets ?bs m) = map Depth ?bs"
    by (rule normalize_strict [OF s b assms(6)])
  have m: "clampDepth m = m" "\<not> m < base" using assms by (simp_all add: clampDepth_id)
  have eq: "buildDelayBuckets base n lo hi m = normalizeDelayBuckets ?bs m"
    using assms(3,4) m by (simp add: buildDelayBuckets_def Let_def)
  have len: "length (normalizeDelayBuckets ?bs m) = length ?bs"
    using norm by (metis length_map)
  then have nn: "normalizeDelayBuckets ?bs m \<noteq> []" unfolding B by auto
  have "hd (map Depth (normalizeDelayBuckets ?bs m)) = hd (map Depth ?bs)" by (simp only: norm)
  then have heads: "Depth (hd (normalizeDelayBuckets ?bs m)) = base"
    using nn by (simp add: hd_map B del: build_loop.simps)
  show "length (buildDelayBuckets base n lo hi m) = nat n"
    unfolding eq len unfolding B by (simp add: T(1) k(1))
  show "Depth (hd (buildDelayBuckets base n lo hi m)) = base"
    unfolding eq using heads by simp
  have "last (map Depth (normalizeDelayBuckets ?bs m)) = last (map Depth ?bs)" by (simp only: norm)
  then show "Depth (last (buildDelayBuckets base n lo hi m)) = m"
    unfolding eq using nn ne T(4) by (simp add: last_map B del: build_loop.simps)
qed

lemma ensure_side_accepts:
  assumes "in64 lo" "in64 hi" and "0 < base" and "2 \<le> n" and "base + (n - 1) \<le> m"
    and "m \<le> maxBackpressureDepthCap" and "cm \<le> 0 \<or> cm = m" and "resolve_max_depth base cm = m"
  shows "\<exists>bs. ensure_side base lo hi [] n cm = Inr (bs, n, m) \<and> length bs = nat n"
proof -
  let ?bs = "buildDelayBuckets base n lo hi m"
  note B = build_depths [OF assms(1-6)]
  obtain c cs where bs: "?bs = c # cs" using B(1) assms(4) by (cases ?bs) auto
  have ok: "ladder_ok 0 (c # cs)" using build_ladder_ok [OF assms(1,2), of base n m] by (simp add: bs)
  have "validateDelayBuckets (c # cs) base n cm = None"
    unfolding validate_ladder [OF ok] using B assms(4,7) unfolding bs by auto
  then have "ensure_side base lo hi [] n cm = Inr (?bs, n, m)"
    using assms(4,7,8) B(3) by (auto simp: ensure_side_def Let_def bs)
  with B(1) show ?thesis by blast
qed

text \<open>One configured bucket: its depth is the resolved maximum, not the base.\<close>

lemma ensure_side_single:
  assumes "in64 lo" "in64 hi" and "0 < base" and "base < resolve_max_depth base cm"
    and "resolve_max_depth base cm \<le> maxBackpressureDepthCap"
  shows "ensure_side base lo hi [] 1 cm
    = Inl (DepthNotBase 0 (resolve_max_depth base cm) base)"
proof -
  let ?m = "resolve_max_depth base cm"
  let ?lo = "if lo \<le> 0 then minDelayQuantum else lo"
  let ?h = "if hi \<le> 0 then ?lo else hi"
  let ?hi = "if ?h < ?lo then ?lo else ?h"
  have hi: "in64 ?hi" using assms(1,2) by (simp add: profile_consts in64I)
  let ?b = "Bucket ?m (bucket_delay 0 1 ?lo ?hi)"
  have p: "0 < bucket_delay 0 1 ?lo ?hi" by (rule bucket_delay_pos [OF hi])
  have m: "clampDepth ?m = ?m" "\<not> ?m < base" "0 < ?m" using assms by (simp_all add: clampDepth_id)
  have "buildDelayBuckets base 1 lo hi ?m = normalizeDelayBuckets [?b] ?m"
    using assms(3) m by (simp add: buildDelayBuckets_def Let_def)
  also have "\<dots> = [Bucket ?m (cleanDelay (bucket_delay 0 1 ?lo ?hi))]"
    using m p by (simp add: normalizeDelayBuckets_def Let_def List.map_filter_simps cleanBucket_def)
  finally show ?thesis
    using assms cleanDelay_ok [OF bucket_delay_in64 [OF hi], of 0 1 ?lo]
    by (simp add: ensure_side_def Let_def validateDelayBuckets_def)
qed

lemma resolve_default:
  "0 < base \<Longrightarrow> base \<le> maxBackpressureDepthCap \<Longrightarrow>
    resolve_max_depth base 0 = min (8 * base) maxBackpressureDepthCap"
  by (simp add: resolve_max_depth_def clampDepth_def profile_consts wrap64_id in64I)

text \<open>A base above the cap is never accepted, whatever else is configured.\<close>

lemma ensure_side_above_cap:
  assumes "in64 lo" "in64 hi" and "\<forall>b\<in>set bs. bucket64 b" and "maxBackpressureDepthCap < base"
  shows "\<exists>e. ensure_side base lo hi bs n cm = Inl e"
proof (rule ccontr)
  assume "\<nexists>e. ensure_side base lo hi bs n cm = Inl e"
  then obtain bs' n' cm' where "ensure_side base lo hi bs n cm = Inr (bs', n', cm')"
    by (metis old.sum.exhaust prod_cases3)
  moreover have "0 < base" using assms(4) by (simp add: profile_consts)
  ultimately have "ladder_ok 0 bs' \<and> bs' \<noteq> [] \<and> Depth (hd bs') = base"
    using ensure_side_ladder [OF assms(1-3)] by blast
  moreover from this have "hd bs' \<in> set bs'" by simp
  ultimately have "base \<le> maxBackpressureDepthCap" by (auto simp: ladder_ok_def clean_bucket_ok_def)
  then show False using assms(4) by simp
qed

section \<open>Picking\<close>

lemma pick_loop_mono: "r \<le> r' \<Longrightarrow> d \<le> d' \<Longrightarrow> pick_loop r bs d \<le> pick_loop r' bs d'"
  by (induction bs arbitrary: r r') auto

lemma pickDelay_mono: "d \<le> d' \<Longrightarrow> pickDelay bs d \<le> pickDelay bs d'"
  by (simp add: pickDelay_def pick_loop_mono)

lemma pick_loop_below:
  "sorted_wrt ladder bs \<Longrightarrow> \<forall>b\<in>set bs. d < Depth b \<Longrightarrow> pick_loop r bs d = r"
  by (induction bs arbitrary: r) auto

lemma pick_loop_ladder:
  "sorted_wrt ladder bs \<Longrightarrow> \<forall>b\<in>set bs. 0 < Depth b \<and> 0 < Delay b \<and> r \<le> Delay b \<Longrightarrow>
    pick_loop r bs d = (case filter (\<lambda>b. Depth b \<le> d) bs of [] \<Rightarrow> r | c # cs \<Rightarrow> Delay (last (c # cs)))"
proof (induction bs arbitrary: r)
  case Nil
  then show ?case by simp
next
  case (Cons b bs)
  have s: "sorted_wrt ladder bs" using Cons.prems(1) by simp
  have lad: "\<forall>c\<in>set bs. Depth b < Depth c \<and> Delay b \<le> Delay c"
    using Cons.prems(1) by (auto simp: ladder_def)
  show ?case
  proof (cases "Depth b \<le> d")
    case False
    with lad have "\<forall>c\<in>set bs. d < Depth c" by auto
    moreover from this False have "filter (\<lambda>c. Depth c \<le> d) (b # bs) = []"
      by (auto simp: filter_empty_conv)
    ultimately show ?thesis using False s by (simp add: pick_loop_below)
  next
    case True
    have "pick_loop r (b # bs) d = pick_loop (Delay b) bs d"
      using True Cons.prems by (auto simp: not_less)
    also have "\<dots> = (case filter (\<lambda>b. Depth b \<le> d) bs of [] \<Rightarrow> Delay b | c # cs \<Rightarrow> Delay (last (c # cs)))"
      using Cons.prems lad s by (intro Cons.IH) auto
    finally show ?thesis using True by (simp split: list.splits)
  qed
qed

section \<open>Classification\<close>

lemma meets_loop_iff: "meets_loop d bs \<longleftrightarrow> (\<exists>b\<in>set bs. 0 < Depth b \<and> Depth b \<le> d)"
  by (induction bs) auto

lemma meets_ladder:
  assumes "ladder_ok 0 bs" and "bs \<noteq> []" and "Depth (hd bs) = base"
  shows "meetsBackpressureBucket d bs \<longleftrightarrow> base \<le> d"
proof -
  from assms have s: "sorted_wrt ladder bs" and p: "\<forall>b\<in>set bs. 0 < Depth b"
    by (auto simp: ladder_ok_def clean_bucket_ok_def)
  have h: "hd bs \<in> set bs" using assms(2) by simp
  have "meets_loop d bs \<longleftrightarrow> base \<le> d"
    unfolding meets_loop_iff using ladder_hd_min [OF s] p h assms(3) by force
  moreover have "0 < base" using p h assms(3) by auto
  ultimately show ?thesis by (auto simp: meetsBackpressureBucket_def)
qed

definition threshold_level :: "int \<Rightarrow> int \<Rightarrow> int \<Rightarrow> BackpressureLevel" where
  "threshold_level soft hard depth =
    (if 0 < hard \<and> hard \<le> depth then BackpressureSevere
     else if 0 < soft \<and> soft \<le> depth then BackpressureElevated
     else BackpressureNone)"

lemma classify_valid_profile:
  assumes "valid_profile soft hard p" and "0 < soft" "0 < hard"
  shows "classifyDepthWithProfile depth p softLimit hardLimit =
    (if hard \<le> depth then BackpressureSevere
     else if soft \<le> depth then BackpressureElevated
     else if depth \<le> 0 then BackpressureNone
     else threshold_level softLimit hardLimit depth)"
proof -
  from assms(1) have "meetsBackpressureBucket depth (Severe p) \<longleftrightarrow> hard \<le> depth"
    "meetsBackpressureBucket depth (Elevated p) \<longleftrightarrow> soft \<le> depth"
    using meets_ladder [of "Severe p" hard depth] meets_ladder [of "Elevated p" soft depth]
    by (simp_all add: valid_profile_def)
  with assms(2,3) show ?thesis by (auto simp: classifyDepthWithProfile_def threshold_level_def)
qed

text \<open>Normalising any list of buckets gives a ladder (strictly increasing depths in
  range, delays that never fall and are whole positive milliseconds), and normalising the
  result again changes nothing.\<close>

theorem normalize_gives_ladder:
  assumes "\<forall>b\<in>set bs. bucket64 b"
  shows "ladder_ok (clampDepth m) (normalizeDelayBuckets bs m)
    \<and> normalizeDelayBuckets (normalizeDelayBuckets bs m) m = normalizeDelayBuckets bs m"
  using normalize_ladder_ok [OF assms, of m] by (simp add: normalize_fixed)

theorem normalize_gives_ladder_witness:
  "ladder_ok (clampDepth 5000) (normalizeDelayBuckets
     [Bucket 9000 (30 * Millisecond), Bucket 100 1, Bucket 9999 5, Bucket 0 7] 5000)"
  by (rule conjunct1 [OF normalize_gives_ladder])
    (simp add: bucket64_def go_simps in64I)

text \<open>Whatever profile and delays the configuration holds, a profile that passes the
  defaulting step without a panic is valid: both sides are non-empty ladders that start at
  the soft and the hard limit, and the counts and deepest depths written back are those of
  the lists. A second pass over it changes nothing and cannot panic.\<close>

theorem ensureDefaults_sound:
  assumes "profile64 p" and "in64 eb" "in64 em" "in64 sb" "in64 sm"
    and "ensureDefaults soft hard eb em sb sm p = Inr p'"
  shows "valid_profile (effective_soft soft) (effective_hard soft hard) p'
    \<and> ensureDefaults soft hard eb' em' sb' sm' p' = Inr p'"
  using ensureDefaults_valid [OF assms] by (simp add: ensureDefaults_fixed)

definition demo_profile :: BackpressureDelayProfile where
  "demo_profile = empty_profile\<lparr>Elevated := [Bucket 300 (25 * Millisecond), Bucket 100 (5 * Millisecond)],
     Severe := [Bucket 200 (9 * Millisecond)]\<rparr>"

definition demo_profile' :: BackpressureDelayProfile where
  "demo_profile' = \<lparr>Elevated = [Bucket 100 (5 * Millisecond), Bucket 300 (25 * Millisecond)],
     Severe = [Bucket 200 (9 * Millisecond)], ElevatedBucketCount = 2, SevereBucketCount = 1,
     ElevatedMaxDepth = 300, SevereMaxDepth = 200\<rparr>"

theorem ensureDefaults_sound_witness:
  "valid_profile 100 200 demo_profile' \<and> ensureDefaults 100 200 0 0 0 0 demo_profile' = Inr demo_profile'"
proof -
  have "ensureDefaults 100 200 0 0 0 0 demo_profile = Inr demo_profile'" by code_simp
  moreover have "profile64 demo_profile"
    by (simp add: profile64_def demo_profile_def bucket64_def go_simps in64I)
  ultimately show ?thesis
    using ensureDefaults_sound [of demo_profile 0 0 0 0 100 200 demo_profile' 0 0 0 0]
    by (simp add: in64I effective_soft_def effective_hard_def)
qed

text \<open>Generated buckets are accepted: for two or more configured buckets that fit
  between the base depth and the resolved deepest depth, with no deepest depth configured
  or one at the resolved value, the side gets exactly the configured number of buckets.\<close>

theorem generated_side_accepted:
  assumes "in64 lo" "in64 hi" and "0 < base" and "2 \<le> n"
    and "base + (n - 1) \<le> resolve_max_depth base cm"
    and "resolve_max_depth base cm \<le> maxBackpressureDepthCap"
    and "cm \<le> 0 \<or> cm = resolve_max_depth base cm"
  shows "\<exists>bs. ensure_side base lo hi [] n cm = Inr (bs, n, resolve_max_depth base cm)
    \<and> int (length bs) = n"
  using ensure_side_accepts [OF assms(1-7) refl] assms(4) by auto

theorem generated_side_accepted_witness:
  "\<exists>bs. ensure_side 1000 (20 * Millisecond) (120 * Millisecond) [] 4 0 = Inr (bs, 4, 8000)
    \<and> int (length bs) = 4"
proof -
  have "resolve_max_depth 1000 0 = 8000" by code_simp
  with generated_side_accepted [of "20 * Millisecond" "120 * Millisecond" 1000 4 0]
  show ?thesis by (simp add: go_simps in64I profile_consts)
qed

text \<open>A single configured bucket is never accepted when the list is generated: the
  generator puts the one bucket at the deepest depth while the validation wants the first
  bucket at the base, so the process panics at start unless the two coincide.\<close>

theorem single_bucket_panics:
  assumes "in64 lo" "in64 hi" and "0 < base" and "base < resolve_max_depth base cm"
    and "resolve_max_depth base cm \<le> maxBackpressureDepthCap"
  shows "ensure_side base lo hi [] 1 cm = Inl (DepthNotBase 0 (resolve_max_depth base cm) base)"
  using assms by (rule ensure_side_single)

theorem single_bucket_panics_witness:
  "ensure_side 1000 (20 * Millisecond) (120 * Millisecond) [] 1 0 = Inl (DepthNotBase 0 8000 1000)"
proof -
  have "resolve_max_depth 1000 0 = 8000" by code_simp
  with single_bucket_panics [of "20 * Millisecond" "120 * Millisecond" 1000 0]
  show ?thesis by (simp add: go_simps in64I profile_consts)
qed

text \<open>The delay of a valid profile grows with the depth, is zero below the first bucket
  and is otherwise the delay of the deepest bucket reached.\<close>

theorem profile_delay_ladder:
  assumes "valid_profile soft hard p" and "0 < soft" and "d \<le> d'"
  shows "profile_delay p level d \<le> profile_delay p level d'
    \<and> profile_delay p BackpressureElevated d =
        (if soft \<le> d then Delay (last (filter (\<lambda>b. Depth b \<le> d) (Elevated p))) else 0)"
proof
  show "profile_delay p level d \<le> profile_delay p level d'"
    using assms(3) by (auto simp: profile_delay_def pickDelay_mono split: BackpressureLevel.splits)
  from assms(1) have l: "sorted_wrt ladder (Elevated p)" "Elevated p \<noteq> []" "Depth (hd (Elevated p)) = soft"
    and p: "\<forall>b\<in>set (Elevated p). 0 < Depth b \<and> 0 < Delay b \<and> 0 \<le> Delay b"
    by (auto simp: valid_profile_def ladder_ok_def clean_bucket_ok_def intro: less_imp_le)
  show "profile_delay p BackpressureElevated d =
        (if soft \<le> d then Delay (last (filter (\<lambda>b. Depth b \<le> d) (Elevated p))) else 0)"
  proof (cases "soft \<le> d")
    case False
    then have "\<forall>b\<in>set (Elevated p). (if d < 0 then 0 else d) < Depth b"
      using ladder_hd_min [OF l(1)] l(3) p by fastforce
    with False show ?thesis
      using pick_loop_below [OF l(1)] by (simp add: profile_delay_def pickDelay_def)
  next
    case True
    then have "hd (Elevated p) \<in> set (filter (\<lambda>b. Depth b \<le> d) (Elevated p))" using l by simp
    then obtain c cs where f: "filter (\<lambda>b. Depth b \<le> d) (Elevated p) = c # cs"
      by (cases "filter (\<lambda>b. Depth b \<le> d) (Elevated p)") auto
    from True assms(2) have "\<not> d < 0" by simp
    with True f show ?thesis
      using pick_loop_ladder [OF l(1) p] by (simp add: profile_delay_def pickDelay_def)
  qed
qed

theorem profile_delay_ladder_witness:
  "profile_delay demo_profile' BackpressureElevated 250 \<le> profile_delay demo_profile' BackpressureElevated 300
    \<and> profile_delay demo_profile' BackpressureElevated 250 = 5 * Millisecond"
proof -
  have "valid_profile 100 200 demo_profile'" by code_simp
  from profile_delay_ladder [OF this, of 250 300 BackpressureElevated]
  show ?thesis by (simp add: demo_profile'_def)
qed

text \<open>With a valid profile the level of a depth is decided by the two limits the profile
  was built from (severe from the hard limit, elevated from the soft limit), so the global
  level of a sample is monotone in the depth.\<close>

theorem global_level_thresholds:
  assumes "valid_profile soft hard p" and "0 < soft" "soft \<le> hard"
  shows "classifyDepthWithProfile d p soft hard =
      (if hard \<le> d then BackpressureSevere else if soft \<le> d then BackpressureElevated else BackpressureNone)
    \<and> (d \<le> d' \<longrightarrow> backpressureRank (classifyDepthWithProfile d p soft hard)
                 \<le> backpressureRank (classifyDepthWithProfile d' p soft hard))"
  using classify_valid_profile [OF assms(1,2), of _ soft hard] assms(2,3)
  by (auto simp: threshold_level_def)

theorem global_level_thresholds_witness:
  "classifyDepthWithProfile 150 demo_profile' 100 200 = BackpressureElevated"
proof -
  have "valid_profile 100 200 demo_profile'" by code_simp
  from global_level_thresholds [OF this, of 150] show ?thesis by simp
qed

text \<open>The level of one user or instance is classified with the global profile first: with
  a local hard limit below the global soft limit, a depth between the two is severe while a
  deeper one, from the global soft limit on, is only elevated.\<close>

theorem user_level_not_monotone:
  assumes "valid_profile soft hard p" and "0 < uhard" and "uhard \<le> d" and "d < soft" and "soft < hard"
  shows "classifyDepthWithProfile d p usoft uhard = BackpressureSevere
    \<and> classifyDepthWithProfile soft p usoft uhard = BackpressureElevated"
  using classify_valid_profile [OF assms(1), of _ usoft uhard] assms(2-5)
  by (auto simp: threshold_level_def)

theorem user_level_not_monotone_witness:
  "classifyDepthWithProfile 50 demo_profile' 20 40 = BackpressureSevere
    \<and> classifyDepthWithProfile 100 demo_profile' 20 40 = BackpressureElevated"
proof -
  have "valid_profile 100 200 demo_profile'" by code_simp
  from user_level_not_monotone [OF this, of 40 50 20] show ?thesis by simp
qed

end
