(* ===== verification/BackpressureProperties.thy ===== *)
theory BackpressureProperties
  imports CacheKeys Backpressure ProfileProperties
begin

text \<open>
  The properties of the cache keys, of the aggregated backpressure level and of the delay
  profile: what the coordinator of the pending users relies on when it derives keys,
  reports a level and picks a delay.
\<close>

section \<open>Keys\<close>

text \<open>C40. A user name can be read back from its lease key and from its depth key: with the
  prefix the key was built with, the calibration scan recovers the trimmed name, whatever
  characters it holds (colons and braces included).\<close>

theorem pending_keys_roundtrip:
  assumes "TrimSpace u \<noteq> []"
  shows "usernameFromKeyWithPrefix (PendingCreateKey u) PendingCreatePrefix = TrimSpace u
    \<and> usernameFromKeyWithPrefix (PendingUserDepthKey u) PendingUserDepthPrefix = TrimSpace u"
  using scoped_key_roundtrip [of pendingCreatePrefix u] scoped_key_roundtrip [of pendingUserDepthPrefix u] assms
  by (simp add: PendingCreateKey_def PendingUserDepthKey_def PendingCreatePrefix_def PendingUserDepthPrefix_def)

theorem pending_keys_roundtrip_witness:
  "TrimSpace '' a:b} '' = ''a:b}'' \<and>
   usernameFromKeyWithPrefix (PendingCreateKey '' a:b} '') PendingCreatePrefix = ''a:b}''"
proof -
  have t: "TrimSpace '' a:b} '' = ''a:b}''" by code_simp
  with pending_keys_roundtrip [of "'' a:b} ''"] show ?thesis by simp
qed

text \<open>Two users share a lease key exactly when their trimmed names agree, and no lease
  key is a depth key; still every depth key starts with the lease prefix, so a scan for
  leases sees both kinds.\<close>

theorem pending_keys_separate:
  assumes "TrimSpace u \<noteq> []" and "TrimSpace v \<noteq> []"
  shows "(PendingCreateKey u = PendingCreateKey v \<longleftrightarrow> TrimSpace u = TrimSpace v)
    \<and> (PendingUserDepthKey u = PendingUserDepthKey v \<longleftrightarrow> TrimSpace u = TrimSpace v)
    \<and> PendingCreateKey u \<noteq> PendingUserDepthKey v
    \<and> HasPrefix (PendingUserDepthKey v) PendingCreatePrefix"
  using assms
  by (simp add: PendingCreateKey_def PendingUserDepthKey_def userScopedKey_inj userScopedKey_form
      PendingCreatePrefix_def HasPrefix_def)
    (simp add: pendingCreatePrefix_def pendingUserDepthPrefix_def pendingHashTag_def)

theorem pending_keys_separate_witness:
  "PendingCreateKey ''ann'' \<noteq> PendingCreateKey ''bob''
    \<and> PendingCreateKey ''ann'' \<noteq> PendingUserDepthKey ''bob''"
proof -
  have t: "TrimSpace ''ann'' = ''ann''" "TrimSpace ''bob'' = ''bob''" by code_simp+
  with pending_keys_separate [of "''ann''" "''bob''"] show ?thesis by simp
qed

section \<open>Aggregation\<close>

text \<open>The merged level is one of the three named levels, its rank is the highest rank of
  the inputs, and the order of the inputs does not matter.\<close>

theorem merge_is_max:
  "proper_level (mergeBackpressureLevels ls)
    \<and> backpressureRank (mergeBackpressureLevels ls) = max_rank ls
    \<and> (mset ls = mset ls' \<longrightarrow> mergeBackpressureLevels ls = mergeBackpressureLevels ls')"
proof (intro conjI impI)
  assume "mset ls = mset ls'"
  then have "max_rank ls = max_rank ls'" by (rule max_rank_mset)
  then show "mergeBackpressureLevels ls = mergeBackpressureLevels ls'"
    by (intro proper_rank_inj merge_proper) (simp only: merge_rank)
qed (rule merge_proper merge_rank)+

theorem merge_is_max_witness:
  "mergeBackpressureLevels [BackpressureElevated, BackpressureSevere]
    = mergeBackpressureLevels [BackpressureSevere, BackpressureElevated]"
  using merge_is_max [of "[BackpressureElevated, BackpressureSevere]"
      "[BackpressureSevere, BackpressureElevated]"] by simp

text \<open>Isolation only ever lowers the merged level, and never when the global level is
  severe or when both local levels are: a severe report is dropped only if a single local
  dimension caused it. With isolation off the merged level is reported as it is.\<close>

theorem isolation_safe:
  "backpressureRank (isolate_levels cfg g u i) \<le> backpressureRank (mergeBackpressureLevels [g, u, i])
    \<and> isolate_levels cfg BackpressureSevere u i = BackpressureSevere
    \<and> isolate_levels cfg g BackpressureSevere BackpressureSevere = BackpressureSevere
    \<and> isolate_levels (cfg\<lparr>IsolateInstanceSevere := False, IsolateUserSevere := False\<rparr>) g u i
        = mergeBackpressureLevels [g, u, i]"
  by (simp add: isolate_rank_le isolate_global isolate_two_severe isolate_off)

text \<open>A run of the decision over successive samples of the three levels.\<close>

type_synonym level_triple = "BackpressureLevel \<times> BackpressureLevel \<times> BackpressureLevel \<times> instant"

fun decide_run :: "decision_cfg \<Rightarrow> level_triple list \<Rightarrow> decision_state \<Rightarrow> decision_state" where
  "decide_run cfg [] st = st"
| "decide_run cfg ((g, u, i, now) # samples) st =
    decide_run cfg samples (snd (decideAggregateLevel cfg g u i now st))"

definition isolated :: "decision_cfg \<Rightarrow> level_triple \<Rightarrow> level_sample" where
  "isolated cfg s = (case s of (g, u, i, now) \<Rightarrow> (isolate_levels cfg g u i, now))"

lemma decide_antishake:
  "0 < BackpressureAntiShakeInterval cfg \<Longrightarrow>
    decideAggregateLevel cfg g u i now st
      = antishake_step (BackpressureAntiShakeInterval cfg) (isolate_levels cfg g u i) now st"
  by (simp add: decideAggregateLevel_def)

lemma decide_run_antishake:
  "0 < BackpressureAntiShakeInterval cfg \<Longrightarrow>
    decide_run cfg samples st
      = antishake_run (BackpressureAntiShakeInterval cfg) (map (isolated cfg) samples) st"
  by (induction cfg samples st rule: decide_run.induct) (simp_all add: decide_antishake isolated_def)

text \<open>C8. Anti-shake safety: once a level has been reported, a decision reports a different
  one only if that level was the isolated level of every sample of a streak that is at
  least as long as the hold interval and ends with the current sample.\<close>

theorem antishake_no_flap:
  assumes "0 < BackpressureAntiShakeInterval cfg"
    and "st = decide_run cfg samples init_decision"
    and "lastAggregateLevel st \<noteq> BackpressureUnset"
    and "fst (decideAggregateLevel cfg g u i now st) = l" and "l \<noteq> lastAggregateLevel st"
  shows "\<exists>t. streak (map (isolated cfg) samples @ [(isolate_levels cfg g u i, now)]) l t
    \<and> BackpressureAntiShakeInterval cfg \<le> time_Sub now t"
proof -
  let ?h = "BackpressureAntiShakeInterval cfg" and ?agg = "isolate_levels cfg g u i"
  have st: "pending_inv (map (isolated cfg) samples) st"
    unfolding assms(2) decide_run_antishake [OF assms(1)] by (rule antishake_run_pending)
  have out: "fst (antishake_step ?h ?agg now st) = l"
    using assms(4) by (simp add: decide_antishake [OF assms(1)])
  then have "fst (antishake_step ?h ?agg now st) \<noteq> lastAggregateLevel st" using assms(5) by simp
  from antishake_switch [OF st assms(3) isolate_proper this] out show ?thesis by simp
qed

definition demo_cfg :: decision_cfg where
  "demo_cfg = \<lparr>IsolateInstanceSevere = False, IsolateUserSevere = True,
     BackpressureAntiShakeInterval = 5 * Second\<rparr>"

theorem antishake_no_flap_witness:
  "\<exists>t. streak (map (isolated demo_cfg)
        [(BackpressureNone, BackpressureNone, BackpressureNone, unix_epoch),
         (BackpressureSevere, BackpressureNone, BackpressureNone, unix_epoch + Second)]
      @ [(BackpressureSevere, unix_epoch + 6 * Second)]) BackpressureSevere t
    \<and> 5 * Second \<le> time_Sub (unix_epoch + 6 * Second) t"
proof -
  let ?n = BackpressureNone and ?s = BackpressureSevere
  let ?xs = "[(?n, ?n, ?n, unix_epoch), (?s, ?n, ?n, unix_epoch + Second)]"
  have "BackpressureAntiShakeInterval demo_cfg = 5 * Second" by (simp add: demo_cfg_def)
  moreover have "0 < BackpressureAntiShakeInterval demo_cfg" by code_simp
  moreover have "lastAggregateLevel (decide_run demo_cfg ?xs init_decision) = ?n" by code_simp
  moreover have "fst (decideAggregateLevel demo_cfg ?s ?n ?n (unix_epoch + 6 * Second)
      (decide_run demo_cfg ?xs init_decision)) = ?s" by code_simp
  moreover have "isolate_levels demo_cfg ?s ?n ?n = ?s" by code_simp
  ultimately show ?thesis
    using antishake_no_flap [of demo_cfg "decide_run demo_cfg ?xs init_decision" ?xs ?s ?n ?n
        "unix_epoch + 6 * Second" ?s]
    by (simp del: decide_run.simps)
qed

text \<open>Anti-shake liveness: a level that differs from the reported one, is first seen at
  \<open>t\<close> and is sampled again and again is the reported level as soon as a sample comes the
  hold interval after \<open>t\<close>.\<close>

theorem antishake_settled:
  assumes "0 < BackpressureAntiShakeInterval cfg"
    and "lastAggregateLevel st \<notin> {BackpressureUnset, l}" and "pendingAggregateLevel st \<noteq> l"
    and "t \<noteq> zero_time"
    and "\<forall>s\<in>set (first # mid @ [final]). fst (isolated cfg s) = l"
    and "snd (isolated cfg first) = t" and "snd (isolated cfg final) = now"
    and "\<forall>s\<in>set mid. \<not> BackpressureAntiShakeInterval cfg \<le> time_Sub (snd (isolated cfg s)) t"
    and "BackpressureAntiShakeInterval cfg \<le> time_Sub now t"
  shows "lastAggregateLevel (decide_run cfg (first # mid @ [final]) st) = l"
proof -
  let ?h = "BackpressureAntiShakeInterval cfg"
  have fi: "isolated cfg first = (l, t)" "isolated cfg final = (l, now)"
    using assms(5-7) by (auto intro: prod_eqI)
  have mid: "\<forall>s\<in>set mid. fst (isolated cfg s) = l" using assms(5) by simp
  have m: "map (isolated cfg) (first # mid @ [final]) = (l, t) # map (isolated cfg) mid @ [(l, now)]"
    by (simp only: list.map map_append fi)
  have s: "\<forall>(a, s)\<in>set (map (isolated cfg) mid). a = l \<and> \<not> ?h \<le> time_Sub s t"
    using mid assms(8) by (auto simp: case_prod_beta)
  have "proper_level (fst (isolated cfg first))"
    by (cases first) (simp add: isolated_def isolate_proper)
  then have l: "l \<noteq> BackpressureUnset" by (auto simp: fi proper_level_def)
  show ?thesis
    unfolding decide_run_antishake [OF assms(1)] m
    by (rule antishake_settles [OF assms(2,3) l assms(4) s assms(9)])
qed

theorem antishake_settled_witness:
  "lastAggregateLevel (decide_run demo_cfg
      [(BackpressureSevere, BackpressureNone, BackpressureNone, unix_epoch),
       (BackpressureNone, BackpressureSevere, BackpressureSevere, unix_epoch + 2 * Second),
       (BackpressureSevere, BackpressureNone, BackpressureNone, unix_epoch + 5 * Second)]
      (init_decision\<lparr>lastAggregateLevel := BackpressureNone\<rparr>)) = BackpressureSevere"
  using antishake_settled [of demo_cfg "init_decision\<lparr>lastAggregateLevel := BackpressureNone\<rparr>"
      BackpressureSevere unix_epoch
      "(BackpressureSevere, BackpressureNone, BackpressureNone, unix_epoch)"
      "[(BackpressureNone, BackpressureSevere, BackpressureSevere, unix_epoch + 2 * Second)]"
      "(BackpressureSevere, BackpressureNone, BackpressureNone, unix_epoch + 5 * Second)"
      "unix_epoch + 5 * Second"]
  by (simp add: demo_cfg_def init_decision_def isolated_def isolate_levels_def
      mergeBackpressureLevels_def go_simps unix_epoch_def zero_time_def time_Sub_def Let_def
      int64_max_def int64_min_def)

end
