(* ===== verification/PendingTypes.thy ===== *)
theory PendingTypes
  imports ProfileDefaults Backpressure
begin

text \<open>
  The data of the pending-user coordination: lease states, lease metadata, leases, the
  configuration of a coordinator and the errors of an acquisition
  (pending_state_machine.go). Field names carry the initials of their Go type. Instants
  and durations are those of GoBase; rates are the rational value of the float.
\<close>

section \<open>States\<close>

datatype PendingStateValue =
    PendingStateUnknown
  | PendingStateLease
  | PendingStateReleased
  | PendingStateExpired

record LeaseMetadata =
  lm_Username :: string
  lm_RequestID :: string
  lm_Operator :: string
  lm_ClientIP :: string
  lm_LegacyRequestID :: string
  lm_Backend :: string

record PendingLease =
  pl_Username :: string
  pl_OwnerID :: string
  pl_Version :: int
  pl_AcquireAt :: instant
  pl_LeaseExpiresAt :: instant
  pl_HeartbeatAt :: instant
  pl_QueueDepth :: int
  pl_Backpressure :: BackpressureLevel
  pl_Metadata :: LeaseMetadata

record AcquireResult =
  ar_Lease :: PendingLease
  ar_SetNXDuration :: duration

record PendingState =
  ps_Exists :: bool
  ps_State :: PendingStateValue
  ps_LeaseOwner :: string
  ps_Version :: int
  ps_TTL :: duration
  ps_LeaseExpiresAt :: instant
  ps_HeartbeatAt :: instant
  ps_ReleasedAt :: instant
  ps_Username :: string
  ps_ExpiredAt :: instant
  ps_ExpiredReason :: string
  ps_Backpressure :: BackpressureLevel
  ps_QueueDepth :: int
  ps_Raw :: string
  ps_UserQueueDepth :: int
  ps_InstanceQueueDepth :: int
  ps_UserBackpressure :: BackpressureLevel
  ps_InstanceBackpressure :: BackpressureLevel

text \<open>The zero value of a state, with the one field every use sets.\<close>

definition pending_state :: "PendingStateValue \<Rightarrow> PendingState" where
  "pending_state v = \<lparr>ps_Exists = False, ps_State = v, ps_LeaseOwner = [], ps_Version = 0, ps_TTL = 0,
     ps_LeaseExpiresAt = zero_time, ps_HeartbeatAt = zero_time, ps_ReleasedAt = zero_time,
     ps_Username = [], ps_ExpiredAt = zero_time, ps_ExpiredReason = [],
     ps_Backpressure = BackpressureUnset, ps_QueueDepth = 0, ps_Raw = [], ps_UserQueueDepth = 0,
     ps_InstanceQueueDepth = 0, ps_UserBackpressure = BackpressureUnset,
     ps_InstanceBackpressure = BackpressureUnset\<rparr>"

section \<open>Configuration\<close>

record PendingCoordinatorConfig = decision_cfg +
  LeaseTTL :: duration
  ReleaseRetention :: duration
  ExpiredRetention :: duration
  ExpiredGracePeriod :: duration
  HeartbeatTimeout :: duration
  ElevatedDelayBase :: duration
  ObserveTimeout :: duration
  CommandTimeout :: duration
  BackpressureWindow :: duration
  BackpressureSoftLimit :: int
  BackpressureHardLimit :: int
  MetricsKey :: string
  Component :: string
  LogLeaseEvents :: bool
  ElevatedDelayMax :: duration
  SevereDelayBase :: duration
  SevereDelayMax :: duration
  DelayProfileOf :: BackpressureDelayProfile
  TokenBucketRate :: rat
  TokenBucketBurst :: int
  UserTokenBucketRate :: rat
  UserTokenBucketBurst :: int
  InstanceTokenBucketRate :: rat
  InstanceTokenBucketBurst :: int
  UserMetricsPrefix :: string
  UserBackpressureWindow :: duration
  UserBackpressureSoftLimit :: int
  UserBackpressureHardLimit :: int
  InstanceBackpressureSoftLimit :: int
  InstanceBackpressureHardLimit :: int
  FallbackDelay :: duration
  CalibrationInterval :: duration
  CalibrationTimeout :: duration

definition zero_config :: PendingCoordinatorConfig where
  "zero_config = \<lparr>IsolateInstanceSevere = False, IsolateUserSevere = False,
     BackpressureAntiShakeInterval = 0,
     LeaseTTL = 0, ReleaseRetention = 0, ExpiredRetention = 0, ExpiredGracePeriod = 0,
     HeartbeatTimeout = 0, ElevatedDelayBase = 0, ObserveTimeout = 0, CommandTimeout = 0,
     BackpressureWindow = 0, BackpressureSoftLimit = 0, BackpressureHardLimit = 0,
     MetricsKey = [], Component = [], LogLeaseEvents = False, ElevatedDelayMax = 0,
     SevereDelayBase = 0, SevereDelayMax = 0, DelayProfileOf = empty_profile,
     TokenBucketRate = 0, TokenBucketBurst = 0, UserTokenBucketRate = 0, UserTokenBucketBurst = 0,
     InstanceTokenBucketRate = 0, InstanceTokenBucketBurst = 0, UserMetricsPrefix = [],
     UserBackpressureWindow = 0, UserBackpressureSoftLimit = 0, UserBackpressureHardLimit = 0,
     InstanceBackpressureSoftLimit = 0, InstanceBackpressureHardLimit = 0, FallbackDelay = 0,
     CalibrationInterval = 0, CalibrationTimeout = 0\<rparr>"

definition DefaultPendingCoordinatorConfig :: "string \<Rightarrow> PendingCoordinatorConfig" where
  "DefaultPendingCoordinatorConfig component =
    (let trimmed = TrimSpace component;
         trimmed = (if trimmed = [] then ''pending_coordinator'' else trimmed)
     in zero_config\<lparr>Component := trimmed, MetricsKey := trimmed @ '':pending:active'',
          UserMetricsPrefix := trimmed @ '':pending:depth:''\<rparr>)"

section \<open>Errors\<close>

datatype AcquireFailureReason = AcquireFailureConflict | AcquireFailureBackpressure

record AcquireError =
  ae_Reason :: AcquireFailureReason
  ae_State :: PendingState
  ae_QueueDepth :: int

text \<open>The sentinel errors of the package; any other error is told by its message.\<close>

datatype pending_error =
    ErrPendingLeaseConflict
  | ErrPendingBackpressure
  | ErrPendingLeaseOwnerMismatch
  | ErrMessage string
  | ErrAcquire AcquireError

fun AcquireError_Error :: "AcquireError option \<Rightarrow> string" where
  "AcquireError_Error None = ''pending lease error''"
| "AcquireError_Error (Some e) =
    (case ae_Reason e of
       AcquireFailureBackpressure \<Rightarrow>
         ''pending lease rejected by backpressure (depth='' @ FormatInt (ae_QueueDepth e) @ '')''
     | AcquireFailureConflict \<Rightarrow> ''pending lease already active'')"

fun AcquireError_Unwrap :: "AcquireError option \<Rightarrow> pending_error option" where
  "AcquireError_Unwrap None = None"
| "AcquireError_Unwrap (Some e) =
    (case ae_Reason e of
       AcquireFailureConflict \<Rightarrow> Some ErrPendingLeaseConflict
     | AcquireFailureBackpressure \<Rightarrow> Some ErrPendingBackpressure)"

fun AcquireError_Is :: "AcquireError option \<Rightarrow> pending_error option \<Rightarrow> bool" where
  "AcquireError_Is None target = False"
| "AcquireError_Is (Some e) None = False"
| "AcquireError_Is (Some e) (Some target) =
    (if target = ErrPendingLeaseConflict then ae_Reason e = AcquireFailureConflict
     else if target = ErrPendingBackpressure then ae_Reason e = AcquireFailureBackpressure
     else False)"

text \<open>Matching an acquisition error against a sentinel agrees with unwrapping it.\<close>

lemma AcquireError_Is_Unwrap:
  "AcquireError_Is (Some e) (Some t) \<longleftrightarrow> AcquireError_Unwrap (Some e) = Some t"
  by (auto split: AcquireFailureReason.splits)

end
