(* ===== verification/PendingMemory.thy ===== *)
theory PendingMemory
  imports PendingTypes
begin

text \<open>
  The in-memory pending coordinator (pending_state_memory.go): the degraded-mode backend
  that keeps the leases of pending users in sharded maps with one shared active counter.
  A shard is an association list with distinct keys; its lock makes each operation one
  step. The clock and the generated owner id are arguments.
\<close>

section \<open>State\<close>

record memoryLeaseEntry =
  me_lease :: "PendingLease option"
  me_metadata :: LeaseMetadata
  me_state :: PendingStateValue
  me_releasedAt :: instant
  me_expiredAt :: instant
  me_expiredReason :: string
  me_lastHeartbeat :: instant

type_synonym shard = "(string \<times> memoryLeaseEntry) list"

record memoryPendingCoordinator =
  mc_cfg :: PendingCoordinatorConfig
  mc_component :: string
  mc_shards :: "shard list"
  mc_shardMask :: int
  mc_profile :: BackpressureDelayProfile
  mc_activeCount :: int

definition defaultMemoryPendingShardCount :: int where "defaultMemoryPendingShardCount = 32"

definition nextPowerOfTwo :: "int \<Rightarrow> int" where
  "nextPowerOfTwo n0 =
    (if n0 \<le> 1 then 1
     else let n = n0 - 1;
              n = n OR drop_bit 1 n;
              n = n OR drop_bit 2 n;
              n = n OR drop_bit 4 n;
              n = n OR drop_bit 8 n;
              n = n OR drop_bit 16 n
          in n + 1)"

definition cfg_defaults :: "PendingCoordinatorConfig \<Rightarrow> BackpressureDelayProfile \<Rightarrow> bucket_error + BackpressureDelayProfile" where
  "cfg_defaults cfg p =
    ensureDefaults (BackpressureSoftLimit cfg) (BackpressureHardLimit cfg)
      (ElevatedDelayBase cfg) (ElevatedDelayMax cfg) (SevereDelayBase cfg) (SevereDelayMax cfg) p"

definition newMemoryPendingCoordinator ::
  "PendingCoordinatorConfig \<Rightarrow> string \<Rightarrow> bucket_error + memoryPendingCoordinator" where
  "newMemoryPendingCoordinator cfg0 component =
    (case cfg_defaults cfg0 (DelayProfileOf cfg0) of
       Inl e \<Rightarrow> Inl e
     | Inr p \<Rightarrow>
         (let cfg = cfg0\<lparr>DelayProfileOf := p\<rparr>;
              shardCount = defaultMemoryPendingShardCount;
              shardCount = (if shardCount < 1 then 1 else shardCount);
              shardCount = nextPowerOfTwo shardCount
          in Inr \<lparr>mc_cfg = cfg, mc_component = component,
                  mc_shards = replicate (nat shardCount) [], mc_shardMask = shardCount - 1,
                  mc_profile = profile_clone p, mc_activeCount = 0\<rparr>))"

definition shardIndex :: "memoryPendingCoordinator \<Rightarrow> string \<Rightarrow> int" where
  "shardIndex m key =
    (if mc_shards m = [] then 0
     else if key = [] then 0
     else let val = Sum32a key;
              val = (if val < 0 then - val else val)
          in if 0 < mc_shardMask m then val AND mc_shardMask m
             else go_mod val (int (length (mc_shards m))))"

text \<open>The shard of a user, by its index; none for a coordinator without shards.\<close>

definition shardFor :: "memoryPendingCoordinator \<Rightarrow> string \<Rightarrow> nat option" where
  "shardFor m username =
    (if mc_shards m = [] then None else Some (nat (shardIndex m username)))"

section \<open>Expiry and pruning\<close>

definition expire_entry :: "memoryLeaseEntry \<Rightarrow> instant \<Rightarrow> string \<Rightarrow> memoryLeaseEntry" where
  "expire_entry e stamp reason =
    e\<lparr>me_state := PendingStateExpired, me_expiredAt := stamp, me_expiredReason := reason\<rparr>"

text \<open>The change of the active counter comes with the entry.\<close>

definition maybeExpireLocked ::
  "PendingCoordinatorConfig \<Rightarrow> instant \<Rightarrow> memoryLeaseEntry \<Rightarrow> memoryLeaseEntry \<times> int" where
  "maybeExpireLocked cfg now e =
    (case me_lease e of
       None \<Rightarrow> (e, 0)
     | Some l \<Rightarrow>
         if me_state e \<noteq> PendingStateLease then (e, 0)
         else let timeout = HeartbeatTimeout cfg;
                  last = (if IsZero (me_lastHeartbeat e) then pl_AcquireAt l else me_lastHeartbeat e)
              in if 0 < timeout \<and> \<not> IsZero last \<and> timeout \<le> time_Sub now last
                 then (expire_entry e now ''heartbeat_timeout'', - 1)
                 else if time_After now (time_Add (pl_LeaseExpiresAt l) (ExpiredGracePeriod cfg))
                 then (expire_entry e (pl_LeaseExpiresAt l) ''lease_timeout'', - 1)
                 else (e, 0))"

definition entry_expiry :: "memoryLeaseEntry \<Rightarrow> instant" where
  "entry_expiry e =
    (case me_lease e of
       Some l \<Rightarrow> if IsZero (me_expiredAt e) then pl_LeaseExpiresAt l else me_expiredAt e
     | None \<Rightarrow> me_expiredAt e)"

definition prune_drop :: "PendingCoordinatorConfig \<Rightarrow> instant \<Rightarrow> memoryLeaseEntry \<Rightarrow> bool" where
  "prune_drop cfg now e =
    (case me_state e of
       PendingStateReleased \<Rightarrow>
         0 < ReleaseRetention cfg \<and> ReleaseRetention cfg \<le> time_Sub now (me_releasedAt e)
     | PendingStateExpired \<Rightarrow>
         0 < ExpiredRetention cfg \<and> ExpiredRetention cfg \<le> time_Sub now (entry_expiry e)
     | _ \<Rightarrow> False)"

fun pruneShardLocked :: "PendingCoordinatorConfig \<Rightarrow> instant \<Rightarrow> shard \<Rightarrow> shard \<times> int" where
  "pruneShardLocked cfg now [] = ([], 0)"
| "pruneShardLocked cfg now ((username, e) # sh) =
    (let (e', d) = maybeExpireLocked cfg now e;
         (sh', d') = pruneShardLocked cfg now sh
     in (if prune_drop cfg now e' then sh' else (username, e') # sh', d + d'))"

definition put_shard :: "memoryPendingCoordinator \<Rightarrow> nat \<Rightarrow> shard \<Rightarrow> int \<Rightarrow> memoryPendingCoordinator" where
  "put_shard m i sh d =
    m\<lparr>mc_shards := (mc_shards m)[i := sh], mc_activeCount := mc_activeCount m + d\<rparr>"

definition prune_at :: "memoryPendingCoordinator \<Rightarrow> nat \<Rightarrow> instant \<Rightarrow> memoryPendingCoordinator" where
  "prune_at m i now =
    (let (sh, d) = pruneShardLocked (mc_cfg m) now (mc_shards m ! i) in put_shard m i sh d)"

fun prune_upto :: "memoryPendingCoordinator \<Rightarrow> nat \<Rightarrow> instant \<Rightarrow> memoryPendingCoordinator" where
  "prune_upto m 0 now = m"
| "prune_upto m (Suc i) now = prune_at (prune_upto m i now) i now"

definition pruneAllShards :: "memoryPendingCoordinator \<Rightarrow> instant \<Rightarrow> memoryPendingCoordinator" where
  "pruneAllShards m now = prune_upto m (length (mc_shards m)) now"

section \<open>Classification and the observed state\<close>

definition mem_classifyBackpressure :: "memoryPendingCoordinator \<Rightarrow> int \<Rightarrow> BackpressureLevel" where
  "mem_classifyBackpressure m depth =
    classifyDepthWithProfile depth (mc_profile m) (BackpressureSoftLimit (mc_cfg m))
      (BackpressureHardLimit (mc_cfg m))"

definition mem_classifyUserBackpressure :: "memoryPendingCoordinator \<Rightarrow> int \<Rightarrow> BackpressureLevel" where
  "mem_classifyUserBackpressure m depth =
    classifyDepthWithProfile depth (mc_profile m) (UserBackpressureSoftLimit (mc_cfg m))
      (UserBackpressureHardLimit (mc_cfg m))"

definition lease_part :: "memoryLeaseEntry \<Rightarrow> instant \<Rightarrow> PendingState \<Rightarrow> PendingState" where
  "lease_part e now s =
    (case me_lease e of
       None \<Rightarrow> s
     | Some l \<Rightarrow>
         (let s = s\<lparr>ps_LeaseOwner := pl_OwnerID l, ps_LeaseExpiresAt := pl_LeaseExpiresAt l\<rparr>;
              s = (if time_After (pl_LeaseExpiresAt l) now
                   then s\<lparr>ps_TTL := time_Sub (pl_LeaseExpiresAt l) now\<rparr> else s);
              s = (if 0 < pl_QueueDepth l \<and> ps_QueueDepth s = 0
                   then s\<lparr>ps_QueueDepth := pl_QueueDepth l, ps_Backpressure := pl_Backpressure l\<rparr> else s)
          in if \<not> IsZero (pl_HeartbeatAt l) then s\<lparr>ps_HeartbeatAt := pl_HeartbeatAt l\<rparr> else s))"

definition buildStateLocked ::
  "memoryPendingCoordinator \<Rightarrow> string \<Rightarrow> memoryLeaseEntry \<Rightarrow> instant \<Rightarrow> PendingState" where
  "buildStateLocked m username e now =
    (let depth = mc_activeCount m;
         level = mem_classifyBackpressure m depth;
         s = (pending_state (me_state e))\<lparr>ps_Exists := True, ps_Username := username,
               ps_QueueDepth := depth, ps_InstanceQueueDepth := depth,
               ps_Backpressure := level, ps_InstanceBackpressure := level\<rparr>;
         s = (if me_state e = PendingStateLease
              then s\<lparr>ps_UserQueueDepth := 1, ps_UserBackpressure := mem_classifyUserBackpressure m 1\<rparr>
              else s);
         s = lease_part e now s;
         s = (if IsZero (ps_HeartbeatAt s) \<and> \<not> IsZero (me_lastHeartbeat e)
              then s\<lparr>ps_HeartbeatAt := me_lastHeartbeat e\<rparr> else s);
         s = (if me_state e = PendingStateReleased then s\<lparr>ps_ReleasedAt := me_releasedAt e\<rparr> else s)
     in if me_state e = PendingStateExpired
        then s\<lparr>ps_ExpiredAt := me_expiredAt e,
               ps_ExpiredReason := (if me_expiredReason e \<noteq> [] then me_expiredReason e else ''timeout'')\<rparr>
        else s)"

section \<open>Acquire\<close>

text \<open>Whether an entry found for the user refuses a new acquisition; otherwise it is deleted.\<close>

definition acquire_blocked :: "PendingCoordinatorConfig \<Rightarrow> instant \<Rightarrow> memoryLeaseEntry \<Rightarrow> bool" where
  "acquire_blocked cfg now e =
    (case me_state e of
       PendingStateLease \<Rightarrow> True
     | PendingStateReleased \<Rightarrow>
         ReleaseRetention cfg \<le> 0 \<or> time_Sub now (me_releasedAt e) < ReleaseRetention cfg
     | PendingStateExpired \<Rightarrow>
         ExpiredRetention cfg \<le> 0 \<or> time_Sub now (entry_expiry e) < ExpiredRetention cfg
     | _ \<Rightarrow> False)"

definition acquire_check ::
  "memoryPendingCoordinator \<Rightarrow> nat \<Rightarrow> string \<Rightarrow> instant \<Rightarrow> AcquireError option \<times> memoryPendingCoordinator" where
  "acquire_check m0 i u now =
    (let m = prune_at m0 i now
     in case map_of (mc_shards m ! i) u of
          None \<Rightarrow> (None, m)
        | Some e0 \<Rightarrow>
            (let (e, d) = maybeExpireLocked (mc_cfg m) now e0
             in if acquire_blocked (mc_cfg m) now e
                then let m' = put_shard m i (AList.update u e (mc_shards m ! i)) d
                     in (Some \<lparr>ae_Reason = AcquireFailureConflict,
                               ae_State = buildStateLocked m' u e now,
                               ae_QueueDepth = mc_activeCount m'\<rparr>, m')
                else (None, put_shard m i (AList.delete u (mc_shards m ! i)) d)))"

definition new_lease :: "memoryPendingCoordinator \<Rightarrow> string \<Rightarrow> LeaseMetadata \<Rightarrow> instant \<Rightarrow> string \<Rightarrow> int \<Rightarrow> PendingLease" where
  "new_lease m u meta now ownerID active =
    \<lparr>pl_Username = u, pl_OwnerID = ownerID, pl_Version = 0, pl_AcquireAt = now,
     pl_LeaseExpiresAt = time_Add now (LeaseTTL (mc_cfg m)), pl_HeartbeatAt = now,
     pl_QueueDepth = active + 1, pl_Backpressure = mem_classifyBackpressure m (active + 1),
     pl_Metadata = meta\<rparr>"

text \<open>The second half works with the value of the active counter it has loaded.\<close>

definition acquire_commit ::
  "memoryPendingCoordinator \<Rightarrow> nat \<Rightarrow> string \<Rightarrow> LeaseMetadata \<Rightarrow> instant \<Rightarrow> string \<Rightarrow> int
    \<Rightarrow> (AcquireError + AcquireResult) \<times> memoryPendingCoordinator" where
  "acquire_commit m i u meta now ownerID active =
    (if 0 < BackpressureHardLimit (mc_cfg m) \<and> BackpressureHardLimit (mc_cfg m) \<le> active
     then (Inl \<lparr>ae_Reason = AcquireFailureBackpressure,
                ae_State = (pending_state PendingStateUnknown)
                  \<lparr>ps_QueueDepth := active, ps_Backpressure := BackpressureSevere\<rparr>,
                ae_QueueDepth = active\<rparr>, m)
     else let l = new_lease m u meta now ownerID active;
              e = \<lparr>me_lease = Some l, me_metadata = meta, me_state = PendingStateLease,
                   me_releasedAt = zero_time, me_expiredAt = zero_time, me_expiredReason = [],
                   me_lastHeartbeat = now\<rparr>
          in (Inr \<lparr>ar_Lease = l, ar_SetNXDuration = 0\<rparr>,
              put_shard m i (AList.update u e (mc_shards m ! i)) 1))"

definition mem_Acquire ::
  "memoryPendingCoordinator \<Rightarrow> string \<Rightarrow> LeaseMetadata \<Rightarrow> instant \<Rightarrow> string
    \<Rightarrow> (pending_error + AcquireResult) \<times> memoryPendingCoordinator" where
  "mem_Acquire m username meta now ownerID =
    (let u = TrimSpace username
     in if u = [] then (Inl (ErrMessage ''username required''), m)
        else case shardFor m u of
               None \<Rightarrow> (Inl (ErrMessage ''pending coordinator unavailable''), m)
             | Some i \<Rightarrow>
                 (case acquire_check m i u now of
                    (Some err, m1) \<Rightarrow> (Inl (ErrAcquire err), m1)
                  | (None, m1) \<Rightarrow>
                      (case acquire_commit m1 i u meta now ownerID (mc_activeCount m1) of
                         (Inl err, m2) \<Rightarrow> (Inl (ErrAcquire err), m2)
                       | (Inr res, m2) \<Rightarrow> (Inr res, m2))))"

section \<open>Release and heartbeat\<close>

definition release_entry :: "instant \<Rightarrow> memoryLeaseEntry \<Rightarrow> duration \<times> memoryLeaseEntry \<times> int" where
  "release_entry now e =
    (let (dur, l) = (case me_lease e of
           Some l \<Rightarrow> if \<not> IsZero (pl_AcquireAt l)
                     then (time_Sub now (pl_AcquireAt l), Some (l\<lparr>pl_LeaseExpiresAt := now\<rparr>))
                     else (0, Some l)
         | None \<Rightarrow> (0, None));
         e' = e\<lparr>me_lease := l, me_state := PendingStateReleased, me_releasedAt := now\<rparr>
     in (dur, e', if me_state e = PendingStateLease then - 1 else 0))"

definition mem_Release ::
  "memoryPendingCoordinator \<Rightarrow> string \<Rightarrow> string \<Rightarrow> instant
    \<Rightarrow> (pending_error + duration) \<times> memoryPendingCoordinator" where
  "mem_Release m username ownerID now =
    (let u = TrimSpace username
     in if u = [] then (Inr 0, m)
        else case shardFor m u of
               None \<Rightarrow> (Inr 0, m)
             | Some i \<Rightarrow>
                 (case map_of (mc_shards m ! i) u of
                    None \<Rightarrow> (Inr 0, m)
                  | Some e \<Rightarrow>
                      (case me_lease e of
                         Some l \<Rightarrow>
                           if ownerID \<noteq> [] \<and> pl_OwnerID l \<noteq> [] \<and> pl_OwnerID l \<noteq> ownerID
                           then (Inl ErrPendingLeaseOwnerMismatch, m)
                           else (case release_entry now e of
                                   (dur, e', d) \<Rightarrow> (Inr dur, put_shard m i (AList.update u e' (mc_shards m ! i)) d))
                       | None \<Rightarrow>
                           (case release_entry now e of
                              (dur, e', d) \<Rightarrow> (Inr dur, put_shard m i (AList.update u e' (mc_shards m ! i)) d)))))"

definition heartbeat_entry :: "PendingCoordinatorConfig \<Rightarrow> instant \<Rightarrow> PendingLease \<Rightarrow> memoryLeaseEntry \<Rightarrow> memoryLeaseEntry" where
  "heartbeat_entry cfg now l e =
    (let l = l\<lparr>pl_HeartbeatAt := now\<rparr>;
         l = (if 0 < LeaseTTL cfg then l\<lparr>pl_LeaseExpiresAt := time_Add now (LeaseTTL cfg)\<rparr> else l)
     in e\<lparr>me_lease := Some l, me_lastHeartbeat := now, me_expiredReason := []\<rparr>)"

definition mem_Heartbeat ::
  "memoryPendingCoordinator \<Rightarrow> string \<Rightarrow> string \<Rightarrow> instant \<Rightarrow> pending_error option \<times> memoryPendingCoordinator" where
  "mem_Heartbeat m username ownerID now =
    (let u = TrimSpace username; owner = TrimSpace ownerID
     in if u = [] \<or> owner = [] then (None, m)
        else case shardFor m u of
               None \<Rightarrow> (Some ErrPendingLeaseConflict, m)
             | Some i \<Rightarrow>
                 (case map_of (mc_shards m ! i) u of
                    None \<Rightarrow> (Some ErrPendingLeaseConflict, m)
                  | Some e \<Rightarrow>
                      (case me_lease e of
                         None \<Rightarrow> (Some ErrPendingLeaseConflict, m)
                       | Some l \<Rightarrow>
                           if me_state e \<noteq> PendingStateLease then (Some ErrPendingLeaseConflict, m)
                           else if pl_OwnerID l \<noteq> [] \<and> pl_OwnerID l \<noteq> owner
                           then (Some ErrPendingLeaseOwnerMismatch, m)
                           else (None, put_shard m i
                                   (AList.update u (heartbeat_entry (mc_cfg m) now l e) (mc_shards m ! i)) 0))))"

section \<open>Observing, sampling, listing\<close>

definition mem_Observe :: "memoryPendingCoordinator \<Rightarrow> string \<Rightarrow> instant \<Rightarrow> PendingState \<times> memoryPendingCoordinator" where
  "mem_Observe m username now =
    (let u = TrimSpace username
     in if u = [] then (pending_state PendingStateUnknown, m)
        else case shardFor m u of
               None \<Rightarrow> (pending_state PendingStateUnknown, m)
             | Some i \<Rightarrow>
                 (let m' = prune_at m i now
                  in case map_of (mc_shards m' ! i) u of
                       None \<Rightarrow> (pending_state PendingStateUnknown, m')
                     | Some e \<Rightarrow> (buildStateLocked m' u e now, m')))"

definition mem_SampleQueueDepth ::
  "memoryPendingCoordinator \<Rightarrow> instant \<Rightarrow> (int \<times> BackpressureLevel) \<times> memoryPendingCoordinator" where
  "mem_SampleQueueDepth m now =
    (let m' = pruneAllShards m now; depth = mc_activeCount m'
     in ((depth, mem_classifyBackpressure m' depth), m'))"

definition mem_SampleUserQueueDepth ::
  "memoryPendingCoordinator \<Rightarrow> string \<Rightarrow> instant \<Rightarrow> (int \<times> BackpressureLevel) \<times> memoryPendingCoordinator" where
  "mem_SampleUserQueueDepth m username now =
    (let u = TrimSpace username
     in if u = [] then ((0, BackpressureNone), m)
        else case shardFor m u of
               None \<Rightarrow> ((0, BackpressureNone), m)
             | Some i \<Rightarrow>
                 (let m' = prune_at m i now
                  in case map_of (mc_shards m' ! i) u of
                       None \<Rightarrow> ((0, BackpressureNone), m')
                     | Some e \<Rightarrow> if me_state e \<noteq> PendingStateLease then ((0, BackpressureNone), m')
                                 else ((1, mem_classifyUserBackpressure m' 1), m')))"

text \<open>
  Listing visits the shards in order and stops at the limit; within a shard Go's map order
  is arbitrary and the model uses the list's.
\<close>

definition list_shard :: "memoryPendingCoordinator \<Rightarrow> nat \<Rightarrow> instant \<Rightarrow> nat \<Rightarrow> PendingState list" where
  "list_shard m i now room =
    take room (map (\<lambda>(u, e). buildStateLocked m u e now)
      (filter (\<lambda>(u, e). me_state e = PendingStateExpired) (mc_shards m ! i)))"

fun list_loop ::
  "memoryPendingCoordinator \<Rightarrow> nat list \<Rightarrow> instant \<Rightarrow> nat \<Rightarrow> PendingState list
    \<Rightarrow> PendingState list \<times> memoryPendingCoordinator" where
  "list_loop m [] now limit result = (result, m)"
| "list_loop m (i # is) now limit result =
    (let m' = prune_at m i now;
         result' = result @ list_shard m' i now (limit - length result)
     in if limit \<le> length result' then (result', m') else list_loop m' is now limit result')"

definition mem_ListExpired :: "memoryPendingCoordinator \<Rightarrow> int \<Rightarrow> instant \<Rightarrow> PendingState list \<times> memoryPendingCoordinator" where
  "mem_ListExpired m limit now =
    list_loop m [0..<length (mc_shards m)] now (nat (if limit \<le> 0 then 64 else limit)) []"

definition mem_UpdateBackpressureProfile ::
  "memoryPendingCoordinator \<Rightarrow> BackpressureDelayProfile \<Rightarrow> bucket_error + memoryPendingCoordinator" where
  "mem_UpdateBackpressureProfile m p =
    (case cfg_defaults (mc_cfg m) p of
       Inl e \<Rightarrow> Inl e
     | Inr p' \<Rightarrow> (let cloned = profile_clone p'
                 in Inr (m\<lparr>mc_cfg := (mc_cfg m)\<lparr>DelayProfileOf := cloned\<rparr>, mc_profile := cloned\<rparr>)))"

end
