(* ===== verification/PendingMemoryOps.thy ===== *)
theory PendingMemoryOps
  imports PendingMemory
begin

text \<open>
  What each operation of the in-memory coordinator returns and does to the table of
  leases, and that every operation keeps the invariant.
\<close>

text \<open>
  The invariant of the in-memory coordinator and what each primitive does to the table of
  leases: the shards together are one map from trimmed user names to entries, and the
  active counter is the number of entries in the lease state.
\<close>

section \<open>The table behind the shards\<close>

definition live :: "memoryLeaseEntry \<Rightarrow> bool" where
  "live e \<longleftrightarrow> me_state e = PendingStateLease"

definition idx :: "memoryPendingCoordinator \<Rightarrow> string \<Rightarrow> nat" where
  "idx m u = nat (shardIndex m u)"

definition lookup :: "memoryPendingCoordinator \<Rightarrow> string \<Rightarrow> memoryLeaseEntry option" where
  "lookup m u = map_of (mc_shards m ! idx m u) u"

definition total :: "memoryPendingCoordinator \<Rightarrow> nat" where
  "total m = sum_list (map (acount live) (mc_shards m))"

definition shards_ok :: "memoryPendingCoordinator \<Rightarrow> bool" where
  "shards_ok m \<longleftrightarrow> (\<exists>k>0. mc_shardMask m = 2 ^ k - 1 \<and> length (mc_shards m) = 2 ^ k)"

definition entry_ok :: "memoryLeaseEntry \<Rightarrow> bool" where
  "entry_ok e \<longleftrightarrow> me_lease e \<noteq> None \<and> me_state e \<noteq> PendingStateUnknown"

definition shard_inv :: "memoryPendingCoordinator \<Rightarrow> nat \<Rightarrow> shard \<Rightarrow> bool" where
  "shard_inv m i sh \<longleftrightarrow> keys_distinct sh \<and>
    (\<forall>(u, e)\<in>set sh. idx m u = i \<and> u \<noteq> [] \<and> entry_ok e)"

definition mem_inv :: "memoryPendingCoordinator \<Rightarrow> bool" where
  "mem_inv m \<longleftrightarrow> shards_ok m \<and> (\<forall>i<length (mc_shards m). shard_inv m i (mc_shards m ! i))
    \<and> mc_activeCount m = int (total m)"

lemma shards_ok_nonempty: "shards_ok m \<Longrightarrow> mc_shards m \<noteq> []"
  by (auto simp: shards_ok_def)

lemma idx_less: "shards_ok m \<Longrightarrow> idx m u < length (mc_shards m)"
proof -
  assume ok: "shards_ok m"
  then obtain k where k: "0 < k" "mc_shardMask m = 2 ^ k - 1" "length (mc_shards m) = 2 ^ k"
    by (auto simp: shards_ok_def)
  have "0 < mc_shardMask m" using k(1,2) by (simp add: one_less_power)
  then have "shardIndex m u = (if u = [] then 0 else Sum32a u mod 2 ^ k)"
    using Sum32a_range [of u] shards_ok_nonempty [OF ok]
    by (simp add: shardIndex_def Let_def k(2) int_and_pow2_mask)
  then have "shardIndex m u < 2 ^ k" by simp
  then show ?thesis by (simp add: idx_def k(3) nat_less_iff)
qed

lemma mem_inv_shards_ok: "mem_inv m \<Longrightarrow> shards_ok m"
  by (simp add: mem_inv_def)

lemma shardFor_inv: "mem_inv m \<Longrightarrow> shardFor m u = Some (idx m u)"
  using shards_ok_nonempty [OF mem_inv_shards_ok] by (auto simp: shardFor_def idx_def)

lemma lookup_ok:
  assumes "mem_inv m" and "lookup m u = Some e"
  shows "entry_ok e \<and> u \<noteq> []"
proof -
  have "shard_inv m (idx m u) (mc_shards m ! idx m u)"
    using assms(1) idx_less [OF mem_inv_shards_ok [OF assms(1)]] by (simp add: mem_inv_def)
  moreover have "(u, e) \<in> set (mc_shards m ! idx m u)"
    using assms(2) by (simp add: lookup_def map_of_SomeD)
  ultimately show ?thesis unfolding shard_inv_def by fastforce
qed

section \<open>Writing one shard\<close>

lemma put_shard_frame [simp, frame_simps]:
  "mc_cfg (put_shard m i sh d) = mc_cfg m" "mc_profile (put_shard m i sh d) = mc_profile m"
  "mc_component (put_shard m i sh d) = mc_component m"
  "mc_activeCount (put_shard m i sh d) = mc_activeCount m + d"
  "mc_shards (put_shard m i sh d) = (mc_shards m)[i := sh]"
  "mc_shardMask (put_shard m i sh d) = mc_shardMask m"
  by (simp_all add: put_shard_def)

lemma idx_put_shard [simp]: "idx (put_shard m i sh d) u = idx m u"
  by (simp add: idx_def shardIndex_def Let_def)

lemma shards_ok_put [simp]: "shards_ok (put_shard m i sh d) = shards_ok m"
  by (simp add: shards_ok_def)

lemma put_shard_inv:
  assumes "mem_inv m" and i: "i < length (mc_shards m)" and sh: "shard_inv m i sh"
    and d: "int (acount live sh) = int (acount live (mc_shards m ! i)) + d"
  shows "mem_inv (put_shard m i sh d)"
proof -
  have eq: "shard_inv (put_shard m i sh d) j = shard_inv m j" for j
    by (rule ext) (simp add: shard_inv_def)
  from assms(1) have m: "shards_ok m" "\<And>j. j < length (mc_shards m) \<Longrightarrow> shard_inv m j (mc_shards m ! j)"
    "mc_activeCount m = int (total m)"
    by (auto simp: mem_inv_def)
  have "total (put_shard m i sh d) + acount live (mc_shards m ! i) = total m + acount live sh"
    using sum_list_update_nat [OF i, of "acount live" sh] by (simp add: total_def)
  then have "int (total (put_shard m i sh d)) = int (total m) + d" using d by simp
  then show ?thesis
    unfolding mem_inv_def eq using m sh i by (auto simp: nth_list_update)
qed

lemma lookup_put_shard:
  "i < length (mc_shards m) \<Longrightarrow>
    lookup (put_shard m i sh d) v = (if idx m v = i then map_of sh v else lookup m v)"
  by (simp add: lookup_def)

text \<open>One entry written or deleted in the shard of its user.\<close>

lemma shard_at: "mem_inv m \<Longrightarrow> i < length (mc_shards m) \<Longrightarrow> shard_inv m i (mc_shards m ! i)"
  by (simp add: mem_inv_def)

lemma shard_inv_subset:
  assumes "shard_inv m i sh" and "set sh' \<subseteq> insert (u, e) (set sh)" and "keys_distinct sh'"
    and "idx m u = i" and "u \<noteq> []" and "entry_ok e"
  shows "shard_inv m i sh'"
  unfolding shard_inv_def
proof (intro conjI ballI)
  fix x assume "x \<in> set sh'"
  with assms(2) have "x = (u, e) \<or> x \<in> set sh" by blast
  then show "case x of (u, e) \<Rightarrow> idx m u = i \<and> u \<noteq> [] \<and> entry_ok e"
    using assms(1,4-6) unfolding shard_inv_def by fastforce
qed (rule assms(3))

lemma set_entry_inv [inv_intros]:
  assumes m: "mem_inv m" and i: "i = idx m u" and u: "u \<noteq> []" and l: "entry_ok e"
    and d: "d = int (ohas live (Some e)) - int (ohas live (lookup m u))"
  shows "mem_inv (put_shard m i (AList.update u e (mc_shards m ! i)) d)"
proof (rule put_shard_inv [OF m])
  have il: "i < length (mc_shards m)" by (simp add: i idx_less mem_inv_shards_ok m)
  then show "i < length (mc_shards m)" .
  from shard_at [OF m il] have sh: "keys_distinct (mc_shards m ! i)"
    "\<forall>(v, e)\<in>set (mc_shards m ! i). idx m v = i \<and> v \<noteq> [] \<and> entry_ok e"
    by (simp_all add: shard_inv_def)
  show "int (acount live (AList.update u e (mc_shards m ! i))) = int (acount live (mc_shards m ! i)) + d"
    using acount_update [OF sh(1), of live u e] by (simp add: d lookup_def i)
  show "shard_inv m i (AList.update u e (mc_shards m ! i))"
    using shard_at [OF m il] set_update_subset
    by (rule shard_inv_subset) (simp_all add: keys_distinct_update [OF sh(1)] u l i [symmetric])
qed

lemma del_entry_inv [inv_intros]:
  assumes m: "mem_inv m" and i: "i = idx m u"
    and d: "d = - int (ohas live (lookup m u))"
  shows "mem_inv (put_shard m i (AList.delete u (mc_shards m ! i)) d)"
proof (rule put_shard_inv [OF m])
  have il: "i < length (mc_shards m)" by (simp add: i idx_less mem_inv_shards_ok m)
  then show "i < length (mc_shards m)" .
  from shard_at [OF m il] have sh: "keys_distinct (mc_shards m ! i)"
    "\<forall>(v, e)\<in>set (mc_shards m ! i). idx m v = i \<and> v \<noteq> [] \<and> entry_ok e"
    by (simp_all add: shard_inv_def)
  show "int (acount live (AList.delete u (mc_shards m ! i))) = int (acount live (mc_shards m ! i)) + d"
    using acount_delete [OF sh(1), of live u] by (simp add: d lookup_def i)
  show "shard_inv m i (AList.delete u (mc_shards m ! i))"
    unfolding shard_inv_def
    using sh keys_distinct_delete subsetD [OF set_delete_subset] by fast
qed

lemma lookup_set_entry:
  assumes "mem_inv m" and i: "i = idx m u"
  shows "lookup (put_shard m i (AList.update u e (mc_shards m ! i)) d) = (lookup m)(u \<mapsto> e)"
proof
  fix v
  show "lookup (put_shard m i (AList.update u e (mc_shards m ! i)) d) v = ((lookup m)(u \<mapsto> e)) v"
    using i by (simp only: lookup_put_shard idx_less mem_inv_shards_ok assms(1))
      (simp add: update_conv' lookup_def)
qed

lemma lookup_del_entry:
  assumes "mem_inv m" and i: "i = idx m u"
  shows "lookup (put_shard m i (AList.delete u (mc_shards m ! i)) d) = (lookup m)(u := None)"
proof
  fix v
  show "lookup (put_shard m i (AList.delete u (mc_shards m ! i)) d) v = ((lookup m)(u := None)) v"
    using i by (simp only: lookup_put_shard idx_less mem_inv_shards_ok assms(1))
      (simp add: delete_conv' lookup_def)
qed

section \<open>Expiry and pruning\<close>

lemma maybeExpire_cases:
  "maybeExpireLocked cfg now e = (e, 0)
    \<or> (live e \<and> (\<exists>stamp r. maybeExpireLocked cfg now e = (expire_entry e stamp r, - 1)))"
  by (auto simp: maybeExpireLocked_def Let_def live_def split: option.splits)

lemma live_expire [simp]: "\<not> live (expire_entry e stamp r)"
  by (simp add: live_def expire_entry_def)

lemma expire_entry_frame [simp]: "me_lease (expire_entry e stamp r) = me_lease e"
  "me_lastHeartbeat (expire_entry e stamp r) = me_lastHeartbeat e"
  "me_state (expire_entry e stamp r) = PendingStateExpired"
  by (simp_all add: expire_entry_def)

lemma maybeExpire_delta:
  "maybeExpireLocked cfg now e = (e', d) \<Longrightarrow>
    d = int (ohas live (Some e')) - int (ohas live (Some e)) \<and> entry_ok e' = entry_ok e"
  using maybeExpire_cases [of cfg now e] by (auto simp: entry_ok_def live_def)

lemma prune_drop_not_live: "prune_drop cfg now e \<Longrightarrow> \<not> live e"
  by (auto simp: prune_drop_def live_def split: PendingStateValue.splits)

definition pruned :: "PendingCoordinatorConfig \<Rightarrow> instant \<Rightarrow> memoryLeaseEntry \<Rightarrow> memoryLeaseEntry option" where
  "pruned cfg now e =
    (let e' = fst (maybeExpireLocked cfg now e) in if prune_drop cfg now e' then None else Some e')"

lemma pruneShard_facts:
  assumes "pruneShardLocked cfg now sh = (sh', d)"
  shows "fst ` set sh' \<subseteq> fst ` set sh"
    and "keys_distinct sh \<Longrightarrow> keys_distinct sh'"
    and "int (acount live sh') = int (acount live sh) + d"
    and "keys_distinct sh \<Longrightarrow> map_of sh' u = Option.bind (map_of sh u) (pruned cfg now)"
    and "\<forall>(u, e')\<in>set sh'. \<exists>e. (u, e) \<in> set sh \<and> entry_ok e' = entry_ok e"
  using assms
proof (induction cfg now sh arbitrary: sh' d rule: pruneShardLocked.induct)
  case (1 cfg now)
  { case 1 then show ?case by simp next case 2 then show ?case by simp next
    case 3 then show ?case by simp next case 4 then show ?case by simp next
    case 5 then show ?case by simp }
next
  case (2 cfg now v e sh)
  obtain e' d1 where e': "maybeExpireLocked cfg now e = (e', d1)" by fastforce
  obtain sh1 d2 where sh1: "pruneShardLocked cfg now sh = (sh1, d2)" by fastforce
  note IH = "2.IH"(1) [OF e' [symmetric] refl sh1] "2.IH"(2) [OF e' [symmetric] refl _ sh1]
    "2.IH"(3) [OF e' [symmetric] refl sh1] "2.IH"(4) [OF e' [symmetric] refl _ sh1]
    "2.IH"(5) [OF e' [symmetric] refl sh1]
  note dl = maybeExpire_delta [OF e']
  have p: "pruned cfg now e = (if prune_drop cfg now e' then None else Some e')"
    by (simp add: pruned_def e')
  { case 1
    then have "sh' = (if prune_drop cfg now e' then sh1 else (v, e') # sh1)" by (simp add: e' sh1)
    then show ?case using IH(1) by (simp add: subset_insertI2 insert_mono) }
  { case 2
    then have "v \<notin> fst ` set sh" "keys_distinct sh" by auto
    then have "v \<notin> fst ` set sh1" "keys_distinct sh1" using IH(1) IH(2) by blast+
    moreover have "sh' = (if prune_drop cfg now e' then sh1 else (v, e') # sh1)"
      using 2(2) by (simp add: e' sh1)
    ultimately show ?case by simp }
  { case 3 then show ?case using IH(3) dl prune_drop_not_live [of cfg now e']
      by (auto simp: e' sh1 split: if_splits) }
  { case 4
    then have "v \<notin> fst ` set sh1" "keys_distinct sh" using IH(1) by auto
    moreover from this have "map_of sh1 v = None" by (simp add: map_of_eq_None_iff)
    ultimately show ?case using 4 IH(4) p
      by (auto simp: e' sh1 map_of_eq_None_iff split: if_splits) }
  { case 5 then show ?case using IH(5) dl by (fastforce simp: e' sh1 split: if_splits) }
qed

lemma prune_at_inv [inv_intros]:
  assumes m: "mem_inv m" and i: "i < length (mc_shards m)"
  shows "mem_inv (prune_at m i now)"
proof -
  obtain sh d where p: "pruneShardLocked (mc_cfg m) now (mc_shards m ! i) = (sh, d)" by fastforce
  note F = pruneShard_facts [OF p] and s = shard_at [OF m i]
  have "keys_distinct sh" using F(2) s by (simp add: shard_inv_def)
  moreover have "\<forall>(u, e)\<in>set sh. idx m u = i \<and> u \<noteq> [] \<and> entry_ok e"
    using F(5) s unfolding shard_inv_def by fastforce
  ultimately have "shard_inv m i sh" by (simp add: shard_inv_def)
  then show ?thesis
    using put_shard_inv [OF m i _ F(3)] by (simp add: prune_at_def p)
qed

lemma prune_at_frame [simp, frame_simps]:
  "mc_cfg (prune_at m i now) = mc_cfg m" "mc_profile (prune_at m i now) = mc_profile m"
  "length (mc_shards (prune_at m i now)) = length (mc_shards m)"
  "idx (prune_at m i now) u = idx m u" "shards_ok (prune_at m i now) = shards_ok m"
  by (simp_all add: prune_at_def case_prod_beta)

lemma lookup_prune_at:
  assumes m: "mem_inv m" and i: "i < length (mc_shards m)"
  shows "lookup (prune_at m i now) u =
    (if idx m u = i then Option.bind (lookup m u) (pruned (mc_cfg m) now) else lookup m u)"
proof -
  obtain sh d where p: "pruneShardLocked (mc_cfg m) now (mc_shards m ! i) = (sh, d)" by fastforce
  have "keys_distinct (mc_shards m ! i)" using shard_at [OF m i] by (simp add: shard_inv_def)
  then show ?thesis
    using pruneShard_facts(4) [OF p] i by (simp add: prune_at_def p lookup_put_shard lookup_def)
qed

lemma put_same: "put_shard m i (mc_shards m ! i) 0 = m"
  by (simp add: put_shard_def)

lemma maybeExpire_idem:
  "maybeExpireLocked cfg now (fst (maybeExpireLocked cfg now e)) = (fst (maybeExpireLocked cfg now e), 0)"
  using maybeExpire_cases [of cfg now e]
  by (auto simp: maybeExpireLocked_def [of cfg now "expire_entry e _ _"] split: option.splits)

lemma blocked_iff_kept: "me_state e \<noteq> PendingStateUnknown \<Longrightarrow> acquire_blocked cfg now e \<longleftrightarrow> \<not> prune_drop cfg now e"
  by (auto simp: acquire_blocked_def prune_drop_def split: PendingStateValue.splits)

lemma pruned_Some:
  "pruned cfg now e = Some e' \<Longrightarrow>
    maybeExpireLocked cfg now e' = (e', 0) \<and> \<not> prune_drop cfg now e' \<and> entry_ok e' = entry_ok e"
  using maybeExpire_idem [of cfg now e] maybeExpire_delta [of cfg now e e']
  by (auto simp: pruned_def Let_def split: if_splits) (metis maybeExpire_delta prod.collapse)+

text \<open>Pruning any sequence of shards, as sampling and listing do.\<close>

definition prunes :: "memoryPendingCoordinator \<Rightarrow> instant \<Rightarrow> nat list \<Rightarrow> memoryPendingCoordinator" where
  "prunes m now is = foldl (\<lambda>m i. prune_at m i now) m is"

lemma prunes_simps [simp]: "prunes m now [] = m" "prunes m now (i # is) = prunes (prune_at m i now) now is"
  "prunes m now (is @ [i]) = prune_at (prunes m now is) i now"
  by (simp_all add: prunes_def)

lemma prunes_frame [simp, frame_simps]:
  "mc_cfg (prunes m now is) = mc_cfg m" "mc_profile (prunes m now is) = mc_profile m"
  "length (mc_shards (prunes m now is)) = length (mc_shards m)" "idx (prunes m now is) u = idx m u"
  by (induction "is" arbitrary: m) simp_all

lemma prunes_inv [inv_intros]:
  "mem_inv m \<Longrightarrow> \<forall>i\<in>set is. i < length (mc_shards m) \<Longrightarrow> mem_inv (prunes m now is)"
  by (induction "is" arbitrary: m) (simp_all add: prune_at_inv)

lemma lookup_prunes:
  "mem_inv m \<Longrightarrow> \<forall>i\<in>set is. i < length (mc_shards m) \<Longrightarrow> distinct is \<Longrightarrow>
    lookup (prunes m now is) u =
      (if idx m u \<in> set is then Option.bind (lookup m u) (pruned (mc_cfg m) now) else lookup m u)"
  by (induction "is" arbitrary: m) (auto simp: prune_at_inv lookup_prune_at)

lemma prune_upto_prunes: "prune_upto m n now = prunes m now [0..<n]"
  by (induction n) simp_all

lemma list_loop_prunes:
  "\<exists>js. (\<exists>ks. is = js @ ks) \<and> snd (list_loop m is now limit r) = prunes m now js"
proof (induction m "is" now limit r rule: list_loop.induct)
  case (1 m now limit r)
  then show ?case by simp
next
  case (2 m i "is" now limit r)
  let ?m = "prune_at m i now"
  let ?r = "r @ list_shard ?m i now (limit - length r)"
  show ?case
  proof (cases "limit \<le> length ?r")
    case True
    then have "snd (list_loop m (i # is) now limit r) = prunes m now [i]" by (simp add: Let_def)
    moreover have "i # is = [i] @ is" by simp
    ultimately show ?thesis by blast
  next
    case False
    from "2.IH" [OF refl refl False] obtain js ks where
      "is = js @ ks" "snd (list_loop ?m is now limit ?r) = prunes ?m now js" by blast
    with False have "i # is = (i # js) @ ks \<and> snd (list_loop m (i # is) now limit r) = prunes m now (i # js)"
      by (simp add: Let_def)
    then show ?thesis by blast
  qed
qed

section \<open>Acquire\<close>

lemma update_same: "map_of al k = Some v \<Longrightarrow> AList.update k v al = al"
  by (induction al) (auto split: if_splits)

definition conflict_error :: "memoryPendingCoordinator \<Rightarrow> string \<Rightarrow> memoryLeaseEntry \<Rightarrow> instant \<Rightarrow> AcquireError" where
  "conflict_error m u e now = \<lparr>ae_Reason = AcquireFailureConflict, ae_State = buildStateLocked m u e now,
     ae_QueueDepth = mc_activeCount m\<rparr>"

definition pruned_at :: "memoryPendingCoordinator \<Rightarrow> string \<Rightarrow> instant \<Rightarrow> memoryPendingCoordinator" where
  "pruned_at m u now = prune_at m (idx m u) now"

lemma pruned_at_frame [simp, frame_simps]:
  "mc_cfg (pruned_at m u now) = mc_cfg m" "mc_profile (pruned_at m u now) = mc_profile m"
  "idx (pruned_at m u now) v = idx m v" "length (mc_shards (pruned_at m u now)) = length (mc_shards m)"
  by (simp_all add: pruned_at_def)

lemma pruned_at_inv [inv_intros]: "mem_inv m \<Longrightarrow> mem_inv (pruned_at m u now)"
  by (simp add: pruned_at_def prune_at_inv idx_less mem_inv_shards_ok)

lemma lookup_pruned_at:
  "mem_inv m \<Longrightarrow> lookup (pruned_at m u now) v =
    (if idx m v = idx m u then Option.bind (lookup m v) (pruned (mc_cfg m) now) else lookup m v)"
  by (simp add: pruned_at_def lookup_prune_at idx_less mem_inv_shards_ok)

lemma acquire_check_eq:
  assumes m: "mem_inv m"
  shows "acquire_check m (idx m u) u now =
    (map_option (\<lambda>e. conflict_error (pruned_at m u now) u e now) (lookup (pruned_at m u now) u),
     pruned_at m u now)"
proof -
  let ?m = "pruned_at m u now" and ?i = "idx m u"
  have eq: "prune_at m ?i now = ?m" by (simp add: pruned_at_def)
  have lk: "map_of (mc_shards ?m ! ?i) u = lookup ?m u" by (simp add: lookup_def)
  show ?thesis
  proof (cases "lookup ?m u")
    case None
    then show ?thesis by (simp add: acquire_check_def eq lk Let_def)
  next
    case (Some e)
    from Some obtain e0 where "pruned (mc_cfg m) now e0 = Some e"
      by (auto simp: lookup_pruned_at [OF m] bind_eq_Some_conv)
    then have "maybeExpireLocked (mc_cfg m) now e = (e, 0)" "\<not> prune_drop (mc_cfg m) now e"
      using pruned_Some by blast+
    moreover have "me_state e \<noteq> PendingStateUnknown"
      using lookup_ok [OF pruned_at_inv [OF m] Some] by (simp add: entry_ok_def)
    ultimately have "maybeExpireLocked (mc_cfg m) now e = (e, 0)" "acquire_blocked (mc_cfg m) now e"
      by (simp_all add: blocked_iff_kept)
    moreover have "AList.update u e (mc_shards ?m ! ?i) = mc_shards ?m ! ?i"
      using Some by (simp add: update_same lk)
    ultimately show ?thesis
      using Some by (simp add: acquire_check_def eq lk Let_def put_same conflict_error_def)
  qed
qed

definition backpressure_error :: "int \<Rightarrow> AcquireError" where
  "backpressure_error active = \<lparr>ae_Reason = AcquireFailureBackpressure,
     ae_State = (pending_state PendingStateUnknown)\<lparr>ps_QueueDepth := active, ps_Backpressure := BackpressureSevere\<rparr>,
     ae_QueueDepth = active\<rparr>"

definition fresh_entry :: "PendingLease \<Rightarrow> LeaseMetadata \<Rightarrow> instant \<Rightarrow> memoryLeaseEntry" where
  "fresh_entry l meta now = \<lparr>me_lease = Some l, me_metadata = meta, me_state = PendingStateLease,
     me_releasedAt = zero_time, me_expiredAt = zero_time, me_expiredReason = [], me_lastHeartbeat = now\<rparr>"

definition over_limit :: "memoryPendingCoordinator \<Rightarrow> bool" where
  "over_limit m \<longleftrightarrow> 0 < BackpressureHardLimit (mc_cfg m) \<and> BackpressureHardLimit (mc_cfg m) \<le> mc_activeCount m"

definition granted :: "memoryPendingCoordinator \<Rightarrow> string \<Rightarrow> PendingLease \<Rightarrow> LeaseMetadata \<Rightarrow> instant \<Rightarrow> memoryPendingCoordinator" where
  "granted m u l meta now = put_shard m (idx m u) (AList.update u (fresh_entry l meta now) (mc_shards m ! idx m u)) 1"

text \<open>The three outcomes of an acquisition.\<close>

lemma Acquire_eq:
  assumes m: "mem_inv m" and u: "TrimSpace username = u" "u \<noteq> []"
  shows "mem_Acquire m username meta now owner =
    (let m' = pruned_at m u now
     in case lookup m' u of
          Some e \<Rightarrow> (Inl (ErrAcquire (conflict_error m' u e now)), m')
        | None \<Rightarrow>
            if over_limit m' then (Inl (ErrAcquire (backpressure_error (mc_activeCount m'))), m')
            else let l = new_lease m' u meta now owner (mc_activeCount m')
                 in (Inr \<lparr>ar_Lease = l, ar_SetNXDuration = 0\<rparr>, granted m' u l meta now))"
  using u
  by (simp add: mem_Acquire_def shardFor_inv [OF m] acquire_check_eq [OF m] acquire_commit_def Let_def
      over_limit_def backpressure_error_def granted_def fresh_entry_def split: option.splits)

lemma granted_inv [inv_intros]:
  assumes "mem_inv m" and "lookup m u = None" and "u \<noteq> []"
  shows "mem_inv (granted m u l meta now)"
  unfolding granted_def using assms
  by (intro set_entry_inv) (simp_all add: fresh_entry_def entry_ok_def live_def)

lemma granted_frame [simp, frame_simps]:
  "mc_cfg (granted m u l meta now) = mc_cfg m" "mc_profile (granted m u l meta now) = mc_profile m"
  "mc_activeCount (granted m u l meta now) = mc_activeCount m + 1"
  "idx (granted m u l meta now) v = idx m v"
  by (simp_all add: granted_def)

lemma lookup_granted:
  "mem_inv m \<Longrightarrow> lookup (granted m u l meta now) = (lookup m)(u \<mapsto> fresh_entry l meta now)"
  by (simp add: granted_def lookup_set_entry)

lemma Acquire_inv [inv_intros]:
  assumes m: "mem_inv m"
  shows "mem_inv (snd (mem_Acquire m username meta now owner))"
proof (cases "TrimSpace username = []")
  case True
  with m show ?thesis by (simp add: mem_Acquire_def)
next
  case False
  then show ?thesis
    using Acquire_eq [OF m refl False, of meta now owner]
    by (simp add: Let_def pruned_at_inv [OF m] granted_inv split: option.splits)
qed

section \<open>Release\<close>

definition owner_mismatch :: "memoryLeaseEntry \<Rightarrow> string \<Rightarrow> bool" where
  "owner_mismatch e owner \<longleftrightarrow>
    (\<exists>l. me_lease e = Some l \<and> owner \<noteq> [] \<and> pl_OwnerID l \<noteq> [] \<and> pl_OwnerID l \<noteq> owner)"

lemma Release_eq:
  assumes m: "mem_inv m" and u: "TrimSpace username = u" "u \<noteq> []"
  shows "mem_Release m username owner now =
    (case lookup m u of
       None \<Rightarrow> (Inr 0, m)
     | Some e \<Rightarrow>
         if owner_mismatch e owner then (Inl ErrPendingLeaseOwnerMismatch, m)
         else (case release_entry now e of
                 (dur, e', d) \<Rightarrow> (Inr dur, put_shard m (idx m u) (AList.update u e' (mc_shards m ! idx m u)) d)))"
  using u
  by (auto simp: mem_Release_def shardFor_inv [OF m] lookup_def owner_mismatch_def Let_def
      split: option.splits)

lemma release_entry_facts:
  assumes "release_entry now e = (dur, e', d)"
  shows "me_state e' = PendingStateReleased" "me_releasedAt e' = now" "\<not> live e'"
    "(me_lease e' = None) = (me_lease e = None)" "entry_ok e \<Longrightarrow> entry_ok e'"
    "d = - int (ohas live (Some e))"
  using assms
  by (auto simp: release_entry_def live_def entry_ok_def Let_def split: option.splits if_splits prod.splits)

lemma Release_inv [inv_intros]:
  assumes m: "mem_inv m"
  shows "mem_inv (snd (mem_Release m username owner now))"
proof (cases "TrimSpace username = []")
  case True
  with m show ?thesis by (simp add: mem_Release_def)
next
  case False
  let ?u = "TrimSpace username"
  show ?thesis
  proof (cases "lookup m ?u")
    case None
    then show ?thesis using Release_eq [OF m refl False] m by simp
  next
    case (Some e)
    obtain dur e' d where r: "release_entry now e = (dur, e', d)" by (cases "release_entry now e")
    note F = release_entry_facts [OF r]
    have "mem_inv (put_shard m (idx m ?u) (AList.update ?u e' (mc_shards m ! idx m ?u)) d)"
      using m False F lookup_ok [OF m Some] Some by (intro set_entry_inv) simp_all
    then show ?thesis using Release_eq [OF m refl False, of owner now] m Some r by simp
  qed
qed

section \<open>Heartbeat\<close>

lemma Heartbeat_eq:
  assumes m: "mem_inv m" and u: "TrimSpace username = u" "u \<noteq> []" and w: "TrimSpace owner = w" "w \<noteq> []"
  shows "mem_Heartbeat m username owner now =
    (case lookup m u of
       None \<Rightarrow> (Some ErrPendingLeaseConflict, m)
     | Some e \<Rightarrow>
         if \<not> live e then (Some ErrPendingLeaseConflict, m)
         else if owner_mismatch e w then (Some ErrPendingLeaseOwnerMismatch, m)
         else (None, put_shard m (idx m u)
                 (AList.update u (heartbeat_entry (mc_cfg m) now (the (me_lease e)) e) (mc_shards m ! idx m u)) 0))"
proof (cases "lookup m u")
  case None
  with u w show ?thesis by (simp add: mem_Heartbeat_def shardFor_inv [OF m] lookup_def Let_def)
next
  case (Some e)
  from lookup_ok [OF m Some] obtain l where "me_lease e = Some l" by (auto simp: entry_ok_def)
  with Some u w show ?thesis
    by (simp add: mem_Heartbeat_def shardFor_inv [OF m] lookup_def Let_def live_def owner_mismatch_def)
qed

lemma heartbeat_entry_facts [simp]:
  "me_state (heartbeat_entry cfg now l e) = me_state e" "live (heartbeat_entry cfg now l e) = live e"
  "me_lastHeartbeat (heartbeat_entry cfg now l e) = now"
  "entry_ok (heartbeat_entry cfg now l e) = (me_state e \<noteq> PendingStateUnknown)"
  "\<exists>l'. me_lease (heartbeat_entry cfg now l e) = Some l'"
  by (simp_all add: heartbeat_entry_def live_def entry_ok_def Let_def)

lemma heartbeat_lease:
  "me_lease (heartbeat_entry cfg now l e) = Some (l\<lparr>pl_HeartbeatAt := now,
     pl_LeaseExpiresAt := (if 0 < LeaseTTL cfg then time_Add now (LeaseTTL cfg) else pl_LeaseExpiresAt l)\<rparr>)"
  by (simp add: heartbeat_entry_def Let_def)

lemma ohas_cong: "P a = P b \<Longrightarrow> ohas P (Some a) = ohas P (Some b)"
  by (simp add: ohas_def)

lemma Heartbeat_inv [inv_intros]:
  assumes m: "mem_inv m"
  shows "mem_inv (snd (mem_Heartbeat m username owner now))"
proof (cases "TrimSpace username = [] \<or> TrimSpace owner = []")
  case True
  with m show ?thesis by (auto simp: mem_Heartbeat_def Let_def)
next
  case False
  then have u: "TrimSpace username \<noteq> []" and w: "TrimSpace owner \<noteq> []" by auto
  let ?u = "TrimSpace username"
  show ?thesis
  proof (cases "lookup m ?u")
    case None
    then show ?thesis using Heartbeat_eq [OF m refl u refl w] m by simp
  next
    case (Some e)
    let ?e = "heartbeat_entry (mc_cfg m) now (the (me_lease e)) e"
    have "mem_inv (put_shard m (idx m ?u) (AList.update ?u ?e (mc_shards m ! idx m ?u)) 0)"
      using m u lookup_ok [OF m Some] Some
      by (intro set_entry_inv) (simp_all add: entry_ok_def ohas_cong [of live ?e e])
    then show ?thesis using Heartbeat_eq [OF m refl u refl w, of now] m Some by simp
  qed
qed

section \<open>Reading operations\<close>

lemma Observe_eq:
  assumes m: "mem_inv m" and u: "TrimSpace username = u" "u \<noteq> []"
  shows "mem_Observe m username now =
    (let m' = pruned_at m u now
     in (case lookup m' u of None \<Rightarrow> pending_state PendingStateUnknown
          | Some e \<Rightarrow> buildStateLocked m' u e now, m'))"
  using u by (simp add: mem_Observe_def shardFor_inv [OF m] pruned_at_def [symmetric] lookup_def Let_def
      split: option.splits)

lemma SampleUser_eq:
  assumes m: "mem_inv m" and u: "TrimSpace username = u" "u \<noteq> []"
  shows "mem_SampleUserQueueDepth m username now =
    (let m' = pruned_at m u now
     in (case lookup m' u of None \<Rightarrow> (0, BackpressureNone)
          | Some e \<Rightarrow> if live e then (1, mem_classifyUserBackpressure m' 1) else (0, BackpressureNone), m'))"
  using u by (simp add: mem_SampleUserQueueDepth_def shardFor_inv [OF m] pruned_at_def [symmetric] lookup_def
      Let_def live_def split: option.splits)

lemma Observe_snd: "mem_inv m \<Longrightarrow> \<exists>js. snd (mem_Observe m username now) = prunes m now js
    \<and> (\<forall>j\<in>set js. j < length (mc_shards m)) \<and> distinct js"
proof (cases "TrimSpace username = []")
  case True
  then show ?thesis by (intro exI [of _ "[]"]) (simp add: mem_Observe_def)
next
  case False
  assume "mem_inv m"
  with Observe_eq [OF this refl False, of now] show ?thesis
    by (intro exI [of _ "[idx m (TrimSpace username)]"])
      (simp add: Let_def pruned_at_def idx_less mem_inv_shards_ok)
qed

lemma SampleUser_snd: "mem_inv m \<Longrightarrow> \<exists>js. snd (mem_SampleUserQueueDepth m username now) = prunes m now js
    \<and> (\<forall>j\<in>set js. j < length (mc_shards m)) \<and> distinct js"
proof (cases "TrimSpace username = []")
  case True
  then show ?thesis by (intro exI [of _ "[]"]) (simp add: mem_SampleUserQueueDepth_def)
next
  case False
  assume "mem_inv m"
  with SampleUser_eq [OF this refl False, of now] show ?thesis
    by (intro exI [of _ "[idx m (TrimSpace username)]"])
      (simp add: Let_def pruned_at_def idx_less mem_inv_shards_ok)
qed

lemma Sample_snd: "\<exists>js. snd (mem_SampleQueueDepth m now) = prunes m now js
    \<and> (\<forall>j\<in>set js. j < length (mc_shards m)) \<and> distinct js"
  by (intro exI [of _ "[0..<length (mc_shards m)]"])
    (simp add: mem_SampleQueueDepth_def pruneAllShards_def Let_def prune_upto_prunes)

lemma ListExpired_snd: "\<exists>js. snd (mem_ListExpired m limit now) = prunes m now js
    \<and> (\<forall>j\<in>set js. j < length (mc_shards m)) \<and> distinct js"
proof -
  obtain js ks where js: "[0..<length (mc_shards m)] = js @ ks"
    and eq: "snd (mem_ListExpired m limit now) = prunes m now js"
    unfolding mem_ListExpired_def using list_loop_prunes by blast
  have "set js \<subseteq> set [0..<length (mc_shards m)]" "distinct (js @ ks)"
    unfolding js by (simp, simp add: js [symmetric])
  with eq show ?thesis by (intro exI [of _ js]) auto
qed

end
