(* ===== verification/PendingMemoryRuns.thy ===== *)
theory PendingMemoryRuns
  imports PendingMemoryOps
begin

text \<open>
  Runs of the in-memory coordinator: sequences of its operations, the contract of a lease
  backend as a locale, and its interpretation on the coordinator. The contract speaks of
  the holder of a user (the owner of a live lease and the instant the lease lapses) and
  promises that only a release or the passing of that instant ends it.
\<close>

section \<open>Operations as steps\<close>

datatype mem_op =
    OpAcquire string LeaseMetadata instant string
  | OpRelease string string instant
  | OpHeartbeat string string instant
  | OpObserve string instant
  | OpSample instant
  | OpSampleUser string instant
  | OpListExpired int instant
  | OpUpdateProfile BackpressureDelayProfile instant

fun op_time :: "mem_op \<Rightarrow> instant" where
  "op_time (OpAcquire u meta now owner) = now"
| "op_time (OpRelease u owner now) = now"
| "op_time (OpHeartbeat u owner now) = now"
| "op_time (OpObserve u now) = now"
| "op_time (OpSample now) = now"
| "op_time (OpSampleUser u now) = now"
| "op_time (OpListExpired limit now) = now"
| "op_time (OpUpdateProfile p now) = now"

text \<open>A profile update that panics leaves the coordinator as it was.\<close>

fun mem_step :: "memoryPendingCoordinator \<Rightarrow> mem_op \<Rightarrow> memoryPendingCoordinator" where
  "mem_step m (OpAcquire u meta now owner) = snd (mem_Acquire m u meta now owner)"
| "mem_step m (OpRelease u owner now) = snd (mem_Release m u owner now)"
| "mem_step m (OpHeartbeat u owner now) = snd (mem_Heartbeat m u owner now)"
| "mem_step m (OpObserve u now) = snd (mem_Observe m u now)"
| "mem_step m (OpSample now) = snd (mem_SampleQueueDepth m now)"
| "mem_step m (OpSampleUser u now) = snd (mem_SampleUserQueueDepth m u now)"
| "mem_step m (OpListExpired limit now) = snd (mem_ListExpired m limit now)"
| "mem_step m (OpUpdateProfile p now) =
    (case mem_UpdateBackpressureProfile m p of Inl e \<Rightarrow> m | Inr m' \<Rightarrow> m')"

definition mem_run :: "memoryPendingCoordinator \<Rightarrow> mem_op list \<Rightarrow> memoryPendingCoordinator" where
  "mem_run = foldl mem_step"

lemma mem_run_simps [simp]: "mem_run m [] = m" "mem_run m (a # ops) = mem_run (mem_step m a) ops"
  "mem_run m (ops @ [a]) = mem_step (mem_run m ops) a"
  by (simp_all add: mem_run_def)

section \<open>The invariant along a run\<close>

lemma update_profile_frame:
  assumes "mem_UpdateBackpressureProfile m p = Inr m'"
  shows "mc_shards m' = mc_shards m" "mc_shardMask m' = mc_shardMask m"
    "mc_activeCount m' = mc_activeCount m"
    "\<exists>q. mc_cfg m' = (mc_cfg m)\<lparr>DelayProfileOf := q\<rparr>"
  using assms by (auto simp: mem_UpdateBackpressureProfile_def Let_def split: sum.splits)

lemma same_shards:
  assumes "mc_shards m' = mc_shards m" "mc_shardMask m' = mc_shardMask m"
  shows "idx m' u = idx m u" "lookup m' u = lookup m u" "total m' = total m"
    "shards_ok m' = shards_ok m" "shard_inv m' i sh = shard_inv m i sh"
proof -
  show i: "idx m' u = idx m u" for u using assms by (simp add: idx_def shardIndex_def Let_def)
  then show "lookup m' u = lookup m u" "shard_inv m' i sh = shard_inv m i sh"
    using assms by (simp_all add: lookup_def shard_inv_def)
qed (use assms in \<open>simp_all add: total_def shards_ok_def\<close>)

lemma mem_step_inv [inv_intros]: "mem_inv m \<Longrightarrow> mem_inv (mem_step m a)"
proof (cases a)
  case (OpObserve u now)
  assume m: "mem_inv m"
  with OpObserve Observe_snd [OF m, of u now] show ?thesis by (auto simp: prunes_inv)
next
  case (OpSample now)
  assume m: "mem_inv m"
  with OpSample Sample_snd [of m now] show ?thesis by (auto simp: prunes_inv)
next
  case (OpSampleUser u now)
  assume m: "mem_inv m"
  with OpSampleUser SampleUser_snd [OF m, of u now] show ?thesis by (auto simp: prunes_inv)
next
  case (OpListExpired limit now)
  assume m: "mem_inv m"
  with OpListExpired ListExpired_snd [of m limit now] show ?thesis by (auto simp: prunes_inv)
next
  case (OpUpdateProfile p now)
  assume m: "mem_inv m"
  show ?thesis
  proof (cases "mem_UpdateBackpressureProfile m p")
    case (Inr m')
    note F = update_profile_frame [OF Inr]
    show ?thesis
      using m OpUpdateProfile Inr F by (simp add: mem_inv_def same_shards [OF F(1,2)])
  qed (use m OpUpdateProfile in simp)
qed (simp_all add: Acquire_inv Release_inv Heartbeat_inv)

lemma mem_run_inv: "mem_inv m \<Longrightarrow> mem_inv (mem_run m ops)"
  by (induction ops arbitrary: m) (simp_all add: mem_step_inv)

lemma nextPowerOfTwo_32: "nextPowerOfTwo defaultMemoryPendingShardCount = 32"
  by code_simp

lemma new_inv:
  assumes "newMemoryPendingCoordinator cfg component = Inr m"
  shows "mem_inv m" "\<exists>q. mc_cfg m = cfg\<lparr>DelayProfileOf := q\<rparr>"
    "mc_activeCount m = 0" "lookup m u = None"
proof -
  from assms obtain p where m: "m = \<lparr>mc_cfg = cfg\<lparr>DelayProfileOf := p\<rparr>, mc_component = component,
      mc_shards = replicate 32 [], mc_shardMask = 31, mc_profile = p, mc_activeCount = 0\<rparr>"
    by (auto simp: newMemoryPendingCoordinator_def Let_def nextPowerOfTwo_32
        defaultMemoryPendingShardCount_def split: sum.splits)
      (simp_all add: nextPowerOfTwo_32 [unfolded defaultMemoryPendingShardCount_def])
  have ok: "shards_ok m" unfolding shards_ok_def by (intro exI [of _ 5]) (simp add: m)
  then have "idx m u < 32" using idx_less [of m u] by (simp add: m)
  then show "lookup m u = None" by (simp add: lookup_def) (simp add: m)
  show "mem_inv m" using ok by (auto simp: mem_inv_def shard_inv_def total_def m)
  show "\<exists>q. mc_cfg m = cfg\<lparr>DelayProfileOf := q\<rparr>" "mc_activeCount m = 0" by (auto simp: m)
qed

section \<open>The hard limit\<close>

lemma pruneShard_delta: "snd (pruneShardLocked cfg now sh) \<le> 0"
proof (induction cfg now sh rule: pruneShardLocked.induct)
  case (2 cfg now v e sh)
  have "snd (maybeExpireLocked cfg now e) \<le> 0"
    using maybeExpire_cases [of cfg now e] by auto
  moreover obtain e' d where e': "maybeExpireLocked cfg now e = (e', d)" by fastforce
  note "2.IH" [OF e' [symmetric] refl]
  ultimately show ?case by (simp add: e' case_prod_beta)
qed simp

lemma prune_active_le: "mc_activeCount (prune_at m i now) \<le> mc_activeCount m"
  using pruneShard_delta [of "mc_cfg m" now "mc_shards m ! i"]
  by (simp add: prune_at_def case_prod_beta)

lemma prunes_active_le: "mc_activeCount (prunes m now js) \<le> mc_activeCount m"
proof (induction js arbitrary: m)
  case (Cons i js)
  from Cons [of "prune_at m i now"] prune_active_le [of m i now] show ?case by simp
qed simp

text \<open>What a step keeps of the configuration and of the counter.\<close>

definition step_bound :: "memoryPendingCoordinator \<Rightarrow> memoryPendingCoordinator \<Rightarrow> bool" where
  "step_bound m m' \<longleftrightarrow> (\<exists>q. mc_cfg m' = (mc_cfg m)\<lparr>DelayProfileOf := q\<rparr>) \<and>
    (mc_activeCount m' \<le> mc_activeCount m
     \<or> mc_activeCount m' \<le> mc_activeCount m + 1
       \<and> (0 < BackpressureHardLimit (mc_cfg m) \<longrightarrow> mc_activeCount m' \<le> BackpressureHardLimit (mc_cfg m)))"

lemma step_boundI: "mc_cfg m' = mc_cfg m \<Longrightarrow> mc_activeCount m' \<le> mc_activeCount m \<Longrightarrow> step_bound m m'"
  unfolding step_bound_def by (intro conjI exI [of _ "DelayProfileOf (mc_cfg m)"]) simp_all

lemma step_bound_refl [simp]: "step_bound m m"
  by (rule step_boundI) simp_all

lemma Acquire_bound:
  assumes m: "mem_inv m"
  shows "step_bound m (snd (mem_Acquire m username meta now owner))"
proof (cases "TrimSpace username = []")
  case True
  then show ?thesis by (simp add: mem_Acquire_def)
next
  case False
  let ?u = "TrimSpace username"
  let ?m = "pruned_at m ?u now"
  have le: "mc_activeCount ?m \<le> mc_activeCount m" by (simp add: pruned_at_def prune_active_le)
  then have "step_bound m ?m" by (rule step_boundI [rotated]) simp
  moreover have "\<not> over_limit ?m \<Longrightarrow> step_bound m (granted ?m ?u l meta now)" for l
    unfolding step_bound_def using le
    by (intro conjI exI [of _ "DelayProfileOf (mc_cfg m)"]) (auto simp: over_limit_def)
  ultimately show ?thesis
    using Acquire_eq [OF m refl False, of meta now owner] by (simp add: Let_def split: option.splits)
qed

lemma release_delta: "release_entry now e = (dur, e', d) \<Longrightarrow> d \<le> 0"
  by (drule release_entry_facts(6)) simp

lemma Release_bound:
  assumes m: "mem_inv m"
  shows "step_bound m (snd (mem_Release m username owner now))"
proof (cases "TrimSpace username = []")
  case True
  then show ?thesis by (simp add: mem_Release_def)
next
  case False
  show ?thesis
    using Release_eq [OF m refl False, of owner now] release_delta [of now]
    by (auto split: option.splits prod.splits intro!: step_boundI)
qed

lemma Heartbeat_bound:
  assumes m: "mem_inv m"
  shows "step_bound m (snd (mem_Heartbeat m username owner now))"
proof (cases "TrimSpace username = [] \<or> TrimSpace owner = []")
  case True
  then show ?thesis by (auto simp: mem_Heartbeat_def Let_def)
next
  case False
  then show ?thesis
    using Heartbeat_eq [OF m refl _ refl, of username owner now]
    by (auto split: option.splits intro!: step_boundI)
qed

lemma mem_step_bound: "mem_inv m \<Longrightarrow> step_bound m (mem_step m a)"
proof (cases a)
  case (OpObserve u now)
  assume m: "mem_inv m"
  with OpObserve Observe_snd [OF m, of u now] show ?thesis
    by (auto intro!: step_boundI simp: prunes_active_le)
next
  case (OpSample now)
  with Sample_snd [of m now] show ?thesis by (auto intro!: step_boundI simp: prunes_active_le)
next
  case (OpSampleUser u now)
  assume m: "mem_inv m"
  with OpSampleUser SampleUser_snd [OF m, of u now] show ?thesis
    by (auto intro!: step_boundI simp: prunes_active_le)
next
  case (OpListExpired limit now)
  with ListExpired_snd [of m limit now] show ?thesis by (auto intro!: step_boundI simp: prunes_active_le)
next
  case (OpUpdateProfile p now)
  show ?thesis
  proof (cases "mem_UpdateBackpressureProfile m p")
    case (Inr m')
    note F = update_profile_frame [OF Inr]
    show ?thesis using OpUpdateProfile Inr F by (simp add: step_bound_def)
  qed (use OpUpdateProfile in simp)
qed (simp_all add: Acquire_bound Release_bound Heartbeat_bound)

definition within_limit :: "memoryPendingCoordinator \<Rightarrow> bool" where
  "within_limit m \<longleftrightarrow> (0 < BackpressureHardLimit (mc_cfg m) \<longrightarrow> mc_activeCount m \<le> BackpressureHardLimit (mc_cfg m))"

lemma mem_step_limit: "mem_inv m \<Longrightarrow> within_limit m \<Longrightarrow> within_limit (mem_step m a)"
  using mem_step_bound [of m a] by (auto simp: within_limit_def step_bound_def)

lemma mem_run_limit: "mem_inv m \<Longrightarrow> within_limit m \<Longrightarrow> within_limit (mem_run m ops)"
  by (induction ops arbitrary: m) (simp_all add: mem_step_inv mem_step_limit)

lemma mem_run_cfg: "mem_inv m \<Longrightarrow> \<exists>q. mc_cfg (mem_run m ops) = (mc_cfg m)\<lparr>DelayProfileOf := q\<rparr>"
proof (induction ops arbitrary: m)
  case Nil
  show ?case by (intro exI [of _ "DelayProfileOf (mc_cfg m)"]) simp
next
  case (Cons a ops)
  obtain q where "mc_cfg (mem_run (mem_step m a) ops) = (mc_cfg (mem_step m a))\<lparr>DelayProfileOf := q\<rparr>"
    using Cons.IH [OF mem_step_inv [OF Cons.prems], of a] by blast
  moreover obtain r where "mc_cfg (mem_step m a) = (mc_cfg m)\<lparr>DelayProfileOf := r\<rparr>"
    using mem_step_bound [OF Cons.prems, of a] unfolding step_bound_def by blast
  ultimately show ?case by auto
qed

end
