(* ===== verification/LeaseContract.thy ===== *)
theory LeaseContract
  imports GoBase
begin

text \<open>
  The contract of a lease backend, as its callers rely on it, independent of where the
  leases are kept. The holder of a user is the owner of a live lease with the instant at
  which it lapses; the window is the shortest life of a lease that is neither released nor
  renewed. The coordinator's operations are the steps.
\<close>

locale lease_backend =
  fixes ok :: "'s \<Rightarrow> bool"
    and step :: "'s \<Rightarrow> 'op \<Rightarrow> 's"
    and clock :: "'op \<Rightarrow> instant"
    and releases :: "'op \<Rightarrow> string \<Rightarrow> string \<Rightarrow> bool"
    and grants :: "'s \<Rightarrow> 'op \<Rightarrow> (string \<times> string) option"
    and holder :: "'s \<Rightarrow> string \<Rightarrow> (string \<times> instant) option"
    and window :: "'s \<Rightarrow> duration"
  assumes ok_step: "ok s \<Longrightarrow> ok (step s a)"
    and window_step: "ok s \<Longrightarrow> window (step s a) = window s"
    and kept: "ok s \<Longrightarrow> holder s u = Some (owner, d) \<Longrightarrow> \<not> releases a u owner \<Longrightarrow> 0 < clock a \<Longrightarrow>
      clock a < d \<Longrightarrow> \<exists>d'. holder (step s a) u = Some (owner, d') \<and> min d (clock a + window s) \<le> d'"
    and not_stolen: "ok s \<Longrightarrow> holder s u = Some (owner, d) \<Longrightarrow> clock a < d \<Longrightarrow> grants s a \<noteq> Some (u, other)"
    and grant_held: "ok s \<Longrightarrow> 0 < clock a \<Longrightarrow> grants s a = Some (u, owner) \<Longrightarrow>
      \<exists>d. holder (step s a) u = Some (owner, d) \<and> clock a + window s \<le> d"
begin

lemma ok_run: "ok s \<Longrightarrow> ok (foldl step s ops)"
  by (induction ops arbitrary: s) (simp_all add: ok_step)

lemma window_run: "ok s \<Longrightarrow> window (foldl step s ops) = window s"
  by (induction ops arbitrary: s) (simp_all add: ok_step window_step)

lemma held_run:
  assumes "ok s" and "holder s u = Some (owner, d)" and "t0 + window s \<le> d"
    and "\<forall>a\<in>set ops. \<not> releases a u owner \<and> t0 \<le> clock a \<and> clock a < t0 + window s" and "0 < t0"
  shows "\<exists>d'. holder (foldl step s ops) u = Some (owner, d') \<and> t0 + window s \<le> d'"
  using assms
proof (induction ops arbitrary: s d)
  case Nil
  then show ?case by auto
next
  case (Cons a ops)
  from Cons.prems have a: "\<not> releases a u owner" "t0 \<le> clock a" "clock a < t0 + window s" by simp_all
  with Cons.prems have "0 < clock a" "clock a < d" by simp_all
  from kept [OF Cons.prems(1,2) a(1) this] obtain d' where
    d': "holder (step s a) u = Some (owner, d')" "min d (clock a + window s) \<le> d'" by blast
  have w: "window (step s a) = window s" by (rule window_step [OF Cons.prems(1)])
  have "t0 + window (step s a) \<le> d'" using d'(2) a(2) Cons.prems(3) by (simp add: w)
  moreover have "\<forall>b\<in>set ops. \<not> releases b u owner \<and> t0 \<le> clock b \<and> clock b < t0 + window (step s a)"
    using Cons.prems(4) by (simp add: w)
  ultimately have "\<exists>d'. holder (foldl step (step s a) ops) u = Some (owner, d') \<and> t0 + window (step s a) \<le> d'"
    by (rule Cons.IH [OF ok_step [OF Cons.prems(1)] d'(1) _ _ Cons.prems(5)])
  then show ?case by (simp add: w)
qed

text \<open>No operation before the window has passed is granted the lease of a held user.\<close>

lemma exclusive_run:
  assumes "ok s" and "holder s u = Some (owner, d)" and "t0 + window s \<le> d"
    and "\<forall>a\<in>set ops. \<not> releases a u owner \<and> t0 \<le> clock a \<and> clock a < t0 + window s" and "0 < t0"
    and "i < length ops"
  shows "grants (foldl step s (take i ops)) (ops ! i) \<noteq> Some (u, other)"
proof -
  have "\<forall>a\<in>set (take i ops). \<not> releases a u owner \<and> t0 \<le> clock a \<and> clock a < t0 + window s"
    using assms(4) by (auto dest: in_set_takeD)
  from held_run [OF assms(1-3) this assms(5)] obtain d' where
    d': "holder (foldl step s (take i ops)) u = Some (owner, d')" "t0 + window s \<le> d'" by blast
  have "clock (ops ! i) < d'" using assms(4,6) d'(2) nth_mem by force
  from not_stolen [OF ok_run [OF assms(1)] d'(1) this] show ?thesis .
qed

lemma exclusive_after_grant:
  assumes "ok s" and "grants s a = Some (u, owner)" and "0 < clock a"
    and "\<forall>b\<in>set ops. \<not> releases b u owner \<and> clock a \<le> clock b \<and> clock b < clock a + window s"
  shows "(\<exists>d. holder (foldl step (step s a) ops) u = Some (owner, d) \<and> clock a + window s \<le> d)
    \<and> (\<forall>i<length ops. grants (foldl step (step s a) (take i ops)) (ops ! i) \<noteq> Some (u, other))"
proof -
  from grant_held [OF assms(1,3,2)] obtain d where
    d: "holder (step s a) u = Some (owner, d)" "clock a + window (step s a) \<le> d"
    by (auto simp: window_step assms(1))
  have ops: "\<forall>b\<in>set ops. \<not> releases b u owner \<and> clock a \<le> clock b \<and> clock b < clock a + window (step s a)"
    using assms(4) by (simp add: window_step assms(1))
  show ?thesis
    using held_run [OF ok_step [OF assms(1)] d ops assms(3)]
      exclusive_run [OF ok_step [OF assms(1)] d ops assms(3)]
    by (simp add: window_step assms(1))
qed

end

text \<open>A backend that also counts its leases and refuses to exceed a positive limit.\<close>

locale limited_lease_backend = lease_backend +
  fixes active :: "'s \<Rightarrow> int" and limit :: "'s \<Rightarrow> int"
  assumes limit_step: "ok s \<Longrightarrow> limit (step s a) = limit s"
    and refused: "ok s \<Longrightarrow> 0 < limit s \<Longrightarrow> active s \<le> limit s \<Longrightarrow> active (step s a) \<le> limit s"
begin

lemma active_bounded: "ok s \<Longrightarrow> 0 < limit s \<Longrightarrow> active s \<le> limit s \<Longrightarrow> active (foldl step s ops) \<le> limit s"
proof (induction ops arbitrary: s)
  case (Cons a ops)
  then show ?case using Cons.IH [OF ok_step] refused limit_step by fastforce
qed simp

end

end
