(* ===== verification/PendingMemoryLease.thy ===== *)
theory PendingMemoryLease
  imports PendingMemoryRuns LeaseContract
begin

text \<open>
  The in-memory coordinator as a lease backend: when a lease lapses, what each operation
  does to the holder of a user, and the interpretation of the contract.
\<close>

section \<open>The deadline of a lease\<close>

definition heartbeat_base :: "memoryLeaseEntry \<Rightarrow> PendingLease \<Rightarrow> instant" where
  "heartbeat_base e l = (if IsZero (me_lastHeartbeat e) then pl_AcquireAt l else me_lastHeartbeat e)"

definition deadline :: "PendingCoordinatorConfig \<Rightarrow> memoryLeaseEntry \<Rightarrow> PendingLease \<Rightarrow> instant" where
  "deadline cfg e l =
    (let b = pl_LeaseExpiresAt l + ExpiredGracePeriod cfg + 1
     in if 0 < HeartbeatTimeout cfg \<and> \<not> IsZero (heartbeat_base e l)
        then min (heartbeat_base e l + HeartbeatTimeout cfg) b else b)"

definition lease_window :: "memoryPendingCoordinator \<Rightarrow> duration" where
  "lease_window m =
    (let b = LeaseTTL (mc_cfg m) + ExpiredGracePeriod (mc_cfg m) + 1
     in if 0 < HeartbeatTimeout (mc_cfg m) then min (HeartbeatTimeout (mc_cfg m)) b else b)"

lemma not_expired_iff:
  assumes "live e" and "me_lease e = Some l" and "in64 (HeartbeatTimeout cfg)"
  shows "maybeExpireLocked cfg now e = (e, 0) \<longleftrightarrow> now < deadline cfg e l"
  using assms
  by (auto simp: maybeExpireLocked_def deadline_def heartbeat_base_def Let_def live_def time_simps
      time_Sub_ge_iff)

lemma pruned_live:
  assumes "live e" and "me_lease e = Some l" and "in64 (HeartbeatTimeout cfg)" and "now < deadline cfg e l"
  shows "pruned cfg now e = Some e"
proof -
  have "maybeExpireLocked cfg now e = (e, 0)" using not_expired_iff [OF assms(1-3)] assms(4) by blast
  then show ?thesis using prune_drop_not_live assms(1) by (auto simp: pruned_def)
qed

section \<open>Holders\<close>

definition mem_holder :: "memoryPendingCoordinator \<Rightarrow> string \<Rightarrow> (string \<times> instant) option" where
  "mem_holder m u =
    (case lookup m u of
       Some e \<Rightarrow> (case me_lease e of
                   Some l \<Rightarrow> if live e then Some (pl_OwnerID l, deadline (mc_cfg m) e l) else None
                 | None \<Rightarrow> None)
     | None \<Rightarrow> None)"

fun mem_releases :: "mem_op \<Rightarrow> string \<Rightarrow> string \<Rightarrow> bool" where
  "mem_releases (OpRelease username owner now) u holder \<longleftrightarrow>
    TrimSpace username = u \<and> (owner = [] \<or> holder = [] \<or> owner = holder)"
| "mem_releases a u holder \<longleftrightarrow> False"

fun mem_grants :: "memoryPendingCoordinator \<Rightarrow> mem_op \<Rightarrow> (string \<times> string) option" where
  "mem_grants m (OpAcquire username meta now owner) =
    (case fst (mem_Acquire m username meta now owner) of
       Inl e \<Rightarrow> None | Inr r \<Rightarrow> Some (pl_Username (ar_Lease r), pl_OwnerID (ar_Lease r)))"
| "mem_grants m a = None"

definition mem_ok :: "memoryPendingCoordinator \<Rightarrow> bool" where
  "mem_ok m \<longleftrightarrow> mem_inv m \<and> in64 (HeartbeatTimeout (mc_cfg m))"

lemma holder_SomeE:
  assumes "mem_holder m u = Some (owner, d)"
  obtains e l where "lookup m u = Some e" "me_lease e = Some l" "live e" "owner = pl_OwnerID l"
    "d = deadline (mc_cfg m) e l"
  using assms by (auto simp: mem_holder_def split: option.splits if_splits)

lemma holder_same:
  "lookup m' u = lookup m u \<Longrightarrow> mc_cfg m' = mc_cfg m \<Longrightarrow> mem_holder m' u = mem_holder m u"
  by (simp add: mem_holder_def split: option.split)

lemma bind_pruned_live:
  assumes "mem_ok m" and "mem_holder m u = Some (owner, d)" and "now < d"
  shows "Option.bind (lookup m u) (pruned (mc_cfg m) now) = lookup m u"
  using assms by (auto elim!: holder_SomeE simp: mem_ok_def pruned_live)

lemma holder_prunes:
  assumes "mem_ok m" and "mem_holder m u = Some (owner, d)" and "now < d"
    and "\<forall>j\<in>set js. j < length (mc_shards m)" and "distinct js"
  shows "mem_holder (prunes m now js) u = Some (owner, d)"
  using holder_same [of "prunes m now js" u m] lookup_prunes [of m js now u] bind_pruned_live [OF assms(1-3)]
    assms by (auto simp: mem_ok_def)

lemma holder_pruned_at:
  assumes "mem_ok m" and "mem_holder m u = Some (owner, d)" and "now < d"
  shows "mem_holder (pruned_at m v now) u = Some (owner, d)"
    and "lookup (pruned_at m v now) u = lookup m u"
proof -
  show l: "lookup (pruned_at m v now) u = lookup m u"
    using assms bind_pruned_live [OF assms] by (simp add: lookup_pruned_at mem_ok_def)
  show "mem_holder (pruned_at m v now) u = Some (owner, d)"
    using holder_same [OF l] assms(2) by simp
qed

section \<open>What each operation does to a holder\<close>

lemma Acquire_kept:
  assumes m: "mem_ok m" and h: "mem_holder m u = Some (owner, d)" and t: "now < d"
  shows "mem_holder (snd (mem_Acquire m username meta now new)) u = Some (owner, d)"
    and "TrimSpace username = u \<Longrightarrow> \<exists>err. fst (mem_Acquire m username meta now new) = Inl err"
proof -
  have inv: "mem_inv m" using m by (simp add: mem_ok_def)
  note P = holder_pruned_at [OF m h t, of "TrimSpace username"]
  from h have ne: "lookup m u \<noteq> None" by (auto elim: holder_SomeE)
  have u: "u \<noteq> []" using ne lookup_ok [OF inv] by auto
  show "mem_holder (snd (mem_Acquire m username meta now new)) u = Some (owner, d)"
  proof (cases "TrimSpace username = []")
    case True
    then show ?thesis by (simp add: mem_Acquire_def h)
  next
    case False
    let ?v = "TrimSpace username"
    let ?m = "pruned_at m ?v now"
    have "lookup ?m ?v = None \<Longrightarrow> lookup (granted ?m ?v l meta now) u = lookup ?m u" for l
      using ne P(2) by (auto simp: lookup_granted [OF pruned_at_inv [OF inv]])
    then have "lookup ?m ?v = None \<Longrightarrow> mem_holder (granted ?m ?v l meta now) u = Some (owner, d)" for l
      using holder_same [of "granted ?m ?v l meta now" u ?m] P(1) by simp
    then show ?thesis
      using Acquire_eq [OF inv refl False, of meta now new] P(1) by (auto simp: Let_def split: option.splits)
  qed
  show "\<exists>err. fst (mem_Acquire m username meta now new) = Inl err" if "TrimSpace username = u"
    using Acquire_eq [OF inv that u, of meta now new] P(2) ne that
    by (auto simp: Let_def split: option.splits)
qed

lemma Release_kept:
  assumes m: "mem_ok m" and h: "mem_holder m u = Some (owner, d)"
    and r: "\<not> (TrimSpace username = u \<and> (ow = [] \<or> owner = [] \<or> ow = owner))"
  shows "mem_holder (snd (mem_Release m username ow now)) u = Some (owner, d)"
proof -
  have inv: "mem_inv m" using m by (simp add: mem_ok_def)
  let ?v = "TrimSpace username"
  show ?thesis
  proof (cases "?v = []")
    case True
    then show ?thesis by (simp add: mem_Release_def h)
  next
    case False
    from h obtain e l where e: "lookup m u = Some e" "me_lease e = Some l" "owner = pl_OwnerID l"
      by (auto elim: holder_SomeE)
    have mism: "?v = u \<Longrightarrow> owner_mismatch e ow" using r e by (auto simp: owner_mismatch_def)
    have "?v \<noteq> u \<Longrightarrow> mem_holder (put_shard m (idx m ?v) (AList.update ?v e' (mc_shards m ! idx m ?v)) k) u
        = Some (owner, d)" for e' k
      using h holder_same [of "put_shard m (idx m ?v) (AList.update ?v e' (mc_shards m ! idx m ?v)) k" u m]
      by (simp add: lookup_set_entry [OF inv refl])
    then show ?thesis
      using Release_eq [OF inv refl False, of ow now] h mism e
      by (cases "?v = u") (simp_all add: case_prod_beta split: option.split)
  qed
qed

lemma deadline_heartbeat:
  assumes "0 < now" and "me_lease e = Some l"
  shows "\<exists>l'. me_lease (heartbeat_entry cfg now l e) = Some l' \<and> pl_OwnerID l' = pl_OwnerID l
    \<and> min (deadline cfg e l) (now + (let b = LeaseTTL cfg + ExpiredGracePeriod cfg + 1
         in if 0 < HeartbeatTimeout cfg then min (HeartbeatTimeout cfg) b else b))
      \<le> deadline cfg (heartbeat_entry cfg now l e) l'"
  using assms(1)
  by (auto simp: heartbeat_lease deadline_def heartbeat_base_def Let_def time_simps)

lemma Heartbeat_kept:
  assumes m: "mem_ok m" and h: "mem_holder m u = Some (owner, d)" and t: "0 < now"
  shows "\<exists>d'. mem_holder (snd (mem_Heartbeat m username ow now)) u = Some (owner, d')
    \<and> min d (now + lease_window m) \<le> d'"
proof -
  have inv: "mem_inv m" using m by (simp add: mem_ok_def)
  let ?v = "TrimSpace username"
  show ?thesis
  proof (cases "?v = [] \<or> TrimSpace ow = []")
    case True
    then show ?thesis using h by (auto simp: mem_Heartbeat_def Let_def)
  next
    case False
    then have v: "?v \<noteq> []" and w: "TrimSpace ow \<noteq> []" by auto
    from h obtain e l where e: "lookup m u = Some e" "me_lease e = Some l" "live e" "owner = pl_OwnerID l"
      "d = deadline (mc_cfg m) e l"
      by (auto elim: holder_SomeE)
    obtain l' where l': "me_lease (heartbeat_entry (mc_cfg m) now l e) = Some l'" "pl_OwnerID l' = pl_OwnerID l"
      "min d (now + lease_window m) \<le> deadline (mc_cfg m) (heartbeat_entry (mc_cfg m) now l e) l'"
      using deadline_heartbeat [OF t e(2), of "mc_cfg m"] by (auto simp: lease_window_def e(5))
    let ?m = "\<lambda>x e'. put_shard m (idx m x) (AList.update x e' (mc_shards m ! idx m x)) 0"
    have self: "mem_holder (?m u (heartbeat_entry (mc_cfg m) now l e)) u
        = Some (owner, deadline (mc_cfg m) (heartbeat_entry (mc_cfg m) now l e) l')"
      using e l' by (simp add: mem_holder_def lookup_set_entry [OF inv refl])
    have other: "?v \<noteq> u \<Longrightarrow> mem_holder (?m ?v e') u = Some (owner, d)" for e'
      using h holder_same [of "?m ?v e'" u m] by (simp add: lookup_set_entry [OF inv refl])
    show ?thesis
    proof (cases "?v = u")
      case True
      then show ?thesis
        using Heartbeat_eq [OF inv refl v refl w, of now] e self l'(3) h by auto
    next
      case False
      then show ?thesis
        using Heartbeat_eq [OF inv refl v refl w, of now] h other by (auto split: option.splits)
    qed
  qed
qed

lemma Update_kept:
  assumes "mem_UpdateBackpressureProfile m p = Inr m'"
  shows "mem_holder m' u = mem_holder m u" "lease_window m' = lease_window m"
    "HeartbeatTimeout (mc_cfg m') = HeartbeatTimeout (mc_cfg m)"
proof -
  note F = update_profile_frame [OF assms]
  from F(4) obtain q where q: "mc_cfg m' = (mc_cfg m)\<lparr>DelayProfileOf := q\<rparr>" ..
  then show "mem_holder m' u = mem_holder m u"
    by (simp add: mem_holder_def same_shards(2) [OF F(1,2)] deadline_def Let_def split: option.split)
  show "lease_window m' = lease_window m" "HeartbeatTimeout (mc_cfg m') = HeartbeatTimeout (mc_cfg m)"
    using q by (simp_all add: lease_window_def Let_def)
qed

section \<open>The interpretation\<close>

lemma prunes_contract:
  assumes m: "mem_ok m"
    and p: "m' = prunes m now js" "\<forall>j\<in>set js. j < length (mc_shards m)" "distinct js"
  shows "mem_ok m'" "lease_window m' = lease_window m"
    "mem_holder m u = Some (owner, d) \<Longrightarrow> now < d \<Longrightarrow> mem_holder m' u = Some (owner, d)"
  using m p holder_prunes [OF m _ _ p(2,3), of u owner d now]
  by (simp_all add: mem_ok_def lease_window_def prunes_inv Let_def)

lemma mem_ok_step: "mem_ok m \<Longrightarrow> mem_ok (mem_step m a)"
  using mem_step_bound [of m a] by (auto simp: mem_ok_def mem_step_inv step_bound_def)

lemma window_step: "mem_ok m \<Longrightarrow> lease_window (mem_step m a) = lease_window m"
  using mem_step_bound [of m a] by (auto simp: mem_ok_def step_bound_def lease_window_def Let_def)

lemma mem_kept:
  assumes m: "mem_ok m" and h: "mem_holder m u = Some (owner, d)" and r: "\<not> mem_releases a u owner"
    and t: "0 < op_time a" "op_time a < d"
  shows "\<exists>d'. mem_holder (mem_step m a) u = Some (owner, d') \<and> min d (op_time a + lease_window m) \<le> d'"
proof -
  have inv: "mem_inv m" using m by (simp add: mem_ok_def)
  have same: "mem_holder (mem_step m a) u = Some (owner, d) \<Longrightarrow> ?thesis" by simp
  show ?thesis
  proof (cases a)
    case (OpAcquire username meta now new)
    then show ?thesis using Acquire_kept(1) [OF m h] t by (intro same) simp
  next
    case (OpRelease username ow now)
    then show ?thesis using Release_kept [OF m h] r by (intro same) simp
  next
    case (OpHeartbeat username ow now)
    then show ?thesis using Heartbeat_kept [OF m h, of now username ow] t by simp
  next
    case (OpObserve username now)
    with Observe_snd [OF inv, of username now] prunes_contract(3) [OF m _ _ _ h] t
    show ?thesis by (intro same) auto
  next
    case (OpSample now)
    with Sample_snd [of m now] prunes_contract(3) [OF m _ _ _ h] t show ?thesis by (intro same) auto
  next
    case (OpSampleUser username now)
    with SampleUser_snd [OF inv, of username now] prunes_contract(3) [OF m _ _ _ h] t
    show ?thesis by (intro same) auto
  next
    case (OpListExpired limit now)
    with ListExpired_snd [of m limit now] prunes_contract(3) [OF m _ _ _ h] t
    show ?thesis by (intro same) auto
  next
    case (OpUpdateProfile p now)
    with Update_kept(1) [of m p] h show ?thesis by (intro same) (simp split: sum.split)
  qed
qed

lemma grants_E:
  assumes "mem_grants m a = Some (u, owner)" and "mem_inv m"
  obtains username meta where "a = OpAcquire username meta (op_time a) owner" "TrimSpace username = u" "u \<noteq> []"
    "lookup (pruned_at m u (op_time a)) u = None" "\<not> over_limit (pruned_at m u (op_time a))"
    "mem_step m a = granted (pruned_at m u (op_time a)) u
       (new_lease (pruned_at m u (op_time a)) u meta (op_time a) owner (mc_activeCount (pruned_at m u (op_time a))))
       meta (op_time a)"
proof -
  from assms(1) obtain username meta now ow where a: "a = OpAcquire username meta now ow"
    by (cases a) simp_all
  have ne: "TrimSpace username \<noteq> []"
    using assms(1) by (auto simp: a mem_Acquire_def)
  show thesis
    using assms(1) that [of username meta] ne unfolding a
    by (simp add: Acquire_eq [OF assms(2) refl ne] Let_def new_lease_def split: option.splits if_splits)
qed

lemma mem_not_stolen:
  assumes m: "mem_ok m" and h: "mem_holder m u = Some (owner, d)" and t: "op_time a < d"
  shows "mem_grants m a \<noteq> Some (u, other)"
proof
  assume g: "mem_grants m a = Some (u, other)"
  have inv: "mem_inv m" using m by (simp add: mem_ok_def)
  from g inv obtain username meta where a: "a = OpAcquire username meta (op_time a) other" "TrimSpace username = u"
    by (rule grants_E)
  obtain err where "fst (mem_Acquire m username meta (op_time a) other) = Inl err"
    using Acquire_kept(2) [OF m h t a(2)] by blast
  then have "mem_grants m (OpAcquire username meta (op_time a) other) = None" by simp
  with g a(1) show False by simp
qed

lemma mem_grant_held:
  assumes m: "mem_ok m" and t: "0 < op_time a" and g: "mem_grants m a = Some (u, owner)"
  shows "\<exists>d. mem_holder (mem_step m a) u = Some (owner, d) \<and> op_time a + lease_window m \<le> d"
proof -
  have inv: "mem_inv m" using m by (simp add: mem_ok_def)
  let ?m = "pruned_at m u (op_time a)"
  from g inv obtain username meta where st: "mem_step m a = granted ?m u
       (new_lease ?m u meta (op_time a) owner (mc_activeCount ?m)) meta (op_time a)"
    by (rule grants_E)
  show ?thesis
    unfolding st using t
    by (auto simp: mem_holder_def lookup_granted [OF pruned_at_inv [OF inv]] fresh_entry_def live_def
        new_lease_def deadline_def heartbeat_base_def lease_window_def Let_def time_simps)
qed

definition mem_limit :: "memoryPendingCoordinator \<Rightarrow> int" where
  "mem_limit m = BackpressureHardLimit (mc_cfg m)"

interpretation mem: limited_lease_backend mem_ok mem_step op_time mem_releases mem_grants mem_holder
  lease_window mc_activeCount mem_limit
proof unfold_locales
  fix m a
  assume "mem_ok m"
  then have inv: "mem_inv m" by (simp add: mem_ok_def)
  then show "mem_limit (mem_step m a) = mem_limit m"
    using mem_step_bound [of m a] by (auto simp: step_bound_def mem_limit_def)
  assume "0 < mem_limit m" "mc_activeCount m \<le> mem_limit m"
  then show "mc_activeCount (mem_step m a) \<le> mem_limit m"
    using mem_step_bound [OF inv, of a] by (auto simp: step_bound_def mem_limit_def)
qed (simp_all add: mem_ok_step window_step mem_kept mem_not_stolen mem_grant_held)

end
