(* ===== verification/PendingMemorySpec.thy ===== *)
theory PendingMemorySpec
  imports PendingMemoryOps
begin

text \<open>
  The abstract specification of the in-memory coordinator: one table from user names to
  entries, no shards and no counter. The number of active leases is the number of users
  whose entry is in the lease state, and an operation on a user first expires and drops
  the entries of the users pruned with it. The lemmas show that the sharded coordinator
  implements it.
\<close>

type_synonym lease_table = "string \<Rightarrow> memoryLeaseEntry option"

definition active_users :: "lease_table \<Rightarrow> string set" where
  "active_users S = {u. \<exists>e. S u = Some e \<and> live e}"

definition spec_prune :: "PendingCoordinatorConfig \<Rightarrow> instant \<Rightarrow> string set \<Rightarrow> lease_table \<Rightarrow> lease_table" where
  "spec_prune cfg now U S = (\<lambda>u. if u \<in> U then Option.bind (S u) (pruned cfg now) else S u)"

datatype acquire_outcome = Granted PendingLease | Conflict PendingStateValue | Overloaded int

definition spec_acquire ::
  "PendingCoordinatorConfig \<Rightarrow> BackpressureDelayProfile \<Rightarrow> string set \<Rightarrow> lease_table \<Rightarrow> string
    \<Rightarrow> LeaseMetadata \<Rightarrow> instant \<Rightarrow> string \<Rightarrow> acquire_outcome \<times> lease_table" where
  "spec_acquire cfg profile U S u meta now owner =
    (let S' = spec_prune cfg now U S; n = int (card (active_users S'))
     in case S' u of
          Some e \<Rightarrow> (Conflict (me_state e), S')
        | None \<Rightarrow>
            if 0 < BackpressureHardLimit cfg \<and> BackpressureHardLimit cfg \<le> n then (Overloaded n, S')
            else let l = \<lparr>pl_Username = u, pl_OwnerID = owner, pl_Version = 0, pl_AcquireAt = now,
                          pl_LeaseExpiresAt = now + LeaseTTL cfg, pl_HeartbeatAt = now,
                          pl_QueueDepth = n + 1,
                          pl_Backpressure = classifyDepthWithProfile (n + 1) profile
                            (BackpressureSoftLimit cfg) (BackpressureHardLimit cfg),
                          pl_Metadata = meta\<rparr>
                 in (Granted l, S'(u \<mapsto> fresh_entry l meta now)))"

definition spec_release :: "lease_table \<Rightarrow> string \<Rightarrow> string \<Rightarrow> instant \<Rightarrow> (pending_error + duration) \<times> lease_table" where
  "spec_release S u owner now =
    (case S u of
       None \<Rightarrow> (Inr 0, S)
     | Some e \<Rightarrow>
         if owner_mismatch e owner then (Inl ErrPendingLeaseOwnerMismatch, S)
         else (Inr (fst (release_entry now e)), S(u \<mapsto> fst (snd (release_entry now e)))))"

definition spec_heartbeat ::
  "PendingCoordinatorConfig \<Rightarrow> lease_table \<Rightarrow> string \<Rightarrow> string \<Rightarrow> instant \<Rightarrow> pending_error option \<times> lease_table" where
  "spec_heartbeat cfg S u owner now =
    (case S u of
       None \<Rightarrow> (Some ErrPendingLeaseConflict, S)
     | Some e \<Rightarrow>
         if \<not> live e then (Some ErrPendingLeaseConflict, S)
         else if owner_mismatch e owner then (Some ErrPendingLeaseOwnerMismatch, S)
         else (None, S(u \<mapsto> heartbeat_entry cfg now (the (me_lease e)) e)))"

section \<open>The counter is the number of active users\<close>

lemma acount_card:
  "keys_distinct al \<Longrightarrow> acount P al = card {k. \<exists>v. map_of al k = Some v \<and> P v}"
proof (induction al)
  case Nil
  then show ?case by simp
next
  case (Cons kv al)
  obtain k v where kv: "kv = (k, v)" by (cases kv)
  let ?S = "{k'. \<exists>v. map_of al k' = Some v \<and> P v}"
  have k: "k \<notin> ?S" and fin: "finite ?S"
    using Cons.prems finite_dom_map_of [of al]
    by (auto simp: kv map_of_eq_None_iff [symmetric] dom_def intro: rev_finite_subset)
  have "{k'. \<exists>w. map_of (kv # al) k' = Some w \<and> P w} = (if P v then insert k ?S else ?S)"
    using k by (auto simp: kv split: if_splits)
  with Cons k fin show ?case by (simp add: kv)
qed

lemma active_card:
  assumes "mem_inv m"
  shows "mc_activeCount m = int (card (active_users (lookup m)))" and "finite (active_users (lookup m))"
proof -
  let ?n = "length (mc_shards m)"
  let ?A = "\<lambda>i. {u. \<exists>e. map_of (mc_shards m ! i) u = Some e \<and> live e}"
  have sh: "shard_inv m i (mc_shards m ! i)" if "i < ?n" for i using assms that by (simp add: mem_inv_def)
  have idx: "idx m u = i" if "i < ?n" "map_of (mc_shards m ! i) u = Some e" for i u e
    using sh [OF that(1)] map_of_SomeD [OF that(2)] unfolding shard_inv_def by fastforce
  have U: "active_users (lookup m) = (\<Union>i\<in>{..<?n}. ?A i)"
    using idx_less [OF mem_inv_shards_ok [OF assms]] idx
    by (fastforce simp: active_users_def lookup_def)
  have fin: "finite (?A i)" for i
    using finite_dom_map_of [of "mc_shards m ! i"] by (auto simp: dom_def intro: rev_finite_subset)
  then show "finite (active_users (lookup m))" unfolding U by simp
  have dj: "?A i \<inter> ?A j = {}" if "i < ?n" "j < ?n" "i \<noteq> j" for i j
    using idx [OF that(1)] idx [OF that(2)] that(3) by blast
  have "card (active_users (lookup m)) = (\<Sum>i\<in>{..<?n}. card (?A i))"
    unfolding U using fin dj by (intro card_UN_disjoint) auto
  also have "\<dots> = (\<Sum>i\<in>{..<?n}. acount live (mc_shards m ! i))"
    using sh by (intro sum.cong) (simp_all add: acount_card shard_inv_def)
  also have "\<dots> = total m"
    by (simp add: total_def sum_list_sum_nth atLeast0LessThan)
  finally show "mc_activeCount m = int (card (active_users (lookup m)))"
    using assms by (simp add: mem_inv_def)
qed

section \<open>Refinement\<close>

definition mates :: "memoryPendingCoordinator \<Rightarrow> string \<Rightarrow> string set" where
  "mates m u = {v. idx m v = idx m u}"

lemma lookup_pruned_spec:
  "mem_inv m \<Longrightarrow> lookup (pruned_at m u now) = spec_prune (mc_cfg m) now (mates m u) (lookup m)"
  by (rule ext) (simp add: lookup_pruned_at spec_prune_def mates_def)

fun outcome :: "pending_error + AcquireResult \<Rightarrow> acquire_outcome option" where
  "outcome (Inr r) = Some (Granted (ar_Lease r))"
| "outcome (Inl (ErrAcquire e)) =
    (case ae_Reason e of
       AcquireFailureConflict \<Rightarrow> Some (Conflict (ps_State (ae_State e)))
     | AcquireFailureBackpressure \<Rightarrow> Some (Overloaded (ae_QueueDepth e)))"
| "outcome (Inl e) = None"

lemma buildState_State: "ps_State (buildStateLocked m u e now) = me_state e"
  by (simp add: buildStateLocked_def lease_part_def Let_def pending_state_def split: option.split)

lemma Acquire_refines:
  assumes m: "mem_inv m" and u: "TrimSpace username = u" "u \<noteq> []"
  shows "(outcome (fst (mem_Acquire m username meta now owner)), lookup (snd (mem_Acquire m username meta now owner)))
    = map_prod Some id (spec_acquire (mc_cfg m) (mc_profile m) (mates m u) (lookup m) u meta now owner)"
proof -
  let ?m = "pruned_at m u now"
  have inv: "mem_inv ?m" by (rule pruned_at_inv [OF m])
  have S: "lookup ?m = spec_prune (mc_cfg m) now (mates m u) (lookup m)" by (rule lookup_pruned_spec [OF m])
  have n: "mc_activeCount ?m = int (card (active_users (lookup ?m)))" by (rule active_card [OF inv])
  show ?thesis
  proof (cases "lookup ?m u")
    case (Some e)
    then show ?thesis
      by (simp add: Acquire_eq [OF m u] Let_def spec_acquire_def S [symmetric] conflict_error_def buildState_State)
  next
    case None
    then show ?thesis
      by (simp add: Acquire_eq [OF m u] Let_def spec_acquire_def S [symmetric] over_limit_def n
          backpressure_error_def lookup_granted [OF inv] new_lease_def mem_classifyBackpressure_def time_simps)
  qed
qed

lemma Release_refines:
  assumes m: "mem_inv m" and u: "TrimSpace username = u" "u \<noteq> []"
  shows "map_prod id lookup (mem_Release m username owner now) = spec_release (lookup m) u owner now"
  by (simp add: Release_eq [OF m u] spec_release_def lookup_set_entry [OF m refl] case_prod_beta
      split: option.split)

lemma Heartbeat_refines:
  assumes m: "mem_inv m" and u: "TrimSpace username = u" "u \<noteq> []" and w: "TrimSpace owner = w" "w \<noteq> []"
  shows "map_prod id lookup (mem_Heartbeat m username owner now) = spec_heartbeat (mc_cfg m) (lookup m) u w now"
  by (simp add: Heartbeat_eq [OF m u w] spec_heartbeat_def lookup_set_entry [OF m refl] split: option.split)

end
