(* ===== verification/PendingMemoryProperties.thy ===== *)
theory PendingMemoryProperties
  imports PendingMemoryLease PendingMemorySpec
begin

text \<open>
  The properties of the in-memory coordinator: exclusive leases, an exact and bounded
  counter, refinement of the table specification, the life of a lease, and the race on the
  hard limit.
\<close>

section \<open>A concrete coordinator\<close>

definition demo_mem_cfg :: PendingCoordinatorConfig where
  "demo_mem_cfg = zero_config\<lparr>LeaseTTL := 10 * Second, ExpiredGracePeriod := Second,
     HeartbeatTimeout := 4 * Second, ReleaseRetention := 30 * Second, ExpiredRetention := 60 * Second,
     BackpressureSoftLimit := 1, BackpressureHardLimit := 2,
     DelayProfileOf := empty_profile\<lparr>Elevated := [Bucket 1 Millisecond], Severe := [Bucket 2 Millisecond]\<rparr>\<rparr>"

definition demo_mem_profile :: BackpressureDelayProfile where
  "demo_mem_profile = \<lparr>Elevated = [Bucket 1 Millisecond], Severe = [Bucket 2 Millisecond],
     ElevatedBucketCount = 1, SevereBucketCount = 1, ElevatedMaxDepth = 1, SevereMaxDepth = 2\<rparr>"

definition demo_mem :: memoryPendingCoordinator where
  "demo_mem = \<lparr>mc_cfg = demo_mem_cfg\<lparr>DelayProfileOf := demo_mem_profile\<rparr>, mc_component = ''demo'',
     mc_shards = replicate 32 [], mc_shardMask = 31, mc_profile = demo_mem_profile, mc_activeCount = 0\<rparr>"

definition demo_meta :: LeaseMetadata where
  "demo_meta = \<lparr>lm_Username = ''ann'', lm_RequestID = ''r1'', lm_Operator = [], lm_ClientIP = [],
     lm_LegacyRequestID = [], lm_Backend = ''memory''\<rparr>"

lemma demo_mem_new: "newMemoryPendingCoordinator demo_mem_cfg ''demo'' = Inr demo_mem"
  by code_simp

lemma demo_hb: "in64 (HeartbeatTimeout demo_mem_cfg)"
  by (simp add: demo_mem_cfg_def zero_config_def go_simps in64I)

lemma run_ok:
  assumes "newMemoryPendingCoordinator cfg component = Inr m0" and "in64 (HeartbeatTimeout cfg)"
  shows "mem_ok (mem_run m0 ops)"
proof -
  note N = new_inv [OF assms(1)]
  obtain q where "mc_cfg m0 = cfg\<lparr>DelayProfileOf := q\<rparr>" using N(2) ..
  moreover obtain r where "mc_cfg (mem_run m0 ops) = (mc_cfg m0)\<lparr>DelayProfileOf := r\<rparr>"
    using mem_run_cfg [OF N(1)] ..
  ultimately show ?thesis using assms(2) by (simp add: mem_ok_def mem_run_inv [OF N(1)])
qed

lemma run_inv: "newMemoryPendingCoordinator cfg component = Inr m0 \<Longrightarrow> mem_inv (mem_run m0 ops)"
  using new_inv(1) mem_run_inv by blast

section \<open>Exclusion\<close>

text \<open>C1. Mutual exclusion: once an acquisition has granted a user's lease, no other
  acquisition of that user is granted, and the lease stays with its owner, through any
  sequence of operations that does not release it, until the heartbeat timeout or the lease
  time with its grace period, whichever is shorter, has passed.\<close>

theorem lease_exclusive:
  assumes "newMemoryPendingCoordinator cfg component = Inr m0" and "in64 (HeartbeatTimeout cfg)"
    and "m = mem_run m0 before" and "fst (mem_Acquire m username meta t owner) = Inr r" and "0 < t"
    and "\<forall>b\<in>set ops. \<not> mem_releases b (TrimSpace username) owner \<and> t \<le> op_time b \<and> op_time b < t + lease_window m"
  shows "(\<exists>d. mem_holder (mem_run (mem_step m (OpAcquire username meta t owner)) ops) (TrimSpace username)
            = Some (owner, d) \<and> t + lease_window m \<le> d)
    \<and> (\<forall>i<length ops. mem_grants (mem_run (mem_step m (OpAcquire username meta t owner)) (take i ops)) (ops ! i)
          \<noteq> Some (TrimSpace username, other))"
proof -
  have ok: "mem_ok m" unfolding assms(3) by (rule run_ok [OF assms(1,2)])
  then have inv: "mem_inv m" by (simp add: mem_ok_def)
  have ne: "TrimSpace username \<noteq> []" using assms(4) by (auto simp: mem_Acquire_def)
  have g: "mem_grants m (OpAcquire username meta t owner) = Some (TrimSpace username, owner)"
    using assms(4) Acquire_eq [OF inv refl ne, of meta t owner]
    by (auto simp: Let_def new_lease_def split: option.splits if_splits)
  show ?thesis
    using mem.exclusive_after_grant [OF ok g] assms(5,6) by (simp add: mem_run_def)
qed

theorem lease_exclusive_witness:
  "mem_grants (mem_run (mem_step demo_mem (OpAcquire ''ann'' demo_meta unix_epoch ''o1''))
     [OpRelease ''ann'' ''o2'' (unix_epoch + Second)])
     (OpAcquire '' ann'' demo_meta (unix_epoch + 2 * Second) ''o2'') \<noteq> Some (''ann'', ''o2'')"
proof -
  let ?ops = "[OpRelease ''ann'' ''o2'' (unix_epoch + Second),
    OpAcquire '' ann'' demo_meta (unix_epoch + 2 * Second) ''o2'']"
  obtain r where r: "fst (mem_Acquire demo_mem ''ann'' demo_meta unix_epoch ''o1'') = Inr r"
  proof -
    have "case fst (mem_Acquire demo_mem ''ann'' demo_meta unix_epoch ''o1'') of Inl e \<Rightarrow> False | Inr r \<Rightarrow> True"
      by code_simp
    then show ?thesis using that by (auto split: sum.splits)
  qed
  have a: "TrimSpace ''ann'' = ''ann''" by code_simp
  have w: "lease_window demo_mem = 4 * Second" by code_simp
  have ops: "\<forall>b\<in>set ?ops. \<not> mem_releases b (TrimSpace ''ann'') ''o1'' \<and> unix_epoch \<le> op_time b
      \<and> op_time b < unix_epoch + lease_window demo_mem"
    by (simp add: w go_simps)
  have "0 < unix_epoch" by (simp add: unix_epoch_def)
  from lease_exclusive [OF demo_mem_new demo_hb mem_run_simps(1) [symmetric] r this ops, of "''o2''", THEN conjunct2,
      rule_format, of 1]
  show ?thesis
    by (simp del: mem_grants.simps mem_step.simps add: a)
qed

section \<open>The counter\<close>

text \<open>C7. Along any sequence of operations the active counter is exactly the number of
  users with a live lease, so it never goes negative, and with operations taken one at a
  time it never exceeds a positive hard limit.\<close>

theorem active_counter_exact:
  assumes "newMemoryPendingCoordinator cfg component = Inr m0"
  shows "mc_activeCount (mem_run m0 ops) = int (card (active_users (lookup (mem_run m0 ops))))
    \<and> (0 < BackpressureHardLimit cfg \<longrightarrow> mc_activeCount (mem_run m0 ops) \<le> BackpressureHardLimit cfg)"
proof
  note N = new_inv [OF assms]
  show "mc_activeCount (mem_run m0 ops) = int (card (active_users (lookup (mem_run m0 ops))))"
    by (rule active_card [OF run_inv [OF assms]])
  obtain q where q: "mc_cfg m0 = cfg\<lparr>DelayProfileOf := q\<rparr>" using N(2) ..
  obtain r where "mc_cfg (mem_run m0 ops) = (mc_cfg m0)\<lparr>DelayProfileOf := r\<rparr>"
    using mem_run_cfg [OF N(1)] ..
  moreover have "within_limit (mem_run m0 ops)"
    using mem_run_limit [OF N(1)] N(3) by (simp add: within_limit_def)
  ultimately show "0 < BackpressureHardLimit cfg \<longrightarrow>
      mc_activeCount (mem_run m0 ops) \<le> BackpressureHardLimit cfg"
    using q by (simp add: within_limit_def)
qed

theorem active_counter_exact_witness:
  "mc_activeCount (mem_run demo_mem [OpAcquire ''ann'' demo_meta unix_epoch ''o1'',
      OpAcquire ''bob'' demo_meta unix_epoch ''o2'', OpAcquire ''cid'' demo_meta unix_epoch ''o3'']) \<le> 2"
  using active_counter_exact [OF demo_mem_new, of "[OpAcquire ''ann'' demo_meta unix_epoch ''o1'',
      OpAcquire ''bob'' demo_meta unix_epoch ''o2'', OpAcquire ''cid'' demo_meta unix_epoch ''o3'']"]
  by (simp add: demo_mem_cfg_def zero_config_def)

text \<open>The hard limit is checked against a counter that the shard lock does not protect:
  when two acquisitions of users in different shards both load the counter one below the
  limit before either has added to it, both are granted and the limit is exceeded.\<close>

theorem hard_limit_race:
  assumes "mem_inv m" and "idx m u \<noteq> idx m v"
    and "acquire_check m (idx m u) u now = (None, m)" and "acquire_check m (idx m v) v now = (None, m)"
    and "0 < BackpressureHardLimit (mc_cfg m)" and "mc_activeCount m = BackpressureHardLimit (mc_cfg m) - 1"
    and "acquire_commit m (idx m u) u meta now o1 (mc_activeCount m) = (r1, m1)"
    and "acquire_commit m1 (idx m v) v meta' now o2 (mc_activeCount m) = (r2, m2)"
  shows "(\<exists>a. r1 = Inr a) \<and> (\<exists>b. r2 = Inr b) \<and> mc_activeCount m2 = BackpressureHardLimit (mc_cfg m) + 1"
  using assms(5-8) by (auto simp: acquire_commit_def Let_def)

definition demo_one :: memoryPendingCoordinator where
  "demo_one = mem_run demo_mem [OpAcquire ''ann'' demo_meta unix_epoch ''o1'']"

theorem hard_limit_race_witness:
  "mc_activeCount (snd (acquire_commit (snd (acquire_commit demo_one (idx demo_one ''bob'') ''bob'' demo_meta unix_epoch ''o2'' 1))
      (idx demo_one ''cid'') ''cid'' demo_meta unix_epoch ''o3'' 1)) = 3"
proof -
  let ?m = demo_one
  have inv: "mem_inv ?m" unfolding demo_one_def by (rule run_inv [OF demo_mem_new])
  have i: "idx ?m ''bob'' \<noteq> idx ?m ''cid''" by code_simp
  have c: "acquire_check ?m (idx ?m ''bob'') ''bob'' unix_epoch = (None, ?m)"
    "acquire_check ?m (idx ?m ''cid'') ''cid'' unix_epoch = (None, ?m)" by code_simp+
  have h: "BackpressureHardLimit (mc_cfg ?m) = 2" "mc_activeCount ?m = 1" by code_simp+
  show ?thesis
    using hard_limit_race [OF inv i c _ _ surjective_pairing surjective_pairing, of demo_meta "''o2''" demo_meta "''o3''"]
    by (simp add: h)
qed

section \<open>Refinement\<close>

text \<open>C9. The sharded coordinator implements the table specification: after any run,
  acquiring, releasing and renewing return what the specification returns on the table of
  leases, and the table after the operation is the specification's.\<close>

theorem coordinator_refines_table:
  assumes "newMemoryPendingCoordinator cfg component = Inr m0" and "m = mem_run m0 ops"
    and "TrimSpace username = u" "u \<noteq> []" and "TrimSpace owner = w" "w \<noteq> []"
  shows "(outcome (fst (mem_Acquire m username meta now owner)), lookup (snd (mem_Acquire m username meta now owner)))
      = map_prod Some id (spec_acquire (mc_cfg m) (mc_profile m) (mates m u) (lookup m) u meta now owner)
    \<and> map_prod id lookup (mem_Release m username owner now) = spec_release (lookup m) u owner now
    \<and> map_prod id lookup (mem_Heartbeat m username owner now) = spec_heartbeat (mc_cfg m) (lookup m) u w now"
proof -
  have inv: "mem_inv m" unfolding assms(2) by (rule run_inv [OF assms(1)])
  show ?thesis
    by (intro conjI Acquire_refines [OF inv assms(3,4)] Release_refines [OF inv assms(3,4)]
        Heartbeat_refines [OF inv assms(3-6)])
qed

theorem coordinator_refines_table_witness:
  "map_prod id lookup (mem_Release demo_one ''ann'' ''o1'' (unix_epoch + Second))
    = spec_release (lookup demo_one) ''ann'' ''o1'' (unix_epoch + Second)"
proof -
  have "TrimSpace ''ann'' = ''ann''" "TrimSpace ''o1'' = ''o1''" by code_simp+
  from coordinator_refines_table [OF demo_mem_new demo_one_def this(1) _ this(2)] show ?thesis by simp
qed

section \<open>The life of a lease\<close>

lemma pruned_not_live:
  "me_lease e \<noteq> None \<Longrightarrow> \<not> live e \<Longrightarrow> pruned cfg now e = (if prune_drop cfg now e then None else Some e)"
  using maybeExpire_cases [of cfg now e] by (auto simp: pruned_def)

lemma release_live:
  assumes m: "mem_inv m" and h: "mem_holder m u = Some (owner, d)" and u: "TrimSpace username = u"
    and o: "ow = [] \<or> ow = owner" and r: "mem_Release m username ow t = (res, m1)"
  obtains dur e' where "res = Inr dur" "lookup m1 = (lookup m)(u \<mapsto> e')" "mem_inv m1" "mc_cfg m1 = mc_cfg m"
    "me_state e' = PendingStateReleased" "me_releasedAt e' = t" "me_lease e' \<noteq> None" "u \<noteq> []"
    "mc_activeCount m1 = mc_activeCount m - 1"
proof -
  from h obtain e l where e: "lookup m u = Some e" "me_lease e = Some l" "live e" "owner = pl_OwnerID l"
    by (auto elim: holder_SomeE)
  have ne: "u \<noteq> []" using lookup_ok [OF m e(1)] by simp
  have nm: "\<not> owner_mismatch e ow" using o e by (auto simp: owner_mismatch_def)
  obtain dur e' k where re: "release_entry t e = (dur, e', k)" by (cases "release_entry t e")
  note F = release_entry_facts [OF re]
  have m1: "m1 = put_shard m (idx m u) (AList.update u e' (mc_shards m ! idx m u)) k" "res = Inr dur"
    using r Release_eq [OF m u ne, of ow t] e nm re by simp_all
  have inv1: "mem_inv m1" using Release_inv [OF m, of username ow t] r by simp
  show thesis
    by (rule that [of dur e'])
      (use m1 F e ne inv1 lookup_set_entry [OF m refl, of u e' k] in \<open>simp_all add: m1(1)\<close>)
qed

text \<open>C34. A release by the owner ends the lease at once, lowers the counter exactly once
  however often it is repeated, and keeps the user blocked for the retention time (for ever
  when that is not positive); afterwards the user can be acquired again.\<close>

theorem release_once:
  assumes m: "mem_inv m" and h: "mem_holder m u = Some (owner, d)" and u: "TrimSpace username = u"
    and o: "ow = [] \<or> ow = owner" and r: "mem_Release m username ow t = (res, m1)"
  shows "(\<exists>dur. res = Inr dur) \<and> mem_holder m1 u = None \<and> mc_activeCount m1 = mc_activeCount m - 1
    \<and> mc_activeCount (snd (mem_Release m1 username ow' t')) = mc_activeCount m1
    \<and> (outcome (fst (mem_Acquire m1 username meta now new)) = Some (Conflict PendingStateReleased) \<longleftrightarrow>
         ReleaseRetention (mc_cfg m) \<le> 0 \<or> time_Sub now t < ReleaseRetention (mc_cfg m))"
proof -
  obtain dur e' where R: "res = Inr dur" "lookup m1 = (lookup m)(u \<mapsto> e')" "mem_inv m1" "mc_cfg m1 = mc_cfg m"
    "me_state e' = PendingStateReleased" "me_releasedAt e' = t" "me_lease e' \<noteq> None" "u \<noteq> []"
    "mc_activeCount m1 = mc_activeCount m - 1"
    by (rule release_live [OF assms])
  have nl: "\<not> live e'" using R(5) by (simp add: live_def)
  have hold: "mem_holder m1 u = None" using R(2) nl by (simp add: mem_holder_def split: option.split)
  have again: "mc_activeCount (snd (mem_Release m1 username ow' t')) = mc_activeCount m1"
    using Release_eq [OF R(3) u R(8), of ow' t'] R(2) nl release_entry_facts(6) [of t' e']
    by (auto split: prod.split)
  have "prune_drop (mc_cfg m) now e' \<longleftrightarrow>
      0 < ReleaseRetention (mc_cfg m) \<and> ReleaseRetention (mc_cfg m) \<le> time_Sub now t"
    using R(5,6) by (simp add: prune_drop_def)
  moreover have "lookup (pruned_at m1 u now) u = (if prune_drop (mc_cfg m) now e' then None else Some e')"
    using R(2,4) pruned_not_live [OF R(7) nl] by (simp add: lookup_pruned_at [OF R(3)])
  ultimately have "outcome (fst (mem_Acquire m1 username meta now new)) = Some (Conflict PendingStateReleased) \<longleftrightarrow>
         ReleaseRetention (mc_cfg m) \<le> 0 \<or> time_Sub now t < ReleaseRetention (mc_cfg m)"
    using Acquire_eq [OF R(3) u R(8), of meta now new] R(5)
    by (auto simp: Let_def conflict_error_def buildState_State backpressure_error_def)
  with R(1,9) hold again show ?thesis by simp
qed

lemma demo_one_holder: "mem_holder demo_one ''ann'' = Some (''o1'', unix_epoch + 4 * Second)"
  by code_simp

theorem release_once_witness:
  "mc_activeCount (snd (mem_Release demo_one ''ann'' ''o1'' (unix_epoch + Second))) = 0
    \<and> outcome (fst (mem_Acquire (snd (mem_Release demo_one ''ann'' ''o1'' (unix_epoch + Second)))
         ''ann'' demo_meta (unix_epoch + 20 * Second) ''o2'')) = Some (Conflict PendingStateReleased)"
proof -
  have inv: "mem_inv demo_one" unfolding demo_one_def by (rule run_inv [OF demo_mem_new])
  have a: "TrimSpace ''ann'' = ''ann''" "mc_activeCount demo_one = 1"
    "time_Sub (unix_epoch + 20 * Second) (unix_epoch + Second) < ReleaseRetention (mc_cfg demo_one)" by code_simp+
  from release_once [OF inv demo_one_holder a(1) _ surjective_pairing, of "''o1''" "unix_epoch + Second" _ _ demo_meta
      "unix_epoch + 20 * Second" "''o2''"] a(2,3)
  show ?thesis by simp
qed

text \<open>Before its deadline (the last heartbeat plus the heartbeat timeout, or the end of
  the lease plus the grace period, whichever comes first) a lease is observed as held by its
  owner; from the deadline on it is observed as expired, or as unknown once the retention has
  passed, and nobody holds the user any more.\<close>

theorem lease_observed:
  assumes ok: "mem_ok m" and h: "mem_holder m u = Some (owner, d)" and u: "TrimSpace username = u"
    and o: "mem_Observe m username now = (s, m1)"
  shows "(now < d \<longrightarrow> ps_State s = PendingStateLease \<and> ps_LeaseOwner s = owner
            \<and> mem_holder m1 u = Some (owner, d))
    \<and> (d \<le> now \<longrightarrow> ps_State s \<in> {PendingStateExpired, PendingStateUnknown} \<and> mem_holder m1 u = None)"
proof -
  have inv: "mem_inv m" using ok by (simp add: mem_ok_def)
  from h obtain e l where e: "lookup m u = Some e" "me_lease e = Some l" "live e" "owner = pl_OwnerID l"
    "d = deadline (mc_cfg m) e l"
    by (auto elim: holder_SomeE)
  have ne: "u \<noteq> []" using lookup_ok [OF inv e(1)] by simp
  let ?m = "pruned_at m u now"
  have S: "m1 = ?m" "s = (case lookup ?m u of None \<Rightarrow> pending_state PendingStateUnknown
      | Some e \<Rightarrow> buildStateLocked ?m u e now)"
    using o unfolding Observe_eq [OF inv u ne] Let_def prod.inject by blast+
  have L: "lookup ?m u = pruned (mc_cfg m) now e" using e(1) by (simp add: lookup_pruned_at [OF inv])
  have owner: "ps_LeaseOwner (buildStateLocked ?m u e now) = pl_OwnerID l"
    using e(2) by (simp add: buildStateLocked_def lease_part_def Let_def)
  show ?thesis
  proof (cases "now < d")
    case True
    then have "lookup ?m u = Some e" using L pruned_live [OF e(3,2)] ok by (simp add: mem_ok_def e(5))
    with True show ?thesis
      using holder_pruned_at(1) [OF ok h True, of u] S owner e(3,4)
      by (simp add: buildState_State live_def)
  next
    case False
    then have "maybeExpireLocked (mc_cfg m) now e \<noteq> (e, 0)"
      using not_expired_iff [OF e(3,2)] ok e(5) by (simp add: mem_ok_def)
    with maybeExpire_cases [of "mc_cfg m" now e] obtain stamp rs where
      "maybeExpireLocked (mc_cfg m) now e = (expire_entry e stamp rs, - 1)" by auto
    then have "lookup ?m u = None \<or> lookup ?m u = Some (expire_entry e stamp rs)"
      by (simp add: L pruned_def Let_def)
    with False S show ?thesis
      by (auto simp: buildState_State pending_state_def mem_holder_def split: option.split)
  qed
qed

theorem lease_observed_witness:
  "ps_State (fst (mem_Observe demo_one ''ann'' (unix_epoch + 3 * Second))) = PendingStateLease
    \<and> mem_holder (snd (mem_Observe demo_one ''ann'' (unix_epoch + 4 * Second))) ''ann'' = None"
proof -
  have ok: "mem_ok demo_one" unfolding demo_one_def by (rule run_ok [OF demo_mem_new demo_hb])
  have a: "TrimSpace ''ann'' = ''ann''" by code_simp
  from lease_observed [OF ok demo_one_holder a surjective_pairing]
  show ?thesis by (simp add: go_simps)
qed

section \<open>Listing\<close>

lemma list_shard_users:
  "mem_inv m \<Longrightarrow> i < length (mc_shards m) \<Longrightarrow> length (list_shard m i now room) < room \<Longrightarrow>
    ps_Username ` set (list_shard m i now room)
      = {u. idx m u = i \<and> (\<exists>e. lookup m u = Some e \<and> me_state e = PendingStateExpired)}"
proof -
  assume m: "mem_inv m" and i: "i < length (mc_shards m)" and r: "length (list_shard m i now room) < room"
  let ?sh = "mc_shards m ! i"
  have sh: "keys_distinct ?sh" "\<forall>(u, e)\<in>set ?sh. idx m u = i" using shard_at [OF m i] unfolding shard_inv_def by auto
  have all: "list_shard m i now room = map (\<lambda>(u, e). buildStateLocked m u e now)
      (filter (\<lambda>(u, e). me_state e = PendingStateExpired) ?sh)"
    using r by (simp add: list_shard_def)
  have un: "ps_Username (buildStateLocked m u e now) = u" for u e
    by (simp add: buildStateLocked_def lease_part_def Let_def split: option.split)
  have "{u. idx m u = i \<and> (\<exists>e. lookup m u = Some e \<and> me_state e = PendingStateExpired)}
      = {u. \<exists>e. (u, e) \<in> set ?sh \<and> me_state e = PendingStateExpired}"
    using sh by (auto simp: lookup_def map_of_eq_Some_iff)
  then show ?thesis by (force simp: all un)
qed

lemma list_shard_sound:
  "s \<in> set (list_shard m i now room) \<Longrightarrow> ps_State s = PendingStateExpired"
  unfolding list_shard_def by (auto dest!: in_set_takeD simp: buildState_State)

lemma list_loop_sound:
  "\<forall>s\<in>set r. ps_State s = PendingStateExpired \<Longrightarrow> length r \<le> limit \<Longrightarrow>
    \<forall>s\<in>set (fst (list_loop m is now limit r)). ps_State s = PendingStateExpired"
proof (induction m "is" now limit r rule: list_loop.induct)
  case (2 m i "is" now limit r)
  let ?l = "list_shard (prune_at m i now) i now (limit - length r)"
  have s: "\<forall>s\<in>set (r @ ?l). ps_State s = PendingStateExpired" using 2 list_shard_sound by auto
  show ?case
  proof (cases "limit \<le> length (r @ ?l)")
    case True
    with s show ?thesis by (simp add: Let_def)
  next
    case False
    with "2.IH" [OF refl refl False s] show ?thesis by (simp add: Let_def)
  qed
qed simp

lemma list_loop_length:
  "length r \<le> limit \<Longrightarrow> length (fst (list_loop m is now limit r)) \<le> limit"
  by (induction m "is" now limit r rule: list_loop.induct) (auto simp: Let_def list_shard_def)

lemma list_loop_users:
  assumes "mem_inv m" and "\<forall>i\<in>set is. i < length (mc_shards m)" and "distinct is"
    and "length (fst (list_loop m is now limit r)) < limit"
  shows "ps_Username ` set (fst (list_loop m is now limit r)) = ps_Username ` set r \<union>
    {u. idx m u \<in> set is \<and> (\<exists>e. Option.bind (lookup m u) (pruned (mc_cfg m) now) = Some e
          \<and> me_state e = PendingStateExpired)}"
  using assms
proof (induction m "is" now limit r rule: list_loop.induct)
  case (1 m now limit r)
  then show ?case by simp
next
  case (2 m i "is" now limit r)
  let ?m = "prune_at m i now"
  let ?l = "list_shard ?m i now (limit - length r)"
  have i: "i < length (mc_shards m)" using 2 by simp
  have inv: "mem_inv ?m" by (rule prune_at_inv [OF "2.prems"(1) i])
  have lt: "\<not> limit \<le> length (r @ ?l)" using "2.prems"(4) by (auto simp: Let_def split: if_splits)
  then have eq: "list_loop m (i # is) now limit r = list_loop ?m is now limit (r @ ?l)" by (simp add: Let_def)
  have len: "length ?l < limit - length r" using lt by simp
  have lk: "lookup ?m u = (if idx m u = i then Option.bind (lookup m u) (pruned (mc_cfg m) now) else lookup m u)" for u
    by (rule lookup_prune_at [OF "2.prems"(1) i])
  have l: "ps_Username ` set ?l = {u. idx m u = i \<and> (\<exists>e. Option.bind (lookup m u) (pruned (mc_cfg m) now) = Some e
      \<and> me_state e = PendingStateExpired)}"
    using list_shard_users [OF inv _ len] i by (auto simp: lk)
  have "ps_Username ` set (fst (list_loop ?m is now limit (r @ ?l))) = ps_Username ` set (r @ ?l) \<union>
    {u. idx ?m u \<in> set is \<and> (\<exists>e. Option.bind (lookup ?m u) (pruned (mc_cfg ?m) now) = Some e
          \<and> me_state e = PendingStateExpired)}"
    using "2.prems" eq lt inv by (intro "2.IH") simp_all
  moreover have "{u. idx ?m u \<in> set is \<and> (\<exists>e. Option.bind (lookup ?m u) (pruned (mc_cfg ?m) now) = Some e
          \<and> me_state e = PendingStateExpired)}
      = {u. idx m u \<in> set is \<and> (\<exists>e. Option.bind (lookup m u) (pruned (mc_cfg m) now) = Some e
          \<and> me_state e = PendingStateExpired)}" (is "_ = ?E")
  proof -
    have "idx m u \<in> set is \<Longrightarrow> lookup ?m u = lookup m u" for u using "2.prems"(3) by (auto simp: lk)
    then show ?thesis by (intro Collect_cong conj_cong) simp_all
  qed
  ultimately have "ps_Username ` set (fst (list_loop ?m is now limit (r @ ?l)))
      = ps_Username ` set r \<union> ps_Username ` set ?l \<union> ?E"
    by (simp only: set_append image_Un)
  then show ?case unfolding eq l by auto
qed

text \<open>Listing returns at most the limit (64 when none is given) and only users whose
  lease has expired; when it returns fewer than the limit, it returned every user whose
  entry is expired and still retained at that time, in whichever shard it lies.\<close>

theorem list_expired_sound:
  assumes "newMemoryPendingCoordinator cfg component = Inr m0" and "m = mem_run m0 ops"
    and "n = (if limit \<le> 0 then 64 else limit)"
  shows "(\<forall>s\<in>set (fst (mem_ListExpired m limit now)). ps_State s = PendingStateExpired)
    \<and> int (length (fst (mem_ListExpired m limit now))) \<le> n
    \<and> (int (length (fst (mem_ListExpired m limit now))) < n \<longrightarrow>
        ps_Username ` set (fst (mem_ListExpired m limit now)) =
          {u. \<exists>e. Option.bind (lookup m u) (pruned (mc_cfg m) now) = Some e \<and> me_state e = PendingStateExpired})"
proof -
  have inv: "mem_inv m" unfolding assms(2) by (rule run_inv [OF assms(1)])
  have n: "0 \<le> n" by (simp add: assms(3))
  let ?is = "[0..<length (mc_shards m)]"
  have eq: "mem_ListExpired m limit now = list_loop m ?is now (nat n) []"
    by (simp add: mem_ListExpired_def assms(3))
  have "\<forall>u. idx m u \<in> set ?is" using idx_less [OF mem_inv_shards_ok [OF inv]] by simp
  then show ?thesis
    unfolding eq
    using list_loop_sound [of "[]" "nat n" m ?is now] list_loop_length [of "[]" "nat n" m ?is now]
      list_loop_users [OF inv, of ?is now "nat n" "[]"] n
    by auto
qed

theorem list_expired_sound_witness:
  "ps_Username ` set (fst (mem_ListExpired demo_one 0 (unix_epoch + 5 * Second))) = {''ann''}
    \<and> int (length (fst (mem_ListExpired demo_one 0 (unix_epoch + 5 * Second)))) \<le> 64
    \<and> list_all (\<lambda>s. ps_State s = PendingStateExpired) (fst (mem_ListExpired demo_one 0 (unix_epoch + 5 * Second)))"
proof -
  have "map ps_Username (fst (mem_ListExpired demo_one 0 (unix_epoch + 5 * Second))) = [''ann'']" by code_simp
  then have "ps_Username ` set (fst (mem_ListExpired demo_one 0 (unix_epoch + 5 * Second))) = {''ann''}"
    by (metis list.set_map list.simps(15) empty_set)
  with list_expired_sound [OF demo_mem_new demo_one_def refl, of 0 "unix_epoch + 5 * Second"] show ?thesis
    by (simp add: list_all_iff)
qed

end
