(* ===== verification/OperationTypes.thy ===== *)
theory OperationTypes
  imports GoStrings GoBase
begin

text \<open>
  The data of the operation pipeline (internal/common/service/operation: types.go,
  interfaces.go). The two interfaces the pipeline drives, the queue coordinator and the
  request state store, are records of functions over the provider's state; the clock is an
  argument of every call. An error carries the chain it wraps.
\<close>

section \<open>Operations\<close>

datatype OperationKind =
    OperationCreate | OperationUpdate | OperationDelete | OperationBatch | OperationQuery
  | OperationOther string

datatype OperationState =
    StateQueued | StateExecuting | StateCompleted | StateFailed | StateCompensating | StateCompensated
  | StateOther string

datatype op_error =
    ErrQueueEmpty
  | ErrStateConflict
  | OpErr string
  | OpWrap string op_error

fun err_is :: "op_error \<Rightarrow> op_error \<Rightarrow> bool" where
  "err_is (OpWrap msg e) target \<longleftrightarrow> OpWrap msg e = target \<or> err_is e target"
| "err_is e target \<longleftrightarrow> e = target"

fun err_text :: "op_error \<Rightarrow> string" where
  "err_text ErrQueueEmpty = ''operation queue empty''"
| "err_text ErrStateConflict = ''operation state conflict''"
| "err_text (OpErr s) = s"
| "err_text (OpWrap msg e) = msg @ '': '' @ err_text e"

type_synonym headers = "(string \<times> string) list"

record OperationEnvelope =
  oe_ID :: string
  oe_Kind :: OperationKind
  oe_Resource :: string
  oe_Tenant :: string
  oe_TraceID :: string
  oe_IdempotencyKey :: string
  oe_Headers :: "headers option"
  oe_SubmittedAt :: instant
  oe_Deadline :: instant
  oe_Payload :: string
  oe_CompensateHint :: string

record OperationResult =
  or_OperationID :: string
  or_State :: OperationState
  or_CompletedAt :: instant
  or_Attempt :: int
  or_Error :: "op_error option"
  or_RetryAfter :: duration
  or_Fatal :: bool
  or_TriggerCompensation :: bool

record QueueTicket =
  qt_TicketID :: string
  qt_OperationID :: string
  qt_QueuePosition :: int
  qt_EstimatedWait :: duration
  qt_IssuedAt :: instant
  qt_Degraded :: bool
  qt_BackpressureTag :: string

record QueueStatus =
  qs_OperationID :: string
  qs_State :: OperationState
  qs_Position :: int
  qs_Remaining :: duration
  qs_Message :: string

record QueueItem =
  qi_Envelope :: OperationEnvelope
  qi_Attempts :: int
  qi_AvailableAt :: instant

record RequestState =
  rs_OperationID :: string
  rs_Kind :: OperationKind
  rs_Resource :: string
  rs_State :: OperationState
  rs_Attempts :: int
  rs_LastError :: string
  rs_UpdatedAt :: int

section \<open>Interfaces\<close>

record 'q QueueCoordinator =
  q_Enqueue :: "instant \<Rightarrow> OperationEnvelope option \<Rightarrow> 'q \<Rightarrow> (op_error + QueueTicket) \<times> 'q"
  q_Poll :: "instant \<Rightarrow> string \<Rightarrow> 'q \<Rightarrow> (op_error + QueueStatus) \<times> 'q"
  q_Cancel :: "instant \<Rightarrow> string \<Rightarrow> 'q \<Rightarrow> op_error option \<times> 'q"
  q_Dequeue :: "instant \<Rightarrow> 'q \<Rightarrow> (op_error + QueueItem) \<times> 'q"
  q_Ack :: "instant \<Rightarrow> string \<Rightarrow> 'q \<Rightarrow> op_error option \<times> 'q"
  q_Requeue :: "instant \<Rightarrow> QueueItem option \<Rightarrow> duration \<Rightarrow> 'q \<Rightarrow> op_error option \<times> 'q"

record 's RequestStateStore =
  s_Upsert :: "instant \<Rightarrow> OperationEnvelope option \<Rightarrow> OperationState \<Rightarrow> 's \<Rightarrow> op_error option \<times> 's"
  s_Advance :: "instant \<Rightarrow> string \<Rightarrow> OperationState \<Rightarrow> OperationState \<Rightarrow> 's \<Rightarrow> op_error option \<times> 's"
  s_RecordFailure :: "instant \<Rightarrow> string \<Rightarrow> int \<Rightarrow> string \<Rightarrow> 's \<Rightarrow> op_error option \<times> 's"
  s_Get :: "instant \<Rightarrow> string \<Rightarrow> 's \<Rightarrow> (op_error + RequestState) \<times> 's"

text \<open>The executor may change the envelope it is handed.\<close>

record OperationExecutor =
  ex_Prepare :: "OperationEnvelope \<Rightarrow> op_error option \<times> OperationEnvelope"
  ex_Execute :: "OperationEnvelope \<Rightarrow> OperationResult option \<times> op_error option \<times> OperationEnvelope"
  ex_Compensate :: "OperationEnvelope \<Rightarrow> OperationResult option \<times> op_error option \<times> OperationEnvelope"

section \<open>What a state store promises\<close>

definition not_found :: "string \<Rightarrow> op_error" where
  "not_found operationID = OpErr (''operation '' @ operationID @ '' not found'')"

definition queued_state :: "instant \<Rightarrow> OperationEnvelope \<Rightarrow> RequestState" where
  "queued_state now env = \<lparr>rs_OperationID = oe_ID env, rs_Kind = oe_Kind env, rs_Resource = oe_Resource env,
     rs_State = StateQueued, rs_Attempts = 0, rs_LastError = [], rs_UpdatedAt = UnixMilli now\<rparr>"

definition advanced_state :: "instant \<Rightarrow> OperationState \<Rightarrow> RequestState \<Rightarrow> RequestState" where
  "advanced_state now new r = r\<lparr>rs_State := new,
     rs_LastError := (if new \<noteq> StateFailed then [] else rs_LastError r),
     rs_Attempts := (if new = StateQueued then 0 else rs_Attempts r),
     rs_UpdatedAt := UnixMilli now\<rparr>"

definition failed_state :: "instant \<Rightarrow> int \<Rightarrow> string \<Rightarrow> RequestState \<Rightarrow> RequestState" where
  "failed_state now attempt reason r = r\<lparr>rs_State := StateFailed, rs_Attempts := attempt,
     rs_LastError := reason, rs_UpdatedAt := UnixMilli now\<rparr>"

lemma state_after [simp]:
  "rs_State (advanced_state now new r) = new" "rs_State (failed_state now attempt reason r) = StateFailed"
  "rs_State (queued_state now env) = StateQueued"
  by (simp_all add: advanced_state_def failed_state_def queued_state_def)

text \<open>
  The contract the pipeline relies on: a transition happens exactly when the recorded state
  is the expected one, a failure is recorded whatever the state, and no call touches another
  operation.
\<close>

locale request_state_store =
  fixes S :: "'s RequestStateStore" and ok :: "'s \<Rightarrow> bool" and view :: "'s \<Rightarrow> string \<Rightarrow> RequestState option"
  assumes upsert_queued: "ok s \<Longrightarrow> oe_ID env \<noteq> [] \<Longrightarrow>
      \<exists>s'. s_Upsert S now (Some env) StateQueued s = (None, s') \<and> ok s'
        \<and> view s' = (view s)(oe_ID env \<mapsto> queued_state now env)"
    and advance_ok: "ok s \<Longrightarrow> i \<noteq> [] \<Longrightarrow> view s i = Some r \<Longrightarrow> rs_State r = old \<Longrightarrow>
      \<exists>s'. s_Advance S now i old new s = (None, s') \<and> ok s' \<and> view s' = (view s)(i \<mapsto> advanced_state now new r)"
    and advance_conflict: "ok s \<Longrightarrow> i \<noteq> [] \<Longrightarrow> view s i = Some r \<Longrightarrow> rs_State r \<noteq> old \<Longrightarrow>
      s_Advance S now i old new s = (Some ErrStateConflict, s)"
    and advance_missing: "ok s \<Longrightarrow> i \<noteq> [] \<Longrightarrow> view s i = None \<Longrightarrow>
      s_Advance S now i old new s = (Some (not_found i), s)"
    and record_ok: "ok s \<Longrightarrow> i \<noteq> [] \<Longrightarrow> view s i = Some r \<Longrightarrow>
      \<exists>s'. s_RecordFailure S now i attempt reason s = (None, s') \<and> ok s'
        \<and> view s' = (view s)(i \<mapsto> failed_state now attempt reason r)"
    and get_ok: "ok s \<Longrightarrow> i \<noteq> [] \<Longrightarrow>
      s_Get S now i s = ((case view s i of None \<Rightarrow> Inl (not_found i) | Some r \<Rightarrow> Inr r), s)"

text \<open>
  The contract of a queue: the items that wait and the operations in flight. A dequeued item
  was waiting and is in flight until it is acknowledged or put back.
\<close>

locale queue_coordinator =
  fixes Q :: "'q QueueCoordinator" and qok :: "'q \<Rightarrow> bool"
    and waiting :: "'q \<Rightarrow> string \<Rightarrow> (OperationEnvelope \<times> int) option" and inflight :: "'q \<Rightarrow> string set"
  assumes enqueue_waits: "qok q \<Longrightarrow> oe_ID env \<noteq> [] \<Longrightarrow> waiting q (oe_ID env) = None \<Longrightarrow> oe_ID env \<notin> inflight q \<Longrightarrow>
      \<exists>t q'. q_Enqueue Q now (Some env) q = (Inr t, q') \<and> qok q' \<and> qt_OperationID t = oe_ID env
        \<and> waiting q' = (waiting q)(oe_ID env \<mapsto> (env, 0)) \<and> inflight q' = inflight q"
    and dequeue_item: "qok q \<Longrightarrow> q_Dequeue Q now q = (Inr item, q') \<Longrightarrow>
      qok q' \<and> waiting q (oe_ID (qi_Envelope item)) = Some (qi_Envelope item, qi_Attempts item)
        \<and> waiting q' = (waiting q)(oe_ID (qi_Envelope item) := None)
        \<and> inflight q' = insert (oe_ID (qi_Envelope item)) (inflight q) \<and> oe_ID (qi_Envelope item) \<noteq> []"
    and ack_done: "qok q \<Longrightarrow> i \<noteq> [] \<Longrightarrow> waiting q i = None \<Longrightarrow>
      \<exists>q'. q_Ack Q now i q = (None, q') \<and> qok q' \<and> waiting q' = waiting q \<and> inflight q' = inflight q - {i}"
    and requeue_waits: "qok q \<Longrightarrow> oe_ID (qi_Envelope item) \<noteq> [] \<Longrightarrow> waiting q (oe_ID (qi_Envelope item)) = None \<Longrightarrow>
      \<exists>q'. q_Requeue Q now (Some item) delay q = (None, q') \<and> qok q'
        \<and> waiting q' = (waiting q)(oe_ID (qi_Envelope item) \<mapsto> (qi_Envelope item, qi_Attempts item))
        \<and> inflight q' \<subseteq> inflight q \<and> inflight q - {oe_ID (qi_Envelope item)} \<subseteq> inflight q'"

end
