(* ===== verification/OperationPipeline.thy ===== *)
theory OperationPipeline
  imports OperationTypes Prelude
begin

text \<open>
  The operation pipeline (pipeline.go): submitting an operation, and processing one item of
  the queue through execution, retry, failure and compensation. The queue, the store and
  the executor are the interfaces of OperationTypes; the state of a step is the queue's
  state with the store's. The calls of the clock within one step share one instant; traces
  and logging are left out. Each definition follows the function of the same name.
\<close>

record ('q, 's) Pipeline =
  p_queue :: "'q QueueCoordinator"
  p_state :: "'s RequestStateStore"
  p_exec :: OperationExecutor
  p_maxAttempts :: int
  p_retryBackoff :: "int \<Rightarrow> duration"

record ('q, 's) PipelineConfig =
  pc_QueueCoordinator :: "'q QueueCoordinator option"
  pc_StateStore :: "'s RequestStateStore option"
  pc_Executor :: "OperationExecutor option"
  pc_MaxAttempts :: int
  pc_RetryBackoff :: "(int \<Rightarrow> duration) option"

definition headerOperationPhase :: string where "headerOperationPhase = ''operation-phase''"
definition phaseExecute :: string where "phaseExecute = ''execute''"
definition phaseCompensate :: string where "phaseCompensate = ''compensate''"

section \<open>Construction\<close>

definition defaultMaxAttempts :: "int \<Rightarrow> int" where
  "defaultMaxAttempts v = (if v \<le> 0 then 3 else v)"

definition default_backoff :: "int \<Rightarrow> duration" where
  "default_backoff attempt =
    (if attempt \<le> 1 then 250 * Millisecond
     else let delay = push_bit (nat (min (attempt - 1) 6)) 1 * 250 * Millisecond
          in if 30 * Second < delay then 30 * Second else delay)"

definition defaultRetryBackoff :: "(int \<Rightarrow> duration) option \<Rightarrow> int \<Rightarrow> duration" where
  "defaultRetryBackoff custom = (case custom of Some f \<Rightarrow> f | None \<Rightarrow> default_backoff)"

definition NewPipeline :: "('q, 's) PipelineConfig \<Rightarrow> op_error + ('q, 's) Pipeline" where
  "NewPipeline cfg =
    (case pc_QueueCoordinator cfg of
       None \<Rightarrow> Inl (OpErr ''queue coordinator is required'')
     | Some q \<Rightarrow>
         (case pc_StateStore cfg of
            None \<Rightarrow> Inl (OpErr ''state store is required'')
          | Some s \<Rightarrow>
              (case pc_Executor cfg of
                 None \<Rightarrow> Inl (OpErr ''operation executor is required'')
               | Some x \<Rightarrow>
                   Inr \<lparr>p_queue = q, p_state = s, p_exec = x,
                        p_maxAttempts = defaultMaxAttempts (pc_MaxAttempts cfg),
                        p_retryBackoff = defaultRetryBackoff (pc_RetryBackoff cfg)\<rparr>)))"

section \<open>Submission\<close>

text \<open>The envelope with the fields a submission fills in; the generated id is an argument.\<close>

definition prepare_envelope :: "instant \<Rightarrow> string \<Rightarrow> OperationEnvelope \<Rightarrow> OperationEnvelope" where
  "prepare_envelope now newID env =
    (let env = (if TrimSpace (oe_ID env) = [] then env\<lparr>oe_ID := newID\<rparr> else env);
         env = (if IsZero (oe_SubmittedAt env) then env\<lparr>oe_SubmittedAt := now\<rparr> else env)
     in (if oe_Headers env = None then env\<lparr>oe_Headers := Some []\<rparr> else env))"

definition Submit ::
  "('q, 's) Pipeline \<Rightarrow> instant \<Rightarrow> string \<Rightarrow> OperationEnvelope option \<Rightarrow> 'q \<times> 's
    \<Rightarrow> (op_error + QueueTicket) \<times> 'q \<times> 's" where
  "Submit p now newID env0 st =
    (case env0 of
       None \<Rightarrow> (Inl (OpErr ''operation envelope is required''), st)
     | Some e \<Rightarrow>
         (let env = prepare_envelope now newID e; (q, s) = st
          in case s_Upsert (p_state p) now (Some env) StateQueued s of
               (Some err, s1) \<Rightarrow> (Inl (OpWrap ''persist queued state'' err), q, s1)
             | (None, s1) \<Rightarrow>
                 (case q_Enqueue (p_queue p) now (Some env) q of
                    (Inl err, q1) \<Rightarrow> (Inl (OpWrap ''enqueue operation'' err), q1, s1)
                  | (Inr ticket, q1) \<Rightarrow> (Inr ticket, q1, s1))))"

section \<open>Helpers of processing\<close>

definition cloneEnvelope :: "OperationEnvelope option \<Rightarrow> OperationEnvelope option" where
  "cloneEnvelope env = env"

definition operationPhase :: "OperationEnvelope \<Rightarrow> string" where
  "operationPhase env =
    (case oe_Headers env of
       None \<Rightarrow> phaseExecute
     | Some h \<Rightarrow>
         (case map_of h headerOperationPhase of
            Some phase \<Rightarrow> if phase \<noteq> [] then phase else phaseExecute
          | None \<Rightarrow> phaseExecute))"

definition handleFailure ::
  "('q, 's) Pipeline \<Rightarrow> instant \<Rightarrow> QueueItem \<Rightarrow> int \<Rightarrow> op_error \<Rightarrow> 's \<Rightarrow> 's" where
  "handleFailure p now item attempt err s =
    (let reason = err_text err;
         reason = (if reason = [] then ''unknown error'' else reason)
     in snd (s_RecordFailure (p_state p) now (oe_ID (qi_Envelope item)) attempt reason s))"

definition advanceToExecuting ::
  "('q, 's) Pipeline \<Rightarrow> instant \<Rightarrow> string \<Rightarrow> 's \<Rightarrow> op_error option \<times> 's" where
  "advanceToExecuting p now operationID s =
    (case s_Advance (p_state p) now operationID StateQueued StateExecuting s of
       (None, s1) \<Rightarrow> (None, s1)
     | (Some err, s1) \<Rightarrow>
         if err_is err ErrStateConflict
         then s_Advance (p_state p) now operationID StateFailed StateExecuting s1
         else (Some err, s1))"

definition compensation_item :: "instant \<Rightarrow> OperationEnvelope \<Rightarrow> QueueItem" where
  "compensation_item now env =
    (let h = (case oe_Headers env of None \<Rightarrow> [] | Some h \<Rightarrow> h)
     in \<lparr>qi_Envelope = env\<lparr>oe_Headers := Some (AList.update headerOperationPhase phaseCompensate h),
                           oe_SubmittedAt := now\<rparr>,
         qi_Attempts = 0, qi_AvailableAt = now\<rparr>)"

definition scheduleCompensation ::
  "('q, 's) Pipeline \<Rightarrow> instant \<Rightarrow> OperationEnvelope \<Rightarrow> 'q \<Rightarrow> op_error option \<times> 'q" where
  "scheduleCompensation p now env q =
    (case cloneEnvelope (Some env) of
       None \<Rightarrow> (Some (OpErr ''operation envelope is nil''), q)
     | Some cloned \<Rightarrow> q_Requeue (p_queue p) now (Some (compensation_item now cloned)) 0 q)"

text \<open>The result the caller works with: the executor's, or one made up from its error.\<close>

definition settle_result ::
  "string \<Rightarrow> string \<Rightarrow> int \<Rightarrow> OperationResult option \<Rightarrow> op_error option \<Rightarrow> OperationResult" where
  "settle_result operationID nil_message attempt res execErr =
    (let blank = \<lparr>or_OperationID = operationID, or_State = StateFailed, or_CompletedAt = zero_time,
                   or_Attempt = 0, or_Error = None, or_RetryAfter = 0, or_Fatal = False,
                   or_TriggerCompensation = False\<rparr>;
         r = (case (execErr, res) of
                (Some e, None) \<Rightarrow> blank\<lparr>or_Error := Some e\<rparr>
              | (Some e, Some r) \<Rightarrow> if or_Error r = None then r\<lparr>or_Error := Some e\<rparr> else r
              | (None, Some r) \<Rightarrow> r
              | (None, None) \<Rightarrow> blank\<lparr>or_Error := Some (OpErr nil_message)\<rparr>)
     in r\<lparr>or_Attempt := attempt\<rparr>)"

definition retry_delay :: "('q, 's) Pipeline \<Rightarrow> int \<Rightarrow> duration \<Rightarrow> duration" where
  "retry_delay p attempt retryAfter =
    (let delay = (if retryAfter \<le> 0 then p_retryBackoff p attempt else retryAfter)
     in if delay < 0 then 0 else delay)"

definition ack_then :: "('q, 's) Pipeline \<Rightarrow> instant \<Rightarrow> string \<Rightarrow> op_error option \<Rightarrow> 'q \<times> 's \<Rightarrow> op_error option \<times> 'q \<times> 's" where
  "ack_then p now operationID result st =
    (case st of (q, s) \<Rightarrow>
       (case q_Ack (p_queue p) now operationID q of
          (Some err, q1) \<Rightarrow> (Some (OpWrap ''ack queue'' err), q1, s)
        | (None, q1) \<Rightarrow> (result, q1, s)))"

section \<open>Execution\<close>

text \<open>A failed attempt that is final: fatal, or the last one allowed.\<close>

definition finish_failed ::
  "('q, 's) Pipeline \<Rightarrow> instant \<Rightarrow> QueueItem \<Rightarrow> OperationResult \<Rightarrow> 'q \<times> 's \<Rightarrow> op_error option \<times> 'q \<times> 's" where
  "finish_failed p now item res st =
    (let (q, s) = st; i = or_OperationID res;
         s1 = snd (s_Advance (p_state p) now i StateExecuting StateFailed s);
         (q2, s2) = (if or_TriggerCompensation res
                     then (case s_Advance (p_state p) now i StateFailed StateCompensating s1 of
                             (Some err, s') \<Rightarrow> (q, s')
                           | (None, s') \<Rightarrow> (snd (scheduleCompensation p now (qi_Envelope item) q), s'))
                     else (q, s1));
         result = (case or_Error res of Some e \<Rightarrow> e | None \<Rightarrow> OpErr (''operation '' @ i @ '' failed''))
     in ack_then p now i (Some result) (q2, s2))"

definition retry_later ::
  "('q, 's) Pipeline \<Rightarrow> instant \<Rightarrow> QueueItem \<Rightarrow> OperationResult \<Rightarrow> 'q \<times> 's \<Rightarrow> op_error option \<times> 'q \<times> 's" where
  "retry_later p now item res st =
    (let (q, s) = st; i = or_OperationID res;
         delay = retry_delay p (or_Attempt res) (or_RetryAfter res);
         s1 = snd (s_Advance (p_state p) now i StateFailed StateQueued s);
         item1 = item\<lparr>qi_Attempts := or_Attempt res, qi_AvailableAt := time_Add now delay\<rparr>
     in case q_Requeue (p_queue p) now (Some item1) delay q of
          (Some err, q1) \<Rightarrow> (Some (OpWrap ''requeue operation'' err), q1, s1)
        | (None, q1) \<Rightarrow>
            (Some (case or_Error res of Some e \<Rightarrow> e | None \<Rightarrow> OpErr (''operation '' @ i @ '' failed'')), q1, s1))"

definition handleExecutionResult ::
  "('q, 's) Pipeline \<Rightarrow> instant \<Rightarrow> QueueItem \<Rightarrow> OperationResult \<Rightarrow> 'q \<times> 's \<Rightarrow> op_error option \<times> 'q \<times> 's" where
  "handleExecutionResult p now item res st =
    (let reason = (case or_Error res of Some e \<Rightarrow> err_text e | None \<Rightarrow> ''execution failed'');
         (q, s) = st;
         s1 = handleFailure p now item (or_Attempt res) (OpErr reason) s
     in if or_Fatal res \<or> p_maxAttempts p \<le> or_Attempt res
        then finish_failed p now item res (q, s1)
        else retry_later p now item res (q, s1))"

definition processExecution ::
  "('q, 's) Pipeline \<Rightarrow> instant \<Rightarrow> QueueItem \<Rightarrow> 'q \<times> 's \<Rightarrow> op_error option \<times> 'q \<times> 's" where
  "processExecution p now item st =
    (let env = qi_Envelope item; attempt = qi_Attempts item + 1; (q, s) = st
     in case advanceToExecuting p now (oe_ID env) s of
          (Some err, s1) \<Rightarrow>
            (Some (OpWrap ''advance to executing'' err), snd (q_Ack (p_queue p) now (oe_ID env) q), s1)
        | (None, s1) \<Rightarrow>
            (case ex_Prepare (p_exec p) env of
               (Some err, env1) \<Rightarrow>
                 (Some err, q, handleFailure p now (item\<lparr>qi_Envelope := env1\<rparr>) attempt (OpWrap ''prepare'' err) s1)
             | (None, env1) \<Rightarrow>
                 (case ex_Execute (p_exec p) env1 of
                    (res0, execErr, env2) \<Rightarrow>
                      (let res = settle_result (oe_ID env2) ''executor returned nil result'' attempt res0 execErr
                       in if or_Error res = None \<and> or_State res = StateCompleted
                          then (let s2 = snd (s_Advance (p_state p) now (oe_ID env2) StateExecuting StateCompleted s1)
                                in ack_then p now (oe_ID env2) None (q, s2))
                          else handleExecutionResult p now (item\<lparr>qi_Envelope := env2\<rparr>) res (q, s1)))))"

section \<open>Compensation\<close>

definition finish_compensation ::
  "('q, 's) Pipeline \<Rightarrow> instant \<Rightarrow> string \<Rightarrow> OperationResult \<Rightarrow> 'q \<times> 's \<Rightarrow> op_error option \<times> 'q \<times> 's" where
  "finish_compensation p now i res st =
    (let (q, s) = st; s1 = snd (s_Advance (p_state p) now i StateCompensating StateFailed s)
     in ack_then p now i
          (Some (case or_Error res of Some e \<Rightarrow> e | None \<Rightarrow> OpErr (''operation '' @ i @ '' compensation failed'')))
          (q, s1))"

definition retry_compensation ::
  "('q, 's) Pipeline \<Rightarrow> instant \<Rightarrow> QueueItem \<Rightarrow> OperationResult \<Rightarrow> int \<Rightarrow> 'q \<times> 's \<Rightarrow> op_error option \<times> 'q \<times> 's" where
  "retry_compensation p now item res attempt st =
    (let (q, s) = st; delay = retry_delay p attempt (or_RetryAfter res);
         item1 = item\<lparr>qi_Attempts := attempt, qi_AvailableAt := time_Add now delay\<rparr>
     in case q_Requeue (p_queue p) now (Some item1) delay q of
          (Some err, q1) \<Rightarrow> (Some (OpWrap ''requeue compensation'' err), q1, s)
        | (None, q1) \<Rightarrow>
            (Some (case or_Error res of Some e \<Rightarrow> e
                   | None \<Rightarrow> OpErr (''operation '' @ oe_ID (qi_Envelope item) @ '' compensation pending retry'')), q1, s))"

definition processCompensation ::
  "('q, 's) Pipeline \<Rightarrow> instant \<Rightarrow> QueueItem \<Rightarrow> 'q \<times> 's \<Rightarrow> op_error option \<times> 'q \<times> 's" where
  "processCompensation p now item st =
    (let attempt = qi_Attempts item + 1; (q, s) = st
     in case ex_Compensate (p_exec p) (qi_Envelope item) of
          (res0, execErr, env) \<Rightarrow>
            (let i = oe_ID env; item1 = item\<lparr>qi_Envelope := env\<rparr>;
                 res = settle_result i ''compensator returned nil result'' attempt res0 execErr
             in if or_Error res = None \<and> or_State res = StateCompensated
                then (let s1 = snd (s_Advance (p_state p) now i StateCompensating StateCompensated s)
                      in ack_then p now i None (q, s1))
                else if or_Fatal res \<or> p_maxAttempts p \<le> attempt
                then finish_compensation p now i res (q, s)
                else retry_compensation p now item1 res attempt (q, s)))"

definition ProcessOnce :: "('q, 's) Pipeline \<Rightarrow> instant \<Rightarrow> 'q \<times> 's \<Rightarrow> op_error option \<times> 'q \<times> 's" where
  "ProcessOnce p now st =
    (let (q, s) = st
     in case q_Dequeue (p_queue p) now q of
          (Inl err, q1) \<Rightarrow> (Some err, q1, s)
        | (Inr item, q1) \<Rightarrow>
            if operationPhase (qi_Envelope item) = phaseCompensate
            then processCompensation p now item (q1, s)
            else processExecution p now item (q1, s))"

section \<open>Backoff\<close>

lemma default_backoff_eq:
  "default_backoff attempt = (if attempt \<le> 1 then 250 * Millisecond
     else 2 ^ nat (min (attempt - 1) 6) * 250 * Millisecond)"
proof -
  have "(2::int) ^ nat (min (attempt - 1) 6) \<le> 2 ^ 6" by (intro power_increasing) simp_all
  then show ?thesis by (simp add: default_backoff_def Let_def push_bit_eq_mult go_simps)
qed

lemma default_backoff_bounds: "250 * Millisecond \<le> default_backoff a \<and> default_backoff a \<le> 16 * Second"
proof -
  have "(2::int) ^ nat (min (a - 1) 6) \<le> 2 ^ 6" by (intro power_increasing) simp_all
  moreover have "(1::int) \<le> 2 ^ nat (min (a - 1) 6)" by simp
  ultimately show ?thesis by (simp add: default_backoff_eq go_simps)
qed

lemma default_backoff_mono: "a \<le> b \<Longrightarrow> default_backoff a \<le> default_backoff b"
proof -
  assume ab: "a \<le> b"
  have "(2::int) ^ nat (min (a - 1) 6) \<le> 2 ^ nat (min (b - 1) 6)"
    using ab by (intro power_increasing nat_mono) simp_all
  moreover have "(1::int) \<le> 2 ^ nat (min (b - 1) 6)" by simp
  ultimately show ?thesis using ab by (auto simp: default_backoff_eq go_simps)
qed

lemma retry_delay_default:
  "p_retryBackoff p = default_backoff \<Longrightarrow> 0 < retry_delay p a r \<and> (r \<le> 0 \<longrightarrow> retry_delay p a r = default_backoff a)"
  using default_backoff_bounds [of a] by (auto simp: retry_delay_def Let_def go_simps)

end
