(* ===== verification/OperationMemory.thy ===== *)
theory OperationMemory
  imports OperationTypes Prelude
begin

text \<open>
  The in-memory providers of the pipeline's interfaces: the state store (state/memory.go)
  and the queue coordinator (queue/memory/memory.go), with the interpretation of the two
  contracts on them. A mutex makes each call one step.
\<close>

section \<open>State store\<close>

type_synonym mem_store = "(string \<times> RequestState) list"

definition NewStore :: mem_store where "NewStore = []"

definition mem_Upsert :: "instant \<Rightarrow> OperationEnvelope option \<Rightarrow> OperationState \<Rightarrow> mem_store \<Rightarrow> op_error option \<times> mem_store" where
  "mem_Upsert now env st s =
    (case env of
       None \<Rightarrow> (Some (OpErr ''operation envelope is required''), s)
     | Some e \<Rightarrow>
         if oe_ID e = [] then (Some (OpErr ''operation id is required''), s)
         else (case map_of s (oe_ID e) of
                 Some r \<Rightarrow>
                   (None, AList.update (oe_ID e)
                      (r\<lparr>rs_Kind := oe_Kind e, rs_Resource := oe_Resource e, rs_State := st,
                         rs_LastError := (if st \<noteq> StateFailed then [] else rs_LastError r),
                         rs_Attempts := (if st = StateQueued then 0 else rs_Attempts r),
                         rs_UpdatedAt := UnixMilli now\<rparr>) s)
               | None \<Rightarrow>
                   (None, AList.update (oe_ID e)
                      \<lparr>rs_OperationID = oe_ID e, rs_Kind = oe_Kind e, rs_Resource = oe_Resource e,
                       rs_State = st, rs_Attempts = 0, rs_LastError = [], rs_UpdatedAt = UnixMilli now\<rparr> s)))"

definition mem_Advance :: "instant \<Rightarrow> string \<Rightarrow> OperationState \<Rightarrow> OperationState \<Rightarrow> mem_store \<Rightarrow> op_error option \<times> mem_store" where
  "mem_Advance now operationID old new s =
    (if operationID = [] then (Some (OpErr ''operation id is required''), s)
     else case map_of s operationID of
            None \<Rightarrow> (Some (not_found operationID), s)
          | Some r \<Rightarrow>
              if rs_State r \<noteq> old then (Some ErrStateConflict, s)
              else (None, AList.update operationID
                     (r\<lparr>rs_State := new,
                        rs_LastError := (if new \<noteq> StateFailed then [] else rs_LastError r),
                        rs_Attempts := (if new = StateQueued then 0 else rs_Attempts r),
                        rs_UpdatedAt := UnixMilli now\<rparr>) s))"

definition mem_RecordFailure :: "instant \<Rightarrow> string \<Rightarrow> int \<Rightarrow> string \<Rightarrow> mem_store \<Rightarrow> op_error option \<times> mem_store" where
  "mem_RecordFailure now operationID attempt reason s =
    (if operationID = [] then (Some (OpErr ''operation id is required''), s)
     else case map_of s operationID of
            None \<Rightarrow> (Some (not_found operationID), s)
          | Some r \<Rightarrow>
              (None, AList.update operationID
                 (r\<lparr>rs_State := StateFailed, rs_Attempts := attempt, rs_LastError := reason,
                    rs_UpdatedAt := UnixMilli now\<rparr>) s))"

definition mem_Get :: "instant \<Rightarrow> string \<Rightarrow> mem_store \<Rightarrow> (op_error + RequestState) \<times> mem_store" where
  "mem_Get now operationID s =
    (if operationID = [] then (Inl (OpErr ''operation id is required''), s)
     else case map_of s operationID of
            None \<Rightarrow> (Inl (not_found operationID), s)
          | Some r \<Rightarrow> (Inr r, s))"

definition memory_store :: "mem_store RequestStateStore" where
  "memory_store = \<lparr>s_Upsert = mem_Upsert, s_Advance = mem_Advance,
     s_RecordFailure = mem_RecordFailure, s_Get = mem_Get\<rparr>"

text \<open>Every record is stored under its own id.\<close>

definition store_ok :: "mem_store \<Rightarrow> bool" where
  "store_ok s \<longleftrightarrow> (\<forall>i r. map_of s i = Some r \<longrightarrow> rs_OperationID r = i)"

lemma store_ok_update: "store_ok s \<Longrightarrow> rs_OperationID r = i \<Longrightarrow> store_ok (AList.update i r s)"
  by (auto simp: store_ok_def update_conv')

interpretation mem_state: request_state_store memory_store store_ok map_of
proof unfold_locales
  fix s :: mem_store and env :: OperationEnvelope and now
  assume "store_ok s" "oe_ID env \<noteq> []"
  then show "\<exists>s'. s_Upsert memory_store now (Some env) StateQueued s = (None, s') \<and> store_ok s'
      \<and> map_of s' = (map_of s)(oe_ID env \<mapsto> queued_state now env)"
    by (auto simp: memory_store_def mem_Upsert_def queued_state_def update_conv' store_ok_update
        store_ok_def split: option.split)
qed (auto simp: memory_store_def mem_Advance_def mem_RecordFailure_def mem_Get_def advanced_state_def
    failed_state_def update_conv' store_ok_update store_ok_def split: option.split)

section \<open>Queue coordinator\<close>

record mem_queue =
  mq_queue :: "QueueItem list"
  mq_tickets :: "(string \<times> QueueTicket) list"
  mq_inFlight :: "(string \<times> QueueItem) list"

definition NewCoordinator :: mem_queue where
  "NewCoordinator = \<lparr>mq_queue = [], mq_tickets = [], mq_inFlight = []\<rparr>"

definition mem_Enqueue :: "instant \<Rightarrow> OperationEnvelope option \<Rightarrow> mem_queue \<Rightarrow> (op_error + QueueTicket) \<times> mem_queue" where
  "mem_Enqueue now env c =
    (case env of
       None \<Rightarrow> (Inl (OpErr ''operation envelope is required''), c)
     | Some e \<Rightarrow>
         (let queue = mq_queue c @ [\<lparr>qi_Envelope = e, qi_Attempts = 0, qi_AvailableAt = now\<rparr>];
              ticketID = (if oe_ID e \<noteq> [] then oe_ID e
                          else if oe_TraceID e \<noteq> [] then oe_TraceID e
                          else ''ticket-'' @ FormatInt (UnixNano now));
              ticket = \<lparr>qt_TicketID = ticketID, qt_OperationID = oe_ID e,
                        qt_QueuePosition = int (length queue) - 1, qt_EstimatedWait = 0,
                        qt_IssuedAt = now, qt_Degraded = False, qt_BackpressureTag = []\<rparr>
          in (Inr ticket, c\<lparr>mq_queue := queue, mq_tickets := AList.update ticketID ticket (mq_tickets c)\<rparr>)))"

fun position_of :: "string \<Rightarrow> QueueItem list \<Rightarrow> int \<Rightarrow> int" where
  "position_of i [] idx = - 1"
| "position_of i (item # items) idx =
    (if oe_ID (qi_Envelope item) = i then idx else position_of i items (idx + 1))"

definition mem_Poll :: "instant \<Rightarrow> string \<Rightarrow> mem_queue \<Rightarrow> (op_error + QueueStatus) \<times> mem_queue" where
  "mem_Poll now ticketID c =
    (case map_of (mq_tickets c) ticketID of
       None \<Rightarrow> (Inl (OpErr (''ticket '' @ ticketID @ '' not found'')), c)
     | Some t \<Rightarrow>
         (let i = qt_OperationID t;
              flying = map_of (mq_inFlight c) i \<noteq> None
          in (Inr \<lparr>qs_OperationID = i, qs_State = (if flying then StateExecuting else StateQueued),
                   qs_Position = (if flying then 0 else position_of i (mq_queue c) 0),
                   qs_Remaining = 0, qs_Message = []\<rparr>, c)))"

text \<open>The queue without its first item that satisfies a test, with that item.\<close>

fun take_first :: "(QueueItem \<Rightarrow> bool) \<Rightarrow> QueueItem list \<Rightarrow> (QueueItem \<times> QueueItem list) option" where
  "take_first P [] = None"
| "take_first P (item # items) =
    (if P item then Some (item, items)
     else map_option (\<lambda>(x, rest). (x, item # rest)) (take_first P items))"

definition mem_Cancel :: "instant \<Rightarrow> string \<Rightarrow> mem_queue \<Rightarrow> op_error option \<times> mem_queue" where
  "mem_Cancel now ticketID c =
    (case map_of (mq_tickets c) ticketID of
       None \<Rightarrow> (Some (OpErr (''ticket '' @ ticketID @ '' not found'')), c)
     | Some t \<Rightarrow>
         (case take_first (\<lambda>item. oe_ID (qi_Envelope item) = qt_OperationID t) (mq_queue c) of
            Some (item, rest) \<Rightarrow>
              (None, c\<lparr>mq_queue := rest, mq_tickets := AList.delete ticketID (mq_tickets c)\<rparr>)
          | None \<Rightarrow>
              (None, c\<lparr>mq_inFlight := AList.delete (qt_OperationID t) (mq_inFlight c),
                       mq_tickets := AList.delete ticketID (mq_tickets c)\<rparr>)))"

definition mem_Dequeue :: "instant \<Rightarrow> mem_queue \<Rightarrow> (op_error + QueueItem) \<times> mem_queue" where
  "mem_Dequeue now c =
    (case take_first (\<lambda>item. \<not> time_After (qi_AvailableAt item) now) (mq_queue c) of
       Some (item, rest) \<Rightarrow>
         (Inr item, c\<lparr>mq_queue := rest,
            mq_inFlight := AList.update (oe_ID (qi_Envelope item)) item (mq_inFlight c)\<rparr>)
     | None \<Rightarrow> (Inl ErrQueueEmpty, c))"

definition mem_Ack :: "instant \<Rightarrow> string \<Rightarrow> mem_queue \<Rightarrow> op_error option \<times> mem_queue" where
  "mem_Ack now operationID c = (None, c\<lparr>mq_inFlight := AList.delete operationID (mq_inFlight c)\<rparr>)"

definition mem_Requeue :: "instant \<Rightarrow> QueueItem option \<Rightarrow> duration \<Rightarrow> mem_queue \<Rightarrow> op_error option \<times> mem_queue" where
  "mem_Requeue now item delay c =
    (case item of
       None \<Rightarrow> (Some (OpErr ''queue item is nil''), c)
     | Some it \<Rightarrow> (None, c\<lparr>mq_queue := mq_queue c @ [it\<lparr>qi_AvailableAt := time_Add now delay\<rparr>]\<rparr>))"

definition memory_queue :: "mem_queue QueueCoordinator" where
  "memory_queue = \<lparr>q_Enqueue = mem_Enqueue, q_Poll = mem_Poll, q_Cancel = mem_Cancel,
     q_Dequeue = mem_Dequeue, q_Ack = mem_Ack, q_Requeue = mem_Requeue\<rparr>"

section \<open>The queue contract\<close>

definition item_ids :: "mem_queue \<Rightarrow> string list" where
  "item_ids c = map (\<lambda>item. oe_ID (qi_Envelope item)) (mq_queue c)"

definition queue_ok :: "mem_queue \<Rightarrow> bool" where
  "queue_ok c \<longleftrightarrow> distinct (item_ids c) \<and> [] \<notin> set (item_ids c)"

definition mem_waiting :: "mem_queue \<Rightarrow> string \<Rightarrow> (OperationEnvelope \<times> int) option" where
  "mem_waiting c = map_of (map (\<lambda>item. (oe_ID (qi_Envelope item), qi_Envelope item, qi_Attempts item)) (mq_queue c))"

definition mem_inflight :: "mem_queue \<Rightarrow> string set" where
  "mem_inflight c = dom (map_of (mq_inFlight c))"

lemma take_first_split:
  "take_first P xs = Some (x, rest) \<Longrightarrow> \<exists>ys zs. xs = ys @ x # zs \<and> rest = ys @ zs \<and> P x"
  by (induction xs arbitrary: rest) (auto split: if_splits, metis append_Cons)

lemma waiting_None_iff: "mem_waiting c i = None \<longleftrightarrow> i \<notin> set (item_ids c)"
  by (simp add: mem_waiting_def item_ids_def map_of_eq_None_iff image_image)

lemma waiting_append:
  assumes "mem_waiting c (oe_ID (qi_Envelope it)) = None"
  shows "mem_waiting (c\<lparr>mq_queue := mq_queue c @ [it]\<rparr>)
    = (mem_waiting c)(oe_ID (qi_Envelope it) \<mapsto> (qi_Envelope it, qi_Attempts it))"
  using assms by (auto simp: mem_waiting_def fun_eq_iff map_add_def split: option.split)

lemma waiting_remove:
  assumes "mq_queue c = ys @ x # zs" and "queue_ok c"
  shows "mem_waiting (c\<lparr>mq_queue := ys @ zs, mq_inFlight := fl\<rparr>) = (mem_waiting c)(oe_ID (qi_Envelope x) := None)"
    and "mem_waiting c (oe_ID (qi_Envelope x)) = Some (qi_Envelope x, qi_Attempts x)"
proof -
  let ?f = "\<lambda>item. (oe_ID (qi_Envelope item), qi_Envelope item, qi_Attempts item)"
  let ?i = "oe_ID (qi_Envelope x)"
  have n: "map_of (map ?f ys) ?i = None" "map_of (map ?f zs) ?i = None"
    using assms by (auto simp: queue_ok_def item_ids_def map_of_eq_None_iff image_image)
  show "mem_waiting c ?i = Some (qi_Envelope x, qi_Attempts x)"
    using n by (simp add: mem_waiting_def assms(1) map_add_def)
  show "mem_waiting (c\<lparr>mq_queue := ys @ zs, mq_inFlight := fl\<rparr>) = (mem_waiting c)(?i := None)"
    using n by (auto simp: mem_waiting_def assms(1) fun_eq_iff map_add_def split: option.split)
qed

lemma dequeue_facts:
  assumes "queue_ok c" and "mem_Dequeue now c = (Inr item, c')"
  shows "queue_ok c'" "mem_waiting c (oe_ID (qi_Envelope item)) = Some (qi_Envelope item, qi_Attempts item)"
    "mem_waiting c' = (mem_waiting c)(oe_ID (qi_Envelope item) := None)"
    "mem_inflight c' = insert (oe_ID (qi_Envelope item)) (mem_inflight c)" "oe_ID (qi_Envelope item) \<noteq> []"
    "qi_AvailableAt item \<le> now"
proof -
  from assms(2) obtain rest where
    t: "take_first (\<lambda>item. \<not> time_After (qi_AvailableAt item) now) (mq_queue c) = Some (item, rest)"
    and c': "c' = c\<lparr>mq_queue := rest, mq_inFlight := AList.update (oe_ID (qi_Envelope item)) item (mq_inFlight c)\<rparr>"
    by (auto simp: mem_Dequeue_def split: option.splits)
  obtain ys zs where s: "mq_queue c = ys @ item # zs" "rest = ys @ zs" "\<not> time_After (qi_AvailableAt item) now"
    using take_first_split [OF t] by blast
  show "qi_AvailableAt item \<le> now" using s(3) by (simp add: time_After_def)
  show "queue_ok c'" "oe_ID (qi_Envelope item) \<noteq> []"
    using assms(1) by (auto simp: queue_ok_def item_ids_def c' s)
  show "mem_waiting c (oe_ID (qi_Envelope item)) = Some (qi_Envelope item, qi_Attempts item)"
    "mem_waiting c' = (mem_waiting c)(oe_ID (qi_Envelope item) := None)"
    unfolding c' s(2) by (rule waiting_remove [OF s(1) assms(1)])+
  show "mem_inflight c' = insert (oe_ID (qi_Envelope item)) (mem_inflight c)"
    by (auto simp: mem_inflight_def c' update_conv')
qed

interpretation mem_queue: queue_coordinator memory_queue queue_ok mem_waiting mem_inflight
proof unfold_locales
  fix c :: mem_queue and env :: OperationEnvelope and now
  assume c: "queue_ok c" and e: "oe_ID env \<noteq> []" and w: "mem_waiting c (oe_ID env) = None"
  let ?it = "\<lparr>qi_Envelope = env, qi_Attempts = 0, qi_AvailableAt = now\<rparr>"
  have "mem_waiting (c\<lparr>mq_queue := mq_queue c @ [?it], mq_tickets := ts\<rparr>) = (mem_waiting c)(oe_ID env \<mapsto> (env, 0))" for ts
    using waiting_append [of c ?it] w by (simp add: mem_waiting_def)
  with c e w show "\<exists>t q'. q_Enqueue memory_queue now (Some env) c = (Inr t, q') \<and> queue_ok q'
      \<and> qt_OperationID t = oe_ID env \<and> mem_waiting q' = (mem_waiting c)(oe_ID env \<mapsto> (env, 0))
      \<and> mem_inflight q' = mem_inflight c"
    by (simp add: memory_queue_def mem_Enqueue_def Let_def queue_ok_def item_ids_def waiting_None_iff
        mem_inflight_def)
next
  fix c c' :: mem_queue and item now
  assume "queue_ok c" "q_Dequeue memory_queue now c = (Inr item, c')"
  then show "queue_ok c' \<and> mem_waiting c (oe_ID (qi_Envelope item)) = Some (qi_Envelope item, qi_Attempts item)
      \<and> mem_waiting c' = (mem_waiting c)(oe_ID (qi_Envelope item) := None)
      \<and> mem_inflight c' = insert (oe_ID (qi_Envelope item)) (mem_inflight c) \<and> oe_ID (qi_Envelope item) \<noteq> []"
    using dequeue_facts [of c now item c'] by (simp add: memory_queue_def)
next
  fix c :: mem_queue and i :: string and now
  assume "queue_ok c"
  then show "\<exists>q'. q_Ack memory_queue now i c = (None, q') \<and> queue_ok q' \<and> mem_waiting q' = mem_waiting c
      \<and> mem_inflight q' = mem_inflight c - {i}"
    by (auto simp: memory_queue_def mem_Ack_def queue_ok_def item_ids_def mem_waiting_def mem_inflight_def
        delete_conv')
next
  fix c :: mem_queue and item :: QueueItem and now delay
  assume c: "queue_ok c" and e: "oe_ID (qi_Envelope item) \<noteq> []" and w: "mem_waiting c (oe_ID (qi_Envelope item)) = None"
  let ?it = "item\<lparr>qi_AvailableAt := time_Add now delay\<rparr>"
  show "\<exists>q'. q_Requeue memory_queue now (Some item) delay c = (None, q') \<and> queue_ok q'
      \<and> mem_waiting q' = (mem_waiting c)(oe_ID (qi_Envelope item) \<mapsto> (qi_Envelope item, qi_Attempts item))
      \<and> mem_inflight q' \<subseteq> mem_inflight c \<and> mem_inflight c - {oe_ID (qi_Envelope item)} \<subseteq> mem_inflight q'"
    using waiting_append [of c ?it] c e w
    by (auto simp: memory_queue_def mem_Requeue_def queue_ok_def item_ids_def waiting_None_iff mem_inflight_def)
qed

end
