(* ===== verification/OperationRuns.thy ===== *)
theory OperationRuns
  imports OperationPipeline OperationMemory
begin

text \<open>
  The state machine of an operation: which moves of the recorded state one processing step
  can make, for any providers that keep the contracts, and runs of the pipeline on the
  in-memory providers.
\<close>

text \<open>
  The pipeline over any queue and any state store that keep their contracts: what one
  processing step does on each branch. The lemmas are proved once in the locale of the
  environment and used through its interpretation on the in-memory providers.
\<close>

lemma settle_attempt [simp]: "or_Attempt (settle_result i msg attempt res err) = attempt"
  by (simp add: settle_result_def Let_def)

lemma settle_error: "err = Some e \<Longrightarrow> or_Error (settle_result i msg attempt res err) \<noteq> None"
  by (auto simp: settle_result_def Let_def split: option.split)

lemma settle_nil: "or_Error (settle_result i msg attempt None err) \<noteq> None"
  by (auto simp: settle_result_def Let_def split: option.split)

definition failure_reason :: "OperationResult \<Rightarrow> string" where
  "failure_reason res =
    (let reason = (case or_Error res of Some e \<Rightarrow> err_text e | None \<Rightarrow> ''execution failed'')
     in if reason = [] then ''unknown error'' else reason)"

definition failure_error :: "OperationResult \<Rightarrow> op_error" where
  "failure_error res = (case or_Error res of Some e \<Rightarrow> e
     | None \<Rightarrow> OpErr (''operation '' @ or_OperationID res @ '' failed''))"

text \<open>An executor that hands back the operation it was given.\<close>

definition ids_kept :: "OperationExecutor \<Rightarrow> bool" where
  "ids_kept x \<longleftrightarrow> (\<forall>env. oe_ID (snd (ex_Prepare x env)) = oe_ID env
     \<and> oe_ID (snd (snd (ex_Execute x env))) = oe_ID env
     \<and> oe_ID (snd (snd (ex_Compensate x env))) = oe_ID env
     \<and> (\<forall>r. fst (ex_Execute x env) = Some r \<longrightarrow> or_OperationID r = oe_ID env)
     \<and> (\<forall>r. fst (ex_Compensate x env) = Some r \<longrightarrow> or_OperationID r = oe_ID env))"

lemma settle_id: "(\<And>r. res = Some r \<Longrightarrow> or_OperationID r = i) \<Longrightarrow>
    or_OperationID (settle_result i msg attempt res err) = i"
  by (auto simp: settle_result_def Let_def split: option.split)

locale pipeline_store = request_state_store S ok view
  for S :: "'s RequestStateStore" and ok :: "'s \<Rightarrow> bool" and view :: "'s \<Rightarrow> string \<Rightarrow> RequestState option" +
  fixes p :: "('q, 's) Pipeline"
  assumes p_state: "p_state p = S"
begin

lemma advance_any:
  assumes "ok s" and "i \<noteq> []"
  shows "\<exists>e s'. s_Advance S now i old new s = (e, s') \<and> ok s' \<and>
    view s' = (if \<exists>r. view s i = Some r \<and> rs_State r = old
               then (view s)(i \<mapsto> advanced_state now new (the (view s i))) else view s)
    \<and> (e = None \<longleftrightarrow> (\<exists>r. view s i = Some r \<and> rs_State r = old))"
proof (cases "view s i")
  case None
  with advance_missing [OF assms None] assms show ?thesis by simp
next
  case (Some r)
  show ?thesis
  proof (cases "rs_State r = old")
    case True
    with advance_ok [OF assms Some True, of now new] Some show ?thesis by auto
  next
    case False
    with advance_conflict [OF assms Some False] Some assms show ?thesis by simp
  qed
qed

lemma executing:
  assumes "ok s" and "i \<noteq> []" and "view s i = Some r" and "rs_State r = StateQueued \<or> rs_State r = StateFailed"
  shows "\<exists>s'. advanceToExecuting p now i s = (None, s') \<and> ok s'
    \<and> view s' = (view s)(i \<mapsto> advanced_state now StateExecuting r)"
proof (cases "rs_State r = StateQueued")
  case True
  from advance_ok [OF assms(1-3) True, of now StateExecuting] show ?thesis
    by (auto simp: advanceToExecuting_def p_state)
next
  case False
  with assms(4) have "rs_State r = StateFailed" by simp
  from advance_ok [OF assms(1-3) this, of now StateExecuting] advance_conflict [OF assms(1-3) False, of now StateExecuting]
  show ?thesis by (auto simp: advanceToExecuting_def p_state)
qed

lemma not_executing:
  assumes "ok s" and "i \<noteq> []" and "\<nexists>r. view s i = Some r \<and> (rs_State r = StateQueued \<or> rs_State r = StateFailed)"
  shows "\<exists>e. advanceToExecuting p now i s = (Some e, s)"
proof (cases "view s i")
  case None
  with advance_missing [OF assms(1,2) None] show ?thesis
    by (simp add: advanceToExecuting_def p_state not_found_def)
next
  case (Some r)
  with assms(3) have "rs_State r \<noteq> StateQueued" "rs_State r \<noteq> StateFailed" by auto
  with advance_conflict [OF assms(1,2) Some] show ?thesis
    by (simp add: advanceToExecuting_def p_state)
qed

lemma failure_recorded:
  assumes "ok s" and "oe_ID (qi_Envelope item) = i" "i \<noteq> []" and "view s i = Some r"
  shows "ok (handleFailure p now item attempt err s)
    \<and> view (handleFailure p now item attempt err s)
      = (view s)(i \<mapsto> failed_state now attempt (if err_text err = [] then ''unknown error'' else err_text err) r)"
  using record_ok [OF assms(1,3,4), of now attempt "if err_text err = [] then ''unknown error'' else err_text err"]
    assms(2) by (auto simp: handleFailure_def p_state)

text \<open>What the store holds once a failed attempt has been recorded, whatever the queue is.\<close>

lemma execution_failed:
  assumes R: "ok s" "i \<noteq> []" "oe_ID (qi_Envelope item) = i" "view s i = Some r"
      "rs_State r = StateQueued \<or> rs_State r = StateFailed"
    and "ex_Prepare (p_exec p) (qi_Envelope item) = (None, env1)"
    and "ex_Execute (p_exec p) env1 = (res0, err, env2)" and "oe_ID env2 = i"
    and res: "res = settle_result i ''executor returned nil result'' (qi_Attempts item + 1) res0 err"
    and "\<not> (or_Error res = None \<and> or_State res = StateCompleted)"
  shows "\<exists>s1. processExecution p now item (q, s) =
      (if or_Fatal res \<or> p_maxAttempts p \<le> qi_Attempts item + 1
       then finish_failed p now (item\<lparr>qi_Envelope := env2\<rparr>) res (q, s1)
       else retry_later p now (item\<lparr>qi_Envelope := env2\<rparr>) res (q, s1))
    \<and> ok s1 \<and> view s1 = (view s)(i \<mapsto> failed_state now (qi_Attempts item + 1) (failure_reason res)
                           (advanced_state now StateExecuting r))"
proof -
  obtain s0 where s0: "advanceToExecuting p now i s = (None, s0)" "ok s0"
    "view s0 = (view s)(i \<mapsto> advanced_state now StateExecuting r)"
    using executing [OF R(1,2,4,5)] by blast
  let ?reason = "case or_Error res of Some e \<Rightarrow> err_text e | None \<Rightarrow> ''execution failed''"
  let ?s1 = "handleFailure p now (item\<lparr>qi_Envelope := env2\<rparr>) (qi_Attempts item + 1) (OpErr ?reason) s0"
  have "ok ?s1 \<and> view ?s1 = (view s0)(i \<mapsto> failed_state now (qi_Attempts item + 1)
      (if err_text (OpErr ?reason) = [] then ''unknown error'' else err_text (OpErr ?reason))
      (advanced_state now StateExecuting r))"
    using assms(8) R(2) by (intro failure_recorded) (simp_all add: s0)
  moreover have "processExecution p now item (q, s) =
      (if or_Fatal res \<or> p_maxAttempts p \<le> qi_Attempts item + 1
       then finish_failed p now (item\<lparr>qi_Envelope := env2\<rparr>) res (q, ?s1)
       else retry_later p now (item\<lparr>qi_Envelope := env2\<rparr>) res (q, ?s1))"
    using assms(6-8,10) R(3) s0(1) unfolding res
    by (auto simp: processExecution_def handleExecutionResult_def Let_def)
  ultimately show ?thesis by (intro exI [of _ ?s1]) (simp add: s0(3) failure_reason_def Let_def)
qed

end

text \<open>The pipeline on a queue that keeps the contract, with a store that keeps its own.\<close>

locale pipeline_env = pipeline_store S ok view p + queue_coordinator Q qok waiting inflight
  for S :: "'s RequestStateStore" and ok :: "'s \<Rightarrow> bool" and view :: "'s \<Rightarrow> string \<Rightarrow> RequestState option"
    and p :: "('q, 's) Pipeline" and Q :: "'q QueueCoordinator" and qok :: "'q \<Rightarrow> bool"
    and waiting :: "'q \<Rightarrow> string \<Rightarrow> (OperationEnvelope \<times> int) option" and inflight :: "'q \<Rightarrow> string set" +
  assumes p_queue: "p_queue p = Q"
begin

section \<open>The outcomes of an execution\<close>

text \<open>A runnable item: dequeued, with its operation queued or failed.\<close>

definition runnable :: "QueueItem \<Rightarrow> string \<Rightarrow> RequestState \<Rightarrow> 'q \<Rightarrow> 's \<Rightarrow> bool" where
  "runnable item i r q s \<longleftrightarrow> ok s \<and> qok q \<and> i \<noteq> [] \<and> oe_ID (qi_Envelope item) = i \<and> view s i = Some r
    \<and> (rs_State r = StateQueued \<or> rs_State r = StateFailed) \<and> waiting q i = None"

lemma execution_completed:
  assumes "runnable item i r q s" and "ex_Prepare (p_exec p) (qi_Envelope item) = (None, env1)"
    and "ex_Execute (p_exec p) env1 = (res, err, env2)" and "oe_ID env2 = i"
    and "or_Error (settle_result i ''executor returned nil result'' (qi_Attempts item + 1) res err) = None"
    and "or_State (settle_result i ''executor returned nil result'' (qi_Attempts item + 1) res err) = StateCompleted"
  shows "\<exists>q' s'. processExecution p now item (q, s) = (None, q', s') \<and> ok s' \<and> qok q'
    \<and> view s' = (view s)(i \<mapsto> advanced_state now StateCompleted (advanced_state now StateExecuting r))
    \<and> waiting q' = waiting q \<and> inflight q' = inflight q - {i}"
proof -
  from assms(1) have R: "ok s" "qok q" "i \<noteq> []" "oe_ID (qi_Envelope item) = i" "view s i = Some r"
    "rs_State r = StateQueued \<or> rs_State r = StateFailed" "waiting q i = None"
    by (simp_all add: runnable_def)
  obtain s1 where s1: "advanceToExecuting p now i s = (None, s1)" "ok s1"
    "view s1 = (view s)(i \<mapsto> advanced_state now StateExecuting r)"
    using executing [OF R(1,3,5,6)] by blast
  have "view s1 i = Some (advanced_state now StateExecuting r)" by (simp add: s1(3))
  from advance_ok [OF s1(2) R(3) this, of StateExecuting now StateCompleted] obtain s2 where
    s2: "s_Advance S now i StateExecuting StateCompleted s1 = (None, s2)" "ok s2"
    "view s2 = (view s1)(i \<mapsto> advanced_state now StateCompleted (advanced_state now StateExecuting r))"
    by (auto simp: advanced_state_def)
  obtain q' where q': "q_Ack Q now i q = (None, q')" "qok q'" "waiting q' = waiting q" "inflight q' = inflight q - {i}"
    using ack_done [OF R(2,3,7)] by blast
  show ?thesis
    using assms(2-6) R(4) s1 s2 q'
    by (simp add: processExecution_def Let_def p_state p_queue ack_then_def)
qed

text \<open>The same for a runnable item.\<close>

lemma execution_failed_state:
  assumes "runnable item i r q s" and "ex_Prepare (p_exec p) (qi_Envelope item) = (None, env1)"
    and "ex_Execute (p_exec p) env1 = (res0, err, env2)" and "oe_ID env2 = i"
    and res: "res = settle_result i ''executor returned nil result'' (qi_Attempts item + 1) res0 err"
    and "or_OperationID res = i" and "\<not> (or_Error res = None \<and> or_State res = StateCompleted)"
  shows "\<exists>s1. processExecution p now item (q, s) =
      (if or_Fatal res \<or> p_maxAttempts p \<le> qi_Attempts item + 1
       then finish_failed p now (item\<lparr>qi_Envelope := env2\<rparr>) res (q, s1)
       else retry_later p now (item\<lparr>qi_Envelope := env2\<rparr>) res (q, s1))
    \<and> ok s1 \<and> view s1 = (view s)(i \<mapsto> failed_state now (qi_Attempts item + 1) (failure_reason res)
                           (advanced_state now StateExecuting r))"
  using assms(1-4,7) by (intro execution_failed [OF _ _ _ _ _ assms(2-5,7)]) (simp_all add: runnable_def)

lemma execution_retried:
  assumes "runnable item i r q s" and "ex_Prepare (p_exec p) (qi_Envelope item) = (None, env1)"
    and "ex_Execute (p_exec p) env1 = (res0, err, env2)" and "oe_ID env2 = i"
    and res: "res = settle_result i ''executor returned nil result'' (qi_Attempts item + 1) res0 err"
    and "or_OperationID res = i" and "\<not> (or_Error res = None \<and> or_State res = StateCompleted)"
    and "\<not> or_Fatal res" and "qi_Attempts item + 1 < p_maxAttempts p"
  shows "\<exists>q' s' r'. processExecution p now item (q, s) = (Some (failure_error res), q', s') \<and> ok s' \<and> qok q'
    \<and> view s' = (view s)(i \<mapsto> r') \<and> rs_State r' = StateQueued \<and> rs_Attempts r' = 0 \<and> rs_LastError r' = []
    \<and> waiting q' = (waiting q)(i \<mapsto> (env2, qi_Attempts item + 1))
    \<and> q_Requeue Q now (Some (item\<lparr>qi_Envelope := env2, qi_Attempts := qi_Attempts item + 1,
          qi_AvailableAt := now + retry_delay p (qi_Attempts item + 1) (or_RetryAfter res)\<rparr>))
          (retry_delay p (qi_Attempts item + 1) (or_RetryAfter res)) q = (None, q')"
proof -
  from assms(1) have R: "qok q" "i \<noteq> []" "waiting q i = None" by (simp_all add: runnable_def)
  obtain s1 where s1: "processExecution p now item (q, s) = retry_later p now (item\<lparr>qi_Envelope := env2\<rparr>) res (q, s1)"
    "ok s1" "view s1 = (view s)(i \<mapsto> failed_state now (qi_Attempts item + 1) (failure_reason res)
                           (advanced_state now StateExecuting r))"
    using execution_failed_state [OF assms(1-7)] assms(8,9) by fastforce
  let ?f = "failed_state now (qi_Attempts item + 1) (failure_reason res) (advanced_state now StateExecuting r)"
  have "view s1 i = Some ?f" "rs_State ?f = StateFailed" by (simp_all add: s1(3) failed_state_def)
  from advance_ok [OF s1(2) R(2) this, of now StateQueued] obtain s2 where
    s2: "s_Advance S now i StateFailed StateQueued s1 = (None, s2)" "ok s2"
    "view s2 = (view s1)(i \<mapsto> advanced_state now StateQueued ?f)" by blast
  let ?d = "retry_delay p (qi_Attempts item + 1) (or_RetryAfter res)"
  let ?it = "item\<lparr>qi_Envelope := env2, qi_Attempts := qi_Attempts item + 1, qi_AvailableAt := now + ?d\<rparr>"
  have "oe_ID (qi_Envelope ?it) \<noteq> []" "waiting q (oe_ID (qi_Envelope ?it)) = None"
    using R assms(4) by simp_all
  from requeue_waits [OF R(1) this, of now ?d] obtain q' where q': "q_Requeue Q now (Some ?it) ?d q = (None, q')"
    "qok q'" "waiting q' = (waiting q)(i \<mapsto> (env2, qi_Attempts item + 1))"
    using assms(4) by auto
  have at: "or_Attempt res = qi_Attempts item + 1" by (simp add: res)
  have it: "item\<lparr>qi_Envelope := env2, qi_AvailableAt := now + ?d, qi_Attempts := qi_Attempts item + 1\<rparr> = ?it" by simp
  have "processExecution p now item (q, s) = (Some (failure_error res), q', s2)"
    unfolding s1(1) using q'(1) s2(1) at assms(6)
    by (simp add: retry_later_def Let_def p_state p_queue time_simps failure_error_def split: option.split)
  then show ?thesis
    using q' s2 s1(3)
    by (intro exI [of _ q'] exI [of _ s2] exI [of _ "advanced_state now StateQueued ?f"])
      (simp add: advanced_state_def)
qed

lemma execution_exhausted:
  assumes "runnable item i r q s" and "ex_Prepare (p_exec p) (qi_Envelope item) = (None, env1)"
    and "ex_Execute (p_exec p) env1 = (res0, err, env2)" and "oe_ID env2 = i"
    and res: "res = settle_result i ''executor returned nil result'' (qi_Attempts item + 1) res0 err"
    and "or_OperationID res = i" and "\<not> (or_Error res = None \<and> or_State res = StateCompleted)"
    and "or_Fatal res \<or> p_maxAttempts p \<le> qi_Attempts item + 1" and "\<not> or_TriggerCompensation res"
  shows "\<exists>q' s'. processExecution p now item (q, s) = (Some (failure_error res), q', s') \<and> ok s' \<and> qok q'
    \<and> view s' = (view s)(i \<mapsto> failed_state now (qi_Attempts item + 1) (failure_reason res)
                           (advanced_state now StateExecuting r))
    \<and> waiting q' = waiting q \<and> inflight q' = inflight q - {i} \<and> q_Ack Q now i q = (None, q')"
proof -
  from assms(1) have R: "qok q" "i \<noteq> []" "waiting q i = None" by (simp_all add: runnable_def)
  obtain s1 where s1: "processExecution p now item (q, s) = finish_failed p now (item\<lparr>qi_Envelope := env2\<rparr>) res (q, s1)"
    "ok s1" "view s1 = (view s)(i \<mapsto> failed_state now (qi_Attempts item + 1) (failure_reason res)
                           (advanced_state now StateExecuting r))"
    using execution_failed_state [OF assms(1-7)] assms(8) by fastforce
  have "view s1 i = Some (failed_state now (qi_Attempts item + 1) (failure_reason res) (advanced_state now StateExecuting r))"
    by (simp add: s1(3))
  from advance_conflict [OF s1(2) R(2) this, of StateExecuting now StateFailed]
  have adv: "s_Advance S now i StateExecuting StateFailed s1 = (Some ErrStateConflict, s1)"
    by (simp add: failed_state_def)
  obtain q' where q': "q_Ack Q now i q = (None, q')" "qok q'" "waiting q' = waiting q" "inflight q' = inflight q - {i}"
    using ack_done [OF R] by blast
  have "processExecution p now item (q, s) = (Some (failure_error res), q', s1)"
    unfolding s1(1) using q'(1) adv assms(6,9)
    by (simp add: finish_failed_def Let_def p_state p_queue ack_then_def failure_error_def split: option.split)
  then show ?thesis using q' s1(2,3) by blast
qed

text \<open>A failing preparation neither acknowledges the item nor puts it back.\<close>

lemma prepare_failed:
  assumes "runnable item i r q s" and "ex_Prepare (p_exec p) (qi_Envelope item) = (Some err, env1)" and "oe_ID env1 = i"
  shows "\<exists>s'. processExecution p now item (q, s) = (Some err, q, s') \<and> ok s'
    \<and> view s' = (view s)(i \<mapsto> failed_state now (qi_Attempts item + 1) (''prepare: '' @ err_text err)
                           (advanced_state now StateExecuting r))"
proof -
  from assms(1) have R: "ok s" "i \<noteq> []" "oe_ID (qi_Envelope item) = i" "view s i = Some r"
    "rs_State r = StateQueued \<or> rs_State r = StateFailed"
    by (simp_all add: runnable_def)
  obtain s0 where s0: "advanceToExecuting p now i s = (None, s0)" "ok s0"
    "view s0 = (view s)(i \<mapsto> advanced_state now StateExecuting r)"
    using executing [OF R(1,2,4,5)] by blast
  let ?s1 = "handleFailure p now (item\<lparr>qi_Envelope := env1\<rparr>) (qi_Attempts item + 1) (OpWrap ''prepare'' err) s0"
  have "ok ?s1 \<and> view ?s1 = (view s0)(i \<mapsto> failed_state now (qi_Attempts item + 1)
      (if err_text (OpWrap ''prepare'' err) = [] then ''unknown error'' else err_text (OpWrap ''prepare'' err))
      (advanced_state now StateExecuting r))"
    using assms(3) R(2) by (intro failure_recorded) (simp_all add: s0)
  moreover have "processExecution p now item (q, s) = (Some err, q, ?s1)"
    using assms(2) R(3) s0(1) by (simp add: processExecution_def Let_def)
  ultimately show ?thesis by (simp add: s0(3))
qed

end

interpretation mem_pipe: pipeline_env memory_store store_ok map_of
  "\<lparr>p_queue = memory_queue, p_state = memory_store, p_exec = x, p_maxAttempts = n, p_retryBackoff = b\<rparr>" memory_queue queue_ok mem_waiting mem_inflight
  for x n b
  by unfold_locales simp_all

section \<open>Moves\<close>

definition moves :: "OperationState \<Rightarrow> OperationState \<Rightarrow> bool" where
  "moves a b \<longleftrightarrow> a = b
    \<or> (a = StateQueued \<or> a = StateFailed) \<and> b \<in> {StateQueued, StateFailed, StateCompleted, StateCompensating}
    \<or> a = StateCompensating \<and> b \<in> {StateCompensated, StateFailed}"

text \<open>One operation moved, the others were left alone.\<close>

definition moved :: "(string \<Rightarrow> RequestState option) \<Rightarrow> (string \<Rightarrow> RequestState option) \<Rightarrow> bool" where
  "moved v v' \<longleftrightarrow> v' = v \<or> (\<exists>i r r'. v i = Some r \<and> v' = v(i \<mapsto> r') \<and> moves (rs_State r) (rs_State r'))"

lemma moved_refl [simp]: "moved v v"
  by (simp add: moved_def)

lemma movedI: "v i = Some r \<Longrightarrow> v' = v(i \<mapsto> r') \<Longrightarrow> moves (rs_State r) (rs_State r') \<Longrightarrow> moved v v'"
  by (auto simp: moved_def)

lemma moved_state:
  assumes "moved v v'" and "v i = Some r"
  shows "\<exists>r'. v' i = Some r' \<and> moves (rs_State r) (rs_State r')"
  using assms by (auto simp: moved_def moves_def)

definition terminal :: "OperationState \<Rightarrow> bool" where
  "terminal st \<longleftrightarrow> st = StateCompleted \<or> st = StateCompensated"

lemma moves_terminal: "terminal a \<Longrightarrow> moves a b \<Longrightarrow> b = a"
  by (auto simp: terminal_def moves_def)

lemma ack_then_store [simp]: "snd (snd (ack_then p now i r (q, s))) = s"
  by (simp add: ack_then_def split: prod.split option.split)

context pipeline_env begin

lemma finish_failed_moves:
  assumes "ok s" and "view s i = Some f" and "rs_State f = StateFailed" and "or_OperationID res = i" and "i \<noteq> []"
  shows "ok (snd (snd (finish_failed p now item res (q, s)))) \<and>
    (\<exists>r'. view (snd (snd (finish_failed p now item res (q, s)))) = (view s)(i \<mapsto> r')
       \<and> rs_State r' \<in> {StateFailed, StateCompensating})"
proof -
  have adv: "s_Advance S now i StateExecuting StateFailed s = (Some ErrStateConflict, s)"
    using advance_conflict [OF assms(1,5,2), of StateExecuting] assms(3) by simp
  obtain s2 where s2: "s_Advance S now i StateFailed StateCompensating s = (None, s2)" "ok s2"
    "view s2 = (view s)(i \<mapsto> advanced_state now StateCompensating f)"
    using advance_ok [OF assms(1,5,2,3)] by blast
  have same: "view s = (view s)(i \<mapsto> f)" using assms(2) by (simp add: fun_upd_idem)
  have st: "snd (snd (finish_failed p now item res (q, s))) = (if or_TriggerCompensation res then s2 else s)"
    using adv s2(1) assms(4) by (simp add: finish_failed_def Let_def p_state)
  show ?thesis
  proof (cases "or_TriggerCompensation res")
    case True
    then show ?thesis unfolding st using s2(2,3) state_after(1) by fastforce
  next
    case False
    then show ?thesis unfolding st using same assms(1,3) by auto
  qed
qed

lemma retry_later_moves:
  assumes "ok s" and "view s i = Some f" and "rs_State f = StateFailed" and "or_OperationID res = i" and "i \<noteq> []"
  shows "ok (snd (snd (retry_later p now item res (q, s)))) \<and>
    (\<exists>r'. view (snd (snd (retry_later p now item res (q, s)))) = (view s)(i \<mapsto> r') \<and> rs_State r' = StateQueued)"
proof -
  obtain s2 where s2: "s_Advance S now i StateFailed StateQueued s = (None, s2)" "ok s2"
    "view s2 = (view s)(i \<mapsto> advanced_state now StateQueued f)"
    using advance_ok [OF assms(1,5,2,3)] by blast
  have eq: "snd (snd (retry_later p now item res (q, s))) = s2"
    using s2(1) assms(4) by (simp add: retry_later_def Let_def p_state split: prod.split option.split)
  show ?thesis unfolding eq using s2(2,3) state_after(1) by blast
qed

lemma execution_moves:
  assumes "ok s" and "oe_ID (qi_Envelope item) = i" "i \<noteq> []" and ids: "ids_kept (p_exec p)"
  shows "ok (snd (snd (processExecution p now item (q, s))))
    \<and> moved (view s) (view (snd (snd (processExecution p now item (q, s)))))"
proof (cases "\<exists>r. view s i = Some r \<and> (rs_State r = StateQueued \<or> rs_State r = StateFailed)")
  case False
  then obtain e where "advanceToExecuting p now i s = (Some e, s)"
    using not_executing [OF assms(1,3)] by blast
  then show ?thesis using assms(1,2) by (simp add: processExecution_def Let_def)
next
  case True
  then obtain r where r: "view s i = Some r" "rs_State r = StateQueued \<or> rs_State r = StateFailed" by blast
  obtain s1 where s1: "advanceToExecuting p now i s = (None, s1)" "ok s1"
    "view s1 = (view s)(i \<mapsto> advanced_state now StateExecuting r)"
    using executing [OF assms(1,3) r] by blast
  let ?x = "advanced_state now StateExecuting r"
  have x: "view s1 i = Some ?x" "rs_State ?x = StateExecuting" by (simp_all add: s1(3))
  obtain perr env1 where prep: "ex_Prepare (p_exec p) (qi_Envelope item) = (perr, env1)" by fastforce
  obtain res0 err env2 where exec: "ex_Execute (p_exec p) env1 = (res0, err, env2)" by (metis prod_cases3)
  from ids have e1: "oe_ID env1 = i" unfolding ids_kept_def using prep assms(2) by (metis snd_conv)
  have e2: "oe_ID env2 = i" "\<And>r. res0 = Some r \<Longrightarrow> or_OperationID r = i"
    using ids exec e1 unfolding ids_kept_def by (metis snd_conv, metis fst_conv)
  let ?res = "settle_result i ''executor returned nil result'' (qi_Attempts item + 1) res0 err"
  have rid: "or_OperationID ?res = i" by (rule settle_id) (rule e2(2))
  let ?item = "item\<lparr>qi_Envelope := env2\<rparr>"
  let ?P = "\<lambda>s'. ok s' \<and> (\<exists>r'. view s' = (view s)(i \<mapsto> r') \<and> rs_State r' \<in> {StateQueued, StateFailed, StateCompleted, StateCompensating})"
  have "?P (snd (snd (processExecution p now item (q, s))))"
  proof (cases perr)
    case (Some e)
    have "ok (handleFailure p now (item\<lparr>qi_Envelope := env1\<rparr>) (qi_Attempts item + 1) (OpWrap ''prepare'' e) s1)
      \<and> (\<exists>r'. view (handleFailure p now (item\<lparr>qi_Envelope := env1\<rparr>) (qi_Attempts item + 1) (OpWrap ''prepare'' e) s1)
          = (view s1)(i \<mapsto> r') \<and> rs_State r' = StateFailed)"
      using failure_recorded [OF s1(2) _ assms(3) x(1), of "item\<lparr>qi_Envelope := env1\<rparr>" now
          "qi_Attempts item + 1" "OpWrap ''prepare'' e"] e1 state_after(2)
      by fastforce
    then show ?thesis using Some prep s1(1,3) assms(2) by (auto simp: processExecution_def Let_def)
  next
    case None
    show ?thesis
    proof (cases "or_Error ?res = None \<and> or_State ?res = StateCompleted")
      case True
      obtain s2 where s2: "s_Advance S now i StateExecuting StateCompleted s1 = (None, s2)" "ok s2"
        "view s2 = (view s1)(i \<mapsto> advanced_state now StateCompleted ?x)"
        using advance_ok [OF s1(2) assms(3) x] by blast
      have "snd (snd (processExecution p now item (q, s))) = s2"
        using None True prep exec s1(1) s2(1) assms(2) e2(1) by (simp add: processExecution_def Let_def p_state)
      with s2(2,3) s1(3) show ?thesis by auto
    next
      case False
      let ?e = "OpErr (case or_Error ?res of Some e \<Rightarrow> err_text e | None \<Rightarrow> ''execution failed'')"
      let ?sf = "handleFailure p now ?item (qi_Attempts item + 1) ?e s1"
      obtain f where f: "ok ?sf" "view ?sf = (view s1)(i \<mapsto> f)" "rs_State f = StateFailed"
        using failure_recorded [OF s1(2) _ assms(3) x(1), of ?item now "qi_Attempts item + 1" ?e] e2(1) state_after(2)
        by fastforce
      have fi: "view ?sf i = Some f" by (simp add: f(2))
      have eq: "snd (snd (processExecution p now item (q, s))) =
          (if or_Fatal ?res \<or> p_maxAttempts p \<le> qi_Attempts item + 1
           then snd (snd (finish_failed p now ?item ?res (q, ?sf)))
           else snd (snd (retry_later p now ?item ?res (q, ?sf))))"
        using None False prep exec s1(1) assms(2) e2(1)
        by (auto simp: processExecution_def handleExecutionResult_def Let_def)
      show ?thesis
        unfolding eq
        using finish_failed_moves [OF f(1) fi f(3) rid assms(3), of now ?item q]
          retry_later_moves [OF f(1) fi f(3) rid assms(3), of now ?item q]
        by (auto simp: f(2) s1(3))
    qed
  qed
  then obtain r' where "ok (snd (snd (processExecution p now item (q, s))))"
    "view (snd (snd (processExecution p now item (q, s)))) = (view s)(i \<mapsto> r')"
    "rs_State r' \<in> {StateQueued, StateFailed, StateCompleted, StateCompensating}" by blast
  with r show ?thesis by (auto intro!: movedI simp: moves_def)
qed

lemma compensation_moves:
  assumes "ok s" and "oe_ID (qi_Envelope item) = i" "i \<noteq> []" and ids: "ids_kept (p_exec p)"
  shows "ok (snd (snd (processCompensation p now item (q, s))))
    \<and> moved (view s) (view (snd (snd (processCompensation p now item (q, s)))))"
proof -
  obtain res0 err env where comp: "ex_Compensate (p_exec p) (qi_Envelope item) = (res0, err, env)" by (metis prod_cases3)
  have e: "oe_ID env = i" using ids comp assms(2) unfolding ids_kept_def by (metis snd_conv)
  have one: "ok (snd (s_Advance S now i StateCompensating new s)) \<and>
      moved (view s) (view (snd (s_Advance S now i StateCompensating new s)))"
    if "new = StateCompensated \<or> new = StateFailed" for new
  proof (cases "\<exists>r. view s i = Some r \<and> rs_State r = StateCompensating")
    case True
    then obtain r where r: "view s i = Some r" "rs_State r = StateCompensating" by blast
    have mv: "moves (rs_State r) (rs_State (advanced_state now new r))" using that r(2) by (auto simp: moves_def)
    obtain s2 where s2: "s_Advance S now i StateCompensating new s = (None, s2)" "ok s2"
      "view s2 = (view s)(i \<mapsto> advanced_state now new r)"
      using advance_ok [OF assms(1,3) r, of now new] by blast
    then show ?thesis using movedI [OF r(1) s2(3) mv] by simp
  next
    case False
    with advance_any [OF assms(1,3), of now StateCompensating new] show ?thesis by auto
  qed
  have "snd (snd (processCompensation p now item (q, s))) \<in>
      {s, snd (s_Advance S now i StateCompensating StateCompensated s),
          snd (s_Advance S now i StateCompensating StateFailed s)}"
    by (simp add: processCompensation_def comp e Let_def finish_compensation_def retry_compensation_def p_state
        split: prod.split option.split)
  with one assms(1) show ?thesis by auto
qed

lemma step_moves:
  assumes "ok s" and "qok q" and "ids_kept (p_exec p)"
  shows "ok (snd (snd (ProcessOnce p now (q, s)))) \<and> moved (view s) (view (snd (snd (ProcessOnce p now (q, s)))))"
proof (cases "q_Dequeue Q now q")
  case (Pair d q1)
  show ?thesis
  proof (cases d)
    case (Inl e)
    with Pair assms(1) show ?thesis by (simp add: ProcessOnce_def p_queue)
  next
    case (Inr item)
    then have "oe_ID (qi_Envelope item) \<noteq> []" using dequeue_item [OF assms(2)] Pair by blast
    with execution_moves [OF assms(1) refl this assms(3)] compensation_moves [OF assms(1) refl this assms(3)] Inr Pair
    show ?thesis by (simp add: ProcessOnce_def p_queue)
  qed
qed

end

section \<open>Runs on the in-memory providers\<close>

definition mem_pipeline :: "OperationExecutor \<Rightarrow> int \<Rightarrow> (int \<Rightarrow> duration) \<Rightarrow> (mem_queue, mem_store) Pipeline" where
  "mem_pipeline x n b = \<lparr>p_queue = memory_queue, p_state = memory_store, p_exec = x,
     p_maxAttempts = n, p_retryBackoff = b\<rparr>"

fun process_run :: "('q, 's) Pipeline \<Rightarrow> instant list \<Rightarrow> 'q \<times> 's \<Rightarrow> 'q \<times> 's" where
  "process_run p [] st = st"
| "process_run p (t # ts) st = process_run p ts (snd (ProcessOnce p t st))"

text \<open>Each branch changes the in-memory queue by one of: nothing, an acknowledgement, a requeue of
  the dequeued operation, or both.\<close>

lemma mem_ack_ok [simp]: "queue_ok (snd (q_Ack memory_queue now i q)) = queue_ok q"
  by (simp add: memory_queue_def mem_Ack_def queue_ok_def item_ids_def)

lemma mem_ack_queue [simp]: "mq_queue (snd (q_Ack memory_queue now i q)) = mq_queue q"
  "fst (q_Ack memory_queue now i q) = None"
  by (simp_all add: memory_queue_def mem_Ack_def)

lemma mem_requeue_ok:
  "queue_ok q \<Longrightarrow> mem_waiting q i = None \<Longrightarrow> oe_ID (qi_Envelope it) = i \<Longrightarrow> i \<noteq> [] \<Longrightarrow>
    queue_ok (snd (q_Requeue memory_queue now (Some it) d q))"
  by (simp add: memory_queue_def mem_Requeue_def queue_ok_def item_ids_def waiting_None_iff)

lemma ack_then_mem: "p_queue p = memory_queue \<Longrightarrow>
    ack_then p now i r (q, s) = (r, snd (q_Ack memory_queue now i q), s)"
  by (simp add: ack_then_def memory_queue_def mem_Ack_def)

lemma mem_process_ok:
  assumes q: "queue_ok q" and ids: "ids_kept x"
  shows "queue_ok (fst (snd (ProcessOnce (mem_pipeline x n b) now (q, s))))"
proof (cases "q_Dequeue memory_queue now q")
  case (Pair d q1)
  let ?p = "mem_pipeline x n b"
  have P: "p_queue ?p = memory_queue" "p_exec ?p = x" by (simp_all add: mem_pipeline_def)
  show ?thesis
  proof (cases d)
    case (Inl e)
    with Pair have "q1 = q" by (auto simp: memory_queue_def mem_Dequeue_def split: option.splits)
    with Inl Pair q P show ?thesis by (simp add: ProcessOnce_def)
  next
    case (Inr item)
    with Pair have D: "mem_Dequeue now q = (Inr item, q1)" by (simp add: memory_queue_def)
    let ?i = "oe_ID (qi_Envelope item)"
    have q1: "queue_ok q1" "mem_waiting q1 ?i = None" "?i \<noteq> []"
      using dequeue_facts [OF q D] by simp_all
    have rq: "oe_ID (qi_Envelope it) = ?i \<Longrightarrow> queue_ok (snd (q_Requeue memory_queue now (Some it) dl q1))" for it dl
      by (rule mem_requeue_ok [OF q1(1,2) _ q1(3)])
    have rqn: "fst (q_Requeue memory_queue now (Some it) dl q1) = None" for it dl
      by (simp add: memory_queue_def mem_Requeue_def)
    have comp: "queue_ok (fst (snd (processCompensation ?p now item (q1, s))))"
    proof -
      obtain res0 err env where c: "ex_Compensate x (qi_Envelope item) = (res0, err, env)" by (metis prod_cases3)
      have "oe_ID env = ?i" using ids c unfolding ids_kept_def by (metis snd_conv)
      then show ?thesis
        using rq q1(1)
        by (simp add: processCompensation_def c P Let_def finish_compensation_def retry_compensation_def
            ack_then_mem [OF P(1)] case_prod_beta rqn split: option.split)
    qed
    have exec: "queue_ok (fst (snd (processExecution ?p now item (q1, s))))"
    proof -
      obtain perr env1 where prep: "ex_Prepare x (qi_Envelope item) = (perr, env1)" by fastforce
      obtain res0 err env2 where ex: "ex_Execute x env1 = (res0, err, env2)" by (metis prod_cases3)
      have "oe_ID env1 = ?i" using ids prep unfolding ids_kept_def by (metis snd_conv)
      then have e2: "oe_ID env2 = ?i" using ids ex unfolding ids_kept_def by (metis snd_conv)
      have "oe_ID (qi_Envelope (compensation_item now env2)) = ?i"
        by (simp add: compensation_item_def Let_def e2)
      then have "queue_ok (snd (scheduleCompensation ?p now env2 q1))"
        using rq by (simp add: scheduleCompensation_def cloneEnvelope_def P)
      then show ?thesis
        using rq q1(1) e2
        by (simp add: processExecution_def handleExecutionResult_def prep ex P Let_def finish_failed_def
            retry_later_def ack_then_mem [OF P(1)] case_prod_beta rqn split: option.split)
    qed
    from Inr Pair comp exec show ?thesis by (simp add: ProcessOnce_def P)
  qed
qed

lemma mem_step_moves:
  assumes "store_ok s" and "queue_ok q" and "ids_kept x"
  shows "store_ok (snd (snd (ProcessOnce (mem_pipeline x n b) now (q, s))))
    \<and> moved (map_of s) (map_of (snd (snd (ProcessOnce (mem_pipeline x n b) now (q, s)))))"
  unfolding mem_pipeline_def by (rule mem_pipe.step_moves [OF assms(1,2)]) (simp add: assms(3))

lemma run_terminal:
  assumes "store_ok s" and "queue_ok q" and "ids_kept x" and "map_of s i = Some r" and "terminal (rs_State r)"
  shows "\<exists>r'. map_of (snd (process_run (mem_pipeline x n b) ts (q, s))) i = Some r' \<and> rs_State r' = rs_State r"
  using assms
proof (induction ts arbitrary: q s r)
  case Nil
  then show ?case by simp
next
  case (Cons t ts)
  obtain e q1 s1 where st: "ProcessOnce (mem_pipeline x n b) t (q, s) = (e, q1, s1)" by (metis prod_cases3)
  have ok: "store_ok s1" "moved (map_of s) (map_of s1)" "queue_ok q1"
    using mem_step_moves [OF Cons.prems(1-3), of n b t] mem_process_ok [OF Cons.prems(2,3), of n b t s] st by simp_all
  obtain r1 where r1: "map_of s1 i = Some r1" "moves (rs_State r) (rs_State r1)"
    using moved_state [OF ok(2) Cons.prems(4)] by blast
  then have "rs_State r1 = rs_State r" using moves_terminal [OF Cons.prems(5)] by blast
  with Cons.IH [OF ok(1,3) Cons.prems(3) r1(1)] Cons.prems(5) st show ?case by simp
qed

end
