(* ===== verification/OperationProperties.thy ===== *)
theory OperationProperties
  imports OperationRuns
begin

text \<open>
  The properties of the operation pipeline on its in-memory providers, through the
  interpretation of the environment's contract.
\<close>

section \<open>Single queues\<close>

lemma dequeue_single:
  assumes "mq_queue q = [item]" and "qi_AvailableAt item \<le> t"
  shows "q_Dequeue memory_queue t q
    = (Inr item, q\<lparr>mq_queue := [], mq_inFlight := AList.update (oe_ID (qi_Envelope item)) item (mq_inFlight q)\<rparr>)"
  using assms by (simp add: memory_queue_def mem_Dequeue_def time_simps)

lemma runnable_single:
  assumes "store_ok s" and "map_of s (oe_ID (qi_Envelope item)) = Some r"
    and "rs_State r = StateQueued \<or> rs_State r = StateFailed" and "oe_ID (qi_Envelope item) \<noteq> []"
  shows "mem_pipe.runnable item (oe_ID (qi_Envelope item)) r (q\<lparr>mq_queue := [], mq_inFlight := fl\<rparr>) s"
  using assms by (simp add: mem_pipe.runnable_def queue_ok_def item_ids_def mem_waiting_def)

lemma phase_dispatch:
  assumes "mq_queue q = [item]" and "qi_AvailableAt item \<le> t" and "operationPhase (qi_Envelope item) \<noteq> phaseCompensate"
  shows "ProcessOnce (mem_pipeline x n b) t (q, s) = processExecution (mem_pipeline x n b) t item
    (q\<lparr>mq_queue := [], mq_inFlight := AList.update (oe_ID (qi_Envelope item)) item (mq_inFlight q)\<rparr>, s)"
  using assms dequeue_single [OF assms(1,2)] by (simp add: ProcessOnce_def mem_pipeline_def)

lemma Dequeue_empty: "mq_queue q = [] \<Longrightarrow> ProcessOnce (mem_pipeline x n b) t (q, s) = (Some ErrQueueEmpty, q, s)"
  by (simp add: ProcessOnce_def mem_pipeline_def memory_queue_def mem_Dequeue_def)

lemma run_empty: "mq_queue q = [] \<Longrightarrow> process_run (mem_pipeline x n b) ts (q, s) = (q, s)"
  by (induction ts) (simp_all add: Dequeue_empty)

lemma run_append: "process_run p (xs @ ys) st = process_run p ys (process_run p xs st)"
  by (induction xs arbitrary: st) simp_all

section \<open>The state machine\<close>

text \<open>C10. Processing one item moves the recorded state of at most one operation, and only
  along the state machine: a queued or failed operation becomes queued, failed, completed or
  compensating, a compensating one compensated or failed. A completed or compensated
  operation keeps that state through any run, whatever the executor returns for it.\<close>

theorem operation_state_machine:
  assumes "store_ok s" and "queue_ok q" and "ids_kept x"
  shows "moved (map_of s) (map_of (snd (snd (ProcessOnce (mem_pipeline x n b) now (q, s)))))
    \<and> (\<forall>i r. map_of s i = Some r \<and> terminal (rs_State r) \<longrightarrow>
         (\<exists>r'. map_of (snd (process_run (mem_pipeline x n b) ts (q, s))) i = Some r' \<and> rs_State r' = rs_State r))"
  using mem_step_moves [OF assms, of n b now] run_terminal [OF assms, of _ _ n b ts] by blast

section \<open>A concrete operation\<close>

definition demo_env :: OperationEnvelope where
  "demo_env = \<lparr>oe_ID = ''op-1'', oe_Kind = OperationCreate, oe_Resource = ''users'', oe_Tenant = [],
     oe_TraceID = ''t-1'', oe_IdempotencyKey = [], oe_Headers = None, oe_SubmittedAt = zero_time,
     oe_Deadline = zero_time, oe_Payload = ''{}'', oe_CompensateHint = []\<rparr>"

definition demo_result :: OperationResult where
  "demo_result = \<lparr>or_OperationID = ''op-1'', or_State = StateCompleted, or_CompletedAt = zero_time,
     or_Attempt = 0, or_Error = None, or_RetryAfter = 0, or_Fatal = False, or_TriggerCompensation = False\<rparr>"

definition give_up :: "op_error \<Rightarrow> OperationExecutor" where
  "give_up e = \<lparr>ex_Prepare = \<lambda>env. (None, env), ex_Execute = \<lambda>env. (None, Some e, env),
     ex_Compensate = \<lambda>env. (None, Some e, env)\<rparr>"

definition demo_queue :: mem_queue where
  "demo_queue = NewCoordinator\<lparr>mq_queue := [\<lparr>qi_Envelope = demo_env, qi_Attempts = 0, qi_AvailableAt = unix_epoch\<rparr>]\<rparr>"

definition demo_store :: mem_store where
  "demo_store = [(''op-1'', queued_state unix_epoch demo_env)]"

lemma demo_ok: "store_ok demo_store" "queue_ok demo_queue" "ids_kept (give_up e)"
  by (simp_all add: store_ok_def demo_store_def queued_state_def demo_env_def queue_ok_def item_ids_def
      demo_queue_def NewCoordinator_def ids_kept_def give_up_def)

theorem operation_state_machine_witness:
  "moved (map_of demo_store)
    (map_of (snd (snd (ProcessOnce (mem_pipeline (give_up (OpErr ''db'')) 3 default_backoff) unix_epoch (demo_queue, demo_store)))))"
  using operation_state_machine [OF demo_ok] by blast

section \<open>Success\<close>

text \<open>C12. An operation whose preparation succeeds and whose execution completes is recorded
  as completed, acknowledged (no longer in flight, not waiting), and the step returns no error;
  no other operation is touched.\<close>

theorem operation_completes:
  assumes "store_ok s" and "mq_queue q = [item]" and "qi_AvailableAt item \<le> t" and "i = oe_ID (qi_Envelope item)" "i \<noteq> []"
    and "map_of s i = Some r" and "rs_State r = StateQueued \<or> rs_State r = StateFailed"
    and "operationPhase (qi_Envelope item) \<noteq> phaseCompensate"
    and "ex_Prepare x (qi_Envelope item) = (None, env1)" and "ex_Execute x env1 = (Some res, None, env2)" and "oe_ID env2 = i"
    and "or_Error res = None" and "or_State res = StateCompleted"
  shows "\<exists>q' s'. ProcessOnce (mem_pipeline x n b) t (q, s) = (None, q', s')
    \<and> map_of s' = (map_of s)(i \<mapsto> advanced_state t StateCompleted (advanced_state t StateExecuting r))
    \<and> mem_waiting q' = Map.empty \<and> i \<notin> mem_inflight q'"
proof -
  let ?q = "q\<lparr>mq_queue := [], mq_inFlight := AList.update (oe_ID (qi_Envelope item)) item (mq_inFlight q)\<rparr>"
  have run: "mem_pipe.runnable item i r ?q s"
    unfolding assms(4) using runnable_single assms(1,4-7) by blast
  have "\<exists>q' s'. processExecution (mem_pipeline x n b) t item (?q, s) = (None, q', s') \<and> store_ok s' \<and> queue_ok q'
    \<and> map_of s' = (map_of s)(i \<mapsto> advanced_state t StateCompleted (advanced_state t StateExecuting r))
    \<and> mem_waiting q' = mem_waiting ?q \<and> mem_inflight q' = mem_inflight ?q - {i}"
    unfolding mem_pipeline_def
    by (rule mem_pipe.execution_completed [OF run, where ?env1.0 = env1 and res = "Some res" and err = None and ?env2.0 = env2])
      (simp_all add: assms(9-13) settle_result_def Let_def)
  then show ?thesis
    unfolding phase_dispatch [OF assms(2,3,8)] by (fastforce simp: mem_waiting_def)
qed

definition succeed :: OperationExecutor where
  "succeed = \<lparr>ex_Prepare = \<lambda>env. (None, env), ex_Execute = \<lambda>env. (Some demo_result, None, env),
     ex_Compensate = \<lambda>env. (None, None, env)\<rparr>"

definition demo_item :: QueueItem where
  "demo_item = \<lparr>qi_Envelope = demo_env, qi_Attempts = 0, qi_AvailableAt = unix_epoch\<rparr>"

lemma demo_facts:
  "mq_queue demo_queue = [demo_item]" "qi_AvailableAt demo_item \<le> unix_epoch" "oe_ID (qi_Envelope demo_item) = ''op-1''"
  "map_of demo_store ''op-1'' = Some (queued_state unix_epoch demo_env)" "rs_State (queued_state unix_epoch demo_env) = StateQueued"
  "operationPhase (qi_Envelope demo_item) \<noteq> phaseCompensate" "qi_Attempts demo_item = 0"
  by (simp_all add: demo_queue_def NewCoordinator_def demo_item_def demo_env_def demo_store_def
      operationPhase_def phaseCompensate_def phaseExecute_def)

theorem operation_completes_witness:
  "\<exists>q' s'. ProcessOnce (mem_pipeline succeed 3 default_backoff) unix_epoch (demo_queue, demo_store) = (None, q', s')
    \<and> ''op-1'' \<notin> mem_inflight q'"
proof -
  have x: "ex_Prepare succeed (qi_Envelope demo_item) = (None, demo_env)" "ex_Execute succeed demo_env = (Some demo_result, None, demo_env)"
    by (simp_all add: succeed_def demo_item_def)
  have r: "oe_ID demo_env = ''op-1''" "or_Error demo_result = None" "or_State demo_result = StateCompleted"
    by (simp_all add: demo_env_def demo_result_def)
  from operation_completes [OF demo_ok(1) demo_facts(1,2) demo_facts(3) [symmetric] _ demo_facts(4) disjI1 [OF demo_facts(5)]
      demo_facts(6) x r, of 3 default_backoff]
  show ?thesis by blast
qed

section \<open>Retries\<close>

text \<open>What an execution comes to, and an attempt that fails but may be tried again: the preparation passes, and the
  result is not a completed one, not fatal, and about this operation. Nothing is said of what the
  executor answers beyond that: a result with an error, an error alone, both, or nothing at all.\<close>

definition outcome_of :: "OperationExecutor \<Rightarrow> OperationEnvelope \<Rightarrow> int \<Rightarrow> OperationResult" where
  "outcome_of x env attempt =
    (case ex_Execute x env of (res, err, env') \<Rightarrow> settle_result (oe_ID env') ''executor returned nil result'' attempt res err)"

definition plain_failure :: "OperationExecutor \<Rightarrow> OperationEnvelope \<Rightarrow> int \<Rightarrow> bool" where
  "plain_failure x env attempt \<longleftrightarrow> ex_Prepare x env = (None, env) \<and> snd (snd (ex_Execute x env)) = env
    \<and> (let r = outcome_of x env attempt in or_OperationID r = oe_ID env \<and> \<not> (or_Error r = None \<and> or_State r = StateCompleted) \<and> \<not> or_Fatal r)"

definition soft_delay :: "(int \<Rightarrow> duration) \<Rightarrow> OperationExecutor \<Rightarrow> OperationEnvelope \<Rightarrow> int \<Rightarrow> duration" where
  "soft_delay b x env attempt =
    max 0 (let r = or_RetryAfter (outcome_of x env attempt) in if r \<le> 0 then b attempt else r)"

text \<open>Attempts from the attempt number \<open>k\<close> on, each at its own time and with its own behaviour of the executor: each fails
  that way, and comes no earlier than the delay after the one before.\<close>

fun failing_attempts ::
  "(int \<Rightarrow> duration) \<Rightarrow> OperationEnvelope \<Rightarrow> int \<Rightarrow> instant \<Rightarrow> (instant \<times> OperationExecutor) list \<Rightarrow> bool" where
  "failing_attempts b env k avail [] \<longleftrightarrow> True"
| "failing_attempts b env k avail ((t, x) # ts) \<longleftrightarrow> avail \<le> t \<and> plain_failure x env (k + 1)
     \<and> failing_attempts b env (k + 1) (t + soft_delay b x env (k + 1)) ts"

fun process_with ::
  "int \<Rightarrow> (int \<Rightarrow> duration) \<Rightarrow> (instant \<times> OperationExecutor) list \<Rightarrow> mem_queue \<times> mem_store \<Rightarrow> mem_queue \<times> mem_store" where
  "process_with n b [] st = st"
| "process_with n b ((t, x) # ts) st = process_with n b ts (snd (ProcessOnce (mem_pipeline x n b) t st))"

lemma process_with_append: "process_with n b (xs @ ys) st = process_with n b ys (process_with n b xs st)"
  by (induction n b xs st rule: process_with.induct) simp_all

lemma process_with_empty: "mq_queue q = [] \<Longrightarrow> process_with n b ts (q, s) = (q, s)"
  by (induction ts) (auto simp: Dequeue_empty)

lemma plain_failureD:
  assumes "plain_failure x env k"
  obtains res err where "ex_Prepare x env = (None, env)" "ex_Execute x env = (res, err, env)"
    "outcome_of x env k = settle_result (oe_ID env) ''executor returned nil result'' k res err"
    "or_OperationID (outcome_of x env k) = oe_ID env"
    "\<not> (or_Error (outcome_of x env k) = None \<and> or_State (outcome_of x env k) = StateCompleted)" "\<not> or_Fatal (outcome_of x env k)"
proof -
  obtain res err env' where "ex_Execute x env = (res, err, env')" by (cases "ex_Execute x env")
  with assms show ?thesis by (intro that [of res err]) (auto simp: plain_failure_def outcome_of_def Let_def)
qed

lemma retry_single:
  assumes "store_ok s" and "mq_queue q = [item]" and "qi_AvailableAt item \<le> t" and "i = oe_ID (qi_Envelope item)" "i \<noteq> []"
    and "map_of s i = Some r" and "rs_State r = StateQueued \<or> rs_State r = StateFailed"
    and "operationPhase (qi_Envelope item) \<noteq> phaseCompensate" and f: "plain_failure x (qi_Envelope item) (qi_Attempts item + 1)"
    and n: "qi_Attempts item + 1 < n"
  shows "\<exists>q' s' r'. ProcessOnce (mem_pipeline x n b) t (q, s) = (Some (failure_error (outcome_of x (qi_Envelope item) (qi_Attempts item + 1))), q', s')
    \<and> store_ok s' \<and> map_of s' = (map_of s)(i \<mapsto> r') \<and> rs_State r' = StateQueued \<and> rs_Attempts r' = 0 \<and> rs_LastError r' = []
    \<and> mq_queue q' = [item\<lparr>qi_Attempts := qi_Attempts item + 1, qi_AvailableAt := t + soft_delay b x (qi_Envelope item) (qi_Attempts item + 1)\<rparr>]
    \<and> map_of (mq_inFlight q') i = Some item \<and> mq_tickets q' = mq_tickets q"
proof -
  let ?q = "q\<lparr>mq_queue := [], mq_inFlight := AList.update (oe_ID (qi_Envelope item)) item (mq_inFlight q)\<rparr>"
  let ?res = "outcome_of x (qi_Envelope item) (qi_Attempts item + 1)" let ?d = "soft_delay b x (qi_Envelope item) (qi_Attempts item + 1)"
  have run: "mem_pipe.runnable item i r ?q s"
    unfolding assms(4) using runnable_single assms(1,4-7) by blast
  let ?p = "\<lparr>p_queue = memory_queue, p_state = memory_store, p_exec = x, p_maxAttempts = n, p_retryBackoff = b\<rparr>"
  obtain res0 err where "ex_Prepare x (qi_Envelope item) = (None, qi_Envelope item)" "ex_Execute x (qi_Envelope item) = (res0, err, qi_Envelope item)"
    "?res = settle_result (oe_ID (qi_Envelope item)) ''executor returned nil result'' (qi_Attempts item + 1) res0 err"
    "or_OperationID ?res = oe_ID (qi_Envelope item)" "\<not> (or_Error ?res = None \<and> or_State ?res = StateCompleted)" "\<not> or_Fatal ?res"
    by (rule plain_failureD [OF f])
  then have x: "ex_Prepare (p_exec ?p) (qi_Envelope item) = (None, qi_Envelope item)"
    "ex_Execute (p_exec ?p) (qi_Envelope item) = (res0, err, qi_Envelope item)"
    "?res = settle_result i ''executor returned nil result'' (qi_Attempts item + 1) res0 err"
    "or_OperationID ?res = i" "\<not> (or_Error ?res = None \<and> or_State ?res = StateCompleted)" "\<not> or_Fatal ?res"
    unfolding assms(4) by simp_all
  have n': "qi_Attempts item + 1 < p_maxAttempts ?p" using n by simp
  have d: "retry_delay ?p (qi_Attempts item + 1) (or_RetryAfter ?res) = ?d" by (simp add: retry_delay_def soft_delay_def Let_def)
  obtain q' s' r' where R: "processExecution ?p t item (?q, s) = (Some (failure_error ?res), q', s')" "store_ok s'"
    "map_of s' = (map_of s)(i \<mapsto> r')" "rs_State r' = StateQueued" "rs_Attempts r' = 0" "rs_LastError r' = []"
    "q_Requeue memory_queue t (Some (item\<lparr>qi_Envelope := qi_Envelope item, qi_Attempts := qi_Attempts item + 1, qi_AvailableAt := t + ?d\<rparr>)) ?d ?q = (None, q')"
    using mem_pipe.execution_retried [OF run x(1,2) assms(4) [symmetric] x(3-6) n', of t] unfolding d by blast
  have "q' = ?q\<lparr>mq_queue := [item\<lparr>qi_Attempts := qi_Attempts item + 1, qi_AvailableAt := t + ?d\<rparr>]\<rparr>"
    using R(7) by (simp add: memory_queue_def mem_Requeue_def time_simps soft_delay_def)
  with R(1-6) show ?thesis
    unfolding phase_dispatch [OF assms(2,3,8)] unfolding mem_pipeline_def
    by (auto simp: update_conv' assms(4))
qed

lemma exhausted_single:
  assumes "store_ok s" and "mq_queue q = [item]" and "qi_AvailableAt item \<le> t" and "i = oe_ID (qi_Envelope item)" "i \<noteq> []"
    and "map_of s i = Some r" and "rs_State r = StateQueued \<or> rs_State r = StateFailed"
    and "operationPhase (qi_Envelope item) \<noteq> phaseCompensate" and f: "plain_failure x (qi_Envelope item) (qi_Attempts item + 1)"
    and n: "n \<le> qi_Attempts item + 1" and e: "\<not> or_TriggerCompensation (outcome_of x (qi_Envelope item) (qi_Attempts item + 1))"
  shows "\<exists>q' s' r'. ProcessOnce (mem_pipeline x n b) t (q, s) = (Some (failure_error (outcome_of x (qi_Envelope item) (qi_Attempts item + 1))), q', s')
    \<and> map_of s' = (map_of s)(i \<mapsto> r') \<and> rs_State r' = StateFailed \<and> rs_Attempts r' = qi_Attempts item + 1
    \<and> rs_LastError r' = failure_reason (outcome_of x (qi_Envelope item) (qi_Attempts item + 1)) \<and> mq_queue q' = [] \<and> map_of (mq_inFlight q') i = None"
proof -
  let ?q = "q\<lparr>mq_queue := [], mq_inFlight := AList.update (oe_ID (qi_Envelope item)) item (mq_inFlight q)\<rparr>"
  let ?res = "outcome_of x (qi_Envelope item) (qi_Attempts item + 1)"
  have run: "mem_pipe.runnable item i r ?q s"
    unfolding assms(4) using runnable_single assms(1,4-7) by blast
  let ?p = "\<lparr>p_queue = memory_queue, p_state = memory_store, p_exec = x, p_maxAttempts = n, p_retryBackoff = b\<rparr>"
  obtain res0 err where "ex_Prepare x (qi_Envelope item) = (None, qi_Envelope item)" "ex_Execute x (qi_Envelope item) = (res0, err, qi_Envelope item)"
    "?res = settle_result (oe_ID (qi_Envelope item)) ''executor returned nil result'' (qi_Attempts item + 1) res0 err"
    "or_OperationID ?res = oe_ID (qi_Envelope item)" "\<not> (or_Error ?res = None \<and> or_State ?res = StateCompleted)" "\<not> or_Fatal ?res"
    by (rule plain_failureD [OF f])
  then have x: "ex_Prepare (p_exec ?p) (qi_Envelope item) = (None, qi_Envelope item)"
    "ex_Execute (p_exec ?p) (qi_Envelope item) = (res0, err, qi_Envelope item)"
    "?res = settle_result i ''executor returned nil result'' (qi_Attempts item + 1) res0 err"
    "or_OperationID ?res = i" "\<not> (or_Error ?res = None \<and> or_State ?res = StateCompleted)"
    unfolding assms(4) by simp_all
  have n': "or_Fatal ?res \<or> p_maxAttempts ?p \<le> qi_Attempts item + 1" using n by simp
  obtain q' s' where R: "processExecution ?p t item (?q, s) = (Some (failure_error ?res), q', s')"
    "map_of s' = (map_of s)(i \<mapsto> failed_state t (qi_Attempts item + 1) (failure_reason ?res) (advanced_state t StateExecuting r))"
    "q_Ack memory_queue t i ?q = (None, q')"
    using mem_pipe.execution_exhausted [OF run x(1,2) assms(4) [symmetric] x(3-5) n' e, of t] by blast
  have "q' = ?q\<lparr>mq_inFlight := AList.delete i (mq_inFlight ?q)\<rparr>" using R(3) by (simp add: memory_queue_def mem_Ack_def)
  with R(1,2) show ?thesis
    unfolding phase_dispatch [OF assms(2,3,8)] unfolding mem_pipeline_def
    by (intro exI [of _ q'] exI [of _ s'] exI [of _ "failed_state t (qi_Attempts item + 1) (failure_reason ?res)
          (advanced_state t StateExecuting r)"]) (simp add: delete_conv' failed_state_def)
qed

lemma attempts_bounded_aux:
  "store_ok s \<Longrightarrow> mq_queue q = [item] \<Longrightarrow> i = oe_ID (qi_Envelope item) \<Longrightarrow> i \<noteq> [] \<Longrightarrow> map_of s i = Some r \<Longrightarrow>
    rs_State r = StateQueued \<or> rs_State r = StateFailed \<Longrightarrow> operationPhase (qi_Envelope item) \<noteq> phaseCompensate \<Longrightarrow>
    failing_attempts b (qi_Envelope item) (qi_Attempts item) (qi_AvailableAt item) ts \<Longrightarrow> int (length ts) = n - qi_Attempts item \<Longrightarrow> ts \<noteq> [] \<Longrightarrow>
    res = outcome_of (snd (last ts)) (qi_Envelope item) n \<Longrightarrow> \<not> or_TriggerCompensation res \<Longrightarrow>
    \<exists>q' s' r'. process_with n b ts (q, s) = (q', s') \<and> map_of s' i = Some r' \<and> rs_State r' = StateFailed
      \<and> rs_Attempts r' = n \<and> rs_LastError r' = failure_reason res \<and> mq_queue q' = [] \<and> map_of (mq_inFlight q') i = None"
proof (induction ts arbitrary: q s r item)
  case Nil
  then show ?case by simp
next
  case (Cons a ts)
  obtain t x where a: "a = (t, x)" by (cases a)
  have t: "qi_AvailableAt item \<le> t" and f: "plain_failure x (qi_Envelope item) (qi_Attempts item + 1)" using Cons.prems(8) a by simp_all
  show ?case
  proof (cases "ts = []")
    case True
    then have n: "n = qi_Attempts item + 1" using Cons.prems(9) by simp
    have c: "\<not> or_TriggerCompensation (outcome_of x (qi_Envelope item) (qi_Attempts item + 1))" using Cons.prems(11,12) True n a by simp
    from exhausted_single [OF Cons.prems(1,2) t Cons.prems(3-7) f eq_refl [OF n] c, of b] n True a Cons.prems(11)
    show ?thesis by auto
  next
    case False
    then have n: "qi_Attempts item + 1 < n" using Cons.prems(9) by (cases ts) simp_all
    let ?it = "item\<lparr>qi_Attempts := qi_Attempts item + 1, qi_AvailableAt := t + soft_delay b x (qi_Envelope item) (qi_Attempts item + 1)\<rparr>"
    from retry_single [OF Cons.prems(1,2) t Cons.prems(3-7) f n, of b] obtain e q' s' r' where
      R: "ProcessOnce (mem_pipeline x n b) t (q, s) = (Some e, q', s')" "store_ok s'"
      "map_of s' = (map_of s)(i \<mapsto> r')" "rs_State r' = StateQueued" "mq_queue q' = [?it]" by blast
    have "\<exists>q'' s'' r''. process_with n b ts (q', s') = (q'', s'') \<and> map_of s'' i = Some r''
      \<and> rs_State r'' = StateFailed \<and> rs_Attempts r'' = n \<and> rs_LastError r'' = failure_reason res \<and> mq_queue q'' = []
      \<and> map_of (mq_inFlight q'') i = None"
      using R Cons.prems False a by (intro Cons.IH [of s' q' ?it r']) simp_all
    with R(1) a show ?thesis by simp
  qed
qed

text \<open>C11. Attempts are bounded, on the in-memory providers: an operation whose attempts all fail without being fatal (the preparation
  passes, and the execution gives whatever result but a completed one, another one each time if it likes)
  is tried exactly as often as the pipeline allows, then recorded as failed with that number of attempts and the
  reason of the last one, and is neither waiting nor in flight any more, whatever is processed later. The last attempt must not ask
  for a compensation; the retry times only have to respect the delays.\<close>

theorem attempts_bounded:
  assumes "store_ok s" and "mq_queue q = [item]" and "i = oe_ID (qi_Envelope item)" "i \<noteq> []" and "map_of s i = Some r"
    and "rs_State r = StateQueued" and "operationPhase (qi_Envelope item) \<noteq> phaseCompensate"
    and "qi_Attempts item = 0" and "0 < n" and "failing_attempts b (qi_Envelope item) 0 (qi_AvailableAt item) ts" and "int (length ts) = n"
    and "res = outcome_of (snd (last ts)) (qi_Envelope item) n" and "\<not> or_TriggerCompensation res"
  shows "\<exists>q' s' r'. process_with n b (ts @ later) (q, s) = (q', s') \<and> map_of s' i = Some r'
    \<and> rs_State r' = StateFailed \<and> rs_Attempts r' = n \<and> rs_LastError r' = failure_reason res \<and> mq_queue q' = []
    \<and> map_of (mq_inFlight q') i = None"
proof -
  have "ts \<noteq> []" using assms(9,11) by auto
  then obtain q' s' r' where R: "process_with n b ts (q, s) = (q', s')" "map_of s' i = Some r'"
    "rs_State r' = StateFailed" "rs_Attempts r' = n" "rs_LastError r' = failure_reason res" "mq_queue q' = []"
    "map_of (mq_inFlight q') i = None"
    using attempts_bounded_aux [OF assms(1-5) disjI1 [OF assms(6)] assms(7), of b ts n res] assms(8-13) by auto
  have "process_with n b (ts @ later) (q, s) = process_with n b later (q', s')"
    using R(1) by (simp add: process_with_append)
  with R process_with_empty [OF R(6)] show ?thesis by simp
qed

text \<open>An executor that answers a result and its error, as those of the users do.\<close>

definition busy_exec :: "string \<Rightarrow> duration \<Rightarrow> OperationExecutor" where
  "busy_exec msg after = \<lparr>ex_Prepare = \<lambda>env. (None, env),
     ex_Execute = \<lambda>env. (Some (demo_result\<lparr>or_State := StateFailed, or_Error := Some (OpErr msg), or_RetryAfter := after\<rparr>), Some (OpErr msg), env),
     ex_Compensate = \<lambda>env. (None, None, env)\<rparr>"

theorem attempts_bounded_witness:
  "\<exists>q' s' r'. process_with 3 default_backoff
      ([(unix_epoch, busy_exec ''timeout'' 0), (unix_epoch + Second, give_up (OpErr ''db'')), (unix_epoch + 2 * Second, busy_exec ''busy'' Second)]
       @ [(unix_epoch + Minute, succeed)]) (demo_queue, demo_store) = (q', s')
    \<and> map_of s' ''op-1'' = Some r' \<and> rs_Attempts r' = 3 \<and> rs_LastError r' = ''busy''"
proof -
  let ?ts = "[(unix_epoch, busy_exec ''timeout'' 0), (unix_epoch + Second, give_up (OpErr ''db'')), (unix_epoch + 2 * Second, busy_exec ''busy'' Second)]"
  have d: "failing_attempts default_backoff (qi_Envelope demo_item) 0 (qi_AvailableAt demo_item) ?ts"
    by (simp add: demo_item_def default_backoff_eq go_simps plain_failure_def outcome_of_def soft_delay_def busy_exec_def give_up_def
        settle_result_def demo_result_def demo_env_def)
  have "\<not> or_TriggerCompensation (outcome_of (snd (last ?ts)) (qi_Envelope demo_item) 3)"
    and "failure_reason (outcome_of (snd (last ?ts)) (qi_Envelope demo_item) 3) = ''busy''"
    by (simp_all add: outcome_of_def busy_exec_def settle_result_def demo_result_def failure_reason_def)
  with attempts_bounded [OF demo_ok(1) demo_facts(1) demo_facts(3) [symmetric] _ demo_facts(4,5,6,7) _ d _ refl, where later = "[(unix_epoch + Minute, succeed)]"]
  show ?thesis by auto
qed

end
