(* ===== verification/OperationOutcomes.thy ===== *)
theory OperationOutcomes
  imports OperationProperties
begin

text \<open>
  The pipeline's other outcomes on the in-memory providers: compensation after a final
  failure, a preparation that fails, what a waiting retry looks like from outside, and the
  default backoff.
\<close>

section \<open>Compensation\<close>

text \<open>An executor whose execution fails with a result that asks for compensation (fatal or not, with or without an error of the
  call itself), and whose compensation then succeeds.\<close>

definition compensates :: "OperationExecutor \<Rightarrow> OperationEnvelope \<Rightarrow> OperationResult \<Rightarrow> op_error \<Rightarrow> bool" where
  "compensates x env res e \<longleftrightarrow> ex_Prepare x env = (None, env) \<and> (\<exists>err. ex_Execute x env = (Some res, err, env))
    \<and> or_OperationID res = oe_ID env \<and> or_Error res = Some e \<and> or_TriggerCompensation res"

definition compensation_succeeds :: "OperationExecutor \<Rightarrow> OperationEnvelope \<Rightarrow> OperationResult \<Rightarrow> bool" where
  "compensation_succeeds x env res \<longleftrightarrow> ex_Compensate x env = (Some res, None, env)
    \<and> or_Error res = None \<and> or_State res = StateCompensated"

lemma settle_res: "or_Error res = Some e \<Longrightarrow> settle_result i msg attempt (Some res) err = res\<lparr>or_Attempt := attempt\<rparr>"
  by (simp add: settle_result_def Let_def split: option.split)

lemma finish_trigger:
  assumes "store_ok s" and "map_of s i = Some f" and "rs_State f = StateFailed" and "i \<noteq> []" and "or_OperationID res = i"
    and "or_Error res = Some e" and "or_TriggerCompensation res" and p: "p_queue p = memory_queue" "p_state p = memory_store"
  shows "\<exists>s'. finish_failed p t item res (q, s) = (Some e,
      q\<lparr>mq_queue := mq_queue q @ [compensation_item t (qi_Envelope item)], mq_inFlight := AList.delete i (mq_inFlight q)\<rparr>, s')
    \<and> store_ok s' \<and> map_of s' = (map_of s)(i \<mapsto> advanced_state t StateCompensating f)"
proof -
  have "s_Advance memory_store t i StateExecuting StateFailed s = (Some ErrStateConflict, s)"
    using mem_state.advance_conflict [OF assms(1,4,2)] assms(3) by simp
  moreover obtain s' where "s_Advance memory_store t i StateFailed StateCompensating s = (None, s')" "store_ok s'"
    "map_of s' = (map_of s)(i \<mapsto> advanced_state t StateCompensating f)"
    using mem_state.advance_ok [OF assms(1,4,2,3)] by blast
  moreover have "scheduleCompensation p t (qi_Envelope item) q
      = (None, q\<lparr>mq_queue := mq_queue q @ [compensation_item t (qi_Envelope item)]\<rparr>)"
    by (simp add: scheduleCompensation_def cloneEnvelope_def p memory_queue_def mem_Requeue_def time_simps
        compensation_item_def Let_def)
  ultimately show ?thesis
    using assms(5-7) p
    by (simp add: finish_failed_def Let_def ack_then_def memory_queue_def mem_Ack_def)
qed

lemma compensation_phase: "operationPhase (qi_Envelope (compensation_item t env)) = phaseCompensate"
  by (simp add: operationPhase_def compensation_item_def Let_def update_conv' phaseCompensate_def)

lemma fatal_single:
  assumes "store_ok s" and "mq_queue q = [item]" and "qi_AvailableAt item \<le> t" and "i = oe_ID (qi_Envelope item)" "i \<noteq> []"
    and "map_of s i = Some r" and "rs_State r = StateQueued \<or> rs_State r = StateFailed"
    and "operationPhase (qi_Envelope item) \<noteq> phaseCompensate" and f: "compensates x (qi_Envelope item) res e"
    and final: "or_Fatal res \<or> n \<le> qi_Attempts item + 1"
  shows "\<exists>q' s' r'. ProcessOnce (mem_pipeline x n b) t (q, s) = (Some e, q', s') \<and> store_ok s'
    \<and> map_of s' = (map_of s)(i \<mapsto> r') \<and> rs_State r' = StateCompensating
    \<and> mq_queue q' = [compensation_item t (qi_Envelope item)] \<and> map_of (mq_inFlight q') i = None"
proof -
  let ?q = "q\<lparr>mq_queue := [], mq_inFlight := AList.update (oe_ID (qi_Envelope item)) item (mq_inFlight q)\<rparr>"
  let ?p = "\<lparr>p_queue = memory_queue, p_state = memory_store, p_exec = x, p_maxAttempts = n, p_retryBackoff = b\<rparr>"
  have run: "mem_pipe.runnable item i r ?q s"
    unfolding assms(4) using runnable_single assms(1,4-7) by blast
  from f obtain err where x: "ex_Prepare x (qi_Envelope item) = (None, qi_Envelope item)"
    "ex_Execute x (qi_Envelope item) = (Some res, err, qi_Envelope item)" "or_OperationID res = i" "or_Error res = Some e"
    "or_TriggerCompensation res"
    unfolding assms(4) compensates_def by blast
  let ?res = "res\<lparr>or_Attempt := qi_Attempts item + 1\<rparr>"
  have eq: "?res = settle_result i ''executor returned nil result'' (qi_Attempts item + 1) (Some res) err"
    by (simp add: settle_res [OF x(4)])
  obtain s1 where s1: "processExecution ?p t item (?q, s) = finish_failed ?p t item ?res (?q, s1)" "store_ok s1"
    "map_of s1 = (map_of s)(i \<mapsto> failed_state t (qi_Attempts item + 1) (failure_reason ?res) (advanced_state t StateExecuting r))"
    using mem_pipe.execution_failed_state [OF run _ _ _ eq, where now = t and b = b and n = n and x = x and ?env1.0 = "qi_Envelope item" and ?env2.0 = "qi_Envelope item"] x assms(4) final
    by (auto simp del: fun_upd_apply)
  let ?f = "failed_state t (qi_Attempts item + 1) (failure_reason ?res) (advanced_state t StateExecuting r)"
  have "map_of s1 i = Some ?f" "rs_State ?f = StateFailed" by (simp_all add: s1(3))
  from finish_trigger [OF s1(2) this assms(5), of ?res e ?p t item ?q] x(3-5) obtain s2 where
    s2: "finish_failed ?p t item ?res (?q, s1) = (Some e, ?q\<lparr>mq_queue := [compensation_item t (qi_Envelope item)],
        mq_inFlight := AList.delete i (mq_inFlight ?q)\<rparr>, s2)" "store_ok s2"
    "map_of s2 = (map_of s1)(i \<mapsto> advanced_state t StateCompensating ?f)" by auto
  have "ProcessOnce (mem_pipeline x n b) t (q, s) = (Some e, ?q\<lparr>mq_queue := [compensation_item t (qi_Envelope item)],
        mq_inFlight := AList.delete i (mq_inFlight ?q)\<rparr>, s2)"
    unfolding phase_dispatch [OF assms(2,3,8)] unfolding mem_pipeline_def using s1(1) s2(1) by simp
  then show ?thesis using s1(3) s2(2,3)
    by (intro exI [of _ "?q\<lparr>mq_queue := [compensation_item t (qi_Envelope item)], mq_inFlight := AList.delete i (mq_inFlight ?q)\<rparr>"]
        exI [of _ s2] exI [of _ "advanced_state t StateCompensating ?f"]) (simp add: delete_conv')
qed

lemma compensate_single:
  assumes "store_ok s" and "mq_queue q = [item]" and "qi_AvailableAt item \<le> t" and "i = oe_ID (qi_Envelope item)" "i \<noteq> []"
    and "map_of s i = Some r" and "rs_State r = StateCompensating"
    and "operationPhase (qi_Envelope item) = phaseCompensate" and "compensation_succeeds x (qi_Envelope item) res"
  shows "\<exists>q' s' r'. ProcessOnce (mem_pipeline x n b) t (q, s) = (None, q', s')
    \<and> map_of s' = (map_of s)(i \<mapsto> r') \<and> rs_State r' = StateCompensated \<and> rs_LastError r' = []
    \<and> mq_queue q' = [] \<and> map_of (mq_inFlight q') i = None"
proof -
  from assms(9) have x: "ex_Compensate x (qi_Envelope item) = (Some res, None, qi_Envelope item)"
    "or_Error res = None" "or_State res = StateCompensated"
    unfolding compensation_succeeds_def by simp_all
  obtain s' where s': "s_Advance memory_store t i StateCompensating StateCompensated s = (None, s')" "store_ok s'"
    "map_of s' = (map_of s)(i \<mapsto> advanced_state t StateCompensated r)"
    using mem_state.advance_ok [OF assms(1,5,6,7)] by blast
  let ?q = "q\<lparr>mq_queue := [], mq_inFlight := AList.update i item (mq_inFlight q)\<rparr>"
  have "ProcessOnce (mem_pipeline x n b) t (q, s) = processCompensation (mem_pipeline x n b) t item (?q, s)"
    using dequeue_single [OF assms(2,3)] assms(4,8) by (simp add: ProcessOnce_def mem_pipeline_def)
  also have "\<dots> = (None, ?q\<lparr>mq_inFlight := AList.delete i (mq_inFlight ?q)\<rparr>, s')"
    using x s'(1) assms(4)
    by (simp add: processCompensation_def mem_pipeline_def settle_result_def Let_def ack_then_def memory_queue_def mem_Ack_def)
  finally show ?thesis using s'(3)
    by (intro exI [of _ "?q\<lparr>mq_inFlight := AList.delete i (mq_inFlight ?q)\<rparr>"] exI [of _ s']
        exI [of _ "advanced_state t StateCompensated r"]) (simp add: delete_conv' advanced_state_def)
qed

text \<open>C13. Compensation runs, on the in-memory queue and store: when an attempt that is fatal or the last one allowed fails and asks for compensation, the
  operation is recorded as compensating and its compensation waits as a new item; processing
  that item, if the compensation succeeds, records the operation as compensated, clears the
  error and leaves nothing waiting or in flight. (On the Redis queue the new item is lost, see RedisPipeline.)\<close>

theorem compensation_completes:
  assumes "store_ok s" and "mq_queue q = [item]" and "qi_AvailableAt item \<le> t" and "t \<le> t'"
    and "i = oe_ID (qi_Envelope item)" "i \<noteq> []"
    and "map_of s i = Some r" and "rs_State r = StateQueued \<or> rs_State r = StateFailed"
    and "operationPhase (qi_Envelope item) \<noteq> phaseCompensate" and "compensates x (qi_Envelope item) res e"
    and "or_Fatal res \<or> n \<le> qi_Attempts item + 1"
    and "compensation_succeeds x (qi_Envelope (compensation_item t (qi_Envelope item))) res'"
  shows "\<exists>q1 s1 r1. ProcessOnce (mem_pipeline x n b) t (q, s) = (Some e, q1, s1)
    \<and> map_of s1 i = Some r1 \<and> rs_State r1 = StateCompensating
    \<and> (\<exists>q2 s2 r2. ProcessOnce (mem_pipeline x n b) t' (q1, s1) = (None, q2, s2) \<and> map_of s2 i = Some r2
      \<and> rs_State r2 = StateCompensated \<and> rs_LastError r2 = [] \<and> mq_queue q2 = [] \<and> map_of (mq_inFlight q2) i = None)"
proof -
  let ?c = "compensation_item t (qi_Envelope item)"
  obtain q1 s1 r1 where R: "ProcessOnce (mem_pipeline x n b) t (q, s) = (Some e, q1, s1)" "store_ok s1"
    "map_of s1 i = Some r1" "rs_State r1 = StateCompensating" "mq_queue q1 = [?c]"
    using fatal_single [OF assms(1-3,5-11), of b] by (metis fun_upd_same)
  have "qi_AvailableAt ?c \<le> t'" "i = oe_ID (qi_Envelope ?c)"
    using assms(4,5) by (simp_all add: compensation_item_def Let_def)
  from compensate_single [OF R(2,5) this assms(6) R(3,4) compensation_phase assms(12), of n b] R show ?thesis
    by (metis fun_upd_same)
qed

definition undo_exec :: OperationExecutor where
  "undo_exec = \<lparr>ex_Prepare = \<lambda>env. (None, env),
     ex_Execute = \<lambda>env. (Some (demo_result\<lparr>or_Error := Some (OpErr ''quota''), or_Fatal := True, or_TriggerCompensation := True\<rparr>), None, env),
     ex_Compensate = \<lambda>env. (Some (demo_result\<lparr>or_State := StateCompensated\<rparr>), None, env)\<rparr>"

text \<open>The same executor with a failure that is not fatal.\<close>

definition undo_late :: OperationExecutor where
  "undo_late = undo_exec\<lparr>ex_Execute := \<lambda>env.
     (Some (demo_result\<lparr>or_Error := Some (OpErr ''quota''), or_TriggerCompensation := True\<rparr>), Some (OpErr ''quota''), env)\<rparr>"

theorem compensation_completes_witness:
  "\<exists>q1 s1 r1. ProcessOnce (mem_pipeline undo_late 1 default_backoff) unix_epoch (demo_queue, demo_store) = (Some (OpErr ''quota''), q1, s1)
    \<and> map_of s1 ''op-1'' = Some r1 \<and> rs_State r1 = StateCompensating
    \<and> (\<exists>q2 s2 r2. ProcessOnce (mem_pipeline undo_late 1 default_backoff) unix_epoch (q1, s1) = (None, q2, s2)
      \<and> map_of s2 ''op-1'' = Some r2 \<and> rs_State r2 = StateCompensated \<and> mq_queue q2 = [])"
proof -
  have c: "compensates undo_late (qi_Envelope demo_item)
      (demo_result\<lparr>or_Error := Some (OpErr ''quota''), or_TriggerCompensation := True\<rparr>) (OpErr ''quota'')"
    by (simp add: compensates_def undo_late_def undo_exec_def demo_item_def demo_env_def demo_result_def)
  have u: "compensation_succeeds undo_late (qi_Envelope (compensation_item unix_epoch (qi_Envelope demo_item)))
      (demo_result\<lparr>or_State := StateCompensated\<rparr>)"
    by (simp add: compensation_succeeds_def undo_late_def undo_exec_def demo_result_def)
  have n: "or_Fatal (demo_result\<lparr>or_Error := Some (OpErr ''quota''), or_TriggerCompensation := True\<rparr>) \<or> 1 \<le> qi_Attempts demo_item + 1"
    by (simp add: demo_item_def)
  from compensation_completes [OF demo_ok(1) demo_facts(1,2) order_refl demo_facts(3) [symmetric] _ demo_facts(4)
      disjI1 [OF demo_facts(5)] demo_facts(6) c n u, of default_backoff]
  show ?thesis by fastforce
qed

section \<open>A preparation that fails\<close>

text \<open>An operation whose preparation fails is recorded as failed, but its item is neither
  acknowledged nor put back: it stays in flight for ever, no later processing tries it again
  although attempts are left, and the record never changes any more.\<close>

theorem prepare_failure_strands:
  assumes "store_ok s" and "mq_queue q = [item]" and "qi_AvailableAt item \<le> t" and "i = oe_ID (qi_Envelope item)" "i \<noteq> []"
    and "map_of s i = Some r" and "rs_State r = StateQueued"
    and "operationPhase (qi_Envelope item) \<noteq> phaseCompensate"
    and "ex_Prepare x (qi_Envelope item) = (Some err, env1)" and "oe_ID env1 = i"
  shows "\<exists>q' s' r'. ProcessOnce (mem_pipeline x n b) t (q, s) = (Some err, q', s')
    \<and> process_run (mem_pipeline x n b) (t # later) (q, s) = (q', s') \<and> mq_queue q' = []
    \<and> map_of (mq_inFlight q') i = Some item \<and> map_of s' i = Some r' \<and> rs_State r' = StateFailed
    \<and> rs_Attempts r' = qi_Attempts item + 1"
proof -
  let ?q = "q\<lparr>mq_queue := [], mq_inFlight := AList.update (oe_ID (qi_Envelope item)) item (mq_inFlight q)\<rparr>"
  have run: "mem_pipe.runnable item i r ?q s"
    unfolding assms(4) using runnable_single assms(1,4-7) by blast
  obtain s' where s': "processExecution (mem_pipeline x n b) t item (?q, s) = (Some err, ?q, s')"
    "map_of s' = (map_of s)(i \<mapsto> failed_state t (qi_Attempts item + 1) (''prepare: '' @ err_text err)
                           (advanced_state t StateExecuting r))"
    using mem_pipe.prepare_failed [OF run, where x = x and n = n and b = b and now = t and err = err and ?env1.0 = env1] assms(9,10)
    unfolding mem_pipeline_def by auto
  have P: "ProcessOnce (mem_pipeline x n b) t (q, s) = (Some err, ?q, s')"
    unfolding phase_dispatch [OF assms(2,3,8)] by (rule s'(1))
  then show ?thesis
    using s'(2) assms(4) by (simp add: run_empty update_conv' failed_state_def)
qed

definition bad_prepare :: OperationExecutor where
  "bad_prepare = succeed\<lparr>ex_Prepare := \<lambda>env. (Some (OpErr ''cache down''), env)\<rparr>"

theorem prepare_failure_strands_witness:
  "\<exists>q' s' r'. process_run (mem_pipeline bad_prepare 3 default_backoff) [unix_epoch, unix_epoch + Minute] (demo_queue, demo_store) = (q', s')
    \<and> map_of (mq_inFlight q') ''op-1'' = Some demo_item \<and> map_of s' ''op-1'' = Some r' \<and> rs_State r' = StateFailed
    \<and> rs_Attempts r' = 1"
proof -
  have p: "ex_Prepare bad_prepare (qi_Envelope demo_item) = (Some (OpErr ''cache down''), demo_env)" "oe_ID demo_env = ''op-1''"
    by (simp_all add: bad_prepare_def succeed_def demo_item_def demo_env_def)
  from prepare_failure_strands [OF demo_ok(1) demo_facts(1,2) demo_facts(3) [symmetric] _ demo_facts(4,5,6) p,
      of 3 default_backoff "[unix_epoch + Minute]"] demo_facts(7)
  show ?thesis by auto
qed

section \<open>A waiting retry\<close>

text \<open>While a failed operation waits for its next attempt, its record says queued, with no
  attempts and no error: what the failed attempt recorded is erased at once. The queue, asked
  for the operation's ticket, reports it as executing although it waits.\<close>

theorem retry_forgets_failure:
  assumes "store_ok s" and "mq_queue q = [item]" and "qi_AvailableAt item \<le> t" and "i = oe_ID (qi_Envelope item)" "i \<noteq> []"
    and "map_of s i = Some r" and "rs_State r = StateQueued \<or> rs_State r = StateFailed"
    and "operationPhase (qi_Envelope item) \<noteq> phaseCompensate" and "plain_failure x (qi_Envelope item) (qi_Attempts item + 1)"
    and "qi_Attempts item + 1 < n" and "map_of (mq_tickets q) tk = Some ticket" and "qt_OperationID ticket = i"
  shows "\<exists>e q' s' rec st. ProcessOnce (mem_pipeline x n b) t (q, s) = (Some e, q', s')
    \<and> mem_Get t' i s' = (Inr rec, s') \<and> rs_State rec = StateQueued \<and> rs_Attempts rec = 0 \<and> rs_LastError rec = []
    \<and> mem_Poll t' tk q' = (Inr st, q') \<and> qs_State st = StateExecuting \<and> map_option snd (mem_waiting q' i) = Some (qi_Attempts item + 1)"
proof -
  from retry_single [OF assms(1-10), of b] obtain e q' s' r' where
    R: "ProcessOnce (mem_pipeline x n b) t (q, s) = (Some e, q', s')" "map_of s' = (map_of s)(i \<mapsto> r')"
    "rs_State r' = StateQueued" "rs_Attempts r' = 0" "rs_LastError r' = []"
    "mq_queue q' = [item\<lparr>qi_Attempts := qi_Attempts item + 1, qi_AvailableAt := t + soft_delay b x (qi_Envelope item) (qi_Attempts item + 1)\<rparr>]"
    "map_of (mq_inFlight q') i = Some item" "mq_tickets q' = mq_tickets q"
    by blast
  have "mem_Get t' i s' = (Inr r', s')" using R(2) assms(5) by (simp add: mem_Get_def)
  moreover have "mem_Poll t' tk q' = (Inr \<lparr>qs_OperationID = i, qs_State = StateExecuting, qs_Position = 0, qs_Remaining = 0, qs_Message = []\<rparr>, q')"
    using R(7,8) assms(11,12) by (simp add: mem_Poll_def Let_def)
  moreover have "map_option snd (mem_waiting q' i) = Some (qi_Attempts item + 1)"
    using assms(4) by (simp add: mem_waiting_def R(6))
  ultimately show ?thesis using R(1,3-5) by auto
qed

definition ticketed_queue :: mem_queue where
  "ticketed_queue = snd (mem_Enqueue unix_epoch (Some demo_env) NewCoordinator)"

theorem retry_forgets_failure_witness:
  "\<exists>e q' s' rec st. ProcessOnce (mem_pipeline (give_up (OpErr ''db'')) 3 default_backoff) unix_epoch (ticketed_queue, demo_store)
      = (Some e, q', s')
    \<and> mem_Get unix_epoch ''op-1'' s' = (Inr rec, s') \<and> rs_LastError rec = []
    \<and> mem_Poll unix_epoch ''op-1'' q' = (Inr st, q') \<and> qs_State st = StateExecuting"
proof -
  have q: "mq_queue ticketed_queue = [demo_item]" "map_of (mq_tickets ticketed_queue) ''op-1'' \<noteq> None"
    "qt_OperationID (the (map_of (mq_tickets ticketed_queue) ''op-1'')) = ''op-1''"
    by (simp_all add: ticketed_queue_def mem_Enqueue_def NewCoordinator_def Let_def demo_item_def demo_env_def)
  then obtain tk where tk: "map_of (mq_tickets ticketed_queue) ''op-1'' = Some tk" "qt_OperationID tk = ''op-1''" by auto
  have f: "plain_failure (give_up (OpErr ''db'')) (qi_Envelope demo_item) (qi_Attempts demo_item + 1)"
    by (simp add: plain_failure_def outcome_of_def give_up_def settle_result_def)
  have n: "qi_Attempts demo_item + 1 < 3" using demo_facts(7) by simp
  from retry_forgets_failure [OF demo_ok(1) q(1) demo_facts(2) demo_facts(3) [symmetric] _ demo_facts(4) disjI1 [OF demo_facts(5)]
      demo_facts(6) f n tk, of default_backoff unix_epoch]
  show ?thesis by blast
qed

section \<open>The default backoff\<close>

text \<open>The default retry delay starts at 250 ms, never decreases with the attempt and ends at
  16 seconds: the cap of 30 seconds in the code is never reached. A pipeline with the default
  backoff never waits zero or a negative time.\<close>

theorem backoff_ladder:
  "default_backoff a \<in> {250 * Millisecond .. 16 * Second} \<and> default_backoff (min a b) \<le> default_backoff (max a b)
    \<and> default_backoff (7 + int k) = 16 * Second
    \<and> 0 < retry_delay \<lparr>p_queue = Q, p_state = S, p_exec = x, p_maxAttempts = n, p_retryBackoff = defaultRetryBackoff None\<rparr> a ra"
  using default_backoff_bounds [of a] default_backoff_mono [of "min a b" "max a b"]
    retry_delay_default [of "\<lparr>p_queue = Q, p_state = S, p_exec = x, p_maxAttempts = n, p_retryBackoff = default_backoff\<rparr>" a ra]
  by (simp add: defaultRetryBackoff_def default_backoff_eq [of "7 + int k"] go_simps)

end
