(* ===== verification/RedisServer.thy ===== *)
theory RedisServer
  imports OperationTypes Prelude
begin

text \<open>
  The Redis server as the code sees it. The server is not part of this repository: its
  commands are a record of functions over an abstract state \<open>'r\<close>, and what Redis documents
  about them is the predicate \<open>redis_laws\<close>, relative to a view of the data and a typing of
  the keys. Every command is atomic, and a script runs as one step. Scores are integers
  (the code stores milliseconds). The table at the end is one state on which the laws hold;
  it shows that they can be met together.
\<close>

section \<open>Commands\<close>

datatype rtype = TList | TSet | TZSet | TString

text \<open>\<open>rd_up\<close> is the client's view of its connection, \<open>rd_trip\<close> the outcome of reaching the server
  for one command, pipeline or script: an error, or nothing. The clock is an argument where a command looks at expiry.\<close>

record 'r Redis =
  rd_up :: "'r \<Rightarrow> bool"
  rd_trip :: "'r \<Rightarrow> op_error option \<times> 'r"
  c_LLEN :: "string \<Rightarrow> 'r \<Rightarrow> int"
  c_LPOP :: "string \<Rightarrow> 'r \<Rightarrow> string option \<times> 'r"
  c_RPUSH :: "string \<Rightarrow> string \<Rightarrow> 'r \<Rightarrow> int \<times> 'r"
  c_LPOS :: "string \<Rightarrow> string \<Rightarrow> 'r \<Rightarrow> int option"
  c_SADD :: "string \<Rightarrow> string \<Rightarrow> 'r \<Rightarrow> int \<times> 'r"
  c_SREM :: "string \<Rightarrow> string \<Rightarrow> 'r \<Rightarrow> int \<times> 'r"
  c_SISMEMBER :: "string \<Rightarrow> string \<Rightarrow> 'r \<Rightarrow> int"
  c_SCARD :: "string \<Rightarrow> 'r \<Rightarrow> int"
  c_SRANDMEMBER :: "string \<Rightarrow> int \<Rightarrow> 'r \<Rightarrow> string list"
  c_ZADD :: "string \<Rightarrow> int \<Rightarrow> string \<Rightarrow> 'r \<Rightarrow> int \<times> 'r"
  c_ZREM :: "string \<Rightarrow> string \<Rightarrow> 'r \<Rightarrow> int \<times> 'r"
  c_ZSCORE :: "string \<Rightarrow> string \<Rightarrow> 'r \<Rightarrow> int option"
  c_ZCARD :: "string \<Rightarrow> 'r \<Rightarrow> int"
  c_ZFIRST :: "string \<Rightarrow> 'r \<Rightarrow> (string \<times> int) option"
  c_ZRANGEBYSCORE :: "string \<Rightarrow> int \<Rightarrow> int \<Rightarrow> 'r \<Rightarrow> string list"
  c_GET :: "instant \<Rightarrow> string \<Rightarrow> 'r \<Rightarrow> string option"
  c_SET :: "instant \<Rightarrow> string \<Rightarrow> string \<Rightarrow> duration \<Rightarrow> 'r \<Rightarrow> 'r"
  c_DEL :: "string \<Rightarrow> 'r \<Rightarrow> 'r"

record rview =
  v_list :: "string \<Rightarrow> string list"
  v_set :: "string \<Rightarrow> string set"
  v_zset :: "string \<Rightarrow> string \<Rightarrow> int option"
  v_str :: "string \<Rightarrow> (string \<times> instant) option"

section \<open>What Redis documents\<close>

definition list_laws :: "'r Redis \<Rightarrow> ('r \<Rightarrow> rview) \<Rightarrow> (string \<Rightarrow> rtype) \<Rightarrow> bool" where
  "list_laws R view ty \<longleftrightarrow> (\<forall>k x r. ty k = TList \<longrightarrow>
     c_LLEN R k r = int (length (v_list (view r) k))
   \<and> fst (c_LPOP R k r) = (case v_list (view r) k of [] \<Rightarrow> None | y # ys \<Rightarrow> Some y)
   \<and> view (snd (c_LPOP R k r)) = (view r)\<lparr>v_list := (v_list (view r))(k := tl (v_list (view r) k))\<rparr>
   \<and> fst (c_RPUSH R k x r) = int (length (v_list (view r) k)) + 1
   \<and> view (snd (c_RPUSH R k x r)) = (view r)\<lparr>v_list := (v_list (view r))(k := v_list (view r) k @ [x])\<rparr>
   \<and> c_LPOS R k x r = (if x \<in> set (v_list (view r) k)
        then Some (int (length (takeWhile (\<lambda>y. y \<noteq> x) (v_list (view r) k)))) else None))"

definition set_laws :: "'r Redis \<Rightarrow> ('r \<Rightarrow> rview) \<Rightarrow> (string \<Rightarrow> rtype) \<Rightarrow> bool" where
  "set_laws R view ty \<longleftrightarrow> (\<forall>k x n r. ty k = TSet \<longrightarrow>
     finite (v_set (view r) k)
   \<and> fst (c_SADD R k x r) = (if x \<in> v_set (view r) k then 0 else 1)
   \<and> view (snd (c_SADD R k x r)) = (view r)\<lparr>v_set := (v_set (view r))(k := insert x (v_set (view r) k))\<rparr>
   \<and> fst (c_SREM R k x r) = (if x \<in> v_set (view r) k then 1 else 0)
   \<and> view (snd (c_SREM R k x r)) = (view r)\<lparr>v_set := (v_set (view r))(k := v_set (view r) k - {x})\<rparr>
   \<and> c_SISMEMBER R k x r = (if x \<in> v_set (view r) k then 1 else 0)
   \<and> c_SCARD R k r = int (card (v_set (view r) k))
   \<and> (0 \<le> n \<longrightarrow> distinct (c_SRANDMEMBER R k n r) \<and> set (c_SRANDMEMBER R k n r) \<subseteq> v_set (view r) k
        \<and> int (length (c_SRANDMEMBER R k n r)) = min n (int (card (v_set (view r) k)))))"

definition due_ids :: "(string \<Rightarrow> int option) \<Rightarrow> int \<Rightarrow> string set" where
  "due_ids z cutoff = {x. case z x of None \<Rightarrow> False | Some s \<Rightarrow> s \<le> cutoff}"

definition zset_laws :: "'r Redis \<Rightarrow> ('r \<Rightarrow> rview) \<Rightarrow> (string \<Rightarrow> rtype) \<Rightarrow> bool" where
  "zset_laws R view ty \<longleftrightarrow> (\<forall>k x s n r. ty k = TZSet \<longrightarrow>
     finite (dom (v_zset (view r) k))
   \<and> fst (c_ZADD R k s x r) = (if x \<in> dom (v_zset (view r) k) then 0 else 1)
   \<and> view (snd (c_ZADD R k s x r)) = (view r)\<lparr>v_zset := (v_zset (view r))(k := (v_zset (view r) k)(x \<mapsto> s))\<rparr>
   \<and> fst (c_ZREM R k x r) = (if x \<in> dom (v_zset (view r) k) then 1 else 0)
   \<and> view (snd (c_ZREM R k x r)) = (view r)\<lparr>v_zset := (v_zset (view r))(k := (v_zset (view r) k)(x := None))\<rparr>
   \<and> c_ZSCORE R k x r = v_zset (view r) k x
   \<and> c_ZCARD R k r = int (card (dom (v_zset (view r) k)))
   \<and> (c_ZFIRST R k r = None \<longleftrightarrow> v_zset (view r) k = Map.empty)
   \<and> (\<forall>y t. c_ZFIRST R k r = Some (y, t) \<longrightarrow> v_zset (view r) k y = Some t \<and> (\<forall>x' t'. v_zset (view r) k x' = Some t' \<longrightarrow> t \<le> t'))
   \<and> (0 \<le> n \<longrightarrow> distinct (c_ZRANGEBYSCORE R k s n r) \<and> set (c_ZRANGEBYSCORE R k s n r) \<subseteq> due_ids (v_zset (view r) k) s
        \<and> int (length (c_ZRANGEBYSCORE R k s n r)) = min n (int (card (due_ids (v_zset (view r) k) s)))))"

definition string_laws :: "'r Redis \<Rightarrow> ('r \<Rightarrow> rview) \<Rightarrow> (string \<Rightarrow> rtype) \<Rightarrow> bool" where
  "string_laws R view ty \<longleftrightarrow> (\<forall>k v d now r. ty k = TString \<longrightarrow>
     c_GET R now k r = (case v_str (view r) k of None \<Rightarrow> None | Some (x, e) \<Rightarrow> if now < e then Some x else None)
   \<and> (0 < d \<longrightarrow> view (c_SET R now k v d r) = (view r)\<lparr>v_str := (v_str (view r))(k \<mapsto> (v, now + d))\<rparr>)
   \<and> view (c_DEL R k r) = (view r)\<lparr>v_str := (v_str (view r))(k := None)\<rparr>)"

text \<open>Reaching the server, or failing to, changes no data: an error means that the command has not run. A reply that
  is lost after the command has run is not represented here. The reply for a missing key is an error of the client.\<close>

definition RedisNil :: op_error where "RedisNil = OpErr ''redis: nil''"

definition trip_laws :: "'r Redis \<Rightarrow> ('r \<Rightarrow> rview) \<Rightarrow> bool" where
  "trip_laws R view \<longleftrightarrow> (\<forall>r. view (snd (rd_trip R r)) = view r)"

definition redis_laws :: "'r Redis \<Rightarrow> ('r \<Rightarrow> rview) \<Rightarrow> (string \<Rightarrow> rtype) \<Rightarrow> bool" where
  "redis_laws R view ty \<longleftrightarrow> list_laws R view ty \<and> set_laws R view ty \<and> zset_laws R view ty
     \<and> string_laws R view ty \<and> trip_laws R view"

text \<open>A server that is always reached.\<close>

definition reliable :: "'r Redis \<Rightarrow> bool" where
  "reliable R \<longleftrightarrow> (\<forall>r. rd_up R r \<and> fst (rd_trip R r) = None)"

lemma trip_facts:
  assumes "redis_laws R view ty"
  shows "view (snd (rd_trip R r)) = view r"
  using assms by (simp_all add: redis_laws_def trip_laws_def)

lemma list_facts:
  assumes "redis_laws R view ty" and "ty k = TList"
  shows "c_LLEN R k r = int (length (v_list (view r) k))"
    "fst (c_LPOP R k r) = (case v_list (view r) k of [] \<Rightarrow> None | y # ys \<Rightarrow> Some y)"
    "view (snd (c_LPOP R k r)) = (view r)\<lparr>v_list := (v_list (view r))(k := tl (v_list (view r) k))\<rparr>"
    "fst (c_RPUSH R k x r) = int (length (v_list (view r) k)) + 1"
    "view (snd (c_RPUSH R k x r)) = (view r)\<lparr>v_list := (v_list (view r))(k := v_list (view r) k @ [x])\<rparr>"
    "c_LPOS R k x r = (if x \<in> set (v_list (view r) k)
        then Some (int (length (takeWhile (\<lambda>y. y \<noteq> x) (v_list (view r) k)))) else None)"
  using assms by (simp_all add: redis_laws_def list_laws_def)

lemma set_facts:
  assumes "redis_laws R view ty" and "ty k = TSet"
  shows "finite (v_set (view r) k)" "fst (c_SADD R k x r) = (if x \<in> v_set (view r) k then 0 else 1)"
    "view (snd (c_SADD R k x r)) = (view r)\<lparr>v_set := (v_set (view r))(k := insert x (v_set (view r) k))\<rparr>"
    "fst (c_SREM R k x r) = (if x \<in> v_set (view r) k then 1 else 0)"
    "view (snd (c_SREM R k x r)) = (view r)\<lparr>v_set := (v_set (view r))(k := v_set (view r) k - {x})\<rparr>"
    "c_SISMEMBER R k x r = (if x \<in> v_set (view r) k then 1 else 0)"
    "c_SCARD R k r = int (card (v_set (view r) k))"
    "0 \<le> n \<Longrightarrow> distinct (c_SRANDMEMBER R k n r)" "0 \<le> n \<Longrightarrow> set (c_SRANDMEMBER R k n r) \<subseteq> v_set (view r) k"
    "0 \<le> n \<Longrightarrow> int (length (c_SRANDMEMBER R k n r)) = min n (int (card (v_set (view r) k)))"
  using assms unfolding redis_laws_def set_laws_def by blast+

lemma zset_facts:
  assumes "redis_laws R view ty" and "ty k = TZSet"
  shows "finite (dom (v_zset (view r) k))" "fst (c_ZADD R k s x r) = (if x \<in> dom (v_zset (view r) k) then 0 else 1)"
    "view (snd (c_ZADD R k s x r)) = (view r)\<lparr>v_zset := (v_zset (view r))(k := (v_zset (view r) k)(x \<mapsto> s))\<rparr>"
    "fst (c_ZREM R k x r) = (if x \<in> dom (v_zset (view r) k) then 1 else 0)"
    "view (snd (c_ZREM R k x r)) = (view r)\<lparr>v_zset := (v_zset (view r))(k := (v_zset (view r) k)(x := None))\<rparr>"
    "c_ZSCORE R k x r = v_zset (view r) k x"
    "c_ZCARD R k r = int (card (dom (v_zset (view r) k)))"
    "c_ZFIRST R k r = None \<longleftrightarrow> v_zset (view r) k = Map.empty"
    "c_ZFIRST R k r = Some (y, t) \<Longrightarrow> v_zset (view r) k y = Some t"
    "c_ZFIRST R k r = Some (y, t) \<Longrightarrow> v_zset (view r) k x = Some t' \<Longrightarrow> t \<le> t'"
    "0 \<le> n \<Longrightarrow> distinct (c_ZRANGEBYSCORE R k s n r)"
    "0 \<le> n \<Longrightarrow> set (c_ZRANGEBYSCORE R k s n r) \<subseteq> due_ids (v_zset (view r) k) s"
    "0 \<le> n \<Longrightarrow> int (length (c_ZRANGEBYSCORE R k s n r)) = min n (int (card (due_ids (v_zset (view r) k) s)))"
  using assms unfolding redis_laws_def zset_laws_def by blast+

lemma string_facts:
  assumes "redis_laws R view ty" and "ty k = TString"
  shows "c_GET R now k r = (case v_str (view r) k of None \<Rightarrow> None | Some (x, e) \<Rightarrow> if now < e then Some x else None)"
    "0 < d \<Longrightarrow> view (c_SET R now k v d r) = (view r)\<lparr>v_str := (v_str (view r))(k \<mapsto> (v, now + d))\<rparr>"
    "view (c_DEL R k r) = (view r)\<lparr>v_str := (v_str (view r))(k := None)\<rparr>"
  using assms by (simp_all add: redis_laws_def string_laws_def)

end
