(* ===== verification/RedisScripts.thy ===== *)
theory RedisScripts
  imports RedisServer
begin

text \<open>
  The Lua scripts of the Redis queue coordinator (queue/redisqueue/coordinator.go), each a
  definition over the commands it issues, in their order. A loop of a script runs on fuel,
  one more than the elements it can consume; it never runs out (shown with the facts on the
  queue). The reply of a script is the Go value the client hands back.
\<close>

datatype goval =
    VInt64 int | VInt int | VFloat int | VString string | VBytes string | VNil | VOther string

section \<open>Scheduled to ready\<close>

fun release_due_loop ::
  "'r Redis \<Rightarrow> string \<Rightarrow> string \<Rightarrow> string \<Rightarrow> int \<Rightarrow> nat \<Rightarrow> int \<Rightarrow> 'r \<Rightarrow> (int \<times> 'r) option" where
  "release_due_loop R k1 k2 k3 now 0 moved r = None"
| "release_due_loop R k1 k2 k3 now (Suc n) moved r =
    (case c_ZFIRST R k1 r of
       None \<Rightarrow> Some (moved, r)
     | Some (i, score) \<Rightarrow>
         if now < score then Some (moved, r)
         else (case c_SADD R k3 i (snd (c_ZREM R k1 i r)) of
                 (added, r2) \<Rightarrow>
                   if added = 1
                   then release_due_loop R k1 k2 k3 now n (moved + 1) (snd (c_RPUSH R k2 i r2))
                   else release_due_loop R k1 k2 k3 now n moved r2))"

definition luaReleaseDue ::
  "'r Redis \<Rightarrow> string \<Rightarrow> string \<Rightarrow> string \<Rightarrow> int \<Rightarrow> 'r \<Rightarrow> (goval \<times> 'r) option" where
  "luaReleaseDue R k1 k2 k3 now r =
    map_option (\<lambda>(moved, r'). (VInt64 moved, r'))
      (release_due_loop R k1 k2 k3 now (Suc (nat (c_ZCARD R k1 r))) 0 r)"

section \<open>Ready to in flight\<close>

fun pop_ready_loop ::
  "'r Redis \<Rightarrow> string \<Rightarrow> string \<Rightarrow> string \<Rightarrow> string \<Rightarrow> int \<Rightarrow> nat \<Rightarrow> 'r \<Rightarrow> (string option \<times> 'r) option" where
  "pop_ready_loop R k1 k2 k3 k4 score 0 r = None"
| "pop_ready_loop R k1 k2 k3 k4 score (Suc n) r =
    (case c_LPOP R k1 r of
       (None, r1) \<Rightarrow> Some (None, r1)
     | (Some i, r1) \<Rightarrow>
         (case c_SREM R k4 i r1 of
            (removed, r2) \<Rightarrow>
              if removed = 1
              then Some (Some i, snd (c_ZADD R k3 score i (snd (c_SADD R k2 i r2))))
              else pop_ready_loop R k1 k2 k3 k4 score n r2))"

definition luaPopReady ::
  "'r Redis \<Rightarrow> string \<Rightarrow> string \<Rightarrow> string \<Rightarrow> string \<Rightarrow> int \<Rightarrow> 'r \<Rightarrow> (goval \<times> 'r) option" where
  "luaPopReady R k1 k2 k3 k4 now r =
    map_option (\<lambda>(reply, r'). (case reply of None \<Rightarrow> VNil | Some i \<Rightarrow> VString i, r'))
      (pop_ready_loop R k1 k2 k3 k4 now (Suc (nat (c_LLEN R k1 r))) r)"

section \<open>Pushing, requeueing, acknowledging\<close>

definition luaPushReady :: "'r Redis \<Rightarrow> string \<Rightarrow> string \<Rightarrow> string \<Rightarrow> 'r \<Rightarrow> goval \<times> 'r" where
  "luaPushReady R k1 k2 i r =
    (case c_SADD R k2 i r of
       (added, r1) \<Rightarrow>
         if added = 0 then (VInt64 (c_LLEN R k1 r1), r1)
         else (case c_RPUSH R k1 i r1 of (len, r2) \<Rightarrow> (VInt64 len, r2)))"

definition luaRequeueReady ::
  "'r Redis \<Rightarrow> string \<Rightarrow> string \<Rightarrow> string \<Rightarrow> string \<Rightarrow> string \<Rightarrow> string \<Rightarrow> 'r \<Rightarrow> goval \<times> 'r" where
  "luaRequeueReady R k1 k2 k3 k4 k5 i r =
    (let r1 = snd (c_SREM R k2 i r);
         r2 = snd (c_ZREM R k3 i r1);
         r3 = snd (c_ZREM R k5 i r2);
         r4 = snd (c_SREM R k4 i r3)
     in case c_SADD R k4 i r4 of
          (added, r5) \<Rightarrow>
            if added = 0 then (VInt64 (c_LLEN R k1 r5), r5)
            else (case c_RPUSH R k1 i r5 of (len, r6) \<Rightarrow> (VInt64 len, r6)))"

definition luaRequeueScheduled ::
  "'r Redis \<Rightarrow> string \<Rightarrow> string \<Rightarrow> string \<Rightarrow> string \<Rightarrow> string \<Rightarrow> int \<Rightarrow> 'r \<Rightarrow> goval \<times> 'r" where
  "luaRequeueScheduled R k2 k3 k4 k5 i score r =
    (let r1 = snd (c_SREM R k2 i r);
         r2 = snd (c_ZREM R k3 i r1);
         r3 = snd (c_SREM R k4 i r2)
     in case c_ZADD R k5 score i r3 of (added, r4) \<Rightarrow> (VInt64 added, r4))"

definition luaAckOperation ::
  "'r Redis \<Rightarrow> string \<Rightarrow> string \<Rightarrow> string \<Rightarrow> string \<Rightarrow> string \<Rightarrow> 'r \<Rightarrow> goval \<times> 'r" where
  "luaAckOperation R k1 k3 k4 k5 i r =
    (let r1 = snd (c_SREM R k1 i r);
         r2 = snd (c_ZREM R k4 i r1);
         r3 = snd (c_SREM R k5 i r2);
         r4 = snd (c_ZREM R k3 i r3)
     in (VInt64 1, r4))"

section \<open>Queries\<close>

definition luaListPosition :: "'r Redis \<Rightarrow> string \<Rightarrow> string \<Rightarrow> 'r \<Rightarrow> goval \<times> 'r" where
  "luaListPosition R k1 i r =
    (case c_LPOS R k1 i r of None \<Rightarrow> (VInt64 (- 1), r) | Some idx \<Rightarrow> (VInt64 idx, r))"

definition luaIsInflight :: "'r Redis \<Rightarrow> string \<Rightarrow> string \<Rightarrow> 'r \<Rightarrow> goval \<times> 'r" where
  "luaIsInflight R k1 i r = (VInt64 (c_SISMEMBER R k1 i r), r)"

definition luaScheduledScore :: "'r Redis \<Rightarrow> string \<Rightarrow> string \<Rightarrow> 'r \<Rightarrow> goval \<times> 'r" where
  "luaScheduledScore R k1 i r =
    (case c_ZSCORE R k1 i r of None \<Rightarrow> (VNil, r) | Some score \<Rightarrow> (VString (FormatInt score), r))"

section \<open>Reclaiming\<close>

text \<open>The two loops that choose ids: each takes unseen ids in order up to the limit.\<close>

fun collect_ids :: "(string \<Rightarrow> bool) \<Rightarrow> int \<Rightarrow> string list \<Rightarrow> string list \<Rightarrow> string list" where
  "collect_ids ok limit [] ids = ids"
| "collect_ids ok limit (i # rest) ids =
    (if i \<notin> set ids \<and> ok i
     then (let ids' = ids @ [i]
           in if limit \<le> int (length ids') then ids' else collect_ids ok limit rest ids')
     else collect_ids ok limit rest ids)"

definition reclaim_candidates ::
  "'r Redis \<Rightarrow> string \<Rightarrow> string \<Rightarrow> int \<Rightarrow> int \<Rightarrow> 'r \<Rightarrow> string list" where
  "reclaim_candidates R k1 k2 cutoff limit r =
    (let aged = collect_ids (\<lambda>_. True) limit (c_ZRANGEBYSCORE R k1 cutoff limit r) []
     in if int (length aged) < limit
        then collect_ids (\<lambda>i. c_ZSCORE R k1 i r = None) limit
               (c_SRANDMEMBER R k2 (limit - int (length aged)) r) aged
        else aged)"

fun reclaim_loop :: "'r Redis \<Rightarrow> string \<Rightarrow> string \<Rightarrow> string \<Rightarrow> string \<Rightarrow> string list \<Rightarrow> int \<Rightarrow> 'r \<Rightarrow> int \<times> 'r" where
  "reclaim_loop R k1 k2 k3 k4 [] reclaimed r = (reclaimed, r)"
| "reclaim_loop R k1 k2 k3 k4 (i # rest) reclaimed r =
    (case c_SREM R k2 i (snd (c_ZREM R k1 i r)) of
       (removed, r2) \<Rightarrow>
         if 0 < removed
         then (case c_SADD R k4 i r2 of
                 (added, r3) \<Rightarrow>
                   reclaim_loop R k1 k2 k3 k4 rest (reclaimed + 1)
                     (if added = 1 then snd (c_RPUSH R k3 i r3) else r3))
         else reclaim_loop R k1 k2 k3 k4 rest reclaimed r2)"

definition luaReclaimStaleInflight ::
  "'r Redis \<Rightarrow> string \<Rightarrow> string \<Rightarrow> string \<Rightarrow> string \<Rightarrow> int \<Rightarrow> int \<Rightarrow> int \<Rightarrow> 'r \<Rightarrow> goval \<times> 'r" where
  "luaReclaimStaleInflight R k1 k2 k3 k4 now max_age limit r =
    (if max_age \<le> 0 \<or> limit \<le> 0 then (VInt64 0, r)
     else (case reclaim_loop R k1 k2 k3 k4 (reclaim_candidates R k1 k2 (now - max_age) limit r) 0 r of
             (reclaimed, r') \<Rightarrow> (VInt64 reclaimed, r')))"

section \<open>Conversions of replies\<close>

definition toInt64 :: "goval \<Rightarrow> op_error + int" where
  "toInt64 val =
    (case val of
       VInt64 v \<Rightarrow> Inr v
     | VInt v \<Rightarrow> Inr v
     | VFloat v \<Rightarrow> Inr v
     | VString v \<Rightarrow> if v = [] then Inr 0
         else (case ParseInt v of Some n \<Rightarrow> Inr n | None \<Rightarrow> Inl (OpErr (''strconv.ParseInt: parsing '' @ v)))
     | VBytes v \<Rightarrow> if v = [] then Inr 0
         else (case ParseInt v of Some n \<Rightarrow> Inr n | None \<Rightarrow> Inl (OpErr (''strconv.ParseInt: parsing '' @ v)))
     | VNil \<Rightarrow> Inl RedisNil
     | VOther t \<Rightarrow> Inl (OpErr (''unexpected integer type '' @ t)))"

text \<open>Floats are the integral ones, the only kind the queue stores as a score.\<close>

definition toFloat64 :: "goval \<Rightarrow> op_error + int" where
  "toFloat64 val =
    (case val of
       VFloat v \<Rightarrow> Inr v
     | VInt64 v \<Rightarrow> Inr v
     | VInt v \<Rightarrow> Inr v
     | VString v \<Rightarrow> if TrimSpace v = [] then Inl RedisNil
         else (case ParseInt v of Some n \<Rightarrow> Inr n | None \<Rightarrow> Inl (OpErr (''strconv.ParseFloat: parsing '' @ v)))
     | VBytes v \<Rightarrow> if v = [] then Inl RedisNil
         else (case ParseInt v of Some n \<Rightarrow> Inr n | None \<Rightarrow> Inl (OpErr (''strconv.ParseFloat: parsing '' @ v)))
     | VNil \<Rightarrow> Inl RedisNil
     | VOther t \<Rightarrow> Inl (OpErr (''unexpected float type '' @ t)))"

definition toString :: "goval \<Rightarrow> op_error + string" where
  "toString val =
    (case val of
       VString v \<Rightarrow> Inr v
     | VBytes v \<Rightarrow> Inr v
     | VNil \<Rightarrow> Inl RedisNil
     | VInt64 v \<Rightarrow> Inr (FormatInt v)
     | VInt v \<Rightarrow> Inr (FormatInt v)
     | VFloat v \<Rightarrow> Inr (FormatInt v)
     | VOther t \<Rightarrow> Inr t)"

definition toBool :: "goval \<Rightarrow> op_error + bool" where
  "toBool val =
    (case toInt64 val of
       Inl err \<Rightarrow> if err_is err RedisNil then Inr False else Inl err
     | Inr n \<Rightarrow> Inr (n \<noteq> 0))"

end
