(* ===== verification/RedisQueue.thy ===== *)
theory RedisQueue
  imports RedisScripts
begin

text \<open>
  The Redis queue coordinator (queue/redisqueue/coordinator.go) over the storage client
  (pkg/storage/redis_cluster.go): keys, construction, the operations of the queue interface,
  reclaiming and the metrics bookkeeping that every operation ends with. The JSON encoding
  of an envelope and the ticket ids are fields of the coordinator; the mutexes make each
  bookkeeping step atomic; logging and the gauges themselves are left out.
\<close>

section \<open>Storage client\<close>

definition ErrRedisIsDown :: op_error where "ErrRedisIsDown = OpErr ''storage: Redis is either down or not configured''"
definition ErrKeyNotFound :: op_error where "ErrKeyNotFound = OpErr ''key not found''"

text \<open>Key hashing is switched off wherever the program builds a client.\<close>

definition fixKey :: "string \<Rightarrow> string \<Rightarrow> string" where
  "fixKey keyPrefix keyName = keyPrefix @ keyName"

definition GetKey :: "'r Redis \<Rightarrow> string \<Rightarrow> instant \<Rightarrow> string \<Rightarrow> 'r \<Rightarrow> (op_error + string) \<times> 'r" where
  "GetKey R pfx now keyName r =
    (if \<not> rd_up R r then (Inl ErrRedisIsDown, r)
     else case rd_trip R r of
            (Some err, r1) \<Rightarrow> (Inl err, r1)
          | (None, r1) \<Rightarrow>
              (case c_GET R now (fixKey pfx keyName) r1 of
                 None \<Rightarrow> (Inl RedisNil, r1)
               | Some value \<Rightarrow> (Inr value, r1)))"

definition SetKey ::
  "'r Redis \<Rightarrow> string \<Rightarrow> instant \<Rightarrow> string \<Rightarrow> string \<Rightarrow> duration \<Rightarrow> 'r \<Rightarrow> op_error option \<times> 'r" where
  "SetKey R pfx now keyName session timeout r =
    (if \<not> rd_up R r then (Some ErrRedisIsDown, r)
     else case rd_trip R r of
            (Some err, r1) \<Rightarrow> (Some err, r1)
          | (None, r1) \<Rightarrow> (None, c_SET R now (fixKey pfx keyName) session timeout r1))"

fun delete_keys :: "'r Redis \<Rightarrow> string \<Rightarrow> string list \<Rightarrow> 'r \<Rightarrow> 'r" where
  "delete_keys R pfx [] r = r"
| "delete_keys R pfx (k # ks) r =
    delete_keys R pfx ks (if k = [] then r else c_DEL R (fixKey pfx k) r)"

definition BatchDelete :: "'r Redis \<Rightarrow> string \<Rightarrow> string list \<Rightarrow> 'r \<Rightarrow> op_error option \<times> 'r" where
  "BatchDelete R pfx ks r =
    (if ks = [] then (None, r)
     else if \<not> rd_up R r then (Some ErrRedisIsDown, r)
     else case rd_trip R r of
            (Some err, r1) \<Rightarrow> (Some err, r1)
          | (None, r1) \<Rightarrow> (None, delete_keys R pfx ks r1))"

text \<open>The script gets the fixed keys; a nil reply is the client's missing-key error.\<close>

definition Eval ::
  "'r Redis \<Rightarrow> string \<Rightarrow> string list \<Rightarrow> (string list \<Rightarrow> 'r \<Rightarrow> (goval \<times> 'r) option) \<Rightarrow> 'r \<Rightarrow> (op_error + goval) \<times> 'r" where
  "Eval R pfx ks script r =
    (if \<not> rd_up R r then (Inl ErrRedisIsDown, r)
     else case rd_trip R r of
            (Some err, r1) \<Rightarrow> (Inl (OpWrap (''redis eval failed for keys '' @ concat (map (fixKey pfx) ks)) err), r1)
          | (None, r1) \<Rightarrow>
              (case script (map (fixKey pfx) ks) r1 of
                 None \<Rightarrow> (Inl (OpErr ''script does not return''), r1)
               | Some (reply, r2) \<Rightarrow> (if reply = VNil then Inl RedisNil else Inr reply, r2)))"

definition QueueSnapshotCounts ::
  "'r Redis \<Rightarrow> string \<Rightarrow> string \<Rightarrow> string \<Rightarrow> string \<Rightarrow> 'r \<Rightarrow> (op_error + int list) \<times> 'r" where
  "QueueSnapshotCounts R pfx ready scheduled inflight r =
    (if \<not> rd_up R r then (Inl ErrRedisIsDown, r)
     else case rd_trip R r of
            (Some err, r1) \<Rightarrow> (Inl err, r1)
          | (None, r1) \<Rightarrow>
              (Inr [c_LLEN R (fixKey pfx ready) r1, c_ZCARD R (fixKey pfx scheduled) r1, c_SCARD R (fixKey pfx inflight) r1], r1))"

section \<open>Construction and keys\<close>

record 'r RedisQueueConfig =
  qc_Redis :: "('r Redis \<times> string) option"
  qc_KeyPrefix :: string
  qc_TicketTTL :: duration
  qc_PayloadTTL :: duration
  qc_Resource :: string
  qc_MaxInflightDuration :: duration
  qc_ReclaimBatchSize :: int

record 'r RedisCoordinator =
  rc_server :: "'r Redis"
  rc_storePrefix :: string
  rc_keyPrefix :: string
  rc_ticketTTL :: duration
  rc_payloadTTL :: duration
  rc_resource :: string
  rc_reclaimMinGap :: duration
  rc_maxInflightAge :: duration
  rc_reclaimBatch :: int
  rc_gauges :: bool
  rc_newID :: "instant \<Rightarrow> string"
  rc_marshal :: "OperationEnvelope \<Rightarrow> op_error + string"
  rc_unmarshal :: "string \<Rightarrow> op_error + OperationEnvelope"

text \<open>The data in the server, with the coordinator's own bookkeeping.\<close>

record 'r rqueue =
  rq_data :: 'r
  rq_metricsLast :: instant
  rq_metricsFail :: int
  rq_metricsHold :: instant
  rq_reclaimLast :: instant

definition rqueue_init :: "'r \<Rightarrow> 'r rqueue" where
  "rqueue_init r = \<lparr>rq_data = r, rq_metricsLast = zero_time, rq_metricsFail = 0,
     rq_metricsHold = zero_time, rq_reclaimLast = zero_time\<rparr>"

definition TrimColons :: "string \<Rightarrow> string" where
  "TrimColons s = rev (dropWhile (\<lambda>ch. ch = CHR '':'') (rev (dropWhile (\<lambda>ch. ch = CHR '':'') s)))"

definition RedisNewCoordinator ::
  "bool \<Rightarrow> (instant \<Rightarrow> string) \<Rightarrow> (OperationEnvelope \<Rightarrow> op_error + string) \<Rightarrow> (string \<Rightarrow> op_error + OperationEnvelope)
    \<Rightarrow> 'r RedisQueueConfig \<Rightarrow> op_error + 'r RedisCoordinator" where
  "RedisNewCoordinator gauges newID marshal unmarshal cfg =
    (case qc_Redis cfg of
       None \<Rightarrow> Inl (OpErr ''redis client is required'')
     | Some (server, storePrefix) \<Rightarrow>
         (let pfx = (if TrimColons (qc_KeyPrefix cfg) = [] then ''operation'' else TrimColons (qc_KeyPrefix cfg));
              resource = (if TrimSpace (qc_Resource cfg) = [] then pfx else TrimSpace (qc_Resource cfg));
              age0 = (if qc_MaxInflightDuration cfg \<le> 0 then 2 * Minute else qc_MaxInflightDuration cfg);
              age = (if age0 < 10 * Second then 10 * Second else age0);
              batch0 = (if qc_ReclaimBatchSize cfg < 1 then 32 else qc_ReclaimBatchSize cfg);
              batch = (if 32 < batch0 then 32 else batch0)
          in Inr \<lparr>rc_server = server, rc_storePrefix = storePrefix, rc_keyPrefix = pfx,
               rc_ticketTTL = (if qc_TicketTTL cfg \<le> 0 then 24 * Hour else qc_TicketTTL cfg),
               rc_payloadTTL = (if qc_PayloadTTL cfg \<le> 0 then 48 * Hour else qc_PayloadTTL cfg),
               rc_resource = resource, rc_reclaimMinGap = 2 * Second, rc_maxInflightAge = age,
               rc_reclaimBatch = batch, rc_gauges = gauges, rc_newID = newID,
               rc_marshal = marshal, rc_unmarshal = unmarshal\<rparr>))"

definition queueKey :: "'r RedisCoordinator \<Rightarrow> string \<Rightarrow> string" where
  "queueKey c suff =
    (let trimmed = (if TrimSpace suff = [] then ''default'' else TrimSpace suff);
         pfx = TrimSpace (rc_keyPrefix c);
         tag = (if pfx \<noteq> [] then pfx @ '':queue'' else ''queue'')
     in if pfx = [] then ''{'' @ tag @ ''}:'' @ trimmed
        else pfx @ '':{'' @ tag @ ''}:'' @ trimmed)"

definition compose :: "'r RedisCoordinator \<Rightarrow> string \<Rightarrow> string \<Rightarrow> string" where
  "compose c part1 part2 =
    (let joined = part1 @ '':'' @ part2
     in if rc_keyPrefix c = [] then joined
        else rc_keyPrefix c @ '':'' @ joined)"

definition ticketKey :: "'r RedisCoordinator \<Rightarrow> string \<Rightarrow> string" where "ticketKey c i = compose c ''ticket'' i"
definition payloadKey :: "'r RedisCoordinator \<Rightarrow> string \<Rightarrow> string" where "payloadKey c i = compose c ''payload'' i"
definition attemptKey :: "'r RedisCoordinator \<Rightarrow> string \<Rightarrow> string" where "attemptKey c i = compose c ''attempt'' i"
definition readyKey :: "'r RedisCoordinator \<Rightarrow> string" where "readyKey c = queueKey c ''ready''"
definition readyMembersKey :: "'r RedisCoordinator \<Rightarrow> string" where "readyMembersKey c = queueKey c ''ready:members''"
definition inflightKey :: "'r RedisCoordinator \<Rightarrow> string" where "inflightKey c = queueKey c ''inflight''"
definition inflightLeaseKey :: "'r RedisCoordinator \<Rightarrow> string" where "inflightLeaseKey c = queueKey c ''inflight:lease''"
definition scheduledKey :: "'r RedisCoordinator \<Rightarrow> string" where "scheduledKey c = queueKey c ''scheduled''"

definition Resource :: "'r RedisCoordinator \<Rightarrow> string" where
  "Resource c = (if TrimSpace (rc_resource c) = [] then ''operation'' else TrimSpace (rc_resource c))"

end
