(* ===== verification/RedisQueueOps.thy ===== *)
theory RedisQueueOps
  imports RedisQueue
begin

text \<open>
  The operations of the Redis queue coordinator. Each threads the server's data and the
  coordinator's bookkeeping; the readings of the clock within one operation share an
  instant. Names follow coordinator.go.
\<close>

definition on_data :: "('r \<Rightarrow> 'a \<times> 'r) \<Rightarrow> 'r rqueue \<Rightarrow> 'a \<times> 'r rqueue" where
  "on_data f st = (case f (rq_data st) of (x, r) \<Rightarrow> (x, st\<lparr>rq_data := r\<rparr>))"

section \<open>Reclaiming\<close>

definition reserveReclaimSlot :: "'r RedisCoordinator \<Rightarrow> instant \<Rightarrow> 'r rqueue \<Rightarrow> bool \<times> 'r rqueue" where
  "reserveReclaimSlot c now st =
    (let interval = rc_reclaimMinGap c
     in if interval \<le> 0 then (True, st\<lparr>rq_reclaimLast := now\<rparr>)
        else if \<not> IsZero (rq_reclaimLast st) \<and> time_Sub now (rq_reclaimLast st) < interval then (False, st)
        else (True, st\<lparr>rq_reclaimLast := now\<rparr>))"

definition releaseReclaimSlot :: "instant \<Rightarrow> 'r rqueue \<Rightarrow> 'r rqueue" where
  "releaseReclaimSlot start st =
    (if rq_reclaimLast st = start then st\<lparr>rq_reclaimLast := zero_time\<rparr> else st)"

definition shouldAttemptReclaim :: "'r RedisCoordinator \<Rightarrow> instant \<Rightarrow> 'r rqueue \<Rightarrow> bool" where
  "shouldAttemptReclaim c now st \<longleftrightarrow>
    rc_reclaimMinGap c \<le> 0 \<or> IsZero (rq_reclaimLast st) \<or> rc_reclaimMinGap c \<le> time_Sub now (rq_reclaimLast st)"

definition reclaim_script :: "int \<Rightarrow> int \<Rightarrow> int \<Rightarrow> 'r Redis \<Rightarrow> string list \<Rightarrow> 'r \<Rightarrow> (goval \<times> 'r) option" where
  "reclaim_script now age limit R ks r =
    Some (luaReclaimStaleInflight R (ks ! 0) (ks ! 1) (ks ! 2) (ks ! 3) now age limit r)"

definition reclaimStaleInflight :: "'r RedisCoordinator \<Rightarrow> instant \<Rightarrow> 'r rqueue \<Rightarrow> (op_error + int) \<times> 'r rqueue" where
  "reclaimStaleInflight c now st =
    (if rc_maxInflightAge c \<le> 0 \<or> rc_reclaimBatch c \<le> 0 then (Inr 0, st)
     else case reserveReclaimSlot c now st of
            (False, st1) \<Rightarrow> (Inr 0, st1)
          | (True, st1) \<Rightarrow>
              (let age0 = go_div (rc_maxInflightAge c) Millisecond;
                   age = (if age0 \<le> 0 then 1 else age0)
               in case on_data (Eval (rc_server c) (rc_storePrefix c)
                         [inflightLeaseKey c, inflightKey c, readyKey c, readyMembersKey c]
                         (reclaim_script (UnixMilli now) age (rc_reclaimBatch c) (rc_server c))) st1 of
                    (Inl err, st2) \<Rightarrow>
                      if err_is err RedisNil then (Inr 0, st2)
                      else (Inl err, releaseReclaimSlot now st2)
                  | (Inr result, st2) \<Rightarrow>
                      (case toInt64 result of
                         Inr reclaimed \<Rightarrow> (Inr reclaimed, st2)
                       | Inl convErr \<Rightarrow>
                           if err_is convErr RedisNil then (Inr 0, st2)
                           else (Inl convErr, releaseReclaimSlot now st2))))"

section \<open>Metrics\<close>

fun metrics_backoff :: "nat \<Rightarrow> duration \<Rightarrow> duration" where
  "metrics_backoff 0 backoff = backoff"
| "metrics_backoff (Suc n) backoff =
    (if 30 * Second \<le> backoff * 2 then 30 * Second else metrics_backoff n (backoff * 2))"

definition noteMetricsFailure :: "instant \<Rightarrow> 'r rqueue \<Rightarrow> 'r rqueue" where
  "noteMetricsFailure errorTime st =
    (let fails = (if rq_metricsFail st < 16 then rq_metricsFail st + 1 else rq_metricsFail st);
         backoff = metrics_backoff (nat (fails - 1)) (2 * Second);
         backoff = (if 30 * Second < backoff then 30 * Second else backoff)
     in st\<lparr>rq_metricsFail := fails, rq_metricsHold := time_Add errorTime backoff\<rparr>)"

definition record_counts :: "'r RedisCoordinator \<Rightarrow> instant \<Rightarrow> 'r rqueue \<Rightarrow> 'r rqueue" where
  "record_counts c now st =
    (case on_data (QueueSnapshotCounts (rc_server c) (rc_storePrefix c) (readyKey c) (scheduledKey c) (inflightKey c)) st of
       (Inl err, st1) \<Rightarrow> noteMetricsFailure now st1
     | (Inr counts, st1) \<Rightarrow>
         if length counts < 3 then noteMetricsFailure now st1
         else st1\<lparr>rq_metricsFail := 0, rq_metricsHold := zero_time\<rparr>)"

definition recordQueueMetrics :: "'r RedisCoordinator \<Rightarrow> instant \<Rightarrow> 'r rqueue \<Rightarrow> 'r rqueue" where
  "recordQueueMetrics c now st =
    (if \<not> rc_gauges c then st
     else if \<not> IsZero (rq_metricsHold st) \<and> time_Before now (rq_metricsHold st) then st
     else if \<not> IsZero (rq_metricsLast st) \<and> time_Sub now (rq_metricsLast st) < 250 * Millisecond then st
     else (let st1 = st\<lparr>rq_metricsLast := now\<rparr>
           in if shouldAttemptReclaim c now st1
              then (case reclaimStaleInflight c now st1 of
                      (Inl err, st2) \<Rightarrow> noteMetricsFailure now st2
                    | (Inr _, st2) \<Rightarrow> record_counts c now st2)
              else record_counts c now st1))"

section \<open>Calls of the scripts\<close>

definition releaseDue :: "'r RedisCoordinator \<Rightarrow> instant \<Rightarrow> 'r rqueue \<Rightarrow> op_error option \<times> 'r rqueue" where
  "releaseDue c now st =
    (case on_data (Eval (rc_server c) (rc_storePrefix c) [scheduledKey c, readyKey c, readyMembersKey c]
            (\<lambda>ks. luaReleaseDue (rc_server c) (ks ! 0) (ks ! 1) (ks ! 2) (UnixMilli now))) st of
       (Inl err, st1) \<Rightarrow> if err_is err RedisNil then (None, recordQueueMetrics c now st1) else (Some err, st1)
     | (Inr _, st1) \<Rightarrow> (None, recordQueueMetrics c now st1))"

definition pushReady :: "'r RedisCoordinator \<Rightarrow> string \<Rightarrow> 'r rqueue \<Rightarrow> (op_error + int) \<times> 'r rqueue" where
  "pushReady c operationID st =
    (case on_data (Eval (rc_server c) (rc_storePrefix c) [readyKey c, readyMembersKey c]
            (\<lambda>ks r. Some (luaPushReady (rc_server c) (ks ! 0) (ks ! 1) operationID r))) st of
       (Inl err, st1) \<Rightarrow> (Inl err, st1)
     | (Inr result, st1) \<Rightarrow> (toInt64 result, st1))"

definition popReady :: "'r RedisCoordinator \<Rightarrow> instant \<Rightarrow> 'r rqueue \<Rightarrow> (op_error + string) \<times> 'r rqueue" where
  "popReady c now st =
    (case on_data (Eval (rc_server c) (rc_storePrefix c) [readyKey c, inflightKey c, inflightLeaseKey c, readyMembersKey c]
            (\<lambda>ks. luaPopReady (rc_server c) (ks ! 0) (ks ! 1) (ks ! 2) (ks ! 3) (UnixMilli now))) st of
       (Inl err, st1) \<Rightarrow> (if err_is err RedisNil then Inr [] else Inl err, st1)
     | (Inr result, st1) \<Rightarrow>
         (case toString result of
            Inl convErr \<Rightarrow> (if err_is convErr RedisNil then Inr [] else Inl convErr, st1)
          | Inr v \<Rightarrow> (Inr v, st1)))"

definition listPosition :: "'r RedisCoordinator \<Rightarrow> string \<Rightarrow> 'r rqueue \<Rightarrow> (op_error + int) \<times> 'r rqueue" where
  "listPosition c operationID st =
    (case on_data (Eval (rc_server c) (rc_storePrefix c) [readyKey c]
            (\<lambda>ks r. Some (luaListPosition (rc_server c) (ks ! 0) operationID r))) st of
       (Inl err, st1) \<Rightarrow> (Inl err, st1)
     | (Inr result, st1) \<Rightarrow> (toInt64 result, st1))"

definition isInflight :: "'r RedisCoordinator \<Rightarrow> string \<Rightarrow> 'r rqueue \<Rightarrow> (op_error + bool) \<times> 'r rqueue" where
  "isInflight c operationID st =
    (case on_data (Eval (rc_server c) (rc_storePrefix c) [inflightKey c]
            (\<lambda>ks r. Some (luaIsInflight (rc_server c) (ks ! 0) operationID r))) st of
       (Inl err, st1) \<Rightarrow> (if err_is err RedisNil then Inr False else Inl err, st1)
     | (Inr result, st1) \<Rightarrow> (toBool result, st1))"

definition scheduledScore ::
  "'r RedisCoordinator \<Rightarrow> string \<Rightarrow> 'r rqueue \<Rightarrow> (op_error + int option) \<times> 'r rqueue" where
  "scheduledScore c operationID st =
    (case on_data (Eval (rc_server c) (rc_storePrefix c) [scheduledKey c]
            (\<lambda>ks r. Some (luaScheduledScore (rc_server c) (ks ! 0) operationID r))) st of
       (Inl err, st1) \<Rightarrow> (if err_is err RedisNil then Inr None else Inl err, st1)
     | (Inr result, st1) \<Rightarrow>
         (case toFloat64 result of
            Inl convErr \<Rightarrow> (if err_is convErr RedisNil then Inr None else Inl convErr, st1)
          | Inr score \<Rightarrow> (Inr (Some score), st1)))"

section \<open>Payload and attempts\<close>

definition persistEnvelope :: "'r RedisCoordinator \<Rightarrow> instant \<Rightarrow> OperationEnvelope \<Rightarrow> 'r rqueue \<Rightarrow> op_error option \<times> 'r rqueue" where
  "persistEnvelope c now env st =
    (case rc_marshal c env of
       Inl err \<Rightarrow> (Some err, st)
     | Inr payload \<Rightarrow>
         on_data (SetKey (rc_server c) (rc_storePrefix c) now (payloadKey c (oe_ID env)) payload (rc_payloadTTL c)) st)"

definition setAttempts :: "'r RedisCoordinator \<Rightarrow> instant \<Rightarrow> string \<Rightarrow> int \<Rightarrow> 'r rqueue \<Rightarrow> op_error option \<times> 'r rqueue" where
  "setAttempts c now operationID attempts =
    on_data (SetKey (rc_server c) (rc_storePrefix c) now (attemptKey c operationID) (FormatInt attempts) (rc_payloadTTL c))"

definition getAttempts :: "'r RedisCoordinator \<Rightarrow> instant \<Rightarrow> string \<Rightarrow> 'r rqueue \<Rightarrow> (op_error + int) \<times> 'r rqueue" where
  "getAttempts c now operationID st =
    (case on_data (GetKey (rc_server c) (rc_storePrefix c) now (attemptKey c operationID)) st of
       (Inl err, st1) \<Rightarrow>
         (if err_is err RedisNil \<or> err_is err ErrKeyNotFound then Inr 0 else Inl err, st1)
     | (Inr v, st1) \<Rightarrow>
         (case ParseInt v of
            Some n \<Rightarrow> Inr n
          | None \<Rightarrow> Inl (OpErr (''strconv.Atoi: parsing '' @ v)), st1))"

section \<open>The queue interface\<close>

definition redis_Enqueue ::
  "'r RedisCoordinator \<Rightarrow> instant \<Rightarrow> OperationEnvelope option \<Rightarrow> 'r rqueue \<Rightarrow> (op_error + QueueTicket) \<times> 'r rqueue" where
  "redis_Enqueue c now env0 st =
    (case env0 of
       None \<Rightarrow> (Inl (OpErr ''operation envelope is required''), st)
     | Some env \<Rightarrow>
         if oe_ID env = [] then (Inl (OpErr ''operation id is required''), st)
         else case persistEnvelope c now env st of
                (Some err, st1) \<Rightarrow> (Inl err, st1)
              | (None, st1) \<Rightarrow>
                  (case setAttempts c now (oe_ID env) 0 st1 of
                     (Some err, st2) \<Rightarrow> (Inl err, st2)
                   | (None, st2) \<Rightarrow>
                       (case pushReady c (oe_ID env) st2 of
                          (Inl err, st3) \<Rightarrow> (Inl err, st3)
                        | (Inr len, st3) \<Rightarrow>
                            (let ticketID = rc_newID c now
                             in case on_data (SetKey (rc_server c) (rc_storePrefix c) now (ticketKey c ticketID) (oe_ID env) (rc_ticketTTL c)) st3 of
                                  (Some err, st4) \<Rightarrow> (Inl err, st4)
                                | (None, st4) \<Rightarrow>
                                    (Inr \<lparr>qt_TicketID = ticketID, qt_OperationID = oe_ID env,
                                          qt_QueuePosition = max (len - 1) 0, qt_EstimatedWait = 0,
                                          qt_IssuedAt = now, qt_Degraded = False, qt_BackpressureTag = []\<rparr>,
                                     recordQueueMetrics c now st4)))))"

definition ticket_operation ::
  "'r RedisCoordinator \<Rightarrow> instant \<Rightarrow> string \<Rightarrow> 'r rqueue \<Rightarrow> (op_error + string) \<times> 'r rqueue" where
  "ticket_operation c now ticketID st =
    (case on_data (GetKey (rc_server c) (rc_storePrefix c) now (ticketKey c ticketID)) st of
       (Inl err, st1) \<Rightarrow>
         (Inl (if err_is err RedisNil then OpErr (''ticket '' @ ticketID @ '' not found'') else err), st1)
     | (Inr operationID, st1) \<Rightarrow> (Inr operationID, st1))"

definition poll_status :: "instant \<Rightarrow> string \<Rightarrow> int \<Rightarrow> bool \<Rightarrow> int option \<Rightarrow> QueueStatus" where
  "poll_status now operationID position inflight score =
    \<lparr>qs_OperationID = operationID,
     qs_State = (if inflight then StateExecuting
                 else if position < 0 \<and> score = None then StateCompleted else StateQueued),
     qs_Position = position,
     qs_Remaining = (case score of
        Some s \<Rightarrow> if \<not> inflight \<and> position < 0 \<and> UnixMilli now < s then (s - UnixMilli now) * Millisecond else 0
      | None \<Rightarrow> 0),
     qs_Message = []\<rparr>"

definition redis_Poll :: "'r RedisCoordinator \<Rightarrow> instant \<Rightarrow> string \<Rightarrow> 'r rqueue \<Rightarrow> (op_error + QueueStatus) \<times> 'r rqueue" where
  "redis_Poll c now ticketID st =
    (if ticketID = [] then (Inl (OpErr ''ticket id is required''), st)
     else case ticket_operation c now ticketID st of
            (Inl err, st1) \<Rightarrow> (Inl err, st1)
          | (Inr operationID, st1) \<Rightarrow>
              (case listPosition c operationID st1 of
                 (Inl err, st2) \<Rightarrow> (Inl err, st2)
               | (Inr position, st2) \<Rightarrow>
                   (case isInflight c operationID st2 of
                      (Inl err, st3) \<Rightarrow> (Inl err, st3)
                    | (Inr inflight, st3) \<Rightarrow>
                        if \<not> inflight \<and> position < 0
                        then (case scheduledScore c operationID st3 of
                                (Inl err, st4) \<Rightarrow> (Inl err, st4)
                              | (Inr score, st4) \<Rightarrow> (Inr (poll_status now operationID position inflight score), st4))
                        else (Inr (poll_status now operationID position inflight None), st3))))"

definition ack_script :: "string \<Rightarrow> 'r Redis \<Rightarrow> string list \<Rightarrow> 'r \<Rightarrow> (goval \<times> 'r) option" where
  "ack_script operationID R ks r = Some (luaAckOperation R (ks ! 0) (ks ! 2) (ks ! 3) (ks ! 4) operationID r)"

definition ack_keys :: "'r RedisCoordinator \<Rightarrow> string list" where
  "ack_keys c = [inflightKey c, readyKey c, scheduledKey c, inflightLeaseKey c, readyMembersKey c]"

definition redis_Cancel :: "'r RedisCoordinator \<Rightarrow> instant \<Rightarrow> string \<Rightarrow> 'r rqueue \<Rightarrow> op_error option \<times> 'r rqueue" where
  "redis_Cancel c now ticketID st =
    (if ticketID = [] then (Some (OpErr ''ticket id is required''), st)
     else case ticket_operation c now ticketID st of
            (Inl err, st1) \<Rightarrow> (Some err, st1)
          | (Inr operationID, st1) \<Rightarrow>
              (let finish = (\<lambda>st2. (None, recordQueueMetrics c now (snd (on_data (BatchDelete (rc_server c) (rc_storePrefix c)
                     [ticketKey c ticketID, payloadKey c operationID, attemptKey c operationID]) st2))))
               in case on_data (Eval (rc_server c) (rc_storePrefix c) (ack_keys c) (ack_script operationID (rc_server c))) st1 of
                    (Inl err, st2) \<Rightarrow> if err_is err RedisNil then finish st2 else (Some err, st2)
                  | (Inr _, st2) \<Rightarrow> finish st2))"

definition redis_Dequeue :: "'r RedisCoordinator \<Rightarrow> instant \<Rightarrow> 'r rqueue \<Rightarrow> (op_error + QueueItem) \<times> 'r rqueue" where
  "redis_Dequeue c now st =
    (case reclaimStaleInflight c now st of
       (Inl err, st1) \<Rightarrow> (Inl err, st1)
     | (Inr _, st1) \<Rightarrow>
         (case releaseDue c now st1 of
            (Some err, st2) \<Rightarrow> (Inl err, st2)
          | (None, st2) \<Rightarrow>
              (case popReady c now st2 of
                 (Inl err, st3) \<Rightarrow> (Inl err, st3)
               | (Inr operationID, st3) \<Rightarrow>
                   if operationID = [] then (Inl ErrQueueEmpty, recordQueueMetrics c now st3)
                   else (case on_data (GetKey (rc_server c) (rc_storePrefix c) now (payloadKey c operationID)) st3 of
                           (Inl err, st4) \<Rightarrow> (Inl err, st4)
                         | (Inr payload, st4) \<Rightarrow>
                             (case rc_unmarshal c payload of
                                Inl err \<Rightarrow> (Inl err, st4)
                              | Inr env \<Rightarrow>
                                  (case getAttempts c now operationID st4 of
                                     (Inl err, st5) \<Rightarrow> (Inl err, st5)
                                   | (Inr attempts, st5) \<Rightarrow>
                                       (Inr \<lparr>qi_Envelope = env, qi_Attempts = attempts, qi_AvailableAt = now\<rparr>,
                                        recordQueueMetrics c now st5)))))))"

definition redis_Ack :: "'r RedisCoordinator \<Rightarrow> instant \<Rightarrow> string \<Rightarrow> 'r rqueue \<Rightarrow> op_error option \<times> 'r rqueue" where
  "redis_Ack c now operationID st =
    (if operationID = [] then (Some (OpErr ''operation id is required''), st)
     else case on_data (Eval (rc_server c) (rc_storePrefix c) (ack_keys c) (ack_script operationID (rc_server c))) st of
            (Inl err, st1) \<Rightarrow> if err_is err RedisNil then (None, recordQueueMetrics c now st1) else (Some err, st1)
          | (Inr _, st1) \<Rightarrow> (None, recordQueueMetrics c now st1))"

definition requeue_target :: "instant \<Rightarrow> QueueItem \<Rightarrow> duration \<Rightarrow> instant" where
  "requeue_target now item delay =
    (if 0 < delay then time_Add now delay
     else if IsZero (qi_AvailableAt item) \<or> time_Before (qi_AvailableAt item) now then now
     else qi_AvailableAt item)"

definition redis_Requeue ::
  "'r RedisCoordinator \<Rightarrow> instant \<Rightarrow> QueueItem option \<Rightarrow> duration \<Rightarrow> 'r rqueue \<Rightarrow> op_error option \<times> 'r rqueue" where
  "redis_Requeue c now item0 delay st =
    (case item0 of
       None \<Rightarrow> (Some (OpErr ''queue item is nil''), st)
     | Some item \<Rightarrow>
         (let operationID = oe_ID (qi_Envelope item)
          in if operationID = [] then (Some (OpErr ''operation id is required''), st)
             else case persistEnvelope c now (qi_Envelope item) st of
                    (Some err, st1) \<Rightarrow> (Some err, st1)
                  | (None, st1) \<Rightarrow>
                      (case setAttempts c now operationID (qi_Attempts item) st1 of
                         (Some err, st2) \<Rightarrow> (Some err, st2)
                       | (None, st2) \<Rightarrow>
                           (let target = requeue_target now item delay; R = rc_server c;
                                ks = [readyKey c, inflightKey c, inflightLeaseKey c, readyMembersKey c, scheduledKey c];
                                script = (if time_After target now
                                  then (\<lambda>ks r. Some (luaRequeueScheduled R (ks ! 1) (ks ! 2) (ks ! 3) (ks ! 4) operationID (UnixMilli target) r))
                                  else (\<lambda>ks r. Some (luaRequeueReady R (ks ! 0) (ks ! 1) (ks ! 2) (ks ! 3) (ks ! 4) operationID r)))
                            in case on_data (Eval R (rc_storePrefix c) ks script) st2 of
                                 (Inl err, st3) \<Rightarrow> if err_is err RedisNil then (None, recordQueueMetrics c now st3) else (Some err, st3)
                               | (Inr _, st3) \<Rightarrow> (None, recordQueueMetrics c now st3)))))"

definition redis_queue :: "'r RedisCoordinator \<Rightarrow> 'r rqueue QueueCoordinator" where
  "redis_queue c = \<lparr>q_Enqueue = redis_Enqueue c, q_Poll = redis_Poll c, q_Cancel = redis_Cancel c,
     q_Dequeue = redis_Dequeue c, q_Ack = redis_Ack c, q_Requeue = redis_Requeue c\<rparr>"

end
