(* ===== verification/RedisQueueSpec.thy ===== *)
theory RedisQueueSpec
  imports RedisQueueOps
begin

text \<open>
  The abstract machine of the Redis queue: the ready list with the set of ids that are really
  ready, the ids in flight with the time of their lease, the scheduled ids, and the strings
  (payloads, attempts, tickets) with their expiry. A move is what one script or command does
  to it; an operation of the coordinator is a short path of moves. The
  invariant and the safety facts are proved on moves and paths.
\<close>

record qview =
  qv_ready :: "string list"
  qv_members :: "string set"
  qv_inflight :: "string set"
  qv_lease :: "string \<Rightarrow> int option"
  qv_sched :: "string \<Rightarrow> int option"
  qv_str :: "string \<Rightarrow> (string \<times> instant) option"

definition q_push :: "string \<Rightarrow> qview \<Rightarrow> qview" where
  "q_push i q = (if i \<in> qv_members q then q
     else q\<lparr>qv_ready := qv_ready q @ [i], qv_members := insert i (qv_members q)\<rparr>)"

definition q_requeue_ready :: "string \<Rightarrow> qview \<Rightarrow> qview" where
  "q_requeue_ready i q = q\<lparr>qv_ready := qv_ready q @ [i], qv_members := insert i (qv_members q),
     qv_inflight := qv_inflight q - {i}, qv_lease := (qv_lease q)(i := None), qv_sched := (qv_sched q)(i := None)\<rparr>"

definition q_requeue_sched :: "string \<Rightarrow> int \<Rightarrow> qview \<Rightarrow> qview" where
  "q_requeue_sched i s q = q\<lparr>qv_members := qv_members q - {i}, qv_inflight := qv_inflight q - {i},
     qv_lease := (qv_lease q)(i := None), qv_sched := (qv_sched q)(i \<mapsto> s)\<rparr>"

definition q_ack :: "string \<Rightarrow> qview \<Rightarrow> qview" where
  "q_ack i q = q\<lparr>qv_members := qv_members q - {i}, qv_inflight := qv_inflight q - {i},
     qv_lease := (qv_lease q)(i := None), qv_sched := (qv_sched q)(i := None)\<rparr>"

definition q_pop :: "int \<Rightarrow> qview \<Rightarrow> string option \<times> qview" where
  "q_pop now q = (case dropWhile (\<lambda>x. x \<notin> qv_members q) (qv_ready q) of
      [] \<Rightarrow> (None, q\<lparr>qv_ready := []\<rparr>)
    | i # rest \<Rightarrow> (Some i, q\<lparr>qv_ready := rest, qv_members := qv_members q - {i},
         qv_inflight := insert i (qv_inflight q), qv_lease := (qv_lease q)(i \<mapsto> now)\<rparr>))"

datatype qact =
    APush string | ARequeueReady string | ARequeueSched string int | AAck string
  | APop "string option" | ARelease | AReclaim "string list" | ASet string string instant | ADel string

inductive qmove :: "int \<Rightarrow> int \<Rightarrow> int \<Rightarrow> qact \<Rightarrow> qview \<Rightarrow> qview \<Rightarrow> bool" for now age batch :: int where
  push: "qmove now age batch (APush i) q (q_push i q)"
| requeue_ready: "qmove now age batch (ARequeueReady i) q (q_requeue_ready i q)"
| requeue_sched: "qmove now age batch (ARequeueSched i s) q (q_requeue_sched i s q)"
| ack: "qmove now age batch (AAck i) q (q_ack i q)"
| pop: "q_pop now q = (r, q') \<Longrightarrow> qmove now age batch (APop r) q q'"
| set_str: "qmove now age batch (ASet k x e) q (q\<lparr>qv_str := (qv_str q)(k \<mapsto> (x, e))\<rparr>)"
| del_str: "qmove now age batch (ADel k) q (q\<lparr>qv_str := (qv_str q)(k := None)\<rparr>)"
| release: "distinct ids \<Longrightarrow> set ids = due_ids (qv_sched q) now - qv_members q \<Longrightarrow>
    sorted (map (\<lambda>i. the (qv_sched q i)) ids) \<Longrightarrow>
    qmove now age batch ARelease q
      (q\<lparr>qv_ready := qv_ready q @ ids, qv_members := qv_members q \<union> due_ids (qv_sched q) now,
         qv_sched := qv_sched q |` (- due_ids (qv_sched q) now)\<rparr>)"
| reclaim: "distinct cands \<Longrightarrow> \<forall>i\<in>set cands. qv_lease q i = None \<or> i \<in> due_ids (qv_lease q) (now - age) \<Longrightarrow>
    (int (card (due_ids (qv_lease q) (now - age))) \<le> batch \<longrightarrow> due_ids (qv_lease q) (now - age) \<subseteq> set cands) \<Longrightarrow>
    ids = filter (\<lambda>i. i \<in> qv_inflight q) cands \<Longrightarrow>
    qmove now age batch (AReclaim ids) q
      (q\<lparr>qv_ready := qv_ready q @ filter (\<lambda>i. i \<notin> qv_members q) ids, qv_members := qv_members q \<union> set ids,
         qv_inflight := qv_inflight q - set ids, qv_lease := qv_lease q |` (- set cands)\<rparr>)"

inductive_cases push_case: "qmove now age batch (APush i) q q'"
inductive_cases requeue_ready_case: "qmove now age batch (ARequeueReady i) q q'"
inductive_cases requeue_sched_case: "qmove now age batch (ARequeueSched i s) q q'"
inductive_cases ack_case: "qmove now age batch (AAck i) q q'"
inductive_cases pop_case: "qmove now age batch (APop r) q q'"
inductive_cases release_case: "qmove now age batch ARelease q q'"
inductive_cases reclaim_case: "qmove now age batch (AReclaim ids) q q'"

fun qpath :: "int \<Rightarrow> int \<Rightarrow> int \<Rightarrow> qact list \<Rightarrow> qview \<Rightarrow> qview \<Rightarrow> bool" where
  "qpath now age batch [] q q' \<longleftrightarrow> q' = q"
| "qpath now age batch (a # acts) q q' \<longleftrightarrow> (\<exists>q1. qmove now age batch a q q1 \<and> qpath now age batch acts q1 q')"

lemma qpath_append:
  "qpath now age batch (xs @ ys) q q' \<longleftrightarrow> (\<exists>q1. qpath now age batch xs q q1 \<and> qpath now age batch ys q1 q')"
  by (induction xs arbitrary: q) auto

section \<open>The invariant\<close>

text \<open>Whatever is ready has an entry in the ready list, and what is in flight has a lease.\<close>

definition queue_inv :: "qview \<Rightarrow> bool" where
  "queue_inv q \<longleftrightarrow> qv_members q \<subseteq> set (qv_ready q) \<and> dom (qv_lease q) = qv_inflight q"

lemma dropWhile_hit: "dropWhile P xs = i # rest \<Longrightarrow> \<not> P i \<and> (\<exists>pre. xs = pre @ i # rest \<and> (\<forall>x\<in>set pre. P x))"
  by (metis hd_dropWhile list.distinct(1) list.sel(1) set_takeWhileD takeWhile_dropWhile_id)

lemma pop_split:
  assumes "q_pop now q = (r, q')"
  shows "(r = None \<and> q' = q\<lparr>qv_ready := []\<rparr> \<and> set (qv_ready q) \<inter> qv_members q = {})
    \<or> (\<exists>i pre rest. r = Some i \<and> qv_ready q = pre @ i # rest \<and> set pre \<inter> qv_members q = {} \<and> i \<in> qv_members q
        \<and> q' = q\<lparr>qv_ready := rest, qv_members := qv_members q - {i},
           qv_inflight := insert i (qv_inflight q), qv_lease := (qv_lease q)(i \<mapsto> now)\<rparr>)"
proof (cases "dropWhile (\<lambda>x. x \<notin> qv_members q) (qv_ready q)")
  case Nil
  then have "set (qv_ready q) \<inter> qv_members q = {}" by (auto simp: dropWhile_eq_Nil_conv)
  moreover from assms have "r = None" "q' = q\<lparr>qv_ready := []\<rparr>" unfolding q_pop_def Nil by simp_all
  ultimately show ?thesis by blast
next
  case (Cons i rest)
  from dropWhile_hit [OF this] obtain pre where "i \<in> qv_members q" "qv_ready q = pre @ i # rest"
    "\<forall>x\<in>set pre. x \<notin> qv_members q" by auto
  moreover from this have "set pre \<inter> qv_members q = {}" by auto
  ultimately show ?thesis using Cons assms by (auto simp: q_pop_def)
qed

lemma inv_move: "qmove now age batch a q q' \<Longrightarrow> queue_inv q \<Longrightarrow> queue_inv q'"
proof (induction rule: qmove.induct)
  case (pop q r q')
  then have sub: "qv_members q \<subseteq> set (qv_ready q)" and d: "dom (qv_lease q) = qv_inflight q"
    by (simp_all add: queue_inv_def)
  from pop_split [OF pop(1)] show ?case
  proof (elim disjE exE conjE)
    assume "set (qv_ready q) \<inter> qv_members q = {}" "q' = q\<lparr>qv_ready := []\<rparr>"
    with sub d show ?thesis unfolding queue_inv_def by (simp add: Int_absorb1)
  next
    fix i pre rest
    assume r: "qv_ready q = pre @ i # rest" "set pre \<inter> qv_members q = {}"
      "q' = q\<lparr>qv_ready := rest, qv_members := qv_members q - {i},
         qv_inflight := insert i (qv_inflight q), qv_lease := (qv_lease q)(i \<mapsto> now)\<rparr>"
    with sub have "qv_members q - {i} \<subseteq> set rest" by auto
    with r(3) d show ?thesis unfolding queue_inv_def by simp
  qed
next
  case (release ids q)
  then show ?case by (auto simp: queue_inv_def)
next
  case (reclaim cands q ids)
  then show ?case by (auto simp: queue_inv_def restrict_map_def dom_def split: if_splits)
qed (auto simp: queue_inv_def q_push_def q_requeue_ready_def q_requeue_sched_def q_ack_def)

lemma inv_path: "qpath now age batch acts q q' \<Longrightarrow> queue_inv q \<Longrightarrow> queue_inv q'"
  by (induction acts arbitrary: q) (auto dest: inv_move)

section \<open>Absent operations\<close>

definition absent :: "string \<Rightarrow> qview \<Rightarrow> bool" where
  "absent i q \<longleftrightarrow> i \<notin> qv_members q \<and> i \<notin> qv_inflight q \<and> qv_sched q i = None"

definition adds :: "string \<Rightarrow> qact \<Rightarrow> bool" where
  "adds i a \<longleftrightarrow> (case a of APush j \<Rightarrow> j = i | ARequeueReady j \<Rightarrow> j = i | ARequeueSched j s \<Rightarrow> j = i | _ \<Rightarrow> False)"

lemma absent_move:
  "qmove now age batch a q q' \<Longrightarrow> absent i q \<Longrightarrow> \<not> adds i a \<Longrightarrow> absent i q' \<and> a \<noteq> APop (Some i)"
proof (induction rule: qmove.induct)
  case (pop q r q')
  then show ?case using pop_split [OF pop(1)] by (auto simp: absent_def)
next
  case (release ids q)
  then show ?case by (auto simp: absent_def due_ids_def)
qed (auto simp: absent_def adds_def q_push_def q_requeue_ready_def q_requeue_sched_def q_ack_def)

lemma absent_path:
  "qpath now age batch acts q q' \<Longrightarrow> absent i q \<Longrightarrow> \<forall>a\<in>set acts. \<not> adds i a \<Longrightarrow> absent i q' \<and> APop (Some i) \<notin> set acts"
  by (induction acts arbitrary: q) (auto dest: absent_move)

lemma ack_absent: "absent i (q_ack i q)"
  by (simp add: absent_def q_ack_def)

section \<open>Operations in flight\<close>

definition held_since :: "string \<Rightarrow> int \<Rightarrow> qview \<Rightarrow> bool" where
  "held_since i t q \<longleftrightarrow> i \<in> qv_inflight q \<and> qv_lease q i = Some t \<and> i \<notin> qv_members q \<and> qv_sched q i = None"

definition ends :: "string \<Rightarrow> qact \<Rightarrow> bool" where
  "ends i a \<longleftrightarrow> adds i a \<or> a = AAck i"

lemma held_move:
  "qmove now age batch a q q' \<Longrightarrow> held_since i t q \<Longrightarrow> \<not> ends i a \<Longrightarrow> now < t + age \<Longrightarrow>
    held_since i t q' \<and> a \<noteq> APop (Some i)"
proof (induction rule: qmove.induct)
  case (pop q r q')
  then show ?case using pop_split [OF pop(1)] by (auto simp: held_since_def)
next
  case (release ids q)
  then show ?case by (auto simp: held_since_def due_ids_def)
next
  case (reclaim cands q ids)
  then have "i \<notin> set cands" by (auto simp: held_since_def due_ids_def)
  with reclaim show ?case by (auto simp: held_since_def)
qed (auto simp: held_since_def ends_def adds_def q_push_def q_requeue_ready_def q_requeue_sched_def q_ack_def)

lemma held_path:
  "qpath now age batch acts q q' \<Longrightarrow> held_since i t q \<Longrightarrow> \<forall>a\<in>set acts. \<not> ends i a \<Longrightarrow> now < t + age \<Longrightarrow>
    held_since i t q' \<and> APop (Some i) \<notin> set acts"
  by (induction acts arbitrary: q) (auto dest: held_move)

section \<open>Ready operations\<close>

text \<open>An operation that is ready stays ready until it is handed out, requeued or removed.\<close>

lemma ready_move:
  "qmove now age batch a q q' \<Longrightarrow> i \<in> qv_members q \<Longrightarrow> \<not> ends i a \<Longrightarrow> a \<noteq> APop (Some i) \<Longrightarrow> i \<in> qv_members q'"
proof (induction rule: qmove.induct)
  case (pop q r q')
  then show ?case using pop_split [OF pop(1)] by auto
qed (auto simp: ends_def adds_def q_push_def q_requeue_ready_def q_requeue_sched_def q_ack_def)

lemma ready_path:
  "qpath now age batch acts q q' \<Longrightarrow> i \<in> qv_members q \<Longrightarrow> \<forall>a\<in>set acts. \<not> ends i a \<and> a \<noteq> APop (Some i) \<Longrightarrow> i \<in> qv_members q'"
  by (induction acts arbitrary: q) (auto dest: ready_move)

lemma reclaim_ready:
  assumes "qmove now age batch (AReclaim ids) q q'" and "i \<in> qv_inflight q" and "qv_lease q i = Some t" and "t + age \<le> now"
    and "int (card (due_ids (qv_lease q) (now - age))) \<le> batch"
  shows "i \<in> qv_members q' \<and> i \<notin> qv_inflight q' \<and> i \<in> set ids"
  using assms(1)
proof (cases rule: qmove.cases)
  case (reclaim cands)
  have "i \<in> due_ids (qv_lease q) (now - age)" using assms(3,4) by (simp add: due_ids_def)
  with reclaim(4) assms(5) have "i \<in> set cands" by auto
  with reclaim assms(2) show ?thesis by auto
qed

text \<open>
  The scripts refine the moves of the abstract machine on any server that keeps the
  documented laws, and the loops of the scripts end.
\<close>

section \<open>Keys\<close>

definition K :: "'r RedisCoordinator \<Rightarrow> string \<Rightarrow> string" where
  "K c k = fixKey (rc_storePrefix c) k"

lemma suffix_trims:
  "TrimSpace ''ready'' = ''ready''" "TrimSpace ''ready:members'' = ''ready:members''"
  "TrimSpace ''inflight'' = ''inflight''" "TrimSpace ''inflight:lease'' = ''inflight:lease''"
  "TrimSpace ''scheduled'' = ''scheduled''"
  by code_simp+

lemma K_inj [simp]: "K c a = K c b \<longleftrightarrow> a = b"
  by (simp add: K_def fixKey_def)

lemma queue_keys_differ:
  "readyMembersKey c \<noteq> inflightKey c" "inflightKey c \<noteq> readyMembersKey c"
  "inflightLeaseKey c \<noteq> scheduledKey c" "scheduledKey c \<noteq> inflightLeaseKey c"
  by (simp_all add: readyMembersKey_def inflightKey_def inflightLeaseKey_def scheduledKey_def queueKey_def Let_def
      suffix_trims)

lemma record_keys_differ:
  "payloadKey c i = payloadKey c j \<longleftrightarrow> i = j" "attemptKey c i = attemptKey c j \<longleftrightarrow> i = j"
  "ticketKey c i = ticketKey c j \<longleftrightarrow> i = j" "payloadKey c i \<noteq> attemptKey c j" "attemptKey c i \<noteq> payloadKey c j"
  "ticketKey c i \<noteq> payloadKey c j" "ticketKey c i \<noteq> attemptKey c j" "payloadKey c i \<noteq> ticketKey c j"
  "attemptKey c i \<noteq> ticketKey c j"
  by (simp_all add: payloadKey_def attemptKey_def ticketKey_def compose_def Let_def)

text \<open>The server keeps its laws, each key of the coordinator holds one type, and the configured
  lives are positive (as construction makes them).\<close>

definition redis_env :: "'r RedisCoordinator \<Rightarrow> ('r \<Rightarrow> rview) \<Rightarrow> (string \<Rightarrow> rtype) \<Rightarrow> bool" where
  "redis_env c view ty \<longleftrightarrow> redis_laws (rc_server c) view ty
     \<and> ty (K c (readyKey c)) = TList \<and> ty (K c (readyMembersKey c)) = TSet \<and> ty (K c (inflightKey c)) = TSet
     \<and> ty (K c (inflightLeaseKey c)) = TZSet \<and> ty (K c (scheduledKey c)) = TZSet
     \<and> (\<forall>i. ty (K c (payloadKey c i)) = TString \<and> ty (K c (attemptKey c i)) = TString \<and> ty (K c (ticketKey c i)) = TString)
     \<and> 0 < rc_payloadTTL c \<and> 0 < rc_ticketTTL c"

lemma envD:
  assumes "redis_env c view ty"
  shows "redis_laws (rc_server c) view ty" "ty (K c (readyKey c)) = TList" "ty (K c (readyMembersKey c)) = TSet"
    "ty (K c (inflightKey c)) = TSet" "ty (K c (inflightLeaseKey c)) = TZSet" "ty (K c (scheduledKey c)) = TZSet"
    "ty (K c (payloadKey c i)) = TString" "ty (K c (attemptKey c i)) = TString" "ty (K c (ticketKey c i)) = TString"
    "0 < rc_payloadTTL c" "0 < rc_ticketTTL c"
  using assms by (simp_all add: redis_env_def)

definition look_view :: "'r RedisCoordinator \<Rightarrow> rview \<Rightarrow> qview" where
  "look_view c v = \<lparr>qv_ready = v_list v (K c (readyKey c)), qv_members = v_set v (K c (readyMembersKey c)),
     qv_inflight = v_set v (K c (inflightKey c)), qv_lease = v_zset v (K c (inflightLeaseKey c)),
     qv_sched = v_zset v (K c (scheduledKey c)), qv_str = v_str v\<rparr>"

text \<open>How the commands on the queue's keys move what is looked at.\<close>

lemma look_updates:
  "look_view c (v\<lparr>v_list := (v_list v)(K c (readyKey c) := xs)\<rparr>) = (look_view c v)\<lparr>qv_ready := xs\<rparr>"
  "look_view c (v\<lparr>v_set := (v_set v)(K c (readyMembersKey c) := A)\<rparr>) = (look_view c v)\<lparr>qv_members := A\<rparr>"
  "look_view c (v\<lparr>v_set := (v_set v)(K c (inflightKey c) := A)\<rparr>) = (look_view c v)\<lparr>qv_inflight := A\<rparr>"
  "look_view c (v\<lparr>v_zset := (v_zset v)(K c (inflightLeaseKey c) := z)\<rparr>) = (look_view c v)\<lparr>qv_lease := z\<rparr>"
  "look_view c (v\<lparr>v_zset := (v_zset v)(K c (scheduledKey c) := z)\<rparr>) = (look_view c v)\<lparr>qv_sched := z\<rparr>"
  "look_view c (v\<lparr>v_str := s\<rparr>) = (look_view c v)\<lparr>qv_str := s\<rparr>"
  by (simp_all add: look_view_def queue_keys_differ fun_upd_def)

lemma look_fields [simp]:
  "qv_ready (look_view c v) = v_list v (K c (readyKey c))" "qv_members (look_view c v) = v_set v (K c (readyMembersKey c))"
  "qv_inflight (look_view c v) = v_set v (K c (inflightKey c))" "qv_lease (look_view c v) = v_zset v (K c (inflightLeaseKey c))"
  "qv_sched (look_view c v) = v_zset v (K c (scheduledKey c))" "qv_str (look_view c v) = v_str v"
  by (simp_all add: look_view_def)

section \<open>Straight-line scripts\<close>

lemma command_look:
  assumes "redis_env c view ty"
  shows "look_view c (view (snd (c_RPUSH (rc_server c) (K c (readyKey c)) i r)))
      = (look_view c (view r))\<lparr>qv_ready := qv_ready (look_view c (view r)) @ [i]\<rparr>"
    "look_view c (view (snd (c_LPOP (rc_server c) (K c (readyKey c)) r)))
      = (look_view c (view r))\<lparr>qv_ready := tl (qv_ready (look_view c (view r)))\<rparr>"
    "look_view c (view (snd (c_SADD (rc_server c) (K c (readyMembersKey c)) i r)))
      = (look_view c (view r))\<lparr>qv_members := insert i (qv_members (look_view c (view r)))\<rparr>"
    "look_view c (view (snd (c_SREM (rc_server c) (K c (readyMembersKey c)) i r)))
      = (look_view c (view r))\<lparr>qv_members := qv_members (look_view c (view r)) - {i}\<rparr>"
    "look_view c (view (snd (c_SADD (rc_server c) (K c (inflightKey c)) i r)))
      = (look_view c (view r))\<lparr>qv_inflight := insert i (qv_inflight (look_view c (view r)))\<rparr>"
    "look_view c (view (snd (c_SREM (rc_server c) (K c (inflightKey c)) i r)))
      = (look_view c (view r))\<lparr>qv_inflight := qv_inflight (look_view c (view r)) - {i}\<rparr>"
    "look_view c (view (snd (c_ZADD (rc_server c) (K c (inflightLeaseKey c)) s i r)))
      = (look_view c (view r))\<lparr>qv_lease := (qv_lease (look_view c (view r)))(i \<mapsto> s)\<rparr>"
    "look_view c (view (snd (c_ZREM (rc_server c) (K c (inflightLeaseKey c)) i r)))
      = (look_view c (view r))\<lparr>qv_lease := (qv_lease (look_view c (view r)))(i := None)\<rparr>"
    "look_view c (view (snd (c_ZADD (rc_server c) (K c (scheduledKey c)) s i r)))
      = (look_view c (view r))\<lparr>qv_sched := (qv_sched (look_view c (view r)))(i \<mapsto> s)\<rparr>"
    "look_view c (view (snd (c_ZREM (rc_server c) (K c (scheduledKey c)) i r)))
      = (look_view c (view r))\<lparr>qv_sched := (qv_sched (look_view c (view r)))(i := None)\<rparr>"
  using envD [OF assms]
  by (simp_all add: list_facts [OF envD(1,2) [OF assms]] set_facts [OF envD(1,3) [OF assms]] set_facts [OF envD(1,4) [OF assms]]
      zset_facts [OF envD(1,5) [OF assms]] zset_facts [OF envD(1,6) [OF assms]] look_updates)

lemma command_reply:
  assumes "redis_env c view ty"
  shows "fst (c_SADD (rc_server c) (K c (readyMembersKey c)) i r) = (if i \<in> qv_members (look_view c (view r)) then 0 else 1)"
    "fst (c_SREM (rc_server c) (K c (readyMembersKey c)) i r) = (if i \<in> qv_members (look_view c (view r)) then 1 else 0)"
    "fst (c_SREM (rc_server c) (K c (inflightKey c)) i r) = (if i \<in> qv_inflight (look_view c (view r)) then 1 else 0)"
    "fst (c_LPOP (rc_server c) (K c (readyKey c)) r) = (case qv_ready (look_view c (view r)) of [] \<Rightarrow> None | y # ys \<Rightarrow> Some y)"
  by (simp_all add: list_facts [OF envD(1,2) [OF assms]] set_facts [OF envD(1,3) [OF assms]] set_facts [OF envD(1,4) [OF assms]])

lemma push_refines:
  assumes "redis_env c view ty"
  shows "look_view c (view (snd (luaPushReady (rc_server c) (K c (readyKey c)) (K c (readyMembersKey c)) i r)))
    = q_push i (look_view c (view r))"
  by (simp add: luaPushReady_def case_prod_beta command_reply [OF assms] command_look [OF assms] q_push_def
      insert_absorb)

lemma requeue_ready_refines:
  assumes "redis_env c view ty"
  shows "look_view c (view (snd (luaRequeueReady (rc_server c) (K c (readyKey c)) (K c (inflightKey c)) (K c (inflightLeaseKey c))
      (K c (readyMembersKey c)) (K c (scheduledKey c)) i r))) = q_requeue_ready i (look_view c (view r))"
  by (simp add: luaRequeueReady_def Let_def case_prod_beta command_reply [OF assms] command_look [OF assms] q_requeue_ready_def
      del: look_fields)

lemma requeue_sched_refines:
  assumes "redis_env c view ty"
  shows "look_view c (view (snd (luaRequeueScheduled (rc_server c) (K c (inflightKey c)) (K c (inflightLeaseKey c))
      (K c (readyMembersKey c)) (K c (scheduledKey c)) i s r))) = q_requeue_sched i s (look_view c (view r))"
  by (simp add: luaRequeueScheduled_def Let_def case_prod_beta command_look [OF assms] q_requeue_sched_def
      del: look_fields)

lemma ack_refines:
  assumes "redis_env c view ty"
  shows "look_view c (view (snd (luaAckOperation (rc_server c) (K c (inflightKey c)) (K c (scheduledKey c)) (K c (inflightLeaseKey c))
      (K c (readyMembersKey c)) i r))) = q_ack i (look_view c (view r))"
  by (simp add: luaAckOperation_def Let_def command_look [OF assms] q_ack_def del: look_fields)

section \<open>Popping\<close>

lemma q_pop_skip: "qv_ready q = i # rest \<Longrightarrow> i \<notin> qv_members q \<Longrightarrow> q_pop now q = q_pop now (q\<lparr>qv_ready := rest\<rparr>)"
  by (cases "dropWhile (\<lambda>x. x \<notin> qv_members q) rest") (simp_all add: q_pop_def del: dropWhile_eq_Nil_conv)

lemma pop_refines:
  assumes "redis_env c view ty"
  shows "length (qv_ready (look_view c (view r))) < n \<Longrightarrow>
    \<exists>reply r'. pop_ready_loop (rc_server c) (K c (readyKey c)) (K c (inflightKey c)) (K c (inflightLeaseKey c)) (K c (readyMembersKey c)) now n r
      = Some (reply, r') \<and> q_pop now (look_view c (view r)) = (reply, look_view c (view r'))"
proof (induction n arbitrary: r)
  case 0
  then show ?case by simp
next
  case (Suc n)
  let ?R = "rc_server c" let ?q = "look_view c (view r)"
  obtain x r1 where lpop: "c_LPOP ?R (K c (readyKey c)) r = (x, r1)" by fastforce
  have x: "x = (case qv_ready ?q of [] \<Rightarrow> None | y # ys \<Rightarrow> Some y)"
    and q1: "look_view c (view r1) = ?q\<lparr>qv_ready := tl (qv_ready ?q)\<rparr>"
    using command_reply(4) [OF assms, of r] command_look(2) [OF assms, of r] by (simp_all add: lpop del: look_fields)
  show ?case
  proof (cases "qv_ready ?q")
    case Nil
    then show ?thesis using x q1 by (simp add: lpop q_pop_def del: look_fields)
  next
    case (Cons i rest)
    obtain m r2 where srem: "c_SREM ?R (K c (readyMembersKey c)) i r1 = (m, r2)" by fastforce
    have m: "m = (if i \<in> qv_members ?q then 1 else 0)"
      and q2: "look_view c (view r2) = ?q\<lparr>qv_ready := rest, qv_members := qv_members ?q - {i}\<rparr>"
      using command_reply(2) [OF assms, of i r1] command_look(4) [OF assms, of i r1] q1 Cons
      by (simp_all add: srem del: look_fields)
    show ?thesis
    proof (cases "i \<in> qv_members ?q")
      case True
      then show ?thesis using x Cons m q2
        by (simp add: lpop srem q_pop_def command_look [OF assms] del: look_fields)
    next
      case False
      then have "look_view c (view r2) = ?q\<lparr>qv_ready := rest\<rparr>" using q2 by simp
      moreover from this have "length (qv_ready (look_view c (view r2))) < n" using Suc.prems Cons by (simp del: look_fields)
      from Suc.IH [OF this] obtain reply r' where
        "pop_ready_loop ?R (K c (readyKey c)) (K c (inflightKey c)) (K c (inflightLeaseKey c)) (K c (readyMembersKey c)) now n r2 = Some (reply, r')"
        "q_pop now (look_view c (view r2)) = (reply, look_view c (view r'))" by blast
      ultimately show ?thesis using x Cons m False q_pop_skip [OF Cons False, of now]
        by (simp add: lpop srem del: look_fields)
    qed
  qed
qed

section \<open>Releasing what is due\<close>

lemma due_first:
  assumes "z i = Some s" and "s \<le> now"
  shows "due_ids z now = insert i (due_ids (z(i := None)) now)" "i \<notin> due_ids (z(i := None)) now"
  using assms by (auto simp: due_ids_def)

lemma release_refines:
  assumes "redis_env c view ty"
  shows "card (dom (qv_sched (look_view c (view r)))) < n \<Longrightarrow>
    \<exists>m r' ids. release_due_loop (rc_server c) (K c (scheduledKey c)) (K c (readyKey c)) (K c (readyMembersKey c)) now n moved r = Some (m, r')
      \<and> distinct ids \<and> set ids = due_ids (qv_sched (look_view c (view r))) now - qv_members (look_view c (view r))
      \<and> sorted (map (\<lambda>i. the (qv_sched (look_view c (view r)) i)) ids) \<and> m = moved + int (length ids)
      \<and> look_view c (view r') = (look_view c (view r))\<lparr>qv_ready := qv_ready (look_view c (view r)) @ ids,
          qv_members := qv_members (look_view c (view r)) \<union> due_ids (qv_sched (look_view c (view r))) now,
          qv_sched := qv_sched (look_view c (view r)) |` (- due_ids (qv_sched (look_view c (view r))) now)\<rparr>"
proof (induction n arbitrary: r moved)
  case 0
  then show ?case by simp
next
  case (Suc n)
  let ?R = "rc_server c" let ?q = "look_view c (view r)" let ?z = "qv_sched ?q"
  have first: "c_ZFIRST ?R (K c (scheduledKey c)) r = None \<longleftrightarrow> ?z = Map.empty"
    "\<And>i s. c_ZFIRST ?R (K c (scheduledKey c)) r = Some (i, s) \<Longrightarrow> ?z i = Some s"
    "\<And>i s x t. c_ZFIRST ?R (K c (scheduledKey c)) r = Some (i, s) \<Longrightarrow> ?z x = Some t \<Longrightarrow> s \<le> t"
    using zset_facts(8-10) [OF envD(1,6) [OF assms]] by simp_all
  show ?case
  proof (cases "c_ZFIRST ?R (K c (scheduledKey c)) r")
    case None
    then have "?z = Map.empty" using first(1) by blast
    then have "due_ids ?z now = {}" by (simp add: due_ids_def del: look_fields)
    with None show ?thesis by (intro exI [of _ moved] exI [of _ r] exI [of _ "[]"]) (simp del: look_fields)
  next
    case (Some w)
    obtain i s where w: "w = (i, s)" by (cases w)
    note fst = first(2,3) [OF Some [unfolded w]]
    show ?thesis
    proof (cases "now < s")
      case True
      then have "due_ids ?z now = {}" using fst(2) by (force simp: due_ids_def split: option.splits simp del: look_fields)
      with Some w True show ?thesis by (intro exI [of _ moved] exI [of _ r] exI [of _ "[]"]) (simp del: look_fields)
    next
      case False
      then have s: "s \<le> now" by simp
      obtain a r2 where sadd: "c_SADD ?R (K c (readyMembersKey c)) i (snd (c_ZREM ?R (K c (scheduledKey c)) i r)) = (a, r2)" by fastforce
      have a: "a = (if i \<in> qv_members ?q then 0 else 1)"
        and q2: "look_view c (view r2) = ?q\<lparr>qv_sched := ?z(i := None), qv_members := insert i (qv_members ?q)\<rparr>"
        using command_reply(1) [OF assms, of i "snd (c_ZREM ?R (K c (scheduledKey c)) i r)"]
          command_look(3) [OF assms, of i "snd (c_ZREM ?R (K c (scheduledKey c)) i r)"] command_look(10) [OF assms, of i r]
        by (simp_all add: sadd del: look_fields)
      define r3 where "r3 = (if a = 1 then snd (c_RPUSH ?R (K c (readyKey c)) i r2) else r2)"
      define new where "new = (if i \<in> qv_members ?q then [] else [i])"
      have q3: "look_view c (view r3) = ?q\<lparr>qv_ready := qv_ready ?q @ new, qv_members := insert i (qv_members ?q), qv_sched := ?z(i := None)\<rparr>"
        using q2 a by (simp add: r3_def new_def command_look(1) [OF assms] del: look_fields)
      have "finite (dom ?z)" using zset_facts(1) [OF envD(1,6) [OF assms]] by simp
      then have "card (dom ?z - {i}) < card (dom ?z)" using fst(1) by (intro card_Diff1_less) (auto simp del: look_fields)
      then have "card (dom (?z(i := None))) < n" using Suc.prems by (simp del: look_fields)
      then have "card (dom (qv_sched (look_view c (view r3)))) < n" by (simp add: q3 del: look_fields dom_fun_upd)
      from Suc.IH [OF this, of "moved + int (length new)"] obtain m r' ids where R0:
        "release_due_loop ?R (K c (scheduledKey c)) (K c (readyKey c)) (K c (readyMembersKey c)) now n (moved + int (length new)) r3 = Some (m, r')"
        "distinct ids" "set ids = due_ids (qv_sched (look_view c (view r3))) now - qv_members (look_view c (view r3))"
        "sorted (map (\<lambda>x. the (qv_sched (look_view c (view r3)) x)) ids)" "m = moved + int (length new) + int (length ids)"
        "look_view c (view r') = (look_view c (view r3))\<lparr>qv_ready := qv_ready (look_view c (view r3)) @ ids,
          qv_members := qv_members (look_view c (view r3)) \<union> due_ids (qv_sched (look_view c (view r3))) now,
          qv_sched := qv_sched (look_view c (view r3)) |` (- due_ids (qv_sched (look_view c (view r3))) now)\<rparr>"
        by blast
      have f3: "qv_sched (look_view c (view r3)) = ?z(i := None)" "qv_members (look_view c (view r3)) = insert i (qv_members ?q)"
        "qv_ready (look_view c (view r3)) = qv_ready ?q @ new" by (simp_all add: q3 del: look_fields)
      note R = R0 [unfolded f3]
      have loop: "release_due_loop ?R (K c (scheduledKey c)) (K c (readyKey c)) (K c (readyMembersKey c)) now (Suc n) moved r
          = release_due_loop ?R (K c (scheduledKey c)) (K c (readyKey c)) (K c (readyMembersKey c)) now n (moved + int (length new)) r3"
        using Some w False a by (simp add: sadd r3_def new_def del: look_fields)
      note due = due_first [of ?z, OF fst(1) s]
      have map: "map (\<lambda>x. the ((?z(i := None)) x)) ids = map (\<lambda>x. the (?z x)) ids" using R(3) by auto
      have "\<forall>x\<in>set ids. s \<le> the (?z x)"
        using R(3) fst(2) by (auto simp: due_ids_def split: if_splits option.splits simp del: look_fields)
      then have srt: "sorted (map (\<lambda>x. the (?z x)) (new @ ids))" using R(4) fst(1) unfolding map by (simp add: new_def del: look_fields)
      have dist: "distinct (new @ ids)" using R(2,3) by (simp add: new_def del: look_fields)
      have st: "set (new @ ids) = due_ids ?z now - qv_members ?q" using R(3) due by (auto simp: new_def simp del: look_fields)
      have rs: "(?z(i := None)) |` (- due_ids (?z(i := None)) now) = ?z |` (- due_ids ?z now)"
        unfolding due(1) by (auto simp: restrict_map_def fun_eq_iff simp del: look_fields)
      have "look_view c (view r') = ?q\<lparr>qv_ready := qv_ready ?q @ (new @ ids), qv_members := qv_members ?q \<union> due_ids ?z now,
          qv_sched := ?z |` (- due_ids ?z now)\<rparr>"
        unfolding R(6) q3 rs due(1) by (simp del: look_fields)
      with loop R(1,5) dist st srt show ?thesis
        by (intro exI [of _ m] exI [of _ r'] exI [of _ "new @ ids"] conjI) (simp_all del: look_fields)
    qed
  qed
qed

section \<open>Reclaiming\<close>

lemma collect_ids_sound:
  "distinct ids \<Longrightarrow> distinct (collect_ids ok limit xs ids) \<and> set ids \<subseteq> set (collect_ids ok limit xs ids)
    \<and> (\<forall>i\<in>set (collect_ids ok limit xs ids). i \<in> set ids \<or> ok i \<and> i \<in> set xs)"
proof (induction xs arbitrary: ids)
  case Nil
  then show ?case by simp
next
  case (Cons x xs)
  show ?case
  proof (cases "x \<notin> set ids \<and> ok x")
    case True
    then have d: "distinct (ids @ [x])" using Cons.prems by simp
    from Cons.IH [OF d] True d show ?thesis by (auto simp: Let_def)
  next
    case False
    with Cons.IH [OF Cons.prems] show ?thesis by auto
  qed
qed

lemma collect_ids_all:
  "distinct (ids @ xs) \<Longrightarrow> int (length ids + length xs) \<le> limit \<Longrightarrow> collect_ids (\<lambda>_. True) limit xs ids = ids @ xs"
proof (induction xs arbitrary: ids)
  case Nil
  then show ?case by simp
next
  case (Cons x xs)
  then have "distinct ((ids @ [x]) @ xs)" "int (length (ids @ [x]) + length xs) \<le> limit" "x \<notin> set ids" by simp_all
  from Cons.IH [OF this(1,2)] this(2,3) show ?case by (cases xs) (auto simp: Let_def)
qed

lemma candidates_sound:
  assumes "redis_env c view ty" and "0 < limit"
  shows "distinct (reclaim_candidates (rc_server c) (K c (inflightLeaseKey c)) (K c (inflightKey c)) cutoff limit r)"
    "\<forall>i\<in>set (reclaim_candidates (rc_server c) (K c (inflightLeaseKey c)) (K c (inflightKey c)) cutoff limit r).
        qv_lease (look_view c (view r)) i = None \<or> i \<in> due_ids (qv_lease (look_view c (view r))) cutoff"
    "int (card (due_ids (qv_lease (look_view c (view r))) cutoff)) \<le> limit \<longrightarrow> due_ids (qv_lease (look_view c (view r))) cutoff
        \<subseteq> set (reclaim_candidates (rc_server c) (K c (inflightLeaseKey c)) (K c (inflightKey c)) cutoff limit r)"
proof -
  let ?R = "rc_server c" let ?k = "K c (inflightLeaseKey c)" let ?due = "due_ids (qv_lease (look_view c (view r))) cutoff"
  let ?xs = "c_ZRANGEBYSCORE ?R ?k cutoff limit r"
  have xs: "distinct ?xs" "set ?xs \<subseteq> ?due" "int (length ?xs) = min limit (int (card ?due))"
    using zset_facts(11-13) [OF envD(1,5) [OF assms(1)] less_imp_le [OF assms(2)], of cutoff r] unfolding look_fields by blast+
  have "int (length ?xs) \<le> limit" unfolding xs(3) by (rule min.cobounded1)
  then have aged: "collect_ids (\<lambda>_. True) limit ?xs [] = ?xs"
    using collect_ids_all [of "[]" ?xs limit] xs(1) unfolding append_Nil list.size(3) add_0 by blast
  have score: "c_ZSCORE ?R ?k i r = qv_lease (look_view c (view r)) i" for i
    using zset_facts(6) [OF envD(1,5) [OF assms(1)]] by simp
  define cands where "cands = reclaim_candidates ?R ?k (K c (inflightKey c)) cutoff limit r"
  have C: "cands = (if int (length ?xs) < limit
      then collect_ids (\<lambda>i. c_ZSCORE ?R ?k i r = None) limit (c_SRANDMEMBER ?R (K c (inflightKey c)) (limit - int (length ?xs)) r) ?xs
      else ?xs)"
    unfolding cands_def reclaim_candidates_def Let_def aged by (rule refl)
  have S: "distinct cands \<and> set ?xs \<subseteq> set cands \<and> (\<forall>i\<in>set cands. i \<in> set ?xs \<or> qv_lease (look_view c (view r)) i = None)"
  proof (cases "int (length ?xs) < limit")
    case True
    then have eq: "cands = collect_ids (\<lambda>i. qv_lease (look_view c (view r)) i = None) limit
        (c_SRANDMEMBER ?R (K c (inflightKey c)) (limit - int (length ?xs)) r) ?xs"
      unfolding C score by (rule if_P)
    note s = collect_ids_sound [OF xs(1), of "\<lambda>i. qv_lease (look_view c (view r)) i = None" limit
          "c_SRANDMEMBER ?R (K c (inflightKey c)) (limit - int (length ?xs)) r", folded eq]
    have "\<forall>i\<in>set cands. i \<in> set ?xs \<or> qv_lease (look_view c (view r)) i = None"
    proof
      fix i assume "i \<in> set cands"
      from s [THEN conjunct2, THEN conjunct2, rule_format, OF this]
      show "i \<in> set ?xs \<or> qv_lease (look_view c (view r)) i = None" by (elim disjE conjE) (rule disjI1, assumption, rule disjI2)
    qed
    with s show ?thesis by (simp only: simp_thms)
  next
    case False
    then have "cands = ?xs" unfolding C by (rule if_not_P)
    with xs(1) show ?thesis by simp
  qed
  have fin: "finite ?due"
  proof (rule finite_subset)
    show "?due \<subseteq> dom (qv_lease (look_view c (view r)))" by (auto simp: due_ids_def split: option.splits)
    show "finite (dom (qv_lease (look_view c (view r))))" using zset_facts(1) [OF envD(1,5) [OF assms(1)]] by simp
  qed
  have all: "int (card ?due) \<le> limit \<Longrightarrow> ?due \<subseteq> set ?xs"
  proof -
    assume "int (card ?due) \<le> limit"
    then have "card (set ?xs) = card ?due" using distinct_card [OF xs(1)] xs(3) by (simp del: look_fields)
    then have "set ?xs = ?due" by (rule card_subset_eq [OF fin xs(2)])
    then show "?due \<subseteq> set ?xs" by (rule equalityD2)
  qed
  show "distinct (reclaim_candidates ?R ?k (K c (inflightKey c)) cutoff limit r)"
    using S unfolding cands_def by (rule conjunct1)
  show "\<forall>i\<in>set (reclaim_candidates ?R ?k (K c (inflightKey c)) cutoff limit r).
      qv_lease (look_view c (view r)) i = None \<or> i \<in> ?due"
  proof
    fix i assume "i \<in> set (reclaim_candidates ?R ?k (K c (inflightKey c)) cutoff limit r)"
    then have "i \<in> set cands" unfolding cands_def .
    from S [THEN conjunct2, THEN conjunct2, rule_format, OF this] show "qv_lease (look_view c (view r)) i = None \<or> i \<in> ?due"
      using subsetD [OF xs(2), of i] by (elim disjE) (simp_all only: simp_thms)
  qed
  show "int (card ?due) \<le> limit \<longrightarrow> ?due \<subseteq> set (reclaim_candidates ?R ?k (K c (inflightKey c)) cutoff limit r)"
    using subset_trans [OF all S [THEN conjunct2, THEN conjunct1]] unfolding cands_def by (rule impI)
qed

lemma reclaim_loop_refines:
  assumes "redis_env c view ty"
  shows "distinct cands \<Longrightarrow> ids = filter (\<lambda>i. i \<in> qv_inflight (look_view c (view r))) cands \<Longrightarrow>
    \<exists>r'. reclaim_loop (rc_server c) (K c (inflightLeaseKey c)) (K c (inflightKey c)) (K c (readyKey c)) (K c (readyMembersKey c)) cands m r
        = (m + int (length ids), r')
      \<and> look_view c (view r') = (look_view c (view r))\<lparr>
          qv_ready := qv_ready (look_view c (view r)) @ filter (\<lambda>i. i \<notin> qv_members (look_view c (view r))) ids,
          qv_members := qv_members (look_view c (view r)) \<union> set ids,
          qv_inflight := qv_inflight (look_view c (view r)) - set ids,
          qv_lease := qv_lease (look_view c (view r)) |` (- set cands)\<rparr>"
proof (induction cands arbitrary: r m ids)
  case Nil
  then show ?case by (simp del: look_fields)
next
  case (Cons i cands)
  let ?R = "rc_server c" let ?q = "look_view c (view r)"
  obtain a r2 where srem: "c_SREM ?R (K c (inflightKey c)) i (snd (c_ZREM ?R (K c (inflightLeaseKey c)) i r)) = (a, r2)" by fastforce
  have a: "a = (if i \<in> qv_inflight ?q then 1 else 0)"
    and q2: "look_view c (view r2) = ?q\<lparr>qv_lease := (qv_lease ?q)(i := None), qv_inflight := qv_inflight ?q - {i}\<rparr>"
    using command_reply(3) [OF assms, of i "snd (c_ZREM ?R (K c (inflightLeaseKey c)) i r)"]
      command_look(6) [OF assms, of i "snd (c_ZREM ?R (K c (inflightLeaseKey c)) i r)"] command_look(8) [OF assms, of i r]
    by (simp_all add: srem del: look_fields)
  obtain b r3 where sadd: "c_SADD ?R (K c (readyMembersKey c)) i r2 = (b, r3)" by fastforce
  have b: "b = (if i \<in> qv_members ?q then 0 else 1)"
    and q3: "look_view c (view r3) = (look_view c (view r2))\<lparr>qv_members := insert i (qv_members ?q)\<rparr>"
    using command_reply(1) [OF assms, of i r2] command_look(3) [OF assms, of i r2] q2 by (simp_all add: sadd del: look_fields)
  define r4 where "r4 = (if a = 0 then r2 else if b = 1 then snd (c_RPUSH ?R (K c (readyKey c)) i r3) else r3)"
  define hit where "hit = (if i \<in> qv_inflight ?q then [i] else [])"
  have q4: "look_view c (view r4) = ?q\<lparr>qv_ready := qv_ready ?q @ filter (\<lambda>i. i \<notin> qv_members ?q) hit,
      qv_members := qv_members ?q \<union> set hit, qv_inflight := qv_inflight ?q - {i}, qv_lease := (qv_lease ?q)(i := None)\<rparr>"
    using q2 q3 a b by (simp add: r4_def hit_def command_look(1) [OF assms] insert_absorb del: look_fields)
  have loop: "reclaim_loop ?R (K c (inflightLeaseKey c)) (K c (inflightKey c)) (K c (readyKey c)) (K c (readyMembersKey c)) (i # cands) m r
      = reclaim_loop ?R (K c (inflightLeaseKey c)) (K c (inflightKey c)) (K c (readyKey c)) (K c (readyMembersKey c)) cands (m + int (length hit)) r4"
    using a b by (simp add: srem sadd r4_def hit_def del: look_fields)
  have f4: "qv_inflight (look_view c (view r4)) = qv_inflight ?q - {i}" "qv_members (look_view c (view r4)) = qv_members ?q \<union> set hit"
    "qv_ready (look_view c (view r4)) = qv_ready ?q @ filter (\<lambda>i. i \<notin> qv_members ?q) hit"
    "qv_lease (look_view c (view r4)) = (qv_lease ?q)(i := None)"
    by (simp_all add: q4 del: look_fields)
  have nd: "i \<notin> set cands" "distinct cands" using Cons.prems(1) by simp_all
  define ids' where "ids' = filter (\<lambda>x. x \<in> qv_inflight ?q) cands"
  have same: "filter (\<lambda>x. x \<in> qv_inflight ?q - {i}) cands = ids'"
    unfolding ids'_def using nd(1) by (intro filter_cong) auto
  have ids: "ids = hit @ ids'" unfolding ids'_def hit_def using Cons.prems(2) by simp
  from Cons.IH [OF nd(2) refl, where r = r4 and m = "m + int (length hit)", unfolded f4 same] obtain r' where
    R: "reclaim_loop ?R (K c (inflightLeaseKey c)) (K c (inflightKey c)) (K c (readyKey c)) (K c (readyMembersKey c)) cands (m + int (length hit)) r4
        = (m + int (length hit) + int (length ids'), r')"
    "look_view c (view r') = (look_view c (view r4))\<lparr>
          qv_ready := (qv_ready ?q @ filter (\<lambda>i. i \<notin> qv_members ?q) hit) @ filter (\<lambda>x. x \<notin> qv_members ?q \<union> set hit) ids',
          qv_members := (qv_members ?q \<union> set hit) \<union> set ids', qv_inflight := (qv_inflight ?q - {i}) - set ids',
          qv_lease := (qv_lease ?q)(i := None) |` (- set cands)\<rparr>" by blast
  have "i \<notin> set ids'" using nd(1) by (simp add: ids'_def)
  then have fl: "filter (\<lambda>x. x \<notin> qv_members ?q \<union> set hit) ids' = filter (\<lambda>x. x \<notin> qv_members ?q) ids'"
    by (intro filter_cong) (auto simp: hit_def)
  have le: "(qv_lease ?q)(i := None) |` (- set cands) = qv_lease ?q |` (- set (i # cands))"
    by (auto simp: restrict_map_def fun_eq_iff simp del: look_fields)
  have inf: "(qv_inflight ?q - {i}) - set ids' = qv_inflight ?q - set ids" by (auto simp: ids hit_def simp del: look_fields)
  have "look_view c (view r') = ?q\<lparr>qv_ready := qv_ready ?q @ filter (\<lambda>i. i \<notin> qv_members ?q) ids,
      qv_members := qv_members ?q \<union> set ids, qv_inflight := qv_inflight ?q - set ids, qv_lease := qv_lease ?q |` (- set (i # cands))\<rparr>"
    unfolding R(2) q4 fl le inf by (simp add: ids Un_assoc del: look_fields)
  with loop R(1) show ?case by (simp add: ids del: look_fields)
qed

lemma reclaim_refines:
  assumes "redis_env c view ty" and "0 < age" and "0 < limit"
  shows "\<exists>n r' ids. luaReclaimStaleInflight (rc_server c) (K c (inflightLeaseKey c)) (K c (inflightKey c)) (K c (readyKey c)) (K c (readyMembersKey c))
      now age limit r = (VInt64 n, r') \<and> n = int (length ids)
    \<and> qmove now age limit (AReclaim ids) (look_view c (view r)) (look_view c (view r'))"
proof -
  let ?cands = "reclaim_candidates (rc_server c) (K c (inflightLeaseKey c)) (K c (inflightKey c)) (now - age) limit r"
  let ?ids = "filter (\<lambda>i. i \<in> qv_inflight (look_view c (view r))) ?cands"
  note C = candidates_sound [OF assms(1,3), where cutoff = "now - age" and r = r]
  from reclaim_loop_refines [OF assms(1) C(1) refl, where m = 0 and r = r] obtain r' where
    R: "reclaim_loop (rc_server c) (K c (inflightLeaseKey c)) (K c (inflightKey c)) (K c (readyKey c)) (K c (readyMembersKey c)) ?cands 0 r
      = (0 + int (length ?ids), r')"
    "look_view c (view r') = (look_view c (view r))\<lparr>
          qv_ready := qv_ready (look_view c (view r)) @ filter (\<lambda>i. i \<notin> qv_members (look_view c (view r))) ?ids,
          qv_members := qv_members (look_view c (view r)) \<union> set ?ids,
          qv_inflight := qv_inflight (look_view c (view r)) - set ?ids,
          qv_lease := qv_lease (look_view c (view r)) |` (- set ?cands)\<rparr>"
    by blast
  have "luaReclaimStaleInflight (rc_server c) (K c (inflightLeaseKey c)) (K c (inflightKey c)) (K c (readyKey c)) (K c (readyMembersKey c))
      now age limit r = (VInt64 (int (length ?ids)), r')"
    using R(1) assms(2,3) by (simp add: luaReclaimStaleInflight_def del: look_fields)
  moreover have "qmove now age limit (AReclaim ?ids) (look_view c (view r)) (look_view c (view r'))"
    unfolding R(2) by (rule qmove.reclaim [OF C refl])
  ultimately show ?thesis by blast
qed

end
