(* ===== verification/RedisQueuePaths.thy ===== *)
theory RedisQueuePaths
  imports RedisQueueSpec
begin

text \<open>
  The operations of the coordinator refine paths of the abstract machine: whatever the
  connection does, an operation moves the queue along a path whose moves are its own or
  background moves (releasing what is due, reclaiming stale work); when the server is reached
  the path has the full shape of the operation.
\<close>

section \<open>Paths\<close>

definition ageMs :: "'r RedisCoordinator \<Rightarrow> int" where
  "ageMs c = (let age = go_div (rc_maxInflightAge c) Millisecond in if age \<le> 0 then 1 else age)"

lemma ageMs_pos: "0 < ageMs c"
  by (simp add: ageMs_def Let_def)

definition look :: "'r RedisCoordinator \<Rightarrow> ('r \<Rightarrow> rview) \<Rightarrow> 'r rqueue \<Rightarrow> qview" where
  "look c view st = look_view c (view (rq_data st))"

definition follows ::
  "'r RedisCoordinator \<Rightarrow> ('r \<Rightarrow> rview) \<Rightarrow> instant \<Rightarrow> qact list \<Rightarrow> 'r rqueue \<Rightarrow> 'r rqueue \<Rightarrow> bool" where
  "follows c view now acts st st' \<longleftrightarrow> qpath (UnixMilli now) (ageMs c) (rc_reclaimBatch c) acts (look c view st) (look c view st')"

lemma follows_trans:
  "follows c view now xs st st1 \<Longrightarrow> follows c view now ys st1 st2 \<Longrightarrow> follows c view now (xs @ ys) st st2"
  by (auto simp: follows_def qpath_append)

lemma follows_refl: "look c view st' = look c view st \<Longrightarrow> follows c view now [] st st'"
  by (simp add: follows_def)

lemma follows_one:
  "qmove (UnixMilli now) (ageMs c) (rc_reclaimBatch c) a (look c view st) (look c view st') \<Longrightarrow> follows c view now [a] st st'"
  by (simp add: follows_def)

definition background :: "qact \<Rightarrow> bool" where
  "background a \<longleftrightarrow> (case a of ARelease \<Rightarrow> True | AReclaim ids \<Rightarrow> True | _ \<Rightarrow> False)"

definition only :: "(qact \<Rightarrow> bool) \<Rightarrow> qact list \<Rightarrow> bool" where
  "only P acts \<longleftrightarrow> (\<forall>a\<in>set acts. background a \<or> P a)"

abbreviation quiet :: "qact list \<Rightarrow> bool" where "quiet \<equiv> only (\<lambda>_. False)"

lemma only_simps [simp]:
  "only P []" "only P (a # acts) \<longleftrightarrow> (background a \<or> P a) \<and> only P acts"
  "only P (xs @ ys) \<longleftrightarrow> only P xs \<and> only P ys"
  "background ARelease" "background (AReclaim ids)" "\<not> background (APush i)" "\<not> background (AAck i)"
  "\<not> background (ARequeueReady i)" "\<not> background (ARequeueSched i s)" "\<not> background (APop r)"
  "\<not> background (ASet k x e)" "\<not> background (ADel k)"
  by (auto simp: only_def background_def)

lemma only_mono: "only P acts \<Longrightarrow> (\<And>a. P a \<Longrightarrow> Q a) \<Longrightarrow> only Q acts"
  by (auto simp: only_def)

lemma quiet_only: "quiet acts \<Longrightarrow> only Q acts"
  by (auto simp: only_def)

section \<open>Calls of the server\<close>

lemma fixKey_K: "fixKey (rc_storePrefix c) = K c"
  by (rule ext) (simp add: K_def)

lemma trip_look: "redis_env c view ty \<Longrightarrow> view (snd (rd_trip (rc_server c) r)) = view r"
  by (rule trip_facts [OF envD(1)])

text \<open>A script call: either nothing happens to the data, or the script has run on it.\<close>

lemma eval_step:
  assumes env: "redis_env c view ty" and call: "on_data (Eval (rc_server c) (rc_storePrefix c) ks script) st = (res, st')"
    and total: "\<And>r. view r = view (rq_data st) \<Longrightarrow> \<exists>reply r'. script (map (K c) ks) r = Some (reply, r') \<and> P reply r'"
  shows "(\<exists>e. res = Inl e) \<and> look c view st' = look c view st \<and> \<not> reliable (rc_server c)
    \<or> (\<exists>reply. P reply (rq_data st') \<and> res = (if reply = VNil then Inl RedisNil else Inr reply))"
    and "rq_reclaimLast st' = rq_reclaimLast st"
proof -
  let ?R = "rc_server c" let ?r = "rq_data st"
  show "rq_reclaimLast st' = rq_reclaimLast st" using call by (auto simp: on_data_def split: prod.splits)
  show "(\<exists>e. res = Inl e) \<and> look c view st' = look c view st \<and> \<not> reliable ?R
    \<or> (\<exists>reply. P reply (rq_data st') \<and> res = (if reply = VNil then Inl RedisNil else Inr reply))"
  proof (cases "rd_up ?R ?r")
    case False
    then have "\<not> reliable ?R" by (auto simp: reliable_def)
    moreover have "st' = st" "res = Inl ErrRedisIsDown" using call False by (auto simp: on_data_def Eval_def)
    ultimately show ?thesis by simp
  next
    case True
    obtain e r1 where trip: "rd_trip ?R ?r = (e, r1)" by fastforce
    have v: "view r1 = view ?r" using trip_look [OF env, of ?r] by (simp add: trip)
    show ?thesis
    proof (cases e)
      case None
      from total [OF v] obtain reply r2 where R: "script (map (K c) ks) r1 = Some (reply, r2)" "P reply r2" by blast
      with call True trip None have "rq_data st' = r2" "res = (if reply = VNil then Inl RedisNil else Inr reply)"
        by (auto simp: on_data_def Eval_def fixKey_K)
      with R(2) show ?thesis by blast
    next
      case (Some err)
      then have "\<not> reliable ?R" using trip by (auto simp: reliable_def intro!: exI [of _ ?r])
      moreover have "rq_data st' = r1" "\<exists>e. res = Inl e" using call True trip Some by (auto simp: on_data_def Eval_def)
      ultimately show ?thesis using v by (simp add: look_def)
    qed
  qed
qed

lemma set_step:
  assumes env: "redis_env c view ty" and call: "on_data (SetKey (rc_server c) (rc_storePrefix c) now k x d) st = (res, st')"
    and "ty (K c k) = TString" and "0 < d"
  shows "(\<exists>e. res = Some e) \<and> follows c view now [] st st' \<and> \<not> reliable (rc_server c)
    \<or> res = None \<and> follows c view now [ASet (K c k) x (now + d)] st st'"
proof -
  let ?R = "rc_server c" let ?r = "rq_data st"
  obtain e r1 where trip: "rd_trip ?R ?r = (e, r1)" by fastforce
  have v: "view r1 = view ?r" using trip_look [OF env, of ?r] by (simp add: trip)
  have s: "look_view c (view (c_SET ?R now (K c k) x d r1)) = (look c view st)\<lparr>qv_str := (qv_str (look c view st))(K c k \<mapsto> (x, now + d))\<rparr>"
    by (simp add: string_facts(2) [OF envD(1) [OF env] assms(3,4)] v look_def look_updates)
  have mv: "qmove (UnixMilli now) (ageMs c) (rc_reclaimBatch c) (ASet (K c k) x (now + d)) (look c view st)
      (look_view c (view (c_SET ?R now (K c k) x d r1)))"
    unfolding s by (rule qmove.set_str)
  show ?thesis
  proof (cases "rd_up ?R ?r")
    case False
    with call show ?thesis by (auto simp: on_data_def SetKey_def reliable_def follows_def)
  next
    case True
    show ?thesis
    proof (cases e)
      case None
      with call True trip mv show ?thesis by (auto simp: on_data_def SetKey_def fixKey_K follows_def look_def)
    next
      case (Some err)
      then have "\<not> reliable ?R" using trip by (auto simp: reliable_def intro!: exI [of _ ?r])
      with call True trip Some v show ?thesis by (auto simp: on_data_def SetKey_def look_def follows_def)
    qed
  qed
qed

lemma get_step:
  assumes env: "redis_env c view ty" and call: "on_data (GetKey (rc_server c) (rc_storePrefix c) now k) st = (res, st')"
    and "ty (K c k) = TString"
  shows "look c view st' = look c view st"
    and "res = Inr x \<Longrightarrow> \<exists>e. qv_str (look c view st) (K c k) = Some (x, e) \<and> now < e"
    and "reliable (rc_server c) \<Longrightarrow> res = (case qv_str (look c view st) (K c k) of None \<Rightarrow> Inl RedisNil
           | Some (x, e) \<Rightarrow> if now < e then Inr x else Inl RedisNil)"
proof -
  let ?R = "rc_server c" let ?r = "rq_data st"
  obtain e r1 where trip: "rd_trip ?R ?r = (e, r1)" by fastforce
  have v: "view r1 = view ?r" using trip_look [OF env, of ?r] by (simp add: trip)
  have g: "c_GET ?R now (K c k) r1 = (case qv_str (look c view st) (K c k) of None \<Rightarrow> None | Some (x, e) \<Rightarrow> if now < e then Some x else None)"
    by (simp add: string_facts(1) [OF envD(1) [OF env] assms(3)] v look_def)
  show "look c view st' = look c view st"
    using call trip v by (auto simp: on_data_def GetKey_def look_def split: if_splits option.splits)
  show "res = Inr x \<Longrightarrow> \<exists>e. qv_str (look c view st) (K c k) = Some (x, e) \<and> now < e"
    using call trip g by (auto simp: on_data_def GetKey_def fixKey_K split: if_splits option.splits)
  show "reliable ?R \<Longrightarrow> res = (case qv_str (look c view st) (K c k) of None \<Rightarrow> Inl RedisNil
           | Some (x, e) \<Rightarrow> if now < e then Inr x else Inl RedisNil)"
  proof -
    assume rel: "reliable ?R"
    then have "rd_up ?R ?r" "e = None" using trip unfolding reliable_def by (auto dest: spec [of _ ?r])
    with call trip g show ?thesis
      by (cases "qv_str (look c view st) (K c k)") (auto simp: on_data_def GetKey_def fixKey_K split: if_splits)
  qed
qed

section \<open>Background work\<close>

definition reclaims :: "qact list \<Rightarrow> bool" where
  "reclaims acts \<longleftrightarrow> acts = [] \<or> (\<exists>ids. acts = [AReclaim ids])"

lemma reclaims_quiet: "reclaims acts \<Longrightarrow> quiet acts"
  by (auto simp: reclaims_def)

lemma look_frame [simp]:
  "look c view (st\<lparr>rq_reclaimLast := t\<rparr>) = look c view st" "look c view (st\<lparr>rq_metricsLast := t\<rparr>) = look c view st"
  "look c view (st\<lparr>rq_metricsFail := n\<rparr>) = look c view st" "look c view (st\<lparr>rq_metricsHold := t\<rparr>) = look c view st"
  by (simp_all add: look_def)

lemma reserve_look: "look c view (snd (reserveReclaimSlot c now st)) = look c view st"
  by (simp add: reserveReclaimSlot_def Let_def)

lemma note_look [simp]: "look c view (noteMetricsFailure now st) = look c view st"
  by (simp add: noteMetricsFailure_def Let_def)

lemma release_slot_look [simp]: "look c view (releaseReclaimSlot now st) = look c view st"
  by (simp add: releaseReclaimSlot_def)

lemma reclaim_follows:
  assumes env: "redis_env c view ty"
  shows "\<exists>acts. reclaims acts \<and> follows c view now acts st (snd (reclaimStaleInflight c now st))"
    and "reliable (rc_server c) \<Longrightarrow> 0 < rc_maxInflightAge c \<Longrightarrow> 0 < rc_reclaimBatch c \<Longrightarrow> fst (reserveReclaimSlot c now st) \<Longrightarrow>
      \<exists>ids. follows c view now [AReclaim ids] st (snd (reclaimStaleInflight c now st))
        \<and> fst (reclaimStaleInflight c now st) = Inr (int (length ids))"
    and "reliable (rc_server c) \<Longrightarrow> \<exists>n. fst (reclaimStaleInflight c now st) = Inr n"
proof -
  let ?R = "rc_server c"
  define st1 where "st1 = snd (reserveReclaimSlot c now st)"
  have l1: "look c view st1 = look c view st" unfolding st1_def by (rule reserve_look)
  obtain res st2 where call: "on_data (Eval ?R (rc_storePrefix c) [inflightLeaseKey c, inflightKey c, readyKey c, readyMembersKey c]
      (reclaim_script (UnixMilli now) (ageMs c) (rc_reclaimBatch c) ?R)) st1 = (res, st2)" by fastforce
  have run: "reclaimStaleInflight c now st =
      (if rc_maxInflightAge c \<le> 0 \<or> rc_reclaimBatch c \<le> 0 then (Inr 0, st)
       else if \<not> fst (reserveReclaimSlot c now st) then (Inr 0, st1)
       else case res of Inl err \<Rightarrow> if err_is err RedisNil then (Inr 0, st2) else (Inl err, releaseReclaimSlot now st2)
         | Inr result \<Rightarrow> (case toInt64 result of Inr n \<Rightarrow> (Inr n, st2)
             | Inl e \<Rightarrow> if err_is e RedisNil then (Inr 0, st2) else (Inl e, releaseReclaimSlot now st2)))"
    using call unfolding reclaimStaleInflight_def st1_def ageMs_def Let_def
    by (auto split: prod.splits bool.splits)
  have step: "0 < rc_reclaimBatch c \<Longrightarrow>
      (\<exists>e. res = Inl e) \<and> look c view st2 = look c view st1 \<and> \<not> reliable ?R
      \<or> (\<exists>reply. (\<exists>ids. reply = VInt64 (int (length ids)) \<and> qmove (UnixMilli now) (ageMs c) (rc_reclaimBatch c) (AReclaim ids)
              (look c view st) (look_view c (view (rq_data st2)))) \<and> res = (if reply = VNil then Inl RedisNil else Inr reply))"
  proof (rule eval_step(1) [OF env call])
    fix r assume b: "0 < rc_reclaimBatch c" and v: "view r = view (rq_data st1)"
    from reclaim_refines [OF env ageMs_pos [of c] b, where now = "UnixMilli now" and r = r] l1
    show "\<exists>reply r'. reclaim_script (UnixMilli now) (ageMs c) (rc_reclaimBatch c) ?R
          (map (K c) [inflightLeaseKey c, inflightKey c, readyKey c, readyMembersKey c]) r = Some (reply, r')
        \<and> (\<exists>ids. reply = VInt64 (int (length ids)) \<and> qmove (UnixMilli now) (ageMs c) (rc_reclaimBatch c) (AReclaim ids)
              (look c view st) (look_view c (view r')))"
      unfolding reclaim_script_def look_def v by (auto simp: numeral_3_eq_3 simp del: look_fields)
  qed
  show "\<exists>acts. reclaims acts \<and> follows c view now acts st (snd (reclaimStaleInflight c now st))"
  proof (cases "rc_maxInflightAge c \<le> 0 \<or> rc_reclaimBatch c \<le> 0 \<or> \<not> fst (reserveReclaimSlot c now st)")
    case True
    then have "look c view (snd (reclaimStaleInflight c now st)) = look c view st" using run l1 by auto
    then show ?thesis by (intro exI [of _ "[]"]) (simp add: reclaims_def follows_refl)
  next
    case False
    then have "0 < rc_reclaimBatch c" by simp
    from step [OF this] show ?thesis
    proof (elim disjE exE conjE)
      fix e assume "res = Inl e" "look c view st2 = look c view st1"
      then have "look c view (snd (reclaimStaleInflight c now st)) = look c view st" using run False l1 by auto
      then show ?thesis by (intro exI [of _ "[]"]) (simp add: reclaims_def follows_refl)
    next
      fix reply ids assume r: "reply = VInt64 (int (length ids))" "res = (if reply = VNil then Inl RedisNil else Inr reply)"
        and m: "qmove (UnixMilli now) (ageMs c) (rc_reclaimBatch c) (AReclaim ids) (look c view st) (look_view c (view (rq_data st2)))"
      have "snd (reclaimStaleInflight c now st) = st2" using run False r by (simp add: toInt64_def)
      with m show ?thesis
        by (intro exI [of _ "[AReclaim ids]"]) (simp add: reclaims_def follows_def look_def)
    qed
  qed
  {
    assume rel: "reliable ?R" "0 < rc_maxInflightAge c" "0 < rc_reclaimBatch c" "fst (reserveReclaimSlot c now st)"
    from step [OF rel(3)] rel(1) obtain ids where
      r: "res = Inr (VInt64 (int (length ids)))" and
      m: "qmove (UnixMilli now) (ageMs c) (rc_reclaimBatch c) (AReclaim ids) (look c view st) (look_view c (view (rq_data st2)))"
      by auto
    have "reclaimStaleInflight c now st = (Inr (int (length ids)), st2)" using run rel(2-4) r by (simp add: toInt64_def)
    with m show "\<exists>ids. follows c view now [AReclaim ids] st (snd (reclaimStaleInflight c now st))
        \<and> fst (reclaimStaleInflight c now st) = Inr (int (length ids))"
      by (intro exI [of _ ids]) (simp add: follows_def look_def)
  } note full = this
  assume rel: "reliable ?R"
  show "\<exists>n. fst (reclaimStaleInflight c now st) = Inr n"
  proof (cases "0 < rc_maxInflightAge c \<and> 0 < rc_reclaimBatch c \<and> fst (reserveReclaimSlot c now st)")
    case True
    with full rel show ?thesis by blast
  next
    case False
    with run show ?thesis by auto
  qed
qed

end
