(* ===== verification/RedisQueueRuns.thy ===== *)
theory RedisQueueRuns
  imports RedisQueuePaths
begin

text \<open>
  One lemma per operation of the Redis queue: the path it follows, with or without failures
  of the connection, and what its result says about that path.
\<close>

lemma script_follows:
  assumes env: "redis_env c view ty" and call: "on_data (Eval (rc_server c) (rc_storePrefix c) ks script) st = (res, st')"
    and refine: "\<And>r. view r = view (rq_data st) \<Longrightarrow> \<exists>reply r' a. script (map (K c) ks) r = Some (reply, r') \<and> P reply a
      \<and> qmove (UnixMilli now) (ageMs c) (rc_reclaimBatch c) a (look c view st) (look_view c (view r'))"
  shows "(\<exists>e. res = Inl e) \<and> follows c view now [] st st' \<and> \<not> reliable (rc_server c)
    \<or> (\<exists>reply a. P reply a \<and> follows c view now [a] st st' \<and> res = (if reply = VNil then Inl RedisNil else Inr reply))"
proof -
  have "(\<exists>e. res = Inl e) \<and> look c view st' = look c view st \<and> \<not> reliable (rc_server c)
    \<or> (\<exists>reply. (\<exists>a. P reply a \<and> qmove (UnixMilli now) (ageMs c) (rc_reclaimBatch c) a (look c view st) (look_view c (view (rq_data st'))))
        \<and> res = (if reply = VNil then Inl RedisNil else Inr reply))"
    by (rule eval_step(1) [OF env call]) (use refine in blast)
  then show ?thesis unfolding follows_def look_def qpath.simps by blast
qed

lemma metrics_follows:
  assumes env: "redis_env c view ty"
  shows "\<exists>acts. reclaims acts \<and> follows c view now acts st (recordQueueMetrics c now st)"
proof -
  have counts: "look c view (record_counts c now st1) = look c view st1" for st1
  proof -
    obtain e r1 where trip: "rd_trip (rc_server c) (rq_data st1) = (e, r1)" by fastforce
    have "view r1 = view (rq_data st1)" using trip_look [OF env, of "rq_data st1"] by (simp add: trip)
    then show ?thesis
      using trip by (auto simp: record_counts_def on_data_def QueueSnapshotCounts_def look_def noteMetricsFailure_def Let_def
          split: option.split)
  qed
  let ?st = "st\<lparr>rq_metricsLast := now\<rparr>"
  from reclaim_follows(1) [OF env, of now ?st] obtain acts where
    A: "reclaims acts" "follows c view now acts ?st (snd (reclaimStaleInflight c now ?st))" by blast
  have F: "look c view st' = look c view (snd (reclaimStaleInflight c now ?st)) \<Longrightarrow> follows c view now acts st st'" for st'
    using A(2) by (simp add: follows_def)
  have none: "look c view st' = look c view st \<Longrightarrow> ?thesis" if "recordQueueMetrics c now st = st'" for st'
    using that by (intro exI [of _ "[]"]) (simp add: reclaims_def follows_refl)
  show ?thesis
  proof (cases "\<not> rc_gauges c \<or> (\<not> IsZero (rq_metricsHold st) \<and> time_Before now (rq_metricsHold st))
      \<or> (\<not> IsZero (rq_metricsLast st) \<and> time_Sub now (rq_metricsLast st) < 250 * Millisecond)")
    case True
    then have "recordQueueMetrics c now st = st" by (auto simp: recordQueueMetrics_def)
    then show ?thesis using none by blast
  next
    case False
    show ?thesis
    proof (cases "shouldAttemptReclaim c now ?st")
      case True
      then have "look c view (recordQueueMetrics c now st) = look c view (snd (reclaimStaleInflight c now ?st))"
        using False by (auto simp: recordQueueMetrics_def Let_def counts split: prod.split sum.split)
      from F [OF this] A(1) show ?thesis by blast
    next
      case notry: False
      then have "look c view (recordQueueMetrics c now st) = look c view st"
        using False by (auto simp: recordQueueMetrics_def Let_def counts)
      then show ?thesis using none by blast
    qed
  qed
qed

text \<open>Metrics appended to a path.\<close>

lemma with_metrics:
  assumes env: "redis_env c view ty" and "follows c view now acts st st1"
  shows "\<exists>bg. reclaims bg \<and> follows c view now (acts @ bg) st (recordQueueMetrics c now st1)"
  using metrics_follows [OF env, of now st1] follows_trans [OF assms(2)] by blast

section \<open>Acknowledging and cancelling\<close>

lemma ack_script_follows:
  assumes env: "redis_env c view ty"
    and call: "on_data (Eval (rc_server c) (rc_storePrefix c) (ack_keys c) (ack_script i (rc_server c))) st = (res, st')"
  shows "(\<exists>e. res = Inl e) \<and> follows c view now [] st st' \<and> \<not> reliable (rc_server c)
    \<or> res = Inr (VInt64 1) \<and> follows c view now [AAck i] st st'"
proof -
  have "(\<exists>e. res = Inl e) \<and> follows c view now [] st st' \<and> \<not> reliable (rc_server c)
    \<or> (\<exists>reply a. (reply = VInt64 1 \<and> a = AAck i) \<and> follows c view now [a] st st' \<and> res = (if reply = VNil then Inl RedisNil else Inr reply))"
  proof (rule script_follows [OF env call])
    fix r assume v: "view r = view (rq_data st)"
    let ?out = "luaAckOperation (rc_server c) (K c (inflightKey c)) (K c (scheduledKey c)) (K c (inflightLeaseKey c)) (K c (readyMembersKey c)) i r"
    have "look_view c (view (snd ?out)) = q_ack i (look c view st)" using ack_refines [OF env, of i r] v by (simp add: look_def)
    then have "qmove (UnixMilli now) (ageMs c) (rc_reclaimBatch c) (AAck i) (look c view st) (look_view c (view (snd ?out)))"
      using qmove.ack by metis
    moreover have "ack_script i (rc_server c) (map (K c) (ack_keys c)) r = Some (VInt64 1, snd ?out)"
      by (simp add: ack_script_def ack_keys_def luaAckOperation_def Let_def numeral_3_eq_3 numeral_2_eq_2)
    ultimately show "\<exists>reply r' a. ack_script i (rc_server c) (map (K c) (ack_keys c)) r = Some (reply, r') \<and> (reply = VInt64 1 \<and> a = AAck i)
        \<and> qmove (UnixMilli now) (ageMs c) (rc_reclaimBatch c) a (look c view st) (look_view c (view r'))" by blast
  qed
  then show ?thesis by auto
qed

lemma ack_follows:
  assumes env: "redis_env c view ty" and call: "redis_Ack c now i st = (res, st')"
  shows "\<exists>acts. follows c view now acts st st' \<and> only (\<lambda>a. a = AAck i) acts
    \<and> (i \<noteq> [] \<and> reliable (rc_server c) \<longrightarrow> res = None \<and> (\<exists>bg. reclaims bg \<and> acts = AAck i # bg))"
proof (cases "i = []")
  case True
  with call show ?thesis by (intro exI [of _ "[]"]) (auto simp: redis_Ack_def intro!: follows_refl)
next
  case False
  obtain r st1 where ev: "on_data (Eval (rc_server c) (rc_storePrefix c) (ack_keys c) (ack_script i (rc_server c))) st = (r, st1)" by fastforce
  from ack_script_follows [OF env ev, of now] show ?thesis
  proof (elim disjE exE conjE)
    fix e assume e: "r = Inl e" "follows c view now [] st st1" "\<not> reliable (rc_server c)"
    from with_metrics [OF env e(2)] obtain bg where bg: "reclaims bg" "follows c view now bg st (recordQueueMetrics c now st1)" by auto
    have "st' = st1 \<or> st' = recordQueueMetrics c now st1"
      using call False ev e(1) by (auto simp: redis_Ack_def split: if_splits)
    then show ?thesis using bg e(2,3) quiet_only [OF reclaims_quiet [OF bg(1)]] by (elim disjE) (auto intro: exI [of _ "[]"])
  next
    assume r: "r = Inr (VInt64 1)" "follows c view now [AAck i] st st1"
    from with_metrics [OF env r(2)] obtain bg where bg: "reclaims bg" "follows c view now (AAck i # bg) st (recordQueueMetrics c now st1)" by auto
    have "res = None" "st' = recordQueueMetrics c now st1" using call False ev r(1) by (auto simp: redis_Ack_def)
    then show ?thesis using bg quiet_only [OF reclaims_quiet [OF bg(1)]] by (intro exI [of _ "AAck i # bg"]) auto
  qed
qed

lemma ticket_follows:
  assumes env: "redis_env c view ty" and call: "ticket_operation c now tk st = (res, st')"
  shows "follows c view now [] st st'"
    and "res = Inr i \<Longrightarrow> \<exists>e. qv_str (look c view st) (K c (ticketKey c tk)) = Some (i, e) \<and> now < e"
proof -
  obtain r st1 where g: "on_data (GetKey (rc_server c) (rc_storePrefix c) now (ticketKey c tk)) st = (r, st1)" by fastforce
  note G = get_step [OF env g envD(9) [OF env]]
  have st: "st' = st1" "res = Inr i \<Longrightarrow> r = Inr i"
    using call g by (auto simp: ticket_operation_def split: sum.splits if_splits)
  show "follows c view now [] st st'" using G(1) st(1) by (simp add: follows_refl)
  show "res = Inr i \<Longrightarrow> \<exists>e. qv_str (look c view st) (K c (ticketKey c tk)) = Some (i, e) \<and> now < e"
    using G(2) st(2) by blast
qed

lemma delete_keys_follow:
  assumes env: "redis_env c view ty"
  shows "\<forall>k\<in>set ks. ty (K c k) = TString \<Longrightarrow> \<exists>acts. follows c view now acts st (st\<lparr>rq_data := delete_keys (rc_server c) (rc_storePrefix c) ks (rq_data st)\<rparr>)
    \<and> only (\<lambda>a. \<exists>k. a = ADel k) acts"
proof (induction ks arbitrary: st)
  case Nil
  then show ?case by (intro exI [of _ "[]"]) (simp add: follows_refl)
next
  case (Cons k ks)
  define r where "r = (if k = [] then rq_data st else c_DEL (rc_server c) (K c k) (rq_data st))"
  have "\<exists>xs. follows c view now xs st (st\<lparr>rq_data := r\<rparr>) \<and> only (\<lambda>a. \<exists>k. a = ADel k) xs"
  proof (cases "k = []")
    case True
    then show ?thesis by (intro exI [of _ "[]"]) (simp add: r_def follows_refl)
  next
    case False
    have "look c view (st\<lparr>rq_data := r\<rparr>) = (look c view st)\<lparr>qv_str := (qv_str (look c view st))(K c k := None)\<rparr>"
      using False string_facts(3) [OF envD(1) [OF env], where k = "K c k"] Cons.prems by (simp add: r_def look_def look_updates)
    then have "follows c view now [ADel (K c k)] st (st\<lparr>rq_data := r\<rparr>)"
      using qmove.del_str by (intro follows_one) metis
    then show ?thesis by (intro exI [of _ "[ADel (K c k)]"]) simp
  qed
  then obtain xs where xs: "follows c view now xs st (st\<lparr>rq_data := r\<rparr>)" "only (\<lambda>a. \<exists>k. a = ADel k) xs" by blast
  from Cons.IH [of "st\<lparr>rq_data := r\<rparr>"] Cons.prems obtain ys where
    ys: "follows c view now ys (st\<lparr>rq_data := r\<rparr>) (st\<lparr>rq_data := delete_keys (rc_server c) (rc_storePrefix c) ks r\<rparr>)"
    "only (\<lambda>a. \<exists>k. a = ADel k) ys" by auto
  have "delete_keys (rc_server c) (rc_storePrefix c) (k # ks) (rq_data st) = delete_keys (rc_server c) (rc_storePrefix c) ks r"
    by (simp add: r_def fixKey_K)
  with follows_trans [OF xs(1) ys(1)] xs(2) ys(2) show ?case by (intro exI [of _ "xs @ ys"]) simp
qed

lemma batch_delete_follows:
  assumes env: "redis_env c view ty" and "\<forall>k\<in>set ks. ty (K c k) = TString"
  shows "\<exists>acts. follows c view now acts st (snd (on_data (BatchDelete (rc_server c) (rc_storePrefix c) ks) st))
    \<and> only (\<lambda>a. \<exists>k. a = ADel k) acts"
proof -
  obtain e r1 where trip: "rd_trip (rc_server c) (rq_data st) = (e, r1)" by fastforce
  have "look c view (st\<lparr>rq_data := r1\<rparr>) = look c view st"
    using trip_look [OF env, of "rq_data st"] by (simp add: trip look_def)
  then have r1: "follows c view now [] st (st\<lparr>rq_data := r1\<rparr>)" by (rule follows_refl)
  from delete_keys_follow [OF env assms(2), of now "st\<lparr>rq_data := r1\<rparr>"] follows_trans [OF r1]
  obtain acts where A: "follows c view now acts st (st\<lparr>rq_data := delete_keys (rc_server c) (rc_storePrefix c) ks r1\<rparr>)"
    "only (\<lambda>a. \<exists>k. a = ADel k) acts" by force
  have "snd (on_data (BatchDelete (rc_server c) (rc_storePrefix c) ks) st)
      \<in> {st, st\<lparr>rq_data := r1\<rparr>, st\<lparr>rq_data := delete_keys (rc_server c) (rc_storePrefix c) ks r1\<rparr>}"
    using trip by (auto simp: on_data_def BatchDelete_def split: option.split)
  with A r1 show ?thesis by (auto intro: exI [of _ "[]"] simp: follows_refl)
qed

lemma cancel_follows:
  assumes env: "redis_env c view ty" and call: "redis_Cancel c now tk st = (res, st')"
  shows "\<exists>acts. follows c view now acts st st' \<and> only (\<lambda>a. (\<exists>k. a = ADel k)
    \<or> (\<exists>i e. a = AAck i \<and> qv_str (look c view st) (K c (ticketKey c tk)) = Some (i, e) \<and> now < e)) acts"
proof (cases "tk = []")
  case True
  with call show ?thesis by (intro exI [of _ "[]"]) (auto simp: redis_Cancel_def intro!: follows_refl)
next
  case False
  obtain r st1 where t: "ticket_operation c now tk st = (r, st1)" by fastforce
  note T = ticket_follows [OF env t]
  show ?thesis
  proof (cases r)
    case (Inl e)
    with call t False T(1) show ?thesis by (intro exI [of _ "[]"]) (auto simp: redis_Cancel_def)
  next
    case (Inr i)
    obtain rr st2 where ev: "on_data (Eval (rc_server c) (rc_storePrefix c) (ack_keys c) (ack_script i (rc_server c))) st1 = (rr, st2)" by fastforce
    let ?ks = "[ticketKey c tk, payloadKey c i, attemptKey c i]"
    let ?st3 = "snd (on_data (BatchDelete (rc_server c) (rc_storePrefix c) ?ks) st2)"
    have st': "st' = st2 \<or> st' = recordQueueMetrics c now ?st3"
      using call t False Inr ev by (auto simp: redis_Cancel_def Let_def split: sum.splits if_splits)
    from ack_script_follows [OF env ev, of now] obtain xs where xs: "follows c view now xs st1 st2" "set xs \<subseteq> {AAck i}"
      by (elim disjE conjE) (force+)
    have "\<forall>k\<in>set ?ks. ty (K c k) = TString" using envD(7-9) [OF env] by simp
    from batch_delete_follows [OF env this, of now st2] obtain ys where
      ys: "follows c view now ys st2 ?st3" "only (\<lambda>a. \<exists>k. a = ADel k) ys" by blast
    note f = follows_trans [OF T(1) xs(1)] and g = follows_trans [OF follows_trans [OF T(1) xs(1)] ys(1)]
    from with_metrics [OF env g] obtain bg where
      bg: "reclaims bg" "follows c view now ((([] @ xs) @ ys) @ bg) st (recordQueueMetrics c now ?st3)" by blast
    have ox: "only (\<lambda>a. (\<exists>k. a = ADel k) \<or> (\<exists>i e. a = AAck i \<and> qv_str (look c view st) (K c (ticketKey c tk)) = Some (i, e) \<and> now < e)) xs"
      using xs(2) T(2) [OF Inr] unfolding only_def by blast
    show ?thesis
      using st' f bg(2) ox quiet_only [OF reclaims_quiet [OF bg(1)]] only_mono [OF ys(2)]
      by (elim disjE) (rule exI [of _ "[] @ xs"], simp, rule exI [of _ "(([] @ xs) @ ys) @ bg"], simp)
  qed
qed

section \<open>Enqueueing and requeueing\<close>

definition record_acts :: "'r RedisCoordinator \<Rightarrow> instant \<Rightarrow> string \<Rightarrow> string \<Rightarrow> int \<Rightarrow> qact list" where
  "record_acts c now i payload attempts =
    [ASet (K c (payloadKey c i)) payload (now + rc_payloadTTL c),
     ASet (K c (attemptKey c i)) (FormatInt attempts) (now + rc_payloadTTL c)]"

definition stores :: "'r RedisCoordinator \<Rightarrow> instant \<Rightarrow> OperationEnvelope \<Rightarrow> qact \<Rightarrow> bool" where
  "stores c now env a \<longleftrightarrow> (\<exists>x. rc_marshal c env = Inr x \<and> a = ASet (K c (payloadKey c (oe_ID env))) x (now + rc_payloadTTL c))
    \<or> (\<exists>n. a = ASet (K c (attemptKey c (oe_ID env))) (FormatInt n) (now + rc_payloadTTL c))"

text \<open>Payload and attempts are written first; a failure ends the operation there.\<close>

lemma persist_follows:
  assumes env: "redis_env c view ty" and call: "persistEnvelope c now e st = (r1, st1)"
  shows "\<exists>acts. follows c view now acts st st1 \<and> only (stores c now e) acts
    \<and> (r1 = None \<longrightarrow> (\<exists>x. rc_marshal c e = Inr x \<and> acts = [ASet (K c (payloadKey c (oe_ID e))) x (now + rc_payloadTTL c)]))
    \<and> (reliable (rc_server c) \<and> rc_marshal c e = Inr x \<longrightarrow> r1 = None)"
proof (cases "rc_marshal c e")
  case (Inl err)
  with call show ?thesis by (intro exI [of _ "[]"]) (auto simp: persistEnvelope_def intro!: follows_refl)
next
  case (Inr y)
  then have s: "on_data (SetKey (rc_server c) (rc_storePrefix c) now (payloadKey c (oe_ID e)) y (rc_payloadTTL c)) st = (r1, st1)"
    using call by (simp add: persistEnvelope_def)
  from set_step [OF env s envD(7) [OF env] envD(10) [OF env]] show ?thesis
  proof (elim disjE exE conjE)
    fix err assume "r1 = Some err" "follows c view now [] st st1" "\<not> reliable (rc_server c)"
    then show ?thesis by (intro exI [of _ "[]"]) simp
  next
    assume "r1 = None" "follows c view now [ASet (K c (payloadKey c (oe_ID e))) y (now + rc_payloadTTL c)] st st1"
    then show ?thesis using Inr
      by (intro exI [of _ "[ASet (K c (payloadKey c (oe_ID e))) y (now + rc_payloadTTL c)]"]) (auto simp: stores_def)
  qed
qed

lemma attempts_follows:
  assumes env: "redis_env c view ty" and call: "setAttempts c now (oe_ID e) n st = (r1, st1)"
  shows "\<exists>acts. follows c view now acts st st1 \<and> only (stores c now e) acts
    \<and> (r1 = None \<longrightarrow> acts = [ASet (K c (attemptKey c (oe_ID e))) (FormatInt n) (now + rc_payloadTTL c)])
    \<and> (reliable (rc_server c) \<longrightarrow> r1 = None)"
proof -
  from set_step [OF env call [unfolded setAttempts_def] envD(8) [OF env] envD(10) [OF env]] show ?thesis
  proof (elim disjE exE conjE)
    fix err assume "r1 = Some err" "follows c view now [] st st1" "\<not> reliable (rc_server c)"
    then show ?thesis by (intro exI [of _ "[]"]) simp
  next
    assume "r1 = None" "follows c view now [ASet (K c (attemptKey c (oe_ID e))) (FormatInt n) (now + rc_payloadTTL c)] st st1"
    then show ?thesis
      by (intro exI [of _ "[ASet (K c (attemptKey c (oe_ID e))) (FormatInt n) (now + rc_payloadTTL c)]"]) (auto simp: stores_def)
  qed
qed

definition requeue_act :: "instant \<Rightarrow> QueueItem \<Rightarrow> duration \<Rightarrow> qact" where
  "requeue_act now item delay =
    (if time_After (requeue_target now item delay) now
     then ARequeueSched (oe_ID (qi_Envelope item)) (UnixMilli (requeue_target now item delay))
     else ARequeueReady (oe_ID (qi_Envelope item)))"

lemma requeue_script_follows:
  assumes env: "redis_env c view ty" and
    call: "on_data (Eval (rc_server c) (rc_storePrefix c) [readyKey c, inflightKey c, inflightLeaseKey c, readyMembersKey c, scheduledKey c]
      (if time_After (requeue_target now item delay) now
       then (\<lambda>ks r. Some (luaRequeueScheduled (rc_server c) (ks ! 1) (ks ! 2) (ks ! 3) (ks ! 4) (oe_ID (qi_Envelope item))
              (UnixMilli (requeue_target now item delay)) r))
       else (\<lambda>ks r. Some (luaRequeueReady (rc_server c) (ks ! 0) (ks ! 1) (ks ! 2) (ks ! 3) (ks ! 4) (oe_ID (qi_Envelope item)) r)))) st
      = (res, st')"
  shows "(\<exists>e. res = Inl e) \<and> follows c view now [] st st' \<and> \<not> reliable (rc_server c)
    \<or> (\<exists>v. res = Inr v) \<and> follows c view now [requeue_act now item delay] st st'"
proof -
  let ?i = "oe_ID (qi_Envelope item)" let ?s = "UnixMilli (requeue_target now item delay)"
  have "(\<exists>e. res = Inl e) \<and> follows c view now [] st st' \<and> \<not> reliable (rc_server c)
    \<or> (\<exists>reply a. (reply \<noteq> VNil \<and> a = requeue_act now item delay) \<and> follows c view now [a] st st'
          \<and> res = (if reply = VNil then Inl RedisNil else Inr reply))"
  proof (rule script_follows [OF env call])
    fix r assume v: "view r = view (rq_data st)"
    let ?late = "luaRequeueScheduled (rc_server c) (K c (inflightKey c)) (K c (inflightLeaseKey c)) (K c (readyMembersKey c)) (K c (scheduledKey c)) ?i ?s r"
    let ?soon = "luaRequeueReady (rc_server c) (K c (readyKey c)) (K c (inflightKey c)) (K c (inflightLeaseKey c)) (K c (readyMembersKey c)) (K c (scheduledKey c)) ?i r"
    define out where "out = (if time_After (requeue_target now item delay) now then ?late else ?soon)"
    have l: "look_view c (view (snd ?late)) = q_requeue_sched ?i ?s (look c view st)"
      and m: "look_view c (view (snd ?soon)) = q_requeue_ready ?i (look c view st)"
      using requeue_sched_refines [OF env, of ?i ?s r] requeue_ready_refines [OF env, of ?i r] v by (simp_all add: look_def)
    have "qmove (UnixMilli now) (ageMs c) (rc_reclaimBatch c) (requeue_act now item delay) (look c view st) (look_view c (view (snd out)))"
    proof (cases "time_After (requeue_target now item delay) now")
      case True
      then show ?thesis using qmove.requeue_sched by (simp add: out_def requeue_act_def l del: look_fields)
    next
      case False
      then show ?thesis using qmove.requeue_ready by (simp add: out_def requeue_act_def m del: look_fields)
    qed
    moreover have "fst out \<noteq> VNil"
      by (simp add: out_def luaRequeueScheduled_def luaRequeueReady_def Let_def case_prod_beta)
    ultimately show "\<exists>reply r' a. (if time_After (requeue_target now item delay) now
       then (\<lambda>ks r. Some (luaRequeueScheduled (rc_server c) (ks ! 1) (ks ! 2) (ks ! 3) (ks ! 4) ?i ?s r))
       else (\<lambda>ks r. Some (luaRequeueReady (rc_server c) (ks ! 0) (ks ! 1) (ks ! 2) (ks ! 3) (ks ! 4) ?i r)))
        (map (K c) [readyKey c, inflightKey c, inflightLeaseKey c, readyMembersKey c, scheduledKey c]) r = Some (reply, r')
        \<and> (reply \<noteq> VNil \<and> a = requeue_act now item delay)
        \<and> qmove (UnixMilli now) (ageMs c) (rc_reclaimBatch c) a (look c view st) (look_view c (view r'))"
      by (intro exI [of _ "fst out"] exI [of _ "snd out"] exI [of _ "requeue_act now item delay"])
        (simp add: out_def eval_nat_numeral)
  qed
  then show ?thesis by auto
qed

lemma requeue_follows:
  assumes env: "redis_env c view ty" and call: "redis_Requeue c now (Some item) delay st = (res, st')"
  shows "\<exists>acts. follows c view now acts st st'
    \<and> only (\<lambda>a. stores c now (qi_Envelope item) a \<or> a = requeue_act now item delay) acts
    \<and> (oe_ID (qi_Envelope item) \<noteq> [] \<and> reliable (rc_server c) \<and> rc_marshal c (qi_Envelope item) = Inr x \<longrightarrow> res = None
        \<and> (\<exists>bg. reclaims bg \<and> acts = record_acts c now (oe_ID (qi_Envelope item)) x (qi_Attempts item) @ requeue_act now item delay # bg))"
proof (cases "oe_ID (qi_Envelope item) = []")
  case True
  with call show ?thesis by (intro exI [of _ "[]"]) (auto simp: redis_Requeue_def Let_def intro!: follows_refl)
next
  case False
  let ?e = "qi_Envelope item" let ?i = "oe_ID (qi_Envelope item)"
  obtain r1 st1 where p: "persistEnvelope c now ?e st = (r1, st1)" by fastforce
  obtain r2 st2 where a: "setAttempts c now ?i (qi_Attempts item) st1 = (r2, st2)" by fastforce
  obtain r3 st3 where ev: "on_data (Eval (rc_server c) (rc_storePrefix c) [readyKey c, inflightKey c, inflightLeaseKey c, readyMembersKey c, scheduledKey c]
      (if time_After (requeue_target now item delay) now
       then (\<lambda>ks r. Some (luaRequeueScheduled (rc_server c) (ks ! 1) (ks ! 2) (ks ! 3) (ks ! 4) ?i (UnixMilli (requeue_target now item delay)) r))
       else (\<lambda>ks r. Some (luaRequeueReady (rc_server c) (ks ! 0) (ks ! 1) (ks ! 2) (ks ! 3) (ks ! 4) ?i r)))) st2 = (r3, st3)" by fastforce
  from persist_follows [OF env p, of x] obtain xs where X: "follows c view now xs st st1" "only (stores c now ?e) xs"
    "r1 = None \<Longrightarrow> \<exists>x. rc_marshal c ?e = Inr x \<and> xs = [ASet (K c (payloadKey c ?i)) x (now + rc_payloadTTL c)]"
    "reliable (rc_server c) \<and> rc_marshal c ?e = Inr x \<Longrightarrow> r1 = None" by blast
  from attempts_follows [OF env a] obtain ys where Y: "follows c view now ys st1 st2" "only (stores c now ?e) ys"
    "r2 = None \<Longrightarrow> ys = [ASet (K c (attemptKey c ?i)) (FormatInt (qi_Attempts item)) (now + rc_payloadTTL c)]"
    "reliable (rc_server c) \<Longrightarrow> r2 = None" by blast
  from requeue_script_follows [OF env ev] obtain zs where Z: "follows c view now zs st2 st3" "set zs \<subseteq> {requeue_act now item delay}"
    "reliable (rc_server c) \<Longrightarrow> (\<exists>v. r3 = Inr v) \<and> zs = [requeue_act now item delay]"
    by (elim disjE conjE) (force+)
  note XYZ = follows_trans [OF follows_trans [OF X(1) Y(1)] Z(1)]
  from with_metrics [OF env XYZ] obtain bg where bg: "reclaims bg" "follows c view now (((xs @ ys) @ zs) @ bg) st (recordQueueMetrics c now st3)" by blast
  have unfold: "redis_Requeue c now (Some item) delay st =
      (case r1 of Some err \<Rightarrow> (Some err, st1) | None \<Rightarrow> (case r2 of Some err \<Rightarrow> (Some err, st2)
        | None \<Rightarrow> (case r3 of Inl err \<Rightarrow> if err_is err RedisNil then (None, recordQueueMetrics c now st3) else (Some err, st3)
            | Inr _ \<Rightarrow> (None, recordQueueMetrics c now st3))))"
    unfolding redis_Requeue_def using False p a ev by (simp add: Let_def split: option.split)
  have oz: "only (\<lambda>a. stores c now ?e a \<or> a = requeue_act now item delay) zs" using Z(2) by (auto simp: only_def)
  have ox: "only (\<lambda>a. stores c now ?e a \<or> a = requeue_act now item delay) (xs @ ys)"
    using only_mono [OF X(2)] only_mono [OF Y(2)] by simp
  have ob: "only (\<lambda>a. stores c now ?e a \<or> a = requeue_act now item delay) bg" by (rule quiet_only [OF reclaims_quiet [OF bg(1)]])
  show ?thesis
  proof (cases "reliable (rc_server c) \<and> rc_marshal c ?e = Inr x")
    case True
    then have R: "r1 = None" "r2 = None" "\<exists>v. r3 = Inr v" "zs = [requeue_act now item delay]" using X(4) Y(4) Z(3) by blast+
    from X(3) [OF R(1)] Y(3) [OF R(2)] True have xy: "xs @ ys = record_acts c now ?i x (qi_Attempts item)"
      by (auto simp: record_acts_def)
    have "res = None" "st' = recordQueueMetrics c now st3" using call unfolding unfold using R(1-3) by auto
    then show ?thesis
      using bg ox oz ob R(4) xy by (intro exI [of _ "((xs @ ys) @ zs) @ bg"]) auto
  next
    case notrel: False
    have "st' = st1 \<or> st' = st2 \<or> st' = st3 \<or> st' = recordQueueMetrics c now st3"
      using call unfolding unfold by (auto split: option.splits sum.splits if_splits)
    moreover have "\<exists>acts. follows c view now acts st s \<and> only (\<lambda>a. stores c now ?e a \<or> a = requeue_act now item delay) acts"
      if "s = st1 \<or> s = st2 \<or> s = st3 \<or> s = recordQueueMetrics c now st3" for s
      using that X(1) follows_trans [OF X(1) Y(1)] XYZ bg(2) ox oz ob
      by (elim disjE) (use only_simps(3) in blast)+
    ultimately show ?thesis using notrel by blast
  qed
qed

end
