(* ===== verification/RedisQueueServe.thy ===== *)
theory RedisQueueServe
  imports RedisQueueRuns
begin

text \<open>
  The paths of enqueueing, polling and dequeueing, and the actions any operation may take.
\<close>

section \<open>Enqueueing\<close>

lemma push_follows:
  assumes env: "redis_env c view ty" and call: "pushReady c i st = (res, st')"
  shows "(\<exists>e. res = Inl e) \<and> follows c view now [] st st' \<and> \<not> reliable (rc_server c)
    \<or> (\<exists>n. res = Inr n) \<and> follows c view now [APush i] st st'"
proof -
  obtain r st1 where ev: "on_data (Eval (rc_server c) (rc_storePrefix c) [readyKey c, readyMembersKey c]
            (\<lambda>ks r. Some (luaPushReady (rc_server c) (ks ! 0) (ks ! 1) i r))) st = (r, st1)" by fastforce
  have "(\<exists>e. r = Inl e) \<and> follows c view now [] st st1 \<and> \<not> reliable (rc_server c)
    \<or> (\<exists>reply a. ((\<exists>n. reply = VInt64 n) \<and> a = APush i) \<and> follows c view now [a] st st1
          \<and> r = (if reply = VNil then Inl RedisNil else Inr reply))"
  proof (rule script_follows [OF env ev])
    fix r0 assume v: "view r0 = view (rq_data st)"
    let ?out = "luaPushReady (rc_server c) (K c (readyKey c)) (K c (readyMembersKey c)) i r0"
    have "look_view c (view (snd ?out)) = q_push i (look c view st)" using push_refines [OF env, of i r0] v by (simp add: look_def)
    then have "qmove (UnixMilli now) (ageMs c) (rc_reclaimBatch c) (APush i) (look c view st) (look_view c (view (snd ?out)))"
      using qmove.push by metis
    moreover have "\<exists>n. fst ?out = VInt64 n" by (simp add: luaPushReady_def case_prod_beta)
    ultimately show "\<exists>reply r' a. Some (luaPushReady (rc_server c) (map (K c) [readyKey c, readyMembersKey c] ! 0)
          (map (K c) [readyKey c, readyMembersKey c] ! 1) i r0) = Some (reply, r') \<and> ((\<exists>n. reply = VInt64 n) \<and> a = APush i)
        \<and> qmove (UnixMilli now) (ageMs c) (rc_reclaimBatch c) a (look c view st) (look_view c (view r'))"
      by (intro exI [of _ "fst ?out"] exI [of _ "snd ?out"] exI [of _ "APush i"]) simp
  qed
  then show ?thesis using call ev by (auto simp: pushReady_def toInt64_def)
qed

lemma enqueue_follows:
  assumes env: "redis_env c view ty" and call: "redis_Enqueue c now (Some e) st = (res, st')"
  shows "\<exists>acts. follows c view now acts st st'
    \<and> only (\<lambda>a. stores c now e a \<or> a = APush (oe_ID e) \<or> a = ASet (K c (ticketKey c (rc_newID c now))) (oe_ID e) (now + rc_ticketTTL c)) acts
    \<and> (oe_ID e \<noteq> [] \<and> reliable (rc_server c) \<and> rc_marshal c e = Inr x \<longrightarrow> (\<exists>t. res = Inr t \<and> qt_OperationID t = oe_ID e)
        \<and> (\<exists>bg. reclaims bg \<and> acts = record_acts c now (oe_ID e) x 0 @ APush (oe_ID e)
              # ASet (K c (ticketKey c (rc_newID c now))) (oe_ID e) (now + rc_ticketTTL c) # bg))"
proof (cases "oe_ID e = []")
  case True
  with call show ?thesis by (intro exI [of _ "[]"]) (auto simp: redis_Enqueue_def intro!: follows_refl)
next
  case False
  let ?tk = "ticketKey c (rc_newID c now)"
  let ?P = "\<lambda>a. stores c now e a \<or> a = APush (oe_ID e) \<or> a = ASet (K c ?tk) (oe_ID e) (now + rc_ticketTTL c)"
  obtain r1 st1 where p: "persistEnvelope c now e st = (r1, st1)" by fastforce
  obtain r2 st2 where a: "setAttempts c now (oe_ID e) 0 st1 = (r2, st2)" by fastforce
  obtain r3 st3 where u: "pushReady c (oe_ID e) st2 = (r3, st3)" by fastforce
  obtain r4 st4 where tk: "on_data (SetKey (rc_server c) (rc_storePrefix c) now ?tk (oe_ID e) (rc_ticketTTL c)) st3 = (r4, st4)" by fastforce
  from persist_follows [OF env p, of x] obtain xs where X: "follows c view now xs st st1" "only (stores c now e) xs"
    "r1 = None \<Longrightarrow> \<exists>x. rc_marshal c e = Inr x \<and> xs = [ASet (K c (payloadKey c (oe_ID e))) x (now + rc_payloadTTL c)]"
    "reliable (rc_server c) \<and> rc_marshal c e = Inr x \<Longrightarrow> r1 = None" by blast
  from attempts_follows [OF env a] obtain ys where Y: "follows c view now ys st1 st2" "only (stores c now e) ys"
    "r2 = None \<Longrightarrow> ys = [ASet (K c (attemptKey c (oe_ID e))) (FormatInt 0) (now + rc_payloadTTL c)]"
    "reliable (rc_server c) \<Longrightarrow> r2 = None" by blast
  from push_follows [OF env u, of now] obtain zs where Z: "follows c view now zs st2 st3" "set zs \<subseteq> {APush (oe_ID e)}"
    "reliable (rc_server c) \<Longrightarrow> (\<exists>n. r3 = Inr n) \<and> zs = [APush (oe_ID e)]"
    by (elim disjE conjE) (force+)
  from set_step [OF env tk envD(9) [OF env] envD(11) [OF env]] obtain ws where
    W: "follows c view now ws st3 st4" "set ws \<subseteq> {ASet (K c ?tk) (oe_ID e) (now + rc_ticketTTL c)}"
    "reliable (rc_server c) \<Longrightarrow> r4 = None \<and> ws = [ASet (K c ?tk) (oe_ID e) (now + rc_ticketTTL c)]"
    by (elim disjE conjE) (force+)
  note F2 = follows_trans [OF X(1) Y(1)] and F3 = follows_trans [OF follows_trans [OF X(1) Y(1)] Z(1)]
    and F4 = follows_trans [OF follows_trans [OF follows_trans [OF X(1) Y(1)] Z(1)] W(1)]
  from with_metrics [OF env F4] obtain bg where bg: "reclaims bg"
    "follows c view now ((((xs @ ys) @ zs) @ ws) @ bg) st (recordQueueMetrics c now st4)" by blast
  let ?ticket = "\<lambda>len. \<lparr>qt_TicketID = rc_newID c now, qt_OperationID = oe_ID e, qt_QueuePosition = max (len - 1) 0,
      qt_EstimatedWait = 0, qt_IssuedAt = now, qt_Degraded = False, qt_BackpressureTag = []\<rparr>"
  have unfold: "redis_Enqueue c now (Some e) st =
      (case r1 of Some err \<Rightarrow> (Inl err, st1) | None \<Rightarrow> (case r2 of Some err \<Rightarrow> (Inl err, st2)
        | None \<Rightarrow> (case r3 of Inl err \<Rightarrow> (Inl err, st3)
            | Inr len \<Rightarrow> (case r4 of Some err \<Rightarrow> (Inl err, st4) | None \<Rightarrow> (Inr (?ticket len), recordQueueMetrics c now st4)))))"
    unfolding redis_Enqueue_def using False p a u tk by (simp add: Let_def split: option.split sum.split)
  have o2: "only ?P xs" "only ?P ys" using only_mono [OF X(2)] only_mono [OF Y(2)] by simp_all
  have o3: "only ?P zs" "only ?P ws" using Z(2) W(2) by (auto simp: only_def)
  have ob: "only ?P bg" by (rule quiet_only [OF reclaims_quiet [OF bg(1)]])
  show ?thesis
  proof (cases "reliable (rc_server c) \<and> rc_marshal c e = Inr x")
    case True
    then obtain len where R: "r1 = None" "r2 = None" "r3 = Inr len" "zs = [APush (oe_ID e)]" "r4 = None"
      "ws = [ASet (K c ?tk) (oe_ID e) (now + rc_ticketTTL c)]" using X(4) Y(4) Z(3) W(3) by blast
    from X(3) [OF R(1)] Y(3) [OF R(2)] True have xy: "xs @ ys = record_acts c now (oe_ID e) x 0"
      by (auto simp: record_acts_def)
    have "only ?P (xs @ ys)" using o2 by simp
    then have oxy: "only ?P (record_acts c now (oe_ID e) x 0)" unfolding xy .
    have "res = Inr (?ticket len)" "st' = recordQueueMetrics c now st4" using call unfolding unfold using R by auto
    then show ?thesis
      using bg oxy o3 ob R(4,6) xy by (intro exI [of _ "(((xs @ ys) @ zs) @ ws) @ bg"]) auto
  next
    case notrel: False
    have "st' = st1 \<or> st' = st2 \<or> st' = st3 \<or> st' = st4 \<or> st' = recordQueueMetrics c now st4"
      using call unfolding unfold by (auto split: option.splits sum.splits)
    moreover have "\<exists>acts. follows c view now acts st st1 \<and> only ?P acts" using X(1) o2 by blast
    moreover have "\<exists>acts. follows c view now acts st st2 \<and> only ?P acts"
      by (rule exI [of _ "xs @ ys"]) (simp add: F2 o2 del: append_assoc)
    moreover have "\<exists>acts. follows c view now acts st st3 \<and> only ?P acts"
      by (rule exI [of _ "(xs @ ys) @ zs"]) (simp add: F3 o2 o3 del: append_assoc)
    moreover have "\<exists>acts. follows c view now acts st st4 \<and> only ?P acts"
      by (rule exI [of _ "((xs @ ys) @ zs) @ ws"]) (simp add: F4 o2 o3 del: append_assoc)
    moreover have "\<exists>acts. follows c view now acts st (recordQueueMetrics c now st4) \<and> only ?P acts"
      by (rule exI [of _ "(((xs @ ys) @ zs) @ ws) @ bg"]) (simp add: bg(2) o2 o3 ob del: append_assoc)
    ultimately obtain acts where "follows c view now acts st st'" "only ?P acts" by (elim disjE) blast+
    then show ?thesis using notrel by (intro exI [of _ acts] conjI impI; (elim conjE)?; simp)
  qed
qed

section \<open>Polling\<close>

lemma query_step:
  assumes env: "redis_env c view ty" and call: "on_data (Eval (rc_server c) (rc_storePrefix c) ks script) st = (res, st')"
    and q: "\<And>r. view r = view (rq_data st) \<Longrightarrow> \<exists>reply. script (map (K c) ks) r = Some (reply, r) \<and> P reply"
  shows "look c view st' = look c view st"
    and "reliable (rc_server c) \<Longrightarrow> \<exists>reply. P reply \<and> res = (if reply = VNil then Inl RedisNil else Inr reply)"
proof -
  have "(\<exists>e. res = Inl e) \<and> look c view st' = look c view st \<and> \<not> reliable (rc_server c)
    \<or> (\<exists>reply. (P reply \<and> view (rq_data st') = view (rq_data st)) \<and> res = (if reply = VNil then Inl RedisNil else Inr reply))"
  proof (rule eval_step(1) [OF env call])
    fix r assume v: "view r = view (rq_data st)"
    from q [OF v] v show "\<exists>reply r'. script (map (K c) ks) r = Some (reply, r') \<and> P reply \<and> view r' = view (rq_data st)" by blast
  qed
  then have "look c view st' = look c view st \<and> (reliable (rc_server c) \<longrightarrow>
      (\<exists>reply. P reply \<and> res = (if reply = VNil then Inl RedisNil else Inr reply)))"
  proof (elim disjE exE conjE)
    fix e assume "look c view st' = look c view st" "\<not> reliable (rc_server c)"
    then show ?thesis by simp
  next
    fix reply assume "P reply" "view (rq_data st') = view (rq_data st)" "res = (if reply = VNil then Inl RedisNil else Inr reply)"
    then show ?thesis unfolding look_def by (intro conjI impI exI [of _ reply]) simp_all
  qed
  then show "look c view st' = look c view st"
    "reliable (rc_server c) \<Longrightarrow> \<exists>reply. P reply \<and> res = (if reply = VNil then Inl RedisNil else Inr reply)"
    by simp_all
qed

lemma position_step:
  assumes env: "redis_env c view ty" and call: "listPosition c i st = (res, st')"
  shows "look c view st' = look c view st"
    and "reliable (rc_server c) \<Longrightarrow> \<exists>p. res = Inr p \<and> (p < 0 \<longleftrightarrow> i \<notin> set (qv_ready (look c view st)))"
proof -
  obtain r st1 where ev: "on_data (Eval (rc_server c) (rc_storePrefix c) [readyKey c]
      (\<lambda>ks r. Some (luaListPosition (rc_server c) (ks ! 0) i r))) st = (r, st1)" by fastforce
  note Q = query_step [OF env ev, where P = "\<lambda>reply. \<exists>p. reply = VInt64 p \<and> (p < 0 \<longleftrightarrow> i \<notin> set (qv_ready (look c view st)))"]
  have q: "\<exists>reply. Some (luaListPosition (rc_server c) (map (K c) [readyKey c] ! 0) i r0) = Some (reply, r0)
      \<and> (\<exists>p. reply = VInt64 p \<and> (p < 0 \<longleftrightarrow> i \<notin> set (qv_ready (look c view st))))" if "view r0 = view (rq_data st)" for r0
    using list_facts(6) [OF envD(1,2) [OF env], of i r0] that by (simp add: luaListPosition_def look_def)
  show "look c view st' = look c view st" using Q(1) [OF q] call ev by (auto simp: listPosition_def split: sum.splits)
  show "reliable (rc_server c) \<Longrightarrow> \<exists>p. res = Inr p \<and> (p < 0 \<longleftrightarrow> i \<notin> set (qv_ready (look c view st)))"
    using Q(2) [OF q] call ev by (auto simp: listPosition_def toInt64_def)
qed

lemma inflight_step:
  assumes env: "redis_env c view ty" and call: "isInflight c i st = (res, st')"
  shows "look c view st' = look c view st"
    and "reliable (rc_server c) \<Longrightarrow> res = Inr (i \<in> qv_inflight (look c view st))"
proof -
  obtain r st1 where ev: "on_data (Eval (rc_server c) (rc_storePrefix c) [inflightKey c]
      (\<lambda>ks r. Some (luaIsInflight (rc_server c) (ks ! 0) i r))) st = (r, st1)" by fastforce
  note Q = query_step [OF env ev, where P = "\<lambda>reply. reply = VInt64 (if i \<in> qv_inflight (look c view st) then 1 else 0)"]
  have q: "\<exists>reply. Some (luaIsInflight (rc_server c) (map (K c) [inflightKey c] ! 0) i r0) = Some (reply, r0)
      \<and> reply = VInt64 (if i \<in> qv_inflight (look c view st) then 1 else 0)" if "view r0 = view (rq_data st)" for r0
    using set_facts(6) [OF envD(1,4) [OF env], of i r0] that by (simp add: luaIsInflight_def look_def)
  show "look c view st' = look c view st" using Q(1) [OF q] call ev by (auto simp: isInflight_def split: sum.splits)
  show "reliable (rc_server c) \<Longrightarrow> res = Inr (i \<in> qv_inflight (look c view st))"
    using Q(2) [OF q] call ev by (auto simp: isInflight_def toBool_def toInt64_def split: if_splits)
qed

lemma score_step:
  assumes env: "redis_env c view ty" and call: "scheduledScore c i st = (res, st')"
  shows "look c view st' = look c view st"
    and "reliable (rc_server c) \<Longrightarrow> \<forall>s. qv_sched (look c view st) i = Some s \<longrightarrow> in64 s \<Longrightarrow> res = Inr (qv_sched (look c view st) i)"
proof -
  obtain r st1 where ev: "on_data (Eval (rc_server c) (rc_storePrefix c) [scheduledKey c]
      (\<lambda>ks r. Some (luaScheduledScore (rc_server c) (ks ! 0) i r))) st = (r, st1)" by fastforce
  note Q = query_step [OF env ev, where P = "\<lambda>reply. reply = (case qv_sched (look c view st) i of None \<Rightarrow> VNil | Some s \<Rightarrow> VString (FormatInt s))"]
  have q: "\<exists>reply. Some (luaScheduledScore (rc_server c) (map (K c) [scheduledKey c] ! 0) i r0) = Some (reply, r0)
      \<and> reply = (case qv_sched (look c view st) i of None \<Rightarrow> VNil | Some s \<Rightarrow> VString (FormatInt s))" if "view r0 = view (rq_data st)" for r0
    using zset_facts(6) [OF envD(1,6) [OF env], of i r0] that by (simp add: luaScheduledScore_def look_def split: option.split)
  show "look c view st' = look c view st" using Q(1) [OF q] call ev by (auto simp: scheduledScore_def split: sum.splits)
  show "res = Inr (qv_sched (look c view st) i)"
    if "reliable (rc_server c)" "\<forall>s. qv_sched (look c view st) i = Some s \<longrightarrow> in64 s"
  proof (cases "qv_sched (look c view st) i")
    case None
    then show ?thesis using Q(2) [OF q that(1)] call ev by (auto simp: scheduledScore_def RedisNil_def)
  next
    case (Some s)
    then have "in64 s" using that(2) by blast
    then show ?thesis using Q(2) [OF q that(1)] call ev Some
      by (auto simp: scheduledScore_def toFloat64_def ParseInt_FormatInt TrimSpace_FormatInt)
  qed
qed

text \<open>What a poll reports, from the queue's own data.\<close>

definition poll_result :: "instant \<Rightarrow> string \<Rightarrow> qview \<Rightarrow> QueueStatus \<Rightarrow> bool" where
  "poll_result now i q s \<longleftrightarrow> qs_OperationID s = i
    \<and> qs_State s = (if i \<in> qv_inflight q then StateExecuting
         else if i \<notin> set (qv_ready q) \<and> qv_sched q i = None then StateCompleted else StateQueued)
    \<and> 0 \<le> qs_Remaining s \<and> (qs_Position s < 0 \<longleftrightarrow> i \<notin> set (qv_ready q))"

lemma poll_follows:
  assumes env: "redis_env c view ty" and call: "redis_Poll c now tk st = (res, st')"
  shows "look c view st' = look c view st"
    and "reliable (rc_server c) \<Longrightarrow> \<forall>i s. qv_sched (look c view st) i = Some s \<longrightarrow> in64 s \<Longrightarrow> tk \<noteq> [] \<Longrightarrow>
      qv_str (look c view st) (K c (ticketKey c tk)) = Some (i, e) \<Longrightarrow> now < e \<Longrightarrow>
      \<exists>s. res = Inr s \<and> poll_result now i (look c view st) s"
proof -
  obtain r0 st0 where g: "on_data (GetKey (rc_server c) (rc_storePrefix c) now (ticketKey c tk)) st = (r0, st0)" by fastforce
  note G = get_step [OF env g envD(9) [OF env]]
  obtain r1 st1 where t: "ticket_operation c now tk st = (r1, st1)" by fastforce
  have st1: "st1 = st0" "r0 = Inr j \<Longrightarrow> r1 = Inr j" for j
    using t g by (auto simp: ticket_operation_def split: sum.splits)
  define j where "j = (case r1 of Inr j \<Rightarrow> j | Inl _ \<Rightarrow> [])"
  obtain r2 st2 where p: "listPosition c j st1 = (r2, st2)" by fastforce
  obtain r3 st3 where f: "isInflight c j st2 = (r3, st3)" by fastforce
  obtain r4 st4 where s: "scheduledScore c j st3 = (r4, st4)" by fastforce
  note Q = position_step [OF env p] inflight_step [OF env f] score_step [OF env s]
  have l: "look c view st1 = look c view st" "look c view st2 = look c view st" "look c view st3 = look c view st"
    "look c view st4 = look c view st" using G(1) Q(1,3,5) st1(1) by simp_all
  have unfold: "redis_Poll c now tk st = (if tk = [] then (Inl (OpErr ''ticket id is required''), st)
      else case r1 of Inl err \<Rightarrow> (Inl err, st1) | Inr _ \<Rightarrow>
        (case r2 of Inl err \<Rightarrow> (Inl err, st2) | Inr position \<Rightarrow>
          (case r3 of Inl err \<Rightarrow> (Inl err, st3) | Inr inflight \<Rightarrow>
            if \<not> inflight \<and> position < 0
            then (case r4 of Inl err \<Rightarrow> (Inl err, st4) | Inr score \<Rightarrow> (Inr (poll_status now j position inflight score), st4))
            else (Inr (poll_status now j position inflight None), st3))))"
    unfolding redis_Poll_def using t p f s by (cases r1; simp add: j_def split: sum.split)
  show "look c view st' = look c view st"
    using call l unfolding unfold by (auto split: sum.splits if_splits)
  assume A: "reliable (rc_server c)" "\<forall>i s. qv_sched (look c view st) i = Some s \<longrightarrow> in64 s" "tk \<noteq> []"
    "qv_str (look c view st) (K c (ticketKey c tk)) = Some (i, e)" "now < e"
  have r1: "r1 = Inr i" using G(3) [OF A(1)] A(4,5) st1(2) by simp
  then have j: "j = i" by (simp add: j_def)
  from Q(2) [OF A(1)] obtain pos where pos: "r2 = Inr pos" "pos < 0 \<longleftrightarrow> i \<notin> set (qv_ready (look c view st))" unfolding j l by blast
  have r3: "r3 = Inr (i \<in> qv_inflight (look c view st))" using Q(4) [OF A(1)] unfolding j l .
  have r4: "r4 = Inr (qv_sched (look c view st) i)" using Q(6) [OF A(1)] A(2) unfolding j l by blast
  show "\<exists>s. res = Inr s \<and> poll_result now i (look c view st) s"
    using call A(3) r1 pos r3 r4 unfolding unfold j
    by (auto simp: poll_result_def poll_status_def duration_units split: option.splits if_splits)
qed

section \<open>Dequeueing\<close>

lemma str_move: "qmove now age batch a q q' \<Longrightarrow> background a \<or> (\<exists>r. a = APop r) \<Longrightarrow> qv_str q' = qv_str q"
proof (induction rule: qmove.induct)
  case (pop q r q')
  then show ?case using pop_split [OF pop(1)] by auto
qed simp_all

lemma str_path: "qpath now age batch acts q q' \<Longrightarrow> only (\<lambda>a. \<exists>r. a = APop r) acts \<Longrightarrow> qv_str q' = qv_str q"
  by (induction acts arbitrary: q) (auto dest!: str_move)

lemma release_follows:
  assumes env: "redis_env c view ty" and call: "releaseDue c now st = (res, st')"
  shows "\<exists>acts. follows c view now acts st st' \<and> quiet acts
    \<and> (reliable (rc_server c) \<longrightarrow> res = None \<and> (\<exists>bg. reclaims bg \<and> acts = ARelease # bg))"
proof -
  obtain r st1 where ev: "on_data (Eval (rc_server c) (rc_storePrefix c) [scheduledKey c, readyKey c, readyMembersKey c]
            (\<lambda>ks. luaReleaseDue (rc_server c) (ks ! 0) (ks ! 1) (ks ! 2) (UnixMilli now))) st = (r, st1)" by fastforce
  have "(\<exists>e. r = Inl e) \<and> follows c view now [] st st1 \<and> \<not> reliable (rc_server c)
    \<or> (\<exists>reply a. (reply \<noteq> VNil \<and> a = ARelease) \<and> follows c view now [a] st st1
          \<and> r = (if reply = VNil then Inl RedisNil else Inr reply))"
  proof (rule script_follows [OF env ev])
    fix r0 assume v: "view r0 = view (rq_data st)"
    let ?n = "Suc (nat (c_ZCARD (rc_server c) (K c (scheduledKey c)) r0))"
    have "card (dom (qv_sched (look_view c (view r0)))) < ?n"
      using zset_facts(7) [OF envD(1,6) [OF env], of r0] by simp
    from release_refines [OF env this, where now = "UnixMilli now" and moved = 0] obtain m r' ids where
      R: "release_due_loop (rc_server c) (K c (scheduledKey c)) (K c (readyKey c)) (K c (readyMembersKey c)) (UnixMilli now) ?n 0 r0 = Some (m, r')"
      "distinct ids" "set ids = due_ids (qv_sched (look c view st)) (UnixMilli now) - qv_members (look c view st)"
      "sorted (map (\<lambda>i. the (qv_sched (look c view st) i)) ids)"
      "look_view c (view r') = (look c view st)\<lparr>qv_ready := qv_ready (look c view st) @ ids,
          qv_members := qv_members (look c view st) \<union> due_ids (qv_sched (look c view st)) (UnixMilli now),
          qv_sched := qv_sched (look c view st) |` (- due_ids (qv_sched (look c view st)) (UnixMilli now))\<rparr>"
      unfolding v look_def by blast
    have "qmove (UnixMilli now) (ageMs c) (rc_reclaimBatch c) ARelease (look c view st) (look_view c (view r'))"
      unfolding R(5) by (rule qmove.release [OF R(2-4)])
    then show "\<exists>reply r' a. luaReleaseDue (rc_server c) (map (K c) [scheduledKey c, readyKey c, readyMembersKey c] ! 0)
        (map (K c) [scheduledKey c, readyKey c, readyMembersKey c] ! 1) (map (K c) [scheduledKey c, readyKey c, readyMembersKey c] ! 2)
        (UnixMilli now) r0 = Some (reply, r') \<and> (reply \<noteq> VNil \<and> a = ARelease)
        \<and> qmove (UnixMilli now) (ageMs c) (rc_reclaimBatch c) a (look c view st) (look_view c (view r'))"
      using R(1) by (intro exI [of _ "VInt64 m"] exI [of _ r'] exI [of _ ARelease]) (simp add: luaReleaseDue_def numeral_2_eq_2 del: release_due_loop.simps)
  qed
  then show ?thesis
  proof (elim disjE exE conjE)
    fix e assume e: "r = Inl e" "follows c view now [] st st1" "\<not> reliable (rc_server c)"
    from with_metrics [OF env e(2)] obtain bg where bg: "reclaims bg" "follows c view now bg st (recordQueueMetrics c now st1)" by auto
    have "st' = st1 \<or> st' = recordQueueMetrics c now st1" using call ev e(1) by (auto simp: releaseDue_def split: if_splits)
    then show ?thesis using bg e(2,3) reclaims_quiet [OF bg(1)] by (elim disjE) (auto intro: exI [of _ "[]"])
  next
    fix reply a assume r: "reply \<noteq> VNil" "a = ARelease" "follows c view now [a] st st1" "r = (if reply = VNil then Inl RedisNil else Inr reply)"
    from with_metrics [OF env r(3)] r(2) obtain bg where bg: "reclaims bg" "follows c view now (ARelease # bg) st (recordQueueMetrics c now st1)" by auto
    have "res = None" "st' = recordQueueMetrics c now st1" using call ev r(1,4) by (auto simp: releaseDue_def)
    then show ?thesis using bg reclaims_quiet [OF bg(1)] by (intro exI [of _ "ARelease # bg"]) auto
  qed
qed

lemma pop_follows:
  assumes env: "redis_env c view ty" and call: "popReady c now st = (res, st')"
  shows "(\<exists>e. res = Inl e \<or> res = Inr []) \<and> follows c view now [] st st' \<and> \<not> reliable (rc_server c)
    \<or> (\<exists>r. follows c view now [APop r] st st' \<and> res = Inr (case r of None \<Rightarrow> [] | Some i \<Rightarrow> i))"
proof -
  obtain r st1 where ev: "on_data (Eval (rc_server c) (rc_storePrefix c) [readyKey c, inflightKey c, inflightLeaseKey c, readyMembersKey c]
            (\<lambda>ks. luaPopReady (rc_server c) (ks ! 0) (ks ! 1) (ks ! 2) (ks ! 3) (UnixMilli now))) st = (r, st1)" by fastforce
  have "(\<exists>e. r = Inl e) \<and> follows c view now [] st st1 \<and> \<not> reliable (rc_server c)
    \<or> (\<exists>reply a. (\<exists>w. reply = (case w of None \<Rightarrow> VNil | Some i \<Rightarrow> VString i) \<and> a = APop w) \<and> follows c view now [a] st st1
          \<and> r = (if reply = VNil then Inl RedisNil else Inr reply))"
  proof (rule script_follows [OF env ev])
    fix r0 assume v: "view r0 = view (rq_data st)"
    let ?n = "Suc (nat (c_LLEN (rc_server c) (K c (readyKey c)) r0))"
    have "length (qv_ready (look_view c (view r0))) < ?n" using list_facts(1) [OF envD(1,2) [OF env], of r0] by simp
    from pop_refines [OF env this, of "UnixMilli now"] obtain w r' where
      R: "pop_ready_loop (rc_server c) (K c (readyKey c)) (K c (inflightKey c)) (K c (inflightLeaseKey c)) (K c (readyMembersKey c)) (UnixMilli now) ?n r0
        = Some (w, r')" "q_pop (UnixMilli now) (look c view st) = (w, look_view c (view r'))" unfolding v look_def by blast
    show "\<exists>reply r' a. luaPopReady (rc_server c) (map (K c) [readyKey c, inflightKey c, inflightLeaseKey c, readyMembersKey c] ! 0)
        (map (K c) [readyKey c, inflightKey c, inflightLeaseKey c, readyMembersKey c] ! 1)
        (map (K c) [readyKey c, inflightKey c, inflightLeaseKey c, readyMembersKey c] ! 2)
        (map (K c) [readyKey c, inflightKey c, inflightLeaseKey c, readyMembersKey c] ! 3) (UnixMilli now) r0 = Some (reply, r')
        \<and> (\<exists>w. reply = (case w of None \<Rightarrow> VNil | Some i \<Rightarrow> VString i) \<and> a = APop w)
        \<and> qmove (UnixMilli now) (ageMs c) (rc_reclaimBatch c) a (look c view st) (look_view c (view r'))"
      using R(1) qmove.pop [OF R(2)]
      by (intro exI [of _ "case w of None \<Rightarrow> VNil | Some i \<Rightarrow> VString i"] exI [of _ r'] exI [of _ "APop w"])
        (auto simp: luaPopReady_def eval_nat_numeral simp del: pop_ready_loop.simps)
  qed
  then show ?thesis
  proof (elim disjE exE conjE)
    fix e assume "r = Inl e" "follows c view now [] st st1" "\<not> reliable (rc_server c)"
    then show ?thesis using call ev by (cases "err_is e RedisNil") (auto simp: popReady_def)
  next
    fix reply a w assume "reply = (case w of None \<Rightarrow> VNil | Some i \<Rightarrow> VString i)" "a = APop w" "follows c view now [a] st st1"
      "r = (if reply = VNil then Inl RedisNil else Inr reply)"
    then show ?thesis using call ev
      by (intro disjI2 exI [of _ w]) (auto simp: popReady_def toString_def RedisNil_def split: option.splits)
  qed
qed

definition live :: "instant \<Rightarrow> (string \<times> instant) option \<Rightarrow> string option" where
  "live now x = (case x of None \<Rightarrow> None | Some (v, e) \<Rightarrow> if now < e then Some v else None)"

text \<open>What dequeueing hands out for an id, from the stored strings.\<close>

definition stored_item :: "'r RedisCoordinator \<Rightarrow> instant \<Rightarrow> qview \<Rightarrow> string \<Rightarrow> op_error + QueueItem" where
  "stored_item c now q i =
    (case live now (qv_str q (K c (payloadKey c i))) of
       None \<Rightarrow> Inl RedisNil
     | Some x \<Rightarrow>
         (case rc_unmarshal c x of
            Inl err \<Rightarrow> Inl err
          | Inr env \<Rightarrow>
              (case live now (qv_str q (K c (attemptKey c i))) of
                 None \<Rightarrow> Inr \<lparr>qi_Envelope = env, qi_Attempts = 0, qi_AvailableAt = now\<rparr>
               | Some v \<Rightarrow>
                   (case ParseInt v of
                      None \<Rightarrow> Inl (OpErr (''strconv.Atoi: parsing '' @ v))
                    | Some n \<Rightarrow> Inr \<lparr>qi_Envelope = env, qi_Attempts = n, qi_AvailableAt = now\<rparr>))))"

lemma attempts_step:
  assumes env: "redis_env c view ty" and call: "getAttempts c now i st = (res, st')"
  shows "look c view st' = look c view st"
    and "reliable (rc_server c) \<Longrightarrow> res = (case live now (qv_str (look c view st) (K c (attemptKey c i))) of
        None \<Rightarrow> Inr 0 | Some v \<Rightarrow> (case ParseInt v of None \<Rightarrow> Inl (OpErr (''strconv.Atoi: parsing '' @ v)) | Some n \<Rightarrow> Inr n))"
proof -
  obtain r st1 where g: "on_data (GetKey (rc_server c) (rc_storePrefix c) now (attemptKey c i)) st = (r, st1)" by fastforce
  note G = get_step [OF env g envD(8) [OF env]]
  show "look c view st' = look c view st" using G(1) call g by (auto simp: getAttempts_def split: sum.splits)
  show "reliable (rc_server c) \<Longrightarrow> res = (case live now (qv_str (look c view st) (K c (attemptKey c i))) of
        None \<Rightarrow> Inr 0 | Some v \<Rightarrow> (case ParseInt v of None \<Rightarrow> Inl (OpErr (''strconv.Atoi: parsing '' @ v)) | Some n \<Rightarrow> Inr n))"
    using G(3) call g by (auto simp: getAttempts_def live_def RedisNil_def split: option.splits if_splits)
qed

lemma deliver_follows:
  assumes env: "redis_env c view ty"
    and call: "(case on_data (GetKey (rc_server c) (rc_storePrefix c) now (payloadKey c i)) st of
                  (Inl err, st4) \<Rightarrow> (Inl err, st4)
                | (Inr payload, st4) \<Rightarrow>
                    (case rc_unmarshal c payload of
                       Inl err \<Rightarrow> (Inl err, st4)
                     | Inr env \<Rightarrow>
                         (case getAttempts c now i st4 of
                            (Inl err, st5) \<Rightarrow> (Inl err, st5)
                          | (Inr attempts, st5) \<Rightarrow>
                              (Inr \<lparr>qi_Envelope = env, qi_Attempts = attempts, qi_AvailableAt = now\<rparr>,
                               recordQueueMetrics c now st5)))) = (res, st')"
  shows "\<exists>bg. reclaims bg \<and> follows c view now bg st st'"
    and "res = Inr item \<Longrightarrow> \<exists>x. live now (qv_str (look c view st) (K c (payloadKey c i))) = Some x \<and> rc_unmarshal c x = Inr (qi_Envelope item)"
    and "reliable (rc_server c) \<Longrightarrow> res = stored_item c now (look c view st) i"
proof -
  obtain r4 st4 where g: "on_data (GetKey (rc_server c) (rc_storePrefix c) now (payloadKey c i)) st = (r4, st4)" by fastforce
  note G = get_step [OF env g envD(7) [OF env]]
  obtain r5 st5 where a: "getAttempts c now i st4 = (r5, st5)" by fastforce
  note A = attempts_step [OF env a]
  have l: "look c view st4 = look c view st" "look c view st5 = look c view st" using G(1) A(1) by simp_all
  have "st' = st4 \<or> st' = st5 \<or> st' = recordQueueMetrics c now st5"
    using call g a by (auto split: sum.splits prod.splits)
  moreover obtain bg where bg: "reclaims bg" "follows c view now bg st5 (recordQueueMetrics c now st5)"
    using metrics_follows [OF env] by blast
  moreover have "follows c view now bg st (recordQueueMetrics c now st5)" using bg(2) l(2) by (simp add: follows_def)
  ultimately show "\<exists>bg. reclaims bg \<and> follows c view now bg st st'"
    using l by (elim disjE) (auto simp: reclaims_def intro: follows_refl)
  show "res = Inr item \<Longrightarrow> \<exists>x. live now (qv_str (look c view st) (K c (payloadKey c i))) = Some x \<and> rc_unmarshal c x = Inr (qi_Envelope item)"
    using call g a G(2) by (auto simp: live_def split: sum.splits prod.splits)
  show "reliable (rc_server c) \<Longrightarrow> res = stored_item c now (look c view st) i"
    using call g a G(3) A(2) unfolding l
    by (auto simp: stored_item_def live_def split: sum.splits prod.splits option.splits if_splits)
qed

text \<open>The full shape of a dequeue: reclaim, release what is due, pop, and what the pop yields.\<close>

definition served_by ::
  "'r RedisCoordinator \<Rightarrow> ('r \<Rightarrow> rview) \<Rightarrow> instant \<Rightarrow> 'r rqueue \<Rightarrow> qact list \<Rightarrow> op_error + QueueItem \<Rightarrow> bool" where
  "served_by c view now st acts res \<longleftrightarrow> (\<exists>r bg0 bg1 bg2. acts = bg0 @ (ARelease # bg1) @ APop r # bg2
     \<and> follows c view now bg0 st (snd (reclaimStaleInflight c now st)) \<and> reclaims bg0 \<and> reclaims bg1 \<and> reclaims bg2
     \<and> res = (case r of None \<Rightarrow> Inl ErrQueueEmpty
          | Some i \<Rightarrow> if i = [] then Inl ErrQueueEmpty else stored_item c now (look c view st) i))"

lemma dequeue_follows:
  assumes env: "redis_env c view ty" and call: "redis_Dequeue c now st = (res, st')"
  shows "\<exists>acts. follows c view now acts st st' \<and> only (\<lambda>a. \<exists>r. a = APop r) acts
    \<and> (\<forall>item. res = Inr item \<longrightarrow> (\<exists>i x bg1 bg2. acts = bg1 @ APop (Some i) # bg2 \<and> quiet bg1 \<and> reclaims bg2
          \<and> live now (qv_str (look c view st) (K c (payloadKey c i))) = Some x \<and> rc_unmarshal c x = Inr (qi_Envelope item)))
    \<and> (reliable (rc_server c) \<longrightarrow> served_by c view now st acts res)"
proof -
  obtain r1 st1 where c1: "reclaimStaleInflight c now st = (r1, st1)" by fastforce
  from reclaim_follows(1) [OF env, of now st] c1 obtain as where A: "reclaims as" "follows c view now as st st1" by auto
  have r1: "reliable (rc_server c) \<Longrightarrow> \<exists>n. r1 = Inr n" using reclaim_follows(3) [OF env, of now st] c1 by simp
  obtain r2 st2 where c2: "releaseDue c now st1 = (r2, st2)" by fastforce
  from release_follows [OF env c2] obtain bs where B: "follows c view now bs st1 st2" "quiet bs"
    "reliable (rc_server c) \<Longrightarrow> r2 = None \<and> (\<exists>bg. reclaims bg \<and> bs = ARelease # bg)" by blast
  obtain r3 st3 where c3: "popReady c now st2 = (r3, st3)" by fastforce
  note AB = follows_trans [OF A(2) B(1)]
  have qab: "quiet (as @ bs)" using reclaims_quiet [OF A(1)] B(2) by simp
  define res4 where "res4 = (case r3 of Inr i \<Rightarrow> (case on_data (GetKey (rc_server c) (rc_storePrefix c) now (payloadKey c i)) st3 of
                  (Inl err, st4) \<Rightarrow> (Inl err, st4)
                | (Inr payload, st4) \<Rightarrow>
                    (case rc_unmarshal c payload of
                       Inl err \<Rightarrow> (Inl err, st4)
                     | Inr env \<Rightarrow>
                         (case getAttempts c now i st4 of
                            (Inl err, st5) \<Rightarrow> (Inl err, st5)
                          | (Inr attempts, st5) \<Rightarrow>
                              (Inr \<lparr>qi_Envelope = env, qi_Attempts = attempts, qi_AvailableAt = now\<rparr>,
                               recordQueueMetrics c now st5)))) | Inl e \<Rightarrow> (Inl e, st3))"
  have unfold: "redis_Dequeue c now st = (case r1 of Inl err \<Rightarrow> (Inl err, st1) | Inr _ \<Rightarrow>
      (case r2 of Some err \<Rightarrow> (Inl err, st2) | None \<Rightarrow>
        (case r3 of Inl err \<Rightarrow> (Inl err, st3) | Inr i \<Rightarrow> if i = [] then (Inl ErrQueueEmpty, recordQueueMetrics c now st3) else res4)))"
    unfolding redis_Dequeue_def res4_def c1 using c2 c3 by (cases r1; cases r2; cases r3; simp)
  let ?G = "\<lambda>acts. follows c view now acts st st' \<and> only (\<lambda>a. \<exists>r. a = APop r) acts
    \<and> (\<forall>item. res = Inr item \<longrightarrow> (\<exists>i x bg1 bg2. acts = bg1 @ APop (Some i) # bg2 \<and> quiet bg1 \<and> reclaims bg2
          \<and> live now (qv_str (look c view st) (K c (payloadKey c i))) = Some x \<and> rc_unmarshal c x = Inr (qi_Envelope item)))
    \<and> (reliable (rc_server c) \<longrightarrow> served_by c view now st acts res)"
  show ?thesis
  proof (cases "\<exists>e. r1 = Inl e")
    case True
    then have "st' = st1" "\<exists>e. res = Inl e" "\<not> reliable (rc_server c)" using call r1 unfolding unfold by auto
    then have "?G as" using A quiet_only [OF reclaims_quiet [OF A(1)]] by auto
    then show ?thesis by blast
  next
    case no1: False
    then obtain n1 where n1: "r1 = Inr n1" by (cases r1) auto
    show ?thesis
    proof (cases r2)
      case (Some e)
      then have "st' = st2" "res = Inl e" "\<not> reliable (rc_server c)" using call n1 B(3) unfolding unfold by auto
      then have "?G (as @ bs)" using AB quiet_only [OF qab] by auto
      then show ?thesis by blast
    next
      case None
      consider (fail) "\<exists>e. r3 = Inl e \<or> r3 = Inr []" "follows c view now [] st2 st3" "\<not> reliable (rc_server c)"
        | (served) w where "follows c view now [APop w] st2 st3" "r3 = Inr (case w of None \<Rightarrow> [] | Some i \<Rightarrow> i)"
        using pop_follows [OF env c3] by (elim disjE conjE exE) blast+
      then show ?thesis
      proof cases
        case e: fail
        have "follows c view now (as @ bs) st st3" using follows_trans [OF AB e(2)] by simp
        from with_metrics [OF env this] obtain bg where bg: "reclaims bg" "follows c view now ((as @ bs) @ bg) st (recordQueueMetrics c now st3)" by blast
        have cs: "(st' = st3 \<or> st' = recordQueueMetrics c now st3) \<and> (\<exists>e. res = Inl e)" using call n1 None e(1) unfolding unfold by auto
        have "?G (as @ bs) \<or> ?G ((as @ bs) @ bg)"
          using cs bg(2) \<open>follows c view now (as @ bs) st st3\<close> e(3) quiet_only [OF qab] quiet_only [OF reclaims_quiet [OF bg(1)]] by auto
        then show ?thesis by blast
      next
        case w: (served w)
        note ABC = follows_trans [OF AB w(1)]
        have l3: "qv_str (look c view st3) = qv_str (look c view st)"
          using str_path [OF ABC [unfolded follows_def]] quiet_only [OF qab] by simp
        define i where "i = (case w of None \<Rightarrow> [] | Some i \<Rightarrow> i)"
        have shape: "served_by c view now st (((as @ bs) @ [APop w]) @ bg) res"
          if "reliable (rc_server c)" and "reclaims bg" and "res = (case w of None \<Rightarrow> Inl ErrQueueEmpty
            | Some i \<Rightarrow> if i = [] then Inl ErrQueueEmpty else stored_item c now (look c view st) i)" for bg
        proof -
          from B(3) [OF that(1)] obtain bg1 where "reclaims bg1" "bs = ARelease # bg1" by blast
          with A c1 that show ?thesis
            unfolding served_by_def by (intro exI [of _ w] exI [of _ as] exI [of _ bg1] exI [of _ bg]) simp
        qed
        show ?thesis
        proof (cases "i = []")
          case True
          from with_metrics [OF env ABC] obtain bg where bg: "reclaims bg"
            "follows c view now (((as @ bs) @ [APop w]) @ bg) st (recordQueueMetrics c now st3)" by blast
          have "st' = recordQueueMetrics c now st3" "res = Inl ErrQueueEmpty"
            using call n1 None w(2) True unfolding unfold i_def by auto
          moreover from this have "reliable (rc_server c) \<longrightarrow> served_by c view now st (((as @ bs) @ [APop w]) @ bg) res"
            using shape [OF _ bg(1)] True by (auto simp: i_def split: option.splits)
          ultimately have "?G (((as @ bs) @ [APop w]) @ bg)"
            using bg quiet_only [OF qab] quiet_only [OF reclaims_quiet [OF bg(1)]] by simp
          then show ?thesis by blast
        next
          case False
          then have wi: "w = Some i" by (auto simp: i_def split: option.splits)
          have "res4 = (res, st')" using call n1 None w(2) False unfolding unfold i_def by auto
          note D = deliver_follows [OF env this [unfolded res4_def w(2) i_def [symmetric] sum.case]]
          from D(1) obtain bg where bg: "reclaims bg" "follows c view now bg st3 st'" by blast
          have si: "stored_item c now (look c view st3) i = stored_item c now (look c view st) i"
            unfolding stored_item_def l3 by (rule refl)
          have "?G (((as @ bs) @ [APop w]) @ bg)"
          proof (intro conjI)
            show "follows c view now (((as @ bs) @ [APop w]) @ bg) st st'" by (rule follows_trans [OF ABC bg(2)])
            show "only (\<lambda>a. \<exists>r. a = APop r) (((as @ bs) @ [APop w]) @ bg)"
              using quiet_only [OF qab] quiet_only [OF reclaims_quiet [OF bg(1)]] by simp
            show "\<forall>item. res = Inr item \<longrightarrow> (\<exists>i x bg1 bg2. ((as @ bs) @ [APop w]) @ bg = bg1 @ APop (Some i) # bg2 \<and> quiet bg1 \<and> reclaims bg2
              \<and> live now (qv_str (look c view st) (K c (payloadKey c i))) = Some x \<and> rc_unmarshal c x = Inr (qi_Envelope item))"
            proof (intro allI impI)
              fix item assume "res = Inr item"
              from D(2) [OF this] obtain x where "live now (qv_str (look c view st) (K c (payloadKey c i))) = Some x"
                "rc_unmarshal c x = Inr (qi_Envelope item)" unfolding l3 by blast
              then show "\<exists>i x bg1 bg2. ((as @ bs) @ [APop w]) @ bg = bg1 @ APop (Some i) # bg2 \<and> quiet bg1 \<and> reclaims bg2
                \<and> live now (qv_str (look c view st) (K c (payloadKey c i))) = Some x \<and> rc_unmarshal c x = Inr (qi_Envelope item)"
                using qab bg(1) by (intro exI [of _ i] exI [of _ x] exI [of _ "as @ bs"] exI [of _ bg]) (simp add: wi)
            qed
            show "reliable (rc_server c) \<longrightarrow> served_by c view now st (((as @ bs) @ [APop w]) @ bg) res"
              using shape [OF _ bg(1)] D(3) False wi si by simp
          qed
          then show ?thesis by blast
        qed
      qed
    qed
  qed
qed

end
