(* ===== verification/RedisQueueSafety.thy ===== *)
theory RedisQueueSafety
  imports RedisQueueServe
begin

text \<open>
  Runs of operations on the Redis queue: every operation follows a path whose own moves are
  among the ones listed here, so the facts on paths carry over to any run, with any failures
  of the connection in between.
\<close>

datatype rop =
    REnqueue instant "OperationEnvelope option" | RPoll instant string | RCancel instant string
  | RDequeue instant | RAck instant string | RRequeue instant "QueueItem option" duration

fun rclock :: "rop \<Rightarrow> instant" where
  "rclock (REnqueue t e) = t" | "rclock (RPoll t tk) = t" | "rclock (RCancel t tk) = t"
| "rclock (RDequeue t) = t" | "rclock (RAck t i) = t" | "rclock (RRequeue t it d) = t"

fun rstep :: "'r RedisCoordinator \<Rightarrow> 'r rqueue \<Rightarrow> rop \<Rightarrow> 'r rqueue" where
  "rstep c st (REnqueue t e) = snd (redis_Enqueue c t e st)"
| "rstep c st (RPoll t tk) = snd (redis_Poll c t tk st)"
| "rstep c st (RCancel t tk) = snd (redis_Cancel c t tk st)"
| "rstep c st (RDequeue t) = snd (redis_Dequeue c t st)"
| "rstep c st (RAck t i) = snd (redis_Ack c t i st)"
| "rstep c st (RRequeue t it d) = snd (redis_Requeue c t it d st)"

text \<open>The moves of its own that an operation can take in a state.\<close>

fun own :: "'r RedisCoordinator \<Rightarrow> qview \<Rightarrow> rop \<Rightarrow> qact \<Rightarrow> bool" where
  "own c q (REnqueue t (Some e)) a \<longleftrightarrow> stores c t e a \<or> a = APush (oe_ID e)
     \<or> a = ASet (K c (ticketKey c (rc_newID c t))) (oe_ID e) (t + rc_ticketTTL c)"
| "own c q (REnqueue t None) a \<longleftrightarrow> False"
| "own c q (RPoll t tk) a \<longleftrightarrow> False"
| "own c q (RCancel t tk) a \<longleftrightarrow> (\<exists>k. a = ADel k)
     \<or> (\<exists>i e. a = AAck i \<and> qv_str q (K c (ticketKey c tk)) = Some (i, e) \<and> t < e)"
| "own c q (RDequeue t) a \<longleftrightarrow> (\<exists>r. a = APop r)"
| "own c q (RAck t i) a \<longleftrightarrow> a = AAck i"
| "own c q (RRequeue t (Some it) d) a \<longleftrightarrow> stores c t (qi_Envelope it) a \<or> a = requeue_act t it d"
| "own c q (RRequeue t None d) a \<longleftrightarrow> False"

lemma step_follows:
  assumes env: "redis_env c view ty"
  shows "\<exists>acts. follows c view (rclock op) acts st (rstep c st op) \<and> only (own c (look c view st) op) acts"
proof (cases op)
  case (REnqueue t e)
  show ?thesis
  proof (cases e)
    case None
    with REnqueue show ?thesis by (intro exI [of _ "[]"]) (simp add: redis_Enqueue_def follows_refl)
  next
    case (Some e')
    obtain res st' where "redis_Enqueue c t (Some e') st = (res, st')" by fastforce
    with enqueue_follows [OF env this, of undefined] REnqueue Some show ?thesis by (auto simp: only_def)
  qed
next
  case (RPoll t tk)
  obtain res st' where "redis_Poll c t tk st = (res, st')" by fastforce
  with poll_follows(1) [OF env this] RPoll show ?thesis by (intro exI [of _ "[]"]) (simp add: follows_refl)
next
  case (RCancel t tk)
  obtain res st' where "redis_Cancel c t tk st = (res, st')" by fastforce
  with cancel_follows [OF env this] RCancel show ?thesis by (auto simp: only_def)
next
  case (RDequeue t)
  obtain res st' where r: "redis_Dequeue c t st = (res, st')" by fastforce
  from dequeue_follows [OF env r] obtain acts where "follows c view t acts st st'" "only (\<lambda>a. \<exists>r. a = APop r) acts" by blast
  with r RDequeue show ?thesis by (intro exI [of _ acts]) (simp add: only_def)
next
  case (RAck t i)
  obtain res st' where "redis_Ack c t i st = (res, st')" by fastforce
  with ack_follows [OF env this] RAck show ?thesis by (auto simp: only_def)
next
  case (RRequeue t it d)
  show ?thesis
  proof (cases it)
    case None
    with RRequeue show ?thesis by (intro exI [of _ "[]"]) (simp add: redis_Requeue_def follows_refl)
  next
    case (Some it')
    obtain res st' where "redis_Requeue c t (Some it') d st = (res, st')" by fastforce
    with requeue_follows [OF env this, of undefined] RRequeue Some show ?thesis by (auto simp: only_def)
  qed
qed

text \<open>A property of the abstract queue that the moves of each operation keep is kept by a run.\<close>

lemma run_keeps:
  assumes env: "redis_env c view ty"
    and step: "\<And>op st acts. op \<in> set ops \<Longrightarrow> P (look c view st) \<Longrightarrow> follows c view (rclock op) acts st (rstep c st op) \<Longrightarrow>
      only (own c (look c view st) op) acts \<Longrightarrow> P (look c view (rstep c st op))"
  shows "P (look c view st) \<Longrightarrow> P (look c view (foldl (rstep c) st ops))"
  using step
proof (induction ops arbitrary: st)
  case Nil
  then show ?case by simp
next
  case (Cons op ops)
  obtain acts where "follows c view (rclock op) acts st (rstep c st op)" "only (own c (look c view st) op) acts"
    using step_follows [OF env] by blast
  with Cons.prems have "P (look c view (rstep c st op))" by simp
  with Cons.IH [of "rstep c st op"] Cons.prems(2) show ?case by simp
qed

section \<open>The stored payloads\<close>

text \<open>An id survives the encoding, and whatever is stored for an id decodes to that id.\<close>

definition json_id :: "'r RedisCoordinator \<Rightarrow> bool" where
  "json_id c \<longleftrightarrow> (\<forall>e x e'. rc_marshal c e = Inr x \<longrightarrow> rc_unmarshal c x = Inr e' \<longrightarrow> oe_ID e' = oe_ID e)"

definition payloads_ok :: "'r RedisCoordinator \<Rightarrow> qview \<Rightarrow> bool" where
  "payloads_ok c q \<longleftrightarrow> (\<forall>i x e env. qv_str q (K c (payloadKey c i)) = Some (x, e) \<longrightarrow> rc_unmarshal c x = Inr env \<longrightarrow> oe_ID env = i)"

lemma own_sets:
  "own c q0 op (ASet k x e) \<Longrightarrow> (\<exists>env. rc_marshal c env = Inr x \<and> k = K c (payloadKey c (oe_ID env)))
    \<or> (\<exists>j. k = K c (attemptKey c j)) \<or> (\<exists>j. k = K c (ticketKey c j))"
  by (cases "(c, q0, op, ASet k x e)" rule: own.cases) (auto simp: stores_def requeue_act_def split: if_splits)

lemma payloads_set:
  assumes "json_id c" and "payloads_ok c q" and "(\<exists>env. rc_marshal c env = Inr x \<and> k = K c (payloadKey c (oe_ID env)))
    \<or> (\<exists>j. k = K c (attemptKey c j)) \<or> (\<exists>j. k = K c (ticketKey c j))"
  shows "payloads_ok c (q\<lparr>qv_str := (qv_str q)(k \<mapsto> (x, e))\<rparr>)"
  unfolding payloads_ok_def
proof (intro allI impI)
  fix i x' e' env
  assume s: "qv_str (q\<lparr>qv_str := (qv_str q)(k \<mapsto> (x, e))\<rparr>) (K c (payloadKey c i)) = Some (x', e')" and u: "rc_unmarshal c x' = Inr env"
  show "oe_ID env = i"
  proof (cases "K c (payloadKey c i) = k")
    case True
    with assms(3) obtain env0 where m: "rc_marshal c env0 = Inr x" "oe_ID env0 = i" by (auto simp: record_keys_differ)
    from True s have "x' = x" by simp
    with assms(1) m u show ?thesis unfolding json_id_def by blast
  next
    case False
    with s have "qv_str q (K c (payloadKey c i)) = Some (x', e')" by simp
    with assms(2) u show ?thesis unfolding payloads_ok_def by blast
  qed
qed

lemma payloads_move:
  assumes "json_id c" and "qmove now age batch a q q'" and "payloads_ok c q"
    and "background a \<or> own c q0 op a"
  shows "payloads_ok c q'"
proof -
  have keep: "qv_str q' = qv_str q \<Longrightarrow> ?thesis" using assms(3) by (simp add: payloads_ok_def)
  show ?thesis using assms(2)
  proof (cases rule: qmove.cases)
    case (set_str k x e)
    with assms(4) have "own c q0 op (ASet k x e)" by simp
    from payloads_set [OF assms(1,3) own_sets [OF this]] set_str(2) show ?thesis by simp
  next
    case (del_str k)
    with assms(3) show ?thesis by (auto simp: payloads_ok_def split: if_splits)
  next
    case (pop r)
    then show ?thesis using keep pop_split [OF pop(2)] by auto
  qed (use keep in \<open>simp_all add: q_push_def q_requeue_ready_def q_requeue_sched_def q_ack_def\<close>)
qed

lemma payloads_path:
  "json_id c \<Longrightarrow> qpath now age batch acts q q' \<Longrightarrow> payloads_ok c q \<Longrightarrow> only (own c q0 op) acts \<Longrightarrow> payloads_ok c q'"
  by (induction acts arbitrary: q) (auto dest: payloads_move)

section \<open>Separation\<close>

text \<open>No operation is in two places at once. Enqueueing an operation that is in flight or
  scheduled breaks this; every other move keeps it.\<close>

definition apart :: "qview \<Rightarrow> bool" where
  "apart q \<longleftrightarrow> (\<forall>i. (i \<in> qv_members q \<longrightarrow> i \<notin> qv_inflight q \<and> qv_sched q i = None)
     \<and> (i \<in> qv_inflight q \<longrightarrow> qv_sched q i = None))"

definition unplaced :: "string \<Rightarrow> qview \<Rightarrow> bool" where
  "unplaced i q \<longleftrightarrow> i \<notin> qv_inflight q \<and> qv_sched q i = None"

lemma apart_move:
  assumes "qmove now age batch a q q'" and "apart q" and "\<And>i. a = APush i \<Longrightarrow> unplaced i q"
  shows "apart q'"
  using assms
proof (induction rule: qmove.induct)
  case (push i q)
  then show ?case by (auto simp: apart_def q_push_def unplaced_def)
next
  case (pop q r q')
  from pop_split [OF pop(1)] pop(2) show ?case unfolding apart_def by (elim disjE exE conjE) simp_all
next
  case (release ids q)
  then show ?case by (auto simp: apart_def due_ids_def restrict_map_def)
next
  case (reclaim cands q ids)
  then show ?case by (auto simp: apart_def)
qed (auto simp: apart_def q_requeue_ready_def q_requeue_sched_def q_ack_def)

definition places :: "qact \<Rightarrow> bool" where
  "places a \<longleftrightarrow> (\<exists>w. a = APop w) \<or> (\<exists>i s. a = ARequeueSched i s)"

lemma unplaced_move: "qmove now age batch a q q' \<Longrightarrow> unplaced i q \<Longrightarrow> \<not> places a \<Longrightarrow> unplaced i q'"
  by (induction rule: qmove.induct)
    (auto simp: unplaced_def places_def q_push_def q_requeue_ready_def q_requeue_sched_def q_ack_def restrict_map_def)

lemma apart_path:
  assumes "qpath now age batch acts q q'" and "apart q" and "\<And>i. APush i \<in> set acts \<Longrightarrow> unplaced i q"
    and "(\<forall>i. APush i \<notin> set acts) \<or> (\<forall>a\<in>set acts. \<not> places a)"
  shows "apart q'"
  using assms
proof (induction acts arbitrary: q)
  case Nil
  then show ?case by simp
next
  case (Cons a acts)
  then obtain q1 where q1: "qmove now age batch a q q1" "qpath now age batch acts q1 q'" by auto
  have a1: "apart q1" using apart_move [OF q1(1) Cons.prems(2)] Cons.prems(3) by simp
  show ?case
  proof (rule Cons.IH [OF q1(2) a1])
    fix i assume "APush i \<in> set acts"
    then show "unplaced i q1" using unplaced_move [OF q1(1)] Cons.prems(3,4) by fastforce
  next
    show "(\<forall>i. APush i \<notin> set acts) \<or> (\<forall>a\<in>set acts. \<not> places a)" using Cons.prems(4) by auto
  qed
qed

text \<open>The operations whose enqueues are for operations that are neither in flight nor scheduled.\<close>

fun fresh_op :: "qview \<Rightarrow> rop \<Rightarrow> bool" where
  "fresh_op q (REnqueue t (Some e)) \<longleftrightarrow> unplaced (oe_ID e) q"
| "fresh_op q op \<longleftrightarrow> True"

lemma apart_step:
  assumes "follows c view (rclock op) acts st (rstep c st op)" and "only (own c (look c view st) op) acts"
    and "apart (look c view st)" and "fresh_op (look c view st) op"
  shows "apart (look c view (rstep c st op))"
proof (rule apart_path [OF assms(1) [unfolded follows_def] assms(3)])
  have own: "\<And>a. a \<in> set acts \<Longrightarrow> background a \<or> own c (look c view st) op a" using assms(2) by (simp add: only_def)
  show "unplaced i (look c view st)" if "APush i \<in> set acts" for i
    using own [OF that] assms(4)
    by (cases "(c, look c view st, op, APush i)" rule: own.cases) (auto simp: stores_def requeue_act_def split: if_splits)
  show "(\<forall>i. APush i \<notin> set acts) \<or> (\<forall>a\<in>set acts. \<not> places a)"
  proof (cases "\<exists>t e. op = REnqueue t (Some e)")
    case True
    then have "\<not> places a" if "a \<in> set acts" for a using own [OF that] by (auto simp: stores_def places_def background_def)
    then show ?thesis by blast
  next
    case False
    have "APush i \<notin> set acts" for i
      using own [of "APush i"] False
      by (cases "(c, look c view st, op, APush i)" rule: own.cases) (auto simp: stores_def requeue_act_def split: if_splits)
    then show ?thesis by blast
  qed
qed

section \<open>Moves that concern one operation\<close>

text \<open>The operations that can bring an id back, or end its stay in flight.\<close>

fun re_adds :: "string \<Rightarrow> rop \<Rightarrow> bool" where
  "re_adds i (REnqueue t (Some e)) \<longleftrightarrow> oe_ID e = i"
| "re_adds i (RRequeue t (Some it) d) \<longleftrightarrow> oe_ID (qi_Envelope it) = i"
| "re_adds i op \<longleftrightarrow> False"

fun lets_go :: "string \<Rightarrow> rop \<Rightarrow> bool" where
  "lets_go i (RAck t j) \<longleftrightarrow> j = i"
| "lets_go i (RCancel t tk) \<longleftrightarrow> True"
| "lets_go i op \<longleftrightarrow> re_adds i op"

lemma own_adds: "own c q op a \<Longrightarrow> adds i a \<Longrightarrow> re_adds i op"
  by (cases "(c, q, op, a)" rule: own.cases) (auto simp: stores_def requeue_act_def adds_def split: if_splits)

lemma own_ends: "own c q op a \<Longrightarrow> ends i a \<Longrightarrow> lets_go i op"
  by (cases "(c, q, op, a)" rule: own.cases) (auto simp: stores_def requeue_act_def adds_def ends_def split: if_splits)

lemma background_ends: "background a \<Longrightarrow> \<not> adds i a \<and> \<not> ends i a"
  by (auto simp: background_def adds_def ends_def split: qact.splits)

lemma only_adds: "only (own c q op) acts \<Longrightarrow> \<not> re_adds i op \<Longrightarrow> \<forall>a\<in>set acts. \<not> adds i a"
  using own_adds background_ends unfolding only_def by blast

lemma only_ends: "only (own c q op) acts \<Longrightarrow> \<not> lets_go i op \<Longrightarrow> \<forall>a\<in>set acts. \<not> ends i a"
  using own_ends background_ends unfolding only_def by blast

lemma absent_run:
  assumes env: "redis_env c view ty" and "\<forall>op\<in>set ops. \<not> re_adds i op" and "absent i (look c view st)"
  shows "absent i (look c view (foldl (rstep c) st ops))"
proof (rule run_keeps [where P = "absent i", OF env _ assms(3)])
  fix op st acts
  assume "op \<in> set ops" "absent i (look c view st)" "follows c view (rclock op) acts st (rstep c st op)"
    "only (own c (look c view st) op) acts"
  then show "absent i (look c view (rstep c st op))"
    using absent_path [of _ _ _ acts "look c view st" "look c view (rstep c st op)" i] only_adds assms(2)
    unfolding follows_def by blast
qed

lemma held_lease_run:
  assumes env: "redis_env c view ty" and "\<forall>op\<in>set ops. \<not> lets_go i op \<and> UnixMilli (rclock op) < s + ageMs c"
    and "held_since i s (look c view st)"
  shows "held_since i s (look c view (foldl (rstep c) st ops))"
proof (rule run_keeps [where P = "held_since i s", OF env _ assms(3)])
  fix op st acts
  assume "op \<in> set ops" "held_since i s (look c view st)" "follows c view (rclock op) acts st (rstep c st op)"
    "only (own c (look c view st) op) acts"
  then show "held_since i s (look c view (rstep c st op))"
    using held_path [of "UnixMilli (rclock op)" "ageMs c" "rc_reclaimBatch c" acts "look c view st" "look c view (rstep c st op)" i s]
      only_ends assms(2)
    unfolding follows_def by blast
qed

lemma payloads_run:
  assumes env: "redis_env c view ty" and "json_id c" and "payloads_ok c (look c view st)"
  shows "payloads_ok c (look c view (foldl (rstep c) st ops))"
proof (rule run_keeps [where P = "payloads_ok c", OF env _ assms(3)])
  fix op st acts
  assume "payloads_ok c (look c view st)" "follows c view (rclock op) acts st (rstep c st op)" "only (own c (look c view st) op) acts"
  then show "payloads_ok c (look c view (rstep c st op))"
    using payloads_path [OF assms(2)] unfolding follows_def by blast
qed

text \<open>A successful dequeue has popped the id of the envelope it returns.\<close>

lemma dequeue_pops:
  assumes env: "redis_env c view ty" and "redis_Dequeue c now st = (Inr item, st')" and "payloads_ok c (look c view st)"
  shows "\<exists>bg1 bg2. follows c view now (bg1 @ APop (Some (oe_ID (qi_Envelope item))) # bg2) st st' \<and> quiet bg1 \<and> reclaims bg2"
proof -
  from dequeue_follows [OF env assms(2)] obtain acts i x bg1 bg2 where
    D: "follows c view now acts st st'" "acts = bg1 @ APop (Some i) # bg2" "quiet bg1" "reclaims bg2"
    "live now (qv_str (look c view st) (K c (payloadKey c i))) = Some x" "rc_unmarshal c x = Inr (qi_Envelope item)" by blast
  from D(5) obtain e where "qv_str (look c view st) (K c (payloadKey c i)) = Some (x, e)"
    by (auto simp: live_def split: option.splits if_splits)
  with assms(3) D(6) have "oe_ID (qi_Envelope item) = i" unfolding payloads_ok_def by blast
  with D(1-4) show ?thesis by blast
qed

section \<open>Runs\<close>

fun fresh_run :: "'r RedisCoordinator \<Rightarrow> ('r \<Rightarrow> rview) \<Rightarrow> 'r rqueue \<Rightarrow> rop list \<Rightarrow> bool" where
  "fresh_run c view st [] \<longleftrightarrow> True"
| "fresh_run c view st (op # ops) \<longleftrightarrow> fresh_op (look c view st) op \<and> fresh_run c view (rstep c st op) ops"

lemma inv_run:
  assumes env: "redis_env c view ty"
  shows "queue_inv (look c view st) \<Longrightarrow> queue_inv (look c view (foldl (rstep c) st ops))"
proof (rule run_keeps [where P = queue_inv, OF env])
  fix op st acts
  assume "queue_inv (look c view st)" "follows c view (rclock op) acts st (rstep c st op)"
  then show "queue_inv (look c view (rstep c st op))" using inv_path unfolding follows_def by blast
qed

lemma apart_run:
  assumes env: "redis_env c view ty"
  shows "apart (look c view st) \<Longrightarrow> fresh_run c view st ops \<Longrightarrow> apart (look c view (foldl (rstep c) st ops))"
proof (induction ops arbitrary: st)
  case Nil
  then show ?case by simp
next
  case (Cons op ops)
  obtain acts where A: "follows c view (rclock op) acts st (rstep c st op)" "only (own c (look c view st) op) acts"
    using step_follows [OF env] by blast
  have "apart (look c view (rstep c st op))" using apart_step [OF A Cons.prems(1)] Cons.prems(2) by simp
  then show ?case using Cons.IH [of "rstep c st op"] Cons.prems(2) by simp
qed

end
