(* ===== verification/RedisTable.thy ===== *)
theory RedisTable
  imports RedisServer
begin

text \<open>
  A table on which all the laws of the Redis server hold: association lists for the keys of
  each type. The witnesses of the properties about Redis run on it; it is no part of the
  program's model.
\<close>

record table =
  tb_list :: "(string \<times> string list) list"
  tb_set :: "(string \<times> string list) list"
  tb_zset :: "(string \<times> (string \<times> int) list) list"
  tb_str :: "(string \<times> (string \<times> instant)) list"

definition empty_table :: table where
  "empty_table = \<lparr>tb_list = [], tb_set = [], tb_zset = [], tb_str = []\<rparr>"

definition entry :: "(string \<times> 'a list) list \<Rightarrow> string \<Rightarrow> 'a list" where
  "entry al k = (case map_of al k of None \<Rightarrow> [] | Some xs \<Rightarrow> xs)"

lemma entry_update: "entry (AList.update k xs al) = (entry al)(k := xs)"
  by (rule ext) (simp add: entry_def update_conv')

definition table_view :: "table \<Rightarrow> rview" where
  "table_view t = \<lparr>v_list = entry (tb_list t), v_set = (\<lambda>k. set (entry (tb_set t) k)),
     v_zset = (\<lambda>k. map_of (entry (tb_zset t) k)), v_str = map_of (tb_str t)\<rparr>"

fun least :: "(string \<times> int) list \<Rightarrow> (string \<times> int) option" where
  "least [] = None"
| "least ((x, s) # xs) = (case least xs of None \<Rightarrow> Some (x, s)
     | Some (y, t) \<Rightarrow> if s \<le> t then Some (x, s) else Some (y, t))"

definition z_due :: "(string \<times> int) list \<Rightarrow> int \<Rightarrow> string list" where
  "z_due z cutoff = remdups (filter (\<lambda>x. case map_of z x of None \<Rightarrow> False | Some s \<Rightarrow> s \<le> cutoff) (map fst z))"

definition table_redis :: "table Redis" where
  "table_redis = \<lparr>
     rd_up = \<lambda>t. True, rd_trip = \<lambda>t. (None, t),
     c_LLEN = \<lambda>k t. int (length (entry (tb_list t) k)),
     c_LPOP = \<lambda>k t. (case entry (tb_list t) k of [] \<Rightarrow> None | y # ys \<Rightarrow> Some y,
                     t\<lparr>tb_list := AList.update k (tl (entry (tb_list t) k)) (tb_list t)\<rparr>),
     c_RPUSH = \<lambda>k x t. (int (length (entry (tb_list t) k)) + 1,
                     t\<lparr>tb_list := AList.update k (entry (tb_list t) k @ [x]) (tb_list t)\<rparr>),
     c_LPOS = \<lambda>k x t. (if x \<in> set (entry (tb_list t) k)
                     then Some (int (length (takeWhile (\<lambda>y. y \<noteq> x) (entry (tb_list t) k)))) else None),
     c_SADD = \<lambda>k x t. (if x \<in> set (entry (tb_set t) k) then 0 else 1,
                     t\<lparr>tb_set := AList.update k (List.insert x (entry (tb_set t) k)) (tb_set t)\<rparr>),
     c_SREM = \<lambda>k x t. (if x \<in> set (entry (tb_set t) k) then 1 else 0,
                     t\<lparr>tb_set := AList.update k (removeAll x (entry (tb_set t) k)) (tb_set t)\<rparr>),
     c_SISMEMBER = \<lambda>k x t. (if x \<in> set (entry (tb_set t) k) then 1 else 0),
     c_SCARD = \<lambda>k t. int (length (remdups (entry (tb_set t) k))),
     c_SRANDMEMBER = \<lambda>k n t. take (nat n) (remdups (entry (tb_set t) k)),
     c_ZADD = \<lambda>k s x t. (if map_of (entry (tb_zset t) k) x = None then 1 else 0,
                     t\<lparr>tb_zset := AList.update k (AList.update x s (entry (tb_zset t) k)) (tb_zset t)\<rparr>),
     c_ZREM = \<lambda>k x t. (if map_of (entry (tb_zset t) k) x = None then 0 else 1,
                     t\<lparr>tb_zset := AList.update k (AList.delete x (entry (tb_zset t) k)) (tb_zset t)\<rparr>),
     c_ZSCORE = \<lambda>k x t. map_of (entry (tb_zset t) k) x,
     c_ZCARD = \<lambda>k t. int (length (remdups (map fst (entry (tb_zset t) k)))),
     c_ZFIRST = \<lambda>k t. least (AList.clearjunk (entry (tb_zset t) k)),
     c_ZRANGEBYSCORE = \<lambda>k cutoff n t. take (nat n) (z_due (entry (tb_zset t) k) cutoff),
     c_GET = \<lambda>now k t. (case map_of (tb_str t) k of None \<Rightarrow> None | Some (x, e) \<Rightarrow> if now < e then Some x else None),
     c_SET = \<lambda>now k v d t. t\<lparr>tb_str := AList.update k (v, now + d) (tb_str t)\<rparr>,
     c_DEL = \<lambda>k t. t\<lparr>tb_str := AList.delete k (tb_str t)\<rparr>\<rparr>"

lemma least_None: "distinct (map fst z) \<Longrightarrow> least z = None \<longleftrightarrow> z = []"
  by (induction z rule: least.induct) (auto split: option.splits if_splits)

lemma least_Some: "distinct (map fst z) \<Longrightarrow> least z = Some (y, t) \<Longrightarrow>
    map_of z y = Some t \<and> (\<forall>x' t'. map_of z x' = Some t' \<longrightarrow> t \<le> t')"
proof (induction z arbitrary: y t rule: least.induct)
  case 1
  then show ?case by simp
next
  case (2 x s xs)
  have n: "map_of xs x = None" "distinct (map fst xs)" using "2.prems"(1) by (auto simp: map_of_eq_None_iff)

  show ?case
  proof (cases "least xs")
    case None
    then have "xs = []" using n(2) by (simp add: least_None)
    with "2.prems"(2) show ?thesis by auto
  next
    case (Some w)
    obtain y' t' where w: "w = (y', t')" by (cases w)
    from "2.IH" n(2) Some w have "map_of xs y' = Some t'" "\<And>a b. map_of xs a = Some b \<Longrightarrow> t' \<le> b"
      by blast+
    with "2.prems"(2) Some w n(1) show ?thesis by (fastforce split: if_splits)
  qed
qed

lemma dom_due: "finite (due_ids (map_of z) cutoff)" "set (z_due z cutoff) = due_ids (map_of z) cutoff"
proof -
  show s: "set (z_due z cutoff) = due_ids (map_of z) cutoff"
    by (auto simp: z_due_def due_ids_def split: option.splits) (metis fst_conv image_iff map_of_SomeD)
  show "finite (due_ids (map_of z) cutoff)" unfolding s [symmetric] by simp
qed

lemma take_remdups: "0 \<le> n \<Longrightarrow> distinct ys \<Longrightarrow>
    distinct (take (nat n) ys) \<and> set (take (nat n) ys) \<subseteq> set ys \<and> int (length (take (nat n) ys)) = min n (int (card (set ys)))"
  by (auto simp: distinct_card set_take_subset min_def dest: in_set_takeD)

lemma table_lists: "list_laws table_redis table_view ty"
  by (simp add: list_laws_def table_redis_def table_view_def entry_update fun_eq_iff)

lemma table_sets: "set_laws table_redis table_view ty"
  using take_remdups [of _ "remdups (entry _ _)"]
  by (auto simp: set_laws_def table_redis_def table_view_def entry_update fun_eq_iff length_remdups_card_conv)

lemma table_zsets: "zset_laws table_redis table_view ty"
proof -
  have f: "least (AList.clearjunk z) = None \<longleftrightarrow> map_of z = Map.empty" for z
    using least_None [of "AList.clearjunk z"] by (simp add: distinct_clearjunk) (metis map_of_clearjunk clearjunk.simps(1) map_of_eq_empty_iff)
  have g: "least (AList.clearjunk z) = Some (y, t) \<Longrightarrow> map_of z y = Some t \<and> (\<forall>x' t'. map_of z x' = Some t' \<longrightarrow> t \<le> t')" for z y t
    using least_Some [of "AList.clearjunk z" y t] by (simp add: distinct_clearjunk map_of_clearjunk)
  have h: "0 \<le> n \<Longrightarrow> distinct (take (nat n) (z_due z s)) \<and> set (take (nat n) (z_due z s)) \<subseteq> due_ids (map_of z) s
      \<and> int (length (take (nat n) (z_due z s))) = min n (int (card (due_ids (map_of z) s)))" for n z s
    using take_remdups [of n "z_due z s"] dom_due [of z s] by (simp add: z_due_def)
  have c: "length (remdups (map fst z)) = card (dom (map_of z))" for z :: "(string \<times> int) list"
    by (simp add: length_remdups_card_conv dom_map_of_conv_image_fst)
  show ?thesis
    unfolding zset_laws_def
    by (intro allI impI conjI)
      (auto simp: table_redis_def table_view_def entry_update fun_eq_iff finite_dom_map_of update_conv' delete_conv' f c
        dest: g h [THEN conjunct1] h [THEN conjunct2, THEN conjunct1, THEN subsetD] h [THEN conjunct2, THEN conjunct2])
qed

lemma table_strings: "string_laws table_redis table_view ty"
  by (simp add: string_laws_def table_redis_def table_view_def update_conv' delete_conv')

lemma table_laws: "redis_laws table_redis table_view ty"
  by (simp add: redis_laws_def table_lists table_sets table_zsets table_strings trip_laws_def, simp add: table_redis_def)

lemma table_reliable: "reliable table_redis"
  by (simp add: reliable_def table_redis_def)

end
