(* ===== verification/RedisQueueProperties.thy ===== *)
theory RedisQueueProperties
  imports RedisQueueSafety RedisTable OperationProperties OperationOutcomes
begin

text \<open>
  The properties of the Redis queue, and of the pipeline on it. They hold on every server
  that keeps the documented laws; the witnesses run on the table.
\<close>

text \<open>
  A coordinator on the table, with two operations enqueued and one taken: the concrete input
  of the witnesses.
\<close>

section \<open>A concrete coordinator\<close>

definition demo_rc :: "table RedisCoordinator" where
  "demo_rc = \<lparr>rc_server = table_redis, rc_storePrefix = ''iam-'', rc_keyPrefix = ''user'', rc_ticketTTL = 24 * Hour,
     rc_payloadTTL = 48 * Hour, rc_resource = ''user'', rc_reclaimMinGap = 2 * Second, rc_maxInflightAge = 30 * Second,
     rc_reclaimBatch = 32, rc_gauges = False, rc_newID = \<lambda>_. ''tk'', rc_marshal = \<lambda>e. Inr (oe_ID e),
     rc_unmarshal = \<lambda>x. Inr (demo_env\<lparr>oe_ID := x\<rparr>)\<rparr>"

definition demo_ty :: "string \<Rightarrow> rtype" where
  "demo_ty k = (if k = K demo_rc (readyKey demo_rc) then TList
     else if k = K demo_rc (readyMembersKey demo_rc) \<or> k = K demo_rc (inflightKey demo_rc) then TSet
     else if k = K demo_rc (inflightLeaseKey demo_rc) \<or> k = K demo_rc (scheduledKey demo_rc) then TZSet else TString)"

lemma user_trim: "TrimSpace ''user'' = ''user''"
  by code_simp

lemma demo_keys:
  "readyKey demo_rc = ''user:{user:queue}:ready''" "readyMembersKey demo_rc = ''user:{user:queue}:ready:members''"
  "inflightKey demo_rc = ''user:{user:queue}:inflight''" "inflightLeaseKey demo_rc = ''user:{user:queue}:inflight:lease''"
  "scheduledKey demo_rc = ''user:{user:queue}:scheduled''" "payloadKey demo_rc i = ''user:payload:'' @ i"
  "attemptKey demo_rc i = ''user:attempt:'' @ i" "ticketKey demo_rc i = ''user:ticket:'' @ i"
  by (simp_all add: readyKey_def readyMembersKey_def inflightKey_def inflightLeaseKey_def scheduledKey_def queueKey_def
      payloadKey_def attemptKey_def ticketKey_def compose_def Let_def suffix_trims demo_rc_def user_trim)

lemma demo_redis_env: "redis_env demo_rc table_view demo_ty"
proof -
  have "rc_server demo_rc = table_redis" by (simp add: demo_rc_def)
  then show ?thesis
    by (simp add: redis_env_def table_laws demo_ty_def demo_keys) (simp add: demo_rc_def duration_units)
qed

lemma demo_rc_facts:
  "reliable (rc_server demo_rc)" "json_id demo_rc" "rc_marshal demo_rc e = Inr (oe_ID e)" "ageMs demo_rc = 30000"
  "rc_reclaimBatch demo_rc = 32" "rc_maxInflightAge demo_rc = 30 * Second" "rc_gauges demo_rc = False" "rc_server demo_rc = table_redis"
  using table_reliable by (simp_all add: demo_rc_def json_id_def ageMs_def duration_units go_div_def)

definition demo_st :: "table rqueue" where
  "demo_st = rqueue_init empty_table"

lemma demo_st_look:
  "look demo_rc table_view demo_st = \<lparr>qv_ready = [], qv_members = {}, qv_inflight = {}, qv_lease = Map.empty, qv_sched = Map.empty, qv_str = Map.empty\<rparr>"
  by (simp add: demo_st_def look_def look_view_def rqueue_init_def table_view_def empty_table_def entry_def fun_eq_iff)

definition demo_env2 :: OperationEnvelope where "demo_env2 = demo_env\<lparr>oe_ID := ''op-2''\<rparr>"

text \<open>A queue with two operations ready, what its first dequeue returns, and what is left.\<close>

definition demo_two :: "table rqueue" where
  "demo_two = foldl (rstep demo_rc) demo_st [REnqueue unix_epoch (Some demo_env), REnqueue unix_epoch (Some demo_env2)]"

definition demo_left :: "table rqueue" where
  "demo_left = rstep demo_rc demo_two (RDequeue (unix_epoch + Second))"

definition demo_out :: "OperationEnvelope \<Rightarrow> instant \<Rightarrow> QueueItem" where
  "demo_out e t = \<lparr>qi_Envelope = e, qi_Attempts = 0, qi_AvailableAt = t\<rparr>"

lemma with_fst: "fst p = a \<Longrightarrow> p = (a, snd p)"
  by (cases p) simp

lemma demo_runs:
  "redis_Dequeue demo_rc (unix_epoch + Second) demo_two = (Inr (demo_out demo_env (unix_epoch + Second)), demo_left)"
  "redis_Dequeue demo_rc (unix_epoch + 2 * Second) (foldl (rstep demo_rc) demo_left [RPoll unix_epoch ''tk''])
    = (Inr (demo_out demo_env2 (unix_epoch + 2 * Second)),
       snd (redis_Dequeue demo_rc (unix_epoch + 2 * Second) (foldl (rstep demo_rc) demo_left [RPoll unix_epoch ''tk''])))"
  "redis_Ack demo_rc unix_epoch ''op-1'' demo_left = (None, rstep demo_rc demo_left (RAck unix_epoch ''op-1''))"
proof -
  have "fst (redis_Dequeue demo_rc (unix_epoch + Second) demo_two) = Inr (demo_out demo_env (unix_epoch + Second))" by code_simp
  then show "redis_Dequeue demo_rc (unix_epoch + Second) demo_two = (Inr (demo_out demo_env (unix_epoch + Second)), demo_left)"
    unfolding demo_left_def rstep.simps by (rule with_fst)
  show "redis_Dequeue demo_rc (unix_epoch + 2 * Second) (foldl (rstep demo_rc) demo_left [RPoll unix_epoch ''tk''])
    = (Inr (demo_out demo_env2 (unix_epoch + 2 * Second)),
       snd (redis_Dequeue demo_rc (unix_epoch + 2 * Second) (foldl (rstep demo_rc) demo_left [RPoll unix_epoch ''tk''])))"
    by (rule with_fst) code_simp
  have "fst (redis_Ack demo_rc unix_epoch ''op-1'' demo_left) = None" by code_simp
  then show "redis_Ack demo_rc unix_epoch ''op-1'' demo_left = (None, rstep demo_rc demo_left (RAck unix_epoch ''op-1''))"
    unfolding rstep.simps by (rule with_fst)
qed

lemma demo_two_ok: "apart (look demo_rc table_view demo_two)" "payloads_ok demo_rc (look demo_rc table_view demo_two)"
  "payloads_ok demo_rc (look demo_rc table_view demo_left)"
proof -
  let ?ops = "[REnqueue unix_epoch (Some demo_env), REnqueue unix_epoch (Some demo_env2)]"
  have b: "apart (look demo_rc table_view demo_st)" "payloads_ok demo_rc (look demo_rc table_view demo_st)"
    by (simp_all add: demo_st_look apart_def payloads_ok_def)
  have "oe_ID demo_env2 \<notin> qv_inflight (look demo_rc table_view (rstep demo_rc demo_st (REnqueue unix_epoch (Some demo_env))))"
    "qv_sched (look demo_rc table_view (rstep demo_rc demo_st (REnqueue unix_epoch (Some demo_env)))) (oe_ID demo_env2) = None"
    by code_simp+
  then have "fresh_run demo_rc table_view demo_st ?ops" by (simp add: demo_st_look unplaced_def)
  from apart_run [OF demo_redis_env b(1) this] show "apart (look demo_rc table_view demo_two)" unfolding demo_two_def .
  show p: "payloads_ok demo_rc (look demo_rc table_view demo_two)" unfolding demo_two_def by (rule payloads_run [OF demo_redis_env demo_rc_facts(2) b(2)])
  show "payloads_ok demo_rc (look demo_rc table_view demo_left)"
    using payloads_run [OF demo_redis_env demo_rc_facts(2) p, of "[RDequeue (unix_epoch + Second)]"] by (simp add: demo_left_def)
qed

lemma demo_left_data:
  "rq_data demo_left = \<lparr>tb_list = [(''iam-user:{user:queue}:ready'', [''op-2''])],
     tb_set = [(''iam-user:{user:queue}:ready:members'', [''op-2'']), (''iam-user:{user:queue}:inflight'', [''op-1''])],
     tb_zset = [(''iam-user:{user:queue}:inflight:lease'', [(''op-1'', 1000)])],
     tb_str = [(''iam-user:payload:op-1'', ''op-1'', 62135769600000000000), (''iam-user:attempt:op-1'', ''0'', 62135769600000000000),
       (''iam-user:ticket:tk'', ''op-2'', 62135683200000000000), (''iam-user:payload:op-2'', ''op-2'', 62135769600000000000),
       (''iam-user:attempt:op-2'', ''0'', 62135769600000000000)]\<rparr>"
  by code_simp

lemma demo_left_look:
  "qv_ready (look demo_rc table_view demo_left) = [''op-2'']" "qv_members (look demo_rc table_view demo_left) = {''op-2''}"
  "qv_inflight (look demo_rc table_view demo_left) = {''op-1''}" "qv_lease (look demo_rc table_view demo_left) = [''op-1'' \<mapsto> 1000]"
  "qv_sched (look demo_rc table_view demo_left) = Map.empty"
  "qv_str (look demo_rc table_view demo_left) (K demo_rc (ticketKey demo_rc ''tk'')) = Some (''op-2'', 62135683200000000000)"
  by (simp_all add: look_def look_view_def table_view_def demo_left_data entry_def demo_keys K_def fixKey_def) (simp_all add: demo_rc_def)

section \<open>The invariant of the queue\<close>

text \<open>C16. Whatever operations run on the Redis queue, in any order and with any failures of the
  connection: every ready operation has an entry in the ready list, the operations in flight
  are exactly those with a lease, and each stored payload decodes to the operation it is stored for. As long as
  nobody enqueues an operation that is in flight or scheduled at that moment (which the queue does not prevent), no operation is
  in two of the three places ready, in flight and scheduled.\<close>

theorem redis_queue_invariant:
  assumes "redis_env c view ty" and "json_id c" and "queue_inv (look c view st)" and "payloads_ok c (look c view st)"
  shows "queue_inv (look c view (foldl (rstep c) st ops)) \<and> payloads_ok c (look c view (foldl (rstep c) st ops))
    \<and> (apart (look c view st) \<and> fresh_run c view st ops \<longrightarrow> apart (look c view (foldl (rstep c) st ops)))"
  using inv_run [OF assms(1,3), of ops] apart_run [OF assms(1), of st ops] payloads_run [OF assms(1,2,4), of ops] by blast

theorem redis_queue_invariant_witness:
  "queue_inv (look demo_rc table_view (foldl (rstep demo_rc) demo_st [REnqueue unix_epoch (Some demo_env), RDequeue unix_epoch]))
    \<and> apart (look demo_rc table_view (foldl (rstep demo_rc) demo_st [REnqueue unix_epoch (Some demo_env), RDequeue unix_epoch]))"
proof -
  have "queue_inv (look demo_rc table_view demo_st)" "apart (look demo_rc table_view demo_st)" "payloads_ok demo_rc (look demo_rc table_view demo_st)"
    by (simp_all add: demo_st_look queue_inv_def apart_def payloads_ok_def)
  moreover have "fresh_run demo_rc table_view demo_st [REnqueue unix_epoch (Some demo_env), RDequeue unix_epoch]"
    by (simp add: demo_st_look unplaced_def)
  ultimately show ?thesis using redis_queue_invariant [OF demo_redis_env demo_rc_facts(2)] by blast
qed

section \<open>Exclusive delivery\<close>

lemma popped_held:
  assumes "q_pop now q = (Some i, q')" and "apart q"
  shows "held_since i now q'"
proof -
  from pop_split [OF assms(1)] obtain rest where "i \<in> qv_members q" "q' = q\<lparr>qv_ready := rest, qv_members := qv_members q - {i},
      qv_inflight := insert i (qv_inflight q), qv_lease := (qv_lease q)(i \<mapsto> now)\<rparr>" by auto
  with assms(2) show ?thesis by (simp add: held_since_def apart_def)
qed

text \<open>C18. An operation that has been handed out is not handed out again before its lease ages
  out, unless it is acknowledged, enqueued or requeued in between (or a ticket is cancelled):
  whatever else runs on the queue, no dequeue in that window returns the same operation.\<close>

theorem in_flight_exclusive:
  assumes "redis_env c view ty" and "json_id c" and "apart (look c view st)" and "payloads_ok c (look c view st)"
    and "redis_Dequeue c t st = (Inr item, st1)"
    and "\<forall>op\<in>set ops. \<not> lets_go (oe_ID (qi_Envelope item)) op \<and> UnixMilli (rclock op) < UnixMilli t + ageMs c"
    and "UnixMilli t2 < UnixMilli t + ageMs c" and "redis_Dequeue c t2 (foldl (rstep c) st1 ops) = (Inr item2, st2)"
  shows "oe_ID (qi_Envelope item2) \<noteq> oe_ID (qi_Envelope item)"
proof
  assume same: "oe_ID (qi_Envelope item2) = oe_ID (qi_Envelope item)"
  let ?i = "oe_ID (qi_Envelope item)"
  from dequeue_pops [OF assms(1,5,4)] obtain bg1 bg2 where D: "follows c view t (bg1 @ APop (Some ?i) # bg2) st st1" "quiet bg1" "reclaims bg2" by blast
  then obtain q1 q2 where q: "qpath (UnixMilli t) (ageMs c) (rc_reclaimBatch c) bg1 (look c view st) q1"
    "qmove (UnixMilli t) (ageMs c) (rc_reclaimBatch c) (APop (Some ?i)) q1 q2"
    "qpath (UnixMilli t) (ageMs c) (rc_reclaimBatch c) bg2 q2 (look c view st1)"
    by (auto simp: follows_def qpath_append)
  have "apart q1" by (rule apart_path [OF q(1) assms(3)]) (use D(2) in \<open>auto simp: only_def background_def places_def split: qact.splits\<close>)
  from q(2) have "q_pop (UnixMilli t) q1 = (Some ?i, q2)" by (rule pop_case)
  from popped_held [OF this \<open>apart q1\<close>] have h: "held_since ?i (UnixMilli t) q2" .
  have "held_since ?i (UnixMilli t) (look c view st1)"
    using held_path [OF q(3) h] D(3) ageMs_pos [of c] by (auto simp: reclaims_def ends_def adds_def)
  then have hr: "held_since ?i (UnixMilli t) (look c view (foldl (rstep c) st1 ops))" by (rule held_lease_run [OF assms(1,6)])
  have st1: "rstep c st (RDequeue t) = st1" using assms(5) by simp
  have "payloads_ok c (look c view (foldl (rstep c) st1 ops))"
    using payloads_run [OF assms(1,2,4), of "RDequeue t # ops"] st1 by simp
  from dequeue_pops [OF assms(1,8) this] obtain bs1 bs2 where
    "follows c view t2 (bs1 @ APop (Some ?i) # bs2) (foldl (rstep c) st1 ops) st2" "quiet bs1" "reclaims bs2" unfolding same by blast
  moreover from this(2,3) have "\<forall>a\<in>set (bs1 @ APop (Some ?i) # bs2). \<not> ends ?i a"
    by (auto simp: only_def reclaims_def dest: background_ends) (auto simp: ends_def adds_def)
  ultimately show False using held_path [OF _ hr _ assms(7)] unfolding follows_def by (metis in_set_conv_decomp)
qed

section \<open>Acknowledging\<close>

lemma absent_stays_away:
  assumes "redis_env c view ty" and "json_id c" and "payloads_ok c (look c view st)" and "absent i (look c view st)"
    and "\<forall>op\<in>set ops. \<not> re_adds i op" and "redis_Dequeue c t (foldl (rstep c) st ops) = (Inr item, st')"
  shows "oe_ID (qi_Envelope item) \<noteq> i"
proof -
  have "payloads_ok c (look c view (foldl (rstep c) st ops))" by (rule payloads_run [OF assms(1-3)])
  from dequeue_pops [OF assms(1,6) this] obtain bs1 bs2 where
    B: "follows c view t (bs1 @ APop (Some (oe_ID (qi_Envelope item))) # bs2) (foldl (rstep c) st ops) st'" "quiet bs1" "reclaims bs2" by blast
  have "\<forall>a\<in>set (bs1 @ APop (Some (oe_ID (qi_Envelope item))) # bs2). \<not> adds i a"
    using B(2,3) by (auto simp: only_def reclaims_def adds_def background_def split: qact.splits)
  from absent_path [OF B(1) [unfolded follows_def] absent_run [OF assms(1,5,4)] this] show ?thesis by auto
qed

lemma acked_absent:
  assumes "redis_env c view ty" and "reliable (rc_server c)" and "i \<noteq> []" and "redis_Ack c t i st = (res, st')"
  shows "res = None" "absent i (look c view st')"
proof -
  from ack_follows [OF assms(1,4)] assms(2,3) obtain bg where
    A: "res = None" "reclaims bg" "follows c view t (AAck i # bg) st st'" by blast
  then show "res = None" by simp
  from A(3) have "qpath (UnixMilli t) (ageMs c) (rc_reclaimBatch c) bg (q_ack i (look c view st)) (look c view st')"
    by (auto simp: follows_def elim: ack_case)
  then show "absent i (look c view st')"
    using absent_path ack_absent A(2) by (fastforce simp: reclaims_def adds_def)
qed

text \<open>C19. Once an acknowledgement has reached the server, the operation is never handed out
  again, whatever runs on the queue, until it is enqueued or requeued.\<close>

theorem acknowledged_stays_away:
  assumes "redis_env c view ty" and "json_id c" and "reliable (rc_server c)" and "payloads_ok c (look c view st)" and "i \<noteq> []"
    and "redis_Ack c t i st = (res, st1)" and "\<forall>op\<in>set ops. \<not> re_adds i op"
    and "redis_Dequeue c t2 (foldl (rstep c) st1 ops) = (Inr item, st2)"
  shows "res = None \<and> oe_ID (qi_Envelope item) \<noteq> i"
proof -
  have "payloads_ok c (look c view st1)"
    using payloads_run [OF assms(1,2,4), of "[RAck t i]"] assms(6) by simp
  from absent_stays_away [OF assms(1,2) this acked_absent(2) [OF assms(1,3,5,6)] assms(7,8)] acked_absent(1) [OF assms(1,3,5,6)]
  show ?thesis by blast
qed

theorem in_flight_exclusive_witness:
  "\<exists>item item2. fst (redis_Dequeue demo_rc (unix_epoch + Second) demo_two) = Inr item
    \<and> fst (redis_Dequeue demo_rc (unix_epoch + 2 * Second) (foldl (rstep demo_rc) demo_left [RPoll unix_epoch ''tk''])) = Inr item2
    \<and> oe_ID (qi_Envelope item2) \<noteq> oe_ID (qi_Envelope item)"
proof -
  have w: "\<forall>op\<in>set [RPoll unix_epoch ''tk'']. \<not> lets_go (oe_ID (qi_Envelope (demo_out demo_env (unix_epoch + Second)))) op
      \<and> UnixMilli (rclock op) < UnixMilli (unix_epoch + Second) + ageMs demo_rc"
    "UnixMilli (unix_epoch + 2 * Second) < UnixMilli (unix_epoch + Second) + ageMs demo_rc"
    by (simp_all add: demo_rc_facts(4)) code_simp+
  from in_flight_exclusive [OF demo_redis_env demo_rc_facts(2) demo_two_ok(1,2) demo_runs(1) w demo_runs(2)]
    arg_cong [OF demo_runs(1), of fst] arg_cong [OF demo_runs(2), of fst] show ?thesis
    unfolding fst_conv by blast
qed

theorem acknowledged_stays_away_witness:
  "\<exists>item. fst (redis_Dequeue demo_rc (unix_epoch + 2 * Second) (foldl (rstep demo_rc) (rstep demo_rc demo_left (RAck unix_epoch ''op-1'')) [])) = Inr item
    \<and> oe_ID (qi_Envelope item) \<noteq> ''op-1''"
proof -
  let ?st = "foldl (rstep demo_rc) (rstep demo_rc demo_left (RAck unix_epoch ''op-1'')) []"
  have "fst (redis_Dequeue demo_rc (unix_epoch + 2 * Second) ?st) = Inr (demo_out demo_env2 (unix_epoch + 2 * Second))" by code_simp
  then have d: "redis_Dequeue demo_rc (unix_epoch + 2 * Second) ?st = (Inr (demo_out demo_env2 (unix_epoch + 2 * Second)),
      snd (redis_Dequeue demo_rc (unix_epoch + 2 * Second) ?st))" by (rule with_fst)
  from acknowledged_stays_away [OF demo_redis_env demo_rc_facts(2,1) demo_two_ok(3) _ demo_runs(3) _ d] arg_cong [OF d, of fst]
  show ?thesis unfolding fst_conv by auto
qed

section \<open>Redelivery\<close>

text \<open>C20. A worker that takes an operation and dies does not lose it: once the operation has been
  in flight for the configured age, and no more operations than one batch (32, or fewer if so configured) are that old, the
  next dequeue that may reclaim, on a Redis that answers, either takes it and answers what is stored for it (the operation with the attempts it had, or the
  error of reading a payload that is gone or does not decode), or leaves it ready to be taken.\<close>

theorem crash_redelivery:
  assumes env: "redis_env c view ty" and rel: "reliable (rc_server c)" and i: "i \<noteq> []"
    and "0 < rc_maxInflightAge c" and "0 < rc_reclaimBatch c" and "shouldAttemptReclaim c now st"
    and stale: "i \<in> qv_inflight (look c view st)" "qv_lease (look c view st) i = Some s" "s + ageMs c \<le> UnixMilli now"
    and few: "int (card (due_ids (qv_lease (look c view st)) (UnixMilli now - ageMs c))) \<le> rc_reclaimBatch c"
    and call: "redis_Dequeue c now st = (res, st')"
  shows "res = stored_item c now (look c view st) i \<or> i \<in> qv_members (look c view st')"
proof -
  let ?P = "qpath (UnixMilli now) (ageMs c) (rc_reclaimBatch c)"
  from dequeue_follows [OF env call] rel obtain acts where acts: "follows c view now acts st st'" "served_by c view now st acts res" by blast
  from acts(2) obtain r bg0 bg1 bg2 where
    A: "acts = bg0 @ (ARelease # bg1) @ APop r # bg2" "follows c view now bg0 st (snd (reclaimStaleInflight c now st))"
      "reclaims bg0" "reclaims bg1" "reclaims bg2"
      "res = (case r of None \<Rightarrow> Inl ErrQueueEmpty | Some i \<Rightarrow> if i = [] then Inl ErrQueueEmpty else stored_item c now (look c view st) i)"
    unfolding served_by_def by blast
  have slot: "fst (reserveReclaimSlot c now st)"
    using assms(6) by (auto simp: shouldAttemptReclaim_def reserveReclaimSlot_def Let_def)
  from reclaim_follows(2) [OF env rel assms(4,5) slot] obtain ids where
    "follows c view now [AReclaim ids] st (snd (reclaimStaleInflight c now st))" by blast
  then have m: "qmove (UnixMilli now) (ageMs c) (rc_reclaimBatch c) (AReclaim ids) (look c view st) (look c view (snd (reclaimStaleInflight c now st)))"
    by (simp add: follows_def)
  have "bg0 \<noteq> []"
    using A(2) reclaim_ready [OF m stale few] stale(1) by (auto simp: follows_def)
  with A(3) obtain ids0 where bg0: "bg0 = [AReclaim ids0]" by (auto simp: reclaims_def)
  from acts(1) obtain q1 where q1: "qmove (UnixMilli now) (ageMs c) (rc_reclaimBatch c) (AReclaim ids0) (look c view st) q1"
    "?P ((ARelease # bg1) @ APop r # bg2) q1 (look c view st')"
    unfolding follows_def A(1) bg0 by auto
  have ready: "i \<in> qv_members q1" using reclaim_ready [OF q1(1) stale few] by simp
  show ?thesis
  proof (cases "r = Some i")
    case True
    with A(6) i show ?thesis by simp
  next
    case False
    then have "\<forall>a\<in>set ((ARelease # bg1) @ APop r # bg2). \<not> ends i a \<and> a \<noteq> APop (Some i)"
      using A(4,5) by (auto simp: reclaims_def ends_def adds_def)
    from ready_path [OF q1(2) ready this] show ?thesis by blast
  qed
qed

theorem crash_redelivery_witness:
  "fst (redis_Dequeue demo_rc (unix_epoch + Minute) demo_left) = stored_item demo_rc (unix_epoch + Minute) (look demo_rc table_view demo_left) ''op-1''
    \<or> ''op-1'' \<in> qv_members (look demo_rc table_view (snd (redis_Dequeue demo_rc (unix_epoch + Minute) demo_left)))"
proof -
  have a: "shouldAttemptReclaim demo_rc (unix_epoch + Minute) demo_left" by code_simp
  have few: "card (due_ids [''op-1'' \<mapsto> 1000] n) \<le> 32" for n :: int
    using card_mono [of "{''op-1''}" "due_ids [''op-1'' \<mapsto> 1000] n"] by (fastforce simp: due_ids_def split: if_splits)
  have d: "redis_Dequeue demo_rc (unix_epoch + Minute) demo_left = (fst (redis_Dequeue demo_rc (unix_epoch + Minute) demo_left),
      snd (redis_Dequeue demo_rc (unix_epoch + Minute) demo_left))" by simp
  show ?thesis
  proof (rule crash_redelivery [OF demo_redis_env demo_rc_facts(1) _ _ _ a _ _ _ _ d])
    show "qv_lease (look demo_rc table_view demo_left) ''op-1'' = Some 1000" by (simp add: demo_left_look)
    show "1000 + ageMs demo_rc \<le> UnixMilli (unix_epoch + Minute)" unfolding demo_rc_facts by code_simp
  qed (use few in \<open>simp_all add: demo_left_look demo_rc_facts duration_units\<close>)
qed

section \<open>The scripts return\<close>

text \<open>C17. The loops of the two scripts come to an end on every server and every state of the queue. Popping skips the
  stale ids and hands out the first ready member, if there is one; releasing answers the number of due operations
  that were not ready yet and leaves none due.\<close>

theorem queue_scripts_return:
  assumes "redis_env c view ty"
  shows "(\<exists>r'. luaPopReady (rc_server c) (K c (readyKey c)) (K c (inflightKey c)) (K c (inflightLeaseKey c)) (K c (readyMembersKey c)) now r
        = Some (case dropWhile (\<lambda>i. i \<notin> qv_members (look_view c (view r))) (qv_ready (look_view c (view r))) of [] \<Rightarrow> VNil | i # rest \<Rightarrow> VString i, r'))
    \<and> (\<exists>r'. luaReleaseDue (rc_server c) (K c (scheduledKey c)) (K c (readyKey c)) (K c (readyMembersKey c)) now r
        = Some (VInt64 (int (card (due_ids (qv_sched (look_view c (view r))) now - qv_members (look_view c (view r))))), r')
        \<and> due_ids (qv_sched (look_view c (view r'))) now = {})"
proof (intro conjI)
  let ?n = "Suc (nat (c_LLEN (rc_server c) (K c (readyKey c)) r))" and ?q = "look_view c (view r)"
  have "length (qv_ready ?q) < ?n" using list_facts(1) [OF envD(1,2) [OF assms], of r] by simp
  from pop_refines [OF assms this, of now] obtain w r' where
    P: "pop_ready_loop (rc_server c) (K c (readyKey c)) (K c (inflightKey c)) (K c (inflightLeaseKey c)) (K c (readyMembersKey c)) now ?n r = Some (w, r')"
    "q_pop now ?q = (w, look_view c (view r'))" by blast
  have e: "(case (case d of [] \<Rightarrow> None | i # rest \<Rightarrow> Some i) of None \<Rightarrow> VNil | Some i \<Rightarrow> VString i) = (case d of [] \<Rightarrow> VNil | i # rest \<Rightarrow> VString i)" for d
    by (cases d) simp_all
  have "w = (case dropWhile (\<lambda>i. i \<notin> qv_members ?q) (qv_ready ?q) of [] \<Rightarrow> None | i # rest \<Rightarrow> Some i)"
    using P(2) by (cases "dropWhile (\<lambda>i. i \<notin> qv_members ?q) (qv_ready ?q)")
      (simp_all add: q_pop_def del: look_fields dropWhile_eq_Nil_conv dropWhile_eq_Cons_conv)
  then have "(case w of None \<Rightarrow> VNil | Some i \<Rightarrow> VString i)
      = (case dropWhile (\<lambda>i. i \<notin> qv_members ?q) (qv_ready ?q) of [] \<Rightarrow> VNil | i # rest \<Rightarrow> VString i)"
    by (simp only: e)
  with P(1) show "\<exists>r'. luaPopReady (rc_server c) (K c (readyKey c)) (K c (inflightKey c)) (K c (inflightLeaseKey c)) (K c (readyMembersKey c)) now r
        = Some (case dropWhile (\<lambda>i. i \<notin> qv_members ?q) (qv_ready ?q) of [] \<Rightarrow> VNil | i # rest \<Rightarrow> VString i, r')"
    by (simp add: luaPopReady_def del: pop_ready_loop.simps look_fields)
next
  let ?n = "Suc (nat (c_ZCARD (rc_server c) (K c (scheduledKey c)) r))" and ?q = "look_view c (view r)"
  have "card (dom (qv_sched ?q)) < ?n" using zset_facts(7) [OF envD(1,6) [OF assms], of r] by simp
  from release_refines [OF assms this, where now = now and moved = 0] obtain m r' ids where
    R: "release_due_loop (rc_server c) (K c (scheduledKey c)) (K c (readyKey c)) (K c (readyMembersKey c)) now ?n 0 r = Some (m, r')"
    "distinct ids" "set ids = due_ids (qv_sched ?q) now - qv_members ?q" "m = 0 + int (length ids)"
    "look_view c (view r') = ?q\<lparr>qv_ready := qv_ready ?q @ ids, qv_members := qv_members ?q \<union> due_ids (qv_sched ?q) now,
       qv_sched := qv_sched ?q |` (- due_ids (qv_sched ?q) now)\<rparr>" by blast
  have "qv_sched (look_view c (view r')) = qv_sched ?q |` (- due_ids (qv_sched ?q) now)" unfolding R(5) by (simp del: look_fields)
  then have "due_ids (qv_sched (look_view c (view r'))) now = {}" by (auto simp: due_ids_def restrict_map_def simp del: look_fields split: option.splits)
  moreover have "m = int (card (due_ids (qv_sched ?q) now - qv_members ?q))" using R(2,3,4) distinct_card [OF R(2)] by simp
  ultimately show "\<exists>r'. luaReleaseDue (rc_server c) (K c (scheduledKey c)) (K c (readyKey c)) (K c (readyMembersKey c)) now r
        = Some (VInt64 (int (card (due_ids (qv_sched ?q) now - qv_members ?q))), r') \<and> due_ids (qv_sched (look_view c (view r'))) now = {}"
    using R(1) by (intro exI [of _ r']) (simp add: luaReleaseDue_def del: release_due_loop.simps look_fields)
qed

theorem queue_scripts_return_witness:
  "\<exists>r'. luaPopReady table_redis (K demo_rc (readyKey demo_rc)) (K demo_rc (inflightKey demo_rc)) (K demo_rc (inflightLeaseKey demo_rc))
      (K demo_rc (readyMembersKey demo_rc)) 1000 (rq_data demo_left) = Some (VString ''op-2'', r')"
  using queue_scripts_return [OF demo_redis_env, where now = 1000 and r = "rq_data demo_left"] demo_left_look(1,2)
  by (simp add: demo_rc_facts look_def del: look_fields)

section \<open>What a poll says\<close>

text \<open>A poll with a live ticket never fails and says where its operation is: executing when
  it is in flight, completed when it is neither in the ready list, in flight nor scheduled (whether
  it succeeded, failed or was dropped), queued otherwise.\<close>

theorem redis_poll_reports:
  assumes "redis_env c view ty" and "reliable (rc_server c)" and "tk \<noteq> []"
    and "qv_str (look c view st) (K c (ticketKey c tk)) = Some (i, e)" and "now < e"
    and "\<forall>j s. qv_sched (look c view st) j = Some s \<longrightarrow> in64 s"
  shows "\<exists>s st'. redis_Poll c now tk st = (Inr s, st') \<and> look c view st' = look c view st \<and> qs_OperationID s = i
    \<and> (qs_State s = StateExecuting \<longleftrightarrow> i \<in> qv_inflight (look c view st))
    \<and> (qs_State s = StateCompleted \<longleftrightarrow> i \<notin> qv_inflight (look c view st) \<and> i \<notin> set (qv_ready (look c view st)) \<and> qv_sched (look c view st) i = None)
    \<and> (qs_State s \<in> {StateExecuting, StateCompleted, StateQueued})"
proof -
  obtain res st' where call: "redis_Poll c now tk st = (res, st')" by fastforce
  from poll_follows(2) [OF assms(1) call assms(2,6,3,4,5)] obtain s where s: "res = Inr s" "poll_result now i (look c view st) s" by blast
  then show ?thesis using call poll_follows(1) [OF assms(1) call]
    by (intro exI [of _ s] exI [of _ st']) (auto simp: poll_result_def split: if_splits)
qed

theorem redis_poll_reports_witness:
  "\<exists>s. fst (redis_Poll demo_rc unix_epoch ''tk'' demo_left) = Inr s \<and> qs_OperationID s = ''op-2'' \<and> qs_State s = StateQueued"
proof -
  have "unix_epoch < 62135683200000000000" by code_simp
  then obtain s st' where "redis_Poll demo_rc unix_epoch ''tk'' demo_left = (Inr s, st')" "qs_OperationID s = ''op-2''"
    "(qs_State s = StateExecuting) = False" "(qs_State s = StateCompleted) = False" "qs_State s \<in> {StateExecuting, StateCompleted, StateQueued}"
    using redis_poll_reports [where now = unix_epoch, OF demo_redis_env demo_rc_facts(1) _ demo_left_look(6)]
    by (force simp: demo_left_look)
  then show ?thesis by auto
qed

section \<open>Settings\<close>

lemma new_fields:
  assumes "RedisNewCoordinator gauges newID marshal unmarshal cfg = Inr c"
  shows "10 * Second \<le> rc_maxInflightAge c" "1 \<le> rc_reclaimBatch c" "rc_reclaimBatch c \<le> 32"
    "0 < rc_ticketTTL c" "0 < rc_payloadTTL c" "rc_keyPrefix c \<noteq> []"
proof -
  obtain R pfx where "qc_Redis cfg = Some (R, pfx)" using assms by (cases "qc_Redis cfg") (auto simp: RedisNewCoordinator_def)
  with assms have f: "rc_maxInflightAge c = (let age = (if qc_MaxInflightDuration cfg \<le> 0 then 2 * Minute else qc_MaxInflightDuration cfg)
        in if age < 10 * Second then 10 * Second else age)"
      "rc_reclaimBatch c = (let batch = (if qc_ReclaimBatchSize cfg < 1 then 32 else qc_ReclaimBatchSize cfg) in if 32 < batch then 32 else batch)"
      "rc_ticketTTL c = (if qc_TicketTTL cfg \<le> 0 then 24 * Hour else qc_TicketTTL cfg)"
      "rc_payloadTTL c = (if qc_PayloadTTL cfg \<le> 0 then 48 * Hour else qc_PayloadTTL cfg)"
      "rc_keyPrefix c = (if TrimColons (qc_KeyPrefix cfg) = [] then ''operation'' else TrimColons (qc_KeyPrefix cfg))"
    by (simp_all only: RedisNewCoordinator_def Let_def option.case prod.case sum.inject) (clarsimp+)
  then show "10 * Second \<le> rc_maxInflightAge c" "1 \<le> rc_reclaimBatch c" "rc_reclaimBatch c \<le> 32"
    "0 < rc_ticketTTL c" "0 < rc_payloadTTL c" "rc_keyPrefix c \<noteq> []" by (simp_all add: Let_def duration_units)
qed

text \<open>Whatever the configuration, the constructed coordinator keeps stale work at least ten
  seconds, reclaims between one and 32 operations at a time and writes every string with a
  positive lifetime under a non-empty prefix; its queue structures have five different keys, and
  no record key of one kind or operation is one of another.\<close>

theorem redis_settings_bounded:
  assumes "RedisNewCoordinator gauges newID marshal unmarshal cfg = Inr c"
  shows "10 * Second \<le> rc_maxInflightAge c \<and> 1 \<le> rc_reclaimBatch c \<and> rc_reclaimBatch c \<le> 32
    \<and> 0 < rc_ticketTTL c \<and> 0 < rc_payloadTTL c \<and> rc_keyPrefix c \<noteq> []
    \<and> distinct [readyKey c, readyMembersKey c, inflightKey c, inflightLeaseKey c, scheduledKey c]
    \<and> (payloadKey c i = payloadKey c j \<longleftrightarrow> i = j) \<and> payloadKey c i \<noteq> attemptKey c j \<and> ticketKey c i \<noteq> payloadKey c j"
proof -
  have "distinct [readyKey c, readyMembersKey c, inflightKey c, inflightLeaseKey c, scheduledKey c]"
    by (simp add: readyKey_def readyMembersKey_def inflightKey_def inflightLeaseKey_def scheduledKey_def queueKey_def Let_def suffix_trims)
  moreover note new_fields [OF assms]
  ultimately show ?thesis by (simp add: record_keys_differ)
qed

theorem redis_settings_bounded_witness:
  "\<exists>c. RedisNewCoordinator False (\<lambda>_. ''tk'') (\<lambda>e. Inr (oe_ID e)) (\<lambda>x. Inr demo_env)
      \<lparr>qc_Redis = Some (table_redis, ''iam-''), qc_KeyPrefix = ''::'', qc_TicketTTL = 0, qc_PayloadTTL = - 1, qc_Resource = [],
       qc_MaxInflightDuration = 3, qc_ReclaimBatchSize = 100\<rparr> = Inr c
    \<and> rc_reclaimBatch c \<le> 32 \<and> 0 < rc_payloadTTL c"
proof -
  let ?cfg = "\<lparr>qc_Redis = Some (table_redis, ''iam-''), qc_KeyPrefix = ''::'', qc_TicketTTL = 0, qc_PayloadTTL = - 1, qc_Resource = [],
       qc_MaxInflightDuration = 3, qc_ReclaimBatchSize = 100\<rparr>"
  have "\<exists>c. RedisNewCoordinator False (\<lambda>_. ''tk'') (\<lambda>e. Inr (oe_ID e)) (\<lambda>x. Inr demo_env) ?cfg = Inr c"
    by (simp add: RedisNewCoordinator_def Let_def)
  then obtain c where c: "RedisNewCoordinator False (\<lambda>_. ''tk'') (\<lambda>e. Inr (oe_ID e)) (\<lambda>x. Inr demo_env) ?cfg = Inr c" by blast
  from redis_settings_bounded [OF c, of "[]" "[]"] c show ?thesis by blast
qed

end
