(* ===== verification/RedisState.thy ===== *)
theory RedisState
  imports RedisQueue
begin

text \<open>
  The durable state store of the pipeline (state/redisdb/store.go): a table of the database with a
  cache in Redis in front. The database client is an argument: its statements with their errors
  and the number of rows they touched. Its laws say what the statements do; Redis is the server
  of RedisServer. The encoding of the cached record is an argument of the configuration.
\<close>

section \<open>Database\<close>

record operationStateRecord =
  sr_OperationID :: string
  sr_Kind :: OperationKind
  sr_Resource :: string
  sr_State :: OperationState
  sr_Attempts :: int
  sr_LastError :: string
  sr_UpdatedAt :: instant
  sr_CreatedAt :: instant

text \<open>\<open>db_update\<close> is UPDATE with the given assignments WHERE the id, and the state if one is given,
  match; \<open>db_upsert\<close> inserts the row or, on a conflict, assigns its columns but the creation time.\<close>

record 'd OpDB =
  db_migrate :: "'d \<Rightarrow> op_error option \<times> 'd"
  db_update :: "string \<Rightarrow> OperationState option \<Rightarrow> (operationStateRecord \<Rightarrow> operationStateRecord) \<Rightarrow> 'd \<Rightarrow> (op_error + int) \<times> 'd"
  db_count :: "string \<Rightarrow> 'd \<Rightarrow> op_error + int"
  db_take :: "string \<Rightarrow> 'd \<Rightarrow> op_error + operationStateRecord option"
  db_upsert :: "operationStateRecord \<Rightarrow> 'd \<Rightarrow> op_error option \<times> 'd"

definition row_matches :: "OperationState option \<Rightarrow> operationStateRecord option \<Rightarrow> bool" where
  "row_matches old x = (case x of None \<Rightarrow> False | Some r \<Rightarrow> (case old of None \<Rightarrow> True | Some st \<Rightarrow> sr_State r = st))"

definition db_laws :: "'d OpDB \<Rightarrow> ('d \<Rightarrow> string \<Rightarrow> operationStateRecord option) \<Rightarrow> bool" where
  "db_laws D rows \<longleftrightarrow> (\<forall>i old f d row.
     rows (snd (db_migrate D d)) = rows d
   \<and> (case fst (db_update D i old f d) of
        Inl err \<Rightarrow> rows (snd (db_update D i old f d)) = rows d
      | Inr n \<Rightarrow> n = (if row_matches old (rows d i) then 1 else 0)
          \<and> rows (snd (db_update D i old f d)) = (if row_matches old (rows d i) then (rows d)(i \<mapsto> f (the (rows d i))) else rows d))
   \<and> (case db_count D i d of Inl err \<Rightarrow> True | Inr n \<Rightarrow> n = (if rows d i = None then 0 else 1))
   \<and> (case db_take D i d of Inl err \<Rightarrow> True | Inr x \<Rightarrow> x = rows d i)
   \<and> (case fst (db_upsert D row d) of
        Some err \<Rightarrow> rows (snd (db_upsert D row d)) = rows d
      | None \<Rightarrow> rows (snd (db_upsert D row d)) = (rows d)(sr_OperationID row \<mapsto>
          (case rows d (sr_OperationID row) of None \<Rightarrow> row | Some old \<Rightarrow> row\<lparr>sr_CreatedAt := sr_CreatedAt old\<rparr>))))"

definition toRequestState :: "operationStateRecord \<Rightarrow> RequestState" where
  "toRequestState r = \<lparr>rs_OperationID = sr_OperationID r, rs_Kind = sr_Kind r, rs_Resource = sr_Resource r,
     rs_State = sr_State r, rs_Attempts = sr_Attempts r, rs_LastError = sr_LastError r, rs_UpdatedAt = UnixMilli (sr_UpdatedAt r)\<rparr>"

definition truncateReason :: "string \<Rightarrow> string" where
  "truncateReason reason = (if length reason \<le> 2048 then reason else take 2048 reason)"

section \<open>The store\<close>

record ('r, 'd) RedisStore =
  st_server :: "'r Redis"
  st_storePrefix :: string
  st_db :: "'d OpDB option"
  st_keyPrefix :: string
  st_ttl :: duration
  st_marshal :: "RequestState \<Rightarrow> op_error + string"
  st_unmarshal :: "string \<Rightarrow> op_error + RequestState"

text \<open>The data of Redis and of the database, with the outcome of the migration once it has run.\<close>

record ('r, 'd) store_data =
  sd_redis :: 'r
  sd_db :: 'd
  sd_migrated :: "op_error option option"

record ('r, 'd) StateStoreConfig =
  sc_Redis :: "('r Redis \<times> string) option"
  sc_DB :: "'d OpDB option"
  sc_KeyPrefix :: string
  sc_TTL :: duration

definition ensureMigrated :: "('r, 'd) RedisStore \<Rightarrow> ('r, 'd) store_data \<Rightarrow> op_error option \<times> ('r, 'd) store_data" where
  "ensureMigrated c s =
    (case st_db c of
       None \<Rightarrow> (None, s)
     | Some D \<Rightarrow>
         (case sd_migrated s of
            Some res \<Rightarrow> (res, s)
          | None \<Rightarrow> (case db_migrate D (sd_db s) of (res, d) \<Rightarrow> (res, s\<lparr>sd_db := d, sd_migrated := Some res\<rparr>))))"

definition StateNewStore ::
  "(RequestState \<Rightarrow> op_error + string) \<Rightarrow> (string \<Rightarrow> op_error + RequestState) \<Rightarrow> ('r, 'd) StateStoreConfig
    \<Rightarrow> ('r, 'd) store_data \<Rightarrow> (op_error + ('r, 'd) RedisStore) \<times> ('r, 'd) store_data" where
  "StateNewStore marshal unmarshal cfg s =
    (case sc_Redis cfg of
       None \<Rightarrow> (Inl (OpErr ''redis client is required''), s)
     | Some (server, storePrefix) \<Rightarrow>
         (let c = \<lparr>st_server = server, st_storePrefix = storePrefix, st_db = sc_DB cfg,
                st_keyPrefix = TrimSuffix (sc_KeyPrefix cfg) '':'', st_ttl = (if sc_TTL cfg \<le> 0 then 24 * Hour else sc_TTL cfg),
                st_marshal = marshal, st_unmarshal = unmarshal\<rparr>
          in case ensureMigrated c s of
               (Some err, s1) \<Rightarrow> (Inl err, s1)
             | (None, s1) \<Rightarrow> (Inr c, s1)))"

definition persistentKey :: "('r, 'd) RedisStore \<Rightarrow> string \<Rightarrow> string" where
  "persistentKey c operationID =
    (if st_keyPrefix c = [] then ''operation_state:'' @ operationID
     else st_keyPrefix c @ '':operation_state:'' @ operationID)"

definition fetchState ::
  "('r, 'd) RedisStore \<Rightarrow> instant \<Rightarrow> string \<Rightarrow> ('r, 'd) store_data \<Rightarrow> (op_error + RequestState option) \<times> ('r, 'd) store_data" where
  "fetchState c now operationID s =
    (case GetKey (st_server c) (st_storePrefix c) now (persistentKey c operationID) (sd_redis s) of
       (Inl err, r) \<Rightarrow>
         (if err_is err RedisNil \<or> err_is err ErrKeyNotFound \<or> err_is err ErrRedisIsDown then Inr None else Inl err, s\<lparr>sd_redis := r\<rparr>)
     | (Inr raw, r) \<Rightarrow>
         (if raw = [] then Inr None
          else case st_unmarshal c raw of Inl err \<Rightarrow> Inl err | Inr state \<Rightarrow> Inr (Some state), s\<lparr>sd_redis := r\<rparr>))"

definition cacheState ::
  "('r, 'd) RedisStore \<Rightarrow> instant \<Rightarrow> RequestState \<Rightarrow> ('r, 'd) store_data \<Rightarrow> op_error option \<times> ('r, 'd) store_data" where
  "cacheState c now state s =
    (case st_marshal c state of
       Inl err \<Rightarrow> (Some err, s)
     | Inr payload \<Rightarrow>
         (case SetKey (st_server c) (st_storePrefix c) now (persistentKey c (rs_OperationID state)) payload (st_ttl c) (sd_redis s) of
            (res, r) \<Rightarrow> (res, s\<lparr>sd_redis := r\<rparr>)))"

definition persistRecord ::
  "('r, 'd) RedisStore \<Rightarrow> operationStateRecord \<Rightarrow> ('r, 'd) store_data \<Rightarrow> op_error option \<times> ('r, 'd) store_data" where
  "persistRecord c row s =
    (case ensureMigrated c s of
       (Some err, s1) \<Rightarrow> (Some err, s1)
     | (None, s1) \<Rightarrow>
         (case st_db c of
            None \<Rightarrow> (None, s1)
          | Some D \<Rightarrow>
              (case db_upsert D (row\<lparr>sr_CreatedAt := sr_UpdatedAt row\<rparr>) (sd_db s1) of (res, d) \<Rightarrow> (res, s1\<lparr>sd_db := d\<rparr>))))"

definition state_Upsert ::
  "('r, 'd) RedisStore \<Rightarrow> instant \<Rightarrow> OperationEnvelope option \<Rightarrow> OperationState \<Rightarrow> ('r, 'd) store_data \<Rightarrow> op_error option \<times> ('r, 'd) store_data" where
  "state_Upsert c now env0 state s =
    (case env0 of
       None \<Rightarrow> (Some (OpErr ''operation envelope is required''), s)
     | Some env \<Rightarrow>
         if oe_ID env = [] then (Some (OpErr ''operation id is required''), s)
         else (let row = \<lparr>sr_OperationID = oe_ID env, sr_Kind = oe_Kind env, sr_Resource = oe_Resource env, sr_State = state,
                     sr_Attempts = 0, sr_LastError = [], sr_UpdatedAt = now, sr_CreatedAt = zero_time\<rparr>
               in case persistRecord c row s of
                    (Some err, s1) \<Rightarrow> (Some err, s1)
                  | (None, s1) \<Rightarrow> cacheState c now (toRequestState row) s1))"

text \<open>The cached record after a change, and the blank one that stands in for a missing record.\<close>

definition blank_state :: "string \<Rightarrow> RequestState" where
  "blank_state i = \<lparr>rs_OperationID = i, rs_Kind = OperationOther [], rs_Resource = [], rs_State = StateOther [],
     rs_Attempts = 0, rs_LastError = [], rs_UpdatedAt = 0\<rparr>"

definition recache ::
  "('r, 'd) RedisStore \<Rightarrow> instant \<Rightarrow> string \<Rightarrow> (RequestState \<Rightarrow> RequestState) \<Rightarrow> ('r, 'd) store_data \<Rightarrow> op_error option \<times> ('r, 'd) store_data" where
  "recache c now operationID f s =
    (case fetchState c now operationID s of
       (Inl err, s1) \<Rightarrow> (Some err, s1)
     | (Inr current, s1) \<Rightarrow>
         cacheState c now (f (case current of None \<Rightarrow> blank_state operationID | Some r \<Rightarrow> r)) s1)"

definition advance_row :: "instant \<Rightarrow> OperationState \<Rightarrow> operationStateRecord \<Rightarrow> operationStateRecord" where
  "advance_row now new row = row\<lparr>sr_State := new, sr_UpdatedAt := now,
     sr_LastError := (if new \<noteq> StateFailed then [] else sr_LastError row),
     sr_Attempts := (if new = StateQueued then 0 else sr_Attempts row)\<rparr>"

definition state_Advance ::
  "('r, 'd) RedisStore \<Rightarrow> instant \<Rightarrow> string \<Rightarrow> OperationState \<Rightarrow> OperationState \<Rightarrow> ('r, 'd) store_data \<Rightarrow> op_error option \<times> ('r, 'd) store_data" where
  "state_Advance c now operationID old new s =
    (if operationID = [] then (Some (OpErr ''operation id is required''), s)
     else case ensureMigrated c s of
            (Some err, s1) \<Rightarrow> (Some err, s1)
          | (None, s1) \<Rightarrow>
              (case st_db c of
                 None \<Rightarrow> recache c now operationID (advanced_state now new) s1
               | Some D \<Rightarrow>
                   (case db_update D operationID (Some old) (advance_row now new) (sd_db s1) of
                      (Inl err, d) \<Rightarrow> (Some err, s1\<lparr>sd_db := d\<rparr>)
                    | (Inr affected, d) \<Rightarrow>
                        if affected = 0
                        then (case db_count D operationID d of
                                Inl err \<Rightarrow> (Some err, s1\<lparr>sd_db := d\<rparr>)
                              | Inr count \<Rightarrow> (Some (if count = 0 then not_found operationID else ErrStateConflict), s1\<lparr>sd_db := d\<rparr>))
                        else recache c now operationID (advanced_state now new) (s1\<lparr>sd_db := d\<rparr>))))"

definition state_RecordFailure ::
  "('r, 'd) RedisStore \<Rightarrow> instant \<Rightarrow> string \<Rightarrow> int \<Rightarrow> string \<Rightarrow> ('r, 'd) store_data \<Rightarrow> op_error option \<times> ('r, 'd) store_data" where
  "state_RecordFailure c now operationID attempt reason s =
    (if operationID = [] then (Some (OpErr ''operation id is required''), s)
     else case ensureMigrated c s of
            (Some err, s1) \<Rightarrow> (Some err, s1)
          | (None, s1) \<Rightarrow>
              (case st_db c of
                 None \<Rightarrow> recache c now operationID (failed_state now attempt reason) s1
               | Some D \<Rightarrow>
                   (case db_update D operationID None (\<lambda>row. row\<lparr>sr_State := StateFailed, sr_Attempts := attempt,
                             sr_LastError := truncateReason reason, sr_UpdatedAt := now\<rparr>) (sd_db s1) of
                      (Inl err, d) \<Rightarrow> (Some err, s1\<lparr>sd_db := d\<rparr>)
                    | (Inr affected, d) \<Rightarrow>
                        if affected = 0 then (Some (not_found operationID), s1\<lparr>sd_db := d\<rparr>)
                        else recache c now operationID (failed_state now attempt reason) (s1\<lparr>sd_db := d\<rparr>))))"

definition state_Get ::
  "('r, 'd) RedisStore \<Rightarrow> instant \<Rightarrow> string \<Rightarrow> ('r, 'd) store_data \<Rightarrow> (op_error + RequestState) \<times> ('r, 'd) store_data" where
  "state_Get c now operationID s =
    (if operationID = [] then (Inl (OpErr ''operation id is required''), s)
     else case fetchState c now operationID s of
            (Inl err, s1) \<Rightarrow> (Inl err, s1)
          | (Inr (Some cached), s1) \<Rightarrow> (Inr cached, s1)
          | (Inr None, s1) \<Rightarrow>
              (case st_db c of
                 None \<Rightarrow> (Inl (not_found operationID), s1)
               | Some D \<Rightarrow>
                   (case db_take D operationID (sd_db s1) of
                      Inl err \<Rightarrow> (Inl err, s1)
                    | Inr None \<Rightarrow> (Inl (not_found operationID), s1)
                    | Inr (Some row) \<Rightarrow> (Inr (toRequestState row), snd (cacheState c now (toRequestState row) s1)))))"

definition redis_state_store :: "('r, 'd) RedisStore \<Rightarrow> ('r, 'd) store_data RequestStateStore" where
  "redis_state_store c = \<lparr>s_Upsert = state_Upsert c, s_Advance = state_Advance c,
     s_RecordFailure = state_RecordFailure c, s_Get = state_Get c\<rparr>"

end
