(* ===== verification/RedisStateProperties.thy ===== *)
theory RedisStateProperties
  imports RedisState RedisTable
begin

text \<open>
  What the durable state store keeps, and what its cache does to it: the database guards every
  transition, whatever fails; the cache may hold less than the database, and without a
  database nothing is guarded.
\<close>

section \<open>A table for the rows\<close>

type_synonym row_table = "(string \<times> operationStateRecord) list"

definition table_db :: "row_table OpDB" where
  "table_db = \<lparr>db_migrate = \<lambda>d. (None, d),
     db_update = \<lambda>i old f d. if row_matches old (map_of d i) then (Inr 1, AList.update i (f (the (map_of d i))) d) else (Inr 0, d),
     db_count = \<lambda>i d. Inr (if map_of d i = None then 0 else 1), db_take = \<lambda>i d. Inr (map_of d i),
     db_upsert = \<lambda>row d. (None, AList.update (sr_OperationID row) (case map_of d (sr_OperationID row) of None \<Rightarrow> row
        | Some old \<Rightarrow> row\<lparr>sr_CreatedAt := sr_CreatedAt old\<rparr>) d)\<rparr>"

lemma table_db_laws: "db_laws table_db map_of"
  by (simp add: db_laws_def table_db_def update_conv')

section \<open>What the statements do\<close>

lemma db_facts:
  assumes "db_laws D rows"
  shows "rows (snd (db_migrate D d)) = rows d"
    "db_update D i old f d = (Inl err, d') \<Longrightarrow> rows d' = rows d"
    "db_update D i old f d = (Inr n, d') \<Longrightarrow> n = (if row_matches old (rows d i) then 1 else 0)"
    "db_update D i old f d = (Inr n, d') \<Longrightarrow> rows d' = (if row_matches old (rows d i) then (rows d)(i \<mapsto> f (the (rows d i))) else rows d)"
    "db_count D i d = Inr n \<Longrightarrow> n = (if rows d i = None then 0 else 1)"
    "db_take D i d = Inr x \<Longrightarrow> x = rows d i"
proof -
  note L = assms [unfolded db_laws_def, rule_format, of d i old f]
  show "rows (snd (db_migrate D d)) = rows d" using L by blast
  show "db_update D i old f d = (Inl err, d') \<Longrightarrow> rows d' = rows d" using L by simp
  show "db_update D i old f d = (Inr n, d') \<Longrightarrow> n = (if row_matches old (rows d i) then 1 else 0)" using L by simp
  show "db_update D i old f d = (Inr n, d') \<Longrightarrow> rows d' = (if row_matches old (rows d i) then (rows d)(i \<mapsto> f (the (rows d i))) else rows d)"
    using L by simp
  show "db_count D i d = Inr n \<Longrightarrow> n = (if rows d i = None then 0 else 1)" using L by simp
  show "db_take D i d = Inr x \<Longrightarrow> x = rows d i" using L by simp
qed

lemma migrate_rows:
  "st_db c = Some D \<Longrightarrow> db_laws D rows \<Longrightarrow> ensureMigrated c s = (res, s1) \<Longrightarrow> rows (sd_db s1) = rows (sd_db s)"
  using db_facts(1) [of D rows "sd_db s"] by (auto simp: ensureMigrated_def split: option.splits prod.splits)

lemma fetch_db: "fetchState c now i s = (res, s1) \<Longrightarrow> sd_db s1 = sd_db s"
  by (auto simp: fetchState_def split: sum.splits prod.splits)

lemma cache_db: "cacheState c now st s = (res, s1) \<Longrightarrow> sd_db s1 = sd_db s"
  by (auto simp: cacheState_def split: sum.splits prod.splits)

lemma recache_db: "recache c now i f s = (res, s1) \<Longrightarrow> sd_db s1 = sd_db s"
  by (auto simp: recache_def dest!: fetch_db cache_db split: sum.splits prod.splits)

text \<open>No statement fails, and the migration has succeeded.\<close>

definition db_up :: "'d OpDB \<Rightarrow> ('r, 'd) store_data \<Rightarrow> bool" where
  "db_up D s \<longleftrightarrow> sd_migrated s = Some None \<and> (\<forall>i old f d. \<not> isl (fst (db_update D i old f d)) \<and> \<not> isl (db_count D i d))"

text \<open>C29. With a database a transition is guarded by the recorded state, whatever fails: the rows are as before, or
  exactly the row of the operation has moved, and then it was in the expected state; success means that it moved.
  When the statements succeed, another state is a conflict and no row a missing operation, and neither
  touches anything.\<close>

theorem durable_advance_guarded:
  assumes "st_db c = Some D" and "db_laws D rows" and "i \<noteq> []" and "state_Advance c now i old new s = (res, s')"
  shows "(rows (sd_db s') = rows (sd_db s) \<and> res \<noteq> None
       \<or> (\<exists>row. rows (sd_db s) i = Some row \<and> sr_State row = old \<and> rows (sd_db s') = (rows (sd_db s))(i \<mapsto> advance_row now new row)))
    \<and> (db_up D s \<longrightarrow> (rows (sd_db s) i = None \<longrightarrow> res = Some (not_found i))
       \<and> (\<forall>row. rows (sd_db s) i = Some row \<and> sr_State row \<noteq> old \<longrightarrow> res = Some ErrStateConflict))"
proof -
  obtain r0 s1 where m: "ensureMigrated c s = (r0, s1)" by fastforce
  have v1: "rows (sd_db s1) = rows (sd_db s)" by (rule migrate_rows [OF assms(1,2) m])
  have up: "r0 = None" if "db_up D s" using m that assms(1) by (auto simp: ensureMigrated_def db_up_def)
  show ?thesis
  proof (cases r0)
    case (Some err)
    with assms m v1 up show ?thesis by (auto simp: state_Advance_def)
  next
    case None
    obtain n d where u: "db_update D i (Some old) (advance_row now new) (sd_db s1) = (n, d)" by fastforce
    show ?thesis
    proof (cases n)
      case (Inl err)
      have "\<not> db_up D s"
      proof
        assume "db_up D s"
        then have "\<not> isl (fst (db_update D i (Some old) (advance_row now new) (sd_db s1)))" unfolding db_up_def by blast
        with u Inl show False by simp
      qed
      moreover have "rows (sd_db s') = rows (sd_db s)" "res \<noteq> None"
        using assms m None u Inl v1 db_facts(2) [OF assms(2), of i "Some old" "advance_row now new" "sd_db s1" err d]
        by (auto simp: state_Advance_def)
      ultimately show ?thesis by blast
    next
      case (Inr k)
      note U = db_facts(3,4) [OF assms(2) u [unfolded Inr], unfolded v1]
      show ?thesis
      proof (cases "row_matches (Some old) (rows (sd_db s) i)")
        case True
        then obtain row where row: "rows (sd_db s) i = Some row" "sr_State row = old" by (auto simp: row_matches_def split: option.splits)
        have "sd_db s' = d" using assms(1,3,4) m None u Inr U(1) True by (auto simp: state_Advance_def dest!: recache_db)
        with U(2) True row show ?thesis by auto
      next
        case False
        have c: "db_count D i d = Inr x \<Longrightarrow> x = (if rows (sd_db s) i = None then 0 else 1)" for x
          using db_facts(5) [OF assms(2), of i d x] U(2) False by simp
        have "rows (sd_db s') = rows (sd_db s) \<and> res \<noteq> None"
          using assms(1,3,4) m None u Inr U False by (auto simp: state_Advance_def split: sum.splits)
        moreover have "res = Some (if rows (sd_db s) i = None then not_found i else ErrStateConflict)" if "db_up D s"
        proof -
          from that have "\<not> isl (db_count D i d)" unfolding db_up_def by blast
          then obtain x where "db_count D i d = Inr x" by (cases "db_count D i d") auto
          with c [OF this] assms(1,3,4) m None u Inr U False show ?thesis by (auto simp: state_Advance_def)
        qed
        ultimately show ?thesis by simp
      qed
    qed
  qed
qed

definition demo_row :: operationStateRecord where
  "demo_row = \<lparr>sr_OperationID = ''op-1'', sr_Kind = OperationCreate, sr_Resource = ''users'', sr_State = StateQueued,
     sr_Attempts = 0, sr_LastError = [], sr_UpdatedAt = unix_epoch, sr_CreatedAt = unix_epoch\<rparr>"

text \<open>An encoding good enough for the records of the examples: the record's fields are kept aside.\<close>

definition demo_state_store :: "row_table OpDB option \<Rightarrow> RequestState \<Rightarrow> (table, row_table) RedisStore" where
  "demo_state_store db r = \<lparr>st_server = table_redis, st_storePrefix = [], st_db = db, st_keyPrefix = ''user'', st_ttl = Hour,
     st_marshal = \<lambda>_. Inr ''x'', st_unmarshal = \<lambda>_. Inr r\<rparr>"

definition demo_data :: "(table, row_table) store_data" where
  "demo_data = \<lparr>sd_redis = empty_table, sd_db = [(''op-1'', demo_row)], sd_migrated = Some None\<rparr>"

theorem durable_advance_guarded_witness:
  "fst (state_Advance (demo_state_store (Some table_db) (blank_state ''op-1'')) unix_epoch ''op-1'' StateExecuting StateCompleted demo_data) = Some ErrStateConflict
    \<and> sd_db (snd (state_Advance (demo_state_store (Some table_db) (blank_state ''op-1'')) unix_epoch ''op-1'' StateExecuting StateCompleted demo_data)) = sd_db demo_data"
proof -
  let ?c = "demo_state_store (Some table_db) (blank_state ''op-1'')"
  have "st_db ?c = Some table_db" by (simp add: demo_state_store_def)
  moreover obtain res s' where call: "state_Advance ?c unix_epoch ''op-1'' StateExecuting StateCompleted demo_data = (res, s')" by fastforce
  moreover have "db_up table_db demo_data" by (simp add: db_up_def demo_data_def table_db_def)
  moreover have "map_of (sd_db demo_data) ''op-1'' = Some demo_row" "sr_State demo_row \<noteq> StateExecuting" by (simp_all add: demo_data_def demo_row_def)
  ultimately have "res = Some ErrStateConflict" using durable_advance_guarded [OF _ table_db_laws, of ?c "''op-1''"] by fastforce
  moreover have "sd_db s' = sd_db demo_data" using arg_cong [OF call, of "\<lambda>x. sd_db (snd x)"]
    by (simp add: state_Advance_def ensureMigrated_def demo_state_store_def demo_data_def table_db_def row_matches_def demo_row_def)
  ultimately show ?thesis by (simp add: call)
qed

section \<open>The cache\<close>

lemma get_reliable:
  assumes "redis_laws R view ty" and "reliable R" and "ty (fixKey p k) = TString"
  shows "\<exists>r'. GetKey R p now k r = ((case v_str (view r) (fixKey p k) of None \<Rightarrow> Inl RedisNil
      | Some (x, e) \<Rightarrow> if now < e then Inr x else Inl RedisNil), r') \<and> view r' = view r"
proof -
  obtain r1 where t: "rd_trip R r = (None, r1)" "rd_up R r" using assms(2) unfolding reliable_def by (metis prod.collapse)
  have v: "view r1 = view r" using trip_facts [OF assms(1), of r] t(1) by simp
  show ?thesis
    using t v string_facts(1) [OF assms(1,3), of now r1] by (auto simp: GetKey_def RedisNil_def split: option.splits)
qed

lemma set_reliable:
  assumes "redis_laws R view ty" and "reliable R" and "ty (fixKey p k) = TString" and "0 < d"
  shows "\<exists>r'. SetKey R p now k x d r = (None, r') \<and> view r' = (view r)\<lparr>v_str := (v_str (view r))(fixKey p k \<mapsto> (x, now + d))\<rparr>"
proof -
  obtain r1 where t: "rd_trip R r = (None, r1)" "rd_up R r" using assms(2) unfolding reliable_def by (metis prod.collapse)
  have v: "view r1 = view r" using trip_facts [OF assms(1), of r] t(1) by simp
  show ?thesis using t v string_facts(2) [OF assms(1,3,4), of now x r1] by (simp add: SetKey_def)
qed

definition cached :: "('r, 'd) RedisStore \<Rightarrow> ('r \<Rightarrow> rview) \<Rightarrow> ('r, 'd) store_data \<Rightarrow> string \<Rightarrow> (string \<times> instant) option" where
  "cached c view s i = v_str (view (sd_redis s)) (fixKey (st_storePrefix c) (persistentKey c i))"

lemma cached_cong:
  "view r' = view (sd_redis s) \<Longrightarrow> cached c view (s\<lparr>sd_redis := r'\<rparr>) = cached c view s"
  by (simp add: cached_def fun_eq_iff)

text \<open>Redis is reached and holds the cache under string keys.\<close>

definition cache_env :: "('r, 'd) RedisStore \<Rightarrow> ('r \<Rightarrow> rview) \<Rightarrow> bool" where
  "cache_env c view \<longleftrightarrow> (\<exists>ty. redis_laws (st_server c) view ty \<and> (\<forall>i. ty (fixKey (st_storePrefix c) (persistentKey c i)) = TString))
     \<and> reliable (st_server c) \<and> 0 < st_ttl c"

lemma fetch_cached:
  assumes "cache_env c view"
  shows "cached c view s i = None \<or> (\<exists>x e. cached c view s i = Some (x, e) \<and> e \<le> now) \<Longrightarrow>
      \<exists>s1. fetchState c now i s = (Inr None, s1) \<and> sd_db s1 = sd_db s \<and> cached c view s1 = cached c view s"
    and "cached c view s i = Some (x, e) \<Longrightarrow> now < e \<Longrightarrow> x \<noteq> [] \<Longrightarrow> st_unmarshal c x = Inr r \<Longrightarrow>
      \<exists>s1. fetchState c now i s = (Inr (Some r), s1) \<and> sd_db s1 = sd_db s \<and> cached c view s1 = cached c view s"
proof -
  from assms obtain ty where ty: "redis_laws (st_server c) view ty" "reliable (st_server c)"
    "ty (fixKey (st_storePrefix c) (persistentKey c i)) = TString" by (auto simp: cache_env_def)
  note G = get_reliable [OF ty, of now "sd_redis s", unfolded cached_def [of c view s i, symmetric]]
  show "cached c view s i = None \<or> (\<exists>x e. cached c view s i = Some (x, e) \<and> e \<le> now) \<Longrightarrow>
      \<exists>s1. fetchState c now i s = (Inr None, s1) \<and> sd_db s1 = sd_db s \<and> cached c view s1 = cached c view s"
  proof -
    assume none: "cached c view s i = None \<or> (\<exists>x e. cached c view s i = Some (x, e) \<and> e \<le> now)"
    obtain r' where g: "GetKey (st_server c) (st_storePrefix c) now (persistentKey c i) (sd_redis s) = (Inl RedisNil, r')" "view r' = view (sd_redis s)"
      using G none by (auto split: option.splits)
    show ?thesis using g(1) cached_cong [of view r' s c, OF g(2)] by (simp add: fetchState_def RedisNil_def)
  qed
  show "cached c view s i = Some (x, e) \<Longrightarrow> now < e \<Longrightarrow> x \<noteq> [] \<Longrightarrow> st_unmarshal c x = Inr r \<Longrightarrow>
      \<exists>s1. fetchState c now i s = (Inr (Some r), s1) \<and> sd_db s1 = sd_db s \<and> cached c view s1 = cached c view s"
  proof -
    assume some: "cached c view s i = Some (x, e)" "now < e" "x \<noteq> []" "st_unmarshal c x = Inr r"
    obtain r' where g: "GetKey (st_server c) (st_storePrefix c) now (persistentKey c i) (sd_redis s) = (Inr x, r')" "view r' = view (sd_redis s)"
      using G some by auto
    show ?thesis using g(1) some(3,4) cached_cong [of view r' s c, OF g(2)] by (simp add: fetchState_def)
  qed
qed

lemma cache_cached:
  assumes "cache_env c view" and "st_marshal c st = Inr x"
  shows "\<exists>s1. cacheState c now st s = (None, s1) \<and> sd_db s1 = sd_db s \<and> cached c view s1 (rs_OperationID st) = Some (x, now + st_ttl c)"
proof -
  from assms obtain ty where ty: "redis_laws (st_server c) view ty" "reliable (st_server c)"
    "ty (fixKey (st_storePrefix c) (persistentKey c (rs_OperationID st))) = TString" "0 < st_ttl c" by (auto simp: cache_env_def)
  from set_reliable [OF ty, of now x "sd_redis s"] assms(2) show ?thesis by (auto simp: cacheState_def cached_def)
qed

lemma recache_blank:
  assumes "cache_env c view" and "cached c view s i = None \<or> (\<exists>x e. cached c view s i = Some (x, e) \<and> e \<le> now)"
    and "st_marshal c (f (blank_state i)) = Inr x" and "rs_OperationID (f (blank_state i)) = i"
  shows "\<exists>s1. recache c now i f s = (None, s1) \<and> sd_db s1 = sd_db s \<and> cached c view s1 i = Some (x, now + st_ttl c)"
proof -
  obtain s0 where f: "fetchState c now i s = (Inr None, s0)" "sd_db s0 = sd_db s" using fetch_cached(1) [OF assms(1,2)] by blast
  obtain s1 where "cacheState c now (f (blank_state i)) s0 = (None, s1)" "sd_db s1 = sd_db s0" "cached c view s1 i = Some (x, now + st_ttl c)"
    using cache_cached [OF assms(1,3), of now s0] assms(4) by auto
  with f show ?thesis by (simp add: recache_def)
qed

lemma advanced_blank_id: "rs_OperationID (advanced_state now new (blank_state i)) = i"
  by (simp add: advanced_state_def blank_state_def)

text \<open>A transition of a record that is not in the cache (it has expired, or Redis lost it) caches a record
  made from nothing: it has neither kind nor resource, and until it expires Get answers it although
  the database holds both.\<close>

theorem cache_blanks_record:
  assumes "cache_env c view" and "st_db c = Some D" and "db_laws D rows" and "db_up D s"
    and "rows (sd_db s) i = Some row" and "sr_State row = old" and "i \<noteq> []"
    and "cached c view s i = None \<or> (\<exists>x e. cached c view s i = Some (x, e) \<and> e \<le> now)"
    and "st_marshal c (advanced_state now new (blank_state i)) = Inr x" and "x \<noteq> []"
    and "st_unmarshal c x = Inr (advanced_state now new (blank_state i))" and "t < now + st_ttl c"
  shows "\<exists>s1 s2 got. state_Advance c now i old new s = (None, s1) \<and> state_Get c t i s1 = (Inr got, s2)
    \<and> rows (sd_db s2) i = Some (advance_row now new row) \<and> rs_State got = new
    \<and> rs_Kind got = OperationOther [] \<and> rs_Resource got = []"
proof -
  have m: "ensureMigrated c s = (None, s)" using assms(2,4) by (simp add: ensureMigrated_def db_up_def)
  obtain n d where u: "db_update D i (Some old) (advance_row now new) (sd_db s) = (n, d)" by fastforce
  have "\<not> isl (fst (db_update D i (Some old) (advance_row now new) (sd_db s)))" using assms(4) unfolding db_up_def by blast
  with u obtain k where k: "n = Inr k" by (cases n) auto
  note U = db_facts(3,4) [OF assms(3) u [unfolded k]]
  have match: "row_matches (Some old) (rows (sd_db s) i)" using assms(5,6) by (simp add: row_matches_def)
  let ?s = "s\<lparr>sd_db := d\<rparr>"
  have same: "cached c view ?s i = cached c view s i" by (simp add: cached_def)
  obtain s1 where r: "recache c now i (advanced_state now new) ?s = (None, s1)" "sd_db s1 = d" "cached c view s1 i = Some (x, now + st_ttl c)"
    using recache_blank [of c view ?s i now "advanced_state now new" x, OF assms(1) assms(8) [folded same] assms(9) advanced_blank_id] by auto
  have adv: "state_Advance c now i old new s = (None, s1)" using m u k U(1) match r(1) assms(2,7) by (simp add: state_Advance_def)
  obtain s2 where "fetchState c t i s1 = (Inr (Some (advanced_state now new (blank_state i))), s2)" "sd_db s2 = d"
    using fetch_cached(2) [OF assms(1) r(3) assms(12,10,11)] r(2) by auto
  with adv U(2) match assms(5,7) show ?thesis
    by (simp add: state_Get_def advanced_state_def blank_state_def)
qed

theorem cache_blanks_record_witness:
  "rs_Kind (case fst (state_Get (demo_state_store (Some table_db) (advanced_state unix_epoch StateExecuting (blank_state ''op-1''))) unix_epoch ''op-1''
      (snd (state_Advance (demo_state_store (Some table_db) (advanced_state unix_epoch StateExecuting (blank_state ''op-1''))) unix_epoch ''op-1'' StateQueued StateExecuting demo_data)))
      of Inr got \<Rightarrow> got) = OperationOther []"
proof -
  let ?c = "demo_state_store (Some table_db) (advanced_state unix_epoch StateExecuting (blank_state ''op-1''))"
  have "cache_env ?c table_view"
    unfolding cache_env_def demo_state_store_def using table_laws [of "\<lambda>_. TString"] table_reliable by (auto simp: Hour_def Minute_def Second_def)
  moreover have "st_db ?c = Some table_db" "st_ttl ?c = Hour" "st_marshal ?c r = Inr ''x''"
    "st_unmarshal ?c ''x'' = Inr (advanced_state unix_epoch StateExecuting (blank_state ''op-1''))" for r
    by (simp_all add: demo_state_store_def)
  moreover have "db_up table_db demo_data" by (simp add: db_up_def demo_data_def table_db_def)
  moreover have "map_of (sd_db demo_data) ''op-1'' = Some demo_row" "sr_State demo_row = StateQueued" by (simp_all add: demo_data_def demo_row_def)
  moreover have "cached ?c table_view demo_data ''op-1'' = None" by code_simp
  moreover have "(0::int) < Hour" by code_simp
  ultimately show ?thesis
    using cache_blanks_record [OF _ _ table_db_laws, of ?c table_view demo_data "''op-1''" demo_row StateQueued unix_epoch StateExecuting "''x''" unix_epoch]
    by fastforce
qed

end
