(* ===== verification/RedisPipeline.thy ===== *)
theory RedisPipeline
  imports RedisQueueProperties RedisStateProperties
begin

text \<open>
  The pipeline on the Redis queue, with either store: what a step leaves in the queue once it has acknowledged an
  operation, shown with the store in memory, and what becomes of an operation whose worker died, shown
  with the durable store and its database, as the service pairs them.
\<close>

definition redis_pipeline ::
  "'r RedisCoordinator \<Rightarrow> 's RequestStateStore \<Rightarrow> OperationExecutor \<Rightarrow> int \<Rightarrow> (int \<Rightarrow> duration) \<Rightarrow> ('r rqueue, 's) Pipeline" where
  "redis_pipeline c store x n b =
    \<lparr>p_queue = redis_queue c, p_state = store, p_exec = x, p_maxAttempts = n, p_retryBackoff = b\<rparr>"

interpretation redis_steps: pipeline_store memory_store store_ok map_of
  "\<lparr>p_queue = redis_queue c, p_state = memory_store, p_exec = x, p_maxAttempts = n, p_retryBackoff = b\<rparr>"
  for c x n b
  by unfold_locales simp

text \<open>An operation that no dequeue returns, whatever runs, until it is enqueued or requeued.\<close>

definition never_served :: "'r RedisCoordinator \<Rightarrow> string \<Rightarrow> 'r rqueue \<Rightarrow> bool" where
  "never_served c i q \<longleftrightarrow> (\<forall>ops t item q'. (\<forall>op\<in>set ops. \<not> re_adds i op) \<longrightarrow>
     redis_Dequeue c t (foldl (rstep c) q ops) = (Inr item, q') \<longrightarrow> oe_ID (qi_Envelope item) \<noteq> i)"

lemma acked_never_served:
  assumes "redis_env c view ty" and "json_id c" and "reliable (rc_server c)" and "payloads_ok c (look c view q)" and "i \<noteq> []"
  shows "\<exists>q'. q_Ack (redis_queue c) t i q = (None, q') \<and> never_served c i q'"
proof -
  obtain res q' where a: "redis_Ack c t i q = (res, q')" by fastforce
  note A = acked_absent [OF assms(1,3,5) a]
  have "payloads_ok c (look c view q')" using payloads_run [OF assms(1,2,4), of "[RAck t i]"] a by simp
  from absent_stays_away [OF assms(1,2) this A(2)] have "never_served c i q'" unfolding never_served_def by blast
  with a A(1) show ?thesis by (simp add: redis_queue_def)
qed

lemma finish_failed_trigger:
  assumes "store_ok s" and "map_of s i = Some f" and "rs_State f = StateFailed" and "i \<noteq> []" and "or_OperationID res = i"
    and "or_Error res = Some e" and "or_TriggerCompensation res" and "p_state p = memory_store"
    and "q_Ack (p_queue p) t i (snd (scheduleCompensation p t (qi_Envelope item) q)) = (None, q')"
  shows "\<exists>s'. finish_failed p t item res (q, s) = (Some e, q', s')
    \<and> map_of s' = (map_of s)(i \<mapsto> advanced_state t StateCompensating f)"
proof -
  have "s_Advance memory_store t i StateExecuting StateFailed s = (Some ErrStateConflict, s)"
    using mem_state.advance_conflict [OF assms(1,4,2)] assms(3) by simp
  moreover obtain s' where "s_Advance memory_store t i StateFailed StateCompensating s = (None, s')"
    "map_of s' = (map_of s)(i \<mapsto> advanced_state t StateCompensating f)"
    using mem_state.advance_ok [OF assms(1,4,2,3)] by blast
  ultimately show ?thesis
    using assms(5-9) by (simp add: finish_failed_def Let_def ack_then_def)
qed

section \<open>Compensation\<close>

text \<open>C30. On the Redis queue, with the store in memory, a compensation is lost: when an attempt that is fatal or the last one allowed fails and asks for
  compensation, the operation is recorded as compensating, the compensation is put in the
  queue, and the acknowledgement that follows removes it again. No dequeue returns it, so
  the compensation never runs and the record stays as it is.\<close>

theorem compensation_lost:
  assumes env: "redis_env c view ty" and "json_id c" and "reliable (rc_server c)" and ok: "payloads_ok c (look c view q)"
    and call: "redis_Dequeue c t q = (Inr item, q1)" and "i = oe_ID (qi_Envelope item)" "i \<noteq> []"
    and "store_ok s" and "map_of s i = Some r" and "rs_State r = StateQueued \<or> rs_State r = StateFailed"
    and "operationPhase (qi_Envelope item) \<noteq> phaseCompensate" and f: "compensates x (qi_Envelope item) res e"
    and final: "or_Fatal res \<or> n \<le> qi_Attempts item + 1"
  shows "\<exists>q' s' r'. ProcessOnce (redis_pipeline c memory_store x n b) t (q, s) = (Some e, q', s')
    \<and> map_of s' i = Some r' \<and> rs_State r' = StateCompensating \<and> never_served c i q'"
proof -
  let ?p = "\<lparr>p_queue = redis_queue c, p_state = memory_store, p_exec = x, p_maxAttempts = n, p_retryBackoff = b\<rparr>"
  let ?res = "res\<lparr>or_Attempt := qi_Attempts item + 1\<rparr>"
  let ?ci = "compensation_item t (qi_Envelope item)"
  from f obtain err where x: "ex_Prepare x (qi_Envelope item) = (None, qi_Envelope item)"
    "ex_Execute x (qi_Envelope item) = (Some res, err, qi_Envelope item)" "or_OperationID res = i" "or_Error res = Some e"
    "or_TriggerCompensation res"
    unfolding assms(6) compensates_def by blast
  have eq: "?res = settle_result i ''executor returned nil result'' (qi_Attempts item + 1) (Some res) err"
    by (simp add: settle_res [OF x(4)])
  obtain s1 where s1: "processExecution ?p t item (q1, s) = finish_failed ?p t item ?res (q1, s1)" "store_ok s1"
    "map_of s1 = (map_of s)(i \<mapsto> failed_state t (qi_Attempts item + 1) (failure_reason ?res) (advanced_state t StateExecuting r))"
    using redis_steps.execution_failed [where now = t and b = b and n = n and x = x and c = c and q = q1
        and ?env1.0 = "qi_Envelope item" and ?env2.0 = "qi_Envelope item", OF assms(8,7) assms(6) [symmetric] assms(9,10) _ _ assms(6) [symmetric] eq] x final
    by (auto simp del: fun_upd_apply)
  let ?f = "failed_state t (qi_Attempts item + 1) (failure_reason ?res) (advanced_state t StateExecuting r)"
  have f1: "map_of s1 i = Some ?f" "rs_State ?f = StateFailed" by (simp_all add: s1(3))
  define q2 where "q2 = snd (redis_Requeue c t (Some ?ci) 0 q1)"
  have "payloads_ok c (look c view q2)"
    using payloads_run [OF env assms(2) ok, of "[RDequeue t, RRequeue t (Some ?ci) 0]"] call by (simp add: q2_def)
  from acked_never_served [OF env assms(2,3) this assms(7), of t] obtain q' where
    q': "q_Ack (redis_queue c) t i q2 = (None, q')" "never_served c i q'" by blast
  have sc: "snd (scheduleCompensation ?p t (qi_Envelope item) q1) = q2"
    by (simp add: scheduleCompensation_def cloneEnvelope_def q2_def redis_queue_def)
  obtain s2 where s2: "finish_failed ?p t item ?res (q1, s1) = (Some e, q', s2)"
    "map_of s2 = (map_of s1)(i \<mapsto> advanced_state t StateCompensating ?f)"
    using finish_failed_trigger [OF s1(2) f1 assms(7), of ?res e ?p t item q1 q'] x(3-5) q'(1) sc by auto
  have "ProcessOnce (redis_pipeline c memory_store x n b) t (q, s) = (Some e, q', s2)"
    using call assms(11) s1(1) s2(1) by (simp add: ProcessOnce_def redis_pipeline_def redis_queue_def)
  then show ?thesis using s2(2) q'(2) by (intro exI [of _ q'] exI [of _ s2]) (simp add: advanced_state_def)
qed

theorem compensation_lost_witness:
  "\<exists>q' s' r'. ProcessOnce (redis_pipeline demo_rc memory_store undo_exec 3 default_backoff) (unix_epoch + Second) (demo_two, demo_store) = (Some (OpErr ''quota''), q', s')
    \<and> map_of s' ''op-1'' = Some r' \<and> rs_State r' = StateCompensating \<and> never_served demo_rc ''op-1'' q'"
proof -
  let ?item = "demo_out demo_env (unix_epoch + Second)"
  have e: "qi_Envelope ?item = demo_env" by (simp add: demo_out_def)
  have i: "''op-1'' = oe_ID (qi_Envelope ?item)" unfolding e by (simp add: demo_env_def)
  have c: "compensates undo_exec (qi_Envelope ?item)
      (demo_result\<lparr>or_Error := Some (OpErr ''quota''), or_Fatal := True, or_TriggerCompensation := True\<rparr>) (OpErr ''quota'')"
    unfolding e by (simp add: compensates_def undo_exec_def demo_result_def demo_env_def)
  have p: "operationPhase (qi_Envelope ?item) \<noteq> phaseCompensate"
    unfolding e by (simp add: operationPhase_def demo_env_def phaseCompensate_def phaseExecute_def)
  from compensation_lost [OF demo_redis_env demo_rc_facts(2,1) demo_two_ok(2) demo_runs(1) i(1) _ demo_ok(1) demo_facts(4)
      disjI1 [OF demo_facts(5)] p c disjI1, of 3 default_backoff]
  show ?thesis by simp
qed

section \<open>A worker that dies\<close>

text \<open>With a database neither a queued nor a failed operation is found where one is executing.\<close>

lemma durable_conflict:
  assumes "st_db sc = Some D" and "db_laws D rows" and "i \<noteq> []" and "db_up D s" and "rows (sd_db s) i = Some row" and "sr_State row \<noteq> old"
  shows "\<exists>s'. state_Advance sc t i old new s = (Some ErrStateConflict, s') \<and> rows (sd_db s') = rows (sd_db s) \<and> db_up D s'"
proof -
  have m: "ensureMigrated sc s = (None, s)" using assms(1,4) by (simp add: ensureMigrated_def db_up_def)
  obtain n d where u: "db_update D i (Some old) (advance_row t new) (sd_db s) = (n, d)" by fastforce
  have up: "\<not> isl n" "\<not> isl (db_count D i d)" using assms(4) u unfolding db_up_def by (metis fst_conv, blast)
  then obtain k where k: "n = Inr k" by (cases n) auto
  have "\<not> row_matches (Some old) (rows (sd_db s) i)" using assms(5,6) by (simp add: row_matches_def)
  with db_facts(3,4) [OF assms(2) u [unfolded k]] have n: "k = 0" "rows d = rows (sd_db s)" by simp_all
  obtain x where x: "db_count D i d = Inr x" using up(2) by (cases "db_count D i d") auto
  with db_facts(5) [OF assms(2) x] n(2) assms(5) have "x = 1" by simp
  with x n u k m assms(1,3) have "state_Advance sc t i old new s = (Some ErrStateConflict, s\<lparr>sd_db := d\<rparr>)" by (simp add: state_Advance_def)
  with n(2) assms(4) show ?thesis by (intro exI [of _ "s\<lparr>sd_db := d\<rparr>"]) (simp add: db_up_def)
qed

lemma executing_conflict:
  assumes "st_db sc = Some D" and "db_laws D rows" and "i \<noteq> []" and "db_up D s" and "rows (sd_db s) i = Some row" and "sr_State row = StateExecuting"
  shows "\<exists>s'. advanceToExecuting (redis_pipeline c (redis_state_store sc) x n b) t i s = (Some ErrStateConflict, s') \<and> rows (sd_db s') = rows (sd_db s)"
proof -
  obtain s1 where s1: "state_Advance sc t i StateQueued StateExecuting s = (Some ErrStateConflict, s1)" "rows (sd_db s1) = rows (sd_db s)" "db_up D s1"
    using durable_conflict [OF assms(1-5), of StateQueued t StateExecuting] assms(6) by auto
  obtain s2 where "state_Advance sc t i StateFailed StateExecuting s1 = (Some ErrStateConflict, s2)" "rows (sd_db s2) = rows (sd_db s1)"
    using durable_conflict [OF assms(1-3) s1(3), of row StateFailed t StateExecuting] s1(2) assms(5,6) by auto
  with s1 show ?thesis by (simp add: advanceToExecuting_def redis_pipeline_def redis_state_store_def)
qed

text \<open>C31. An operation whose worker died while executing it is handed out again, but never executed
  again, with the durable store and its database, as long as the statements succeed: the next worker finds the row executing, reports a conflict and acknowledges the operation.
  The executor is not called, the rows stay as they are, and no dequeue returns the operation any more.\<close>

theorem reclaimed_execution_dropped:
  assumes env: "redis_env c view ty" and "json_id c" and "reliable (rc_server c)" and ok: "payloads_ok c (look c view q)"
    and call: "redis_Dequeue c t q = (Inr item, q1)" and "i = oe_ID (qi_Envelope item)" "i \<noteq> []"
    and D: "st_db sc = Some D" "db_laws D rows" and up: "db_up D s"
    and row: "rows (sd_db s) i = Some row" "sr_State row = StateExecuting"
    and "operationPhase (qi_Envelope item) \<noteq> phaseCompensate"
  shows "\<exists>q' s'. ProcessOnce (redis_pipeline c (redis_state_store sc) x n b) t (q, s) = (Some (OpWrap ''advance to executing'' ErrStateConflict), q', s')
    \<and> rows (sd_db s') = rows (sd_db s) \<and> never_served c i q'"
proof -
  have "payloads_ok c (look c view q1)"
    using payloads_run [OF env assms(2) ok, of "[RDequeue t]"] call by simp
  from acked_never_served [OF env assms(2,3) this assms(7), of t] obtain q' where
    q': "q_Ack (redis_queue c) t i q1 = (None, q')" "never_served c i q'" by blast
  obtain s' where s': "advanceToExecuting (redis_pipeline c (redis_state_store sc) x n b) t i s = (Some ErrStateConflict, s')"
    "rows (sd_db s') = rows (sd_db s)"
    using executing_conflict [OF D assms(7) up row] by blast
  have "ProcessOnce (redis_pipeline c (redis_state_store sc) x n b) t (q, s) = (Some (OpWrap ''advance to executing'' ErrStateConflict), q', s')"
    using call assms(6,13) q'(1) s'(1) by (simp add: ProcessOnce_def processExecution_def redis_pipeline_def redis_queue_def)
  with q'(2) s'(2) show ?thesis by blast
qed

theorem reclaimed_execution_dropped_witness:
  "\<exists>q' s'. ProcessOnce (redis_pipeline demo_rc (redis_state_store (demo_state_store (Some table_db) (blank_state ''op-1''))) undo_exec 3 default_backoff)
      (unix_epoch + Second) (demo_two, demo_data\<lparr>sd_db := [(''op-1'', demo_row\<lparr>sr_State := StateExecuting\<rparr>)]\<rparr>)
    = (Some (OpWrap ''advance to executing'' ErrStateConflict), q', s') \<and> never_served demo_rc ''op-1'' q'"
proof -
  let ?item = "demo_out demo_env (unix_epoch + Second)"
  let ?s = "demo_data\<lparr>sd_db := [(''op-1'', demo_row\<lparr>sr_State := StateExecuting\<rparr>)]\<rparr>"
  have e: "qi_Envelope ?item = demo_env" by (simp add: demo_out_def)
  have i: "''op-1'' = oe_ID (qi_Envelope ?item)" unfolding e by (simp add: demo_env_def)
  have p: "operationPhase (qi_Envelope ?item) \<noteq> phaseCompensate"
    unfolding e by (simp add: operationPhase_def demo_env_def phaseCompensate_def phaseExecute_def)
  have d: "st_db (demo_state_store (Some table_db) (blank_state ''op-1'')) = Some table_db" by (simp add: demo_state_store_def)
  have u: "db_up table_db ?s" by (simp add: db_up_def demo_data_def table_db_def)
  have r: "map_of (sd_db ?s) ''op-1'' = Some (demo_row\<lparr>sr_State := StateExecuting\<rparr>)" "sr_State (demo_row\<lparr>sr_State := StateExecuting\<rparr>) = StateExecuting"
    by simp_all
  from reclaimed_execution_dropped [OF demo_redis_env demo_rc_facts(2,1) demo_two_ok(2) demo_runs(1) i(1) _ d table_db_laws u r p, of undo_exec 3 default_backoff]
  show ?thesis by blast
qed

end
