(* ===== verification/OperationMode.thy ===== *)
theory OperationMode
  imports OperationTypes Prelude
begin

text \<open>
  The choice between direct and queued execution of a user operation
  (operation_mode_controller.go). Lower-casing of text that is not ASCII needs the Unicode
  tables of the standard library: they are the argument \<open>uni\<close>. A header of the request is read
  through the argument \<open>hdr\<close>; a nil controller is \<open>None\<close>; the sequence counter is 64 bits wide.
\<close>

section \<open>Text\<close>

definition is_ascii :: "string \<Rightarrow> bool" where
  "is_ascii s \<longleftrightarrow> (\<forall>c\<in>set s. (of_char c :: nat) < 128)"

definition lowered :: "(string \<Rightarrow> string) \<Rightarrow> string \<Rightarrow> string" where
  "lowered uni s = (let t = TrimSpace s in if is_ascii t then ToLower t else uni t)"

section \<open>Configuration\<close>

datatype OperationModeKind = OperationModeSync | OperationModeQueue | OperationModeRollout

definition mode_of_text :: "string \<Rightarrow> OperationModeKind option" where
  "mode_of_text s =
    (if s = ''sync'' then Some OperationModeSync
     else if s = ''queue'' then Some OperationModeQueue
     else if s = ''rollout'' then Some OperationModeRollout else None)"

fun mode_text :: "OperationModeKind \<Rightarrow> string" where
  "mode_text OperationModeSync = ''sync''"
| "mode_text OperationModeQueue = ''queue''"
| "mode_text OperationModeRollout = ''rollout''"

record OperationModeConfig =
  om_Mode :: string
  om_RolloutPercent :: int
  om_StickyHeader :: string
  om_QueueKinds :: "string list"
  om_AllowUsers :: "string list"
  om_BlockUsers :: "string list"
  om_PreferSubjectKinds :: "string list"
  om_PreferSubjectUsers :: "string list"

record operationModeState =
  ms_config :: OperationModeConfig
  ms_mode :: OperationModeKind
  ms_rolloutPercent :: int
  ms_stickyHeader :: string
  ms_queueKindSet :: "string set"
  ms_allowUserSet :: "string set"
  ms_blockUserSet :: "string set"
  ms_preferSubjectKindSet :: "string set"
  ms_preferSubjectUserSet :: "string set"

record OperationModeDecision =
  od_Mode :: OperationModeKind
  od_QueueKindsHit :: bool
  od_SubjectBlocked :: bool
  od_SubjectAllowed :: bool
  od_RolloutSample :: bool

record operationModeController =
  mc_seq :: "64 word"
  mc_state :: operationModeState

definition defaultOperationQueueKindNames :: "string list" where
  "defaultOperationQueueKindNames = [''create'', ''update'', ''delete'', ''batch'']"

fun kind_text :: "OperationKind \<Rightarrow> string" where
  "kind_text OperationCreate = ''create''"
| "kind_text OperationUpdate = ''update''"
| "kind_text OperationDelete = ''delete''"
| "kind_text OperationBatch = ''batch''"
| "kind_text OperationQuery = ''query''"
| "kind_text (OperationOther s) = s"

text \<open>The list without repetitions, and its set.\<close>

fun dedupe_loop :: "(string \<Rightarrow> string) \<Rightarrow> string list \<Rightarrow> string list \<Rightarrow> string set \<Rightarrow> string list \<times> string set" where
  "dedupe_loop uni [] out seen = (out, seen)"
| "dedupe_loop uni (raw # items) out seen =
    (let trimmed = lowered uni raw
     in if trimmed = [] \<or> trimmed \<in> seen then dedupe_loop uni items out seen
        else dedupe_loop uni items (out @ [trimmed]) (insert trimmed seen))"

definition dedupeToLower :: "(string \<Rightarrow> string) \<Rightarrow> string list \<Rightarrow> string list \<times> string set" where
  "dedupeToLower uni items = dedupe_loop uni items [] {}"

definition sanitizeOperationModeConfig :: "(string \<Rightarrow> string) \<Rightarrow> OperationModeConfig \<Rightarrow> operationModeState" where
  "sanitizeOperationModeConfig uni cfg =
    (let mode = (case mode_of_text (lowered uni (om_Mode cfg)) of Some m \<Rightarrow> m | None \<Rightarrow> OperationModeQueue);
         percent = (if om_RolloutPercent cfg < 0 then 0 else om_RolloutPercent cfg);
         percent = (if 100 < percent then 100 else percent);
         (queueKinds, queueSet) = dedupeToLower uni (om_QueueKinds cfg);
         (queueKinds, queueSet) = (if queueKinds = []
            then (defaultOperationQueueKindNames, set defaultOperationQueueKindNames) else (queueKinds, queueSet));
         (allowList, allowSet) = dedupeToLower uni (om_AllowUsers cfg);
         (blockList, blockSet) = dedupeToLower uni (om_BlockUsers cfg);
         (preferKinds, preferKindSet) = dedupeToLower uni (om_PreferSubjectKinds cfg);
         (preferUsers, preferUserSet) = dedupeToLower uni (om_PreferSubjectUsers cfg);
         normalized = \<lparr>om_Mode = mode_text mode, om_RolloutPercent = percent, om_StickyHeader = lowered uni (om_StickyHeader cfg),
           om_QueueKinds = queueKinds, om_AllowUsers = allowList, om_BlockUsers = blockList,
           om_PreferSubjectKinds = preferKinds, om_PreferSubjectUsers = preferUsers\<rparr>
     in \<lparr>ms_config = normalized, ms_mode = mode, ms_rolloutPercent = percent, ms_stickyHeader = om_StickyHeader normalized,
         ms_queueKindSet = queueSet, ms_allowUserSet = allowSet, ms_blockUserSet = blockSet,
         ms_preferSubjectKindSet = preferKindSet, ms_preferSubjectUserSet = preferUserSet\<rparr>)"

definition newOperationModeController :: "(string \<Rightarrow> string) \<Rightarrow> OperationModeConfig \<Rightarrow> operationModeController" where
  "newOperationModeController uni cfg = \<lparr>mc_seq = 0, mc_state = sanitizeOperationModeConfig uni cfg\<rparr>"

definition cloneOperationModeConfig :: "OperationModeConfig \<Rightarrow> OperationModeConfig" where
  "cloneOperationModeConfig cfg = cfg"

definition defaultOperationModeConfig :: OperationModeConfig where
  "defaultOperationModeConfig = \<lparr>om_Mode = ''queue'', om_RolloutPercent = 100, om_StickyHeader = [],
     om_QueueKinds = defaultOperationQueueKindNames, om_AllowUsers = [], om_BlockUsers = [],
     om_PreferSubjectKinds = [], om_PreferSubjectUsers = []\<rparr>"

record OperationModeOptions =
  so_OperationMode :: string
  so_OperationRolloutPercent :: int
  so_OperationRolloutStickyHeader :: string
  so_OperationQueueKinds :: "string list"
  so_OperationQueueUserAllowlist :: "string list"
  so_OperationQueueUserBlocklist :: "string list"
  so_OperationRolloutPreferSubjectKinds :: "string list"
  so_OperationRolloutPreferSubjectUsers :: "string list"

definition operationModeConfigFromOptions :: "OperationModeOptions option \<Rightarrow> OperationModeConfig" where
  "operationModeConfigFromOptions opts =
    (case opts of
       None \<Rightarrow> defaultOperationModeConfig
     | Some o' \<Rightarrow> \<lparr>om_Mode = so_OperationMode o', om_RolloutPercent = so_OperationRolloutPercent o',
         om_StickyHeader = so_OperationRolloutStickyHeader o', om_QueueKinds = so_OperationQueueKinds o',
         om_AllowUsers = so_OperationQueueUserAllowlist o', om_BlockUsers = so_OperationQueueUserBlocklist o',
         om_PreferSubjectKinds = so_OperationRolloutPreferSubjectKinds o',
         om_PreferSubjectUsers = so_OperationRolloutPreferSubjectUsers o'\<rparr>)"

definition Update ::
  "(string \<Rightarrow> string) \<Rightarrow> OperationModeConfig \<Rightarrow> operationModeController \<Rightarrow> OperationModeConfig \<times> operationModeController" where
  "Update uni cfg c =
    (let state = sanitizeOperationModeConfig uni cfg in (cloneOperationModeConfig (ms_config state), c\<lparr>mc_state := state\<rparr>))"

definition Snapshot :: "operationModeController option \<Rightarrow> OperationModeConfig" where
  "Snapshot c = (case c of None \<Rightarrow> cloneOperationModeConfig defaultOperationModeConfig
     | Some c' \<Rightarrow> cloneOperationModeConfig (ms_config (mc_state c')))"

section \<open>Decisions\<close>

definition withinRolloutSample :: "string \<Rightarrow> int \<Rightarrow> bool" where
  "withinRolloutSample key percent \<longleftrightarrow>
    (if 100 \<le> percent then True else if percent \<le> 0 then False else Sum32a key mod 100 < percent)"

definition rolloutHeaderFromContext :: "(string \<Rightarrow> string) \<Rightarrow> (string \<Rightarrow> string option) \<Rightarrow> string \<Rightarrow> string" where
  "rolloutHeaderFromContext uni hdr header =
    (if header = [] then [] else case hdr header of Some v \<Rightarrow> lowered uni v | None \<Rightarrow> [])"

text \<open>The key of the sample, before a sequence number stands in for an empty one.\<close>

definition rollout_key ::
  "(string \<Rightarrow> string) \<Rightarrow> (string \<Rightarrow> string option) \<Rightarrow> operationModeState \<Rightarrow> OperationKind \<Rightarrow> string \<Rightarrow> string" where
  "rollout_key uni hdr state kind subject =
    (let preferSubject = (kind_text kind \<in> ms_preferSubjectKindSet state
           \<or> (subject \<noteq> [] \<and> subject \<in> ms_preferSubjectUserSet state));
         headerValue = rolloutHeaderFromContext uni hdr (ms_stickyHeader state)
     in if ms_stickyHeader state \<noteq> [] \<and> headerValue \<noteq> [] \<and> \<not> (preferSubject \<and> subject \<noteq> [])
        then headerValue else subject)"

definition rollout_decision ::
  "(string \<Rightarrow> string) \<Rightarrow> (string \<Rightarrow> string option) \<Rightarrow> OperationKind \<Rightarrow> string \<Rightarrow> OperationModeDecision
    \<Rightarrow> operationModeController \<Rightarrow> OperationModeDecision \<times> operationModeController" where
  "rollout_decision uni hdr kind subject decision c =
    (let state = mc_state c; percent = ms_rolloutPercent state
     in if percent \<le> 0 then (decision\<lparr>od_Mode := OperationModeSync\<rparr>, c)
        else if 100 \<le> percent then (decision\<lparr>od_Mode := OperationModeQueue, od_RolloutSample := True\<rparr>, c)
        else (let key = rollout_key uni hdr state kind subject;
                  seq = mc_seq c + 1;
                  c' = (if key = [] then c\<lparr>mc_seq := seq\<rparr> else c);
                  key = (if key = [] then ''rollout:'' @ FormatInt (uint seq) else key);
                  sample = withinRolloutSample key percent
              in (decision\<lparr>od_RolloutSample := sample, od_Mode := (if sample then OperationModeQueue else OperationModeSync)\<rparr>, c')))"

definition DecideDetailed ::
  "(string \<Rightarrow> string) \<Rightarrow> (string \<Rightarrow> string option) \<Rightarrow> OperationKind \<Rightarrow> string
    \<Rightarrow> operationModeController option \<Rightarrow> OperationModeDecision \<times> operationModeController option" where
  "DecideDetailed uni hdr kind subject c0 =
    (let decision = \<lparr>od_Mode = OperationModeQueue, od_QueueKindsHit = False, od_SubjectBlocked = False,
           od_SubjectAllowed = False, od_RolloutSample = False\<rparr>
     in case c0 of
          None \<Rightarrow> (decision, None)
        | Some c \<Rightarrow>
            (let state = mc_state c
             in if ms_queueKindSet state \<noteq> {} \<and> kind_text kind \<notin> ms_queueKindSet state
                then (decision\<lparr>od_Mode := OperationModeSync\<rparr>, c0)
                else (let decision = (if ms_queueKindSet state \<noteq> {} then decision\<lparr>od_QueueKindsHit := True\<rparr> else decision);
                          subj = lowered uni subject
                      in if subj \<noteq> [] \<and> subj \<in> ms_blockUserSet state
                         then (decision\<lparr>od_Mode := OperationModeSync, od_SubjectBlocked := True\<rparr>, c0)
                         else if subj \<noteq> [] \<and> subj \<in> ms_allowUserSet state
                         then (decision\<lparr>od_SubjectAllowed := True, od_Mode := OperationModeQueue\<rparr>, c0)
                         else (case ms_mode state of
                                 OperationModeSync \<Rightarrow> (decision\<lparr>od_Mode := OperationModeSync\<rparr>, c0)
                               | OperationModeQueue \<Rightarrow> (decision\<lparr>od_Mode := OperationModeQueue\<rparr>, c0)
                               | OperationModeRollout \<Rightarrow>
                                   (case rollout_decision uni hdr kind subj decision c of (d, c') \<Rightarrow> (d, Some c'))))))"

definition Decide ::
  "(string \<Rightarrow> string) \<Rightarrow> (string \<Rightarrow> string option) \<Rightarrow> OperationKind \<Rightarrow> string
    \<Rightarrow> operationModeController option \<Rightarrow> OperationModeKind \<times> operationModeController option" where
  "Decide uni hdr kind subject c = (case DecideDetailed uni hdr kind subject c of (d, c') \<Rightarrow> (od_Mode d, c'))"

end
