(* ===== verification/OperationModeProperties.thy ===== *)
theory OperationModeProperties
  imports OperationMode
begin

text \<open>
  What the mode controller guarantees: its settings are always well formed and stable, its
  lists of users and kinds take precedence, and raising the rollout percentage only ever
  moves requests into the queue.
\<close>

section \<open>Lower-casing\<close>









section \<open>Settings\<close>

definition deduped :: "(string \<Rightarrow> string) \<Rightarrow> string list \<Rightarrow> string list" where
  "deduped uni items = fst (dedupeToLower uni items)"

lemma dedupe_loop_facts:
  assumes "seen = set out" "distinct out" "[] \<notin> set out"
  shows "snd (dedupe_loop uni items out seen) = set (fst (dedupe_loop uni items out seen))
    \<and> distinct (fst (dedupe_loop uni items out seen)) \<and> [] \<notin> set (fst (dedupe_loop uni items out seen))
    \<and> set (fst (dedupe_loop uni items out seen)) = set out \<union> (lowered uni ` set items - {[]})"
  using assms by (induction uni items out seen rule: dedupe_loop.induct) (auto simp: Let_def)

lemma dedupe_eq: "dedupeToLower uni items = (deduped uni items, set (deduped uni items))"
  using dedupe_loop_facts [of "{}" "[]" uni items] by (auto simp: dedupeToLower_def deduped_def prod_eq_iff)


lemma dedupe_loop_fixed:
  "\<forall>x\<in>set items. x \<noteq> [] \<and> lowered uni x = x \<Longrightarrow> distinct (out @ items) \<Longrightarrow> seen = set out \<Longrightarrow>
    dedupe_loop uni items out seen = (out @ items, set (out @ items))"
  by (induction uni items out seen rule: dedupe_loop.induct) (auto simp: Let_def)


lemma ascii_texts:
  "lowered uni ''sync'' = ''sync''" "lowered uni ''queue'' = ''queue''" "lowered uni ''rollout'' = ''rollout''"
  "lowered uni ''create'' = ''create''" "lowered uni ''update'' = ''update''"
  "lowered uni ''delete'' = ''delete''" "lowered uni ''batch'' = ''batch''"
proof -
  have t: "TrimSpace ''sync'' = ''sync''" "TrimSpace ''queue'' = ''queue''" "TrimSpace ''rollout'' = ''rollout''"
    "TrimSpace ''create'' = ''create''" "TrimSpace ''update'' = ''update''" "TrimSpace ''delete'' = ''delete''" "TrimSpace ''batch'' = ''batch''"
    by code_simp+
  show "lowered uni ''sync'' = ''sync''" "lowered uni ''queue'' = ''queue''" "lowered uni ''rollout'' = ''rollout''"
    "lowered uni ''create'' = ''create''" "lowered uni ''update'' = ''update''"
    "lowered uni ''delete'' = ''delete''" "lowered uni ''batch'' = ''batch''"
    unfolding lowered_def t Let_def by (simp_all add: is_ascii_def ToLower_def lower_char_def of_char_def char_of_def)
qed

lemma default_kinds_fixed: "deduped uni defaultOperationQueueKindNames = defaultOperationQueueKindNames"
  using dedupe_loop_fixed [of defaultOperationQueueKindNames uni "[]" "{}"]
  by (simp add: deduped_def dedupeToLower_def defaultOperationQueueKindNames_def ascii_texts)


definition kinds_or_default :: "(string \<Rightarrow> string) \<Rightarrow> string list \<Rightarrow> string list" where
  "kinds_or_default uni ks = (if deduped uni ks = [] then defaultOperationQueueKindNames else deduped uni ks)"

lemma sanitize_fields:
  fixes uni cfg defines "st \<equiv> sanitizeOperationModeConfig uni cfg"
  shows "ms_mode st = (case mode_of_text (lowered uni (om_Mode cfg)) of Some m \<Rightarrow> m | None \<Rightarrow> OperationModeQueue)"
    "ms_rolloutPercent st = max 0 (min 100 (om_RolloutPercent cfg))" "ms_stickyHeader st = lowered uni (om_StickyHeader cfg)"
    "ms_queueKindSet st = set (kinds_or_default uni (om_QueueKinds cfg))" "ms_allowUserSet st = set (deduped uni (om_AllowUsers cfg))"
    "ms_blockUserSet st = set (deduped uni (om_BlockUsers cfg))"
    "ms_preferSubjectKindSet st = set (deduped uni (om_PreferSubjectKinds cfg))"
    "ms_preferSubjectUserSet st = set (deduped uni (om_PreferSubjectUsers cfg))"
    "ms_config st = \<lparr>om_Mode = mode_text (ms_mode st), om_RolloutPercent = ms_rolloutPercent st, om_StickyHeader = ms_stickyHeader st,
       om_QueueKinds = kinds_or_default uni (om_QueueKinds cfg), om_AllowUsers = deduped uni (om_AllowUsers cfg),
       om_BlockUsers = deduped uni (om_BlockUsers cfg), om_PreferSubjectKinds = deduped uni (om_PreferSubjectKinds cfg),
       om_PreferSubjectUsers = deduped uni (om_PreferSubjectUsers cfg)\<rparr>"
  unfolding st_def sanitizeOperationModeConfig_def kinds_or_default_def
  by (simp_all add: Let_def dedupe_eq)







section \<open>Precedence\<close>

text \<open>The lists take precedence over the mode: a kind that is not queued is executed directly;
  of the others, a blocked user is always direct and an allowed user always queued, whatever the mode,
  percentage and headers; and only a request the lists say nothing about is decided by the mode. A decision is
  never to roll out, and says queue when it took a sample of 100 percent.\<close>

theorem mode_precedence:
  "(let (d, c') = DecideDetailed uni hdr kind subject (Some c); st = mc_state c; user = lowered uni subject in
     od_Mode d \<noteq> OperationModeRollout
   \<and> (if ms_queueKindSet st \<noteq> {} \<and> kind_text kind \<notin> ms_queueKindSet st then od_Mode d = OperationModeSync \<and> \<not> od_QueueKindsHit d
      else if user \<noteq> [] \<and> user \<in> ms_blockUserSet st then od_Mode d = OperationModeSync \<and> od_SubjectBlocked d
      else if user \<noteq> [] \<and> user \<in> ms_allowUserSet st then od_Mode d = OperationModeQueue \<and> od_SubjectAllowed d
      else \<not> od_SubjectBlocked d \<and> \<not> od_SubjectAllowed d
        \<and> (ms_mode st \<noteq> OperationModeRollout \<longrightarrow> od_Mode d = ms_mode st \<and> \<not> od_RolloutSample d)
        \<and> (ms_mode st = OperationModeRollout \<longrightarrow> (od_Mode d = OperationModeQueue \<longleftrightarrow> od_RolloutSample d))))"
  by (auto simp: DecideDetailed_def rollout_decision_def Let_def split: OperationModeKind.split)

theorem mode_precedence_witness:
  "od_Mode (fst (DecideDetailed (\<lambda>s. s) (\<lambda>_. None) OperationQuery ''alice''
      (Some (newOperationModeController (\<lambda>s. s) defaultOperationModeConfig)))) = OperationModeSync"
proof -
  have "ms_queueKindSet (mc_state (newOperationModeController (\<lambda>s. s) defaultOperationModeConfig)) = {''create'', ''update'', ''delete'', ''batch''}"
    by (simp add: newOperationModeController_def sanitize_fields kinds_or_default_def defaultOperationModeConfig_def default_kinds_fixed)
      (simp add: defaultOperationQueueKindNames_def)
  with mode_precedence [of "\<lambda>s. s" "\<lambda>_. None" OperationQuery "''alice''" "newOperationModeController (\<lambda>s. s) defaultOperationModeConfig"]
  show ?thesis by (simp add: Let_def case_prod_beta)
qed

section \<open>Rollout\<close>

lemma rollout_keyed:
  assumes "rollout_key uni hdr st kind subj \<noteq> []"
  shows "rollout_decision uni hdr kind subj d \<lparr>mc_seq = n, mc_state = st\<lparr>ms_rolloutPercent := p\<rparr>\<rparr> =
    (d\<lparr>od_Mode := (if withinRolloutSample (rollout_key uni hdr st kind subj) p then OperationModeQueue else OperationModeSync),
       od_RolloutSample := (if p \<le> 0 then od_RolloutSample d else withinRolloutSample (rollout_key uni hdr st kind subj) p)\<rparr>,
     \<lparr>mc_seq = n, mc_state = st\<lparr>ms_rolloutPercent := p\<rparr>\<rparr>)"
proof -
  have "rollout_key uni hdr (st\<lparr>ms_rolloutPercent := p\<rparr>) kind subj = rollout_key uni hdr st kind subj" by (simp add: rollout_key_def)
  with assms show ?thesis by (simp add: rollout_decision_def Let_def) (simp add: withinRolloutSample_def)
qed

lemma sample_mono: "p \<le> p' \<Longrightarrow> withinRolloutSample key p \<Longrightarrow> withinRolloutSample key p'"
  by (simp add: withinRolloutSample_def split: if_splits)

text \<open>The rollout is sticky and grows: a request that carries a user or the sticky header is decided
  alike every time, whatever went before; and when the percentage is raised with all else the same, no request
  that was queued is taken out of the queue.\<close>

theorem rollout_monotone:
  assumes "p \<le> p'" and "rollout_key uni hdr st kind (lowered uni subject) \<noteq> []"
  shows "(od_Mode (fst (DecideDetailed uni hdr kind subject (Some \<lparr>mc_seq = n, mc_state = st\<lparr>ms_rolloutPercent := p\<rparr>\<rparr>))) = OperationModeQueue
      \<longrightarrow> od_Mode (fst (DecideDetailed uni hdr kind subject (Some \<lparr>mc_seq = m, mc_state = st\<lparr>ms_rolloutPercent := p'\<rparr>\<rparr>))) = OperationModeQueue)
    \<and> fst (DecideDetailed uni hdr kind subject (Some \<lparr>mc_seq = n, mc_state = st\<lparr>ms_rolloutPercent := p\<rparr>\<rparr>))
      = fst (DecideDetailed uni hdr kind subject (Some \<lparr>mc_seq = m, mc_state = st\<lparr>ms_rolloutPercent := p\<rparr>\<rparr>))"
proof (cases "ms_mode st")
  case OperationModeRollout
  show ?thesis
  proof (cases "lowered uni subject = []")
    case True
    with OperationModeRollout show ?thesis
      using sample_mono [OF assms(1)] by (simp add: DecideDetailed_def Let_def rollout_keyed [OF assms(2) [unfolded True]])
  next
    case False
    with OperationModeRollout show ?thesis
      using sample_mono [OF assms(1)] by (simp add: DecideDetailed_def Let_def rollout_keyed [OF assms(2)])
  qed
qed (simp_all add: DecideDetailed_def Let_def)

theorem rollout_monotone_witness:
  "\<exists>m. od_Mode (fst (DecideDetailed (\<lambda>s. s) (\<lambda>_. None) OperationCreate ''alice''
      (Some \<lparr>mc_seq = m, mc_state = (sanitizeOperationModeConfig (\<lambda>s. s) (defaultOperationModeConfig\<lparr>om_Mode := ''rollout''\<rparr>))\<lparr>ms_rolloutPercent := 90\<rparr>\<rparr>)))
    = OperationModeQueue"
proof -
  let ?st = "sanitizeOperationModeConfig (\<lambda>s. s) (defaultOperationModeConfig\<lparr>om_Mode := ''rollout''\<rparr>)"
  have "rollout_key (\<lambda>s. s) (\<lambda>_. None) ?st OperationCreate (lowered (\<lambda>s. s) ''alice'') \<noteq> []"
    "od_Mode (fst (DecideDetailed (\<lambda>s. s) (\<lambda>_. None) OperationCreate ''alice'' (Some \<lparr>mc_seq = 0, mc_state = ?st\<lparr>ms_rolloutPercent := 80\<rparr>\<rparr>)))
      = OperationModeQueue"
    by code_simp+
  with rollout_monotone [of 80 90 "\<lambda>s. s" "\<lambda>_. None" ?st OperationCreate "''alice''" 0 5] show ?thesis by auto
qed

end
