(* ===== verification/RateLimiter.thy ===== *)
theory RateLimiter
  imports GoFloat Prelude "HOL-Library.AList"
begin

text \<open>
  The rate limiters of the login and write routes (middleware/common: redis_limiter.go): a
  counter in memory per identifier and fixed window, shared by all limiters of the process,
  in front of a counter in Redis. The Redis server is an argument, with what it documents of
  its counters as laws. A response is passing the request on, or an abort with its status,
  its code and the reason (the texts of the messages are left out). One clock serves the processes and the Redis
  server: a server whose clock differs from theirs is not represented.
\<close>

section \<open>Responses\<close>

datatype secondsLabel = SecondsLabel int | MinutesLabel int

datatype block_reason =
    BlockLocal | BlockRedis secondsLabel | BlockStrict | BlockLenient | BlockUnauthenticated
  | BlockLocalGlobal | BlockLocalBiz | BlockScope string int | BlockUnavailable

datatype limit_response = PassOn | AbortWith int int block_reason

definition formatSecondsLabel :: "int \<Rightarrow> secondsLabel" where
  "formatSecondsLabel seconds =
    (if seconds \<le> 0 then SecondsLabel 0
     else if 60 \<le> seconds then MinutesLabel ((seconds + 59) div 60)
     else SecondsLabel seconds)"

section \<open>Windows\<close>

definition windowIDForTime :: "instant \<Rightarrow> duration \<Rightarrow> int" where
  "windowIDForTime t window = (if windowSeconds window \<le> 0 then 0 else go_div (Unix t) (windowSeconds window))"

section \<open>Counters in memory\<close>

record localCounter =
  lc_count :: int
  lc_windowID :: int
  lc_lastTime :: instant

type_synonym local_counters = "(string \<times> localCounter) list"

definition cleanupExpiredCounters :: "instant \<Rightarrow> local_counters \<Rightarrow> local_counters" where
  "cleanupExpiredCounters now cs = filter (\<lambda>(key, counter). \<not> 10 * Minute < time_Sub now (lc_lastTime counter)) cs"

definition localRateCheckWithWindowID ::
  "string \<Rightarrow> int \<Rightarrow> int \<Rightarrow> instant \<Rightarrow> local_counters \<Rightarrow> bool \<times> local_counters" where
  "localRateCheckWithWindowID identifier limit windowID now cs =
    (case map_of cs identifier of
       None \<Rightarrow> (True, AList.update identifier \<lparr>lc_count = 1, lc_windowID = windowID, lc_lastTime = now\<rparr> cs)
     | Some counter \<Rightarrow>
         if lc_windowID counter \<noteq> windowID
         then (True, AList.update identifier \<lparr>lc_count = 1, lc_windowID = windowID, lc_lastTime = now\<rparr> cs)
         else (let n = wrap64 (lc_count counter + 1)
               in (n \<le> limit, AList.update identifier (counter\<lparr>lc_count := n, lc_lastTime := now\<rparr>) cs)))"

definition localRateCheck :: "string \<Rightarrow> int \<Rightarrow> duration \<Rightarrow> instant \<Rightarrow> local_counters \<Rightarrow> bool \<times> local_counters" where
  "localRateCheck identifier limit window now cs =
    localRateCheckWithWindowID identifier limit (windowIDForTime now window) now cs"

definition strictLocalRateCheck :: "string \<Rightarrow> int \<Rightarrow> local_counters \<Rightarrow> bool" where
  "strictLocalRateCheck identifier limit cs =
    (case map_of cs identifier of None \<Rightarrow> True | Some counter \<Rightarrow> lc_count counter \<le> limit)"

definition lenientLocalRateCheck :: "string \<Rightarrow> int \<Rightarrow> local_counters \<Rightarrow> bool" where
  "lenientLocalRateCheck identifier limit cs =
    (case map_of cs identifier of None \<Rightarrow> True | Some counter \<Rightarrow> lc_count counter \<le> wrap64 (limit * 2))"

section \<open>Counters in Redis\<close>

datatype trip_error = DeadlineExceeded | OtherRedisError

record 'r Counters =
  ct_trip :: "'r \<Rightarrow> trip_error option \<times> 'r"
  ct_INCR :: "string \<Rightarrow> instant \<Rightarrow> 'r \<Rightarrow> int \<times> 'r"
  ct_EXPIRE :: "string \<Rightarrow> int \<Rightarrow> instant \<Rightarrow> 'r \<Rightarrow> 'r"
  ct_TTL :: "string \<Rightarrow> instant \<Rightarrow> 'r \<Rightarrow> int"
  ct_GET :: "string \<Rightarrow> instant \<Rightarrow> 'r \<Rightarrow> string option"
  ct_KEYS :: "string \<Rightarrow> instant \<Rightarrow> 'r \<Rightarrow> string list"
  ct_DEL :: "string list \<Rightarrow> 'r \<Rightarrow> 'r"

text \<open>What Redis documents: a counter that is missing or whose life has ended counts from zero
  and has no end; EXPIRE sets the end of a counter, and removes it if the time is not positive.\<close>

type_synonym counter_view = "string \<Rightarrow> (int \<times> instant option) option"

definition alive :: "instant \<Rightarrow> (int \<times> instant option) option \<Rightarrow> (int \<times> instant option) option" where
  "alive now x = (case x of Some (n, Some e) \<Rightarrow> if now < e then x else None | _ \<Rightarrow> x)"

definition counter_laws :: "'r Counters \<Rightarrow> ('r \<Rightarrow> counter_view) \<Rightarrow> bool" where
  "counter_laws R view \<longleftrightarrow> (\<forall>k s now r.
     view (snd (ct_trip R r)) = view r
   \<and> ct_INCR R k now r = (case alive now (view r k) of None \<Rightarrow> 1 | Some (n, e) \<Rightarrow> n + 1, snd (ct_INCR R k now r))
   \<and> view (snd (ct_INCR R k now r)) = (view r)(k \<mapsto> (case alive now (view r k) of None \<Rightarrow> (1, None) | Some (n, e) \<Rightarrow> (n + 1, e)))
   \<and> view (ct_EXPIRE R k s now r) = (view r)(k := (case alive now (view r k) of None \<Rightarrow> None
        | Some (n, e) \<Rightarrow> if s \<le> 0 then None else Some (n, Some (now + s * Second)))))"

definition counters_up :: "'r Counters \<Rightarrow> bool" where
  "counters_up R \<longleftrightarrow> (\<forall>r. fst (ct_trip R r) = None)"

lemma counter_facts:
  assumes "counter_laws R view"
  shows "view (snd (ct_trip R r)) = view r"
    "fst (ct_INCR R k now r) = (case alive now (view r k) of None \<Rightarrow> 1 | Some (n, e) \<Rightarrow> n + 1)"
    "view (snd (ct_INCR R k now r)) = (view r)(k \<mapsto> (case alive now (view r k) of None \<Rightarrow> (1, None) | Some (n, e) \<Rightarrow> (n + 1, e)))"
    "view (ct_EXPIRE R k s now r) = (view r)(k := (case alive now (view r k) of None \<Rightarrow> None
        | Some (n, e) \<Rightarrow> if s \<le> 0 then None else Some (n, Some (now + s * Second))))"
  using assms unfolding counter_laws_def by (metis fst_conv)+

section \<open>The login limiter\<close>

text \<open>The script: limited or not, with the seconds left or the calls left.\<close>

definition optimizedLuaScript :: "'r Counters \<Rightarrow> string \<Rightarrow> int \<Rightarrow> int \<Rightarrow> instant \<Rightarrow> 'r \<Rightarrow> (int \<times> int) \<times> 'r" where
  "optimizedLuaScript R key limit window now r =
    (case ct_INCR R key now r of
       (current, r1) \<Rightarrow>
         (let r2 = (if current = 1 then ct_EXPIRE R key window now r1 else r1)
          in if limit < current then ((1, ct_TTL R key now r2), r2) else ((0, limit - current), r2)))"

definition buildRedisKey :: "string \<Rightarrow> string \<Rightarrow> string" where
  "buildRedisKey keyPrefix key = (if keyPrefix \<noteq> [] then keyPrefix @ key else key)"

definition handleRedisError :: "trip_error \<Rightarrow> string \<Rightarrow> int \<Rightarrow> local_counters \<Rightarrow> limit_response" where
  "handleRedisError err identifier limit cs =
    (case err of
       DeadlineExceeded \<Rightarrow> if strictLocalRateCheck identifier limit cs then PassOn else AbortWith 429 100209 BlockStrict
     | OtherRedisError \<Rightarrow> if lenientLocalRateCheck identifier limit cs then PassOn else AbortWith 429 100209 BlockLenient)"

definition login_key :: "string \<Rightarrow> string \<Rightarrow> int \<Rightarrow> string" where
  "login_key keyPrefix identifier wid = buildRedisKey keyPrefix (''ratelimit:login:'' @ identifier @ '':'' @ FormatInt wid)"

text \<open>The part both login limiters share: the check in memory, then the script.\<close>

definition limit_by ::
  "'r Counters \<Rightarrow> string \<Rightarrow> string \<Rightarrow> int \<Rightarrow> duration \<Rightarrow> instant \<Rightarrow> local_counters \<times> 'r \<Rightarrow> limit_response \<times> local_counters \<times> 'r" where
  "limit_by R keyPrefix identifier limit window0 now st =
    (let window = (if window0 \<le> 0 then Minute else window0);
         wid = windowIDForTime now window; (cs, r) = st
     in case localRateCheckWithWindowID identifier limit wid now cs of
          (False, cs1) \<Rightarrow> (AbortWith 429 100209 BlockLocal, cs1, r)
        | (True, cs1) \<Rightarrow>
            (case ct_trip R r of
               (Some err, r1) \<Rightarrow> (handleRedisError err identifier limit cs1, cs1, r1)
             | (None, r1) \<Rightarrow>
                 (case optimizedLuaScript R (login_key keyPrefix identifier wid) limit (windowSeconds window * 2) now r1 of
                    ((limited, remaining), r2) \<Rightarrow>
                      (if limited = 1 then AbortWith 429 100209 (BlockRedis (formatSecondsLabel remaining)) else PassOn, cs1, r2))))"

definition loginRateLimiter ::
  "'r Counters \<Rightarrow> string \<Rightarrow> int \<times> duration \<Rightarrow> string \<Rightarrow> instant \<Rightarrow> local_counters \<times> 'r \<Rightarrow> limit_response \<times> local_counters \<times> 'r" where
  "loginRateLimiter R keyPrefix settings clientIP now st =
    (let (limit, window) = settings
     in if limit \<le> 0 then (PassOn, st) else limit_by R keyPrefix (''ip:'' @ clientIP) limit window now st)"

text \<open>The user's id as the context holds it. \<open>UserOther\<close> is a value that prints itself.\<close>

datatype userID = UserText string | UserNumber int | UserBool bool | UserOther string | UserNil

definition buildUserIdentifier :: "userID \<Rightarrow> string" where
  "buildUserIdentifier u =
    (case u of
       UserNil \<Rightarrow> ''user:''
     | UserText v \<Rightarrow> ''user:'' @ TrimSpace v
     | UserNumber n \<Rightarrow> ''user:'' @ FormatInt n
     | UserBool b \<Rightarrow> ''user:'' @ (if b then ''true'' else ''false'')
     | UserOther v \<Rightarrow> ''user:'' @ TrimSpace v)"

definition LoginRateLimiterByUser ::
  "'r Counters \<Rightarrow> string \<Rightarrow> int \<Rightarrow> duration \<Rightarrow> userID option \<Rightarrow> instant \<Rightarrow> local_counters \<times> 'r \<Rightarrow> limit_response \<times> local_counters \<times> 'r" where
  "LoginRateLimiterByUser R keyPrefix limit window user now st =
    (case user of
       None \<Rightarrow> (AbortWith 401 100401 BlockUnauthenticated, st)
     | Some u \<Rightarrow> limit_by R keyPrefix (buildUserIdentifier u) limit window now st)"

definition CleanupRateLimit :: "'r Counters \<Rightarrow> string \<Rightarrow> instant \<Rightarrow> local_counters \<times> 'r \<Rightarrow> local_counters \<times> 'r" where
  "CleanupRateLimit R keyPrefix now st =
    (let (cs, r) = st
     in case ct_trip R r of
          (Some err, r1) \<Rightarrow> (cs, r1)
        | (None, r1) \<Rightarrow>
            (let keys = ct_KEYS R (buildRedisKey keyPrefix ''ratelimit:login:*'') now r1
             in if keys = [] then ([], r1)
                else case ct_trip R r1 of
                       (Some err, r2) \<Rightarrow> (cs, r2)
                     | (None, r2) \<Rightarrow> ([], ct_DEL R keys r2)))"

end
