(* ===== verification/WriteLimiter.thy ===== *)
theory WriteLimiter
  imports RateLimiter
begin

text \<open>
  The limiter of the write routes (write_limiter.go) and the table of businesses it asks
  (bizid.go). Three counters apply to a request: one for the path, one for its business and one
  for its caller. The configured limit lives in the closure of the handler, which an override found
  in Redis replaces: it is part of the state. The hash of a token is an argument.
\<close>

section \<open>Businesses\<close>

record BizID =
  bz_Key :: string
  bz_Name :: string
  bz_Deprecated :: bool

record biz_tables =
  bt_bizMap :: "(string \<times> BizID) list"
  bt_routeBiz :: "(string \<times> string) list"
  bt_bizLimits :: "(string \<times> int) list"

definition routeKey :: "string \<Rightarrow> string \<Rightarrow> string" where
  "routeKey method path = method @ '' '' @ path"

definition biz_Register :: "BizID \<Rightarrow> biz_tables \<Rightarrow> biz_tables" where
  "biz_Register b t = (if bz_Key b = [] then t else t\<lparr>bt_bizMap := AList.update (bz_Key b) b (bt_bizMap t)\<rparr>)"

definition biz_Get :: "string \<Rightarrow> biz_tables \<Rightarrow> BizID option" where
  "biz_Get key t = (if key = [] then None else map_of (bt_bizMap t) key)"

definition RegisterRouteBiz :: "string \<Rightarrow> string \<Rightarrow> string \<Rightarrow> biz_tables \<Rightarrow> biz_tables" where
  "RegisterRouteBiz method path bizKey t =
    (if method = [] \<or> path = [] \<or> bizKey = [] then t
     else t\<lparr>bt_routeBiz := AList.update (routeKey method path) bizKey (bt_routeBiz t)\<rparr>)"

definition ResolveBizByRoute :: "string \<Rightarrow> string \<Rightarrow> biz_tables \<Rightarrow> BizID option" where
  "ResolveBizByRoute method path t =
    (if method = [] \<or> path = [] then None
     else case map_of (bt_routeBiz t) (routeKey method path) of
            None \<Rightarrow> None
          | Some bizKey \<Rightarrow> map_of (bt_bizMap t) bizKey)"

definition SetBizLimit :: "string \<Rightarrow> int \<Rightarrow> biz_tables \<Rightarrow> biz_tables" where
  "SetBizLimit bizKey limit t =
    (if bizKey = [] then t
     else if limit \<le> 0 then t\<lparr>bt_bizLimits := AList.delete bizKey (bt_bizLimits t)\<rparr>
     else t\<lparr>bt_bizLimits := AList.update bizKey limit (bt_bizLimits t)\<rparr>)"

definition GetBizLimit :: "string \<Rightarrow> biz_tables \<Rightarrow> int" where
  "GetBizLimit bizKey t =
    (if bizKey = [] then 0 else case map_of (bt_bizLimits t) bizKey of Some l \<Rightarrow> l | None \<Rightarrow> 0)"

section \<open>Helpers\<close>

text \<open>\<open>fmt.Sscanf\<close> with a decimal verb: blanks but no newline, a sign, then digits; the rest is ignored.\<close>

definition parseInt :: "string \<Rightarrow> int option" where
  "parseInt s =
    (let t = strip_all (filter (\<lambda>p. p \<noteq> [CHR 0x0A]) go_spaces) s;
         neg = (t \<noteq> [] \<and> hd t = CHR ''-'');
         u = (if t \<noteq> [] \<and> (hd t = CHR ''-'' \<or> hd t = CHR ''+'') then tl t else t);
         ds = takeWhile (\<lambda>c. digit_val c \<noteq> None) u
     in if ds = [] then None
        else (let n = int (foldl (\<lambda>a c. a * 10 + (case digit_val c of Some d \<Rightarrow> d | None \<Rightarrow> 0)) 0 ds);
                  v = (if neg then - n else n)
              in if in64 v then Some v else None))"

definition estimateRetryAfterSeconds :: "'r Counters \<Rightarrow> string \<Rightarrow> int \<Rightarrow> instant \<Rightarrow> 'r \<Rightarrow> int \<times> 'r" where
  "estimateRetryAfterSeconds R key windowSec now r =
    (let dflt = (if 0 < windowSec then windowSec else 0)
     in if key = [] then (dflt, r)
        else case ct_trip R r of
               (Some err, r1) \<Rightarrow> (dflt, r1)
             | (None, r1) \<Rightarrow>
                 (let seconds = ct_TTL R key now r1 in (if seconds \<le> 0 then dflt else seconds, r1)))"

section \<open>The limiter\<close>

record write_request =
  wr_Method :: string
  wr_Path :: string
  wr_ClientIP :: string
  wr_Authorization :: string

record 'r write_state =
  ws_limit :: int
  ws_local :: local_counters
  ws_redis :: 'r

record write_settings =
  wc_keyPrefix :: string
  wc_globalLimit :: int
  wc_globalFactor :: rat
  wc_window :: duration
  wc_hasClient :: bool

text \<open>The business of a request with its configured limit; the empty key stands for none.\<close>

definition request_biz :: "biz_tables \<Rightarrow> write_request \<Rightarrow> string \<times> int" where
  "request_biz t req =
    (case ResolveBizByRoute (wr_Method req) (wr_Path req) t of
       None \<Rightarrow> ([], 0)
     | Some b \<Rightarrow> if bz_Deprecated b then ([], 0)
         else (bz_Key b, if 0 < GetBizLimit (bz_Key b) t then GetBizLimit (bz_Key b) t else 0))"

definition override :: "int \<Rightarrow> string option \<Rightarrow> int" where
  "override limit v =
    (case v of None \<Rightarrow> limit | Some s \<Rightarrow>
       if s = [] then limit else case parseInt s of Some g \<Rightarrow> if 0 < g then g else limit | None \<Rightarrow> limit)"

text \<open>The overrides found in Redis: the limit of the closure, and the limit of the business.\<close>

definition read_overrides ::
  "'r Counters \<Rightarrow> write_settings \<Rightarrow> string \<Rightarrow> int \<Rightarrow> instant \<Rightarrow> int \<Rightarrow> 'r \<Rightarrow> (int \<times> int) \<times> 'r" where
  "read_overrides R cfg bizKey bizLimit now limit r =
    (if \<not> wc_hasClient cfg then ((limit, bizLimit), r)
     else case ct_trip R r of
            (Some err, r1) \<Rightarrow> ((limit, bizLimit), r1)
          | (None, r1) \<Rightarrow>
              ((override limit (ct_GET R (buildRedisKey (wc_keyPrefix cfg) ''ratelimit:write:global_limit'') now r1),
                if 0 < bizLimit
                then override bizLimit (ct_GET R (buildRedisKey (wc_keyPrefix cfg) (''ratelimit:write:biz_limit:{'' @ bizKey @ ''}'')) now r1)
                else bizLimit), r1))"

definition effective_global :: "write_settings \<Rightarrow> int \<Rightarrow> int" where
  "effective_global cfg limit =
    (if wc_globalLimit cfg \<le> 0 \<and> 0 < wc_globalFactor cfg
     then f64_trunc (f64 (f64 (of_int limit) * wc_globalFactor cfg)) else wc_globalLimit cfg)"

definition caller_id :: "(string \<Rightarrow> string) \<Rightarrow> write_request \<Rightarrow> string" where
  "caller_id sha1_prefix req =
    (let ah = TrimSpace (wr_Authorization req);
         ah = (if HasPrefix (ToLower (take 7 ah)) ''bearer '' then TrimSpace (drop 7 ah) else ah)
     in if ah \<noteq> [] then sha1_prefix ah else wr_ClientIP req)"

text \<open>One counter of the pipeline, when its limit is positive.\<close>

definition count_one :: "'r Counters \<Rightarrow> bool \<Rightarrow> string \<Rightarrow> int \<Rightarrow> instant \<Rightarrow> 'r \<Rightarrow> int \<times> 'r" where
  "count_one R on key ttl now r =
    (if on then (case ct_INCR R key now r of (n, r1) \<Rightarrow> (n, ct_EXPIRE R key ttl now r1)) else (0, r))"

definition write_key :: "write_settings \<Rightarrow> string \<Rightarrow> int \<Rightarrow> string" where
  "write_key cfg identifier wid = buildRedisKey (wc_keyPrefix cfg) (''ratelimit:'' @ identifier @ '':'' @ FormatInt wid)"

definition write_keys :: "write_settings \<Rightarrow> write_request \<Rightarrow> string \<Rightarrow> string \<Rightarrow> int \<Rightarrow> int \<Rightarrow> string \<times> string \<times> string" where
  "write_keys cfg req idPart bizKey bizLimit wid =
    (let rateLimitKey = write_key cfg (''write:'' @ idPart @ '':'' @ wr_Path req) wid
     in (write_key cfg (''write:global:{'' @ wr_Path req @ ''}'') wid,
         if 0 < bizLimit \<and> bizKey \<noteq> [] then write_key cfg (''write:{'' @ bizKey @ ''}:'' @ idPart) wid else rateLimitKey,
         rateLimitKey))"

text \<open>The three counters in Redis, judged in the order path, business, caller.\<close>

definition write_redis ::
  "'r Counters \<Rightarrow> duration \<Rightarrow> string \<times> string \<times> string \<Rightarrow> int \<Rightarrow> string \<Rightarrow> int \<Rightarrow> int \<Rightarrow> instant \<Rightarrow> 'r \<Rightarrow> limit_response \<times> 'r" where
  "write_redis R window ks effectiveGlobal bizKey bizLimit limit now r =
    (let (globalKey, bizRedisKey, idKey) = ks; ttl = windowSeconds window * 2;
         (currentGlobal, r1) = count_one R (0 < effectiveGlobal) globalKey ttl now r;
         (currentBiz, r2) = count_one R (0 < bizLimit \<and> bizKey \<noteq> []) bizRedisKey ttl now r1;
         (currentID, r3) = count_one R (0 < limit) idKey ttl now r2;
         block = (\<lambda>scope key. case estimateRetryAfterSeconds R key (windowSeconds window) now r3 of
            (retryAfter, r4) \<Rightarrow> (AbortWith 429 110010 (BlockScope scope retryAfter), r4))
     in if 0 < effectiveGlobal \<and> effectiveGlobal < currentGlobal then block ''global'' globalKey
        else if 0 < bizLimit \<and> bizLimit < currentBiz then block ''biz'' bizRedisKey
        else if 0 < limit \<and> limit < currentID then block ''identifier'' idKey
        else (PassOn, r3))"

text \<open>The checks in memory, in the same order; the caller's check always runs.\<close>

definition write_local ::
  "duration \<Rightarrow> string \<Rightarrow> int \<Rightarrow> string \<Rightarrow> int \<Rightarrow> string \<Rightarrow> int \<Rightarrow> instant \<Rightarrow> local_counters \<Rightarrow> block_reason option \<times> local_counters" where
  "write_local window globalId effectiveGlobal bizId bizLimit identifier limit now cs =
    (case (if 0 < effectiveGlobal then localRateCheck globalId effectiveGlobal window now cs else (True, cs)) of
       (False, cs1) \<Rightarrow> (Some BlockLocalGlobal, cs1)
     | (True, cs1) \<Rightarrow>
         (case (if bizId \<noteq> [] \<and> 0 < bizLimit then localRateCheck bizId bizLimit window now cs1 else (True, cs1)) of
            (False, cs2) \<Rightarrow> (Some BlockLocalBiz, cs2)
          | (True, cs2) \<Rightarrow>
              (case localRateCheck identifier limit window now cs2 of
                 (False, cs3) \<Rightarrow> (Some BlockLocal, cs3)
               | (True, cs3) \<Rightarrow> (None, cs3))))"

definition WriteRateLimiter ::
  "'r Counters \<Rightarrow> (string \<Rightarrow> string) \<Rightarrow> biz_tables \<Rightarrow> write_settings \<Rightarrow> write_request \<Rightarrow> instant \<Rightarrow> 'r write_state
    \<Rightarrow> limit_response \<times> 'r write_state" where
  "WriteRateLimiter R sha1_prefix biz cfg req now st =
    (let (bizKey, bizLimit0) = request_biz biz req;
         ((limit, bizLimit), r1) = read_overrides R cfg bizKey bizLimit0 now (ws_limit st) (ws_redis st);
         effectiveGlobal = effective_global cfg limit;
         st1 = st\<lparr>ws_limit := limit, ws_redis := r1\<rparr>
     in if limit \<le> 0 \<and> effectiveGlobal \<le> 0 \<and> bizLimit \<le> 0 then (PassOn, st1)
        else (let idPart = caller_id sha1_prefix req;
                  identifier = ''write:'' @ idPart @ '':'' @ wr_Path req;
                  bizId = (if 0 < bizLimit \<and> bizKey \<noteq> [] then ''write:{'' @ bizKey @ ''}:'' @ idPart else []);
                  wid = windowIDForTime now (wc_window cfg)
              in case write_local (wc_window cfg) (''write:global:{'' @ wr_Path req @ ''}'') effectiveGlobal bizId bizLimit
                        identifier limit now (ws_local st1) of
                   (Some reason, cs) \<Rightarrow> (AbortWith 429 110010 reason, st1\<lparr>ws_local := cs\<rparr>)
                 | (None, cs) \<Rightarrow>
                     (let st2 = st1\<lparr>ws_local := cs\<rparr>;
                          degraded = (if strictLocalRateCheck identifier limit cs then PassOn else AbortWith 429 110010 BlockUnavailable)
                      in if \<not> wc_hasClient cfg then (degraded, st2)
                         else case ct_trip R r1 of
                                (Some err, r2) \<Rightarrow> (degraded, st2\<lparr>ws_redis := r2\<rparr>)
                              | (None, r2) \<Rightarrow>
                                  (case write_redis R (wc_window cfg) (write_keys cfg req idPart bizKey bizLimit wid)
                                          effectiveGlobal bizKey bizLimit limit now r2 of
                                     (res, r3) \<Rightarrow> (res, st2\<lparr>ws_redis := r3\<rparr>)))))"

end
