(* ===== verification/LimiterProperties.thy ===== *)
theory LimiterProperties
  imports WriteLimiter
begin

text \<open>
  The properties of the rate limiters. Each call comes with the state in memory of the process that serves
  it, whatever that is; only Redis is shared.
\<close>

text \<open>
  Counting in Redis: while a window lasts, a counter of that window only grows and does not
  expire, so the calls it lets through are at most its limit. The lemmas are about one key
  and one window; both limiters use them.
\<close>

section \<open>Keys\<close>

lemma digits_no_colon: "CHR '':'' \<notin> set (digits_of n)"
proof (induction n rule: digits_of.induct)
  case (1 n)
  have "CHR '':'' \<noteq> char_of (48 + d)" if "d < 10" for d :: nat
  proof
    assume "CHR '':'' = char_of (48 + d)"
    then have "of_char (CHR '':'') = (of_char (char_of (48 + d) :: char) :: nat)" by (rule arg_cong)
    then show False using that by (simp add: of_char_of)
  qed
  with 1 show ?case by (subst digits_of.simps) auto
qed

lemma FormatInt_no_colon: "CHR '':'' \<notin> set (FormatInt x)"
  using digits_no_colon by (auto simp: FormatInt_def)

lemma colon_tail: "CHR '':'' \<notin> set x \<Longrightarrow> takeWhile (\<lambda>c. c \<noteq> CHR '':'') (rev (a @ CHR '':'' # x)) = rev x"
  by (simp add: takeWhile_tail) (metis set_rev takeWhile_eq_all_conv)

lemma colon_split: "a @ CHR '':'' # x = b @ CHR '':'' # y \<Longrightarrow> CHR '':'' \<notin> set x \<Longrightarrow> CHR '':'' \<notin> set y \<Longrightarrow> x = y"
  using colon_tail [of x a] colon_tail [of y b] by (metis rev_is_rev_conv)

lemma digits_of_inj: "digits_of m = digits_of n \<Longrightarrow> m = n"
  by (metis parse_digits_of option.inject)

lemma digits_of_unsigned: "digits_of n \<noteq> CHR ''-'' # zs"
proof -
  obtain d :: nat and cs where "d < 10" "digits_of n = char_of (48 + d) # cs" using digits_of_Cons [of n] by blast
  with char_of_digit_not_sign(1) [of d] show ?thesis by simp
qed

lemma FormatInt_inj: "FormatInt x = FormatInt y \<Longrightarrow> x = y"
proof (cases "x < 0"; cases "y < 0")
  assume "FormatInt x = FormatInt y" "x < 0" "y < 0"
  then show "x = y" using digits_of_inj [of "nat (- x)" "nat (- y)"] by (simp add: FormatInt_def)
next
  assume "FormatInt x = FormatInt y" "x < 0" "\<not> y < 0"
  then show "x = y" using digits_of_unsigned [of "nat y" "digits_of (nat (- x))"] by (simp add: FormatInt_def)
next
  assume "FormatInt x = FormatInt y" "\<not> x < 0" "y < 0"
  then show "x = y" using digits_of_unsigned [of "nat x" "digits_of (nat (- y))"] by (simp add: FormatInt_def)
next
  assume "FormatInt x = FormatInt y" "\<not> x < 0" "\<not> y < 0"
  then show "x = y" using digits_of_inj [of "nat x" "nat y"] by (simp add: FormatInt_def)
qed

lemma window_key:
  assumes "buildRedisKey pfx (a @ '':'' @ FormatInt x) = buildRedisKey pfx (b @ '':'' @ FormatInt y)"
  shows "x = y"
proof -
  have "(pfx @ a) @ CHR '':'' # FormatInt x = (pfx @ b) @ CHR '':'' # FormatInt y"
    using assms by (cases "pfx = []") (simp_all add: buildRedisKey_def)
  from colon_split [OF this FormatInt_no_colon FormatInt_no_colon] show ?thesis by (rule FormatInt_inj)
qed

section \<open>Windows\<close>

lemma go_mod_small:
  assumes "0 < w"
  shows "\<bar>a - w * go_div a w\<bar> < w"
proof (cases "0 \<le> a")
  case True
  then have "a - w * go_div a w = a mod w" using assms by (simp add: go_div_nonneg minus_mult_div_eq_mod)
  then show ?thesis using pos_mod_bound [OF assms, of a] pos_mod_sign [OF assms, of a] by simp
next
  case False
  then have "go_div a w = - ((- a) div w)" using assms by (simp add: go_div_def)
  then have "a - w * go_div a w = - ((- a) mod w)" by (simp add: minus_div_mult_eq_mod [symmetric])
  then show ?thesis using pos_mod_bound [OF assms, of "- a"] pos_mod_sign [OF assms, of "- a"] by simp
qed

lemma go_div_same:
  assumes "0 < w" and "go_div a w = go_div b w"
  shows "a \<le> b + 2 * w - 2"
  using go_mod_small [OF assms(1), of a] go_mod_small [OF assms(1), of b] unfolding assms(2) by linarith

lemma scaled:
  fixes t u a b c E S :: int
  assumes "t - E < (a + 1) * S" "b * S \<le> u - E" "a \<le> b + 2 * c - 2" "0 < S"
  shows "t < u + c * 2 * S"
proof -
  have "(a + 1) * S \<le> (b + 2 * c - 1) * S" by (rule mult_right_mono) (use assms in auto)
  moreover have "(b + 2 * c - 1) * S = b * S + c * 2 * S - S" by (simp add: left_diff_distrib distrib_right)
  ultimately show ?thesis using assms by linarith
qed

text \<open>Two instants of one window are less than two window lengths apart.\<close>

lemma window_span:
  assumes "0 < windowSeconds w" and "windowIDForTime t w = windowIDForTime u w"
  shows "t < u + windowSeconds w * 2 * Second"
proof -
  have "Unix t \<le> Unix u + 2 * windowSeconds w - 2"
    using go_div_same [OF assms(1)] assms by (simp add: windowIDForTime_def)
  moreover have "t - unix_epoch < (Unix t + 1) * Second" "Unix u * Second \<le> u - unix_epoch"
    by (simp_all add: Unix_def Second_def)
  ultimately show ?thesis using scaled [of t unix_epoch "Unix t" Second "Unix u" u "windowSeconds w"] by (simp add: Second_def)
qed

section \<open>One counter\<close>

text \<open>Through one window: so far \<open>n\<close> calls were let through by counter \<open>k\<close>, which either has not
  been touched or lives longer than the window and has counted each of them.\<close>

definition counted :: "duration \<Rightarrow> int \<Rightarrow> nat \<Rightarrow> (int \<times> instant option) option \<Rightarrow> bool" where
  "counted w wid n x \<longleftrightarrow> (x = None \<and> n = 0) \<or> (\<exists>m e. x = Some (m, Some e) \<and> int n \<le> m \<and> 0 \<le> m \<and> (\<forall>t. windowIDForTime t w = wid \<longrightarrow> t < e))"

lemma counted_le: "counted w wid n x \<Longrightarrow> n' \<le> n \<Longrightarrow> counted w wid n' x"
  by (auto simp: counted_def)

lemma counted_fresh:
  assumes "windowIDForTime now w = wid" and "0 < windowSeconds w" and "int n \<le> m" and "0 \<le> m"
  shows "counted w wid n (Some (m, Some (now + windowSeconds w * 2 * Second)))"
  using assms window_span [OF assms(2), of _ now] by (auto simp: counted_def)

text \<open>What INCR leaves: the number it returns, above the calls counted before.\<close>

lemma incr_counts:
  assumes "counter_laws R view" and "counted w wid n (view r k)" and "windowIDForTime now w = wid"
    and "ct_INCR R k now r = (current, r1)"
  shows "int (Suc n) \<le> current" "1 \<le> current" "\<exists>e. view r1 = (view r)(k \<mapsto> (current, e)) \<and> alive now (Some (current, e)) = Some (current, e)"
    "current \<noteq> 1 \<Longrightarrow> counted w wid (Suc n) (view r1 k)"
proof -
  note F = counter_facts(2,3) [OF assms(1), of k now r, unfolded assms(4), simplified]
  have "int (Suc n) \<le> current \<and> 1 \<le> current \<and> (\<exists>e. view r1 = (view r)(k \<mapsto> (current, e)) \<and> alive now (Some (current, e)) = Some (current, e))
    \<and> (current \<noteq> 1 \<longrightarrow> counted w wid (Suc n) (view r1 k))"
  proof (cases "view r k")
    case None
    with assms(2) F show ?thesis by (auto simp: counted_def alive_def)
  next
    case (Some x)
    with assms(2,3) obtain m e where x: "view r k = Some (m, Some e)" "int n \<le> m" "0 \<le> m" "\<forall>t. windowIDForTime t w = wid \<longrightarrow> t < e" "now < e"
      by (auto simp: counted_def)
    with F show ?thesis by (auto simp: counted_def alive_def)
  qed
  then show "int (Suc n) \<le> current" "1 \<le> current" "\<exists>e. view r1 = (view r)(k \<mapsto> (current, e)) \<and> alive now (Some (current, e)) = Some (current, e)"
    "current \<noteq> 1 \<Longrightarrow> counted w wid (Suc n) (view r1 k)" by simp_all
qed

lemma expire_counts:
  assumes "counter_laws R view" and "view r k = Some (m, e)" and "alive now (Some (m, e)) = Some (m, e)"
    and "windowIDForTime now w = wid" and "0 < windowSeconds w" and "int n \<le> m" "0 \<le> m"
  shows "counted w wid n (view (ct_EXPIRE R k (windowSeconds w * 2) now r) k)"
  using counted_fresh [OF assms(4-7)] assms(2,3,5) by (simp add: counter_facts(4) [OF assms(1)])

lemma other_key:
  assumes "counter_laws R view" and "key \<noteq> k"
  shows "view (snd (ct_INCR R key now r)) k = view r k" "view (ct_EXPIRE R key s now r) k = view r k"
  using assms(2) by (simp_all add: counter_facts [OF assms(1)])

section \<open>The script of the login limiters\<close>

lemma script_counts:
  assumes L: "counter_laws R view" and "counted w wid n (view r (login_key pfx i wid))" and w: "0 < windowSeconds w"
    and call: "optimizedLuaScript R (login_key pfx j (windowIDForTime now w)) limit (windowSeconds w * 2) now r = ((limited, remaining), r')"
  shows "(if login_key pfx j (windowIDForTime now w) = login_key pfx i wid \<and> limited \<noteq> 1
      then int n < limit \<and> counted w wid (Suc n) (view r' (login_key pfx i wid)) else counted w wid n (view r' (login_key pfx i wid)))"
proof (cases "login_key pfx j (windowIDForTime now w) = login_key pfx i wid")
  case False
  then show ?thesis using call other_key [OF L False] assms(2)
    by (auto simp: optimizedLuaScript_def Let_def split: prod.splits if_splits) (metis snd_conv)+
next
  case True
  let ?k = "login_key pfx i wid"
  obtain current r1 where inc: "ct_INCR R ?k now r = (current, r1)" by fastforce
  have wid: "windowIDForTime now w = wid"
    by (rule window_key [of pfx "''ratelimit:login:'' @ j" _ "''ratelimit:login:'' @ i"]) (use True in \<open>simp add: login_key_def\<close>)
  note I = incr_counts [OF L assms(2) wid inc]
  obtain e where e: "view r1 = (view r)(?k \<mapsto> (current, e))" "alive now (Some (current, e)) = Some (current, e)" using I(3) by blast
  define r2 where "r2 = (if current = 1 then ct_EXPIRE R ?k (windowSeconds w * 2) now r1 else r1)"
  have "counted w wid (Suc n) (view r2 ?k)"
    using I(4) expire_counts [OF L _ e(2) wid w, of r1 ?k "Suc n"] I(1,2) e(1) by (simp add: r2_def)
  moreover have "r' = r2" "limited = (if limit < current then 1 else 0)"
    using call inc True by (auto simp: optimizedLuaScript_def Let_def r2_def split: if_splits)
  moreover have "current \<le> limit \<Longrightarrow> int n < limit" using I(1) by simp
  ultimately show ?thesis using True counted_le [of w wid "Suc n" _ n] by auto
qed

section \<open>The counters of the write limiter\<close>

text \<open>A counter of the pipeline is refreshed at every call; the counter of another key is not touched.\<close>

lemma count_one_counts:
  assumes L: "counter_laws R view" and c: "counted w wid n (view r k)" and w: "0 < windowSeconds w"
    and same: "key = k \<Longrightarrow> windowIDForTime now w = wid" and call: "count_one R on key (windowSeconds w * 2) now r = (current, r')"
  shows "counted w wid n (view r' k)" "on \<Longrightarrow> key = k \<Longrightarrow> int (Suc n) \<le> current \<and> counted w wid (Suc n) (view r' k)"
proof -
  have "counted w wid n (view r' k) \<and> (on \<longrightarrow> key = k \<longrightarrow> int (Suc n) \<le> current \<and> counted w wid (Suc n) (view r' k))"
  proof (cases "on")
    case False
    with call c show ?thesis by (simp add: count_one_def)
  next
    case True
    obtain cur r1 where inc: "ct_INCR R key now r = (cur, r1)" by fastforce
    with call True have r: "current = cur" "r' = ct_EXPIRE R key (windowSeconds w * 2) now r1" by (simp_all add: count_one_def)
    show ?thesis
    proof (cases "key = k")
      case False
      with c inc other_key(1) [OF L False, of now r] show ?thesis unfolding r by (simp add: other_key(2) [OF L False])
    next
      case True
      note I = incr_counts [OF L c same [OF True] inc [unfolded True]]
      obtain e where e: "view r1 = (view r)(k \<mapsto> (cur, e))" "alive now (Some (cur, e)) = Some (cur, e)" using I(3) by blast
      have "counted w wid (Suc n) (view r' k)"
        unfolding r(2) True by (rule expire_counts [OF L _ e(2) same [OF True] w]) (use e(1) I(1,2) in simp_all)
      with I(1) show ?thesis using counted_le [of w wid "Suc n" _ n] by (simp add: r(1))
    qed
  qed
  then show "counted w wid n (view r' k)" "on \<Longrightarrow> key = k \<Longrightarrow> int (Suc n) \<le> current \<and> counted w wid (Suc n) (view r' k)" by simp_all
qed

lemma retry_view: "counter_laws R view \<Longrightarrow> view (snd (estimateRetryAfterSeconds R key ws now r)) = view r"
  using counter_facts(1) [of R view r] by (auto simp: estimateRetryAfterSeconds_def Let_def split: option.split prod.split)

lemma write_redis_counts:
  assumes L: "counter_laws R view" and c: "counted w wid n (view r k)" and w: "0 < windowSeconds w"
    and same: "\<And>x. x \<in> {gk, bk, ik} \<Longrightarrow> x = k \<Longrightarrow> windowIDForTime now w = wid"
    and call: "write_redis R w (gk, bk, ik) G bizKey bizLimit limit now r = (res, r')"
  shows "if 0 < G \<and> gk = k \<and> res = PassOn then int n < G \<and> counted w wid (Suc n) (view r' k) else counted w wid n (view r' k)"
proof -
  let ?ttl = "windowSeconds w * 2"
  obtain cg r1 where g: "count_one R (0 < G) gk ?ttl now r = (cg, r1)" by fastforce
  obtain cb r2 where b: "count_one R (0 < bizLimit \<and> bizKey \<noteq> []) bk ?ttl now r1 = (cb, r2)" by fastforce
  obtain ci r3 where i: "count_one R (0 < limit) ik ?ttl now r2 = (ci, r3)" by fastforce
  have keep: "counted w wid m (view r1 k) \<Longrightarrow> counted w wid m (view r3 k)" for m
    using count_one_counts(1) [OF L _ w same i] count_one_counts(1) [OF L _ w same b] by blast
  have C: "counted w wid n (view r3 k)" using count_one_counts(1) [OF L c w same g] keep by blast
  have P: "0 < G \<Longrightarrow> gk = k \<Longrightarrow> int (Suc n) \<le> cg \<and> counted w wid (Suc n) (view r3 k)"
    using count_one_counts(2) [OF L c w same g] keep by blast
  have v: "view r' = view r3" and pass: "res = PassOn \<Longrightarrow> \<not> (0 < G \<and> G < cg)"
    using call g b i retry_view [OF L, of _ "windowSeconds w" now r3]
    by (auto simp: write_redis_def Let_def split: if_splits prod.splits dest!: arg_cong [of _ _ view]) (metis snd_conv)+
  show ?thesis using C P pass by (auto simp: v)
qed

section \<open>Counters on a table\<close>

record counter_table =
  kt_counts :: "(string \<times> int \<times> instant option) list"
  kt_texts :: "(string \<times> string) list"

definition table_counters :: "counter_table Counters" where
  "table_counters = \<lparr>ct_trip = \<lambda>r. (None, r),
     ct_INCR = \<lambda>k now r. (case alive now (map_of (kt_counts r) k) of
         None \<Rightarrow> (1, r\<lparr>kt_counts := AList.update k (1, None) (kt_counts r)\<rparr>)
       | Some (n, e) \<Rightarrow> (n + 1, r\<lparr>kt_counts := AList.update k (n + 1, e) (kt_counts r)\<rparr>)),
     ct_EXPIRE = \<lambda>k s now r. (case alive now (map_of (kt_counts r) k) of
         None \<Rightarrow> r\<lparr>kt_counts := AList.delete k (kt_counts r)\<rparr>
       | Some (n, e) \<Rightarrow> if s \<le> 0 then r\<lparr>kt_counts := AList.delete k (kt_counts r)\<rparr>
           else r\<lparr>kt_counts := AList.update k (n, Some (now + s * Second)) (kt_counts r)\<rparr>),
     ct_TTL = \<lambda>k now r. (case alive now (map_of (kt_counts r) k) of Some (n, Some e) \<Rightarrow> (e - now) div Second | _ \<Rightarrow> - 1),
     ct_GET = \<lambda>k now r. map_of (kt_texts r) k,
     ct_KEYS = \<lambda>p now r. map fst (kt_counts r),
     ct_DEL = \<lambda>ks r. r\<lparr>kt_counts := filter (\<lambda>x. fst x \<notin> set ks) (kt_counts r)\<rparr>\<rparr>"

definition table_counts :: "counter_table \<Rightarrow> counter_view" where
  "table_counts r = map_of (kt_counts r)"

lemma table_counter_laws: "counter_laws table_counters table_counts" "counters_up table_counters"
  by (auto simp: counter_laws_def counters_up_def table_counters_def table_counts_def update_conv' delete_conv' fun_eq_iff
      split: option.split prod.split)

definition no_counters :: counter_table where "no_counters = \<lparr>kt_counts = [], kt_texts = []\<rparr>"

section \<open>Logins\<close>

type_synonym login_call = "string \<times> instant \<times> local_counters"

fun serve_logins :: "'r Counters \<Rightarrow> string \<Rightarrow> int \<times> duration \<Rightarrow> login_call list \<Rightarrow> 'r \<Rightarrow> (login_call \<times> limit_response) list" where
  "serve_logins R pfx settings [] r = []"
| "serve_logins R pfx settings ((ip, now, cs) # calls) r =
    (case loginRateLimiter R pfx settings ip now (cs, r) of
       (res, cs', r') \<Rightarrow> ((ip, now, cs), res) # serve_logins R pfx settings calls r')"

definition passed :: "duration \<Rightarrow> string \<Rightarrow> int \<Rightarrow> login_call \<times> limit_response \<Rightarrow> bool" where
  "passed w ip wid x \<longleftrightarrow> fst (fst x) = ip \<and> windowIDForTime (fst (snd (fst x))) w = wid \<and> snd x = PassOn"

lemma login_step:
  assumes L: "counter_laws R view" and "counters_up R" and "0 < limit" and w: "0 < window" "0 < windowSeconds window"
    and c: "counted window wid n (view r (login_key pfx (''ip:'' @ ip) wid))"
    and call: "loginRateLimiter R pfx (limit, window) j now (cs, r) = (res, cs', r')"
  shows "(if passed window ip wid ((j, now, cs), res) then int n < limit \<and> counted window wid (Suc n) (view r' (login_key pfx (''ip:'' @ ip) wid))
     else counted window wid n (view r' (login_key pfx (''ip:'' @ ip) wid)))"
proof -
  let ?k = "login_key pfx (''ip:'' @ ip) wid" and ?j = "login_key pfx (''ip:'' @ j) (windowIDForTime now window)"
  obtain ok cs1 where loc: "localRateCheckWithWindowID (''ip:'' @ j) limit (windowIDForTime now window) now cs = (ok, cs1)" by fastforce
  obtain e r1 where trip: "ct_trip R r = (e, r1)" by fastforce
  have v: "view r1 = view r" "e = None" using counter_facts(1) [OF L, of r] assms(2) trip by (auto simp: counters_up_def dest: spec [of _ r])
  show ?thesis
  proof (cases ok)
    case False
    with call loc assms(3) w c show ?thesis by (auto simp: loginRateLimiter_def limit_by_def Let_def passed_def)
  next
    case True
    obtain limited remaining r2 where s: "optimizedLuaScript R ?j limit (windowSeconds window * 2) now r1 = ((limited, remaining), r2)" by (metis prod.collapse)
    have "r' = r2" "res = PassOn \<longleftrightarrow> limited \<noteq> 1"
      using call loc True trip v(2) s assms(3) w by (auto simp: loginRateLimiter_def limit_by_def Let_def)
    moreover have "ip = j \<and> windowIDForTime now window = wid \<Longrightarrow> ?j = ?k" by simp
    moreover have "?j = ?k \<Longrightarrow> windowIDForTime now window = wid \<and> j = ip"
      using window_key [of pfx "''ratelimit:login:ip:'' @ j" "windowIDForTime now window" "''ratelimit:login:ip:'' @ ip" wid]
      by (auto simp: login_key_def buildRedisKey_def split: if_splits)
    ultimately show ?thesis
      using script_counts [OF L _ w(2) s, of wid n "''ip:'' @ ip"] c by (auto simp: passed_def v(1) split: if_splits)
  qed
qed

text \<open>C27. Across all processes that share the Redis server, at most as many login requests of one address as the limit allows are
  let through in one fixed window, whatever the states in memory, the order of the requests and the
  other addresses.\<close>

theorem login_limit_enforced:
  assumes "counter_laws R view" and "counters_up R" and "0 < limit" and "0 < window" and "0 < windowSeconds window"
    and "view r (login_key pfx (''ip:'' @ ip) wid) = None"
  shows "int (length (filter (passed window ip wid) (serve_logins R pfx (limit, window) calls r))) \<le> limit"
proof -
  have "int (n + length (filter (passed window ip wid) (serve_logins R pfx (limit, window) calls r))) \<le> max limit (int n)"
    if "counted window wid n (view r (login_key pfx (''ip:'' @ ip) wid))" "int n \<le> limit" for n r
    using that
  proof (induction calls arbitrary: n r)
    case Nil
    then show ?case by simp
  next
    case (Cons call calls)
    obtain j now cs where call: "call = (j, now, cs)" by (cases call) auto
    obtain res cs' r' where s: "loginRateLimiter R pfx (limit, window) j now (cs, r) = (res, cs', r')" by (metis prod.collapse)
    note step = login_step [OF assms(1-5) Cons.prems(1) s]
    show ?case
    proof (cases "passed window ip wid ((j, now, cs), res)")
      case True
      with step have a: "int (Suc n) \<le> limit" "counted window wid (Suc n) (view r' (login_key pfx (''ip:'' @ ip) wid))" by auto
      from Cons.IH [OF a(2,1)] a(1) True show ?thesis by (simp add: call s)
    next
      case False
      with step have "counted window wid n (view r' (login_key pfx (''ip:'' @ ip) wid))" by simp
      from Cons.IH [OF this Cons.prems(2)] False show ?thesis by (simp add: call s)
    qed
  qed
  from this [of 0 r] assms(3,6) show ?thesis by (simp add: counted_def)
qed

theorem login_limit_enforced_witness:
  "int (length (filter (passed Minute ''10.0.0.1'' 0)
      (serve_logins table_counters ''iam:'' (2, Minute) (replicate 5 (''10.0.0.1'', unix_epoch, [])) no_counters))) \<le> 2"
proof -
  have "0 < Minute" "0 < windowSeconds Minute" by code_simp+
  then show ?thesis
    using login_limit_enforced [OF table_counter_laws, of 2 Minute no_counters "''iam:''" "''10.0.0.1''" 0]
    by (simp add: table_counts_def no_counters_def)
qed

section \<open>Falling back on memory\<close>

text \<open>When Redis fails, the strict and the lenient fallback never refuse a request: they test a
  counter that the check before has just found within the limit. The limit then holds per process
  only.\<close>

theorem limiter_fallback_dead:
  assumes "fst (ct_trip R r) = Some err" and "0 < limit" and "in64 (limit * 2)"
    and "localRateCheckWithWindowID (''ip:'' @ ip) limit (windowIDForTime now (if window \<le> 0 then Minute else window)) now cs = (True, cs')"
  shows "fst (loginRateLimiter R pfx (limit, window) ip now (cs, r)) = PassOn"
proof -
  obtain r1 where t: "ct_trip R r = (Some err, r1)" using assms(1) by (cases "ct_trip R r") simp
  have "strictLocalRateCheck (''ip:'' @ ip) limit cs'" "lenientLocalRateCheck (''ip:'' @ ip) limit cs'"
    using assms(2,4) wrap64_id [OF assms(3)]
    by (auto simp: localRateCheckWithWindowID_def strictLocalRateCheck_def lenientLocalRateCheck_def update_conv' Let_def
        split: option.splits if_splits)
  then show ?thesis
    using t assms(2,4) by (auto simp: loginRateLimiter_def limit_by_def Let_def handleRedisError_def split: trip_error.split)
qed

theorem limiter_fallback_dead_witness:
  "fst (loginRateLimiter (table_counters\<lparr>ct_trip := \<lambda>r. (Some DeadlineExceeded, r)\<rparr>) [] (1, Minute) ''10.0.0.1'' unix_epoch ([], no_counters)) = PassOn"
proof -
  let ?R = "table_counters\<lparr>ct_trip := \<lambda>r. (Some DeadlineExceeded, r)\<rparr>"
  have "fst (ct_trip ?R no_counters) = Some DeadlineExceeded" by simp
  moreover have "localRateCheckWithWindowID (''ip:'' @ ''10.0.0.1'') 1 (windowIDForTime unix_epoch (if Minute \<le> 0 then Minute else Minute)) unix_epoch []
      = (True, snd (localRateCheckWithWindowID (''ip:'' @ ''10.0.0.1'') 1 (windowIDForTime unix_epoch (if Minute \<le> 0 then Minute else Minute)) unix_epoch []))"
    by (simp add: localRateCheckWithWindowID_def)
  ultimately show ?thesis using limiter_fallback_dead [of ?R no_counters DeadlineExceeded 1] by (simp add: in64_def int64_min_def int64_max_def)
qed

section \<open>Windows of less than a second\<close>

fun local_logins :: "'r Counters \<Rightarrow> string \<Rightarrow> int \<times> duration \<Rightarrow> string \<Rightarrow> instant list \<Rightarrow> local_counters \<times> 'r \<Rightarrow> limit_response list" where
  "local_logins R pfx settings ip [] st = []"
| "local_logins R pfx settings ip (now # nows) st =
    (case loginRateLimiter R pfx settings ip now st of (res, st') \<Rightarrow> res # local_logins R pfx settings ip nows st')"

text \<open>With a window of less than a second every instant has the same window number, so a login address that has used
  up the limit once is refused for ever (until it pauses for the ten minutes after which idle counters
  are dropped): no later request passes, however late.\<close>

theorem subsecond_window_locks:
  assumes "0 < limit" and "0 < window" and "windowSeconds window = 0"
    and "map_of cs (''ip:'' @ ip) = Some c" and "lc_windowID c = 0" and "limit \<le> lc_count c" and "lc_count c + int (length nows) \<le> int64_max"
  shows "local_logins R pfx (limit, window) ip nows (cs, r) = replicate (length nows) (AbortWith 429 100209 BlockLocal)"
  using assms(4-7)
proof (induction nows arbitrary: cs c)
  case Nil
  then show ?case by simp
next
  case (Cons now nows)
  have n: "wrap64 (lc_count c + 1) = lc_count c + 1"
    using Cons.prems(3,4) assms(1) by (intro wrap64_id) (simp add: in64_def int64_min_def int64_max_def)
  let ?c = "c\<lparr>lc_count := lc_count c + 1, lc_lastTime := now\<rparr>"
  have "loginRateLimiter R pfx (limit, window) ip now (cs, r) = (AbortWith 429 100209 BlockLocal, AList.update (''ip:'' @ ip) ?c cs, r)"
    using assms(1-3) Cons.prems(1-3) n
    by (simp add: loginRateLimiter_def limit_by_def Let_def windowIDForTime_def localRateCheckWithWindowID_def)
  then show ?case
    using Cons.IH [of "AList.update (''ip:'' @ ip) ?c cs" ?c] Cons.prems by (simp add: update_conv')
qed

theorem subsecond_window_locks_witness:
  "local_logins table_counters [] (1, 500 * Millisecond) ''10.0.0.1'' [unix_epoch + Hour, unix_epoch + 2 * Hour]
     ([(''ip:10.0.0.1'', \<lparr>lc_count = 1, lc_windowID = 0, lc_lastTime = unix_epoch\<rparr>)], no_counters)
   = [AbortWith 429 100209 BlockLocal, AbortWith 429 100209 BlockLocal]"
proof -
  have "0 < 500 * Millisecond" "windowSeconds (500 * Millisecond) = 0" by code_simp+
  then show ?thesis
    using subsecond_window_locks [of 1 "500 * Millisecond" "[(''ip:10.0.0.1'', \<lparr>lc_count = 1, lc_windowID = 0, lc_lastTime = unix_epoch\<rparr>)]"
        "''10.0.0.1''" "\<lparr>lc_count = 1, lc_windowID = 0, lc_lastTime = unix_epoch\<rparr>" "[unix_epoch + Hour, unix_epoch + 2 * Hour]"]
    by (simp add: int64_max_def numeral_2_eq_2)
qed

section \<open>Writes\<close>

text \<open>A write as its process sees it: the businesses it knows, the limit in its closure, its counters in memory.\<close>

type_synonym write_call = "biz_tables \<times> write_request \<times> instant \<times> int \<times> local_counters"

fun serve_writes ::
  "'r Counters \<Rightarrow> (string \<Rightarrow> string) \<Rightarrow> write_settings \<Rightarrow> write_call list \<Rightarrow> 'r \<Rightarrow> (write_call \<times> limit_response) list" where
  "serve_writes R sha cfg [] r = []"
| "serve_writes R sha cfg ((biz, req, now, limit, cs) # calls) r =
    (case WriteRateLimiter R sha biz cfg req now \<lparr>ws_limit = limit, ws_local = cs, ws_redis = r\<rparr> of
       (res, st') \<Rightarrow> ((biz, req, now, limit, cs), res) # serve_writes R sha cfg calls (ws_redis st'))"

definition path_key :: "write_settings \<Rightarrow> string \<Rightarrow> int \<Rightarrow> string" where
  "path_key cfg path wid = fst (write_keys cfg \<lparr>wr_Method = [], wr_Path = path, wr_ClientIP = [], wr_Authorization = []\<rparr> [] [] 0 wid)"

definition write_passed :: "duration \<Rightarrow> string \<Rightarrow> int \<Rightarrow> write_call \<times> limit_response \<Rightarrow> bool" where
  "write_passed w path wid x \<longleftrightarrow> (case x of ((biz, req, now, limit, cs), res) \<Rightarrow> wr_Path req = path \<and> windowIDForTime now w = wid \<and> res = PassOn)"

lemma path_key_of: "fst (write_keys cfg req idPart bizKey bizLimit wid) = path_key cfg (wr_Path req) wid"
  by (simp add: path_key_def write_keys_def Let_def)

lemma write_key_window: "write_key cfg i a = write_key cfg j b \<Longrightarrow> a = b"
  using window_key [of "wc_keyPrefix cfg" "''ratelimit:'' @ i" a "''ratelimit:'' @ j" b] by (simp add: write_key_def)

lemma write_keys_window:
  "x \<in> {fst (write_keys cfg req idPart bizKey bizLimit wid'), fst (snd (write_keys cfg req idPart bizKey bizLimit wid')),
     snd (snd (write_keys cfg req idPart bizKey bizLimit wid'))} \<Longrightarrow> x = path_key cfg path wid \<Longrightarrow> wid' = wid"
  unfolding write_keys_def path_key_def Let_def by (auto dest: write_key_window split: if_splits)

lemma overrides_view:
  assumes "counter_laws R view" and "counters_up R" and "wc_hasClient cfg"
    and "read_overrides R cfg bizKey bizLimit0 now limit r = (out, r1)"
  shows "view r1 = view r"
  using assms(3,4) counter_facts(1) [OF assms(1), of r] assms(2)
  by (auto simp: read_overrides_def counters_up_def split: prod.splits option.splits)

lemma path_key_inj: "path_key cfg p w = path_key cfg q w \<longleftrightarrow> p = q"
  by (auto simp: path_key_def write_keys_def Let_def write_key_def buildRedisKey_def)

lemma write_step:
  assumes L: "counter_laws R view" and up: "counters_up R" and G: "0 < wc_globalLimit cfg" and cl: "wc_hasClient cfg"
    and w: "0 < windowSeconds (wc_window cfg)" and c: "counted (wc_window cfg) wid n (view r (path_key cfg path wid))"
    and call: "WriteRateLimiter R sha biz cfg req now \<lparr>ws_limit = limit, ws_local = cs, ws_redis = r\<rparr> = (res, st')"
  shows "(if write_passed (wc_window cfg) path wid ((biz, req, now, limit, cs), res)
     then int n < wc_globalLimit cfg \<and> counted (wc_window cfg) wid (Suc n) (view (ws_redis st') (path_key cfg path wid))
     else counted (wc_window cfg) wid n (view (ws_redis st') (path_key cfg path wid)))"
proof -
  let ?k = "path_key cfg path wid" and ?wid = "windowIDForTime now (wc_window cfg)"
  obtain bizKey bizLimit0 where biz: "request_biz biz req = (bizKey, bizLimit0)" by fastforce
  obtain limit' bizLimit r1 where ov: "read_overrides R cfg bizKey bizLimit0 now limit r = ((limit', bizLimit), r1)" by (metis prod.collapse)
  have v1: "view r1 = view r" by (rule overrides_view [OF L up cl ov])
  have eff: "effective_global cfg limit' = wc_globalLimit cfg" using G by (simp add: effective_global_def)
  let ?id = "caller_id sha req"
  let ?bizId = "if 0 < bizLimit \<and> bizKey \<noteq> [] then ''write:{'' @ bizKey @ ''}:'' @ ?id else []"
  obtain reason cs' where loc: "write_local (wc_window cfg) (''write:global:{'' @ wr_Path req @ ''}'') (wc_globalLimit cfg) ?bizId bizLimit
      (''write:'' @ ?id @ '':'' @ wr_Path req) limit' now cs = (reason, cs')" by fastforce
  obtain e r2 where trip: "ct_trip R r1 = (e, r2)" by fastforce
  have t: "e = None" "view r2 = view r" using trip up counter_facts(1) [OF L, of r1] v1 by (auto simp: counters_up_def dest: spec [of _ r1])
  show ?thesis
  proof (cases reason)
    case (Some b)
    then have "res \<noteq> PassOn" "ws_redis st' = r1"
      using call biz ov eff loc G by (auto simp: WriteRateLimiter_def Let_def)
    with c show ?thesis by (simp add: write_passed_def v1)
  next
    case None
    obtain res2 r3 where wr: "write_redis R (wc_window cfg) (write_keys cfg req ?id bizKey bizLimit ?wid) (wc_globalLimit cfg) bizKey bizLimit limit' now r2
        = (res2, r3)" by fastforce
    have out: "res = res2" "ws_redis st' = r3"
      using call biz ov eff loc G cl trip t(1) wr None by (auto simp: WriteRateLimiter_def Let_def)
    let ?ks = "write_keys cfg req ?id bizKey bizLimit ?wid"
    have ks: "write_redis R (wc_window cfg) (fst ?ks, fst (snd ?ks), snd (snd ?ks)) (wc_globalLimit cfg) bizKey bizLimit limit' now r2 = (res2, r3)"
      using wr by simp
    have c2: "counted (wc_window cfg) wid n (view r2 ?k)" using c by (simp add: t(2))
    have "wr_Path req = path \<and> ?wid = wid \<Longrightarrow> fst ?ks = ?k" by (simp add: path_key_of)
    moreover have "fst ?ks = ?k \<Longrightarrow> ?wid = wid \<and> wr_Path req = path"
      using write_keys_window [of "fst ?ks" cfg req ?id bizKey bizLimit ?wid path wid] path_key_inj [of cfg "wr_Path req" wid path]
      by (auto simp: path_key_of)
    moreover have same: "?wid = wid" if "x \<in> {fst ?ks, fst (snd ?ks), snd (snd ?ks)}" "x = ?k" for x
      using that by (rule write_keys_window)
    note write_redis_counts [OF L c2 w same ks]
    ultimately show ?thesis using G by (auto simp: out write_passed_def split: if_splits)
  qed
qed

text \<open>C28. Across all processes that share the Redis server, at most as many writes on a path as its configured limit are let through in one
  fixed window, whoever the callers are, whatever the businesses, the overrides, the states in memory and the other paths.\<close>

theorem write_path_limit:
  assumes "counter_laws R view" and "counters_up R" and "0 < wc_globalLimit cfg" and "wc_hasClient cfg"
    and "0 < windowSeconds (wc_window cfg)" and "view r (path_key cfg path wid) = None"
  shows "int (length (filter (write_passed (wc_window cfg) path wid) (serve_writes R sha cfg calls r))) \<le> wc_globalLimit cfg"
proof -
  have "int (n + length (filter (write_passed (wc_window cfg) path wid) (serve_writes R sha cfg calls r))) \<le> wc_globalLimit cfg"
    if "counted (wc_window cfg) wid n (view r (path_key cfg path wid))" "int n \<le> wc_globalLimit cfg" for n r
    using that
  proof (induction calls arbitrary: n r)
    case Nil
    then show ?case by simp
  next
    case (Cons call calls)
    obtain biz req now limit cs where call: "call = (biz, req, now, limit, cs)" by (cases call) auto
    obtain res st' where s: "WriteRateLimiter R sha biz cfg req now \<lparr>ws_limit = limit, ws_local = cs, ws_redis = r\<rparr> = (res, st')" by fastforce
    note step = write_step [OF assms(1-5) Cons.prems(1) s]
    show ?case
    proof (cases "write_passed (wc_window cfg) path wid ((biz, req, now, limit, cs), res)")
      case True
      with step have a: "int (Suc n) \<le> wc_globalLimit cfg" "counted (wc_window cfg) wid (Suc n) (view (ws_redis st') (path_key cfg path wid))" by auto
      from Cons.IH [OF a(2,1)] True show ?thesis by (simp add: call s)
    next
      case False
      with step have "counted (wc_window cfg) wid n (view (ws_redis st') (path_key cfg path wid))" by simp
      from Cons.IH [OF this Cons.prems(2)] False show ?thesis by (simp add: call s)
    qed
  qed
  from this [of 0 r] assms(3,6) show ?thesis by (simp add: counted_def)
qed

definition demo_write_settings :: write_settings where
  "demo_write_settings = \<lparr>wc_keyPrefix = [], wc_globalLimit = 2, wc_globalFactor = 0, wc_window = Minute, wc_hasClient = True\<rparr>"

definition demo_write :: write_request where
  "demo_write = \<lparr>wr_Method = ''POST'', wr_Path = ''/v1/users'', wr_ClientIP = ''10.0.0.1'', wr_Authorization = []\<rparr>"

definition no_biz :: biz_tables where "no_biz = \<lparr>bt_bizMap = [], bt_routeBiz = [], bt_bizLimits = []\<rparr>"

theorem write_path_limit_witness:
  "int (length (filter (write_passed Minute ''/v1/users'' 0)
      (serve_writes table_counters (\<lambda>t. t) demo_write_settings (replicate 4 (no_biz, demo_write, unix_epoch, 10, [])) no_counters))) \<le> 2"
proof -
  have "0 < windowSeconds (wc_window demo_write_settings)" by code_simp
  then show ?thesis
    using write_path_limit [OF table_counter_laws, of demo_write_settings no_counters "''/v1/users''" 0]
    by (simp add: table_counts_def no_counters_def demo_write_settings_def)
qed

fun write_run ::
  "'r Counters \<Rightarrow> (string \<Rightarrow> string) \<Rightarrow> biz_tables \<Rightarrow> write_settings \<Rightarrow> (write_request \<times> instant \<times> ('r \<Rightarrow> 'r)) list \<Rightarrow> 'r write_state \<Rightarrow> 'r write_state" where
  "write_run R sha biz cfg [] st = st"
| "write_run R sha biz cfg ((req, now, others) # calls) st =
    write_run R sha biz cfg calls (snd (WriteRateLimiter R sha biz cfg req now (st\<lparr>ws_redis := others (ws_redis st)\<rparr>)))"

definition override_key :: "write_settings \<Rightarrow> string" where
  "override_key cfg = buildRedisKey (wc_keyPrefix cfg) ''ratelimit:write:global_limit''"

lemma write_limit_after:
  "ws_limit (snd (WriteRateLimiter R sha biz cfg req now st)) =
    fst (fst (read_overrides R cfg (fst (request_biz biz req)) (snd (request_biz biz req)) now (ws_limit st) (ws_redis st)))"
  by (auto simp: WriteRateLimiter_def Let_def split: prod.split option.split)

lemma parseInt_Nil: "parseInt [] = None"
  by code_simp

text \<open>An override of the limit outlives its removal: the first write that sees it replaces the limit of the handler itself, and
  from then on every write on that process is judged by the overriding number, though no override is found any more
  or Redis fails. The configured limit never comes back.\<close>

theorem write_override_sticks:
  assumes "wc_hasClient cfg" and "fst (ct_trip R (ws_redis st)) = None"
    and "ct_GET R (override_key cfg) now (snd (ct_trip R (ws_redis st))) = Some text" and "parseInt text = Some g" and "0 < g"
    and "\<forall>t r. ct_GET R' (override_key cfg) t r = None"
  shows "ws_limit (write_run R' sha biz cfg calls (snd (WriteRateLimiter R sha biz cfg req now st))) = g"
proof -
  have "text \<noteq> []" using assms(4) parseInt_Nil by auto
  then have first: "ws_limit (snd (WriteRateLimiter R sha biz cfg req now st)) = g"
    using assms(1-5) by (cases "ct_trip R (ws_redis st)") (simp add: write_limit_after read_overrides_def override_def override_key_def)
  have "ws_limit (write_run R' sha biz cfg calls st') = ws_limit st'" for st'
  proof (induction calls arbitrary: st')
    case Nil
    then show ?case by simp
  next
    case (Cons call calls)
    obtain rq t f where "call = (rq, t, f)" by (cases call) auto
    then show ?case
      using Cons.IH assms(6)
      by (simp add: write_limit_after read_overrides_def override_def override_key_def split: prod.split option.split)
  qed
  with first show ?thesis by simp
qed

theorem write_override_sticks_witness:
  "ws_limit (write_run (table_counters\<lparr>ct_GET := \<lambda>k t r. None\<rparr>) (\<lambda>t. t) no_biz demo_write_settings [(demo_write, unix_epoch + Hour, id)]
     (snd (WriteRateLimiter table_counters (\<lambda>t. t) no_biz demo_write_settings demo_write unix_epoch
       \<lparr>ws_limit = 10, ws_local = [], ws_redis = no_counters\<lparr>kt_texts := [(''ratelimit:write:global_limit'', ''3'')]\<rparr>\<rparr>))) = 3"
proof -
  have k: "override_key demo_write_settings = ''ratelimit:write:global_limit''"
    by (simp add: override_key_def demo_write_settings_def buildRedisKey_def)
  have p: "parseInt ''3'' = Some 3" by code_simp
  let ?st = "\<lparr>ws_limit = 10, ws_local = [], ws_redis = no_counters\<lparr>kt_texts := [(''ratelimit:write:global_limit'', ''3'')]\<rparr>\<rparr>"
  have c: "wc_hasClient demo_write_settings" "fst (ct_trip table_counters (ws_redis ?st)) = None"
    "ct_GET table_counters (override_key demo_write_settings) unix_epoch (snd (ct_trip table_counters (ws_redis ?st))) = Some ''3''"
    unfolding k by (simp_all add: demo_write_settings_def table_counters_def)
  show ?thesis by (rule write_override_sticks [OF c p]) simp_all
qed

end
