(* ===== verification/PendingServer.thy ===== *)
theory PendingServer
  imports RedisQueue PendingTypes
begin

text \<open>
  Redis as the pending coordinator uses it: strings with a lifetime, counters, the key scan and
  cached scripts, and the wrappers of the storage client around them (pkg/storage/redis_cluster.go).
  The commands are an argument, a record over an abstract state; what Redis documents about
  them is \<open>server_laws\<close>. A command can fail before it has any effect, or after: then the data has
  changed and the caller sees an error, as it does when a command timeout ends first.
\<close>

section \<open>Commands\<close>

datatype trip = Reached | Failed pending_error | Lost pending_error

text \<open>The errors of running a cached script that the coordinator tells apart by their text.\<close>

datatype script_error = NoScript | CrossSlot | ScriptError pending_error

record 'r Server =
  sv_up :: "'r \<Rightarrow> bool"
  sv_cluster :: bool
  sv_trip :: "'r \<Rightarrow> trip \<times> 'r"
  sv_GET :: "instant \<Rightarrow> string \<Rightarrow> 'r \<Rightarrow> string option"
  sv_SET :: "instant \<Rightarrow> string \<Rightarrow> string \<Rightarrow> duration \<Rightarrow> 'r \<Rightarrow> 'r"
  sv_SETNX :: "instant \<Rightarrow> string \<Rightarrow> string \<Rightarrow> duration \<Rightarrow> 'r \<Rightarrow> bool \<times> 'r"
  sv_DEL :: "instant \<Rightarrow> string \<Rightarrow> 'r \<Rightarrow> int \<times> 'r"
  sv_INCR :: "instant \<Rightarrow> string \<Rightarrow> 'r \<Rightarrow> (pending_error + int) \<times> 'r"
  sv_DECR :: "instant \<Rightarrow> string \<Rightarrow> 'r \<Rightarrow> (pending_error + int) \<times> 'r"
  sv_EXPIRE :: "instant \<Rightarrow> string \<Rightarrow> int \<Rightarrow> 'r \<Rightarrow> 'r"
  sv_TTL :: "instant \<Rightarrow> string \<Rightarrow> 'r \<Rightarrow> int"
  sv_SCAN :: "instant \<Rightarrow> string \<Rightarrow> 'r \<Rightarrow> string list"
  sv_SCRIPTLOAD :: "'r \<Rightarrow> string \<times> 'r"
  sv_CANRUN :: "string \<Rightarrow> string list \<Rightarrow> 'r \<Rightarrow> script_error option"

section \<open>What Redis documents\<close>

type_synonym kview = "string \<Rightarrow> (string \<times> instant option) option"

definition kv_live :: "instant \<Rightarrow> (string \<times> instant option) option \<Rightarrow> (string \<times> instant option) option" where
  "kv_live now x = (case x of Some (v, Some e) \<Rightarrow> if now < e then x else None | _ \<Rightarrow> x)"

definition kv_entry :: "instant \<Rightarrow> string \<Rightarrow> duration \<Rightarrow> string \<times> instant option" where
  "kv_entry now v d = (v, if 0 < d then Some (now + d) else None)"

definition value_laws :: "'r Server \<Rightarrow> ('r \<Rightarrow> kview) \<Rightarrow> bool" where
  "value_laws S view \<longleftrightarrow> (\<forall>now k v d r.
     sv_GET S now k r = map_option fst (kv_live now (view r k))
   \<and> view (sv_SET S now k v d r) = (view r)(k \<mapsto> kv_entry now v d)
   \<and> fst (sv_SETNX S now k v d r) = (kv_live now (view r k) = None)
   \<and> view (snd (sv_SETNX S now k v d r)) = (if kv_live now (view r k) = None then (view r)(k \<mapsto> kv_entry now v d) else view r)
   \<and> fst (sv_DEL S now k r) = (if kv_live now (view r k) = None then 0 else 1)
   \<and> view (snd (sv_DEL S now k r)) = (view r)(k := None))"

text \<open>A counter holds the decimal text of a number; it keeps its lifetime when it is changed. TTL answers the
  remaining seconds, rounded, and a negative number for a key without a value or without an end.\<close>

definition counter_value :: "(string \<times> instant option) option \<Rightarrow> int \<Rightarrow> instant option \<Rightarrow> bool" where
  "counter_value x n e \<longleftrightarrow> (case x of None \<Rightarrow> n = 0 \<and> e = None | Some p \<Rightarrow> p = (FormatInt n, e))"

definition number_laws :: "'r Server \<Rightarrow> ('r \<Rightarrow> kview) \<Rightarrow> bool" where
  "number_laws S view \<longleftrightarrow> (\<forall>now k n e secs r.
     (counter_value (kv_live now (view r k)) n e \<and> in64 n \<and> in64 (n + 1) \<longrightarrow>
        fst (sv_INCR S now k r) = Inr (n + 1) \<and> view (snd (sv_INCR S now k r)) = (view r)(k \<mapsto> (FormatInt (n + 1), e)))
   \<and> (counter_value (kv_live now (view r k)) n e \<and> in64 n \<and> in64 (n - 1) \<longrightarrow>
        fst (sv_DECR S now k r) = Inr (n - 1) \<and> view (snd (sv_DECR S now k r)) = (view r)(k \<mapsto> (FormatInt (n - 1), e)))
   \<and> (\<forall>err. fst (sv_INCR S now k r) = Inl err \<longrightarrow> view (snd (sv_INCR S now k r)) = view r)
   \<and> (\<forall>k'. k' \<noteq> k \<longrightarrow> view (snd (sv_INCR S now k r)) k' = view r k' \<and> view (snd (sv_DECR S now k r)) k' = view r k')
   \<and> view (sv_EXPIRE S now k secs r) = (view r)(k := (case kv_live now (view r k) of None \<Rightarrow> None
        | Some (v, e) \<Rightarrow> if secs \<le> 0 then None else Some (v, Some (now + secs * Second))))
   \<and> sv_TTL S now k r = (case kv_live now (view r k) of None \<Rightarrow> - 2 | Some (v, None) \<Rightarrow> - 1
        | Some (v, Some e) \<Rightarrow> ((e - now) div Millisecond + 500) div 1000))"

text \<open>A scan answers every live key with the prefix, possibly more than once.\<close>

definition key_laws :: "'r Server \<Rightarrow> ('r \<Rightarrow> kview) \<Rightarrow> bool" where
  "key_laws S view \<longleftrightarrow> (\<forall>now p r.
     set (sv_SCAN S now p r) = {k. HasPrefix k p \<and> kv_live now (view r k) \<noteq> None}
   \<and> view (snd (sv_SCRIPTLOAD S r)) = view r
   \<and> view (snd (sv_trip S r)) = view r)"

definition server_laws :: "'r Server \<Rightarrow> ('r \<Rightarrow> kview) \<Rightarrow> bool" where
  "server_laws S view \<longleftrightarrow> value_laws S view \<and> number_laws S view \<and> key_laws S view"

text \<open>A server that is always reached and runs the script under any hash.\<close>

definition server_up :: "'r Server \<Rightarrow> bool" where
  "server_up S \<longleftrightarrow> (\<forall>r. sv_up S r \<and> fst (sv_trip S r) = Reached)"

definition scripts_run :: "'r Server \<Rightarrow> bool" where
  "scripts_run S \<longleftrightarrow> (\<forall>sha ks r. sv_CANRUN S sha ks r = None)"

section \<open>The storage client\<close>

definition RedisDown :: pending_error where
  "RedisDown = ErrMessage ''storage: Redis is either down or not configured''"

definition KeyNotFound :: pending_error where "KeyNotFound = ErrMessage ''key not found''"

text \<open>Every wrapper checks the connection and sends one command.\<close>

definition send :: "'r Server \<Rightarrow> ('r \<Rightarrow> 'a \<times> 'r) \<Rightarrow> 'r \<Rightarrow> (pending_error + 'a) \<times> 'r" where
  "send S f r =
    (if \<not> sv_up S r then (Inl RedisDown, r)
     else case sv_trip S r of
            (Reached, r1) \<Rightarrow> (case f r1 of (x, r2) \<Rightarrow> (Inr x, r2))
          | (Failed err, r1) \<Rightarrow> (Inl err, r1)
          | (Lost err, r1) \<Rightarrow> (Inl err, snd (f r1)))"

text \<open>No value stands for the client's error \<open>redis.Nil\<close>.\<close>

definition GetKeyWithCommandTimeout :: "'r Server \<Rightarrow> string \<Rightarrow> instant \<Rightarrow> string \<Rightarrow> 'r \<Rightarrow> (pending_error + string option) \<times> 'r" where
  "GetKeyWithCommandTimeout S pfx now keyName = send S (\<lambda>r. (sv_GET S now (fixKey pfx keyName) r, r))"

definition SetKeyWithCommandTimeout ::
  "'r Server \<Rightarrow> string \<Rightarrow> instant \<Rightarrow> string \<Rightarrow> string \<Rightarrow> duration \<Rightarrow> 'r \<Rightarrow> (pending_error + unit) \<times> 'r" where
  "SetKeyWithCommandTimeout S pfx now keyName session ttl = send S (\<lambda>r. ((), sv_SET S now (fixKey pfx keyName) session ttl r))"

definition SetNXWithCommandTimeout ::
  "'r Server \<Rightarrow> string \<Rightarrow> instant \<Rightarrow> string \<Rightarrow> string \<Rightarrow> duration \<Rightarrow> 'r \<Rightarrow> (pending_error + bool) \<times> 'r" where
  "SetNXWithCommandTimeout S pfx now keyName v expiration = send S (sv_SETNX S now (fixKey pfx keyName) v expiration)"

definition DeleteKeyWithCommandTimeout ::
  "'r Server \<Rightarrow> string \<Rightarrow> instant \<Rightarrow> string \<Rightarrow> 'r \<Rightarrow> (pending_error + bool) \<times> 'r" where
  "DeleteKeyWithCommandTimeout S pfx now keyName =
    send S (\<lambda>r. case sv_DEL S now (fixKey pfx keyName) r of (n, r1) \<Rightarrow> (0 < n, r1))"

text \<open>A failing TTL command is answered as a missing key; a negative answer is a fraction of a second.\<close>

definition GetExp :: "'r Server \<Rightarrow> string \<Rightarrow> instant \<Rightarrow> string \<Rightarrow> 'r \<Rightarrow> (pending_error + int) \<times> 'r" where
  "GetExp S pfx now keyName r =
    (if \<not> sv_up S r then (Inl RedisDown, r)
     else case send S (\<lambda>r. (sv_TTL S now (fixKey pfx keyName) r, r)) r of
            (Inl err, r1) \<Rightarrow> (Inl KeyNotFound, r1)
          | (Inr n, r1) \<Rightarrow> (Inr (if n < 0 then 0 else n), r1))"

text \<open>A failed increment counts as 0; the lifetime is set by a command of its own.\<close>

definition IncrememntWithExpire :: "'r Server \<Rightarrow> string \<Rightarrow> instant \<Rightarrow> string \<Rightarrow> int \<Rightarrow> 'r \<Rightarrow> int \<times> 'r" where
  "IncrememntWithExpire S pfx now keyName expire r =
    (if \<not> sv_up S r then (0, r)
     else case send S (sv_INCR S now (fixKey pfx keyName)) r of
            (res, r1) \<Rightarrow>
              (let val = (case res of Inr (Inr n) \<Rightarrow> n | _ \<Rightarrow> 0)
               in if val = 1 \<and> 0 < expire
                  then (val, snd (send S (\<lambda>r. ((), sv_EXPIRE S now (fixKey pfx keyName) expire r)) r1))
                  else (val, r1)))"

text \<open>Replacing the first occurrence of the key prefix in a key.\<close>

fun replace_first :: "string \<Rightarrow> string \<Rightarrow> string" where
  "replace_first old [] = []"
| "replace_first old (c # cs) =
    (if HasPrefix (c # cs) old then drop (length old) (c # cs) else c # replace_first old cs)"

definition cleanKey :: "string \<Rightarrow> string \<Rightarrow> string" where
  "cleanKey pfx keyName = replace_first pfx keyName"

text \<open>On a cluster every way out of the collecting loop answers no keys. SCAN may name a key more than once, and nothing here
  removes the repetitions.\<close>

definition GetKeys :: "'r Server \<Rightarrow> string \<Rightarrow> instant \<Rightarrow> string \<Rightarrow> 'r \<Rightarrow> string list \<times> 'r" where
  "GetKeys S pfx now keyFilter r =
    (if \<not> sv_up S r then ([], r)
     else if sv_cluster S then ([], snd (sv_trip S r))
     else case send S (\<lambda>r. (sv_SCAN S now (pfx @ keyFilter) r, r)) r of
            (Inl err, r1) \<Rightarrow> ([], r1)
          | (Inr ks, r1) \<Rightarrow> (map (cleanKey pfx) ks, r1))"

text \<open>Running the cached script, which is the function \<open>script\<close> of the fixed keys.\<close>

definition EvalSha ::
  "'r Server \<Rightarrow> string \<Rightarrow> string \<Rightarrow> string list \<Rightarrow> (string list \<Rightarrow> 'r \<Rightarrow> 'a \<times> 'r) \<Rightarrow> 'r \<Rightarrow> (script_error + 'a) \<times> 'r" where
  "EvalSha S pfx sha ks script r =
    (if \<not> sv_up S r then (Inl (ScriptError RedisDown), r)
     else case sv_trip S r of
            (Failed err, r1) \<Rightarrow> (Inl (ScriptError err), r1)
          | (Lost err, r1) \<Rightarrow>
              (case sv_CANRUN S sha (map (fixKey pfx) ks) r1 of
                 Some e \<Rightarrow> (Inl (ScriptError err), r1)
               | None \<Rightarrow> (Inl (ScriptError err), snd (script (map (fixKey pfx) ks) r1)))
          | (Reached, r1) \<Rightarrow>
              (case sv_CANRUN S sha (map (fixKey pfx) ks) r1 of
                 Some e \<Rightarrow> (Inl e, r1)
               | None \<Rightarrow> (case script (map (fixKey pfx) ks) r1 of (x, r2) \<Rightarrow> (Inr x, r2))))"

definition ScriptLoad :: "'r Server \<Rightarrow> 'r \<Rightarrow> (pending_error + string) \<times> 'r" where
  "ScriptLoad S = send S (sv_SCRIPTLOAD S)"

end
