(* ===== verification/PendingLimiter.thy ===== *)
theory PendingLimiter
  imports PendingTypes
begin

text \<open>
  The token buckets in front of an acquisition (pending_state_machine.go): one bucket per user in
  a pool that drops idle entries, one for the process, one for all. A bucket is the
  rate limiter of golang.org/x/time/rate, which is not part of this repository: its three
  operations are an argument.
\<close>

record 'l RateLib =
  rl_NewLimiter :: "rat \<Rightarrow> int \<Rightarrow> 'l"
  rl_Allow :: "instant \<Rightarrow> 'l \<Rightarrow> bool \<times> 'l"
  rl_Wait :: "instant \<Rightarrow> duration \<Rightarrow> 'l \<Rightarrow> bool \<times> 'l"

definition scopedLimiterIdleTTL :: duration where "scopedLimiterIdleTTL = 10 * Minute"
definition scopedLimiterMaxEntries :: nat where "scopedLimiterMaxEntries = 2048"
definition tokenBucketWaitTimeout :: duration where "tokenBucketWaitTimeout = 200 * Millisecond"
definition defaultTokenBucketBurstMultiplier :: int where "defaultTokenBucketBurstMultiplier = 2"

record 'l scopedLimiterEntry =
  le_limiter :: 'l
  le_lastUsed :: instant

record 'l scopedLimiterPool =
  lp_limiters :: "(string \<times> 'l scopedLimiterEntry) list"
  lp_rate :: rat
  lp_burst :: int

definition resolveTokenBucketBurst :: "rat \<Rightarrow> int \<Rightarrow> int" where
  "resolveTokenBucketBurst rateValue requested =
    (if rateValue \<le> 0 then 0
     else let resolved = (if requested \<le> 0
                then (let base = f64_trunc rateValue; base = (if base \<le> 0 then 1 else base)
                      in wrap64 (base * defaultTokenBucketBurstMultiplier))
                else requested)
          in if resolved < 1 then 1 else resolved)"

definition newRateLimiter :: "'l RateLib \<Rightarrow> rat \<Rightarrow> int \<Rightarrow> 'l option" where
  "newRateLimiter L rateValue burst =
    (let resolvedBurst = resolveTokenBucketBurst rateValue burst
     in if resolvedBurst \<le> 0 then None else Some (rl_NewLimiter L rateValue resolvedBurst))"

definition newScopedLimiterPool :: "rat \<Rightarrow> int \<Rightarrow> 'l scopedLimiterPool option" where
  "newScopedLimiterPool rateValue burst =
    (let resolvedBurst = resolveTokenBucketBurst rateValue burst
     in if resolvedBurst \<le> 0 then None
        else Some \<lparr>lp_limiters = [], lp_rate = rateValue, lp_burst = resolvedBurst\<rparr>)"

text \<open>Compaction drops idle entries until the pool fits, then any entries; Go visits a map in any order, the
  model in the order of the list.\<close>

fun drop_idle :: "instant \<Rightarrow> nat \<Rightarrow> (string \<times> 'l scopedLimiterEntry) list \<Rightarrow> (string \<times> 'l scopedLimiterEntry) list" where
  "drop_idle cutoff n [] = []"
| "drop_idle cutoff n (kv # kvs) =
    (let idle = time_Before (le_lastUsed (snd kv)) cutoff;
         n' = (if idle then n - 1 else n);
         kept = (if n' \<le> scopedLimiterMaxEntries then kvs else drop_idle cutoff n' kvs)
     in if idle then kept else kv # kept)"

definition compactLocked :: "instant \<Rightarrow> (string \<times> 'l scopedLimiterEntry) list \<Rightarrow> (string \<times> 'l scopedLimiterEntry) list" where
  "compactLocked now kvs =
    (let kept = drop_idle (time_Add now (- scopedLimiterIdleTTL)) (length kvs) kvs
     in if length kept \<le> scopedLimiterMaxEntries then kept
        else drop (length kept - scopedLimiterMaxEntries) kept)"

text \<open>A new bucket is handed out even when the compaction has just dropped its entry.\<close>

definition getLimiter ::
  "'l RateLib \<Rightarrow> instant \<Rightarrow> string \<Rightarrow> 'l scopedLimiterPool \<Rightarrow> 'l option \<times> 'l scopedLimiterPool" where
  "getLimiter L now key p =
    (if key = [] then (None, p)
     else case map_of (lp_limiters p) key of
            Some entry \<Rightarrow> (Some (le_limiter entry),
              p\<lparr>lp_limiters := AList.update key (entry\<lparr>le_lastUsed := now\<rparr>) (lp_limiters p)\<rparr>)
          | None \<Rightarrow>
              (let limiter = rl_NewLimiter L (lp_rate p) (lp_burst p);
                   kvs = AList.update key \<lparr>le_limiter = limiter, le_lastUsed = now\<rparr> (lp_limiters p)
               in (Some limiter, p\<lparr>lp_limiters :=
                     if scopedLimiterMaxEntries < length kvs then compactLocked now kvs else kvs\<rparr>)))"

section \<open>The guard\<close>

text \<open>The buckets of one coordinator. A bucket of the pool is shared by reference, so its new content goes back
  to its entry, if the pool still has it.\<close>

record 'l token_buckets =
  tb_user :: "'l scopedLimiterPool option"
  tb_instance :: "'l option"
  tb_global :: "'l option"

definition put_limiter :: "string \<Rightarrow> 'l \<Rightarrow> 'l scopedLimiterPool \<Rightarrow> 'l scopedLimiterPool" where
  "put_limiter key l p =
    (case map_of (lp_limiters p) key of
       None \<Rightarrow> p
     | Some entry \<Rightarrow> p\<lparr>lp_limiters := AList.update key (entry\<lparr>le_limiter := l\<rparr>) (lp_limiters p)\<rparr>)"

text \<open>One bucket: take a token, or wait for one at most the timeout (the request carries no earlier deadline).\<close>

definition waitOnLimiter :: "'l RateLib \<Rightarrow> instant \<Rightarrow> 'l option \<Rightarrow> bool \<times> 'l option" where
  "waitOnLimiter L now limiter =
    (case limiter of
       None \<Rightarrow> (True, None)
     | Some l \<Rightarrow>
         (case rl_Allow L now l of
            (True, l1) \<Rightarrow> (True, Some l1)
          | (False, l1) \<Rightarrow> (case rl_Wait L now tokenBucketWaitTimeout l1 of (ok, l2) \<Rightarrow> (ok, Some l2))))"

definition wait_user :: "'l RateLib \<Rightarrow> instant \<Rightarrow> string \<Rightarrow> 'l scopedLimiterPool option \<Rightarrow> bool \<times> 'l scopedLimiterPool option" where
  "wait_user L now username pool =
    (case pool of
       None \<Rightarrow> (True, None)
     | Some p \<Rightarrow>
         if username = [] then (True, Some p)
         else (case getLimiter L now username p of
                 (limiter, p1) \<Rightarrow>
                   (case waitOnLimiter L now limiter of
                      (ok, Some l) \<Rightarrow> (ok, Some (put_limiter username l p1))
                    | (ok, None) \<Rightarrow> (ok, Some p1))))"

definition guardTokenBucket :: "'l RateLib \<Rightarrow> instant \<Rightarrow> string \<Rightarrow> 'l token_buckets \<Rightarrow> bool \<times> 'l token_buckets" where
  "guardTokenBucket L now username b =
    (case wait_user L now username (tb_user b) of
       (False, u) \<Rightarrow> (False, b\<lparr>tb_user := u\<rparr>)
     | (True, u) \<Rightarrow>
         (case waitOnLimiter L now (tb_instance b) of
            (False, i) \<Rightarrow> (False, b\<lparr>tb_user := u, tb_instance := i\<rparr>)
          | (True, i) \<Rightarrow>
              (case waitOnLimiter L now (tb_global b) of
                 (ok, g) \<Rightarrow> (ok, b\<lparr>tb_user := u, tb_instance := i, tb_global := g\<rparr>))))"

text \<open>The pool never keeps more than its limit, and its keys stay distinct.\<close>

definition pool_ok :: "'l scopedLimiterPool \<Rightarrow> bool" where
  "pool_ok p \<longleftrightarrow> length (lp_limiters p) \<le> scopedLimiterMaxEntries \<and> keys_distinct (lp_limiters p)"

lemma drop_idle_subseq: "subseq (drop_idle c n kvs) kvs"
proof (induction kvs arbitrary: n)
  case Nil
  then show ?case by simp
next
  case (Cons kv kvs)
  have "subseq (if b then kvs else drop_idle c m kvs) kvs" for b m using Cons by simp
  then show ?case by (simp add: Let_def subseq_Cons2 list_emb_Cons)
qed

lemma drop_idle_distinct:
  assumes "keys_distinct kvs"
  shows "keys_distinct (drop_idle c n kvs)"
proof -
  obtain N where "drop_idle c n kvs = nths kvs N" using drop_idle_subseq [of c n kvs] by (auto simp: subseq_conv_nths)
  then show ?thesis using assms by (simp add: nths_map [symmetric] distinct_nthsI)
qed

lemma compact_ok:
  "length (compactLocked now kvs) \<le> scopedLimiterMaxEntries"
  "keys_distinct kvs \<Longrightarrow> keys_distinct (compactLocked now kvs)"
  by (simp_all add: compactLocked_def Let_def drop_map [symmetric] drop_idle_distinct)

lemma getLimiter_ok: "pool_ok p \<Longrightarrow> pool_ok (snd (getLimiter L now key p))"
proof (cases "map_of (lp_limiters p) key")
  case None
  assume p: "pool_ok p"
  with None show ?thesis
    by (auto simp: getLimiter_def pool_ok_def Let_def compact_ok distinct_update)
next
  case (Some e)
  assume p: "pool_ok p"
  have k: "key \<in> fst ` set (lp_limiters p)" using Some by (metis domI dom_map_of_conv_image_fst)
  have "map fst (AList.update key x (lp_limiters p)) = map fst (lp_limiters p)" for x
    using k by (simp add: update_keys)
  then have "length (AList.update key x (lp_limiters p)) = length (lp_limiters p)" for x
    by (metis length_map)
  with Some p show ?thesis by (simp add: getLimiter_def pool_ok_def distinct_update)
qed

end
