(* ===== verification/PendingConfig.thy ===== *)
theory PendingConfig
  imports PendingLimiter PendingMemory GoFloat CacheKeys
begin

text \<open>
  Construction of the pending coordinator (NewPendingCoordinator in pending_state_machine.go): the
  defaults of its settings, the overrides from the environment, the derived limits and lifetimes,
  and the state one process keeps. The environment is a function of the variable's name; the
  empty text stands for an unset variable.
\<close>

section \<open>Settings\<close>

definition pendingCommandTimeoutDefault :: duration where "pendingCommandTimeoutDefault = 600 * Millisecond"
definition defaultUserBackpressureSoft :: int where "defaultUserBackpressureSoft = 4"
definition defaultUserBackpressureHard :: int where "defaultUserBackpressureHard = 8"
definition defaultInstanceBackpressureHard :: int where "defaultInstanceBackpressureHard = 240"
definition defaultFallbackDelay :: duration where "defaultFallbackDelay = 80 * Millisecond"

definition minDuration :: "duration \<Rightarrow> duration \<Rightarrow> duration" where
  "minDuration a b = (if a < b then a else b)"

definition config_defaults :: "PendingCoordinatorConfig \<Rightarrow> PendingCoordinatorConfig" where
  "config_defaults cfg =
    (let soft = positive_or 1000 (BackpressureSoftLimit cfg);
         hard = positive_or (wrap64 (soft + 500)) (BackpressureHardLimit cfg);
         hard = (if hard < soft then soft else hard)
     in cfg\<lparr>LeaseTTL := positive_or (2 * Minute) (LeaseTTL cfg),
          ObserveTimeout := positive_or (1200 * Millisecond) (ObserveTimeout cfg),
          CommandTimeout := positive_or pendingCommandTimeoutDefault (CommandTimeout cfg),
          BackpressureWindow := positive_or (5 * Second) (BackpressureWindow cfg),
          BackpressureSoftLimit := soft, BackpressureHardLimit := hard,
          MetricsKey := (if MetricsKey cfg = [] then ''user:pending:active'' else MetricsKey cfg),
          ReleaseRetention := positive_or (3 * Second) (ReleaseRetention cfg),
          ExpiredRetention := positive_or (30 * Second) (ExpiredRetention cfg),
          ExpiredGracePeriod := positive_or (2 * Second) (ExpiredGracePeriod cfg),
          ElevatedDelayBase := positive_or (20 * Millisecond) (ElevatedDelayBase cfg),
          ElevatedDelayMax := positive_or (45 * Millisecond) (ElevatedDelayMax cfg),
          SevereDelayBase := positive_or (80 * Millisecond) (SevereDelayBase cfg),
          SevereDelayMax := positive_or (150 * Millisecond) (SevereDelayMax cfg),
          BackpressureAntiShakeInterval := (if BackpressureAntiShakeInterval cfg < 0 then 0 else BackpressureAntiShakeInterval cfg)\<rparr>)"

text \<open>One override: the trimmed text is read, and kept if it is acceptable.\<close>

definition env_duration :: "(string \<Rightarrow> string) \<Rightarrow> string \<Rightarrow> (duration \<Rightarrow> bool) \<Rightarrow> duration \<Rightarrow> duration" where
  "env_duration getenv var ok old =
    (let raw = TrimSpace (getenv var)
     in if raw = [] then old else case ParseDuration raw of Some d \<Rightarrow> if ok d then d else old | None \<Rightarrow> old)"

definition env_int :: "(string \<Rightarrow> string) \<Rightarrow> string \<Rightarrow> int \<Rightarrow> int" where
  "env_int getenv var old =
    (let raw = TrimSpace (getenv var)
     in if raw = [] then old else case ParseInt raw of Some n \<Rightarrow> if 0 < n then n else old | None \<Rightarrow> old)"

definition applyCoordinatorEnvOverrides :: "(string \<Rightarrow> string) \<Rightarrow> PendingCoordinatorConfig \<Rightarrow> PendingCoordinatorConfig" where
  "applyCoordinatorEnvOverrides getenv cfg =
    (let pos = (\<lambda>d. 0 < d); nonneg = (\<lambda>d. 0 \<le> d);
         soft = env_int getenv ''IAM_PENDING_SOFT_LIMIT'' (BackpressureSoftLimit cfg);
         hard = env_int getenv ''IAM_PENDING_HARD_LIMIT'' (BackpressureHardLimit cfg)
     in cfg\<lparr>LeaseTTL := env_duration getenv ''IAM_PENDING_LEASE_TTL'' pos (LeaseTTL cfg),
          CommandTimeout := env_duration getenv ''IAM_PENDING_COMMAND_TIMEOUT'' pos (CommandTimeout cfg),
          ObserveTimeout := env_duration getenv ''IAM_PENDING_OBSERVE_TIMEOUT'' pos (ObserveTimeout cfg),
          BackpressureWindow := env_duration getenv ''IAM_PENDING_BACKPRESSURE_WINDOW'' pos (BackpressureWindow cfg),
          BackpressureSoftLimit := soft,
          ReleaseRetention := env_duration getenv ''IAM_PENDING_RELEASE_TTL'' pos (ReleaseRetention cfg),
          ExpiredRetention := env_duration getenv ''IAM_PENDING_EXPIRED_TTL'' pos (ExpiredRetention cfg),
          ExpiredGracePeriod := env_duration getenv ''IAM_PENDING_EXPIRED_GRACE'' nonneg (ExpiredGracePeriod cfg),
          HeartbeatTimeout := env_duration getenv ''IAM_PENDING_HEARTBEAT_TIMEOUT'' nonneg (HeartbeatTimeout cfg),
          ElevatedDelayBase := env_duration getenv ''IAM_PENDING_DELAY_ELEVATED'' pos (ElevatedDelayBase cfg),
          ElevatedDelayMax := env_duration getenv ''IAM_PENDING_DELAY_ELEVATED_MAX'' pos (ElevatedDelayMax cfg),
          SevereDelayBase := env_duration getenv ''IAM_PENDING_DELAY_SEVERE'' pos (SevereDelayBase cfg),
          SevereDelayMax := env_duration getenv ''IAM_PENDING_DELAY_SEVERE_MAX'' pos (SevereDelayMax cfg),
          CalibrationInterval := env_duration getenv ''IAM_PENDING_CALIBRATION_INTERVAL'' pos (CalibrationInterval cfg),
          CalibrationTimeout := env_duration getenv ''IAM_PENDING_CALIBRATION_TIMEOUT'' pos (CalibrationTimeout cfg),
          BackpressureHardLimit := (if hard < soft then soft else hard)\<rparr>)"

definition delay_pair :: "duration \<Rightarrow> duration \<Rightarrow> duration \<Rightarrow> duration \<times> duration" where
  "delay_pair dflt base0 max0 =
    (let base = positive_or dflt base0; mx = positive_or base max0
     in (base, if mx < base then base else mx))"

definition config_delays :: "PendingCoordinatorConfig \<Rightarrow> PendingCoordinatorConfig" where
  "config_delays cfg0 =
    (let cfg = cfg0\<lparr>MetricsKey := ensurePendingMetricsKey (MetricsKey cfg0),
           CommandTimeout := positive_or pendingCommandTimeoutDefault (CommandTimeout cfg0)\<rparr>;
         (eb, em) = delay_pair (20 * Millisecond) (ElevatedDelayBase cfg) (ElevatedDelayMax cfg);
         (sb, sm) = delay_pair (80 * Millisecond) (SevereDelayBase cfg) (SevereDelayMax cfg)
     in cfg\<lparr>ElevatedDelayBase := eb, ElevatedDelayMax := em, SevereDelayBase := sb, SevereDelayMax := sm\<rparr>)"

definition calibration_timeout :: "duration \<Rightarrow> duration" where
  "calibration_timeout interval =
    (let timeout = minDuration (5 * Second) (go_div interval 2) in if timeout \<le> 0 then Second else timeout)"

text \<open>The limits per user and per process; the soft limit of the process has no default.\<close>

definition config_limits :: "PendingCoordinatorConfig \<Rightarrow> PendingCoordinatorConfig" where
  "config_limits cfg =
    (let component = TrimSpace (Component cfg);
         userSoft = positive_or defaultUserBackpressureSoft (UserBackpressureSoftLimit cfg);
         userHard = positive_or defaultUserBackpressureHard (UserBackpressureHardLimit cfg);
         instHard = positive_or defaultInstanceBackpressureHard (InstanceBackpressureHardLimit cfg);
         interval = positive_or (30 * Second) (CalibrationInterval cfg)
     in cfg\<lparr>Component := (if component = [] then ''pending_coordinator'' else component),
          UserMetricsPrefix := normalizeKeyPrefix
            (if TrimSpace (UserMetricsPrefix cfg) = [] then PendingUserDepthPrefix else UserMetricsPrefix cfg),
          UserBackpressureWindow := positive_or (positive_or (5 * Second) (BackpressureWindow cfg)) (UserBackpressureWindow cfg),
          UserBackpressureSoftLimit := userSoft,
          UserBackpressureHardLimit := (if userHard < userSoft then userSoft else userHard),
          InstanceBackpressureHardLimit := (if instHard < InstanceBackpressureSoftLimit cfg then InstanceBackpressureSoftLimit cfg else instHard),
          FallbackDelay := positive_or defaultFallbackDelay (FallbackDelay cfg),
          CalibrationInterval := interval,
          CalibrationTimeout := (if CalibrationTimeout cfg \<le> 0 \<or> interval < CalibrationTimeout cfg
             then calibration_timeout interval else CalibrationTimeout cfg)\<rparr>)"

text \<open>A profile that does not validate panics.\<close>

definition coordinator_config :: "(string \<Rightarrow> string) \<Rightarrow> PendingCoordinatorConfig \<Rightarrow> bucket_error + PendingCoordinatorConfig" where
  "coordinator_config getenv cfg0 =
    (let cfg = config_delays (applyCoordinatorEnvOverrides getenv (config_defaults cfg0))
     in case cfg_defaults cfg (DelayProfileOf cfg) of
          Inl e \<Rightarrow> Inl e
        | Inr p \<Rightarrow> Inr (config_limits (cfg\<lparr>DelayProfileOf := profile_clone p\<rparr>)))"

definition sample_cache_ttl :: "duration \<Rightarrow> duration" where
  "sample_cache_ttl window =
    (let cacheTTL = positive_or (50 * Millisecond) (go_div window 50)
     in if 150 * Millisecond < cacheTTL then 150 * Millisecond else cacheTTL)"

section \<open>What a process keeps\<close>

record queueSampleCache =
  qs_depth :: int
  qs_level :: BackpressureLevel
  qs_expiresAt :: instant

text \<open>\<open>co_slept\<close> lists the delays a caller was held for, the latest last; \<open>co_reconcile\<close> is the counter whose
  decrement is left to a background task, if one is under way.\<close>

record 'l PendingCoordinator =
  co_cfg :: PendingCoordinatorConfig
  co_component :: string
  co_mode :: string
  co_buckets :: "'l token_buckets"
  co_instanceActive :: int
  co_fallbackDelay :: duration
  co_calibrationIntervalNS :: duration
  co_calibrationTimeoutNS :: duration
  co_loopStarted :: bool
  co_stopped :: bool
  co_profile :: BackpressureDelayProfile
  co_fallback :: memoryPendingCoordinator
  co_scriptSHA :: string
  co_globalSample :: "queueSampleCache option"
  co_userSamples :: "(string \<times> queueSampleCache) list"
  co_sampleCacheTTL :: duration
  co_decision :: decision_state
  co_reconcile :: "string option"
  co_slept :: "duration list"

definition NewPendingCoordinator ::
  "'l RateLib \<Rightarrow> (string \<Rightarrow> string) \<Rightarrow> bool \<Rightarrow> PendingCoordinatorConfig \<Rightarrow> bucket_error + 'l PendingCoordinator" where
  "NewPendingCoordinator L getenv hasRedis cfg0 =
    (case coordinator_config getenv cfg0 of
       Inl e \<Rightarrow> Inl e
     | Inr cfg \<Rightarrow>
         (case newMemoryPendingCoordinator cfg (Component cfg) of
            Inl e \<Rightarrow> Inl e
          | Inr fallback \<Rightarrow> Inr \<lparr>co_cfg = cfg, co_component = Component cfg,
              co_mode = (if hasRedis then ''redis'' else ''memory''),
              co_buckets = \<lparr>tb_user = newScopedLimiterPool (UserTokenBucketRate cfg) (UserTokenBucketBurst cfg),
                 tb_instance = newRateLimiter L (InstanceTokenBucketRate cfg) (InstanceTokenBucketBurst cfg),
                 tb_global = newRateLimiter L (TokenBucketRate cfg) (TokenBucketBurst cfg)\<rparr>,
              co_instanceActive = 0, co_fallbackDelay = FallbackDelay cfg,
              co_calibrationIntervalNS = CalibrationInterval cfg, co_calibrationTimeoutNS = CalibrationTimeout cfg,
              co_loopStarted = hasRedis \<and> 0 < CalibrationInterval cfg, co_stopped = False,
              co_profile = DelayProfileOf cfg, co_fallback = fallback, co_scriptSHA = [], co_globalSample = None,
              co_userSamples = [], co_sampleCacheTTL = sample_cache_ttl (BackpressureWindow cfg),
              co_decision = init_decision, co_reconcile = None, co_slept = []\<rparr>))"

definition co_Component :: "'l PendingCoordinator option \<Rightarrow> string" where
  "co_Component c =
    (case c of None \<Rightarrow> ''pending_coordinator''
     | Some c \<Rightarrow> (let name = TrimSpace (co_component c) in if name = [] then ''pending_coordinator'' else name))"

definition co_ExpiredGracePeriod :: "'l PendingCoordinator option \<Rightarrow> duration" where
  "co_ExpiredGracePeriod c = (case c of None \<Rightarrow> 0 | Some c \<Rightarrow> ExpiredGracePeriod (co_cfg c))"

definition Backend :: "'l PendingCoordinator option \<Rightarrow> bool \<Rightarrow> string" where
  "Backend c hasRedis =
    (case c of None \<Rightarrow> ''none''
     | Some c \<Rightarrow> (let mode = TrimSpace (co_mode c) in if mode \<noteq> [] then mode else if hasRedis then ''redis'' else ''memory''))"

section \<open>Running time settings\<close>

definition currentCalibrationTimeout :: "'l PendingCoordinator \<Rightarrow> duration \<Rightarrow> duration" where
  "currentCalibrationTimeout c interval =
    (let timeout = co_calibrationTimeoutNS c
     in if timeout \<le> 0 \<or> 0 < interval \<and> interval < timeout then calibration_timeout interval else timeout)"

definition UpdateCalibration :: "duration \<Rightarrow> duration \<Rightarrow> 'l PendingCoordinator \<Rightarrow> 'l PendingCoordinator" where
  "UpdateCalibration interval0 timeout0 c =
    (let interval = positive_or (30 * Second) (if interval0 \<le> 0 then CalibrationInterval (co_cfg c) else interval0);
         timeout = (if timeout0 \<le> 0 \<or> 0 < interval \<and> interval < timeout0 then calibration_timeout interval else timeout0)
     in c\<lparr>co_cfg := (co_cfg c)\<lparr>CalibrationInterval := interval, CalibrationTimeout := timeout\<rparr>,
          co_calibrationIntervalNS := interval, co_calibrationTimeoutNS := timeout, co_loopStarted := True\<rparr>)"

definition UpdateBackpressureProfile ::
  "BackpressureDelayProfile \<Rightarrow> 'l PendingCoordinator \<Rightarrow> bucket_error + 'l PendingCoordinator" where
  "UpdateBackpressureProfile profile c =
    (case cfg_defaults (co_cfg c) profile of
       Inl e \<Rightarrow> Inl e
     | Inr p \<Rightarrow>
         (let cloned = profile_clone p
          in case mem_UpdateBackpressureProfile (co_fallback c) cloned of
               Inl e \<Rightarrow> Inl e
             | Inr m \<Rightarrow> Inr (c\<lparr>co_cfg := (co_cfg c)\<lparr>DelayProfileOf := cloned\<rparr>, co_profile := cloned, co_fallback := m\<rparr>)))"

definition co_Stop :: "'l PendingCoordinator \<Rightarrow> 'l PendingCoordinator" where
  "co_Stop c = c\<lparr>co_stopped := True\<rparr>"

end
