(* ===== verification/PendingRedis.thy ===== *)
theory PendingRedis
  imports PendingServer PendingConfig
begin

text \<open>
  The pending coordinator on Redis, first part (pending_state_machine.go): the stored snapshot of
  a lease, the counters of the active leases with their retries, and the sampling of the
  queue depths. The state is the data of the server, shared by all processes, and what
  the process keeps. An operation reads the clock once; the encoding of a snapshot is an
  argument, as are the random number of a jitter and the answer of the degrade switch.
\<close>

section \<open>The snapshot of a lease\<close>

text \<open>A time is stored as a text; the empty text is the zero time. A state is one of the texts the code writes.\<close>

record pendingLeaseSnapshot =
  sn_Status :: string
  sn_Degraded :: bool
  sn_State :: PendingStateValue
  sn_OwnerID :: string
  sn_Version :: int
  sn_LeaseExpiresAt :: instant
  sn_AcquireAt :: instant
  sn_HeartbeatAt :: instant
  sn_UpdatedAt :: instant
  sn_QueueDepth :: int
  sn_Backpressure :: BackpressureLevel
  sn_UserQueueDepth :: int
  sn_UserBackpressure :: BackpressureLevel
  sn_InstanceQueueDepth :: int
  sn_InstanceBackpressure :: BackpressureLevel
  sn_Username :: string
  sn_RequestID :: string
  sn_Operator :: string
  sn_ClientIP :: string
  sn_LegacyRequestID :: string
  sn_ReleasedAt :: instant
  sn_ReleasedBy :: string
  sn_ExpiredAt :: instant
  sn_ExpiredReason :: string

definition blank_snapshot :: pendingLeaseSnapshot where
  "blank_snapshot = \<lparr>sn_Status = [], sn_Degraded = False, sn_State = PendingStateUnknown, sn_OwnerID = [], sn_Version = 0,
     sn_LeaseExpiresAt = zero_time, sn_AcquireAt = zero_time, sn_HeartbeatAt = zero_time, sn_UpdatedAt = zero_time,
     sn_QueueDepth = 0, sn_Backpressure = BackpressureUnset, sn_UserQueueDepth = 0, sn_UserBackpressure = BackpressureUnset,
     sn_InstanceQueueDepth = 0, sn_InstanceBackpressure = BackpressureUnset, sn_Username = [], sn_RequestID = [], sn_Operator = [],
     sn_ClientIP = [], sn_LegacyRequestID = [], sn_ReleasedAt = zero_time, sn_ReleasedBy = [], sn_ExpiredAt = zero_time,
     sn_ExpiredReason = []\<rparr>"

text \<open>Encoding and decoding in Go, and the change of an encoded snapshot in the script (cjson).\<close>

record codec =
  js_marshal :: "pendingLeaseSnapshot \<Rightarrow> pending_error + string"
  js_unmarshal :: "string \<Rightarrow> pending_error + pendingLeaseSnapshot"
  js_lua :: "(pendingLeaseSnapshot \<Rightarrow> pendingLeaseSnapshot) \<Rightarrow> string \<Rightarrow> string"

section \<open>State and environment\<close>

record ('r, 'l) PendingEnv =
  pe_redis :: "('r Server \<times> string) option"
  pe_lib :: "'l RateLib"
  pe_codec :: codec
  pe_rand :: "int \<Rightarrow> int"
  pe_degraded :: bool

record ('r, 'l) pending_data =
  pd_redis :: 'r
  pd_co :: "'l PendingCoordinator"

definition on_redis :: "('r \<Rightarrow> 'a \<times> 'r) \<Rightarrow> ('r, 'l) pending_data \<Rightarrow> 'a \<times> ('r, 'l) pending_data" where
  "on_redis f s = (case f (pd_redis s) of (x, r) \<Rightarrow> (x, s\<lparr>pd_redis := r\<rparr>))"

abbreviation co_of :: "('r, 'l) pending_data \<Rightarrow> 'l PendingCoordinator" where "co_of s \<equiv> pd_co s"
abbreviation cfg_of :: "('r, 'l) pending_data \<Rightarrow> PendingCoordinatorConfig" where "cfg_of s \<equiv> co_cfg (pd_co s)"

definition upd_co :: "('l PendingCoordinator \<Rightarrow> 'l PendingCoordinator) \<Rightarrow> ('r, 'l) pending_data \<Rightarrow> ('r, 'l) pending_data" where
  "upd_co f s = s\<lparr>pd_co := f (pd_co s)\<rparr>"

definition slept :: "duration \<Rightarrow> ('r, 'l) pending_data \<Rightarrow> ('r, 'l) pending_data" where
  "slept d = upd_co (\<lambda>c. c\<lparr>co_slept := co_slept c @ [d]\<rparr>)"

section \<open>Levels and counters of the process\<close>

definition classifyBackpressure :: "'l PendingCoordinator \<Rightarrow> int \<Rightarrow> BackpressureLevel" where
  "classifyBackpressure c depth =
    classifyDepthWithProfile depth (co_profile c) (BackpressureSoftLimit (co_cfg c)) (BackpressureHardLimit (co_cfg c))"

definition classifyUserBackpressure :: "'l PendingCoordinator \<Rightarrow> int \<Rightarrow> BackpressureLevel" where
  "classifyUserBackpressure c depth =
    classifyDepthWithProfile depth (co_profile c) (UserBackpressureSoftLimit (co_cfg c)) (UserBackpressureHardLimit (co_cfg c))"

definition classifyInstanceBackpressure :: "'l PendingCoordinator \<Rightarrow> int \<Rightarrow> BackpressureLevel" where
  "classifyInstanceBackpressure c depth =
    classifyDepthWithProfile depth (co_profile c) (InstanceBackpressureSoftLimit (co_cfg c)) (InstanceBackpressureHardLimit (co_cfg c))"

definition incInstanceActive :: "('r, 'l) pending_data \<Rightarrow> int \<times> ('r, 'l) pending_data" where
  "incInstanceActive s =
    (let n = wrap64 (co_instanceActive (co_of s) + 1) in (n, upd_co (\<lambda>c. c\<lparr>co_instanceActive := n\<rparr>) s))"

definition decInstanceActive :: "('r, 'l) pending_data \<Rightarrow> int \<times> ('r, 'l) pending_data" where
  "decInstanceActive s =
    (let current = co_instanceActive (co_of s)
     in if current \<le> 0 then (0, s) else (current - 1, upd_co (\<lambda>c. c\<lparr>co_instanceActive := current - 1\<rparr>) s))"

definition aggregate ::
  "BackpressureLevel \<Rightarrow> BackpressureLevel \<Rightarrow> BackpressureLevel \<Rightarrow> instant \<Rightarrow> ('r, 'l) pending_data \<Rightarrow> BackpressureLevel \<times> ('r, 'l) pending_data" where
  "aggregate global user inst now s =
    (case decideAggregateLevel (decision_cfg.truncate (cfg_of s)) global user inst now (co_decision (co_of s)) of
       (level, d) \<Rightarrow> (level, upd_co (\<lambda>c. c\<lparr>co_decision := d\<rparr>) s))"

definition randJitterDuration :: "(int \<Rightarrow> int) \<Rightarrow> duration \<Rightarrow> duration" where
  "randJitterDuration rand base =
    (if base \<le> 0 then 0
     else let jitterHalf = go_div base 2 in if jitterHalf \<le> 0 then base else jitterHalf + rand jitterHalf)"

definition applyBackpressureDelay ::
  "('r, 'l) PendingEnv \<Rightarrow> BackpressureLevel \<Rightarrow> int \<Rightarrow> ('r, 'l) pending_data \<Rightarrow> ('r, 'l) pending_data" where
  "applyBackpressureDelay E level depth s =
    (let delay = profile_delay (co_profile (co_of s)) level depth
     in if level = BackpressureNone \<or> delay \<le> 0 then s else slept (randJitterDuration (pe_rand E) delay) s)"

definition fallbackThrottle :: "('r, 'l) pending_data \<Rightarrow> ('r, 'l) pending_data" where
  "fallbackThrottle s = slept (positive_or defaultFallbackDelay (co_fallbackDelay (co_of s))) s"

section \<open>Keys\<close>

definition pendingUserDepthKey :: "'l PendingCoordinator \<Rightarrow> string \<Rightarrow> string" where
  "pendingUserDepthKey c username =
    (let p = TrimSpace (UserMetricsPrefix (co_cfg c))
     in userScopedKey (if p = [] then PendingUserDepthPrefix else p) username)"

definition secondsCeil :: "duration \<Rightarrow> int" where
  "secondsCeil d =
    (if d \<le> 0 then 0
     else let sec = go_div d Second; sec = (if go_mod d Second \<noteq> 0 then sec + 1 else sec) in if sec \<le> 0 then 1 else sec)"

section \<open>Decrementing a counter\<close>

text \<open>A counter that is missing, no number, or at most one is removed. A text that is no decimal number
  counts as no number.\<close>

definition decrementActiveLua :: "'r Server \<Rightarrow> instant \<Rightarrow> string \<Rightarrow> 'r \<Rightarrow> (pending_error + int) \<times> 'r" where
  "decrementActiveLua S now k r =
    (case sv_GET S now k r of
       None \<Rightarrow> (Inr 0, r)
     | Some text \<Rightarrow>
         (case ParseInt text of
            None \<Rightarrow> (Inr 0, snd (sv_DEL S now k r))
          | Some current \<Rightarrow>
              if current \<le> 1 then (Inr 0, snd (sv_DEL S now k r))
              else (case sv_DECR S now k r of
                      (Inl err, r1) \<Rightarrow> (Inl err, r1)
                    | (Inr newVal, r1) \<Rightarrow> if newVal < 0 then (Inr 0, snd (sv_DEL S now k r1)) else (Inr newVal, r1))))"

definition eval_failed :: "string \<Rightarrow> pending_error \<Rightarrow> pending_error" where
  "eval_failed k err =
    (case err of ErrMessage m \<Rightarrow> ErrMessage (''redis eval failed for keys ['' @ k @ '']: '' @ m) | _ \<Rightarrow> err)"

definition safeDecrementCounter ::
  "('r, 'l) PendingEnv \<Rightarrow> instant \<Rightarrow> string \<Rightarrow> ('r, 'l) pending_data \<Rightarrow> (pending_error + int) \<times> ('r, 'l) pending_data" where
  "safeDecrementCounter E now key0 s =
    (case pe_redis E of
       None \<Rightarrow> (Inl (ErrMessage ''pending coordinator not initialized''), s)
     | Some (S, pfx) \<Rightarrow>
         (let key = TrimSpace key0
          in if key = [] then (Inl (ErrMessage ''counter key empty''), s)
             else if \<not> sv_up S (pd_redis s) then (Inl RedisDown, s)
             else (case on_redis (send S (decrementActiveLua S now (fixKey pfx key))) s of
                     (Inl err, s1) \<Rightarrow> (Inl (eval_failed (fixKey pfx key) err), s1)
                   | (Inr (Inl err), s1) \<Rightarrow> (Inl (eval_failed (fixKey pfx key) err), s1)
                   | (Inr (Inr n), s1) \<Rightarrow> (Inr n, s1))))"

text \<open>Three attempts with a growing pause after each; the request is not cancelled meanwhile. After the last one a background
  task is left to try once more, unless one is under way.\<close>

fun decrement_loop ::
  "('r, 'l) PendingEnv \<Rightarrow> instant \<Rightarrow> string \<Rightarrow> int list \<Rightarrow> pending_error \<Rightarrow> ('r, 'l) pending_data
    \<Rightarrow> (pending_error + int) \<times> ('r, 'l) pending_data" where
  "decrement_loop E now key [] lastErr s = (Inl lastErr, s)"
| "decrement_loop E now key (attempt # attempts) lastErr s =
    (case safeDecrementCounter E now key s of
       (Inr remaining, s1) \<Rightarrow> (Inr remaining, s1)
     | (Inl err, s1) \<Rightarrow> decrement_loop E now key attempts err (slept (40 * Millisecond * attempt) s1))"

definition scheduleQueueDepthReconcile :: "('r, 'l) PendingEnv \<Rightarrow> string \<Rightarrow> ('r, 'l) pending_data \<Rightarrow> ('r, 'l) pending_data" where
  "scheduleQueueDepthReconcile E key s =
    (if pe_redis E = None \<or> TrimSpace key = [] \<or> co_reconcile (co_of s) \<noteq> None then s
     else upd_co (\<lambda>c. c\<lparr>co_reconcile := Some key\<rparr>) s)"

definition run_reconcile :: "('r, 'l) PendingEnv \<Rightarrow> instant \<Rightarrow> ('r, 'l) pending_data \<Rightarrow> ('r, 'l) pending_data" where
  "run_reconcile E now s =
    (case co_reconcile (co_of s) of
       None \<Rightarrow> s
     | Some key \<Rightarrow> upd_co (\<lambda>c. c\<lparr>co_reconcile := None\<rparr>) (snd (safeDecrementCounter E now key s)))"

text \<open>The error, if any, with the number to go on with.\<close>

definition decrementCounterWithRetry ::
  "('r, 'l) PendingEnv \<Rightarrow> instant \<Rightarrow> string \<Rightarrow> int \<Rightarrow> ('r, 'l) pending_data \<Rightarrow> (int \<times> pending_error option) \<times> ('r, 'l) pending_data" where
  "decrementCounterWithRetry E now key fallback s =
    (case decrement_loop E now key [1, 2, 3] (ErrMessage ''pending lease decrement failed after retries'') s of
       (Inr remaining, s1) \<Rightarrow> ((remaining, None), s1)
     | (Inl err, s1) \<Rightarrow> ((fallback, Some err), scheduleQueueDepthReconcile E key s1))"

definition decrementUserQueueDepth ::
  "('r, 'l) PendingEnv \<Rightarrow> instant \<Rightarrow> string \<Rightarrow> int \<Rightarrow> ('r, 'l) pending_data \<Rightarrow> (int \<times> pending_error option) \<times> ('r, 'l) pending_data" where
  "decrementUserQueueDepth E now username fallback s =
    (let key = pendingUserDepthKey (co_of s) username
     in if key = [] then ((fallback, None), s) else decrementCounterWithRetry E now key fallback s)"

definition incrementUserQueueDepth ::
  "('r, 'l) PendingEnv \<Rightarrow> instant \<Rightarrow> string \<Rightarrow> ('r, 'l) pending_data \<Rightarrow> (int \<times> pending_error option) \<times> ('r, 'l) pending_data" where
  "incrementUserQueueDepth E now username s =
    (case pe_redis E of
       None \<Rightarrow> ((0, Some (ErrMessage ''pending coordinator not initialized'')), s)
     | Some (S, pfx) \<Rightarrow>
         (let key = pendingUserDepthKey (co_of s) username
          in if key = [] then ((0, Some (ErrMessage ''user depth key empty'')), s)
             else (case on_redis (IncrememntWithExpire S pfx now key (secondsCeil (UserBackpressureWindow (cfg_of s)))) s of
                     (depth, s1) \<Rightarrow> ((depth, None), s1))))"

section \<open>Sampling\<close>

definition storeGlobalSample :: "instant \<Rightarrow> int \<Rightarrow> BackpressureLevel \<Rightarrow> ('r, 'l) pending_data \<Rightarrow> ('r, 'l) pending_data" where
  "storeGlobalSample now depth level s =
    (if co_sampleCacheTTL (co_of s) \<le> 0 then s
     else upd_co (\<lambda>c. c\<lparr>co_globalSample := Some \<lparr>qs_depth = depth, qs_level = level,
            qs_expiresAt = time_Add now (co_sampleCacheTTL c)\<rparr>\<rparr>) s)"

definition loadUserSample :: "string \<Rightarrow> 'l PendingCoordinator \<Rightarrow> queueSampleCache option" where
  "loadUserSample username c =
    (let trimmed = TrimSpace username in if trimmed = [] then None else map_of (co_userSamples c) trimmed)"

definition storeUserSample :: "instant \<Rightarrow> string \<Rightarrow> int \<Rightarrow> BackpressureLevel \<Rightarrow> ('r, 'l) pending_data \<Rightarrow> ('r, 'l) pending_data" where
  "storeUserSample now username depth level s =
    (if co_sampleCacheTTL (co_of s) \<le> 0 \<or> TrimSpace username = [] then s
     else upd_co (\<lambda>c. c\<lparr>co_userSamples := AList.update (TrimSpace username)
            \<lparr>qs_depth = depth, qs_level = level, qs_expiresAt = time_Add now (co_sampleCacheTTL c)\<rparr> (co_userSamples c)\<rparr>) s)"

definition forget_user_sample :: "string \<Rightarrow> ('r, 'l) pending_data \<Rightarrow> ('r, 'l) pending_data" where
  "forget_user_sample trimmed = upd_co (\<lambda>c. c\<lparr>co_userSamples := AList.delete trimmed (co_userSamples c)\<rparr>)"

text \<open>A cached sample is used while it is fresh and shows no backpressure.\<close>

definition fresh_sample :: "instant \<Rightarrow> queueSampleCache option \<Rightarrow> bool" where
  "fresh_sample now x =
    (case x of None \<Rightarrow> False | Some q \<Rightarrow> qs_level q = BackpressureNone \<and> time_After (qs_expiresAt q) now)"

type_synonym depth_sample = "int \<times> BackpressureLevel \<times> pending_error option"

text \<open>The text of a counter as a depth: an error, or the number, at least 0.\<close>

definition read_depth :: "string \<Rightarrow> pending_error + int" where
  "read_depth raw =
    (case ParseInt (TrimSpace raw) of
       None \<Rightarrow> Inl (ErrMessage (''strconv.ParseInt: parsing '' @ TrimSpace raw))
     | Some depth \<Rightarrow> Inr (if depth < 0 then 0 else depth))"

text \<open>The answer of the coordinator in memory, in the shape of a sample.\<close>

definition on_fallback :: "(memoryPendingCoordinator \<Rightarrow> 'a \<times> memoryPendingCoordinator) \<Rightarrow> ('r, 'l) pending_data \<Rightarrow> 'a \<times> ('r, 'l) pending_data" where
  "on_fallback f s = (case f (co_fallback (co_of s)) of (x, m) \<Rightarrow> (x, upd_co (\<lambda>c. c\<lparr>co_fallback := m\<rparr>) s))"

text \<open>Whether the coordinator in memory answers: the degrade switch is on, or there is no Redis.\<close>

definition use_memory :: "('r, 'l) PendingEnv \<Rightarrow> bool" where
  "use_memory E \<longleftrightarrow> pe_degraded E \<or> pe_redis E = None"

definition server_of :: "('r, 'l) PendingEnv \<Rightarrow> 'r Server \<times> string" where
  "server_of E = the (pe_redis E)"

definition SampleQueueDepth ::
  "('r, 'l) PendingEnv \<Rightarrow> instant \<Rightarrow> ('r, 'l) pending_data \<Rightarrow> depth_sample \<times> ('r, 'l) pending_data" where
  "SampleQueueDepth E now s =
    (if use_memory E
     then (case on_fallback (\<lambda>m. mem_SampleQueueDepth m now) s of ((depth, level), s1) \<Rightarrow> ((depth, level, None), s1))
     else if TrimSpace (MetricsKey (cfg_of s)) = [] then ((0, BackpressureNone, None), s)
     else if 0 < co_sampleCacheTTL (co_of s) \<and> fresh_sample now (co_globalSample (co_of s))
     then ((qs_depth (the (co_globalSample (co_of s))), BackpressureNone, None), s)
     else (case on_redis (GetKeyWithCommandTimeout (fst (server_of E)) (snd (server_of E)) now (MetricsKey (cfg_of s))) s of
             (Inl err, s1) \<Rightarrow> ((0, BackpressureNone, Some err), s1)
           | (Inr None, s1) \<Rightarrow> ((0, BackpressureNone, None), s1)
           | (Inr (Some raw), s1) \<Rightarrow>
               (case read_depth raw of
                  Inl err \<Rightarrow> ((0, BackpressureNone, Some err), s1)
                | Inr depth \<Rightarrow>
                    (let level = classifyBackpressure (co_of s1) depth
                     in ((depth, level, None), storeGlobalSample now depth level s1)))))"

definition SampleUserQueueDepth ::
  "('r, 'l) PendingEnv \<Rightarrow> instant \<Rightarrow> string \<Rightarrow> ('r, 'l) pending_data \<Rightarrow> depth_sample \<times> ('r, 'l) pending_data" where
  "SampleUserQueueDepth E now username s =
    (let key = pendingUserDepthKey (co_of s) username; trimmed = TrimSpace username; cached = loadUserSample trimmed (co_of s)
     in if use_memory E
        then (case on_fallback (\<lambda>m. mem_SampleUserQueueDepth m username now) s of ((depth, level), s1) \<Rightarrow> ((depth, level, None), s1))
        else if key = [] then ((0, BackpressureNone, None), s)
        else if 0 < co_sampleCacheTTL (co_of s) \<and> fresh_sample now cached
        then ((qs_depth (the cached), BackpressureNone, None), s)
        else (let s0 = (if 0 < co_sampleCacheTTL (co_of s) \<and> cached \<noteq> None \<and> time_Before (qs_expiresAt (the cached)) now
                        then forget_user_sample trimmed s else s)
              in case on_redis (GetKeyWithCommandTimeout (fst (server_of E)) (snd (server_of E)) now key) s0 of
                   (Inl err, s1) \<Rightarrow> ((0, BackpressureNone, Some err), s1)
                 | (Inr None, s1) \<Rightarrow> ((0, BackpressureNone, None), s1)
                 | (Inr (Some raw), s1) \<Rightarrow>
                     (case read_depth raw of
                        Inl err \<Rightarrow> ((0, BackpressureNone, Some err), s1)
                      | Inr depth \<Rightarrow>
                          (let level = classifyUserBackpressure (co_of s1) depth
                           in ((depth, level, None), storeUserSample now trimmed depth level s1)))))"

definition sampleInstanceBackpressure :: "'l PendingCoordinator \<Rightarrow> int \<times> BackpressureLevel" where
  "sampleInstanceBackpressure c = (co_instanceActive c, classifyInstanceBackpressure c (co_instanceActive c))"

definition SampleBackpressure ::
  "('r, 'l) PendingEnv \<Rightarrow> instant \<Rightarrow> string \<Rightarrow> ('r, 'l) pending_data \<Rightarrow> BackpressureSample \<times> ('r, 'l) pending_data" where
  "SampleBackpressure E now username s =
    (let trimmed = TrimSpace username
     in case SampleQueueDepth E now s of
          ((gd, gl, ge), s1) \<Rightarrow>
            (case (if trimmed \<noteq> [] then SampleUserQueueDepth E now trimmed s1 else ((0, BackpressureUnset, None), s1)) of
               ((ud, ul, ue), s2) \<Rightarrow>
                 (case sampleInstanceBackpressure (co_of s2) of
                    (idp, il) \<Rightarrow>
                      (case aggregate gl ul il now s2 of
                         (agg, s3) \<Rightarrow>
                           (let failed = (ge \<noteq> None \<or> ue \<noteq> None)
                            in (\<lparr>bs_Username = trimmed, bs_GlobalDepth = gd, bs_GlobalLevel = gl, bs_GlobalErr = (ge \<noteq> None),
                                 bs_UserDepth = ud, bs_UserLevel = ul, bs_UserErr = (ue \<noteq> None), bs_InstanceDepth = idp,
                                 bs_InstanceLevel = il,
                                 bs_AggregateLevel = (if failed then mergeBackpressureLevels [agg, BackpressureElevated] else agg),
                                 bs_SampledAt = now, bs_Source = (if failed then ''partial'' else ''live'')\<rparr>, s3))))))"

end
