(* ===== verification/PendingRedisLease.thy ===== *)
theory PendingRedisLease
  imports PendingRedis
begin

text \<open>
  The pending coordinator on Redis, second part (pending_state_machine.go): releasing a lease, the
  heartbeat, observing, and the snapshots that remain of a released or expired lease. An
  operation that takes several commands is composed of them in the code's order; reading and
  deleting the key of a release are definitions of their own, so that a run can put another
  process between them.
\<close>

section \<open>What remains of a lease\<close>

definition releaseRetentionTTL :: "PendingCoordinatorConfig \<Rightarrow> duration" where
  "releaseRetentionTTL cfg =
    (let ttl = ReleaseRetention cfg in if ttl \<le> 0 then 0 else if LeaseTTL cfg < ttl then LeaseTTL cfg else ttl)"

definition expiredRetentionTTL :: "PendingCoordinatorConfig \<Rightarrow> duration" where
  "expiredRetentionTTL cfg =
    (let ttl = ExpiredRetention cfg; double = wrap64 (2 * LeaseTTL cfg); maxRetention = (if double \<le> 0 then LeaseTTL cfg else double)
     in if ttl \<le> 0 then 0 else if 0 < maxRetention \<and> maxRetention < ttl then maxRetention else ttl)"

text \<open>The fields a remaining snapshot takes over where the lease has them.\<close>

definition or_text :: "string \<Rightarrow> string \<Rightarrow> string" where "or_text x dflt = (if x \<noteq> [] then x else dflt)"
definition or_time :: "instant \<Rightarrow> instant \<Rightarrow> instant" where "or_time t dflt = (if IsZero t then dflt else t)"
definition or_level :: "BackpressureLevel \<Rightarrow> BackpressureLevel \<Rightarrow> BackpressureLevel" where
  "or_level l dflt = (if l \<noteq> BackpressureUnset then l else dflt)"
definition or_depth :: "int \<Rightarrow> int \<Rightarrow> int" where "or_depth n dflt = (if 0 < n then n else dflt)"

definition take_over :: "pendingLeaseSnapshot \<Rightarrow> pendingLeaseSnapshot \<Rightarrow> pendingLeaseSnapshot" where
  "take_over old x = x\<lparr>
     sn_RequestID := or_text (sn_RequestID old) (sn_RequestID x), sn_Operator := or_text (sn_Operator old) (sn_Operator x),
     sn_ClientIP := or_text (sn_ClientIP old) (sn_ClientIP x), sn_LegacyRequestID := or_text (sn_LegacyRequestID old) (sn_LegacyRequestID x),
     sn_HeartbeatAt := or_time (sn_HeartbeatAt old) (sn_HeartbeatAt x), sn_AcquireAt := or_time (sn_AcquireAt old) (sn_AcquireAt x),
     sn_Backpressure := or_level (sn_Backpressure old) (sn_Backpressure x),
     sn_UserQueueDepth := or_depth (sn_UserQueueDepth old) (sn_UserQueueDepth x),
     sn_InstanceQueueDepth := or_depth (sn_InstanceQueueDepth old) (sn_InstanceQueueDepth x),
     sn_UserBackpressure := or_level (sn_UserBackpressure old) (sn_UserBackpressure x),
     sn_InstanceBackpressure := or_level (sn_InstanceBackpressure old) (sn_InstanceBackpressure x)\<rparr>"

definition released_snapshot :: "instant \<Rightarrow> duration \<Rightarrow> string \<Rightarrow> pendingLeaseSnapshot option \<Rightarrow> string \<Rightarrow> int \<Rightarrow> pendingLeaseSnapshot" where
  "released_snapshot now ttl username snapshot owner remaining =
    (let trimmedOwner = TrimSpace owner;
         candidate = (case snapshot of None \<Rightarrow> [] | Some old \<Rightarrow> TrimSpace (sn_OwnerID old));
         resolved = (if trimmedOwner = [] then candidate else trimmedOwner);
         released = blank_snapshot\<lparr>sn_Status := ''completed'', sn_State := PendingStateReleased, sn_OwnerID := resolved,
           sn_Version := UnixNano now, sn_LeaseExpiresAt := time_Add now ttl, sn_UpdatedAt := now, sn_QueueDepth := remaining,
           sn_Username := username, sn_ReleasedAt := now, sn_ReleasedBy := resolved\<rparr>
     in case snapshot of None \<Rightarrow> released | Some old \<Rightarrow> take_over old released)"

definition expired_snapshot :: "instant \<Rightarrow> duration \<Rightarrow> string \<Rightarrow> pendingLeaseSnapshot \<Rightarrow> int \<Rightarrow> pendingLeaseSnapshot" where
  "expired_snapshot now ttl username old remaining =
    (let expired = blank_snapshot\<lparr>sn_Status := ''failed'', sn_State := PendingStateExpired,
           sn_Version := UnixNano now, sn_LeaseExpiresAt := time_Add now ttl, sn_UpdatedAt := now,
           sn_QueueDepth := (if 0 < sn_QueueDepth old \<and> remaining = 0 then sn_QueueDepth old else remaining),
           sn_Username := username, sn_ExpiredAt := now,
           sn_OwnerID := TrimSpace (sn_OwnerID old),
           sn_ExpiredReason := or_text (sn_ExpiredReason old) ''lease_timeout''\<rparr>
     in take_over old expired)"

text \<open>Writing a snapshot under the key of a user, with a lifetime.\<close>

definition write_snapshot ::
  "('r, 'l) PendingEnv \<Rightarrow> instant \<Rightarrow> string \<Rightarrow> pendingLeaseSnapshot \<Rightarrow> duration \<Rightarrow> ('r, 'l) pending_data \<Rightarrow> pending_error option \<times> ('r, 'l) pending_data" where
  "write_snapshot E now key x ttl s =
    (case js_marshal (pe_codec E) x of
       Inl err \<Rightarrow> (Some err, s)
     | Inr payload \<Rightarrow>
         (case on_redis (SetKeyWithCommandTimeout (fst (server_of E)) (snd (server_of E)) now key payload ttl) s of
            (Inl err, s1) \<Rightarrow> (Some err, s1)
          | (Inr u, s1) \<Rightarrow> (None, s1)))"

definition writeReleaseSnapshot ::
  "('r, 'l) PendingEnv \<Rightarrow> instant \<Rightarrow> string \<Rightarrow> pendingLeaseSnapshot option \<Rightarrow> string \<Rightarrow> int \<Rightarrow> ('r, 'l) pending_data
    \<Rightarrow> pending_error option \<times> ('r, 'l) pending_data" where
  "writeReleaseSnapshot E now username snapshot owner remaining s =
    (let ttl = releaseRetentionTTL (cfg_of s); key = PendingCreateKey username
     in if pe_redis E = None \<or> ttl \<le> 0 \<or> key = [] then (None, s)
        else write_snapshot E now key (released_snapshot now ttl username snapshot owner remaining) ttl s)"

definition writeExpiredSnapshot ::
  "('r, 'l) PendingEnv \<Rightarrow> instant \<Rightarrow> string \<Rightarrow> pendingLeaseSnapshot \<Rightarrow> int \<Rightarrow> ('r, 'l) pending_data
    \<Rightarrow> pending_error option \<times> ('r, 'l) pending_data" where
  "writeExpiredSnapshot E now username snapshot remaining s =
    (let ttl = expiredRetentionTTL (cfg_of s); key = PendingCreateKey username
     in if pe_redis E = None \<or> ttl \<le> 0 \<or> key = [] then (None, s)
        else write_snapshot E now key (expired_snapshot now ttl username snapshot remaining) ttl s)"

section \<open>Release\<close>

text \<open>The first command: the value, and the snapshot if it can be decoded. The second: the key is deleted unless
  the snapshot names another owner.\<close>

definition release_read ::
  "('r, 'l) PendingEnv \<Rightarrow> instant \<Rightarrow> string \<Rightarrow> ('r, 'l) pending_data
    \<Rightarrow> (pending_error + pendingLeaseSnapshot option option) \<times> ('r, 'l) pending_data" where
  "release_read E now key s =
    (case on_redis (GetKeyWithCommandTimeout (fst (server_of E)) (snd (server_of E)) now key) s of
       (Inl err, s1) \<Rightarrow> (Inl err, s1)
     | (Inr None, s1) \<Rightarrow> (Inr None, s1)
     | (Inr (Some raw), s1) \<Rightarrow>
         (Inr (Some (case js_unmarshal (pe_codec E) raw of Inl err \<Rightarrow> None | Inr snapshot \<Rightarrow> Some snapshot)), s1))"

definition foreign_owner :: "pendingLeaseSnapshot option \<Rightarrow> string \<Rightarrow> bool" where
  "foreign_owner snapshot ownerID =
    (case snapshot of None \<Rightarrow> False | Some x \<Rightarrow> ownerID \<noteq> [] \<and> sn_OwnerID x \<noteq> [] \<and> sn_OwnerID x \<noteq> ownerID)"

definition release_delete ::
  "('r, 'l) PendingEnv \<Rightarrow> instant \<Rightarrow> string \<Rightarrow> ('r, 'l) pending_data \<Rightarrow> (pending_error + bool) \<times> ('r, 'l) pending_data" where
  "release_delete E now key s =
    on_redis (DeleteKeyWithCommandTimeout (fst (server_of E)) (snd (server_of E)) now key) s"

text \<open>A missing key counts as not deleted.\<close>

definition deleteKeyWithOwner ::
  "('r, 'l) PendingEnv \<Rightarrow> instant \<Rightarrow> string \<Rightarrow> string \<Rightarrow> ('r, 'l) pending_data
    \<Rightarrow> (pending_error + (bool \<times> pendingLeaseSnapshot option)) \<times> ('r, 'l) pending_data" where
  "deleteKeyWithOwner E now key ownerID s =
    (case release_read E now key s of
       (Inl err, s1) \<Rightarrow> (Inl err, s1)
     | (Inr None, s1) \<Rightarrow> (Inr (False, None), s1)
     | (Inr (Some snapshot), s1) \<Rightarrow>
         if foreign_owner snapshot ownerID then (Inr (False, snapshot), s1)
         else (case release_delete E now key s1 of
                 (Inl err, s2) \<Rightarrow> (Inl err, s2)
               | (Inr deleted, s2) \<Rightarrow> (Inr (deleted, snapshot), s2)))"

text \<open>What follows a deletion: the counters, the samples and the snapshot of the release.\<close>

definition release_finish ::
  "('r, 'l) PendingEnv \<Rightarrow> instant \<Rightarrow> string \<Rightarrow> string \<Rightarrow> pendingLeaseSnapshot option \<Rightarrow> ('r, 'l) pending_data
    \<Rightarrow> pending_error option \<times> ('r, 'l) pending_data" where
  "release_finish E now trimmed ownerID snapshot s =
    (let fallbackDepth = (case snapshot of None \<Rightarrow> 0 | Some x \<Rightarrow> sn_QueueDepth x);
         fallbackUserDepth = (case snapshot of None \<Rightarrow> 0 | Some x \<Rightarrow> sn_UserQueueDepth x)
     in case decrementCounterWithRetry E now (MetricsKey (cfg_of s)) fallbackDepth s of
          ((remaining, Some err), s1) \<Rightarrow> (Some err, s1)
        | ((remaining, None), s1) \<Rightarrow>
            (case decrementUserQueueDepth E now trimmed fallbackUserDepth s1 of
               ((userRemaining, userDecErr), s2) \<Rightarrow>
                 (case decInstanceActive s2 of
                    (instanceRemaining, s3) \<Rightarrow>
                      (let newInstanceLevel = classifyInstanceBackpressure (co_of s3) instanceRemaining;
                           newLevel = classifyBackpressure (co_of s3) remaining;
                           userLevelAfter = classifyUserBackpressure (co_of s3) userRemaining;
                           s4 = (if userDecErr \<noteq> None then forget_user_sample trimmed s3 else storeUserSample now trimmed userRemaining userLevelAfter s3);
                           s5 = storeGlobalSample now remaining newLevel s4;
                           s6 = snd (aggregate newLevel userLevelAfter newInstanceLevel now s5);
                           snapshot1 = map_option (\<lambda>x. x\<lparr>sn_UserQueueDepth := userRemaining, sn_InstanceQueueDepth := instanceRemaining,
                              sn_UserBackpressure := userLevelAfter, sn_InstanceBackpressure := newInstanceLevel\<rparr>) snapshot
                       in (None, snd (writeReleaseSnapshot E now trimmed snapshot1 ownerID remaining s6))))))"

text \<open>The duration of the deletion is left out of the answer.\<close>

definition redis_Release ::
  "('r, 'l) PendingEnv \<Rightarrow> instant \<Rightarrow> string \<Rightarrow> string \<Rightarrow> ('r, 'l) pending_data \<Rightarrow> pending_error option \<times> ('r, 'l) pending_data" where
  "redis_Release E now username ownerID s =
    (if use_memory E
     then (case on_fallback (\<lambda>m. mem_Release m username ownerID now) s of
             (Inl err, s1) \<Rightarrow> (Some err, s1) | (Inr d, s1) \<Rightarrow> (None, s1))
     else let trimmed = TrimSpace username; releaseKey = PendingCreateKey trimmed
          in if trimmed = [] \<or> releaseKey = [] then (None, s)
             else case deleteKeyWithOwner E now releaseKey ownerID s of
                    (Inl err, s1) \<Rightarrow> (Some err, s1)
                  | (Inr (False, snapshot), s1) \<Rightarrow>
                      (if foreign_owner snapshot ownerID then Some ErrPendingLeaseOwnerMismatch else None, s1)
                  | (Inr (True, snapshot), s1) \<Rightarrow> release_finish E now trimmed ownerID snapshot s1)"

section \<open>Heartbeat\<close>

definition redis_Heartbeat ::
  "('r, 'l) PendingEnv \<Rightarrow> instant \<Rightarrow> string \<Rightarrow> string \<Rightarrow> ('r, 'l) pending_data \<Rightarrow> pending_error option \<times> ('r, 'l) pending_data" where
  "redis_Heartbeat E now username ownerID s =
    (let trimmed = TrimSpace username; owner = TrimSpace ownerID; key = PendingCreateKey trimmed
     in if trimmed = [] \<or> owner = [] then (None, s)
        else if use_memory E then on_fallback (\<lambda>m. mem_Heartbeat m trimmed owner now) s
        else if key = [] then (None, s)
        else case on_redis (GetKeyWithCommandTimeout (fst (server_of E)) (snd (server_of E)) now key) s of
               (Inl err, s1) \<Rightarrow> (Some err, s1)
             | (Inr None, s1) \<Rightarrow> (Some ErrPendingLeaseConflict, s1)
             | (Inr (Some raw), s1) \<Rightarrow>
                 (case js_unmarshal (pe_codec E) raw of
                    Inl err \<Rightarrow> (Some err, s1)
                  | Inr x \<Rightarrow>
                      if sn_State x \<noteq> PendingStateLease then (Some ErrPendingLeaseConflict, s1)
                      else if TrimSpace (sn_OwnerID x) \<noteq> [] \<and> TrimSpace (sn_OwnerID x) \<noteq> owner then (Some ErrPendingLeaseOwnerMismatch, s1)
                      else write_snapshot E now key
                             (x\<lparr>sn_OwnerID := owner, sn_HeartbeatAt := now, sn_UpdatedAt := now,
                                sn_LeaseExpiresAt := (if 0 < LeaseTTL (cfg_of s1) then time_Add now (LeaseTTL (cfg_of s1)) else sn_LeaseExpiresAt x)\<rparr>)
                             (LeaseTTL (cfg_of s1)) s1))"

section \<open>Observing\<close>

definition observed_state :: "'l PendingCoordinator \<Rightarrow> pendingLeaseSnapshot \<Rightarrow> PendingState \<Rightarrow> PendingState" where
  "observed_state c x st =
    (let bp = (if sn_Degraded x \<and> sn_Backpressure x = BackpressureNone then BackpressureElevated else sn_Backpressure x)
     in st\<lparr>ps_State := sn_State x, ps_LeaseOwner := sn_OwnerID x, ps_Version := sn_Version x, ps_Backpressure := bp,
          ps_QueueDepth := sn_QueueDepth x, ps_UserQueueDepth := sn_UserQueueDepth x, ps_InstanceQueueDepth := sn_InstanceQueueDepth x,
          ps_Username := or_text (sn_Username x) (ps_Username st), ps_LeaseExpiresAt := sn_LeaseExpiresAt x,
          ps_ReleasedAt := sn_ReleasedAt x, ps_HeartbeatAt := sn_HeartbeatAt x, ps_ExpiredAt := sn_ExpiredAt x,
          ps_ExpiredReason := sn_ExpiredReason x,
          ps_UserBackpressure := (if sn_UserBackpressure x \<noteq> BackpressureUnset then sn_UserBackpressure x
             else classifyUserBackpressure c (sn_UserQueueDepth x)),
          ps_InstanceBackpressure := (if sn_InstanceBackpressure x \<noteq> BackpressureUnset then sn_InstanceBackpressure x
             else classifyInstanceBackpressure c (sn_InstanceQueueDepth x))\<rparr>)"

text \<open>A value that cannot be decoded exists in the unknown state. The lifetime is a second command; it is 0
  for a key without one, for less than half a second, and when the command fails.\<close>

definition redis_Observe ::
  "('r, 'l) PendingEnv \<Rightarrow> instant \<Rightarrow> string \<Rightarrow> ('r, 'l) pending_data \<Rightarrow> (pending_error + PendingState) \<times> ('r, 'l) pending_data" where
  "redis_Observe E now username s =
    (let trimmed = TrimSpace username; key = PendingCreateKey trimmed; S = fst (server_of E); pfx = snd (server_of E)
     in if use_memory E
        then (case on_fallback (\<lambda>m. mem_Observe m username now) s of (st, s1) \<Rightarrow> (Inr st, s1))
        else if trimmed = [] then (Inr (pending_state PendingStateUnknown), s)
        else if key = [] then (Inr ((pending_state PendingStateUnknown)\<lparr>ps_Username := trimmed\<rparr>), s)
        else case on_redis (GetKeyWithCommandTimeout S pfx now key) s of
               (Inl err, s1) \<Rightarrow> (Inl err, s1)
             | (Inr None, s1) \<Rightarrow> (Inr ((pending_state PendingStateUnknown)\<lparr>ps_Username := trimmed\<rparr>), s1)
             | (Inr (Some raw), s1) \<Rightarrow>
                 (let st0 = (pending_state PendingStateUnknown)\<lparr>ps_Username := trimmed, ps_Exists := True, ps_Raw := raw\<rparr>;
                      st = (case js_unmarshal (pe_codec E) raw of Inl err \<Rightarrow> st0 | Inr x \<Rightarrow> observed_state (co_of s1) x st0)
                  in case on_redis (GetExp S pfx now key) s1 of
                       (Inr ttlSeconds, s2) \<Rightarrow> (Inr (if 0 < ttlSeconds then st\<lparr>ps_TTL := ttlSeconds * Second\<rparr> else st), s2)
                     | (Inl err, s2) \<Rightarrow> (if err = KeyNotFound then Inr st else Inl err, s2)))"

section \<open>Expiry\<close>

definition heartbeatExpired :: "PendingCoordinatorConfig \<Rightarrow> PendingState \<Rightarrow> instant \<Rightarrow> bool" where
  "heartbeatExpired cfg st now =
    (let timeout = HeartbeatTimeout cfg;
         approx = time_Add (ps_LeaseExpiresAt st) (- LeaseTTL cfg);
         last = (if IsZero (ps_HeartbeatAt st) \<and> \<not> IsZero (ps_LeaseExpiresAt st) \<and> 0 < LeaseTTL cfg
                    \<and> time_Before approx (ps_LeaseExpiresAt st) then approx else ps_HeartbeatAt st)
     in 0 < timeout \<and> \<not> IsZero last \<and> timeout \<le> time_Sub now last)"

definition classifyExpiredReason :: "PendingCoordinatorConfig \<Rightarrow> PendingState \<Rightarrow> instant \<Rightarrow> string" where
  "classifyExpiredReason cfg st now = (if heartbeatExpired cfg st now then ''heartbeat_timeout'' else ''lease_timeout'')"

definition shouldPromoteExpired :: "PendingCoordinatorConfig \<Rightarrow> PendingState \<Rightarrow> instant \<Rightarrow> bool" where
  "shouldPromoteExpired cfg st now \<longleftrightarrow>
    ps_State st = PendingStateLease
    \<and> (heartbeatExpired cfg st now
       \<or> \<not> IsZero (ps_LeaseExpiresAt st) \<and> time_After now (time_Add (ps_LeaseExpiresAt st) (ExpiredGracePeriod cfg))
       \<or> ps_TTL st \<le> 0)"

definition promoteExpired ::
  "('r, 'l) PendingEnv \<Rightarrow> instant \<Rightarrow> string \<Rightarrow> PendingState \<Rightarrow> ('r, 'l) pending_data \<Rightarrow> (pending_error + bool) \<times> ('r, 'l) pending_data" where
  "promoteExpired E now username st s =
    (if pe_redis E = None then (Inr False, s)
     else case js_unmarshal (pe_codec E) (ps_Raw st) of
            Inl err \<Rightarrow> (Inl err, s)
          | Inr x \<Rightarrow>
              (case decrementCounterWithRetry E now (MetricsKey (cfg_of s)) (ps_QueueDepth st) s of
                 ((remaining, e), s1) \<Rightarrow>
                   (case decrementUserQueueDepth E now username (ps_UserQueueDepth st) s1 of
                      (u, s2) \<Rightarrow>
                        (let reason = classifyExpiredReason (cfg_of s2) st now;
                             x1 = x\<lparr>sn_ExpiredReason := or_text (sn_ExpiredReason x) reason,
                                    sn_HeartbeatAt := or_time (sn_HeartbeatAt x) (ps_HeartbeatAt st)\<rparr>
                         in case writeExpiredSnapshot E now username x1 remaining s2 of
                              (Some err, s3) \<Rightarrow> (Inl err, s3)
                            | (None, s3) \<Rightarrow> (Inr True, s3)))))"

text \<open>The clean-ups delete the key whatever it holds.\<close>

definition delete_state :: "('r, 'l) PendingEnv \<Rightarrow> instant \<Rightarrow> string \<Rightarrow> ('r, 'l) pending_data \<Rightarrow> pending_error option \<times> ('r, 'l) pending_data" where
  "delete_state E now username s =
    (let key = PendingCreateKey username
     in if pe_redis E = None \<or> key = [] then (None, s)
        else case on_redis (DeleteKeyWithCommandTimeout (fst (server_of E)) (snd (server_of E)) now key) s of
               (Inl err, s1) \<Rightarrow> (Some err, s1)
             | (Inr b, s1) \<Rightarrow> (None, s1))"

definition cleanupReleasedState :: "('r, 'l) PendingEnv \<Rightarrow> instant \<Rightarrow> string \<Rightarrow> ('r, 'l) pending_data \<Rightarrow> pending_error option \<times> ('r, 'l) pending_data" where
  "cleanupReleasedState = delete_state"

definition CleanupExpired :: "('r, 'l) PendingEnv \<Rightarrow> instant \<Rightarrow> string \<Rightarrow> ('r, 'l) pending_data \<Rightarrow> pending_error option \<times> ('r, 'l) pending_data" where
  "CleanupExpired = delete_state"

end
