(* ===== verification/PendingRedisAcquire.thy ===== *)
theory PendingRedisAcquire
  imports PendingRedisLease
begin

text \<open>
  The pending coordinator on Redis, third part (pending_state_machine.go): acquiring a lease. The
  script counts and stores in one step; where it cannot run, SETNX and the counters are
  separate commands. The request's sample of the backpressure is an argument and threaded
  through the attempts, as are the generated owner ids.
\<close>

section \<open>The script\<close>

record acquire_args =
  aa_leaseTTL :: int
  aa_globalExpire :: int
  aa_userExpire :: int
  aa_globalSoft :: int
  aa_globalHard :: int
  aa_userSoft :: int
  aa_userHard :: int
  aa_instanceDepth :: int
  aa_instanceLevel :: BackpressureLevel
  aa_updatedAt :: instant
  aa_base :: string

definition lua_level :: "int \<Rightarrow> int \<Rightarrow> int \<Rightarrow> BackpressureLevel" where
  "lua_level soft hard depth =
    (if 0 < hard \<and> hard \<le> depth then BackpressureSevere
     else if 0 < soft \<and> soft \<le> depth then BackpressureElevated else BackpressureNone)"

definition lua_merge :: "BackpressureLevel \<Rightarrow> BackpressureLevel \<Rightarrow> BackpressureLevel" where
  "lua_merge a b =
    (if a = BackpressureSevere \<or> b = BackpressureSevere then BackpressureSevere
     else if a = BackpressureElevated \<or> b = BackpressureElevated then BackpressureElevated else BackpressureNone)"

text \<open>One counter: it starts its lifetime with the first increment.\<close>

definition lua_count :: "'r Server \<Rightarrow> instant \<Rightarrow> string \<Rightarrow> int \<Rightarrow> 'r \<Rightarrow> (pending_error + int) \<times> 'r" where
  "lua_count S now k expire r =
    (case sv_INCR S now k r of
       (Inl err, r1) \<Rightarrow> (Inl err, r1)
     | (Inr n, r1) \<Rightarrow> (Inr n, if n = 1 \<and> 0 < expire then sv_EXPIRE S now k expire r1 else r1))"

definition lua_fields :: "acquire_args \<Rightarrow> int \<Rightarrow> int \<Rightarrow> BackpressureLevel \<Rightarrow> BackpressureLevel \<Rightarrow> pendingLeaseSnapshot \<Rightarrow> pendingLeaseSnapshot" where
  "lua_fields a queueDepth userDepth userLevel aggregateLevel x =
    x\<lparr>sn_QueueDepth := queueDepth, sn_Backpressure := aggregateLevel, sn_UserQueueDepth := userDepth,
      sn_UserBackpressure := userLevel, sn_InstanceQueueDepth := aa_instanceDepth a, sn_InstanceBackpressure := aa_instanceLevel a,
      sn_Degraded := (aggregateLevel \<noteq> BackpressureNone), sn_UpdatedAt := aa_updatedAt a\<rparr>"

definition pendingAcquireLua ::
  "'r Server \<Rightarrow> codec \<Rightarrow> instant \<Rightarrow> acquire_args \<Rightarrow> string list \<Rightarrow> 'r \<Rightarrow> (pending_error + goval list) \<times> 'r" where
  "pendingAcquireLua S C now a ks r =
    (let pendingKey = ks ! 0; globalKey = ks ! 1; userKey = ks ! 2;
         leaseTTL = (if aa_leaseTTL a \<le> 0 then 60000 else aa_leaseTTL a)
     in if sv_GET S now pendingKey r \<noteq> None then (Inr [VInt64 0], r)
        else case lua_count S now globalKey (aa_globalExpire a) r of
               (Inl err, r1) \<Rightarrow> (Inl err, r1)
             | (Inr queueDepth, r1) \<Rightarrow>
                 (case lua_count S now userKey (aa_userExpire a) r1 of
                    (Inl err, r2) \<Rightarrow> (Inl err, r2)
                  | (Inr userDepth, r2) \<Rightarrow>
                      (let globalLevel = lua_level (aa_globalSoft a) (aa_globalHard a) queueDepth;
                           userLevel = lua_level (aa_userSoft a) (aa_userHard a) userDepth;
                           aggregateLevel = lua_merge (lua_merge globalLevel userLevel) (aa_instanceLevel a);
                           finalPayload = js_lua C (lua_fields a queueDepth userDepth userLevel aggregateLevel) (aa_base a)
                       in (Inr [VInt64 1, VInt64 queueDepth, VInt64 userDepth, VString (string_of_level globalLevel),
                              VString (string_of_level userLevel), VString (string_of_level aggregateLevel), VString finalPayload],
                           sv_SET S now pendingKey finalPayload (leaseTTL * Millisecond) r2))))"

fun luaToInt :: "goval \<Rightarrow> int" where
  "luaToInt (VInt64 v) = v"
| "luaToInt (VInt v) = v"
| "luaToInt (VFloat v) = v"
| "luaToInt (VString v) = (case ParseInt (TrimSpace v) of Some n \<Rightarrow> n | None \<Rightarrow> 0)"
| "luaToInt v = 0"

fun luaToString :: "goval \<Rightarrow> string" where
  "luaToString (VString v) = v"
| "luaToString (VBytes v) = v"
| "luaToString VNil = []"
| "luaToString (VInt64 v) = FormatInt v"
| "luaToString (VInt v) = FormatInt v"
| "luaToString (VFloat v) = FormatInt v"
| "luaToString (VOther v) = v"

section \<open>Running the script\<close>

definition errAcquireLuaUnavailable :: pending_error where
  "errAcquireLuaUnavailable = ErrMessage ''pending lease acquire lua unavailable''"

text \<open>A loaded hash is kept, even a blank one, which does not count.\<close>

definition loadPendingAcquireScript ::
  "('r, 'l) PendingEnv \<Rightarrow> ('r, 'l) pending_data \<Rightarrow> (pending_error + string) \<times> ('r, 'l) pending_data" where
  "loadPendingAcquireScript E s =
    (case on_redis (ScriptLoad (fst (server_of E))) s of
       (Inl err, s1) \<Rightarrow> (Inl err, s1)
     | (Inr sha, s1) \<Rightarrow>
         (let s2 = upd_co (\<lambda>c. c\<lparr>co_scriptSHA := sha\<rparr>) s1
          in if TrimSpace sha \<noteq> [] then (Inr sha, s2) else (Inl errAcquireLuaUnavailable, s2)))"

fun script_failure :: "script_error \<Rightarrow> pending_error" where
  "script_failure NoScript = ErrMessage ''NOSCRIPT No matching script. Please use EVAL.''"
| "script_failure CrossSlot = ErrMessage ''CROSSSLOT Keys in request do not hash to the same slot''"
| "script_failure (ScriptError err) = err"

definition run_script ::
  "('r, 'l) PendingEnv \<Rightarrow> instant \<Rightarrow> string \<Rightarrow> string list \<Rightarrow> acquire_args \<Rightarrow> ('r, 'l) pending_data
    \<Rightarrow> (script_error + goval list) \<times> ('r, 'l) pending_data" where
  "run_script E now sha ks a s =
    (case on_redis (EvalSha (fst (server_of E)) (snd (server_of E)) sha ks (pendingAcquireLua (fst (server_of E)) (pe_codec E) now a)) s of
       (Inl e, s1) \<Rightarrow> (Inl e, s1)
     | (Inr (Inl err), s1) \<Rightarrow> (Inl (ScriptError err), s1)
     | (Inr (Inr reply), s1) \<Rightarrow> (Inr reply, s1))"

definition evalPendingAcquireScript ::
  "('r, 'l) PendingEnv \<Rightarrow> instant \<Rightarrow> string \<Rightarrow> string list \<Rightarrow> acquire_args \<Rightarrow> ('r, 'l) pending_data
    \<Rightarrow> (pending_error + goval list) \<times> ('r, 'l) pending_data" where
  "evalPendingAcquireScript E now sha ks a s =
    (case run_script E now sha ks a s of
       (Inr reply, s1) \<Rightarrow> (Inr reply, s1)
     | (Inl NoScript, s1) \<Rightarrow>
         (case loadPendingAcquireScript E s1 of
            (Inl err, s2) \<Rightarrow> (Inl err, s2)
          | (Inr newSha, s2) \<Rightarrow>
              (case run_script E now newSha ks a s2 of
                 (Inr reply, s3) \<Rightarrow> (Inr reply, s3)
               | (Inl e, s3) \<Rightarrow> (Inl (script_failure e), s3)))
     | (Inl CrossSlot, s1) \<Rightarrow> (Inl errAcquireLuaUnavailable, s1)
     | (Inl (ScriptError err), s1) \<Rightarrow> (Inl err, s1))"

section \<open>One attempt\<close>

record pendingAcquireOutcome =
  ao_created :: bool
  ao_queueDepth :: int
  ao_globalLevel :: BackpressureLevel
  ao_userQueueDepth :: int
  ao_userLevel :: BackpressureLevel
  ao_instanceDepth :: int
  ao_instanceLevel :: BackpressureLevel
  ao_aggregateLevel :: BackpressureLevel
  ao_snapshot :: pendingLeaseSnapshot
  ao_finalPayload :: string
  ao_method :: string

definition not_created :: "string \<Rightarrow> pendingLeaseSnapshot \<Rightarrow> pendingAcquireOutcome" where
  "not_created m x = \<lparr>ao_created = False, ao_queueDepth = 0, ao_globalLevel = BackpressureUnset, ao_userQueueDepth = 0,
     ao_userLevel = BackpressureUnset, ao_instanceDepth = 0, ao_instanceLevel = BackpressureUnset,
     ao_aggregateLevel = BackpressureUnset, ao_snapshot = x, ao_finalPayload = [], ao_method = m\<rparr>"

definition script_args :: "PendingCoordinatorConfig \<Rightarrow> instant \<Rightarrow> int \<Rightarrow> BackpressureLevel \<Rightarrow> string \<Rightarrow> acquire_args" where
  "script_args cfg now instanceDepth instanceLevel base =
    \<lparr>aa_leaseTTL = (if Milliseconds (LeaseTTL cfg) \<le> 0 then Milliseconds Minute else Milliseconds (LeaseTTL cfg)),
     aa_globalExpire = windowSeconds (BackpressureWindow cfg), aa_userExpire = secondsCeil (UserBackpressureWindow cfg),
     aa_globalSoft = BackpressureSoftLimit cfg, aa_globalHard = BackpressureHardLimit cfg,
     aa_userSoft = UserBackpressureSoftLimit cfg, aa_userHard = UserBackpressureHardLimit cfg,
     aa_instanceDepth = instanceDepth, aa_instanceLevel = instanceLevel, aa_updatedAt = now, aa_base = base\<rparr>"

text \<open>The reply of an acquisition, seven values long; a shorter one is an error, also the one the script gives for a taken key.\<close>

definition read_reply ::
  "('r, 'l) PendingEnv \<Rightarrow> instant \<Rightarrow> string \<Rightarrow> int \<Rightarrow> BackpressureLevel \<Rightarrow> pendingLeaseSnapshot \<Rightarrow> goval list \<Rightarrow> ('r, 'l) pending_data
    \<Rightarrow> (pending_error + pendingAcquireOutcome) \<times> ('r, 'l) pending_data" where
  "read_reply E now username instanceDepth instanceLevel x arr s =
    (if length arr < 7 then (Inl (ErrMessage ''unexpected lua result type []interface {}''), snd (decInstanceActive s))
     else if luaToInt (arr ! 0) = 0 then (Inr (not_created ''lua'' x), snd (decInstanceActive s))
     else (let queueDepth = luaToInt (arr ! 1); userDepth = luaToInt (arr ! 2);
               globalLevel = level_of_string (luaToString (arr ! 3)); userLevel = level_of_string (luaToString (arr ! 4))
           in case aggregate globalLevel userLevel instanceLevel now s of
                (agg, s1) \<Rightarrow>
                  (let x1 = x\<lparr>sn_QueueDepth := queueDepth, sn_UserQueueDepth := userDepth, sn_UserBackpressure := userLevel,
                             sn_Backpressure := agg, sn_Degraded := (agg \<noteq> BackpressureNone)\<rparr>;
                       reply = luaToString (arr ! 6);
                       payload = (if reply = [] then (case js_marshal (pe_codec E) x1 of Inr p \<Rightarrow> p | Inl err \<Rightarrow> []) else reply);
                       s2 = storeUserSample now username userDepth userLevel (storeGlobalSample now queueDepth globalLevel s1)
                   in (Inr \<lparr>ao_created = True, ao_queueDepth = queueDepth, ao_globalLevel = globalLevel, ao_userQueueDepth = userDepth,
                          ao_userLevel = userLevel, ao_instanceDepth = instanceDepth, ao_instanceLevel = instanceLevel,
                          ao_aggregateLevel = agg, ao_snapshot = x1, ao_finalPayload = payload, ao_method = ''lua''\<rparr>, s2))))"

definition pendingAcquireViaLua ::
  "('r, 'l) PendingEnv \<Rightarrow> instant \<Rightarrow> string \<Rightarrow> string \<Rightarrow> pendingLeaseSnapshot \<Rightarrow> ('r, 'l) pending_data
    \<Rightarrow> (pending_error + pendingAcquireOutcome) \<times> ('r, 'l) pending_data" where
  "pendingAcquireViaLua E now username key x0 s =
    (let metricsKey = TrimSpace (MetricsKey (cfg_of s)); userDepthKey = pendingUserDepthKey (co_of s) username
     in if pe_redis E = None \<or> metricsKey = [] \<or> userDepthKey = [] then (Inl errAcquireLuaUnavailable, s)
        else case incInstanceActive s of
               (instanceDepth, s1) \<Rightarrow>
                 (let instanceLevel = classifyInstanceBackpressure (co_of s1) instanceDepth;
                      x = x0\<lparr>sn_InstanceQueueDepth := instanceDepth, sn_InstanceBackpressure := instanceLevel, sn_UpdatedAt := now\<rparr>
                  in case js_marshal (pe_codec E) x of
                       Inl err \<Rightarrow> (Inl err, snd (decInstanceActive s1))
                     | Inr base \<Rightarrow>
                         (let a = script_args (cfg_of s1) now instanceDepth instanceLevel base;
                              cached = TrimSpace (co_scriptSHA (co_of s1))
                          in case (if cached \<noteq> [] then (Inr cached, s1) else loadPendingAcquireScript E s1) of
                               (Inl err, s2) \<Rightarrow> (Inl err, snd (decInstanceActive s2))
                             | (Inr sha, s2) \<Rightarrow>
                                 (case evalPendingAcquireScript E now sha [key, metricsKey, userDepthKey] a s2 of
                                    (Inl err, s3) \<Rightarrow> (Inl err, snd (decInstanceActive s3))
                                  | (Inr arr, s3) \<Rightarrow> read_reply E now username instanceDepth instanceLevel x arr s3))))"

text \<open>Without the script: SETNX first, then the counters, then the snapshot once more.\<close>

definition legacy_count ::
  "('r, 'l) PendingEnv \<Rightarrow> instant \<Rightarrow> string \<Rightarrow> string \<Rightarrow> pendingLeaseSnapshot \<Rightarrow> string \<Rightarrow> ('r, 'l) pending_data
    \<Rightarrow> pendingAcquireOutcome \<times> ('r, 'l) pending_data" where
  "legacy_count E now username key x0 basePayload s =
    (let S = fst (server_of E); pfx = snd (server_of E)
     in case on_redis (IncrememntWithExpire S pfx now (MetricsKey (cfg_of s)) (windowSeconds (BackpressureWindow (cfg_of s)))) s of
          (queueDepth, s1) \<Rightarrow>
            (let level = classifyBackpressure (co_of s1) queueDepth
             in case incrementUserQueueDepth E now username (storeGlobalSample now queueDepth level s1) of
                  ((userQueueDepth, userDepthErr), s2) \<Rightarrow>
                    (let userLevel = classifyUserBackpressure (co_of s2) userQueueDepth
                     in case incInstanceActive s2 of
                          (instanceDepth, s3) \<Rightarrow>
                            (let instanceLevel = classifyInstanceBackpressure (co_of s3) instanceDepth
                             in case aggregate level userLevel instanceLevel now s3 of
                                  (agg0, s4) \<Rightarrow>
                                    (let agg = (if userDepthErr \<noteq> None then mergeBackpressureLevels [agg0, BackpressureElevated] else agg0);
                                         s5 = (if userDepthErr \<noteq> None then fallbackThrottle s4 else storeUserSample now username userQueueDepth userLevel s4);
                                         x = x0\<lparr>sn_QueueDepth := queueDepth, sn_Backpressure := agg, sn_UserQueueDepth := userQueueDepth,
                                               sn_UserBackpressure := userLevel, sn_InstanceQueueDepth := instanceDepth,
                                               sn_InstanceBackpressure := instanceLevel, sn_Degraded := (agg \<noteq> BackpressureNone), sn_UpdatedAt := now\<rparr>
                                     in case write_snapshot E now key x (LeaseTTL (cfg_of s5)) s5 of
                                          (res, s6) \<Rightarrow>
                                            (\<lparr>ao_created = True, ao_queueDepth = queueDepth, ao_globalLevel = level, ao_userQueueDepth = userQueueDepth,
                                              ao_userLevel = userLevel, ao_instanceDepth = instanceDepth, ao_instanceLevel = instanceLevel,
                                              ao_aggregateLevel = agg, ao_snapshot = x,
                                              ao_finalPayload = (case (res, js_marshal (pe_codec E) x) of (None, Inr p) \<Rightarrow> p | _ \<Rightarrow> basePayload),
                                              ao_method = ''legacy''\<rparr>, s6))))))"

definition pendingAcquireLegacy ::
  "('r, 'l) PendingEnv \<Rightarrow> instant \<Rightarrow> string \<Rightarrow> string \<Rightarrow> pendingLeaseSnapshot \<Rightarrow> string \<Rightarrow> ('r, 'l) pending_data
    \<Rightarrow> (pending_error + pendingAcquireOutcome) \<times> ('r, 'l) pending_data" where
  "pendingAcquireLegacy E now username key x basePayload s =
    (case pe_redis E of
       None \<Rightarrow> (Inl (ErrMessage ''pending coordinator redis backend unavailable''), s)
     | Some (S, pfx) \<Rightarrow>
         (case on_redis (SetNXWithCommandTimeout S pfx now key basePayload (LeaseTTL (cfg_of s))) s of
            (Inl err, s1) \<Rightarrow> (Inl err, s1)
          | (Inr False, s1) \<Rightarrow> (Inr (not_created ''legacy'' x), s1)
          | (Inr True, s1) \<Rightarrow> (case legacy_count E now username key x basePayload s1 of (outcome, s2) \<Rightarrow> (Inr outcome, s2))))"

definition tryPendingAcquire ::
  "('r, 'l) PendingEnv \<Rightarrow> instant \<Rightarrow> string \<Rightarrow> string \<Rightarrow> pendingLeaseSnapshot \<Rightarrow> string \<Rightarrow> ('r, 'l) pending_data
    \<Rightarrow> (pending_error + pendingAcquireOutcome) \<times> ('r, 'l) pending_data" where
  "tryPendingAcquire E now username key x basePayload s =
    (case pendingAcquireViaLua E now username key x s of
       (Inr outcome, s1) \<Rightarrow> (Inr outcome, s1)
     | (Inl err, s1) \<Rightarrow> if err = errAcquireLuaUnavailable then pendingAcquireLegacy E now username key x basePayload s1 else (Inl err, s1))"

section \<open>Acquire\<close>

text \<open>The sample of an attempt: that of the request if it is this user's, or completed by the user's part.\<close>

definition attempt_sample ::
  "('r, 'l) PendingEnv \<Rightarrow> instant \<Rightarrow> string \<Rightarrow> BackpressureSample option \<Rightarrow> ('r, 'l) pending_data \<Rightarrow> BackpressureSample \<times> ('r, 'l) pending_data" where
  "attempt_sample E now trimmed ctxSample s =
    (case ctxSample of
       None \<Rightarrow> SampleBackpressure E now trimmed s
     | Some smp \<Rightarrow>
         if bs_Username smp \<noteq> [] \<and> bs_Username smp \<noteq> trimmed then SampleBackpressure E now trimmed s
         else if bs_Username smp = [] \<and> trimmed \<noteq> [] \<and> bs_UserLevel smp = BackpressureUnset
         then (case SampleUserQueueDepth E now trimmed s of
                 ((ud, ul, ue), s1) \<Rightarrow>
                   (case aggregate (bs_GlobalLevel smp) ul (bs_InstanceLevel smp) now s1 of
                      (agg, s2) \<Rightarrow>
                        (smp\<lparr>bs_Username := trimmed, bs_UserDepth := ud, bs_UserLevel := ul, bs_UserErr := (ue \<noteq> None),
                             bs_AggregateLevel := agg, bs_Source := ''augmented''\<rparr>, s2)))
         else (smp, s))"

definition lease_snapshot :: "PendingCoordinatorConfig \<Rightarrow> string \<Rightarrow> LeaseMetadata \<Rightarrow> instant \<Rightarrow> string \<Rightarrow> pendingLeaseSnapshot" where
  "lease_snapshot cfg trimmed meta now ownerID =
    blank_snapshot\<lparr>sn_Status := ''pending'', sn_State := PendingStateLease, sn_OwnerID := ownerID, sn_Version := UnixNano now,
      sn_LeaseExpiresAt := time_Add now (LeaseTTL cfg), sn_AcquireAt := now, sn_HeartbeatAt := now, sn_UpdatedAt := now,
      sn_Username := trimmed, sn_RequestID := TrimSpace (lm_RequestID meta), sn_Operator := TrimSpace (lm_Operator meta),
      sn_ClientIP := TrimSpace (lm_ClientIP meta), sn_LegacyRequestID := TrimSpace (lm_LegacyRequestID meta)\<rparr>"

text \<open>No state at all, where the error carries none, is the empty one.\<close>

definition refused :: "AcquireFailureReason \<Rightarrow> PendingState \<Rightarrow> int \<Rightarrow> pending_error" where
  "refused reason st depth = ErrAcquire \<lparr>ae_Reason = reason, ae_State = st, ae_QueueDepth = depth\<rparr>"

text \<open>After an attempt that created nothing: what holds the key, promoted if its lease is over, decides. \<open>None\<close> asks for
  another attempt.\<close>

definition acquire_conflict ::
  "('r, 'l) PendingEnv \<Rightarrow> instant \<Rightarrow> string \<Rightarrow> bool \<Rightarrow> ('r, 'l) pending_data \<Rightarrow> pending_error option \<times> ('r, 'l) pending_data" where
  "acquire_conflict E now trimmed retry s =
    (case redis_Observe E now trimmed s of
       (Inl err, s1) \<Rightarrow> (Some err, s1)
     | (Inr st0, s1) \<Rightarrow>
         (case (if shouldPromoteExpired (cfg_of s1) st0 now
                then (case promoteExpired E now trimmed st0 s1 of
                        (Inl err, s2) \<Rightarrow> (Inl err, s2)
                      | (Inr b, s2) \<Rightarrow> (case redis_Observe E now trimmed s2 of
                           (Inl err, s3) \<Rightarrow> (Inr st0, s3) | (Inr st, s3) \<Rightarrow> (Inr st, s3)))
                else (Inr st0, s1)) of
            (Inl err, s2) \<Rightarrow> (Some err, s2)
          | (Inr st, s2) \<Rightarrow>
              if ps_State st = PendingStateReleased
              then (case cleanupReleasedState E now trimmed s2 of
                      (Some err, s3) \<Rightarrow> (Some err, s3)
                    | (None, s3) \<Rightarrow> (if retry then None else Some (refused AcquireFailureConflict st (ps_QueueDepth st)), s3))
              else (Some (refused AcquireFailureConflict st (ps_QueueDepth st)), s2)))"

text \<open>After an attempt that created the lease: under severe backpressure it is released again.\<close>

definition acquire_created ::
  "('r, 'l) PendingEnv \<Rightarrow> instant \<Rightarrow> string \<Rightarrow> LeaseMetadata \<Rightarrow> string \<Rightarrow> pendingAcquireOutcome \<Rightarrow> ('r, 'l) pending_data
    \<Rightarrow> (pending_error + AcquireResult) \<times> ('r, 'l) pending_data" where
  "acquire_created E now trimmed meta ownerID o1 s =
    (if ao_aggregateLevel o1 = BackpressureSevere
     then (Inl (refused AcquireFailureBackpressure
             ((pending_state (sn_State (ao_snapshot o1)))\<lparr>ps_Exists := True, ps_LeaseOwner := ownerID, ps_Version := sn_Version (ao_snapshot o1),
                ps_Username := trimmed, ps_Backpressure := BackpressureSevere, ps_QueueDepth := ao_queueDepth o1,
                ps_UserQueueDepth := ao_userQueueDepth o1, ps_InstanceQueueDepth := ao_instanceDepth o1,
                ps_UserBackpressure := ao_userLevel o1, ps_InstanceBackpressure := ao_instanceLevel o1, ps_Raw := ao_finalPayload o1\<rparr>)
             (ao_queueDepth o1)), snd (redis_Release E now trimmed ownerID s))
     else (Inr \<lparr>ar_Lease = \<lparr>pl_Username = trimmed, pl_OwnerID = ownerID, pl_Version = sn_Version (ao_snapshot o1), pl_AcquireAt = now,
               pl_LeaseExpiresAt = time_Add now (LeaseTTL (cfg_of s)), pl_HeartbeatAt = now, pl_QueueDepth = ao_queueDepth o1,
               pl_Backpressure = ao_aggregateLevel o1, pl_Metadata = meta\<rparr>, ar_SetNXDuration = 0\<rparr>, s))"

text \<open>The precheck of an attempt: a severe sample refuses; a sample that failed or is elevated delays.\<close>

definition acquire_precheck ::
  "('r, 'l) PendingEnv \<Rightarrow> BackpressureSample \<Rightarrow> ('r, 'l) pending_data \<Rightarrow> pending_error option \<times> ('r, 'l) pending_data" where
  "acquire_precheck E smp s =
    (let fallbackSampling = (bs_GlobalErr smp \<or> bs_UserErr smp);
         level = (if fallbackSampling then mergeBackpressureLevels [bs_AggregateLevel smp, BackpressureElevated] else bs_AggregateLevel smp)
     in if level = BackpressureSevere
        then (Some (refused AcquireFailureBackpressure (pending_state PendingStateUnknown) (MaxDepth smp)), s)
        else (let s1 = (if fallbackSampling then fallbackThrottle s else s)
              in (None, if level = BackpressureElevated then applyBackpressureDelay E level (MaxDepth smp) s1 else s1)))"

definition releasedStateRetryLimit :: nat where "releasedStateRetryLimit = 3"

text \<open>The attempts: \<open>n\<close> more may follow the present one.\<close>

fun acquire_loop ::
  "('r, 'l) PendingEnv \<Rightarrow> instant \<Rightarrow> string \<Rightarrow> LeaseMetadata \<Rightarrow> (nat \<Rightarrow> string) \<Rightarrow> BackpressureSample option \<Rightarrow> nat \<Rightarrow> ('r, 'l) pending_data
    \<Rightarrow> (pending_error + AcquireResult) \<times> ('r, 'l) pending_data" where
  "acquire_loop E now trimmed meta uuid ctxSample n s =
    (case attempt_sample E now trimmed ctxSample s of
       (smp, s1) \<Rightarrow>
         (case acquire_precheck E smp s1 of
            (Some err, s2) \<Rightarrow> (Inl err, s2)
          | (None, s2) \<Rightarrow>
              (let ownerID = uuid n; x = lease_snapshot (cfg_of s2) trimmed meta now ownerID
               in case js_marshal (pe_codec E) x of
                    Inl err \<Rightarrow> (Inl (ErrMessage ''marshal pending snapshot''), s2)
                  | Inr basePayload \<Rightarrow>
                      (case tryPendingAcquire E now trimmed (PendingCreateKey trimmed) x basePayload s2 of
                         (Inl err, s3) \<Rightarrow> (Inl err, s3)
                       | (Inr outcome, s3) \<Rightarrow>
                           if ao_created outcome then acquire_created E now trimmed meta ownerID outcome s3
                           else (case acquire_conflict E now trimmed (0 < n) s3 of
                                   (Some err, s4) \<Rightarrow> (Inl err, s4)
                                 | (None, s4) \<Rightarrow>
                                     (case n of
                                        0 \<Rightarrow> (Inl (ErrMessage ''pending lease acquisition retries exhausted''), s4)
                                      | Suc m \<Rightarrow> acquire_loop E now trimmed meta uuid (Some smp) m s4))))))"

definition redis_Acquire ::
  "('r, 'l) PendingEnv \<Rightarrow> instant \<Rightarrow> string \<Rightarrow> LeaseMetadata \<Rightarrow> (nat \<Rightarrow> string) \<Rightarrow> BackpressureSample option \<Rightarrow> ('r, 'l) pending_data
    \<Rightarrow> (pending_error + AcquireResult) \<times> ('r, 'l) pending_data" where
  "redis_Acquire E now username meta uuid ctxSample s =
    (let trimmed = TrimSpace username
     in if trimmed = [] then (Inl (ErrMessage ''username required''), s)
        else case guardTokenBucket (pe_lib E) now trimmed (co_buckets (co_of s)) of
               (False, b) \<Rightarrow> (Inl (refused AcquireFailureBackpressure (pending_state PendingStateUnknown) 0), upd_co (\<lambda>c. c\<lparr>co_buckets := b\<rparr>) s)
             | (True, b) \<Rightarrow>
                 (let s1 = upd_co (\<lambda>c. c\<lparr>co_buckets := b\<rparr>) s
                  in if use_memory E then on_fallback (\<lambda>m. mem_Acquire m trimmed meta now (uuid 0)) s1
                     else if PendingCreateKey trimmed = [] then (Inl (ErrMessage ''pending key empty''), s1)
                     else acquire_loop E now trimmed meta uuid ctxSample releasedStateRetryLimit s1))"

end
