(* ===== verification/PendingCalibration.thy ===== *)
theory PendingCalibration
  imports PendingRedisAcquire
begin

text \<open>
  The pending coordinator on Redis, last part (pending_state_machine.go): the calibration that recounts the
  leases and rewrites the counters, its loop as a step relation's next state, the listing of
  expired leases and the health check. The context of a calibration does not end early; a Go map is an
  association list, visited in its order.
\<close>

section \<open>Counting\<close>

definition count_user :: "string \<Rightarrow> (string \<times> int) list \<Rightarrow> (string \<times> int) list" where
  "count_user u counts = AList.update u ((case map_of counts u of None \<Rightarrow> 0 | Some n \<Rightarrow> n) + 1) counts"

fun calibrate_scan ::
  "('r, 'l) PendingEnv \<Rightarrow> instant \<Rightarrow> string list \<Rightarrow> int \<Rightarrow> (string \<times> int) list \<Rightarrow> ('r, 'l) pending_data
    \<Rightarrow> (int \<times> (string \<times> int) list) \<times> ('r, 'l) pending_data" where
  "calibrate_scan E now [] active_total counts s = ((active_total, counts), s)"
| "calibrate_scan E now (key # ks) active_total counts s =
    (let username = usernameFromKeyWithPrefix key PendingCreatePrefix
     in if username = [] then calibrate_scan E now ks active_total counts s
        else case redis_Observe E now username s of
               (Inl err, s1) \<Rightarrow> calibrate_scan E now ks active_total counts s1
             | (Inr st, s1) \<Rightarrow>
                 if \<not> ps_Exists st \<or> ps_State st \<noteq> PendingStateLease \<or> shouldPromoteExpired (cfg_of s1) st now
                 then calibrate_scan E now ks active_total counts s1
                 else calibrate_scan E now ks (active_total + 1) (count_user username counts) s1)"

section \<open>Writing the counters\<close>

definition set_counter ::
  "('r, 'l) PendingEnv \<Rightarrow> instant \<Rightarrow> string \<Rightarrow> int \<Rightarrow> duration \<Rightarrow> ('r, 'l) pending_data \<Rightarrow> ('r, 'l) pending_data" where
  "set_counter E now key n window s =
    snd (on_redis (SetKeyWithCommandTimeout (fst (server_of E)) (snd (server_of E)) now key (FormatInt n) window) s)"

fun set_user_counters ::
  "('r, 'l) PendingEnv \<Rightarrow> instant \<Rightarrow> (string \<times> int) list \<Rightarrow> ('r, 'l) pending_data \<Rightarrow> ('r, 'l) pending_data" where
  "set_user_counters E now [] s = s"
| "set_user_counters E now ((username, depth) # counts) s =
    (let key = pendingUserDepthKey (co_of s) username
     in set_user_counters E now counts
          (if key = [] then s else set_counter E now key depth (UserBackpressureWindow (cfg_of s)) s))"

fun delete_stale ::
  "('r, 'l) PendingEnv \<Rightarrow> instant \<Rightarrow> string \<Rightarrow> (string \<times> int) list \<Rightarrow> string list \<Rightarrow> ('r, 'l) pending_data \<Rightarrow> ('r, 'l) pending_data" where
  "delete_stale E now pre active [] s = s"
| "delete_stale E now pre active (key # ks) s =
    (let username = usernameFromKeyWithPrefix key pre
     in delete_stale E now pre active ks
          (if username = [] \<or> map_of active username \<noteq> None then s
           else snd (on_redis (DeleteKeyWithCommandTimeout (fst (server_of E)) (snd (server_of E)) now key) s)))"

definition cleanupStaleUserDepthKeys ::
  "('r, 'l) PendingEnv \<Rightarrow> instant \<Rightarrow> (string \<times> int) list \<Rightarrow> ('r, 'l) pending_data \<Rightarrow> ('r, 'l) pending_data" where
  "cleanupStaleUserDepthKeys E now active s =
    (let p = TrimSpace (UserMetricsPrefix (cfg_of s)); pre = normalizeKeyPrefix p
     in if pe_redis E = None \<or> p = [] then s
        else case on_redis (GetKeys (fst (server_of E)) (snd (server_of E)) now pre) s of
               (ks, s1) \<Rightarrow> delete_stale E now pre active ks s1)"

definition applyCalibratedCounts ::
  "('r, 'l) PendingEnv \<Rightarrow> instant \<Rightarrow> int \<Rightarrow> (string \<times> int) list \<Rightarrow> ('r, 'l) pending_data \<Rightarrow> ('r, 'l) pending_data" where
  "applyCalibratedCounts E now global userCounts s =
    (if pe_redis E = None then s
     else let metricsKey = TrimSpace (MetricsKey (cfg_of s));
              s1 = (if metricsKey \<noteq> [] then set_counter E now metricsKey global (BackpressureWindow (cfg_of s)) s else s)
          in cleanupStaleUserDepthKeys E now userCounts (set_user_counters E now userCounts s1))"

definition calibrateCounters :: "('r, 'l) PendingEnv \<Rightarrow> instant \<Rightarrow> ('r, 'l) pending_data \<Rightarrow> ('r, 'l) pending_data" where
  "calibrateCounters E now s =
    (if pe_redis E = None then s
     else case on_redis (GetKeys (fst (server_of E)) (snd (server_of E)) now PendingCreatePrefix) s of
            (ks, s1) \<Rightarrow>
              (case calibrate_scan E now ks 0 [] s1 of
                 ((active_total, counts), s2) \<Rightarrow> applyCalibratedCounts E now active_total counts s2))"

text \<open>What wakes the loop up; a settings change with or without an interval only starts the wait anew.\<close>

datatype calibration_event = TimerFires | SettingsChange | StopSignal

definition runCalibrationLoop ::
  "('r, 'l) PendingEnv \<Rightarrow> instant \<Rightarrow> calibration_event \<Rightarrow> bool \<times> ('r, 'l) pending_data \<Rightarrow> bool \<times> ('r, 'l) pending_data" where
  "runCalibrationLoop E now ev st =
    (case st of (running, s) \<Rightarrow>
      if \<not> running then (False, s)
      else case ev of
             StopSignal \<Rightarrow> (False, s)
           | SettingsChange \<Rightarrow> (True, s)
           | TimerFires \<Rightarrow> (True, if 0 < co_calibrationIntervalNS (co_of s) then calibrateCounters E now s else s))"

section \<open>Listing and health\<close>

fun list_expired_scan ::
  "('r, 'l) PendingEnv \<Rightarrow> instant \<Rightarrow> nat \<Rightarrow> string list \<Rightarrow> PendingState list \<Rightarrow> ('r, 'l) pending_data
    \<Rightarrow> PendingState list \<times> ('r, 'l) pending_data" where
  "list_expired_scan E now limit [] result s = (result, s)"
| "list_expired_scan E now limit (key # ks) result s =
    (if limit \<le> length result then (result, s)
     else let username = usernameFromKeyWithPrefix key PendingCreatePrefix
          in if \<not> HasPrefix key PendingCreatePrefix \<or> username = [] then list_expired_scan E now limit ks result s
             else case redis_Observe E now username s of
                    (Inl err, s1) \<Rightarrow> list_expired_scan E now limit ks result s1
                  | (Inr st, s1) \<Rightarrow>
                      if ps_Exists st \<and> ps_State st = PendingStateExpired
                      then list_expired_scan E now limit ks
                             (result @ [if TrimSpace (ps_Username st) = [] then st\<lparr>ps_Username := username\<rparr> else st]) s1
                      else list_expired_scan E now limit ks result s1)"

definition redis_ListExpired ::
  "('r, 'l) PendingEnv \<Rightarrow> instant \<Rightarrow> int \<Rightarrow> ('r, 'l) pending_data \<Rightarrow> PendingState list \<times> ('r, 'l) pending_data" where
  "redis_ListExpired E now limit s =
    (if use_memory E then on_fallback (\<lambda>m. mem_ListExpired m limit now) s
     else case on_redis (GetKeys (fst (server_of E)) (snd (server_of E)) now PendingCreatePrefix) s of
            (ks, s1) \<Rightarrow> list_expired_scan E now (nat (if limit \<le> 0 then 128 else limit)) ks [] s1)"

definition CheckHealth :: "('r, 'l) PendingEnv \<Rightarrow> ('r, 'l) pending_data option \<Rightarrow> pending_error option \<times> ('r, 'l) pending_data option" where
  "CheckHealth E c =
    (case c of
       None \<Rightarrow> (Some (ErrMessage ''pending coordinator is nil''), None)
     | Some s \<Rightarrow>
         (case pe_redis E of
            None \<Rightarrow> (None, Some s)
          | Some (S, pfx) \<Rightarrow>
              (case on_redis (send S (\<lambda>r. ((), r))) s of
                 (Inl err, s1) \<Rightarrow> (Some err, Some s1)
               | (Inr u, s1) \<Rightarrow> (None, Some s1))))"

end
