(* ===== verification/PendingServerFacts.thy ===== *)
theory PendingServerFacts
  imports PendingCalibration
begin

text \<open>
  What the commands of the storage client do to the stored data: one lemma per command, as a
  frame at the other keys and as its effect at its own; and a table on which the laws of
  the server hold, with a list of the outcomes of reaching it.
\<close>

section \<open>The laws, command by command\<close>

lemma value_facts:
  assumes "server_laws S view"
  shows "sv_GET S now k r = map_option fst (kv_live now (view r k))"
    "view (sv_SET S now k v d r) = (view r)(k \<mapsto> kv_entry now v d)"
    "fst (sv_SETNX S now k v d r) = (kv_live now (view r k) = None)"
    "view (snd (sv_SETNX S now k v d r)) = (if kv_live now (view r k) = None then (view r)(k \<mapsto> kv_entry now v d) else view r)"
    "fst (sv_DEL S now k r) = (if kv_live now (view r k) = None then 0 else 1)"
    "view (snd (sv_DEL S now k r)) = (view r)(k := None)"
  using assms unfolding server_laws_def value_laws_def by blast+

lemma number_facts:
  assumes "server_laws S view"
  shows "counter_value (kv_live now (view r k)) n e \<Longrightarrow> in64 n \<Longrightarrow> in64 (n + 1) \<Longrightarrow>
      sv_INCR S now k r = (Inr (n + 1), snd (sv_INCR S now k r)) \<and> view (snd (sv_INCR S now k r)) = (view r)(k \<mapsto> (FormatInt (n + 1), e))"
    "counter_value (kv_live now (view r k)) n e \<Longrightarrow> in64 n \<Longrightarrow> in64 (n - 1) \<Longrightarrow>
      sv_DECR S now k r = (Inr (n - 1), snd (sv_DECR S now k r)) \<and> view (snd (sv_DECR S now k r)) = (view r)(k \<mapsto> (FormatInt (n - 1), e))"
    "k' \<noteq> k \<Longrightarrow> view (snd (sv_INCR S now k r)) k' = view r k'"
    "k' \<noteq> k \<Longrightarrow> view (snd (sv_DECR S now k r)) k' = view r k'"
    "view (sv_EXPIRE S now k secs r) = (view r)(k := (case kv_live now (view r k) of None \<Rightarrow> None
        | Some (v, e) \<Rightarrow> if secs \<le> 0 then None else Some (v, Some (now + secs * Second))))"
    "sv_TTL S now k r = (case kv_live now (view r k) of None \<Rightarrow> - 2 | Some (v, None) \<Rightarrow> - 1
        | Some (v, Some e) \<Rightarrow> ((e - now) div Millisecond + 500) div 1000)"
  using assms unfolding server_laws_def number_laws_def by (metis prod.collapse)+

lemma key_facts:
  assumes "server_laws S view"
  shows "set (sv_SCAN S now p r) = {k. HasPrefix k p \<and> kv_live now (view r k) \<noteq> None}"
    "view (snd (sv_SCRIPTLOAD S r)) = view r" "view (snd (sv_trip S r)) = view r"
  using assms unfolding server_laws_def key_laws_def by blast+

lemmas command_facts = value_facts number_facts(5,6) key_facts

section \<open>Frames\<close>

text \<open>A function of the data leaves a key alone.\<close>

definition leaves :: "('r \<Rightarrow> kview) \<Rightarrow> string \<Rightarrow> ('r \<Rightarrow> 'a \<times> 'r) \<Rightarrow> bool" where
  "leaves view k f \<longleftrightarrow> (\<forall>r. view (snd (f r)) k = view r k)"

lemma leavesI: "(\<And>r x r'. f r = (x, r') \<Longrightarrow> view r' k = view r k) \<Longrightarrow> leaves view k f"
  unfolding leaves_def by (metis prod.collapse)

lemma leavesD: "leaves view k f \<Longrightarrow> f r = (x, r') \<Longrightarrow> view r' k = view r k"
  unfolding leaves_def by (metis snd_conv)

lemma trip_view: "server_laws S view \<Longrightarrow> sv_trip S r = (o1, r') \<Longrightarrow> view r' = view r"
  using key_facts(3) [of S view r] by simp

lemma DEL_view: "server_laws S view \<Longrightarrow> sv_DEL S now k r = (n, r') \<Longrightarrow> view r' = (view r)(k := None)"
  using value_facts(6) [of S view now k r] by simp

lemma send_leaves:
  assumes "server_laws S view" and "leaves view k f"
  shows "leaves view k (send S f)"
proof (rule leavesI)
  fix r x r'
  assume "send S f r = (x, r')"
  then show "view r' k = view r k"
    using trip_view [OF assms(1)] leavesD [OF assms(2)] assms(2)
    by (auto simp: send_def leaves_def split: prod.splits trip.splits if_splits)
qed

lemma wrapper_leaves:
  assumes L: "server_laws S view" and k: "k \<noteq> fixKey pfx key"
  shows "leaves view k (SetKeyWithCommandTimeout S pfx now key v d)"
    "leaves view k (SetNXWithCommandTimeout S pfx now key v d)"
    "leaves view k (DeleteKeyWithCommandTimeout S pfx now key)"
    "leaves view k (IncrememntWithExpire S pfx now key secs)"
    "leaves view k (send S (decrementActiveLua S now (fixKey pfx key)))"
proof -
  show "leaves view k (SetKeyWithCommandTimeout S pfx now key v d)"
    unfolding SetKeyWithCommandTimeout_def by (rule send_leaves [OF L]) (use k in \<open>simp add: leaves_def value_facts [OF L]\<close>)
  show "leaves view k (SetNXWithCommandTimeout S pfx now key v d)"
    unfolding SetNXWithCommandTimeout_def by (rule send_leaves [OF L]) (use k in \<open>simp add: leaves_def value_facts [OF L]\<close>)
  show "leaves view k (DeleteKeyWithCommandTimeout S pfx now key)"
    unfolding DeleteKeyWithCommandTimeout_def
    by (rule send_leaves [OF L], rule leavesI) (use k in \<open>auto dest!: DEL_view [OF L] split: prod.splits\<close>)
  have i: "leaves view k (send S (sv_INCR S now (fixKey pfx key)))"
    by (rule send_leaves [OF L]) (use k in \<open>simp add: leaves_def number_facts [OF L]\<close>)
  have e: "leaves view k (send S (\<lambda>r. ((), sv_EXPIRE S now (fixKey pfx key) secs r)))"
    by (rule send_leaves [OF L]) (use k in \<open>simp add: leaves_def number_facts [OF L]\<close>)
  then have e': "view (snd (send S (\<lambda>r. ((), sv_EXPIRE S now (fixKey pfx key) secs r)) r)) k = view r k" for r
    by (simp add: leaves_def)
  show "leaves view k (IncrememntWithExpire S pfx now key secs)"
    by (rule leavesI) (auto simp: IncrememntWithExpire_def Let_def e' dest: leavesD [OF i] split: prod.splits if_splits)
  have d: "sv_DECR S now (fixKey pfx key) r = (x, r') \<Longrightarrow> view r' k = view r k" for r x r'
    using number_facts(4) [OF L k, of now r] by simp
  have "leaves view k (decrementActiveLua S now (fixKey pfx key))"
    by (rule leavesI) (use k in \<open>auto simp: decrementActiveLua_def value_facts [OF L] dest!: d split: option.splits prod.splits sum.splits if_splits\<close>)
  then show "leaves view k (send S (decrementActiveLua S now (fixKey pfx key)))" by (rule send_leaves [OF L])
qed

lemma pure_leaves: "server_laws S view \<Longrightarrow> leaves view k (send S (\<lambda>r. (g r, r)))"
  by (rule send_leaves) (simp_all add: leaves_def)

lemma reader_leaves:
  assumes L: "server_laws S view"
  shows "leaves view k (GetKeyWithCommandTimeout S pfx now key)" "leaves view k (GetExp S pfx now key)"
    "leaves view k (GetKeys S pfx now p)" "leaves view k (ScriptLoad S)"
proof -
  show "leaves view k (GetKeyWithCommandTimeout S pfx now key)"
    unfolding GetKeyWithCommandTimeout_def by (rule pure_leaves [OF L])
  show "leaves view k (GetExp S pfx now key)"
    by (rule leavesI) (auto simp: GetExp_def dest: leavesD [OF pure_leaves [OF L]] split: prod.splits sum.splits if_splits)
  show "leaves view k (GetKeys S pfx now p)"
    by (rule leavesI) (auto simp: GetKeys_def key_facts [OF L] dest: leavesD [OF pure_leaves [OF L]] split: prod.splits sum.splits if_splits)
  show "leaves view k (ScriptLoad S)"
    unfolding ScriptLoad_def by (rule send_leaves [OF L]) (simp add: leaves_def key_facts [OF L])
qed

text \<open>Under a key that only reading commands name, everything stays.\<close>

lemma reader_view:
  assumes L: "server_laws S view"
  shows "GetKeyWithCommandTimeout S pfx now key r = (x, r') \<Longrightarrow> view r' = view r"
    "GetExp S pfx now key r = (y, r') \<Longrightarrow> view r' = view r"
    "GetKeys S pfx now p r = (z, r') \<Longrightarrow> view r' = view r"
    "ScriptLoad S r = (u, r') \<Longrightarrow> view r' = view r"
  by (rule ext, erule leavesD [OF reader_leaves(1) [OF L]], rule ext, erule leavesD [OF reader_leaves(2) [OF L]],
    rule ext, erule leavesD [OF reader_leaves(3) [OF L]], rule ext, erule leavesD [OF reader_leaves(4) [OF L]])

section \<open>A reliable server\<close>

lemma up_send:
  assumes "server_laws S view" and "server_up S"
  obtains r1 where "send S f r = (Inr (fst (f r1)), snd (f r1))" and "view r1 = view r"
proof -
  obtain r1 where t: "sv_trip S r = (Reached, r1)" using assms(2) unfolding server_up_def by (metis prod.collapse)
  have "send S f r = (Inr (fst (f r1)), snd (f r1))" using t assms(2) by (simp add: send_def server_up_def split: prod.splits)
  with trip_view [OF assms(1) t] show ?thesis using that by blast
qed

lemma up_get:
  assumes "server_laws S view" and "server_up S"
  shows "\<exists>r'. GetKeyWithCommandTimeout S pfx now key r = (Inr (map_option fst (kv_live now (view r (fixKey pfx key)))), r') \<and> view r' = view r"
proof -
  obtain r1 where "GetKeyWithCommandTimeout S pfx now key r = (Inr (sv_GET S now (fixKey pfx key) r1), r1)" "view r1 = view r"
    using up_send [OF assms, of "\<lambda>r. (sv_GET S now (fixKey pfx key) r, r)" r] by (auto simp: GetKeyWithCommandTimeout_def)
  then show ?thesis by (simp add: value_facts [OF assms(1)])
qed

lemma up_set:
  assumes "server_laws S view" and "server_up S"
  shows "\<exists>r'. SetKeyWithCommandTimeout S pfx now key v d r = (Inr (), r') \<and> view r' = (view r)(fixKey pfx key \<mapsto> kv_entry now v d)"
proof -
  let ?f = "\<lambda>r. ((), sv_SET S now (fixKey pfx key) v d r)"
  obtain r1 where s: "send S ?f r = (Inr (fst (?f r1)), snd (?f r1))" and v: "view r1 = view r" using up_send [OF assms] by blast
  then show ?thesis by (simp add: SetKeyWithCommandTimeout_def value_facts(2) [OF assms(1)])
qed

lemma up_delete:
  assumes "server_laws S view" and "server_up S"
  shows "\<exists>r'. DeleteKeyWithCommandTimeout S pfx now key r = (Inr (kv_live now (view r (fixKey pfx key)) \<noteq> None), r')
    \<and> view r' = (view r)(fixKey pfx key := None)"
proof -
  let ?f = "\<lambda>r. case sv_DEL S now (fixKey pfx key) r of (n, r1) \<Rightarrow> (0 < n, r1)"
  obtain r1 where s: "send S ?f r = (Inr (fst (?f r1)), snd (?f r1))" and v: "view r1 = view r" using up_send [OF assms] by blast
  obtain n r2 where d: "sv_DEL S now (fixKey pfx key) r1 = (n, r2)" by fastforce
  have "n = (if kv_live now (view r (fixKey pfx key)) = None then 0 else 1)" "view r2 = (view r)(fixKey pfx key := None)"
    using value_facts(5,6) [OF assms(1), of now "fixKey pfx key" r1] by (simp_all add: d v)
  with s show ?thesis by (simp add: DeleteKeyWithCommandTimeout_def d)
qed

text \<open>
  What an operation of the coordinator on Redis leaves alone: its settings, and a key that is neither a
  counter of its own nor a lease it is about. Both are one value, \<open>seen\<close>, so that each
  operation has one equation, in the order of the code's calls.
\<close>

section \<open>What is looked at\<close>

definition served :: "('r, 'l) PendingEnv \<Rightarrow> 'r Server \<Rightarrow> string \<Rightarrow> ('r \<Rightarrow> kview) \<Rightarrow> bool" where
  "served E S pfx view \<longleftrightarrow> pe_redis E = Some (S, pfx) \<and> server_laws S view"

definition depth_prefix :: "PendingCoordinatorConfig \<Rightarrow> string" where
  "depth_prefix cfg = (let p = TrimSpace (UserMetricsPrefix cfg) in if p = [] then PendingUserDepthPrefix else p)"

lemma depth_key: "pendingUserDepthKey c v = userScopedKey (depth_prefix (co_cfg c)) v"
  by (simp add: pendingUserDepthKey_def depth_prefix_def Let_def)

text \<open>The key is no counter of the settings, with or without the blanks around it.\<close>

definition apart :: "string \<Rightarrow> string \<Rightarrow> PendingCoordinatorConfig \<Rightarrow> bool" where
  "apart pfx k cfg \<longleftrightarrow> k \<noteq> fixKey pfx (MetricsKey cfg) \<and> k \<noteq> fixKey pfx (TrimSpace (MetricsKey cfg))
    \<and> (\<forall>v. k \<noteq> fixKey pfx (userScopedKey (depth_prefix cfg) v) \<and> k \<noteq> fixKey pfx (TrimSpace (userScopedKey (depth_prefix cfg) v)))"

definition seen :: "('r \<Rightarrow> kview) \<Rightarrow> string \<Rightarrow> string \<Rightarrow> ('r, 'l) pending_data
    \<Rightarrow> PendingCoordinatorConfig \<times> (string \<times> instant option) option" where
  "seen view pfx k s = (cfg_of s, if apart pfx k (cfg_of s) then view (pd_redis s) k else None)"

lemma seen_cfg: "seen view pfx k s' = seen view pfx k s \<Longrightarrow> cfg_of s' = cfg_of s"
  by (simp add: seen_def)

lemma seen_view: "seen view pfx k s' = seen view pfx k s \<Longrightarrow> apart pfx k (cfg_of s) \<Longrightarrow> view (pd_redis s') k = view (pd_redis s) k"
  by (auto simp: seen_def)

lemma served_server: "served E S pfx view \<Longrightarrow> server_of E = (S, pfx) \<and> server_laws S view \<and> pe_redis E = Some (S, pfx)"
  by (simp add: served_def server_of_def)

section \<open>Steps of the process\<close>

lemma upd_co_seen: "(\<And>c. co_cfg (f c) = co_cfg c) \<Longrightarrow> seen view pfx k (upd_co f s) = seen view pfx k s"
  by (simp add: seen_def upd_co_def)

lemma co_steps_seen [simp]:
  "seen view pfx k (slept d s) = seen view pfx k s"
  "seen view pfx k (storeGlobalSample now n l s) = seen view pfx k s"
  "seen view pfx k (storeUserSample now u n l s) = seen view pfx k s"
  "seen view pfx k (forget_user_sample u s) = seen view pfx k s"
  "seen view pfx k (fallbackThrottle s) = seen view pfx k s"
  "seen view pfx k (applyBackpressureDelay E l n s) = seen view pfx k s"
  "seen view pfx k (snd (incInstanceActive s)) = seen view pfx k s"
  "seen view pfx k (snd (decInstanceActive s)) = seen view pfx k s"
  "seen view pfx k (snd (aggregate a b c now s)) = seen view pfx k s"
  "seen view pfx k (scheduleQueueDepthReconcile E key s) = seen view pfx k s"
  by (auto simp: slept_def storeGlobalSample_def storeUserSample_def forget_user_sample_def fallbackThrottle_def
      applyBackpressureDelay_def incInstanceActive_def decInstanceActive_def aggregate_def scheduleQueueDepthReconcile_def
      Let_def upd_co_seen split: prod.splits)

lemma co_seenD:
  "incInstanceActive s = (n, s') \<Longrightarrow> seen view pfx k s' = seen view pfx k s"
  "decInstanceActive s = (n, s') \<Longrightarrow> seen view pfx k s' = seen view pfx k s"
  "aggregate a b c now s = (l, s') \<Longrightarrow> seen view pfx k s' = seen view pfx k s"
  "on_fallback f s = (x, s') \<Longrightarrow> seen view pfx k s' = seen view pfx k s"
  by (metis co_steps_seen(7) snd_conv, metis co_steps_seen(8) snd_conv, metis co_steps_seen(9) snd_conv)
    (auto simp: on_fallback_def upd_co_seen split: prod.splits)

section \<open>Steps of the server\<close>

lemma on_redis_seen:
  assumes "on_redis f s = (x, s')" and "apart pfx k (cfg_of s) \<Longrightarrow> leaves view k f"
  shows "seen view pfx k s' = seen view pfx k s"
  using assms by (auto simp: on_redis_def seen_def dest!: leavesD split: prod.splits)

lemma read_seen:
  assumes "served E S pfx view"
  shows "on_redis (GetKeyWithCommandTimeout S pfx now key) s = (a, s') \<Longrightarrow> seen view pfx k s' = seen view pfx k s"
    "on_redis (GetExp S pfx now key) s = (b, s') \<Longrightarrow> seen view pfx k s' = seen view pfx k s"
    "on_redis (GetKeys S pfx now p) s = (c, s') \<Longrightarrow> seen view pfx k s' = seen view pfx k s"
    "on_redis (ScriptLoad S) s = (d, s') \<Longrightarrow> seen view pfx k s' = seen view pfx k s"
  using reader_leaves [of S view k] assms by (blast intro: on_redis_seen dest: served_server)+

lemma write_seen:
  assumes "served E S pfx view" and "k \<noteq> fixKey pfx key"
  shows "on_redis (SetKeyWithCommandTimeout S pfx now key v d) s = (a, s') \<Longrightarrow> seen view pfx k s' = seen view pfx k s"
    "on_redis (SetNXWithCommandTimeout S pfx now key v d) s = (b, s') \<Longrightarrow> seen view pfx k s' = seen view pfx k s"
    "on_redis (DeleteKeyWithCommandTimeout S pfx now key) s = (c, s') \<Longrightarrow> seen view pfx k s' = seen view pfx k s"
  using wrapper_leaves [of S view k pfx key] assms by (blast intro: on_redis_seen dest: served_server)+

lemma counter_seen:
  assumes "served E S pfx view"
  shows "on_redis (IncrememntWithExpire S pfx now (MetricsKey (cfg_of s)) secs) s = (a, s') \<Longrightarrow> seen view pfx k s' = seen view pfx k s"
    "on_redis (IncrememntWithExpire S pfx now (pendingUserDepthKey (co_of s) v) secs) s = (b, s') \<Longrightarrow> seen view pfx k s' = seen view pfx k s"
    "on_redis (SetKeyWithCommandTimeout S pfx now (TrimSpace (MetricsKey (cfg_of s))) t d) s = (c, s') \<Longrightarrow> seen view pfx k s' = seen view pfx k s"
    "on_redis (SetKeyWithCommandTimeout S pfx now (pendingUserDepthKey (co_of s) v) t d) s = (c, s') \<Longrightarrow> seen view pfx k s' = seen view pfx k s"
  using wrapper_leaves [of S view k pfx] assms
  by (auto elim!: on_redis_seen simp: apart_def depth_key dest!: served_server)

definition counter_key :: "PendingCoordinatorConfig \<Rightarrow> string \<Rightarrow> bool" where
  "counter_key cfg key \<longleftrightarrow> key = MetricsKey cfg \<or> (\<exists>v. key = userScopedKey (depth_prefix cfg) v)"

lemma safeDecrement_seen:
  assumes "served E S pfx view" and "safeDecrementCounter E now key s = (x, s')" and "counter_key (cfg_of s) key"
  shows "seen view pfx k s' = seen view pfx k s"
proof -
  have "leaves view k (send S (decrementActiveLua S now (fixKey pfx (TrimSpace key))))" if "apart pfx k (cfg_of s)"
    using that assms by (intro wrapper_leaves) (auto simp: served_def apart_def counter_key_def)
  then show ?thesis
    using assms(1,2) by (auto simp: safeDecrementCounter_def Let_def served_def elim!: on_redis_seen split: if_splits prod.splits sum.splits)
qed

lemma decrement_loop_seen:
  assumes "served E S pfx view"
  shows "decrement_loop E now key as err s = (x, s') \<Longrightarrow> counter_key (cfg_of s) key \<Longrightarrow> seen view pfx k s' = seen view pfx k s"
proof (induction as arbitrary: err s)
  case Nil
  then show ?case by simp
next
  case (Cons a as)
  obtain y s1 where d: "safeDecrementCounter E now key s = (y, s1)" by fastforce
  note e = safeDecrement_seen [OF assms d Cons.prems(2)]
  have "cfg_of (slept z s1) = cfg_of s" for z using seen_cfg [OF e] by (simp add: slept_def upd_co_def)
  with Cons d e show ?case by (auto split: sum.splits)
qed

lemma decrement_seen:
  assumes "served E S pfx view"
  shows "decrementCounterWithRetry E now (MetricsKey (cfg_of s)) n s = (x, s') \<Longrightarrow> seen view pfx k s' = seen view pfx k s"
    "decrementUserQueueDepth E now v n s = (x, s') \<Longrightarrow> seen view pfx k s' = seen view pfx k s"
  by (auto simp: decrementCounterWithRetry_def decrementUserQueueDepth_def Let_def counter_key_def depth_key
      simp del: decrement_loop.simps dest!: decrement_loop_seen [OF assms, where k = k]
      split: prod.splits sum.splits if_splits)

lemma increment_seen:
  assumes "served E S pfx view"
  shows "incrementUserQueueDepth E now v s = (x, s') \<Longrightarrow> seen view pfx k s' = seen view pfx k s"
  using counter_seen(2) [OF assms] served_server [OF assms]
  by (auto simp: incrementUserQueueDepth_def Let_def split: prod.splits if_splits)

section \<open>Operations\<close>

lemma sample_seen:
  assumes "served E S pfx view"
  shows "SampleQueueDepth E now s = (x, s') \<Longrightarrow> seen view pfx k s' = seen view pfx k s"
    "SampleUserQueueDepth E now v s = (x, s') \<Longrightarrow> seen view pfx k s' = seen view pfx k s"
  using served_server [OF assms]
  by (auto simp: SampleQueueDepth_def SampleUserQueueDepth_def Let_def
      dest!: co_seenD(4) [where view = view and pfx = pfx and k = k] read_seen(1) [OF assms, where k = k]
      split: prod.splits if_splits sum.splits option.splits)

lemma SampleBackpressure_seen:
  assumes "served E S pfx view"
  shows "SampleBackpressure E now v s = (x, s') \<Longrightarrow> seen view pfx k s' = seen view pfx k s"
  by (auto simp: SampleBackpressure_def Let_def
      dest!: co_seenD(3) [where view = view and pfx = pfx and k = k] sample_seen [OF assms, where k = k]
      split: prod.splits if_splits)

lemma write_snapshot_seen:
  assumes "served E S pfx view" and "k \<noteq> fixKey pfx key"
  shows "write_snapshot E now key x d s = (res, s') \<Longrightarrow> seen view pfx k s' = seen view pfx k s"
  using served_server [OF assms(1)]
  by (auto simp: write_snapshot_def dest!: write_seen(1) [OF assms] split: prod.splits sum.splits)

lemma delete_seen:
  assumes "served E S pfx view" and "k \<noteq> fixKey pfx key"
  shows "release_delete E now key s = (res, s') \<Longrightarrow> seen view pfx k s' = seen view pfx k s"
  using served_server [OF assms(1)] by (auto simp: release_delete_def dest!: write_seen(3) [OF assms])

lemma release_read_seen:
  assumes "served E S pfx view"
  shows "release_read E now key s = (res, s') \<Longrightarrow> seen view pfx k s' = seen view pfx k s"
  using served_server [OF assms]
  by (auto simp: release_read_def dest!: read_seen(1) [OF assms, where k = k] split: prod.splits sum.splits option.splits)

lemma release_finish_seen:
  assumes "served E S pfx view" and "k \<noteq> fixKey pfx (PendingCreateKey v)"
  shows "release_finish E now v owner x s = (res, s') \<Longrightarrow> seen view pfx k s' = seen view pfx k s"
proof -
  have w: "seen view pfx k (snd (writeReleaseSnapshot E now v y owner n s1)) = seen view pfx k s1" for y n s1
    by (auto simp: writeReleaseSnapshot_def Let_def dest!: write_snapshot_seen [OF assms] split: prod.splits)
      (metis prod.collapse write_snapshot_seen [OF assms])
  assume "release_finish E now v owner x s = (res, s')"
  then show ?thesis
    by (auto simp: release_finish_def Let_def w simp del: decrementCounterWithRetry_def
        dest!: decrement_seen [OF assms(1), where k = k] co_seenD(2) [where view = view and pfx = pfx and k = k]
        split: prod.splits option.splits if_splits)
qed

lemma Release_seen:
  assumes "served E S pfx view" and "k \<noteq> fixKey pfx (PendingCreateKey (TrimSpace v))"
  shows "redis_Release E now v owner s = (res, s') \<Longrightarrow> seen view pfx k s' = seen view pfx k s"
  by (auto simp: redis_Release_def deleteKeyWithOwner_def Let_def
      dest!: co_seenD(4) [where view = view and pfx = pfx and k = k] release_read_seen [OF assms(1), where k = k]
        delete_seen [OF assms] release_finish_seen [OF assms]
      split: prod.splits sum.splits option.splits if_splits bool.splits)

lemma Heartbeat_seen:
  assumes "served E S pfx view" and "k \<noteq> fixKey pfx (PendingCreateKey (TrimSpace v))"
  shows "redis_Heartbeat E now v owner s = (res, s') \<Longrightarrow> seen view pfx k s' = seen view pfx k s"
  using served_server [OF assms(1)]
  by (auto simp: redis_Heartbeat_def Let_def
      dest!: co_seenD(4) [where view = view and pfx = pfx and k = k] read_seen(1) [OF assms(1), where k = k]
        write_snapshot_seen [OF assms]
      split: prod.splits sum.splits option.splits if_splits)

lemma Observe_seen:
  assumes "served E S pfx view"
  shows "redis_Observe E now v s = (res, s') \<Longrightarrow> seen view pfx k s' = seen view pfx k s"
  using served_server [OF assms]
  by (auto simp: redis_Observe_def Let_def
      dest!: co_seenD(4) [where view = view and pfx = pfx and k = k] read_seen(1,2) [OF assms, where k = k]
      split: prod.splits sum.splits option.splits if_splits)

lemma promote_seen:
  assumes "served E S pfx view" and "k \<noteq> fixKey pfx (PendingCreateKey v)"
  shows "promoteExpired E now v st s = (res, s') \<Longrightarrow> seen view pfx k s' = seen view pfx k s"
  by (auto simp: promoteExpired_def writeExpiredSnapshot_def Let_def
      dest!: decrement_seen [OF assms(1), where k = k] write_snapshot_seen [OF assms]
      split: prod.splits sum.splits option.splits if_splits)

lemma cleanup_seen:
  assumes "served E S pfx view" and "k \<noteq> fixKey pfx (PendingCreateKey v)"
  shows "cleanupReleasedState E now v s = (res, s') \<Longrightarrow> seen view pfx k s' = seen view pfx k s"
    "CleanupExpired E now v s = (res, s') \<Longrightarrow> seen view pfx k s' = seen view pfx k s"
  using served_server [OF assms(1)]
  by (auto simp: cleanupReleasedState_def CleanupExpired_def delete_state_def Let_def
      dest!: write_seen(3) [OF assms] split: prod.splits sum.splits if_splits)

end
