(* ===== verification/PendingRedisRuns.thy ===== *)
theory PendingRedisRuns
  imports PendingServerFacts
begin

text \<open>
  The acquisition on Redis against a key that is taken, and sequences of operations that several
  processes make on one server: the key of a lease stays as long as nobody releases or cleans up
  its user.
\<close>

section \<open>Frames of an acquisition\<close>

lemma loadScript_seen:
  assumes "served E S pfx view"
  shows "loadPendingAcquireScript E s = (res, s') \<Longrightarrow> seen view pfx k s' = seen view pfx k s"
  using served_server [OF assms]
  by (auto simp: loadPendingAcquireScript_def Let_def upd_co_seen dest!: read_seen(4) [OF assms, where k = k]
      split: prod.splits sum.splits if_splits)

lemma lua_count_leaves:
  assumes "server_laws S view" and "k \<noteq> key"
  shows "lua_count S now key e r = (x, r') \<Longrightarrow> view r' k = view r k"
  using number_facts(3) [OF assms, of now r] assms(2)
  by (auto simp: lua_count_def Let_def number_facts(5) [OF assms(1)] split: prod.splits sum.splits if_splits)

lemma script_leaves:
  assumes L: "server_laws S view" and k: "k \<notin> set [a, b, c]"
    and run: "pendingAcquireLua S C now args [a, b, c] r = (x, r')"
  shows "view r' k = view r k"
proof -
  from k have "k \<noteq> a" "k \<noteq> b" "k \<noteq> c" by simp_all
  with run lua_count_leaves [OF L \<open>k \<noteq> b\<close>] lua_count_leaves [OF L \<open>k \<noteq> c\<close>] show ?thesis
    by (simp add: pendingAcquireLua_def Let_def split: if_splits prod.splits sum.splits) (auto simp: value_facts [OF L])
qed

lemma EvalSha_leaves:
  assumes "server_laws S view" and "leaves view k (script (map (fixKey pfx) ks))"
  shows "leaves view k (EvalSha S pfx sha ks script)"
proof (rule leavesI)
  fix r x r'
  assume "EvalSha S pfx sha ks script r = (x, r')"
  then show "view r' k = view r k"
    using assms(2) by (auto simp: EvalSha_def leaves_def dest!: trip_view [OF assms(1)] leavesD [OF assms(2)]
        split: prod.splits trip.splits option.splits if_splits)
qed

lemma run_script_seen:
  assumes "served E S pfx view" and "apart pfx k (cfg_of s) \<Longrightarrow> k \<notin> set (map (fixKey pfx) [a, b, c])"
  shows "run_script E now sha [a, b, c] args s = (x, s') \<Longrightarrow> seen view pfx k s' = seen view pfx k s"
proof -
  have "leaves view k (EvalSha S pfx sha [a, b, c] (pendingAcquireLua S (pe_codec E) now args))" if "apart pfx k (cfg_of s)"
    using assms that script_leaves [of S view k "fixKey pfx a" "fixKey pfx b" "fixKey pfx c"]
    by (intro EvalSha_leaves leavesI) (auto simp: served_def)
  then show "run_script E now sha [a, b, c] args s = (x, s') \<Longrightarrow> seen view pfx k s' = seen view pfx k s"
    using served_server [OF assms(1)] by (auto simp: run_script_def elim!: on_redis_seen split: prod.splits sum.splits)
qed

lemma evalScript_seen:
  assumes "served E S pfx view" and "apart pfx k (cfg_of s) \<Longrightarrow> k \<notin> set (map (fixKey pfx) [a, b, c])"
    and "evalPendingAcquireScript E now sha [a, b, c] args s = (x, s')"
  shows "seen view pfx k s' = seen view pfx k s"
proof -
  obtain y s1 where r: "run_script E now sha [a, b, c] args s = (y, s1)" by fastforce
  note e1 = run_script_seen [OF assms(1,2) r]
  have e2: "seen view pfx k s3 = seen view pfx k s"
    if "loadPendingAcquireScript E s1 = (z, s2)" "run_script E now sha' [a, b, c] args s2 = (w, s3)" for z s2 sha' w s3
  proof -
    have "seen view pfx k s2 = seen view pfx k s" using loadScript_seen [OF assms(1) that(1)] e1 by metis
    with run_script_seen [OF assms(1) _ that(2)] assms(2) seen_cfg show ?thesis by metis
  qed
  with assms(3) r e1 show ?thesis
    by (auto simp: evalPendingAcquireScript_def dest!: loadScript_seen [OF assms(1), where k = k]
        split: prod.splits sum.splits script_error.splits)
qed

lemma read_reply_seen: "read_reply E now u n l x arr s = (res, s') \<Longrightarrow> seen view pfx k s' = seen view pfx k s"
  by (auto simp: read_reply_def Let_def dest!: co_seenD(3) [where view = view and pfx = pfx and k = k] split: if_splits prod.splits)

section \<open>The path of the script\<close>

text \<open>Scripts run, a loaded script has a hash, and every failure of a command or of the encoding is told by a
  message, which is not the one that asks for the path without a script.\<close>

definition told :: "pending_error \<Rightarrow> bool" where
  "told err \<longleftrightarrow> (case err of ErrMessage m \<Rightarrow> err \<noteq> errAcquireLuaUnavailable | _ \<Rightarrow> False)"

definition script_path :: "('r, 'l) PendingEnv \<Rightarrow> 'r Server \<Rightarrow> bool" where
  "script_path E S \<longleftrightarrow> scripts_run S
    \<and> (\<forall>r. TrimSpace (fst (sv_SCRIPTLOAD S r)) \<noteq> [])
    \<and> (\<forall>r. case fst (sv_trip S r) of Reached \<Rightarrow> True | Failed err \<Rightarrow> told err | Lost err \<Rightarrow> told err)
    \<and> (\<forall>now k r. case fst (sv_INCR S now k r) of Inl err \<Rightarrow> told err | Inr n \<Rightarrow> True)
    \<and> (\<forall>x. case js_marshal (pe_codec E) x of Inl err \<Rightarrow> told err | Inr p \<Rightarrow> True)"

lemma told_message [simp]: "told (ErrMessage m) \<longleftrightarrow> ErrMessage m \<noteq> errAcquireLuaUnavailable"
  by (simp add: told_def)

lemma untold: "\<not> told errAcquireLuaUnavailable" "\<not> told (ErrAcquire e)"
  by (simp_all add: errAcquireLuaUnavailable_def) (simp add: told_def)

lemma script_pathD:
  assumes "script_path E S"
  shows "sv_CANRUN S sha ks r = None" "TrimSpace (fst (sv_SCRIPTLOAD S r)) \<noteq> []"
    "sv_trip S r = (Failed err, r') \<Longrightarrow> told err" "sv_trip S r = (Lost err, r') \<Longrightarrow> told err"
    "sv_INCR S now k r = (Inl err, r') \<Longrightarrow> told err"
    "js_marshal (pe_codec E) x = Inl err \<Longrightarrow> told err"
  using assms unfolding script_path_def scripts_run_def
  by (blast, blast, (metis (no_types, lifting) fst_conv trip.simps sum.simps)+)

text \<open>A reply is that of a taken key or of a new lease.\<close>

definition new_lease_reply :: "goval list \<Rightarrow> bool" where
  "new_lease_reply arr \<longleftrightarrow> length arr = 7 \<and> arr ! 0 = VInt64 1"

lemma RedisDown_told: "told RedisDown"
  by (simp add: RedisDown_def errAcquireLuaUnavailable_def)

lemma script_reply:
  assumes "script_path E S" and "pendingAcquireLua S C now args ks r = (x, r')"
  shows "(\<exists>err. x = Inl err \<and> told err) \<or> x = Inr [VInt64 0] \<or> (\<exists>arr. x = Inr arr \<and> new_lease_reply arr)"
proof -
  have "lua_count S now k e r = (Inl err, r') \<Longrightarrow> told err" for k e r err r'
    using script_pathD(5) [OF assms(1)] by (auto simp: lua_count_def split: prod.splits sum.splits)
  with assms(2) show ?thesis
    by (auto simp: pendingAcquireLua_def Let_def new_lease_reply_def split: if_splits prod.splits sum.splits)
qed

lemma run_script_result:
  assumes "served E S pfx view" and "script_path E S" and "run_script E now sha ks args s = (x, s')"
  shows "(\<exists>err. x = Inl (ScriptError err) \<and> told err) \<or> x = Inr [VInt64 0] \<or> (\<exists>arr. x = Inr arr \<and> new_lease_reply arr)"
  using assms(3) served_server [OF assms(1)] RedisDown_told script_pathD(1) [OF assms(2)]
  by (auto simp: run_script_def on_redis_def EvalSha_def dest!: script_reply [OF assms(2)]
      dest: script_pathD(3,4) [OF assms(2)] split: prod.splits sum.splits if_splits trip.splits)

lemma evalScript_result:
  assumes "served E S pfx view" and "script_path E S" and "evalPendingAcquireScript E now sha ks args s = (x, s')"
  shows "(\<exists>err. x = Inl err \<and> told err) \<or> x = Inr [VInt64 0] \<or> (\<exists>arr. x = Inr arr \<and> new_lease_reply arr)"
proof -
  obtain y s1 where r: "run_script E now sha ks args s = (y, s1)" by fastforce
  show ?thesis using run_script_result [OF assms(1,2) r] assms(3) r by (auto simp: evalPendingAcquireScript_def)
qed

lemma loadScript_result:
  assumes "served E S pfx view" and "script_path E S" and "loadPendingAcquireScript E s = (x, s')"
  shows "(\<exists>err. x = Inl err \<and> told err) \<or> (\<exists>sha. x = Inr sha)"
  using assms(3) served_server [OF assms(1)] RedisDown_told script_pathD(2) [OF assms(2)]
  by (auto simp: loadPendingAcquireScript_def on_redis_def ScriptLoad_def send_def Let_def
      dest: script_pathD(3,4) [OF assms(2)] split: prod.splits sum.splits if_splits trip.splits)
    (metis fst_conv)+

text \<open>The settings under which the script is used for a user.\<close>

definition scripted :: "PendingCoordinatorConfig \<Rightarrow> string \<Rightarrow> bool" where
  "scripted cfg u \<longleftrightarrow> TrimSpace (MetricsKey cfg) \<noteq> [] \<and> userScopedKey (depth_prefix cfg) u \<noteq> []"

lemma viaLua_result:
  assumes "served E S pfx view" and "script_path E S" and "scripted (cfg_of s) u"
    and "pendingAcquireViaLua E now u key x s = (res, s')"
  shows "(\<exists>err. res = Inl err \<and> told err) \<or> (\<exists>o1. res = Inr o1 \<and> ao_created o1)"
proof -
  have r: "(\<exists>err. res = Inl err \<and> told err) \<or> (\<exists>o1. res = Inr o1 \<and> ao_created o1)"
    if "read_reply E now u n l y arr s3 = (res, s4)" "arr = [VInt64 0] \<or> new_lease_reply arr" for n l y arr s3 s4
    using that by (auto simp: read_reply_def Let_def new_lease_reply_def errAcquireLuaUnavailable_def split: prod.splits)
  show ?thesis
    using assms(3,4) served_server [OF assms(1)]
    by (auto simp: pendingAcquireViaLua_def scripted_def depth_key Let_def
        dest!: loadScript_result [OF assms(1,2)] evalScript_result [OF assms(1,2)] r
        dest: script_pathD(6) [OF assms(2)] split: prod.splits sum.splits if_splits)
qed

lemma tryAcquire_script:
  assumes "served E S pfx view" and "script_path E S" and "scripted (cfg_of s) u"
  shows "tryPendingAcquire E now u key x base s = pendingAcquireViaLua E now u key x s"
proof -
  obtain res s' where r: "pendingAcquireViaLua E now u key x s = (res, s')" by fastforce
  from viaLua_result [OF assms r] r show ?thesis
    using untold(1) by (auto simp: tryPendingAcquire_def split: sum.splits)
qed

section \<open>What an acquisition leaves alone\<close>

lemma viaLua_seen:
  assumes "served E S pfx view" and "apart pfx k (cfg_of s) \<Longrightarrow> k \<noteq> fixKey pfx key"
    and "pendingAcquireViaLua E now u key x s = (res, s')"
  shows "seen view pfx k s' = seen view pfx k s"
proof -
  have keys: "apart pfx k cfg \<Longrightarrow> k \<notin> set (map (fixKey pfx) [key, TrimSpace (MetricsKey cfg), userScopedKey (depth_prefix cfg) u])"
    if "cfg = cfg_of s" for cfg using assms(2) that by (auto simp: apart_def)
  have e: "seen view pfx k s3 = seen view pfx k s"
    if "evalPendingAcquireScript E now sha [key, TrimSpace (MetricsKey (cfg_of s)), userScopedKey (depth_prefix (cfg_of s)) u] args s2 = (y, s3)"
      and "seen view pfx k s2 = seen view pfx k s" for sha args s2 y s3
    using evalScript_seen [OF assms(1) _ that(1)] keys [of "cfg_of s"] that(2) seen_cfg by metis
  show ?thesis
    using assms(3)
    by (auto simp: pendingAcquireViaLua_def Let_def depth_key
        dest!: e loadScript_seen [OF assms(1), where k = k] co_seenD(1) [where view = view and pfx = pfx and k = k]
          read_reply_seen [where view = view and pfx = pfx and k = k]
        split: prod.splits sum.splits if_splits)
qed

lemma precheck_seen: "acquire_precheck E smp s = (res, s') \<Longrightarrow> seen view pfx k s' = seen view pfx k s"
  by (auto simp: acquire_precheck_def Let_def split: if_splits)

lemma attempt_sample_seen:
  assumes "served E S pfx view"
  shows "attempt_sample E now u ctx s = (smp, s') \<Longrightarrow> seen view pfx k s' = seen view pfx k s"
  by (auto simp: attempt_sample_def
      dest!: SampleBackpressure_seen [OF assms, where k = k] sample_seen(2) [OF assms, where k = k]
        co_seenD(3) [where view = view and pfx = pfx and k = k]
      split: option.splits if_splits prod.splits)

lemma acquire_created_seen:
  assumes "served E S pfx view" and "k \<noteq> fixKey pfx (PendingCreateKey (TrimSpace u))"
  shows "acquire_created E now u meta owner o1 s = (res, s') \<Longrightarrow> seen view pfx k s' = seen view pfx k s"
  by (auto simp: acquire_created_def split: if_splits)
    (metis Release_seen [OF assms] prod.collapse)

text \<open>On the path of the script an attempt is the last one.\<close>

lemma acquire_loop_script:
  assumes "served E S pfx view" and "script_path E S" and "scripted (cfg_of s) u"
    and "acquire_loop E now u meta uuid ctx n s = (res, s')"
  obtains (early) err where "res = Inl err" "\<forall>st d. err \<noteq> refused AcquireFailureConflict st d" "\<And>k. seen view pfx k s' = seen view pfx k s"
  | (failed) err x s2 where "res = Inl err" "told err" "pendingAcquireViaLua E now u (PendingCreateKey u) x s2 = (Inl err, s')"
      "\<And>k. seen view pfx k s2 = seen view pfx k s"
  | (created) o1 x s2 s3 where "pendingAcquireViaLua E now u (PendingCreateKey u) x s2 = (Inr o1, s3)" "ao_created o1"
      "\<And>k. seen view pfx k s2 = seen view pfx k s" "acquire_created E now u meta (uuid n) o1 s3 = (res, s')"
proof -
  obtain smp s1 where a: "attempt_sample E now u ctx s = (smp, s1)" by fastforce
  obtain pre s2 where p: "acquire_precheck E smp s1 = (pre, s2)" by fastforce
  have k: "seen view pfx k s2 = seen view pfx k s" for k
    using attempt_sample_seen [OF assms(1) a] precheck_seen [OF p] by metis
  have c: "scripted (cfg_of s2) u" using assms(3) seen_cfg [OF k] by simp
  show ?thesis
  proof (cases pre)
    case (Some err)
    then have "\<forall>st d. err \<noteq> refused AcquireFailureConflict st d" using p
      by (auto simp: acquire_precheck_def refused_def Let_def split: if_splits)
    with Some assms(4) a p k early show ?thesis by auto
  next
    case None
    let ?x = "lease_snapshot (cfg_of s2) u meta now (uuid n)"
    show ?thesis
    proof (cases "js_marshal (pe_codec E) ?x")
      case (Inl e)
      with None assms(4) a p k early [of "ErrMessage ''marshal pending snapshot''"] show ?thesis by (auto simp: Let_def refused_def)
    next
      case (Inr base)
      obtain r s3 where v: "pendingAcquireViaLua E now u (PendingCreateKey u) ?x s2 = (r, s3)" by fastforce
      from viaLua_result [OF assms(1,2) c v] show ?thesis
        using v None Inr assms(4) a p k failed created by (auto simp: Let_def tryAcquire_script [OF assms(1,2) c])
    qed
  qed
qed

section \<open>A taken key\<close>

definition taken :: "('r \<Rightarrow> kview) \<Rightarrow> instant \<Rightarrow> string \<Rightarrow> ('r, 'l) pending_data \<Rightarrow> bool" where
  "taken view now k s \<longleftrightarrow> kv_live now (view (pd_redis s) k) \<noteq> None"

lemma taken_seen: "seen view pfx k s' = seen view pfx k s \<Longrightarrow> apart pfx k (cfg_of s) \<Longrightarrow> taken view now k s' = taken view now k s"
  using seen_view [of view pfx k s' s] by (simp add: taken_def)

lemma EvalSha_taken:
  assumes "server_laws S view" and "kv_live now (view r (fixKey pfx a)) \<noteq> None"
    and "EvalSha S pfx sha [a, b, c] (pendingAcquireLua S C now args) r = (x, r')"
  shows "view r' = view r \<and> (\<forall>y. x = Inr y \<longrightarrow> y = Inr [VInt64 0])"
proof -
  have s: "pendingAcquireLua S C now args (map (fixKey pfx) [a, b, c]) r1 = (Inr [VInt64 0], r1)" if "view r1 = view r" for r1
    using assms(2) that by (simp add: pendingAcquireLua_def value_facts [OF assms(1)])
  obtain o1 r1 where t: "sv_trip S r = (o1, r1)" by fastforce
  note v = trip_view [OF assms(1) t]
  show ?thesis
    using assms(3) s [OF v] t v by (auto simp: EvalSha_def split: trip.splits option.splits if_splits)
qed

lemma run_script_taken:
  assumes "served E S pfx view" and "taken view now (fixKey pfx a) s"
    and "run_script E now sha [a, b, c] args s = (x, s')"
  shows "seen view pfx k s' = seen view pfx k s" "x = Inr arr \<Longrightarrow> arr = [VInt64 0]"
proof -
  obtain y r' where e: "EvalSha S pfx sha [a, b, c] (pendingAcquireLua S (pe_codec E) now args) (pd_redis s) = (y, r')" by fastforce
  from served_server [OF assms(1)] EvalSha_taken [of S view now "pd_redis s" pfx a, OF _ _ e] assms(2)
  have v: "view r' = view (pd_redis s)" "\<forall>z. y = Inr z \<longrightarrow> z = Inr [VInt64 0]" by (auto simp: taken_def)
  from assms(3) served_server [OF assms(1)] e v show "seen view pfx k s' = seen view pfx k s" "x = Inr arr \<Longrightarrow> arr = [VInt64 0]"
    by (auto simp: run_script_def on_redis_def seen_def split: sum.splits)
qed

lemma viaLua_taken:
  assumes "served E S pfx view" and "script_path E S" and "scripted (cfg_of s) u"
    and "taken view now (fixKey pfx key) s" and "apart pfx (fixKey pfx key) (cfg_of s)"
    and "pendingAcquireViaLua E now u key x s = (res, s')"
  shows "(\<exists>err. res = Inl err \<and> told err) \<and> seen view pfx (fixKey pfx key) s' = seen view pfx (fixKey pfx key) s"
proof -
  let ?k = "fixKey pfx key"
  have e: "seen view pfx ?k s3 = seen view pfx ?k s \<and> ((\<exists>err. y = Inl err \<and> told err) \<or> y = Inr [VInt64 0])"
    if "evalPendingAcquireScript E now sha [key, b, c] args s2 = (y, s3)" and "seen view pfx ?k s2 = seen view pfx ?k s" for b c sha args s2 y s3
  proof -
    have t: "taken view now ?k s2" using taken_seen [OF that(2) assms(5)] assms(4) by simp
    obtain z s4 where r: "run_script E now sha [key, b, c] args s2 = (z, s4)" by fastforce
    from run_script_result [OF assms(1,2) r] run_script_taken [OF assms(1) t r] that r
    show ?thesis by (auto simp: evalPendingAcquireScript_def)
  qed
  have r: "(\<exists>err. res = Inl err \<and> told err) \<and> seen view pfx ?k s' = seen view pfx ?k s"
    if "read_reply E now u n l y [VInt64 0] s3 = (res, s')" "seen view pfx ?k s3 = seen view pfx ?k s" for n l y s3
    using that by (auto simp: read_reply_def errAcquireLuaUnavailable_def)
  let ?b = "TrimSpace (MetricsKey (cfg_of s))" and ?c = "pendingUserDepthKey (co_of s) u"
  have keys: "?b \<noteq> []" "?c \<noteq> []" "pe_redis E \<noteq> None"
    using assms(3) served_server [OF assms(1)] by (simp_all add: scripted_def depth_key)
  obtain n s1 where i: "incInstanceActive s = (n, s1)" by fastforce
  note k1 = co_seenD(1) [OF i, of view pfx ?k]
  show ?thesis
  proof (cases "js_marshal (pe_codec E) (x\<lparr>sn_InstanceQueueDepth := n, sn_InstanceBackpressure := classifyInstanceBackpressure (co_of s1) n, sn_UpdatedAt := now\<rparr>)")
    case (Inl err)
    with assms(6) keys i k1 script_pathD(6) [OF assms(2) Inl] show ?thesis by (auto simp: pendingAcquireViaLua_def Let_def)
  next
    case (Inr base)
    let ?a = "script_args (cfg_of s1) now n (classifyInstanceBackpressure (co_of s1) n) base"
    let ?l = "if TrimSpace (co_scriptSHA (co_of s1)) \<noteq> [] then (Inr (TrimSpace (co_scriptSHA (co_of s1))), s1) else loadPendingAcquireScript E s1"
    obtain z s2 where l: "?l = (z, s2)" by fastforce
    have k2: "seen view pfx ?k s2 = seen view pfx ?k s" and z: "(\<exists>err. z = Inl err \<and> told err) \<or> (\<exists>sha. z = Inr sha)"
      using l k1 loadScript_seen [OF assms(1), of s1 z s2 ?k] loadScript_result [OF assms(1,2), of s1 z s2] by (auto split: if_splits)
    show ?thesis
    proof (cases z)
      case Inl
      with z assms(6) keys i Inr l k2 show ?thesis by (auto simp: pendingAcquireViaLua_def Let_def)
    next
      case (Inr sha)
      obtain y s3 where v: "evalPendingAcquireScript E now sha [key, ?b, ?c] ?a s2 = (y, s3)" by fastforce
      from e [OF v k2] Inr \<open>js_marshal _ _ = Inr base\<close> assms(6) keys i l v r show ?thesis by (auto simp: pendingAcquireViaLua_def Let_def)
    qed
  qed
qed

text \<open>The error does not tell of a lease that is active already.\<close>

definition no_conflict :: "pending_error \<Rightarrow> bool" where
  "no_conflict err \<longleftrightarrow> (\<forall>st d. err \<noteq> refused AcquireFailureConflict st d)"

lemma told_no_conflict: "told err \<Longrightarrow> no_conflict err"
  using untold(2) by (auto simp: no_conflict_def refused_def)

lemma Acquire_taken:
  assumes "served E S pfx view" and "script_path E S" and "\<not> pe_degraded E" and "scripted (cfg_of s) (TrimSpace u)"
    and "taken view now k s" and "apart pfx k (cfg_of s)" and k: "k = fixKey pfx (PendingCreateKey (TrimSpace u))"
    and "redis_Acquire E now u meta uuid ctx s = (res, s')"
  shows "(\<exists>err. res = Inl err \<and> no_conflict err) \<and> seen view pfx k s' = seen view pfx k s"
proof -
  let ?u = "TrimSpace u"
  have loop: "(\<exists>err. res = Inl err \<and> no_conflict err) \<and> seen view pfx k s' = seen view pfx k s"
    if l: "acquire_loop E now ?u meta uuid ctx n (upd_co (\<lambda>c. c\<lparr>co_buckets := b\<rparr>) s) = (res, s')" for n b
  proof -
    have b: "seen view pfx k' (upd_co (\<lambda>c. c\<lparr>co_buckets := b\<rparr>) s) = seen view pfx k' s" for k' by (simp add: upd_co_seen)
    have c: "scripted (cfg_of (upd_co (\<lambda>c. c\<lparr>co_buckets := b\<rparr>) s)) ?u" using assms(4) seen_cfg [OF b] by simp
    have t: "taken view now k s2 \<and> apart pfx k (cfg_of s2) \<and> scripted (cfg_of s2) ?u"
      if "seen view pfx k s2 = seen view pfx k (upd_co (\<lambda>c. c\<lparr>co_buckets := b\<rparr>) s)" for s2
      using taken_seen [of view pfx k s2 s] seen_cfg [of view pfx k s2 s] that b assms(4,5,6) by simp
    from l show ?thesis
    proof (cases rule: acquire_loop_script [OF assms(1,2) c, consumes 1, case_names early failed created])
      case early
      then show ?thesis using b by (metis no_conflict_def)
    next
      case (failed err x s2)
      with t [OF failed(4)] viaLua_taken [OF assms(1,2), of s2 ?u now "PendingCreateKey ?u" x] b told_no_conflict [OF failed(2)] failed(1) show ?thesis by (simp add: k)
    next
      case (created o1 x s2 s3)
      with t [OF created(3)] viaLua_taken [OF assms(1,2), of s2 ?u now "PendingCreateKey ?u" x] show ?thesis by (fastforce simp: k)
    qed
  qed
  show ?thesis
    using assms(3,8) loop served_server [OF assms(1)]
    by (auto simp: redis_Acquire_def Let_def use_memory_def upd_co_seen no_conflict_def refused_def simp del: acquire_loop.simps split: if_splits prod.splits bool.splits)
qed

lemma Acquire_seen:
  assumes "served E S pfx view" and "script_path E S" and "\<not> pe_degraded E" and "scripted (cfg_of s) (TrimSpace u)"
    and "k \<noteq> fixKey pfx (PendingCreateKey (TrimSpace u))" and "redis_Acquire E now u meta uuid ctx s = (res, s')"
  shows "seen view pfx k s' = seen view pfx k s"
proof -
  let ?u = "TrimSpace u"
  have loop: "seen view pfx k s' = seen view pfx k s"
    if l: "acquire_loop E now ?u meta uuid ctx n (upd_co (\<lambda>c. c\<lparr>co_buckets := b\<rparr>) s) = (res, s')" for n b
  proof -
    have b: "seen view pfx k' (upd_co (\<lambda>c. c\<lparr>co_buckets := b\<rparr>) s) = seen view pfx k' s" for k' by (simp add: upd_co_seen)
    have c: "scripted (cfg_of (upd_co (\<lambda>c. c\<lparr>co_buckets := b\<rparr>) s)) ?u" using assms(4) seen_cfg [OF b] by simp
    from l show ?thesis
    proof (cases rule: acquire_loop_script [OF assms(1,2) c, consumes 1, case_names early failed created])
      case early
      then show ?thesis using b by metis
    next
      case (failed err x s2)
      then show ?thesis using viaLua_seen [OF assms(1) _ failed(3), of k] failed(4) b assms(5) by metis
    next
      case (created o1 x s2 s3)
      have k: "k \<noteq> fixKey pfx (PendingCreateKey (TrimSpace ?u))"
        using assms(5) by (simp add: PendingCreateKey_def userScopedKey_def)
      show ?thesis using viaLua_seen [OF assms(1) _ created(1), of k] created(3) b assms(5) acquire_created_seen [OF assms(1) k created(4)] by metis
    qed
  qed
  show ?thesis
    using assms(3,6) loop served_server [OF assms(1)]
    by (auto simp: redis_Acquire_def Let_def use_memory_def upd_co_seen simp del: acquire_loop.simps split: if_splits prod.splits bool.splits)
qed

end
