(* ===== verification/PendingRedisSafety.thy ===== *)
theory PendingRedisSafety
  imports PendingRedisRuns
begin

text \<open>
  Several processes on one server: a step of the system is an operation of one process, on the shared data and
  its own coordinator. A granted lease stands under its user's key for its lifetime; a key that is
  held stays held through every step that neither releases nor cleans up its user, and meanwhile
  no process is granted a lease of that user.
\<close>

section \<open>A granted lease\<close>

text \<open>The key holds a value that lasts until \<open>e\<close>, or for good.\<close>

definition held :: "instant \<Rightarrow> (string \<times> instant option) option \<Rightarrow> bool" where
  "held e x \<longleftrightarrow> (case x of None \<Rightarrow> False | Some (v, None) \<Rightarrow> True | Some (v, Some e') \<Rightarrow> e \<le> e')"

lemma held_live: "held e x \<Longrightarrow> now < e \<Longrightarrow> kv_live now x \<noteq> None"
  by (auto simp: held_def kv_live_def split: option.splits)

definition lease_until :: "PendingCoordinatorConfig \<Rightarrow> instant \<Rightarrow> instant" where
  "lease_until cfg now = now + Milliseconds (LeaseTTL cfg) * Millisecond"

lemma lease_until_le: "0 < LeaseTTL cfg \<Longrightarrow> lease_until cfg now \<le> now + LeaseTTL cfg"
  by (simp add: lease_until_def Milliseconds_def go_div_def Millisecond_def)

lemma script_grants:
  assumes "server_laws S view" and "0 < aa_leaseTTL args"
    and "pendingAcquireLua S C now args [a, b, c] r = (Inr arr, r')" and "arr \<noteq> [VInt64 0]"
  shows "\<exists>v. view r' a = Some (v, Some (now + aa_leaseTTL args * Millisecond))"
proof -
  have "0 < aa_leaseTTL args * Millisecond" using assms(2) by (simp add: Millisecond_def)
  then show ?thesis
    using assms(2,3,4) by (auto simp: pendingAcquireLua_def Let_def value_facts [OF assms(1)] kv_entry_def split: if_splits prod.splits sum.splits)
qed

lemma EvalSha_grants:
  assumes "server_laws S view" and "0 < aa_leaseTTL args"
    and "EvalSha S pfx sha [a, b, c] (pendingAcquireLua S C now args) r = (Inr (Inr arr), r')" and "arr \<noteq> [VInt64 0]"
  shows "\<exists>v. view r' (fixKey pfx a) = Some (v, Some (now + aa_leaseTTL args * Millisecond))"
  using assms(3,4) script_grants [OF assms(1,2)]
  by (auto simp: EvalSha_def split: if_splits prod.splits trip.splits option.splits)

lemma run_script_grants:
  assumes "served E S pfx view" and "0 < aa_leaseTTL args" and "run_script E now sha [a, b, c] args s = (Inr arr, s')" and "arr \<noteq> [VInt64 0]"
  shows "\<exists>v. view (pd_redis s') (fixKey pfx a) = Some (v, Some (now + aa_leaseTTL args * Millisecond))"
  using assms(2,3,4) served_server [OF assms(1)]
  by (auto simp: run_script_def on_redis_def split: prod.splits sum.splits dest: EvalSha_grants [of S view])

lemma evalScript_grants:
  assumes "served E S pfx view" and "0 < aa_leaseTTL args"
    and "evalPendingAcquireScript E now sha [a, b, c] args s = (Inr arr, s')" and "arr \<noteq> [VInt64 0]"
  shows "\<exists>v. view (pd_redis s') (fixKey pfx a) = Some (v, Some (now + aa_leaseTTL args * Millisecond))"
  using assms(3,4) run_script_grants [OF assms(1,2)]
  by (auto simp: evalPendingAcquireScript_def split: prod.splits sum.splits script_error.splits)

lemma script_ttl: "Millisecond \<le> LeaseTTL cfg \<Longrightarrow> 0 < aa_leaseTTL (script_args cfg now n l base)
    \<and> now + aa_leaseTTL (script_args cfg now n l base) * Millisecond = lease_until cfg now"
  by (auto simp: script_args_def lease_until_def Milliseconds_def go_div_def Millisecond_def)

lemma read_reply_data: "read_reply E now u n l x arr s = (res, s') \<Longrightarrow> pd_redis s' = pd_redis s"
  by (auto simp: read_reply_def Let_def aggregate_def decInstanceActive_def upd_co_def storeUserSample_def storeGlobalSample_def
      split: if_splits prod.splits)

lemma viaLua_grants:
  assumes "served E S pfx view" and "Millisecond \<le> LeaseTTL (cfg_of s)"
    and "pendingAcquireViaLua E now u key x s = (Inr o1, s')" and "ao_created o1"
  shows "held (lease_until (cfg_of s) now) (view (pd_redis s') (fixKey pfx key))"
proof -
  have cfg: "cfg_of s1 = cfg_of s" if "incInstanceActive s = (n, s1)" for n s1
    using seen_cfg [OF co_seenD(1) [OF that]] by blast
  have g: "held (lease_until (cfg_of s) now) (view (pd_redis s') (fixKey pfx key))"
    if e: "evalPendingAcquireScript E now sha [key, b, c] (script_args (cfg_of s) now n l base) s2 = (Inr arr, s3)"
      and r: "read_reply E now u n' l' y arr s3 = (Inr o1, s')" for sha b c n l base s2 arr s3 y n' l'
  proof -
    have "arr \<noteq> [VInt64 0]" using r assms(4) by (auto simp: read_reply_def)
    with evalScript_grants [OF assms(1) _ e] script_ttl [OF assms(2)] read_reply_data [OF r] show ?thesis by (fastforce simp: held_def)
  qed
  show ?thesis
    using assms(3)
    by (auto simp: pendingAcquireViaLua_def Let_def dest!: cfg elim!: g split: prod.splits sum.splits if_splits)
qed

lemma Acquire_grants:
  assumes "served E S pfx view" and "script_path E S" and "\<not> pe_degraded E" and "scripted (cfg_of s) (TrimSpace u)"
    and "Millisecond \<le> LeaseTTL (cfg_of s)" and "redis_Acquire E now u meta uuid ctx s = (Inr lease, s')"
  shows "held (lease_until (cfg_of s) now) (view (pd_redis s') (fixKey pfx (PendingCreateKey (TrimSpace u))))"
proof -
  let ?u = "TrimSpace u"
  have loop: "held (lease_until (cfg_of s) now) (view (pd_redis s') (fixKey pfx (PendingCreateKey ?u)))"
    if l: "acquire_loop E now ?u meta uuid ctx n (upd_co (\<lambda>c. c\<lparr>co_buckets := b\<rparr>) s) = (Inr lease, s')" for n b
  proof -
    have b: "seen view pfx k' (upd_co (\<lambda>c. c\<lparr>co_buckets := b\<rparr>) s) = seen view pfx k' s" for k' by (simp add: upd_co_seen)
    have c: "scripted (cfg_of (upd_co (\<lambda>c. c\<lparr>co_buckets := b\<rparr>) s)) ?u" using assms(4) seen_cfg [OF b] by simp
    from l show ?thesis
    proof (cases rule: acquire_loop_script [OF assms(1,2) c, consumes 1, case_names early failed created])
      case (created o1 x s2 s3)
      have cfg: "cfg_of s2 = cfg_of s" using seen_cfg [OF created(3)] seen_cfg [OF b] by simp
      with created(4) viaLua_grants [OF assms(1) _ created(1,2)] assms(5) show ?thesis by (auto simp: acquire_created_def split: if_splits)
    qed auto
  qed
  show ?thesis
    using assms(3,6) loop served_server [OF assms(1)]
    by (auto simp: redis_Acquire_def Let_def use_memory_def simp del: acquire_loop.simps split: if_splits prod.splits bool.splits)
qed

section \<open>Steps of the system\<close>

datatype pending_step =
    Acquires string LeaseMetadata "nat \<Rightarrow> string" "BackpressureSample option"
  | Releases string string
  | Heartbeats string string
  | Observes string
  | Samples string
  | CleansUp string

text \<open>The server's data with the coordinator of every process. The answer tells whether the step was granted
  a lease of a user.\<close>

type_synonym ('r, 'l) system = "'r \<times> (nat \<Rightarrow> 'l PendingCoordinator)"

definition pending_op ::
  "('r, 'l) PendingEnv \<Rightarrow> instant \<Rightarrow> pending_step \<Rightarrow> ('r, 'l) pending_data \<Rightarrow> bool \<times> ('r, 'l) pending_data" where
  "pending_op E now st s =
    (case st of
       Acquires v meta uuid ctx \<Rightarrow> (case redis_Acquire E now v meta uuid ctx s of (res, s1) \<Rightarrow> (\<not> isl res, s1))
     | Releases v owner \<Rightarrow> (False, snd (redis_Release E now v owner s))
     | Heartbeats v owner \<Rightarrow> (False, snd (redis_Heartbeat E now v owner s))
     | Observes v \<Rightarrow> (False, snd (redis_Observe E now v s))
     | Samples v \<Rightarrow> (False, snd (SampleBackpressure E now v s))
     | CleansUp v \<Rightarrow> (False, snd (CleanupExpired E now v s)))"

definition system_step ::
  "(nat \<Rightarrow> ('r, 'l) PendingEnv) \<Rightarrow> nat \<times> instant \<times> pending_step \<Rightarrow> ('r, 'l) system \<Rightarrow> bool \<times> ('r, 'l) system" where
  "system_step Es x sys =
    (case x of (p, now, st) \<Rightarrow>
      (case pending_op (Es p) now st \<lparr>pd_redis = fst sys, pd_co = snd sys p\<rparr> of
         (b, s) \<Rightarrow> (b, pd_redis s, (snd sys)(p := pd_co s))))"

fun system_run ::
  "(nat \<Rightarrow> ('r, 'l) PendingEnv) \<Rightarrow> (nat \<times> instant \<times> pending_step) list \<Rightarrow> ('r, 'l) system \<Rightarrow> bool list \<times> ('r, 'l) system" where
  "system_run Es [] sys = ([], sys)"
| "system_run Es (x # xs) sys =
    (case system_step Es x sys of (b, sys1) \<Rightarrow> (case system_run Es xs sys1 of (bs, sys2) \<Rightarrow> (b # bs, sys2)))"

definition step_user :: "pending_step \<Rightarrow> string" where
  "step_user st = TrimSpace (case st of Acquires v m i c \<Rightarrow> v | Releases v owner \<Rightarrow> v | Heartbeats v owner \<Rightarrow> v
     | Observes v \<Rightarrow> v | Samples v \<Rightarrow> v | CleansUp v \<Rightarrow> v)"

definition is_acquire :: "pending_step \<Rightarrow> bool" where
  "is_acquire st \<longleftrightarrow> (case st of Acquires v m i c \<Rightarrow> True | _ \<Rightarrow> False)"

text \<open>A step that may end a lease of the user.\<close>

definition ends :: "string \<Rightarrow> pending_step \<Rightarrow> bool" where
  "ends u st \<longleftrightarrow> (case st of Releases v owner \<Rightarrow> TrimSpace v = u | CleansUp v \<Rightarrow> TrimSpace v = u | _ \<Rightarrow> False)"

section \<open>What a step keeps\<close>

text \<open>The settings of a process whose leases last until \<open>e\<close> at least when they are renewed at \<open>t0\<close> or later.\<close>

definition lease_settings :: "string \<Rightarrow> string \<Rightarrow> instant \<Rightarrow> instant \<Rightarrow> PendingCoordinatorConfig \<Rightarrow> bool" where
  "lease_settings pfx k t0 e cfg \<longleftrightarrow> TrimSpace (MetricsKey cfg) \<noteq> [] \<and> apart pfx k cfg \<and> 0 < LeaseTTL cfg \<and> e \<le> t0 + LeaseTTL cfg"

lemma scripted_user: "TrimSpace (MetricsKey cfg) \<noteq> [] \<Longrightarrow> TrimSpace v \<noteq> [] \<Longrightarrow> scripted cfg (TrimSpace v)"
  by (simp add: scripted_def userScopedKey_form)

lemma other_lease_key:
  assumes "TrimSpace u \<noteq> []" and "TrimSpace v \<noteq> TrimSpace u"
  shows "fixKey pfx (PendingCreateKey u) \<noteq> fixKey pfx (PendingCreateKey v)"
  using assms by (cases "TrimSpace v = []") (auto simp: fixKey_def PendingCreateKey_def userScopedKey_form, simp_all add: userScopedKey_def)

lemma key_trim [simp]: "PendingCreateKey (TrimSpace v) = PendingCreateKey v"
  by (simp add: PendingCreateKey_def userScopedKey_def)

lemma on_set_view:
  assumes "served E S pfx view" and "on_redis (SetKeyWithCommandTimeout S pfx now key v d) s = (a, s')"
  shows "cfg_of s' = cfg_of s \<and> (view (pd_redis s') = view (pd_redis s) \<or> view (pd_redis s') = (view (pd_redis s))(fixKey pfx key \<mapsto> kv_entry now v d))"
proof -
  from assms(1) have L: "server_laws S view" by (simp add: served_def)
  show ?thesis
    using assms(2)
    by (auto simp: on_redis_def SetKeyWithCommandTimeout_def send_def value_facts(2) [OF L] dest!: trip_view [OF L]
        split: prod.splits if_splits trip.splits)
qed

lemma write_snapshot_view:
  assumes "served E S pfx view" and "write_snapshot E now key x d s = (a, s')"
  shows "cfg_of s' = cfg_of s \<and> (view (pd_redis s') = view (pd_redis s) \<or> (\<exists>v. view (pd_redis s') = (view (pd_redis s))(fixKey pfx key \<mapsto> kv_entry now v d)))"
  using assms(2) served_server [OF assms(1)] on_set_view [OF assms(1)]
  by (fastforce simp: write_snapshot_def split: sum.splits prod.splits)

lemma on_get_view:
  assumes "served E S pfx view" and "on_redis (GetKeyWithCommandTimeout S pfx now key) s = (a, s')"
  shows "cfg_of s' = cfg_of s \<and> view (pd_redis s') = view (pd_redis s)"
  using assms(2) served_server [OF assms(1)] by (auto simp: on_redis_def dest!: reader_view(1) [of S view] split: prod.splits)

lemma Heartbeat_view:
  assumes "served E S pfx view" and "\<not> pe_degraded E" and "redis_Heartbeat E now u owner s = (res, s')"
  shows "cfg_of s' = cfg_of s \<and> (view (pd_redis s') = view (pd_redis s)
    \<or> (\<exists>v. view (pd_redis s') = (view (pd_redis s))(fixKey pfx (PendingCreateKey u) \<mapsto> kv_entry now v (LeaseTTL (cfg_of s)))))"
  using assms(2,3) served_server [OF assms(1)]
  by (fastforce simp: redis_Heartbeat_def Let_def use_memory_def dest!: on_get_view [OF assms(1)] write_snapshot_view [OF assms(1)]
      split: prod.splits sum.splits option.splits if_splits)

lemma held_renewed: "held e (Some (kv_entry now v d))" if "0 < d" "e \<le> now + d" for v
  using that by (simp add: held_def kv_entry_def)

text \<open>What holds before a step, of the user's key and of the settings of the process.\<close>

definition keeps_ready :: "('r, 'l) PendingEnv \<Rightarrow> 'r Server \<Rightarrow> string \<Rightarrow> ('r \<Rightarrow> kview) \<Rightarrow> string \<Rightarrow> instant \<Rightarrow> instant \<Rightarrow> ('r, 'l) pending_data \<Rightarrow> bool" where
  "keeps_ready E S pfx view u t0 e s \<longleftrightarrow> served E S pfx view \<and> script_path E S \<and> \<not> pe_degraded E \<and> TrimSpace u \<noteq> []
    \<and> lease_settings pfx (fixKey pfx (PendingCreateKey u)) t0 e (cfg_of s) \<and> held e (view (pd_redis s) (fixKey pfx (PendingCreateKey u)))"

lemma keeps_readyD:
  assumes "keeps_ready E S pfx view u t0 e s"
  shows "served E S pfx view" "script_path E S" "\<not> pe_degraded E" "TrimSpace u \<noteq> []" "TrimSpace (MetricsKey (cfg_of s)) \<noteq> []"
    "apart pfx (fixKey pfx (PendingCreateKey u)) (cfg_of s)" "0 < LeaseTTL (cfg_of s)" "e \<le> t0 + LeaseTTL (cfg_of s)"
    "held e (view (pd_redis s) (fixKey pfx (PendingCreateKey u)))"
  using assms by (simp_all add: keeps_ready_def lease_settings_def)

lemma seen_keeps:
  assumes "keeps_ready E S pfx view u t0 e s" and "seen view pfx (fixKey pfx (PendingCreateKey u)) s' = seen view pfx (fixKey pfx (PendingCreateKey u)) s"
  shows "keeps_ready E S pfx view u t0 e s'"
  using assms(1) seen_cfg [OF assms(2)] seen_view [OF assms(2) keeps_readyD(6) [OF assms(1)]] by (simp add: keeps_ready_def)

lemma Acquire_keeps:
  assumes r: "keeps_ready E S pfx view u t0 e s" and "now < e" and a: "redis_Acquire E now v meta uuid ctx s = (res, s')"
  shows "keeps_ready E S pfx view u t0 e s' \<and> (TrimSpace v = TrimSpace u \<longrightarrow> isl res)"
proof (cases "TrimSpace v = []")
  case True
  with a r keeps_readyD(4) [OF r] show ?thesis by (auto simp: redis_Acquire_def)
next
  case False
  note E = keeps_readyD(1,2,3) [OF r] and sc = scripted_user [OF keeps_readyD(5) [OF r] False]
  show ?thesis
  proof (cases "TrimSpace v = TrimSpace u")
    case True
    then have k: "fixKey pfx (PendingCreateKey u) = fixKey pfx (PendingCreateKey (TrimSpace v))" by (metis key_trim)
    have "taken view now (fixKey pfx (PendingCreateKey u)) s" using held_live [OF keeps_readyD(9) [OF r] assms(2)] by (simp add: taken_def)
    from Acquire_taken [OF E sc this keeps_readyD(6) [OF r] k a] seen_keeps [OF r] show ?thesis by auto
  next
    case ne: False
    with Acquire_seen [OF E sc _ a, of "fixKey pfx (PendingCreateKey u)"] other_lease_key [OF keeps_readyD(4) [OF r] ne] seen_keeps [OF r]
    show ?thesis by simp
  qed
qed

lemma Heartbeat_keeps:
  assumes r: "keeps_ready E S pfx view u t0 e s" and "t0 \<le> now" and a: "redis_Heartbeat E now v owner s = (res, s')"
  shows "keeps_ready E S pfx view u t0 e s'"
proof (cases "TrimSpace v = TrimSpace u")
  case True
  then have "PendingCreateKey v = PendingCreateKey u" by (metis key_trim)
  with Heartbeat_view [OF keeps_readyD(1,3) [OF r] a] keeps_readyD(7,8,9) [OF r] assms(2) r show ?thesis
    by (auto simp: keeps_ready_def intro!: held_renewed)
next
  case False
  with Heartbeat_seen [OF keeps_readyD(1) [OF r] _ a] other_lease_key [OF keeps_readyD(4) [OF r] False] seen_keeps [OF r] show ?thesis by simp
qed

lemma step_keeps:
  assumes r: "keeps_ready E S pfx view u t0 e s" and now: "t0 \<le> now" "now < e" and st: "\<not> ends (TrimSpace u) st"
    and run: "pending_op E now st s = (b, s')"
  shows "keeps_ready E S pfx view u t0 e s' \<and> (is_acquire st \<and> step_user st = TrimSpace u \<longrightarrow> \<not> b)"
proof -
  have other: "fixKey pfx (PendingCreateKey u) \<noteq> fixKey pfx (PendingCreateKey (TrimSpace v))" if "TrimSpace v \<noteq> TrimSpace u" for v
    using other_lease_key [OF keeps_readyD(4) [OF r] that] by simp
  note E = keeps_readyD(1) [OF r] and k = seen_keeps [OF r]
  show ?thesis
  proof (cases st)
    case (Acquires v meta uuid ctx)
    then show ?thesis using run Acquire_keeps [OF r now(2)] by (auto simp: pending_op_def step_user_def split: prod.splits)
  next
    case (Releases v owner)
    have "redis_Release E now v owner s = (fst (redis_Release E now v owner s), s')" using run Releases by (auto simp: pending_op_def)
    then show ?thesis using Releases st k [OF Release_seen [OF E other]] by (auto simp: ends_def is_acquire_def)
  next
    case (Heartbeats v owner)
    have "redis_Heartbeat E now v owner s = (fst (redis_Heartbeat E now v owner s), s')" using run Heartbeats by (auto simp: pending_op_def)
    then show ?thesis using Heartbeats Heartbeat_keeps [OF r now(1)] by (auto simp: is_acquire_def)
  next
    case (Observes v)
    have "redis_Observe E now v s = (fst (redis_Observe E now v s), s')" using run Observes by (auto simp: pending_op_def)
    then show ?thesis using Observes k [OF Observe_seen [OF E]] by (auto simp: is_acquire_def)
  next
    case (Samples v)
    have "SampleBackpressure E now v s = (fst (SampleBackpressure E now v s), s')" using run Samples by (auto simp: pending_op_def)
    then show ?thesis using Samples k [OF SampleBackpressure_seen [OF E]] by (auto simp: is_acquire_def)
  next
    case (CleansUp v)
    have "CleanupExpired E now v s = (fst (CleanupExpired E now v s), s')" using run CleansUp by (auto simp: pending_op_def)
    then have "seen view pfx (fixKey pfx (PendingCreateKey u)) s' = seen view pfx (fixKey pfx (PendingCreateKey u)) s"
      using CleansUp st other [of v] by (intro cleanup_seen(2) [OF E]) (auto simp: ends_def)
    then show ?thesis using CleansUp k by (simp add: is_acquire_def)
  qed
qed

section \<open>Runs\<close>

definition system_ready :: "(nat \<Rightarrow> ('r, 'l) PendingEnv) \<Rightarrow> 'r Server \<Rightarrow> string \<Rightarrow> ('r \<Rightarrow> kview) \<Rightarrow> string \<Rightarrow> instant \<Rightarrow> instant \<Rightarrow> ('r, 'l) system \<Rightarrow> bool" where
  "system_ready Es S pfx view u t0 e sys \<longleftrightarrow> (\<forall>p. keeps_ready (Es p) S pfx view u t0 e \<lparr>pd_redis = fst sys, pd_co = snd sys p\<rparr>)"

lemma system_step_keeps:
  assumes r: "system_ready Es S pfx view u t0 e sys" and "t0 \<le> now" "now < e" "\<not> ends (TrimSpace u) st"
    and run: "system_step Es (p, now, st) sys = (b, sys')"
  shows "system_ready Es S pfx view u t0 e sys' \<and> (is_acquire st \<and> step_user st = TrimSpace u \<longrightarrow> \<not> b)"
proof -
  obtain s' where o: "pending_op (Es p) now st \<lparr>pd_redis = fst sys, pd_co = snd sys p\<rparr> = (b, s')"
    and s: "sys' = (pd_redis s', (snd sys)(p := pd_co s'))" using run by (auto simp: system_step_def split: prod.splits)
  from r have "keeps_ready (Es p) S pfx view u t0 e \<lparr>pd_redis = fst sys, pd_co = snd sys p\<rparr>" by (simp add: system_ready_def)
  from step_keeps [OF this assms(2,3,4) o] r show ?thesis by (simp add: s system_ready_def keeps_ready_def)
qed

lemma system_run_keeps:
  assumes "system_ready Es S pfx view u t0 e sys"
    and "\<forall>x \<in> set xs. t0 \<le> fst (snd x) \<and> fst (snd x) < e \<and> \<not> ends (TrimSpace u) (snd (snd x))"
    and "system_run Es xs sys = (bs, sys')"
  shows "\<forall>(x, b) \<in> set (zip xs bs). is_acquire (snd (snd x)) \<and> step_user (snd (snd x)) = TrimSpace u \<longrightarrow> \<not> b"
  using assms
proof (induction xs arbitrary: sys bs sys')
  case Nil
  then show ?case by simp
next
  case (Cons x xs)
  obtain p now st where x: "x = (p, now, st)" by (cases x)
  obtain b sys1 bs1 sys2 where s: "system_step Es (p, now, st) sys = (b, sys1)" "system_run Es xs sys1 = (bs1, sys2)" "bs = b # bs1"
    using Cons.prems(3) x by (auto split: prod.splits)
  from system_step_keeps [OF Cons.prems(1) _ _ _ s(1)] Cons.prems(2) x
  have "system_ready Es S pfx view u t0 e sys1" "is_acquire st \<and> step_user st = TrimSpace u \<longrightarrow> \<not> b" by auto
  with Cons.IH [OF this(1) _ s(2)] Cons.prems(2) s(3) x show ?case by auto
qed

end
