(* ===== verification/PendingRedisReliable.thy ===== *)
theory PendingRedisReliable
  imports PendingRedisSafety
begin

text \<open>
  The coordinator on a server that is always reached: what each command does to the stored
  data, what an observation answers as a function of the entry, and the state after a release.
\<close>

section \<open>Commands\<close>

definition ttl_seconds :: "instant \<Rightarrow> instant option \<Rightarrow> int" where
  "ttl_seconds now e = (case e of None \<Rightarrow> - 1 | Some e \<Rightarrow> ((e - now) div Millisecond + 500) div 1000)"

lemma up_GetExp:
  assumes "server_laws S view" and "server_up S" and "kv_live now (view r (fixKey pfx key)) = Some (v, e)"
  shows "\<exists>r'. GetExp S pfx now key r = (Inr (max 0 (ttl_seconds now e)), r') \<and> view r' = view r"
proof -
  obtain r1 where "send S (\<lambda>r. (sv_TTL S now (fixKey pfx key) r, r)) r = (Inr (sv_TTL S now (fixKey pfx key) r1), r1)" "view r1 = view r"
    using up_send [OF assms(1,2), of "\<lambda>r. (sv_TTL S now (fixKey pfx key) r, r)" r] by auto
  with assms(2,3) show ?thesis
    by (auto simp: GetExp_def server_up_def number_facts(6) [OF assms(1)] ttl_seconds_def max_def split: option.splits)
qed

definition ready :: "('r, 'l) PendingEnv \<Rightarrow> 'r Server \<Rightarrow> string \<Rightarrow> ('r \<Rightarrow> kview) \<Rightarrow> bool" where
  "ready E S pfx view \<longleftrightarrow> served E S pfx view \<and> server_up S \<and> \<not> pe_degraded E"

lemma readyD:
  assumes "ready E S pfx view"
  shows "served E S pfx view" "server_laws S view" "server_up S" "server_of E = (S, pfx)" "pe_redis E = Some (S, pfx)" "\<not> use_memory E"
    "sv_up S r"
  using assms by (auto simp: ready_def served_def server_of_def use_memory_def server_up_def)

lemma on_get:
  assumes "ready E S pfx view"
  shows "\<exists>r. on_redis (GetKeyWithCommandTimeout S pfx now key) s = (Inr (map_option fst (kv_live now (view (pd_redis s) (fixKey pfx key)))), s\<lparr>pd_redis := r\<rparr>)
    \<and> view r = view (pd_redis s)"
  using up_get [OF readyD(2,3) [OF assms], of pfx now key "pd_redis s"] by (auto simp: on_redis_def)

lemma on_set:
  assumes "ready E S pfx view"
  shows "\<exists>r. on_redis (SetKeyWithCommandTimeout S pfx now key v d) s = (Inr (), s\<lparr>pd_redis := r\<rparr>)
    \<and> view r = (view (pd_redis s))(fixKey pfx key \<mapsto> kv_entry now v d)"
  using up_set [OF readyD(2,3) [OF assms], of pfx now key v d "pd_redis s"] by (auto simp: on_redis_def)

lemma on_delete:
  assumes "ready E S pfx view"
  shows "\<exists>r. on_redis (DeleteKeyWithCommandTimeout S pfx now key) s = (Inr (kv_live now (view (pd_redis s) (fixKey pfx key)) \<noteq> None), s\<lparr>pd_redis := r\<rparr>)
    \<and> view r = (view (pd_redis s))(fixKey pfx key := None)"
  using up_delete [OF readyD(2,3) [OF assms], of pfx now key "pd_redis s"] by (auto simp: on_redis_def)

section \<open>Observing\<close>

definition observed_entry :: "codec \<Rightarrow> 'l PendingCoordinator \<Rightarrow> instant \<Rightarrow> string \<Rightarrow> (string \<times> instant option) option \<Rightarrow> PendingState" where
  "observed_entry C c now u x =
    (case kv_live now x of
       None \<Rightarrow> (pending_state PendingStateUnknown)\<lparr>ps_Username := u\<rparr>
     | Some (raw, e) \<Rightarrow>
         (let st0 = (pending_state PendingStateUnknown)\<lparr>ps_Username := u, ps_Exists := True, ps_Raw := raw\<rparr>;
              st = (case js_unmarshal C raw of Inl err \<Rightarrow> st0 | Inr y \<Rightarrow> observed_state c y st0)
          in if 0 < ttl_seconds now e then st\<lparr>ps_TTL := ttl_seconds now e * Second\<rparr> else st))"

lemma up_Observe:
  assumes "ready E S pfx view" and "TrimSpace u \<noteq> []"
  shows "\<exists>r. redis_Observe E now u s =
      (Inr (observed_entry (pe_codec E) (co_of s) now (TrimSpace u) (view (pd_redis s) (fixKey pfx (PendingCreateKey u)))), s\<lparr>pd_redis := r\<rparr>)
    \<and> view r = view (pd_redis s)"
proof -
  let ?k = "PendingCreateKey u"
  have k: "?k \<noteq> []" using assms(2) by (simp add: PendingCreateKey_def userScopedKey_form)
  obtain r where g: "on_redis (GetKeyWithCommandTimeout S pfx now ?k) s = (Inr (map_option fst (kv_live now (view (pd_redis s) (fixKey pfx ?k)))), s\<lparr>pd_redis := r\<rparr>)"
    and v: "view r = view (pd_redis s)" using on_get [OF assms(1)] by blast
  show ?thesis
  proof (cases "kv_live now (view (pd_redis s) (fixKey pfx ?k))")
    case None
    then show ?thesis using g v k assms(2) readyD(4,6) [OF assms(1)] by (intro exI [of _ r]) (simp add: redis_Observe_def observed_entry_def)
  next
    case (Some x)
    obtain raw e where x: "x = (raw, e)" by (cases x)
    obtain r2 where t: "GetExp S pfx now ?k r = (Inr (max 0 (ttl_seconds now e)), r2)" and v2: "view r2 = view r"
      using up_GetExp [OF readyD(2,3) [OF assms(1)], of now r pfx ?k raw e] Some v x by auto
    then have o2: "on_redis (GetExp S pfx now ?k) (s\<lparr>pd_redis := r\<rparr>) = (Inr (max 0 (ttl_seconds now e)), s\<lparr>pd_redis := r2\<rparr>)"
      by (simp add: on_redis_def)
    show ?thesis
      using g o2 v v2 k Some x assms(2) readyD(4,6) [OF assms(1)]
      by (intro exI [of _ r2]) (auto simp: redis_Observe_def observed_entry_def Let_def max_def split: sum.split)
  qed
qed

section \<open>Counters\<close>

lemma up_decrement:
  assumes "ready E S pfx view" and "TrimSpace key \<noteq> []"
    and "kv_live now (view (pd_redis s) (fixKey pfx (TrimSpace key))) = Some (FormatInt n, e)" and "1 < n" and "in64 n"
  shows "\<exists>r. safeDecrementCounter E now key s = (Inr (n - 1), s\<lparr>pd_redis := r\<rparr>)
    \<and> view r = (view (pd_redis s))(fixKey pfx (TrimSpace key) \<mapsto> (FormatInt (n - 1), e))"
proof -
  let ?k = "fixKey pfx (TrimSpace key)"
  note L = readyD(2) [OF assms(1)]
  obtain r1 where s: "send S (decrementActiveLua S now ?k) (pd_redis s) = (Inr (fst (decrementActiveLua S now ?k r1)), snd (decrementActiveLua S now ?k r1))"
    and v: "view r1 = view (pd_redis s)" using up_send [OF L readyD(3) [OF assms(1)]] by blast
  have "counter_value (kv_live now (view r1 ?k)) n e" "in64 (n - 1)" using assms(3,4,5) v by (auto simp: counter_value_def in64_def int64_min_def)
  from number_facts(2) [OF L this(1) assms(5) this(2)] obtain r2
    where d: "sv_DECR S now ?k r1 = (Inr (n - 1), r2)" "view r2 = (view r1)(?k \<mapsto> (FormatInt (n - 1), e))" by fastforce
  have "decrementActiveLua S now ?k r1 = (Inr (n - 1), r2)"
    using d assms(3,4,5) v by (simp add: decrementActiveLua_def value_facts [OF L] ParseInt_FormatInt)
  with s d v assms(2) readyD(5,7) [OF assms(1)] show ?thesis
    by (auto simp: safeDecrementCounter_def on_redis_def)
qed

lemma decrement_loop_other:
  assumes "served E S pfx view" and "k \<noteq> fixKey pfx (TrimSpace key)"
  shows "view (pd_redis (snd (decrement_loop E now key as err s))) k = view (pd_redis s) k
    \<and> cfg_of (snd (decrement_loop E now key as err s)) = cfg_of s"
proof (induction as arbitrary: err s)
  case Nil
  then show ?case by simp
next
  case (Cons a as)
  obtain x s1 where d: "safeDecrementCounter E now key s = (x, s1)" by fastforce
  have "view (pd_redis s1) k = view (pd_redis s) k \<and> cfg_of s1 = cfg_of s"
    using d served_server [OF assms(1)] wrapper_leaves(5) [of S view k pfx "TrimSpace key" now] assms(2)
    by (auto simp: safeDecrementCounter_def on_redis_def Let_def dest: leavesD split: if_splits prod.splits sum.splits)
  with Cons d show ?case by (auto simp: slept_def upd_co_def split: sum.splits)
qed

lemma decrement_count:
  assumes "ready E S pfx view" and "TrimSpace (MetricsKey (cfg_of s)) \<noteq> []"
    and "kv_live now (view (pd_redis s) (fixKey pfx (TrimSpace (MetricsKey (cfg_of s))))) = Some (FormatInt n, e)" and "1 < n" and "in64 n"
  shows "\<exists>r. decrementCounterWithRetry E now (MetricsKey (cfg_of s)) fb s = ((n - 1, None), s\<lparr>pd_redis := r\<rparr>)
    \<and> view r = (view (pd_redis s))(fixKey pfx (TrimSpace (MetricsKey (cfg_of s))) \<mapsto> (FormatInt (n - 1), e))"
  using up_decrement [OF assms] by (auto simp: decrementCounterWithRetry_def)

lemma decrement_user_other:
  assumes "served E S pfx view" and "k \<noteq> fixKey pfx (TrimSpace (pendingUserDepthKey (co_of s) v))" and "decrementUserQueueDepth E now v n s = (x, s')"
  shows "view (pd_redis s') k = view (pd_redis s) k \<and> cfg_of s' = cfg_of s"
  using assms(3) decrement_loop_other [OF assms(1,2)]
  by (auto simp: decrementUserQueueDepth_def decrementCounterWithRetry_def scheduleQueueDepthReconcile_def upd_co_def Let_def
      simp del: decrement_loop.simps split: if_splits prod.splits sum.splits) (metis snd_conv)+

section \<open>The release of a lease\<close>

text \<open>A process releases its lease of a user, or what has remained of it.\<close>

definition releasable :: "('r, 'l) PendingEnv \<Rightarrow> string \<Rightarrow> ('r \<Rightarrow> kview) \<Rightarrow> instant \<Rightarrow> string \<Rightarrow> string \<Rightarrow> int \<Rightarrow> instant option \<Rightarrow> ('r, 'l) pending_data \<Rightarrow> bool" where
  "releasable E pfx view now u owner n e s \<longleftrightarrow>
    (\<exists>raw x ex. kv_live now (view (pd_redis s) (fixKey pfx (PendingCreateKey u))) = Some (raw, ex)
       \<and> js_unmarshal (pe_codec E) raw = Inr x \<and> sn_OwnerID x = owner)
    \<and> kv_live now (view (pd_redis s) (fixKey pfx (TrimSpace (MetricsKey (cfg_of s))))) = Some (FormatInt n, e)"

text \<open>Encoding succeeds, and decoding gives the owner back.\<close>

definition owner_codec :: "codec \<Rightarrow> bool" where
  "owner_codec C \<longleftrightarrow> (\<forall>x. \<exists>p y. js_marshal C x = Inr p \<and> js_unmarshal C p = Inr y \<and> sn_OwnerID y = sn_OwnerID x)"

definition keys_apart :: "string \<Rightarrow> string \<Rightarrow> PendingCoordinatorConfig \<Rightarrow> bool" where
  "keys_apart pfx u cfg \<longleftrightarrow> TrimSpace (MetricsKey cfg) \<noteq> [] \<and> apart pfx (fixKey pfx (PendingCreateKey u)) cfg
    \<and> (\<forall>v. TrimSpace (MetricsKey cfg) \<noteq> TrimSpace (userScopedKey (depth_prefix cfg) v))"

lemma write_ready:
  assumes "ready E S pfx view" and "owner_codec (pe_codec E)"
  shows "\<exists>p y r. write_snapshot E now key x ttl s = (None, s\<lparr>pd_redis := r\<rparr>) \<and> js_unmarshal (pe_codec E) p = Inr y \<and> sn_OwnerID y = sn_OwnerID x
    \<and> view r = (view (pd_redis s))(fixKey pfx key \<mapsto> kv_entry now p ttl)"
proof -
  obtain p y where p: "js_marshal (pe_codec E) x = Inr p" "js_unmarshal (pe_codec E) p = Inr y" "sn_OwnerID y = sn_OwnerID x"
    using assms(2) unfolding owner_codec_def by blast
  obtain r where "on_redis (SetKeyWithCommandTimeout S pfx now key p ttl) s = (Inr (), s\<lparr>pd_redis := r\<rparr>)"
    "view r = (view (pd_redis s))(fixKey pfx key \<mapsto> kv_entry now p ttl)" using on_set [OF assms(1)] by blast
  with p readyD(4) [OF assms(1)] show ?thesis by (auto simp: write_snapshot_def)
qed

lemma released_owner: "TrimSpace owner \<noteq> [] \<Longrightarrow> sn_OwnerID (released_snapshot now ttl u x owner n) = TrimSpace owner"
  by (simp add: released_snapshot_def take_over_def Let_def split: option.splits)

lemma co_steps_data:
  "pd_redis (storeGlobalSample now n l s) = pd_redis s \<and> cfg_of (storeGlobalSample now n l s) = cfg_of s"
  "pd_redis (storeUserSample now u n l s) = pd_redis s \<and> cfg_of (storeUserSample now u n l s) = cfg_of s"
  "pd_redis (forget_user_sample u s) = pd_redis s \<and> cfg_of (forget_user_sample u s) = cfg_of s"
  "pd_redis (snd (decInstanceActive s)) = pd_redis s \<and> cfg_of (snd (decInstanceActive s)) = cfg_of s"
  "pd_redis (snd (aggregate a b c now s)) = pd_redis s \<and> cfg_of (snd (aggregate a b c now s)) = cfg_of s"
  by (auto simp: storeGlobalSample_def storeUserSample_def forget_user_sample_def decInstanceActive_def aggregate_def upd_co_def Let_def
      split: prod.splits)

lemma write_release:
  assumes "ready E S pfx view" and "owner_codec (pe_codec E)" and "TrimSpace u \<noteq> []" and "TrimSpace owner \<noteq> []" and "0 < releaseRetentionTTL (cfg_of s)"
  shows "\<exists>p y r. writeReleaseSnapshot E now u x owner n s = (None, s\<lparr>pd_redis := r\<rparr>)
    \<and> js_unmarshal (pe_codec E) p = Inr y \<and> sn_OwnerID y = TrimSpace owner
    \<and> view r = (view (pd_redis s))(fixKey pfx (PendingCreateKey u) \<mapsto> kv_entry now p (releaseRetentionTTL (cfg_of s)))"
proof -
  have key: "PendingCreateKey u \<noteq> []" using assms(3) by (simp add: PendingCreateKey_def userScopedKey_form)
  let ?x = "released_snapshot now (releaseRetentionTTL (cfg_of s)) u x owner n"
  from write_ready [OF assms(1,2)] obtain p y r
    where w: "write_snapshot E now (PendingCreateKey u) ?x (releaseRetentionTTL (cfg_of s)) s = (None, s\<lparr>pd_redis := r\<rparr>)" "js_unmarshal (pe_codec E) p = Inr y" "sn_OwnerID y = sn_OwnerID ?x"
      "view r = (view (pd_redis s))(fixKey pfx (PendingCreateKey u) \<mapsto> kv_entry now p (releaseRetentionTTL (cfg_of s)))" by blast
  have "sn_OwnerID ?x = TrimSpace owner" by (rule released_owner [OF assms(4)])
  with w key assms(5) readyD(5) [OF assms(1)] show ?thesis by (auto simp: writeReleaseSnapshot_def)
qed

lemma finish_count:
  assumes R: "ready E S pfx view" and u: "TrimSpace u \<noteq> []" and o1: "TrimSpace owner = owner" "owner \<noteq> []" and K: "keys_apart pfx u (cfg_of s)"
    and cnt: "kv_live now (view (pd_redis s) (fixKey pfx (TrimSpace (MetricsKey (cfg_of s))))) = Some (FormatInt n, e)" and n: "1 < n" "in64 n"
    and C: "owner_codec (pe_codec E)" and ttl: "0 < releaseRetentionTTL (cfg_of s)"
  shows "\<exists>s' p y. release_finish E now u owner sn s = (None, s') \<and> cfg_of s' = cfg_of s
    \<and> view (pd_redis s') (fixKey pfx (TrimSpace (MetricsKey (cfg_of s)))) = Some (FormatInt (n - 1), e)
    \<and> view (pd_redis s') (fixKey pfx (PendingCreateKey u)) = Some (kv_entry now p (releaseRetentionTTL (cfg_of s)))
    \<and> js_unmarshal (pe_codec E) p = Inr y \<and> sn_OwnerID y = owner"
proof -
  let ?m = "fixKey pfx (TrimSpace (MetricsKey (cfg_of s)))"
  have km: "fixKey pfx (PendingCreateKey u) \<noteq> ?m" and mk: "TrimSpace (MetricsKey (cfg_of s)) \<noteq> []"
    and md: "?m \<noteq> fixKey pfx (TrimSpace (pendingUserDepthKey (co_of s1) v))" if "cfg_of s1 = cfg_of s" for s1 :: "('a, 'b) pending_data" and v
    using K that by (auto simp: keys_apart_def apart_def depth_key fixKey_def)
  define fb where "fb = (case sn of None \<Rightarrow> 0 | Some x \<Rightarrow> sn_QueueDepth x)"
  obtain r1 where c: "decrementCounterWithRetry E now (MetricsKey (cfg_of s)) fb s = ((n - 1, None), s\<lparr>pd_redis := r1\<rparr>)"
    "view r1 = (view (pd_redis s))(?m \<mapsto> (FormatInt (n - 1), e))" using decrement_count [OF R mk cnt n] by blast
  obtain ur ue s2 where d: "decrementUserQueueDepth E now u (case sn of None \<Rightarrow> 0 | Some x \<Rightarrow> sn_UserQueueDepth x) (s\<lparr>pd_redis := r1\<rparr>) = ((ur, ue), s2)"
    by (metis prod.collapse)
  from decrement_user_other [OF readyD(1) [OF R] md d] c(2)
  have s2: "view (pd_redis s2) ?m = Some (FormatInt (n - 1), e)" "cfg_of s2 = cfg_of s" by simp_all
  obtain ir s3 where i: "decInstanceActive s2 = (ir, s3)" by fastforce
  have s3: "pd_redis s3 = pd_redis s2" "cfg_of s3 = cfg_of s" using co_steps_data(4) [of s2] i s2 by simp_all
  define s4 where "s4 = (if ue \<noteq> None then forget_user_sample u s3 else storeUserSample now u ur (classifyUserBackpressure (co_of s3) ur) s3)"
  define s6 where "s6 = snd (aggregate (classifyBackpressure (co_of s3) (n - 1)) (classifyUserBackpressure (co_of s3) ur)
      (classifyInstanceBackpressure (co_of s3) ir) now (storeGlobalSample now (n - 1) (classifyBackpressure (co_of s3) (n - 1)) s4))"
  have s6: "pd_redis s6 = pd_redis s2" "cfg_of s6 = cfg_of s" using s3 by (simp_all add: s6_def s4_def co_steps_data)
  let ?x = "map_option (\<lambda>x. x\<lparr>sn_UserQueueDepth := ur, sn_InstanceQueueDepth := ir, sn_UserBackpressure := classifyUserBackpressure (co_of s3) ur,
     sn_InstanceBackpressure := classifyInstanceBackpressure (co_of s3) ir\<rparr>) sn"
  have "release_finish E now u owner sn s = (None, snd (writeReleaseSnapshot E now u ?x owner (n - 1) s6))"
    using c(1) d i by (simp add: release_finish_def Let_def s6_def s4_def fb_def)
  moreover obtain p y r where "writeReleaseSnapshot E now u ?x owner (n - 1) s6 = (None, s6\<lparr>pd_redis := r\<rparr>)" "js_unmarshal (pe_codec E) p = Inr y"
    "sn_OwnerID y = owner" "view r = (view (pd_redis s2))(fixKey pfx (PendingCreateKey u) \<mapsto> kv_entry now p (releaseRetentionTTL (cfg_of s)))"
    using write_release [OF R C u, of owner s6 now ?x "n - 1"] o1 ttl s6 by auto
  ultimately show ?thesis using s2 s6 km [of s] by (intro exI [of _ "s6\<lparr>pd_redis := r\<rparr>"] exI [of _ p] exI [of _ y]) simp
qed

lemma Release_count:
  assumes R: "ready E S pfx view" and u: "TrimSpace u \<noteq> []" and o1: "TrimSpace owner = owner" "owner \<noteq> []"
    and K: "keys_apart pfx u (cfg_of s)" and l: "releasable E pfx view now u owner n e s" and n: "1 < n" "in64 n"
    and C: "owner_codec (pe_codec E)" and ttl: "0 < releaseRetentionTTL (cfg_of s)"
  shows "\<exists>s' p y. redis_Release E now u owner s = (None, s') \<and> cfg_of s' = cfg_of s
    \<and> view (pd_redis s') (fixKey pfx (TrimSpace (MetricsKey (cfg_of s)))) = Some (FormatInt (n - 1), e)
    \<and> view (pd_redis s') (fixKey pfx (PendingCreateKey u)) = Some (kv_entry now p (releaseRetentionTTL (cfg_of s)))
    \<and> js_unmarshal (pe_codec E) p = Inr y \<and> sn_OwnerID y = owner"
proof -
  let ?k = "fixKey pfx (PendingCreateKey u)" and ?m = "fixKey pfx (TrimSpace (MetricsKey (cfg_of s)))" and ?u = "TrimSpace u"
  have key: "PendingCreateKey u \<noteq> []" using u by (simp add: PendingCreateKey_def userScopedKey_form)
  have km: "?k \<noteq> ?m" using K by (auto simp: keys_apart_def apart_def)
  obtain raw x ex where en: "kv_live now (view (pd_redis s) ?k) = Some (raw, ex)" "js_unmarshal (pe_codec E) raw = Inr x" "sn_OwnerID x = owner"
    and cnt: "kv_live now (view (pd_redis s) ?m) = Some (FormatInt n, e)" using l by (auto simp: releasable_def)
  obtain r1 where g: "on_redis (GetKeyWithCommandTimeout S pfx now (PendingCreateKey u)) s = (Inr (Some raw), s\<lparr>pd_redis := r1\<rparr>)"
    "view r1 = view (pd_redis s)" using on_get [OF R, of now "PendingCreateKey u" s] en by auto
  obtain r2 where d: "on_redis (DeleteKeyWithCommandTimeout S pfx now (PendingCreateKey u)) (s\<lparr>pd_redis := r1\<rparr>) = (Inr True, s\<lparr>pd_redis := r2\<rparr>)"
    "view r2 = (view (pd_redis s))(?k := None)" using on_delete [OF R, of now "PendingCreateKey u" "s\<lparr>pd_redis := r1\<rparr>"] en g by auto
  have "redis_Release E now u owner s = release_finish E now ?u owner (Some x) (s\<lparr>pd_redis := r2\<rparr>)"
    using g d en key u readyD(4,6) [OF R] by (simp add: redis_Release_def deleteKeyWithOwner_def release_read_def release_delete_def foreign_owner_def)
  moreover have "keys_apart pfx ?u (cfg_of (s\<lparr>pd_redis := r2\<rparr>))" using K by (simp add: keys_apart_def)
  moreover have "kv_live now (view r2 ?m) = Some (FormatInt n, e)" using cnt d km by simp
  ultimately show ?thesis
    using finish_count [OF R, of ?u owner "s\<lparr>pd_redis := r2\<rparr>" now n e "Some x"] u o1 n C ttl by simp
qed

text \<open>
  The calibration against a reference count: on a server that is reached, the global counter becomes the number of
  answers of the scan that belong to a user with a lease neither expired nor due to be promoted. A key the scan repeats is counted
  as often as it is named.
\<close>

section \<open>The reference count\<close>

text \<open>An entry is a lease that counts: it can be decoded, lasts for at least half a second more, and neither its
  heartbeat nor its own end with the grace period is overdue.\<close>

definition counted_lease :: "codec \<Rightarrow> PendingCoordinatorConfig \<Rightarrow> instant \<Rightarrow> (string \<times> instant option) option \<Rightarrow> bool" where
  "counted_lease C cfg now x \<longleftrightarrow>
    (case kv_live now x of
       None \<Rightarrow> False
     | Some (raw, e) \<Rightarrow>
         (case js_unmarshal C raw of
            Inl err \<Rightarrow> False
          | Inr y \<Rightarrow> sn_State y = PendingStateLease \<and> 0 < ttl_seconds now e
              \<and> (IsZero (sn_LeaseExpiresAt y) \<or> \<not> time_After now (time_Add (sn_LeaseExpiresAt y) (ExpiredGracePeriod cfg)))
              \<and> \<not> heartbeatExpired cfg ((pending_state PendingStateLease)\<lparr>ps_LeaseExpiresAt := sn_LeaseExpiresAt y, ps_HeartbeatAt := sn_HeartbeatAt y\<rparr>) now))"

text \<open>The users with such a lease.\<close>

definition counted_users :: "codec \<Rightarrow> string \<Rightarrow> PendingCoordinatorConfig \<Rightarrow> instant \<Rightarrow> kview \<Rightarrow> string set" where
  "counted_users C pfx cfg now v = {u. u \<noteq> [] \<and> TrimSpace u = u \<and> counted_lease C cfg now (v (fixKey pfx (PendingCreateKey u)))}"

definition counts :: "codec \<Rightarrow> string \<Rightarrow> PendingCoordinatorConfig \<Rightarrow> instant \<Rightarrow> kview \<Rightarrow> string \<Rightarrow> bool" where
  "counts C pfx cfg now v key \<longleftrightarrow>
    (let u = usernameFromKeyWithPrefix key PendingCreatePrefix in u \<noteq> [] \<and> counted_lease C cfg now (v (fixKey pfx (PendingCreateKey u))))"

section \<open>The scan\<close>

lemma counted_observed:
  "counted_lease C (co_cfg c) now x \<longleftrightarrow>
    ps_Exists (observed_entry C c now u x) \<and> ps_State (observed_entry C c now u x) = PendingStateLease
    \<and> \<not> shouldPromoteExpired (co_cfg c) (observed_entry C c now u x) now"
  by (auto simp: counted_lease_def observed_entry_def shouldPromoteExpired_def heartbeatExpired_def observed_state_def pending_state_def
      Let_def Second_def Millisecond_def split: option.splits sum.splits)

lemma username_trimmed: "TrimSpace (usernameFromKeyWithPrefix key p) = usernameFromKeyWithPrefix key p"
  by (auto simp: usernameFromKeyWithPrefix_def usernameFromTaggedKey_def after_colon_def Let_def split: option.splits)

lemma scan_counts:
  assumes R: "ready E S pfx view" and "calibrate_scan E now ks a cs s = ((a', cs'), s')"
  shows "a' = a + int (length (filter (counts (pe_codec E) pfx (cfg_of s) now (view (pd_redis s))) ks))
    \<and> view (pd_redis s') = view (pd_redis s) \<and> co_of s' = co_of s"
  using assms(2)
proof (induction ks arbitrary: a cs s)
  case Nil
  then show ?case by simp
next
  case (Cons key ks)
  let ?u = "usernameFromKeyWithPrefix key PendingCreatePrefix"
  show ?case
  proof (cases "?u = []")
    case True
    with Cons.prems have "calibrate_scan E now ks a cs s = ((a', cs'), s')" by (simp add: Let_def)
    from Cons.IH [OF this] True show ?thesis by (simp add: counts_def)
  next
    case False
    then have t: "TrimSpace ?u \<noteq> []" by (simp add: username_trimmed)
    let ?x = "view (pd_redis s) (fixKey pfx (PendingCreateKey ?u))"
    obtain r where o1: "redis_Observe E now ?u s = (Inr (observed_entry (pe_codec E) (co_of s) now ?u ?x), s\<lparr>pd_redis := r\<rparr>)"
      and v: "view r = view (pd_redis s)" using up_Observe [OF R t, of now s] by (auto simp: username_trimmed)
    show ?thesis
    proof (cases "counted_lease (pe_codec E) (cfg_of s) now ?x")
      case True
      then have "calibrate_scan E now ks (a + 1) (count_user ?u cs) (s\<lparr>pd_redis := r\<rparr>) = ((a', cs'), s')"
        using Cons.prems o1 False counted_observed [of "pe_codec E" "co_of s" now ?x ?u] by (simp add: Let_def)
      from Cons.IH [OF this] v True False show ?thesis by (simp add: counts_def)
    next
      case no: False
      then have "calibrate_scan E now ks a cs (s\<lparr>pd_redis := r\<rparr>) = ((a', cs'), s')"
        using Cons.prems o1 False counted_observed [of "pe_codec E" "co_of s" now ?x ?u] by (auto simp: Let_def split: if_splits)
      from Cons.IH [OF this] v no False show ?thesis by (simp add: counts_def)
    qed
  qed
qed

section \<open>Keys of the scan\<close>

lemma replace_first_prefix: "replace_first p (p @ rest) = rest"
proof (cases "p @ rest")
  case (Cons c cs)
  then have "HasPrefix (c # cs) p" "drop (length p) (c # cs) = rest" by (metis HasPrefix_def prefixI, metis append_eq_conv_conj)
  then show ?thesis by (simp add: Cons)
qed simp

lemma clean_key: "HasPrefix k (pfx @ p) \<Longrightarrow> fixKey pfx (cleanKey pfx k) = k \<and> HasPrefix (cleanKey pfx k) p"
  by (auto simp: HasPrefix_def prefix_def cleanKey_def fixKey_def replace_first_prefix)

lemma create_key_prefix: "TrimSpace u \<noteq> [] \<Longrightarrow> HasPrefix (PendingCreateKey u) PendingCreatePrefix"
  by (simp add: PendingCreateKey_def userScopedKey_form PendingCreatePrefix_def HasPrefix_def)

lemma create_key_username: "TrimSpace u \<noteq> [] \<Longrightarrow> usernameFromKeyWithPrefix (PendingCreateKey u) PendingCreatePrefix = TrimSpace u"
  using scoped_key_roundtrip [of pendingCreatePrefix u] by (simp add: PendingCreateKey_def PendingCreatePrefix_def)

text \<open>Every key under the prefix is that of a lease, or is read as a user without a lease that counts.\<close>

definition no_strays :: "codec \<Rightarrow> string \<Rightarrow> PendingCoordinatorConfig \<Rightarrow> instant \<Rightarrow> kview \<Rightarrow> bool" where
  "no_strays C pfx cfg now v \<longleftrightarrow>
    (\<forall>key. HasPrefix key PendingCreatePrefix \<and> kv_live now (v (fixKey pfx key)) \<noteq> None \<and> counts C pfx cfg now v key
       \<longrightarrow> key = PendingCreateKey (usernameFromKeyWithPrefix key PendingCreatePrefix))"

lemma counted_live: "counted_lease C cfg now x \<Longrightarrow> kv_live now x \<noteq> None"
  by (auto simp: counted_lease_def split: option.splits)

lemma counted_keys:
  assumes ks: "set ks = {key. HasPrefix key PendingCreatePrefix \<and> kv_live now (v (fixKey pfx key)) \<noteq> None}"
    and n: "no_strays C pfx cfg now v"
  shows "set (filter (counts C pfx cfg now v) ks) = PendingCreateKey ` counted_users C pfx cfg now v"
proof (intro equalityI subsetI)
  fix key assume "key \<in> set (filter (counts C pfx cfg now v) ks)"
  then have k: "key \<in> set ks" "counts C pfx cfg now v key" by simp_all
  let ?u = "usernameFromKeyWithPrefix key PendingCreatePrefix"
  have "key = PendingCreateKey ?u" using n k ks by (auto simp: no_strays_def)
  moreover have "?u \<in> counted_users C pfx cfg now v" using k(2) by (simp add: counts_def counted_users_def Let_def username_trimmed)
  ultimately show "key \<in> PendingCreateKey ` counted_users C pfx cfg now v" by (rule image_eqI)
next
  fix key assume "key \<in> PendingCreateKey ` counted_users C pfx cfg now v"
  then obtain u where u: "u \<noteq> []" "TrimSpace u = u" "counted_lease C cfg now (v (fixKey pfx (PendingCreateKey u)))" "key = PendingCreateKey u"
    by (auto simp: counted_users_def)
  then show "key \<in> set (filter (counts C pfx cfg now v) ks)"
    using ks create_key_prefix [of u] create_key_username [of u] counted_live by (auto simp: counts_def Let_def)
qed

lemma counted_card: "card (fixKey pfx ` PendingCreateKey ` counted_users C p cfg now v) = card (counted_users C p cfg now v)"
proof -
  let ?U = "counted_users C p cfg now v"
  have "inj_on PendingCreateKey ?U"
  proof (rule inj_onI)
    fix u w assume u: "u \<in> ?U" "w \<in> ?U" and e: "PendingCreateKey u = PendingCreateKey w"
    then have "TrimSpace u = u" "TrimSpace w = w" "u \<noteq> []" "w \<noteq> []" by (simp_all add: counted_users_def)
    with create_key_username [of u] create_key_username [of w]
    have "usernameFromKeyWithPrefix (PendingCreateKey u) PendingCreatePrefix = u" "usernameFromKeyWithPrefix (PendingCreateKey w) PendingCreatePrefix = w"
      by (simp_all only: not_False_eq_True)
    with e show "u = w" by metis
  qed
  moreover have "inj_on (fixKey pfx) A" for A by (rule inj_onI) (simp add: fixKey_def)
  ultimately show ?thesis by (simp add: card_image)
qed

section \<open>The counters\<close>

text \<open>The global counter is no user's counter.\<close>

definition global_apart :: "PendingCoordinatorConfig \<Rightarrow> bool" where
  "global_apart cfg \<longleftrightarrow> TrimSpace (MetricsKey cfg) \<noteq> [] \<and> TrimSpace (UserMetricsPrefix cfg) \<noteq> []
    \<and> \<not> HasPrefix (TrimSpace (MetricsKey cfg)) (normalizeKeyPrefix (UserMetricsPrefix cfg))"

lemma user_counters_other:
  assumes R: "ready E S pfx view" and "global_apart (cfg_of s)"
  shows "view (pd_redis (set_user_counters E now cs s)) (fixKey pfx (TrimSpace (MetricsKey (cfg_of s)))) = view (pd_redis s) (fixKey pfx (TrimSpace (MetricsKey (cfg_of s))))
    \<and> co_of (set_user_counters E now cs s) = co_of s"
  using assms(2)
proof (induction cs arbitrary: s)
  case Nil
  then show ?case by simp
next
  case (Cons x cs)
  obtain u d where x: "x = (u, d)" by (cases x)
  let ?key = "pendingUserDepthKey (co_of s) u"
  show ?case
  proof (cases "?key = []")
    case True
    with Cons.IH [OF Cons.prems] x show ?thesis by simp
  next
    case False
    obtain r where r: "set_counter E now ?key d (UserBackpressureWindow (cfg_of s)) s = s\<lparr>pd_redis := r\<rparr>"
      "view r = (view (pd_redis s))(fixKey pfx ?key \<mapsto> kv_entry now (FormatInt d) (UserBackpressureWindow (cfg_of s)))"
      using on_set [OF R, of now ?key "FormatInt d" "UserBackpressureWindow (cfg_of s)" s] readyD(4) [OF R] by (auto simp: set_counter_def)
    have t: "TrimSpace u \<noteq> []" using False by (auto simp: depth_key userScopedKey_def)
    have "HasPrefix ?key (normalizeKeyPrefix (UserMetricsPrefix (cfg_of s)))"
      using Cons.prems t by (simp add: depth_key depth_prefix_def global_apart_def userScopedKey_form HasPrefix_def normalizeKeyPrefix_def)
    then have "fixKey pfx (TrimSpace (MetricsKey (cfg_of s))) \<noteq> fixKey pfx ?key" using Cons.prems by (auto simp: global_apart_def fixKey_def)
    with Cons.IH [of "s\<lparr>pd_redis := r\<rparr>"] Cons.prems r x False show ?thesis by simp
  qed
qed

lemma delete_stale_other:
  assumes R: "ready E S pfx view" and "\<forall>key \<in> set ks. fixKey pfx key \<noteq> k"
  shows "view (pd_redis (delete_stale E now p act ks s)) k = view (pd_redis s) k"
  using assms(2)
proof (induction ks arbitrary: s)
  case Nil
  then show ?case by simp
next
  case (Cons key ks)
  obtain r where "snd (on_redis (DeleteKeyWithCommandTimeout (fst (server_of E)) (snd (server_of E)) now key) s) = s\<lparr>pd_redis := r\<rparr>"
    "view r = (view (pd_redis s))(fixKey pfx key := None)" using on_delete [OF R, of now key s] readyD(4) [OF R] by auto
  with Cons show ?case by (auto simp: Let_def)
qed

lemma up_GetKeys:
  assumes R: "ready E S pfx view" and "\<not> sv_cluster S"
  shows "\<exists>r ks. on_redis (GetKeys S pfx now p) s = (map (cleanKey pfx) (sv_SCAN S now (pfx @ p) ks), s\<lparr>pd_redis := r\<rparr>)
    \<and> view r = view (pd_redis s) \<and> view ks = view (pd_redis s)"
proof -
  obtain r1 where "send S (\<lambda>r. (sv_SCAN S now (pfx @ p) r, r)) (pd_redis s) = (Inr (sv_SCAN S now (pfx @ p) r1), r1)" "view r1 = view (pd_redis s)"
    using up_send [OF readyD(2,3) [OF R], of "\<lambda>r. (sv_SCAN S now (pfx @ p) r, r)" "pd_redis s"] by auto
  with assms(2) readyD(7) [OF R] show ?thesis by (auto simp: on_redis_def GetKeys_def)
qed

lemma cleanup_other:
  assumes R: "ready E S pfx view" and "\<not> sv_cluster S" and "global_apart (cfg_of s)"
  shows "view (pd_redis (cleanupStaleUserDepthKeys E now act s)) (fixKey pfx (TrimSpace (MetricsKey (cfg_of s))))
    = view (pd_redis s) (fixKey pfx (TrimSpace (MetricsKey (cfg_of s))))"
proof -
  let ?p = "normalizeKeyPrefix (TrimSpace (UserMetricsPrefix (cfg_of s)))" and ?m = "fixKey pfx (TrimSpace (MetricsKey (cfg_of s)))"
  obtain r q where g: "on_redis (GetKeys S pfx now ?p) s = (map (cleanKey pfx) (sv_SCAN S now (pfx @ ?p) q), s\<lparr>pd_redis := r\<rparr>)" "view r = view (pd_redis s)"
    using up_GetKeys [OF R assms(2)] by metis
  have p: "?p = normalizeKeyPrefix (UserMetricsPrefix (cfg_of s))" by (simp add: normalizeKeyPrefix_def)
  have "fixKey pfx key \<noteq> ?m" if "key \<in> set (map (cleanKey pfx) (sv_SCAN S now (pfx @ ?p) q))" for key
  proof -
    have "HasPrefix key ?p" using that key_facts(1) [OF readyD(2) [OF R], of now "pfx @ ?p" q] clean_key [of _ pfx ?p] by auto
    then show ?thesis using assms(3) p by (auto simp: global_apart_def fixKey_def)
  qed
  then have "view (pd_redis (delete_stale E now ?p act (map (cleanKey pfx) (sv_SCAN S now (pfx @ ?p) q)) (s\<lparr>pd_redis := r\<rparr>))) ?m = view r ?m"
    using delete_stale_other [OF R] by fastforce
  with g readyD(4,5) [OF R] show ?thesis by (simp add: cleanupStaleUserDepthKeys_def Let_def)
qed

lemma scanned_keys:
  assumes L: "server_laws S view"
  shows "set (map (cleanKey pfx) (sv_SCAN S now (pfx @ PendingCreatePrefix) q))
      = {key. HasPrefix key PendingCreatePrefix \<and> kv_live now (view q (fixKey pfx key)) \<noteq> None}"
proof -
  note scan = key_facts(1) [OF L, of now "pfx @ PendingCreatePrefix" q]
  show "set (map (cleanKey pfx) (sv_SCAN S now (pfx @ PendingCreatePrefix) q))
      = {key. HasPrefix key PendingCreatePrefix \<and> kv_live now (view q (fixKey pfx key)) \<noteq> None}"
  proof (intro equalityI subsetI)
    fix key assume "key \<in> set (map (cleanKey pfx) (sv_SCAN S now (pfx @ PendingCreatePrefix) q))"
    then show "key \<in> {key. HasPrefix key PendingCreatePrefix \<and> kv_live now (view q (fixKey pfx key)) \<noteq> None}"
      using scan clean_key by auto
  next
    fix key assume a: "key \<in> {key. HasPrefix key PendingCreatePrefix \<and> kv_live now (view q (fixKey pfx key)) \<noteq> None}"
    then have "HasPrefix (pfx @ key) (pfx @ PendingCreatePrefix)" by (simp add: HasPrefix_def)
    with a scan have "pfx @ key \<in> set (sv_SCAN S now (pfx @ PendingCreatePrefix) q)" by (simp add: fixKey_def)
    moreover have "cleanKey pfx (pfx @ key) = key" by (simp add: cleanKey_def replace_first_prefix)
    ultimately show "key \<in> set (map (cleanKey pfx) (sv_SCAN S now (pfx @ PendingCreatePrefix) q))" by (metis image_eqI set_map)
  qed
qed

text \<open>The answers that count are the keys of the users that count, as often as they are named.\<close>

lemma count_of_scan:
  fixes pfx defines "K cfg now v C \<equiv> fixKey pfx ` PendingCreateKey ` counted_users C pfx cfg now v"
  assumes L: "server_laws S view" and n: "no_strays C pfx cfg now (view q)"
  shows "length (filter (counts C pfx cfg now (view q)) (map (cleanKey pfx) (sv_SCAN S now (pfx @ PendingCreatePrefix) q)))
      = length (filter (\<lambda>k. k \<in> K cfg now (view q) C) (sv_SCAN S now (pfx @ PendingCreatePrefix) q))"
    and "set (filter (\<lambda>k. k \<in> K cfg now (view q) C) (sv_SCAN S now (pfx @ PendingCreatePrefix) q)) = K cfg now (view q) C"
proof -
  let ?A = "sv_SCAN S now (pfx @ PendingCreatePrefix) q" and ?K = "K cfg now (view q) C"
  note ks = counted_keys [OF scanned_keys [OF L] n]
  have fix_clean: "fixKey pfx (cleanKey pfx k) = k" if "k \<in> set ?A" for k
    using that key_facts(1) [OF L, of now "pfx @ PendingCreatePrefix" q] clean_key by auto
  have "counts C pfx cfg now (view q) (cleanKey pfx k) \<longleftrightarrow> k \<in> ?K" if k: "k \<in> set ?A" for k
  proof -
    have "counts C pfx cfg now (view q) (cleanKey pfx k) \<longleftrightarrow> cleanKey pfx k \<in> PendingCreateKey ` counted_users C pfx cfg now (view q)"
      using ks k by auto
    also have "\<dots> \<longleftrightarrow> fixKey pfx (cleanKey pfx k) \<in> ?K" unfolding K_def by (auto simp: fixKey_def)
    finally show ?thesis by (simp add: fix_clean [OF k])
  qed
  then show "length (filter (counts C pfx cfg now (view q)) (map (cleanKey pfx) ?A)) = length (filter (\<lambda>k. k \<in> ?K) ?A)"
    by (simp add: filter_map o_def cong: filter_cong)
  have "k \<in> set ?A" if "k \<in> ?K" for k
  proof -
    obtain u where u: "k = fixKey pfx (PendingCreateKey u)" "u \<in> counted_users C pfx cfg now (view q)" using \<open>k \<in> ?K\<close> unfolding K_def by auto
    have "PendingCreateKey u \<in> set (filter (counts C pfx cfg now (view q)) (map (cleanKey pfx) ?A))" using ks u(2) by blast
    then show ?thesis using fix_clean u(1) by auto
  qed
  then show "set (filter (\<lambda>k. k \<in> ?K) ?A) = ?K" by auto
qed

lemma write_counts:
  assumes R: "ready E S pfx view" and c: "\<not> sv_cluster S" and g: "global_apart (cfg_of s)"
  shows "view (pd_redis (applyCalibratedCounts E now a cs s)) (fixKey pfx (TrimSpace (MetricsKey (cfg_of s))))
    = Some (kv_entry now (FormatInt a) (BackpressureWindow (cfg_of s)))"
proof -
  let ?m = "fixKey pfx (TrimSpace (MetricsKey (cfg_of s)))"
  let ?s3 = "set_counter E now (TrimSpace (MetricsKey (cfg_of s))) a (BackpressureWindow (cfg_of s)) s"
  have s3: "view (pd_redis ?s3) ?m = Some (kv_entry now (FormatInt a) (BackpressureWindow (cfg_of s)))" "co_of ?s3 = co_of s"
    using on_set [OF R, of now "TrimSpace (MetricsKey (cfg_of s))" "FormatInt a" "BackpressureWindow (cfg_of s)" s] readyD(4) [OF R]
    by (auto simp: set_counter_def)
  let ?s4 = "set_user_counters E now cs ?s3"
  have "view (pd_redis ?s4) ?m = Some (kv_entry now (FormatInt a) (BackpressureWindow (cfg_of s)))" "co_of ?s4 = co_of s"
    using user_counters_other [OF R, of ?s3 now cs] s3 g by simp_all
  moreover have "applyCalibratedCounts E now a cs s = cleanupStaleUserDepthKeys E now cs ?s4"
    using g readyD(5) [OF R] by (simp add: applyCalibratedCounts_def global_apart_def Let_def)
  ultimately show ?thesis using cleanup_other [OF R c, of ?s4 now cs] g by simp
qed

end
