(* ===== verification/PendingTable.thy ===== *)
theory PendingTable
  imports PendingServer
begin

text \<open>
  A table on which the laws of the server hold: an association list of the values with their ends, and the
  outcomes of reaching it, the next one first. The witnesses of the properties about the
  coordinator on Redis run on it; it is no part of the program's model.
\<close>

type_synonym ptable = "trip list \<times> (string \<times> string \<times> instant option) list"

definition pt_view :: "ptable \<Rightarrow> kview" where "pt_view r = map_of (snd r)"

definition pt_put :: "string \<Rightarrow> string \<times> instant option \<Rightarrow> ptable \<Rightarrow> ptable" where
  "pt_put k x r = (fst r, AList.update k x (snd r))"

definition pt_del :: "string \<Rightarrow> ptable \<Rightarrow> ptable" where
  "pt_del k r = (fst r, AList.delete k (snd r))"

definition not_a_number :: pending_error where
  "not_a_number = ErrMessage ''ERR value is not an integer or out of range''"

definition pt_add :: "int \<Rightarrow> instant \<Rightarrow> string \<Rightarrow> ptable \<Rightarrow> (pending_error + int) \<times> ptable" where
  "pt_add d now k r =
    (case kv_live now (pt_view r k) of
       None \<Rightarrow> (Inr d, pt_put k (FormatInt d, None) r)
     | Some (v, e) \<Rightarrow>
         (case ParseInt v of
            None \<Rightarrow> (Inl not_a_number, r)
          | Some n \<Rightarrow> if in64 (n + d) then (Inr (n + d), pt_put k (FormatInt (n + d), e) r) else (Inl not_a_number, r)))"

text \<open>The first argument tells a cluster, the second whether the outcomes in the table count.\<close>

definition table_server :: "bool \<Rightarrow> bool \<Rightarrow> ptable Server" where
  "table_server cluster faulty = \<lparr>
     sv_up = \<lambda>r. True, sv_cluster = cluster,
     sv_trip = \<lambda>r. (case fst r of [] \<Rightarrow> (Reached, r) | x # xs \<Rightarrow> if faulty then (x, xs, snd r) else (Reached, r)),
     sv_GET = \<lambda>now k r. map_option fst (kv_live now (pt_view r k)),
     sv_SET = \<lambda>now k v d r. pt_put k (kv_entry now v d) r,
     sv_SETNX = \<lambda>now k v d r. (if kv_live now (pt_view r k) = None then (True, pt_put k (kv_entry now v d) r) else (False, r)),
     sv_DEL = \<lambda>now k r. (if kv_live now (pt_view r k) = None then 0 else 1, pt_del k r),
     sv_INCR = pt_add 1, sv_DECR = pt_add (- 1),
     sv_EXPIRE = \<lambda>now k secs r. (case kv_live now (pt_view r k) of None \<Rightarrow> pt_del k r
        | Some (v, e) \<Rightarrow> if secs \<le> 0 then pt_del k r else pt_put k (v, Some (now + secs * Second)) r),
     sv_TTL = \<lambda>now k r. (case kv_live now (pt_view r k) of None \<Rightarrow> - 2 | Some (v, None) \<Rightarrow> - 1
        | Some (v, Some e) \<Rightarrow> ((e - now) div Millisecond + 500) div 1000),
     sv_SCAN = \<lambda>now p r. filter (\<lambda>k. HasPrefix k p \<and> kv_live now (pt_view r k) \<noteq> None) (remdups (map fst (snd r))),
     sv_SCRIPTLOAD = \<lambda>r. (''sha'', r),
     sv_CANRUN = \<lambda>sha ks r. None\<rparr>"

lemma pt_views [simp]:
  "pt_view (pt_put k x r) = (pt_view r)(k \<mapsto> x)" "pt_view (pt_del k r) = (pt_view r)(k := None)"
  by (simp_all add: pt_view_def pt_put_def pt_del_def update_conv' delete_conv')

lemma pt_add_other: "k' \<noteq> k \<Longrightarrow> pt_view (snd (pt_add d now k r)) k' = pt_view r k'"
  by (simp add: pt_add_def split: option.splits)

lemma pt_add_error: "fst (pt_add d now k r) = Inl err \<Longrightarrow> pt_view (snd (pt_add d now k r)) = pt_view r"
  by (auto simp: pt_add_def split: option.splits if_splits)

lemma pt_add_counts:
  assumes "counter_value (kv_live now (pt_view r k)) n e" and "in64 (n + d)" and "in64 n"
  shows "fst (pt_add d now k r) = Inr (n + d) \<and> pt_view (snd (pt_add d now k r)) = (pt_view r)(k \<mapsto> (FormatInt (n + d), e))"
  using assms by (auto simp: pt_add_def counter_value_def ParseInt_FormatInt split: option.splits)

lemma table_values: "value_laws (table_server c f) pt_view"
  by (simp add: value_laws_def table_server_def)

lemma table_numbers: "number_laws (table_server c f) pt_view"
proof -
  have i: "counter_value (kv_live now (pt_view r k)) n e \<and> in64 n \<and> in64 (n + d) \<longrightarrow>
      fst (pt_add d now k r) = Inr (n + d) \<and> pt_view (snd (pt_add d now k r)) = (pt_view r)(k \<mapsto> (FormatInt (n + d), e))" for d n e now k r
    using pt_add_counts [of now r k n e d] by blast
  have x: "pt_view (sv_EXPIRE (table_server c f) now k secs r) = (pt_view r)(k := (case kv_live now (pt_view r k) of None \<Rightarrow> None
      | Some (v, e) \<Rightarrow> if secs \<le> 0 then None else Some (v, Some (now + secs * Second))))" for now k secs r
    by (simp add: table_server_def split: option.splits)
  show ?thesis
    unfolding number_laws_def
    using i [where d = 1] i [where d = "- 1"] pt_add_error [where d = 1] pt_add_other x
    by (intro allI conjI) (simp_all add: table_server_def)
qed

lemma table_keys: "key_laws (table_server c f) pt_view"
proof -
  have "k \<in> fst ` set xs" if "kv_live now (map_of xs k) = Some x" for now k x and xs :: "(string \<times> string \<times> instant option) list"
    using that by (metis kv_live_def map_of_eq_None_iff option.case(1) option.distinct(1))
  then show ?thesis by (fastforce simp: key_laws_def table_server_def pt_view_def split: list.splits)
qed

lemma table_server_laws: "server_laws (table_server c f) pt_view"
  by (simp add: server_laws_def table_values table_numbers table_keys)

lemma table_scan: "distinct (sv_SCAN (table_server c f) now p r)"
  by (simp add: table_server_def)

lemma table_up: "server_up (table_server c False)"
  by (simp add: server_up_def table_server_def split: list.splits)

lemma table_scripts: "scripts_run (table_server c f)"
  by (simp add: scripts_run_def table_server_def)

end
