(* ===== verification/PendingRedisProperties.thy ===== *)
theory PendingRedisProperties
  imports PendingRedisReliable PendingTable PendingMemoryProperties
begin

text \<open>
  The properties of the coordinator on Redis: exclusion across processes, what a key that is taken does to
  an acquisition, the counters under release and calibration, and the settings a coordinator is
  built with.
\<close>

section \<open>A concrete system\<close>

text \<open>Two codecs: one that cannot read what it wrote, one that keeps the owner only.\<close>

definition blind_codec :: codec where
  "blind_codec = \<lparr>js_marshal = \<lambda>x. Inr ''{}'', js_unmarshal = \<lambda>t. Inl (ErrMessage ''json''), js_lua = \<lambda>f t. t\<rparr>"

definition name_codec :: codec where
  "name_codec = \<lparr>js_marshal = \<lambda>x. Inr (sn_OwnerID x),
     js_unmarshal = \<lambda>t. Inr (blank_snapshot\<lparr>sn_State := PendingStateLease, sn_OwnerID := t\<rparr>), js_lua = \<lambda>f t. t\<rparr>"

definition demo_redis_cfg :: PendingCoordinatorConfig where
  "demo_redis_cfg = zero_config\<lparr>LeaseTTL := 10 * Second, MetricsKey := ''m:active'', UserMetricsPrefix := ''m:depth:'',
     BackpressureWindow := 5 * Second, UserBackpressureWindow := 5 * Second, ReleaseRetention := 3 * Second,
     BackpressureSoftLimit := 10, BackpressureHardLimit := 20, UserBackpressureSoftLimit := 10, UserBackpressureHardLimit := 20,
     InstanceBackpressureSoftLimit := 10, InstanceBackpressureHardLimit := 20, DelayProfileOf := empty_profile\<rparr>"

definition demo_co :: "unit PendingCoordinator" where
  "demo_co = \<lparr>co_cfg = demo_redis_cfg, co_component = ''demo'', co_mode = ''redis'',
     co_buckets = \<lparr>tb_user = None, tb_instance = None, tb_global = None\<rparr>, co_instanceActive = 0, co_fallbackDelay = 0,
     co_calibrationIntervalNS = 0, co_calibrationTimeoutNS = 0, co_loopStarted = False, co_stopped = False,
     co_profile = empty_profile, co_fallback = demo_mem, co_scriptSHA = [], co_globalSample = None, co_userSamples = [],
     co_sampleCacheTTL = 0, co_decision = init_decision, co_reconcile = None, co_slept = []\<rparr>"

definition demo_env :: "bool \<Rightarrow> codec \<Rightarrow> (ptable, unit) PendingEnv" where
  "demo_env cluster C = \<lparr>pe_redis = Some (table_server cluster False, ''iam:''),
     pe_lib = \<lparr>rl_NewLimiter = \<lambda>r b. (), rl_Allow = \<lambda>t l. (True, l), rl_Wait = \<lambda>t d l. (True, l)\<rparr>,
     pe_codec = C, pe_rand = \<lambda>n. 0, pe_degraded = False\<rparr>"

definition demo_st :: "(string \<times> string \<times> instant option) list \<Rightarrow> (ptable, unit) pending_data" where
  "demo_st kvs = \<lparr>pd_redis = ([], kvs), pd_co = demo_co\<rparr>"

definition demo_t0 :: instant where "demo_t0 = 1000 * Second"

definition demo_sample :: BackpressureSample where
  "demo_sample = \<lparr>bs_Username = ''ann'', bs_GlobalDepth = 0, bs_GlobalLevel = BackpressureNone, bs_GlobalErr = False, bs_UserDepth = 0,
     bs_UserLevel = BackpressureNone, bs_UserErr = False, bs_InstanceDepth = 0, bs_InstanceLevel = BackpressureNone,
     bs_AggregateLevel = BackpressureNone, bs_SampledAt = 0, bs_Source = ''live''\<rparr>"

lemma demo_served: "served (demo_env c C) (table_server c False) ''iam:'' pt_view"
  by (simp add: served_def demo_env_def table_server_laws)

lemma demo_ready: "ready (demo_env c C) (table_server c False) ''iam:'' pt_view"
  by (simp add: ready_def demo_served table_up) (simp add: demo_env_def)

lemma demo_script_path: "script_path (demo_env c blind_codec) (table_server c False)"
proof -
  have "told not_a_number" by (simp add: not_a_number_def errAcquireLuaUnavailable_def)
  moreover have "TrimSpace ''sha'' \<noteq> []" by code_simp
  ultimately show ?thesis
    by (auto simp: script_path_def table_scripts, auto simp: demo_env_def blind_codec_def table_server_def pt_add_def split: list.splits option.splits)
qed

lemma demo_names:
  "TrimSpace ''ann'' = ''ann''" "TrimSpace ''m:active'' = ''m:active''" "TrimSpace ''m:depth:'' = ''m:depth:''"
  "normalizeKeyPrefix ''m:depth:'' = ''m:depth:''" "PendingCreateKey ''ann'' = ''user:pending:{pending}:ann''"
  by code_simp+

lemma demo_depth: "depth_prefix demo_redis_cfg = ''m:depth:''"
  by (simp add: depth_prefix_def demo_redis_cfg_def demo_names)

lemma demo_depth_key: "TrimSpace v \<noteq> [] \<Longrightarrow> userScopedKey ''m:depth:'' v = ''m:depth:{pending}:'' @ TrimSpace v"
  by (simp add: userScopedKey_form demo_names pendingHashTag_def)

lemma demo_apart:
  "apart pfx (fixKey pfx (PendingCreateKey ''ann'')) demo_redis_cfg"
  "TrimSpace (MetricsKey demo_redis_cfg) \<noteq> TrimSpace (userScopedKey (depth_prefix demo_redis_cfg) v)"
proof -
  have k: "userScopedKey ''m:depth:'' v = [] \<or> userScopedKey ''m:depth:'' v = ''m:depth:{pending}:'' @ TrimSpace v" for v
    by (cases "TrimSpace v = []") (simp_all add: demo_depth_key, simp add: userScopedKey_def)
  have t: "TrimSpace (userScopedKey ''m:depth:'' v) = userScopedKey ''m:depth:'' v" for v
    by (cases "TrimSpace v = []") (simp add: userScopedKey_def, rule TrimSpace_scoped, simp_all add: demo_names)
  have m: "MetricsKey demo_redis_cfg = ''m:active''" by (simp add: demo_redis_cfg_def)
  have ne: "PendingCreateKey ''ann'' \<noteq> userScopedKey ''m:depth:'' v" for v using k [of v] by (auto simp: demo_names(5))
  show "apart pfx (fixKey pfx (PendingCreateKey ''ann'')) demo_redis_cfg"
    using ne by (simp add: apart_def demo_depth m demo_names(2) fixKey_def t) (simp add: demo_names)
  show "TrimSpace (MetricsKey demo_redis_cfg) \<noteq> TrimSpace (userScopedKey (depth_prefix demo_redis_cfg) v)"
    using k [of v] by (auto simp: demo_depth m demo_names t)
qed

lemma demo_granted:
  "\<exists>l s'. redis_Acquire (demo_env False blind_codec) demo_t0 ''ann'' demo_meta (\<lambda>n. ''o'') (Some demo_sample) (demo_st []) = (Inr l, s')"
proof -
  let ?E = "demo_env False blind_codec"
  let ?x = "lease_snapshot demo_redis_cfg ''ann'' demo_meta demo_t0 ''o''"
  have g: "guardTokenBucket (pe_lib ?E) demo_t0 ''ann'' (co_buckets demo_co) = (True, co_buckets demo_co)" by code_simp
  have p: "acquire_precheck ?E demo_sample (demo_st []) = (None, demo_st [])" by code_simp
  have a: "attempt_sample ?E demo_t0 ''ann'' (Some demo_sample) (demo_st []) = (demo_sample, demo_st [])" by code_simp
  have "map_sum id (\<lambda>x. (ao_created x, ao_aggregateLevel x))
      (fst (pendingAcquireViaLua ?E demo_t0 ''ann'' (PendingCreateKey ''ann'') ?x (demo_st []))) = Inr (True, BackpressureNone)"
    by code_simp
  then obtain o1 s1 where v: "pendingAcquireViaLua ?E demo_t0 ''ann'' (PendingCreateKey ''ann'') ?x (demo_st []) = (Inr o1, s1)"
    "ao_created o1" "ao_aggregateLevel o1 = BackpressureNone"
    by (cases "pendingAcquireViaLua ?E demo_t0 ''ann'' (PendingCreateKey ''ann'') ?x (demo_st [])") (auto simp: map_sum_def split: sum.splits)
  have b: "upd_co (\<lambda>c. c\<lparr>co_buckets := co_buckets demo_co\<rparr>) (demo_st []) = demo_st []" by (simp add: upd_co_def demo_st_def)
  have m: "js_marshal (pe_codec ?E) ?x = Inr ''{}''" "cfg_of (demo_st []) = demo_redis_cfg" "co_of (demo_st []) = demo_co" "co_cfg demo_co = demo_redis_cfg" "\<not> use_memory ?E"
    by (simp_all add: demo_env_def blind_codec_def demo_st_def demo_co_def use_memory_def)
  have "acquire_loop ?E demo_t0 ''ann'' demo_meta (\<lambda>n. ''o'') (Some demo_sample) n (demo_st []) = acquire_created ?E demo_t0 ''ann'' demo_meta ''o'' o1 s1" for n
    using v by (simp add: a p m tryPendingAcquire_def Let_def)
  moreover have "\<exists>l s'. acquire_created ?E demo_t0 ''ann'' demo_meta ''o'' o1 s1 = (Inr l, s')"
    using v(3) by (simp add: acquire_created_def)
  ultimately show ?thesis
    by (simp add: redis_Acquire_def demo_names g b m del: acquire_loop.simps)
qed

section \<open>Exclusion\<close>

text \<open>C2. Mutual exclusion across processes, on the path of the script: once an acquisition has been granted a
  user's lease, no process is granted that user's lease by any sequence of acquisitions, heartbeats, observations, samplings, and
  releases and clean-ups of other users, until the lifetime of the lease has passed.\<close>

theorem redis_lease_exclusive:
  assumes E: "\<forall>p. served (Es p) S pfx view \<and> script_path (Es p) S \<and> \<not> pe_degraded (Es p)"
    and cfg: "\<forall>p. TrimSpace (MetricsKey (co_cfg (snd sys p))) \<noteq> [] \<and> apart pfx (fixKey pfx (PendingCreateKey u)) (co_cfg (snd sys p))
      \<and> LeaseTTL (co_cfg (snd sys p)) = ttl" and ttl: "Millisecond \<le> ttl"
    and run: "system_run Es ((p0, t0, Acquires u meta uuid ctx) # xs) sys = (True # bs, sys')"
    and xs: "\<forall>(p, now, st) \<in> set xs. t0 \<le> now \<and> now < t0 + Milliseconds ttl * Millisecond \<and> \<not> ends (TrimSpace u) st"
  shows "\<forall>((p, now, st), granted) \<in> set (zip xs bs). is_acquire st \<and> step_user st = TrimSpace u \<longrightarrow> \<not> granted"
proof -
  let ?s = "\<lparr>pd_redis = fst sys, pd_co = snd sys p0\<rparr>" and ?e = "t0 + Milliseconds ttl * Millisecond"
  obtain res s1 where a: "redis_Acquire (Es p0) t0 u meta uuid ctx ?s = (res, s1)" by fastforce
  from run a obtain l where l: "res = Inr l" and r: "system_run Es xs (pd_redis s1, (snd sys)(p0 := pd_co s1)) = (bs, sys')"
    by (cases res) (auto simp: system_step_def pending_op_def split: prod.splits)
  have u: "TrimSpace u \<noteq> []" using a l by (auto simp: redis_Acquire_def)
  have sc: "scripted (cfg_of ?s) (TrimSpace u)" using cfg u by (simp add: scripted_user)
  have t: "Millisecond \<le> LeaseTTL (cfg_of ?s)" using cfg ttl by simp
  have "served (Es p0) S pfx view" "script_path (Es p0) S" "\<not> pe_degraded (Es p0)" using E by blast+
  note G = Acquire_grants [OF this sc t a [unfolded l]]
  have "cfg_of s1 = cfg_of ?s"
    using seen_cfg [OF Acquire_seen [OF _ _ _ sc _ a, of S pfx view "fixKey pfx (PendingCreateKey (TrimSpace u)) @ ''x''"]] E by simp
  then have c: "LeaseTTL (cfg_of s1) = ttl" "TrimSpace (MetricsKey (cfg_of s1)) \<noteq> []" "apart pfx (fixKey pfx (PendingCreateKey u)) (cfg_of s1)"
    using cfg by simp_all
  have h: "held ?e (view (pd_redis s1) (fixKey pfx (PendingCreateKey u)))" using G cfg by (simp add: lease_until_def)
  have ms: "0 < ttl" "?e \<le> t0 + ttl" using ttl lease_until_le [of "cfg_of ?s" t0] cfg by (auto simp: Millisecond_def lease_until_def)
  have "system_ready Es S pfx view u t0 ?e (pd_redis s1, (snd sys)(p0 := pd_co s1))"
    using E u h c ms cfg by (simp add: system_ready_def keeps_ready_def lease_settings_def)
  from system_run_keeps [OF this _ r] xs show ?thesis by fastforce
qed

theorem redis_lease_exclusive_witness:
  "\<exists>l s. redis_Acquire (demo_env False blind_codec) demo_t0 ''ann'' demo_meta (\<lambda>n. ''o'') (Some demo_sample) (demo_st []) = (Inr l, s)
    \<and> fst (system_run (\<lambda>p. demo_env False blind_codec) [(0, demo_t0, Acquires ''ann'' demo_meta (\<lambda>n. ''o'') (Some demo_sample)),
        (1, demo_t0 + Second, Acquires ''ann'' demo_meta (\<lambda>n. ''q'') None)] (([], []), \<lambda>p. demo_co)) = [True, False]"
proof -
  let ?Es = "\<lambda>p :: nat. demo_env False blind_codec" and ?S = "table_server False False" and ?x = "(1 :: nat, demo_t0 + Second, Acquires ''ann'' demo_meta (\<lambda>n. ''q'') None)"
  let ?sys = "(([], []), \<lambda>p :: nat. demo_co) :: (ptable, unit) system"
  obtain l s where a: "redis_Acquire (demo_env False blind_codec) demo_t0 ''ann'' demo_meta (\<lambda>n. ''o'') (Some demo_sample) (demo_st []) = (Inr l, s)"
    using demo_granted by blast
  have s1: "system_step ?Es (0, demo_t0, Acquires ''ann'' demo_meta (\<lambda>n. ''o'') (Some demo_sample)) ?sys = (True, pd_redis s, (snd ?sys)(0 := co_of s))"
    using a by (simp add: system_step_def pending_op_def demo_st_def)
  obtain b sys' where s2: "system_step ?Es ?x (pd_redis s, (snd ?sys)(0 := co_of s)) = (b, sys')" by (metis prod.collapse)
  have r: "system_run ?Es [(0, demo_t0, Acquires ''ann'' demo_meta (\<lambda>n. ''o'') (Some demo_sample)), ?x] ?sys = ([True, b], sys')"
    by (simp only: system_run.simps s1 s2 prod.case)
  have c: "\<forall>p. TrimSpace (MetricsKey (co_cfg (snd ?sys p))) \<noteq> [] \<and> apart ''iam:'' (fixKey ''iam:'' (PendingCreateKey ''ann'')) (co_cfg (snd ?sys p))
      \<and> LeaseTTL (co_cfg (snd ?sys p)) = 10 * Second"
    using demo_apart(1) demo_names(2) by (simp add: demo_co_def) (simp add: demo_redis_cfg_def)
  have "\<forall>((p, now, st), granted) \<in> set (zip [?x] [b]). is_acquire st \<and> step_user st = TrimSpace ''ann'' \<longrightarrow> \<not> granted"
    by (rule redis_lease_exclusive [OF _ c _ r]) (use demo_served demo_script_path in
      \<open>auto simp: demo_env_def Second_def Millisecond_def Milliseconds_def go_div_def ends_def\<close>)
  then have "\<not> b" by (simp add: is_acquire_def step_user_def)
  with a r show ?thesis by auto
qed

section \<open>A key that is taken\<close>

text \<open>On the path of the script a key that holds anything, be it the lease of another process or what has remained
  of a released one, makes an acquisition fail and stays as it is; but the error is never the conflict that
  callers are told to expect, since the script's answer for a taken key is read as a malformed one.\<close>

theorem taken_key_blocks:
  assumes "served E S pfx view" and "script_path E S" and "\<not> pe_degraded E" and "TrimSpace u \<noteq> []"
    and "TrimSpace (MetricsKey (cfg_of s)) \<noteq> []" and "apart pfx (fixKey pfx (PendingCreateKey u)) (cfg_of s)"
    and "kv_live now (view (pd_redis s) (fixKey pfx (PendingCreateKey u))) \<noteq> None"
  shows "\<exists>err s'. redis_Acquire E now u meta uuid ctx s = (Inl err, s') \<and> (\<forall>st d. err \<noteq> refused AcquireFailureConflict st d)
    \<and> view (pd_redis s') (fixKey pfx (PendingCreateKey u)) = view (pd_redis s) (fixKey pfx (PendingCreateKey u))"
proof -
  let ?k = "fixKey pfx (PendingCreateKey u)"
  obtain res s' where a: "redis_Acquire E now u meta uuid ctx s = (res, s')" by fastforce
  have "taken view now ?k s" using assms(7) by (simp add: taken_def)
  from Acquire_taken [OF assms(1,2,3) scripted_user [OF assms(5,4)] this assms(6) _ a] seen_view [OF _ assms(6), of view s'] a
  show ?thesis by (auto simp: no_conflict_def)
qed

theorem taken_key_blocks_witness:
  "\<exists>err s'. redis_Acquire (demo_env False blind_codec) demo_t0 ''ann'' demo_meta (\<lambda>n. ''q'') None
      (demo_st [(''iam:user:pending:{pending}:ann'', ''released'', Some (demo_t0 + Second))]) = (Inl err, s')
    \<and> (\<forall>st d. err \<noteq> refused AcquireFailureConflict st d)"
proof -
  let ?s = "demo_st [(''iam:user:pending:{pending}:ann'', ''released'', Some (demo_t0 + Second))]"
  have "kv_live demo_t0 (pt_view (pd_redis ?s) (fixKey ''iam:'' (PendingCreateKey ''ann''))) \<noteq> None"
    by (simp add: demo_names fixKey_def demo_st_def pt_view_def kv_live_def Second_def)
  moreover have "TrimSpace (MetricsKey (cfg_of ?s)) \<noteq> []" "cfg_of ?s = demo_redis_cfg"
    using demo_names(2) by (simp_all add: demo_st_def demo_co_def) (simp add: demo_redis_cfg_def)
  moreover have "\<not> pe_degraded (demo_env False blind_codec)" by (simp add: demo_env_def)
  ultimately show ?thesis
    using taken_key_blocks [OF demo_served [of False] demo_script_path, where u = "''ann''" and s = ?s and now = demo_t0 and meta = demo_meta and uuid = "\<lambda>n. ''q''" and ctx = None]
      demo_apart(1) [of "''iam:''"] demo_names(1) by auto
qed

section \<open>Counters\<close>

text \<open>A release is not the end of what its owner may release: the snapshot that remains names the same owner, so a second
  release within the retention deletes it and takes the global counter down once more.\<close>

theorem release_twice_decrements:
  assumes R: "ready E S pfx view" and C: "owner_codec (pe_codec E)" and u: "TrimSpace u \<noteq> []" and o1: "TrimSpace owner = owner" "owner \<noteq> []"
    and K: "keys_apart pfx u (cfg_of s)" and ttl: "0 < releaseRetentionTTL (cfg_of s)"
    and l: "releasable E pfx view now u owner n e s" and n: "2 < n" "in64 n"
    and t: "now' < now + releaseRetentionTTL (cfg_of s)" "\<forall>d. e = Some d \<longrightarrow> now' < d"
  shows "\<exists>s1 s2. redis_Release E now u owner s = (None, s1) \<and> redis_Release E now' u owner s1 = (None, s2)
    \<and> view (pd_redis s2) (fixKey pfx (TrimSpace (MetricsKey (cfg_of s)))) = Some (FormatInt (n - 2), e)"
proof -
  have n1: "1 < n" "1 < n - 1" "in64 (n - 1)" using n by (auto simp: in64_def int64_min_def)
  obtain s1 p y where s1: "redis_Release E now u owner s = (None, s1)" "cfg_of s1 = cfg_of s"
    "view (pd_redis s1) (fixKey pfx (TrimSpace (MetricsKey (cfg_of s)))) = Some (FormatInt (n - 1), e)"
    "view (pd_redis s1) (fixKey pfx (PendingCreateKey u)) = Some (kv_entry now p (releaseRetentionTTL (cfg_of s)))"
    "js_unmarshal (pe_codec E) p = Inr y" "sn_OwnerID y = owner"
    using Release_count [OF R u o1 K l n1(1) n(2) C ttl] by blast
  have "releasable E pfx view now' u owner (n - 1) e s1"
    using s1 t ttl by (auto simp: releasable_def kv_live_def kv_entry_def split: option.splits)
  from Release_count [OF R u o1 _ this n1(2,3) C] K ttl s1 show ?thesis by auto
qed

definition demo_kvs :: "(string \<times> string \<times> instant option) list" where
  "demo_kvs = [(''iam:user:pending:{pending}:ann'', ''o'', Some (demo_t0 + 10 * Second)), (''iam:m:active'', ''3'', Some (demo_t0 + 5 * Second))]"

lemma demo_entries:
  "pt_view (pd_redis (demo_st demo_kvs)) (fixKey ''iam:'' (PendingCreateKey ''ann'')) = Some (''o'', Some (demo_t0 + 10 * Second))"
  "pt_view (pd_redis (demo_st demo_kvs)) (fixKey ''iam:'' ''m:active'') = Some (''3'', Some (demo_t0 + 5 * Second))"
  "TrimSpace (MetricsKey demo_redis_cfg) = ''m:active''" "cfg_of (demo_st kvs) = demo_redis_cfg"
  using demo_names(2,5) by (simp_all add: demo_st_def pt_view_def demo_kvs_def fixKey_def demo_co_def) (simp add: demo_redis_cfg_def)

theorem release_twice_decrements_witness:
  "\<exists>s1 s2. redis_Release (demo_env False name_codec) demo_t0 ''ann'' ''o'' (demo_st demo_kvs) = (None, s1)
    \<and> redis_Release (demo_env False name_codec) (demo_t0 + Second) ''ann'' ''o'' s1 = (None, s2)
    \<and> pt_view (pd_redis s2) (fixKey ''iam:'' ''m:active'') = Some (FormatInt 1, Some (demo_t0 + 5 * Second))"
proof -
  let ?E = "demo_env False name_codec"
  have f: "FormatInt 3 = ''3''" "TrimSpace ''o'' = ''o''" by code_simp+
  have c: "owner_codec (pe_codec ?E)" by (simp add: owner_codec_def demo_env_def name_codec_def)
  have l: "releasable ?E ''iam:'' pt_view demo_t0 ''ann'' ''o'' 3 (Some (demo_t0 + 5 * Second)) (demo_st demo_kvs)"
    by (simp add: releasable_def demo_entries f kv_live_def Second_def) (simp add: demo_env_def name_codec_def)
  have k: "keys_apart ''iam:'' ''ann'' (cfg_of (demo_st demo_kvs))"
    using demo_apart demo_entries(3,4) by (metis keys_apart_def list.distinct(1))
  have r: "releaseRetentionTTL demo_redis_cfg = 3 * Second"
    by (simp add: releaseRetentionTTL_def demo_redis_cfg_def Second_def)
  show ?thesis
    using release_twice_decrements [OF demo_ready c _ _ _ k _ l, where now' = "demo_t0 + Second"]
    by (simp add: r f demo_names demo_entries Second_def in64_def int64_min_def int64_max_def)
qed

text \<open>C33. Calibration: on a single-node server that is reached, the global counter becomes the number of answers of the scan that are the
  key of a user whose lease is neither expired nor due to be promoted, as often as the scan names them: at least the number of
  those users, and exactly that number if the scan repeats none of these keys. No other key under the prefix may be read as such a
  user, and the key of the global counter must be none of a user's.\<close>

theorem calibration_counts_answers:
  assumes R: "ready E S pfx view" and c: "\<not> sv_cluster S" and g: "global_apart (cfg_of s)"
    and n: "no_strays (pe_codec E) pfx (cfg_of s) now (view (pd_redis s))"
    and "users = counted_users (pe_codec E) pfx (cfg_of s) now (view (pd_redis s))"
  shows "\<exists>q answers. view q = view (pd_redis s)
    \<and> answers = filter (\<lambda>k. k \<in> fixKey pfx ` PendingCreateKey ` users) (sv_SCAN S now (pfx @ PendingCreatePrefix) q)
    \<and> view (pd_redis (calibrateCounters E now s)) (fixKey pfx (TrimSpace (MetricsKey (cfg_of s))))
        = Some (kv_entry now (FormatInt (int (length answers))) (BackpressureWindow (cfg_of s)))
    \<and> card users \<le> length answers \<and> (distinct answers \<longrightarrow> length answers = card users)"
proof -
  obtain r q where k: "on_redis (GetKeys S pfx now PendingCreatePrefix) s = (map (cleanKey pfx) (sv_SCAN S now (pfx @ PendingCreatePrefix) q), s\<lparr>pd_redis := r\<rparr>)"
    and r: "view r = view (pd_redis s)" and q: "view q = view (pd_redis s)" using up_GetKeys [OF R c] by metis
  let ?A = "filter (\<lambda>k. k \<in> fixKey pfx ` PendingCreateKey ` users) (sv_SCAN S now (pfx @ PendingCreatePrefix) q)"
  obtain a cs s2 where sc: "calibrate_scan E now (map (cleanKey pfx) (sv_SCAN S now (pfx @ PendingCreatePrefix) q)) 0 [] (s\<lparr>pd_redis := r\<rparr>) = ((a, cs), s2)"
    by (metis prod.collapse)
  note C = count_of_scan [OF readyD(2) [OF R], of "pe_codec E" pfx "cfg_of s" now q, unfolded q, OF n, folded assms(5)]
  from scan_counts [OF R sc] C(1) r have a: "a = int (length ?A)" and s2: "co_of s2 = co_of s" by simp_all
  have "calibrateCounters E now s = applyCalibratedCounts E now a cs s2"
    using k sc readyD(4,5) [OF R] by (simp add: calibrateCounters_def)
  then have "view (pd_redis (calibrateCounters E now s)) (fixKey pfx (TrimSpace (MetricsKey (cfg_of s))))
        = Some (kv_entry now (FormatInt (int (length ?A))) (BackpressureWindow (cfg_of s)))"
    using write_counts [OF R c, of s2 now a cs] s2 g a by simp
  moreover have "card users = card (set ?A)" by (simp only: C(2)) (simp only: assms(5) counted_card)
  then have "card users \<le> length ?A \<and> (distinct ?A \<longrightarrow> length ?A = card users)" using card_length [of ?A] distinct_card [of ?A] by simp
  ultimately show ?thesis using q by blast
qed

theorem calibration_counts_answers_witness:
  "pt_view (pd_redis (calibrateCounters (demo_env False name_codec) demo_t0 (demo_st demo_kvs))) (fixKey ''iam:'' ''m:active'')
    = Some (kv_entry demo_t0 (FormatInt 1) (5 * Second))"
proof -
  let ?E = "demo_env False name_codec" and ?v = "pt_view (pd_redis (demo_st demo_kvs))"
  have c: "counted_lease name_codec demo_redis_cfg demo_t0 (Some (''o'', Some (demo_t0 + 10 * Second)))"
    by (simp add: counted_lease_def kv_live_def name_codec_def ttl_seconds_def heartbeatExpired_def demo_redis_cfg_def demo_t0_def
        blank_snapshot_def IsZero_def Second_def Millisecond_def zero_config_def)
  have dom: "k = fixKey ''iam:'' (PendingCreateKey ''ann'') \<or> k = fixKey ''iam:'' ''m:active''" if "?v k \<noteq> None" for k
    using that by (auto simp: demo_st_def pt_view_def demo_kvs_def fixKey_def demo_names split: if_splits)
  have live: "?v k \<noteq> None" if "kv_live demo_t0 (?v k) \<noteq> None" for k
    using that by (cases "?v k") (simp_all add: kv_live_def)
  have key: "PendingCreateKey u = PendingCreateKey ''ann'' \<longleftrightarrow> u = ''ann''" if "TrimSpace u = u" "u \<noteq> []" for u
    using create_key_username [of u] create_key_username [of "''ann''"] that demo_names(1) by (metis list.distinct(1))
  have m: "PendingCreateKey u \<noteq> ''m:active''" for u
    by (cases "TrimSpace u = []") (simp add: PendingCreateKey_def userScopedKey_def, simp add: PendingCreateKey_def userScopedKey_form, simp add: pendingCreatePrefix_def)
  have users: "counted_users name_codec ''iam:'' demo_redis_cfg demo_t0 ?v = {''ann''}"
  proof (intro equalityI subsetI)
    fix u assume "u \<in> counted_users name_codec ''iam:'' demo_redis_cfg demo_t0 ?v"
    then have u: "u \<noteq> []" "TrimSpace u = u" "?v (fixKey ''iam:'' (PendingCreateKey u)) \<noteq> None"
      using counted_live live by (auto simp: counted_users_def)
    then show "u \<in> {''ann''}" using dom [OF u(3)] key [OF u(2,1)] m by (auto simp: fixKey_def)
  next
    fix u assume "u \<in> {''ann''}"
    then show "u \<in> counted_users name_codec ''iam:'' demo_redis_cfg demo_t0 ?v"
      using c demo_names(1) by (simp add: counted_users_def demo_entries)
  qed
  have strays: "no_strays name_codec ''iam:'' demo_redis_cfg demo_t0 ?v"
    unfolding no_strays_def
  proof (intro allI impI)
    fix k assume k: "HasPrefix k PendingCreatePrefix \<and> kv_live demo_t0 (?v (fixKey ''iam:'' k)) \<noteq> None \<and> counts name_codec ''iam:'' demo_redis_cfg demo_t0 ?v k"
    then have "fixKey ''iam:'' k = fixKey ''iam:'' (PendingCreateKey ''ann'') \<or> k = ''m:active''" using dom [OF live] by (auto simp: fixKey_def)
    with k have "k = PendingCreateKey ''ann''" by (auto simp: fixKey_def HasPrefix_def PendingCreatePrefix_def pendingCreatePrefix_def)
    then show "k = PendingCreateKey (usernameFromKeyWithPrefix k PendingCreatePrefix)"
      using create_key_username [of "''ann''"] demo_names(1) by simp
  qed
  have g: "global_apart demo_redis_cfg"
    by (simp add: global_apart_def demo_redis_cfg_def demo_names HasPrefix_def)
  have cd: "\<not> sv_cluster (table_server False False)" "pe_codec ?E = name_codec" by (simp_all add: demo_env_def table_server_def)
  obtain q answers where A: "answers = filter (\<lambda>k. k \<in> fixKey ''iam:'' ` PendingCreateKey ` {''ann''}) (sv_SCAN (table_server False False) demo_t0 (''iam:'' @ PendingCreatePrefix) q)"
    and v: "pt_view (pd_redis (calibrateCounters ?E demo_t0 (demo_st demo_kvs))) (fixKey ''iam:'' (TrimSpace (MetricsKey (cfg_of (demo_st demo_kvs)))))
        = Some (kv_entry demo_t0 (FormatInt (int (length answers))) (BackpressureWindow (cfg_of (demo_st demo_kvs))))"
    and l: "distinct answers \<longrightarrow> length answers = card {''ann''}"
    using calibration_counts_answers [OF demo_ready [of False name_codec], where s = "demo_st demo_kvs" and now = demo_t0 and users = "{''ann''}"] users strays g cd
    by (auto simp: demo_entries)
  have "distinct answers" unfolding A using table_scan by (rule distinct_filter)
  with v l show ?thesis by (simp add: demo_entries) (simp add: demo_redis_cfg_def)
qed

text \<open>On a cluster the storage client's scan answers no keys, so every calibration sets the global counter to zero,
  whatever leases there are, and the listing of expired leases is empty.\<close>

theorem cluster_calibration_zeroes:
  assumes R: "ready E S pfx view" and c: "sv_cluster S" and m: "TrimSpace (MetricsKey (cfg_of s)) \<noteq> []"
  shows "view (pd_redis (calibrateCounters E now s)) (fixKey pfx (TrimSpace (MetricsKey (cfg_of s)))) = Some (kv_entry now (FormatInt 0) (BackpressureWindow (cfg_of s)))
    \<and> fst (redis_ListExpired E now limit s) = []"
proof -
  have g: "\<exists>r. on_redis (GetKeys S pfx now p) s1 = ([], s1\<lparr>pd_redis := r\<rparr>) \<and> view r = view (pd_redis s1)" for p s1
    using c readyD(7) [OF R] key_facts(3) [OF readyD(2) [OF R]] by (intro exI [of _ "snd (sv_trip S (pd_redis s1))"]) (simp add: on_redis_def GetKeys_def)
  obtain r where r: "on_redis (GetKeys S pfx now PendingCreatePrefix) s = ([], s\<lparr>pd_redis := r\<rparr>)" using g by blast
  let ?s3 = "set_counter E now (TrimSpace (MetricsKey (cfg_of s))) 0 (BackpressureWindow (cfg_of s)) (s\<lparr>pd_redis := r\<rparr>)"
  have s3: "view (pd_redis ?s3) (fixKey pfx (TrimSpace (MetricsKey (cfg_of s)))) = Some (kv_entry now (FormatInt 0) (BackpressureWindow (cfg_of s)))"
    using on_set [OF R, of now "TrimSpace (MetricsKey (cfg_of s))" "FormatInt 0" "BackpressureWindow (cfg_of s)" "s\<lparr>pd_redis := r\<rparr>"] readyD(4) [OF R]
    by (auto simp: set_counter_def)
  have "calibrateCounters E now s = cleanupStaleUserDepthKeys E now [] ?s3"
    using r m readyD(4,5) [OF R] by (simp add: calibrateCounters_def applyCalibratedCounts_def Let_def)
  moreover have "view (pd_redis (cleanupStaleUserDepthKeys E now [] ?s3)) = view (pd_redis ?s3)"
    using g [of "normalizeKeyPrefix (TrimSpace (UserMetricsPrefix (cfg_of ?s3)))" ?s3] readyD(4,5) [OF R] by (auto simp: cleanupStaleUserDepthKeys_def Let_def)
  ultimately show ?thesis using s3 r readyD(4,6) [OF R] by (simp add: redis_ListExpired_def)
qed

theorem cluster_calibration_zeroes_witness:
  "pt_view (pd_redis (calibrateCounters (demo_env True name_codec) demo_t0 (demo_st demo_kvs))) (fixKey ''iam:'' ''m:active'')
    = Some (kv_entry demo_t0 (FormatInt 0) (5 * Second))"
proof -
  have "sv_cluster (table_server True False)" by (simp add: table_server_def)
  from cluster_calibration_zeroes [OF demo_ready this, where s = "demo_st demo_kvs" and now = demo_t0] show ?thesis
    by (simp add: demo_entries demo_names) (simp add: demo_redis_cfg_def)
qed

section \<open>The settings of a coordinator\<close>

lemma positive_or_pos: "0 < d \<Longrightarrow> 0 < positive_or d x"
  by (simp add: positive_or_def)

lemma env_duration_ok: "P old \<Longrightarrow> (\<And>d. ok d \<Longrightarrow> P d) \<Longrightarrow> P (env_duration getenv v ok old)"
  by (simp add: env_duration_def Let_def split: option.splits)

lemma env_int_pos: "0 < old \<Longrightarrow> 0 < env_int getenv v old"
  by (simp add: env_int_def Let_def split: option.splits)

lemma strip_keeps: "\<forall>p \<in> set ps. c \<notin> set p \<Longrightarrow> c \<in> set s \<Longrightarrow> c \<in> set (strip_all ps s)"
proof (induction ps s rule: strip_all.induct)
  case (1 ps s)
  show ?case
  proof (cases "find_pat ps s")
    case None
    with "1.prems" show ?thesis by (simp add: strip_all_fixed)
  next
    case (Some p)
    then have "p \<in> set ps" "prefix p s" by (auto dest: find_pat_SomeD)
    with "1.prems" have "c \<in> set (drop (length p) s)" by (auto simp: prefix_def)
    with "1.IH" [OF Some] "1.prems"(1) Some show ?thesis by (simp add: strip_all.simps [of ps s])
  qed
qed

lemma TrimSpace_keeps: "c \<in> set s \<Longrightarrow> visible c \<Longrightarrow> TrimSpace s \<noteq> []"
  using strip_keeps [of go_spaces c s] strip_keeps [of "map rev go_spaces" c "rev (strip_all go_spaces s)"]
  by (fastforce simp: TrimSpace_def visible_def)

lemma metrics_key_ok: "TrimSpace (ensurePendingMetricsKey base) \<noteq> []"
proof -
  have d: "TrimSpace ''user:pending:active'' = ''user:pending:active''" by code_simp
  define t where "t = (if TrimSpace base = [] then ''user:pending:active'' else TrimSpace base)"
  have t: "t \<noteq> []" "TrimSpace t = t" by (auto simp: t_def d)
  show ?thesis
  proof (cases "ContainsChar t (CHR ''{'')")
    case True
    with t show ?thesis by (simp add: ensurePendingMetricsKey_def t_def Let_def split: if_splits)
  next
    case False
    then have "CHR ''{'' \<in> set (ensurePendingMetricsKey base)"
      by (auto simp: ensurePendingMetricsKey_def Let_def t_def pendingHashTag_def)
    then show ?thesis by (rule TrimSpace_keeps) simp
  qed
qed

text \<open>Whatever the environment and the settings given, a coordinator that is built has positive lifetimes, windows and delays, each soft limit
  at most the hard one, a calibration timeout within its interval or a second, and keys for its counters, as the
  properties above ask for.\<close>

theorem coordinator_config_sound:
  assumes "coordinator_config getenv cfg0 = Inr cfg"
  shows "0 < LeaseTTL cfg \<and> 0 < CommandTimeout cfg \<and> 0 < BackpressureWindow cfg \<and> 0 < UserBackpressureWindow cfg
    \<and> 0 < releaseRetentionTTL cfg \<and> 0 < expiredRetentionTTL cfg \<and> 0 \<le> ExpiredGracePeriod cfg
    \<and> 0 < BackpressureSoftLimit cfg \<and> BackpressureSoftLimit cfg \<le> BackpressureHardLimit cfg
    \<and> 0 < UserBackpressureSoftLimit cfg \<and> UserBackpressureSoftLimit cfg \<le> UserBackpressureHardLimit cfg
    \<and> 0 < InstanceBackpressureHardLimit cfg \<and> InstanceBackpressureSoftLimit cfg \<le> InstanceBackpressureHardLimit cfg
    \<and> 0 < ElevatedDelayBase cfg \<and> ElevatedDelayBase cfg \<le> ElevatedDelayMax cfg
    \<and> 0 < SevereDelayBase cfg \<and> SevereDelayBase cfg \<le> SevereDelayMax cfg
    \<and> 0 < CalibrationTimeout cfg \<and> CalibrationTimeout cfg \<le> max (CalibrationInterval cfg) Second
    \<and> TrimSpace (MetricsKey cfg) \<noteq> [] \<and> TrimSpace (UserMetricsPrefix cfg) \<noteq> []"
proof -
  define c where "c = config_delays (applyCoordinatorEnvOverrides getenv (config_defaults cfg0))"
  obtain p where cfg: "cfg = config_limits (c\<lparr>DelayProfileOf := p\<rparr>)"
    using assms by (auto simp: coordinator_config_def Let_def c_def split: sum.splits)
  note pos = env_duration_ok [where P = "\<lambda>d. 0 < d" and ok = "\<lambda>d. 0 < d"]
  have c: "0 < LeaseTTL c" "0 < CommandTimeout c" "0 < BackpressureWindow c" "0 < ReleaseRetention c" "0 < ExpiredRetention c"
    "0 \<le> ExpiredGracePeriod c" "0 < BackpressureSoftLimit c" "BackpressureSoftLimit c \<le> BackpressureHardLimit c"
    "0 < ElevatedDelayBase c" "ElevatedDelayBase c \<le> ElevatedDelayMax c" "0 < SevereDelayBase c" "SevereDelayBase c \<le> SevereDelayMax c"
    "TrimSpace (MetricsKey c) \<noteq> []"
    by (auto simp: c_def config_delays_def applyCoordinatorEnvOverrides_def config_defaults_def delay_pair_def Let_def metrics_key_ok
        Second_def Millisecond_def Minute_def pendingCommandTimeoutDefault_def
        intro!: positive_or_pos [THEN less_imp_le] pos env_int_pos positive_or_pos env_duration_ok [where P = "\<lambda>d. 0 \<le> d"])
  have r: "0 < releaseRetentionTTL cfg" "0 < expiredRetentionTTL cfg"
    using c by (auto simp: cfg config_limits_def releaseRetentionTTL_def expiredRetentionTTL_def Let_def)
  have ct: "0 < CalibrationTimeout cfg \<and> CalibrationTimeout cfg \<le> max (CalibrationInterval cfg) Second"
    by (auto simp: cfg config_limits_def Let_def calibration_timeout_def minDuration_def positive_or_def go_div_def Second_def)
  show ?thesis
    using c r ct
    by (auto simp: cfg config_limits_def Let_def positive_or_def Second_def normalizeKeyPrefix_trimmed normalizeKeyPrefix_Nil_iff
        PendingUserDepthPrefix_def defaultUserBackpressureSoft_def defaultUserBackpressureHard_def defaultInstanceBackpressureHard_def)
qed

definition demo_given_cfg :: PendingCoordinatorConfig where
  "demo_given_cfg = zero_config\<lparr>BackpressureSoftLimit := 100, BackpressureHardLimit := 200, DelayProfileOf :=
     empty_profile\<lparr>Elevated := [Bucket 300 (25 * Millisecond), Bucket 100 (5 * Millisecond)], Severe := [Bucket 200 (9 * Millisecond)]\<rparr>\<rparr>"

theorem coordinator_config_sound_witness:
  "\<exists>cfg. coordinator_config (\<lambda>v. []) demo_given_cfg = Inr cfg \<and> BackpressureSoftLimit cfg \<le> BackpressureHardLimit cfg"
proof -
  let ?c = "config_delays (config_defaults demo_given_cfg)"
  have "env_duration (\<lambda>v. []) v ok old = old" "env_int (\<lambda>v. []) v n = n" for v ok old n by (simp_all add: env_duration_def env_int_def)
  then have e: "applyCoordinatorEnvOverrides (\<lambda>v. []) (config_defaults demo_given_cfg) = config_defaults demo_given_cfg"
    by (simp add: applyCoordinatorEnvOverrides_def config_defaults_def Let_def)
  have "case cfg_defaults ?c (DelayProfileOf ?c) of Inl e \<Rightarrow> False | Inr c \<Rightarrow> True" by code_simp
  then obtain cfg where "coordinator_config (\<lambda>v. []) demo_given_cfg = Inr cfg"
    by (auto simp: coordinator_config_def e Let_def split: sum.splits)
  with coordinator_config_sound [OF this] show ?thesis by blast
qed

end
