(* ===== verification/KafkaMessages.thy ===== *)
theory KafkaMessages
  imports GoStrings GoBase
begin

unbundle bit_operations_syntax

text \<open>
  Messages of the queue as the service writes and reads them (internal/pkg/server: constants.go,
  producer.go, consumer.go and retry_consumer.go): topics, header names, the two ways a header is
  updated, the retry headers, and the names of the consumer instances. Printing and parsing of times
  is an argument, \<open>clock_text\<close>. Comparing header names without case is done byte by byte.
\<close>

section \<open>Text\<close>

definition bytes :: "nat list \<Rightarrow> string" where
  "bytes ns = map char_of ns"

definition EqualFold :: "string \<Rightarrow> string \<Rightarrow> bool" where
  "EqualFold a b \<longleftrightarrow> ToLower a = ToLower b"

definition Contains :: "string \<Rightarrow> string \<Rightarrow> bool" where
  "Contains s t \<longleftrightarrow> sublist t s"

definition contains_any :: "string \<Rightarrow> string list \<Rightarrow> bool" where
  "contains_any s ts \<longleftrightarrow> (\<exists>t\<in>set ts. Contains s t)"

record clock_text =
  ct_format :: "instant \<Rightarrow> string"
  ct_parse :: "string \<Rightarrow> instant option"
  ct_day :: "instant \<Rightarrow> string"

text \<open>A printed time holds whole seconds.\<close>

definition clock_text_ok :: "clock_text \<Rightarrow> bool" where
  "clock_text_ok T \<longleftrightarrow> (\<forall>t. ct_parse T (ct_format T t) = Some (t div Second * Second))"

section \<open>Topics and headers\<close>

definition UserOperationTopic :: string where "UserOperationTopic = ''user.operations.v1''"
definition UserOperationRetryTopic :: string where "UserOperationRetryTopic = ''user.operations.retry.v1''"
definition UserOperationCompTopic :: string where "UserOperationCompTopic = ''user.operations.comp.v1''"
definition UserDeadLetterTopic :: string where "UserDeadLetterTopic = ''user.deadletter.v1''"

lemmas topic_defs = UserOperationTopic_def UserOperationRetryTopic_def UserOperationCompTopic_def UserDeadLetterTopic_def

definition HeaderOperation :: string where "HeaderOperation = ''operation''"
definition HeaderChannel :: string where "HeaderChannel = ''operation-channel''"
definition HeaderOriginalTimestamp :: string where "HeaderOriginalTimestamp = ''original-timestamp''"
definition HeaderRetryCount :: string where "HeaderRetryCount = ''retry-count''"
definition HeaderRetryError :: string where "HeaderRetryError = ''retry-error''"
definition HeaderNextRetryTS :: string where "HeaderNextRetryTS = ''next-retry-ts''"
definition HeaderDeadLetterReason :: string where "HeaderDeadLetterReason = ''deadletter-reason''"
definition HeaderDeadLetterTS :: string where "HeaderDeadLetterTS = ''deadletter-timestamp''"
definition HeaderTraceID :: string where "HeaderTraceID = ''trace-id''"
definition HeaderRequestID :: string where "HeaderRequestID = ''request-id''"
definition HeaderParentSpanID :: string where "HeaderParentSpanID = ''parent-span-id''"

definition OperationCreate_text :: string where "OperationCreate_text = ''create''"
definition OperationUpdate_text :: string where "OperationUpdate_text = ''update''"
definition OperationDelete_text :: string where "OperationDelete_text = ''delete''"

definition ChannelPrimary :: string where "ChannelPrimary = ''primary''"
definition ChannelRetry :: string where "ChannelRetry = ''retry''"
definition ChannelCompensation :: string where "ChannelCompensation = ''compensation''"

lemmas header_defs = HeaderOperation_def HeaderChannel_def HeaderOriginalTimestamp_def HeaderRetryCount_def
  HeaderRetryError_def HeaderNextRetryTS_def HeaderDeadLetterReason_def HeaderDeadLetterTS_def HeaderTraceID_def
  HeaderRequestID_def HeaderParentSpanID_def

lemmas operation_defs = OperationCreate_text_def OperationUpdate_text_def OperationDelete_text_def

type_synonym headers = "(string \<times> string) list"

definition buildOperationHeaders :: "clock_text \<Rightarrow> string \<Rightarrow> string \<Rightarrow> instant \<Rightarrow> int \<Rightarrow> headers" where
  "buildOperationHeaders T operation channel ts retryCount =
    [(HeaderOperation, operation), (HeaderChannel, channel),
     (HeaderOriginalTimestamp, ct_format T ts), (HeaderRetryCount, FormatInt retryCount)]"

definition resolveChannelFromTopic :: "string \<Rightarrow> string" where
  "resolveChannelFromTopic topic =
    (if topic = UserOperationTopic then ChannelPrimary
     else if topic = UserOperationRetryTopic then ChannelRetry
     else if topic = UserOperationCompTopic then ChannelCompensation
     else [])"

text \<open>
  The consumer keeps the spelling of the first header with the name and drops the others; the producer
  gives every one of them the name it was asked for. Both names in use are constants, so that the panic
  for an empty name is never reached.
\<close>

fun rewrite_headers :: "string \<Rightarrow> string \<Rightarrow> bool \<Rightarrow> headers \<Rightarrow> headers" where
  "rewrite_headers key val found [] = (if found then [] else [(key, val)])"
| "rewrite_headers key val found ((k, v) # hs) =
    (if ToLower k = ToLower key
     then (if found then rewrite_headers key val True hs else (k, val) # rewrite_headers key val True hs)
     else (k, v) # rewrite_headers key val found hs)"

definition consumer_updateOrAddHeader :: "headers \<Rightarrow> string \<Rightarrow> string \<Rightarrow> headers" where
  "consumer_updateOrAddHeader hs key val = rewrite_headers key val False hs"

definition producer_updateOrAddHeader :: "headers \<Rightarrow> string \<Rightarrow> string \<Rightarrow> headers" where
  "producer_updateOrAddHeader hs key val =
    map (\<lambda>(k, v). if ToLower k = ToLower key then (key, val) else (k, v)) hs
    @ (if \<exists>h\<in>set hs. ToLower (fst h) = ToLower key then [] else [(key, val)])"

fun first_header :: "(string \<Rightarrow> bool) \<Rightarrow> headers \<Rightarrow> string option" where
  "first_header P [] = None"
| "first_header P ((k, v) # hs) = (if P k then Some v else first_header P hs)"

definition producer_getOperationFromHeaders :: "headers \<Rightarrow> string" where
  "producer_getOperationFromHeaders hs =
    (case first_header (\<lambda>k. k = HeaderOperation) hs of Some v \<Rightarrow> v | None \<Rightarrow> ''unknown'')"

definition getTraceIDFromHeaders :: "headers \<Rightarrow> string" where
  "getTraceIDFromHeaders hs =
    (case first_header (\<lambda>k. EqualFold k HeaderTraceID) hs of Some v \<Rightarrow> v | None \<Rightarrow> [])"

definition retry_getOperationFromHeaders :: "headers \<Rightarrow> string" where
  "retry_getOperationFromHeaders hs =
    (case first_header (\<lambda>k. k = HeaderOperation) hs of Some v \<Rightarrow> v | None \<Rightarrow> OperationCreate_text)"

text \<open>The text of an unknown error in the source is Chinese.\<close>

definition unknownError :: string where
  "unknownError = bytes [0xE6, 0x9C, 0xAA, 0xE7, 0x9F, 0xA5, 0xE9, 0x94, 0x99, 0xE8, 0xAF, 0xAF]"

fun scan_retry_headers :: "clock_text \<Rightarrow> headers \<Rightarrow> int \<times> instant \<times> string \<Rightarrow> int \<times> instant \<times> string" where
  "scan_retry_headers T [] acc = acc"
| "scan_retry_headers T ((k, v) # hs) (n, t, e) = scan_retry_headers T hs
    (if k = HeaderRetryCount then (case ParseInt v of Some c \<Rightarrow> c | None \<Rightarrow> n, t, e)
     else if k = HeaderNextRetryTS then (n, case ct_parse T v of Some u \<Rightarrow> u | None \<Rightarrow> t, e)
     else if k = HeaderRetryError then (n, t, v)
     else (n, t, e))"

definition parseRetryHeaders :: "clock_text \<Rightarrow> instant \<Rightarrow> headers \<Rightarrow> int \<times> instant \<times> string" where
  "parseRetryHeaders T now hs =
    (case scan_retry_headers T hs (0, zero_time, unknownError) of
       (n, t, e) \<Rightarrow> (n, if IsZero t then time_Add now (10 * Second) else t, e))"

section \<open>Compression\<close>

datatype CompressionCodec = CompressionNone | CompressionSnappy | CompressionGZIP | CompressionLZ4 | CompressionZSTD

definition parseCompressionCodec :: "string \<Rightarrow> string + CompressionCodec" where
  "parseCompressionCodec codec =
    (let c = ToLower codec
     in if c = [] \<or> c = ''none'' then Inr CompressionNone
        else if c = ''snappy'' then Inr CompressionSnappy
        else if c = ''gzip'' then Inr CompressionGZIP
        else if c = ''lz4'' then Inr CompressionLZ4
        else if c = ''zstd'' then Inr CompressionZSTD
        else Inl codec)"

section \<open>Runes\<close>

text \<open>Ranging over a text decodes UTF-8; a byte that starts no valid sequence counts as U+FFFD.\<close>

definition cont_byte :: "nat \<Rightarrow> bool" where "cont_byte b \<longleftrightarrow> 0x80 \<le> b \<and> b \<le> 0xBF"

definition seq3 :: "nat \<Rightarrow> nat \<Rightarrow> bool" where
  "seq3 a b \<longleftrightarrow> (a = 0xE0 \<and> 0xA0 \<le> b \<and> b \<le> 0xBF) \<or> (a = 0xED \<and> 0x80 \<le> b \<and> b \<le> 0x9F)
     \<or> (0xE1 \<le> a \<and> a \<le> 0xEF \<and> a \<noteq> 0xED \<and> cont_byte b)"

definition seq4 :: "nat \<Rightarrow> nat \<Rightarrow> bool" where
  "seq4 a b \<longleftrightarrow> (a = 0xF0 \<and> 0x90 \<le> b \<and> b \<le> 0xBF) \<or> (a = 0xF4 \<and> 0x80 \<le> b \<and> b \<le> 0x8F)
     \<or> (0xF1 \<le> a \<and> a \<le> 0xF3 \<and> cont_byte b)"

definition next_rune :: "nat list \<Rightarrow> nat \<times> nat" where
  "next_rune s =
    (case s of
       a # b # c # d # _ \<Rightarrow>
         (if a < 0x80 then (a, 1)
          else if 0xC2 \<le> a \<and> a \<le> 0xDF \<and> cont_byte b then ((a - 0xC0) * 64 + (b - 0x80), 2)
          else if seq3 a b \<and> cont_byte c then ((a - 0xE0) * 4096 + (b - 0x80) * 64 + (c - 0x80), 3)
          else if seq4 a b \<and> cont_byte c \<and> cont_byte d
               then ((a - 0xF0) * 262144 + (b - 0x80) * 4096 + (c - 0x80) * 64 + (d - 0x80), 4)
          else (0xFFFD, 1))
     | _ \<Rightarrow> (0xFFFD, 1))"

text \<open>The end of the text is padded, since a byte below 128 continues nothing.\<close>

function decode_runes :: "nat list \<Rightarrow> nat list" where
  "decode_runes [] = []"
| "decode_runes (a # s) =
    (case next_rune (a # s @ [0, 0, 0]) of (r, n) \<Rightarrow> r # decode_runes (drop (n - 1) s))"
  by pat_completeness auto
termination by (relation "measure length") (auto simp: less_Suc_eq_le)

definition runes :: "string \<Rightarrow> nat list" where
  "runes s = decode_runes (map of_char s)"

section \<open>Instances\<close>

text \<open>The identifier as a number, or the masked sum of its characters.\<close>

definition parseInstanceID :: "string \<Rightarrow> int" where
  "parseInstanceID idStr =
    (if idStr = [] then 0
     else case ParseInt idStr of
            Some n \<Rightarrow> n
          | None \<Rightarrow> int (sum_list (runes idStr)) AND 0x7FFFFFFF)"

definition group_rune :: "nat \<Rightarrow> char" where
  "group_rune r = (if 97 \<le> r \<and> r \<le> 122 \<or> 65 \<le> r \<and> r \<le> 90 \<or> 48 \<le> r \<and> r \<le> 57
       \<or> r = 45 \<or> r = 95 \<or> r = 46 \<or> r = 64
     then char_of r else CHR ''-'')"

definition sanitizeGroupInstanceComponent :: "string \<Rightarrow> string" where
  "sanitizeGroupInstanceComponent raw = map group_rune (runes (TrimSpace raw))"

definition pad2 :: "int \<Rightarrow> string" where
  "pad2 i = (let s = FormatInt i in if length s < 2 then CHR ''0'' # s else s)"

definition buildGroupInstanceID :: "string \<Rightarrow> string \<Rightarrow> int \<Rightarrow> string" where
  "buildGroupInstanceID base grp index =
    (let b = sanitizeGroupInstanceComponent base; g = sanitizeGroupInstanceComponent grp;
         candidate = (if b = [] then ''consumer'' else b) @ ''-'' @ (if g = [] then ''group'' else g)
                     @ ''-'' @ pad2 index
     in take 249 candidate)"

lemma buildGroupInstanceID_bounds:
  "buildGroupInstanceID base grp index \<noteq> []" "length (buildGroupInstanceID base grp index) \<le> 249"
  by (simp_all add: buildGroupInstanceID_def Let_def)

section \<open>Facts about headers\<close>

lemma first_header_rewrite_other:
  "(\<And>k. P k \<Longrightarrow> ToLower k \<noteq> ToLower key) \<Longrightarrow> first_header P (rewrite_headers key val f hs) = first_header P hs"
  by (induction hs arbitrary: f) (auto split: if_splits)

text \<open>After an update by the producer every header with the name holds the value.\<close>

lemma producer_header_set:
  "(k, v) \<in> set (producer_updateOrAddHeader hs key val) \<Longrightarrow> ToLower k = ToLower key \<Longrightarrow> k = key \<and> v = val"
  by (auto simp: producer_updateOrAddHeader_def split: if_splits)

lemma producer_header_present: "(key, val) \<in> set (producer_updateOrAddHeader hs key val)"
proof (cases "\<exists>h\<in>set hs. ToLower (fst h) = ToLower key")
  case True
  then obtain k v where "(k, v) \<in> set hs" "ToLower k = ToLower key" by auto
  then show ?thesis by (force simp: producer_updateOrAddHeader_def image_iff)
qed (simp add: producer_updateOrAddHeader_def)

end
