(* ===== verification/KafkaOptions.thy ===== *)
theory KafkaOptions
  imports GoStrings GoBase
begin

text \<open>
  The settings of the message queue (internal/pkg/options/kafka_options.go): their defaults, the
  completion that repairs them and the validation. The environment is a function of the variable's
  name, the empty text standing for an unset variable; whether a file is missing is an argument. The
  registration of the command line flags is left out.
\<close>

section \<open>Settings\<close>

definition MinUserPendingCreateTTL :: duration where "MinUserPendingCreateTTL = 10 * Minute"

record KafkaOptions =
  ko_Brokers :: "string list"
  ko_Topic :: string
  ko_ConsumerGroup :: string
  ko_RequiredAcks :: int
  ko_BatchSize :: int
  ko_BatchTimeout :: duration
  ko_MaxRetries :: int
  ko_MinBytes :: int
  ko_MaxBytes :: int
  ko_WorkerCount :: int
  ko_FetcherCount :: int
  ko_RetryWorkerCount :: int
  ko_EnableMetricsRefresh :: bool
  ko_MetricsRefreshInterval :: duration
  ko_EnableSSL :: bool
  ko_SSLCertFile :: string
  ko_BaseRetryDelay :: duration
  ko_MaxRetryDelay :: duration
  ko_AutoCreateTopic :: bool
  ko_DesiredPartitions :: int
  ko_AutoExpandPartitions :: bool
  ko_LagScaleThreshold :: int
  ko_LagCheckInterval :: duration
  ko_MaxDBBatchSize :: int
  ko_BatchChannelCapacity :: int
  ko_MinDBBatchSize :: int
  ko_BatchCreateParallelism :: int
  ko_SkipCacheWrite :: bool
  ko_CacheWriteTimeout :: duration
  ko_CacheWriteFallback :: bool
  ko_MinBatchTimeout :: duration
  ko_MaxBatchTimeout :: duration
  ko_PendingLeaseTTL :: duration
  ko_PendingMetricsKey :: string
  ko_PendingBackpressureWindow :: duration
  ko_PendingBackpressureSoft :: int
  ko_PendingBackpressureHard :: int
  ko_PendingReleaseRetention :: duration
  ko_PendingExpiredRetention :: duration
  ko_PendingExpiredGrace :: duration
  ko_PendingDelayElevated :: duration
  ko_PendingDelayElevatedMax :: duration
  ko_PendingDelaySevere :: duration
  ko_PendingDelaySevereMax :: duration
  ko_ProducerMaxInFlight :: int
  ko_LagProtected :: bool
  ko_InstanceID :: string
  ko_StartingRate :: int
  ko_MinRate :: int
  ko_MaxRate :: int
  ko_AdjustPeriod :: duration
  ko_FlushFrequency :: duration
  ko_FlushMaxMessages :: int
  ko_ProducerCompression :: string
  ko_ProducerReturnSuccesses :: bool
  ko_ProducerReturnErrors :: bool
  ko_ChannelBufferSize :: int
  ko_ProducerEnqueueTimeout :: duration
  ko_FallbackRetryEnabled :: bool
  ko_FallbackRetryInterval :: duration
  ko_FallbackRetryMaxAttempts :: int
  ko_FallbackRetryBatchSize :: int

definition NewKafkaOptions :: KafkaOptions where
  "NewKafkaOptions = \<lparr>
     ko_Brokers = [''192.168.10.8:9092'', ''192.168.10.8:9093'', ''192.168.10.8:9094''], ko_Topic = ''user.create.v1'',
     ko_ConsumerGroup = ''user-service-prod'', ko_RequiredAcks = 1, ko_BatchSize = 80, ko_BatchTimeout = 60 * Millisecond,
     ko_MaxRetries = 4, ko_MinBytes = 60 * 1024, ko_MaxBytes = 10 * 1024 * 1024, ko_WorkerCount = 64, ko_FetcherCount = 4,
     ko_RetryWorkerCount = 3, ko_EnableMetricsRefresh = True, ko_MetricsRefreshInterval = 30 * Second, ko_EnableSSL = False,
     ko_SSLCertFile = [], ko_BaseRetryDelay = 5 * Second, ko_MaxRetryDelay = 2 * Minute, ko_AutoCreateTopic = True,
     ko_DesiredPartitions = 64, ko_AutoExpandPartitions = True, ko_LagScaleThreshold = 10000,
     ko_LagCheckInterval = 30 * Second, ko_MaxDBBatchSize = 230, ko_BatchChannelCapacity = 1024, ko_MinDBBatchSize = 120,
     ko_BatchCreateParallelism = 16, ko_SkipCacheWrite = False, ko_CacheWriteTimeout = 1500 * Millisecond,
     ko_CacheWriteFallback = True, ko_MinBatchTimeout = 40 * Millisecond, ko_MaxBatchTimeout = 200 * Millisecond,
     ko_PendingLeaseTTL = MinUserPendingCreateTTL, ko_PendingMetricsKey = ''user:pending:active'',
     ko_PendingBackpressureWindow = 5 * Second, ko_PendingBackpressureSoft = 1000, ko_PendingBackpressureHard = 1500,
     ko_PendingReleaseRetention = 3 * Second, ko_PendingExpiredRetention = 30 * Second, ko_PendingExpiredGrace = 2 * Second,
     ko_PendingDelayElevated = 20 * Millisecond, ko_PendingDelayElevatedMax = 45 * Millisecond,
     ko_PendingDelaySevere = 80 * Millisecond, ko_PendingDelaySevereMax = 150 * Millisecond, ko_ProducerMaxInFlight = 40000,
     ko_LagProtected = False, ko_InstanceID = [], ko_StartingRate = 10000, ko_MinRate = 10000, ko_MaxRate = 20000,
     ko_AdjustPeriod = 2 * Second, ko_FlushFrequency = 8 * Millisecond, ko_FlushMaxMessages = 256,
     ko_ProducerCompression = ''snappy'', ko_ProducerReturnSuccesses = True, ko_ProducerReturnErrors = True,
     ko_ChannelBufferSize = 1024, ko_ProducerEnqueueTimeout = 10 * Second, ko_FallbackRetryEnabled = True,
     ko_FallbackRetryInterval = 30 * Second, ko_FallbackRetryMaxAttempts = 5, ko_FallbackRetryBatchSize = 5000\<rparr>"

section \<open>Completion\<close>

definition parseBrokersFromEnv :: "string \<Rightarrow> string list" where
  "parseBrokersFromEnv envBrokers = [envBrokers]"

definition options_from_env :: "(string \<Rightarrow> string) \<Rightarrow> KafkaOptions \<Rightarrow> KafkaOptions" where
  "options_from_env getenv k =
    (let brokers = getenv ''KAFKA_BROKERS''; topic = getenv ''KAFKA_TOPIC'';
         group = getenv ''KAFKA_CONSUMER_GROUP''; fetcher = getenv ''KAFKA_FETCHER_COUNT''
     in k\<lparr>ko_Brokers := if brokers \<noteq> [] then parseBrokersFromEnv brokers else ko_Brokers k,
          ko_Topic := if topic \<noteq> [] then topic else ko_Topic k,
          ko_ConsumerGroup := if group \<noteq> [] then group else ko_ConsumerGroup k,
          ko_FetcherCount := (case ParseInt fetcher of Some n \<Rightarrow> if 0 < n then n else ko_FetcherCount k
                                | None \<Rightarrow> ko_FetcherCount k)\<rparr>)"

text \<open>The first block of defaults; the second repeats it, except that a missing worker count is the number of
  partitions, which the first block has already ruled out.\<close>

definition base_defaults :: "KafkaOptions \<Rightarrow> KafkaOptions" where
  "base_defaults k = k\<lparr>
     ko_Brokers := if ko_Brokers k = [] then [''localhost:9092''] else ko_Brokers k,
     ko_BatchSize := positive_or 100 (ko_BatchSize k),
     ko_BatchTimeout := positive_or (100 * Millisecond) (ko_BatchTimeout k),
     ko_WorkerCount := positive_or 5 (ko_WorkerCount k),
     ko_FetcherCount := positive_or 1 (ko_FetcherCount k),
     ko_MinBytes := positive_or (10 * 1024) (ko_MinBytes k),
     ko_MaxBytes := positive_or (10 * 1024 * 1024) (ko_MaxBytes k)\<rparr>"

definition base_defaults_again :: "KafkaOptions \<Rightarrow> KafkaOptions" where
  "base_defaults_again k = k\<lparr>
     ko_Brokers := if ko_Brokers k = [] then [''localhost:9092''] else ko_Brokers k,
     ko_BatchSize := positive_or 100 (ko_BatchSize k),
     ko_BatchTimeout := positive_or (100 * Millisecond) (ko_BatchTimeout k),
     ko_WorkerCount := positive_or (ko_DesiredPartitions k) (ko_WorkerCount k),
     ko_MinBytes := positive_or (10 * 1024) (ko_MinBytes k),
     ko_MaxBytes := positive_or (10 * 1024 * 1024) (ko_MaxBytes k)\<rparr>"

text \<open>Workers and fetchers against the partitions; more workers than partitions are only logged.\<close>

definition complete_workers :: "KafkaOptions \<Rightarrow> KafkaOptions" where
  "complete_workers k =
    (let partitions = positive_or 64 (ko_DesiredPartitions k);
         workers = positive_or partitions (ko_WorkerCount k);
         fetchers = min (ko_FetcherCount k) workers;
         parallel = positive_or 16 (ko_BatchCreateParallelism k)
     in k\<lparr>ko_DesiredPartitions := partitions, ko_WorkerCount := workers,
          ko_MetricsRefreshInterval := positive_or (30 * Second) (ko_MetricsRefreshInterval k),
          ko_FetcherCount := min fetchers partitions,
          ko_BatchCreateParallelism := if 0 < workers \<and> workers < parallel then workers else parallel\<rparr>)"

definition at_least_zero :: "int \<Rightarrow> int" where
  "at_least_zero x = (if x < 0 then 0 else x)"

definition complete_producer :: "KafkaOptions \<Rightarrow> KafkaOptions" where
  "complete_producer k = k\<lparr>
     ko_CacheWriteTimeout := at_least_zero (ko_CacheWriteTimeout k),
     ko_ChannelBufferSize := at_least_zero (ko_ChannelBufferSize k),
     ko_ProducerEnqueueTimeout := positive_or (2 * Second) (ko_ProducerEnqueueTimeout k),
     ko_ProducerCompression := if ko_ProducerCompression k = [] then ''snappy'' else ko_ProducerCompression k,
     ko_FallbackRetryInterval := positive_or Minute (ko_FallbackRetryInterval k),
     ko_FallbackRetryBatchSize := at_least_zero (ko_FallbackRetryBatchSize k),
     ko_FallbackRetryMaxAttempts := at_least_zero (ko_FallbackRetryMaxAttempts k)\<rparr>"

definition complete_batches :: "KafkaOptions \<Rightarrow> KafkaOptions" where
  "complete_batches k =
    (let maxDB = positive_or 230 (ko_MaxDBBatchSize k);
         minDB = (if ko_MinDBBatchSize k \<le> 0 \<or> maxDB < ko_MinDBBatchSize k
                  then positive_or 1 (go_div maxDB 2) else ko_MinDBBatchSize k);
         minT = positive_or (40 * Millisecond) (ko_MinBatchTimeout k);
         maxT = max minT (positive_or (200 * Millisecond) (ko_MaxBatchTimeout k))
     in k\<lparr>ko_BatchChannelCapacity := positive_or 1024 (ko_BatchChannelCapacity k),
          ko_MaxDBBatchSize := maxDB, ko_MinDBBatchSize := minDB, ko_MinBatchTimeout := minT, ko_MaxBatchTimeout := maxT,
          ko_BatchTimeout := (if ko_BatchTimeout k < minT then minT
             else if maxT < ko_BatchTimeout k then maxT else ko_BatchTimeout k)\<rparr>)"

definition complete_pending :: "KafkaOptions \<Rightarrow> KafkaOptions" where
  "complete_pending k =
    (let soft = positive_or 1000 (ko_PendingBackpressureSoft k);
         hard = positive_or (wrap64 (soft + 500)) (ko_PendingBackpressureHard k);
         elevated = positive_or (20 * Millisecond) (ko_PendingDelayElevated k);
         severe = positive_or (80 * Millisecond) (ko_PendingDelaySevere k)
     in k\<lparr>ko_PendingLeaseTTL := max MinUserPendingCreateTTL (positive_or MinUserPendingCreateTTL (ko_PendingLeaseTTL k)),
          ko_PendingMetricsKey := if ko_PendingMetricsKey k = [] then ''user:pending:active'' else ko_PendingMetricsKey k,
          ko_PendingBackpressureWindow := positive_or (5 * Second) (ko_PendingBackpressureWindow k),
          ko_PendingBackpressureSoft := soft, ko_PendingBackpressureHard := max soft hard,
          ko_PendingReleaseRetention := positive_or (3 * Second) (ko_PendingReleaseRetention k),
          ko_PendingExpiredRetention := positive_or (30 * Second) (ko_PendingExpiredRetention k),
          ko_PendingExpiredGrace := at_least_zero (ko_PendingExpiredGrace k),
          ko_PendingDelayElevated := elevated,
          ko_PendingDelayElevatedMax := max elevated (positive_or elevated (ko_PendingDelayElevatedMax k)),
          ko_PendingDelaySevere := severe,
          ko_PendingDelaySevereMax := max severe (positive_or severe (ko_PendingDelaySevereMax k))\<rparr>)"

definition KafkaOptions_Complete :: "(string \<Rightarrow> string) \<Rightarrow> KafkaOptions \<Rightarrow> KafkaOptions" where
  "KafkaOptions_Complete getenv k =
    complete_pending (complete_batches (complete_producer (complete_workers
      (base_defaults_again (base_defaults (options_from_env getenv k))))))"

section \<open>Validation\<close>

datatype option_error = Required string | RequiredIndex string nat | TooLong string | Invalid string

abbreviation check_option :: "bool \<Rightarrow> option_error \<Rightarrow> option_error list" where
  "check_option bad e \<equiv> if bad then [e] else []"

fun empty_brokers :: "nat \<Rightarrow> string list \<Rightarrow> option_error list" where
  "empty_brokers i [] = []"
| "empty_brokers i (b # bs) = check_option (b = []) (RequiredIndex ''brokers'' i) @ empty_brokers (i + 1) bs"

definition known_codecs :: "string list" where
  "known_codecs = [[], ''none'', ''snappy'', ''gzip'', ''lz4'', ''zstd'']"

definition validate_topics :: "KafkaOptions \<Rightarrow> option_error list" where
  "validate_topics k =
     check_option (ko_Brokers k = []) (Required ''brokers'')
   @ empty_brokers 0 (ko_Brokers k)
   @ (if ko_Topic k = [] then [Required ''topic''] else check_option (255 < length (ko_Topic k)) (TooLong ''topic''))
   @ check_option (ko_ConsumerGroup k = []) (Required ''consumerGroup'')
   @ check_option (ko_RequiredAcks k < - 1 \<or> 1 < ko_RequiredAcks k) (Invalid ''requiredAcks'')"

definition validate_producer :: "KafkaOptions \<Rightarrow> option_error list" where
  "validate_producer k =
     check_option (ko_BatchSize k < 1) (Invalid ''batchSize'')
   @ check_option (ko_BatchTimeout k < Millisecond) (Invalid ''batchTimeout'')
   @ check_option (ko_WorkerCount k < 1) (Invalid ''workerCount'')
   @ check_option (ko_FetcherCount k < 1) (Invalid ''fetcherCount'')
   @ check_option (ko_ProducerCompression k \<notin> set known_codecs) (Invalid ''producerCompression'')
   @ check_option (ko_ChannelBufferSize k < 0) (Invalid ''channelBufferSize'')
   @ check_option (ko_ProducerEnqueueTimeout k \<le> 0) (Invalid ''producerEnqueueTimeout'')
   @ check_option (ko_FallbackRetryInterval k \<le> 0) (Invalid ''fallbackRetryInterval'')
   @ check_option (ko_FallbackRetryBatchSize k < 0) (Invalid ''fallbackRetryBatchSize'')
   @ check_option (ko_FallbackRetryMaxAttempts k < 0) (Invalid ''fallbackRetryMaxAttempts'')
   @ check_option (ko_BatchChannelCapacity k < 1) (Invalid ''batchChannelCapacity'')
   @ check_option (ko_BatchCreateParallelism k < 1) (Invalid ''batchCreateParallelism'')
   @ check_option (ko_MinDBBatchSize k < 1) (Invalid ''minDBBatchSize'')
   @ check_option (ko_MaxDBBatchSize k < ko_MinDBBatchSize k) (Invalid ''minDBBatchSize'')
   @ check_option (ko_MinBatchTimeout k < Millisecond) (Invalid ''minBatchTimeout'')
   @ check_option (ko_MaxBatchTimeout k < ko_MinBatchTimeout k) (Invalid ''maxBatchTimeout'')"

definition validate_pending :: "(string \<Rightarrow> bool) \<Rightarrow> KafkaOptions \<Rightarrow> option_error list" where
  "validate_pending missing k =
     check_option (ko_PendingLeaseTTL k < MinUserPendingCreateTTL) (Invalid ''pendingLeaseTTL'')
   @ check_option (ko_PendingMetricsKey k = []) (Required ''pendingMetricsKey'')
   @ check_option (ko_PendingBackpressureWindow k \<le> 0) (Invalid ''pendingBackpressureWindow'')
   @ check_option (ko_PendingBackpressureSoft k < 1) (Invalid ''pendingBackpressureSoft'')
   @ check_option (ko_PendingBackpressureHard k < ko_PendingBackpressureSoft k) (Invalid ''pendingBackpressureHard'')
   @ check_option (ko_PendingReleaseRetention k < 0) (Invalid ''pendingReleaseRetention'')
   @ check_option (ko_PendingExpiredRetention k < 0) (Invalid ''pendingExpiredRetention'')
   @ check_option (ko_PendingExpiredGrace k < 0) (Invalid ''pendingExpiredGrace'')
   @ check_option (ko_PendingDelayElevated k \<le> 0) (Invalid ''pendingDelayElevated'')
   @ check_option (ko_PendingDelayElevatedMax k < ko_PendingDelayElevated k) (Invalid ''pendingDelayElevatedMax'')
   @ check_option (ko_PendingDelaySevere k \<le> 0) (Invalid ''pendingDelaySevere'')
   @ check_option (ko_PendingDelaySevereMax k < ko_PendingDelaySevere k) (Invalid ''pendingDelaySevereMax'')
   @ check_option (ko_CacheWriteTimeout k < 0) (Invalid ''cacheWriteTimeout'')
   @ check_option (ko_EnableSSL k \<and> ko_SSLCertFile k \<noteq> [] \<and> missing (ko_SSLCertFile k)) (Invalid ''sslCertFile'')
   @ check_option (ko_DesiredPartitions k < 1) (Invalid ''partitions'')"

definition KafkaOptions_Validate :: "(string \<Rightarrow> bool) \<Rightarrow> KafkaOptions \<Rightarrow> option_error list" where
  "KafkaOptions_Validate missing k = validate_topics k @ validate_producer k @ validate_pending missing k"

definition KafkaOptions_IsValid :: "(string \<Rightarrow> bool) \<Rightarrow> KafkaOptions \<Rightarrow> bool" where
  "KafkaOptions_IsValid missing k \<longleftrightarrow> KafkaOptions_Validate missing k = []"

end
