(* ===== verification/UserRecord.thy ===== *)
theory UserRecord
  imports CacheKeys GoBase
begin

text \<open>
  The user of the service: its data (nexuscore/api/apiserver/v1/user.go and the object metadata), the
  field-wise patch of an update message (user_update.go), the row buffer through which it is read
  from the table (internal/pkg/dbscan/user.go) and the comparison that decides whether a cached copy is
  still good, and the payload stored in the cache (internal/pkg/usercache/payload.go). Values of JSON are a datatype; parsing and printing them are arguments. A Go map is an
  association list and \<open>None\<close> stands for a nil map; unsigned 64-bit numbers are words.
\<close>

section \<open>Data\<close>

datatype json = JNull | JBool bool | JNumber string | JString string | JArray "json list"
  | JObject "(string \<times> json) list"

type_synonym Extend = "(string \<times> json) list"

record ObjectMeta =
  om_ID :: "64 word"
  om_InstanceID :: string
  om_Name :: string
  om_Extend :: "Extend option"
  om_ExtendShadow :: string
  om_CreatedAt :: instant
  om_UpdatedAt :: instant
  om_Version :: "64 word"

record ExtendPatchSpec =
  xp_Merge :: Extend
  xp_Replace :: Extend
  xp_Remove :: "string list"

record UserPatchSpec =
  up_Status :: "int option"
  up_Nickname :: "string option"
  up_Email :: "string option"
  up_Phone :: "string option"
  up_IsAdmin :: "int option"
  up_LoginedAt :: "instant option"
  up_Password :: "string option"
  up_Extend :: "ExtendPatchSpec option"
  up_Metadata :: "ExtendPatchSpec option option"

record User = ObjectMeta +
  us_Status :: int
  us_Nickname :: string
  us_Password :: string
  us_Email :: string
  us_Phone :: string
  us_IsAdmin :: int
  us_TotalPolicy :: int
  us_Role :: string
  us_LoginedAt :: instant
  us_Command :: string
  us_ExpectedVersion :: "64 word option"
  us_Patch :: "UserPatchSpec option"

definition UserUpdateCommandFull :: string where "UserUpdateCommandFull = ''full''"
definition UserUpdateCommandPatch :: string where "UserUpdateCommandPatch = ''patch''"
definition UserUpdateCommandBatch :: string where "UserUpdateCommandBatch = ''batch''"

definition zero_user :: User where
  "zero_user = \<lparr>om_ID = 0, om_InstanceID = [], om_Name = [], om_Extend = None, om_ExtendShadow = [],
     om_CreatedAt = zero_time, om_UpdatedAt = zero_time, om_Version = 0,
     us_Status = 0, us_Nickname = [], us_Password = [], us_Email = [], us_Phone = [], us_IsAdmin = 0,
     us_TotalPolicy = 0, us_Role = [], us_LoginedAt = zero_time, us_Command = [], us_ExpectedVersion = None, us_Patch = None\<rparr>"

section \<open>The extension fields\<close>

text \<open>Printing and parsing of the extension map; a parsed \<open>null\<close> is a nil map.\<close>

record extend_codec =
  ec_marshal :: "Extend \<Rightarrow> string + string"
  ec_unmarshal :: "string \<Rightarrow> string + Extend option"

definition ensureExtendMap :: "extend_codec \<Rightarrow> 'a ObjectMeta_scheme \<Rightarrow> Extend" where
  "ensureExtendMap X meta =
    (case om_Extend meta of
       Some e \<Rightarrow> e
     | None \<Rightarrow> (let shadow = TrimSpace (om_ExtendShadow meta)
               in if shadow = [] then []
                  else case ec_unmarshal X shadow of Inr (Some e) \<Rightarrow> e | _ \<Rightarrow> []))"

text \<open>Nested objects are merged, any other value replaces the one before.\<close>

function mergeExtendMaps :: "Extend \<Rightarrow> Extend \<Rightarrow> Extend" where
  "mergeExtendMaps dest [] = dest"
| "mergeExtendMaps dest ((k, v) # src) =
    mergeExtendMaps (AList.update k (case v of
        JObject incoming \<Rightarrow> (case map_of dest k of
             Some (JObject existing) \<Rightarrow> JObject (mergeExtendMaps existing incoming)
           | _ \<Rightarrow> v)
      | _ \<Rightarrow> v) dest) src"
  by pat_completeness auto
termination
  by (relation "measure (\<lambda>(_, s). size_list (size_prod (\<lambda>_. 0) size) s)") auto

definition applyExtendPatch :: "extend_codec \<Rightarrow> ExtendPatchSpec \<Rightarrow> 'a ObjectMeta_scheme \<Rightarrow> 'a ObjectMeta_scheme" where
  "applyExtendPatch X p meta =
    (let e0 = ensureExtendMap X meta;
         e1 = fold AList.delete (xp_Remove p) e0;
         e2 = fold (\<lambda>(k, v). AList.update k v) (xp_Replace p) e1
     in meta\<lparr>om_Extend := Some (mergeExtendMaps e2 (xp_Merge p))\<rparr>)"

definition EnsureExtendShadow :: "extend_codec \<Rightarrow> 'a ObjectMeta_scheme \<Rightarrow> string + 'a ObjectMeta_scheme" where
  "EnsureExtendShadow X meta =
    (let e = ensureExtendMap X meta
     in case ec_marshal X e of
          Inl err \<Rightarrow> Inl err
        | Inr raw \<Rightarrow> Inr (meta\<lparr>om_Extend := Some e, om_ExtendShadow := raw\<rparr>))"

section \<open>Patches\<close>

definition patched :: "'a option \<Rightarrow> 'a \<Rightarrow> 'a" where
  "patched p x = (case p of None \<Rightarrow> x | Some y \<Rightarrow> y)"

text \<open>No step of the patch can fail; an instant is the same in every time zone.\<close>

definition patch_Apply :: "extend_codec \<Rightarrow> UserPatchSpec option \<Rightarrow> User \<Rightarrow> User" where
  "patch_Apply X spec target =
    (case spec of
       None \<Rightarrow> target
     | Some p \<Rightarrow>
         (let t1 = target\<lparr>us_Status := patched (up_Status p) (us_Status target),
                us_Nickname := patched (map_option TrimSpace (up_Nickname p)) (us_Nickname target),
                us_Email := patched (map_option TrimSpace (up_Email p)) (us_Email target),
                us_Phone := patched (map_option TrimSpace (up_Phone p)) (us_Phone target),
                us_IsAdmin := patched (up_IsAdmin p) (us_IsAdmin target),
                us_Password := patched (up_Password p) (us_Password target),
                us_LoginedAt := patched (up_LoginedAt p) (us_LoginedAt target)\<rparr>;
              t2 = (case up_Extend p of None \<Rightarrow> t1 | Some x \<Rightarrow> applyExtendPatch X x t1)
          in case up_Metadata p of Some (Some x) \<Rightarrow> applyExtendPatch X x t2 | _ \<Rightarrow> t2))"

section \<open>Rows\<close>

datatype userScanMode = scanModeFull | scanModeAuth | scanModeLite

text \<open>\<open>None\<close> in a column of text stands for NULL, in the login time for an invalid time.\<close>

record userRowBuffer =
  rb_id :: "64 word"
  rb_instanceID :: "string option"
  rb_name :: "string option"
  rb_nickname :: "string option"
  rb_password :: "string option"
  rb_email :: "string option"
  rb_phone :: "string option"
  rb_status :: int
  rb_isAdmin :: int
  rb_extend :: "string option"
  rb_createdAt :: instant
  rb_updatedAt :: instant
  rb_loginedAt :: "instant option"
  rb_version :: "64 word"

definition rawToString :: "string option \<Rightarrow> string" where
  "rawToString v = (case v of None \<Rightarrow> [] | Some s \<Rightarrow> s)"

definition materializeUser :: "extend_codec \<Rightarrow> userRowBuffer \<Rightarrow> userScanMode \<Rightarrow> User" where
  "materializeUser X buf mode =
    (let shadow = rawToString (rb_extend buf);
         u = zero_user\<lparr>om_ID := rb_id buf, om_InstanceID := rawToString (rb_instanceID buf),
           om_Name := rawToString (rb_name buf), om_CreatedAt := rb_createdAt buf, om_UpdatedAt := rb_updatedAt buf,
           om_Version := rb_version buf, us_Status := rb_status buf, us_IsAdmin := rb_isAdmin buf,
           us_Nickname := rawToString (rb_nickname buf), us_Email := rawToString (rb_email buf),
           us_Phone := rawToString (rb_phone buf),
           us_LoginedAt := (case rb_loginedAt buf of Some t \<Rightarrow> t | None \<Rightarrow> zero_time),
           us_Password := if mode \<noteq> scanModeLite then rawToString (rb_password buf) else []\<rparr>
     in if mode = scanModeFull
        then u\<lparr>om_ExtendShadow := shadow,
               om_Extend := (if TrimSpace shadow = [] then None
                 else case ec_unmarshal X (TrimSpace shadow) of Inr e \<Rightarrow> e | Inl err \<Rightarrow> None)\<rparr>
        else u)"

text \<open>The columns a scan reads, in order: a query names the same ones.\<close>

definition scan_columns :: "userScanMode \<Rightarrow> string list" where
  "scan_columns mode =
    [''id'', ''instanceID'', ''name'', ''nickname'']
    @ (if mode = scanModeLite then [] else [''password''])
    @ [''email'', ''phone'', ''status'', ''isAdmin'']
    @ (if mode = scanModeFull then [''extendShadow''] else [])
    @ [''createdAt'', ''updatedAt'', ''loginedAt'', ''version'']"

section \<open>Cached copies\<close>

definition cacheEquivalent :: "User \<Rightarrow> User \<Rightarrow> bool" where
  "cacheEquivalent a b \<longleftrightarrow>
     om_ID a = om_ID b \<and> om_InstanceID a = om_InstanceID b \<and> om_Name a = om_Name b
   \<and> om_CreatedAt a = om_CreatedAt b \<and> om_UpdatedAt a = om_UpdatedAt b
   \<and> us_Nickname a = us_Nickname b \<and> us_Password a = us_Password b
   \<and> us_Status a = us_Status b \<and> us_IsAdmin a = us_IsAdmin b
   \<and> NormalizeEmail (us_Email a) = NormalizeEmail (us_Email b)
   \<and> NormalizePhone (us_Phone a) = NormalizePhone (us_Phone b)
   \<and> TrimSpace (om_ExtendShadow a) = TrimSpace (om_ExtendShadow b)"

lemma cacheEquivalent_refl [simp]: "cacheEquivalent u u"
  by (simp add: cacheEquivalent_def)

lemma cacheEquivalent_sym: "cacheEquivalent a b \<Longrightarrow> cacheEquivalent b a"
  by (simp add: cacheEquivalent_def)

text \<open>A copy that differs only in the login time or the version counts as equivalent.\<close>

lemma cacheEquivalent_ignores:
  "cacheEquivalent (u\<lparr>us_LoginedAt := t, om_Version := v\<rparr>) u"
  by (simp add: cacheEquivalent_def)

section \<open>Payloads\<close>

record Payload =
  py_ID :: "64 word"
  py_InstanceID :: string
  py_Name :: string
  py_Status :: int
  py_Nickname :: string
  py_Email :: string
  py_Phone :: string
  py_IsAdmin :: int
  py_Password :: string
  py_TotalPolicy :: int
  py_Role :: string
  py_LoginedAt :: instant
  py_CreatedAt :: instant
  py_UpdatedAt :: instant
  py_Version :: "64 word"
  py_ExtendShadow :: string

definition FromUser :: "User \<Rightarrow> Payload" where
  "FromUser u = \<lparr>py_ID = om_ID u, py_InstanceID = om_InstanceID u, py_Name = om_Name u, py_Status = us_Status u,
     py_Nickname = us_Nickname u, py_Email = us_Email u, py_Phone = us_Phone u, py_IsAdmin = us_IsAdmin u,
     py_Password = us_Password u, py_TotalPolicy = us_TotalPolicy u, py_Role = us_Role u,
     py_LoginedAt = us_LoginedAt u, py_CreatedAt = om_CreatedAt u, py_UpdatedAt = om_UpdatedAt u,
     py_Version = om_Version u, py_ExtendShadow = om_ExtendShadow u\<rparr>"

definition ToUser :: "Payload \<Rightarrow> User option" where
  "ToUser p =
    (if py_Name p = [] then None
     else Some (zero_user\<lparr>om_ID := py_ID p, om_InstanceID := py_InstanceID p, om_Name := py_Name p,
       om_CreatedAt := py_CreatedAt p, om_UpdatedAt := py_UpdatedAt p, om_Version := py_Version p,
       om_ExtendShadow := py_ExtendShadow p, us_Status := py_Status p, us_Nickname := py_Nickname p,
       us_Email := py_Email p, us_Phone := py_Phone p, us_IsAdmin := py_IsAdmin p, us_Password := py_Password p,
       us_TotalPolicy := py_TotalPolicy p, us_Role := py_Role p, us_LoginedAt := py_LoginedAt p\<rparr>))"

record payload_codec =
  pc_marshal :: "Payload \<Rightarrow> string + string"
  pc_unmarshal :: "string \<Rightarrow> string + Payload"

definition payload_Marshal :: "payload_codec \<Rightarrow> User \<Rightarrow> string + string" where
  "payload_Marshal C u = pc_marshal C (FromUser u)"

definition payload_Unmarshal :: "payload_codec \<Rightarrow> string \<Rightarrow> string + User option" where
  "payload_Unmarshal C s = (case pc_unmarshal C s of Inl e \<Rightarrow> Inl e | Inr p \<Rightarrow> Inr (ToUser p))"

definition payload_codec_ok :: "payload_codec \<Rightarrow> bool" where
  "payload_codec_ok C \<longleftrightarrow> (\<forall>p s. pc_marshal C p = Inr s \<longrightarrow> pc_unmarshal C s = Inr p)"

lemma ToUser_FromUser:
  "om_Name u \<noteq> [] \<Longrightarrow> ToUser (FromUser u) = Some (u\<lparr>om_Extend := None, us_Command := [], us_ExpectedVersion := None, us_Patch := None\<rparr>)"
  by (simp add: ToUser_def FromUser_def zero_user_def)

text \<open>Without the extension column the extension map of the user is rebuilt as an empty one.\<close>

lemma materialize_auth_extend:
  "om_Extend (materializeUser X buf scanModeAuth) = None"
  "om_ExtendShadow (materializeUser X buf scanModeAuth) = []"
  by (simp_all add: materializeUser_def Let_def zero_user_def)

lemma TrimSpace_Nil_map [simp]: "ensureExtendMap X m = []" if "om_Extend m = None" "om_ExtendShadow m = []"
  using that by (simp add: ensureExtendMap_def Let_def)

end
