(* ===== verification/CreatePipelines.thy ===== *)
theory CreatePipelines
  imports GoStrings GoBase
begin

text \<open>
  The three generic pipelines of the creation path (internal/common: producer/create, consumer/create
  and service/create, each pipeline.go). A pipeline is a record of optional hooks; \<open>None\<close> stands for a
  nil hook. Hooks act on a state of any type, which holds whatever the hooks of a client change: the
  context, the entity behind a pointer, the stores and queues. A deferred function runs when the
  pipeline returns, the last deferred one first.
\<close>

section \<open>Hooks\<close>

type_synonym ('s, 'e) hook = "'s \<Rightarrow> 'e option \<times> 's"

definition run_hook :: "('s, 'e) hook option \<Rightarrow> 's \<Rightarrow> 'e option \<times> 's" where
  "run_hook h s = (case h of None \<Rightarrow> (None, s) | Some f \<Rightarrow> f s)"

text \<open>Going on only without an error.\<close>

definition and_then :: "'e option \<times> 's \<Rightarrow> ('s, 'e) hook \<Rightarrow> 'e option \<times> 's" where
  "and_then r k = (case r of (Some e, s) \<Rightarrow> (Some e, s) | (None, s) \<Rightarrow> k s)"

definition effect :: "('s \<Rightarrow> 's) option \<Rightarrow> 's \<Rightarrow> 's" where
  "effect f s = (case f of None \<Rightarrow> s | Some g \<Rightarrow> g s)"

lemma run_hook_simps [simp]: "run_hook None s = (None, s)" "run_hook (Some f) s = f s"
  by (simp_all add: run_hook_def)

lemma and_then_simps [simp]: "and_then (Some e, s) k = (Some e, s)" "and_then (None, s) k = k s"
  by (simp_all add: and_then_def)

lemma effect_simps [simp]: "effect None s = s" "effect (Some g) s = g s"
  by (simp_all add: effect_def)

text \<open>The error a wrapping function answers may again be no error.\<close>

definition wrap_error :: "('e \<Rightarrow> 'e option) option \<Rightarrow> 'e option \<Rightarrow> 'e option" where
  "wrap_error w e = (case (e, w) of (Some x, Some f) \<Rightarrow> f x | _ \<Rightarrow> e)"

section \<open>Producing\<close>

record ('u, 'm, 's, 'e) ProducerConfig =
  pc_Operation :: string
  pc_Topic :: string
  pc_TopicFunc :: "('u \<Rightarrow> string) option"
  pc_Begin :: "('u \<Rightarrow> string \<Rightarrow> string \<Rightarrow> 's \<Rightarrow> ('e option \<Rightarrow> 's \<Rightarrow> 's) option \<times> 's) option"
  pc_Wait :: "('s, 'e) hook option"
  pc_Marshal :: "('u \<Rightarrow> 'e + string) option"
  pc_Build :: "'u \<Rightarrow> string \<Rightarrow> string \<Rightarrow> 's \<Rightarrow> ('e + 'm) \<times> 's"
  pc_Attach :: "('m \<Rightarrow> 's \<Rightarrow> ('e + 'm) \<times> 's) option"
  pc_Description :: "('u \<Rightarrow> string) option"
  pc_Enqueue :: "('m \<Rightarrow> string \<Rightarrow> ('s, 'e) hook) option"
  pc_WrapError :: "('e \<Rightarrow> 'e option) option"
  pc_Metrics :: "('u \<Rightarrow> 'm \<Rightarrow> string \<Rightarrow> 'e option \<Rightarrow> 's \<Rightarrow> 's) option"

definition producer_resolveTopic :: "('u, 'm, 's, 'e) ProducerConfig \<Rightarrow> 'u \<Rightarrow> string" where
  "producer_resolveTopic P u =
    (case pc_TopicFunc P of
       Some f \<Rightarrow> if f u \<noteq> [] then f u else pc_Topic P
     | None \<Rightarrow> pc_Topic P)"

text \<open>The steps between the opening hook and its end.\<close>

definition producer_steps :: "('u, 'm, 's, 'e) ProducerConfig \<Rightarrow> ('u \<Rightarrow> 'e + string) \<Rightarrow> ('m \<Rightarrow> string \<Rightarrow> ('s, 'e) hook)
    \<Rightarrow> 'u \<Rightarrow> ('s, 'e) hook" where
  "producer_steps P marshal enqueue u s =
    (case run_hook (pc_Wait P) s of
       (Some e, s1) \<Rightarrow> (wrap_error (pc_WrapError P) (Some e), s1)
     | (None, s1) \<Rightarrow>
         (case marshal u of
            Inl e \<Rightarrow> (wrap_error (pc_WrapError P) (Some e), s1)
          | Inr payload \<Rightarrow>
              (case pc_Build P u payload (producer_resolveTopic P u) s1 of
                 (Inl e, s2) \<Rightarrow> (wrap_error (pc_WrapError P) (Some e), s2)
               | (Inr m, s2) \<Rightarrow>
                   (case (case pc_Attach P of None \<Rightarrow> (Inr m, s2) | Some f \<Rightarrow> f m s2) of
                      (Inl e, s3) \<Rightarrow> (wrap_error (pc_WrapError P) (Some e), s3)
                    | (Inr m1, s3) \<Rightarrow>
                        (case enqueue m1 (case pc_Description P of Some f \<Rightarrow> f u | None \<Rightarrow> []) s3 of
                           (r, s4) \<Rightarrow>
                             (let e = wrap_error (pc_WrapError P) r
                              in (e, effect (map_option (\<lambda>f. f u m1 (pc_Operation P) e) (pc_Metrics P)) s4)))))))"

definition producer_Execute :: "('u, 'm, 's, 'e) ProducerConfig option \<Rightarrow> 'u \<Rightarrow> ('s, 'e) hook" where
  "producer_Execute p u s =
    (case p of
       None \<Rightarrow> (None, s)
     | Some P \<Rightarrow>
         (case (pc_Marshal P, pc_Enqueue P) of
            (Some marshal, Some enqueue) \<Rightarrow>
              (case pc_Begin P of
                 None \<Rightarrow> producer_steps P marshal enqueue u s
               | Some begin_hook \<Rightarrow>
                   (case begin_hook u (pc_Operation P) (producer_resolveTopic P u) s of
                      (end_hook, s1) \<Rightarrow>
                        (case producer_steps P marshal enqueue u s1 of
                           (r, s2) \<Rightarrow> (r, effect (map_option (\<lambda>f. f r) end_hook) s2))))
          | _ \<Rightarrow> (None, s)))"

section \<open>Consuming\<close>

record ('u, 'e) MessageOutcome =
  mo_Success :: bool
  mo_Created :: bool
  mo_Err :: "'e option"
  mo_Entity :: "'u option"

definition no_outcome :: "('u, 'e) MessageOutcome" where
  "no_outcome = \<lparr>mo_Success = False, mo_Created = False, mo_Err = None, mo_Entity = None\<rparr>"

record ('u, 'm, 's, 'e) ConsumerConfig =
  cc_Decode :: "('m \<Rightarrow> 's \<Rightarrow> ('e + 'u) \<times> 's) option"
  cc_OnDecodeError :: "('m \<Rightarrow> 'e \<Rightarrow> 's \<Rightarrow> 's) option"
  cc_Validate :: "('m \<Rightarrow> 'u \<Rightarrow> ('s, 'e) hook) option"
  cc_OnValidationError :: "('m \<Rightarrow> 'u \<Rightarrow> 'e \<Rightarrow> 's \<Rightarrow> 's) option"
  cc_Normalize :: "('u \<Rightarrow> 's \<Rightarrow> 's) option"
  cc_Prepare :: "('u \<Rightarrow> ('s, 'e) hook) option"
  cc_BeforePersist :: "('m \<Rightarrow> 'u \<Rightarrow> ('s, 'e) hook) option"
  cc_Persist :: "('m \<Rightarrow> 'u \<Rightarrow> 's \<Rightarrow> ('e + bool) \<times> 's) option"
  cc_OnPersistError :: "('m \<Rightarrow> 'u \<Rightarrow> 'e \<Rightarrow> 's \<Rightarrow> 's) option"
  cc_AfterSuccess :: "('m \<Rightarrow> 'u \<Rightarrow> bool \<Rightarrow> ('s, 'e) hook) option"

text \<open>Everything before the write.\<close>

definition consumer_before :: "('u, 'm, 's, 'e) ConsumerConfig \<Rightarrow> 'm \<Rightarrow> 'u \<Rightarrow> ('s, 'e) hook" where
  "consumer_before C msg u s =
    (case run_hook (map_option (\<lambda>f. f msg u) (cc_Validate C)) s of
       (Some e, s1) \<Rightarrow> (Some e, effect (map_option (\<lambda>f. f msg u e) (cc_OnValidationError C)) s1)
     | (None, s1) \<Rightarrow>
         and_then (run_hook (map_option (\<lambda>f. f u) (cc_Prepare C)) (effect (map_option (\<lambda>f. f u) (cc_Normalize C)) s1))
           (run_hook (map_option (\<lambda>f. f msg u) (cc_BeforePersist C))))"

definition consumer_Process :: "('u, 'm, 's, 'e) ConsumerConfig option \<Rightarrow> 'm \<Rightarrow> 's \<Rightarrow> ('u, 'e) MessageOutcome \<times> 's" where
  "consumer_Process p msg s =
    (case p of
       None \<Rightarrow> (no_outcome, s)
     | Some C \<Rightarrow>
         (case (cc_Decode C, cc_Persist C) of
            (Some decode, Some persist) \<Rightarrow>
              (case decode msg s of
                 (Inl e, s1) \<Rightarrow> (no_outcome\<lparr>mo_Err := Some e\<rparr>, effect (map_option (\<lambda>f. f msg e) (cc_OnDecodeError C)) s1)
               | (Inr u, s1) \<Rightarrow>
                   (let o1 = no_outcome\<lparr>mo_Entity := Some u\<rparr>
                    in case consumer_before C msg u s1 of
                         (Some e, s2) \<Rightarrow> (o1\<lparr>mo_Err := Some e\<rparr>, s2)
                       | (None, s2) \<Rightarrow>
                           (case persist msg u s2 of
                              (Inl e, s3) \<Rightarrow> (o1\<lparr>mo_Err := Some e\<rparr>, effect (map_option (\<lambda>f. f msg u e) (cc_OnPersistError C)) s3)
                            | (Inr created, s3) \<Rightarrow>
                                (case run_hook (map_option (\<lambda>f. f msg u created) (cc_AfterSuccess C)) s3 of
                                   (Some e, s4) \<Rightarrow> (o1\<lparr>mo_Err := Some e\<rparr>, s4)
                                 | (None, s4) \<Rightarrow> (o1\<lparr>mo_Success := True, mo_Created := created\<rparr>, s4)))))
          | _ \<Rightarrow> (no_outcome, s)))"

section \<open>Serving\<close>

record 'u PreflightResult =
  pf_Conflicts :: "(string \<times> 'u) list"
  pf_UsernameChecked :: bool

record PendingResult =
  pn_Created :: bool
  pn_Refreshed :: bool
  pn_TTL :: duration
  pn_OwnerID :: string
  pn_Backend :: string

record ('u, 's, 'e) ServiceConfig =
  sv_Begin :: "('u \<Rightarrow> 's \<Rightarrow> ('e option \<Rightarrow> 's \<Rightarrow> 's) option \<times> 's) option"
  sv_Normalize :: "('u \<Rightarrow> 's \<Rightarrow> 's) option"
  sv_BeforeUnique :: "('u \<Rightarrow> ('s, 'e) hook) option"
  sv_EnsureUnique :: "('u \<Rightarrow> 's \<Rightarrow> ('e + 'u PreflightResult) \<times> 's) option"
  sv_ResolveExistence :: "('u \<Rightarrow> 'u PreflightResult \<Rightarrow> 's \<Rightarrow> ('e + 'u option) \<times> 's) option"
  sv_HandleExisting :: "('u \<Rightarrow> 'u option \<Rightarrow> ('s, 'e) hook) option"
  sv_MarkPending :: "('u \<Rightarrow> 's \<Rightarrow> ('e + PendingResult) \<times> 's) option"
  sv_AfterPending :: "('u \<Rightarrow> PendingResult \<Rightarrow> 's \<Rightarrow> 's) option"
  sv_SendCreateMessage :: "('u \<Rightarrow> ('s, 'e) hook) option"
  sv_AfterSuccess :: "('u \<Rightarrow> ('s, 'e) hook) option"
  sv_OnError :: "('u \<Rightarrow> 'e \<Rightarrow> 's \<Rightarrow> 's) option"

definition service_unique ::
  "('u, 's, 'e) ServiceConfig \<Rightarrow> ('u \<Rightarrow> 's \<Rightarrow> ('e + 'u PreflightResult) \<times> 's) \<Rightarrow> 'u \<Rightarrow> ('s, 'e) hook" where
  "service_unique V ensure u s =
    (case ensure u s of
       (Inl e, s1) \<Rightarrow> (Some e, s1)
     | (Inr preflight, s1) \<Rightarrow>
         (case (case sv_ResolveExistence V of None \<Rightarrow> (Inr None, s1) | Some f \<Rightarrow> f u preflight s1) of
            (Inl e, s2) \<Rightarrow> (Some e, s2)
          | (Inr existing, s2) \<Rightarrow> run_hook (map_option (\<lambda>f. f u existing) (sv_HandleExisting V)) s2))"

definition service_pending :: "('u, 's, 'e) ServiceConfig \<Rightarrow> 'u \<Rightarrow> ('s, 'e) hook" where
  "service_pending V u s =
    (case sv_MarkPending V of
       None \<Rightarrow> (None, s)
     | Some f \<Rightarrow>
         (case f u s of
            (Inl e, s1) \<Rightarrow> (Some e, s1)
          | (Inr pending, s1) \<Rightarrow> (None, effect (map_option (\<lambda>g. g u pending) (sv_AfterPending V)) s1)))"

definition service_steps ::
  "('u, 's, 'e) ServiceConfig \<Rightarrow> ('u \<Rightarrow> 's \<Rightarrow> ('e + 'u PreflightResult) \<times> 's) \<Rightarrow> ('u \<Rightarrow> ('s, 'e) hook) \<Rightarrow> 'u \<Rightarrow> ('s, 'e) hook" where
  "service_steps V ensure transmit u s =
    and_then (run_hook (map_option (\<lambda>f. f u) (sv_BeforeUnique V)) (effect (map_option (\<lambda>f. f u) (sv_Normalize V)) s))
      (\<lambda>s1. and_then (service_unique V ensure u s1)
        (\<lambda>s2. and_then (service_pending V u s2)
          (\<lambda>s3. and_then (transmit u s3) (run_hook (map_option (\<lambda>f. f u) (sv_AfterSuccess V))))))"

text \<open>The hook for errors runs before the end of the opening hook.\<close>

definition service_Execute :: "('u, 's, 'e) ServiceConfig option \<Rightarrow> 'u \<Rightarrow> ('s, 'e) hook" where
  "service_Execute p u s =
    (case p of
       None \<Rightarrow> (None, s)
     | Some V \<Rightarrow>
         (case (sv_EnsureUnique V, sv_SendCreateMessage V) of
            (Some ensure, Some transmit) \<Rightarrow>
              (case (case sv_Begin V of None \<Rightarrow> (None, s) | Some f \<Rightarrow> f u s) of
                 (end_hook, s1) \<Rightarrow>
                   (case service_steps V ensure transmit u s1 of
                      (r, s2) \<Rightarrow>
                        (let s3 = (case r of None \<Rightarrow> s2
                                   | Some e \<Rightarrow> effect (map_option (\<lambda>f. f u e) (sv_OnError V)) s2)
                         in (r, effect (map_option (\<lambda>f. f r) end_hook) s3))))
          | _ \<Rightarrow> (None, s)))"

section \<open>Facts\<close>

lemma and_then_ok: "and_then r k = (None, s') \<Longrightarrow> \<exists>s. r = (None, s) \<and> k s = (None, s')"
  by (cases r) (auto simp: and_then_def split: option.splits)

lemma and_then_keeps:
  assumes "snd r = s" and "I s" and "\<And>s. I s \<Longrightarrow> I (snd (k s))"
  shows "I (snd (and_then r k))"
  using assms by (cases r) (auto simp: and_then_def split: option.splits)

text \<open>An outcome is a success or holds an error, except when a required hook is missing.\<close>

lemma consumer_Process_outcome:
  assumes "cc_Decode C = Some d" and "cc_Persist C = Some p"
  shows "mo_Success (fst (consumer_Process (Some C) msg s)) \<longleftrightarrow> mo_Err (fst (consumer_Process (Some C) msg s)) = None"
  by (auto simp: consumer_Process_def no_outcome_def Let_def assms split: sum.splits prod.splits option.splits)

lemma consumer_created_success:
  "mo_Created (fst (consumer_Process p msg s)) \<Longrightarrow> mo_Success (fst (consumer_Process p msg s))"
  by (auto simp: consumer_Process_def no_outcome_def Let_def split: sum.splits prod.splits option.splits)

text \<open>Nothing is sent before the entity is unique and pending.\<close>

lemma service_steps_ok:
  assumes "service_steps V ensure transmit u s = (None, s')"
  obtains s1 s2 s3 s4 where
    "run_hook (map_option (\<lambda>f. f u) (sv_BeforeUnique V)) (effect (map_option (\<lambda>f. f u) (sv_Normalize V)) s) = (None, s1)"
    "service_unique V ensure u s1 = (None, s2)" "service_pending V u s2 = (None, s3)" "transmit u s3 = (None, s4)"
    "run_hook (map_option (\<lambda>f. f u) (sv_AfterSuccess V)) s4 = (None, s')"
  using assms unfolding service_steps_def by (blast dest: and_then_ok)

end
