(* ===== verification/KafkaProducer.thy ===== *)
theory KafkaProducer
  imports KafkaMessages KafkaOptions UserRecord CreatePipelines
begin

text \<open>
  The producer of the service (internal/pkg/server/producer.go). The asynchronous producer behind it,
  the context of a request and the shutdown race in one select, whose winner is chosen by a stream of
  events; what was handed over is a list of messages. The fallback files are lists of lines; every call of
  the file system may fail, chosen by a second stream. JSON is an argument. Traces, logs and
  metrics are left out.
\<close>

section \<open>Messages and errors\<close>

record producerMetadata =
  md_topic :: string
  md_operation :: string
  md_traceID :: string
  md_started :: bool
  md_attempt :: int
  md_extendedWait :: bool
  md_fallback :: bool
  md_parentSpanID :: string

record ProducerMessage =
  pm_Topic :: string
  pm_Key :: "string option"
  pm_Value :: string
  pm_Headers :: headers
  pm_Metadata :: "producerMetadata option"

record kafka_Message =
  km_Key :: string
  km_Value :: string
  km_Headers :: headers
  km_Time :: instant

datatype ctx_error = Canceled | DeadlineExceeded

datatype enqueue_error = ProducerUnavailable | ShuttingDown | CtxErr ctx_error | EnqueueTimeout

datatype send_error =
    EnqueueErr enqueue_error
  | RetryTopicCancelled enqueue_error | RetryTopicFailed enqueue_error
  | DeadLetterCancelled enqueue_error | DeadLetterFailed enqueue_error
  | ErrKafkaFailed enqueue_error bool
  | ErrRateLimitExceeded string
  | ErrEncodingJSON string

definition ctx_ended :: "enqueue_error \<Rightarrow> bool" where
  "ctx_ended e \<longleftrightarrow> (case e of CtxErr _ \<Rightarrow> True | _ \<Rightarrow> False)"

definition markEnqueued :: "producerMetadata \<Rightarrow> producerMetadata" where
  "markEnqueued m =
    (if \<not> md_started m
     then m\<lparr>md_started := True, md_attempt := if md_attempt m = 0 then 1 else md_attempt m,
            md_extendedWait := False, md_fallback := False\<rparr>
     else m\<lparr>md_attempt := wrap64 (md_attempt m + 1), md_extendedWait := True\<rparr>)"

definition attachProducerMetadata :: "string \<Rightarrow> string \<Rightarrow> string \<Rightarrow> ProducerMessage \<Rightarrow> ProducerMessage" where
  "attachProducerMetadata topic operation traceID msg =
    msg\<lparr>pm_Metadata := Some \<lparr>md_topic = if topic = [] then ''unknown'' else topic,
       md_operation = if operation = [] then ''unknown'' else operation, md_traceID = traceID,
       md_started = False, md_attempt = 0, md_extendedWait = False, md_fallback = False, md_parentSpanID = []\<rparr>\<rparr>"

definition on_meta :: "(producerMetadata \<Rightarrow> producerMetadata) \<Rightarrow> ProducerMessage \<Rightarrow> ProducerMessage" where
  "on_meta f msg = msg\<lparr>pm_Metadata := map_option f (pm_Metadata msg)\<rparr>"

text \<open>The context of a request, as far as messages show it.\<close>

record send_ctx =
  sc_trace :: string
  sc_request :: string
  sc_span :: "string option"

fun set_header :: "string \<Rightarrow> string \<Rightarrow> headers \<Rightarrow> headers" where
  "set_header key val [] = [(key, val)]"
| "set_header key val ((k, v) # hs) = (if k = key then (k, val) # hs else (k, v) # set_header key val hs)"

definition setOrUpdate :: "string \<Rightarrow> string \<Rightarrow> headers \<Rightarrow> headers" where
  "setOrUpdate key val hs = (if TrimSpace val = [] then hs else set_header key (TrimSpace val) hs)"

definition trace_ids :: "instant \<Rightarrow> send_ctx \<Rightarrow> string \<times> string" where
  "trace_ids now c =
    (let t0 = TrimSpace (sc_trace c); rid = TrimSpace (sc_request c);
         t1 = (if t0 = ''unknown'' then [] else t0);
         t2 = (if t1 = [] \<and> rid \<noteq> [] \<and> rid \<noteq> ''unknown'' then rid else t1);
         t3 = (if t2 = [] then ''generated-'' @ FormatInt (UnixNano now) else t2)
     in (t3, if rid = [] \<or> rid = ''unknown'' then t3 else rid))"

definition injectTraceHeader :: "instant \<Rightarrow> send_ctx \<Rightarrow> ProducerMessage \<Rightarrow> ProducerMessage" where
  "injectTraceHeader now c msg =
    (case trace_ids now c of
       (traceID, requestID) \<Rightarrow>
         msg\<lparr>pm_Headers := setOrUpdate HeaderRequestID requestID (setOrUpdate HeaderTraceID traceID (pm_Headers msg))\<rparr>)"

section \<open>The producer and its files\<close>

record fallbackMessage =
  fm_Topic :: string
  fm_Key :: string
  fm_Value :: string
  fm_Timestamp :: string
  fm_Attempts :: int
  fm_Headers :: headers

record fallback_codec =
  fc_marshal :: "fallbackMessage \<Rightarrow> string option"
  fc_unmarshal :: "string \<Rightarrow> fallbackMessage option"

record UserProducer =
  up_available :: bool
  up_opts :: KafkaOptions
  up_fallbackDir :: string
  up_text :: clock_text
  up_codec :: fallback_codec

datatype enqueue_event = PickShutdown | PickSend | PickCtx ctx_error | PickTimeout

record queue_io =
  io_select :: "nat \<Rightarrow> enqueue_event"
  io_selects :: nat
  io_waited :: "duration list"
  io_sent :: "ProducerMessage list"
  io_disk :: "nat \<Rightarrow> bool"
  io_disks :: nat
  io_files :: "(string \<times> string list) list"

definition disk_call :: "queue_io \<Rightarrow> bool \<times> queue_io" where
  "disk_call s = (io_disk s (io_disks s), s\<lparr>io_disks := io_disks s + 1\<rparr>)"

definition file_lines :: "queue_io \<Rightarrow> string \<Rightarrow> string list" where
  "file_lines s f = (case map_of (io_files s) f of Some ls \<Rightarrow> ls | None \<Rightarrow> [])"

section \<open>Handing a message over\<close>

definition defaultProducerEnqueueTimeout :: duration where "defaultProducerEnqueueTimeout = 500 * Millisecond"

definition getEnqueueTimeout :: "UserProducer \<Rightarrow> duration" where
  "getEnqueueTimeout P =
    (if 0 < ko_ProducerEnqueueTimeout (up_opts P) then ko_ProducerEnqueueTimeout (up_opts P)
     else defaultProducerEnqueueTimeout)"

definition enqueueWithTimeout :: "UserProducer \<Rightarrow> ProducerMessage \<Rightarrow> duration \<Rightarrow> queue_io \<Rightarrow> enqueue_error option \<times> queue_io" where
  "enqueueWithTimeout P msg wait s =
    (if \<not> up_available P then (Some ProducerUnavailable, s)
     else let timeout = (if wait \<le> 0 then getEnqueueTimeout P else wait);
              s1 = s\<lparr>io_selects := io_selects s + 1\<rparr>
          in case io_select s (io_selects s) of
               PickShutdown \<Rightarrow> (Some ShuttingDown, s1)
             | PickSend \<Rightarrow> (None, s1\<lparr>io_sent := io_sent s @ [msg]\<rparr>)
             | PickCtx e \<Rightarrow> (Some (CtxErr e), s1)
             | PickTimeout \<Rightarrow> (Some EnqueueTimeout, s1\<lparr>io_waited := io_waited s @ [timeout]\<rparr>))"

definition minExtendedEnqueueTimeout :: duration where "minExtendedEnqueueTimeout = 8 * Second"
definition maxExtendedEnqueueTimeout :: duration where "maxExtendedEnqueueTimeout = 30 * Second"

text \<open>The extended wait, 0 when it is not longer than the usual one.\<close>

definition extendedEnqueueTimeout :: "UserProducer \<Rightarrow> duration" where
  "extendedEnqueueTimeout P =
    (let base = getEnqueueTimeout P;
         e1 = wrap64 (3 * base);
         e2 = (if e1 < minExtendedEnqueueTimeout then minExtendedEnqueueTimeout else e1);
         e3 = (if maxExtendedEnqueueTimeout < e2 then maxExtendedEnqueueTimeout else e2)
     in if e3 \<le> base then 0 else e3)"

section \<open>The fallback file\<close>

definition fallback_file :: "UserProducer \<Rightarrow> instant \<Rightarrow> string" where
  "fallback_file P now = up_fallbackDir P @ ''/'' @ ct_day (up_text P) now @ ''.json''"

definition fallback_entry :: "UserProducer \<Rightarrow> instant \<Rightarrow> ProducerMessage \<Rightarrow> fallbackMessage" where
  "fallback_entry P now msg =
    \<lparr>fm_Topic = pm_Topic msg, fm_Key = (case pm_Key msg of Some k \<Rightarrow> k | None \<Rightarrow> []), fm_Value = pm_Value msg,
     fm_Timestamp = ct_format (up_text P) now, fm_Attempts = 0, fm_Headers = pm_Headers msg\<rparr>"

definition append_line :: "string \<Rightarrow> string \<Rightarrow> queue_io \<Rightarrow> queue_io" where
  "append_line f line s = s\<lparr>io_files := AList.update f (file_lines s f @ [line]) (io_files s)\<rparr>"

text \<open>Three calls of the file system: the directory, opening, writing. A failing write leaves the file.\<close>

definition writeToFallbackFile :: "UserProducer \<Rightarrow> instant \<Rightarrow> ProducerMessage \<Rightarrow> queue_io \<Rightarrow> queue_io" where
  "writeToFallbackFile P now msg s =
    (if up_fallbackDir P = [] then s
     else case disk_call s of
            (False, s1) \<Rightarrow> s1
          | (True, s1) \<Rightarrow>
              (case fc_marshal (up_codec P) (fallback_entry P now msg) of
                 None \<Rightarrow> s1
               | Some line \<Rightarrow>
                   (case disk_call s1 of
                      (False, s2) \<Rightarrow> s2
                    | (True, s2) \<Rightarrow>
                        (case disk_call s2 of
                           (False, s3) \<Rightarrow> s3
                         | (True, s3) \<Rightarrow> append_line (fallback_file P now) line s3))))"

section \<open>Sending for a request\<close>

definition tried :: "int \<Rightarrow> producerMetadata \<Rightarrow> producerMetadata" where
  "tried n m = (let m1 = (if md_attempt m < n then m\<lparr>md_attempt := n\<rparr> else m)
                in if 1 < n then m1\<lparr>md_extendedWait := True\<rparr> else m1)"

text \<open>The usual wait, then the extended one; only a timeout leads to the next wait.\<close>

fun enqueue_loop :: "UserProducer \<Rightarrow> int \<Rightarrow> duration list \<Rightarrow> ProducerMessage \<Rightarrow> queue_io
    \<Rightarrow> enqueue_error option \<times> ProducerMessage \<times> queue_io" where
  "enqueue_loop P n [] msg s = (None, msg, s)"
| "enqueue_loop P n (wait # waits) msg s =
    (let msg1 = on_meta (tried n) msg
     in case enqueueWithTimeout P msg1 wait s of
          (None, s1) \<Rightarrow> (None, msg1, s1)
        | (Some e, s1) \<Rightarrow>
            (if e = EnqueueTimeout \<and> waits \<noteq> [] then enqueue_loop P (n + 1) waits (on_meta markEnqueued msg1) s1
             else (Some e, msg1, s1)))"

definition enqueueOrFallback :: "UserProducer \<Rightarrow> instant \<Rightarrow> ProducerMessage \<Rightarrow> queue_io \<Rightarrow> send_error option \<times> queue_io" where
  "enqueueOrFallback P now msg s =
    (let extended = extendedEnqueueTimeout P;
         waits = 0 # (if 0 < extended then [extended] else [])
     in case enqueue_loop P 1 waits msg s of
          (None, msg1, s1) \<Rightarrow> (None, s1)
        | (Some e, msg1, s1) \<Rightarrow>
            (if ctx_ended e then (Some (ErrKafkaFailed e False), s1)
             else (Some (ErrKafkaFailed e True), writeToFallbackFile P now msg1 s1)))"

text \<open>The limiter answers an error when the rate is exceeded; without one nothing is awaited.\<close>

record sender =
  sd_limiter :: "(queue_io \<Rightarrow> string option \<times> queue_io) option"
  sd_user_json :: "User \<Rightarrow> string + string"
  sd_delete_json :: "string \<Rightarrow> string \<Rightarrow> string + string"

definition limiter_wait :: "sender \<Rightarrow> queue_io \<Rightarrow> send_error option \<times> queue_io" where
  "limiter_wait D s =
    (case sd_limiter D of
       None \<Rightarrow> (None, s)
     | Some f \<Rightarrow> (case f s of (None, s1) \<Rightarrow> (None, s1) | (Some e, s1) \<Rightarrow> (Some (ErrRateLimitExceeded e), s1)))"

definition user_key :: "User \<Rightarrow> string" where
  "user_key u = (let k = TrimSpace (om_Name u) in if k = [] then FormatInt (uint (om_ID u)) else k)"

definition add_span :: "send_ctx \<Rightarrow> ProducerMessage \<Rightarrow> ProducerMessage" where
  "add_span c msg =
    (case sc_span c of
       None \<Rightarrow> msg
     | Some sid \<Rightarrow> on_meta (\<lambda>m. m\<lparr>md_parentSpanID := sid\<rparr>)
         (msg\<lparr>pm_Headers := producer_updateOrAddHeader (pm_Headers msg) HeaderParentSpanID sid\<rparr>))"

text \<open>Trace headers and metadata of an outgoing message.\<close>

definition attach_trace :: "instant \<Rightarrow> send_ctx \<Rightarrow> string \<Rightarrow> ProducerMessage \<Rightarrow> ProducerMessage" where
  "attach_trace now c operation msg =
    (let m1 = injectTraceHeader now c msg
     in on_meta markEnqueued (add_span c (attachProducerMetadata (pm_Topic m1) operation (sc_trace c) m1)))"

definition user_message :: "UserProducer \<Rightarrow> instant \<Rightarrow> string \<Rightarrow> User \<Rightarrow> string \<Rightarrow> ProducerMessage" where
  "user_message P now operation u payload =
    \<lparr>pm_Topic = UserOperationTopic, pm_Key = Some (user_key u), pm_Value = payload,
     pm_Headers = buildOperationHeaders (up_text P) operation ChannelPrimary now 0, pm_Metadata = None\<rparr>"

definition sendUserMessage ::
  "UserProducer \<Rightarrow> sender \<Rightarrow> instant \<Rightarrow> send_ctx \<Rightarrow> User \<Rightarrow> string \<Rightarrow> queue_io \<Rightarrow> send_error option \<times> queue_io" where
  "sendUserMessage P D now c u operation s =
    (case limiter_wait D s of
       (Some e, s1) \<Rightarrow> (Some e, s1)
     | (None, s1) \<Rightarrow>
         (case sd_user_json D u of
            Inl e \<Rightarrow> (Some (ErrEncodingJSON e), s1)
          | Inr payload \<Rightarrow> enqueueOrFallback P now (attach_trace now c operation (user_message P now operation u payload)) s1))"

definition SendUpdateMessage :: "UserProducer \<Rightarrow> sender \<Rightarrow> instant \<Rightarrow> send_ctx \<Rightarrow> User \<Rightarrow> queue_io \<Rightarrow> send_error option \<times> queue_io" where
  "SendUpdateMessage P D now c u = sendUserMessage P D now c u OperationUpdate_text"

text \<open>A deletion does not wait for the limiter.\<close>

definition SendDeleteMessage :: "UserProducer \<Rightarrow> sender \<Rightarrow> instant \<Rightarrow> send_ctx \<Rightarrow> string \<Rightarrow> queue_io \<Rightarrow> send_error option \<times> queue_io" where
  "SendDeleteMessage P D now c username s =
    (case sd_delete_json D username (ct_format (up_text P) now) of
       Inl e \<Rightarrow> (Some (ErrEncodingJSON e), s)
     | Inr payload \<Rightarrow>
         enqueueOrFallback P now (attach_trace now c OperationDelete_text
           \<lparr>pm_Topic = UserOperationTopic, pm_Key = Some username, pm_Value = payload,
            pm_Headers = buildOperationHeaders (up_text P) OperationDelete_text ChannelPrimary now 0, pm_Metadata = None\<rparr>) s)"

text \<open>A creation goes through the generic pipeline; an empty key leaves the message without one.\<close>

definition create_config :: "UserProducer \<Rightarrow> sender \<Rightarrow> instant \<Rightarrow> send_ctx \<Rightarrow> (User, ProducerMessage, queue_io, send_error) ProducerConfig" where
  "create_config P D now c = \<lparr>pc_Operation = OperationCreate_text, pc_Topic = UserOperationTopic, pc_TopicFunc = None,
     pc_Begin = None, pc_Wait = Some (limiter_wait D),
     pc_Marshal = Some (\<lambda>u. case sd_user_json D u of Inl e \<Rightarrow> Inl (ErrEncodingJSON e) | Inr p \<Rightarrow> Inr p),
     pc_Build = (\<lambda>u payload topic s. (Inr \<lparr>pm_Topic = topic,
        pm_Key = (if user_key u = [] then None else Some (user_key u)), pm_Value = payload,
        pm_Headers = buildOperationHeaders (up_text P) OperationCreate_text ChannelPrimary now 0, pm_Metadata = None\<rparr>, s)),
     pc_Attach = Some (\<lambda>m s. (Inr (attach_trace now c OperationCreate_text m), s)),
     pc_Description = None, pc_Enqueue = Some (\<lambda>m detail. enqueueOrFallback P now m), pc_WrapError = None, pc_Metrics = None\<rparr>"

definition SendCreateMessage :: "UserProducer \<Rightarrow> sender \<Rightarrow> instant \<Rightarrow> send_ctx \<Rightarrow> User \<Rightarrow> queue_io \<Rightarrow> send_error option \<times> queue_io" where
  "SendCreateMessage P D now c = producer_Execute (Some (create_config P D now c))"

section \<open>Forwarding by a consumer\<close>

text \<open>The first header of that name decides, even when its value is not a number.\<close>

definition header_count :: "headers \<Rightarrow> int" where
  "header_count hs =
    (case first_header (\<lambda>k. EqualFold k HeaderRetryCount) hs of
       Some v \<Rightarrow> (case ParseInt v of Some n \<Rightarrow> n | None \<Rightarrow> 0)
     | None \<Rightarrow> 0)"

definition retry_headers :: "headers \<Rightarrow> string \<Rightarrow> headers" where
  "retry_headers hs errorInfo =
    (let h1 = producer_updateOrAddHeader hs HeaderRetryError errorInfo;
         attempt = wrap64 (header_count h1 + 1);
         h2 = producer_updateOrAddHeader h1 HeaderChannel ChannelRetry
     in producer_updateOrAddHeader h2 HeaderRetryCount (FormatInt attempt))"

definition forward_message :: "string \<Rightarrow> headers \<Rightarrow> string \<Rightarrow> kafka_Message \<Rightarrow> ProducerMessage" where
  "forward_message topic hs traceID msg =
    on_meta markEnqueued (attachProducerMetadata topic (producer_getOperationFromHeaders hs)
      (if traceID = [] then getTraceIDFromHeaders hs else traceID)
      \<lparr>pm_Topic = topic, pm_Key = Some (km_Key msg), pm_Value = km_Value msg, pm_Headers = hs, pm_Metadata = None\<rparr>)"

definition sendToRetryTopic ::
  "UserProducer \<Rightarrow> instant \<Rightarrow> string \<Rightarrow> kafka_Message \<Rightarrow> string \<Rightarrow> queue_io \<Rightarrow> send_error option \<times> queue_io" where
  "sendToRetryTopic P now traceID msg errorInfo s =
    (let m = forward_message UserOperationRetryTopic (retry_headers (km_Headers msg) errorInfo) traceID msg
     in case enqueueWithTimeout P m 0 s of
          (None, s1) \<Rightarrow> (None, s1)
        | (Some e, s1) \<Rightarrow>
            (if ctx_ended e then (Some (RetryTopicCancelled e), s1)
             else (Some (RetryTopicFailed e), writeToFallbackFile P now m s1)))"

definition dead_letter_headers :: "clock_text \<Rightarrow> instant \<Rightarrow> headers \<Rightarrow> string \<Rightarrow> headers" where
  "dead_letter_headers T now hs errorInfo =
    producer_updateOrAddHeader (producer_updateOrAddHeader hs HeaderDeadLetterReason errorInfo)
      HeaderDeadLetterTS (ct_format T now)"

definition SendToDeadLetterTopic ::
  "UserProducer \<Rightarrow> instant \<Rightarrow> string \<Rightarrow> kafka_Message \<Rightarrow> string \<Rightarrow> queue_io \<Rightarrow> send_error option \<times> queue_io" where
  "SendToDeadLetterTopic P now traceID msg errorInfo s =
    (let m = forward_message UserDeadLetterTopic (dead_letter_headers (up_text P) now (km_Headers msg) errorInfo) traceID msg
     in case enqueueWithTimeout P m 0 s of
          (None, s1) \<Rightarrow> (None, s1)
        | (Some e, s1) \<Rightarrow>
            (if ctx_ended e then (Some (DeadLetterCancelled e), s1)
             else (Some (DeadLetterFailed e), writeToFallbackFile P now m s1)))"

section \<open>Results of the asynchronous producer\<close>

text \<open>A message the producer gives up goes to the file, unless the shutdown has ended the goroutine.\<close>

definition handleErrors :: "UserProducer \<Rightarrow> instant \<Rightarrow> ProducerMessage option \<Rightarrow> queue_io \<Rightarrow> queue_io" where
  "handleErrors P now errMsg s =
    (case errMsg of None \<Rightarrow> s | Some m \<Rightarrow> writeToFallbackFile P now (m\<lparr>pm_Metadata := None\<rparr>) s)"

section \<open>Replaying the fallback files\<close>

definition publishFallbackEntry :: "UserProducer \<Rightarrow> fallbackMessage \<Rightarrow> queue_io \<Rightarrow> enqueue_error option \<times> queue_io" where
  "publishFallbackEntry P entry s =
    (let channel = resolveChannelFromTopic (fm_Topic entry);
         h1 = (if channel = [] then fm_Headers entry else producer_updateOrAddHeader (fm_Headers entry) HeaderChannel channel);
         h2 = producer_updateOrAddHeader h1 HeaderRetryCount (FormatInt (fm_Attempts entry));
         m = on_meta markEnqueued (attachProducerMetadata (fm_Topic entry) (producer_getOperationFromHeaders h2) (getTraceIDFromHeaders h2)
               \<lparr>pm_Topic = fm_Topic entry, pm_Key = (if fm_Key entry = [] then None else Some (fm_Key entry)),
                pm_Value = fm_Value entry, pm_Headers = h2, pm_Metadata = None\<rparr>)
     in enqueueWithTimeout P m (5 * Second) s)"

text \<open>Longest line the scanner reads.\<close>

definition MaxScanTokenSize :: nat where "MaxScanTokenSize = 65536"

definition exhausted :: "UserProducer \<Rightarrow> fallbackMessage \<Rightarrow> bool" where
  "exhausted P e \<longleftrightarrow> 0 < ko_FallbackRetryMaxAttempts (up_opts P) \<and> ko_FallbackRetryMaxAttempts (up_opts P) \<le> fm_Attempts e"

text \<open>
  One pass over the lines: how many were published, the lines to keep, and whether the pass reached the
  end. A line that is too long ends it, and so does a failing write of a line that is kept.
\<close>

fun fallback_pass :: "UserProducer \<Rightarrow> int \<Rightarrow> string list \<Rightarrow> int \<times> string list \<Rightarrow> queue_io \<Rightarrow> bool \<times> (int \<times> string list) \<times> queue_io" where
  "fallback_pass P quota [] (n, out) s = (True, (n, out), s)"
| "fallback_pass P quota (line # lines) (n, out) s =
    (if MaxScanTokenSize \<le> length line then (False, (n, out), s)
     else if 0 < quota \<and> quota \<le> n
     then (case disk_call s of
             (True, s1) \<Rightarrow> fallback_pass P quota lines (n, out @ [line]) s1
           | (False, s1) \<Rightarrow> (False, (n, out), s1))
     else case fc_unmarshal (up_codec P) line of
            None \<Rightarrow> fallback_pass P quota lines (n, out) s
          | Some e \<Rightarrow>
              (if exhausted P e then fallback_pass P quota lines (n, out) s
               else case publishFallbackEntry P e s of
                      (None, s1) \<Rightarrow> fallback_pass P quota lines (n + 1, out) s1
                    | (Some err, s1) \<Rightarrow>
                        (case fc_marshal (up_codec P) (e\<lparr>fm_Attempts := wrap64 (fm_Attempts e + 1)\<rparr>) of
                           None \<Rightarrow> fallback_pass P quota lines (n, out) s1
                         | Some line' \<Rightarrow>
                             (case disk_call s1 of
                                (True, s2) \<Rightarrow> fallback_pass P quota lines (n, out @ [line']) s2
                              | (False, s2) \<Rightarrow> (False, (n, out), s2)))))"

text \<open>The lines that are kept replace the file: lines appended since the pass are gone.\<close>

definition fallback_replace :: "string \<Rightarrow> string list \<Rightarrow> queue_io \<Rightarrow> queue_io" where
  "fallback_replace f out s =
    (case disk_call s of
       (True, s1) \<Rightarrow> s1\<lparr>io_files := AList.update f out (io_files s1)\<rparr>
     | (False, s1) \<Rightarrow> s1)"

definition processFallbackFile :: "UserProducer \<Rightarrow> string \<Rightarrow> int \<Rightarrow> queue_io \<Rightarrow> int \<times> queue_io" where
  "processFallbackFile P f quota s =
    (case disk_call s of
       (False, s1) \<Rightarrow> (0, s1)
     | (True, s1) \<Rightarrow>
         (case disk_call s1 of
            (False, s2) \<Rightarrow> (0, s2)
          | (True, s2) \<Rightarrow>
              (case fallback_pass P quota (file_lines s2 f) (0, []) s2 of
                 (False, (n, out), s3) \<Rightarrow> (n, s3)
               | (True, (n, out), s3) \<Rightarrow> (n, fallback_replace f out s3))))"

fun fallback_files :: "UserProducer \<Rightarrow> int \<Rightarrow> string list \<Rightarrow> int \<Rightarrow> queue_io \<Rightarrow> queue_io" where
  "fallback_files P maxBatch [] n s = s"
| "fallback_files P maxBatch (f # fs) n s =
    (if 0 < maxBatch \<and> maxBatch \<le> n then s
     else case processFallbackFile P f (maxBatch - n) s of (k, s1) \<Rightarrow> fallback_files P maxBatch fs (n + k) s1)"

text \<open>The names are sorted as byte strings.\<close>

fun string_le :: "string \<Rightarrow> string \<Rightarrow> bool" where
  "string_le [] t = True"
| "string_le (c # s) [] = False"
| "string_le (c # s) (d # t) =
    ((of_char c :: nat) < of_char d \<or> (c = d \<and> string_le s t))"

fun insert_name :: "string \<Rightarrow> string list \<Rightarrow> string list" where
  "insert_name x [] = [x]"
| "insert_name x (y # ys) = (if string_le x y then x # y # ys else y # insert_name x ys)"

definition processFallbackFiles :: "UserProducer \<Rightarrow> queue_io \<Rightarrow> queue_io" where
  "processFallbackFiles P s =
    (if up_fallbackDir P = [] then s
     else let files = foldr insert_name (filter (\<lambda>f. HasPrefix f (up_fallbackDir P @ ''/'') \<and> HasSuffix f ''.json'') (map fst (io_files s))) []
          in fallback_files P (ko_FallbackRetryBatchSize (up_opts P)) files 0 s)"

end
