(* ===== verification/UserCacheOps.thy ===== *)
theory UserCacheOps
  imports UserRecord KafkaOptions PendingServer
begin

text \<open>
  The cached copies of a user in Redis, as both consumers keep them (internal/pkg/server:
  cache_helpers.go, session_cleanup.go, the cache settings of consumer.go and the cache writing of
  retry_consumer.go), over the commands of a server and the wrappers of the storage client. A
  pipeline sends its commands one after the other: each may fail on its own, and the first error is
  the error of the pipeline. First come the keys of the authentication data (internal/pkg/auth/keys/keys.go): every key of
  a user holds the same hash tag, so that a cluster keeps them on one node.
\<close>

section \<open>Keys of the authentication data\<close>

definition GenericPrefix :: string where "GenericPrefix = ''genericapiserver:''"
definition refreshTokenPrefix :: string where "refreshTokenPrefix = ''auth:refresh_token:''"
definition userSessionsPrefix :: string where "userSessionsPrefix = ''auth:user_sessions:''"
definition loginFailPrefix :: string where "loginFailPrefix = ''auth:login_fail:''"
definition defaultBlacklist :: string where "defaultBlacklist = ''auth:blacklist:''"
definition passwordVersionPrefix :: string where "passwordVersionPrefix = ''auth:user_pwd_version:''"
definition revokedSessionsPrefix :: string where "revokedSessionsPrefix = ''auth:revoked_sessions:''"

definition normalizeUserID :: "string \<Rightarrow> string" where
  "normalizeUserID userID = (let t = TrimSpace userID in if t = [] then ''anonymous'' else t)"

definition UserHashTag :: "string \<Rightarrow> string" where
  "UserHashTag userID = ''{auth:user:'' @ normalizeUserID userID @ ''}''"

definition RefreshTokenPrefix :: "string \<Rightarrow> string" where
  "RefreshTokenPrefix userID = refreshTokenPrefix @ UserHashTag userID @ '':''"

definition RefreshTokenKey :: "string \<Rightarrow> string \<Rightarrow> string" where
  "RefreshTokenKey userID token = RefreshTokenPrefix userID @ token"

definition UserSessionsKey :: "string \<Rightarrow> string" where
  "UserSessionsKey userID = userSessionsPrefix @ UserHashTag userID"

definition PasswordVersionKey :: "string \<Rightarrow> string" where
  "PasswordVersionKey userID = passwordVersionPrefix @ UserHashTag userID"

definition RevokedSessionsKey :: "string \<Rightarrow> string" where
  "RevokedSessionsKey userID = revokedSessionsPrefix @ UserHashTag userID"

definition LoginFailKey :: "string \<Rightarrow> string" where
  "LoginFailKey username = (let t = TrimSpace username in loginFailPrefix @ (if t = [] then ''anonymous'' else t))"

definition blacklistBase :: "string \<Rightarrow> string" where
  "blacklistBase pfx = (let t = TrimSpace pfx; b = (if t = [] then defaultBlacklist else t)
     in if HasSuffix b '':'' then b else b @ '':'')"

definition BlacklistPrefix :: "string \<Rightarrow> string \<Rightarrow> string" where
  "BlacklistPrefix pfx userID = blacklistBase pfx @ UserHashTag userID @ '':''"

definition auth_BlacklistKey :: "string \<Rightarrow> string \<Rightarrow> string \<Rightarrow> string" where
  "auth_BlacklistKey pfx userID jti = BlacklistPrefix pfx userID @ jti"

definition WithGenericPrefix :: "string \<Rightarrow> string" where
  "WithGenericPrefix key = (if HasPrefix key GenericPrefix then key else GenericPrefix @ key)"

lemma WithGenericPrefix_idem [simp]: "WithGenericPrefix (WithGenericPrefix k) = WithGenericPrefix k"
  by (simp add: WithGenericPrefix_def HasPrefix_def)

text \<open>Without leading or trailing blanks the identifier can be read off the tag.\<close>

lemma UserHashTag_inj: "UserHashTag a = UserHashTag b \<longleftrightarrow> normalizeUserID a = normalizeUserID b"
  by (simp add: UserHashTag_def)

lemma blacklistBase_colon: "HasSuffix (blacklistBase pfx) '':''"
  by (auto simp: blacklistBase_def Let_def HasSuffix_def)

section \<open>Pipelines of the storage client\<close>

record KeyValueTTL =
  kv_Key :: string
  kv_Value :: string
  kv_TTL :: duration

type_synonym 'r io = "'r \<Rightarrow> pending_error option \<times> 'r"

fun pipeline :: "('r \<Rightarrow> (pending_error + unit) \<times> 'r) list \<Rightarrow> 'r io" where
  "pipeline [] r = (None, r)"
| "pipeline (c # cs) r =
    (case c r of (x, r1) \<Rightarrow>
       (case pipeline cs r1 of (e, r2) \<Rightarrow> (case x of Inl err \<Rightarrow> Some err | Inr u \<Rightarrow> e, r2)))"

definition BatchSet :: "'r Server \<Rightarrow> string \<Rightarrow> instant \<Rightarrow> KeyValueTTL list \<Rightarrow> 'r io" where
  "BatchSet S pfx now items r =
    (if items = [] then (None, r)
     else if \<not> sv_up S r then (Some RedisDown, r)
     else pipeline (map (\<lambda>i. SetKeyWithCommandTimeout S pfx now (kv_Key i) (kv_Value i) (kv_TTL i))
                     (filter (\<lambda>i. kv_Key i \<noteq> []) items)) r)"

definition cache_BatchDelete :: "'r Server \<Rightarrow> string \<Rightarrow> instant \<Rightarrow> string list \<Rightarrow> 'r io" where
  "cache_BatchDelete S pfx now ks r =
    (if ks = [] then (None, r)
     else if \<not> sv_up S r then (Some RedisDown, r)
     else pipeline (map (\<lambda>k. send S (\<lambda>q. ((), snd (sv_DEL S now (fixKey pfx k) q)))) (filter (\<lambda>k. k \<noteq> []) ks)) r)"

definition err_of :: "(pending_error + 'a) \<times> 'r \<Rightarrow> pending_error option \<times> 'r" where
  "err_of x = (case x of (Inl e, r) \<Rightarrow> (Some e, r) | (Inr y, r) \<Rightarrow> (None, r))"

definition cache_SetKey :: "'r Server \<Rightarrow> string \<Rightarrow> instant \<Rightarrow> string \<Rightarrow> string \<Rightarrow> duration \<Rightarrow> 'r io" where
  "cache_SetKey S pfx now k v ttl r = err_of (SetKeyWithCommandTimeout S pfx now k v ttl r)"

definition DeleteKey :: "'r Server \<Rightarrow> string \<Rightarrow> instant \<Rightarrow> string \<Rightarrow> 'r io" where
  "DeleteKey S pfx now k r = err_of (DeleteKeyWithCommandTimeout S pfx now k r)"

section \<open>Settings of the cache\<close>

text \<open>Whether an error is a timeout or an ended context is an argument.\<close>

definition shouldDegradeCacheWrite :: "(pending_error \<Rightarrow> bool) \<Rightarrow> pending_error option \<Rightarrow> bool" where
  "shouldDegradeCacheWrite timed_out err = (case err of None \<Rightarrow> False | Some e \<Rightarrow> timed_out e \<or> e = RedisDown)"

definition cacheWriteTimeout :: "KafkaOptions option \<Rightarrow> duration" where
  "cacheWriteTimeout opts = (case opts of None \<Rightarrow> 0
     | Some k \<Rightarrow> if ko_CacheWriteTimeout k < 0 then 0 else ko_CacheWriteTimeout k)"

definition cacheWriteDisabled :: "KafkaOptions option \<Rightarrow> bool" where
  "cacheWriteDisabled opts = (case opts of None \<Rightarrow> False | Some k \<Rightarrow> ko_SkipCacheWrite k)"

definition cacheWriteFallbackEnabled :: "KafkaOptions option \<Rightarrow> bool" where
  "cacheWriteFallbackEnabled opts = (case opts of None \<Rightarrow> True | Some k \<Rightarrow> ko_CacheWriteFallback k)"

definition cacheWriteFallbackTimeout :: "KafkaOptions option \<Rightarrow> duration" where
  "cacheWriteFallbackTimeout opts =
    (let base = cacheWriteTimeout opts; half = go_div base 2;
         limit = (if half \<le> 0 then base else half)
     in if base \<le> 0 then 0 else if Second < limit then Second else limit)"

definition writeUserCacheFallback :: "'r Server \<Rightarrow> string \<Rightarrow> instant \<Rightarrow> KeyValueTTL \<Rightarrow> 'r io" where
  "writeUserCacheFallback S pfx now item r =
    (let key = TrimSpace (kv_Key item)
     in if key = [] then (None, r) else cache_SetKey S pfx now key (kv_Value item) (kv_TTL item) r)"

section \<open>Copies by contact\<close>

definition buildContactCacheItems :: "User \<Rightarrow> KeyValueTTL list" where
  "buildContactCacheItems u =
     (if EmailKey (us_Email u) = [] then [] else [\<lparr>kv_Key = EmailKey (us_Email u), kv_Value = om_Name u, kv_TTL = 24 * Hour\<rparr>])
   @ (if PhoneKey (us_Phone u) = [] then [] else [\<lparr>kv_Key = PhoneKey (us_Phone u), kv_Value = om_Name u, kv_TTL = 24 * Hour\<rparr>])"

definition removeCacheKey :: "'r Server \<Rightarrow> string \<Rightarrow> instant \<Rightarrow> string \<Rightarrow> 'r \<Rightarrow> 'r" where
  "removeCacheKey S pfx now k r = (if k = [] then r else snd (DeleteKey S pfx now k r))"

definition contacts_to_evict :: "User \<Rightarrow> User option \<Rightarrow> string list" where
  "contacts_to_evict previous current =
    (let prevEmail = NormalizeEmail (us_Email previous);
         curEmail = (case current of None \<Rightarrow> [] | Some u \<Rightarrow> NormalizeEmail (us_Email u));
         prevPhone = NormalizePhone (us_Phone previous);
         curPhone = (case current of None \<Rightarrow> [] | Some u \<Rightarrow> NormalizePhone (us_Phone u))
     in (if prevEmail \<noteq> [] \<and> prevEmail \<noteq> curEmail then [EmailKey (us_Email previous)] else [])
      @ (if prevPhone \<noteq> [] \<and> prevPhone \<noteq> curPhone then [PhoneKey (us_Phone previous)] else []))"

definition evictContactCaches :: "'r Server \<Rightarrow> string \<Rightarrow> instant \<Rightarrow> User option \<Rightarrow> User option \<Rightarrow> 'r \<Rightarrow> 'r" where
  "evictContactCaches S pfx now previous current r =
    (case previous of
       None \<Rightarrow> r
     | Some p \<Rightarrow>
         (case contacts_to_evict p current of
            [] \<Rightarrow> r
          | [k] \<Rightarrow> removeCacheKey S pfx now k r
          | ks \<Rightarrow> (case cache_BatchDelete S pfx now ks r of
                     (None, r1) \<Rightarrow> r1
                   | (Some e, r1) \<Rightarrow> fold (removeCacheKey S pfx now) ks r1)))"

definition deleteUserCache :: "'r Server \<Rightarrow> string \<Rightarrow> instant \<Rightarrow> string \<Rightarrow> 'r io" where
  "deleteUserCache S pfx now username r =
    (if UserKey username = [] then (None, r) else DeleteKey S pfx now (UserKey username) r)"

section \<open>Writing the copies\<close>

text \<open>The items to write: the copy of the user unless it is unchanged, the contacts when they changed.\<close>

definition user_item :: "payload_codec \<Rightarrow> User \<Rightarrow> User option \<Rightarrow> string + KeyValueTTL list" where
  "user_item C u previous =
    (if (case previous of Some p \<Rightarrow> cacheEquivalent p u | None \<Rightarrow> False) \<or> UserKey (om_Name u) = [] then Inr []
     else case payload_Marshal C u of
            Inl e \<Rightarrow> Inl e
          | Inr body \<Rightarrow> Inr [\<lparr>kv_Key = UserKey (om_Name u), kv_Value = body, kv_TTL = 24 * Hour\<rparr>])"

definition contact_changed :: "User \<Rightarrow> User option \<Rightarrow> bool" where
  "contact_changed u previous =
    (case previous of
       None \<Rightarrow> True
     | Some p \<Rightarrow> NormalizeEmail (us_Email p) \<noteq> NormalizeEmail (us_Email u)
              \<or> NormalizePhone (us_Phone p) \<noteq> NormalizePhone (us_Phone u))"

definition write_items :: "'r Server \<Rightarrow> string \<Rightarrow> instant \<Rightarrow> KeyValueTTL list \<Rightarrow> 'r io" where
  "write_items S pfx now items r =
    (case items of
       [i] \<Rightarrow> cache_SetKey S pfx now (kv_Key i) (kv_Value i) (kv_TTL i) r
     | _ \<Rightarrow> BatchSet S pfx now items r)"

text \<open>Two failures are joined into one error, here the first of them.\<close>

definition retry_setUserCache :: "'r Server \<Rightarrow> string \<Rightarrow> payload_codec \<Rightarrow> (pending_error \<Rightarrow> bool) \<Rightarrow> KafkaOptions option
    \<Rightarrow> instant \<Rightarrow> User \<Rightarrow> User option \<Rightarrow> 'r io" where
  "retry_setUserCache S pfx C timed_out opts now u previous r =
    (case user_item C u previous of
       Inl e \<Rightarrow> (Some (ErrMessage e), r)
     | Inr main \<Rightarrow>
         (let r1 = (if contact_changed u previous \<and> previous \<noteq> None
                    then evictContactCaches S pfx now previous (Some u) r else r);
              items = main @ (if contact_changed u previous then buildContactCacheItems u else [])
          in if cacheWriteDisabled opts \<or> items = [] then (None, r1)
             else case write_items S pfx now items r1 of
                    (None, r2) \<Rightarrow> (None, r2)
                  | (Some e, r2) \<Rightarrow>
                      (if shouldDegradeCacheWrite timed_out (Some e) \<and> cacheWriteFallbackEnabled opts
                       then (case writeUserCacheFallback S pfx now (hd items) r2 of
                               (None, r3) \<Rightarrow> (None, r3)
                             | (Some e2, r3) \<Rightarrow> (Some e, r3))
                       else (Some e, r2))))"

section \<open>Sessions\<close>

text \<open>The members of a set come from a command of their own.\<close>

definition cleanupUserSessionsLua :: "'r Server \<Rightarrow> (instant \<Rightarrow> string \<Rightarrow> 'r \<Rightarrow> string list) \<Rightarrow> instant \<Rightarrow> string \<Rightarrow> string \<Rightarrow> 'r \<Rightarrow> int \<times> 'r" where
  "cleanupUserSessionsLua S smembers now sessionsKey tokenPrefix r =
    (let tokens = smembers now sessionsKey r;
         r1 = fold (\<lambda>t q. snd (sv_DEL S now (tokenPrefix @ t) q)) tokens r
     in (int (length tokens), snd (sv_DEL S now sessionsKey r1)))"

definition cleanupUserSessions :: "'r Server \<Rightarrow> string \<Rightarrow> (instant \<Rightarrow> string \<Rightarrow> 'r \<Rightarrow> string list) \<Rightarrow> instant \<Rightarrow> 64 word \<Rightarrow> 'r io" where
  "cleanupUserSessions S pfx smembers now userID r =
    (if userID = 0 then (None, r)
     else let uid = FormatInt (uint userID)
          in err_of (send S (cleanupUserSessionsLua S smembers now (fixKey pfx (UserSessionsKey uid))
                               (WithGenericPrefix (RefreshTokenPrefix uid))) r))"

section \<open>Facts\<close>

lemma SetKey_ok:
  assumes "value_laws S view" and "sv_up S r" and "sv_trip S r = (Reached, r')" and "view r' = view r"
  shows "fst (cache_SetKey S pfx now k v ttl r) = None"
    "view (snd (cache_SetKey S pfx now k v ttl r)) = (view r)(fixKey pfx k \<mapsto> kv_entry now v ttl)"
  using assms by (simp_all add: cache_SetKey_def err_of_def SetKeyWithCommandTimeout_def send_def value_laws_def)

text \<open>The fallback never waits longer than half of the write, and never longer than a second.\<close>

lemma cacheWriteFallbackTimeout_bounds:
  "0 \<le> cacheWriteFallbackTimeout opts" "cacheWriteFallbackTimeout opts \<le> Second"
  "cacheWriteFallbackTimeout opts \<le> cacheWriteTimeout opts"
  by (auto simp: cacheWriteFallbackTimeout_def cacheWriteTimeout_def Let_def go_div_def Second_def split: option.splits)

end
