(* ===== verification/RetryConsumer.thy ===== *)
theory RetryConsumer
  imports KafkaProducer UserCacheOps PendingRedisLease
begin

text \<open>
  The consumer of the retry topic (internal/pkg/server/retry_consumer.go): the classification of
  errors, the next attempt with its delay and headers, the three handlers, and what they do to the table
  of users, to the cached copies, to the pending lease and to the queues. The table is a record of commands
  over an abstract state; decoding a message is an argument. Sleeping moves the clock to the time that was
  waited for. Metrics, logs and the statistics of the connection pool are left out.
\<close>

section \<open>Texts\<close>

text \<open>The Chinese texts of the source, which become part of an error or a header.\<close>

definition text_query_failed :: string where
  "text_query_failed = bytes [0xE6, 0x9F, 0xA5, 0xE8, 0xAF, 0xA2, 0xE7, 0x94, 0xA8, 0xE6, 0x88, 0xB7, 0xE5, 0xA4, 0xB1, 0xE8, 0xB4,
     0xA5] @ '': ''"

definition text_exists_failed :: string where
  "text_exists_failed = bytes [0xE6, 0xA3, 0x80, 0xE6, 0x9F, 0xA5, 0xE7, 0x94, 0xA8, 0xE6, 0x88, 0xB7, 0xE5, 0xAD, 0x98, 0xE5, 0x9C, 0xA8,
     0xE6, 0x80, 0xA7, 0xE5, 0xA4, 0xB1, 0xE8, 0xB4, 0xA5] @ '': ''"

definition text_error_info :: string where
  "text_error_info = bytes [0xE9, 0x94, 0x99, 0xE8, 0xAF, 0xAF, 0xE4, 0xBF, 0xA1, 0xE6, 0x81, 0xAF] @ '': ''"

definition text_version_conflict :: string where
  "text_version_conflict = bytes [0xE7, 0x94, 0xA8, 0xE6, 0x88, 0xB7, 0xE6, 0x95, 0xB0, 0xE6, 0x8D, 0xAE, 0xE7, 0x89, 0x88, 0xE6, 0x9C, 0xAC,
     0xE5, 0x86, 0xB2, 0xE7, 0xAA, 0x81]"

definition strategy_connection :: string where
  "strategy_connection = bytes [0xE6, 0x8C, 0x87, 0xE6, 0x95, 0xB0, 0xE9, 0x80, 0x80, 0xE9, 0x81, 0xBF] @ ''('' @ bytes [0xE8, 0xBF, 0x9E,
     0xE6, 0x8E, 0xA5, 0xE9, 0x97, 0xAE, 0xE9, 0xA2, 0x98] @ '')''"

definition strategy_deadlock :: string where
  "strategy_deadlock = bytes [0xE5, 0xBF, 0xAB, 0xE9, 0x80, 0x9F, 0xE9, 0x87, 0x8D, 0xE8, 0xAF, 0x95] @ ''('' @ bytes [0xE6, 0xAD, 0xBB,
     0xE9, 0x94, 0x81] @ '')''"

definition strategy_duplicate :: string where
  "strategy_duplicate = bytes [0xE4, 0xB8, 0xAD, 0xE7, 0xAD, 0x89, 0xE5, 0xBB, 0xB6, 0xE8, 0xBF, 0x9F] @ ''('' @ bytes [0xE9, 0x87, 0x8D,
     0xE5, 0xA4, 0x8D, 0xE9, 0x94, 0xAE] @ '')''"

definition strategy_delete :: string where
  "strategy_delete = bytes [0xE5, 0xBF, 0xAB, 0xE9, 0x80, 0x9F, 0xE9, 0x87, 0x8D, 0xE8, 0xAF, 0x95] @ ''(Delete'' @ bytes [0xE7, 0x9B,
     0xAE, 0xE6, 0xA0, 0x87, 0xE5, 0xB0, 0x9A, 0xE6, 0x9C, 0xAA, 0xE5, 0xB0, 0xB1, 0xE7, 0xBB, 0xAA] @ '')''"

definition strategy_linear :: string where
  "strategy_linear = bytes [0xE7, 0xBA, 0xBF, 0xE6, 0x80, 0xA7, 0xE5, 0xA2, 0x9E, 0xE9, 0x95, 0xBF] @ ''('' @ bytes [0xE4, 0xB8, 0xB4,
     0xE6, 0x97, 0xB6, 0xE9, 0x94, 0x99, 0xE8, 0xAF, 0xAF] @ '')''"

definition strategy_default :: string where
  "strategy_default = bytes [0xE6, 0x8C, 0x87, 0xE6, 0x95, 0xB0, 0xE9, 0x80, 0x80, 0xE9, 0x81, 0xBF] @ ''('' @ bytes [0xE9, 0xBB, 0x98,
     0xE8, 0xAE, 0xA4] @ '')''"

section \<open>The table of users\<close>

text \<open>An iteration that fails before the first row ends like one without rows.\<close>

datatype user_query = QueryFailed string | IterationEnded | ScanFailed string | RowRead userRowBuffer

record 'd UserTable =
  ut_core :: "'d \<Rightarrow> string option"
  ut_select :: "string \<Rightarrow> 'd \<Rightarrow> user_query \<times> 'd"
  ut_insert :: "userRowBuffer \<Rightarrow> 'd \<Rightarrow> string option \<times> 'd"
  ut_update :: "userRowBuffer \<Rightarrow> 64 word option \<Rightarrow> 'd \<Rightarrow> (string + (string + nat)) \<times> 'd"
  ut_delete :: "string \<Rightarrow> 'd \<Rightarrow> string option \<times> 'd"

record deleteMessage =
  dm_Username :: string
  dm_DeletedAt :: string

record ('r, 'l, 'd) RetryConsumer =
  rc_pending :: "('r, 'l) PendingEnv"
  rc_producer :: UserProducer
  rc_opts :: KafkaOptions
  rc_table :: "'d UserTable"
  rc_extend :: extend_codec
  rc_payload :: payload_codec
  rc_user :: "string \<Rightarrow> string + User"
  rc_delete :: "string \<Rightarrow> string + deleteMessage"
  rc_timed_out :: "pending_error \<Rightarrow> bool"
  rc_smembers :: "instant \<Rightarrow> string \<Rightarrow> 'r \<Rightarrow> string list"
  rc_rand :: "int \<Rightarrow> int"
  rc_trace :: string
  rc_ctx_end :: "instant option"

record ('r, 'l, 'd) retry_world =
  rw_pending :: "('r, 'l) pending_data"
  rw_db :: 'd
  rw_queue :: queue_io
  rw_clock :: instant

definition rc_maxRetries :: "('r, 'l, 'd) RetryConsumer \<Rightarrow> int" where
  "rc_maxRetries R = ko_MaxRetries (rc_opts R)"

abbreviation rc_text :: "('r, 'l, 'd) RetryConsumer \<Rightarrow> clock_text" where
  "rc_text R \<equiv> up_text (rc_producer R)"

datatype consume_error = ConsumeCtx ctx_error | ConsumeSend send_error

text \<open>Drawing a random number below a bound that is not positive panics.\<close>

datatype retry_result = Finished "consume_error option" | Panicked

definition on_db :: "('d \<Rightarrow> 'a \<times> 'd) \<Rightarrow> ('r, 'l, 'd) retry_world \<Rightarrow> 'a \<times> ('r, 'l, 'd) retry_world" where
  "on_db f w = (case f (rw_db w) of (x, d) \<Rightarrow> (x, w\<lparr>rw_db := d\<rparr>))"

definition on_cache :: "('r \<Rightarrow> 'a \<times> 'r) \<Rightarrow> ('r, 'l, 'd) retry_world \<Rightarrow> 'a \<times> ('r, 'l, 'd) retry_world" where
  "on_cache f w = (case on_redis f (rw_pending w) of (x, p) \<Rightarrow> (x, w\<lparr>rw_pending := p\<rparr>))"

definition on_queue :: "(queue_io \<Rightarrow> send_error option \<times> queue_io) \<Rightarrow> ('r, 'l, 'd) retry_world \<Rightarrow> retry_result \<times> ('r, 'l, 'd) retry_world" where
  "on_queue f w = (case f (rw_queue w) of (e, q) \<Rightarrow> (Finished (map_option ConsumeSend e), w\<lparr>rw_queue := q\<rparr>))"

definition dead_letter :: "('r, 'l, 'd) RetryConsumer \<Rightarrow> kafka_Message \<Rightarrow> string \<Rightarrow> ('r, 'l, 'd) retry_world \<Rightarrow> retry_result \<times> ('r, 'l, 'd) retry_world" where
  "dead_letter R msg reason w = on_queue (SendToDeadLetterTopic (rc_producer R) (rw_clock w) (rc_trace R) msg reason) w"

section \<open>Classes of errors\<close>

definition isDBConnectionError :: "string \<Rightarrow> bool" where
  "isDBConnectionError e = contains_any e [''connection'', ''timeout'', ''network'', ''refused'']"

definition isDBDeadlockError :: "string \<Rightarrow> bool" where
  "isDBDeadlockError e = contains_any e [''deadlock'', ''Deadlock'', ''1213'', ''40001'']"

definition isDuplicateKeyError :: "string \<Rightarrow> bool" where
  "isDuplicateKeyError e = contains_any e [''1062'', ''Duplicate'', ''unique constraint'']"

definition isTemporaryError :: "string \<Rightarrow> bool" where
  "isTemporaryError e = contains_any e [''temporary'', ''busy'', ''lock'']"

definition isDeleteTargetNotReadyError :: "string \<Rightarrow> bool" where
  "isDeleteTargetNotReadyError e = contains_any (ToLower e) [''delete_target_not_ready'', ''delete target not ready'']"

definition isIgnorableDeleteError :: "string \<Rightarrow> bool" where
  "isIgnorableDeleteError e = contains_any (ToLower e)
    [''definer'', ''does not exist'', ''not found'', ''record not found'', ''duplicate entry'', ''1062'']"

definition shouldIgnoreError :: "string \<Rightarrow> bool" where
  "shouldIgnoreError e = contains_any (ToLower e)
    [''definer'', ''does not exist'', ''not found'', ''record not found'', ''duplicate entry'', ''user already exist'', ''1062'']"

definition shouldGoToDeadLetterImmediately :: "string \<Rightarrow> bool" where
  "shouldGoToDeadLetterImmediately e = contains_any (ToLower e)
    [''invalid json'', ''unmarshal error'', ''unknown operation'', ''poison message'', ''permission denied'']"

section \<open>The next attempt\<close>

text \<open>The shift is of 64 bits, and so is the product.\<close>

definition retry_base :: "KafkaOptions \<Rightarrow> int \<Rightarrow> duration" where
  "retry_base k n = (if 0 < n then wrap64 (ko_BaseRetryDelay k * wrap64 (2 ^ nat (n - 1))) else ko_BaseRetryDelay k)"

text \<open>The delay and the strategy; \<open>None\<close> is the panic.\<close>

definition next_retry_delay :: "KafkaOptions \<Rightarrow> (int \<Rightarrow> int) \<Rightarrow> int \<Rightarrow> string \<Rightarrow> (duration \<times> string) option" where
  "next_retry_delay k rand n e =
    (if isDBConnectionError e
     then (let half = go_div (retry_base k n) 2
           in if half \<le> 0 then None else Some (wrap64 (retry_base k n + rand half), strategy_connection))
     else if isDBDeadlockError e then Some (100 * Millisecond, strategy_deadlock)
     else if isDuplicateKeyError e then Some (2 * Second, strategy_duplicate)
     else if isDeleteTargetNotReadyError e then Some (250 * Millisecond, strategy_delete)
     else if isTemporaryError e then Some (wrap64 ((n + 1) * ko_BaseRetryDelay k), strategy_linear)
     else Some (retry_base k n, strategy_default))"

definition cap_delay :: "KafkaOptions \<Rightarrow> duration \<Rightarrow> duration" where
  "cap_delay k d = (if ko_MaxRetryDelay k < d then ko_MaxRetryDelay k else d)"

definition next_headers :: "clock_text \<Rightarrow> headers \<Rightarrow> int \<Rightarrow> instant \<Rightarrow> string \<Rightarrow> string \<Rightarrow> headers" where
  "next_headers T hs n t e strategy =
    consumer_updateOrAddHeader (consumer_updateOrAddHeader (consumer_updateOrAddHeader (consumer_updateOrAddHeader hs
      HeaderRetryCount (FormatInt n)) HeaderNextRetryTS (ct_format T t)) HeaderRetryError e) ''retry-strategy'' strategy"

definition max_retries_text :: "int \<Rightarrow> string \<Rightarrow> string" where
  "max_retries_text m e = ''MAX_RETRIES_EXCEEDED('' @ FormatInt m @ ''): '' @ e"

definition prepareNextRetry ::
  "('r, 'l, 'd) RetryConsumer \<Rightarrow> kafka_Message \<Rightarrow> int \<Rightarrow> string \<Rightarrow> ('r, 'l, 'd) retry_world \<Rightarrow> retry_result \<times> ('r, 'l, 'd) retry_world" where
  "prepareNextRetry R msg count0 e w =
    (let n = (if count0 < 0 then 0 else count0); n1 = wrap64 (n + 1)
     in if rc_maxRetries R < n1 then dead_letter R msg (max_retries_text (rc_maxRetries R) e) w
        else case next_retry_delay (rc_opts R) (rc_rand R) n e of
               None \<Rightarrow> (Panicked, w)
             | Some (d, strategy) \<Rightarrow>
                 (let t = time_Add (rw_clock w) (cap_delay (rc_opts R) d);
                      m = \<lparr>km_Key = km_Key msg, km_Value = km_Value msg,
                           km_Headers = next_headers (rc_text R) (km_Headers msg) n1 t e strategy, km_Time = rw_clock w\<rparr>
                  in on_queue (sendToRetryTopic (rc_producer R) (rw_clock w) (rc_trace R) m e) w))"

definition handleProcessingError ::
  "('r, 'l, 'd) RetryConsumer \<Rightarrow> kafka_Message \<Rightarrow> int \<Rightarrow> string \<Rightarrow> ('r, 'l, 'd) retry_world \<Rightarrow> retry_result \<times> ('r, 'l, 'd) retry_world" where
  "handleProcessingError R msg cnt e w =
    (if shouldIgnoreError e then (Finished None, w)
     else if shouldGoToDeadLetterImmediately e then dead_letter R msg (''FATAL_ERROR: '' @ e) w
     else prepareNextRetry R msg cnt e w)"

section \<open>The table\<close>

definition loadUserSnapshot :: "('r, 'l, 'd) RetryConsumer \<Rightarrow> string \<Rightarrow> 'd \<Rightarrow> (string + User option) \<times> 'd" where
  "loadUserSnapshot R username d =
    (let trimmed = TrimSpace username; U = rc_table R
     in if trimmed = [] then (Inr None, d)
        else case ut_core U d of
               Some e \<Rightarrow> (Inl e, d)
             | None \<Rightarrow>
                 (case ut_select U trimmed d of
                    (QueryFailed e, d1) \<Rightarrow> (Inl e, d1)
                  | (IterationEnded, d1) \<Rightarrow> (Inr None, d1)
                  | (ScanFailed e, d1) \<Rightarrow> (Inl e, d1)
                  | (RowRead row, d1) \<Rightarrow> (Inr (Some (materializeUser (rc_extend R) row scanModeAuth)), d1)))"

definition phone_value :: "string \<Rightarrow> string option" where
  "phone_value p = (let t = TrimSpace p in if t = [] then None else Some t)"

text \<open>The columns of a user that a statement writes; the identifier is the table's own.\<close>

definition user_row :: "User \<Rightarrow> userRowBuffer" where
  "user_row u = \<lparr>rb_id = om_ID u, rb_instanceID = Some (om_InstanceID u), rb_name = Some (om_Name u),
     rb_nickname = Some (us_Nickname u), rb_password = Some (us_Password u), rb_email = Some (us_Email u),
     rb_phone = phone_value (us_Phone u), rb_status = us_Status u, rb_isAdmin = us_IsAdmin u,
     rb_extend = Some (om_ExtendShadow u), rb_createdAt = om_CreatedAt u, rb_updatedAt = om_UpdatedAt u,
     rb_loginedAt = (if IsZero (us_LoginedAt u) then None else Some (us_LoginedAt u)), rb_version = om_Version u\<rparr>"

definition normalized :: "User \<Rightarrow> User" where
  "normalized u = u\<lparr>us_Email := NormalizeEmail (us_Email u), us_Phone := NormalizePhone (us_Phone u)\<rparr>"

text \<open>A duplicate key, of whichever column, counts as the user being there already.\<close>

definition createUserInDB :: "('r, 'l, 'd) RetryConsumer \<Rightarrow> instant \<Rightarrow> User \<Rightarrow> 'd \<Rightarrow> (string + User) \<times> 'd" where
  "createUserInDB R now u d =
    (let u1 = (normalized u)\<lparr>om_CreatedAt := now, om_UpdatedAt := now\<rparr>; U = rc_table R;
         version = (if om_Version u1 = 0 then 1 else om_Version u1); u2 = u1\<lparr>om_Version := version\<rparr>
     in case ut_core U d of
          Some e \<Rightarrow> (Inl e, d)
        | None \<Rightarrow>
            (case ut_insert U ((user_row u2)\<lparr>rb_loginedAt := None\<rparr>) d of
               (None, d1) \<Rightarrow> (Inr u2, d1)
             | (Some e, d1) \<Rightarrow> (if isDuplicateKeyError e then Inr u2 else Inl e, d1)))"

definition updateUserInDB :: "('r, 'l, 'd) RetryConsumer \<Rightarrow> User \<Rightarrow> 64 word option \<Rightarrow> 'd \<Rightarrow> (string + User) \<times> 'd" where
  "updateUserInDB R u expected d =
    (let u1 = normalized u; U = rc_table R
     in case (if TrimSpace (om_ExtendShadow u1) = [] then EnsureExtendShadow (rc_extend R) u1 else Inr u1) of
          Inl e \<Rightarrow> (Inl e, d)
        | Inr u2 \<Rightarrow>
            (case ut_core U d of
               Some e \<Rightarrow> (Inl e, d)
             | None \<Rightarrow>
                 (case ut_update U (user_row u2) expected d of
                    (Inl e, d1) \<Rightarrow> (if isDuplicateKeyError e then Inr u2 else Inl e, d1)
                  | (Inr affected, d1) \<Rightarrow>
                      (if expected = None then Inr u2
                       else case affected of Inl e \<Rightarrow> Inl e
                              | Inr n \<Rightarrow> if n = 0 then Inl text_version_conflict else Inr u2, d1))))"

definition deleteUserFromDB :: "('r, 'l, 'd) RetryConsumer \<Rightarrow> string \<Rightarrow> 'd \<Rightarrow> string option \<times> 'd" where
  "deleteUserFromDB R username d =
    (case ut_core (rc_table R) d of Some e \<Rightarrow> (Some e, d) | None \<Rightarrow> ut_delete (rc_table R) username d)"

section \<open>Cached copies and the pending lease\<close>

definition set_copies :: "('r, 'l, 'd) RetryConsumer \<Rightarrow> User \<Rightarrow> User option \<Rightarrow> ('r, 'l, 'd) retry_world \<Rightarrow> ('r, 'l, 'd) retry_world" where
  "set_copies R u previous w =
    snd (on_cache (retry_setUserCache (fst (server_of (rc_pending R))) (snd (server_of (rc_pending R))) (rc_payload R)
           (rc_timed_out R) (Some (rc_opts R)) (rw_clock w) u previous) w)"

definition clearPendingCreateMarker ::
  "('r, 'l, 'd) RetryConsumer \<Rightarrow> instant \<Rightarrow> string \<Rightarrow> ('r, 'l) pending_data \<Rightarrow> pending_error option \<times> ('r, 'l) pending_data" where
  "clearPendingCreateMarker R now username p =
    (let trimmed = TrimSpace username
     in if trimmed = [] then (None, p)
        else case redis_Observe (rc_pending R) now trimmed p of
               (Inl e, p1) \<Rightarrow> (Some ErrPendingLeaseOwnerMismatch, p1)
             | (Inr st, p1) \<Rightarrow>
                 (if \<not> ps_Exists st then (None, p1)
                  else let owner = TrimSpace (ps_LeaseOwner st)
                       in if owner = [] then (Some ErrPendingLeaseOwnerMismatch, p1)
                          else redis_Release (rc_pending R) now trimmed owner p1))"

definition purgeUserState ::
  "('r, 'l, 'd) RetryConsumer \<Rightarrow> string \<Rightarrow> 64 word \<Rightarrow> User option \<Rightarrow> ('r, 'l, 'd) retry_world \<Rightarrow> ('r, 'l, 'd) retry_world" where
  "purgeUserState R username userID snapshot w =
    (let S = fst (server_of (rc_pending R)); pfx = snd (server_of (rc_pending R)); now = rw_clock w;
         w1 = w\<lparr>rw_pending := snd (clearPendingCreateMarker R now username (rw_pending w))\<rparr>;
         w2 = snd (on_cache (deleteUserCache S pfx now username) w1);
         w3 = (case snapshot of None \<Rightarrow> w2
               | Some u \<Rightarrow> snd (on_cache (\<lambda>r. ((), evictContactCaches S pfx now (Some u) None r)) w2))
     in if userID = 0 then w3 else snd (on_cache (cleanupUserSessions S pfx (rc_smembers R) now userID) w3))"

section \<open>Handlers\<close>

text \<open>Waiting until a time, unless the context ends before.\<close>

definition wait_until :: "('r, 'l, 'd) RetryConsumer \<Rightarrow> instant \<Rightarrow> ('r, 'l, 'd) retry_world \<Rightarrow> bool \<times> ('r, 'l, 'd) retry_world" where
  "wait_until R t w =
    (if \<not> time_Before (rw_clock w) t then (True, w)
     else case rc_ctx_end R of
            Some e \<Rightarrow> if e < t then (False, w\<lparr>rw_clock := max (rw_clock w) e\<rparr>) else (True, w\<lparr>rw_clock := t\<rparr>)
          | None \<Rightarrow> (True, w\<lparr>rw_clock := t\<rparr>))"

definition processRetryCreate ::
  "('r, 'l, 'd) RetryConsumer \<Rightarrow> kafka_Message \<Rightarrow> ('r, 'l, 'd) retry_world \<Rightarrow> retry_result \<times> ('r, 'l, 'd) retry_world" where
  "processRetryCreate R msg w =
    (case rc_user R (km_Value msg) of
       Inl e \<Rightarrow> dead_letter R msg (''POISON_MESSAGE_IN_RETRY: '' @ e) w
     | Inr u0 \<Rightarrow>
         (case parseRetryHeaders (rc_text R) (rw_clock w) (km_Headers msg) of
            (cnt, next, lastError) \<Rightarrow>
              (if rc_maxRetries R \<le> cnt then dead_letter R msg (max_retries_text (rc_maxRetries R) lastError) w
               else case on_db (loadUserSnapshot R (om_Name u0)) w of
                      (Inl e, w1) \<Rightarrow> handleProcessingError R msg cnt (text_query_failed @ e) w1
                    | (Inr (Some existing), w1) \<Rightarrow> (Finished None, set_copies R existing None w1)
                    | (Inr None, w1) \<Rightarrow>
                        (case wait_until R next w1 of
                           (False, w2) \<Rightarrow> (Finished (Some (ConsumeCtx Canceled)), w2)
                         | (True, w2) \<Rightarrow>
                             (case on_db (createUserInDB R (rw_clock w2) (normalized u0)) w2 of
                                (Inl e, w3) \<Rightarrow> handleProcessingError R msg cnt (text_exists_failed @ e) w3
                              | (Inr u, w3) \<Rightarrow> (Finished None, set_copies R u None w3))))))"

text \<open>The user after a full or a patching update, before its version and times.\<close>

definition merged_user :: "('r, 'l, 'd) RetryConsumer \<Rightarrow> string \<Rightarrow> User \<Rightarrow> User \<Rightarrow> User" where
  "merged_user R command u existing =
    (let u1 = (if (case om_Extend u of None \<Rightarrow> True | Some e \<Rightarrow> e = []) \<and> (case om_Extend existing of Some (x # xs) \<Rightarrow> True | _ \<Rightarrow> False)
               then u\<lparr>om_Extend := om_Extend existing\<rparr> else u);
         a = (if TrimSpace (om_InstanceID u1) \<noteq> [] then existing\<lparr>om_InstanceID := om_InstanceID u1\<rparr> else existing);
         b = (if us_Password u1 \<noteq> [] then a\<lparr>us_Password := us_Password u1\<rparr> else a);
         c = (if command = UserUpdateCommandFull
              then b\<lparr>us_Nickname := us_Nickname u1, us_Email := us_Email u1, us_Phone := us_Phone u1,
                     us_Status := us_Status u1, us_IsAdmin := us_IsAdmin u1\<rparr> else b);
         d = (if \<not> IsZero (us_LoginedAt u1) then c\<lparr>us_LoginedAt := us_LoginedAt u1\<rparr> else c);
         e = (case om_Extend u1 of Some (x # xs) \<Rightarrow> d\<lparr>om_Extend := om_Extend u1\<rparr> | _ \<Rightarrow> d);
         f = (if om_ExtendShadow u1 \<noteq> [] then e\<lparr>om_ExtendShadow := om_ExtendShadow u1\<rparr> else e)
     in case us_Patch u1 of
          None \<Rightarrow> f
        | Some p \<Rightarrow>
            (let g = patch_Apply (rc_extend R) (Some p) f;
                 h = (if up_Email p = None then g\<lparr>us_Email := us_Email existing\<rparr> else g)
             in if up_Phone p = None then h\<lparr>us_Phone := us_Phone existing\<rparr> else h))"

definition version_conflict_text :: "64 word \<Rightarrow> 64 word \<Rightarrow> string" where
  "version_conflict_text e a = ''VERSION_CONFLICT: expected='' @ FormatInt (uint e) @ '' actual='' @ FormatInt (uint a)"

text \<open>The version to expect; a full update without one is refused.\<close>

definition expected_version :: "string \<Rightarrow> User \<Rightarrow> User \<Rightarrow> string + 64 word" where
  "expected_version command u existing =
    (case us_ExpectedVersion u of
       Some v \<Rightarrow> if om_Version existing \<noteq> v then Inl (version_conflict_text v (om_Version existing)) else Inr v
     | None \<Rightarrow> if command = UserUpdateCommandPatch then Inr (om_Version existing)
               else Inl (''MISSING_EXPECTED_VERSION: current='' @ FormatInt (uint (om_Version existing))))"

definition apply_update ::
  "('r, 'l, 'd) RetryConsumer \<Rightarrow> kafka_Message \<Rightarrow> int \<Rightarrow> string \<Rightarrow> User \<Rightarrow> User \<Rightarrow> ('r, 'l, 'd) retry_world \<Rightarrow> retry_result \<times> ('r, 'l, 'd) retry_world" where
  "apply_update R msg cnt command u existing w =
    (case EnsureExtendShadow (rc_extend R) (merged_user R command u existing) of
       Inl e \<Rightarrow> dead_letter R msg (''SERIALIZE_EXTEND_FAILED: '' @ e) w
     | Inr m \<Rightarrow>
         (case expected_version command u existing of
            Inl reason \<Rightarrow> dead_letter R msg reason w
          | Inr v \<Rightarrow>
              (let m1 = m\<lparr>om_UpdatedAt := rw_clock w, om_Version := om_Version existing + 1\<rparr>
               in case on_db (updateUserInDB R m1 (Some v)) w of
                    (Inl e, w1) \<Rightarrow> handleProcessingError R msg cnt (text_error_info @ e) w1
                  | (Inr m2, w1) \<Rightarrow> (Finished None, set_copies R m2 (Some existing) w1))))"

text \<open>The wait of an update does not look at the context.\<close>

definition processRetryUpdate ::
  "('r, 'l, 'd) RetryConsumer \<Rightarrow> kafka_Message \<Rightarrow> ('r, 'l, 'd) retry_world \<Rightarrow> retry_result \<times> ('r, 'l, 'd) retry_world" where
  "processRetryUpdate R msg w =
    (case rc_user R (km_Value msg) of
       Inl e \<Rightarrow> dead_letter R msg (''POISON_MESSAGE_IN_RETRY: '' @ e) w
     | Inr u0 \<Rightarrow>
         (let u = normalized u0; command = (if TrimSpace (us_Command u) = [] then UserUpdateCommandFull else us_Command u)
          in if command = UserUpdateCommandBatch then dead_letter R msg ''BATCH_UPDATE_UNSUPPORTED_IN_RETRY_QUEUE'' w
             else case parseRetryHeaders (rc_text R) (rw_clock w) (km_Headers msg) of
                    (cnt, next, lastError) \<Rightarrow>
                      (if rc_maxRetries R \<le> cnt then dead_letter R msg (max_retries_text (rc_maxRetries R) lastError) w
                       else let w0 = w\<lparr>rw_clock := max (rw_clock w) next\<rparr>
                            in case on_db (loadUserSnapshot R (om_Name u)) w0 of
                                 (Inl e, w1) \<Rightarrow> handleProcessingError R msg cnt (text_query_failed @ e) w1
                               | (Inr None, w1) \<Rightarrow> dead_letter R msg (''RETRY_UPDATE_TARGET_NOT_FOUND: '' @ om_Name u) w1
                               | (Inr (Some existing), w1) \<Rightarrow> apply_update R msg cnt command u existing w1)))"

text \<open>A deletion is not delayed; one that finds no target is tried again.\<close>

definition processRetryDelete ::
  "('r, 'l, 'd) RetryConsumer \<Rightarrow> kafka_Message \<Rightarrow> ('r, 'l, 'd) retry_world \<Rightarrow> retry_result \<times> ('r, 'l, 'd) retry_world" where
  "processRetryDelete R msg w =
    (case rc_delete R (km_Value msg) of
       Inl e \<Rightarrow> dead_letter R msg (''POISON_MESSAGE_IN_RETRY: '' @ e) w
     | Inr req \<Rightarrow>
         (case parseRetryHeaders (rc_text R) (rw_clock w) (km_Headers msg) of
            (cnt, next, lastError) \<Rightarrow>
              (if rc_maxRetries R \<le> cnt then dead_letter R msg (max_retries_text (rc_maxRetries R) lastError) w
               else case (if dm_Username req = [] then (Inr None, w) else on_db (loadUserSnapshot R (dm_Username req)) w) of
                      (Inl e, w1) \<Rightarrow> handleProcessingError R msg cnt (text_query_failed @ e) w1
                    | (Inr existing, w1) \<Rightarrow>
                        (let userID = (case existing of Some u \<Rightarrow> om_ID u | None \<Rightarrow> 0)
                         in case on_db (deleteUserFromDB R (dm_Username req)) w1 of
                              (None, w2) \<Rightarrow> (Finished None, purgeUserState R (dm_Username req) userID existing w2)
                            | (Some e, w2) \<Rightarrow>
                                (if \<not> isIgnorableDeleteError e then handleProcessingError R msg cnt (text_error_info @ e) w2
                                 else if contains_any (ToLower e) [''not found'', ''does not exist'', ''record not found'']
                                 then prepareNextRetry R msg cnt (''DELETE_TARGET_NOT_READY: '' @ e) w2
                                 else (Finished None, purgeUserState R (dm_Username req) userID existing w2))))))"

definition processRetryMessage ::
  "('r, 'l, 'd) RetryConsumer \<Rightarrow> kafka_Message \<Rightarrow> ('r, 'l, 'd) retry_world \<Rightarrow> retry_result \<times> ('r, 'l, 'd) retry_world" where
  "processRetryMessage R msg w =
    (let operation = retry_getOperationFromHeaders (km_Headers msg)
     in if operation = OperationCreate_text then processRetryCreate R msg w
        else if operation = OperationUpdate_text then processRetryUpdate R msg w
        else if operation = OperationDelete_text then processRetryDelete R msg w
        else dead_letter R msg (''UNKNOWN_OPERATION_IN_RETRY: '' @ operation) w)"

end
