(* ===== verification/RetryGroup.thy ===== *)
theory RetryGroup
  imports RetryConsumer
begin

text \<open>
  The retry consumer as a process (retry_consumer.go): the settings it gives its pending coordinator,
  committing an offset, and its workers on one partition of the retry topic. A commit covers every
  offset before it, and a reader that starts again begins at the committed offset, as Kafka documents;
  the partition only grows.
\<close>

text \<open>
  What the handling of one retry message does to the queues: the producer keeps what was sent, the
  table and the cache do not touch it, and a message is at most handed over once, to the retry
  topic or to the dead letters. The headers of a message that is tried again carry its count.
\<close>

section \<open>Sending\<close>

definition sent_ext :: "queue_io \<Rightarrow> ProducerMessage \<Rightarrow> queue_io \<Rightarrow> bool" where
  "sent_ext q m q' \<longleftrightarrow> io_sent q' = io_sent q \<or> io_sent q' = io_sent q @ [m]"

lemma writeToFallbackFile_sent [simp]: "io_sent (writeToFallbackFile P now m s) = io_sent s"
  by (auto simp: writeToFallbackFile_def append_line_def disk_call_def split: option.splits prod.splits bool.splits)

lemma enqueueWithTimeout_sent:
  assumes "enqueueWithTimeout P m wait s = (e, s')"
  shows "io_sent s' = (if e = None then io_sent s @ [m] else io_sent s)"
  using assms by (auto simp: enqueueWithTimeout_def Let_def split: if_splits enqueue_event.splits)

lemma sendToRetryTopic_sent:
  assumes "sendToRetryTopic P now tr msg info s = (e, s')"
  shows "io_sent s' = (if e = None
    then io_sent s @ [forward_message UserOperationRetryTopic (retry_headers (km_Headers msg) info) tr msg] else io_sent s)"
  using assms enqueueWithTimeout_sent
  by (auto simp: sendToRetryTopic_def Let_def split: option.splits prod.splits if_splits dest: enqueueWithTimeout_sent)

lemma SendToDeadLetterTopic_sent:
  assumes "SendToDeadLetterTopic P now tr msg info s = (e, s')"
  shows "io_sent s' = (if e = None
    then io_sent s @ [forward_message UserDeadLetterTopic (dead_letter_headers (up_text P) now (km_Headers msg) info) tr msg]
    else io_sent s)"
  using assms
  by (auto simp: SendToDeadLetterTopic_def Let_def split: option.splits prod.splits if_splits dest: enqueueWithTimeout_sent)

lemma forward_message_fields [simp]:
  "pm_Topic (forward_message topic hs tr msg) = topic" "pm_Key (forward_message topic hs tr msg) = Some (km_Key msg)"
  "pm_Value (forward_message topic hs tr msg) = km_Value msg" "pm_Headers (forward_message topic hs tr msg) = hs"
  by (simp_all add: forward_message_def on_meta_def attachProducerMetadata_def)

section \<open>The table and the cache keep the queue\<close>

lemma on_db_queue: "on_db f w = (x, w') \<Longrightarrow> rw_queue w' = rw_queue w"
  by (auto simp: on_db_def split: prod.splits)

lemma on_cache_queue [simp]: "rw_queue (snd (on_cache f w)) = rw_queue w"
  by (auto simp: on_cache_def split: prod.splits)

lemma set_copies_queue [simp]: "rw_queue (set_copies R u p w) = rw_queue w"
  by (simp add: set_copies_def)

lemma purgeUserState_queue [simp]: "rw_queue (purgeUserState R n i u w) = rw_queue w"
  by (auto simp: purgeUserState_def Let_def split: option.splits)

lemma wait_until_queue: "wait_until R t w = (b, w') \<Longrightarrow> rw_queue w' = rw_queue w"
  by (auto simp: wait_until_def split: if_splits option.splits)

section \<open>Headers\<close>

definition retry_count :: "headers \<Rightarrow> int" where
  "retry_count hs = foldl (\<lambda>n (k, v). if k = HeaderRetryCount then (case ParseInt v of Some c \<Rightarrow> c | None \<Rightarrow> n) else n) 0 hs"

lemma scan_retry_headers_count:
  "fst (scan_retry_headers T hs (n, t, e)) =
    foldl (\<lambda>n (k, v). if k = HeaderRetryCount then (case ParseInt v of Some c \<Rightarrow> c | None \<Rightarrow> n) else n) n hs"
  by (induction hs arbitrary: n t e) (auto split: option.splits)

lemma parseRetryHeaders_count: "parseRetryHeaders T now hs = (n, t, e) \<Longrightarrow> n = retry_count hs"
  using scan_retry_headers_count [of T hs 0 zero_time unknownError]
  by (auto simp: parseRetryHeaders_def retry_count_def split: prod.splits)

lemma retry_count_in64: "in64 (retry_count hs)"
proof -
  have "in64 (foldl (\<lambda>n (k, v). if k = HeaderRetryCount then (case ParseInt v of Some c \<Rightarrow> c | None \<Rightarrow> n) else n) m hs)"
    if "in64 m" for m
    using that
  proof (induction hs arbitrary: m)
    case (Cons h hs)
    obtain k v where h: "h = (k, v)" by (cases h)
    have "in64 c" if "ParseInt v = Some c" for c
      using that by (auto simp: ParseInt_def Let_def split: list.splits option.splits if_splits prod.splits)
    then show ?case using Cons by (auto simp: h split: option.splits)
  qed simp
  then show ?thesis by (simp add: retry_count_def in64_def int64_min_def int64_max_def)
qed

text \<open>When every header of the name holds the number, and there is one, it is the count.\<close>

lemma retry_count_all:
  assumes "\<And>k v. (k, v) \<in> set hs \<Longrightarrow> k = HeaderRetryCount \<Longrightarrow> ParseInt v = Some c"
    and "\<exists>v. (HeaderRetryCount, v) \<in> set hs"
  shows "retry_count hs = c"
proof -
  let ?f = "\<lambda>n (k, v). if k = HeaderRetryCount then (case ParseInt v of Some c \<Rightarrow> c | None \<Rightarrow> n) else n"
  have "foldl ?f m hs = c" if "m = c \<or> (\<exists>v. (HeaderRetryCount, v) \<in> set hs)" for m
    using that assms(1)
  proof (induction hs arbitrary: m)
    case (Cons h hs)
    obtain k v where h: "h = (k, v)" by (cases h)
    show ?case
    proof (cases "k = HeaderRetryCount")
      case True
      then have "ParseInt v = Some c" using Cons.prems(2) h by auto
      then show ?thesis using Cons.IH [of c] Cons.prems(2) True by (auto simp: h)
    next
      case False
      then have "m = c \<or> (\<exists>v. (HeaderRetryCount, v) \<in> set hs)" using Cons.prems(1) h by auto
      then show ?thesis using Cons.IH [of m] Cons.prems(2) False by (auto simp: h)
    qed
  qed simp
  then show ?thesis using assms(2) by (simp add: retry_count_def)
qed

lemma first_header_rewrite_same:
  "first_header (\<lambda>k. EqualFold k key) (rewrite_headers key val False hs) = Some val"
  by (induction hs) (auto simp: EqualFold_def)

lemma first_header_rewrite_fold:
  "ToLower key' \<noteq> ToLower key \<Longrightarrow>
    first_header (\<lambda>k. EqualFold k key) (rewrite_headers key' val f hs) = first_header (\<lambda>k. EqualFold k key) hs"
  by (rule first_header_rewrite_other) (auto simp: EqualFold_def)

lemma first_header_append:
  "first_header P (xs @ ys) = (case first_header P xs of Some v \<Rightarrow> Some v | None \<Rightarrow> first_header P ys)"
  by (induction xs) auto

lemma first_header_producer_fold:
  assumes "ToLower key' \<noteq> ToLower key"
  shows "first_header (\<lambda>k. EqualFold k key) (producer_updateOrAddHeader hs key' val) = first_header (\<lambda>k. EqualFold k key) hs"
proof -
  let ?m = "map (\<lambda>(k, v). if ToLower k = ToLower key' then (key', val) else (k, v))"
  have m: "first_header (\<lambda>k. EqualFold k key) (?m hs) = first_header (\<lambda>k. EqualFold k key) hs"
    using assms by (induction hs) (auto simp: EqualFold_def)
  show ?thesis using m assms
    by (auto simp: producer_updateOrAddHeader_def first_header_append EqualFold_def split: option.splits)
qed

lemma header_names_differ:
  "ToLower HeaderNextRetryTS \<noteq> ToLower HeaderRetryCount" "ToLower HeaderRetryError \<noteq> ToLower HeaderRetryCount"
  "ToLower ''retry-strategy'' \<noteq> ToLower HeaderRetryCount" "ToLower HeaderChannel \<noteq> ToLower HeaderRetryCount"
  by code_simp+

lemma next_headers_count:
  "header_count (producer_updateOrAddHeader (next_headers T hs n t e strategy) HeaderRetryError info) =
    (case ParseInt (FormatInt n) of Some c \<Rightarrow> c | None \<Rightarrow> 0)"
  by (simp add: header_count_def next_headers_def consumer_updateOrAddHeader_def first_header_producer_fold
      first_header_rewrite_fold first_header_rewrite_same header_names_differ)

lemma retry_count_retry_headers:
  assumes "in64 n" and "in64 (n + 1)"
  shows "retry_count (retry_headers (next_headers T hs n t e strategy) info) = n + 1"
proof (rule retry_count_all)
  let ?h = "retry_headers (next_headers T hs n t e strategy) info"
  have eq: "?h = producer_updateOrAddHeader (producer_updateOrAddHeader
      (producer_updateOrAddHeader (next_headers T hs n t e strategy) HeaderRetryError info) HeaderChannel ChannelRetry)
      HeaderRetryCount (FormatInt (n + 1))"
    using assms by (simp add: retry_headers_def Let_def next_headers_count ParseInt_FormatInt wrap64_id)
  show "ParseInt v = Some (n + 1)" if "(k, v) \<in> set ?h" "k = HeaderRetryCount" for k v
  proof -
    have "v = FormatInt (n + 1)" using producer_header_set [of k v] that unfolding eq by blast
    then show ?thesis by (simp add: ParseInt_FormatInt assms(2))
  qed
  show "\<exists>v. (HeaderRetryCount, v) \<in> set ?h" unfolding eq using producer_header_present by blast
qed

section \<open>One message\<close>

definition given_up :: "('r, 'l, 'd) RetryConsumer \<Rightarrow> kafka_Message \<Rightarrow> ProducerMessage \<Rightarrow> bool" where
  "given_up R msg m \<longleftrightarrow> (\<exists>now info. m = forward_message UserDeadLetterTopic
      (dead_letter_headers (rc_text R) now (km_Headers msg) info) (rc_trace R) msg)"

definition tried_again :: "('r, 'l, 'd) RetryConsumer \<Rightarrow> kafka_Message \<Rightarrow> ProducerMessage \<Rightarrow> bool" where
  "tried_again R msg m \<longleftrightarrow> (\<exists>n t e strategy. n = max 0 (retry_count (km_Headers msg)) \<and> wrap64 (n + 1) \<le> rc_maxRetries R
     \<and> retry_count (km_Headers msg) < rc_maxRetries R
     \<and> pm_Topic m = UserOperationRetryTopic \<and> pm_Key m = Some (km_Key msg) \<and> pm_Value m = km_Value msg
     \<and> pm_Headers m = retry_headers (next_headers (rc_text R) (km_Headers msg) (wrap64 (n + 1)) t e strategy) e)"

definition handed_over :: "('r, 'l, 'd) RetryConsumer \<Rightarrow> kafka_Message \<Rightarrow> ProducerMessage list \<Rightarrow> ProducerMessage list \<Rightarrow> bool" where
  "handed_over R msg before after \<longleftrightarrow>
    (after = before \<or> (\<exists>m. after = before @ [m] \<and> (given_up R msg m \<or> tried_again R msg m)))"

abbreviation sent_of :: "('r, 'l, 'd) retry_world \<Rightarrow> ProducerMessage list" where
  "sent_of w \<equiv> io_sent (rw_queue w)"

lemma handed_over_refl [simp]: "handed_over R msg s s"
  by (simp add: handed_over_def)

lemma dead_letter_handed:
  assumes "dead_letter R msg reason w = (r, w')"
  shows "handed_over R msg (sent_of w) (sent_of w')"
proof -
  obtain x q where q: "SendToDeadLetterTopic (rc_producer R) (rw_clock w) (rc_trace R) msg reason (rw_queue w) = (x, q)"
    by fastforce
  then have "w' = w\<lparr>rw_queue := q\<rparr>" using assms by (simp add: dead_letter_def on_queue_def)
  then show ?thesis using SendToDeadLetterTopic_sent [OF q] by (auto simp: handed_over_def given_up_def)
qed

lemma prepareNextRetry_handed:
  assumes "prepareNextRetry R msg (retry_count (km_Headers msg)) e w = (r, w')"
    and "retry_count (km_Headers msg) < rc_maxRetries R"
  shows "handed_over R msg (sent_of w) (sent_of w')"
proof -
  define n where "n = max 0 (retry_count (km_Headers msg))"
  have n: "(if retry_count (km_Headers msg) < 0 then 0 else retry_count (km_Headers msg)) = n"
    by (simp add: n_def)
  show ?thesis
  proof (cases "rc_maxRetries R < wrap64 (n + 1)")
    case True
    with assms(1) show ?thesis by (auto simp: prepareNextRetry_def n Let_def intro: dead_letter_handed)
  next
    case False
    show ?thesis
    proof (cases "next_retry_delay (rc_opts R) (rc_rand R) n e")
      case None
      with assms(1) False show ?thesis by (simp add: prepareNextRetry_def n Let_def)
    next
      case (Some ds)
      obtain d strategy where ds: "ds = (d, strategy)" by (cases ds)
      define t where "t = time_Add (rw_clock w) (cap_delay (rc_opts R) d)"
      define m where "m = \<lparr>km_Key = km_Key msg, km_Value = km_Value msg,
        km_Headers = next_headers (rc_text R) (km_Headers msg) (wrap64 (n + 1)) t e strategy, km_Time = rw_clock w\<rparr>"
      obtain x q where q: "sendToRetryTopic (rc_producer R) (rw_clock w) (rc_trace R) m e (rw_queue w) = (x, q)"
        by fastforce
      have w': "w' = w\<lparr>rw_queue := q\<rparr>"
        using assms(1) False q by (simp add: prepareNextRetry_def n Let_def Some ds on_queue_def m_def t_def)
      have "tried_again R msg (forward_message UserOperationRetryTopic (retry_headers (km_Headers m) e) (rc_trace R) m)"
        unfolding tried_again_def using False assms(2) n_def
        by (intro exI [of _ n] exI [of _ t] exI [of _ e] exI [of _ strategy]) (simp add: m_def)
      then show ?thesis using sendToRetryTopic_sent [OF q] by (auto simp: handed_over_def w')
    qed
  qed
qed

lemma handleProcessingError_handed:
  assumes "handleProcessingError R msg (retry_count (km_Headers msg)) e w = (r, w')"
    and "retry_count (km_Headers msg) < rc_maxRetries R"
  shows "handed_over R msg (sent_of w) (sent_of w')"
  using assms
  by (auto simp: handleProcessingError_def split: if_splits intro: dead_letter_handed prepareNextRetry_handed)

lemma on_db_handed: "on_db f w = (x, w1) \<Longrightarrow> handed_over R msg (sent_of w1) s \<Longrightarrow> handed_over R msg (sent_of w) s"
  by (drule on_db_queue) simp

lemma processRetryCreate_handed:
  assumes "processRetryCreate R msg w = (r, w')"
  shows "handed_over R msg (sent_of w) (sent_of w')"
proof (cases "rc_user R (km_Value msg)")
  case (Inl e)
  with assms show ?thesis by (auto simp: processRetryCreate_def intro: dead_letter_handed)
next
  case (Inr u0)
  obtain n t e where p: "parseRetryHeaders (rc_text R) (rw_clock w) (km_Headers msg) = (n, t, e)" by (metis prod_cases3)
  have n: "n = retry_count (km_Headers msg)" by (rule parseRetryHeaders_count [OF p])
  show ?thesis
  proof (cases "rc_maxRetries R \<le> n")
    case True
    with assms show ?thesis by (auto simp: processRetryCreate_def Inr p intro: dead_letter_handed)
  next
    case False
    obtain x w1 where x: "on_db (loadUserSnapshot R (om_Name u0)) w = (x, w1)" by fastforce
    obtain b w2 where b: "wait_until R t w1 = (b, w2)" by fastforce
    obtain y w3 where y: "on_db (createUserInDB R (rw_clock w2) (normalized u0)) w2 = (y, w3)" by fastforce
    note q = on_db_queue [OF x] wait_until_queue [OF b] on_db_queue [OF y]
    from assms False show ?thesis
      using handleProcessingError_handed [of R msg _ w1 r w'] handleProcessingError_handed [of R msg _ w3 r w'] q
      by (cases x; cases b; cases y) (auto simp: processRetryCreate_def Inr p x b y n split: option.splits)
  qed
qed

lemma apply_update_handed:
  assumes "apply_update R msg (retry_count (km_Headers msg)) command u existing w = (r, w')"
    and "retry_count (km_Headers msg) < rc_maxRetries R"
  shows "handed_over R msg (sent_of w) (sent_of w')"
proof (cases "EnsureExtendShadow (rc_extend R) (merged_user R command u existing)")
  case (Inl e)
  with assms show ?thesis by (auto simp: apply_update_def intro: dead_letter_handed)
next
  case m: (Inr m)
  show ?thesis
  proof (cases "expected_version command u existing")
    case (Inl e)
    with assms m show ?thesis by (auto simp: apply_update_def intro: dead_letter_handed)
  next
    case (Inr v)
    obtain y w1 where y: "on_db (updateUserInDB R (m\<lparr>om_UpdatedAt := rw_clock w, om_Version := om_Version existing + 1\<rparr>) (Some v)) w = (y, w1)"
      by fastforce
    from assms show ?thesis
      using handleProcessingError_handed [of R msg _ w1 r w'] on_db_queue [OF y]
      by (cases y) (auto simp: apply_update_def m Inr y Let_def)
  qed
qed

lemma processRetryUpdate_handed:
  assumes "processRetryUpdate R msg w = (r, w')"
  shows "handed_over R msg (sent_of w) (sent_of w')"
proof (cases "rc_user R (km_Value msg)")
  case (Inl e)
  with assms show ?thesis by (auto simp: processRetryUpdate_def intro: dead_letter_handed)
next
  case (Inr u0)
  obtain n t e where p: "parseRetryHeaders (rc_text R) (rw_clock w) (km_Headers msg) = (n, t, e)" by (metis prod_cases3)
  have n: "n = retry_count (km_Headers msg)" by (rule parseRetryHeaders_count [OF p])
  define w0 where "w0 = w\<lparr>rw_clock := max (rw_clock w) t\<rparr>"
  have w0: "sent_of w0 = sent_of w" by (simp add: w0_def)
  obtain x w1 where x: "on_db (loadUserSnapshot R (om_Name (normalized u0))) w0 = (x, w1)" by fastforce
  define command where "command = (if TrimSpace (us_Command (normalized u0)) = [] then UserUpdateCommandFull else us_Command (normalized u0))"
  show ?thesis
  proof (cases "command = UserUpdateCommandBatch \<or> rc_maxRetries R \<le> n")
    case True
    with assms show ?thesis
      by (auto simp: processRetryUpdate_def Inr p command_def [symmetric] Let_def split: if_splits intro: dead_letter_handed)
  next
    case False
    with assms have "(case x of Inl e \<Rightarrow> handleProcessingError R msg n (text_query_failed @ e) w1
        | Inr None \<Rightarrow> dead_letter R msg (''RETRY_UPDATE_TARGET_NOT_FOUND: '' @ om_Name (normalized u0)) w1
        | Inr (Some existing) \<Rightarrow> apply_update R msg n command (normalized u0) existing w1) = (r, w')"
      by (auto simp: processRetryUpdate_def Inr p command_def [symmetric] w0_def [symmetric] x Let_def split: sum.splits option.splits)
    then have "handed_over R msg (sent_of w1) (sent_of w')"
      using False n by (auto split: sum.splits option.splits
          intro: dead_letter_handed handleProcessingError_handed apply_update_handed)
    then show ?thesis using on_db_queue [OF x] w0 by simp
  qed
qed

lemma processRetryDelete_handed:
  assumes "processRetryDelete R msg w = (r, w')"
  shows "handed_over R msg (sent_of w) (sent_of w')"
proof (cases "rc_delete R (km_Value msg)")
  case (Inl e)
  with assms show ?thesis by (auto simp: processRetryDelete_def intro: dead_letter_handed)
next
  case (Inr req)
  obtain n t e where p: "parseRetryHeaders (rc_text R) (rw_clock w) (km_Headers msg) = (n, t, e)" by (metis prod_cases3)
  have n: "n = retry_count (km_Headers msg)" by (rule parseRetryHeaders_count [OF p])
  obtain x w1 where x: "(if dm_Username req = [] then (Inr None, w) else on_db (loadUserSnapshot R (dm_Username req)) w) = (x, w1)"
    by fastforce
  have s1: "rw_queue w1 = rw_queue w" using x by (auto split: if_splits dest: on_db_queue)
  obtain y w2 where y: "on_db (deleteUserFromDB R (dm_Username req)) w1 = (y, w2)" by fastforce
  have s2: "rw_queue w2 = rw_queue w" using on_db_queue [OF y] s1 by simp
  show ?thesis
  proof (cases "rc_maxRetries R \<le> n")
    case True
    with assms show ?thesis by (auto simp: processRetryDelete_def Inr p intro: dead_letter_handed)
  next
    case False
    show ?thesis
    proof (cases x)
      case (Inl e)
      with assms False s1 show ?thesis
        using handleProcessingError_handed [of R msg _ w1 r w'] by (auto simp: processRetryDelete_def Inr p x n Let_def)
    next
      case ex: (Inr existing)
      with assms False s2 show ?thesis
        using handleProcessingError_handed [of R msg _ w2 r w'] prepareNextRetry_handed [of R msg _ w2 r w']
        by (cases y) (auto simp: processRetryDelete_def Inr p x y n Let_def split: if_splits)
    qed
  qed
qed

theorem processRetryMessage_handed:
  assumes "processRetryMessage R msg w = (r, w')"
  shows "handed_over R msg (sent_of w) (sent_of w')"
  using assms
  by (auto simp: processRetryMessage_def Let_def split: if_splits
      intro: dead_letter_handed processRetryCreate_handed processRetryUpdate_handed processRetryDelete_handed)

section \<open>Construction\<close>

text \<open>Settings of the queue that are positive replace those of the coordinator; the grace period also when it is 0.\<close>

definition retry_pending_config :: "KafkaOptions \<Rightarrow> string \<Rightarrow> PendingCoordinatorConfig" where
  "retry_pending_config k groupid =
    (let c = zero_config\<lparr>Component := ''retry_consumer_'' @ groupid, LogLeaseEvents := True\<rparr>;
         pos = (\<lambda>x d. if 0 < x then x else d)
     in c\<lparr>LeaseTTL := pos (ko_PendingLeaseTTL k) (LeaseTTL c),
          MetricsKey := (if TrimSpace (ko_PendingMetricsKey k) \<noteq> [] then TrimSpace (ko_PendingMetricsKey k) else MetricsKey c),
          BackpressureWindow := pos (ko_PendingBackpressureWindow k) (BackpressureWindow c),
          BackpressureSoftLimit := pos (ko_PendingBackpressureSoft k) (BackpressureSoftLimit c),
          BackpressureHardLimit := pos (ko_PendingBackpressureHard k) (BackpressureHardLimit c),
          ReleaseRetention := pos (ko_PendingReleaseRetention k) (ReleaseRetention c),
          ExpiredRetention := pos (ko_PendingExpiredRetention k) (ExpiredRetention c),
          ExpiredGracePeriod := (if 0 \<le> ko_PendingExpiredGrace k then ko_PendingExpiredGrace k else ExpiredGracePeriod c),
          ElevatedDelayBase := pos (ko_PendingDelayElevated k) (ElevatedDelayBase c),
          ElevatedDelayMax := pos (ko_PendingDelayElevatedMax k) (ElevatedDelayMax c),
          SevereDelayBase := pos (ko_PendingDelaySevere k) (SevereDelayBase c),
          SevereDelayMax := pos (ko_PendingDelaySevereMax k) (SevereDelayMax c)\<rparr>)"

definition SetWorkerCount :: "int \<Rightarrow> int" where
  "SetWorkerCount n = (if n < 1 then 1 else n)"

section \<open>Commits\<close>

text \<open>Up to three attempts with growing waits; the attempt numbers decide which of them succeeds.\<close>

fun commit_attempts :: "nat \<Rightarrow> nat \<Rightarrow> (nat \<Rightarrow> bool) \<Rightarrow> duration list \<Rightarrow> bool \<times> duration list" where
  "commit_attempts 0 i ok ws = (False, ws)"
| "commit_attempts (Suc k) i ok ws =
    (if ok i then (True, ws) else commit_attempts k (i + 1) ok (ws @ [100 * 2 ^ i * Millisecond]))"

definition commitWithRetry :: "(nat \<Rightarrow> bool) \<Rightarrow> bool \<times> duration list" where
  "commitWithRetry ok = commit_attempts 3 0 ok []"

lemma commitWithRetry_iff: "fst (commitWithRetry ok) \<longleftrightarrow> ok 0 \<or> ok 1 \<or> ok 2"
  by (simp add: commitWithRetry_def numeral_3_eq_3 numeral_2_eq_2)

section \<open>Workers on a partition\<close>

record retry_group =
  rg_log :: "kafka_Message list"
  rg_next :: nat
  rg_committed :: nat
  rg_busy :: "nat list"

type_synonym ('r, 'l, 'd) group_state = "retry_group \<times> ('r, 'l, 'd) retry_world"

text \<open>A worker takes the next message, and ends with or without an error; only without one it commits.\<close>

inductive group_step :: "('r, 'l, 'd) RetryConsumer \<Rightarrow> ('r, 'l, 'd) group_state \<Rightarrow> ('r, 'l, 'd) group_state \<Rightarrow> bool"
  for R where
  produced: "group_step R (g, w) (g\<lparr>rg_log := rg_log g @ [m]\<rparr>, w)"
| fetched: "rg_next g < length (rg_log g) \<Longrightarrow>
    group_step R (g, w) (g\<lparr>rg_next := rg_next g + 1, rg_busy := rg_next g # rg_busy g\<rparr>, w)"
| failed: "i \<in> set (rg_busy g) \<Longrightarrow> processRetryMessage R (rg_log g ! i) w = (Finished (Some e), w') \<Longrightarrow>
    group_step R (g, w) (g\<lparr>rg_busy := removeAll i (rg_busy g)\<rparr>, w')"
| handled: "i \<in> set (rg_busy g) \<Longrightarrow> processRetryMessage R (rg_log g ! i) w = (Finished None, w') \<Longrightarrow>
    group_step R (g, w) (g\<lparr>rg_busy := removeAll i (rg_busy g),
      rg_committed := if fst (commitWithRetry ok) then max (rg_committed g) (i + 1) else rg_committed g\<rparr>, w')"
| restarted: "group_step R (g, w) (g\<lparr>rg_next := rg_committed g, rg_busy := []\<rparr>, w)"
| elapsed: "group_step R (g, w) (g, w\<lparr>rw_clock := t\<rparr>)"

inductive group_run :: "('r, 'l, 'd) RetryConsumer \<Rightarrow> ('r, 'l, 'd) group_state \<Rightarrow> ('r, 'l, 'd) group_state \<Rightarrow> bool"
  for R where
  none: "group_run R x x"
| more: "group_run R x y \<Longrightarrow> group_step R y z \<Longrightarrow> group_run R x z"

inductive_cases group_stepE: "group_step R (g, w) (g', w')"

definition group_ok :: "retry_group \<Rightarrow> bool" where
  "group_ok g \<longleftrightarrow> rg_committed g \<le> rg_next g \<and> rg_next g \<le> length (rg_log g) \<and> (\<forall>i\<in>set (rg_busy g). i < rg_next g)"

lemma group_step_ok: "group_step R x y \<Longrightarrow> group_ok (fst x) \<Longrightarrow> group_ok (fst y)"
  by (induction rule: group_step.induct) (auto simp: group_ok_def)

text \<open>An offset before the committed one that no worker holds is never held again.\<close>

definition passed :: "nat \<Rightarrow> retry_group \<Rightarrow> bool" where
  "passed i g \<longleftrightarrow> i < rg_committed g \<and> i \<notin> set (rg_busy g)"

lemma group_step_passed: "group_step R x y \<Longrightarrow> group_ok (fst x) \<Longrightarrow> passed i (fst x) \<Longrightarrow> passed i (fst y)"
  by (induction rule: group_step.induct) (auto simp: group_ok_def passed_def)

lemma group_run_passed:
  "group_run R x y \<Longrightarrow> group_ok (fst x) \<Longrightarrow> passed i (fst x) \<Longrightarrow> group_ok (fst y) \<and> passed i (fst y)"
  by (induction rule: group_run.induct) (auto dest: group_step_passed group_step_ok)

section \<open>Rounds of one message\<close>

text \<open>Reading a message that was sent to the retry topic.\<close>

definition read_back :: "ProducerMessage \<Rightarrow> instant \<Rightarrow> kafka_Message" where
  "read_back m t = \<lparr>km_Key = (case pm_Key m of Some k \<Rightarrow> k | None \<Rightarrow> []), km_Value = pm_Value m, km_Headers = pm_Headers m, km_Time = t\<rparr>"

definition requeued :: "('r, 'l, 'd) RetryConsumer \<Rightarrow> kafka_Message \<Rightarrow> kafka_Message \<Rightarrow> bool" where
  "requeued R msg msg' \<longleftrightarrow> (\<exists>w r w' m t. processRetryMessage R msg w = (r, w') \<and> sent_of w' = sent_of w @ [m]
     \<and> pm_Topic m = UserOperationRetryTopic \<and> msg' = read_back m t)"

lemma requeued_count:
  assumes "requeued R msg msg'" and "rc_maxRetries R < int64_max"
  shows "retry_count (km_Headers msg) < rc_maxRetries R"
    "retry_count (km_Headers msg') = max 0 (retry_count (km_Headers msg)) + 2"
    "max 0 (retry_count (km_Headers msg)) + 1 \<le> rc_maxRetries R"
proof -
  obtain w r w' m t where p: "processRetryMessage R msg w = (r, w')" and s: "sent_of w' = sent_of w @ [m]"
    and topic: "pm_Topic m = UserOperationRetryTopic" and msg': "msg' = read_back m t"
    using assms(1) unfolding requeued_def by blast
  have "\<not> given_up R msg m" using topic by (auto simp: given_up_def topic_defs)
  then have "tried_again R msg m"
    using processRetryMessage_handed [OF p] s by (auto simp: handed_over_def)
  then obtain n t' e strategy where n: "n = max 0 (retry_count (km_Headers msg))" "wrap64 (n + 1) \<le> rc_maxRetries R"
    and lt: "retry_count (km_Headers msg) < rc_maxRetries R"
    and h: "pm_Headers m = retry_headers (next_headers (rc_text R) (km_Headers msg) (wrap64 (n + 1)) t' e strategy) e"
    unfolding tried_again_def by blast
  show "retry_count (km_Headers msg) < rc_maxRetries R" by (rule lt)
  show n1: "max 0 (retry_count (km_Headers msg)) + 1 \<le> rc_maxRetries R"
  proof (cases "n < int64_max")
    case True
    then have "in64 (n + 1)" using n by (simp add: in64_def int64_min_def int64_max_def)
    then show ?thesis using n by (simp add: wrap64_id)
  next
    case False
    then show ?thesis using n lt assms(2) by (simp add: int64_max_def)
  qed
  have n2: "in64 (n + 1)" "in64 (n + 1 + 1)"
    using n1 n(1) assms(2) by (simp_all add: in64_def int64_min_def int64_max_def)
  show "retry_count (km_Headers msg') = max 0 (retry_count (km_Headers msg)) + 2"
    using retry_count_retry_headers [OF n2, of "rc_text R"] n2 n(1) by (simp add: msg' read_back_def h wrap64_id)
qed

lemma requeued_times:
  assumes "(requeued R ^^ k) msg msg'" and "rc_maxRetries R < int64_max" and "0 < k"
  shows "2 * int k \<le> retry_count (km_Headers msg') \<and> 2 * int k \<le> rc_maxRetries R + 1"
  using assms
proof (induction k arbitrary: msg')
  case (Suc k)
  obtain y where y: "(requeued R ^^ k) msg y" "requeued R y msg'" using Suc.prems(1) by auto
  note c = requeued_count [OF y(2) Suc.prems(2)]
  show ?case using Suc.IH [OF y(1) Suc.prems(2)] c by (cases k) auto
qed simp

end
