(* ===== verification/RetryProperties.thy ===== *)
theory RetryProperties
  imports RetryGroup PendingRedisProperties
begin

text \<open>
  The properties of the settings of the queue and of the retry consumer: what completion guarantees, what
  becomes of a message, how often it is tried, and what goes wrong with messages that fail, with duplicates
  and with the extension fields.
\<close>

section \<open>Settings\<close>

lemma positive_or_ge1: "1 \<le> d \<Longrightarrow> 1 \<le> positive_or d x"
  by (simp add: positive_or_def)

lemma half_positive: "1 \<le> positive_or 1 (go_div m 2)" "0 < m \<Longrightarrow> positive_or 1 (go_div m 2) \<le> m"
  by (auto simp: positive_or_def go_div_nonneg)

lemma empty_brokers_errors: "set (empty_brokers i bs) \<subseteq> range (RequiredIndex ''brokers'')"
  by (induction bs arbitrary: i) auto

definition repaired :: "KafkaOptions \<Rightarrow> bool" where
  "repaired k \<longleftrightarrow> 1 \<le> ko_BatchSize k \<and> 1 \<le> ko_WorkerCount k \<and> 1 \<le> ko_FetcherCount k \<and> 0 \<le> ko_ChannelBufferSize k
     \<and> 0 < ko_ProducerEnqueueTimeout k \<and> 0 < ko_FallbackRetryInterval k \<and> 0 \<le> ko_FallbackRetryBatchSize k
     \<and> 0 \<le> ko_FallbackRetryMaxAttempts k \<and> 1 \<le> ko_BatchCreateParallelism k \<and> 0 \<le> ko_CacheWriteTimeout k
     \<and> 1 \<le> ko_DesiredPartitions k \<and> ko_FetcherCount k \<le> ko_WorkerCount k \<and> ko_FetcherCount k \<le> ko_DesiredPartitions k
     \<and> ko_Brokers k \<noteq> []"

definition batches_repaired :: "KafkaOptions \<Rightarrow> bool" where
  "batches_repaired k \<longleftrightarrow> 1 \<le> ko_BatchChannelCapacity k \<and> 1 \<le> ko_MinDBBatchSize k \<and> ko_MinDBBatchSize k \<le> ko_MaxDBBatchSize k
     \<and> ko_MinBatchTimeout k \<le> ko_MaxBatchTimeout k \<and> ko_MinBatchTimeout k \<le> ko_BatchTimeout k \<and> ko_BatchTimeout k \<le> ko_MaxBatchTimeout k"

definition pending_repaired :: "KafkaOptions \<Rightarrow> bool" where
  "pending_repaired k \<longleftrightarrow> MinUserPendingCreateTTL \<le> ko_PendingLeaseTTL k \<and> ko_PendingMetricsKey k \<noteq> []
     \<and> 0 < ko_PendingBackpressureWindow k \<and> 1 \<le> ko_PendingBackpressureSoft k
     \<and> ko_PendingBackpressureSoft k \<le> ko_PendingBackpressureHard k \<and> 0 < ko_PendingReleaseRetention k
     \<and> 0 < ko_PendingExpiredRetention k \<and> 0 \<le> ko_PendingExpiredGrace k \<and> 0 < ko_PendingDelayElevated k
     \<and> ko_PendingDelayElevated k \<le> ko_PendingDelayElevatedMax k \<and> 0 < ko_PendingDelaySevere k
     \<and> ko_PendingDelaySevere k \<le> ko_PendingDelaySevereMax k"

lemma complete_repaired: "repaired (complete_producer (complete_workers (base_defaults_again (base_defaults k))))"
  by (auto simp: repaired_def complete_producer_def complete_workers_def base_defaults_again_def base_defaults_def
      Let_def positive_or_def at_least_zero_def Second_def Minute_def)

lemma complete_batches_repaired: "repaired k \<Longrightarrow> repaired (complete_batches k) \<and> batches_repaired (complete_batches k)"
proof -
  have "positive_or 1 (go_div m 2) \<le> m" "1 \<le> m" if "m = positive_or 230 (ko_MaxDBBatchSize k)" for m
    using half_positive(2) [of m] positive_or_ge1 [of 230 "ko_MaxDBBatchSize k"] that by auto
  moreover have "1 \<le> positive_or 1024 (ko_BatchChannelCapacity k)" by (rule positive_or_ge1) simp
  ultimately show "repaired k \<Longrightarrow> ?thesis"
    using half_positive(1) by (auto simp: repaired_def batches_repaired_def complete_batches_def Let_def)
qed

lemma complete_pending_repaired:
  "repaired k \<and> batches_repaired k \<Longrightarrow>
    repaired (complete_pending k) \<and> batches_repaired (complete_pending k) \<and> pending_repaired (complete_pending k)"
  by (auto simp: repaired_def batches_repaired_def pending_repaired_def complete_pending_def Let_def positive_or_def
      at_least_zero_def Second_def Millisecond_def Minute_def MinUserPendingCreateTTL_def)

lemma Complete_repaired:
  "repaired (KafkaOptions_Complete e k) \<and> batches_repaired (KafkaOptions_Complete e k) \<and> pending_repaired (KafkaOptions_Complete e k)"
  unfolding KafkaOptions_Complete_def
  by (intro complete_pending_repaired complete_batches_repaired complete_repaired)

lemma set_check: "set (if c then [e] else []) \<subseteq> S \<longleftrightarrow> (c \<longrightarrow> e \<in> S)"
  by (cases c) simp_all

definition remaining_errors :: "option_error set" where
  "remaining_errors = range (RequiredIndex ''brokers'') \<union> {Required ''topic'', TooLong ''topic'', Required ''consumerGroup'',
     Invalid ''requiredAcks'', Invalid ''batchTimeout'', Invalid ''minBatchTimeout'', Invalid ''producerCompression'', Invalid ''sslCertFile''}"

lemma remaining_errorsI:
  "RequiredIndex ''brokers'' i \<in> remaining_errors" "Required ''topic'' \<in> remaining_errors" "TooLong ''topic'' \<in> remaining_errors"
  "Required ''consumerGroup'' \<in> remaining_errors" "Invalid ''requiredAcks'' \<in> remaining_errors"
  "Invalid ''batchTimeout'' \<in> remaining_errors" "Invalid ''minBatchTimeout'' \<in> remaining_errors"
  "Invalid ''producerCompression'' \<in> remaining_errors" "Invalid ''sslCertFile'' \<in> remaining_errors"
  unfolding remaining_errors_def by (intro UnI1 rangeI, (intro UnI2 insertI1 insertI2 | rule insertI1)+)

lemma repaired_errors:
  assumes "repaired k" and "batches_repaired k" and "pending_repaired k"
  shows "set (KafkaOptions_Validate missing k) \<subseteq> remaining_errors"
proof -
  have "set (validate_topics k) \<subseteq> remaining_errors"
    using assms(1) empty_brokers_errors [of 0 "ko_Brokers k"]
    unfolding validate_topics_def set_append Un_subset_iff set_check
    by (auto simp: remaining_errorsI repaired_def simp del: set_append)
  moreover have "set (validate_producer k) \<subseteq> remaining_errors"
    using assms(1,2) unfolding validate_producer_def set_append Un_subset_iff set_check repaired_def batches_repaired_def
    by (simp add: remaining_errorsI)
  moreover have "set (validate_pending missing k) \<subseteq> remaining_errors"
    using assms(1,3) unfolding validate_pending_def set_append Un_subset_iff set_check repaired_def pending_repaired_def
    by (simp add: remaining_errorsI)
  ultimately show ?thesis unfolding KafkaOptions_Validate_def by simp
qed

text \<open>Completion repairs the settings of the message queue: whatever was configured, and whatever the
  environment holds, validation can afterwards only complain about an empty broker, the topic, the consumer
  group, the acknowledgement level, a batch timeout below a millisecond, the compression or a missing
  certificate; and there are no more fetchers than workers or partitions.\<close>

theorem kafka_options_completed:
  "set (KafkaOptions_Validate missing (KafkaOptions_Complete getenv k)) \<subseteq>
     range (RequiredIndex ''brokers'') \<union> {Required ''topic'', TooLong ''topic'', Required ''consumerGroup'', Invalid ''requiredAcks'',
       Invalid ''batchTimeout'', Invalid ''minBatchTimeout'', Invalid ''producerCompression'', Invalid ''sslCertFile''}
   \<and> ko_FetcherCount (KafkaOptions_Complete getenv k) \<le> ko_WorkerCount (KafkaOptions_Complete getenv k)
   \<and> ko_FetcherCount (KafkaOptions_Complete getenv k) \<le> ko_DesiredPartitions (KafkaOptions_Complete getenv k)"
proof -
  have r: "repaired (KafkaOptions_Complete getenv k)" "batches_repaired (KafkaOptions_Complete getenv k)"
    "pending_repaired (KafkaOptions_Complete getenv k)" using Complete_repaired by blast+
  from repaired_errors [OF r] have "set (KafkaOptions_Validate missing (KafkaOptions_Complete getenv k)) \<subseteq> remaining_errors" .
  with r(1) show ?thesis unfolding repaired_def remaining_errors_def by blast
qed

section \<open>A concrete consumer\<close>

text \<open>Times are printed as seconds; the table is a list of rows with unique names and addresses, and deleting
  the user \<open>bad\<close> fails. The body of a message is the name of its user.\<close>

definition demo_text :: clock_text where
  "demo_text = \<lparr>ct_format = \<lambda>t. FormatInt (t div Second), ct_parse = \<lambda>s. map_option (\<lambda>n. n * Second) (ParseInt s), ct_day = \<lambda>t. ''day''\<rparr>"

definition demo_producer :: UserProducer where
  "demo_producer = \<lparr>up_available = True, up_opts = NewKafkaOptions, up_fallbackDir = [], up_text = demo_text,
     up_codec = \<lparr>fc_marshal = \<lambda>e. None, fc_unmarshal = \<lambda>s. None\<rparr>\<rparr>"

definition demo_rows :: "userRowBuffer list UserTable" where
  "demo_rows = \<lparr>ut_core = \<lambda>d. None,
     ut_select = \<lambda>n d. (case find (\<lambda>r. rb_name r = Some n) d of None \<Rightarrow> IterationEnded | Some r \<Rightarrow> RowRead r, d),
     ut_insert = \<lambda>r d. (if \<exists>q\<in>set d. rb_name q = rb_name r \<or> rb_email q = rb_email r then (Some ''Error 1062: Duplicate entry'', d) else (None, d @ [r])),
     ut_update = \<lambda>r v d. (Inr (Inr (length (filter (\<lambda>q. rb_name q = rb_name r \<and> (v = None \<or> v = Some (rb_version q))) d))),
        map (\<lambda>q. if rb_name q = rb_name r \<and> (v = None \<or> v = Some (rb_version q)) then r else q) d),
     ut_delete = \<lambda>n d. (if n = ''bad'' then (Some ''bad connection'', d) else (None, filter (\<lambda>r. rb_name r \<noteq> Some n) d))\<rparr>"

definition demo_user :: "string \<Rightarrow> User" where
  "demo_user n = zero_user\<lparr>om_Name := n, us_Email := ''x@y''\<rparr>"

definition demo_consumer :: "(string \<Rightarrow> User) \<Rightarrow> (ptable, unit, userRowBuffer list) RetryConsumer" where
  "demo_consumer decode = \<lparr>rc_pending = demo_env False name_codec, rc_producer = demo_producer, rc_opts = NewKafkaOptions,
     rc_table = demo_rows, rc_extend = \<lparr>ec_marshal = \<lambda>e. Inr ''{}'', ec_unmarshal = \<lambda>s. Inr None\<rparr>,
     rc_payload = \<lparr>pc_marshal = \<lambda>y. Inr (py_Name y), pc_unmarshal = \<lambda>s. Inl []\<rparr>,
     rc_user = \<lambda>s. Inr (decode s), rc_delete = \<lambda>s. Inr \<lparr>dm_Username = s, dm_DeletedAt = []\<rparr>,
     rc_timed_out = \<lambda>e. False, rc_smembers = \<lambda>now k r. [], rc_rand = \<lambda>n. 0, rc_trace = ''t'', rc_ctx_end = None\<rparr>"

definition demo_world :: "enqueue_event \<Rightarrow> userRowBuffer list \<Rightarrow> (ptable, unit, userRowBuffer list) retry_world" where
  "demo_world ev rows = \<lparr>rw_pending = demo_st [], rw_db = rows,
     rw_queue = \<lparr>io_select = \<lambda>n. ev, io_selects = 0, io_waited = [], io_sent = [], io_disk = \<lambda>n. True, io_disks = 0, io_files = []\<rparr>,
     rw_clock = demo_t0\<rparr>"

definition demo_message :: "string \<Rightarrow> string \<Rightarrow> kafka_Message" where
  "demo_message op body = \<lparr>km_Key = body, km_Value = body, km_Headers = [(HeaderOperation, op), (HeaderNextRetryTS, ''1'')], km_Time = demo_t0\<rparr>"

lemmas demo_consumer_defs = demo_consumer_def demo_world_def demo_message_def demo_rows_def demo_producer_def demo_text_def demo_user_def

lemma demo_counts:
  "retry_count (km_Headers (demo_message op body)) = 0" "rc_maxRetries (demo_consumer dec) = 4"
  "retry_getOperationFromHeaders (km_Headers (demo_message op body)) = op"
  "parseRetryHeaders demo_text now (km_Headers (demo_message op body)) = (0, Second, unknownError)"
proof -
  have p: "ParseInt ''1'' = Some 1" by code_simp
  show "retry_count (km_Headers (demo_message op body)) = 0" "rc_maxRetries (demo_consumer dec) = 4"
    "retry_getOperationFromHeaders (km_Headers (demo_message op body)) = op"
    by (simp_all add: demo_consumer_defs retry_count_def header_defs rc_maxRetries_def NewKafkaOptions_def retry_getOperationFromHeaders_def)
  show "parseRetryHeaders demo_text now (km_Headers (demo_message op body)) = (0, Second, unknownError)"
    by (simp add: demo_message_def demo_text_def header_defs parseRetryHeaders_def IsZero_def zero_time_def p Second_def)
qed

text \<open>Deleting the user \<open>bad\<close> is tried again, or fails when the producer is shutting down.\<close>

definition demo_error :: string where "demo_error = text_error_info @ ''bad connection''"

lemma demo_error_classes:
  "\<not> shouldIgnoreError demo_error" "\<not> shouldGoToDeadLetterImmediately demo_error" "isDBConnectionError demo_error"
  "\<not> isIgnorableDeleteError ''bad connection''" "TrimSpace ''bad'' = ''bad''"
  by code_simp+

lemma demo_delete_bad:
  "processRetryMessage (demo_consumer dec) (demo_message OperationDelete_text ''bad'') w =
    prepareNextRetry (demo_consumer dec) (demo_message OperationDelete_text ''bad'') 0 demo_error w"
  if "rw_db w = []"
proof -
  let ?R = "demo_consumer dec" and ?m = "demo_message OperationDelete_text ''bad''"
  have h: "parseRetryHeaders (rc_text ?R) (rw_clock w) (km_Headers ?m) = (0, Second, unknownError)"
    using demo_counts(4) by (simp add: demo_consumer_def demo_producer_def)
  have v: "km_Value ?m = ''bad''" "rc_delete ?R ''bad'' = Inr \<lparr>dm_Username = ''bad'', dm_DeletedAt = []\<rparr>"
    "rc_table ?R = demo_rows"
    by (simp_all add: demo_message_def demo_consumer_def)
  have l: "loadUserSnapshot ?R ''bad'' [] = (Inr None, [])"
    unfolding loadUserSnapshot_def demo_error_classes(5) Let_def v(3) by (simp add: demo_rows_def)
  have d: "deleteUserFromDB ?R ''bad'' [] = (Some ''bad connection'', [])"
    unfolding deleteUserFromDB_def v(3) by (simp add: demo_rows_def)
  have w: "w\<lparr>rw_db := []\<rparr> = w" using that by simp
  have "processRetryDelete ?R ?m w = handleProcessingError ?R ?m 0 demo_error w"
    unfolding processRetryDelete_def v h on_db_def that
    by (simp add: demo_counts(2) l d w that demo_error_classes(4) demo_error_def Let_def)
  then show ?thesis
    using demo_error_classes(1,2) unfolding processRetryMessage_def demo_counts(3) Let_def
    by (simp add: operation_defs handleProcessingError_def)
qed

text \<open>The delay is half a step of the usual backoff, since the random number is 0.\<close>

lemma demo_delay: "next_retry_delay NewKafkaOptions (\<lambda>n. 0) 0 demo_error = Some (5 * Second, strategy_connection)"
  using demo_error_classes(3)
  by (simp add: next_retry_delay_def retry_base_def NewKafkaOptions_def Let_def go_div_def Second_def wrap64_def)

lemma demo_retried:
  obtains w' m where
    "processRetryMessage (demo_consumer dec) (demo_message OperationDelete_text ''bad'') (demo_world PickSend []) = (Finished None, w')"
    "sent_of w' = [m]" "pm_Topic m = UserOperationRetryTopic"
proof -
  let ?R = "demo_consumer dec" and ?m = "demo_message OperationDelete_text ''bad''" and ?w = "demo_world PickSend []"
  have o: "rc_opts ?R = NewKafkaOptions" "rc_rand ?R = (\<lambda>n. 0)" "up_available (rc_producer ?R)"
    "io_select (rw_queue ?w) n = PickSend" "sent_of ?w = []" for n
    by (simp_all add: demo_consumer_defs)
  obtain r w' where p: "processRetryMessage ?R ?m ?w = (r, w')" by fastforce
  have e: "prepareNextRetry ?R ?m 0 demo_error ?w = (r, w')"
    using p demo_delete_bad [of ?w] by (simp add: demo_world_def)
  have one: "wrap64 1 = 1" by (simp add: wrap64_def)
  obtain km where s: "on_queue (sendToRetryTopic (rc_producer ?R) (rw_clock ?w) (rc_trace ?R) km demo_error) ?w = (r, w')"
    using e unfolding prepareNextRetry_def Let_def o demo_counts(2) by (auto simp: demo_delay one)
  then have "r = Finished None \<and> sent_of w' = [forward_message UserOperationRetryTopic (retry_headers (km_Headers km) demo_error) (rc_trace ?R) km]"
    using o by (auto simp: on_queue_def sendToRetryTopic_def enqueueWithTimeout_def Let_def)
  then show thesis using that p by auto
qed

lemma demo_refused:
  obtains e w' where
    "processRetryMessage (demo_consumer dec) (demo_message OperationDelete_text ''bad'') (demo_world PickShutdown []) = (Finished (Some e), w')"
    "sent_of w' = []" "rw_db w' = []"
proof -
  let ?R = "demo_consumer dec" and ?m = "demo_message OperationDelete_text ''bad''" and ?w = "demo_world PickShutdown []"
  have o: "rc_opts ?R = NewKafkaOptions" "rc_rand ?R = (\<lambda>n. 0)" "up_available (rc_producer ?R)"
    "io_select (rw_queue ?w) n = PickShutdown" "sent_of ?w = []" "rw_db ?w = []" for n
    by (simp_all add: demo_consumer_defs)
  obtain r w' where p: "processRetryMessage ?R ?m ?w = (r, w')" by fastforce
  have e: "prepareNextRetry ?R ?m 0 demo_error ?w = (r, w')"
    using p demo_delete_bad [of ?w] by (simp add: demo_world_def)
  have one: "wrap64 1 = 1" by (simp add: wrap64_def)
  obtain km where s: "on_queue (sendToRetryTopic (rc_producer ?R) (rw_clock ?w) (rc_trace ?R) km demo_error) ?w = (r, w')"
    using e unfolding prepareNextRetry_def Let_def o demo_counts(2) by (auto simp: demo_delay one)
  then have "\<exists>x. r = Finished (Some x)" "sent_of w' = []" "rw_db w' = []"
    using o by (auto simp: on_queue_def sendToRetryTopic_def enqueueWithTimeout_def ctx_ended_def Let_def)
  then show thesis using that p by blast
qed

section \<open>What becomes of a message\<close>

text \<open>C5. Handling a retry message hands at most one message over: with the same key and body, to the dead
  letters, or back to the retry topic; back only below the configured number of attempts, and then its
  count has grown by two, not one.\<close>

theorem retry_message_fate:
  assumes "processRetryMessage R msg w = (r, w')" and "rc_maxRetries R < int64_max"
  shows "sent_of w' = sent_of w \<or>
    (\<exists>m. sent_of w' = sent_of w @ [m] \<and> pm_Key m = Some (km_Key msg) \<and> pm_Value m = km_Value msg
       \<and> (pm_Topic m = UserDeadLetterTopic
          \<or> pm_Topic m = UserOperationRetryTopic \<and> retry_count (km_Headers msg) < rc_maxRetries R
            \<and> retry_count (pm_Headers m) = max 0 (retry_count (km_Headers msg)) + 2))"
proof (cases "sent_of w' = sent_of w")
  case False
  then obtain m where m: "sent_of w' = sent_of w @ [m]" "given_up R msg m \<or> tried_again R msg m"
    using processRetryMessage_handed [OF assms(1)] by (auto simp: handed_over_def)
  show ?thesis
  proof (cases "given_up R msg m")
    case True
    then show ?thesis using m(1) by (auto simp: given_up_def)
  next
    case False
    then have again: "tried_again R msg m" using m(2) by blast
    then have t: "pm_Topic m = UserOperationRetryTopic" "pm_Key m = Some (km_Key msg)" "pm_Value m = km_Value msg"
      by (auto simp: tried_again_def)
    have "requeued R msg (read_back m 0)"
      unfolding requeued_def using assms(1) m(1) t(1) by blast
    then have "retry_count (km_Headers msg) < rc_maxRetries R"
      "retry_count (km_Headers (read_back m 0)) = max 0 (retry_count (km_Headers msg)) + 2"
      using requeued_count assms(2) by blast+
    then show ?thesis using m(1) t by (auto simp: read_back_def)
  qed
qed simp

theorem retry_message_fate_witness:
  "\<exists>w' m. processRetryMessage (demo_consumer demo_user) (demo_message OperationDelete_text ''bad'') (demo_world PickSend []) = (Finished None, w')
     \<and> sent_of w' = [m] \<and> retry_count (pm_Headers m) = 2"
proof -
  obtain w' m where w': "processRetryMessage (demo_consumer demo_user) (demo_message OperationDelete_text ''bad'') (demo_world PickSend []) = (Finished None, w')"
    "sent_of w' = [m]" "pm_Topic m = UserOperationRetryTopic" by (rule demo_retried)
  have "sent_of (demo_world PickSend []) = []" "UserOperationRetryTopic \<noteq> UserDeadLetterTopic"
    by (simp_all add: demo_world_def topic_defs)
  then have "retry_count (pm_Headers m) = 2"
    using retry_message_fate [OF w'(1)] w'(2,3) by (auto simp: demo_counts int64_max_def)
  then show ?thesis using w' by blast
qed



text \<open>A message that could be neither handled nor handed over is lost when a later one of the partition is
  handled and committed: the worker has gone on without committing it, the commit covers it, and no
  worker ever receives it again, not even after a restart.\<close>

theorem failed_message_skipped:
  assumes "processRetryMessage R (rg_log g ! i) w = (Finished (Some e), w1)"
    and "processRetryMessage R (rg_log g ! j) w1 = (Finished None, w2)"
    and "i \<in> set (rg_busy g)" and "j \<in> set (rg_busy g)" and "i < j" and "group_ok g"
  shows "\<exists>g1 g2. group_step R (g, w) (g1, w1) \<and> group_step R (g1, w1) (g2, w2) \<and> rg_log g2 = rg_log g
    \<and> (\<forall>g3 w3. group_run R (g2, w2) (g3, w3) \<longrightarrow> i \<notin> set (rg_busy g3))"
proof -
  define g1 where "g1 = g\<lparr>rg_busy := removeAll i (rg_busy g)\<rparr>"
  define g2 where "g2 = g1\<lparr>rg_busy := removeAll j (rg_busy g1), rg_committed := if fst (commitWithRetry (\<lambda>n. True)) then max (rg_committed g1) (j + 1) else rg_committed g1\<rparr>"
  have s1: "group_step R (g, w) (g1, w1)"
    unfolding g1_def by (rule group_step.failed [OF assms(3,1)])
  have "j \<in> set (rg_busy g1)" "rg_log g1 = rg_log g" using assms(4,5) by (simp_all add: g1_def)
  then have s2: "group_step R (g1, w1) (g2, w2)"
    unfolding g2_def using assms(2) by (intro group_step.handled) simp_all
  have ok: "group_ok g2" using group_step_ok [OF s2] group_step_ok [OF s1] assms(6) by simp
  have "passed i g2" using assms(5) by (simp add: passed_def g2_def g1_def commitWithRetry_iff)
  then have "i \<notin> set (rg_busy g3)" if "group_run R (g2, w2) (g3, w3)" for g3 w3
    using group_run_passed [OF that] ok by (simp add: passed_def)
  moreover have "rg_log g2 = rg_log g" by (simp add: g2_def g1_def)
  ultimately show ?thesis using s1 s2 by blast
qed

lemma demo_delete_other:
  assumes "rw_db w = []"
  obtains w' where "processRetryMessage (demo_consumer dec) (demo_message OperationDelete_text ''ann'') w = (Finished None, w')"
proof -
  let ?R = "demo_consumer dec" and ?m = "demo_message OperationDelete_text ''ann''"
  have h: "parseRetryHeaders (rc_text ?R) (rw_clock w) (km_Headers ?m) = (0, Second, unknownError)"
    using demo_counts(4) by (simp add: demo_consumer_def demo_producer_def)
  have v: "km_Value ?m = ''ann''" "rc_delete ?R ''ann'' = Inr \<lparr>dm_Username = ''ann'', dm_DeletedAt = []\<rparr>" "rc_table ?R = demo_rows"
    by (simp_all add: demo_message_def demo_consumer_def)
  have "TrimSpace ''ann'' = ''ann''" by code_simp
  then have l: "loadUserSnapshot ?R ''ann'' [] = (Inr None, [])"
    unfolding loadUserSnapshot_def v(3) Let_def by (simp add: demo_rows_def)
  have d: "deleteUserFromDB ?R ''ann'' [] = (None, [])"
    unfolding deleteUserFromDB_def v(3) by (simp add: demo_rows_def)
  have w: "w\<lparr>rw_db := []\<rparr> = w" using assms by simp
  have "fst (processRetryDelete ?R ?m w) = Finished None"
    unfolding processRetryDelete_def v h on_db_def assms by (simp add: demo_counts(2) l d w assms Let_def)
  then show thesis using that
    by (cases "processRetryDelete ?R ?m w") (simp add: processRetryMessage_def demo_counts(3) Let_def operation_defs)
qed

theorem failed_message_skipped_witness:
  "\<exists>w1 w2 g2 :: retry_group. \<not> group_run (demo_consumer demo_user) (g2, w2)
     (\<lparr>rg_log = [demo_message OperationDelete_text ''bad'', demo_message OperationDelete_text ''ann''], rg_next = 2, rg_committed = 0, rg_busy = [0, 1]\<rparr>, w1)"
proof -
  let ?R = "demo_consumer demo_user"
  let ?g = "\<lparr>rg_log = [demo_message OperationDelete_text ''bad'', demo_message OperationDelete_text ''ann''], rg_next = 2, rg_committed = 0, rg_busy = [0, 1]\<rparr>"
  obtain e w1 where a: "processRetryMessage ?R (demo_message OperationDelete_text ''bad'') (demo_world PickShutdown []) = (Finished (Some e), w1)"
    "sent_of w1 = []" "rw_db w1 = []" by (rule demo_refused)
  obtain w2 where b: "processRetryMessage ?R (demo_message OperationDelete_text ''ann'') w1 = (Finished None, w2)"
    using demo_delete_other [OF a(3)] by blast
  have "group_ok ?g" by (simp add: group_ok_def)
  then obtain g1 g2 where "group_run ?R (g2, w2) (g3, w3) \<Longrightarrow> 0 \<notin> set (rg_busy g3)" for g3 w3
    using failed_message_skipped [of ?R ?g 0 "demo_world PickShutdown []" e w1 1 w2] a(1) b by auto
  from this [of ?g w1] have "\<not> group_run ?R (g2, w2) (?g, w1)" by auto
  then show ?thesis by blast
qed

section \<open>Updates and the extension fields\<close>

text \<open>Neither the row nor the message has an extension: the merged user has none.\<close>

lemma merged_no_extension:
  assumes "us_Patch u = Some p" and "up_Extend p = None" and "up_Metadata p = None"
    and "om_Extend u = None" and "om_ExtendShadow u = []" and "om_Extend ex = None" and "om_ExtendShadow ex = []"
  shows "om_Extend (merged_user R UserUpdateCommandPatch u ex) = None"
    "om_ExtendShadow (merged_user R UserUpdateCommandPatch u ex) = []"
  using assms by (simp_all add: merged_user_def Let_def patch_Apply_def UserUpdateCommandFull_def UserUpdateCommandPatch_def)

lemma normalized_fields [simp]:
  "om_Name (normalized u) = om_Name u" "om_Extend (normalized u) = om_Extend u" "om_ExtendShadow (normalized u) = om_ExtendShadow u"
  "us_Patch (normalized u) = us_Patch u" "us_Command (normalized u) = us_Command u"
  "us_ExpectedVersion (normalized u) = us_ExpectedVersion u" "om_Version (normalized u) = om_Version u"
  by (simp_all add: normalized_def)

text \<open>A patch that does not mention the extension fields still erases them when it is handled as a retry:
  whatever extension the row holds, the snapshot is read without that column, and the update
  writes an empty object there.\<close>

theorem retry_update_drops_extension:
  assumes "rc_user R (km_Value msg) = Inr u" and "retry_getOperationFromHeaders (km_Headers msg) = OperationUpdate_text"
    and "us_Command u = UserUpdateCommandPatch" and "us_ExpectedVersion u = None"
    and "us_Patch u = Some p" and "up_Extend p = None" and "up_Metadata p = None"
    and "om_Extend u = None" and "om_ExtendShadow u = []"
    and "retry_count (km_Headers msg) < rc_maxRetries R"
    and "TrimSpace (om_Name u) \<noteq> []" and "ut_core (rc_table R) = (\<lambda>d. None)"
    and "ut_select (rc_table R) (TrimSpace (om_Name u)) (rw_db w) = (RowRead row, d1)"
    and "ec_marshal (rc_extend R) [] = Inr ''{}''"
    and "\<And>cols. \<exists>n d2. ut_update (rc_table R) cols (Some (rb_version row)) d1 = (Inr (Inr (Suc n)), d2)"
  shows "\<exists>cols w'. processRetryMessage R msg w = (Finished None, w') \<and> rb_extend cols = Some ''{}''
    \<and> rw_db w' = snd (ut_update (rc_table R) cols (Some (rb_version row)) d1)"
proof -
  let ?u = "normalized u" and ?ex = "materializeUser (rc_extend R) row scanModeAuth"
  obtain n t e where h: "parseRetryHeaders (rc_text R) (rw_clock w) (km_Headers msg) = (n, t, e)" by (metis prod_cases3)
  have n: "n < rc_maxRetries R" using parseRetryHeaders_count [OF h] assms(10) by simp
  define w1 where "w1 = w\<lparr>rw_clock := max (rw_clock w) t, rw_db := d1\<rparr>"
  have patch_cmd: "TrimSpace UserUpdateCommandPatch = UserUpdateCommandPatch" "UserUpdateCommandPatch \<noteq> UserUpdateCommandBatch" "UserUpdateCommandPatch \<noteq> []"
    by code_simp+
  have load: "on_db (loadUserSnapshot R (om_Name u)) (w\<lparr>rw_clock := max (rw_clock w) t\<rparr>) = (Inr (Some ?ex), w1)"
    using assms(11,12,13) by (simp add: on_db_def loadUserSnapshot_def Let_def w1_def)
  have v: "om_Version ?ex = rb_version row" by (simp add: materializeUser_def Let_def zero_user_def)
  let ?m = "merged_user R UserUpdateCommandPatch ?u ?ex"
  have none: "om_Extend ?m = None" "om_ExtendShadow ?m = []"
    using merged_no_extension [of ?u p ?ex R] assms(5-9) by (simp_all add: materialize_auth_extend)
  define m1 where "m1 = ?m\<lparr>om_Extend := Some [], om_ExtendShadow := ''{}'', om_UpdatedAt := rw_clock w1, om_Version := om_Version ?ex + 1\<rparr>"
  have shadow: "EnsureExtendShadow (rc_extend R) ?m = Inr (?m\<lparr>om_Extend := Some [], om_ExtendShadow := ''{}''\<rparr>)"
    using none assms(14) by (simp add: EnsureExtendShadow_def Let_def)
  let ?cols = "user_row (normalized m1)"
  obtain k d2 where upd: "ut_update (rc_table R) ?cols (Some (rb_version row)) d1 = (Inr (Inr (Suc k)), d2)" using assms(15) by blast
  have braces: "TrimSpace ''{}'' \<noteq> []" by code_simp
  have up: "on_db (updateUserInDB R m1 (Some (rb_version row))) w1 = (Inr (normalized m1), w1\<lparr>rw_db := d2\<rparr>)"
  proof -
    have s: "om_ExtendShadow m1 = ''{}''" by (simp add: m1_def)
    have "rw_db w1 = d1" by (simp add: w1_def)
    then show ?thesis
      by (simp add: on_db_def updateUserInDB_def Let_def s braces assms(12) upd)
  qed
  have app: "apply_update R msg n UserUpdateCommandPatch ?u ?ex w1
      = (Finished None, set_copies R (normalized m1) (Some ?ex) (w1\<lparr>rw_db := d2\<rparr>))"
    using up assms(4) by (simp add: apply_update_def shadow expected_version_def Let_def v m1_def)
  have "processRetryMessage R msg w = (Finished None, set_copies R (normalized m1) (Some ?ex) (w1\<lparr>rw_db := d2\<rparr>))"
  proof -
    have "processRetryUpdate R msg w = apply_update R msg n UserUpdateCommandPatch ?u ?ex w1"
      using n patch_cmd by (simp add: processRetryUpdate_def assms(1,3) h Let_def load)
    then show ?thesis using app by (simp add: processRetryMessage_def Let_def assms(2) operation_defs)
  qed
  moreover have "rw_db (set_copies R (normalized m1) (Some ?ex) (w1\<lparr>rw_db := d2\<rparr>)) = d2"
    by (simp add: set_copies_def on_cache_def split: prod.splits)
  moreover have "rb_extend ?cols = Some ''{}''" by (simp add: user_row_def m1_def)
  ultimately show ?thesis using upd by (intro exI [of _ ?cols]) auto
qed

definition demo_patch :: UserPatchSpec where
  "demo_patch = \<lparr>up_Status = Some 1, up_Nickname = None, up_Email = None, up_Phone = None, up_IsAdmin = None, up_LoginedAt = None,
     up_Password = None, up_Extend = None, up_Metadata = None\<rparr>"

definition demo_row :: userRowBuffer where
  "demo_row = (user_row (demo_user ''ann''))\<lparr>rb_extend := Some ''stored''\<rparr>"

theorem retry_update_drops_extension_witness:
  "\<exists>w' cols. processRetryMessage
      ((demo_consumer (\<lambda>n. (demo_user n)\<lparr>us_Command := UserUpdateCommandPatch, us_Patch := Some demo_patch\<rparr>))
        \<lparr>rc_table := demo_rows\<lparr>ut_update := \<lambda>r v d. (Inr (Inr 1), [r])\<rparr>\<rparr>)
      (demo_message OperationUpdate_text ''ann'') (demo_world PickSend [demo_row]) = (Finished None, w')
    \<and> rw_db w' = [cols] \<and> rb_extend demo_row = Some ''stored'' \<and> rb_extend cols = Some ''{}''"
proof -
  let ?dec = "\<lambda>n. (demo_user n)\<lparr>us_Command := UserUpdateCommandPatch, us_Patch := Some demo_patch\<rparr>"
  let ?R = "(demo_consumer ?dec)\<lparr>rc_table := demo_rows\<lparr>ut_update := \<lambda>r v d. (Inr (Inr 1), [r])\<rparr>\<rparr>"
  let ?m = "demo_message OperationUpdate_text ''ann''" and ?w = "demo_world PickSend [demo_row]"
  have tr: "TrimSpace ''ann'' = ''ann''" by code_simp
  have max: "rc_maxRetries ?R = 4" using demo_counts(2) [of ?dec] by (simp add: rc_maxRetries_def)
  have row: "rb_name demo_row = Some ''ann''" "rb_extend demo_row = Some ''stored''"
    by (simp_all add: demo_row_def user_row_def demo_user_def)
  have "\<exists>cols w'. processRetryMessage ?R ?m ?w = (Finished None, w') \<and> rb_extend cols = Some ''{}''
      \<and> rw_db w' = snd (ut_update (rc_table ?R) cols (Some (rb_version demo_row)) [demo_row])"
  proof (rule retry_update_drops_extension [where u = "?dec ''ann''" and p = demo_patch])
    show "retry_getOperationFromHeaders (km_Headers ?m) = OperationUpdate_text" by (rule demo_counts)
    show "retry_count (km_Headers ?m) < rc_maxRetries ?R" unfolding max demo_counts by simp
    show "ut_select (rc_table ?R) (TrimSpace (om_Name (?dec ''ann''))) (rw_db ?w) = (RowRead demo_row, [demo_row])"
      by (simp add: demo_user_def tr demo_rows_def demo_world_def row)
    show "rc_user ?R (km_Value ?m) = Inr (?dec ''ann'')" by (simp add: demo_consumer_def demo_message_def)
    show "TrimSpace (om_Name (?dec ''ann'')) \<noteq> []" by (simp add: demo_user_def tr)
    show "ec_marshal (rc_extend ?R) [] = Inr ''{}''" by (simp add: demo_consumer_def)
    show "ut_core (rc_table ?R) = (\<lambda>d. None)" by (simp add: demo_rows_def)
    show "\<exists>n d2. ut_update (rc_table ?R) cols (Some (rb_version demo_row)) [demo_row] = (Inr (Inr (Suc n)), d2)" for cols by simp
  qed (simp_all add: demo_patch_def demo_user_def zero_user_def)
  then show ?thesis using row(2) by auto
qed

section \<open>Duplicates\<close>

lemma set_reached:
  assumes "server_laws S view" and "server_up S"
  obtains r' where "SetKeyWithCommandTimeout S pfx now k v ttl r = (Inr (), r')"
    "view r' = (view r)(fixKey pfx k \<mapsto> kv_entry now v ttl)"
proof -
  obtain r1 where t: "sv_trip S r = (Reached, r1)" using assms(2) by (metis server_up_def prod.collapse)
  have "view r1 = view r" using assms(1) t unfolding server_laws_def key_laws_def by (metis snd_conv)
  then show thesis
    using that [of "sv_SET S now (fixKey pfx k) v ttl r1"] t assms
    by (simp add: SetKeyWithCommandTimeout_def send_def server_up_def server_laws_def value_laws_def)
qed

definition write_item :: "string \<Rightarrow> instant \<Rightarrow> kview \<Rightarrow> KeyValueTTL \<Rightarrow> kview" where
  "write_item pfx now m i = m(fixKey pfx (kv_Key i) \<mapsto> kv_entry now (kv_Value i) (kv_TTL i))"

lemma pipeline_sets:
  assumes "server_laws S view" and "server_up S"
  obtains r' where
    "pipeline (map (\<lambda>i. SetKeyWithCommandTimeout S pfx now (kv_Key i) (kv_Value i) (kv_TTL i)) items) r = (None, r')"
    "view r' = foldl (write_item pfx now) (view r) items"
proof (induction items arbitrary: r thesis)
  case (Cons i items)
  obtain r1 where r1: "SetKeyWithCommandTimeout S pfx now (kv_Key i) (kv_Value i) (kv_TTL i) r = (Inr (), r1)"
    "view r1 = (view r)(fixKey pfx (kv_Key i) \<mapsto> kv_entry now (kv_Value i) (kv_TTL i))"
    using set_reached [OF assms] by blast
  obtain r2 where "pipeline (map (\<lambda>i. SetKeyWithCommandTimeout S pfx now (kv_Key i) (kv_Value i) (kv_TTL i)) items) r1 = (None, r2)"
    "view r2 = foldl (write_item pfx now) (view r1) items"
    using Cons.IH by blast
  moreover have "(view r)(fixKey pfx (kv_Key i) \<mapsto> kv_entry now (kv_Value i) (kv_TTL i)) = write_item pfx now (view r) i"
    by (simp only: write_item_def)
  ultimately show ?case using Cons.prems [of r2] r1 by simp
qed simp

lemma foldl_upd_other:
  "k \<notin> (\<lambda>i. fixKey pfx (kv_Key i)) ` set items \<Longrightarrow>
    foldl (write_item pfx now) m items k = m k"
  by (induction items arbitrary: m) (auto simp: write_item_def)

text \<open>Writing the copies of a user nobody has cached: the copy lasts a day, when no contact key is its key.\<close>

lemma retry_copies_written:
  assumes "server_laws S view" and "server_up S" and "\<not> ko_SkipCacheWrite k" and "payload_Marshal C u = Inr body"
    and "UserKey (om_Name u) \<notin> kv_Key ` set (buildContactCacheItems u)"
  shows "view (snd (retry_setUserCache S pfx C td (Some k) now u None r)) (fixKey pfx (UserKey (om_Name u)))
    = Some (kv_entry now body (24 * Hour))"
proof -
  let ?main = "\<lparr>kv_Key = UserKey (om_Name u), kv_Value = body, kv_TTL = 24 * Hour\<rparr>"
  let ?items = "?main # buildContactCacheItems u"
  have key: "UserKey (om_Name u) \<noteq> []" by (simp add: UserKey_def userPrefix_def)
  have contact: "\<forall>i\<in>set (buildContactCacheItems u). kv_Key i \<noteq> []" by (auto simp: buildContactCacheItems_def)
  have batch: "\<exists>r'. write_items S pfx now ?items r = (None, r') \<and>
      view r' (fixKey pfx (UserKey (om_Name u))) = Some (kv_entry now body (24 * Hour))"
  proof (cases "buildContactCacheItems u")
    case Nil
    obtain r' where "SetKeyWithCommandTimeout S pfx now (UserKey (om_Name u)) body (24 * Hour) r = (Inr (), r')"
      "view r' = (view r)(fixKey pfx (UserKey (om_Name u)) \<mapsto> kv_entry now body (24 * Hour))"
      using set_reached [OF assms(1,2)] by blast
    then show ?thesis by (simp add: write_items_def Nil cache_SetKey_def err_of_def)
  next
    case (Cons i js)
    obtain r' where p: "pipeline (map (\<lambda>i. SetKeyWithCommandTimeout S pfx now (kv_Key i) (kv_Value i) (kv_TTL i)) ?items) r = (None, r')"
      "view r' = foldl (write_item pfx now) (view r) ?items"
      using pipeline_sets [OF assms(1,2)] by blast
    have "filter (\<lambda>i. kv_Key i \<noteq> []) ?items = ?items" using contact key by (auto intro: filter_True)
    then have "write_items S pfx now ?items r = (None, r')"
      using p(1) assms(2) by (simp add: write_items_def Cons BatchSet_def server_up_def)
    moreover have "fixKey pfx (UserKey (om_Name u)) \<notin> (\<lambda>i. fixKey pfx (kv_Key i)) ` set (buildContactCacheItems u)"
      using assms(5) by (auto simp: fixKey_def)
    ultimately show ?thesis using p(2) by (auto simp: foldl_upd_other write_item_def)
  qed
  then obtain r' where "write_items S pfx now ?items r = (None, r')"
    "view r' (fixKey pfx (UserKey (om_Name u))) = Some (kv_entry now body (24 * Hour))" by blast
  then show ?thesis
    by (simp add: retry_setUserCache_def user_item_def key assms(4) contact_changed_def cacheWriteDisabled_def assms(3) Let_def)
qed

lemma user_key_no_contact:
  assumes "\<not> HasPrefix n ''email:''" and "\<not> HasPrefix n ''phone:''"
  shows "UserKey n \<notin> kv_Key ` set (buildContactCacheItems u)"
  using assms
  by (auto simp: buildContactCacheItems_def UserKey_def EmailKey_def PhoneKey_def userPrefix_def emailPrefix_def phonePrefix_def
      HasPrefix_def Let_def split: if_splits)

text \<open>A creation that fails on a duplicate key counts as done, even when the key is the address of
  somebody else: no row of that name exists, and yet for a day the cache answers for that name with the
  user, including the password, of the message.\<close>

theorem phantom_user_cached:
  assumes "pe_redis (rc_pending R) = Some (S, pfx)" and "server_laws S view" and "server_up S"
    and "rc_user R (km_Value msg) = Inr u" and "retry_getOperationFromHeaders (km_Headers msg) = OperationCreate_text"
    and "parseRetryHeaders (rc_text R) (rw_clock w) (km_Headers msg) = (n, t, e)" and "n < rc_maxRetries R" and "t \<le> rw_clock w"
    and "TrimSpace (om_Name u) \<noteq> []" and "\<not> HasPrefix (om_Name u) ''email:''" and "\<not> HasPrefix (om_Name u) ''phone:''"
    and "ut_core (rc_table R) = (\<lambda>d. None)" and "ut_select (rc_table R) (TrimSpace (om_Name u)) (rw_db w) = (IterationEnded, d1)"
    and "\<And>cols. rb_email cols = Some (NormalizeEmail (NormalizeEmail (us_Email u))) \<Longrightarrow>
      \<exists>err. ut_insert (rc_table R) cols d1 = (Some err, d1) \<and> isDuplicateKeyError err"
    and "\<not> ko_SkipCacheWrite (rc_opts R)" and "\<And>y. pc_marshal (rc_payload R) y = Inr (body y)"
  shows "\<exists>w' y. processRetryMessage R msg w = (Finished None, w') \<and> rw_db w' = d1
    \<and> py_Name y = om_Name u \<and> py_Password y = us_Password u
    \<and> view (pd_redis (rw_pending w')) (fixKey pfx (UserKey (om_Name u))) = Some (body y, Some (rw_clock w + 24 * Hour))"
proof -
  define w1 where "w1 = w\<lparr>rw_db := d1\<rparr>"
  have load: "on_db (loadUserSnapshot R (om_Name u)) w = (Inr None, w1)"
    using assms(9,12,13) by (simp add: on_db_def loadUserSnapshot_def Let_def w1_def)
  define v where "v = (if om_Version u = 0 then 1 else om_Version u)"
  define u2 where "u2 = (normalized (normalized u))\<lparr>om_CreatedAt := rw_clock w, om_UpdatedAt := rw_clock w, om_Version := v\<rparr>"
  have clock: "rw_clock w1 = rw_clock w" "rw_db w1 = d1" by (simp_all add: w1_def)
  have email: "rb_email (user_row u2) = Some (NormalizeEmail (NormalizeEmail (us_Email u)))"
    by (simp add: user_row_def u2_def normalized_def)
  have create: "on_db (createUserInDB R (rw_clock w1) (normalized u)) w1 = (Inr u2, w1)"
    using assms(14) [of "(user_row u2)\<lparr>rb_loginedAt := None\<rparr>"] email
    by (auto simp: on_db_def createUserInDB_def Let_def assms(12) u2_def v_def clock w1_def)
  define w2 where "w2 = set_copies R u2 None w1"
  have "processRetryCreate R msg w = (Finished None, w2)"
    using assms(7,8) create by (simp add: processRetryCreate_def assms(4,6) load wait_until_def time_Before_def clock w2_def)
  then have run: "processRetryMessage R msg w = (Finished None, w2)"
    by (simp add: processRetryMessage_def Let_def assms(5))
  have srv: "server_of (rc_pending R) = (S, pfx)" by (simp add: server_of_def assms(1))
  have name: "om_Name u2 = om_Name u" "us_Password u2 = us_Password u" by (simp_all add: u2_def normalized_def)
  have "payload_Marshal (rc_payload R) u2 = Inr (body (FromUser u2))" by (simp add: payload_Marshal_def assms(16))
  from retry_copies_written [OF assms(2,3,15) this, of pfx "rc_timed_out R" "rw_clock w" "pd_redis (rw_pending w)"]
  have "view (pd_redis (rw_pending w2)) (fixKey pfx (UserKey (om_Name u))) = Some (kv_entry (rw_clock w) (body (FromUser u2)) (24 * Hour))"
    using user_key_no_contact [OF assms(10,11)] name
    by (simp add: w2_def set_copies_def on_cache_def on_redis_def srv w1_def case_prod_beta)
  moreover have "rw_db w2 = d1"
    by (simp add: w2_def set_copies_def on_cache_def w1_def split: prod.splits)
  moreover have "py_Name (FromUser u2) = om_Name u" "py_Password (FromUser u2) = us_Password u"
    by (simp_all add: FromUser_def name)
  ultimately show ?thesis using run by (auto simp: kv_entry_def Hour_def)
qed

theorem phantom_user_cached_witness:
  "\<exists>w' (y :: Payload). processRetryMessage (demo_consumer demo_user) (demo_message OperationCreate_text ''bob'') (demo_world PickSend [demo_row]) = (Finished None, w')
    \<and> rw_db w' = [demo_row] \<and> rb_name demo_row = Some ''ann'' \<and> py_Name y = ''bob''
    \<and> pt_view (pd_redis (rw_pending w')) ''iam:user:bob'' = Some (''bob'', Some (demo_t0 + 24 * Hour))"
proof -
  let ?R = "demo_consumer demo_user" and ?m = "demo_message OperationCreate_text ''bob''" and ?w = "demo_world PickSend [demo_row]"
  have tr: "TrimSpace ''bob'' = ''bob''" "NormalizeEmail ''x@y'' = ''x@y''" "isDuplicateKeyError ''Error 1062: Duplicate entry''"
    "\<not> HasPrefix ''bob'' ''email:''" "\<not> HasPrefix ''bob'' ''phone:''" "fixKey ''iam:'' (UserKey ''bob'') = ''iam:user:bob''"
    by code_simp+
  have row: "rb_name demo_row = Some ''ann''" "rb_email demo_row = Some ''x@y''"
    by (simp_all add: demo_row_def user_row_def demo_user_def)
  have p: "parseRetryHeaders (rc_text ?R) (rw_clock ?w) (km_Headers ?m) = (0, Second, unknownError)"
    using demo_counts(4) by (simp add: demo_consumer_def demo_producer_def)
  have "\<exists>w' (y :: Payload). processRetryMessage ?R ?m ?w = (Finished None, w') \<and> rw_db w' = [demo_row]
    \<and> py_Name y = om_Name (demo_user ''bob'') \<and> py_Password y = us_Password (demo_user ''bob'')
    \<and> pt_view (pd_redis (rw_pending w')) (fixKey ''iam:'' (UserKey (om_Name (demo_user ''bob'')))) = Some (py_Name y, Some (rw_clock ?w + 24 * Hour))"
  proof (rule phantom_user_cached [where S = "table_server False False" and pfx = "''iam:''" and view = pt_view and u = "demo_user ''bob''" and body = py_Name and n = 0 and t = Second and e = unknownError])
    show "rc_user ?R (km_Value ?m) = Inr (demo_user ''bob'')" by (simp add: demo_consumer_def demo_message_def)
    show "retry_getOperationFromHeaders (km_Headers ?m) = OperationCreate_text" by (rule demo_counts)
    show "parseRetryHeaders (rc_text ?R) (rw_clock ?w) (km_Headers ?m) = (0, Second, unknownError)" by (rule p)
    show "0 < rc_maxRetries ?R" unfolding demo_counts by simp
    show "Second \<le> rw_clock ?w" by (simp add: demo_world_def demo_t0_def Second_def)
    show "ut_select (rc_table ?R) (TrimSpace (om_Name (demo_user ''bob''))) (rw_db ?w) = (IterationEnded, [demo_row])"
      by (simp add: demo_user_def tr demo_consumer_def demo_rows_def demo_world_def row)
    show "\<exists>err. ut_insert (rc_table ?R) cols [demo_row] = (Some err, [demo_row]) \<and> isDuplicateKeyError err"
      if "rb_email cols = Some (NormalizeEmail (NormalizeEmail (us_Email (demo_user ''bob''))))" for cols
      using that tr by (simp add: demo_user_def demo_consumer_def demo_rows_def row)
    show "\<not> ko_SkipCacheWrite (rc_opts ?R)" by (simp add: demo_consumer_def NewKafkaOptions_def)
    show "pe_redis (rc_pending ?R) = Some (table_server False False, ''iam:'')" by (simp add: demo_consumer_def demo_env_def)
    show "ut_core (rc_table ?R) = (\<lambda>d. None)" by (simp add: demo_consumer_def demo_rows_def)
    show "pc_marshal (rc_payload ?R) y = Inr (py_Name y)" for y by (simp add: demo_consumer_def)
  qed (simp_all add: table_server_laws table_up demo_user_def tr)
  then show ?thesis using row(1) tr(6) by (auto simp: demo_user_def demo_world_def)
qed

end
