(* ===== verification/ConsumerErrors.thy ===== *)
theory ConsumerErrors
  imports RetryConsumer
begin

text \<open>
  Errors of the main consumer (internal/pkg/server/consumer.go; the check of a user's fields in
  nexuscore/component-base/validation/user_fields.go): the texts they carry, the errors of the database
  and of a handler, which of them are tried again, and the waits in between. An error of the driver is its
  text, and a function reads the number of a MySQL error off it. An error with a code prints its code.
\<close>

section \<open>Texts\<close>

definition text_producer_missing :: string where
  "text_producer_missing = ''producer'' @ bytes [0xE6, 0x9C, 0xAA, 0xE5, 0x88, 0x9D, 0xE5, 0xA7, 0x8B, 0xE5, 0x8C,
     0x96]"

definition text_unknown_operation :: string where
  "text_unknown_operation = bytes [0xE6, 0x9C, 0xAA, 0xE7, 0x9F, 0xA5, 0xE6, 0x93, 0x8D, 0xE4, 0xBD, 0x9C, 0xE7, 0xB1,
     0xBB, 0xE5, 0x9E, 0x8B] @ '': ''"

definition text_db_connect :: string where
  "text_db_connect = bytes [0xE8, 0x8E, 0xB7, 0xE5, 0x8F, 0x96, 0xE6, 0x95, 0xB0, 0xE6, 0x8D, 0xAE, 0xE5, 0xBA, 0x93,
     0xE8, 0xBF, 0x9E, 0xE6, 0x8E, 0xA5, 0xE5, 0xA4, 0xB1, 0xE8, 0xB4, 0xA5] @ '': ''"

definition text_create_failed :: string where
  "text_create_failed = bytes [0xE6, 0x95, 0xB0, 0xE6, 0x8D, 0xAE, 0xE5, 0x88, 0x9B, 0xE5, 0xBB, 0xBA, 0xE5, 0xA4,
     0xB1, 0xE8, 0xB4, 0xA5] @ '': ''"

definition text_db_update_failed :: string where
  "text_db_update_failed = bytes [0xE6, 0x95, 0xB0, 0xE6, 0x8D, 0xAE, 0xE5, 0xBA, 0x93, 0xE6, 0x9B, 0xB4, 0xE6, 0x96,
     0xB0, 0xE5, 0xA4, 0xB1, 0xE8, 0xB4, 0xA5] @ '': ''"

definition text_rows_failed :: string where
  "text_rows_failed = bytes [0xE8, 0x8E, 0xB7, 0xE5, 0x8F, 0x96, 0xE6, 0x9B, 0xB4, 0xE6, 0x96, 0xB0, 0xE5, 0xBD, 0xB1,
     0xE5, 0x93, 0x8D, 0xE8, 0xA1, 0x8C, 0xE6, 0x95, 0xB0, 0xE5, 0xA4, 0xB1, 0xE8, 0xB4, 0xA5] @ '': ''"

definition text_user_missing :: string where
  "text_user_missing = ''[code: 110001] '' @ bytes [0xE7, 0x94, 0xA8, 0xE6, 0x88, 0xB7, 0xE6, 0xB2, 0xA1, 0xE6, 0x9C,
     0x89, 0xE5, 0x8F, 0x91, 0xE7, 0x8E, 0xB0]"

definition text_delete_failed :: string where
  "text_delete_failed = bytes [0xE5, 0x88, 0xA0, 0xE9, 0x99, 0xA4, 0xE7, 0x94, 0xA8, 0xE6, 0x88, 0xB7, 0xE5, 0xA4,
     0xB1, 0xE8, 0xB4, 0xA5] @ '': ''"

definition text_update_failed :: string where
  "text_update_failed = bytes [0xE6, 0x9B, 0xB4, 0xE6, 0x96, 0xB0, 0xE7, 0x94, 0xA8, 0xE6, 0x88, 0xB7, 0xE5, 0xA4,
     0xB1, 0xE8, 0xB4, 0xA5] @ '': ''"

definition text_batch_query :: string where
  "text_batch_query = bytes [0xE6, 0x9F, 0xA5, 0xE8, 0xAF, 0xA2, 0xE6, 0x89, 0xB9, 0xE9, 0x87, 0x8F, 0xE6, 0x9B, 0xB4,
     0xE6, 0x96, 0xB0, 0xE7, 0x9B, 0xAE, 0xE6, 0xA0, 0x87, 0xE5, 0xA4, 0xB1, 0xE8, 0xB4, 0xA5] @ '': ''"

definition text_batch_failed :: string where
  "text_batch_failed = bytes [0xE6, 0x89, 0xB9, 0xE9, 0x87, 0x8F, 0xE6, 0x9B, 0xB4, 0xE6, 0x96, 0xB0, 0xE5, 0xA4,
     0xB1, 0xE8, 0xB4, 0xA5] @ '': ''"

definition text_reload_failed :: string where
  "text_reload_failed = bytes [0xE6, 0x89, 0xB9, 0xE9, 0x87, 0x8F, 0xE6, 0x9B, 0xB4, 0xE6, 0x96, 0xB0, 0xE5, 0x86,
     0xB2, 0xE7, 0xAA, 0x81, 0xE5, 0x90, 0x8E, 0xE9, 0x87, 0x8D, 0xE6, 0x96, 0xB0, 0xE5, 0x8A, 0xA0, 0xE8, 0xBD, 0xBD,
     0xE7, 0x94, 0xA8, 0xE6, 0x88, 0xB7, 0xE5, 0xA4, 0xB1, 0xE8, 0xB4, 0xA5] @ '': ''"

definition text_exhausted :: string where
  "text_exhausted = bytes [0xE9, 0x87, 0x8D, 0xE8, 0xAF, 0x95, 0xE6, 0xAC, 0xA1, 0xE6, 0x95, 0xB0, 0xE7, 0x94, 0xA8,
     0xE5, 0xB0, 0xBD] @ '': ''"

definition text_user_exists :: string where
  "text_user_exists = bytes [0xE7, 0x94, 0xA8, 0xE6, 0x88, 0xB7, 0xE5, 0xB7, 0xB2, 0xE5, 0xAD, 0x98, 0xE5, 0x9C,
     0xA8]"

definition text_database :: string where
  "text_database = bytes [0xE6, 0x95, 0xB0, 0xE6, 0x8D, 0xAE, 0xE5, 0xBA, 0x93]"

definition text_cache :: string where
  "text_cache = bytes [0xE7, 0xBC, 0x93, 0xE5, 0xAD, 0x98]"

definition text_name_long :: string where
  "text_name_long = ''NAME_TOO_LONG: '' @ bytes [0xE7, 0x94, 0xA8, 0xE6, 0x88, 0xB7, 0xE5, 0x90, 0x8D, 0xE9, 0x95,
     0xBF, 0xE5, 0xBA, 0xA6, 0xE8, 0xB6, 0x85, 0xE5, 0x87, 0xBA, 0xE6, 0x95, 0xB0, 0xE6, 0x8D, 0xAE, 0xE5, 0xBA, 0x93,
     0xE9, 0x99, 0x90, 0xE5, 0x88, 0xB6] @ ''(45): ''"

definition text_nickname_long :: string where
  "text_nickname_long = ''NICKNAME_TOO_LONG: '' @ bytes [0xE6, 0x98, 0xB5, 0xE7, 0xA7, 0xB0, 0xE9, 0x95, 0xBF, 0xE5,
     0xBA, 0xA6, 0xE8, 0xB6, 0x85, 0xE5, 0x87, 0xBA, 0xE6, 0x95, 0xB0, 0xE6, 0x8D, 0xAE, 0xE5, 0xBA, 0x93, 0xE9, 0x99,
     0x90, 0xE5, 0x88, 0xB6] @ ''(30): ''"

definition text_password_long :: string where
  "text_password_long = ''PASSWORD_TOO_LONG: '' @ bytes [0xE5, 0xAF, 0x86, 0xE7, 0xA0, 0x81, 0xE9, 0x95, 0xBF, 0xE5,
     0xBA, 0xA6, 0xE8, 0xB6, 0x85, 0xE5, 0x87, 0xBA, 0xE6, 0x95, 0xB0, 0xE6, 0x8D, 0xAE, 0xE5, 0xBA, 0x93, 0xE9, 0x99,
     0x90, 0xE5, 0x88, 0xB6] @ ''(255)''"

definition text_email_long :: string where
  "text_email_long = ''EMAIL_TOO_LONG: '' @ bytes [0xE9, 0x82, 0xAE, 0xE7, 0xAE, 0xB1, 0xE9, 0x95, 0xBF, 0xE5, 0xBA,
     0xA6, 0xE8, 0xB6, 0x85, 0xE5, 0x87, 0xBA, 0xE6, 0x95, 0xB0, 0xE6, 0x8D, 0xAE, 0xE5, 0xBA, 0x93, 0xE9, 0x99, 0x90,
     0xE5, 0x88, 0xB6] @ ''(256): ''"

definition text_phone_long :: string where
  "text_phone_long = ''PHONE_TOO_LONG: '' @ bytes [0xE6, 0x89, 0x8B, 0xE6, 0x9C, 0xBA, 0xE5, 0x8F, 0xB7, 0xE9, 0x95,
     0xBF, 0xE5, 0xBA, 0xA6, 0xE8, 0xB6, 0x85, 0xE5, 0x87, 0xBA, 0xE6, 0x95, 0xB0, 0xE6, 0x8D, 0xAE, 0xE5, 0xBA, 0x93,
     0xE9, 0x99, 0x90, 0xE5, 0x88, 0xB6] @ ''(20): ''"

definition text_resend_failed :: string where
  "text_resend_failed = bytes [0xE5, 0x8F, 0x91, 0xE9, 0x80, 0x81, 0xE9, 0x87, 0x8D, 0xE8, 0xAF, 0x95, 0xE4, 0xB8,
     0xBB, 0xE9, 0xA2, 0x98, 0xE5, 0xA4, 0xB1, 0xE8, 0xB4, 0xA5] @ '': ''"

definition text_original :: string where
  "text_original = '' ('' @ bytes [0xE5, 0x8E, 0x9F, 0xE9, 0x94, 0x99, 0xE8, 0xAF, 0xAF] @ '': ''"

definition text_wait_cancelled :: string where
  "text_wait_cancelled = bytes [0xE9, 0x87, 0x8D, 0xE8, 0xAF, 0x95, 0xE6, 0x9C, 0x9F, 0xE9, 0x97, 0xB4, 0xE4, 0xB8,
     0x8A, 0xE4, 0xB8, 0x8B, 0xE6, 0x96, 0x87, 0xE5, 0x8F, 0x96, 0xE6, 0xB6, 0x88] @ '': ''"

section \<open>Fields of a user\<close>

definition ValidateUserFields :: "User \<Rightarrow> string option" where
  "ValidateUserFields u =
    (if 45 < length (om_Name u) then Some (text_name_long @ om_Name u)
     else if 30 < length (us_Nickname u) then Some (text_nickname_long @ us_Nickname u)
     else if 255 < length (us_Password u) then Some text_password_long
     else if 256 < length (us_Email u) then Some (text_email_long @ us_Email u)
     else if 20 < length (us_Phone u) then Some (text_phone_long @ us_Phone u)
     else None)"

section \<open>Errors of the database\<close>

text \<open>The two errors the consumer makes itself have a code; other errors are those of the driver, with the text
  the consumer puts before it.\<close>

datatype db_error = DbText string string | DbUserNotFound | DbResourceConflict

definition db_text :: "db_error \<Rightarrow> string" where
  "db_text e = (case e of DbText before s \<Rightarrow> before @ s | DbUserNotFound \<Rightarrow> text_user_missing
     | DbResourceConflict \<Rightarrow> ''[code: 110006] '' @ text_version_conflict)"

definition isDuplicateKeyDBError :: "(string \<Rightarrow> int option) \<Rightarrow> db_error \<Rightarrow> bool" where
  "isDuplicateKeyDBError mysql e \<longleftrightarrow> (case e of DbText before s \<Rightarrow> mysql s = Some 1062 | _ \<Rightarrow> False)
     \<or> Contains (db_text e) ''1062'' \<or> Contains (db_text e) ''Duplicate entry''
     \<or> Contains (ToLower (db_text e)) ''unique constraint''"

text \<open>A conflict of versions is not taken for a duplicate key, nor a missing user.\<close>

lemma not_duplicate [simp]:
  "\<not> isDuplicateKeyDBError mysql DbResourceConflict" "\<not> isDuplicateKeyDBError mysql DbUserNotFound"
  by code_simp+

definition isRetryableDBWriteError :: "(string \<Rightarrow> int option) \<Rightarrow> string \<Rightarrow> bool" where
  "isRetryableDBWriteError mysql e \<longleftrightarrow> mysql e = Some 1213 \<or> mysql e = Some 1205
     \<or> Contains (ToLower e) ''deadlock'' \<or> Contains (ToLower e) ''lock wait timeout''"

definition dbWriteMaxRetries :: nat where "dbWriteMaxRetries = 3"
definition dbWriteInitialBackoff :: duration where "dbWriteInitialBackoff = 100 * Millisecond"
definition dbWriteMaxBackoff :: duration where "dbWriteMaxBackoff = 2 * Second"

definition nextDBBackoff :: "nat \<Rightarrow> duration" where
  "nextDBBackoff attempt = (let d = wrap64 (dbWriteInitialBackoff * 2 ^ (attempt - 1))
     in if dbWriteMaxBackoff < d then dbWriteMaxBackoff else d)"

section \<open>Errors of a handler\<close>

datatype main_error = MainText string | MainSend send_error | WaitCancelled ctx_error | RetryPublish main_error main_error

definition ctx_text :: "ctx_error \<Rightarrow> string" where
  "ctx_text e = (case e of Canceled \<Rightarrow> ''context canceled'' | DeadlineExceeded \<Rightarrow> ''context deadline exceeded'')"

definition enqueue_text :: "enqueue_error \<Rightarrow> string" where
  "enqueue_text e = (case e of ProducerUnavailable \<Rightarrow> ''producer unavailable'' | ShuttingDown \<Rightarrow> ''producer shutting down''
     | CtxErr c \<Rightarrow> ctx_text c | EnqueueTimeout \<Rightarrow> ''producer enqueue timeout'')"

text \<open>Forwarding a message answers only the middle four.\<close>

definition send_text :: "send_error \<Rightarrow> string" where
  "send_text e = (case e of
       EnqueueErr x \<Rightarrow> enqueue_text x
     | RetryTopicCancelled x \<Rightarrow> ''enqueue retry topic cancelled: '' @ enqueue_text x
     | RetryTopicFailed x \<Rightarrow> ''enqueue retry topic failed: '' @ enqueue_text x
     | DeadLetterCancelled x \<Rightarrow> ''enqueue dead-letter topic cancelled: '' @ enqueue_text x
     | DeadLetterFailed x \<Rightarrow> ''enqueue dead-letter topic failed: '' @ enqueue_text x
     | ErrKafkaFailed x b \<Rightarrow> enqueue_text x
     | ErrRateLimitExceeded s \<Rightarrow> s
     | ErrEncodingJSON s \<Rightarrow> s)"

fun main_text :: "main_error \<Rightarrow> string" where
  "main_text (MainText s) = s"
| "main_text (MainSend e) = send_text e"
| "main_text (WaitCancelled c) = text_wait_cancelled @ ctx_text c"
| "main_text (RetryPublish e e0) = text_resend_failed @ main_text e @ text_original @ main_text e0 @ '')''"

definition unrecoverableErrors :: "string list" where
  "unrecoverableErrors =
    [''Duplicate entry'', ''1062'', ''23000'', ''duplicate key value'', ''23505'', text_user_exists, ''UserAlreadyExist'',
     ''UNMARSHAL_ERROR'', ''invalid json'', ''unknown operation'', ''poison message'',
     ''definer'', ''DEFINER'', ''1449'', ''permission denied'',
     ''does not exist'', ''not found'', ''record not found'', ''ErrRecordNotFound'',
     ''constraint'', ''foreign key'', ''1451'', ''1452'', ''syntax error'',
     ''Data too long for column'', ''1406'',
     ''ErrInvalidData'', ''ErrInvalidTransaction'', ''ErrNotImplemented'', ''ErrMissingWhereClause'', ''ErrPrimaryKeyRequired'',
     ''ErrModelValueRequired'', ''ErrUnsupportedRelation'', ''ErrRegistered'', ''ErrInvalidField'', ''ErrEmptySlice'',
     ''ErrDryRunModeUnsupported'', ''invalid format'', ''validation failed'']"

definition recoverableErrors :: "string list" where
  "recoverableErrors =
    [''timeout'', ''deadline exceeded'', ''connection refused'', ''network error'', ''connection reset'', ''broken pipe'',
     ''no route to host'', ''database is closed'', ''deadlock'', ''1213'', ''40001'', ''temporary'', ''busy'', ''lock'',
     ''try again'', ''resource temporarily unavailable'', ''too many connections'', ''ErrInvalidTransaction'',
     ''ErrDryRunModeUnsupported'']"

definition isUnrecoverableError :: "string \<Rightarrow> bool" where
  "isUnrecoverableError e = contains_any e unrecoverableErrors"

definition isRecoverableError :: "string \<Rightarrow> bool" where
  "isRecoverableError e = contains_any e recoverableErrors"

definition shouldRetry :: "main_error \<Rightarrow> bool" where
  "shouldRetry e \<longleftrightarrow> \<not> isUnrecoverableError (main_text e) \<and> isRecoverableError (main_text e)"

text \<open>The shift is of 64 bits.\<close>

definition calculateBackoff :: "nat \<Rightarrow> duration" where
  "calculateBackoff attempt = (let d = wrap64 (Second * wrap64 (2 ^ (attempt - 1)))
     in if 30 * Second < d then 30 * Second else d)"

definition getErrorType :: "string option \<Rightarrow> string" where
  "getErrorType err = (case err of None \<Rightarrow> ''none''
     | Some e \<Rightarrow> if Contains e ''UNMARSHAL_ERROR'' then ''unmarshal_error''
         else if Contains e text_database then ''database_error''
         else if Contains e text_cache then ''cache_error''
         else if Contains e ''context deadline exceeded'' then ''timeout''
         else ''unknown_error'')"

section \<open>Which failed forwards are tried again\<close>

text \<open>A forward that found the producer's queue full is tried again, and the new attempt forwards the
  message once more; one stopped by a closing context is final, and so is the missing producer.\<close>

lemma shouldRetry_enqueue_timeout: "shouldRetry (MainSend (RetryTopicFailed EnqueueTimeout))" by code_simp

lemma not_recoverable_not_retried: "\<not> isRecoverableError (main_text e) \<Longrightarrow> \<not> shouldRetry e"
  by (simp add: shouldRetry_def)

lemma not_shouldRetry_retry_cancelled: "\<not> shouldRetry (MainSend (RetryTopicCancelled (CtxErr Canceled)))"
  by (rule not_recoverable_not_retried) code_simp

lemma not_shouldRetry_dead_letter_cancelled: "\<not> shouldRetry (MainSend (DeadLetterCancelled (CtxErr Canceled)))"
  by (rule not_recoverable_not_retried) code_simp

lemma not_shouldRetry_producer_missing: "\<not> shouldRetry (MainText text_producer_missing)"
  by (rule not_recoverable_not_retried) code_simp

end
