(* ===== verification/ConsumerIntake.thy ===== *)
theory ConsumerIntake
  imports RetryConsumer
begin

text \<open>
  How the main consumer takes messages in (internal/pkg/server/consumer.go: runFetchLoop and
  runBatchAggregator; internal/pkg/backpressure/delay_guard.go): the delay before a fetch, the attempts
  of a fetch, the headers added to a message, the choice between the batches and the workers, and the
  aggregator with its limits, its flushes and its acknowledgements. What the channels, the reader and the
  clock answer are arguments.
\<close>

section \<open>The delay before a fetch\<close>

definition DefaultDeadlineSkipThreshold :: duration where
  "DefaultDeadlineSkipThreshold = 2 * Millisecond"

datatype delay_action = NoAction | SkipDelay | TruncateDelay

record DelayDecision =
  dd_Effective :: duration
  dd_Action :: delay_action
  dd_Remaining :: duration

text \<open>The time left until the deadline is \<open>None\<close> for a context without one.\<close>

definition AlignDelayWithDeadline :: "duration option \<Rightarrow> duration \<Rightarrow> duration \<Rightarrow> DelayDecision" where
  "AlignDelayWithDeadline left requested minWait =
    (let d = \<lparr>dd_Effective = requested, dd_Action = NoAction, dd_Remaining = 0\<rparr>;
         threshold = (if minWait \<le> 0 then DefaultDeadlineSkipThreshold else minWait)
     in if requested \<le> 0 then d
        else case left of
               None \<Rightarrow> d
             | Some r \<Rightarrow>
                 (if r \<le> 0 \<or> r \<le> threshold then d\<lparr>dd_Remaining := r, dd_Effective := 0, dd_Action := SkipDelay\<rparr>
                  else if r < requested then d\<lparr>dd_Remaining := r, dd_Effective := r, dd_Action := TruncateDelay\<rparr>
                  else d\<lparr>dd_Remaining := r\<rparr>))"

text \<open>The delay of the coordinator's profile, or a fixed one when that is not positive.\<close>

definition fetchDelayForBackpressure :: "BackpressureDelayProfile option \<Rightarrow> BackpressureLevel \<Rightarrow> int \<Rightarrow> duration" where
  "fetchDelayForBackpressure profile level depth =
    (let d = (case profile of None \<Rightarrow> 0 | Some p \<Rightarrow> profile_delay p level depth)
     in if 0 < d then d
        else case level of
               BackpressureSevere \<Rightarrow> 80 * Millisecond
             | BackpressureElevated \<Rightarrow> 20 * Millisecond
             | _ \<Rightarrow> 0)"

lemma aligned_bounds:
  "0 \<le> requested \<Longrightarrow> 0 \<le> dd_Effective (AlignDelayWithDeadline left requested m)
    \<and> dd_Effective (AlignDelayWithDeadline left requested m) \<le> requested"
  by (auto simp: AlignDelayWithDeadline_def Let_def split: option.splits)

lemma aligned_before_deadline:
  "left = Some r \<Longrightarrow> 0 < dd_Effective (AlignDelayWithDeadline left requested m) \<Longrightarrow>
    dd_Effective (AlignDelayWithDeadline left requested m) \<le> r"
  by (auto simp: AlignDelayWithDeadline_def Let_def split: if_splits)

section \<open>Fetching\<close>

datatype fetch_event = Delivered kafka_Message | FetchEnded | FetchError | FetchErrorEnded

datatype fetched = Fetched kafka_Message | FetchStopped | FetchFailed

text \<open>The zero value of a message.\<close>

definition zero_message :: kafka_Message where
  "zero_message = \<lparr>km_Key = [], km_Value = [], km_Headers = [], km_Time = zero_time\<rparr>"

text \<open>Attempt \<open>i\<close> of the loop; the context may end in the attempt or in the wait after it. Without an attempt
  the message and the error keep their zero values.\<close>

fun fetch_attempts :: "nat \<Rightarrow> nat \<Rightarrow> (nat \<Rightarrow> fetch_event) \<Rightarrow> duration list \<Rightarrow> fetched \<times> nat \<times> duration list" where
  "fetch_attempts 0 i reader ws = (if i = 0 then Fetched zero_message else FetchFailed, i, ws)"
| "fetch_attempts (Suc k) i reader ws =
    (case reader i of
       Delivered m \<Rightarrow> (Fetched m, i + 1, ws)
     | FetchEnded \<Rightarrow> (FetchStopped, i + 1, ws)
     | FetchErrorEnded \<Rightarrow> (FetchStopped, i + 1, ws)
     | FetchError \<Rightarrow> fetch_attempts k (i + 1) reader (ws @ [wrap64 (Second * wrap64 (2 ^ i))]))"

definition fetch_message :: "KafkaOptions \<Rightarrow> (nat \<Rightarrow> fetch_event) \<Rightarrow> fetched \<times> nat \<times> duration list" where
  "fetch_message k reader = fetch_attempts (nat (ko_MaxRetries k)) 0 reader []"

definition HeaderConsumerLag :: string where "HeaderConsumerLag = ''consumer-fetch-lag''"
definition HeaderConsumerRecordAge :: string where "HeaderConsumerRecordAge = ''consumer-record-age-ms''"

fun setOrReplaceHeader :: "headers \<Rightarrow> string \<Rightarrow> string \<Rightarrow> headers" where
  "setOrReplaceHeader [] key val = [(key, val)]"
| "setOrReplaceHeader ((k, v) # hs) key val = (if k = key then (k, val) # hs else (k, v) # setOrReplaceHeader hs key val)"

definition getHeaderValue :: "headers \<Rightarrow> string \<Rightarrow> string" where
  "getHeaderValue hs key = (case map_of hs key of Some v \<Rightarrow> v | None \<Rightarrow> [])"

definition getOperationFromHeaders :: "headers \<Rightarrow> string" where
  "getOperationFromHeaders hs = (case map_of hs HeaderOperation of Some v \<Rightarrow> v | None \<Rightarrow> OperationCreate_text)"

text \<open>The headers a fetched message gets: how long the fetch took, the lag, and the age of the record.\<close>

definition tag_message :: "duration \<Rightarrow> int \<Rightarrow> instant \<Rightarrow> kafka_Message \<Rightarrow> kafka_Message" where
  "tag_message elapsed lag now m =
    (let h1 = (if 0 < elapsed then setOrReplaceHeader (km_Headers m) ''fetch_elapsed_ms'' (FormatInt (Milliseconds elapsed))
               else km_Headers m);
         h2 = setOrReplaceHeader h1 HeaderConsumerLag (FormatInt (max 0 lag));
         h3 = (if IsZero (km_Time m) then h2
               else setOrReplaceHeader h2 HeaderConsumerRecordAge (FormatInt (Milliseconds (max 0 (time_Sub now (km_Time m))))))
     in m\<lparr>km_Headers := h3\<rparr>)"

lemma setOrReplaceHeader_get: "map_of (setOrReplaceHeader hs key val) k = (if k = key then Some val else map_of hs k)"
  by (induction hs key val rule: setOrReplaceHeader.induct) auto

lemma tag_keeps_operation:
  "getOperationFromHeaders (km_Headers (tag_message e l now m)) = getOperationFromHeaders (km_Headers m)"
  by (simp add: tag_message_def getOperationFromHeaders_def setOrReplaceHeader_get Let_def HeaderOperation_def
      HeaderConsumerLag_def HeaderConsumerRecordAge_def)

section \<open>Routing\<close>

definition batchChannelFreeSlotDivisor :: int where "batchChannelFreeSlotDivisor = 8"

definition batchNearFull :: "int \<Rightarrow> int \<Rightarrow> bool" where
  "batchNearFull capacity current =
    (if capacity \<le> 0 then False
     else capacity - current \<le> max 1 (go_div capacity batchChannelFreeSlotDivisor))"

text \<open>A try to enqueue looks at the length of the channel first, and then sends when there is room.\<close>

definition tryEnqueueCreateBatch :: "int \<Rightarrow> int \<times> bool \<Rightarrow> bool" where
  "tryEnqueueCreateBatch capacity c \<longleftrightarrow> \<not> batchNearFull capacity (fst c) \<and> snd c"

text \<open>What the workers' channel does within 10 ms, and what it does when the fetch loop goes on waiting.\<close>

datatype jobs_event = JobTaken | JobsCtxDone | JobsBusy

record route_env =
  re_capacity :: int
  re_first :: "int \<times> bool"
  re_jobs :: jobs_event
  re_second :: "int \<times> bool"
  re_wait :: bool

datatype route = ToBatch | ToWorker int | RouteStopped

definition wait_worker :: "route_env \<Rightarrow> int \<Rightarrow> route" where
  "wait_worker E w = (if re_wait E then ToWorker w else RouteStopped)"

definition route_message :: "route_env \<Rightarrow> string \<Rightarrow> int \<Rightarrow> route" where
  "route_message E operation nextWorker =
    (if operation = OperationCreate_text \<and> tryEnqueueCreateBatch (re_capacity E) (re_first E) then ToBatch
     else case re_jobs E of
            JobTaken \<Rightarrow> ToWorker nextWorker
          | JobsCtxDone \<Rightarrow> RouteStopped
          | JobsBusy \<Rightarrow>
              (if operation = OperationCreate_text \<and> tryEnqueueCreateBatch (re_capacity E) (re_second E) then ToBatch
               else if (operation = OperationDelete_text \<or> operation = OperationUpdate_text) \<and> snd (re_second E) then ToBatch
               else wait_worker E nextWorker))"

definition next_worker :: "int \<Rightarrow> route \<Rightarrow> int \<Rightarrow> int" where
  "next_worker workers r w = (case r of ToWorker _ \<Rightarrow> go_mod (w + 1) workers | _ \<Rightarrow> w)"

lemma next_worker_range:
  assumes "0 < workers" and "0 \<le> w" and "w < workers"
  shows "0 \<le> next_worker workers r w \<and> next_worker workers r w < workers"
  using assms by (auto simp: next_worker_def go_mod_def go_div_nonneg minus_div_mult_eq_mod mult.commute [of workers] split: route.splits)

end
