(* ===== verification/UserConditions.thy ===== *)
theory UserConditions
  imports GoFloat GoStrings
begin

text \<open>
  The conditions of a batch update (internal/pkg/server/consumer.go, buildUserConditionClause and what it
  calls): a clause of SQL with placeholders and the values for them, from the fields a message names.
  Decoded values are a datatype, numbers among them the rationals of \<open>float64\<close>; decoding and the parsing
  of times are arguments, and so is the text of an error. Ranging over a Go map has no fixed order: a map is
  the list of its pairs in the order of the visit.
\<close>

section \<open>Fields and values\<close>

datatype conditionValueKind = conditionKindNumeric | conditionKindString | conditionKindTime

record conditionFieldMeta =
  cf_Column :: string
  cf_Kind :: conditionValueKind

definition cond_meta :: "string \<Rightarrow> conditionValueKind \<Rightarrow> string \<times> conditionFieldMeta" where
  "cond_meta c k = (c, \<lparr>cf_Column = c, cf_Kind = k\<rparr>)"

definition userConditionMeta :: "(string \<times> conditionFieldMeta) list" where
  "userConditionMeta =
    [cond_meta ''id'' conditionKindNumeric, cond_meta ''instanceID'' conditionKindString,
     cond_meta ''name'' conditionKindString, cond_meta ''email'' conditionKindString,
     cond_meta ''phone'' conditionKindString, cond_meta ''status'' conditionKindNumeric,
     cond_meta ''isAdmin'' conditionKindNumeric, cond_meta ''createdAt'' conditionKindTime,
     cond_meta ''updatedAt'' conditionKindTime, cond_meta ''loginedAt'' conditionKindTime,
     cond_meta ''version'' conditionKindNumeric]"

datatype cond_value = CNull | CBool bool | CNumber rat | CText string | CArray "cond_value list"
  | CObject "(string \<times> cond_value) list"

datatype sql_arg = ArgInt int | ArgText string | ArgTime instant

datatype cond_error = NoConditions | UnknownField string | FieldError string cond_error | NoClauses | BadJSON string
  | InNeedsArray | NoLike string | UnknownOperator string | EmptyIn | EmptyNumber | BadNumber string
  | NotANumber cond_value | NotAString cond_value | EmptyTime | BadTime string | NotATime cond_value

type_synonym time_parser = "string \<Rightarrow> instant option"

section \<open>Conversion of values\<close>

text \<open>A float outside the range of the integers gives the smallest one, as on amd64.\<close>

definition float_int64 :: "rat \<Rightarrow> int" where
  "float_int64 x = (if in64 (f64_trunc x) then f64_trunc x else int64_min)"

definition convertToInt64 :: "cond_value \<Rightarrow> cond_error + int" where
  "convertToInt64 v = (case v of
       CNumber x \<Rightarrow> Inr (float_int64 x)
     | CText s \<Rightarrow> (let t = TrimSpace s
         in if t = [] then Inl EmptyNumber else case ParseInt t of Some n \<Rightarrow> Inr n | None \<Rightarrow> Inl (BadNumber t))
     | _ \<Rightarrow> Inl (NotANumber v))"

definition convertToString :: "cond_value \<Rightarrow> cond_error + string" where
  "convertToString v = (case v of CText s \<Rightarrow> Inr s | _ \<Rightarrow> Inl (NotAString v))"

text \<open>The seconds and the nanoseconds of a number of seconds.\<close>

definition float_time :: "rat \<Rightarrow> instant" where
  "float_time x = (let sec = float_int64 x; nsec = float_int64 (f64 (f64 (x - f64 (of_int sec)) * 1000000000))
     in unix_epoch + sec * Second + nsec)"

definition convertToTime :: "time_parser \<Rightarrow> time_parser \<Rightarrow> cond_value \<Rightarrow> cond_error + instant" where
  "convertToTime nano plain v = (case v of
       CText s \<Rightarrow> (let t = TrimSpace s
         in if t = [] then Inl EmptyTime
            else case nano t of Some x \<Rightarrow> Inr x
                 | None \<Rightarrow> (case plain t of Some x \<Rightarrow> Inr x | None \<Rightarrow> Inl (BadTime t)))
     | CNumber x \<Rightarrow> Inr (float_time x)
     | _ \<Rightarrow> Inl (NotATime v))"

definition convert_arg :: "time_parser \<Rightarrow> time_parser \<Rightarrow> conditionValueKind \<Rightarrow> cond_value \<Rightarrow> cond_error + sql_arg" where
  "convert_arg nano plain k v = (case k of
       conditionKindNumeric \<Rightarrow> map_sum id ArgInt (convertToInt64 v)
     | conditionKindString \<Rightarrow> map_sum id ArgText (convertToString v)
     | conditionKindTime \<Rightarrow> map_sum id ArgTime (convertToTime nano plain v))"

section \<open>Clauses\<close>

fun join_with :: "string \<Rightarrow> string list \<Rightarrow> string" where
  "join_with sep [] = []"
| "join_with sep [x] = x"
| "join_with sep (x # y # xs) = x @ sep @ join_with sep (y # xs)"

definition buildComparisonClause :: "time_parser \<Rightarrow> time_parser \<Rightarrow> conditionFieldMeta \<Rightarrow> cond_value \<Rightarrow> string
    \<Rightarrow> cond_error + string \<times> sql_arg" where
  "buildComparisonClause nano plain m v operator =
    (case convert_arg nano plain (cf_Kind m) v of Inl e \<Rightarrow> Inl e
     | Inr a \<Rightarrow> Inr (cf_Column m @ '' '' @ operator @ '' ?'', a))"

definition buildEqualityClause :: "time_parser \<Rightarrow> time_parser \<Rightarrow> conditionFieldMeta \<Rightarrow> cond_value
    \<Rightarrow> cond_error + string \<times> sql_arg" where
  "buildEqualityClause nano plain m v =
    (case convert_arg nano plain (cf_Kind m) v of Inl e \<Rightarrow> Inl e | Inr a \<Rightarrow> Inr (cf_Column m @ '' = ?'', a))"

fun convert_args :: "time_parser \<Rightarrow> time_parser \<Rightarrow> conditionValueKind \<Rightarrow> cond_value list \<Rightarrow> cond_error + sql_arg list" where
  "convert_args nano plain k [] = Inr []"
| "convert_args nano plain k (v # vs) =
    (case convert_arg nano plain k v of Inl e \<Rightarrow> Inl e
     | Inr a \<Rightarrow> (case convert_args nano plain k vs of Inl e \<Rightarrow> Inl e | Inr as \<Rightarrow> Inr (a # as)))"

type_synonym clauses = "string list \<times> sql_arg list"

definition buildInClause :: "time_parser \<Rightarrow> time_parser \<Rightarrow> conditionFieldMeta \<Rightarrow> cond_value list \<Rightarrow> cond_error + clauses" where
  "buildInClause nano plain m vs =
    (if vs = [] then Inl EmptyIn
     else case convert_args nano plain (cf_Kind m) vs of Inl e \<Rightarrow> Inl e
          | Inr as \<Rightarrow> Inr ([cf_Column m @ '' IN ('' @ join_with '', '' (map (\<lambda>v. ''?'') vs) @ '')''], as))"

definition one_clause :: "cond_error + string \<times> sql_arg \<Rightarrow> cond_error + clauses" where
  "one_clause x = (case x of Inl e \<Rightarrow> Inl e | Inr (c, a) \<Rightarrow> Inr ([c], [a]))"

definition comparison_operators :: "(string \<times> string) list" where
  "comparison_operators = [(''neq'', ''<>''), (''gt'', ''>''), (''gte'', ''>=''), (''lt'', ''<''), (''lte'', ''<='')]"

text \<open>The case of one operator of a condition object.\<close>

definition operator_clause :: "time_parser \<Rightarrow> time_parser \<Rightarrow> conditionFieldMeta \<Rightarrow> string \<Rightarrow> cond_value \<Rightarrow> cond_error + clauses" where
  "operator_clause nano plain m operator v =
    (let low = ToLower operator
     in if low = ''eq'' then one_clause (buildEqualityClause nano plain m v)
        else if low = ''in'' then (case v of CArray vs \<Rightarrow> buildInClause nano plain m vs | _ \<Rightarrow> Inl InNeedsArray)
        else if low = ''like'' then
          (if cf_Kind m \<noteq> conditionKindString then Inl (NoLike (cf_Column m))
           else case convertToString v of Inl e \<Rightarrow> Inl e | Inr s \<Rightarrow> Inr ([cf_Column m @ '' LIKE ?''], [ArgText s]))
        else case map_of comparison_operators low of
               Some c \<Rightarrow> one_clause (buildComparisonClause nano plain m v c)
             | None \<Rightarrow> Inl (UnknownOperator operator))"

fun add_clauses :: "('a \<Rightarrow> cond_error + clauses) \<Rightarrow> 'a list \<Rightarrow> cond_error + clauses" where
  "add_clauses f [] = Inr ([], [])"
| "add_clauses f (x # xs) =
    (case f x of Inl e \<Rightarrow> Inl e
     | Inr (c, a) \<Rightarrow> (case add_clauses f xs of Inl e \<Rightarrow> Inl e | Inr (cs, as) \<Rightarrow> Inr (c @ cs, a @ as)))"

definition parseConditionObject :: "time_parser \<Rightarrow> time_parser \<Rightarrow> conditionFieldMeta \<Rightarrow> (string \<times> cond_value) list \<Rightarrow> cond_error + clauses" where
  "parseConditionObject nano plain m obj = add_clauses (\<lambda>(operator, v). operator_clause nano plain m operator v) obj"

definition parseCondition :: "time_parser \<Rightarrow> time_parser \<Rightarrow> conditionFieldMeta \<Rightarrow> string + cond_value \<Rightarrow> cond_error + clauses" where
  "parseCondition nano plain m raw =
    (case raw of
       Inl e \<Rightarrow> Inl (BadJSON e)
     | Inr (CObject obj) \<Rightarrow> parseConditionObject nano plain m obj
     | Inr (CArray vs) \<Rightarrow> buildInClause nano plain m vs
     | Inr v \<Rightarrow> one_clause (buildEqualityClause nano plain m v))"

type_synonym UserConditions = "(string \<times> (string + cond_value)) list"

definition condition_field :: "time_parser \<Rightarrow> time_parser \<Rightarrow> string \<times> (string + cond_value) \<Rightarrow> cond_error + clauses" where
  "condition_field nano plain x =
    (case map_of userConditionMeta (fst x) of
       None \<Rightarrow> Inl (UnknownField (fst x))
     | Some m \<Rightarrow> (case parseCondition nano plain m (snd x) of Inl e \<Rightarrow> Inl (FieldError (fst x) e) | Inr c \<Rightarrow> Inr c))"

definition buildUserConditionClause :: "time_parser \<Rightarrow> time_parser \<Rightarrow> UserConditions \<Rightarrow> cond_error + string \<times> sql_arg list" where
  "buildUserConditionClause nano plain conds =
    (if conds = [] then Inl NoConditions
     else case add_clauses (condition_field nano plain) conds of
            Inl e \<Rightarrow> Inl e
          | Inr (cs, as) \<Rightarrow> if cs = [] then Inl NoClauses else Inr (join_with '' AND '' cs, as))"

section \<open>Clauses are safe\<close>

text \<open>The forms a clause can take: nothing of a value is in its text.\<close>

definition condition_columns :: "string list" where
  "condition_columns = map fst userConditionMeta"

inductive clause_form :: "string \<Rightarrow> nat \<Rightarrow> bool" where
  compares: "col \<in> set condition_columns \<Longrightarrow> c \<in> {''='', ''<>'', ''>'', ''>='', ''<'', ''<='', ''LIKE''} \<Longrightarrow>
    clause_form (col @ '' '' @ c @ '' ?'') 1"
| one_of: "col \<in> set condition_columns \<Longrightarrow> 0 < n \<Longrightarrow>
    clause_form (col @ '' IN ('' @ join_with '', '' (replicate n ''?'') @ '')'') n"

definition clauses_safe :: "clauses \<Rightarrow> bool" where
  "clauses_safe x \<longleftrightarrow> (\<exists>ns. list_all2 clause_form (fst x) ns \<and> sum_list ns = length (snd x))"

lemma clauses_safe_Nil [simp]: "clauses_safe ([], [])"
  by (simp add: clauses_safe_def)

lemma clauses_safe_append: "clauses_safe (c, a) \<Longrightarrow> clauses_safe (cs, as) \<Longrightarrow> clauses_safe (c @ cs, a @ as)"
  unfolding clauses_safe_def fst_conv snd_conv
  by (metis length_append list_all2_appendI sum_list_append)

lemma clauses_safe_one: "clause_form c 1 \<Longrightarrow> clauses_safe ([c], [a])"
  unfolding clauses_safe_def by (rule exI [of _ "[1]"]) simp

lemma add_clauses_safe:
  "(\<And>x y. f x = Inr y \<Longrightarrow> clauses_safe y) \<Longrightarrow> add_clauses f xs = Inr y \<Longrightarrow> clauses_safe y"
  by (induction xs arbitrary: y) (fastforce split: sum.splits intro: clauses_safe_append)+

lemma convert_args_length: "convert_args nano plain k vs = Inr as \<Longrightarrow> length as = length vs"
  by (induction vs arbitrary: as) (auto split: sum.splits)

lemma buildInClause_safe:
  assumes "buildInClause nano plain m vs = Inr y" and "cf_Column m \<in> set condition_columns"
  shows "clauses_safe y"
proof -
  obtain as where y: "vs \<noteq> []" "convert_args nano plain (cf_Kind m) vs = Inr as"
      "y = ([cf_Column m @ '' IN ('' @ join_with '', '' (map (\<lambda>v. ''?'') vs) @ '')''], as)"
    using assms(1) by (auto simp: buildInClause_def split: if_splits sum.splits)
  then have "clause_form (hd (fst y)) (length vs)"
    using one_of [OF assms(2), of "length vs"] by (simp add: map_replicate_const)
  with y convert_args_length [OF y(2)] show ?thesis
    unfolding clauses_safe_def by (intro exI [of _ "[length vs]"]) simp
qed

lemma buildEqualityClause_safe:
  "one_clause (buildEqualityClause nano plain m v) = Inr y \<Longrightarrow> cf_Column m \<in> set condition_columns \<Longrightarrow> clauses_safe y"
  using compares [of "cf_Column m" "''=''"]
  by (auto simp: buildEqualityClause_def one_clause_def split: sum.splits intro!: clauses_safe_one)

lemma buildComparisonClause_safe:
  assumes "one_clause (buildComparisonClause nano plain m v c) = Inr y" and "cf_Column m \<in> set condition_columns"
    and "c \<in> {''<>'', ''>'', ''>='', ''<'', ''<=''}"
  shows "clauses_safe y"
  using assms(1) compares [OF assms(2), of c] assms(3)
  by (auto simp: buildComparisonClause_def one_clause_def split: sum.splits intro!: clauses_safe_one)

lemma comparison_operators_values:
  "map_of comparison_operators k = Some c \<Longrightarrow> c \<in> {''<>'', ''>'', ''>='', ''<'', ''<=''}"
  by (auto simp: comparison_operators_def split: if_splits)

lemma operator_clause_safe:
  assumes "operator_clause nano plain m operator v = Inr y" and "cf_Column m \<in> set condition_columns"
  shows "clauses_safe y"
  using assms(1) compares [OF assms(2), of "''LIKE''"]
  unfolding operator_clause_def Let_def
  by (auto split: if_splits sum.splits cond_value.splits option.splits intro!: clauses_safe_one
      dest: buildEqualityClause_safe [OF _ assms(2)] buildInClause_safe [OF _ assms(2)]
        buildComparisonClause_safe [OF _ assms(2) comparison_operators_values])

lemma parseCondition_safe:
  assumes "parseCondition nano plain m raw = Inr y" and "cf_Column m \<in> set condition_columns"
  shows "clauses_safe y"
  using assms(1) unfolding parseCondition_def parseConditionObject_def
  by (auto split: sum.splits cond_value.splits dest: buildEqualityClause_safe [OF _ assms(2)] buildInClause_safe [OF _ assms(2)]
      add_clauses_safe [rotated] operator_clause_safe [OF _ assms(2)])

lemma userConditionMeta_column: "map_of userConditionMeta f = Some m \<Longrightarrow> cf_Column m \<in> set condition_columns"
  by (auto simp: userConditionMeta_def condition_columns_def cond_meta_def split: if_splits)

lemma condition_field_safe: "condition_field nano plain x = Inr y \<Longrightarrow> clauses_safe y"
  by (auto simp: condition_field_def split: option.splits sum.splits dest: userConditionMeta_column intro: parseCondition_safe)

text \<open>C23. A batch update never runs without a condition, and nothing of a message reaches the text of its SQL:
  the where clause is a conjunction of comparisons of the whitelisted columns with placeholders, and there are
  as many values as placeholders.\<close>

theorem where_clause_safe:
  "buildUserConditionClause nano plain conds = Inr (clause, args) \<Longrightarrow>
    \<exists>cs ns. cs \<noteq> [] \<and> clause = join_with '' AND '' cs \<and> list_all2 clause_form cs ns \<and> sum_list ns = length args"
proof -
  assume "buildUserConditionClause nano plain conds = Inr (clause, args)"
  then obtain cs where cs: "add_clauses (condition_field nano plain) conds = Inr (cs, args)" "cs \<noteq> []"
      "clause = join_with '' AND '' cs"
    by (auto simp: buildUserConditionClause_def split: if_splits sum.splits)
  have "clauses_safe (cs, args)" by (rule add_clauses_safe [OF condition_field_safe cs(1)])
  with cs(2,3) show ?thesis by (auto simp: clauses_safe_def)
qed

definition sample_conditions :: UserConditions where
  "sample_conditions = [(''status'', Inr (CObject [(''GTE'', CNumber 1)])), (''name'', Inr (CArray [CText ''a'', CText ''b'']))]"

definition no_time :: time_parser where "no_time s = None"

lemma sample_clause:
  "buildUserConditionClause no_time no_time sample_conditions
    = Inr (''status >= ? AND name IN (?, ?)'', [ArgInt 1, ArgText ''a'', ArgText ''b''])"
  by code_simp

theorem where_clause_safe_witness:
  "\<exists>cs ns. cs \<noteq> [] \<and> ''status >= ? AND name IN (?, ?)'' = join_with '' AND '' cs \<and> list_all2 clause_form cs ns
    \<and> sum_list ns = length [ArgInt 1, ArgText ''a'', ArgText ''b'']"
  by (rule where_clause_safe [OF sample_clause])

end
