(* ===== verification/UserConsumer.thy ===== *)
theory UserConsumer
  imports ConsumerErrors ConsumerIntake UserConditions
begin

text \<open>
  The state of the main consumer (internal/pkg/server/consumer.go) and what its handlers are made of: the
  cache of pending markers, the reading and the clearing of a marker, the statements on the table of users,
  the cached copies and the sessions. The table is a record of statements over an abstract state, Redis the
  server of the pending coordinator; decoding, new identifiers and the interleaving of the two concurrent
  writes of contacts are arguments. Redis is configured. Metrics, traces and logs are left out, with the
  durations and the fields of a marker that only they use.
\<close>

section \<open>The consumer\<close>

record 'd ConsumerTable =
  tb_core :: "'d \<Rightarrow> string option"
  tb_select :: "string \<Rightarrow> 'd \<Rightarrow> user_query \<times> 'd"
  tb_insert :: "userRowBuffer \<Rightarrow> 'd \<Rightarrow> (string + 64 word option) \<times> 'd"
  tb_update :: "userRowBuffer \<Rightarrow> 64 word option \<Rightarrow> 'd \<Rightarrow> (string + (string + nat)) \<times> 'd"
  tb_delete :: "string \<Rightarrow> 'd \<Rightarrow> (string + (string + nat)) \<times> 'd"
  tb_where :: "string \<Rightarrow> sql_arg list \<Rightarrow> 'd \<Rightarrow> (string + userRowBuffer list) \<times> 'd"
  tb_contacts :: "string list \<Rightarrow> 'd \<Rightarrow> (string + userRowBuffer list) \<times> 'd"
  tb_delete_all :: "string list \<Rightarrow> 'd \<Rightarrow> string option \<times> 'd"
  tb_select_all :: "string list \<Rightarrow> 'd \<Rightarrow> (string + userRowBuffer list) \<times> 'd"
  tb_overwrite :: "userRowBuffer \<Rightarrow> 'd \<Rightarrow> string option \<times> 'd"

record ('r, 'l, 'd) UserConsumer =
  uc_pending :: "('r, 'l) PendingEnv"
  uc_coordinated :: bool
  uc_producer :: "UserProducer option"
  uc_opts :: KafkaOptions
  uc_table :: "'d ConsumerTable"
  uc_extend :: extend_codec
  uc_payload :: payload_codec
  uc_user :: "string \<Rightarrow> string + User"
  uc_delete :: "string \<Rightarrow> string + deleteMessage"
  uc_conditions :: "string \<Rightarrow> UserConditions"
  uc_cond_text :: "cond_error \<Rightarrow> string"
  uc_time_nano :: time_parser
  uc_time_plain :: time_parser
  uc_snapshot :: "string \<Rightarrow> (string \<times> string) option"
  uc_mysql :: "string \<Rightarrow> int option"
  uc_timed_out :: "pending_error \<Rightarrow> bool"
  uc_smembers :: "instant \<Rightarrow> string \<Rightarrow> 'r \<Rightarrow> string list"
  uc_newID :: "nat \<Rightarrow> string"
  uc_race :: "instant \<Rightarrow> User \<Rightarrow> bool \<times> bool"
  uc_trace :: string
  uc_ctx_end :: "instant option"

record markerCacheEntry =
  me_exists :: bool
  me_value :: string
  me_hasTTL :: bool
  me_expireAt :: instant
  me_cacheExpiry :: instant
  me_ownerID :: string

record ('r, 'l, 'd) consumer_world =
  cw_base :: "('r, 'l, 'd) retry_world"
  cw_markers :: "(string \<times> markerCacheEntry) list"
  cw_ids :: nat

abbreviation cw_now :: "('r, 'l, 'd) consumer_world \<Rightarrow> instant" where "cw_now w \<equiv> rw_clock (cw_base w)"
abbreviation uc_server :: "('r, 'l, 'd) UserConsumer \<Rightarrow> 'r Server" where "uc_server U \<equiv> fst (server_of (uc_pending U))"
abbreviation uc_prefix :: "('r, 'l, 'd) UserConsumer \<Rightarrow> string" where "uc_prefix U \<equiv> snd (server_of (uc_pending U))"

definition cw_db :: "('d \<Rightarrow> 'a \<times> 'd) \<Rightarrow> ('r, 'l, 'd) consumer_world \<Rightarrow> 'a \<times> ('r, 'l, 'd) consumer_world" where
  "cw_db f w = (case on_db f (cw_base w) of (x, b) \<Rightarrow> (x, w\<lparr>cw_base := b\<rparr>))"

definition cw_cache :: "('r \<Rightarrow> 'a \<times> 'r) \<Rightarrow> ('r, 'l, 'd) consumer_world \<Rightarrow> 'a \<times> ('r, 'l, 'd) consumer_world" where
  "cw_cache f w = (case on_cache f (cw_base w) of (x, b) \<Rightarrow> (x, w\<lparr>cw_base := b\<rparr>))"

definition cw_pending ::
  "(('r, 'l) pending_data \<Rightarrow> 'a \<times> ('r, 'l) pending_data) \<Rightarrow> ('r, 'l, 'd) consumer_world \<Rightarrow> 'a \<times> ('r, 'l, 'd) consumer_world" where
  "cw_pending f w = (case f (rw_pending (cw_base w)) of (x, p) \<Rightarrow> (x, w\<lparr>cw_base := (cw_base w)\<lparr>rw_pending := p\<rparr>\<rparr>))"

definition cw_queue ::
  "(queue_io \<Rightarrow> send_error option \<times> queue_io) \<Rightarrow> ('r, 'l, 'd) consumer_world \<Rightarrow> main_error option \<times> ('r, 'l, 'd) consumer_world" where
  "cw_queue f w = (case f (rw_queue (cw_base w)) of (e, q) \<Rightarrow>
     (map_option MainSend e, w\<lparr>cw_base := (cw_base w)\<lparr>rw_queue := q\<rparr>\<rparr>))"

definition cw_sleep :: "duration \<Rightarrow> ('r, 'l, 'd) consumer_world \<Rightarrow> ('r, 'l, 'd) consumer_world" where
  "cw_sleep d w = w\<lparr>cw_base := (cw_base w)\<lparr>rw_clock := rw_clock (cw_base w) + max 0 d\<rparr>\<rparr>"

section \<open>Pending markers\<close>

definition cacheNullSentinel :: string where "cacheNullSentinel = ''rate_limit_prevention''"
definition pendingMarkerCacheWindow :: duration where "pendingMarkerCacheWindow = 500 * Millisecond"

definition zero_marker :: markerCacheEntry where
  "zero_marker = \<lparr>me_exists = False, me_value = [], me_hasTTL = False, me_expireAt = zero_time, me_cacheExpiry = zero_time,
     me_ownerID = []\<rparr>"

definition remainingTTL :: "markerCacheEntry \<Rightarrow> instant \<Rightarrow> duration" where
  "remainingTTL e now = (if \<not> me_hasTTL e then 0
     else let remaining = time_Sub (me_expireAt e) now in if remaining \<le> 0 then 0 else remaining)"

text \<open>A missing entry is the zero entry, which has expired at any time after the zero time.\<close>

definition marker_Get :: "instant \<Rightarrow> string \<Rightarrow> (string \<times> markerCacheEntry) list
    \<Rightarrow> markerCacheEntry option \<times> (string \<times> markerCacheEntry) list" where
  "marker_Get now key m =
    (let entry = (case map_of m key of Some e \<Rightarrow> e | None \<Rightarrow> zero_marker)
     in if time_After now (me_cacheExpiry entry) \<or> me_hasTTL entry \<and> time_After now (me_expireAt entry)
        then (None, AList.delete key m) else (Some entry, m))"

definition marker_Set :: "string \<Rightarrow> markerCacheEntry \<Rightarrow> ('r, 'l, 'd) consumer_world \<Rightarrow> ('r, 'l, 'd) consumer_world" where
  "marker_Set key e w = w\<lparr>cw_markers := AList.update key e (cw_markers w)\<rparr>"

text \<open>Whether the text of a marker says that it was made under pressure; the handlers only note the answer. The
  status, the flag and the level come from a decoder.\<close>

definition PendingMarkerIsDegraded :: "(string \<Rightarrow> string + (string \<times> bool \<times> string)) \<Rightarrow> string \<Rightarrow> string + bool" where
  "PendingMarkerIsDegraded decode raw =
    (let trimmed = TrimSpace raw
     in if trimmed = [] then Inr False
        else if hd trimmed \<noteq> CHR ''{'' then Inr (EqualFold trimmed ''degraded'')
        else case decode trimmed of
               Inl e \<Rightarrow> Inl e
             | Inr (status, degraded, level0) \<Rightarrow>
                 (let level = ToLower (TrimSpace level0)
                  in Inr (ToLower (TrimSpace status) = ''degraded'' \<or> degraded \<or> level \<noteq> [] \<and> level \<noteq> ''none'')))"

text \<open>A marker that is there, what it holds, and the rest of its lifetime.\<close>

type_synonym marker = "bool \<times> string \<times> duration"

definition no_marker :: marker where "no_marker = (False, [], 0)"

definition legacyGetPendingCreateMarker ::
  "('r, 'l, 'd) UserConsumer \<Rightarrow> string \<Rightarrow> ('r, 'l, 'd) consumer_world \<Rightarrow> (pending_error + marker) \<times> ('r, 'l, 'd) consumer_world" where
  "legacyGetPendingCreateMarker U username w =
    (let trimmed = TrimSpace username; key = PendingCreateKey trimmed; now = cw_now w; expiry = time_Add now pendingMarkerCacheWindow;
         missing = zero_marker\<lparr>me_cacheExpiry := expiry\<rparr>
     in if trimmed = [] \<or> key = [] then (Inr no_marker, w)
        else case cw_cache (GetKeyWithCommandTimeout (uc_server U) (uc_prefix U) now key) w of
               (Inl e, w1) \<Rightarrow> (Inl e, w1)
             | (Inr None, w1) \<Rightarrow> (Inr no_marker, marker_Set trimmed missing w1)
             | (Inr (Some v), w1) \<Rightarrow>
                 (case cw_cache (GetExp (uc_server U) (uc_prefix U) now key) w1 of
                    (Inl e, w2) \<Rightarrow> (Inr (True, v, 0), marker_Set trimmed (missing\<lparr>me_exists := True\<rparr>) w2)
                  | (Inr secs, w2) \<Rightarrow>
                      (let ttl = (if 0 < secs then wrap64 (secs * Second) else 0);
                           entry = missing\<lparr>me_exists := True, me_value := v\<rparr>;
                           e1 = (if ttl \<le> 0 then entry
                                 else entry\<lparr>me_hasTTL := True, me_expireAt := time_Add now ttl,
                                   me_cacheExpiry := (if time_Before (time_Add now ttl) expiry then time_Add now ttl else expiry)\<rparr>)
                       in (Inr (True, v, ttl), marker_Set trimmed e1 w2))))"

definition observed_marker :: "instant \<Rightarrow> PendingState \<Rightarrow> markerCacheEntry" where
  "observed_marker now st =
    (let expiry = time_Add now pendingMarkerCacheWindow; e = time_Add now (ps_TTL st);
         entry = zero_marker\<lparr>me_exists := True, me_value := ps_Raw st, me_hasTTL := 0 < ps_TTL st,
           me_ownerID := ps_LeaseOwner st, me_cacheExpiry := expiry\<rparr>
     in if 0 < ps_TTL st then entry\<lparr>me_expireAt := e, me_cacheExpiry := (if time_Before e expiry then e else expiry)\<rparr>
        else entry)"

definition getPendingCreateMarker ::
  "('r, 'l, 'd) UserConsumer \<Rightarrow> string \<Rightarrow> ('r, 'l, 'd) consumer_world \<Rightarrow> (pending_error + marker) \<times> ('r, 'l, 'd) consumer_world" where
  "getPendingCreateMarker U username w =
    (let trimmed = TrimSpace username; now = cw_now w
     in if trimmed = [] then (Inr no_marker, w)
        else case marker_Get now trimmed (cw_markers w) of
               (Some c, m) \<Rightarrow> (Inr (me_exists c, me_value c, remainingTTL c now), w\<lparr>cw_markers := m\<rparr>)
             | (None, m) \<Rightarrow>
                 (let w1 = w\<lparr>cw_markers := m\<rparr>
                  in if \<not> uc_coordinated U then legacyGetPendingCreateMarker U trimmed w1
                     else case cw_pending (redis_Observe (uc_pending U) now trimmed) w1 of
                            (Inl e, w2) \<Rightarrow> (Inl e, w2)
                          | (Inr st, w2) \<Rightarrow>
                              (if \<not> ps_Exists st
                               then (Inr no_marker, marker_Set trimmed (zero_marker\<lparr>me_cacheExpiry := time_Add now pendingMarkerCacheWindow\<rparr>) w2)
                               else (Inr (True, ps_Raw st, ps_TTL st), marker_Set trimmed (observed_marker now st) w2))))"

text \<open>The errors of a Redis client that stay, as a missing key counts as cleared.\<close>

definition legacyClearPendingCreateMarker ::
  "('r, 'l, 'd) UserConsumer \<Rightarrow> string \<Rightarrow> ('r, 'l, 'd) consumer_world \<Rightarrow> pending_error option \<times> ('r, 'l, 'd) consumer_world" where
  "legacyClearPendingCreateMarker U username w =
    (if PendingCreateKey username = [] then (None, w)
     else cw_cache (DeleteKey (uc_server U) (uc_prefix U) (cw_now w) (PendingCreateKey username)) w)"

text \<open>The owner to release: the one in the cache, else the observed one, else the one in the stored text.\<close>

definition observed_owner :: "string \<Rightarrow> PendingState option \<Rightarrow> string" where
  "observed_owner owner observed =
    (case observed of Some st \<Rightarrow> if ps_Exists st \<and> TrimSpace (ps_LeaseOwner st) \<noteq> [] then TrimSpace (ps_LeaseOwner st) else owner
     | None \<Rightarrow> owner)"

definition raw_owner :: "(string \<Rightarrow> (string \<times> string) option) \<Rightarrow> string \<Rightarrow> PendingState option \<Rightarrow> string" where
  "raw_owner decode owner observed =
    (case observed of
       Some st \<Rightarrow>
         (if TrimSpace (ps_Raw st) = [] then owner
          else case decode (ps_Raw st) of
                 None \<Rightarrow> owner
               | Some (o1, o2) \<Rightarrow> if owner \<noteq> [] then owner else if TrimSpace o1 \<noteq> [] then TrimSpace o1 else TrimSpace o2)
     | None \<Rightarrow> owner)"

definition release_marker ::
  "('r, 'l, 'd) UserConsumer \<Rightarrow> string \<Rightarrow> string \<Rightarrow> PendingState option \<Rightarrow> ('r, 'l, 'd) consumer_world
    \<Rightarrow> pending_error option \<times> ('r, 'l, 'd) consumer_world" where
  "release_marker U trimmed owner observed w =
    (if owner = [] then (Some ErrPendingLeaseOwnerMismatch, w)
     else case cw_pending (redis_Release (uc_pending U) (cw_now w) trimmed owner) w of
            (e, w1) \<Rightarrow>
              (e, if e = Some ErrPendingLeaseOwnerMismatch \<and> observed = None
                  then snd (cw_pending (redis_Observe (uc_pending U) (cw_now w) trimmed) w1) else w1))"

definition main_clearPendingCreateMarker ::
  "('r, 'l, 'd) UserConsumer \<Rightarrow> string \<Rightarrow> ('r, 'l, 'd) consumer_world \<Rightarrow> pending_error option \<times> ('r, 'l, 'd) consumer_world" where
  "main_clearPendingCreateMarker U username w =
    (let trimmed = TrimSpace username; now = cw_now w
     in if trimmed = [] then (None, w)
        else let cached = fst (marker_Get now trimmed (cw_markers w));
                 w1 = w\<lparr>cw_markers := AList.delete trimmed (cw_markers w)\<rparr>
             in if \<not> uc_coordinated U then legacyClearPendingCreateMarker U trimmed w1
                else let owner0 = (case cached of Some e \<Rightarrow> TrimSpace (me_ownerID e) | None \<Rightarrow> [])
                     in case (if owner0 \<noteq> [] then (None, w1)
                              else case cw_pending (redis_Observe (uc_pending U) now trimmed) w1 of
                                     (Inl e, w2) \<Rightarrow> (None, w2) | (Inr st, w2) \<Rightarrow> (Some st, w2)) of
                          (observed, w2) \<Rightarrow>
                            (if (case observed of Some st \<Rightarrow> \<not> ps_Exists st | None \<Rightarrow> False) then (None, w2)
                             else release_marker U trimmed (raw_owner (uc_snapshot U) (observed_owner owner0 observed) observed) observed w2))"

section \<open>The table\<close>

definition uc_connected :: "('r, 'l, 'd) UserConsumer \<Rightarrow> ('r, 'l, 'd) consumer_world \<Rightarrow> db_error option" where
  "uc_connected U w = map_option (DbText text_db_connect) (tb_core (uc_table U) (rw_db (cw_base w)))"

text \<open>A copy in the cache is taken unless it is blank, a sentinel or not readable.\<close>

definition cached_copy :: "('r, 'l, 'd) UserConsumer \<Rightarrow> (pending_error + string option) \<Rightarrow> User option" where
  "cached_copy U answer =
    (case answer of
       Inr (Some v) \<Rightarrow>
         (if v = cacheNullSentinel \<or> TrimSpace v = [] then None
          else case payload_Unmarshal (uc_payload U) v of Inr u \<Rightarrow> u | Inl e \<Rightarrow> None)
     | _ \<Rightarrow> None)"

definition select_user :: "('r, 'l, 'd) UserConsumer \<Rightarrow> string \<Rightarrow> ('r, 'l, 'd) consumer_world
    \<Rightarrow> (db_error + User option) \<times> ('r, 'l, 'd) consumer_world" where
  "select_user U trimmed w =
    (case uc_connected U w of
       Some e \<Rightarrow> (Inl e, w)
     | None \<Rightarrow>
         (case cw_db (tb_select (uc_table U) trimmed) w of
            (QueryFailed e, w1) \<Rightarrow> (Inl (DbText [] e), w1)
          | (IterationEnded, w1) \<Rightarrow> (Inr None, w1)
          | (ScanFailed e, w1) \<Rightarrow> (Inl (DbText [] e), w1)
          | (RowRead row, w1) \<Rightarrow> (Inr (Some (materializeUser (uc_extend U) row scanModeFull)), w1)))"

definition loadUserSnapshotInternal ::
  "('r, 'l, 'd) UserConsumer \<Rightarrow> string \<Rightarrow> bool \<Rightarrow> ('r, 'l, 'd) consumer_world
    \<Rightarrow> (db_error + User option) \<times> ('r, 'l, 'd) consumer_world" where
  "loadUserSnapshotInternal U username skipCache w =
    (let trimmed = TrimSpace username
     in if trimmed = [] then (Inr None, w)
        else if skipCache \<or> UserKey trimmed = [] then select_user U trimmed w
        else case cw_cache (GetKeyWithCommandTimeout (uc_server U) (uc_prefix U) (cw_now w) (UserKey trimmed)) w of
               (answer, w1) \<Rightarrow> (case cached_copy U answer of Some u \<Rightarrow> (Inr (Some u), w1) | None \<Rightarrow> select_user U trimmed w1))"

definition main_loadUserSnapshot ::
  "('r, 'l, 'd) UserConsumer \<Rightarrow> string \<Rightarrow> ('r, 'l, 'd) consumer_world \<Rightarrow> (db_error + User option) \<times> ('r, 'l, 'd) consumer_world" where
  "main_loadUserSnapshot U username = loadUserSnapshotInternal U username False"

definition loadUserSnapshotStrong ::
  "('r, 'l, 'd) UserConsumer \<Rightarrow> string \<Rightarrow> ('r, 'l, 'd) consumer_world \<Rightarrow> (db_error + User option) \<times> ('r, 'l, 'd) consumer_world" where
  "loadUserSnapshotStrong U username = loadUserSnapshotInternal U username True"

text \<open>Printing the extension map never fails for its caller: an error gives the empty text.\<close>

definition Extend_String :: "extend_codec \<Rightarrow> Extend option \<Rightarrow> string" where
  "Extend_String X e = (case e of None \<Rightarrow> ''null'' | Some m \<Rightarrow> (case ec_marshal X m of Inr s \<Rightarrow> s | Inl err \<Rightarrow> []))"

definition filled_shadow :: "extend_codec \<Rightarrow> User \<Rightarrow> User" where
  "filled_shadow X u = (if TrimSpace (om_ExtendShadow u) = [] then u\<lparr>om_ExtendShadow := Extend_String X (om_Extend u)\<rparr> else u)"

text \<open>Whether the user was inserted, and the user with its times, version and identifier. An identifier of 0 or less
  is not taken over.\<close>

definition main_createUserInDB ::
  "('r, 'l, 'd) UserConsumer \<Rightarrow> User \<Rightarrow> ('r, 'l, 'd) consumer_world \<Rightarrow> (db_error + bool) \<times> User \<times> ('r, 'l, 'd) consumer_world" where
  "main_createUserInDB U u w =
    (let now = cw_now w; u1 = filled_shadow (uc_extend U) ((normalized u)\<lparr>om_CreatedAt := now, om_UpdatedAt := now\<rparr>);
         version = (if om_Version u1 = 0 then 1 else om_Version u1)
     in case uc_connected U w of
          Some e \<Rightarrow> (Inl e, u1, w)
        | None \<Rightarrow>
            (case cw_db (tb_insert (uc_table U) ((user_row u1)\<lparr>rb_loginedAt := None, rb_version := version\<rparr>)) w of
               (Inl e, w1) \<Rightarrow>
                 (if isDuplicateKeyDBError (uc_mysql U) (DbText [] e) then Inr False else Inl (DbText text_create_failed e), u1, w1)
             | (Inr newID, w1) \<Rightarrow>
                 (let u2 = (case newID of Some n \<Rightarrow> if 0 <s n then u1\<lparr>om_ID := n\<rparr> else u1 | None \<Rightarrow> u1)
                  in (Inr True, u2\<lparr>om_Version := version\<rparr>, w1))))"

definition main_deleteUserFromDB ::
  "('r, 'l, 'd) UserConsumer \<Rightarrow> string \<Rightarrow> ('r, 'l, 'd) consumer_world \<Rightarrow> db_error option \<times> ('r, 'l, 'd) consumer_world" where
  "main_deleteUserFromDB U username w =
    (case uc_connected U w of
       Some e \<Rightarrow> (Some e, w)
     | None \<Rightarrow>
         (case cw_db (tb_delete (uc_table U) username) w of
            (Inl e, w1) \<Rightarrow> (Some (DbText [] e), w1)
          | (Inr (Inl e), w1) \<Rightarrow> (Some (DbText [] e), w1)
          | (Inr (Inr n), w1) \<Rightarrow> (if n = 0 then Some DbUserNotFound else None, w1)))"

text \<open>The statement is tried again after a deadlock or a lock wait: attempt \<open>i\<close> of \<open>dbWriteMaxRetries\<close>.\<close>

fun update_attempts ::
  "('r, 'l, 'd) UserConsumer \<Rightarrow> userRowBuffer \<Rightarrow> 64 word option \<Rightarrow> nat \<Rightarrow> nat \<Rightarrow> ('r, 'l, 'd) consumer_world
    \<Rightarrow> (string + (string + nat)) \<times> ('r, 'l, 'd) consumer_world" where
  "update_attempts U row expected 0 i w = (Inl [], w)"
| "update_attempts U row expected (Suc k) i w =
    (case cw_db (tb_update (uc_table U) row expected) w of
       (Inr affected, w1) \<Rightarrow> (Inr affected, w1)
     | (Inl e, w1) \<Rightarrow>
         (if k = 0 \<or> \<not> isRetryableDBWriteError (uc_mysql U) e then (Inl e, w1)
          else update_attempts U row expected k (i + 1) (cw_sleep (nextDBBackoff i) w1)))"

text \<open>With the user as the call leaves it behind the pointer.\<close>

definition update_result :: "64 word option \<Rightarrow> string + (string + nat) \<Rightarrow> db_error option" where
  "update_result expected answer =
    (case answer of
       Inl e \<Rightarrow> Some (DbText text_db_update_failed e)
     | Inr affected \<Rightarrow>
         (if expected = None then None
          else case affected of
                 Inl e \<Rightarrow> Some (DbText text_rows_failed e)
               | Inr n \<Rightarrow> if n = 0 then Some DbResourceConflict else None))"

definition main_updateUserInDB ::
  "('r, 'l, 'd) UserConsumer \<Rightarrow> User \<Rightarrow> 64 word option \<Rightarrow> ('r, 'l, 'd) consumer_world
    \<Rightarrow> db_error option \<times> User \<times> ('r, 'l, 'd) consumer_world" where
  "main_updateUserInDB U u expected w =
    (let u1 = filled_shadow (uc_extend U) (normalized u)
     in case uc_connected U w of
          Some e \<Rightarrow> (Some e, u1, w)
        | None \<Rightarrow> (case update_attempts U (user_row u1) expected dbWriteMaxRetries 1 w of
                    (answer, w1) \<Rightarrow> (update_result expected answer, u1, w1)))"

definition loadUsersByConditions ::
  "('r, 'l, 'd) UserConsumer \<Rightarrow> string \<Rightarrow> sql_arg list \<Rightarrow> ('r, 'l, 'd) consumer_world
    \<Rightarrow> (db_error + User list) \<times> ('r, 'l, 'd) consumer_world" where
  "loadUsersByConditions U clause args w =
    (case uc_connected U w of
       Some e \<Rightarrow> (Inl e, w)
     | None \<Rightarrow>
         (case cw_db (tb_where (uc_table U) clause args) w of
            (Inl e, w1) \<Rightarrow> (Inl (DbText [] e), w1)
          | (Inr rows, w1) \<Rightarrow> (Inr (map (\<lambda>row. materializeUser (uc_extend U) row scanModeFull) rows), w1)))"

section \<open>Cached copies and sessions\<close>

definition clearNegativeCache :: "'r Server \<Rightarrow> string \<Rightarrow> instant \<Rightarrow> string \<Rightarrow> 'r \<Rightarrow> 'r" where
  "clearNegativeCache S pfx now username r =
    (if username = [] \<or> UserKey username = [] then r
     else case GetKeyWithCommandTimeout S pfx now (UserKey username) r of
            (Inr (Some v), r1) \<Rightarrow> if v \<noteq> cacheNullSentinel then r1 else snd (DeleteKey S pfx now (UserKey username) r1)
          | (_, r1) \<Rightarrow> r1)"

text \<open>The contacts are written by goroutines of their own, in either order; the one that comes second is left out
  when it sees that the first one has failed.\<close>

definition write_contacts :: "'r Server \<Rightarrow> string \<Rightarrow> instant \<Rightarrow> bool \<times> bool \<Rightarrow> KeyValueTTL list \<Rightarrow> 'r \<Rightarrow> pending_error list \<times> 'r" where
  "write_contacts S pfx now race items r =
    (let write = (\<lambda>i. cache_SetKey S pfx now (kv_Key i) (kv_Value i) (kv_TTL i));
         ordered = (if fst race then rev items else items)
     in foldl (\<lambda>(errs, q) i. if errs \<noteq> [] \<and> snd race then (errs, q)
          else case write i q of (None, q1) \<Rightarrow> (errs, q1) | (Some e, q1) \<Rightarrow> (errs @ [e], q1)) ([], r) ordered)"

definition contact_prefixed :: "KeyValueTTL \<Rightarrow> bool" where
  "contact_prefixed i \<longleftrightarrow> HasPrefix (kv_Key i) ''user:email:'' \<or> HasPrefix (kv_Key i) ''user:phone:''"

text \<open>The items are sorted by their keys: of several with the key of the copy the last one is written.\<close>

definition write_cache_items :: "'r Server \<Rightarrow> string \<Rightarrow> instant \<Rightarrow> bool \<times> bool \<Rightarrow> string \<Rightarrow> KeyValueTTL list \<Rightarrow> 'r
    \<Rightarrow> pending_error list \<times> 'r" where
  "write_cache_items S pfx now race cacheKey items r =
    (let primary = filter (\<lambda>i. cacheKey \<noteq> [] \<and> kv_Key i = cacheKey) items;
         others = filter (\<lambda>i. \<not> (cacheKey \<noteq> [] \<and> kv_Key i = cacheKey)) items;
         aux = filter (\<lambda>i. \<not> contact_prefixed i) others
     in case (if primary = [] then (None, r)
              else cache_SetKey S pfx now cacheKey (kv_Value (last primary)) (kv_TTL (last primary)) r) of
          (e1, r1) \<Rightarrow>
            (case write_contacts S pfx now race (filter contact_prefixed others) r1 of
               (e2, r2) \<Rightarrow>
                 (case (if aux = [] then (None, r2) else write_items S pfx now aux r2) of
                    (e3, r3) \<Rightarrow> ((case e1 of None \<Rightarrow> [] | Some e \<Rightarrow> [e]) @ e2 @ (case e3 of None \<Rightarrow> [] | Some e \<Rightarrow> [e]), r3))))"

text \<open>The errors that are joined into the answer.\<close>

definition main_setUserCache :: "'r Server \<Rightarrow> string \<Rightarrow> payload_codec \<Rightarrow> (pending_error \<Rightarrow> bool) \<Rightarrow> KafkaOptions option
    \<Rightarrow> bool \<times> bool \<Rightarrow> instant \<Rightarrow> User \<Rightarrow> User option \<Rightarrow> 'r \<Rightarrow> pending_error list \<times> 'r" where
  "main_setUserCache S pfx C timed_out opts race now u previous r =
    (let r0 = clearNegativeCache S pfx now (om_Name u) r
     in case user_item C u previous of
          Inl e \<Rightarrow> ([ErrMessage e], r0)
        | Inr main \<Rightarrow>
            (let r1 = (if contact_changed u previous \<and> previous \<noteq> None
                       then evictContactCaches S pfx now previous (Some u) r0 else r0);
                 items = main @ (if contact_changed u previous then buildContactCacheItems u else []);
                 cacheKey = (if main = [] then [] else UserKey (om_Name u))
             in if cacheWriteDisabled opts \<or> items = [] then ([], r1)
                else case write_cache_items S pfx now race cacheKey items r1 of
                       (errs, r2) \<Rightarrow>
                         (if \<exists>e\<in>set errs. shouldDegradeCacheWrite timed_out (Some e) \<and> cacheWriteFallbackEnabled opts
                          then (case writeUserCacheFallback S pfx now (hd items) r2 of
                                  (None, r3) \<Rightarrow> ([], r3) | (Some e, r3) \<Rightarrow> (errs @ [e], r3))
                          else (errs, r2))))"

definition refresh_copies :: "('r, 'l, 'd) UserConsumer \<Rightarrow> User \<Rightarrow> User option \<Rightarrow> ('r, 'l, 'd) consumer_world \<Rightarrow> ('r, 'l, 'd) consumer_world" where
  "refresh_copies U u previous w =
    snd (cw_cache (main_setUserCache (uc_server U) (uc_prefix U) (uc_payload U) (uc_timed_out U) (Some (uc_opts U))
           (uc_race U (cw_now w) u) (cw_now w) u previous) w)"

definition main_purgeUserState ::
  "('r, 'l, 'd) UserConsumer \<Rightarrow> string \<Rightarrow> 64 word \<Rightarrow> User option \<Rightarrow> ('r, 'l, 'd) consumer_world \<Rightarrow> ('r, 'l, 'd) consumer_world" where
  "main_purgeUserState U username userID snapshot w =
    (let S = uc_server U; pfx = uc_prefix U; now = cw_now w;
         w1 = (if TrimSpace username = [] then w else snd (main_clearPendingCreateMarker U username w));
         w2 = snd (cw_cache (deleteUserCache S pfx now username) w1);
         w3 = (case snapshot of None \<Rightarrow> w2
               | Some u \<Rightarrow> snd (cw_cache (\<lambda>r. ((), evictContactCaches S pfx now (Some u) None r)) w2))
     in if userID = 0 then w3 else snd (cw_cache (cleanupUserSessions S pfx (uc_smembers U) now userID) w3))"

section \<open>Forwarding\<close>

text \<open>The header with the error is appended to the headers of the message, before the producer sets it.\<close>

definition sendToRetry ::
  "('r, 'l, 'd) UserConsumer \<Rightarrow> kafka_Message \<Rightarrow> string \<Rightarrow> ('r, 'l, 'd) consumer_world \<Rightarrow> main_error option \<times> ('r, 'l, 'd) consumer_world" where
  "sendToRetry U msg errorInfo w =
    (case uc_producer U of
       None \<Rightarrow> (Some (MainText text_producer_missing), w)
     | Some P \<Rightarrow> cw_queue (sendToRetryTopic P (cw_now w) (uc_trace U)
         (msg\<lparr>km_Headers := km_Headers msg @ [(HeaderRetryError, errorInfo)], km_Time := cw_now w\<rparr>) errorInfo) w)"

definition sendToDeadLetter ::
  "('r, 'l, 'd) UserConsumer \<Rightarrow> kafka_Message \<Rightarrow> string \<Rightarrow> ('r, 'l, 'd) consumer_world \<Rightarrow> main_error option \<times> ('r, 'l, 'd) consumer_world" where
  "sendToDeadLetter U msg reason w =
    (case uc_producer U of
       None \<Rightarrow> (Some (MainText text_producer_missing), w)
     | Some P \<Rightarrow> cw_queue (SendToDeadLetterTopic P (cw_now w) (uc_trace U) msg reason) w)"

end
