(* ===== verification/ConsumerHandlers.thy ===== *)
theory ConsumerHandlers
  imports UserConsumer CreatePipelines
begin

text \<open>
  The handlers of the main consumer (internal/pkg/server/consumer.go): creations, deletions, updates of one
  user and of all that meet a condition, the choice between them, and the attempts a worker makes at a message.
  What a handler answers is the error of the Go function; a handler that has forwarded its message answers the
  error of the forwarding.
\<close>

section \<open>Creation\<close>

definition pending_text :: "pending_error \<Rightarrow> string" where
  "pending_text e = (case e of
       ErrPendingLeaseConflict \<Rightarrow> ''pending lease conflict''
     | ErrPendingBackpressure \<Rightarrow> ''pending backpressure triggered''
     | ErrPendingLeaseOwnerMismatch \<Rightarrow> ''pending lease owner mismatch''
     | ErrMessage s \<Rightarrow> s
     | ErrAcquire a \<Rightarrow> AcquireError_Error (Some a))"

text \<open>The errors of a creation by the sentinel they wrap; the last two come before the creation starts.\<close>

datatype create_error = errPendingMarker string | errExistingSnapshot string | errCreatePersist string
  | CreateUndecoded string | CreateInvalid string

definition create_text :: "create_error \<Rightarrow> string" where
  "create_text e = (case e of
       errPendingMarker s \<Rightarrow> ''PENDING_MARKER_ERROR: pending marker error: '' @ s
     | errExistingSnapshot s \<Rightarrow> ''CHECK_EXISTING_FAILED: existing snapshot lookup failed: '' @ s
     | errCreatePersist s \<Rightarrow> ''CREATE_DB_ERROR: create persist error: '' @ s
     | CreateUndecoded s \<Rightarrow> s
     | CreateInvalid s \<Rightarrow> s)"

definition ensureUserInstanceID ::
  "('r, 'l, 'd) UserConsumer \<Rightarrow> User \<Rightarrow> ('r, 'l, 'd) consumer_world \<Rightarrow> User \<times> ('r, 'l, 'd) consumer_world" where
  "ensureUserInstanceID U u w =
    (if TrimSpace (om_InstanceID u) \<noteq> [] then (u, w)
     else (u\<lparr>om_InstanceID := uc_newID U (cw_ids w)\<rparr>, w\<lparr>cw_ids := cw_ids w + 1\<rparr>))"

text \<open>Writing the user, the copies and clearing the marker; whether the marker is degraded only shows in traces. A
  failed insertion of a user without a marker is given up silently.\<close>

definition persist_user ::
  "('r, 'l, 'd) UserConsumer \<Rightarrow> User \<Rightarrow> bool \<Rightarrow> ('r, 'l, 'd) consumer_world \<Rightarrow> (create_error + bool) \<times> ('r, 'l, 'd) consumer_world" where
  "persist_user U u markerMissing w =
    (case main_createUserInDB U u w of
       (Inl e, u1, w1) \<Rightarrow> (if markerMissing then Inr False else Inl (errCreatePersist (db_text e)), w1)
     | (Inr created, u1, w1) \<Rightarrow>
         (let w2 = (if created then refresh_copies U u1 None w1
                    else case main_loadUserSnapshot U (om_Name u1) w1 of
                           (Inr (Some existing), w2) \<Rightarrow> refresh_copies U existing None w2
                         | (_, w2) \<Rightarrow> w2)
          in (Inr created, snd (main_clearPendingCreateMarker U (om_Name u1) w2))))"

definition processCreateMessageWithPending ::
  "('r, 'l, 'd) UserConsumer \<Rightarrow> User \<Rightarrow> ('r, 'l, 'd) consumer_world \<Rightarrow> (create_error + bool) \<times> ('r, 'l, 'd) consumer_world" where
  "processCreateMessageWithPending U u0 w0 =
    (case ensureUserInstanceID U (normalized u0) w0 of
       (u, w) \<Rightarrow>
         (case getPendingCreateMarker U (om_Name u) w of
            (Inl e, w1) \<Rightarrow> (Inl (errPendingMarker (pending_text e)), w1)
          | (Inr (True, _, _), w1) \<Rightarrow> persist_user U u False w1
          | (Inr (False, _, _), w1) \<Rightarrow>
              (case main_loadUserSnapshot U (om_Name u) w1 of
                 (Inl e, w2) \<Rightarrow> (Inl (errExistingSnapshot (db_text e)), w2)
               | (Inr (Some existing), w2) \<Rightarrow> (Inr False, refresh_copies U existing None w2)
               | (Inr None, w2) \<Rightarrow> persist_user U u True w2)))"

definition processCreateOperation ::
  "('r, 'l, 'd) UserConsumer \<Rightarrow> kafka_Message \<Rightarrow> ('r, 'l, 'd) consumer_world \<Rightarrow> main_error option \<times> ('r, 'l, 'd) consumer_world" where
  "processCreateOperation U msg w =
    (case uc_user U (km_Value msg) of
       Inl e \<Rightarrow> (Some (MainText e), w)
     | Inr u \<Rightarrow>
         (case ValidateUserFields u of
            Some e \<Rightarrow> sendToDeadLetter U msg e w
          | None \<Rightarrow>
              (case processCreateMessageWithPending U u w of
                 (Inr created, w1) \<Rightarrow> (None, w1)
               | (Inl e, w1) \<Rightarrow>
                   (case e of
                      errPendingMarker s \<Rightarrow> sendToRetry U msg (create_text e) w1
                    | errExistingSnapshot s \<Rightarrow> sendToRetry U msg (create_text e) w1
                    | errCreatePersist s \<Rightarrow> sendToDeadLetter U msg (create_text e) w1
                    | _ \<Rightarrow> (Some (MainText (create_text e)), w1)))))"

section \<open>Deletion\<close>

definition header_retry_count :: "headers \<Rightarrow> int" where
  "header_retry_count hs = (case ParseInt (getHeaderValue hs HeaderRetryCount) of Some n \<Rightarrow> n | None \<Rightarrow> 0)"

text \<open>A deletion that finds nobody waits for the creation once, when a marker is there or may be; else it is done.\<close>

definition finish_delete ::
  "('r, 'l, 'd) UserConsumer \<Rightarrow> kafka_Message \<Rightarrow> string \<Rightarrow> (pending_error + marker) \<Rightarrow> User option \<Rightarrow> ('r, 'l, 'd) consumer_world
    \<Rightarrow> main_error option \<times> ('r, 'l, 'd) consumer_world" where
  "finish_delete U msg username marker existing w =
    (let userID = (case existing of Some u \<Rightarrow> om_ID u | None \<Rightarrow> 0)
     in case main_deleteUserFromDB U username w of
          (None, w1) \<Rightarrow> (None, main_purgeUserState U username userID existing w1)
        | (Some e, w1) \<Rightarrow>
            (if e \<noteq> DbUserNotFound then sendToRetry U msg (text_delete_failed @ db_text e) w1
             else if header_retry_count (km_Headers msg) = 0 \<and> (case marker of Inl _ \<Rightarrow> True | Inr (exists, _, _) \<Rightarrow> exists)
             then sendToRetry U msg ((case marker of Inl _ \<Rightarrow> ''DELETE_TARGET_STATE_UNKNOWN'' | Inr _ \<Rightarrow> ''DELETE_TARGET_NOT_READY'')
                    @ '': '' @ db_text e) w1
             else (None, main_purgeUserState U username userID existing w1)))"

definition processDeleteOperation ::
  "('r, 'l, 'd) UserConsumer \<Rightarrow> kafka_Message \<Rightarrow> ('r, 'l, 'd) consumer_world \<Rightarrow> main_error option \<times> ('r, 'l, 'd) consumer_world" where
  "processDeleteOperation U msg w =
    (case uc_delete U (km_Value msg) of
       Inl e \<Rightarrow> sendToDeadLetter U msg (''UNMARSHAL_ERROR: '' @ e) w
     | Inr req \<Rightarrow>
         (case (if TrimSpace (dm_Username req) = [] then (Inr no_marker, w)
                else getPendingCreateMarker U (TrimSpace (dm_Username req)) w) of
            (marker, w1) \<Rightarrow>
              (case (if dm_Username req = [] then (Inr None, w1) else main_loadUserSnapshot U (dm_Username req) w1) of
                 (Inl e, w2) \<Rightarrow> sendToRetry U msg (text_query_failed @ db_text e) w2
               | (Inr existing, w2) \<Rightarrow> finish_delete U msg (dm_Username req) marker existing w2)))"

section \<open>Updates of one user\<close>

definition single_update :: "extend_codec \<Rightarrow> string \<Rightarrow> User \<Rightarrow> User \<Rightarrow> User" where
  "single_update X command u existing =
    (let a = (if TrimSpace (om_InstanceID u) \<noteq> [] then existing\<lparr>om_InstanceID := om_InstanceID u\<rparr> else existing);
         b = (if us_Password u \<noteq> [] then a\<lparr>us_Password := us_Password u\<rparr> else a);
         c = (if command = UserUpdateCommandFull
              then b\<lparr>us_Nickname := us_Nickname u, us_Email := us_Email u, us_Phone := us_Phone u,
                     us_Status := us_Status u, us_IsAdmin := us_IsAdmin u\<rparr> else b);
         d = (if \<not> IsZero (us_LoginedAt u) then c\<lparr>us_LoginedAt := us_LoginedAt u\<rparr> else c);
         e = (case om_Extend u of Some (x # xs) \<Rightarrow> d\<lparr>om_Extend := om_Extend u\<rparr> | _ \<Rightarrow> d);
         f = (if om_ExtendShadow u \<noteq> [] then e\<lparr>om_ExtendShadow := om_ExtendShadow u\<rparr> else e)
     in case us_Patch u of
          None \<Rightarrow> f
        | Some p \<Rightarrow>
            (let g = patch_Apply X (Some p) f;
                 h = (if up_Email p = None then g\<lparr>us_Email := us_Email existing\<rparr> else g)
             in if up_Phone p = None then h\<lparr>us_Phone := us_Phone existing\<rparr> else h))"

text \<open>The version a statement has to find; \<open>None\<close> drops the message.\<close>

definition version_guard :: "string \<Rightarrow> User \<Rightarrow> User \<Rightarrow> 64 word option" where
  "version_guard command u existing =
    (case us_ExpectedVersion u of
       Some v \<Rightarrow> if om_Version existing \<noteq> v then None else Some v
     | None \<Rightarrow> if command = UserUpdateCommandPatch then Some (om_Version existing) else None)"

definition write_update ::
  "('r, 'l, 'd) UserConsumer \<Rightarrow> kafka_Message \<Rightarrow> User \<Rightarrow> 64 word \<Rightarrow> User \<Rightarrow> ('r, 'l, 'd) consumer_world
    \<Rightarrow> main_error option \<times> ('r, 'l, 'd) consumer_world" where
  "write_update U msg updated v existing w =
    (case main_updateUserInDB U (updated\<lparr>om_Version := om_Version existing + 1\<rparr>) (Some v) w of
       (Some e, u1, w1) \<Rightarrow>
         (if isDuplicateKeyDBError (uc_mysql U) e \<or> e = DbResourceConflict then (None, w1)
          else sendToRetry U msg (text_update_failed @ db_text e) w1)
     | (None, u1, w1) \<Rightarrow> (None, refresh_copies U u1 (Some existing) w1))"

definition handleSingleUpdate ::
  "('r, 'l, 'd) UserConsumer \<Rightarrow> kafka_Message \<Rightarrow> User \<Rightarrow> string \<Rightarrow> ('r, 'l, 'd) consumer_world
    \<Rightarrow> main_error option \<times> ('r, 'l, 'd) consumer_world" where
  "handleSingleUpdate U msg u0 command w =
    (case ValidateUserFields u0 of
       Some e \<Rightarrow> sendToDeadLetter U msg e w
     | None \<Rightarrow>
         (let u = normalized u0
          in case loadUserSnapshotInternal U (om_Name u) (us_ExpectedVersion u \<noteq> None) w of
               (Inl e, w1) \<Rightarrow> sendToRetry U msg (text_query_failed @ db_text e) w1
             | (Inr None, w1) \<Rightarrow> sendToRetry U msg (''UPDATE_TARGET_NOT_READY: '' @ om_Name u) w1
             | (Inr (Some existing), w1) \<Rightarrow>
                 (case EnsureExtendShadow (uc_extend U) (single_update (uc_extend U) command u existing) of
                    Inl e \<Rightarrow> sendToDeadLetter U msg (''SERIALIZE_EXTEND_FAILED: '' @ e) w1
                  | Inr updated \<Rightarrow>
                      (case version_guard command u existing of
                         None \<Rightarrow> (None, w1)
                       | Some v \<Rightarrow> write_update U msg (updated\<lparr>om_UpdatedAt := cw_now w1\<rparr>) v existing w1))))"

section \<open>Updates by condition\<close>

definition maxConflictResyncAttempts :: nat where "maxConflictResyncAttempts = 3"

definition patched_target :: "('r, 'l, 'd) UserConsumer \<Rightarrow> UserPatchSpec \<Rightarrow> User \<Rightarrow> instant \<Rightarrow> string + User" where
  "patched_target U p current now =
    (let t = (normalized (patch_Apply (uc_extend U) (Some p) current))\<lparr>om_UpdatedAt := now,
           us_ExpectedVersion := Some (om_Version current), om_Version := om_Version current + 1\<rparr>
     in EnsureExtendShadow (uc_extend U) t)"

datatype target_result = TargetDone | TargetUnresolved | TargetRetry string | TargetDeadLetter string

text \<open>The attempts at one target: a conflict of versions reads the user again and tries once more.\<close>

fun patch_attempts ::
  "('r, 'l, 'd) UserConsumer \<Rightarrow> UserPatchSpec \<Rightarrow> nat \<Rightarrow> User \<Rightarrow> ('r, 'l, 'd) consumer_world \<Rightarrow> target_result \<times> ('r, 'l, 'd) consumer_world" where
  "patch_attempts U p 0 current w = (TargetDone, w)"
| "patch_attempts U p (Suc k) current w =
    (case patched_target U p current (cw_now w) of
       Inl e \<Rightarrow> (TargetDeadLetter (''SERIALIZE_EXTEND_FAILED: '' @ e), w)
     | Inr t \<Rightarrow>
         (case main_updateUserInDB U t (Some (om_Version current)) w of
            (None, t1, w1) \<Rightarrow> (TargetDone, refresh_copies U t1 (Some current) w1)
          | (Some e, t1, w1) \<Rightarrow>
              (if isDuplicateKeyDBError (uc_mysql U) e then (TargetDone, w1)
               else if e \<noteq> DbResourceConflict then (TargetRetry (db_text e), w1)
               else if k = 0 then (TargetUnresolved, w1)
               else case main_loadUserSnapshot U (om_Name current) w1 of
                      (Inl le, w2) \<Rightarrow> (TargetRetry (text_reload_failed @ db_text le), w2)
                    | (Inr None, w2) \<Rightarrow> (TargetDone, w2)
                    | (Inr (Some latest), w2) \<Rightarrow> patch_attempts U p k latest w2)))"

fun patch_targets ::
  "('r, 'l, 'd) UserConsumer \<Rightarrow> kafka_Message \<Rightarrow> UserPatchSpec \<Rightarrow> User list \<Rightarrow> ('r, 'l, 'd) consumer_world
    \<Rightarrow> main_error option \<times> ('r, 'l, 'd) consumer_world" where
  "patch_targets U msg p [] w = (None, w)"
| "patch_targets U msg p (t # ts) w =
    (case patch_attempts U p maxConflictResyncAttempts t w of
       (TargetDeadLetter e, w1) \<Rightarrow> sendToDeadLetter U msg e w1
     | (TargetRetry e, w1) \<Rightarrow> sendToRetry U msg (text_batch_failed @ e) w1
     | (_, w1) \<Rightarrow> patch_targets U msg p ts w1)"

text \<open>An unresolved conflict only shows in a log.\<close>

definition handleBatchPatch ::
  "('r, 'l, 'd) UserConsumer \<Rightarrow> kafka_Message \<Rightarrow> User \<Rightarrow> ('r, 'l, 'd) consumer_world \<Rightarrow> main_error option \<times> ('r, 'l, 'd) consumer_world" where
  "handleBatchPatch U msg u w =
    (case us_Patch u of
       None \<Rightarrow> sendToDeadLetter U msg ''BATCH_PATCH_MISSING_UPDATES'' w
     | Some p \<Rightarrow>
         (if uc_conditions U (km_Value msg) = [] then sendToDeadLetter U msg ''BATCH_PATCH_MISSING_CONDITIONS'' w
          else case buildUserConditionClause (uc_time_nano U) (uc_time_plain U) (uc_conditions U (km_Value msg)) of
                 Inl e \<Rightarrow> sendToDeadLetter U msg (''INVALID_CONDITIONS: '' @ uc_cond_text U e) w
               | Inr (clause, args) \<Rightarrow>
                   (case loadUsersByConditions U clause args w of
                      (Inl e, w1) \<Rightarrow> sendToRetry U msg (text_batch_query @ db_text e) w1
                    | (Inr targets, w1) \<Rightarrow> patch_targets U msg p targets w1)))"

definition processUpdateOperation ::
  "('r, 'l, 'd) UserConsumer \<Rightarrow> kafka_Message \<Rightarrow> ('r, 'l, 'd) consumer_world \<Rightarrow> main_error option \<times> ('r, 'l, 'd) consumer_world" where
  "processUpdateOperation U msg w =
    (case uc_user U (km_Value msg) of
       Inl e \<Rightarrow> sendToDeadLetter U msg (''UNMARSHAL_ERROR: '' @ e) w
     | Inr u \<Rightarrow>
         (let command = (if TrimSpace (us_Command u) = [] then UserUpdateCommandFull else us_Command u)
          in if command = UserUpdateCommandBatch then handleBatchPatch U msg u w
             else if command = UserUpdateCommandPatch \<or> command = UserUpdateCommandFull then handleSingleUpdate U msg u command w
             else sendToDeadLetter U msg (''UNKNOWN_UPDATE_COMMAND: '' @ command) w))"

section \<open>Messages of a worker\<close>

definition processMessage ::
  "('r, 'l, 'd) UserConsumer \<Rightarrow> kafka_Message \<Rightarrow> ('r, 'l, 'd) consumer_world \<Rightarrow> main_error option \<times> ('r, 'l, 'd) consumer_world" where
  "processMessage U msg w =
    (let operation = getOperationFromHeaders (km_Headers msg)
     in if operation = OperationCreate_text then processCreateOperation U msg w
        else if operation = OperationUpdate_text then processUpdateOperation U msg w
        else if operation = OperationDelete_text then processDeleteOperation U msg w
        else if uc_producer U = None then (Some (MainText (text_unknown_operation @ operation)), w)
        else sendToDeadLetter U msg (''UNKNOWN_OPERATION: '' @ operation) w)"

text \<open>Waiting between two attempts ends early when the context does.\<close>

definition backoff_wait :: "('r, 'l, 'd) UserConsumer \<Rightarrow> duration \<Rightarrow> ('r, 'l, 'd) consumer_world \<Rightarrow> bool \<times> ('r, 'l, 'd) consumer_world" where
  "backoff_wait U d w =
    (case uc_ctx_end U of
       Some e \<Rightarrow> if e < cw_now w + d then (False, cw_sleep (e - cw_now w) w) else (True, cw_sleep d w)
     | None \<Rightarrow> (True, cw_sleep d w))"

definition last_text :: "main_error option \<Rightarrow> string" where
  "last_text e = (case e of None \<Rightarrow> ''<nil>'' | Some x \<Rightarrow> main_text x)"

text \<open>Attempt \<open>i\<close>, with \<open>k\<close> left; an error that is not to be retried is answered as none.\<close>

fun retry_attempts ::
  "('r, 'l, 'd) UserConsumer \<Rightarrow> kafka_Message \<Rightarrow> nat \<Rightarrow> nat \<Rightarrow> main_error option \<Rightarrow> ('r, 'l, 'd) consumer_world
    \<Rightarrow> main_error option \<times> ('r, 'l, 'd) consumer_world" where
  "retry_attempts U msg 0 i err w =
    (case sendToRetry U msg (text_exhausted @ last_text err) w of
       (None, w1) \<Rightarrow> (None, w1)
     | (Some e, w1) \<Rightarrow> (Some (RetryPublish e (case err of Some l \<Rightarrow> l | None \<Rightarrow> MainText ''<nil>'')), w1))"
| "retry_attempts U msg (Suc k) i err w =
    (case processMessage U msg w of
       (None, w1) \<Rightarrow> (None, w1)
     | (Some e, w1) \<Rightarrow>
         (if \<not> shouldRetry e then (None, w1)
          else if k = 0 then retry_attempts U msg 0 i (Some e) w1
          else case backoff_wait U (calculateBackoff i) w1 of
                 (False, w2) \<Rightarrow> (Some (WaitCancelled Canceled), w2)
               | (True, w2) \<Rightarrow> retry_attempts U msg k (i + 1) (Some e) w2))"

definition processMessageWithRetry ::
  "('r, 'l, 'd) UserConsumer \<Rightarrow> kafka_Message \<Rightarrow> int \<Rightarrow> ('r, 'l, 'd) consumer_world \<Rightarrow> main_error option \<times> ('r, 'l, 'd) consumer_world" where
  "processMessageWithRetry U msg maxRetries w = retry_attempts U msg (nat maxRetries) 1 None w"

definition job_attempts :: int where "job_attempts = 3"

text \<open>A worker acknowledges a message with the error of its attempts.\<close>

definition worker_job ::
  "('r, 'l, 'd) UserConsumer \<Rightarrow> kafka_Message \<Rightarrow> ('r, 'l, 'd) consumer_world \<Rightarrow> bool \<times> ('r, 'l, 'd) consumer_world" where
  "worker_job U msg w = (case processMessageWithRetry U msg job_attempts w of (e, w1) \<Rightarrow> (e \<noteq> None, w1))"

section \<open>Starting\<close>

text \<open>The settings of the coordinator: of those of the queue, the delays of the elevated level and the grace period of
  expired leases are not taken over.\<close>

definition main_pending_config :: "KafkaOptions \<Rightarrow> string \<Rightarrow> PendingCoordinatorConfig" where
  "main_pending_config k groupid =
    (let c = zero_config\<lparr>Component := ''user_consumer_'' @ groupid, LogLeaseEvents := True\<rparr>;
         pos = (\<lambda>x d. if 0 < x then x else d)
     in c\<lparr>LeaseTTL := pos (ko_PendingLeaseTTL k) (LeaseTTL c),
          MetricsKey := (if TrimSpace (ko_PendingMetricsKey k) \<noteq> [] then TrimSpace (ko_PendingMetricsKey k) else MetricsKey c),
          BackpressureWindow := pos (ko_PendingBackpressureWindow k) (BackpressureWindow c),
          BackpressureSoftLimit := pos (ko_PendingBackpressureSoft k) (BackpressureSoftLimit c),
          BackpressureHardLimit := pos (ko_PendingBackpressureHard k) (BackpressureHardLimit c),
          ReleaseRetention := pos (ko_PendingReleaseRetention k) (ReleaseRetention c),
          ExpiredRetention := pos (ko_PendingExpiredRetention k) (ExpiredRetention c),
          SevereDelayBase := pos (ko_PendingDelaySevere k) (SevereDelayBase c),
          SevereDelayMax := pos (ko_PendingDelaySevereMax k) (SevereDelayMax c)\<rparr>)"

definition fetcher_count :: "KafkaOptions \<Rightarrow> int" where
  "fetcher_count k = positive_or 1 (ko_FetcherCount k)"

definition main_SetWorkerCount :: "int \<Rightarrow> int" where "main_SetWorkerCount n = (if n < 1 then 1 else n)"

text \<open>The workers that are started; all of them take from one channel, whatever the partition.\<close>

definition consuming_workers :: "KafkaOptions \<Rightarrow> int \<Rightarrow> int" where
  "consuming_workers k n =
    (let actual = (if 0 < ko_DesiredPartitions k \<and> n < ko_DesiredPartitions k then ko_DesiredPartitions k else n)
     in if actual \<le> 0 then 1 else actual)"

definition main_Start :: "KafkaOptions \<Rightarrow> int \<Rightarrow> int" where
  "main_Start k workerCount = consuming_workers k (if workerCount < 1 then 1 else workerCount)"

end
