(* ===== verification/ConsumerBatching.thy ===== *)
theory ConsumerBatching
  imports ConsumerIntake
begin

text \<open>
  The batch aggregator of the main consumer (internal/pkg/server/consumer.go, runBatchAggregator): its
  limits, how they follow the length of its channel, the three batches it collects, and the flush that
  processes and acknowledges them. What it does to a batch is an event here; the processing itself is
  in ConsumerBatches. Messages have any type.
\<close>

section \<open>Limits\<close>

record batch_bounds =
  bb_max :: int
  bb_min :: int
  bb_minTimeout :: duration
  bb_maxTimeout :: duration
  bb_base :: duration
  bb_capacity :: int
  bb_lagProtected :: bool

definition batch_capacity :: "KafkaOptions \<Rightarrow> int" where
  "batch_capacity k = positive_or 1024 (ko_BatchChannelCapacity k)"

definition aggregator_bounds :: "KafkaOptions \<Rightarrow> batch_bounds" where
  "aggregator_bounds k =
    (let maxB = (if ko_MaxDBBatchSize k < 1 then 100 else ko_MaxDBBatchSize k);
         minB = (if ko_MinDBBatchSize k < 1 \<or> maxB < ko_MinDBBatchSize k then positive_or 1 (go_div maxB 2)
                 else ko_MinDBBatchSize k);
         minT = positive_or (40 * Millisecond) (ko_MinBatchTimeout k);
         maxT = max minT (positive_or (200 * Millisecond) (ko_MaxBatchTimeout k));
         base0 = (if ko_BatchTimeout k \<le> 0 then minT else ko_BatchTimeout k);
         base = (if base0 < minT then minT else if maxT < base0 then maxT else base0)
     in \<lparr>bb_max = maxB, bb_min = minB, bb_minTimeout = minT, bb_maxTimeout = maxT, bb_base = base,
         bb_capacity = batch_capacity k, bb_lagProtected = ko_LagProtected k\<rparr>)"

definition clamp :: "int \<Rightarrow> int \<Rightarrow> int \<Rightarrow> int" where
  "clamp lo hi x = (if x < lo then lo else if hi < x then hi else x)"

definition adjustParams :: "batch_bounds \<Rightarrow> int \<Rightarrow> int \<times> duration" where
  "adjustParams B pending0 =
    (let pending = max 0 pending0; cap = bb_capacity B; base = bb_base B; minT = bb_minTimeout B; maxT = bb_maxTimeout B;
         target =
           (if bb_lagProtected B \<or> (0 < cap \<and> go_div (wrap64 (cap * 3)) 4 \<le> pending) then (bb_min B, minT)
            else if 0 < cap \<and> go_div cap 2 \<le> pending
            then (max (bb_min B) (go_div (wrap64 (bb_min B + bb_max B)) 2),
                  if minT < base then base - go_div (base - minT) 2 else minT)
            else if 0 < cap \<and> pending \<le> go_div cap 4
            then (bb_max B, min maxT (base + go_div (maxT - base) 2))
            else (bb_max B, base))
     in (clamp (bb_min B) (bb_max B) (fst target), clamp minT maxT (snd target)))"

definition bounds_ok :: "batch_bounds \<Rightarrow> bool" where
  "bounds_ok B \<longleftrightarrow> 1 \<le> bb_min B \<and> bb_min B \<le> bb_max B \<and> 0 < bb_minTimeout B \<and> bb_minTimeout B \<le> bb_maxTimeout B
     \<and> bb_minTimeout B \<le> bb_base B \<and> bb_base B \<le> bb_maxTimeout B"

lemma positive_or_half: "1 \<le> m \<Longrightarrow> 1 \<le> positive_or 1 (go_div m 2) \<and> positive_or 1 (go_div m 2) \<le> m"
  by (auto simp: positive_or_def go_div_nonneg)

lemma aggregator_bounds_ok: "bounds_ok (aggregator_bounds k)"
proof -
  define maxB where "maxB = (if ko_MaxDBBatchSize k < 1 then 100 else ko_MaxDBBatchSize k)"
  have maxB: "1 \<le> maxB" by (auto simp: maxB_def)
  note half = positive_or_half [OF maxB]
  have t: "0 < positive_or (40 * Millisecond) x" for x by (simp add: positive_or_def Millisecond_def)
  show ?thesis
    unfolding bounds_ok_def aggregator_bounds_def Let_def maxB_def [symmetric]
    using maxB half t [of "ko_MinBatchTimeout k"] by (simp add: max_def)
qed

lemma clamp_range: "lo \<le> hi \<Longrightarrow> lo \<le> clamp lo hi x \<and> clamp lo hi x \<le> hi"
  by (simp add: clamp_def)

lemma adjustParams_range:
  assumes "bounds_ok B"
  shows "bb_min B \<le> fst (adjustParams B n) \<and> fst (adjustParams B n) \<le> bb_max B
    \<and> bb_minTimeout B \<le> snd (adjustParams B n) \<and> snd (adjustParams B n) \<le> bb_maxTimeout B"
  using assms clamp_range [of "bb_min B" "bb_max B"] clamp_range [of "bb_minTimeout B" "bb_maxTimeout B"]
  unfolding adjustParams_def Let_def fst_conv snd_conv bounds_ok_def by blast

section \<open>The aggregator\<close>

datatype batch_op = BatchCreate | BatchDelete | BatchUpdate

datatype 'm batch_event = BatchRun batch_op "'m list" | BatchAck 'm int

text \<open>The number of acknowledgements tried so far decides whether the channel takes the next one or the
  context ends first.\<close>

record 'm aggregator =
  ag_creates :: "('m \<times> int) list"
  ag_deletes :: "('m \<times> int) list"
  ag_updates :: "('m \<times> int) list"
  ag_limit :: int
  ag_timeout :: duration
  ag_waits :: "duration list"
  ag_events :: "'m batch_event list"
  ag_acks :: nat
  ag_stopped :: bool

definition aggregator_start :: "batch_bounds \<Rightarrow> 'm aggregator" where
  "aggregator_start B = \<lparr>ag_creates = [], ag_deletes = [], ag_updates = [], ag_limit = bb_max B, ag_timeout = bb_base B, ag_waits = [],
     ag_events = [], ag_acks = 0, ag_stopped = False\<rparr>"

definition ag_adjust :: "batch_bounds \<Rightarrow> int \<Rightarrow> 'm aggregator \<Rightarrow> 'm aggregator" where
  "ag_adjust B n s = s\<lparr>ag_limit := fst (adjustParams B n), ag_timeout := snd (adjustParams B n)\<rparr>"

fun ackMessages :: "(nat \<Rightarrow> bool) \<Rightarrow> ('m \<times> int) list \<Rightarrow> 'm aggregator \<Rightarrow> bool \<times> 'm aggregator" where
  "ackMessages taken [] s = (True, s)"
| "ackMessages taken ((m, r) # ms) s =
    (if taken (ag_acks s) then ackMessages taken ms (s\<lparr>ag_acks := ag_acks s + 1, ag_events := ag_events s @ [BatchAck m r]\<rparr>)
     else (False, s\<lparr>ag_acks := ag_acks s + 1\<rparr>))"

definition flush_one :: "(nat \<Rightarrow> bool) \<Rightarrow> batch_op \<Rightarrow> ('m \<times> int) list \<Rightarrow> 'm aggregator \<Rightarrow> bool \<times> 'm aggregator" where
  "flush_one taken b ms s =
    (if ms = [] then (True, s) else ackMessages taken ms (s\<lparr>ag_events := ag_events s @ [BatchRun b (map fst ms)]\<rparr>))"

text \<open>Creations, then deletions, then updates; a batch is emptied when all of it is acknowledged.\<close>

definition flush_batches :: "batch_bounds \<Rightarrow> (nat \<Rightarrow> bool) \<Rightarrow> int \<Rightarrow> 'm aggregator \<Rightarrow> bool \<times> 'm aggregator" where
  "flush_batches B taken len s =
    (case flush_one taken BatchCreate (ag_creates s) s of
       (False, s1) \<Rightarrow> (False, s1)
     | (True, s1) \<Rightarrow>
         (case flush_one taken BatchDelete (ag_deletes s) (s1\<lparr>ag_creates := []\<rparr>) of
            (False, s2) \<Rightarrow> (False, s2)
          | (True, s2) \<Rightarrow>
              (case flush_one taken BatchUpdate (ag_updates s) (s2\<lparr>ag_deletes := []\<rparr>) of
                 (False, s3) \<Rightarrow> (False, s3)
               | (True, s3) \<Rightarrow> (True, ag_adjust B len (s3\<lparr>ag_updates := []\<rparr>)))))"

definition flush_or_stop :: "batch_bounds \<Rightarrow> (nat \<Rightarrow> bool) \<Rightarrow> int \<Rightarrow> 'm aggregator \<Rightarrow> 'm aggregator" where
  "flush_or_stop B taken len s = (case flush_batches B taken len s of (ok, s1) \<Rightarrow> s1\<lparr>ag_stopped := \<not> ok\<rparr>)"

definition createFastFlushTimeout :: duration where "createFastFlushTimeout = 25 * Millisecond"

text \<open>Taking a message of an operation in; \<open>now\<close> is the length of the channel at that moment, \<open>len\<close> at the end
  of a flush.\<close>

definition receive_item :: "batch_bounds \<Rightarrow> (nat \<Rightarrow> bool) \<Rightarrow> int \<Rightarrow> int \<Rightarrow> string \<Rightarrow> 'm \<times> int \<Rightarrow> 'm aggregator \<Rightarrow> 'm aggregator" where
  "receive_item B taken now len operation x s =
    (if operation = OperationCreate_text
     then (let s1 = s\<lparr>ag_creates := ag_creates s @ [x]\<rparr>;
               s2 = (if length (ag_creates s1) = 1 \<and> now = 0 \<and> createFastFlushTimeout < ag_timeout s1
                     then s1\<lparr>ag_timeout := createFastFlushTimeout\<rparr> else s1)
           in if ag_limit s2 \<le> int (length (ag_creates s2)) then flush_or_stop B taken len s2 else s2)
     else if operation = OperationDelete_text
     then (let s1 = s\<lparr>ag_deletes := ag_deletes s @ [x]\<rparr>
           in if ag_limit s1 \<le> int (length (ag_deletes s1)) then flush_or_stop B taken len s1 else s1)
     else if operation = OperationUpdate_text
     then (let s1 = s\<lparr>ag_updates := ag_updates s @ [x]\<rparr>
           in if ag_limit s1 \<le> int (length (ag_updates s1)) then flush_or_stop B taken len s1 else s1)
     else s)"

text \<open>What the select of the loop picks; each holds the lengths of the channel it meets, first the one before
  the select.\<close>

datatype 'm batch_input = ItemReceived int string 'm int int int | ChannelClosed int int | Ticked int int | BatchCtxDone int int

text \<open>Before a select the limits follow the channel; the period of the ticker while it waits is noted.\<close>

definition ag_select :: "batch_bounds \<Rightarrow> int \<Rightarrow> 'm aggregator \<Rightarrow> 'm aggregator" where
  "ag_select B n s = (let s1 = ag_adjust B n s in s1\<lparr>ag_waits := ag_waits s1 @ [ag_timeout s1]\<rparr>)"

definition stop_after :: "bool \<times> 'm aggregator \<Rightarrow> 'm aggregator" where
  "stop_after x = (snd x)\<lparr>ag_stopped := True\<rparr>"

fun aggregator_step :: "batch_bounds \<Rightarrow> (nat \<Rightarrow> bool) \<Rightarrow> 'm batch_input \<Rightarrow> 'm aggregator \<Rightarrow> 'm aggregator" where
  "aggregator_step B taken (ItemReceived n operation m r now l) s =
    (if ag_stopped s then s else receive_item B taken now l operation (m, r) (ag_select B n s))"
| "aggregator_step B taken (ChannelClosed n l) s =
    (if ag_stopped s then s else stop_after (flush_batches B taken l (ag_select B n s)))"
| "aggregator_step B taken (Ticked n l) s = (if ag_stopped s then s else flush_or_stop B taken l (ag_select B n s))"
| "aggregator_step B taken (BatchCtxDone n l) s =
    (if ag_stopped s then s else stop_after (flush_batches B taken l (ag_select B n s)))"

definition aggregator_run :: "batch_bounds \<Rightarrow> (nat \<Rightarrow> bool) \<Rightarrow> 'm batch_input list \<Rightarrow> 'm aggregator" where
  "aggregator_run B taken ins = fold (aggregator_step B taken) ins (aggregator_start B)"

section \<open>What is processed and acknowledged\<close>

fun run_of :: "batch_op \<Rightarrow> 'm batch_event \<Rightarrow> 'm list" where
  "run_of b (BatchRun c ms) = (if c = b then ms else [])"
| "run_of b (BatchAck m r) = []"

fun acked_of :: "'m batch_event \<Rightarrow> ('m \<times> int) list" where
  "acked_of (BatchRun c ms) = []"
| "acked_of (BatchAck m r) = [(m, r)]"

definition ran :: "batch_op \<Rightarrow> 'm aggregator \<Rightarrow> 'm list" where
  "ran b s = concat (map (run_of b) (ag_events s))"

definition acked :: "'m aggregator \<Rightarrow> ('m \<times> int) list" where
  "acked s = concat (map acked_of (ag_events s))"

definition buffer :: "batch_op \<Rightarrow> 'm aggregator \<Rightarrow> ('m \<times> int) list" where
  "buffer b s = (case b of BatchCreate \<Rightarrow> ag_creates s | BatchDelete \<Rightarrow> ag_deletes s | BatchUpdate \<Rightarrow> ag_updates s)"

definition op_of :: "string \<Rightarrow> batch_op option" where
  "op_of operation = (if operation = OperationCreate_text then Some BatchCreate
     else if operation = OperationDelete_text then Some BatchDelete
     else if operation = OperationUpdate_text then Some BatchUpdate else None)"

fun item_of :: "batch_op \<Rightarrow> 'm batch_input \<Rightarrow> ('m \<times> int) list" where
  "item_of b (ItemReceived n operation m r now l) = (if op_of operation = Some b then [(m, r)] else [])"
| "item_of b x = []"

fun ends :: "'m batch_input \<Rightarrow> bool" where
  "ends (ChannelClosed n l) = True"
| "ends (BatchCtxDone n l) = True"
| "ends x = False"

lemma op_texts [simp]:
  "OperationCreate_text \<noteq> OperationDelete_text" "OperationCreate_text \<noteq> OperationUpdate_text"
  "OperationDelete_text \<noteq> OperationCreate_text" "OperationDelete_text \<noteq> OperationUpdate_text"
  "OperationUpdate_text \<noteq> OperationCreate_text" "OperationUpdate_text \<noteq> OperationDelete_text"
  by (simp_all add: OperationCreate_text_def OperationDelete_text_def OperationUpdate_text_def)

lemma op_of_simps [simp]:
  "op_of OperationCreate_text = Some BatchCreate" "op_of OperationDelete_text = Some BatchDelete"
  "op_of OperationUpdate_text = Some BatchUpdate"
  by (simp_all add: op_of_def)

text \<open>When every acknowledgement is taken, a flush processes and acknowledges its batches in order.\<close>

abbreviation always :: "nat \<Rightarrow> bool" where "always \<equiv> \<lambda>n. True"

definition flush_events :: "'m aggregator \<Rightarrow> 'm batch_event list" where
  "flush_events s = concat (map (\<lambda>(b, ms). if ms = [] then [] else BatchRun b (map fst ms) # map (\<lambda>(m, r). BatchAck m r) ms)
     [(BatchCreate, ag_creates s), (BatchDelete, ag_deletes s), (BatchUpdate, ag_updates s)])"

lemma ackMessages_always:
  "ackMessages always ms s = (True, s\<lparr>ag_acks := ag_acks s + length ms, ag_events := ag_events s @ map (\<lambda>(m, r). BatchAck m r) ms\<rparr>)"
  by (induction ms arbitrary: s) auto

lemma flush_always:
  "flush_batches B always l s = (True, ag_adjust B l (s\<lparr>ag_creates := [], ag_deletes := [], ag_updates := [],
     ag_acks := ag_acks s + length (ag_creates s) + length (ag_deletes s) + length (ag_updates s),
     ag_events := ag_events s @ flush_events s\<rparr>))"
  by (simp add: flush_batches_def flush_one_def ackMessages_always flush_events_def ag_adjust_def)

lemma run_of_acks [simp]: "concat (map (run_of b \<circ> (\<lambda>(m, r). BatchAck m r)) ms) = []"
  by auto

lemma acked_of_acks [simp]: "concat (map (acked_of \<circ> (\<lambda>(m, r). BatchAck m r)) ms) = ms"
  by (induction ms) auto

lemma ran_flush: "concat (map (run_of b) (flush_events s)) = map fst (buffer b s)"
  by (cases b) (simp_all add: flush_events_def buffer_def del: concat_eq_Nil_conv)

lemma acked_flush: "concat (map acked_of (flush_events s)) = ag_creates s @ ag_deletes s @ ag_updates s"
  by (simp add: flush_events_def)

section \<open>Runs\<close>

text \<open>Nothing is lost between the batches and the events, in the order of arrival per operation.\<close>

definition conserves :: "'m batch_input list \<Rightarrow> 'm aggregator \<Rightarrow> bool" where
  "conserves ins s \<longleftrightarrow> \<not> ag_stopped s
     \<and> (\<forall>b. ran b s @ map fst (buffer b s) = map fst (concat (map (item_of b) ins)))
     \<and> mset (acked s) + mset (ag_creates s @ ag_deletes s @ ag_updates s)
       = mset (concat (map (item_of BatchCreate) ins @ map (item_of BatchDelete) ins @ map (item_of BatchUpdate) ins))"

lemma conserves_select [simp]: "conserves ins (ag_select B n s) = conserves ins s"
  by (simp add: conserves_def ag_select_def ag_adjust_def Let_def ran_def acked_def buffer_def split: batch_op.splits)

lemma conserves_timeout [simp]: "conserves ins (s\<lparr>ag_timeout := d\<rparr>) = conserves ins s"
  by (simp add: conserves_def ran_def acked_def buffer_def split: batch_op.splits)

lemma conserves_flush: "conserves ins s \<Longrightarrow> conserves ins (flush_or_stop B always l s)"
  by (auto simp: flush_or_stop_def flush_always conserves_def ran_def acked_def ran_flush acked_flush buffer_def ag_adjust_def
      split: batch_op.splits)

lemma conserves_receive:
  assumes "conserves ins s" and "op_of operation \<noteq> None"
  shows "conserves (ins @ [ItemReceived n operation m r now l]) (receive_item B always now l operation (m, r) s)"
proof -
  let ?ins = "ins @ [ItemReceived n operation m r now l]"
  obtain b where b: "op_of operation = Some b" using assms(2) by blast
  have "conserves ?ins (s\<lparr>ag_creates := ag_creates s @ [(m, r)]\<rparr>)" if "b = BatchCreate"
    using assms(1) b that by (auto simp: conserves_def ran_def acked_def buffer_def split: batch_op.splits)
  moreover have "conserves ?ins (s\<lparr>ag_deletes := ag_deletes s @ [(m, r)]\<rparr>)" if "b = BatchDelete"
    using assms(1) b that by (auto simp: conserves_def ran_def acked_def buffer_def split: batch_op.splits)
  moreover have "conserves ?ins (s\<lparr>ag_updates := ag_updates s @ [(m, r)]\<rparr>)" if "b = BatchUpdate"
    using assms(1) b that by (auto simp: conserves_def ran_def acked_def buffer_def split: batch_op.splits)
  ultimately show ?thesis using b
    by (auto simp: receive_item_def Let_def op_of_def conserves_flush split: if_splits)
qed

definition supported :: "'m batch_input \<Rightarrow> bool" where
  "supported x \<longleftrightarrow> (case x of ItemReceived n operation m r now l \<Rightarrow> op_of operation \<noteq> None | _ \<Rightarrow> True)"

lemma run_conserves:
  assumes "list_all (\<lambda>x. supported x \<and> \<not> ends x) ins"
  shows "conserves ins (aggregator_run B always ins)"
  using assms
proof (induction ins rule: rev_induct)
  case Nil
  show ?case by (simp add: conserves_def aggregator_run_def aggregator_start_def ran_def acked_def buffer_def split: batch_op.splits)
next
  case (snoc x ins)
  let ?s = "aggregator_run B always ins"
  have s: "conserves ins ?s" using snoc by simp
  then have run: "\<not> ag_stopped ?s" by (simp add: conserves_def)
  have step: "aggregator_run B always (ins @ [x]) = aggregator_step B always x ?s" by (simp add: aggregator_run_def)
  show ?case
  proof (cases x)
    case (ItemReceived n operation m r now l)
    have "conserves ins (ag_select B n ?s)" using s by simp
    then show ?thesis using snoc.prems step run conserves_receive [of ins "ag_select B n ?s" operation n m r now l B]
      by (simp add: ItemReceived supported_def)
  next
    case (Ticked n l)
    have "conserves ins (flush_or_stop B always l (ag_select B n ?s))" using s by (simp add: conserves_flush)
    then show ?thesis using step run Ticked by (simp add: conserves_def)
  qed (use snoc.prems in simp_all)
qed

text \<open>C22. Unless the context ends, the aggregator loses nothing and repeats nothing: once its channel is
  closed, the messages processed as creations, deletions and updates are those that came in, in their order
  per operation, and every one of them is acknowledged exactly once, as a success, whatever became of it.\<close>

theorem aggregator_conserves:
  assumes "list_all (\<lambda>x. supported x \<and> \<not> ends x) ins"
  shows "ran b (aggregator_run B (\<lambda>n. True) (ins @ [ChannelClosed n l])) = map fst (concat (map (item_of b) ins))
    \<and> mset (acked (aggregator_run B (\<lambda>n. True) (ins @ [ChannelClosed n l]))) =
        mset (concat (map (item_of BatchCreate) ins @ map (item_of BatchDelete) ins @ map (item_of BatchUpdate) ins))
    \<and> ag_stopped (aggregator_run B (\<lambda>n. True) (ins @ [ChannelClosed n l]))"
proof -
  let ?s = "ag_select B n (aggregator_run B always ins)"
  have s: "conserves ins ?s" using run_conserves [OF assms] by simp
  have "\<not> ag_stopped (aggregator_run B always ins)" using run_conserves [OF assms] by (simp add: conserves_def)
  then have r: "aggregator_run B always (ins @ [ChannelClosed n l]) = stop_after (flush_batches B always l ?s)"
    by (simp add: aggregator_run_def)
  show ?thesis
    using s unfolding r stop_after_def flush_always conserves_def
    by (auto simp: ran_def acked_def ran_flush acked_flush ag_adjust_def)
qed

theorem aggregator_conserves_witness:
  "ran BatchDelete (aggregator_run (aggregator_bounds NewKafkaOptions) (\<lambda>n. True)
      ([ItemReceived 0 OperationDelete_text ''d'' 0 1 0, Ticked 0 0, ItemReceived 1 OperationDelete_text ''e'' 1 0 0] @ [ChannelClosed 0 0]))
    = [''d'', ''e'']"
  using aggregator_conserves [of "[ItemReceived 0 OperationDelete_text ''d'' 0 1 0, Ticked 0 0, ItemReceived 1 OperationDelete_text ''e'' 1 0 0]"
      BatchDelete "aggregator_bounds NewKafkaOptions" 0 0]
  by (simp add: supported_def)

section \<open>Sizes and periods\<close>

text \<open>What every input keeps, whatever acknowledgements are taken: the limits are in range, no batch reaches
  the greatest limit, and so do the batches that ran; the period of a waiting ticker is in range.\<close>

definition event_sized :: "batch_bounds \<Rightarrow> 'm batch_event \<Rightarrow> bool" where
  "event_sized B e \<longleftrightarrow> (case e of BatchRun b ms \<Rightarrow> int (length ms) \<le> bb_max B | _ \<Rightarrow> True)"

definition in_range :: "batch_bounds \<Rightarrow> 'm aggregator \<Rightarrow> bool" where
  "in_range B s \<longleftrightarrow> ag_limit s \<le> bb_max B \<and> list_all (event_sized B) (ag_events s)
     \<and> list_all (\<lambda>d. bb_minTimeout B \<le> d \<and> d \<le> bb_maxTimeout B) (ag_waits s)"

definition sized :: "batch_bounds \<Rightarrow> 'm aggregator \<Rightarrow> bool" where
  "sized B s \<longleftrightarrow> in_range B s \<and> (\<not> ag_stopped s \<longrightarrow> (\<forall>b. int (length (buffer b s)) < bb_max B))"

lemma acks_in_range:
  "ackMessages taken ms s = (ok, s1) \<Longrightarrow> in_range B s1 = in_range B s \<and> buffer b s1 = buffer b s"
  by (induction taken ms s rule: ackMessages.induct)
    (auto simp: in_range_def event_sized_def buffer_def split: if_splits batch_op.splits)

lemma flush_one_in_range:
  assumes "flush_one taken c ms s = (ok, s1)" and "in_range B s" and "int (length ms) \<le> bb_max B"
  shows "in_range B s1 \<and> buffer b s1 = buffer b s"
proof (cases "ms = []")
  case False
  let ?s = "s\<lparr>ag_events := ag_events s @ [BatchRun c (map fst ms)]\<rparr>"
  have "in_range B ?s" "buffer b ?s = buffer b s"
    using assms(2,3) by (simp_all add: in_range_def event_sized_def buffer_def split: batch_op.splits)
  then show ?thesis using assms(1) False acks_in_range [of taken ms ?s ok s1 B b] by (simp add: flush_one_def)
qed (use assms in \<open>simp add: flush_one_def\<close>)

lemma buffer_updates [simp]:
  "in_range B (s\<lparr>ag_creates := x\<rparr>) = in_range B s" "in_range B (s\<lparr>ag_deletes := x\<rparr>) = in_range B s"
  "in_range B (s\<lparr>ag_updates := x\<rparr>) = in_range B s" "in_range B (s\<lparr>ag_stopped := z\<rparr>) = in_range B s"
  "in_range B (s\<lparr>ag_timeout := d\<rparr>) = in_range B s"
  by (simp_all add: in_range_def)

lemma adjust_in_range: "bounds_ok B \<Longrightarrow> in_range B s \<Longrightarrow> in_range B (ag_adjust B n s)"
  using adjustParams_range [of B n] by (simp add: in_range_def ag_adjust_def)

lemma flush_in_range:
  assumes "bounds_ok B" and "in_range B s" and "\<And>b. int (length (buffer b s)) \<le> bb_max B"
    and "flush_batches B taken l s = (ok, s1)"
  shows "in_range B s1 \<and> (ok \<longrightarrow> (\<forall>b. buffer b s1 = []))"
proof -
  have len: "int (length (ag_creates s)) \<le> bb_max B" "int (length (ag_deletes s)) \<le> bb_max B" "int (length (ag_updates s)) \<le> bb_max B"
    using assms(3) [of BatchCreate] assms(3) [of BatchDelete] assms(3) [of BatchUpdate] by (simp_all add: buffer_def)
  obtain ok1 t1 where f1: "flush_one taken BatchCreate (ag_creates s) s = (ok1, t1)" by fastforce
  obtain ok2 t2 where f2: "flush_one taken BatchDelete (ag_deletes s) (t1\<lparr>ag_creates := []\<rparr>) = (ok2, t2)" by fastforce
  obtain ok3 t3 where f3: "flush_one taken BatchUpdate (ag_updates s) (t2\<lparr>ag_deletes := []\<rparr>) = (ok3, t3)" by fastforce
  note r1 = flush_one_in_range [OF f1 assms(2) len(1)]
  have r2: "in_range B t2 \<and> buffer b t2 = buffer b (t1\<lparr>ag_creates := []\<rparr>)" for b
    by (rule flush_one_in_range [OF f2 _ len(2)]) (use r1 in simp)
  have r3: "in_range B t3 \<and> buffer b t3 = buffer b (t2\<lparr>ag_deletes := []\<rparr>)" for b
    by (rule flush_one_in_range [OF f3 _ len(3)]) (use r2 in simp)
  have "buffer b (ag_adjust B l (t3\<lparr>ag_updates := []\<rparr>)) = []" for b
    using r2 [of BatchCreate] r3 [of BatchCreate] r3 [of BatchDelete] by (cases b) (simp_all add: buffer_def ag_adjust_def)
  moreover have "in_range B (ag_adjust B l (t3\<lparr>ag_updates := []\<rparr>))" by (rule adjust_in_range [OF assms(1)]) (use r3 in simp)
  ultimately show ?thesis using assms(4) r1 r2 r3
    by (auto simp: flush_batches_def f1 f2 f3 split: bool.splits)
qed

lemma flush_or_stop_sized:
  assumes "bounds_ok B" and "in_range B s" and "\<And>b. int (length (buffer b s)) \<le> bb_max B"
  shows "sized B (flush_or_stop B taken l s)"
proof -
  obtain ok s1 where f: "flush_batches B taken l s = (ok, s1)" by fastforce
  have "buffer b (s1\<lparr>ag_stopped := z\<rparr>) = buffer b s1" for b z by (simp add: buffer_def split: batch_op.splits)
  moreover have "0 < bb_max B" using assms(1) by (simp add: bounds_ok_def)
  ultimately show ?thesis using flush_in_range [OF assms f] by (auto simp: flush_or_stop_def f sized_def)
qed

lemma receive_sized:
  assumes "bounds_ok B" and "sized B s" and "\<not> ag_stopped s"
  shows "sized B (receive_item B taken now l operation x s)"
proof -
  have r: "in_range B s" and len: "\<And>b. int (length (buffer b s)) < bb_max B" using assms(2,3) by (simp_all add: sized_def)
  have lim: "ag_limit s \<le> bb_max B" using r by (simp add: in_range_def)
  have flushed: "sized B (flush_or_stop B taken l u)" if "u \<in> {s\<lparr>ag_creates := ag_creates s @ [x]\<rparr>, s\<lparr>ag_deletes := ag_deletes s @ [x]\<rparr>,
      s\<lparr>ag_updates := ag_updates s @ [x]\<rparr>, s\<lparr>ag_creates := ag_creates s @ [x], ag_timeout := createFastFlushTimeout\<rparr>}" for u
  proof (rule flush_or_stop_sized [OF assms(1)])
    show "in_range B u" using that r by auto
    show "int (length (buffer b u)) \<le> bb_max B" for b
      using that len [of BatchCreate] len [of BatchDelete] len [of BatchUpdate] by (cases b) (auto simp: buffer_def)
  qed
  have kept: "sized B u" if "u \<in> {s\<lparr>ag_creates := ag_creates s @ [x]\<rparr>, s\<lparr>ag_deletes := ag_deletes s @ [x]\<rparr>,
      s\<lparr>ag_updates := ag_updates s @ [x]\<rparr>, s\<lparr>ag_creates := ag_creates s @ [x], ag_timeout := createFastFlushTimeout\<rparr>}"
    and "int (length (ag_creates u)) < ag_limit s \<or> ag_creates u = ag_creates s"
    and "int (length (ag_deletes u)) < ag_limit s \<or> ag_deletes u = ag_deletes s"
    and "int (length (ag_updates u)) < ag_limit s \<or> ag_updates u = ag_updates s" for u
  proof -
    have "int (length (buffer b u)) < bb_max B" for b
      using that(2-4) lim len [of b] by (cases b) (auto simp: buffer_def)
    moreover have "in_range B u" using that(1) r by auto
    ultimately show ?thesis by (simp add: sized_def)
  qed
  show ?thesis
    using flushed kept assms(2) by (simp add: receive_item_def Let_def)
qed

lemma select_sized: "bounds_ok B \<Longrightarrow> sized B s \<Longrightarrow> sized B (ag_select B n s)"
  using adjustParams_range [of B n]
  by (simp add: sized_def in_range_def ag_select_def ag_adjust_def Let_def buffer_def split: batch_op.splits)

lemma step_sized:
  assumes "bounds_ok B" and "sized B s"
  shows "sized B (aggregator_step B taken x s)"
proof (cases "ag_stopped s")
  case False
  have s: "sized B (ag_select B n s)" "\<not> ag_stopped (ag_select B n s)" for n
    using select_sized [OF assms] False by (simp_all add: ag_select_def ag_adjust_def Let_def)
  have r: "in_range B (ag_select B n s)" "int (length (buffer b (ag_select B n s))) \<le> bb_max B" for n b
    using s [of n] by (auto simp: sized_def less_imp_le)
  have fl: "sized B (flush_or_stop B taken l (ag_select B n s))" for n l by (rule flush_or_stop_sized [OF assms(1) r])
  have st: "sized B (stop_after (flush_batches B taken l (ag_select B n s)))" for n l
  proof -
    obtain ok s1 where f: "flush_batches B taken l (ag_select B n s) = (ok, s1)" by fastforce
    show ?thesis using flush_in_range [OF assms(1) r f] by (simp add: f stop_after_def sized_def)
  qed
  have rec: "sized B (receive_item B taken now l operation y (ag_select B n s))" for now l operation y n
    by (rule receive_sized [OF assms(1) s])
  show ?thesis using False fl st rec by (cases x) auto
qed (use assms(2) in \<open>cases x; simp\<close>)

lemma run_sized: "bounds_ok B \<Longrightarrow> sized B (aggregator_run B taken ins)"
proof (induction ins rule: rev_induct)
  case Nil
  then show ?case by (auto simp: aggregator_run_def aggregator_start_def sized_def in_range_def bounds_ok_def buffer_def split: batch_op.splits)
next
  case (snoc x ins)
  then show ?case using step_sized by (simp add: aggregator_run_def)
qed

text \<open>Whatever the settings of the queue and whatever happens, no batch holds more messages than the
  greatest batch size, and the ticker that waits for the next flush has a period between the least and the
  greatest timeout: the shorter period of 25 ms that a lone creation sets is replaced before the next wait,
  so it never takes effect unless the least timeout allows it.\<close>

theorem aggregator_within_bounds:
  "list_all (event_sized (aggregator_bounds k)) (ag_events (aggregator_run (aggregator_bounds k) taken ins))
   \<and> list_all (\<lambda>d. bb_minTimeout (aggregator_bounds k) \<le> d \<and> d \<le> bb_maxTimeout (aggregator_bounds k))
       (ag_waits (aggregator_run (aggregator_bounds k) taken ins))"
  using run_sized [OF aggregator_bounds_ok, of k taken ins] by (simp add: sized_def in_range_def)

end
