(* ===== verification/ConsumerBatches.thy ===== *)
theory ConsumerBatches
  imports ConsumerHandlers ConsumerBatching
begin

text \<open>
  What the main consumer does to a batch of messages (internal/pkg/server/consumer.go: initCreatePipeline,
  batchCreateToDB, batchDeleteFromDB, batchUpdateToDB), and to all the batches the aggregator flushes. The
  creations of a batch run in several goroutines; here one after the other, in the order of the batch.
\<close>

section \<open>Creations\<close>

text \<open>The entity of the pipeline is a pointer; what it points to is in the state.\<close>

type_synonym ('r, 'l, 'd) create_state = "User \<times> ('r, 'l, 'd) consumer_world"

definition batch_notify ::
  "('r, 'l, 'd) UserConsumer \<Rightarrow> (UserProducer \<Rightarrow> ('r, 'l, 'd) consumer_world \<Rightarrow> queue_io \<Rightarrow> send_error option \<times> queue_io)
    \<Rightarrow> ('r, 'l, 'd) consumer_world \<Rightarrow> ('r, 'l, 'd) consumer_world" where
  "batch_notify U f w = (case uc_producer U of None \<Rightarrow> w | Some P \<Rightarrow> snd (cw_queue (f P w) w))"

definition batch_dead_letter ::
  "('r, 'l, 'd) UserConsumer \<Rightarrow> kafka_Message \<Rightarrow> string \<Rightarrow> ('r, 'l, 'd) consumer_world \<Rightarrow> ('r, 'l, 'd) consumer_world" where
  "batch_dead_letter U msg reason =
    batch_notify U (\<lambda>P w. SendToDeadLetterTopic P (cw_now w) (uc_trace U) msg reason)"

text \<open>A batch hands the message itself to the producer, without a header of its own.\<close>

definition batch_retry ::
  "('r, 'l, 'd) UserConsumer \<Rightarrow> kafka_Message \<Rightarrow> string \<Rightarrow> ('r, 'l, 'd) consumer_world \<Rightarrow> ('r, 'l, 'd) consumer_world" where
  "batch_retry U msg reason = batch_notify U (\<lambda>P w. sendToRetryTopic P (cw_now w) (uc_trace U) msg reason)"

definition create_pipeline ::
  "('r, 'l, 'd) UserConsumer \<Rightarrow> (unit, kafka_Message, ('r, 'l, 'd) create_state, create_error) ConsumerConfig" where
  "create_pipeline U = \<lparr>
     cc_Decode = Some (\<lambda>msg (u, w). case uc_user U (km_Value msg) of
        Inl e \<Rightarrow> (Inl (CreateUndecoded e), (u, w)) | Inr v \<Rightarrow> (Inr (), (v, w))),
     cc_OnDecodeError = Some (\<lambda>msg e (u, w). (u, batch_dead_letter U msg (''BATCH_UNMARSHAL_ERROR: '' @ create_text e) w)),
     cc_Validate = Some (\<lambda>msg x (u, w). (map_option CreateInvalid (ValidateUserFields u), (u, w))),
     cc_OnValidationError = Some (\<lambda>msg x e (u, w). (u, batch_dead_letter U msg (create_text e) w)),
     cc_Normalize = Some (\<lambda>x (u, w). (normalized u, w)),
     cc_Prepare = Some (\<lambda>x (u, w).
        (None, ensureUserInstanceID U (u\<lparr>om_CreatedAt := cw_now w, om_UpdatedAt := cw_now w\<rparr>) w)),
     cc_BeforePersist = None,
     cc_Persist = Some (\<lambda>msg x (u, w). case processCreateMessageWithPending U u w of (r, w1) \<Rightarrow> (r, (u, w1))),
     cc_OnPersistError = Some (\<lambda>msg x e (u, w). (u, batch_retry U msg (''BATCH_CREATE_DB_ERROR: '' @ create_text e) w)),
     cc_AfterSuccess = Some (\<lambda>msg x created s. (None, s))\<rparr>"

definition batch_ended :: "('r, 'l, 'd) UserConsumer \<Rightarrow> ('r, 'l, 'd) consumer_world \<Rightarrow> bool" where
  "batch_ended U w \<longleftrightarrow> (case uc_ctx_end U of Some e \<Rightarrow> e \<le> cw_now w | None \<Rightarrow> False)"

definition batch_create_one ::
  "('r, 'l, 'd) UserConsumer \<Rightarrow> kafka_Message \<Rightarrow> ('r, 'l, 'd) consumer_world \<Rightarrow> ('r, 'l, 'd) consumer_world" where
  "batch_create_one U msg w = snd (snd (consumer_Process (Some (create_pipeline U)) msg (zero_user, w)))"

text \<open>An ended context stops the batch.\<close>

fun batchCreateToDB ::
  "('r, 'l, 'd) UserConsumer \<Rightarrow> kafka_Message list \<Rightarrow> ('r, 'l, 'd) consumer_world \<Rightarrow> ('r, 'l, 'd) consumer_world" where
  "batchCreateToDB U [] w = w"
| "batchCreateToDB U (m # ms) w = (if batch_ended U w then w else batchCreateToDB U ms (batch_create_one U m w))"

section \<open>Deletions\<close>

fun batch_usernames ::
  "('r, 'l, 'd) UserConsumer \<Rightarrow> kafka_Message list \<Rightarrow> ('r, 'l, 'd) consumer_world \<Rightarrow> string list \<times> ('r, 'l, 'd) consumer_world" where
  "batch_usernames U [] w = ([], w)"
| "batch_usernames U (m # ms) w =
    (case uc_delete U (km_Value m) of
       Inl e \<Rightarrow> batch_usernames U ms (batch_dead_letter U m (''BATCH_UNMARSHAL_ERROR: '' @ e) w)
     | Inr req \<Rightarrow> (case batch_usernames U ms w of (ns, w1) \<Rightarrow> (dm_Username req # ns, w1)))"

text \<open>What the query before the deletion tells of a name: the identifier, and the contacts when there are any.\<close>

definition contact_row :: "userRowBuffer list \<Rightarrow> string \<Rightarrow> userRowBuffer option" where
  "contact_row rows name = map_of (map (\<lambda>r. (rawToString (rb_name r), r)) (rev rows)) name"

definition contact_target :: "userRowBuffer list \<Rightarrow> string \<Rightarrow> 64 word" where
  "contact_target rows name = (case contact_row rows name of Some r \<Rightarrow> rb_id r | None \<Rightarrow> 0)"

definition has_contacts :: "userRowBuffer \<Rightarrow> bool" where
  "has_contacts r \<longleftrightarrow> rawToString (rb_email r) \<noteq> [] \<or> rawToString (rb_phone r) \<noteq> []"

definition contact_snapshot :: "userRowBuffer list \<Rightarrow> string \<Rightarrow> User option" where
  "contact_snapshot rows name =
    map_option (\<lambda>r. zero_user\<lparr>us_Email := rawToString (rb_email r), us_Phone := rawToString (rb_phone r)\<rparr>)
      (contact_row (filter has_contacts rows) name)"

text \<open>A failed deletion sends every message of the batch back, also those that are dead letters already.\<close>

definition delete_users ::
  "('r, 'l, 'd) UserConsumer \<Rightarrow> kafka_Message list \<Rightarrow> string list \<Rightarrow> ('r, 'l, 'd) consumer_world \<Rightarrow> ('r, 'l, 'd) consumer_world" where
  "delete_users U msgs names w =
    (case cw_db (tb_contacts (uc_table U) names) w of
       (answer, w1) \<Rightarrow>
         (let rows = (case answer of Inr rs \<Rightarrow> rs | Inl e \<Rightarrow> [])
          in case cw_db (tb_delete_all (uc_table U) names) w1 of
               (Some e, w2) \<Rightarrow> fold (\<lambda>m. batch_retry U m (''BATCH_DELETE_DB_ERROR: '' @ e)) msgs w2
             | (None, w2) \<Rightarrow>
                 fold (\<lambda>n. main_purgeUserState U n (contact_target rows n) (contact_snapshot rows n)) names w2))"

definition batchDeleteFromDB ::
  "('r, 'l, 'd) UserConsumer \<Rightarrow> kafka_Message list \<Rightarrow> ('r, 'l, 'd) consumer_world \<Rightarrow> ('r, 'l, 'd) consumer_world" where
  "batchDeleteFromDB U msgs w =
    (case batch_usernames U msgs w of
       (names, w1) \<Rightarrow> if names = [] \<or> uc_connected U w1 \<noteq> None then w1 else delete_users U msgs names w1)"

section \<open>Updates\<close>

fun update_intents ::
  "('r, 'l, 'd) UserConsumer \<Rightarrow> kafka_Message list \<Rightarrow> ('r, 'l, 'd) consumer_world
    \<Rightarrow> (kafka_Message \<times> User) list \<times> ('r, 'l, 'd) consumer_world" where
  "update_intents U [] w = ([], w)"
| "update_intents U (m # ms) w =
    (case uc_user U (km_Value m) of
       Inl e \<Rightarrow> update_intents U ms (batch_dead_letter U m (''BATCH_UNMARSHAL_ERROR: '' @ e) w)
     | Inr u \<Rightarrow>
         (case ValidateUserFields u of
            Some e \<Rightarrow> update_intents U ms (batch_dead_letter U m e w)
          | None \<Rightarrow> (case update_intents U ms w of (ins, w1) \<Rightarrow> ((m, u) # ins, w1))))"

text \<open>The statement overwrites the columns whatever the version; the copies get the user of the message.\<close>

definition overwrite_user ::
  "('r, 'l, 'd) UserConsumer \<Rightarrow> (string \<Rightarrow> User option) \<Rightarrow> kafka_Message \<times> User \<Rightarrow> ('r, 'l, 'd) consumer_world \<Rightarrow> ('r, 'l, 'd) consumer_world" where
  "overwrite_user U snapshots intent w =
    (case intent of (msg, u) \<Rightarrow>
       (case snapshots (om_Name u) of
          None \<Rightarrow> batch_dead_letter U msg (''BATCH_UPDATE_TARGET_NOT_FOUND: '' @ om_Name u) w
        | Some existing \<Rightarrow>
            (let u1 = filled_shadow (uc_extend U) ((normalized u)\<lparr>om_UpdatedAt := cw_now w\<rparr>)
             in case cw_db (tb_overwrite (uc_table U) (user_row u1)) w of
                  (Some e, w1) \<Rightarrow> batch_retry U msg (''BATCH_UPDATE_DB_ERROR: '' @ e) w1
                | (None, w1) \<Rightarrow> refresh_copies U u1 (Some existing) w1)))"

definition update_snapshots :: "extend_codec \<Rightarrow> userRowBuffer list \<Rightarrow> string \<Rightarrow> User option" where
  "update_snapshots X rows name =
    map_of (map (\<lambda>r. let u = materializeUser X r scanModeAuth in (om_Name u, u)) (rev rows)) name"

definition batchUpdateToDB ::
  "('r, 'l, 'd) UserConsumer \<Rightarrow> kafka_Message list \<Rightarrow> ('r, 'l, 'd) consumer_world \<Rightarrow> ('r, 'l, 'd) consumer_world" where
  "batchUpdateToDB U msgs w =
    (if msgs = [] \<or> uc_connected U w \<noteq> None then w
     else case update_intents U msgs w of
            (intents, w1) \<Rightarrow>
              (if intents = [] then w1
               else case cw_db (tb_select_all (uc_table U) (rev (remdups (rev (map (om_Name \<circ> snd) intents))))) w1 of
                      (Inl e, w2) \<Rightarrow> w2
                    | (Inr rows, w2) \<Rightarrow> fold (overwrite_user U (update_snapshots (uc_extend U) rows)) intents w2))"

section \<open>What the aggregator flushes\<close>

definition run_batch ::
  "('r, 'l, 'd) UserConsumer \<Rightarrow> batch_op \<Rightarrow> kafka_Message list \<Rightarrow> ('r, 'l, 'd) consumer_world \<Rightarrow> ('r, 'l, 'd) consumer_world" where
  "run_batch U b ms w = (case b of BatchCreate \<Rightarrow> batchCreateToDB U ms w | BatchDelete \<Rightarrow> batchDeleteFromDB U ms w
     | BatchUpdate \<Rightarrow> batchUpdateToDB U ms w)"

definition run_event ::
  "('r, 'l, 'd) UserConsumer \<Rightarrow> kafka_Message batch_event \<Rightarrow> ('r, 'l, 'd) consumer_world \<Rightarrow> ('r, 'l, 'd) consumer_world" where
  "run_event U e w = (case e of BatchRun b ms \<Rightarrow> run_batch U b ms w | BatchAck m r \<Rightarrow> w)"

definition run_events ::
  "('r, 'l, 'd) UserConsumer \<Rightarrow> kafka_Message batch_event list \<Rightarrow> ('r, 'l, 'd) consumer_world \<Rightarrow> ('r, 'l, 'd) consumer_world" where
  "run_events U es = fold (run_event U) es"

end
