(* ===== verification/ConsumerProperties.thy ===== *)
theory ConsumerProperties
  imports ConsumerHandlers ConsumerBatches RetryProperties
begin

text \<open>
  Properties of the main consumer: how often a message is handed over, what an update may change, which
  messages are given up although they are acknowledged, and what batches do that single messages do not.
\<close>

text \<open>
  Facts about the handlers of the main consumer: what leaves the queue alone, what leaves the table alone, and
  how often an attempt at a message hands it over.
\<close>

section \<open>What leaves the queue alone\<close>

abbreviation cq :: "('r, 'l, 'd) consumer_world \<Rightarrow> queue_io" where "cq w \<equiv> rw_queue (cw_base w)"
abbreviation cd :: "('r, 'l, 'd) consumer_world \<Rightarrow> 'd" where "cd w \<equiv> rw_db (cw_base w)"

lemma cw_db_frame [simp]: "cq (snd (cw_db f w)) = cq w"
  by (simp add: cw_db_def on_db_def split_def)

lemma cw_snd_frame [simp]:
  "cq (snd (cw_cache f w)) = cq w" "cd (snd (cw_cache f w)) = cd w"
  "cq (snd (cw_pending g w)) = cq w" "cd (snd (cw_pending g w)) = cd w"
  by (simp_all add: cw_cache_def on_cache_def cw_pending_def split_def)

lemma cw_small_frames [simp]:
  "cq (cw_sleep d w) = cq w" "cd (cw_sleep d w) = cd w" "cw_base (marker_Set k e w) = cw_base w"
  "cq (refresh_copies U u p w) = cq w" "cd (refresh_copies U u p w) = cd w"
  "cw_base (snd (ensureUserInstanceID U u w)) = cw_base w"
  by (simp_all add: cw_sleep_def marker_Set_def refresh_copies_def ensureUserInstanceID_def)

lemma legacyGet_frame [simp]:
  "cq (snd (legacyGetPendingCreateMarker U n w)) = cq w" "cd (snd (legacyGetPendingCreateMarker U n w)) = cd w"
  by (simp_all add: legacyGetPendingCreateMarker_def Let_def split_def split: sum.splits option.splits)

lemma getPending_frame [simp]:
  "cq (snd (getPendingCreateMarker U n w)) = cq w" "cd (snd (getPendingCreateMarker U n w)) = cd w"
  by (simp_all add: getPendingCreateMarker_def Let_def split_def split: sum.splits option.splits)

lemma release_marker_frame [simp]:
  "cq (snd (release_marker U n ow ob w)) = cq w" "cd (snd (release_marker U n ow ob w)) = cd w"
  by (simp_all add: release_marker_def split_def)

lemma clearPending_frame [simp]:
  "cq (snd (main_clearPendingCreateMarker U n w)) = cq w" "cd (snd (main_clearPendingCreateMarker U n w)) = cd w"
  by (simp_all add: main_clearPendingCreateMarker_def legacyClearPendingCreateMarker_def Let_def split_def
      split: sum.splits option.splits)

lemma purge_frame [simp]: "cq (main_purgeUserState U n i s w) = cq w" "cd (main_purgeUserState U n i s w) = cd w"
  by (simp_all add: main_purgeUserState_def Let_def split: option.splits)

lemma table_queue [simp]:
  "cq (snd (select_user U n w)) = cq w"
  "cq (snd (snd (main_createUserInDB U u w))) = cq w"
  "cq (snd (main_deleteUserFromDB U n w)) = cq w"
  "cq (snd (loadUsersByConditions U c a w)) = cq w"
  by (simp_all add: select_user_def main_createUserInDB_def main_deleteUserFromDB_def loadUsersByConditions_def Let_def split_def
      split: option.splits user_query.splits sum.splits)

lemma load_queue [simp]:
  "cq (snd (loadUserSnapshotInternal U n s w)) = cq w" "cq (snd (main_loadUserSnapshot U n w)) = cq w"
  by (simp_all add: main_loadUserSnapshot_def loadUserSnapshotInternal_def Let_def split_def split: option.splits)

lemma attempts_queue [simp]: "cq (snd (update_attempts U row v k i w)) = cq w"
  by (induction k arbitrary: i w) (simp_all add: split_def split: sum.splits)

lemma updateDB_queue [simp]: "cq (snd (snd (main_updateUserInDB U u v w))) = cq w"
  by (simp add: main_updateUserInDB_def Let_def split_def split: option.splits)

lemma persist_queue [simp]: "cq (snd (persist_user U u b w)) = cq w"
  by (simp add: persist_user_def Let_def split_def split: sum.splits option.splits)

lemma processCreate_queue [simp]: "cq (snd (processCreateMessageWithPending U u w)) = cq w"
  by (simp add: processCreateMessageWithPending_def split_def split: sum.splits option.splits bool.splits)

lemma patch_attempts_queue [simp]: "cq (snd (patch_attempts U p k t w)) = cq w"
  by (induction k arbitrary: t w) (simp_all add: split_def split: sum.splits option.splits)

section \<open>Handing over\<close>

text \<open>A handler leaves the queues alone, or its last step hands the message over and answers the error of that.\<close>

definition hands_over ::
  "('r, 'l, 'd) UserConsumer \<Rightarrow> kafka_Message \<Rightarrow> queue_io \<Rightarrow> main_error option \<times> ('r, 'l, 'd) consumer_world \<Rightarrow> bool" where
  "hands_over U msg q x \<longleftrightarrow>
     (\<exists>w0 reason. cq w0 = q \<and> (x = sendToRetry U msg reason w0 \<or> x = sendToDeadLetter U msg reason w0))"

definition forwards :: "('r, 'l, 'd) UserConsumer \<Rightarrow> kafka_Message \<Rightarrow> queue_io \<Rightarrow> main_error option \<times> ('r, 'l, 'd) consumer_world \<Rightarrow> bool" where
  "forwards U msg q x \<longleftrightarrow> cq (snd x) = q \<or> hands_over U msg q x"

lemma forwards_retry [simp]: "cq w = q \<Longrightarrow> forwards U msg q (sendToRetry U msg reason w)"
  and forwards_dead_letter [simp]: "cq w = q \<Longrightarrow> forwards U msg q (sendToDeadLetter U msg reason w)"
  by (auto simp: forwards_def hands_over_def)

lemma forwards_kept [simp]: "cq w = q \<Longrightarrow> forwards U msg q (e, w)"
  by (simp add: forwards_def)

lemma processCreate_forwards: "forwards U msg (cq w) (processCreateOperation U msg w)"
  by (simp add: processCreateOperation_def split_def split: sum.splits option.splits create_error.splits)

lemma finish_delete_forwards: "cq w = q \<Longrightarrow> forwards U msg q (finish_delete U msg n m ex w)"
  by (simp add: finish_delete_def Let_def split_def split: option.splits)

lemma processDelete_forwards: "forwards U msg (cq w) (processDeleteOperation U msg w)"
  by (simp add: processDeleteOperation_def split_def finish_delete_forwards split: sum.splits)

lemma write_update_forwards: "cq w = q \<Longrightarrow> forwards U msg q (write_update U msg u v ex w)"
  by (simp add: write_update_def split_def split: option.splits)

lemma handleSingle_forwards: "forwards U msg (cq w) (handleSingleUpdate U msg u c w)"
  by (simp add: handleSingleUpdate_def Let_def split_def write_update_forwards split: sum.splits option.splits)

lemma patch_targets_forwards: "cq w = q \<Longrightarrow> forwards U msg q (patch_targets U msg p ts w)"
  by (induction ts arbitrary: w) (simp_all add: split_def split: target_result.splits)

lemma handleBatch_forwards: "forwards U msg (cq w) (handleBatchPatch U msg u w)"
  by (simp add: handleBatchPatch_def split_def patch_targets_forwards split: sum.splits option.splits)

lemma processUpdate_forwards: "forwards U msg (cq w) (processUpdateOperation U msg w)"
  by (simp add: processUpdateOperation_def Let_def handleSingle_forwards handleBatch_forwards split: sum.splits)

lemma processMessage_forwards: "forwards U msg (cq w) (processMessage U msg w)"
  by (simp add: processMessage_def Let_def processCreate_forwards processUpdate_forwards processDelete_forwards)

section \<open>A concrete consumer\<close>

text \<open>The table is a list of rows with unique names; inserting the user \<open>bad\<close> fails.\<close>

definition same_name :: "userRowBuffer \<Rightarrow> userRowBuffer \<Rightarrow> bool" where
  "same_name a b \<longleftrightarrow> rb_name a = rb_name b"

definition list_table :: "userRowBuffer list ConsumerTable" where
  "list_table = \<lparr>tb_core = \<lambda>d. None,
     tb_select = \<lambda>n d. (case find (\<lambda>r. rb_name r = Some n) d of None \<Rightarrow> IterationEnded | Some r \<Rightarrow> RowRead r, d),
     tb_insert = \<lambda>r d. (if rb_name r = Some ''bad'' then (Inl ''Error 1146: no such table'', d)
        else if \<exists>q\<in>set d. same_name q r then (Inl ''Error 1062: Duplicate entry'', d) else (Inr (Some (of_nat (length d + 1))), d @ [r])),
     tb_update = \<lambda>r v d. (Inr (Inr (length (filter (\<lambda>q. same_name q r \<and> (v = None \<or> v = Some (rb_version q))) d))),
        map (\<lambda>q. if same_name q r \<and> (v = None \<or> v = Some (rb_version q)) then r else q) d),
     tb_delete = \<lambda>n d. (Inr (Inr (length (filter (\<lambda>q. rb_name q = Some n) d))), filter (\<lambda>q. rb_name q \<noteq> Some n) d),
     tb_where = \<lambda>c a d. (Inr d, d), tb_contacts = \<lambda>ns d. (Inr (filter (\<lambda>q. rawToString (rb_name q) \<in> set ns) d), d),
     tb_delete_all = \<lambda>ns d. (None, filter (\<lambda>q. rawToString (rb_name q) \<notin> set ns) d),
     tb_select_all = \<lambda>ns d. (Inr (filter (\<lambda>q. rawToString (rb_name q) \<in> set ns) d), d),
     tb_overwrite = \<lambda>r d. (None, map (\<lambda>q. if same_name q r
        then q\<lparr>rb_email := rb_email r, rb_password := rb_password r, rb_status := rb_status r, rb_updatedAt := rb_updatedAt r,
               rb_extend := rb_extend r, rb_nickname := rb_nickname r, rb_phone := rb_phone r\<rparr> else q) d)\<rparr>"

definition list_view :: "userRowBuffer list \<Rightarrow> string \<Rightarrow> userRowBuffer option" where
  "list_view d n = find (\<lambda>r. rb_name r = Some n) d"

definition list_consumer :: "(string \<Rightarrow> string + User) \<Rightarrow> (ptable, unit, userRowBuffer list) UserConsumer" where
  "list_consumer decode = \<lparr>uc_pending = demo_env False name_codec, uc_coordinated = True, uc_producer = Some demo_producer,
     uc_opts = NewKafkaOptions, uc_table = list_table,
     uc_extend = \<lparr>ec_marshal = \<lambda>e. Inr ''{}'', ec_unmarshal = \<lambda>s. Inr None\<rparr>,
     uc_payload = \<lparr>pc_marshal = \<lambda>y. Inr (py_Name y), pc_unmarshal = \<lambda>s. Inl []\<rparr>,
     uc_user = decode, uc_delete = \<lambda>s. Inr \<lparr>dm_Username = s, dm_DeletedAt = []\<rparr>, uc_conditions = \<lambda>s. [],
     uc_cond_text = \<lambda>e. [], uc_time_nano = no_time, uc_time_plain = no_time, uc_snapshot = \<lambda>s. None, uc_mysql = \<lambda>s. None,
     uc_timed_out = \<lambda>e. False, uc_smembers = \<lambda>now k r. [], uc_newID = \<lambda>n. ''id'', uc_race = \<lambda>t u. (False, False),
     uc_trace = ''t'', uc_ctx_end = None\<rparr>"

definition list_world :: "enqueue_event \<Rightarrow> userRowBuffer list \<Rightarrow> (ptable, unit, userRowBuffer list) consumer_world" where
  "list_world ev rows = \<lparr>cw_base = demo_world ev rows, cw_markers = [], cw_ids = 0\<rparr>"

definition list_row :: "string \<Rightarrow> string \<Rightarrow> 64 word \<Rightarrow> userRowBuffer" where
  "list_row n p v = (user_row (zero_user\<lparr>om_Name := n, us_Password := p, om_Version := v\<rparr>))\<lparr>rb_id := 7\<rparr>"

definition list_message :: "string \<Rightarrow> string \<Rightarrow> kafka_Message" where
  "list_message op body = \<lparr>km_Key = body, km_Value = body, km_Headers = [(HeaderOperation, op)], km_Time = demo_t0\<rparr>"

lemma list_message_simps [simp]:
  "km_Value (list_message op body) = body" "km_Key (list_message op body) = body"
  "getOperationFromHeaders (km_Headers (list_message op body)) = op"
  by (simp_all add: list_message_def getOperationFromHeaders_def)

section \<open>Handing over\<close>

abbreviation main_sent :: "('r, 'l, 'd) consumer_world \<Rightarrow> ProducerMessage list" where "main_sent w \<equiv> io_sent (cq w)"

definition handed :: "kafka_Message \<Rightarrow> main_error option \<Rightarrow> ProducerMessage list \<Rightarrow> ProducerMessage list \<Rightarrow> bool" where
  "handed msg e before after \<longleftrightarrow> after = before \<or>
     (\<exists>m. after = before @ [m] \<and> e = None \<and> pm_Key m = Some (km_Key msg) \<and> pm_Value m = km_Value msg
        \<and> pm_Topic m \<in> {UserOperationRetryTopic, UserDeadLetterTopic})"

lemma handed_same [simp]: "handed msg e b b"
  by (simp add: handed_def)

lemma cw_queue_handed:
  assumes "\<And>q e q'. f q = (e, q') \<Longrightarrow> handed msg (map_option MainSend e) (io_sent q) (io_sent q')"
    and "cw_queue f w = (e, w')"
  shows "handed msg e (main_sent w) (main_sent w')"
  using assms(2) assms(1) [of "cq w"] by (auto simp: cw_queue_def split: prod.splits)

lemma sendToRetry_handed:
  assumes "sendToRetry U msg reason w = (e, w')"
  shows "handed msg e (main_sent w) (main_sent w')"
proof (cases "uc_producer U")
  case (Some P)
  show ?thesis
    by (rule cw_queue_handed [OF _ assms [unfolded sendToRetry_def Some option.case]])
      (drule sendToRetryTopic_sent, auto simp: handed_def split: if_splits)
qed (use assms in \<open>simp add: sendToRetry_def\<close>)

lemma sendToDeadLetter_handed:
  assumes "sendToDeadLetter U msg reason w = (e, w')"
  shows "handed msg e (main_sent w) (main_sent w')"
proof (cases "uc_producer U")
  case (Some P)
  show ?thesis
    by (rule cw_queue_handed [OF _ assms [unfolded sendToDeadLetter_def Some option.case]])
      (drule SendToDeadLetterTopic_sent, auto simp: handed_def split: if_splits)
qed (use assms in \<open>simp add: sendToDeadLetter_def\<close>)

lemma processMessage_handed:
  assumes "processMessage U msg w = (e, w')"
  shows "handed msg e (main_sent w) (main_sent w')"
  using processMessage_forwards [of U msg w] unfolding assms forwards_def hands_over_def
  by (auto dest!: sym [of "(e, w')"] dest: sendToRetry_handed sendToDeadLetter_handed)

lemma backoff_wait_queue [simp]: "cq (snd (backoff_wait U d w)) = cq w"
  by (simp add: backoff_wait_def split: option.splits)

lemma handed_failed: "handed msg (Some e) b a \<longleftrightarrow> a = b"
  by (auto simp: handed_def)

text \<open>Only the last attempt hands over: an attempt that did has no error.\<close>

lemma retry_attempts_handed:
  "retry_attempts U msg k i err w = (e, w') \<Longrightarrow> handed msg e (main_sent w) (main_sent w')"
proof (induction k arbitrary: i err w)
  case 0
  obtain e1 w1 where s: "sendToRetry U msg (text_exhausted @ last_text err) w = (e1, w1)" by fastforce
  show ?case
    using 0 sendToRetry_handed [OF s] by (auto simp: s handed_failed split: option.splits)
next
  case (Suc k)
  obtain e1 w1 where s: "processMessage U msg w = (e1, w1)" by fastforce
  note h = processMessage_handed [OF s]
  show ?case
  proof (cases e1)
    case None
    then show ?thesis using Suc.prems h by (simp add: s)
  next
    case (Some x)
    then have same: "main_sent w1 = main_sent w" using h by (simp add: handed_failed)
    obtain b w2 where b: "backoff_wait U (calculateBackoff i) w1 = (b, w2)" by fastforce
    then have q: "main_sent w2 = main_sent w" using backoff_wait_queue [of U "calculateBackoff i" w1] same by simp
    then have "handed msg e (main_sent w) (main_sent w')" if "retry_attempts U msg k j er wx = (e, w')" "wx = w1 \<or> wx = w2" for j er wx
      using Suc.IH [OF that(1)] that(2) same by auto
    then show ?thesis
      using Suc.prems q same
      by (auto simp: s Some b handed_failed simp del: retry_attempts.simps(1) split: if_splits bool.splits)
  qed
qed

text \<open>C3. A worker's attempts at one message hand over at most one message to the producer: to the retry topic or to
  the dead letters, with the same key and body, and only when the worker then reports no error. Copies in the
  fallback file come besides that.\<close>

theorem worker_hands_over_once:
  assumes "processMessageWithRetry U msg n w = (e, w')"
  shows "main_sent w' = main_sent w \<or>
    (\<exists>m. main_sent w' = main_sent w @ [m] \<and> e = None \<and> pm_Key m = Some (km_Key msg) \<and> pm_Value m = km_Value msg
       \<and> pm_Topic m \<in> {UserOperationRetryTopic, UserDeadLetterTopic})"
  using retry_attempts_handed assms unfolding processMessageWithRetry_def handed_def by blast

section \<open>Updates and versions\<close>

text \<open>What a row with version \<open>v\<close> may have become; rows with other versions stay.\<close>

definition guarded_change :: "('d \<Rightarrow> string \<Rightarrow> userRowBuffer option) \<Rightarrow> 64 word \<Rightarrow> 64 word \<Rightarrow> 'd \<Rightarrow> 'd \<Rightarrow> bool" where
  "guarded_change view v v' d d' \<longleftrightarrow> (\<forall>n. view d' n = view d n
     \<or> (\<exists>r r'. view d n = Some r \<and> rb_version r = v \<and> view d' n = Some r' \<and> rb_version r' = v'))"

text \<open>What the statements promise: reading changes nothing, and an update with a version in its condition only
  changes rows with that version, to the version it sets, even when its answer is an error.\<close>

definition versioned_table :: "'d ConsumerTable \<Rightarrow> ('d \<Rightarrow> string \<Rightarrow> userRowBuffer option) \<Rightarrow> bool" where
  "versioned_table T view \<longleftrightarrow> (\<forall>n d. view (snd (tb_select T n d)) = view d)
     \<and> (\<forall>row v d. guarded_change view v (rb_version row) d (snd (tb_update T row (Some v) d)))"

lemma guarded_change_refl [simp]: "guarded_change view v v' d d"
  by (simp add: guarded_change_def)

lemma guarded_change_same: "view d1 = view d \<Longrightarrow> guarded_change view v v' d1 d' = guarded_change view v v' d d'"
  by (simp add: guarded_change_def)

lemma guarded_change_trans:
  assumes "guarded_change view v v' d d1" and "guarded_change view v v' d1 d2" and "v' \<noteq> v"
  shows "guarded_change view v v' d d2"
  unfolding guarded_change_def
proof
  fix n
  show "view d2 n = view d n \<or> (\<exists>r r'. view d n = Some r \<and> rb_version r = v \<and> view d2 n = Some r' \<and> rb_version r' = v')"
    using assms(1,2) [unfolded guarded_change_def, rule_format, of n] assms(3) by (metis option.inject)
qed

lemma select_user_view:
  "versioned_table (uc_table U) view \<Longrightarrow> view (cd (snd (select_user U n w))) = view (cd w)"
  by (simp add: select_user_def cw_db_def on_db_def versioned_table_def split_def split: option.splits user_query.splits)

lemma load_view:
  "versioned_table (uc_table U) view \<Longrightarrow> view (cd (snd (loadUserSnapshotInternal U n s w))) = view (cd w)"
  by (simp add: loadUserSnapshotInternal_def Let_def split_def select_user_view split: option.splits)

lemma attempts_guarded:
  assumes "versioned_table (uc_table U) view" and "rb_version row \<noteq> v"
  shows "guarded_change view v (rb_version row) (cd w) (cd (snd (update_attempts U row (Some v) k i w)))"
proof (induction k arbitrary: i w)
  case (Suc k)
  obtain x w1 where c: "cw_db (tb_update (uc_table U) row (Some v)) w = (x, w1)" by fastforce
  then have "cd w1 = snd (tb_update (uc_table U) row (Some v) (cd w))"
    by (auto simp: cw_db_def on_db_def split: prod.splits)
  then have one: "guarded_change view v (rb_version row) (cd w) (cd w1)"
    using assms(1) by (simp add: versioned_table_def)
  have "guarded_change view v (rb_version row) (cd w) (cd (snd (update_attempts U row (Some v) k (i + 1) (cw_sleep (nextDBBackoff i) w1))))"
    using guarded_change_trans [OF one _ assms(2)] Suc.IH [where i = "i + 1" and w = "cw_sleep (nextDBBackoff i) w1"] by simp
  then show ?case using one by (simp add: c split: sum.splits)
qed simp

lemma updateDB_guarded:
  assumes "versioned_table (uc_table U) view" and "om_Version u \<noteq> v"
  shows "guarded_change view v (om_Version u) (cd w) (cd (snd (snd (main_updateUserInDB U u (Some v) w))))"
proof -
  let ?row = "user_row (filled_shadow (uc_extend U) (normalized u))"
  have "rb_version ?row = om_Version u" by (simp add: user_row_def filled_shadow_def normalized_def)
  then show ?thesis
    using attempts_guarded [OF assms(1), of ?row v w dbWriteMaxRetries 1] assms(2)
    by (simp add: main_updateUserInDB_def Let_def split_def split: option.splits)
qed

lemma sends_keep_table [simp]: "cd (snd (sendToRetry U msg r w)) = cd w" "cd (snd (sendToDeadLetter U msg r w)) = cd w"
  by (simp_all add: sendToRetry_def sendToDeadLetter_def cw_queue_def split_def split: option.splits)

lemma word_next_neq: "(v :: 64 word) + 1 \<noteq> v"
  by simp

lemma write_update_guarded:
  assumes "versioned_table (uc_table U) view"
  shows "guarded_change view (om_Version ex) (om_Version ex + 1) (cd w) (cd (snd (write_update U msg u (om_Version ex) ex w)))"
  using updateDB_guarded [OF assms, of "u\<lparr>om_Version := om_Version ex + 1\<rparr>" "om_Version ex" w]
  by (simp add: write_update_def split_def split: option.splits)

lemma version_guard_current: "version_guard command u ex = Some v \<Longrightarrow> om_Version ex = v"
  by (auto simp: version_guard_def split: option.splits if_splits)

lemma version_guard_requested: "version_guard command u ex = Some v \<Longrightarrow> us_ExpectedVersion u = Some x \<Longrightarrow> v = x"
  by (auto simp: version_guard_def split: option.splits if_splits)

text \<open>C4. The optimistic lock of an update holds, whatever the cache says and however often the statement is tried:
  handling an update that names a version changes no row of another version, and a row it changes has the
  next version.\<close>

theorem single_update_optimistic:
  assumes "versioned_table (uc_table U) view" and "us_ExpectedVersion u = Some v"
    and "handleSingleUpdate U msg u command w = (e, w')"
  shows "guarded_change view v (v + 1) (cd w) (cd w')"
proof -
  have v: "us_ExpectedVersion (normalized u) = Some v" using assms(2) by (simp add: normalized_def)
  obtain x w1 where l: "loadUserSnapshotInternal U (om_Name u) True w = (x, w1)" by fastforce
  have same: "view (cd w1) = view (cd w)"
    using load_view [OF assms(1), of "om_Name u" True w] unfolding l by simp
  have wr: "guarded_change view v (v + 1) (cd w) (cd (snd (write_update U msg t v ex w1)))" if "om_Version ex = v" for t ex
    using write_update_guarded [OF assms(1), of ex w1 msg t] that guarded_change_same [of view "cd w1" "cd w", OF same] by simp
  have "cd w' = cd (snd (handleSingleUpdate U msg u command w))" using assms(3) by simp
  moreover have "guarded_change view v (v + 1) (cd w) (cd w1)" using guarded_change_same [of view "cd w1" "cd w" v "v + 1" "cd w1", OF same] by simp
  ultimately show ?thesis
    using wr version_guard_current version_guard_requested [OF _ v]
    by (auto simp add: handleSingleUpdate_def Let_def assms(2) l split: option.splits sum.splits)
qed

text \<open>The rows of the list: a conditional update replaces what has the name and the version.\<close>

lemma find_map_replace:
  "(\<And>q. rb_name (g q) = rb_name q) \<Longrightarrow> find (\<lambda>r. rb_name r = n) (map g d) = map_option g (find (\<lambda>r. rb_name r = n) d)"
  by (induction d) auto

lemma list_versioned: "versioned_table list_table list_view"
  unfolding versioned_table_def
proof (intro conjI allI)
  fix row v d
  let ?g = "\<lambda>q. if same_name q row \<and> v = rb_version q then row else q"
  have u: "snd (tb_update list_table row (Some v) d) = map ?g d" by (simp add: list_table_def)
  have "list_view (map ?g d) n = map_option ?g (list_view d n)" for n
    unfolding list_view_def by (rule find_map_replace) (simp add: same_name_def)
  then have "list_view (map ?g d) n = list_view d n \<or>
      (\<exists>r r'. list_view d n = Some r \<and> rb_version r = v \<and> list_view (map ?g d) n = Some r' \<and> rb_version r' = rb_version row)" for n
    by (cases "list_view d n") auto
  then show "guarded_change list_view v (rb_version row) d (snd (tb_update list_table row (Some v) d))"
    unfolding guarded_change_def u by blast
qed (simp add: list_table_def)

definition list_update :: "64 word \<Rightarrow> User" where
  "list_update v = zero_user\<lparr>om_Name := ''bob'', us_Password := ''new'', us_ExpectedVersion := Some v\<rparr>"

theorem single_update_optimistic_witness:
  "guarded_change list_view 3 4 [list_row ''bob'' ''old'' 3, list_row ''eve'' ''old'' 2]
     (cd (snd (handleSingleUpdate (list_consumer (\<lambda>s. Inl [])) (list_message OperationUpdate_text ''x'') (list_update 3)
       UserUpdateCommandFull (list_world PickSend [list_row ''bob'' ''old'' 3, list_row ''eve'' ''old'' 2]))))"
proof -
  let ?w = "list_world PickSend [list_row ''bob'' ''old'' 3, list_row ''eve'' ''old'' 2]"
  let ?x = "handleSingleUpdate (list_consumer (\<lambda>s. Inl [])) (list_message OperationUpdate_text ''x'') (list_update 3) UserUpdateCommandFull ?w"
  have "guarded_change list_view 3 (3 + 1) (cd ?w) (cd (snd ?x))"
    by (rule single_update_optimistic [OF _ _ prod.collapse [symmetric]]) (simp_all add: list_consumer_def list_versioned list_update_def)
  then show ?thesis by (simp add: list_world_def demo_world_def)
qed

section \<open>Messages that are given up\<close>

text \<open>A creation that cannot be decoded is lost: a worker reports it as done, with nothing written and nothing
  handed over, not even to the dead letters, and its offset is committed.\<close>

theorem poison_creation_dropped:
  assumes "getOperationFromHeaders (km_Headers msg) = OperationCreate_text" and "uc_user U (km_Value msg) = Inl e"
    and "\<not> isRecoverableError e"
  shows "worker_job U msg w = (False, w)"
proof -
  have "processMessage U msg w = (Some (MainText e), w)"
    using assms by (simp add: processMessage_def Let_def processCreateOperation_def)
  moreover have "\<not> shouldRetry (MainText e)" using assms(3) by (simp add: not_recoverable_not_retried)
  ultimately show ?thesis
    by (simp add: worker_job_def processMessageWithRetry_def job_attempts_def numeral_3_eq_3)
qed

theorem poison_creation_dropped_witness:
  "worker_job (list_consumer (\<lambda>s. Inl ''invalid character'')) (list_message OperationCreate_text ''{'') (list_world PickSend [])
     = (False, list_world PickSend [])"
proof -
  have "\<not> isRecoverableError ''invalid character''" by code_simp
  then show ?thesis by (rule poison_creation_dropped [rotated 2]) (simp_all add: list_consumer_def)
qed

text \<open>A creation whose pending marker is gone and whose insertion fails is lost: the error of the database is
  swallowed, the worker reports the message as done, and nothing is handed over.\<close>

theorem lost_creation:
  assumes "getOperationFromHeaders (km_Headers msg) = OperationCreate_text" and "uc_user U (km_Value msg) = Inr u0"
    and "ValidateUserFields u0 = None" and "ensureUserInstanceID U (normalized u0) w = (u, w0)"
    and "getPendingCreateMarker U (om_Name u) w0 = (Inr (False, v, t), w1)"
    and "main_loadUserSnapshot U (om_Name u) w1 = (Inr None, w2)"
    and "main_createUserInDB U u w2 = (Inl e, u1, w3)"
  shows "worker_job U msg w = (False, w3) \<and> cq w3 = cq w"
proof -
  have p: "processCreateMessageWithPending U u0 w = (Inr False, w3)"
    by (simp add: processCreateMessageWithPending_def assms(4-7) persist_user_def)
  then have "processMessage U msg w = (None, w3)"
    using assms(1-3) by (simp add: processMessage_def Let_def processCreateOperation_def)
  moreover have "cq w3 = cq w" using processCreate_queue [of U u0 w] by (simp add: p)
  ultimately show ?thesis
    by (simp add: worker_job_def processMessageWithRetry_def job_attempts_def numeral_3_eq_3)
qed

definition lost_user :: User where
  "lost_user = zero_user\<lparr>om_Name := ''bad'', om_InstanceID := ''i''\<rparr>"

abbreviation lost_consumer :: "(ptable, unit, userRowBuffer list) UserConsumer" where
  "lost_consumer \<equiv> list_consumer (\<lambda>s. Inr lost_user)"

lemma lost_steps:
  "fst (getPendingCreateMarker lost_consumer ''bad'' (list_world PickSend [])) = Inr (False, [], 0)"
  "fst (main_loadUserSnapshot lost_consumer ''bad'' (snd (getPendingCreateMarker lost_consumer ''bad'' (list_world PickSend [])))) = Inr None"
  by code_simp+

theorem lost_creation_witness:
  "\<exists>w3. worker_job lost_consumer (list_message OperationCreate_text ''bad'') (list_world PickSend []) = (False, w3)
     \<and> cq w3 = cq (list_world PickSend [])"
proof -
  let ?U = lost_consumer and ?w = "list_world PickSend []"
  define w1 where "w1 = snd (getPendingCreateMarker ?U ''bad'' ?w)"
  define w2 where "w2 = snd (main_loadUserSnapshot ?U ''bad'' w1)"
  obtain v t where m: "getPendingCreateMarker ?U ''bad'' ?w = (Inr (False, v, t), w1)"
    using lost_steps(1) by (metis prod.collapse w1_def)
  have l: "main_loadUserSnapshot ?U ''bad'' w1 = (Inr None, w2)"
    using lost_steps(2) by (metis prod.collapse w1_def w2_def)
  have n: "normalized lost_user = lost_user" "om_Name lost_user = ''bad''" "ValidateUserFields lost_user = None"
    "TrimSpace (om_InstanceID lost_user) \<noteq> []"
    by code_simp+
  have i: "ensureUserInstanceID ?U (normalized lost_user) ?w = (lost_user, ?w)"
    using n by (simp add: ensureUserInstanceID_def)
  have d: "\<not> isDuplicateKeyDBError (\<lambda>s. None) (DbText [] ''Error 1146: no such table'')" by code_simp
  have "rb_name (user_row (filled_shadow X (u\<lparr>om_CreatedAt := a, om_UpdatedAt := b\<rparr>))) = Some (om_Name u)" for X u a b
    by (simp add: user_row_def filled_shadow_def)
  then obtain e u1 w3 where c: "main_createUserInDB ?U lost_user w2 = (Inl e, u1, w3)"
    using d n by (auto simp: main_createUserInDB_def list_consumer_def list_table_def uc_connected_def cw_db_def on_db_def Let_def
        split: prod.splits)
  have "worker_job ?U (list_message OperationCreate_text ''bad'') ?w = (False, w3) \<and> cq w3 = cq ?w"
    by (rule lost_creation [OF list_message_simps(3) _ n(3) i m [folded n(2)] l [folded n(2)] c]) (simp add: list_consumer_def)
  then show ?thesis by blast
qed

text \<open>A patch without a version takes the version of the cached copy for the current one: when the copy is stale,
  the statement finds no row, and the patch is dropped as if it had lost a race, with the table and the queues as
  they were.\<close>

theorem stale_patch_dropped:
  assumes "ValidateUserFields u = None" and "us_ExpectedVersion u = None"
    and "main_loadUserSnapshot U (om_Name u) w = (Inr (Some copy), w1)"
    and "EnsureExtendShadow (uc_extend U) (single_update (uc_extend U) UserUpdateCommandPatch (normalized u) copy) = Inr t"
    and "tb_core (uc_table U) (cd w1) = None"
    and "\<And>row. tb_update (uc_table U) row (Some (om_Version copy)) (cd w1) = (Inr (Inr 0), cd w1)"
  shows "\<exists>w'. handleSingleUpdate U msg u UserUpdateCommandPatch w = (None, w') \<and> cd w' = cd w1 \<and> cq w' = cq w"
proof -
  have l: "loadUserSnapshotInternal U (om_Name u) False w = (Inr (Some copy), w1)"
    using assms(3) by (simp add: main_loadUserSnapshot_def)
  have x: "cw_db (tb_update (uc_table U) row (Some (om_Version copy))) w1 = (Inr (Inr 0), w1)" for row
    by (simp add: cw_db_def on_db_def assms(6))
  have "main_updateUserInDB U s (Some (om_Version copy)) w1 = (Some DbResourceConflict, filled_shadow (uc_extend U) (normalized s), w1)" for s
    by (simp add: main_updateUserInDB_def Let_def uc_connected_def assms(5) dbWriteMaxRetries_def numeral_3_eq_3 x update_result_def)
  then have "handleSingleUpdate U msg u UserUpdateCommandPatch w = (None, w1)"
    using assms(2) by (simp add: handleSingleUpdate_def Let_def assms(1) l assms(4) version_guard_def write_update_def)
  moreover have "cq w1 = cq w" using load_queue(2) [of U "om_Name u" w] by (simp add: assms(3))
  ultimately show ?thesis by blast
qed

definition stale_rows :: "userRowBuffer list" where "stale_rows = [list_row ''bob'' ''old'' 3]"

definition stale_copy :: User where "stale_copy = zero_user\<lparr>om_Name := ''bob'', om_Version := 2\<rparr>"

definition stale_consumer :: "(ptable, unit, userRowBuffer list) UserConsumer" where
  "stale_consumer = (list_consumer (\<lambda>s. Inl []))\<lparr>uc_payload := \<lparr>pc_marshal = \<lambda>y. Inr (py_Name y),
     pc_unmarshal = \<lambda>s. Inr (FromUser (stale_copy\<lparr>om_Name := s\<rparr>))\<rparr>\<rparr>"

definition stale_world :: "(ptable, unit, userRowBuffer list) consumer_world" where
  "stale_world = (list_world PickSend stale_rows)\<lparr>cw_base :=
     (demo_world PickSend stale_rows)\<lparr>rw_pending := demo_st [(''iam:user:bob'', ''bob'', None)]\<rparr>\<rparr>"

definition stale_patch :: User where
  "stale_patch = zero_user\<lparr>om_Name := ''bob'', us_Patch := Some \<lparr>up_Status = Some 1, up_Nickname = None, up_Email = None, up_Phone = None,
     up_IsAdmin = None, up_LoginedAt = None, up_Password = None, up_Extend = None, up_Metadata = None\<rparr>\<rparr>"

lemma stale_loaded:
  "fst (main_loadUserSnapshot stale_consumer ''bob'' stale_world) = Inr (Some stale_copy)"
  "cd (snd (main_loadUserSnapshot stale_consumer ''bob'' stale_world)) = stale_rows"
  by code_simp+

theorem stale_patch_dropped_witness:
  "\<exists>w'. handleSingleUpdate stale_consumer (list_message OperationUpdate_text ''x'') stale_patch UserUpdateCommandPatch stale_world = (None, w')
     \<and> cd w' = stale_rows \<and> cq w' = cq stale_world"
proof -
  define w1 where "w1 = snd (main_loadUserSnapshot stale_consumer ''bob'' stale_world)"
  have n: "om_Name stale_patch = ''bob''" "us_ExpectedVersion stale_patch = None" "ValidateUserFields stale_patch = None"
    by code_simp+
  have l: "main_loadUserSnapshot stale_consumer (om_Name stale_patch) stale_world = (Inr (Some stale_copy), w1)"
    using stale_loaded(1) unfolding n(1) w1_def by (metis prod.collapse)
  have d: "cd w1 = stale_rows" by (simp add: w1_def stale_loaded(2))
  have t: "tb_update (uc_table stale_consumer) row (Some (om_Version stale_copy)) (cd w1) = (Inr (Inr 0), cd w1)" for row
    by (simp add: d stale_consumer_def list_consumer_def list_table_def stale_copy_def stale_rows_def list_row_def user_row_def)
  have "\<exists>w'. handleSingleUpdate stale_consumer (list_message OperationUpdate_text ''x'') stale_patch UserUpdateCommandPatch stale_world = (None, w')
     \<and> cd w' = cd w1 \<and> cq w' = cq stale_world"
    by (rule stale_patch_dropped [OF n(3,2) l _ _ t])
      (simp_all add: EnsureExtendShadow_def stale_consumer_def list_consumer_def list_table_def)
  then show ?thesis by (simp add: d)
qed

section \<open>Batches\<close>

lemma batch_notify_frame [simp]: "cd (batch_notify U f w) = cd w"
  by (simp add: batch_notify_def cw_queue_def split_def split: option.splits)

lemma batch_forward_frame [simp]: "cd (batch_dead_letter U m r w) = cd w" "cd (batch_retry U m r w) = cd w"
  by (simp_all add: batch_dead_letter_def batch_retry_def)

text \<open>The columns a batched update overwrites come from the message alone.\<close>

definition overwritten_by :: "User \<Rightarrow> userRowBuffer \<Rightarrow> bool" where
  "overwritten_by u row \<longleftrightarrow> rb_name row = Some (om_Name u) \<and> rb_email row = Some (NormalizeEmail (us_Email u))
     \<and> rb_password row = Some (us_Password u) \<and> rb_nickname row = Some (us_Nickname u) \<and> rb_status row = us_Status u
     \<and> rb_phone row = phone_value (NormalizePhone (us_Phone u))"

text \<open>C24. An update that reaches a batch overwrites the user whatever it asks for: the password, the e-mail address, the
  phone, the nickname and the status of the message are stored, though its command is a patch and its version is
  another, and the patch it carries is not applied. For a patch, these fields are empty.\<close>

theorem batch_update_overwrites:
  assumes "uc_connected U w = None" and "uc_user U (km_Value msg) = Inr u" and "ValidateUserFields u = None"
    and "tb_select_all (uc_table U) [om_Name u] (cd w) = (Inr rows, d1)"
    and "update_snapshots (uc_extend U) rows (om_Name u) = Some existing"
  shows "\<exists>row. overwritten_by u row \<and> cd (batchUpdateToDB U [msg] w) = snd (tb_overwrite (uc_table U) row d1)"
proof -
  obtain w1 where s: "cw_db (tb_select_all (uc_table U) [om_Name u]) w = (Inr rows, w1)" "cd w1 = d1"
    using assms(4) by (simp add: cw_db_def on_db_def)
  let ?row = "user_row (filled_shadow (uc_extend U) ((normalized u)\<lparr>om_UpdatedAt := cw_now w1\<rparr>))"
  have "overwritten_by u ?row" by (simp add: overwritten_by_def user_row_def filled_shadow_def normalized_def)
  moreover have "batchUpdateToDB U [msg] w = overwrite_user U (update_snapshots (uc_extend U) rows) (msg, u) w1"
    using assms(1-3) by (simp add: batchUpdateToDB_def s(1))
  then have "cd (batchUpdateToDB U [msg] w) = snd (tb_overwrite (uc_table U) ?row d1)"
    using assms(5) s(2) by (simp add: overwrite_user_def Let_def cw_db_def on_db_def split_def split: option.splits)
  ultimately show ?thesis by blast
qed

theorem batch_update_overwrites_witness:
  "\<exists>row. overwritten_by stale_patch row
     \<and> cd (batchUpdateToDB (list_consumer (\<lambda>s. Inr stale_patch)) [list_message OperationUpdate_text ''x''] (list_world PickSend stale_rows))
       = snd (tb_overwrite list_table row stale_rows) \<and> rb_password row = Some []"
proof -
  let ?U = "list_consumer (\<lambda>s. Inr stale_patch)" and ?w = "list_world PickSend stale_rows"
  have n: "om_Name stale_patch = ''bob''" "ValidateUserFields stale_patch = None" "us_Password stale_patch = []" by code_simp+
  have r: "list_row ''bob'' ''old'' 3 \<in> set stale_rows" by (simp add: stale_rows_def)
  have "\<exists>row. overwritten_by stale_patch row \<and> cd (batchUpdateToDB ?U [list_message OperationUpdate_text ''x''] ?w)
      = snd (tb_overwrite (uc_table ?U) row stale_rows)"
    by (rule batch_update_overwrites [OF _ _ n(2), where rows = stale_rows and existing = "materializeUser (uc_extend ?U) (list_row ''bob'' ''old'' 3) scanModeAuth"])
      (simp_all add: list_consumer_def list_table_def uc_connected_def list_world_def demo_world_def n(1) stale_rows_def list_row_def
        user_row_def rawToString_def update_snapshots_def materializeUser_def Let_def)
  then show ?thesis by (auto simp: overwritten_by_def n(3) list_consumer_def)
qed

lemma cd_purges [simp]: "cd (fold (\<lambda>n. main_purgeUserState U n (f n) (g n)) ns w) = cd w"
  by (induction ns arbitrary: w) simp_all

lemma batch_delete_one:
  assumes "\<And>d. tb_core (uc_table U) d = None" and "uc_delete U (km_Value m) = Inr req"
    and "\<And>d. fst (tb_delete_all (uc_table U) [dm_Username req] d) = None"
  shows "\<exists>d0. cd (batchDeleteFromDB U [m] w) = snd (tb_delete_all (uc_table U) [dm_Username req] d0)"
  using assms
  by (simp add: batchDeleteFromDB_def uc_connected_def delete_users_def cw_db_def on_db_def split_def Let_def) blast

definition recreated :: "'m \<Rightarrow> 'm \<Rightarrow> 'm batch_input list" where
  "recreated d c = [ItemReceived 1 OperationDelete_text d 0 0 0, ItemReceived 1 OperationCreate_text c 0 0 0, Ticked 0 0]"

lemma recreated_events:
  assumes "bounds_ok B" and "2 \<le> bb_min B"
  shows "ag_events (aggregator_run B always (recreated d c)) =
    [BatchRun BatchCreate [c], BatchAck c 0, BatchRun BatchDelete [d], BatchAck d 0]"
proof -
  have "1 < fst (adjustParams B n)" for n using adjustParams_range [OF assms(1), of n] assms(2) by linarith
  then have "\<not> fst (adjustParams B n) \<le> 1" for n by (simp add: not_le)
  then show ?thesis
    by (simp add: aggregator_run_def recreated_def receive_item_def ag_select_def ag_adjust_def aggregator_start_def Let_def
        flush_or_stop_def flush_batches_def flush_one_def)
qed

text \<open>C25. A deletion followed by a creation of the same user is undone in the wrong order when both are in one flush:
  creations run before deletions, both messages are acknowledged, and afterwards the table has no such user,
  whatever the creation did.\<close>

theorem flush_deletes_recreated:
  assumes "bounds_ok B" and "2 \<le> bb_min B" and "\<And>d. tb_core (uc_table U) d = None"
    and "uc_delete U (km_Value del) = Inr req" and "\<And>d. fst (tb_delete_all (uc_table U) [dm_Username req] d) = None"
    and "\<And>d. view (snd (tb_delete_all (uc_table U) [dm_Username req] d)) (dm_Username req) = None"
  shows "acked (aggregator_run B always (recreated del create)) = [(create, 0), (del, 0)]
    \<and> view (cd (run_events U (ag_events (aggregator_run B always (recreated del create))) w)) (dm_Username req) = None"
proof -
  note ev = recreated_events [OF assms(1,2), of del create]
  obtain d0 where "cd (run_events U (ag_events (aggregator_run B always (recreated del create))) w)
      = snd (tb_delete_all (uc_table U) [dm_Username req] d0)"
    using batch_delete_one [OF assms(3,4,5), of "batchCreateToDB U [create] w"]
    by (auto simp: ev run_events_def run_event_def run_batch_def)
  then show ?thesis using assms(6) by (simp add: acked_def ev)
qed

theorem flush_deletes_recreated_witness:
  "acked (aggregator_run (aggregator_bounds NewKafkaOptions) always
       (recreated (list_message OperationDelete_text ''bob'') (list_message OperationCreate_text ''bob'')))
     = [(list_message OperationCreate_text ''bob'', 0), (list_message OperationDelete_text ''bob'', 0)]
   \<and> list_view (cd (run_events (list_consumer (\<lambda>s. Inr (list_update 1)))
        (ag_events (aggregator_run (aggregator_bounds NewKafkaOptions) always
          (recreated (list_message OperationDelete_text ''bob'') (list_message OperationCreate_text ''bob''))))
        (list_world PickSend stale_rows))) ''bob'' = None"
proof -
  let ?m = "list_message OperationDelete_text ''bob''" and ?U = "list_consumer (\<lambda>s. Inr (list_update 1))"
  have r: "uc_delete ?U (km_Value ?m) = Inr \<lparr>dm_Username = ''bob'', dm_DeletedAt = []\<rparr>" by (simp add: list_consumer_def)
  have b: "2 \<le> bb_min (aggregator_bounds NewKafkaOptions)" by code_simp
  have none: "find (\<lambda>r. rb_name r = Some ''bob'') (filter (\<lambda>q. rawToString (rb_name q) \<noteq> ''bob'') d) = None" for d
    by (auto simp: find_None_iff rawToString_def)
  show ?thesis
    using flush_deletes_recreated [OF aggregator_bounds_ok b _ r, where view = list_view
        and create = "list_message OperationCreate_text ''bob''" and w = "list_world PickSend stale_rows"]
    by (simp add: list_consumer_def list_table_def list_view_def none)
qed

theorem worker_hands_over_once_witness:
  "main_sent (snd (processMessageWithRetry ((list_consumer (\<lambda>s. Inl []))\<lparr>uc_delete := \<lambda>s. Inl ''eof''\<rparr>)
     (list_message OperationDelete_text ''x'') 3 (list_world PickSend []))) \<noteq> []
   \<and> fst (processMessageWithRetry ((list_consumer (\<lambda>s. Inl []))\<lparr>uc_delete := \<lambda>s. Inl ''eof''\<rparr>)
     (list_message OperationDelete_text ''x'') 3 (list_world PickSend [])) = None"
proof -
  let ?x = "processMessageWithRetry ((list_consumer (\<lambda>s. Inl []))\<lparr>uc_delete := \<lambda>s. Inl ''eof''\<rparr>)
     (list_message OperationDelete_text ''x'') 3 (list_world PickSend [])"
  have s: "main_sent (snd ?x) \<noteq> []"
    by (simp add: processMessageWithRetry_def numeral_3_eq_3 processMessage_def Let_def operation_defs processDeleteOperation_def
        list_consumer_def sendToDeadLetter_def cw_queue_def SendToDeadLetterTopic_def enqueueWithTimeout_def demo_producer_def
        list_world_def demo_world_def)
  moreover have "fst ?x = None"
    using worker_hands_over_once [OF prod.collapse [symmetric, of ?x]] s by (auto simp: list_world_def demo_world_def)
  ultimately show ?thesis by blast
qed

end
