(* ===== verification/ConsumerCommit.thy ===== *)
theory ConsumerCommit
  imports RetryGroup
begin

text \<open>
  How the main consumer commits offsets (internal/pkg/server/consumer.go, the committing goroutine of
  StartConsuming and commitWithRetry). Workers and the batch aggregator finish messages in any order and
  acknowledge them on one channel; the goroutine keeps, per partition, the next offset to commit and the
  acknowledged offsets beyond it. A partition is first known by its first acknowledgement. The outcome of
  the n-th commit and of its attempts is an argument. Offsets stay below \<open>2^63 - 1\<close>.
\<close>

section \<open>Committing\<close>

record consumerAck =
  ca_partition :: int
  ca_offset :: int
  ca_failed :: bool

record partition_commits =
  cm_next :: "int \<Rightarrow> int option"
  cm_pending :: "(int \<times> int) list"
  cm_log :: "(int \<times> int) list"
  cm_calls :: nat

definition no_commits :: partition_commits where
  "no_commits = \<lparr>cm_next = (\<lambda>p. None), cm_pending = [], cm_log = [], cm_calls = 0\<rparr>"

text \<open>Without a reader nothing can be committed; the context of a commit is detached and does not end.\<close>

definition consumer_commitWithRetry :: "nat \<Rightarrow> (nat \<Rightarrow> bool) \<Rightarrow> bool" where
  "consumer_commitWithRetry readers ok \<longleftrightarrow> readers \<noteq> 0 \<and> fst (commit_attempts 3 0 ok [])"

definition commit_one :: "int \<Rightarrow> int \<Rightarrow> partition_commits \<Rightarrow> partition_commits" where
  "commit_one p n s = s\<lparr>cm_calls := cm_calls s + 1, cm_pending := removeAll (p, n) (cm_pending s),
     cm_next := (cm_next s)(p \<mapsto> n + 1), cm_log := cm_log s @ [(p, n)]\<rparr>"

function commit_ready :: "(nat \<Rightarrow> bool) \<Rightarrow> int \<Rightarrow> int \<Rightarrow> partition_commits \<Rightarrow> partition_commits" where
  "commit_ready ok p n s =
    (if (p, n) \<notin> set (cm_pending s) then s
     else if \<not> ok (cm_calls s) then s\<lparr>cm_calls := cm_calls s + 1\<rparr>
     else commit_ready ok p (n + 1) (commit_one p n s))"
  by pat_completeness auto
termination
  by (relation "measure (\<lambda>(ok, p, n, s). length (cm_pending s))") (auto simp: commit_one_def length_removeAll_less)

declare commit_ready.simps [simp del]

lemma commit_one_simps [simp]:
  "cm_next (commit_one p n s) = (cm_next s)(p \<mapsto> n + 1)"
  "cm_pending (commit_one p n s) = removeAll (p, n) (cm_pending s)"
  "cm_log (commit_one p n s) = cm_log s @ [(p, n)]"
  by (simp_all add: commit_one_def)

text \<open>What every commit and every failing call keeps, the loop keeps.\<close>

lemma commit_ready_keeps:
  assumes "\<And>n s. Q (commit_one p n s) = Q s" and "\<And>s c. Q (s\<lparr>cm_calls := c\<rparr>) = Q s"
  shows "Q (commit_ready ok p n s) = Q s"
  using assms
proof (induction ok p n s rule: commit_ready.induct)
  case (1 ok p n s)
  show ?case
  proof (cases "(p, n) \<in> set (cm_pending s) \<and> ok (cm_calls s)")
    case True
    then have "Q (commit_ready ok p (n + 1) (commit_one p n s)) = Q (commit_one p n s)" using 1 by blast
    then show ?thesis using True 1(2) by (subst commit_ready.simps) simp
  qed (subst commit_ready.simps, use 1(3) in auto)
qed

definition receive_ack :: "(nat \<Rightarrow> bool) \<Rightarrow> consumerAck \<Rightarrow> partition_commits \<Rightarrow> partition_commits" where
  "receive_ack ok a s =
    (let p = ca_partition a; n = (case cm_next s p of Some n \<Rightarrow> n | None \<Rightarrow> ca_offset a);
         s1 = s\<lparr>cm_next := (cm_next s)(p \<mapsto> n)\<rparr>
     in if ca_failed a then s
        else if ca_offset a < n then s1
        else commit_ready ok p n (s1\<lparr>cm_pending := List.insert (p, ca_offset a) (cm_pending s1)\<rparr>))"

definition receive_acks :: "(nat \<Rightarrow> bool) \<Rightarrow> consumerAck list \<Rightarrow> partition_commits" where
  "receive_acks ok acks = foldl (\<lambda>s a. receive_ack ok a s) no_commits acks"

text \<open>The offset the group resumes from: one past the last commit of the partition.\<close>

definition committed :: "int \<Rightarrow> partition_commits \<Rightarrow> int list" where
  "committed p s = map snd (filter (\<lambda>x. fst x = p) (cm_log s))"

definition resume_from :: "int \<Rightarrow> partition_commits \<Rightarrow> int option" where
  "resume_from p s = (if committed p s = [] then None else Some (last (committed p s) + 1))"

section \<open>Successes of a partition\<close>

definition succeeded :: "int \<Rightarrow> consumerAck list \<Rightarrow> int list" where
  "succeeded p acks = map ca_offset (filter (\<lambda>a. ca_partition a = p \<and> \<not> ca_failed a) acks)"

lemma succeeded_simps [simp]:
  "succeeded p [] = []"
  "succeeded p (acks @ [a]) = succeeded p acks @ (if ca_partition a = p \<and> \<not> ca_failed a then [ca_offset a] else [])"
  by (simp_all add: succeeded_def)

lemma receive_acks_simps [simp]:
  "receive_acks ok [] = no_commits"
  "receive_acks ok (acks @ [a]) = receive_ack ok a (receive_acks ok acks)"
  by (simp_all add: receive_acks_def)

text \<open>The invariant of one partition with successes \<open>os\<close>: what is committed are the offsets from the first
  success up to the next one to commit, and what waits are the successes from there on.\<close>

definition partition_ok :: "int \<Rightarrow> int list \<Rightarrow> partition_commits \<Rightarrow> bool" where
  "partition_ok p os s \<longleftrightarrow>
    (case cm_next s p of
       None \<Rightarrow> os = [] \<and> committed p s = [] \<and> (\<forall>n. (p, n) \<notin> set (cm_pending s))
     | Some n \<Rightarrow> os \<noteq> [] \<and> hd os \<le> n \<and> committed p s = [hd os..n - 1] \<and> {hd os..n - 1} \<subseteq> set os
         \<and> (\<forall>i. (p, i) \<in> set (cm_pending s) \<longleftrightarrow> n \<le> i \<and> i \<in> set os))"

text \<open>The loop keeps the invariant from the next offset on, and leaves other partitions alone.\<close>

lemma commit_one_ok:
  assumes "partition_ok p os s" and "cm_next s p = Some n" and "(p, n) \<in> set (cm_pending s)"
  shows "partition_ok p os (commit_one p n s)"
proof -
  have n: "os \<noteq> []" "hd os \<le> n" "committed p s = [hd os..n - 1]" "{hd os..n - 1} \<subseteq> set os"
    and pend: "\<And>i. (p, i) \<in> set (cm_pending s) \<longleftrightarrow> n \<le> i \<and> i \<in> set os"
    using assms by (auto simp: partition_ok_def)
  have "committed p (commit_one p n s) = [hd os..n]" using n upto_rec2 [of "hd os" n] by (simp add: committed_def)
  moreover have "{hd os..n} \<subseteq> set os"
  proof
    fix x assume "x \<in> {hd os..n}"
    then show "x \<in> set os" using n(4) pend [of n] assms(3) by (cases "x = n") auto
  qed
  ultimately show ?thesis using n pend by (auto simp: partition_ok_def)
qed

lemma calls_ok [simp]: "partition_ok p os (s\<lparr>cm_calls := c\<rparr>) = partition_ok p os s"
  by (simp add: partition_ok_def committed_def split: option.splits)

lemma commit_ready_ok:
  assumes "cm_next s p = Some n" and "partition_ok p os s"
  shows "partition_ok p os (commit_ready ok p n s)"
  using assms
proof (induction ok p n s rule: commit_ready.induct)
  case (1 ok p n s)
  show ?case
  proof (cases "(p, n) \<in> set (cm_pending s) \<and> ok (cm_calls s)")
    case True
    have "partition_ok p os (commit_ready ok p (n + 1) (commit_one p n s))"
      by (rule 1(1)) (use True 1(2,3) in \<open>simp_all add: commit_one_ok\<close>)
    then show ?thesis using True by (subst commit_ready.simps) simp
  qed (subst commit_ready.simps, use 1(3) in auto)
qed

lemma commit_ready_other: "q \<noteq> p \<Longrightarrow> partition_ok q os (commit_ready ok p n s) = partition_ok q os s"
  by (rule commit_ready_keeps) (auto simp: partition_ok_def committed_def split: option.splits)

lemma receive_ack_ok:
  assumes "partition_ok p os s"
  shows "partition_ok p (os @ (if ca_partition a = p \<and> \<not> ca_failed a then [ca_offset a] else [])) (receive_ack ok a s)"
proof (cases "ca_partition a = p \<and> \<not> ca_failed a")
  case True
  let ?o = "ca_offset a" and ?os = "os @ [ca_offset a]"
  let ?n = "case cm_next s p of Some n \<Rightarrow> n | None \<Rightarrow> ?o"
  let ?s1 = "s\<lparr>cm_next := (cm_next s)(p \<mapsto> ?n)\<rparr>"
  let ?s2 = "?s1\<lparr>cm_pending := List.insert (p, ?o) (cm_pending ?s1)\<rparr>"
  have s1: "partition_ok p ?os ?s1" if "?o < ?n"
    using assms that by (auto simp: partition_ok_def committed_def hd_append split: option.splits)
  have "partition_ok p ?os (commit_ready ok p ?n ?s2)" if "\<not> ?o < ?n"
  proof (rule commit_ready_ok)
    show "partition_ok p ?os ?s2"
      using assms that by (auto simp: partition_ok_def committed_def hd_append split: option.splits)
  qed simp
  then show ?thesis using True s1 by (auto simp: receive_ack_def Let_def)
next
  case False
  let ?q = "ca_partition a"
  have "partition_ok p os (s\<lparr>cm_next := (cm_next s)(?q \<mapsto> n)\<rparr>) = partition_ok p os s"
    "partition_ok p os (s\<lparr>cm_next := (cm_next s)(?q \<mapsto> n), cm_pending := List.insert (?q, i) (cm_pending s)\<rparr>) = partition_ok p os s"
    if "?q \<noteq> p" for n i
    using that by (simp_all add: partition_ok_def committed_def split: option.splits)
  then have "partition_ok p os (receive_ack ok a s) = partition_ok p os s"
    using False by (cases "ca_failed a") (simp_all add: receive_ack_def Let_def commit_ready_other)
  then show ?thesis using assms by (simp only: if_not_P [OF False] append_Nil2)
qed

lemma receive_acks_ok: "partition_ok p (succeeded p acks) (receive_acks ok acks)"
proof (induction acks rule: rev_induct)
  case Nil
  show ?case by (simp add: partition_ok_def no_commits_def committed_def)
next
  case (snoc a acks)
  then show ?case using receive_ack_ok [OF snoc, of a ok] by simp
qed

section \<open>Commits that succeed\<close>

text \<open>When no commit fails, the next offset never waits.\<close>

definition next_missing :: "int \<Rightarrow> partition_commits \<Rightarrow> bool" where
  "next_missing p s \<longleftrightarrow> (\<forall>n. cm_next s p = Some n \<longrightarrow> (p, n) \<notin> set (cm_pending s))"

lemma commit_ready_missing:
  assumes "ok = (\<lambda>i. True)" and "cm_next s p = Some n"
  shows "next_missing p (commit_ready ok p n s)"
  using assms
proof (induction ok p n s rule: commit_ready.induct)
  case (1 ok p n s)
  show ?case
  proof (cases "(p, n) \<in> set (cm_pending s)")
    case True
    have "next_missing p (commit_ready ok p (n + 1) (commit_one p n s))"
      by (rule 1(1)) (use True 1(2) in simp_all)
    then show ?thesis using True 1(2) by (subst commit_ready.simps) simp
  next
    case False
    then show ?thesis using 1(3) by (subst commit_ready.simps) (simp add: next_missing_def)
  qed
qed

lemma commit_ready_missing_other: "q \<noteq> p \<Longrightarrow> next_missing q (commit_ready ok p n s) = next_missing q s"
  by (rule commit_ready_keeps) (auto simp: next_missing_def)

lemma receive_ack_missing:
  assumes "ok = (\<lambda>i. True)" and "next_missing p s" and "partition_ok p os s"
  shows "next_missing p (receive_ack ok a s)"
proof (cases "ca_partition a = p")
  case True
  let ?n = "case cm_next s p of Some n \<Rightarrow> n | None \<Rightarrow> ca_offset a"
  let ?s1 = "s\<lparr>cm_next := (cm_next s)(p \<mapsto> ?n)\<rparr>"
  have "next_missing p ?s1" using assms(2,3) by (auto simp: next_missing_def partition_ok_def split: option.splits)
  moreover have "next_missing p (commit_ready ok p ?n (?s1\<lparr>cm_pending := List.insert (p, ca_offset a) (cm_pending ?s1)\<rparr>))"
    by (rule commit_ready_missing) (use assms(1) in simp_all)
  ultimately show ?thesis using assms(2) True by (auto simp: receive_ack_def Let_def)
next
  case False
  then show ?thesis using assms(2)
    by (auto simp: receive_ack_def Let_def commit_ready_missing_other) (auto simp: next_missing_def)
qed

lemma receive_acks_missing:
  assumes "ok = (\<lambda>i. True)"
  shows "next_missing p (receive_acks ok acks)"
proof (induction acks rule: rev_induct)
  case Nil
  show ?case by (simp add: next_missing_def no_commits_def)
next
  case (snoc a acks)
  show ?case using receive_ack_missing [OF assms snoc receive_acks_ok] by simp
qed

section \<open>Properties\<close>

lemma acks_cases:
  obtains (idle) "succeeded p acks = []" "committed p (receive_acks ok acks) = []"
  | (active) n where "succeeded p acks \<noteq> []" "hd (succeeded p acks) \<le> n"
      "cm_next (receive_acks ok acks) p = Some n" "committed p (receive_acks ok acks) = [hd (succeeded p acks)..n - 1]"
      "{hd (succeeded p acks)..n - 1} \<subseteq> set (succeeded p acks)"
      "\<And>i. (p, i) \<in> set (cm_pending (receive_acks ok acks)) \<longleftrightarrow> n \<le> i \<and> i \<in> set (succeeded p acks)"
  using receive_acks_ok [of p acks ok] by (auto simp: partition_ok_def split: option.splits)

text \<open>C21. The offsets committed for a partition are consecutive, begin with the first success and are all
  successes, whatever commits fail; and when none fails, an offset is committed exactly when every offset
  from the first success up to it has succeeded.\<close>

theorem consumer_commits_exact:
  "committed p (receive_acks ok acks) =
     (case succeeded p acks of [] \<Rightarrow> [] | f # fs \<Rightarrow> [f..f + int (length (committed p (receive_acks ok acks))) - 1])
   \<and> set (committed p (receive_acks ok acks)) \<subseteq> set (succeeded p acks)
   \<and> (i \<in> set (committed p (receive_acks (\<lambda>n. True) acks)) \<longleftrightarrow>
        succeeded p acks \<noteq> [] \<and> hd (succeeded p acks) \<le> i \<and> {hd (succeeded p acks)..i} \<subseteq> set (succeeded p acks))"
proof (intro conjI)
  let ?os = "succeeded p acks"
  show "committed p (receive_acks ok acks) =
     (case ?os of [] \<Rightarrow> [] | f # fs \<Rightarrow> [f..f + int (length (committed p (receive_acks ok acks))) - 1])"
    by (rule acks_cases [of p acks ok]) (auto split: list.splits)
  show "set (committed p (receive_acks ok acks)) \<subseteq> set ?os"
    by (rule acks_cases [of p acks ok]) auto
  show "i \<in> set (committed p (receive_acks (\<lambda>n. True) acks)) \<longleftrightarrow> ?os \<noteq> [] \<and> hd ?os \<le> i \<and> {hd ?os..i} \<subseteq> set ?os"
  proof (rule acks_cases [of p acks "\<lambda>n. True"])
    fix n
    assume n: "?os \<noteq> []" "hd ?os \<le> n" "cm_next (receive_acks (\<lambda>n. True) acks) p = Some n"
      "committed p (receive_acks (\<lambda>n. True) acks) = [hd ?os..n - 1]" "{hd ?os..n - 1} \<subseteq> set ?os"
      "\<And>i. (p, i) \<in> set (cm_pending (receive_acks (\<lambda>n. True) acks)) \<longleftrightarrow> n \<le> i \<and> i \<in> set ?os"
    have "n \<notin> set ?os" using receive_acks_missing [of "\<lambda>n. True" p acks] n(3,6) by (auto simp: next_missing_def)
    then have "{hd ?os..i} \<subseteq> set ?os \<longrightarrow> i < n" using n(2) by (auto dest: subsetD [of _ _ n])
    then show ?thesis using n by auto
  qed simp
qed

text \<open>A partition begins at the first success: an offset before it, which may have failed or still be in
  work, is never committed itself, and yet lies behind the offset the group resumes from, so it is not read
  again.\<close>

theorem first_success_skips:
  assumes "succeeded p acks = n # ns" and "m < n" and "resume_from p (receive_acks ok acks) = Some r"
  shows "m < r \<and> m \<notin> set (committed p (receive_acks ok acks))"
proof (rule acks_cases [of p acks ok])
  fix k
  assume k: "hd (succeeded p acks) \<le> k" "committed p (receive_acks ok acks) = [hd (succeeded p acks)..k - 1]"
  show ?thesis
  proof (cases "hd (succeeded p acks) < k")
    case True
    then have "r = k" using k assms(1,3) upto_rec2 [of n "k - 1"] by (auto simp: resume_from_def)
    then show ?thesis using k assms(1,2) True by auto
  next
    case False
    then show ?thesis using k assms(3) by (auto simp: resume_from_def)
  qed
qed (use assms(1) in simp)

theorem first_success_skips_witness:
  "\<exists>acks r. \<lparr>ca_partition = 0, ca_offset = 5, ca_failed = True\<rparr> \<in> set acks
     \<and> resume_from 0 (receive_acks (\<lambda>n. True) acks) = Some r \<and> 5 < r \<and> 5 \<notin> set (committed 0 (receive_acks (\<lambda>n. True) acks))"
proof -
  let ?a = "\<lparr>ca_partition = 0, ca_offset = 5, ca_failed = True\<rparr>" and ?b = "\<lparr>ca_partition = 0, ca_offset = 6, ca_failed = False\<rparr>"
  have s: "succeeded 0 [?b, ?a] = [6]" by (simp add: succeeded_def)
  have "6 \<in> set (committed 0 (receive_acks (\<lambda>n. True) [?b, ?a]))"
    using consumer_commits_exact [of 0 "\<lambda>n. True" "[?b, ?a]" 6] s by simp
  then have "committed 0 (receive_acks (\<lambda>n. True) [?b, ?a]) \<noteq> []" by force
  then obtain r where r: "resume_from 0 (receive_acks (\<lambda>n. True) [?b, ?a]) = Some r" by (simp add: resume_from_def)
  then show ?thesis using first_success_skips [OF s _ r, of 5] by (intro exI [of _ "[?b, ?a]"]) auto
qed

text \<open>C26. One message that keeps failing stops its partition, once a message before it has succeeded: if its offset is at or after the one of the first success
  that was acknowledged, nothing from it on is committed, and all later successes wait in memory, however many there are. (A failure before the
  first success is passed over instead: see above.)\<close>

theorem failure_stalls_partition:
  assumes "succeeded p acks = f # fs" and "f \<le> m" and "m \<notin> set (succeeded p acks)"
  shows "set (committed p (receive_acks ok acks)) \<subseteq> {f..<m}
    \<and> (\<lambda>i. (p, i)) ` {i \<in> set (succeeded p acks). m < i} \<subseteq> set (cm_pending (receive_acks ok acks))"
proof (rule acks_cases [of p acks ok])
  fix n
  assume n: "committed p (receive_acks ok acks) = [hd (succeeded p acks)..n - 1]"
    "{hd (succeeded p acks)..n - 1} \<subseteq> set (succeeded p acks)"
    "\<And>i. (p, i) \<in> set (cm_pending (receive_acks ok acks)) \<longleftrightarrow> n \<le> i \<and> i \<in> set (succeeded p acks)"
  have "n \<le> m"
  proof (rule ccontr)
    assume "\<not> n \<le> m"
    then have "m \<in> {hd (succeeded p acks)..n - 1}" using assms(1,2) by simp
    then show False using n(2) assms(3) by blast
  qed
  then show ?thesis using n assms(1) by auto
qed (use assms(1) in simp)

theorem failure_stalls_partition_witness:
  "\<exists>acks. \<lparr>ca_partition = 0, ca_offset = 5, ca_failed = True\<rparr> \<in> set acks \<and> 6 \<in> set (succeeded 0 acks)
     \<and> set (committed 0 (receive_acks (\<lambda>n. True) acks)) \<subseteq> {4..<5} \<and> (0, 6) \<in> set (cm_pending (receive_acks (\<lambda>n. True) acks))"
proof -
  let ?acks = "[\<lparr>ca_partition = 0, ca_offset = 4, ca_failed = False\<rparr>, \<lparr>ca_partition = 0, ca_offset = 5, ca_failed = True\<rparr>,
    \<lparr>ca_partition = 0, ca_offset = 6, ca_failed = False\<rparr>]"
  have s: "succeeded 0 ?acks = [4, 6]" by (simp add: succeeded_def)
  show ?thesis
    using failure_stalls_partition [OF s, of 5 "\<lambda>n. True"] s by (intro exI [of _ ?acks]) auto
qed

end
