(* ===== verification/UniqueChecker.thy ===== *)
theory UniqueChecker
  imports KafkaMessages
begin

text \<open>
  The generic check that a field is unique (internal/common/service/unique/checker.go): a placeholder in the
  cache, a look-up in the table and a degraded mode, all of them hooks of the client. \<open>None\<close> stands for a
  hook that is nil; a hook acts on a state of any type, which holds the context, the cache and the clock. The
  timeouts of a look-up are the client's: it may fail at any call. Steps that are only recorded or logged are
  left out.
\<close>

section \<open>Configuration\<close>

record ('s, 'e) CacheClient =
  cl_GetKey :: "string \<Rightarrow> 's \<Rightarrow> ('e + string) \<times> 's"
  cl_SetKey :: "string \<Rightarrow> string \<Rightarrow> duration \<Rightarrow> 's \<Rightarrow> 'e option \<times> 's"
  cl_SetNX :: "string \<Rightarrow> string \<Rightarrow> duration \<Rightarrow> 's \<Rightarrow> ('e + bool) \<times> 's"
  cl_DeleteKey :: "string \<Rightarrow> 's \<Rightarrow> ('e + bool) \<times> 's"

text \<open>The second client is the first one with a timeout for each command, if it offers that. The result of a
  retried look-up is nil or an entity. The last three fields are the clock, the making of an error from a text
  and the zero entity.\<close>

record ('s, 'e, 'a) CheckerConfig =
  ck_Cache :: "('s, 'e) CacheClient option"
  ck_TimeoutCache :: "('s, 'e) CacheClient option"
  ck_PlaceholderTTL :: duration
  ck_CacheTTL :: duration
  ck_PlaceholderFallback :: string
  ck_CacheReady :: "('s \<Rightarrow> bool) option"
  ck_DegradeActive :: "('s \<Rightarrow> bool) option"
  ck_EnsurePlaceholder :: "(string \<Rightarrow> string \<Rightarrow> 's \<Rightarrow> 's) option"
  ck_MarkDegraded :: "(string \<Rightarrow> 's \<Rightarrow> 's) option"
  ck_Retry :: "(int \<Rightarrow> ('e \<Rightarrow> bool) option \<Rightarrow> ('s \<Rightarrow> ('e + 'a option) \<times> 's) \<Rightarrow> 's \<Rightarrow> ('e + 'a option) \<times> 's) option"
  ck_RetryPredicate :: "('e \<Rightarrow> bool) option"
  ck_MaxRetries :: int
  ck_ShouldDegrade :: "('e \<Rightarrow> bool) option"
  ck_ShouldReleasePlaceholder :: "('e \<Rightarrow> bool) option"
  ck_CommandTimeout :: duration
  ck_CommandLatencyDegradeThreshold :: duration
  ck_CommandLatencyDegradeReason :: string
  ck_IsNotFound :: "('e \<Rightarrow> bool) option"
  ck_IsCacheMiss :: "('e \<Rightarrow> bool) option"
  ck_now :: "'s \<Rightarrow> instant"
  ck_errorf :: "string \<Rightarrow> 'e"
  ck_zero :: 'a

record ('s, 'e, 'a) FieldConfig =
  fc_FieldLabel :: string
  fc_FieldKey :: string
  fc_FieldValue :: string
  fc_AllowedOwner :: string
  fc_CacheKey :: string
  fc_PlaceholderValue :: string
  fc_Lookup :: "(string \<Rightarrow> 's \<Rightarrow> ('e + 'a) \<times> 's) option"
  fc_ExtractOwner :: "('a \<Rightarrow> string) option"
  fc_ConflictError :: "(string \<Rightarrow> string \<Rightarrow> 'e) option"
  fc_IsAllowedOwner :: "(string \<Rightarrow> string \<Rightarrow> bool) option"
  fc_SkipPlaceholderLookup :: "(string \<Rightarrow> bool) option"
  fc_DegradeReason :: string

definition degradeReasonCache :: string where "degradeReasonCache = ''redis_cache_error''"
definition degradeReasonPlaceholder :: string where "degradeReasonPlaceholder = ''redis_placeholder_error''"
definition degradeReasonCommandSlow :: string where "degradeReasonCommandSlow = ''redis_command_slow''"

definition NewChecker :: "('s, 'e, 'a) CheckerConfig \<Rightarrow> ('s, 'e, 'a) CheckerConfig" where
  "NewChecker C = C\<lparr>ck_MaxRetries := (if ck_MaxRetries C \<le> 0 then 1 else ck_MaxRetries C),
     ck_ShouldReleasePlaceholder := Some (case ck_ShouldReleasePlaceholder C of Some f \<Rightarrow> f | None \<Rightarrow> (\<lambda>e. True))\<rparr>"

section \<open>Hooks\<close>

definition mark_degraded :: "('s, 'e, 'a) CheckerConfig \<Rightarrow> string \<Rightarrow> 's \<Rightarrow> 's" where
  "mark_degraded C reason s = (case ck_MarkDegraded C of Some f \<Rightarrow> f reason s | None \<Rightarrow> s)"

definition ensure_placeholder :: "('s, 'e, 'a) CheckerConfig \<Rightarrow> string \<Rightarrow> string \<Rightarrow> 's \<Rightarrow> 's" where
  "ensure_placeholder C k v s = (case ck_EnsurePlaceholder C of Some f \<Rightarrow> f k v s | None \<Rightarrow> s)"

definition holds_of :: "('x \<Rightarrow> bool) option \<Rightarrow> 'x \<Rightarrow> bool" where
  "holds_of p x = (case p of Some f \<Rightarrow> f x | None \<Rightarrow> False)"

definition slowCommandReason :: "('s, 'e, 'a) CheckerConfig option \<Rightarrow> string" where
  "slowCommandReason c = (case c of
       None \<Rightarrow> degradeReasonCommandSlow
     | Some C \<Rightarrow> (let reason = TrimSpace (ck_CommandLatencyDegradeReason C) in if reason = [] then degradeReasonCommandSlow else reason))"

definition maybeDegradeSlowCommand :: "('s, 'e, 'a) CheckerConfig \<Rightarrow> duration \<Rightarrow> 's \<Rightarrow> 's" where
  "maybeDegradeSlowCommand C d s =
    (if ck_CommandLatencyDegradeThreshold C \<le> 0 \<or> d \<le> ck_CommandLatencyDegradeThreshold C then s
     else mark_degraded C (slowCommandReason (Some C)) s)"

definition placeholder_value :: "('s, 'e, 'a) CheckerConfig \<Rightarrow> ('s, 'e, 'a) FieldConfig \<Rightarrow> string" where
  "placeholder_value C F =
    (let v = (if TrimSpace (fc_PlaceholderValue F) = [] then fc_AllowedOwner F else fc_PlaceholderValue F)
     in if TrimSpace v = [] then ck_PlaceholderFallback C else v)"

definition field_allowed :: "('s, 'e, 'a) FieldConfig \<Rightarrow> string \<Rightarrow> bool" where
  "field_allowed F owner = (case fc_IsAllowedOwner F of Some f \<Rightarrow> f | None \<Rightarrow> EqualFold) owner (fc_AllowedOwner F)"

definition field_conflict :: "('s, 'e, 'a) CheckerConfig \<Rightarrow> ('s, 'e, 'a) FieldConfig \<Rightarrow> 'e" where
  "field_conflict C F = (case fc_ConflictError F of
       Some f \<Rightarrow> f (fc_FieldLabel F) (fc_FieldValue F)
     | None \<Rightarrow> ck_errorf C (''field '' @ fc_FieldKey F @ '' is already taken''))"

definition field_owner :: "('s, 'e, 'a) FieldConfig \<Rightarrow> 'a \<Rightarrow> string" where
  "field_owner F a = (case fc_ExtractOwner F of Some f \<Rightarrow> f a | None \<Rightarrow> [])"

text \<open>The client with timeouts is taken when a timeout is configured and the client has one.\<close>

definition command_client :: "('s, 'e, 'a) CheckerConfig \<Rightarrow> ('s, 'e) CacheClient \<Rightarrow> ('s, 'e) CacheClient" where
  "command_client C cl = (if 0 < ck_CommandTimeout C then case ck_TimeoutCache C of Some t \<Rightarrow> t | None \<Rightarrow> cl else cl)"

section \<open>Looking up\<close>

definition execute_lookup ::
  "('s, 'e, 'a) CheckerConfig \<Rightarrow> (string \<Rightarrow> 's \<Rightarrow> ('e + 'a) \<times> 's) \<Rightarrow> string \<Rightarrow> 's \<Rightarrow> ('e + 'a option) \<times> 's" where
  "execute_lookup C look v s =
    (case look v s of
       (Inl e, s1) \<Rightarrow> (if holds_of (ck_IsNotFound C) e then Inr None else Inl e, s1)
     | (Inr a, s1) \<Rightarrow> (Inr (Some a), s1))"

definition runLookup :: "('s, 'e, 'a) CheckerConfig \<Rightarrow> ('s, 'e, 'a) FieldConfig \<Rightarrow> 's \<Rightarrow> ('e + 'a) \<times> 's" where
  "runLookup C F s =
    (case fc_Lookup F of
       None \<Rightarrow> (Inr (ck_zero C), s)
     | Some look \<Rightarrow>
         (case (case ck_Retry C of
                  Some retry \<Rightarrow> retry (ck_MaxRetries C) (ck_RetryPredicate C) (execute_lookup C look (fc_FieldValue F)) s
                | None \<Rightarrow> execute_lookup C look (fc_FieldValue F) s) of
            (Inl e, s1) \<Rightarrow> (Inl e, s1)
          | (Inr None, s1) \<Rightarrow> (Inr (ck_zero C), s1)
          | (Inr (Some a), s1) \<Rightarrow> (Inr a, s1)))"

section \<open>The check\<close>

text \<open>Without a cache the table decides alone.\<close>

definition check_table :: "('s, 'e, 'a) CheckerConfig \<Rightarrow> ('s, 'e, 'a) FieldConfig \<Rightarrow> 's \<Rightarrow> 'e option \<times> 's" where
  "check_table C F s =
    (case runLookup C F s of
       (Inl e, s1) \<Rightarrow> (Some e, s1)
     | (Inr a, s1) \<Rightarrow>
         (if field_owner F a = [] \<or> field_allowed F (field_owner F a) then (None, s1) else (Some (field_conflict C F), s1)))"

text \<open>After the placeholder: the table decides, and a conflict is remembered in the cache.\<close>

definition check_lookup ::
  "('s, 'e, 'a) CheckerConfig \<Rightarrow> ('s, 'e, 'a) FieldConfig \<Rightarrow> ('s, 'e) CacheClient \<Rightarrow> 's \<Rightarrow> 'e option \<times> 's" where
  "check_lookup C F cl s =
    (case runLookup C F s of
       (Inl e, s1) \<Rightarrow>
         (if holds_of (ck_ShouldDegrade C) e
          then (None, ensure_placeholder C (fc_CacheKey F) (placeholder_value C F) (mark_degraded C (fc_DegradeReason F) s1))
          else (Some e, s1))
     | (Inr a, s1) \<Rightarrow>
         (if field_owner F a = [] \<or> field_allowed F (field_owner F a) then (None, s1)
          else case cl_SetKey cl (fc_CacheKey F) (field_owner F a) (ck_CacheTTL C) s1 of
                 (Some e, s2) \<Rightarrow> (Some (field_conflict C F), mark_degraded C degradeReasonCache s2)
               | (None, s2) \<Rightarrow> (Some (field_conflict C F), maybeDegradeSlowCommand C (ck_now C s2 - ck_now C s1) s2)))"

text \<open>Claiming a free key: the owner the cache shows afterwards and whether the placeholder is ours; \<open>None\<close> when the
  placeholder alone is enough.\<close>

definition claim_key ::
  "('s, 'e, 'a) CheckerConfig \<Rightarrow> ('s, 'e, 'a) FieldConfig \<Rightarrow> ('s, 'e) CacheClient \<Rightarrow> 's \<Rightarrow> (string \<times> bool) option \<times> 's" where
  "claim_key C F cl s =
    (case cl_SetNX cl (fc_CacheKey F) (placeholder_value C F) (ck_PlaceholderTTL C) s of
       (Inl e, s1) \<Rightarrow> (Some ([], False), mark_degraded C degradeReasonPlaceholder s1)
     | (Inr ok, s1) \<Rightarrow>
         (let s2 = maybeDegradeSlowCommand C (ck_now C s1 - ck_now C s) s1
          in if ok
             then (if holds_of (ck_CacheReady C) s2 \<and> holds_of (fc_SkipPlaceholderLookup F) (placeholder_value C F)
                   then (None, s2) else (Some (placeholder_value C F, True), s2))
             else case cl_GetKey cl (fc_CacheKey F) s2 of
                    (Inl e, s3) \<Rightarrow> (Some ([], False), s3)
                  | (Inr refreshed, s3) \<Rightarrow> (Some (refreshed, False), s3)))"

definition check_claimed ::
  "('s, 'e, 'a) CheckerConfig \<Rightarrow> ('s, 'e, 'a) FieldConfig \<Rightarrow> ('s, 'e) CacheClient \<Rightarrow> string \<times> bool \<Rightarrow> 's \<Rightarrow> 'e option \<times> 's" where
  "check_claimed C F cl claim s =
    (case claim of (owner, acquired) \<Rightarrow>
       (if TrimSpace owner \<noteq> [] \<and> \<not> field_allowed F owner then (Some (field_conflict C F), s)
        else if TrimSpace owner \<noteq> [] \<and> \<not> acquired then (None, s)
        else check_lookup C F cl s))"

text \<open>An error after a placeholder of our own gives the placeholder back, if the client wants that.\<close>

definition release_claim ::
  "('s, 'e, 'a) CheckerConfig \<Rightarrow> ('s, 'e, 'a) FieldConfig \<Rightarrow> ('s, 'e) CacheClient \<Rightarrow> bool \<Rightarrow> 'e option \<times> 's \<Rightarrow> 'e option \<times> 's" where
  "release_claim C F cl acquired r =
    (case r of
       (Some e, s) \<Rightarrow> (Some e, if acquired \<and> holds_of (ck_ShouldReleasePlaceholder C) e then snd (cl_DeleteKey cl (fc_CacheKey F) s) else s)
     | (None, s) \<Rightarrow> (None, s))"

definition check_cached ::
  "('s, 'e, 'a) CheckerConfig \<Rightarrow> ('s, 'e, 'a) FieldConfig \<Rightarrow> ('s, 'e) CacheClient \<Rightarrow> 's \<Rightarrow> 'e option \<times> 's" where
  "check_cached C F cl s =
    (case cl_GetKey cl (fc_CacheKey F) s of
       (answer, s1) \<Rightarrow>
         (case answer of
            Inr owner \<Rightarrow>
              (if TrimSpace owner \<noteq> []
               then (if field_allowed F owner then (None, s1) else (Some (field_conflict C F), s1))
               else (case claim_key C F cl s1 of
                       (None, s2) \<Rightarrow> (None, s2)
                     | (Some claim, s2) \<Rightarrow> release_claim C F cl (snd claim) (check_claimed C F cl claim s2)))
          | Inl e \<Rightarrow>
              (let s2 = (if holds_of (ck_IsCacheMiss C) e then s1 else mark_degraded C degradeReasonCache s1)
               in case claim_key C F cl s2 of
                    (None, s3) \<Rightarrow> (None, s3)
                  | (Some claim, s3) \<Rightarrow> release_claim C F cl (snd claim) (check_claimed C F cl claim s3))))"

definition EnsureFieldUnique ::
  "('s, 'e, 'a) CheckerConfig option \<Rightarrow> ('s, 'e, 'a) FieldConfig \<Rightarrow> 's \<Rightarrow> 'e option \<times> 's" where
  "EnsureFieldUnique c F s =
    (case c of
       None \<Rightarrow> (None, s)
     | Some C \<Rightarrow>
         (if TrimSpace (fc_CacheKey F) = [] then (None, s)
          else if holds_of (ck_DegradeActive C) s
          then (None, case ck_Cache C of None \<Rightarrow> s | Some cl \<Rightarrow> ensure_placeholder C (fc_CacheKey F) (placeholder_value C F) s)
          else case ck_Cache C of
                 None \<Rightarrow> check_table C F s
               | Some cl \<Rightarrow> check_cached C F (command_client C cl) s))"

section \<open>The check, one command at a time\<close>

text \<open>The same check, with a state between any two commands on the cache and the table: others may act there.\<close>

datatype 'e check_phase =
    ReadKey
  | ClaimKey
  | RereadKey
  | AskTable bool
  | WriteOwner string bool
  | GiveBack 'e bool
  | Decided "'e option"

definition claim_phase :: "('s, 'e, 'a) CheckerConfig \<Rightarrow> ('s, 'e, 'a) FieldConfig \<Rightarrow> string \<Rightarrow> bool \<Rightarrow> 'e check_phase" where
  "claim_phase C F owner acquired =
    (if TrimSpace owner \<noteq> [] \<and> \<not> field_allowed F owner then GiveBack (field_conflict C F) acquired
     else if TrimSpace owner \<noteq> [] \<and> \<not> acquired then Decided None
     else AskTable acquired)"

fun check_step ::
  "('s, 'e, 'a) CheckerConfig \<Rightarrow> ('s, 'e, 'a) FieldConfig \<Rightarrow> ('s, 'e) CacheClient \<Rightarrow> 'e check_phase \<Rightarrow> 's \<Rightarrow> 'e check_phase \<times> 's" where
  "check_step C F cl ReadKey s =
    (case cl_GetKey cl (fc_CacheKey F) s of
       (Inr owner, s1) \<Rightarrow>
         (if TrimSpace owner \<noteq> [] then (Decided (if field_allowed F owner then None else Some (field_conflict C F)), s1)
          else (ClaimKey, s1))
     | (Inl e, s1) \<Rightarrow> (ClaimKey, if holds_of (ck_IsCacheMiss C) e then s1 else mark_degraded C degradeReasonCache s1))"
| "check_step C F cl ClaimKey s =
    (case cl_SetNX cl (fc_CacheKey F) (placeholder_value C F) (ck_PlaceholderTTL C) s of
       (Inl e, s1) \<Rightarrow> (AskTable False, mark_degraded C degradeReasonPlaceholder s1)
     | (Inr ok, s1) \<Rightarrow>
         (let s2 = maybeDegradeSlowCommand C (ck_now C s1 - ck_now C s) s1
          in if ok
             then (if holds_of (ck_CacheReady C) s2 \<and> holds_of (fc_SkipPlaceholderLookup F) (placeholder_value C F)
                   then Decided None else claim_phase C F (placeholder_value C F) True, s2)
             else (RereadKey, s2)))"
| "check_step C F cl RereadKey s =
    (case cl_GetKey cl (fc_CacheKey F) s of
       (Inl e, s1) \<Rightarrow> (AskTable False, s1)
     | (Inr refreshed, s1) \<Rightarrow> (claim_phase C F refreshed False, s1))"
| "check_step C F cl (AskTable acquired) s =
    (case runLookup C F s of
       (Inl e, s1) \<Rightarrow>
         (if holds_of (ck_ShouldDegrade C) e
          then (Decided None, ensure_placeholder C (fc_CacheKey F) (placeholder_value C F) (mark_degraded C (fc_DegradeReason F) s1))
          else (GiveBack e acquired, s1))
     | (Inr a, s1) \<Rightarrow>
         (if field_owner F a = [] \<or> field_allowed F (field_owner F a) then Decided None
          else WriteOwner (field_owner F a) acquired, s1))"
| "check_step C F cl (WriteOwner owner acquired) s =
    (case cl_SetKey cl (fc_CacheKey F) owner (ck_CacheTTL C) s of
       (Some e, s1) \<Rightarrow> (GiveBack (field_conflict C F) acquired, mark_degraded C degradeReasonCache s1)
     | (None, s1) \<Rightarrow> (GiveBack (field_conflict C F) acquired, maybeDegradeSlowCommand C (ck_now C s1 - ck_now C s) s1))"
| "check_step C F cl (GiveBack e acquired) s =
    (Decided (Some e), if acquired \<and> holds_of (ck_ShouldReleasePlaceholder C) e then snd (cl_DeleteKey cl (fc_CacheKey F) s) else s)"
| "check_step C F cl (Decided r) s = (Decided r, s)"

fun check_run ::
  "('s, 'e, 'a) CheckerConfig \<Rightarrow> ('s, 'e, 'a) FieldConfig \<Rightarrow> ('s, 'e) CacheClient \<Rightarrow> nat \<Rightarrow> 'e check_phase \<times> 's \<Rightarrow> 'e check_phase \<times> 's" where
  "check_run C F cl 0 x = x"
| "check_run C F cl (Suc n) (p, s) = check_run C F cl n (check_step C F cl p s)"

lemma decided_run: "check_run C F cl n (Decided r, s) = (Decided r, s)"
  by (induction n) simp_all

lemma give_back_run: "check_run C F cl (Suc n) (GiveBack e acquired, s)
    = (Decided (fst (release_claim C F cl acquired (Some e, s))), snd (release_claim C F cl acquired (Some e, s)))"
  by (simp add: decided_run release_claim_def)

lemma ask_run:
  "check_run C F cl (Suc (Suc (Suc n))) (AskTable acquired, s)
    = (let r = release_claim C F cl acquired (check_lookup C F cl s) in (Decided (fst r), snd r))"
  by (auto simp: check_lookup_def release_claim_def decided_run Let_def split: prod.splits sum.splits option.splits)

lemma claim_run:
  "check_run C F cl (Suc (Suc (Suc n))) (claim_phase C F owner acquired, s)
    = (let r = release_claim C F cl acquired (check_claimed C F cl (owner, acquired) s) in (Decided (fst r), snd r))"
  by (simp add: claim_phase_def check_claimed_def decided_run give_back_run ask_run Let_def del: check_run.simps) (simp add: release_claim_def)

lemma claim_key_run:
  "check_run C F cl (Suc (Suc (Suc (Suc (Suc 0))))) (ClaimKey, s) = (case claim_key C F cl s of
      (None, s2) \<Rightarrow> (Decided None, s2)
    | (Some claim, s2) \<Rightarrow> let r = release_claim C F cl (snd claim) (check_claimed C F cl claim s2) in (Decided (fst r), snd r))"
proof -
  have blank: "check_claimed C F cl ([], False) s2 = check_lookup C F cl s2" for s2 by (simp add: check_claimed_def)
  have first: "check_run C F cl (Suc (Suc (Suc (Suc (Suc 0))))) (ClaimKey, s) = check_run C F cl (Suc (Suc (Suc (Suc 0)))) (check_step C F cl ClaimKey s)"
    by (simp only: check_run.simps(2))
  have reread: "check_run C F cl (Suc (Suc (Suc (Suc 0)))) (RereadKey, s2) = check_run C F cl (Suc (Suc (Suc 0))) (check_step C F cl RereadKey s2)" for s2
    by (simp only: check_run.simps(2))
  show ?thesis unfolding first
    by (auto simp: claim_key_def Let_def blank decided_run claim_run ask_run reread simp del: check_run.simps split: prod.splits sum.splits)
qed

text \<open>Undisturbed, six commands are the whole check.\<close>

lemma check_alone:
  "check_run C F cl 6 (ReadKey, s) = (Decided (fst (check_cached C F cl s)), snd (check_cached C F cl s))"
proof -
  have "check_run C F cl 6 (ReadKey, s) = check_run C F cl (Suc (Suc (Suc (Suc (Suc 0))))) (check_step C F cl ReadKey s)"
    by (simp add: eval_nat_numeral del: check_step.simps)
  then show ?thesis
    by (auto simp: check_cached_def Let_def decided_run claim_key_run simp del: check_run.simps split: prod.splits sum.splits option.splits)
qed

text \<open>What comes before the first command.\<close>

definition check_start :: "('s, 'e, 'a) CheckerConfig \<Rightarrow> ('s, 'e, 'a) FieldConfig \<Rightarrow> 's \<Rightarrow> 'e check_phase \<times> 's" where
  "check_start C F s =
    (if TrimSpace (fc_CacheKey F) = [] then (Decided None, s)
     else if holds_of (ck_DegradeActive C) s
     then (Decided None, case ck_Cache C of None \<Rightarrow> s | Some cl \<Rightarrow> ensure_placeholder C (fc_CacheKey F) (placeholder_value C F) s)
     else case ck_Cache C of
            None \<Rightarrow> (case check_table C F s of (r, s1) \<Rightarrow> (Decided r, s1))
          | Some cl \<Rightarrow> (ReadKey, s))"

lemma start_alone:
  assumes "ck_Cache C = Some cl"
  shows "check_run C F (command_client C cl) 6 (check_start C F s) = (Decided (fst (EnsureFieldUnique (Some C) F s)), snd (EnsureFieldUnique (Some C) F s))"
  using assms by (simp add: check_start_def EnsureFieldUnique_def decided_run check_alone)

section \<open>Caches that answer\<close>

text \<open>What the check relies on in a cache: in a good state every command is answered, a read tells a held key
  from a free one, the first claim of a free key wins, and no command takes time.\<close>

locale cache_client =
  fixes cl :: "('s, 'e) CacheClient"
    and at_key :: "'s \<Rightarrow> string \<Rightarrow> string option"
    and good :: "'s \<Rightarrow> bool"
    and miss :: "'e \<Rightarrow> bool"
    and now :: "'s \<Rightarrow> instant"
  assumes get_held: "good s \<Longrightarrow> at_key s k = Some v \<Longrightarrow>
      \<exists>s'. cl_GetKey cl k s = (Inr v, s') \<and> at_key s' = at_key s \<and> good s' \<and> now s' = now s"
    and get_free: "good s \<Longrightarrow> at_key s k = None \<Longrightarrow>
      \<exists>e s'. cl_GetKey cl k s = (Inl e, s') \<and> miss e \<and> at_key s' = at_key s \<and> good s' \<and> now s' = now s"
    and setnx_free: "good s \<Longrightarrow> at_key s k = None \<Longrightarrow>
      \<exists>s'. cl_SetNX cl k v ttl s = (Inr True, s') \<and> at_key s' = (at_key s)(k \<mapsto> v) \<and> good s' \<and> now s' = now s"
    and set_key: "good s \<Longrightarrow>
      \<exists>s'. cl_SetKey cl k v ttl s = (None, s') \<and> at_key s' = (at_key s)(k \<mapsto> v) \<and> good s' \<and> now s' = now s"
begin

text \<open>A held key decides alone.\<close>

lemma held:
  assumes "good s" and "at_key s (fc_CacheKey F) = Some v" and "TrimSpace v \<noteq> []"
  shows "\<exists>s'. check_cached C F cl s = (if field_allowed F v then None else Some (field_conflict C F), s')
    \<and> at_key s' = at_key s \<and> good s' \<and> now s' = now s"
  using get_held [OF assms(1,2)] assms(3) by (auto simp: check_cached_def)

lemma instant_command: "maybeDegradeSlowCommand C 0 s = s" by (auto simp: maybeDegradeSlowCommand_def)

text \<open>A free key gets the placeholder.\<close>

lemma fresh:
  assumes "good s" and "at_key s (fc_CacheKey F) = None" and "ck_IsCacheMiss C = Some miss" and "ck_now C = now"
  shows "\<exists>s1. at_key s1 = (at_key s)(fc_CacheKey F \<mapsto> placeholder_value C F) \<and> good s1 \<and> now s1 = now s
    \<and> check_cached C F cl s =
        (if holds_of (ck_CacheReady C) s1 \<and> holds_of (fc_SkipPlaceholderLookup F) (placeholder_value C F) then (None, s1)
         else release_claim C F cl True (check_claimed C F cl (placeholder_value C F, True) s1))"
proof -
  obtain e s0 where g: "cl_GetKey cl (fc_CacheKey F) s = (Inl e, s0)" "miss e" "at_key s0 = at_key s" "good s0" "now s0 = now s"
    using get_free [OF assms(1,2)] by blast
  then obtain s1 where n: "cl_SetNX cl (fc_CacheKey F) (placeholder_value C F) (ck_PlaceholderTTL C) s0 = (Inr True, s1)"
      "at_key s1 = (at_key s0)(fc_CacheKey F \<mapsto> placeholder_value C F)" "good s1" "now s1 = now s0"
    using setnx_free [of s0 "fc_CacheKey F"] assms(2) by metis
  with g assms(3,4) show ?thesis by (auto simp: check_cached_def claim_key_def holds_of_def instant_command intro!: exI [of _ s1])
qed

text \<open>The table finds nobody else, or somebody: then the key shows that owner.\<close>

lemma decided:
  assumes "good s1" and "runLookup C F s1 = (Inr a, s2)" and "at_key s2 = at_key s1" and "good s2" and "ck_now C = now"
    and "TrimSpace (placeholder_value C F) \<noteq> []" and "field_allowed F (placeholder_value C F)"
    and "\<not> holds_of (ck_ShouldReleasePlaceholder C) (field_conflict C F)"
  shows "if field_owner F a = [] \<or> field_allowed F (field_owner F a)
    then release_claim C F cl True (check_claimed C F cl (placeholder_value C F, True) s1) = (None, s2)
    else \<exists>s3. release_claim C F cl True (check_claimed C F cl (placeholder_value C F, True) s1) = (Some (field_conflict C F), s3)
      \<and> at_key s3 = (at_key s1)(fc_CacheKey F \<mapsto> field_owner F a) \<and> good s3"
  using set_key [OF assms(4), of "fc_CacheKey F" "field_owner F a" "ck_CacheTTL C"] assms(2,3,5-)
  by (auto simp: release_claim_def check_claimed_def check_lookup_def instant_command)

text \<open>After a check that passes the key is held by an owner the caller allows.\<close>

lemma passed:
  assumes "good s" and "ck_IsCacheMiss C = Some miss" and "ck_now C = now"
    and table: "\<And>s1. good s1 \<Longrightarrow> \<exists>a s2. runLookup C F s1 = (Inr a, s2) \<and> at_key s2 = at_key s1 \<and> good s2"
    and "TrimSpace (placeholder_value C F) \<noteq> []" and "field_allowed F (placeholder_value C F)"
    and "\<not> holds_of (ck_ShouldReleasePlaceholder C) (field_conflict C F)"
    and solid: "\<And>v. at_key s (fc_CacheKey F) = Some v \<Longrightarrow> TrimSpace v \<noteq> []"
    and r: "check_cached C F cl s = (None, s')"
  shows "\<exists>v. at_key s' (fc_CacheKey F) = Some v \<and> TrimSpace v \<noteq> [] \<and> field_allowed F v \<and> good s'"
proof (cases "at_key s (fc_CacheKey F)")
  case (Some v)
  from held [OF assms(1) Some solid [OF Some], of C] r Some solid show ?thesis by (auto split: if_splits)
next
  case None
  obtain s1 where s1: "at_key s1 = (at_key s)(fc_CacheKey F \<mapsto> placeholder_value C F)" "good s1"
    "check_cached C F cl s = (if holds_of (ck_CacheReady C) s1 \<and> holds_of (fc_SkipPlaceholderLookup F) (placeholder_value C F) then (None, s1)
         else release_claim C F cl True (check_claimed C F cl (placeholder_value C F, True) s1))"
    using fresh [OF assms(1) None assms(2,3)] by blast
  obtain a s2 where s2: "runLookup C F s1 = (Inr a, s2)" "at_key s2 = at_key s1" "good s2" using table [OF s1(2)] by blast
  from decided [OF s1(2) s2 assms(3,5,6,7)] s1 s2 r assms(5,6) show ?thesis by (auto split: if_splits)
qed

text \<open>And the next check by anybody who does not allow that owner is refused.\<close>

lemma exclusive:
  assumes "good s" and "ck_IsCacheMiss C = Some miss" and "ck_now C = now"
    and "\<And>s1. good s1 \<Longrightarrow> \<exists>a s2. runLookup C F s1 = (Inr a, s2) \<and> at_key s2 = at_key s1 \<and> good s2"
    and "TrimSpace (placeholder_value C F) \<noteq> []" and "field_allowed F (placeholder_value C F)"
    and "\<not> holds_of (ck_ShouldReleasePlaceholder C) (field_conflict C F)"
    and "\<And>v. at_key s (fc_CacheKey F) = Some v \<Longrightarrow> TrimSpace v \<noteq> []"
    and "check_cached C F cl s = (None, s')"
    and "fc_CacheKey G = fc_CacheKey F" and "\<And>v. field_allowed F v \<Longrightarrow> \<not> field_allowed G v"
  shows "\<exists>s2. check_cached D G cl s' = (Some (field_conflict D G), s2) \<and> at_key s2 = at_key s' \<and> good s2"
proof -
  obtain v where v: "at_key s' (fc_CacheKey G) = Some v" "TrimSpace v \<noteq> []" "field_allowed F v" "good s'"
    using passed [OF assms(1-9)] assms(10) by auto
  from held [OF v(4,1,2), of D] assms(11) [OF v(3)] show ?thesis by auto
qed

end

end
