(* ===== verification/UserService.thy ===== *)
theory UserService
  imports UniqueChecker ConsumerHandlers OperationMode
begin

text \<open>
  The user service, first part (internal/apiserver/service/v1/user: user_service.go, get_service.go): its errors,
  its state, the reading of cached users, the protection against names that are asked for in vain, reads that
  must be fresh, and whether a user exists. The table of users and the limit of concurrent
  checks are arguments. Redis is configured; the coordinator of leases may be missing. What a context holds
  are the fields \<open>rq\<close> of the state: one request at a time. A deadline handed to the table is what the
  service allows a statement; calls that share a running read of the same key are left out, as are metrics,
  traces and logs.
\<close>

section \<open>Texts\<close>

definition svc_pending_missing :: string where
  "svc_pending_missing = ''pending coordinator '' @ bytes [0xE6, 0x9C, 0xAA, 0xE5, 0x88, 0x9D, 0xE5, 0xA7, 0x8B,
     0xE5, 0x8C, 0x96]"

definition svc_creating :: string where
  "svc_creating = bytes [0xE7, 0x94, 0xA8, 0xE6, 0x88, 0xB7, 0xE6, 0xAD, 0xA3, 0xE5, 0x9C, 0xA8, 0xE5, 0x88, 0x9B,
     0xE5, 0xBB, 0xBA, 0xE4, 0xB8, 0xAD, 0xEF, 0xBC, 0x8C, 0xE8, 0xAF, 0xB7, 0xE7, 0xA8, 0x8D, 0xE5, 0x90, 0x8E,
     0xE9, 0x87, 0x8D, 0xE8, 0xAF, 0x95]"

definition svc_create_queued :: string where
  "svc_create_queued = bytes [0xE7, 0x94, 0xA8, 0xE6, 0x88, 0xB7, 0xE5, 0x88, 0x9B, 0xE5, 0xBB, 0xBA, 0xE6, 0xAD,
     0xA3, 0xE5, 0x9C, 0xA8, 0xE6, 0x8E, 0x92, 0xE9, 0x98, 0x9F, 0xEF, 0xBC, 0x8C, 0xE8, 0xAF, 0xB7, 0xE7, 0xA8,
     0x8D, 0xE5, 0x90, 0x8E, 0xE9, 0x87, 0x8D, 0xE8, 0xAF, 0x95]"

definition svc_taken :: string where
  "svc_taken = bytes [0xE5, 0xB7, 0xB2, 0xE8, 0xA2, 0xAB, 0xE5, 0x8D, 0xA0, 0xE7, 0x94, 0xA8] @ '': ''"

definition svc_email :: string where
  "svc_email = bytes [0xE9, 0x82, 0xAE, 0xE7, 0xAE, 0xB1]"

definition svc_phone :: string where
  "svc_phone = bytes [0xE6, 0x89, 0x8B, 0xE6, 0x9C, 0xBA, 0xE5, 0x8F, 0xB7]"

definition svc_decode_failed :: string where
  "svc_decode_failed = bytes [0xE6, 0x95, 0xB0, 0xE6, 0x8D, 0xAE, 0xE8, 0xA7, 0xA3, 0xE7, 0xA0, 0x81, 0xE5, 0xA4,
     0xB1, 0xE8, 0xB4, 0xA5]"

definition svc_invalid_user :: string where
  "svc_invalid_user = bytes [0xE6, 0x97, 0xA0, 0xE6, 0x95, 0x88, 0xE7, 0x9A, 0x84, 0xE7, 0x94, 0xA8, 0xE6, 0x88,
     0xB7, 0xE6, 0x95, 0xB0, 0xE6, 0x8D, 0xAE]"

definition svc_user_absent :: string where
  "svc_user_absent = bytes [0xE7, 0x94, 0xA8, 0xE6, 0x88, 0xB7, 0xE4, 0xB8, 0x8D, 0xE5, 0xAD, 0x98, 0xE5, 0x9C,
     0xA8]"

definition svc_permit_wait :: string where
  "svc_permit_wait = bytes [0xE9, 0xA2, 0x84, 0xE6, 0xA3, 0x80] @ ''-'' @ bytes [0xE6, 0x95, 0xB0, 0xE6, 0x8D,
     0xAE, 0xE5, 0xBA, 0x93, 0xE9, 0x99, 0x90, 0xE6, 0xB5, 0x81, 0xE6, 0x9F, 0xA5, 0xE8, 0xAF, 0xA2, 0xE7, 0xAD,
     0x89, 0xE5, 0xBE, 0x85, 0xE8, 0xB6, 0x85, 0xE6, 0x97, 0xB6]"

definition svc_serialize :: string where
  "svc_serialize = bytes [0xE7, 0x94, 0xA8, 0xE6, 0x88, 0xB7, 0xE6, 0x95, 0xB0, 0xE6, 0x8D, 0xAE, 0xE5, 0xBA,
     0x8F, 0xE5, 0x88, 0x97, 0xE5, 0x8C, 0x96, 0xE5, 0xA4, 0xB1, 0xE8, 0xB4, 0xA5]"

section \<open>Errors\<close>

text \<open>Codes of the business errors (internal/pkg/code).\<close>

definition code_ErrValidation :: int where "code_ErrValidation = 100004"
definition code_ErrDatabaseTimeout :: int where "code_ErrDatabaseTimeout = 100102"
definition code_ErrServerBusy :: int where "code_ErrServerBusy = 100214"
definition code_ErrDecodingFailed :: int where "code_ErrDecodingFailed = 100302"
definition code_ErrUserNotFound :: int where "code_ErrUserNotFound = 110001"

text \<open>An error with a code, the end of a context, an error of Redis or of the coordinator, one of a library
  (which may call itself temporary), one wrapped behind a text.\<close>

datatype svc_error =
    Coded int string
  | Ended ctx_error
  | Pending pending_error
  | Library bool string
  | Wrapped string svc_error

fun svc_text :: "svc_error \<Rightarrow> string" where
  "svc_text (Coded c m) = ''[code: '' @ FormatInt c @ ''] '' @ m"
| "svc_text (Ended e) = ctx_text e"
| "svc_text (Pending e) = pending_text e"
| "svc_text (Library t m) = m"
| "svc_text (Wrapped m e) = m"

definition GetCode :: "svc_error \<Rightarrow> int" where
  "GetCode e = (case e of Coded c m \<Rightarrow> c | _ \<Rightarrow> - 1)"

definition IsCode :: "svc_error \<Rightarrow> int \<Rightarrow> bool" where
  "IsCode e c = (case e of Coded c' m \<Rightarrow> c' = c | _ \<Rightarrow> False)"

text \<open>Whether the text of a coded error is that of a lasting failure, or of a passing one.\<close>

definition errors_isUnrecoverableError :: "string \<Rightarrow> bool" where
  "errors_isUnrecoverableError s \<longleftrightarrow> list_ex (Contains s)
    [''Duplicate entry'', ''1062'', ''23000'', ''duplicate key value'', ''23505'', text_user_exists, ''UserAlreadyExist'',
     ''UNMARSHAL_ERROR'', ''invalid json'', ''unknown operation'', ''poison message'', ''definer'', ''DEFINER'', ''1449'',
     ''permission denied'', ''does not exist'', ''not found'', ''record not found'', ''ErrRecordNotFound'', ''constraint'',
     ''foreign key'', ''1451'', ''1452'', ''syntax error'', ''Data too long for column'', ''1406'', ''ErrInvalidData'',
     ''ErrInvalidTransaction'', ''ErrNotImplemented'', ''ErrMissingWhereClause'', ''ErrPrimaryKeyRequired'',
     ''ErrModelValueRequired'', ''ErrUnsupportedRelation'', ''ErrRegistered'', ''ErrInvalidField'', ''ErrEmptySlice'',
     ''ErrDryRunModeUnsupported'', ''invalid format'', ''validation failed'']"

definition errors_isRecoverableError :: "string \<Rightarrow> bool" where
  "errors_isRecoverableError s \<longleftrightarrow> list_ex (Contains s)
    [''timeout'', ''deadline exceeded'', ''connection refused'', ''network error'', ''connection reset'', ''broken pipe'',
     ''no route to host'', ''database is closed'', ''deadlock'', ''1213'', ''40001'', ''temporary'', ''busy'', ''lock'',
     ''try again'', ''resource temporarily unavailable'', ''too many connections'', ''ErrInvalidTransaction'',
     ''ErrDryRunModeUnsupported'']"

definition code_Temporary :: "int \<Rightarrow> string \<Rightarrow> bool" where
  "code_Temporary c m =
    (if errors_isUnrecoverableError m then False
     else if errors_isRecoverableError m then True
     else 500 \<le> c \<and> c < 600)"

text \<open>Errors that match the end of a context, also behind a wrapping.\<close>

fun is_ended :: "svc_error \<Rightarrow> bool" where
  "is_ended (Ended e) = True"
| "is_ended (Wrapped m e) = is_ended e"
| "is_ended e = False"

definition is_temporary :: "svc_error \<Rightarrow> bool" where
  "is_temporary e = (case e of Coded c m \<Rightarrow> code_Temporary c m | Library t m \<Rightarrow> t | _ \<Rightarrow> False)"

definition isRetryableError :: "svc_error \<Rightarrow> bool" where
  "isRetryableError e \<longleftrightarrow> is_ended e \<or> is_temporary e \<or> list_ex (Contains (svc_text e))
    [''timeout'', ''deadline exceeded'', ''connection refused'', ''network error'', ''connection reset'', ''broken pipe'',
     ''no route to host'', ''database is closed'', ''deadlock'', ''1213'', ''40001'', ''invalid connection'', ''temporary'',
     ''busy'', ''lock'', ''try again'', ''resource temporarily unavailable'', ''too many connections'']"

definition shouldDegradeForError :: "svc_error \<Rightarrow> bool" where
  "shouldDegradeForError e \<longleftrightarrow> isRetryableError e \<or> IsCode e code_ErrDatabaseTimeout"

section \<open>State\<close>

record ProtectionConfig =
  pr_NegativeCacheThreshold :: int
  pr_NegativeCacheWindow :: duration
  pr_NegativeCacheTTL :: duration
  pr_BlockThreshold :: int
  pr_BlockWindow :: duration
  pr_BlockDuration :: duration

definition defaultProtectionConfig :: ProtectionConfig where
  "defaultProtectionConfig = \<lparr>pr_NegativeCacheThreshold = 3, pr_NegativeCacheWindow = Minute, pr_NegativeCacheTTL = 15 * Second,
     pr_BlockThreshold = 10, pr_BlockWindow = 5 * Minute, pr_BlockDuration = 30 * Minute\<rparr>"

text \<open>The options the service reads; the settings of the audit may be missing.\<close>

record ServiceOptions =
  so_Protection :: "ProtectionConfig option"
  so_MaxRetries :: int
  so_ContactLookupTimeout :: duration
  so_ContactRefreshTimeout :: duration
  so_EnableContactWarmup :: bool
  so_DegradeCacheTTL :: duration
  so_DegradeCacheMaxEntries :: int

record 'd UserStore =
  st_Get :: "instant option \<Rightarrow> bool \<Rightarrow> string \<Rightarrow> 'd \<Rightarrow> (svc_error + User option) \<times> 'd"
  st_GetByEmail :: "instant \<Rightarrow> string \<Rightarrow> 'd \<Rightarrow> (svc_error + User option) \<times> 'd"
  st_GetByPhone :: "instant \<Rightarrow> string \<Rightarrow> 'd \<Rightarrow> (svc_error + User option) \<times> 'd"
  st_PreflightConflicts :: "instant \<Rightarrow> string \<Rightarrow> string \<Rightarrow> string \<Rightarrow> 'd \<Rightarrow> (svc_error + (string \<times> User) list) \<times> 'd"
  st_List :: "int \<Rightarrow> int \<Rightarrow> 'd \<Rightarrow> (svc_error + User option list) \<times> 'd"

text \<open>The last fields: random numbers, the permits of the limiter and the decoding of a marker.\<close>

record ('r, 'l, 'd) UserService =
  sr_env :: "('r, 'l) PendingEnv"
  sr_coordinated :: bool
  sr_store :: "'d UserStore"
  sr_opts :: ServiceOptions
  sr_payload :: payload_codec
  sr_rand :: "int \<Rightarrow> int"
  sr_permit :: "instant \<Rightarrow> ctx_error option"
  sr_marker :: "string \<Rightarrow> string + (string \<times> bool \<times> string)"

record contactDegradeCacheEntry =
  de_owner :: string
  de_expires :: int

record batchLookupEntry =
  be_user :: "User option"
  be_notFound :: bool
  be_expires :: instant

record ('r, 'l, 'd) service_world =
  sw_pending :: "('r, 'l) pending_data"
  sw_db :: 'd
  sw_clock :: instant
  sw_degraded :: bool
  sw_since :: int
  sw_contacts :: "(string \<times> contactDegradeCacheEntry) list"
  sw_contacts_size :: int
  sw_ready :: bool
  sw_warming :: bool
  sw_nextRetry :: int
  rq_state :: "bool option"
  rq_force :: bool
  rq_primary :: bool
  rq_batch :: "(string \<times> batchLookupEntry) list option"
  rq_end :: "instant option"
  rq_canceled :: bool

abbreviation sr_server :: "('r, 'l, 'd) UserService \<Rightarrow> 'r Server" where "sr_server V \<equiv> fst (server_of (sr_env V))"
abbreviation sr_prefix :: "('r, 'l, 'd) UserService \<Rightarrow> string" where "sr_prefix V \<equiv> snd (server_of (sr_env V))"

definition sw_redis :: "('r \<Rightarrow> 'a \<times> 'r) \<Rightarrow> ('r, 'l, 'd) service_world \<Rightarrow> 'a \<times> ('r, 'l, 'd) service_world" where
  "sw_redis f w = (case on_redis f (sw_pending w) of (x, p) \<Rightarrow> (x, w\<lparr>sw_pending := p\<rparr>))"

definition sw_lease ::
  "(('r, 'l) pending_data \<Rightarrow> 'a \<times> ('r, 'l) pending_data) \<Rightarrow> ('r, 'l, 'd) service_world \<Rightarrow> 'a \<times> ('r, 'l, 'd) service_world" where
  "sw_lease f w = (case f (sw_pending w) of (x, p) \<Rightarrow> (x, w\<lparr>sw_pending := p\<rparr>))"

definition sw_table :: "('d \<Rightarrow> 'a \<times> 'd) \<Rightarrow> ('r, 'l, 'd) service_world \<Rightarrow> 'a \<times> ('r, 'l, 'd) service_world" where
  "sw_table f w = (case f (sw_db w) of (x, d) \<Rightarrow> (x, w\<lparr>sw_db := d\<rparr>))"

definition sw_sleep :: "duration \<Rightarrow> ('r, 'l, 'd) service_world \<Rightarrow> ('r, 'l, 'd) service_world" where
  "sw_sleep d w = w\<lparr>sw_clock := sw_clock w + max 0 d\<rparr>"

text \<open>The coordinator is told that the service runs without Redis.\<close>

definition svc_env :: "('r, 'l, 'd) UserService \<Rightarrow> ('r, 'l, 'd) service_world \<Rightarrow> ('r, 'l) PendingEnv" where
  "svc_env V w = (sr_env V)\<lparr>pe_degraded := sw_degraded w\<rparr>"

text \<open>Commands of Redis; a key without a value is \<open>None\<close>.\<close>

definition svc_GetKey ::
  "('r, 'l, 'd) UserService \<Rightarrow> string \<Rightarrow> ('r, 'l, 'd) service_world \<Rightarrow> (pending_error + string option) \<times> ('r, 'l, 'd) service_world" where
  "svc_GetKey V k w = sw_redis (GetKeyWithCommandTimeout (sr_server V) (sr_prefix V) (sw_clock w) k) w"

definition svc_SetKey ::
  "('r, 'l, 'd) UserService \<Rightarrow> string \<Rightarrow> string \<Rightarrow> duration \<Rightarrow> ('r, 'l, 'd) service_world \<Rightarrow> pending_error option \<times> ('r, 'l, 'd) service_world" where
  "svc_SetKey V k v ttl w = sw_redis (cache_SetKey (sr_server V) (sr_prefix V) (sw_clock w) k v ttl) w"

definition svc_SetNX ::
  "('r, 'l, 'd) UserService \<Rightarrow> string \<Rightarrow> string \<Rightarrow> duration \<Rightarrow> ('r, 'l, 'd) service_world \<Rightarrow> (pending_error + bool) \<times> ('r, 'l, 'd) service_world" where
  "svc_SetNX V k v ttl w = sw_redis (SetNXWithCommandTimeout (sr_server V) (sr_prefix V) (sw_clock w) k v ttl) w"

definition svc_DeleteKey ::
  "('r, 'l, 'd) UserService \<Rightarrow> string \<Rightarrow> ('r, 'l, 'd) service_world \<Rightarrow> pending_error option \<times> ('r, 'l, 'd) service_world" where
  "svc_DeleteKey V k w = sw_redis (DeleteKey (sr_server V) (sr_prefix V) (sw_clock w) k) w"

text \<open>Waiting until the delay is over or the context ends, at its deadline if it has one; the answer tells which.\<close>

definition waitWithContext :: "instant option \<Rightarrow> duration \<Rightarrow> ('r, 'l, 'd) service_world \<Rightarrow> bool \<times> ('r, 'l, 'd) service_world" where
  "waitWithContext deadline d w =
    (if d \<le> 0 then (True, w)
     else case deadline of
            Some e \<Rightarrow> (if e < sw_clock w + d then (False, w\<lparr>sw_clock := max e (sw_clock w)\<rparr>) else (True, sw_sleep d w))
          | None \<Rightarrow> (True, sw_sleep d w))"

text \<open>An operation that is tried again sleeps also after its last failure. Without any attempt there is neither a result
  nor an error.\<close>

fun retry_from ::
  "(duration \<Rightarrow> 's \<Rightarrow> 's) \<Rightarrow> nat \<Rightarrow> nat \<Rightarrow> 'e option \<Rightarrow> ('e \<Rightarrow> bool) \<Rightarrow> ('s \<Rightarrow> ('e + 'a option) \<times> 's) \<Rightarrow> 's \<Rightarrow> ('e + 'a option) \<times> 's" where
  "retry_from sleep 0 i lastErr p f s = ((case lastErr of None \<Rightarrow> Inr None | Some e \<Rightarrow> Inl e), s)"
| "retry_from sleep (Suc n) i lastErr p f s =
    (case f s of
       (Inr x, s1) \<Rightarrow> (Inr x, s1)
     | (Inl e, s1) \<Rightarrow>
         (if \<not> p e then (Inl e, s1)
          else retry_from sleep n (Suc i) (Some e) p f (sleep (int (100 * (i + 1)) * Millisecond) s1)))"

definition RetryWithBackoff ::
  "(duration \<Rightarrow> 's \<Rightarrow> 's) \<Rightarrow> int \<Rightarrow> ('e \<Rightarrow> bool) \<Rightarrow> ('s \<Rightarrow> ('e + 'a option) \<times> 's) \<Rightarrow> 's \<Rightarrow> ('e + 'a option) \<times> 's" where
  "RetryWithBackoff sleep maxRetry p f s = retry_from sleep (nat maxRetry) 0 None p f s"

section \<open>Look-ups of one request\<close>

definition batchLookupCacheTTL :: duration where "batchLookupCacheTTL = 750 * Millisecond"

definition WithBatchLookupCache :: "('r, 'l, 'd) service_world \<Rightarrow> ('r, 'l, 'd) service_world" where
  "WithBatchLookupCache w = (if rq_batch w = None then w\<lparr>rq_batch := Some []\<rparr> else w)"

definition batch_get :: "string \<Rightarrow> ('r, 'l, 'd) service_world \<Rightarrow> batchLookupEntry option \<times> ('r, 'l, 'd) service_world" where
  "batch_get username w =
    (case rq_batch w of
       None \<Rightarrow> (None, w)
     | Some m \<Rightarrow>
         (case map_of m username of
            None \<Rightarrow> (None, w)
          | Some e \<Rightarrow> (if time_After (sw_clock w) (be_expires e) then (None, w\<lparr>rq_batch := Some (AList.delete username m)\<rparr>) else (Some e, w))))"

definition batch_set :: "string \<Rightarrow> User option \<Rightarrow> bool \<Rightarrow> ('r, 'l, 'd) service_world \<Rightarrow> ('r, 'l, 'd) service_world" where
  "batch_set username u notFound w =
    (case rq_batch w of
       None \<Rightarrow> w
     | Some m \<Rightarrow> w\<lparr>rq_batch := Some (AList.update username
         \<lparr>be_user = u, be_notFound = notFound, be_expires = time_Add (sw_clock w) batchLookupCacheTTL\<rparr> m)\<rparr>)"

section \<open>Reading a cached user\<close>

definition sentinel_user :: "string \<Rightarrow> int \<Rightarrow> User" where
  "sentinel_user name status = zero_user\<lparr>om_Name := name, us_Status := status\<rparr>"

definition is_sentinel :: "User \<Rightarrow> bool" where
  "is_sentinel u \<longleftrightarrow> om_Name u = NegativeCacheSentinel \<or> om_Name u = BlacklistSentinel"

text \<open>The user and whether the key was there.\<close>

definition getFromCache ::
  "('r, 'l, 'd) UserService \<Rightarrow> string \<Rightarrow> ('r, 'l, 'd) service_world \<Rightarrow> (svc_error + User option \<times> bool) \<times> ('r, 'l, 'd) service_world" where
  "getFromCache V cacheKey w =
    (case svc_GetKey V cacheKey w of
       (Inl e, w1) \<Rightarrow> (Inl (Pending e), w1)
     | (Inr None, w1) \<Rightarrow> (Inr (None, False), w1)
     | (Inr (Some data), w1) \<Rightarrow>
         ((if data = NegativeCacheSentinel then Inr (Some (sentinel_user NegativeCacheSentinel (- 1)), True)
           else if data = BlacklistSentinel then Inr (Some (sentinel_user BlacklistSentinel (- 2)), True)
           else case payload_Unmarshal (sr_payload V) data of
                  Inl e \<Rightarrow> Inl (Coded code_ErrDecodingFailed svc_decode_failed)
                | Inr None \<Rightarrow> Inl (Library False svc_invalid_user)
                | Inr (Some u) \<Rightarrow> Inr (Some u, True)), w1))"

definition service_setUserCache ::
  "('r, 'l, 'd) UserService \<Rightarrow> string \<Rightarrow> User \<Rightarrow> ('r, 'l, 'd) service_world \<Rightarrow> svc_error option \<times> ('r, 'l, 'd) service_world" where
  "service_setUserCache V username u w =
    (case payload_Marshal (sr_payload V) u of
       Inl e \<Rightarrow> (Some (Wrapped svc_serialize (Library False e)), w)
     | Inr body \<Rightarrow>
         (case svc_SetKey V (UserKey username) body (Hour + sr_rand V 300 * Second) w of
            (e, w1) \<Rightarrow> (map_option Pending e, w1)))"

section \<open>Protection\<close>

definition protectionConfig :: "('r, 'l, 'd) UserService \<Rightarrow> ProtectionConfig" where
  "protectionConfig V =
    (let d = defaultProtectionConfig
     in case so_Protection (sr_opts V) of
          None \<Rightarrow> d
        | Some c \<Rightarrow>
            \<lparr>pr_NegativeCacheThreshold = positive_or (pr_NegativeCacheThreshold d) (pr_NegativeCacheThreshold c),
             pr_NegativeCacheWindow = positive_or (pr_NegativeCacheWindow d) (pr_NegativeCacheWindow c),
             pr_NegativeCacheTTL = positive_or (pr_NegativeCacheTTL d) (pr_NegativeCacheTTL c),
             pr_BlockThreshold = positive_or (pr_BlockThreshold d) (pr_BlockThreshold c),
             pr_BlockWindow = positive_or (pr_BlockWindow d) (pr_BlockWindow c),
             pr_BlockDuration = positive_or (pr_BlockDuration d) (pr_BlockDuration c)\<rparr>)"

definition durationToSecondsCeil :: "duration \<Rightarrow> int" where
  "durationToSecondsCeil d =
    (if d \<le> 0 then 0
     else let n = go_div d Second; m = (if go_mod d Second \<noteq> 0 then n + 1 else n) in if m \<le> 0 then 1 else m)"

definition cacheNullValue ::
  "('r, 'l, 'd) UserService \<Rightarrow> string \<Rightarrow> duration \<Rightarrow> ('r, 'l, 'd) service_world \<Rightarrow> pending_error option \<times> ('r, 'l, 'd) service_world" where
  "cacheNullValue V username ttl w =
    (if pe_redis (sr_env V) = None \<or> username = [] then (None, w)
     else svc_SetKey V (UserKey username) NegativeCacheSentinel ((if ttl \<le> 0 then 45 * Second else ttl) + sr_rand V 5 * Second) w)"

definition cacheBlacklistSentinel ::
  "('r, 'l, 'd) UserService \<Rightarrow> string \<Rightarrow> duration \<Rightarrow> ('r, 'l, 'd) service_world \<Rightarrow> pending_error option \<times> ('r, 'l, 'd) service_world" where
  "cacheBlacklistSentinel V username ttl w =
    (if pe_redis (sr_env V) = None \<or> username = [] then (None, w)
     else svc_SetKey V (UserKey username) BlacklistSentinel ((if ttl \<le> 0 then 30 * Minute else ttl) + sr_rand V 5 * Second) w)"

definition setBlacklist ::
  "('r, 'l, 'd) UserService \<Rightarrow> string \<Rightarrow> duration \<Rightarrow> ('r, 'l, 'd) service_world \<Rightarrow> pending_error option \<times> ('r, 'l, 'd) service_world" where
  "setBlacklist V username ttl w =
    (if pe_redis (sr_env V) = None \<or> username = [] \<or> BlacklistKey username = [] then (None, w)
     else svc_SetKey V (BlacklistKey username) BlacklistSentinel (if ttl \<le> 0 then 30 * Minute else ttl) w)"

definition clearProtectionCounters ::
  "('r, 'l, 'd) UserService \<Rightarrow> string \<Rightarrow> ('r, 'l, 'd) service_world \<Rightarrow> ('r, 'l, 'd) service_world" where
  "clearProtectionCounters V username w =
    (if pe_redis (sr_env V) = None \<or> username = [] then w
     else fold (\<lambda>k w. if k = [] then w else snd (svc_DeleteKey V k w)) [NegativeCounterKey username, BlockCounterKey username] w)"

text \<open>One counter of the protection: its new value, 0 without a key.\<close>

definition count_miss ::
  "('r, 'l, 'd) UserService \<Rightarrow> string \<Rightarrow> duration \<Rightarrow> ('r, 'l, 'd) service_world \<Rightarrow> int \<times> ('r, 'l, 'd) service_world" where
  "count_miss V key window w =
    (if key = [] then (0, w)
     else sw_redis (IncrememntWithExpire (sr_server V) (sr_prefix V) (sw_clock w) key (durationToSecondsCeil window)) w)"

definition negative_step ::
  "('r, 'l, 'd) UserService \<Rightarrow> ProtectionConfig \<Rightarrow> string \<Rightarrow> ('r, 'l, 'd) service_world \<Rightarrow> bool \<times> ('r, 'l, 'd) service_world" where
  "negative_step V cfg username w =
    (if pr_NegativeCacheThreshold cfg \<le> 0 \<or> pr_NegativeCacheWindow cfg \<le> 0 then (False, w)
     else case count_miss V (NegativeCounterKey username) (pr_NegativeCacheWindow cfg) w of
            (n, w1) \<Rightarrow>
              (if 0 < n \<and> pr_NegativeCacheThreshold cfg \<le> n
               then (case cacheNullValue V username (pr_NegativeCacheTTL cfg) w1 of (e, w2) \<Rightarrow> (e = None, w2))
               else (False, w1)))"

definition block_step ::
  "('r, 'l, 'd) UserService \<Rightarrow> ProtectionConfig \<Rightarrow> string \<Rightarrow> bool \<Rightarrow> ('r, 'l, 'd) service_world
    \<Rightarrow> (bool \<times> bool) \<times> ('r, 'l, 'd) service_world" where
  "block_step V cfg username applied w =
    (if pr_BlockThreshold cfg \<le> 0 \<or> pr_BlockWindow cfg \<le> 0 then ((applied, False), w)
     else case count_miss V (BlockCounterKey username) (pr_BlockWindow cfg) w of
            (n, w1) \<Rightarrow>
              (if 0 < n \<and> pr_BlockThreshold cfg \<le> n
               then (case setBlacklist V username (pr_BlockDuration cfg) w1 of
                       (Some e, w2) \<Rightarrow> ((applied, False), w2)
                     | (None, w2) \<Rightarrow>
                         (case cacheBlacklistSentinel V username (pr_BlockDuration cfg) w2 of
                            (e, w3) \<Rightarrow> ((applied \<or> e = None, True), clearProtectionCounters V username w3)))
               else ((applied, False), w1)))"

text \<open>Whether the cache now answers for the name, and whether the name is blocked.\<close>

definition handleProtectionForMiss ::
  "('r, 'l, 'd) UserService \<Rightarrow> string \<Rightarrow> ('r, 'l, 'd) service_world \<Rightarrow> (bool \<times> bool) \<times> ('r, 'l, 'd) service_world" where
  "handleProtectionForMiss V username w =
    (if pe_redis (sr_env V) = None \<or> username = [] then ((False, False), w)
     else let cfg = protectionConfig V
          in case negative_step V cfg username w of (applied, w1) \<Rightarrow> block_step V cfg username applied w1)"

definition isUserBlacklisted ::
  "('r, 'l, 'd) UserService \<Rightarrow> string \<Rightarrow> ('r, 'l, 'd) service_world \<Rightarrow> (svc_error + bool) \<times> ('r, 'l, 'd) service_world" where
  "isUserBlacklisted V username w =
    (if pe_redis (sr_env V) = None \<or> username = [] \<or> BlacklistKey username = [] then (Inr False, w)
     else case svc_GetKey V (BlacklistKey username) w of
            (Inl e, w1) \<Rightarrow> (Inl (Pending e), w1)
          | (Inr v, w1) \<Rightarrow> (Inr (v = Some BlacklistSentinel), w1))"

section \<open>Fresh reads\<close>

definition isStrongConsistencyRequest :: "('r, 'l, 'd) service_world \<Rightarrow> bool" where
  "isStrongConsistencyRequest w \<longleftrightarrow> rq_force w \<or> rq_primary w"

definition strongConsistencyMaxRetries :: nat where "strongConsistencyMaxRetries = 3"

definition strongConsistencyBackoffDelay :: "int \<Rightarrow> duration" where
  "strongConsistencyBackoffDelay attempt =
    (let delay = 80 * Millisecond * 2 ^ nat attempt in if 500 * Millisecond < delay then 500 * Millisecond else delay)"

definition strongConsistencyProbeDelay :: "('r, 'l, 'd) UserService \<Rightarrow> duration" where
  "strongConsistencyProbeDelay V = 35 * Millisecond + sr_rand V (45 * Millisecond)"

record pendingMarkerState =
  mk_exists :: bool
  mk_ttl :: duration
  mk_degraded :: bool
  mk_backpressure :: BackpressureLevel
  mk_leaseOwner :: string
  mk_queueDepth :: int

definition no_marker_state :: pendingMarkerState where
  "no_marker_state = \<lparr>mk_exists = False, mk_ttl = 0, mk_degraded = False, mk_backpressure = BackpressureUnset, mk_leaseOwner = [],
     mk_queueDepth = 0\<rparr>"

definition lookupPendingCreateMarker ::
  "('r, 'l, 'd) UserService \<Rightarrow> string \<Rightarrow> ('r, 'l, 'd) service_world
    \<Rightarrow> (svc_error + pendingMarkerState) \<times> ('r, 'l, 'd) service_world" where
  "lookupPendingCreateMarker V username w =
    (let trimmed = TrimSpace username
     in if trimmed = [] then (Inr no_marker_state, w)
        else if \<not> sr_coordinated V then (Inl (Coded code_ErrServerBusy svc_pending_missing), w)
        else case sw_lease (redis_Observe (svc_env V w) (sw_clock w) trimmed) w of
               (Inl e, w1) \<Rightarrow> (Inl (Pending e), w1)
             | (Inr st, w1) \<Rightarrow>
                 (if \<not> ps_Exists st then (Inr no_marker_state, w1)
                  else (Inr \<lparr>mk_exists = True, mk_ttl = ps_TTL st,
                          mk_degraded = (ps_Backpressure st \<noteq> BackpressureNone \<or> PendingMarkerIsDegraded (sr_marker V) (ps_Raw st) = Inr True),
                          mk_backpressure = ps_Backpressure st, mk_leaseOwner = ps_LeaseOwner st, mk_queueDepth = ps_QueueDepth st\<rparr>, w1)))"

definition creating_error :: "pendingMarkerState \<Rightarrow> svc_error" where
  "creating_error st = Coded code_ErrUserNotFound (if mk_degraded st then svc_create_queued else svc_creating)"

text \<open>A timeout of the table while the user is being created: try again, or answer that.\<close>

definition handleStrongConsistencyReadError ::
  "('r, 'l, 'd) UserService \<Rightarrow> instant option \<Rightarrow> string \<Rightarrow> int \<Rightarrow> svc_error option \<Rightarrow> ('r, 'l, 'd) service_world
    \<Rightarrow> (bool \<times> svc_error option) \<times> ('r, 'l, 'd) service_world" where
  "handleStrongConsistencyReadError V deadline username attempt queryErr w =
    (case queryErr of
       None \<Rightarrow> ((False, None), w)
     | Some e \<Rightarrow>
         (if GetCode e \<noteq> code_ErrDatabaseTimeout then ((False, None), w)
          else case lookupPendingCreateMarker V username w of
                 (Inl e2, w1) \<Rightarrow> ((False, None), w1)
               | (Inr st, w1) \<Rightarrow>
                   (if \<not> mk_exists st then ((False, None), w1)
                    else if attempt + 1 < int strongConsistencyMaxRetries
                    then (case waitWithContext deadline (strongConsistencyBackoffDelay attempt) w1 of
                            (True, w2) \<Rightarrow> ((True, None), w2)
                          | (False, w2) \<Rightarrow> ((False, Some e), w2))
                    else ((False, Some (creating_error st)), w1))))"

section \<open>Reading the table\<close>

text \<open>The deadline of a statement, from the timeout and that of the request.\<close>

definition newDBContext :: "duration \<Rightarrow> ('r, 'l, 'd) service_world \<Rightarrow> instant" where
  "newDBContext timeout w =
    (let t = (if timeout \<le> 0 then Second else timeout); remaining = (case rq_end w of Some e \<Rightarrow> e - sw_clock w | None \<Rightarrow> 0)
     in sw_clock w + (if 0 < remaining \<and> remaining < t then remaining else t))"

definition contactLookupTimeout :: "('r, 'l, 'd) UserService \<Rightarrow> duration" where
  "contactLookupTimeout V = positive_or (2 * Second) (so_ContactLookupTimeout (sr_opts V))"

definition contactRefreshTimeout :: "('r, 'l, 'd) UserService \<Rightarrow> duration" where
  "contactRefreshTimeout V = positive_or (3 * Second) (so_ContactRefreshTimeout (sr_opts V))"

text \<open>A name that is not in the table: it may be being created, it may be blocked.\<close>

definition missing_user ::
  "('r, 'l, 'd) UserService \<Rightarrow> string \<Rightarrow> ('r, 'l, 'd) service_world \<Rightarrow> (svc_error + User option) \<times> ('r, 'l, 'd) service_world" where
  "missing_user V username w =
    (case (if isStrongConsistencyRequest w then lookupPendingCreateMarker V username w else (Inr no_marker_state, w)) of
       (r, w1) \<Rightarrow>
         (if (case r of Inr st \<Rightarrow> mk_exists st | Inl e \<Rightarrow> False)
          then (Inl (creating_error (projr r)), w1)
          else case handleProtectionForMiss V username w1 of
                 ((applied, blacklisted), w2) \<Rightarrow>
                   (Inr (if blacklisted then Some (sentinel_user BlacklistSentinel 0)
                         else if applied then Some (sentinel_user NegativeCacheSentinel 0) else None), w2)))"

text \<open>The attempts left count down; the number of the present attempt starts at 0.\<close>

fun read_attempts ::
  "('r, 'l, 'd) UserService \<Rightarrow> instant option \<Rightarrow> string \<Rightarrow> nat \<Rightarrow> ('r, 'l, 'd) service_world
    \<Rightarrow> (svc_error + User option) \<times> ('r, 'l, 'd) service_world" where
  "read_attempts V deadline username n w =
    (case sw_table (st_Get (sr_store V) deadline (rq_primary w) username) w of
       (Inl e, w1) \<Rightarrow>
         (if IsCode e code_ErrUserNotFound then missing_user V username w1
          else if \<not> isStrongConsistencyRequest w1 then (Inl e, w1)
          else case handleStrongConsistencyReadError V deadline username (int strongConsistencyMaxRetries - int n) (Some e) w1 of
                 ((True, x), w2) \<Rightarrow> (case n of 0 \<Rightarrow> (Inl e, w2) | Suc m \<Rightarrow> read_attempts V deadline username m w2)
               | ((False, Some e2), w2) \<Rightarrow> (Inl e2, w2)
               | ((False, None), w2) \<Rightarrow> (Inl e, w2))
     | (Inr None, w1) \<Rightarrow> (Inr None, w1)
     | (Inr (Some u), w1) \<Rightarrow> (Inr (Some u), snd (service_setUserCache V username u w1)))"

definition getUserFromDBAndSetCache ::
  "('r, 'l, 'd) UserService \<Rightarrow> instant option \<Rightarrow> string \<Rightarrow> ('r, 'l, 'd) service_world
    \<Rightarrow> (svc_error + User option) \<times> ('r, 'l, 'd) service_world" where
  "getUserFromDBAndSetCache V deadline username = read_attempts V deadline username strongConsistencyMaxRetries"

text \<open>Running with the mark of a primary read, or of a forced refresh, and without it again.\<close>

definition with_primary ::
  "bool \<Rightarrow> (('r, 'l, 'd) service_world \<Rightarrow> 'a \<times> ('r, 'l, 'd) service_world) \<Rightarrow> ('r, 'l, 'd) service_world \<Rightarrow> 'a \<times> ('r, 'l, 'd) service_world" where
  "with_primary b f w = (case f (w\<lparr>rq_primary := b \<or> rq_primary w\<rparr>) of (x, w1) \<Rightarrow> (x, w1\<lparr>rq_primary := rq_primary w\<rparr>))"

definition with_force ::
  "bool \<Rightarrow> (('r, 'l, 'd) service_world \<Rightarrow> 'a \<times> ('r, 'l, 'd) service_world) \<Rightarrow> ('r, 'l, 'd) service_world \<Rightarrow> 'a \<times> ('r, 'l, 'd) service_world" where
  "with_force b f w = (case f (w\<lparr>rq_force := b \<or> rq_force w\<rparr>) of (x, w1) \<Rightarrow> (x, w1\<lparr>rq_force := rq_force w\<rparr>))"

definition refreshUserCacheFromDB ::
  "('r, 'l, 'd) UserService \<Rightarrow> string \<Rightarrow> ('r, 'l, 'd) service_world \<Rightarrow> (svc_error + User option) \<times> ('r, 'l, 'd) service_world" where
  "refreshUserCacheFromDB V username w =
    (case with_primary True (getUserFromDBAndSetCache V (Some (newDBContext (contactRefreshTimeout V) w)) username) w of
       (Inl e, w1) \<Rightarrow> (Inl e, w1)
     | (Inr None, w1) \<Rightarrow> (Inr None, w1)
     | (Inr (Some u), w1) \<Rightarrow> (Inr (if is_sentinel u then None else Some u), w1))"

section \<open>The cache in front of the table\<close>

definition generateNullRefreshLockKey :: "string \<Rightarrow> string" where
  "generateNullRefreshLockKey username = UserKey username @ '':refresh-lock''"

definition shouldRefreshNullCache ::
  "('r, 'l, 'd) UserService \<Rightarrow> string \<Rightarrow> ('r, 'l, 'd) service_world \<Rightarrow> (bool \<times> string) \<times> ('r, 'l, 'd) service_world" where
  "shouldRefreshNullCache V username w =
    (if pe_redis (sr_env V) = None then ((False, []), w)
     else case svc_SetNX V (generateNullRefreshLockKey username) ''1'' (2 * Second) w of
            (Inl e, w1) \<Rightarrow> ((False, []), w1)
          | (Inr ok, w1) \<Rightarrow> ((ok, generateNullRefreshLockKey username), w1))"

definition releaseNullCacheRefreshLock ::
  "('r, 'l, 'd) UserService \<Rightarrow> string \<Rightarrow> ('r, 'l, 'd) service_world \<Rightarrow> ('r, 'l, 'd) service_world" where
  "releaseNullCacheRefreshLock V lockKey w = (if lockKey = [] then w else snd (svc_DeleteKey V lockKey w))"

definition refreshed_or_null :: "svc_error + User option \<Rightarrow> User option" where
  "refreshed_or_null r = (case r of Inr (Some u) \<Rightarrow> Some u | _ \<Rightarrow> None)"

text \<open>A copy with version 0 is dropped, and its key deleted. The sentinels come after.\<close>

definition cached_answer ::
  "('r, 'l, 'd) UserService \<Rightarrow> string \<Rightarrow> User option \<Rightarrow> ('r, 'l, 'd) service_world
    \<Rightarrow> (svc_error + User option \<times> bool) \<times> ('r, 'l, 'd) service_world" where
  "cached_answer V username cached w =
    (case cached of
       None \<Rightarrow> (Inr (None, True), w)
     | Some u \<Rightarrow>
         (if om_Name u = NegativeCacheSentinel
          then (if rq_force w
                then (case refreshUserCacheFromDB V username w of (r, w1) \<Rightarrow> (Inr (refreshed_or_null r, True), w1))
                else case shouldRefreshNullCache V username w of
                       ((True, lockKey), w1) \<Rightarrow>
                         (case refreshUserCacheFromDB V username w1 of
                            (r, w2) \<Rightarrow> (Inr (refreshed_or_null r, True), releaseNullCacheRefreshLock V lockKey w2))
                     | ((False, lockKey), w1) \<Rightarrow> (Inr (None, True), w1))
          else if om_Name u = BlacklistSentinel
          then (if rq_force w
                then (case refreshUserCacheFromDB V username w of (r, w1) \<Rightarrow> (Inr (refreshed_or_null r, True), w1))
                else (Inr (Some u, True), w))
          else (Inr (Some u, True), w)))"

definition tryGetFromCache ::
  "('r, 'l, 'd) UserService \<Rightarrow> string \<Rightarrow> ('r, 'l, 'd) service_world
    \<Rightarrow> (svc_error + User option \<times> bool) \<times> ('r, 'l, 'd) service_world" where
  "tryGetFromCache V username w =
    (case getFromCache V (UserKey username) w of
       (Inl e, w1) \<Rightarrow> (Inl e, w1)
     | (Inr (cached, hit), w1) \<Rightarrow>
         (if hit \<and> (case cached of Some u \<Rightarrow> om_Version u = 0 | None \<Rightarrow> False)
          then (Inr (None, False), if pe_redis (sr_env V) = None then w1 else snd (svc_DeleteKey V (UserKey username) w1))
          else if hit then cached_answer V username cached w1
          else (Inr (None, False), w1)))"

section \<open>Existence\<close>

text \<open>What the cache decides; \<open>None\<close> leaves it to the table.\<close>

definition cache_verdict :: "bool \<Rightarrow> svc_error + User option \<times> bool \<Rightarrow> User option" where
  "cache_verdict forceRefresh r =
    (case r of
       Inr (Some u, True) \<Rightarrow> (if is_sentinel u \<and> forceRefresh then None else Some u)
     | _ \<Rightarrow> None)"

text \<open>The answer of the table is a pointer behind an interface: no user is no missing result.\<close>

definition existence_from_table ::
  "('r, 'l, 'd) UserService \<Rightarrow> string \<Rightarrow> bool \<Rightarrow> ('r, 'l, 'd) service_world
    \<Rightarrow> (svc_error + User option option) \<times> ('r, 'l, 'd) service_world" where
  "existence_from_table V username forceRefresh =
    RetryWithBackoff sw_sleep (so_MaxRetries (sr_opts V)) isRetryableError
      (\<lambda>w. case with_primary forceRefresh (getUserFromDBAndSetCache V (Some (newDBContext (contactRefreshTimeout V) w)) username) w of
              (Inl e, w1) \<Rightarrow> (Inl e, w1) | (Inr u, w1) \<Rightarrow> (Inr (Some u), w1))"

definition checkUserExist ::
  "('r, 'l, 'd) UserService \<Rightarrow> string \<Rightarrow> bool \<Rightarrow> ('r, 'l, 'd) service_world
    \<Rightarrow> (svc_error + User option) \<times> ('r, 'l, 'd) service_world" where
  "checkUserExist V username forceRefresh w =
    (case batch_get username w of
       (Some e, w1) \<Rightarrow> (Inr (if be_notFound e then None else be_user e), w1)
     | (None, w1) \<Rightarrow>
         (case with_force forceRefresh (tryGetFromCache V username) w1 of
            (cached, w2) \<Rightarrow>
              (case cache_verdict forceRefresh cached of
                 Some u \<Rightarrow> (Inr (Some u), batch_set username (Some u) False w2)
               | None \<Rightarrow>
                   (case (if forceRefresh \<or> isStrongConsistencyRequest w2 then waitWithContext (rq_end w2) (strongConsistencyProbeDelay V) w2 else (True, w2)) of
                      (False, w3) \<Rightarrow> (Inl (Ended DeadlineExceeded), w3)
                    | (True, w3) \<Rightarrow>
                        (case existence_from_table V username forceRefresh w3 of
                           (Inl e, w4) \<Rightarrow> (Inl e, w4)
                         | (Inr None, w4) \<Rightarrow> (Inr None, batch_set username None True w4)
                         | (Inr (Some u), w4) \<Rightarrow> (Inr u, batch_set username u False w4))))))"

section \<open>Get\<close>

definition service_Get ::
  "('r, 'l, 'd) UserService \<Rightarrow> string \<Rightarrow> ('r, 'l, 'd) service_world \<Rightarrow> (svc_error + User option) \<times> ('r, 'l, 'd) service_world" where
  "service_Get V username w0 =
    with_primary (rq_force w0) (\<lambda>w.
      (case isUserBlacklisted V username w of
         (Inr True, w1) \<Rightarrow> (Inr (Some (sentinel_user BlacklistSentinel 0)), w1)
       | (r, w1) \<Rightarrow>
           (case tryGetFromCache V username w1 of
              (Inr (cached, True), w2) \<Rightarrow>
                (case cached of
                   Some u \<Rightarrow>
                     (if \<not> is_sentinel u \<and> rq_force w2
                      then (case refreshUserCacheFromDB V username w2 of
                              (Inl e, w3) \<Rightarrow> (Inr (Some u), w3)
                            | (Inr fresh, w3) \<Rightarrow> (Inr fresh, w3))
                      else (Inr (Some u), w2))
                 | None \<Rightarrow> (Inr None, w2))
            | (r2, w2) \<Rightarrow> getUserFromDBAndSetCache V (rq_end w2) username w2))) w0"

end
