(* ===== verification/UserListing.thy ===== *)
theory UserListing
  imports UserService UserConditions
begin

text \<open>
  Listing users (internal/apiserver/store/user/list_store.go): the paging, the conditions of the options, and the query.
  The database is an argument: what it answers to a text with its values. Ranging over the conditions on
  extended fields follows their sorted keys: such a map is the list of its pairs in that order.
\<close>

section \<open>Options\<close>

record ListOptions =
  lo_Offset :: "int option"
  lo_Limit :: "int option"
  lo_ID :: "int option"
  lo_InstanceID :: string
  lo_Name :: string
  lo_Statuses :: "int list"
  lo_IsAdmin :: "bool option"
  lo_Email :: string
  lo_EmailLike :: string
  lo_Phone :: string
  lo_PhoneLike :: string
  lo_CreatedAtGTE :: "instant option"
  lo_CreatedAtLTE :: "instant option"
  lo_UpdatedAtGT :: "instant option"
  lo_UpdatedAtLT :: "instant option"
  lo_LoginedAtLT :: "instant option"
  lo_Equals :: "(string \<times> string) list"
  lo_Contains :: "(string \<times> string) list"
  lo_In :: "(string \<times> string list) list"

definition no_options :: ListOptions where
  "no_options = \<lparr>lo_Offset = None, lo_Limit = None, lo_ID = None, lo_InstanceID = [], lo_Name = [], lo_Statuses = [], lo_IsAdmin = None,
     lo_Email = [], lo_EmailLike = [], lo_Phone = [], lo_PhoneLike = [], lo_CreatedAtGTE = None, lo_CreatedAtLTE = None,
     lo_UpdatedAtGT = None, lo_UpdatedAtLT = None, lo_LoginedAtLT = None, lo_Equals = [], lo_Contains = [], lo_In = []\<rparr>"

definition DefaultLimit :: int where "DefaultLimit = 100"

definition Unpointer :: "int option \<Rightarrow> int option \<Rightarrow> int \<times> int" where
  "Unpointer offset limit = (case offset of None \<Rightarrow> 0 | Some x \<Rightarrow> x, case limit of None \<Rightarrow> DefaultLimit | Some x \<Rightarrow> x)"

text \<open>The limit of a page: no more than the default one, whatever is asked for.\<close>

definition page_limit :: "int \<Rightarrow> int" where
  "page_limit l = (if l \<le> 0 \<or> DefaultLimit < l then DefaultLimit else l)"

section \<open>Conditions\<close>

fun split_dots :: "string \<Rightarrow> string list" where
  "split_dots [] = [[]]"
| "split_dots (c # s) = (if c = CHR ''.'' then [] # split_dots s
     else (case split_dots s of [] \<Rightarrow> [[c]] | x # xs \<Rightarrow> (c # x) # xs))"

definition key_char :: "char \<Rightarrow> bool" where
  "key_char c \<longleftrightarrow> (let n = (of_char c :: nat) in (65 \<le> n \<and> n \<le> 90) \<or> (97 \<le> n \<and> n \<le> 122) \<or> (48 \<le> n \<and> n \<le> 57) \<or> n = 95)"

definition jsonPathForKey :: "string \<Rightarrow> string option" where
  "jsonPathForKey key =
    (let t = TrimSpace key; segments = split_dots t
     in if t = [] then None
        else if list_all (\<lambda>s. s \<noteq> [] \<and> list_all key_char s) segments then Some (''$.'' @ join_with ''.'' segments) else None)"

definition boolToTinyInt :: "bool \<Rightarrow> int" where "boolToTinyInt v = (if v then 1 else 0)"

type_synonym listing_part = "string \<times> sql_arg list"

definition text_part :: "string \<Rightarrow> string \<Rightarrow> listing_part list" where
  "text_part condition v = (let t = TrimSpace v in if t = [] then [] else [(condition, [ArgText t])])"

definition contact_part :: "(string \<Rightarrow> string) \<Rightarrow> string \<Rightarrow> string \<Rightarrow> listing_part list" where
  "contact_part fold_key condition v =
    (let t = TrimSpace v in if t = [] \<or> fold_key t = [] then [] else [(condition, [ArgText (fold_key t)])])"

definition time_part :: "string \<Rightarrow> instant option \<Rightarrow> listing_part list" where
  "time_part condition t = (case t of None \<Rightarrow> [] | Some x \<Rightarrow> [(condition, [ArgTime x])])"

definition path_part :: "(string \<Rightarrow> string) \<Rightarrow> (string \<times> string) \<Rightarrow> listing_part list" where
  "path_part condition kv = (case jsonPathForKey (fst kv) of None \<Rightarrow> [] | Some path \<Rightarrow> [(condition path, [ArgText (TrimSpace (snd kv))])])"

definition quoted :: "string \<Rightarrow> string" where "quoted s = [CHR 0x27] @ s @ [CHR 0x27]"

definition in_part :: "(string \<times> string list) \<Rightarrow> listing_part list" where
  "in_part kv =
    (case jsonPathForKey (fst kv) of
       None \<Rightarrow> []
     | Some path \<Rightarrow>
         (if snd kv = [] then []
          else [(''JSON_UNQUOTE(JSON_EXTRACT(extendShadow, '' @ quoted path @ '')) IN ('' @ join_with '','' (map (\<lambda>v. ''?'') (snd kv)) @ '')'',
                 map (\<lambda>v. ArgText (TrimSpace v)) (snd kv))]))"

definition listing_parts :: "ListOptions \<Rightarrow> listing_part list" where
  "listing_parts opts =
      (if lo_Statuses opts = [] then [(''status = ?'', [ArgInt 1])]
       else [(''status IN ('' @ join_with '','' (map (\<lambda>v. ''?'') (lo_Statuses opts)) @ '')'', map ArgInt (lo_Statuses opts))])
    @ (case lo_IsAdmin opts of None \<Rightarrow> [] | Some b \<Rightarrow> [(''isAdmin = ?'', [ArgInt (boolToTinyInt b)])])
    @ (case lo_ID opts of None \<Rightarrow> [] | Some i \<Rightarrow> [(''id = ?'', [ArgInt i])])
    @ text_part ''instanceID = ?'' (lo_InstanceID opts) @ text_part ''name = ?'' (lo_Name opts)
    @ contact_part NormalizeEmail ''email = ?'' (lo_Email opts) @ text_part ''email LIKE ?'' (lo_EmailLike opts)
    @ contact_part NormalizePhone ''phone = ?'' (lo_Phone opts) @ text_part ''phone LIKE ?'' (lo_PhoneLike opts)
    @ time_part ''createdAt >= ?'' (lo_CreatedAtGTE opts) @ time_part ''createdAt <= ?'' (lo_CreatedAtLTE opts)
    @ time_part ''updatedAt > ?'' (lo_UpdatedAtGT opts) @ time_part ''updatedAt < ?'' (lo_UpdatedAtLT opts)
    @ time_part ''loginedAt < ?'' (lo_LoginedAtLT opts)
    @ concat (map (path_part (\<lambda>path. ''JSON_UNQUOTE(JSON_EXTRACT(extendShadow, '' @ quoted path @ '')) = ?'')) (lo_Equals opts))
    @ concat (map (path_part (\<lambda>path. ''JSON_CONTAINS(extendShadow, JSON_QUOTE(?), '' @ quoted path @ '')'')) (lo_Contains opts))
    @ concat (map in_part (lo_In opts))"

definition buildUserListFilters :: "ListOptions \<Rightarrow> string \<times> sql_arg list \<times> nat \<times> bool" where
  "buildUserListFilters opts =
    (let parts = listing_parts opts
     in (if parts = [] then [] else '' WHERE '' @ join_with '' AND '' (map fst parts), concat (map snd parts), length parts, lo_Statuses opts = []))"

section \<open>The query\<close>

text \<open>What the database answers to a query with its values: an error, or the rows as users.\<close>

type_synonym 'd database = "string \<Rightarrow> sql_arg list \<Rightarrow> 'd \<Rightarrow> (string + User list) \<times> 'd"

definition code_ErrDatabase :: int where "code_ErrDatabase = 100101"

definition list_query :: "string \<Rightarrow> string" where
  "list_query whereClause = ''SELECT id, instanceID, name, nickname, email, phone, status, isAdmin, createdAt, updatedAt, loginedAt, version FROM ''
     @ [CHR 0x60] @ ''user'' @ [CHR 0x60] @ whereClause @ '' ORDER BY id DESC LIMIT ? OFFSET ?''"

text \<open>The texts of the errors are the database's.\<close>

definition users_List :: "'d database \<Rightarrow> ListOptions \<Rightarrow> 'd \<Rightarrow> (svc_error + User option list) \<times> 'd" where
  "users_List run opts d =
    (let (offset, limit) = Unpointer (lo_Offset opts) (lo_Limit opts);
         (whereClause, args, n, defaultStatus) = buildUserListFilters opts
     in case run (list_query whereClause) (args @ [ArgInt (page_limit limit), ArgInt offset]) d of
          (Inl msg, d1) \<Rightarrow> (Inl (Coded code_ErrDatabase msg), d1)
        | (Inr us, d1) \<Rightarrow> (Inr (map Some us), d1))"

text \<open>A page as the copying of the contacts asks for it.\<close>

definition users_page :: "'d database \<Rightarrow> int \<Rightarrow> int \<Rightarrow> 'd \<Rightarrow> (svc_error + User option list) \<times> 'd" where
  "users_page run offset limit = users_List run (no_options\<lparr>lo_Offset := Some offset, lo_Limit := Some limit\<rparr>)"

lemma default_filters: "buildUserListFilters (no_options\<lparr>lo_Offset := o', lo_Limit := l\<rparr>) = ('' WHERE status = ?'', [ArgInt 1], 1, True)"
proof -
  have "TrimSpace [] = []" by simp
  then show ?thesis
    by (simp add: buildUserListFilters_def listing_parts_def no_options_def text_part_def contact_part_def time_part_def Let_def)
qed

lemma users_page_eq:
  "users_page run offset limit d =
    (case run (list_query '' WHERE status = ?'') [ArgInt 1, ArgInt (page_limit limit), ArgInt offset] d of
       (Inl msg, d1) \<Rightarrow> (Inl (Coded code_ErrDatabase msg), d1) | (Inr us, d1) \<Rightarrow> (Inr (map Some us), d1))"
  by (simp add: users_page_def users_List_def default_filters Unpointer_def Let_def)

end
