(* ===== verification/ServiceContacts.thy ===== *)
theory ServiceContacts
  imports UserListing
begin

text \<open>
  The user service, second part (user_service.go): mail addresses and phone numbers belong to one user. The
  service's own cache while Redis is given up, the placeholders in Redis, the check before a user is written,
  and the copying of the stored users into the cache. A mail address and a phone number are checked at the
  same time; here one after the other, in either order. A background copying is a step of its own.

  The service's own cache is a concurrent map beside an atomic counter, without a lock around both: each function
  on it is here one call that nobody disturbs (claiming an entry, clearing the cache, looking up and then claiming). What happens between two
  commands of such a call is the step function at the end, for the claiming of an entry; a clearing that is disturbed is not represented. The checks on
  Redis have their step function too.
\<close>

section \<open>Constants\<close>

definition contactPlaceholderTTL :: duration where "contactPlaceholderTTL = 30 * Second"
definition contactCacheTTL :: duration where "contactCacheTTL = 24 * Hour"
definition contactWarmupTimeout :: duration where "contactWarmupTimeout = 2 * Minute"
definition contactWarmupBatchSize :: int where "contactWarmupBatchSize = 1000"
definition contactWarmupRetryDelay :: duration where "contactWarmupRetryDelay = 30 * Second"
definition contactDegradeCacheDefaultMaxEntries :: int where "contactDegradeCacheDefaultMaxEntries = 5000"
definition redisDegradeReasonCache :: string where "redisDegradeReasonCache = ''redis_cache_error''"
definition redisDegradeReasonPlaceholder :: string where "redisDegradeReasonPlaceholder = ''redis_placeholder_error''"

definition contactRedisDegradeTTL :: "('r, 'l, 'd) UserService \<Rightarrow> duration" where
  "contactRedisDegradeTTL V = positive_or (20 * Second) (so_DegradeCacheTTL (sr_opts V))"

definition contactRedisDegradeCacheLimit :: "('r, 'l, 'd) UserService \<Rightarrow> int" where
  "contactRedisDegradeCacheLimit V = positive_or contactDegradeCacheDefaultMaxEntries (so_DegradeCacheMaxEntries (sr_opts V))"

section \<open>The cache without Redis\<close>

definition decrementContactDegradeCacheSize :: "('r, 'l, 'd) service_world \<Rightarrow> ('r, 'l, 'd) service_world" where
  "decrementContactDegradeCacheSize w = (if sw_contacts_size w \<le> 0 then w else w\<lparr>sw_contacts_size := sw_contacts_size w - 1\<rparr>)"

definition contactDegradeCacheDelete ::
  "string \<Rightarrow> ('r, 'l, 'd) service_world \<Rightarrow> bool \<times> ('r, 'l, 'd) service_world" where
  "contactDegradeCacheDelete key w =
    (case map_of (sw_contacts w) key of
       None \<Rightarrow> (False, w)
     | Some e \<Rightarrow> (True, decrementContactDegradeCacheSize (w\<lparr>sw_contacts := AList.delete key (sw_contacts w)\<rparr>)))"

definition contact_expired :: "('r, 'l, 'd) service_world \<Rightarrow> contactDegradeCacheEntry \<Rightarrow> bool" where
  "contact_expired w e \<longleftrightarrow> 0 < de_expires e \<and> de_expires e < UnixNano (sw_clock w)"

definition contactDegradeCacheGet ::
  "string \<Rightarrow> ('r, 'l, 'd) service_world \<Rightarrow> string option \<times> ('r, 'l, 'd) service_world" where
  "contactDegradeCacheGet key w =
    (if TrimSpace key = [] then (None, w)
     else case map_of (sw_contacts w) key of
            None \<Rightarrow> (None, w)
          | Some e \<Rightarrow> (if contact_expired w e then (None, snd (contactDegradeCacheDelete key w)) else (Some (de_owner e), w)))"

definition cleanupContactDegradeCache :: "('r, 'l, 'd) service_world \<Rightarrow> ('r, 'l, 'd) service_world" where
  "cleanupContactDegradeCache w =
    fold (\<lambda>(k, e) w. if contact_expired w e then snd (contactDegradeCacheDelete k w) else w) (sw_contacts w) w"

definition clearContactDegradeCache :: "('r, 'l, 'd) service_world \<Rightarrow> ('r, 'l, 'd) service_world" where
  "clearContactDegradeCache w =
    (fold (\<lambda>(k, e) w. snd (contactDegradeCacheDelete k w)) (sw_contacts w) w)\<lparr>sw_contacts_size := 0\<rparr>"

text \<open>Any entry may have to go: the map is walked in no particular order.\<close>

definition evict_contact :: "('r, 'l, 'd) UserService \<Rightarrow> ('r, 'l, 'd) service_world \<Rightarrow> ('r, 'l, 'd) service_world" where
  "evict_contact V w =
    (if sw_contacts w = [] then w
     else snd (contactDegradeCacheDelete
       (fst (sw_contacts w ! (nat (sr_rand V (int (length (sw_contacts w)))) mod length (sw_contacts w)))) w))"

definition ensureContactDegradeCacheCapacity ::
  "('r, 'l, 'd) UserService \<Rightarrow> ('r, 'l, 'd) service_world \<Rightarrow> bool \<times> ('r, 'l, 'd) service_world" where
  "ensureContactDegradeCacheCapacity V w =
    (let limit = contactRedisDegradeCacheLimit V
     in if limit \<le> 0 \<or> sw_contacts_size w < limit then (True, w)
        else let w1 = cleanupContactDegradeCache w
             in if sw_contacts_size w1 < limit then (True, w1)
                else let w2 = evict_contact V w1 in (sw_contacts_size w2 < limit, w2))"

definition contactDegradeCacheSet ::
  "('r, 'l, 'd) UserService \<Rightarrow> string \<Rightarrow> string \<Rightarrow> ('r, 'l, 'd) service_world \<Rightarrow> ('r, 'l, 'd) service_world" where
  "contactDegradeCacheSet V key owner w =
    (if TrimSpace key = [] \<or> contactRedisDegradeTTL V \<le> 0 then w
     else let put = (\<lambda>w. w\<lparr>sw_contacts := AList.update key
                \<lparr>de_owner = owner, de_expires = UnixNano (time_Add (sw_clock w) (contactRedisDegradeTTL V))\<rparr> (sw_contacts w)\<rparr>);
              (existed, w1) = (case map_of (sw_contacts w) key of
                  None \<Rightarrow> (False, w)
                | Some e \<Rightarrow> (if contact_expired w e then (False, snd (contactDegradeCacheDelete key w)) else (True, w)))
          in if existed then put w1
             else case ensureContactDegradeCacheCapacity V w1 of
                    (False, w2) \<Rightarrow> w2
                  | (True, w2) \<Rightarrow> (put w2)\<lparr>sw_contacts_size := sw_contacts_size w2 + 1\<rparr>)"

section \<open>Giving up Redis and coming back\<close>

definition enableRedisDegrade :: "('r, 'l, 'd) service_world \<Rightarrow> ('r, 'l, 'd) service_world" where
  "enableRedisDegrade w = (if sw_degraded w then w else w\<lparr>sw_degraded := True, sw_since := Unix (sw_clock w)\<rparr>)"

definition disableRedisDegrade :: "('r, 'l, 'd) service_world \<Rightarrow> ('r, 'l, 'd) service_world" where
  "disableRedisDegrade w = (if \<not> sw_degraded w then w else clearContactDegradeCache (w\<lparr>sw_degraded := False, sw_since := 0\<rparr>))"

definition checkRedisHealthy ::
  "('r, 'l, 'd) UserService \<Rightarrow> ('r, 'l, 'd) service_world \<Rightarrow> bool \<times> ('r, 'l, 'd) service_world" where
  "checkRedisHealthy V w =
    (if pe_redis (sr_env V) = None then (False, w)
     else case svc_GetKey V ''__contact_health_ping__'' w of (Inl e, w1) \<Rightarrow> (False, w1) | (Inr v, w1) \<Rightarrow> (True, w1))"

text \<open>One tick of the monitor.\<close>

definition degrade_monitor_tick :: "('r, 'l, 'd) UserService \<Rightarrow> ('r, 'l, 'd) service_world \<Rightarrow> ('r, 'l, 'd) service_world" where
  "degrade_monitor_tick V w =
    (if sw_degraded w
     then (case checkRedisHealthy V w of (healthy, w1) \<Rightarrow> if healthy then disableRedisDegrade w1 else cleanupContactDegradeCache w1)
     else cleanupContactDegradeCache w)"

text \<open>The state of a creation is kept in the request; a request may have none.\<close>

definition MarkCreateDegraded :: "('r, 'l, 'd) service_world \<Rightarrow> bool \<times> ('r, 'l, 'd) service_world" where
  "MarkCreateDegraded w = (case rq_state w of Some False \<Rightarrow> (True, w\<lparr>rq_state := Some True\<rparr>) | _ \<Rightarrow> (False, w))"

definition IsCreateDegraded :: "('r, 'l, 'd) service_world \<Rightarrow> bool" where "IsCreateDegraded w \<longleftrightarrow> rq_state w = Some True"

definition markCreateDegraded :: "string \<Rightarrow> ('r, 'l, 'd) service_world \<Rightarrow> ('r, 'l, 'd) service_world" where
  "markCreateDegraded reason w =
    (let w1 = snd (MarkCreateDegraded w)
     in if reason = redisDegradeReasonCache \<or> reason = redisDegradeReasonPlaceholder then enableRedisDegrade w1 else w1)"

section \<open>Placeholders\<close>

definition ensureContactPlaceholder ::
  "('r, 'l, 'd) UserService \<Rightarrow> string \<Rightarrow> string \<Rightarrow> ('r, 'l, 'd) service_world \<Rightarrow> ('r, 'l, 'd) service_world" where
  "ensureContactPlaceholder V cacheKey owner w =
    (if pe_redis (sr_env V) = None \<or> cacheKey = [] then w
     else let placeholder = (if TrimSpace owner = [] then NegativeCacheSentinel else owner)
          in case svc_SetNX V cacheKey placeholder contactPlaceholderTTL w of
               (Inl e, w1) \<Rightarrow> w1
             | (Inr True, w1) \<Rightarrow> w1
             | (Inr False, w1) \<Rightarrow>
                 (case svc_GetKey V cacheKey w1 of
                    (Inr (Some existing), w2) \<Rightarrow>
                      (if EqualFold existing placeholder \<or> existing = [] \<or> existing = NegativeCacheSentinel
                       then snd (svc_SetKey V cacheKey placeholder contactPlaceholderTTL w2) else w2)
                  | (r, w2) \<Rightarrow> w2))"

definition ensureDegradedContactPlaceholders ::
  "('r, 'l, 'd) UserService \<Rightarrow> string \<Rightarrow> string \<Rightarrow> string \<Rightarrow> ('r, 'l, 'd) service_world \<Rightarrow> ('r, 'l, 'd) service_world" where
  "ensureDegradedContactPlaceholders V username email phone w =
    (let w1 = (if email = [] then w else ensureContactPlaceholder V (EmailKey email) username w)
     in if phone = [] then w1 else ensureContactPlaceholder V (PhoneKey phone) username w1)"

section \<open>One contact\<close>

definition taken_error :: "string \<Rightarrow> string \<Rightarrow> svc_error" where
  "taken_error label v = Coded code_ErrValidation (label @ svc_taken @ v)"

definition redis_Nil :: svc_error where "redis_Nil = Library False ''redis: nil''"

text \<open>The storage client as the generic check sees it.\<close>

definition service_client :: "('r, 'l, 'd) UserService \<Rightarrow> (('r, 'l, 'd) service_world, svc_error) CacheClient" where
  "service_client V = \<lparr>
     cl_GetKey = (\<lambda>k w. case svc_GetKey V k w of (Inl e, w1) \<Rightarrow> (Inl (Pending e), w1)
        | (Inr None, w1) \<Rightarrow> (Inl redis_Nil, w1) | (Inr (Some v), w1) \<Rightarrow> (Inr v, w1)),
     cl_SetKey = (\<lambda>k v ttl w. case svc_SetKey V k v ttl w of (e, w1) \<Rightarrow> (map_option Pending e, w1)),
     cl_SetNX = (\<lambda>k v ttl w. case svc_SetNX V k v ttl w of (Inl e, w1) \<Rightarrow> (Inl (Pending e), w1) | (Inr b, w1) \<Rightarrow> (Inr b, w1)),
     cl_DeleteKey = (\<lambda>k w. case svc_DeleteKey V k w of (Some e, w1) \<Rightarrow> (Inl (Pending e), w1) | (None, w1) \<Rightarrow> (Inr True, w1))\<rparr>"

text \<open>The end of the request, and the deadline of a look-up.\<close>

definition request_error :: "('r, 'l, 'd) service_world \<Rightarrow> ctx_error option" where
  "request_error w = (if rq_canceled w then Some Canceled
     else case rq_end w of Some e \<Rightarrow> (if e \<le> sw_clock w then Some DeadlineExceeded else None) | None \<Rightarrow> None)"

type_synonym ('r, 'l, 'd) contact_lookup =
  "instant \<Rightarrow> string \<Rightarrow> ('r, 'l, 'd) service_world \<Rightarrow> (svc_error + User option) \<times> ('r, 'l, 'd) service_world"

definition entity_name :: "User option \<Rightarrow> string" where
  "entity_name u = (case u of None \<Rightarrow> [] | Some x \<Rightarrow> om_Name x)"

definition ensureContactUniqueDegraded ::
  "('r, 'l, 'd) UserService \<Rightarrow> string \<Rightarrow> string \<Rightarrow> string \<Rightarrow> string \<Rightarrow> ('r, 'l, 'd) contact_lookup
    \<Rightarrow> ('r, 'l, 'd) service_world \<Rightarrow> svc_error option \<times> ('r, 'l, 'd) service_world" where
  "ensureContactUniqueDegraded V cacheKey allowedOwner label v lookup w =
    (case contactDegradeCacheGet cacheKey w of
       (Some owner, w1) \<Rightarrow> (if owner \<noteq> [] \<and> \<not> EqualFold owner allowedOwner then Some (taken_error label v) else None, w1)
     | (None, w1) \<Rightarrow>
         (case lookup (newDBContext (contactLookupTimeout V) w1) v w1 of
            (Inl e, w2) \<Rightarrow>
              (if IsCode e code_ErrUserNotFound then (None, contactDegradeCacheSet V cacheKey allowedOwner w2) else (Some e, w2))
          | (Inr u, w2) \<Rightarrow>
              (let existing = TrimSpace (entity_name u)
               in if existing = [] then (None, contactDegradeCacheSet V cacheKey allowedOwner w2)
                  else (if EqualFold existing allowedOwner then None else Some (taken_error label v),
                        contactDegradeCacheSet V cacheKey existing w2))))"

definition contact_checker ::
  "('r, 'l, 'd) UserService \<Rightarrow> (('r, 'l, 'd) service_world, svc_error, User option) CheckerConfig" where
  "contact_checker V = \<lparr>ck_Cache = Some (service_client V), ck_TimeoutCache = None, ck_PlaceholderTTL = contactPlaceholderTTL,
     ck_CacheTTL = contactCacheTTL, ck_PlaceholderFallback = NegativeCacheSentinel, ck_CacheReady = Some sw_ready,
     ck_DegradeActive = Some IsCreateDegraded, ck_EnsurePlaceholder = Some (ensureContactPlaceholder V),
     ck_MarkDegraded = Some markCreateDegraded,
     ck_Retry = Some (\<lambda>n p f. RetryWithBackoff sw_sleep n (\<lambda>e. holds_of p e) f), ck_RetryPredicate = Some isRetryableError,
     ck_MaxRetries = positive_or 1 (so_MaxRetries (sr_opts V)), ck_ShouldDegrade = Some shouldDegradeForError,
     ck_ShouldReleasePlaceholder = Some (\<lambda>e. \<not> IsCode e code_ErrValidation), ck_CommandTimeout = 0,
     ck_CommandLatencyDegradeThreshold = 0, ck_CommandLatencyDegradeReason = [],
     ck_IsNotFound = Some (\<lambda>e. IsCode e code_ErrUserNotFound), ck_IsCacheMiss = Some (\<lambda>e. e = redis_Nil),
     ck_now = sw_clock, ck_errorf = Library False, ck_zero = None\<rparr>"

definition contact_field ::
  "('r, 'l, 'd) UserService \<Rightarrow> string \<Rightarrow> string \<Rightarrow> string \<Rightarrow> string \<Rightarrow> string \<Rightarrow> ('r, 'l, 'd) contact_lookup
    \<Rightarrow> (('r, 'l, 'd) service_world, svc_error, User option) FieldConfig" where
  "contact_field V cacheKey allowedOwner label v key lookup = \<lparr>fc_FieldLabel = label, fc_FieldKey = key, fc_FieldValue = v,
     fc_AllowedOwner = allowedOwner, fc_CacheKey = cacheKey, fc_PlaceholderValue = allowedOwner,
     fc_Lookup = Some (\<lambda>v w. lookup (newDBContext (contactLookupTimeout V) w) v w), fc_ExtractOwner = Some entity_name,
     fc_ConflictError = Some taken_error, fc_IsAllowedOwner = Some EqualFold,
     fc_SkipPlaceholderLookup = Some (\<lambda>owner. owner \<noteq> [] \<and> \<not> EqualFold owner NegativeCacheSentinel),
     fc_DegradeReason = ''contact_lookup_timeout''\<rparr>"

definition ensureContactUnique ::
  "('r, 'l, 'd) UserService \<Rightarrow> string \<Rightarrow> string \<Rightarrow> string \<Rightarrow> string \<Rightarrow> string \<Rightarrow> ('r, 'l, 'd) contact_lookup
    \<Rightarrow> ('r, 'l, 'd) service_world \<Rightarrow> svc_error option \<times> ('r, 'l, 'd) service_world" where
  "ensureContactUnique V cacheKey allowedOwner label v key lookup w =
    (if TrimSpace cacheKey = [] then (None, w)
     else if sw_degraded w then ensureContactUniqueDegraded V cacheKey allowedOwner label v lookup w
     else EnsureFieldUnique (Some (NewChecker (contact_checker V))) (contact_field V cacheKey allowedOwner label v key lookup) w)"

section \<open>The checks, one command at a time\<close>

definition contact_start ::
  "('r, 'l, 'd) UserService \<Rightarrow> string \<Rightarrow> string \<Rightarrow> string \<Rightarrow> string \<Rightarrow> string \<Rightarrow> ('r, 'l, 'd) contact_lookup
    \<Rightarrow> ('r, 'l, 'd) service_world \<Rightarrow> svc_error check_phase \<times> ('r, 'l, 'd) service_world" where
  "contact_start V cacheKey allowedOwner label v key lookup w =
    (if TrimSpace cacheKey = [] then (Decided None, w)
     else if sw_degraded w then (case ensureContactUniqueDegraded V cacheKey allowedOwner label v lookup w of (r, w1) \<Rightarrow> (Decided r, w1))
     else check_start (NewChecker (contact_checker V)) (contact_field V cacheKey allowedOwner label v key lookup) w)"

text \<open>Several requests check one contact, each in its own process or in the same one: what they share is the data of Redis, the table and the
  clock. A request has its own state, and its phase once it has started.\<close>

record ('r, 'l, 'd) contact_request =
  cr_world :: "('r, 'l, 'd) service_world"
  cr_owner :: string
  cr_label :: string
  cr_value :: string
  cr_field :: string
  cr_lookup :: "('r, 'l, 'd) contact_lookup"
  cr_phase :: "svc_error check_phase option"

record ('r, 'd) contact_shared =
  ch_redis :: 'r
  ch_db :: 'd
  ch_clock :: instant

definition joined :: "('r, 'd) contact_shared \<Rightarrow> ('r, 'l, 'd) service_world \<Rightarrow> ('r, 'l, 'd) service_world" where
  "joined sh w = w\<lparr>sw_pending := (sw_pending w)\<lparr>pd_redis := ch_redis sh\<rparr>, sw_db := ch_db sh, sw_clock := ch_clock sh\<rparr>"

definition shared_of :: "('r, 'l, 'd) service_world \<Rightarrow> ('r, 'd) contact_shared" where
  "shared_of w = \<lparr>ch_redis = pd_redis (sw_pending w), ch_db = sw_db w, ch_clock = sw_clock w\<rparr>"

definition request_command ::
  "('r, 'l, 'd) UserService \<Rightarrow> string \<Rightarrow> ('r, 'l, 'd) contact_request \<Rightarrow> ('r, 'l, 'd) service_world
    \<Rightarrow> svc_error check_phase \<times> ('r, 'l, 'd) service_world" where
  "request_command V key q w =
    (case cr_phase q of
       None \<Rightarrow> contact_start V key (cr_owner q) (cr_label q) (cr_value q) (cr_field q) (cr_lookup q) w
     | Some p \<Rightarrow> check_step (NewChecker (contact_checker V))
                   (contact_field V key (cr_owner q) (cr_label q) (cr_value q) (cr_field q) (cr_lookup q)) (service_client V) p w)"

text \<open>Whose turn it is: a request takes its next command, time passes, or others change the data of Redis and of the table.\<close>

datatype ('r, 'd) contact_turn = Takes nat | Elapses nat | Others "'r \<Rightarrow> 'r" "'d \<Rightarrow> 'd"

fun contact_turn_step ::
  "('r, 'l, 'd) UserService \<Rightarrow> string \<Rightarrow> ('r, 'd) contact_turn \<Rightarrow> ('r, 'd) contact_shared \<times> ('r, 'l, 'd) contact_request list
    \<Rightarrow> ('r, 'd) contact_shared \<times> ('r, 'l, 'd) contact_request list" where
  "contact_turn_step V key (Takes i) (sh, rs) =
    (if i < length rs
     then (case request_command V key (rs ! i) (joined sh (cr_world (rs ! i))) of
             (p, w) \<Rightarrow> (shared_of w, rs[i := (rs ! i)\<lparr>cr_world := w, cr_phase := Some p\<rparr>]))
     else (sh, rs))"
| "contact_turn_step V key (Elapses n) (sh, rs) = (sh\<lparr>ch_clock := ch_clock sh + int n\<rparr>, rs)"
| "contact_turn_step V key (Others f g) (sh, rs) = (sh\<lparr>ch_redis := f (ch_redis sh), ch_db := g (ch_db sh)\<rparr>, rs)"

text \<open>The check without Redis: the look-up in the service's own cache, the table, and the four steps of claiming an entry. The time is read once, before
  the entry is loaded.\<close>

datatype degrade_phase =
    AskCache
  | AskUsers
  | LoadEntry string "svc_error option"
  | MakeRoom string "svc_error option" instant
  | StoreEntry string "svc_error option" instant bool
  | CountEntry "svc_error option"
  | Answered "svc_error option"

fun degrade_step ::
  "('r, 'l, 'd) UserService \<Rightarrow> string \<Rightarrow> string \<Rightarrow> string \<Rightarrow> string \<Rightarrow> ('r, 'l, 'd) contact_lookup \<Rightarrow> degrade_phase
    \<Rightarrow> ('r, 'l, 'd) service_world \<Rightarrow> degrade_phase \<times> ('r, 'l, 'd) service_world" where
  "degrade_step V key user label v lookup AskCache w =
    (case contactDegradeCacheGet key w of
       (Some owner, w1) \<Rightarrow> (Answered (if owner \<noteq> [] \<and> \<not> EqualFold owner user then Some (taken_error label v) else None), w1)
     | (None, w1) \<Rightarrow> (AskUsers, w1))"
| "degrade_step V key user label v lookup AskUsers w =
    (case lookup (newDBContext (contactLookupTimeout V) w) v w of
       (Inl e, w1) \<Rightarrow> (if IsCode e code_ErrUserNotFound then LoadEntry user None else Answered (Some e), w1)
     | (Inr u, w1) \<Rightarrow>
         (let existing = TrimSpace (entity_name u)
          in if existing = [] then (LoadEntry user None, w1)
             else (LoadEntry existing (if EqualFold existing user then None else Some (taken_error label v)), w1)))"
| "degrade_step V key user label v lookup (LoadEntry owner r) w =
    (if TrimSpace key = [] \<or> contactRedisDegradeTTL V \<le> 0 then (Answered r, w)
     else case map_of (sw_contacts w) key of
            None \<Rightarrow> (MakeRoom owner r (sw_clock w), w)
          | Some e \<Rightarrow> (if contact_expired w e then (MakeRoom owner r (sw_clock w), snd (contactDegradeCacheDelete key w))
                      else (StoreEntry owner r (sw_clock w) True, w)))"
| "degrade_step V key user label v lookup (MakeRoom owner r now) w =
    (case ensureContactDegradeCacheCapacity V w of
       (False, w1) \<Rightarrow> (Answered r, w1)
     | (True, w1) \<Rightarrow> (StoreEntry owner r now False, w1))"
| "degrade_step V key user label v lookup (StoreEntry owner r now existed) w =
    (if existed then Answered r else CountEntry r,
     w\<lparr>sw_contacts := AList.update key
         \<lparr>de_owner = owner, de_expires = UnixNano (time_Add now (contactRedisDegradeTTL V))\<rparr> (sw_contacts w)\<rparr>)"
| "degrade_step V key user label v lookup (CountEntry r) w = (Answered r, w\<lparr>sw_contacts_size := sw_contacts_size w + 1\<rparr>)"
| "degrade_step V key user label v lookup (Answered r) w = (Answered r, w)"

text \<open>Several requests in one process; the list says whose turn it is.\<close>

record ('r, 'l, 'd) degraded_request =
  dg_user :: string
  dg_label :: string
  dg_value :: string
  dg_lookup :: "('r, 'l, 'd) contact_lookup"
  dg_phase :: degrade_phase

fun degraded_run ::
  "('r, 'l, 'd) UserService \<Rightarrow> string \<Rightarrow> nat list \<Rightarrow> ('r, 'l, 'd) degraded_request list \<times> ('r, 'l, 'd) service_world
    \<Rightarrow> ('r, 'l, 'd) degraded_request list \<times> ('r, 'l, 'd) service_world" where
  "degraded_run V key [] st = st"
| "degraded_run V key (i # turns) (rs, w) =
    (if i < length rs
     then (case degrade_step V key (dg_user (rs ! i)) (dg_label (rs ! i)) (dg_value (rs ! i)) (dg_lookup (rs ! i)) (dg_phase (rs ! i)) w of
             (p, w1) \<Rightarrow> degraded_run V key turns (rs[i := (rs ! i)\<lparr>dg_phase := p\<rparr>], w1))
     else degraded_run V key turns (rs, w))"

section \<open>Copying the stored users\<close>

definition warm_key ::
  "('r, 'l, 'd) UserService \<Rightarrow> string \<Rightarrow> string \<Rightarrow> ('r, 'l, 'd) service_world
    \<Rightarrow> svc_error option \<times> ('r, 'l, 'd) service_world" where
  "warm_key V key name w =
    (if key = [] then (None, w)
     else case svc_SetKey V key name contactCacheTTL w of
            (e, w1) \<Rightarrow> (if e = None then None else map_option Ended (request_error w1), w1))"

fun warm_entries ::
  "('r, 'l, 'd) UserService \<Rightarrow> User option list \<Rightarrow> ('r, 'l, 'd) service_world
    \<Rightarrow> svc_error option \<times> ('r, 'l, 'd) service_world" where
  "warm_entries V [] w = (None, w)"
| "warm_entries V (None # us) w = warm_entries V us w"
| "warm_entries V (Some u # us) w =
    (case warm_key V (EmailKey (NormalizeEmail (us_Email u))) (om_Name u) w of
       (Some e, w1) \<Rightarrow> (Some e, w1)
     | (None, w1) \<Rightarrow>
         (case warm_key V (PhoneKey (NormalizePhone (us_Phone u))) (om_Name u) w1 of
            (Some e, w2) \<Rightarrow> (Some e, w2)
          | (None, w2) \<Rightarrow> warm_entries V us w2))"

definition list_page ::
  "('r, 'l, 'd) UserService \<Rightarrow> int \<Rightarrow> ('r, 'l, 'd) service_world
    \<Rightarrow> (svc_error + User option list option) \<times> ('r, 'l, 'd) service_world" where
  "list_page V offset =
    RetryWithBackoff sw_sleep 3 isRetryableError
      (\<lambda>w. case sw_table (st_List (sr_store V) offset contactWarmupBatchSize) w of
              (Inl e, w1) \<Rightarrow> (Inl e, w1) | (Inr us, w1) \<Rightarrow> (Inr (Some us), w1))"

text \<open>Page by page, until a page is not full. The fuel bounds the number of pages; \<open>None\<close> is a run that is not over.\<close>

fun warm_pages ::
  "('r, 'l, 'd) UserService \<Rightarrow> nat \<Rightarrow> int \<Rightarrow> ('r, 'l, 'd) service_world
    \<Rightarrow> svc_error option option \<times> ('r, 'l, 'd) service_world" where
  "warm_pages V 0 offset w = (None, w)"
| "warm_pages V (Suc n) offset w =
    (case request_error w of
       Some e \<Rightarrow> (Some (Some (Ended e)), w)
     | None \<Rightarrow>
         (case list_page V offset w of
            (Inl e, w1) \<Rightarrow> (Some (Some e), w1)
          | (Inr None, w1) \<Rightarrow> (Some None, w1)
          | (Inr (Some us), w1) \<Rightarrow>
              (if us = [] then (Some None, w1)
               else case warm_entries V us w1 of
                      (Some e, w2) \<Rightarrow> (Some (Some e), w2)
                    | (None, w2) \<Rightarrow>
                        (if int (length us) < contactWarmupBatchSize then (Some None, w2)
                         else warm_pages V n (offset + int (length us)) w2))))"

text \<open>A copying without a deadline gets two minutes.\<close>

definition warmContactCache ::
  "('r, 'l, 'd) UserService \<Rightarrow> nat \<Rightarrow> ('r, 'l, 'd) service_world
    \<Rightarrow> svc_error option option \<times> ('r, 'l, 'd) service_world" where
  "warmContactCache V n w =
    (case warm_pages V n 0 (if rq_end w = None then w\<lparr>rq_end := Some (sw_clock w + contactWarmupTimeout)\<rparr> else w) of
       (r, w1) \<Rightarrow> (r, w1\<lparr>rq_end := rq_end w\<rparr>))"

fun is_canceled :: "svc_error \<Rightarrow> bool" where
  "is_canceled (Ended e) = (e = Canceled)"
| "is_canceled (Wrapped m e) = is_canceled e"
| "is_canceled e = False"

definition completeContactWarmup :: "svc_error option \<Rightarrow> ('r, 'l, 'd) service_world \<Rightarrow> ('r, 'l, 'd) service_world" where
  "completeContactWarmup err w =
    (let w1 = w\<lparr>sw_warming := False\<rparr>
     in case err of
          None \<Rightarrow> w1\<lparr>sw_ready := True, sw_nextRetry := 0\<rparr>
        | Some e \<Rightarrow> (if is_canceled e then w1 else w1\<lparr>sw_nextRetry := Unix (time_Add (sw_clock w) contactWarmupRetryDelay)\<rparr>))"

text \<open>The background copying; it ends, or it is still running.\<close>

definition warmup_task :: "('r, 'l, 'd) UserService \<Rightarrow> nat \<Rightarrow> ('r, 'l, 'd) service_world \<Rightarrow> ('r, 'l, 'd) service_world" where
  "warmup_task V n w =
    (case warmContactCache V n w of (None, w1) \<Rightarrow> w1 | (Some err, w1) \<Rightarrow> completeContactWarmup err w1)"

text \<open>Whether a background copying is started.\<close>

definition ensureContactCacheReady ::
  "('r, 'l, 'd) UserService \<Rightarrow> ('r, 'l, 'd) service_world \<Rightarrow> bool \<times> ('r, 'l, 'd) service_world" where
  "ensureContactCacheReady V w =
    (if sw_ready w then (False, w)
     else if \<not> so_EnableContactWarmup (sr_opts V) then (False, w\<lparr>sw_ready := True\<rparr>)
     else if pe_redis (sr_env V) = None then (False, w)
     else if 0 < sw_nextRetry w \<and> Unix (sw_clock w) < sw_nextRetry w then (False, w)
     else if sw_warming w then (False, w)
     else (True, w\<lparr>sw_warming := True\<rparr>))"

text \<open>The copying at the start and of the refreshing loop: \<open>None\<close> while another copying is waited for.\<close>

definition WarmupContactCacheBlocking ::
  "('r, 'l, 'd) UserService \<Rightarrow> nat \<Rightarrow> ('r, 'l, 'd) service_world
    \<Rightarrow> svc_error option option \<times> ('r, 'l, 'd) service_world" where
  "WarmupContactCacheBlocking V n w =
    (if sw_ready w then (Some None, w)
     else if \<not> so_EnableContactWarmup (sr_opts V) then (Some None, w\<lparr>sw_ready := True\<rparr>)
     else if pe_redis (sr_env V) = None then (Some (Some (Library False ''contact warmup dependencies not ready'')), w)
     else if sw_warming w then (case request_error w of Some e \<Rightarrow> (Some (Some (Ended e)), w) | None \<Rightarrow> (None, w))
     else case warmContactCache V n (w\<lparr>sw_warming := True\<rparr>) of
            (None, w1) \<Rightarrow> (None, w1)
          | (Some err, w1) \<Rightarrow> (Some err, completeContactWarmup err w1))"

section \<open>Both contacts\<close>

definition normalizeUserContacts :: "User \<Rightarrow> User" where
  "normalizeUserContacts u = u\<lparr>us_Email := NormalizeEmail (us_Email u), us_Phone := NormalizePhone (us_Phone u)\<rparr>"

definition shouldRunPreflight ::
  "('r, 'l, 'd) UserService \<Rightarrow> User \<Rightarrow> ('r, 'l, 'd) service_world \<Rightarrow> bool" where
  "shouldRunPreflight V u w =
    (if sw_degraded w then False
     else if rq_force w \<or> isStrongConsistencyRequest w then True
     else if TrimSpace (om_Name u) = [] \<and> us_Email u = [] \<and> us_Phone u = [] then False
     else pe_redis (sr_env V) = None \<or> \<not> sw_ready w)"

text \<open>A look-up: the conflicts found before, or nobody if the table has been asked for all, or the table.\<close>

definition contact_lookup_of ::
  "(instant \<Rightarrow> string \<Rightarrow> 'd \<Rightarrow> (svc_error + User option) \<times> 'd) \<Rightarrow> (string \<times> User) list \<Rightarrow> string \<Rightarrow> bool
    \<Rightarrow> ('r, 'l, 'd) contact_lookup" where
  "contact_lookup_of query preflight field asked deadline v w =
    (case request_error w of
       Some e \<Rightarrow> (Inl (Ended e), w)
     | None \<Rightarrow>
         (case map_of preflight field of
            Some u \<Rightarrow> (Inr (Some u), w)
          | None \<Rightarrow> (if asked then (Inl (Coded code_ErrUserNotFound svc_user_absent), w) else sw_table (query deadline v) w)))"

definition preflight_query ::
  "('r, 'l, 'd) UserService \<Rightarrow> User \<Rightarrow> ('r, 'l, 'd) service_world
    \<Rightarrow> (svc_error + (string \<times> User) list option) \<times> ('r, 'l, 'd) service_world" where
  "preflight_query V u =
    RetryWithBackoff sw_sleep (positive_or 1 (so_MaxRetries (sr_opts V))) isRetryableError
      (\<lambda>w. case sw_table (st_PreflightConflicts (sr_store V) (newDBContext (contactLookupTimeout V) w) (om_Name u) (us_Email u) (us_Phone u)) w of
              (Inl e, w1) \<Rightarrow> (Inl e, w1) | (Inr m, w1) \<Rightarrow> (Inr (Some m), w1))"

text \<open>Asking the table first: the conflicts, and whether the user's name has been looked up.\<close>

definition run_preflight ::
  "('r, 'l, 'd) UserService \<Rightarrow> User \<Rightarrow> ('r, 'l, 'd) service_world
    \<Rightarrow> (svc_error + (string \<times> User) list \<times> bool) \<times> ('r, 'l, 'd) service_world" where
  "run_preflight V u w =
    (if \<not> (TrimSpace (om_Name u) \<noteq> [] \<or> us_Email u \<noteq> [] \<or> us_Phone u \<noteq> []) then (Inr ([], False), w)
     else case preflight_query V u w of
            (Inl e, w1) \<Rightarrow>
              (if shouldDegradeForError e
               then (Inr ([], False),
                     ensureDegradedContactPlaceholders V (om_Name u) (us_Email u) (us_Phone u) (markCreateDegraded ''preflight_timeout'' w1))
               else (Inl e, w1))
          | (Inr m, w1) \<Rightarrow> (Inr (case m of None \<Rightarrow> [] | Some x \<Rightarrow> x, TrimSpace (om_Name u) \<noteq> []), w1))"

type_synonym ('r, 'l, 'd) contact_check = "('r, 'l, 'd) service_world \<Rightarrow> svc_error option \<times> ('r, 'l, 'd) service_world"

definition contact_checks ::
  "('r, 'l, 'd) UserService \<Rightarrow> User \<Rightarrow> (string \<times> User) list \<Rightarrow> bool \<Rightarrow> ('r, 'l, 'd) contact_check list" where
  "contact_checks V u preflight asked =
     (if us_Email u = [] then []
      else [ensureContactUnique V (EmailKey (us_Email u)) (om_Name u) svc_email (us_Email u) ''email''
              (contact_lookup_of (st_GetByEmail (sr_store V)) preflight ''email'' asked)])
   @ (if us_Phone u = [] then []
      else [ensureContactUnique V (PhoneKey (us_Phone u)) (om_Name u) svc_phone (us_Phone u) ''phone''
              (contact_lookup_of (st_GetByPhone (sr_store V)) preflight ''phone'' asked)])"

text \<open>Two checks share a context that ends with the first failure, and the first error is the answer.\<close>

definition run_checks ::
  "bool \<Rightarrow> ('r, 'l, 'd) contact_check list \<Rightarrow> ('r, 'l, 'd) contact_check" where
  "run_checks swapped checks w =
    (case (if swapped then rev checks else checks) of
       [] \<Rightarrow> (None, w)
     | [c] \<Rightarrow> c w
     | c # c2 # cs \<Rightarrow>
         (case c w of
            (Some e, w1) \<Rightarrow> (case c2 (w1\<lparr>rq_canceled := True\<rparr>) of (e2, w2) \<Rightarrow> (Some e, w2\<lparr>rq_canceled := rq_canceled w\<rparr>))
          | (None, w1) \<Rightarrow> c2 w1))"

text \<open>The user with normalized contacts, the conflicts found, and whether its name has been looked up.\<close>

definition ensureContactUniqueness ::
  "('r, 'l, 'd) UserService \<Rightarrow> bool \<Rightarrow> User \<Rightarrow> ('r, 'l, 'd) service_world
    \<Rightarrow> User \<times> (svc_error + (string \<times> User) list \<times> bool) \<times> ('r, 'l, 'd) service_world" where
  "ensureContactUniqueness V swapped user w =
    (case sr_permit V (sw_clock w) of
       Some e \<Rightarrow> (user, Inl (Coded code_ErrDatabaseTimeout svc_permit_wait), w)
     | None \<Rightarrow>
         (let w1 = snd (ensureContactCacheReady V w); u = normalizeUserContacts user; asked = shouldRunPreflight V u w1
          in case (if asked then run_preflight V u w1 else (Inr ([], False), w1)) of
               (Inl e, w2) \<Rightarrow> (u, Inl e, w2)
             | (Inr (preflight, checked), w2) \<Rightarrow>
                 (case run_checks swapped (contact_checks V u preflight asked) w2 of
                    (Some e, w3) \<Rightarrow> (u, Inl e, w3)
                  | (None, w3) \<Rightarrow> (u, Inr (preflight, checked), w3))))"

end
