(* ===== verification/ServiceProperties.thy ===== *)
theory ServiceProperties
  imports ServiceContacts PendingRedisProperties
begin

text \<open>
  What the commands of the user service do on a Redis that answers, one equation for each; the interface of the
  generic check, met by the service's client; and the properties of the service: a free contact gets one owner, however the commands of
  the checks interleave, on Redis; without Redis it does as long as one check runs at a time, and two at once show that the service's own cache
  does not see to it; copying the stored users reaches only the first page of the active ones, and the check then lets the other contacts
  be taken; a Get reads through the cache; a name asked for in vain too often is blocked.
\<close>

section \<open>Commands\<close>

definition key_at :: "('r, 'l, 'd) UserService \<Rightarrow> ('r \<Rightarrow> kview) \<Rightarrow> ('r, 'l, 'd) service_world \<Rightarrow> string \<Rightarrow> string option" where
  "key_at V view w k = map_option fst (kv_live (sw_clock w) (view (pd_redis (sw_pending w)) (fixKey (sr_prefix V) k)))"

definition redis_up :: "('r, 'l, 'd) UserService \<Rightarrow> ('r \<Rightarrow> kview) \<Rightarrow> bool" where
  "redis_up V view \<longleftrightarrow> pe_redis (sr_env V) \<noteq> None \<and> server_laws (sr_server V) view \<and> server_up (sr_server V)"

lemma key_at_simps [simp]:
  "key_at V view (w\<lparr>sw_db := d\<rparr>) = key_at V view w"
  "key_at V view (w\<lparr>rq_batch := b\<rparr>) = key_at V view w"
  "key_at V view (w\<lparr>rq_primary := p\<rparr>) = key_at V view w"
  "key_at V view (w\<lparr>rq_force := p\<rparr>) = key_at V view w"
  "key_at V view (w\<lparr>rq_end := e\<rparr>) = key_at V view w"
  "key_at V view (w\<lparr>sw_warming := p\<rparr>) = key_at V view w"
  "key_at V view (w\<lparr>sw_ready := p\<rparr>) = key_at V view w"
  "key_at V view (w\<lparr>sw_nextRetry := n\<rparr>) = key_at V view w"
  by (auto simp: key_at_def)

lemma fixKey_eq [simp]: "fixKey p k = fixKey p k' \<longleftrightarrow> k = k'" by (simp add: fixKey_def)

lemma live_entry [simp]: "kv_live now (Some (kv_entry now v d)) = Some (kv_entry now v d)" "fst (kv_entry now v d) = v"
  by (auto simp: kv_live_def kv_entry_def)

lemma kv_live_None [simp]: "kv_live now None = None" by (simp add: kv_live_def)

text \<open>A state whose values differ from another one's in one key.\<close>

lemma key_at_set:
  assumes "view (pd_redis p) = (view (pd_redis (sw_pending w)))(fixKey (sr_prefix V) k \<mapsto> kv_entry (sw_clock w) v d)"
  shows "key_at V view (w\<lparr>sw_pending := p\<rparr>) = (key_at V view w)(k \<mapsto> v)"
  by (rule ext) (auto simp: key_at_def assms)

lemma key_at_del:
  assumes "view (pd_redis p) = (view (pd_redis (sw_pending w)))(fixKey (sr_prefix V) k := None)"
  shows "key_at V view (w\<lparr>sw_pending := p\<rparr>) = (key_at V view w)(k := None)"
  by (rule ext) (auto simp: key_at_def assms)

lemma key_at_same:
  assumes "view (pd_redis p) = view (pd_redis (sw_pending w))"
  shows "key_at V view (w\<lparr>sw_pending := p\<rparr>) = key_at V view w"
  by (rule ext) (auto simp: key_at_def assms)

lemma redis_upD:
  assumes "redis_up V view"
  shows "server_laws (sr_server V) view" "server_up (sr_server V)" "pe_redis (sr_env V) \<noteq> None"
  using assms by (auto simp: redis_up_def)

lemma read_svc_get:
  assumes "redis_up V view"
  shows "\<exists>p. svc_GetKey V k w = (Inr (key_at V view w k), w\<lparr>sw_pending := p\<rparr>) \<and> view (pd_redis p) = view (pd_redis (sw_pending w))"
proof -
  obtain r where "GetKeyWithCommandTimeout (sr_server V) (sr_prefix V) (sw_clock w) k (pd_redis (sw_pending w)) = (Inr (key_at V view w k), r)"
      "view r = view (pd_redis (sw_pending w))"
    using up_get [OF redis_upD(1,2) [OF assms], of "sr_prefix V" "sw_clock w" k "pd_redis (sw_pending w)"] by (auto simp: key_at_def)
  then show ?thesis
    by (intro exI [of _ "sw_pending w\<lparr>pd_redis := r\<rparr>"]) (simp add: svc_GetKey_def sw_redis_def on_redis_def)
qed

lemma up_svc_get:
  assumes "redis_up V view"
  shows "\<exists>p. svc_GetKey V k w = (Inr (key_at V view w k), w\<lparr>sw_pending := p\<rparr>)
    \<and> key_at V view (w\<lparr>sw_pending := p\<rparr>) = key_at V view w"
  using read_svc_get [OF assms] key_at_same by blast

lemma up_svc_set:
  assumes "redis_up V view"
  shows "\<exists>p. svc_SetKey V k v ttl w = (None, w\<lparr>sw_pending := p\<rparr>)
    \<and> key_at V view (w\<lparr>sw_pending := p\<rparr>) = (key_at V view w)(k \<mapsto> v)"
proof -
  obtain r where "SetKeyWithCommandTimeout (sr_server V) (sr_prefix V) (sw_clock w) k v ttl (pd_redis (sw_pending w)) = (Inr (), r)"
      and r: "view r = (view (pd_redis (sw_pending w)))(fixKey (sr_prefix V) k \<mapsto> kv_entry (sw_clock w) v ttl)"
    using up_set [OF redis_upD(1,2) [OF assms]] by blast
  then show ?thesis
    by (intro exI [of _ "sw_pending w\<lparr>pd_redis := r\<rparr>"])
       (simp add: svc_SetKey_def sw_redis_def on_redis_def cache_SetKey_def err_of_def key_at_set [where d = ttl])
qed

lemma up_svc_delete:
  assumes "redis_up V view"
  shows "\<exists>p. svc_DeleteKey V k w = (None, w\<lparr>sw_pending := p\<rparr>)
    \<and> key_at V view (w\<lparr>sw_pending := p\<rparr>) = (key_at V view w)(k := None)"
proof -
  obtain r b where "DeleteKeyWithCommandTimeout (sr_server V) (sr_prefix V) (sw_clock w) k (pd_redis (sw_pending w)) = (Inr b, r)"
      and r: "view r = (view (pd_redis (sw_pending w)))(fixKey (sr_prefix V) k := None)"
    using up_delete [OF redis_upD(1,2) [OF assms]] by blast
  then show ?thesis
    by (intro exI [of _ "sw_pending w\<lparr>pd_redis := r\<rparr>"])
       (simp add: svc_DeleteKey_def sw_redis_def on_redis_def DeleteKey_def err_of_def key_at_del)
qed

lemma view_svc_setnx:
  assumes "redis_up V view"
  shows "\<exists>p. svc_SetNX V k v ttl w = (Inr (key_at V view w k = None), w\<lparr>sw_pending := p\<rparr>)
    \<and> view (pd_redis p) = (if key_at V view w k = None then (view (pd_redis (sw_pending w)))(fixKey (sr_prefix V) k \<mapsto> kv_entry (sw_clock w) v ttl)
        else view (pd_redis (sw_pending w)))"
proof -
  let ?k = "fixKey (sr_prefix V) k" let ?f = "sv_SETNX (sr_server V) (sw_clock w) ?k v ttl"
  note L = redis_upD(1) [OF assms]
  obtain r1 where s: "send (sr_server V) ?f (pd_redis (sw_pending w)) = (Inr (fst (?f r1)), snd (?f r1))" and v: "view r1 = view (pd_redis (sw_pending w))"
    using up_send [OF redis_upD(1,2) [OF assms]] by blast
  have free: "key_at V view w k = None \<longleftrightarrow> kv_live (sw_clock w) (view r1 ?k) = None" by (simp add: key_at_def v)
  have "fst (?f r1) \<longleftrightarrow> key_at V view w k = None" unfolding free by (rule value_facts(3) [OF L])
  moreover have "view (snd (?f r1)) = (if key_at V view w k = None then (view (pd_redis (sw_pending w)))(?k \<mapsto> kv_entry (sw_clock w) v ttl)
      else view (pd_redis (sw_pending w)))" unfolding free v [symmetric] by (rule value_facts(4) [OF L])
  ultimately show ?thesis using s
    by (intro exI [of _ "sw_pending w\<lparr>pd_redis := snd (?f r1)\<rparr>"])
       (simp add: svc_SetNX_def sw_redis_def on_redis_def SetNXWithCommandTimeout_def del: fun_upd_apply)
qed

lemma up_svc_setnx:
  assumes "redis_up V view"
  shows "\<exists>p. svc_SetNX V k v ttl w = (Inr (key_at V view w k = None), w\<lparr>sw_pending := p\<rparr>)
    \<and> key_at V view (w\<lparr>sw_pending := p\<rparr>) = (if key_at V view w k = None then (key_at V view w)(k \<mapsto> v) else key_at V view w)"
proof -
  obtain p where p: "svc_SetNX V k v ttl w = (Inr (key_at V view w k = None), w\<lparr>sw_pending := p\<rparr>)"
    "view (pd_redis p) = (if key_at V view w k = None then (view (pd_redis (sw_pending w)))(fixKey (sr_prefix V) k \<mapsto> kv_entry (sw_clock w) v ttl)
        else view (pd_redis (sw_pending w)))" using view_svc_setnx [OF assms] by blast
  from p(2) have "key_at V view (w\<lparr>sw_pending := p\<rparr>) = (if key_at V view w k = None then (key_at V view w)(k \<mapsto> v) else key_at V view w)"
    using key_at_set [where d = ttl] key_at_same by (auto simp del: fun_upd_apply split: if_splits)
  with p(1) show ?thesis by blast
qed

section \<open>The client of the generic check\<close>

text \<open>A request that goes on, on a service that has not given up Redis.\<close>

definition service_good :: "('r, 'l, 'd) UserService \<Rightarrow> ('r \<Rightarrow> kview) \<Rightarrow> ('r, 'l, 'd) service_world \<Rightarrow> bool" where
  "service_good V view w \<longleftrightarrow> redis_up V view \<and> \<not> sw_degraded w \<and> \<not> IsCreateDegraded w \<and> request_error w = None"

lemma request_error_simps [simp]:
  "request_error (w\<lparr>sw_pending := p\<rparr>) = request_error w"
  "request_error (w\<lparr>sw_db := d\<rparr>) = request_error w"
  by (cases "rq_end w"; simp add: request_error_def)+

lemma service_good_simps [simp]:
  "service_good V view (w\<lparr>sw_pending := p\<rparr>) = service_good V view w"
  "service_good V view (w\<lparr>sw_db := d\<rparr>) = service_good V view w"
  by (simp_all add: service_good_def IsCreateDegraded_def)

lemma service_good_up: "service_good V view w \<Longrightarrow> redis_up V view" by (simp add: service_good_def)

interpretation contacts: cache_client "service_client V" "key_at V view" "service_good V view" "\<lambda>e. e = redis_Nil" sw_clock
  for V :: "('r, 'l, 'd) UserService" and view
proof unfold_locales
  fix s k v assume "service_good V view s" "key_at V view s k = Some v"
  then show "\<exists>s'. cl_GetKey (service_client V) k s = (Inr v, s') \<and> key_at V view s' = key_at V view s \<and> service_good V view s' \<and> sw_clock s' = sw_clock s"
    using up_svc_get [OF service_good_up, of V view s k s] by (fastforce simp: service_client_def)
next
  fix s k assume "service_good V view s" "key_at V view s k = None"
  then show "\<exists>e s'. cl_GetKey (service_client V) k s = (Inl e, s') \<and> e = redis_Nil \<and> key_at V view s' = key_at V view s
      \<and> service_good V view s' \<and> sw_clock s' = sw_clock s"
    using up_svc_get [OF service_good_up, of V view s k s] by (fastforce simp: service_client_def)
next
  fix s k v ttl assume "service_good V view s" "key_at V view s k = None"
  then show "\<exists>s'. cl_SetNX (service_client V) k v ttl s = (Inr True, s') \<and> key_at V view s' = (key_at V view s)(k \<mapsto> v)
      \<and> service_good V view s' \<and> sw_clock s' = sw_clock s"
    using up_svc_setnx [OF service_good_up, of V view s k v ttl s] by (fastforce simp: service_client_def)
next
  fix s k v ttl assume "service_good V view s"
  then show "\<exists>s'. cl_SetKey (service_client V) k v ttl s = (None, s') \<and> key_at V view s' = (key_at V view s)(k \<mapsto> v)
      \<and> service_good V view s' \<and> sw_clock s' = sw_clock s"
    using up_svc_set [OF service_good_up, of V view s k v ttl s] by (fastforce simp: service_client_def)
qed

section \<open>Looking up a contact\<close>

text \<open>A table that knows its users: it answers a user, or that there is none.\<close>

definition answers :: "(instant \<Rightarrow> string \<Rightarrow> 'd \<Rightarrow> (svc_error + User option) \<times> 'd) \<Rightarrow> bool" where
  "answers query \<longleftrightarrow> (\<forall>t v d e. fst (query t v d) = Inl e \<longrightarrow> IsCode e code_ErrUserNotFound)"

lemma lookup_answers:
  assumes "answers query" and "request_error w = None"
  shows "\<exists>r d. contact_lookup_of query preflight field asked t v w = (r, w\<lparr>sw_db := d\<rparr>) \<and> (\<forall>e. r = Inl e \<longrightarrow> IsCode e code_ErrUserNotFound)"
proof (cases "map_of preflight field")
  case (Some u)
  then show ?thesis using assms(2) by (intro exI [of _ "Inr (Some u)"] exI [of _ "sw_db w"]) (simp add: contact_lookup_of_def)
next
  case None
  obtain r d where q: "query t v (sw_db w) = (r, d)" by fastforce
  show ?thesis
  proof (cases asked)
    case True
    with None assms(2) show ?thesis
      by (intro exI [of _ "Inl (Coded code_ErrUserNotFound svc_user_absent)"] exI [of _ "sw_db w"])
         (simp add: contact_lookup_of_def IsCode_def)
  next
    case False
    have "\<And>e. r = Inl e \<Longrightarrow> IsCode e code_ErrUserNotFound" using assms(1) q unfolding answers_def by (metis fst_conv)
    with None False assms(2) q show ?thesis
      by (intro exI [of _ r] exI [of _ d]) (simp add: contact_lookup_of_def sw_table_def)
  qed
qed

abbreviation contact_ck where "contact_ck V \<equiv> NewChecker (contact_checker V)"

lemma contact_ck_simps [simp]:
  "ck_IsCacheMiss (contact_ck V) = Some (\<lambda>e. e = redis_Nil)"
  "ck_now (contact_ck V) = sw_clock"
  "ck_Cache (contact_ck V) = Some (service_client V)"
  "command_client (contact_ck V) cl = cl"
  "ck_DegradeActive (contact_ck V) = Some IsCreateDegraded"
  "ck_CacheReady (contact_ck V) = Some sw_ready"
  by (auto simp: NewChecker_def contact_checker_def command_client_def)

lemma contact_ck_keeps: "\<not> holds_of (ck_ShouldReleasePlaceholder (contact_ck V)) (field_conflict (contact_ck V) (contact_field V k u l v f look))"
  by (simp add: NewChecker_def contact_checker_def field_conflict_def contact_field_def holds_of_def taken_error_def IsCode_def)

lemma contact_field_simps:
  "field_conflict (contact_ck V) (contact_field V k u l v f look) = taken_error l v"
  "fc_CacheKey (contact_field V k u l v f look) = k"
  "field_allowed (contact_field V k u l v f look) = (\<lambda>x. EqualFold x u)"
  "TrimSpace u \<noteq> [] \<Longrightarrow> placeholder_value (contact_ck V) (contact_field V k u l v f look) = u"
  "field_owner (contact_field V k u l v f look) = entity_name"
  by (auto simp: field_conflict_def contact_field_def field_allowed_def placeholder_value_def field_owner_def Let_def fun_eq_iff)

lemma retry_first:
  assumes "0 < n" and "f s = (Inr x, s1)"
  shows "RetryWithBackoff sleep n p f s = (Inr x, s1)"
proof -
  obtain m where "nat n = Suc m" using assms(1) by (cases "nat n") auto
  with assms(2) show ?thesis by (simp add: RetryWithBackoff_def)
qed

lemma run_lookup_answer:
  assumes "contact_lookup_of query preflight field asked (newDBContext (contactLookupTimeout V) w) v w = (r, w\<lparr>sw_db := d\<rparr>)"
    and "\<And>e. r = Inl e \<Longrightarrow> IsCode e code_ErrUserNotFound"
  shows "runLookup (contact_ck V) (contact_field V k u l v f (contact_lookup_of query preflight field asked)) w
    = (Inr (case r of Inl e \<Rightarrow> None | Inr a \<Rightarrow> a), w\<lparr>sw_db := d\<rparr>)"
proof -
  let ?look = "\<lambda>v w. contact_lookup_of query preflight field asked (newDBContext (contactLookupTimeout V) w) v w"
  let ?x = "case r of Inl e \<Rightarrow> None | Inr a \<Rightarrow> Some a"
  have e: "execute_lookup (contact_ck V) ?look v w = (Inr ?x, w\<lparr>sw_db := d\<rparr>)"
    using assms by (auto simp: execute_lookup_def NewChecker_def contact_checker_def holds_of_def split: sum.splits)
  have p: "0 < ck_MaxRetries (contact_ck V)" by (simp add: NewChecker_def contact_checker_def positive_or_def)
  show ?thesis
    using retry_first [where f = "execute_lookup (contact_ck V) ?look v", OF p e]
    by (simp add: runLookup_def contact_field_def NewChecker_def contact_checker_def split: option.splits sum.splits)
qed

lemma run_lookup_good:
  assumes "answers query" and "service_good V view w"
  shows "\<exists>a w2. runLookup (contact_ck V) (contact_field V k u l v f (contact_lookup_of query preflight field asked)) w = (Inr a, w2)
    \<and> key_at V view w2 = key_at V view w \<and> service_good V view w2"
proof -
  have re: "request_error w = None" using assms(2) by (simp add: service_good_def)
  obtain r d where r: "contact_lookup_of query preflight field asked (newDBContext (contactLookupTimeout V) w) v w = (r, w\<lparr>sw_db := d\<rparr>)"
      "\<And>e. r = Inl e \<Longrightarrow> IsCode e code_ErrUserNotFound"
    using lookup_answers [OF assms(1) re] by blast
  show ?thesis using run_lookup_answer [OF r] assms(2) by auto
qed

section \<open>The service's own cache\<close>

definition contacts_ok :: "('r, 'l, 'd) UserService \<Rightarrow> ('r, 'l, 'd) service_world \<Rightarrow> bool" where
  "contacts_ok V w \<longleftrightarrow> distinct (map fst (sw_contacts w)) \<and> sw_contacts_size w = int (length (sw_contacts w))
     \<and> sw_contacts_size w \<le> contactRedisDegradeCacheLimit V"

lemma limit_positive: "0 < contactRedisDegradeCacheLimit V"
  by (simp add: contactRedisDegradeCacheLimit_def positive_or_def contactDegradeCacheDefaultMaxEntries_def)

lemma map_of_lookup_None [simp]: "map_of (AList.delete k m) k = None" by (simp add: AList.delete_conv')

lemma delete_length:
  assumes "distinct (map fst m)" and "map_of m k = Some x"
  shows "Suc (length (AList.delete k m)) = length m"
  using assms
proof (induction m)
  case (Cons a m)
  obtain k' y where a: "a = (k', y)" by (cases a)
  show ?case
  proof (cases "k' = k")
    case True
    with Cons.prems(1) a have "k \<notin> fst ` set m" by simp
    then have "AList.delete k m = m" by (simp add: AList.delete_eq filter_id_conv) force
    with a True show ?thesis by simp
  next
    case False
    with Cons a show ?thesis by simp
  qed
qed simp

lemma delete_contact:
  assumes "contacts_ok V w"
  shows "contacts_ok V (snd (contactDegradeCacheDelete k w))"
    and "map_of (sw_contacts (snd (contactDegradeCacheDelete k w))) = (map_of (sw_contacts w))(k := None)"
    and "sw_clock (snd (contactDegradeCacheDelete k w)) = sw_clock w"
    and "sw_degraded (snd (contactDegradeCacheDelete k w)) = sw_degraded w"
proof -
  show "contacts_ok V (snd (contactDegradeCacheDelete k w))"
  proof (cases "map_of (sw_contacts w) k")
    case (Some e)
    from delete_length [OF _ Some] assms Some show ?thesis
      by (auto simp: contacts_ok_def contactDegradeCacheDelete_def decrementContactDegradeCacheSize_def distinct_delete)
  qed (use assms in \<open>simp add: contactDegradeCacheDelete_def\<close>)
qed (auto simp: contactDegradeCacheDelete_def decrementContactDegradeCacheSize_def AList.delete_conv' split: option.splits)

lemma fold_delete_contacts:
  assumes "contacts_ok V w"
  shows "contacts_ok V (fold (\<lambda>(k, e) w. if p e then snd (contactDegradeCacheDelete k w) else w) es w)"
    and "sw_clock (fold (\<lambda>(k, e) w. if p e then snd (contactDegradeCacheDelete k w) else w) es w) = sw_clock w"
    and "sw_degraded (fold (\<lambda>(k, e) w. if p e then snd (contactDegradeCacheDelete k w) else w) es w) = sw_degraded w"
    and "map_of (sw_contacts (fold (\<lambda>(k, e) w. if p e then snd (contactDegradeCacheDelete k w) else w) es w)) \<subseteq>\<^sub>m map_of (sw_contacts w)"
proof -
  let ?step = "\<lambda>(k, e) w. if p e then snd (contactDegradeCacheDelete k w) else w"
  have "contacts_ok V (fold ?step es w) \<and> sw_clock (fold ?step es w) = sw_clock w \<and> sw_degraded (fold ?step es w) = sw_degraded w
      \<and> map_of (sw_contacts (fold ?step es w)) \<subseteq>\<^sub>m map_of (sw_contacts w)"
    using assms
  proof (induction es arbitrary: w)
    case (Cons a es)
    obtain k e where a: "a = (k, e)" by (cases a)
    show ?case
    proof (cases "p e")
      case True
      note d = delete_contact [OF Cons.prems, of k]
      have "map_of (sw_contacts (snd (contactDegradeCacheDelete k w))) \<subseteq>\<^sub>m map_of (sw_contacts w)"
        using d(2) by (auto simp: map_le_def split: if_splits)
      with Cons.IH [OF d(1)] d(3,4) a True show ?thesis by (auto intro: map_le_trans)
    qed (use Cons a in simp)
  qed simp
  then show "contacts_ok V (fold ?step es w)" "sw_clock (fold ?step es w) = sw_clock w"
    "sw_degraded (fold ?step es w) = sw_degraded w" "map_of (sw_contacts (fold ?step es w)) \<subseteq>\<^sub>m map_of (sw_contacts w)" by auto
qed

lemma cleanup_as_fold:
  "cleanupContactDegradeCache w = fold (\<lambda>(k, e) w. if contact_expired w0 e then snd (contactDegradeCacheDelete k w) else w) (sw_contacts w) w"
  if "sw_clock w0 = sw_clock w"
proof -
  have same: "fold (\<lambda>(k, e) w. if contact_expired w e then snd (contactDegradeCacheDelete k w) else w) es v
      = fold (\<lambda>(k, e) w. if contact_expired w0 e then snd (contactDegradeCacheDelete k w) else w) es v" if "sw_clock v = sw_clock w0" for es v
    using that
  proof (induction es arbitrary: v)
    case (Cons a es)
    obtain k e where a: "a = (k, e)" by (cases a)
    have "sw_clock (snd (contactDegradeCacheDelete k v)) = sw_clock w0" using Cons.prems
      by (auto simp: contactDegradeCacheDelete_def decrementContactDegradeCacheSize_def split: option.splits)
    with Cons a show ?case by (simp add: contact_expired_def)
  qed simp
  show ?thesis unfolding cleanupContactDegradeCache_def by (rule same) (simp add: that)
qed

lemma cleanup_contacts:
  assumes "contacts_ok V w"
  shows "contacts_ok V (cleanupContactDegradeCache w)" "sw_clock (cleanupContactDegradeCache w) = sw_clock w"
    "sw_degraded (cleanupContactDegradeCache w) = sw_degraded w"
    "map_of (sw_contacts (cleanupContactDegradeCache w)) \<subseteq>\<^sub>m map_of (sw_contacts w)"
  using fold_delete_contacts [OF assms, of "contact_expired w" "sw_contacts w"] by (simp_all add: cleanup_as_fold [OF refl])

lemma clear_contacts:
  assumes "contacts_ok V w"
  shows "sw_contacts (clearContactDegradeCache w) = []"
proof -
  have "set (map fst (sw_contacts (fold (\<lambda>(k, e) w. snd (contactDegradeCacheDelete k w)) es v))) \<subseteq> set (map fst (sw_contacts v)) - set (map fst es)"
    if "contacts_ok V v" for es v
    using that
  proof (induction es arbitrary: v)
    case (Cons a es)
    obtain k e where a: "a = (k, e)" by (cases a)
    have "set (map fst (sw_contacts (snd (contactDegradeCacheDelete k v)))) = dom (map_of (sw_contacts (snd (contactDegradeCacheDelete k v))))"
      by (simp add: dom_map_of_conv_image_fst)
    also have "\<dots> = set (map fst (sw_contacts v)) - {k}" using delete_contact(2) [OF Cons.prems, of k] by (auto simp: dom_map_of_conv_image_fst)
    finally show ?case using Cons.IH [OF delete_contact(1) [OF Cons.prems, of k]] a by auto
  qed simp
  from this [OF assms, of "sw_contacts w"] show ?thesis by (simp add: clearContactDegradeCache_def)
qed

lemma evict_contacts:
  assumes "contacts_ok V w"
  shows "contacts_ok V (evict_contact V w)" "sw_clock (evict_contact V w) = sw_clock w" "sw_degraded (evict_contact V w) = sw_degraded w"
    "map_of (sw_contacts (evict_contact V w)) \<subseteq>\<^sub>m map_of (sw_contacts w)"
    "sw_contacts w \<noteq> [] \<Longrightarrow> sw_contacts_size (evict_contact V w) < contactRedisDegradeCacheLimit V"
proof -
  let ?k = "fst (sw_contacts w ! (nat (sr_rand V (int (length (sw_contacts w)))) mod length (sw_contacts w)))"
  show "contacts_ok V (evict_contact V w)" "sw_clock (evict_contact V w) = sw_clock w" "sw_degraded (evict_contact V w) = sw_degraded w"
    "map_of (sw_contacts (evict_contact V w)) \<subseteq>\<^sub>m map_of (sw_contacts w)"
    using assms delete_contact [OF assms, of ?k] by (auto simp: evict_contact_def map_le_def split: if_splits)
  assume n: "sw_contacts w \<noteq> []"
  then have "?k \<in> fst ` set (sw_contacts w)" by (simp add: mod_less_divisor)
  then obtain e where "map_of (sw_contacts w) ?k = Some e" by (metis map_of_eq_None_iff not_None_eq)
  with n assms show "sw_contacts_size (evict_contact V w) < contactRedisDegradeCacheLimit V"
    using limit_positive [of V]
    by (auto simp: evict_contact_def contactDegradeCacheDelete_def decrementContactDegradeCacheSize_def contacts_ok_def)
qed

lemma capacity_contacts:
  assumes "contacts_ok V w" and "ensureContactDegradeCacheCapacity V w = (b, w')"
  shows "b \<and> contacts_ok V w' \<and> sw_contacts_size w' < contactRedisDegradeCacheLimit V \<and> sw_clock w' = sw_clock w \<and> sw_degraded w' = sw_degraded w
    \<and> map_of (sw_contacts w') \<subseteq>\<^sub>m map_of (sw_contacts w)"
proof -
  note c = cleanup_contacts [OF assms(1)]
  note e = evict_contacts [OF c(1)]
  have "sw_contacts (cleanupContactDegradeCache w) \<noteq> []" if "\<not> sw_contacts_size (cleanupContactDegradeCache w) < contactRedisDegradeCacheLimit V"
    using that c(1) limit_positive [of V] by (auto simp: contacts_ok_def)
  with e c assms limit_positive [of V] show ?thesis
    by (auto simp: ensureContactDegradeCacheCapacity_def Let_def split: if_splits intro: map_le_trans)
qed

lemma put_contacts:
  assumes "contacts_ok V w"
  shows "contacts_ok V (contactDegradeCacheSet V key owner w)"
    and "sw_clock (contactDegradeCacheSet V key owner w) = sw_clock w"
    and "sw_degraded (contactDegradeCacheSet V key owner w) = sw_degraded w"
    and "TrimSpace key \<noteq> [] \<Longrightarrow> map_of (sw_contacts (contactDegradeCacheSet V key owner w)) key
      = Some \<lparr>de_owner = owner, de_expires = UnixNano (time_Add (sw_clock w) (contactRedisDegradeTTL V))\<rparr>"
proof -
  let ?e = "\<lambda>w. \<lparr>de_owner = owner, de_expires = UnixNano (time_Add (sw_clock w) (contactRedisDegradeTTL V))\<rparr>"
  have ttl: "\<not> contactRedisDegradeTTL V \<le> 0" by (simp add: contactRedisDegradeTTL_def positive_or_def Second_def)
  have absent: "contacts_ok V ((v\<lparr>sw_contacts := AList.update key x (sw_contacts v)\<rparr>)\<lparr>sw_contacts_size := sw_contacts_size v + 1\<rparr>)"
    if "contacts_ok V v" "map_of (sw_contacts v) key = None" "sw_contacts_size v < contactRedisDegradeCacheLimit V" for v x
  proof -
    have "AList.update key x m = m @ [(key, x)]" if "map_of m key = None" for m using that by (induction m) (auto split: if_splits)
    with that show ?thesis by (simp add: contacts_ok_def map_of_eq_None_iff)
  qed
  have present: "contacts_ok V (v\<lparr>sw_contacts := AList.update key x (sw_contacts v)\<rparr>)"
    if "contacts_ok V v" "map_of (sw_contacts v) key = Some y" for v x y
  proof -
    have "length (AList.update key x m) = length m" if "map_of m key = Some y" for m using that by (induction m) (auto split: if_splits)
    with that show ?thesis by (simp add: contacts_ok_def AList.distinct_update)
  qed
  define w1 where "w1 = (case map_of (sw_contacts w) key of None \<Rightarrow> w
     | Some e \<Rightarrow> if contact_expired w e then snd (contactDegradeCacheDelete key w) else w)"
  have w1: "contacts_ok V w1" "sw_clock w1 = sw_clock w" "sw_degraded w1 = sw_degraded w"
    using assms delete_contact [OF assms, of key] by (auto simp: w1_def split: option.splits)
  obtain b w2 where cap: "ensureContactDegradeCacheCapacity V w1 = (b, w2)" by fastforce
  note k = capacity_contacts [OF w1(1) cap]
  consider (blank) "TrimSpace key = []"
    | (new) "TrimSpace key \<noteq> []" "map_of (sw_contacts w1) key = None"
        "contactDegradeCacheSet V key owner w = (w2\<lparr>sw_contacts := AList.update key (?e w2) (sw_contacts w2)\<rparr>)\<lparr>sw_contacts_size := sw_contacts_size w2 + 1\<rparr>"
    | (old) e where "TrimSpace key \<noteq> []" "map_of (sw_contacts w) key = Some e"
        "contactDegradeCacheSet V key owner w = w\<lparr>sw_contacts := AList.update key (?e w) (sw_contacts w)\<rparr>"
  proof (cases "TrimSpace key = []")
    case False
    show ?thesis
    proof (cases "map_of (sw_contacts w) key")
      case None
      with False ttl cap k show ?thesis by (intro that(2)) (auto simp: contactDegradeCacheSet_def w1_def)
    next
      case (Some e)
      show ?thesis
      proof (cases "contact_expired w e")
        case True
        with False Some ttl cap k delete_contact(2) [OF assms, of key] show ?thesis
          by (intro that(2)) (auto simp: contactDegradeCacheSet_def w1_def)
      next
        case fresh: False
        with False Some ttl show ?thesis by (intro that(3)) (auto simp: contactDegradeCacheSet_def)
      qed
    qed
  qed (rule that(1))
  note cases = this
  show "contacts_ok V (contactDegradeCacheSet V key owner w)"
  proof (cases rule: cases)
    case new
    have "map_of (sw_contacts w2) key = None" using k new(2) by (auto simp: map_le_def dom_def) 
    with absent k new(3) show ?thesis by simp
  qed (use assms present in \<open>auto simp: contactDegradeCacheSet_def\<close>)
  show "sw_clock (contactDegradeCacheSet V key owner w) = sw_clock w" "sw_degraded (contactDegradeCacheSet V key owner w) = sw_degraded w"
    by (cases rule: cases; use k w1 in \<open>simp add: contactDegradeCacheSet_def\<close>)+
  show "TrimSpace key \<noteq> [] \<Longrightarrow> map_of (sw_contacts (contactDegradeCacheSet V key owner w)) key = Some (?e w)"
    by (cases rule: cases; use k w1 in \<open>simp add: update_conv'\<close>)
qed

text \<open>What may happen to the cache: claims, look-ups, deletions, the monitor, giving up Redis and coming back, time.\<close>

datatype contact_event = Claim string string | LookContact string | DropContact string | MonitorTick | Cleanup | GiveUp string | Recover | Elapse nat

fun contact_event_step ::
  "('r, 'l, 'd) UserService \<Rightarrow> contact_event \<Rightarrow> ('r, 'l, 'd) service_world \<Rightarrow> ('r, 'l, 'd) service_world" where
  "contact_event_step V (Claim key owner) w = contactDegradeCacheSet V key owner w"
| "contact_event_step V (LookContact key) w = snd (contactDegradeCacheGet key w)"
| "contact_event_step V (DropContact key) w = snd (contactDegradeCacheDelete key w)"
| "contact_event_step V MonitorTick w = degrade_monitor_tick V w"
| "contact_event_step V Cleanup w = cleanupContactDegradeCache w"
| "contact_event_step V (GiveUp reason) w = markCreateDegraded reason w"
| "contact_event_step V Recover w = disableRedisDegrade w"
| "contact_event_step V (Elapse n) w = sw_sleep (int n) w"

lemma disable_contacts:
  assumes "contacts_ok V w"
  shows "contacts_ok V (disableRedisDegrade w)"
proof -
  have "contacts_ok V (w\<lparr>sw_degraded := False, sw_since := 0\<rparr>)" using assms by (simp add: contacts_ok_def)
  from clear_contacts [OF this] assms limit_positive [of V] show ?thesis
    by (simp add: disableRedisDegrade_def contacts_ok_def) (simp add: clearContactDegradeCache_def)
qed

lemma health_frame: "\<exists>p. checkRedisHealthy V w = (b, w\<lparr>sw_pending := p\<rparr>)" if "fst (checkRedisHealthy V w) = b"
proof -
  obtain x p where "on_redis (GetKeyWithCommandTimeout (sr_server V) (sr_prefix V) (sw_clock w) ''__contact_health_ping__'') (sw_pending w) = (x, p)"
    by fastforce
  then have g: "svc_GetKey V ''__contact_health_ping__'' w = (x, w\<lparr>sw_pending := p\<rparr>)" by (simp add: svc_GetKey_def sw_redis_def)
  show ?thesis
  proof (cases "pe_redis (sr_env V)")
    case None
    with that show ?thesis by (intro exI [of _ "sw_pending w"]) (simp add: checkRedisHealthy_def)
  next
    case (Some y)
    with that g show ?thesis by (intro exI [of _ p]) (auto simp: checkRedisHealthy_def split: sum.splits)
  qed
qed

lemma contacts_ok_frame: "contacts_ok V (w\<lparr>sw_pending := p\<rparr>) = contacts_ok V w" by (simp add: contacts_ok_def)

lemma contact_event_ok:
  assumes "contacts_ok V w"
  shows "contacts_ok V (contact_event_step V ev w)"
proof (cases ev)
  case (LookContact k)
  with assms delete_contact(1) [OF assms, of k] show ?thesis by (simp add: contactDegradeCacheGet_def split: option.splits)
next
  case MonitorTick
  obtain b p where h: "checkRedisHealthy V w = (b, w\<lparr>sw_pending := p\<rparr>)" using health_frame by blast
  have "contacts_ok V (w\<lparr>sw_pending := p\<rparr>)" using assms by (simp add: contacts_ok_frame)
  with MonitorTick h assms show ?thesis by (simp add: degrade_monitor_tick_def cleanup_contacts(1) disable_contacts)
next
  case (GiveUp reason)
  with assms show ?thesis
    by (simp add: markCreateDegraded_def MarkCreateDegraded_def enableRedisDegrade_def Let_def contacts_ok_def split: option.splits bool.splits)
next
  case (Elapse n)
  with assms show ?thesis by (simp add: sw_sleep_def contacts_ok_def)
qed (use assms in \<open>simp_all add: put_contacts(1) delete_contact(1) cleanup_contacts(1) disable_contacts\<close>)

text \<open>The service's own cache of contacts, one call at a time: started empty, whatever claims, look-ups, deletions, ticks of the monitor,
  outages and recoveries follow in whatever order, its counter is the number of its entries, no contact has two
  entries, and the configured limit is never exceeded. Two claims at once break it: see below.\<close>

lemma contact_cache_bounded:
  "let w' = fold (contact_event_step V) evs (w\<lparr>sw_contacts := [], sw_contacts_size := 0\<rparr>)
   in sw_contacts_size w' = int (length (sw_contacts w')) \<and> distinct (map fst (sw_contacts w'))
    \<and> sw_contacts_size w' \<le> contactRedisDegradeCacheLimit V"
proof -
  have "contacts_ok V (fold (contact_event_step V) evs v)" if "contacts_ok V v" for v
    using that by (induction evs arbitrary: v) (simp_all add: contact_event_ok)
  moreover have "contacts_ok V (w\<lparr>sw_contacts := [], sw_contacts_size := 0\<rparr>)" using limit_positive [of V] by (simp add: contacts_ok_def)
  ultimately show ?thesis unfolding Let_def contacts_ok_def by blast
qed

section \<open>One owner for a contact\<close>

lemma EqualFold_facts: "EqualFold x x" "EqualFold x y \<Longrightarrow> \<not> EqualFold y z \<Longrightarrow> \<not> EqualFold x z"
  "EqualFold x y \<Longrightarrow> EqualFold x z \<Longrightarrow> EqualFold y z" by (auto simp: EqualFold_def)

lemma check_is_cached:
  assumes "service_good V view w" and "TrimSpace k \<noteq> []"
  shows "ensureContactUnique V k u l v f look w = check_cached (contact_ck V) (contact_field V k u l v f look) (service_client V) w"
  using assms by (simp add: ensureContactUnique_def EnsureFieldUnique_def contact_field_simps service_good_def holds_of_def)

text \<open>One check after another, with nothing in between: the second one, by somebody else, is refused.\<close>

lemma next_check_refused:
  assumes "service_good V view w" and "answers query" and "TrimSpace key \<noteq> []" and "TrimSpace u1 \<noteq> []" and "\<not> EqualFold u1 u2"
    and "key_at V view w key = None \<or> (\<exists>x. key_at V view w key = Some x \<and> TrimSpace x \<noteq> [])"
    and "ensureContactUnique V key u1 l1 v1 f1 (contact_lookup_of query preflight field asked) w = (None, w1)"
  shows "\<exists>w2. ensureContactUnique V key u2 l2 v2 f2 look w1 = (Some (taken_error l2 v2), w2)"
proof -
  let ?F = "contact_field V key u1 l1 v1 f1 (contact_lookup_of query preflight field asked)"
  let ?G = "contact_field V key u2 l2 v2 f2 look"
  have r: "check_cached (contact_ck V) ?F (service_client V) w = (None, w1)"
    using assms(7) by (simp add: check_is_cached [OF assms(1,3)])
  note facts = contact_field_simps [where V = V and k = key]
  have p: "TrimSpace (placeholder_value (contact_ck V) ?F) \<noteq> []" "field_allowed ?F (placeholder_value (contact_ck V) ?F)"
    using assms(4) by (simp_all add: facts EqualFold_facts(1))
  have solid: "\<And>x. key_at V view w (fc_CacheKey ?F) = Some x \<Longrightarrow> TrimSpace x \<noteq> []" using assms(6) by (auto simp: facts)
  have t: "\<And>s1. service_good V view s1 \<Longrightarrow> \<exists>a s2. runLookup (contact_ck V) ?F s1 = (Inr a, s2) \<and> key_at V view s2 = key_at V view s1 \<and> service_good V view s2"
    by (rule run_lookup_good [OF assms(2)])
  obtain v where "service_good V view w1" using contacts.passed [OF assms(1) _ _ t p contact_ck_keeps solid r] by auto
  moreover obtain w2 where "check_cached (contact_ck V) ?G (service_client V) w1 = (Some (field_conflict (contact_ck V) ?G), w2)"
    using contacts.exclusive [OF assms(1) _ _ t p contact_ck_keeps solid r, of ?G "contact_ck V"] EqualFold_facts(2) assms(5)
    by (auto simp: facts)
  ultimately show ?thesis by (simp add: check_is_cached [OF _ assms(3)] facts)
qed

text \<open>Undisturbed, a request is the check.\<close>

lemma contact_alone:
  "check_run (contact_ck V) (contact_field V k u l v f look) (service_client V) 6 (contact_start V k u l v f look w)
    = (Decided (fst (ensureContactUnique V k u l v f look w)), snd (ensureContactUnique V k u l v f look w))"
  using start_alone [of "contact_ck V" "service_client V"]
  by (auto simp: contact_start_def ensureContactUnique_def decided_run simp del: check_run.simps split: prod.splits)

text \<open>A table that knows nobody with this value, while its data stay of this kind.\<close>

definition finds_nobody :: "svc_error + User option \<Rightarrow> bool" where
  "finds_nobody r \<longleftrightarrow> (case r of Inl e \<Rightarrow> IsCode e code_ErrUserNotFound | Inr u \<Rightarrow> entity_name u = [])"

definition nobody_has :: "(instant \<Rightarrow> string \<Rightarrow> 'd \<Rightarrow> (svc_error + User option) \<times> 'd) \<Rightarrow> string \<Rightarrow> ('d \<Rightarrow> bool) \<Rightarrow> bool" where
  "nobody_has query v free \<longleftrightarrow> (\<forall>t d. free d \<longrightarrow> finds_nobody (fst (query t v d)) \<and> free (snd (query t v d)))"

text \<open>A request of a named user on a service that has not given up Redis; it does not end before the given time, and asks the table of users, for which
  nobody has the contact.\<close>

definition request_ready ::
  "(instant \<Rightarrow> string \<Rightarrow> 'd \<Rightarrow> (svc_error + User option) \<times> 'd) \<Rightarrow> ('d \<Rightarrow> bool) \<Rightarrow> instant \<Rightarrow> ('r, 'l, 'd) contact_request \<Rightarrow> bool" where
  "request_ready query free until q \<longleftrightarrow> TrimSpace (cr_owner q) \<noteq> []
    \<and> \<not> sw_degraded (cr_world q) \<and> \<not> IsCreateDegraded (cr_world q) \<and> \<not> rq_canceled (cr_world q)
    \<and> (case rq_end (cr_world q) of None \<Rightarrow> True | Some e \<Rightarrow> until \<le> e)
    \<and> (\<exists>preflight field asked. cr_lookup q = contact_lookup_of query preflight field asked \<and> map_of preflight field = None)
    \<and> nobody_has query (cr_value q) free"

text \<open>What a request in each phase has seen; the argument is the owner the key shows.\<close>

definition phase_fits :: "string option \<Rightarrow> string \<Rightarrow> svc_error check_phase \<Rightarrow> bool" where
  "phase_fits cur owner p \<longleftrightarrow>
    (case p of ReadKey \<Rightarrow> True | ClaimKey \<Rightarrow> True | RereadKey \<Rightarrow> cur \<noteq> None
     | AskTable acquired \<Rightarrow> acquired \<and> (\<exists>c. cur = Some c \<and> EqualFold c owner)
     | WriteOwner x acquired \<Rightarrow> False
     | GiveBack e acquired \<Rightarrow> \<not> acquired
     | Decided r \<Rightarrow> r = None \<longrightarrow> (\<exists>c. cur = Some c \<and> EqualFold c owner))"

lemma phase_fits_mono: "phase_fits None owner p \<Longrightarrow> phase_fits (Some c) owner p"
  by (cases p) (auto simp: phase_fits_def)

definition key_shows :: "instant \<Rightarrow> instant \<Rightarrow> (string \<times> instant option) option \<Rightarrow> string option \<Rightarrow> bool" where
  "key_shows until now x cur \<longleftrightarrow> (case cur of None \<Rightarrow> kv_live now x = None
     | Some c \<Rightarrow> TrimSpace c \<noteq> [] \<and> (\<exists>e. x = Some (c, Some e) \<and> until \<le> e))"

lemma key_shows_live: "key_shows until now x cur \<Longrightarrow> now < until \<Longrightarrow> map_option fst (kv_live now x) = cur"
  by (auto simp: key_shows_def kv_live_def split: option.splits)

lemma key_shows_later: "key_shows until now x cur \<Longrightarrow> now \<le> t \<Longrightarrow> key_shows until t x cur"
  by (auto simp: key_shows_def kv_live_def split: option.splits if_splits)

lemma request_good:
  assumes "redis_up V view" and "request_ready query free until q" and "now < until"
  shows "service_good V view ((cr_world q)\<lparr>sw_pending := p, sw_db := d, sw_clock := now\<rparr>)"
  using assms by (auto simp: request_ready_def service_good_def request_error_def IsCreateDegraded_def split: option.splits)

lemma contact_ttl [simp]: "ck_PlaceholderTTL (contact_ck V) = contactPlaceholderTTL"
  by (simp add: NewChecker_def contact_checker_def)

text \<open>One command of one request: the key keeps its owner, or gets this one.\<close>

lemma command_keeps:
  assumes up: "redis_up V view" and key: "TrimSpace key \<noteq> []" and q: "request_ready query free until q"
    and w: "w = joined sh (cr_world q)" and now: "ch_clock sh < until" "until \<le> ch_clock sh + contactPlaceholderTTL" and db: "free (ch_db sh)"
    and x: "key_shows until (ch_clock sh) (view (ch_redis sh) (fixKey (sr_prefix V) key)) cur"
    and fits: "\<And>p. cr_phase q = Some p \<Longrightarrow> phase_fits cur (cr_owner q) p"
    and call: "request_command V key q w = (p, w')"
  shows "\<exists>pd d cur'. w' = w\<lparr>sw_pending := pd, sw_db := d\<rparr> \<and> free d \<and> (cur \<noteq> None \<longrightarrow> cur' = cur)
    \<and> key_shows until (ch_clock sh) (view (pd_redis pd) (fixKey (sr_prefix V) key)) cur' \<and> phase_fits cur' (cr_owner q) p"
proof -
  let ?F = "contact_field V key (cr_owner q) (cr_label q) (cr_value q) (cr_field q) (cr_lookup q)" and ?cl = "service_client V"
  let ?k = "fixKey (sr_prefix V) key"
  have good: "service_good V view w" using request_good [OF up q now(1)] by (simp add: w joined_def)
  have ww: "view (pd_redis (sw_pending w)) = view (ch_redis sh)" "sw_db w = ch_db sh" "sw_clock w = ch_clock sh" by (simp_all add: w joined_def)
  have at: "key_at V view w key = cur" using key_shows_live [OF x now(1)] by (simp add: key_at_def ww)
  have owner: "TrimSpace (cr_owner q) \<noteq> []" using q by (simp add: request_ready_def)
  note F = contact_field_simps owner EqualFold_facts(1)
  have blank: "TrimSpace c \<noteq> []" if "cur = Some c" for c using x that by (simp add: key_shows_def)
  have same: ?thesis if "w' = w\<lparr>sw_pending := pd\<rparr>" "view (pd_redis pd) = view (ch_redis sh)" "phase_fits cur (cr_owner q) p" for pd
    using that x db by (intro exI [of _ pd] exI [of _ "ch_db sh"] exI [of _ cur]) (simp add: ww [symmetric])
  have still: ?thesis if "w' = w" "phase_fits cur (cr_owner q) p"
    using same [of "sw_pending w"] that ww by simp
  obtain pg where g: "cl_GetKey ?cl key w = ((case cur of None \<Rightarrow> Inl redis_Nil | Some c \<Rightarrow> Inr c), w\<lparr>sw_pending := pg\<rparr>)"
    "view (pd_redis pg) = view (ch_redis sh)"
  proof -
    obtain p where "svc_GetKey V key w = (Inr cur, w\<lparr>sw_pending := p\<rparr>)" "view (pd_redis p) = view (ch_redis sh)"
      using read_svc_get [OF up, of key w] by (auto simp: at ww)
    then show ?thesis by (intro that [of p]) (cases cur; simp add: service_client_def)+
  qed
  show ?thesis
  proof (cases "cr_phase q")
    case None
    then have "p = ReadKey" "w' = w" using call good key by (simp_all add: request_command_def contact_start_def check_start_def service_good_def holds_of_def F)
    then show ?thesis by (intro still) (simp_all add: phase_fits_def)
  next
    case (Some ph)
    have step: "check_step (contact_ck V) ?F ?cl ph w = (p, w')" using call Some by (simp add: request_command_def)
    note fit = fits [OF Some]
    show ?thesis
    proof (cases ph)
      case ReadKey
      with step g(1) blank have "w' = w\<lparr>sw_pending := pg\<rparr>" "phase_fits cur (cr_owner q) p"
        by (auto simp: F holds_of_def phase_fits_def split: option.splits if_splits)
      from same [OF this(1) g(2) this(2)] show ?thesis .
    next
      case ClaimKey
      obtain pn where n: "cl_SetNX ?cl key (cr_owner q) contactPlaceholderTTL w = (Inr (cur = None), w\<lparr>sw_pending := pn\<rparr>)"
        "view (pd_redis pn) = (if cur = None then (view (ch_redis sh))(?k \<mapsto> kv_entry (ch_clock sh) (cr_owner q) contactPlaceholderTTL) else view (ch_redis sh))"
        using view_svc_setnx [OF up, of key "cr_owner q" contactPlaceholderTTL w] by (auto simp: service_client_def at ww)
      show ?thesis
      proof (cases cur)
        case None
        have e: "key_shows until (ch_clock sh) (view (pd_redis pn) ?k) (Some (cr_owner q))"
          using n(2) None now(2) owner by (simp add: key_shows_def kv_entry_def contactPlaceholderTTL_def Second_def)
        from step ClaimKey n(1) None have "w' = w\<lparr>sw_pending := pn\<rparr>" "phase_fits (Some (cr_owner q)) (cr_owner q) p"
          by (auto simp: F phase_fits_def contacts.instant_command claim_phase_def Let_def split: if_splits)
        with e None db show ?thesis by (intro exI [of _ pn] exI [of _ "ch_db sh"] exI [of _ "Some (cr_owner q)"]) (simp add: ww [symmetric])
      next
        case (Some c)
        with step ClaimKey n(1) have "w' = w\<lparr>sw_pending := pn\<rparr>" "p = RereadKey" by (simp_all add: F contacts.instant_command)
        with n(2) Some show ?thesis by (intro same [of pn]) (simp_all add: phase_fits_def)
      qed
    next
      case RereadKey
      then obtain c where c: "cur = Some c" using fit by (auto simp: phase_fits_def)
      with step RereadKey g(1) blank [OF c] have "w' = w\<lparr>sw_pending := pg\<rparr>" "phase_fits cur (cr_owner q) p"
        by (auto simp: F phase_fits_def claim_phase_def split: if_splits)
      from same [OF this(1) g(2) this(2)] show ?thesis .
    next
      case (AskTable acquired)
      obtain preflight field asked where L: "cr_lookup q = contact_lookup_of query preflight field asked" "map_of preflight field = None"
        using q unfolding request_ready_def by blast
      have N: "finds_nobody (fst (query t (cr_value q) (ch_db sh)))" "free (snd (query t (cr_value q) (ch_db sh)))" for t
        using q db unfolding request_ready_def nobody_has_def by blast+
      have re: "request_error w = None" using good by (simp add: service_good_def)
      obtain r d where r: "contact_lookup_of query preflight field asked (newDBContext (contactLookupTimeout V) w) (cr_value q) w = (r, w\<lparr>sw_db := d\<rparr>)"
        "finds_nobody r" "free d"
      proof (cases asked)
        case True
        with L re db show ?thesis
          by (intro that [of "Inl (Coded code_ErrUserNotFound svc_user_absent)" "ch_db sh"])
             (simp_all add: contact_lookup_of_def finds_nobody_def IsCode_def ww [symmetric])
      next
        case False
        let ?t = "newDBContext (contactLookupTimeout V) w"
        from False L re N [of ?t] show ?thesis
          by (intro that [of "fst (query ?t (cr_value q) (ch_db sh))" "snd (query ?t (cr_value q) (ch_db sh))"])
             (simp_all add: contact_lookup_of_def sw_table_def ww split: prod.splits)
      qed
      have "runLookup (contact_ck V) ?F w = (Inr (case r of Inl e \<Rightarrow> None | Inr a \<Rightarrow> a), w\<lparr>sw_db := d\<rparr>)"
        unfolding L(1) by (rule run_lookup_answer [OF r(1)]) (use r(2) in \<open>simp add: finds_nobody_def\<close>)
      moreover have "entity_name (case r of Inl e \<Rightarrow> None | Inr a \<Rightarrow> a) = []"
        using r(2) by (simp add: finds_nobody_def entity_name_def split: sum.splits)
      ultimately have "w' = w\<lparr>sw_db := d\<rparr>" "p = Decided None" using step AskTable by (simp_all add: F)
      with r(3) x fit AskTable show ?thesis
        by (intro exI [of _ "sw_pending w"] exI [of _ d] exI [of _ cur]) (simp add: phase_fits_def ww)
    next
      case (WriteOwner y acquired)
      with fit show ?thesis by (simp add: phase_fits_def)
    next
      case (GiveBack e acquired)
      with fit step show ?thesis by (intro still) (auto simp: phase_fits_def)
    next
      case (Decided r)
      with fit step show ?thesis by (intro still) (auto simp: phase_fits_def)
    qed
  qed
qed

text \<open>What holds of all requests and the key together, at any moment.\<close>

definition contact_inv ::
  "('r, 'l, 'd) UserService \<Rightarrow> ('r \<Rightarrow> kview) \<Rightarrow> string \<Rightarrow> (instant \<Rightarrow> string \<Rightarrow> 'd \<Rightarrow> (svc_error + User option) \<times> 'd) \<Rightarrow> ('d \<Rightarrow> bool)
    \<Rightarrow> instant \<Rightarrow> ('r, 'd) contact_shared \<times> ('r, 'l, 'd) contact_request list \<Rightarrow> bool" where
  "contact_inv V view key query free until st \<longleftrightarrow>
    (case st of (sh, rs) \<Rightarrow> until \<le> ch_clock sh + contactPlaceholderTTL \<and> free (ch_db sh)
      \<and> (\<exists>cur. key_shows until (ch_clock sh) (view (ch_redis sh) (fixKey (sr_prefix V) key)) cur
          \<and> (\<forall>q\<in>set rs. request_ready query free until q \<and> (\<forall>p. cr_phase q = Some p \<longrightarrow> phase_fits cur (cr_owner q) p))))"

text \<open>Others leave the key and the absence of the contact from the table alone.\<close>

fun turn_apart :: "('r \<Rightarrow> kview) \<Rightarrow> string \<Rightarrow> ('d \<Rightarrow> bool) \<Rightarrow> ('r, 'd) contact_turn \<Rightarrow> bool" where
  "turn_apart view k free (Others f g) \<longleftrightarrow> (\<forall>r. view (f r) k = view r k) \<and> (\<forall>d. free d \<longrightarrow> free (g d))"
| "turn_apart view k free turn \<longleftrightarrow> True"

fun turn_time :: "('r, 'd) contact_turn \<Rightarrow> int" where
  "turn_time (Elapses n) = int n"
| "turn_time turn = 0"

lemma turn_keeps:
  assumes up: "redis_up V view" and key: "TrimSpace key \<noteq> []" and inv: "contact_inv V view key query free until (sh, rs)"
    and now: "ch_clock sh < until" and apart: "turn_apart view (fixKey (sr_prefix V) key) free turn"
    and step: "contact_turn_step V key turn (sh, rs) = (sh', rs')"
  shows "contact_inv V view key query free until (sh', rs') \<and> ch_clock sh' = ch_clock sh + turn_time turn"
proof -
  obtain cur where I: "until \<le> ch_clock sh + contactPlaceholderTTL" "free (ch_db sh)"
    "key_shows until (ch_clock sh) (view (ch_redis sh) (fixKey (sr_prefix V) key)) cur"
    "\<And>q. q \<in> set rs \<Longrightarrow> request_ready query free until q" "\<And>q p. q \<in> set rs \<Longrightarrow> cr_phase q = Some p \<Longrightarrow> phase_fits cur (cr_owner q) p"
    using inv by (auto simp: contact_inv_def)
  show ?thesis
  proof (cases turn)
    case (Elapses n)
    with step have s: "sh' = sh\<lparr>ch_clock := ch_clock sh + int n\<rparr>" "rs' = rs" by auto
    have "key_shows until (ch_clock sh + int n) (view (ch_redis sh) (fixKey (sr_prefix V) key)) cur" by (rule key_shows_later [OF I(3)]) simp
    with s I Elapses show ?thesis by (auto simp: contact_inv_def intro!: exI [of _ cur])
  next
    case (Others f g)
    with step have s: "sh' = sh\<lparr>ch_redis := f (ch_redis sh), ch_db := g (ch_db sh)\<rparr>" "rs' = rs" by auto
    with I Others apart show ?thesis by (auto simp: contact_inv_def intro!: exI [of _ cur])
  next
    case (Takes i)
    show ?thesis
    proof (cases "i < length rs")
      case True
      let ?q = "rs ! i"
      obtain p w' where c: "request_command V key ?q (joined sh (cr_world ?q)) = (p, w')" by fastforce
      have q: "?q \<in> set rs" using True by simp
      obtain pd d cur' where k: "w' = (joined sh (cr_world ?q))\<lparr>sw_pending := pd, sw_db := d\<rparr>" "free d" "cur \<noteq> None \<longrightarrow> cur' = cur"
        "key_shows until (ch_clock sh) (view (pd_redis pd) (fixKey (sr_prefix V) key)) cur'" "phase_fits cur' (cr_owner ?q) p"
        using command_keeps [OF up key I(4) [OF q] refl now I(1-3) I(5) [OF q] c] by blast
      let ?q' = "?q\<lparr>cr_world := w', cr_phase := Some p\<rparr>"
      from step Takes True c have s: "sh' = shared_of w'" "rs' = rs[i := ?q']" by auto
      have w: "ch_redis sh' = pd_redis pd" "ch_db sh' = d" "ch_clock sh' = ch_clock sh" by (simp_all add: s k(1) shared_of_def joined_def)
      have ready: "request_ready query free until ?q'" using I(4) [OF q] by (simp add: request_ready_def k(1) joined_def IsCreateDegraded_def)
      have others: "phase_fits cur' owner ph" if "phase_fits cur owner ph" for owner ph
        using that k(3) phase_fits_mono by (cases cur; cases cur') auto
      have "\<forall>q\<in>set rs'. request_ready query free until q \<and> (\<forall>ph. cr_phase q = Some ph \<longrightarrow> phase_fits cur' (cr_owner q) ph)"
        using set_update_subset_insert [of rs i ?q'] I(4,5) ready k(5) others unfolding s(2) by auto
      with w k(2,4) I(1) Takes show ?thesis by (auto simp: contact_inv_def intro!: exI [of _ cur'])
    next
      case False
      with step Takes inv show ?thesis by auto
    qed
  qed
qed

definition contact_run ::
  "('r, 'l, 'd) UserService \<Rightarrow> string \<Rightarrow> ('r, 'd) contact_turn list \<Rightarrow> ('r, 'd) contact_shared \<times> ('r, 'l, 'd) contact_request list
    \<Rightarrow> ('r, 'd) contact_shared \<times> ('r, 'l, 'd) contact_request list" where
  "contact_run V key turns st = fold (contact_turn_step V key) turns st"

lemma contact_run_keeps:
  assumes "redis_up V view" and "TrimSpace key \<noteq> []" and "contact_inv V view key query free until st"
    and "\<forall>turn\<in>set turns. turn_apart view (fixKey (sr_prefix V) key) free turn" and "ch_clock (fst st) + sum_list (map turn_time turns) < until"
  shows "contact_inv V view key query free until (contact_run V key turns st)"
  using assms(3-)
proof (induction turns arbitrary: st)
  case (Cons turn turns)
  obtain sh rs sh' rs' where s: "st = (sh, rs)" "contact_turn_step V key turn (sh, rs) = (sh', rs')" by (metis prod.collapse)
  have pos: "0 \<le> turn_time t" for t :: "('a, 'c) contact_turn" by (cases t) simp_all
  then have "0 \<le> sum_list (map turn_time turns)" by (induction turns) simp_all
  with Cons.prems(3) s(1) pos [of turn] have now: "ch_clock sh < until" by simp
  from turn_keeps [OF assms(1,2) _ now _ s(2)] Cons.prems(1,2) s(1)
  have "contact_inv V view key query free until (sh', rs')" "ch_clock sh' = ch_clock sh + turn_time turn" by simp_all
  with Cons.IH [of "(sh', rs')"] Cons.prems(2,3) s show ?case by (simp add: contact_run_def)
qed (simp add: contact_run_def)

text \<open>C14. A contact has one owner, on Redis: let a mail address or a phone number be free in the cache and in the table. However the commands of
  any number of checks of this contact interleave, in one process or in several, with time passing and others at work on other
  keys: as long as fewer than 30 seconds (the lifetime of a placeholder) have passed and no check is ended by its context, all users whose check has passed
  have the same name, up to case. Redis and the table answer, and the table still has nobody with the contact.\<close>

theorem contact_exclusive:
  assumes "redis_up V view" and "TrimSpace key \<noteq> []"
    and "kv_live (ch_clock sh) (view (ch_redis sh) (fixKey (sr_prefix V) key)) = None" and "free (ch_db sh)"
    and "until = ch_clock sh + contactPlaceholderTTL"
    and "\<forall>q\<in>set rs. cr_phase q = None \<and> request_ready query free until q"
    and "\<forall>turn\<in>set turns. turn_apart view (fixKey (sr_prefix V) key) free turn" and "sum_list (map turn_time turns) < contactPlaceholderTTL"
    and "contact_run V key turns (sh, rs) = (sh', rs')"
    and "i < length rs'" and "cr_phase (rs' ! i) = Some (Decided None)" and "j < length rs'" and "cr_phase (rs' ! j) = Some (Decided None)"
  shows "EqualFold (cr_owner (rs' ! i)) (cr_owner (rs' ! j))"
proof -
  have "key_shows until (ch_clock sh) (view (ch_redis sh) (fixKey (sr_prefix V) key)) None" using assms(3) by (simp add: key_shows_def)
  then have start: "contact_inv V view key query free until (sh, rs)"
    unfolding contact_inv_def prod.case using assms(4,5,6) by (intro conjI exI [of _ None]) simp_all
  have time: "ch_clock (fst (sh, rs)) + sum_list (map turn_time turns) < until" unfolding assms(5) fst_conv using assms(8) by linarith
  have "contact_inv V view key query free until (sh', rs')" using contact_run_keeps [OF assms(1,2) start assms(7) time] unfolding assms(9) .
  then obtain cur where H: "\<And>q p. q \<in> set rs' \<Longrightarrow> cr_phase q = Some p \<Longrightarrow> phase_fits cur (cr_owner q) p"
    unfolding contact_inv_def prod.case by blast
  have owner: "\<exists>c. cur = Some c \<and> EqualFold c (cr_owner (rs' ! n))" if "n < length rs'" "cr_phase (rs' ! n) = Some (Decided None)" for n
    using H [OF nth_mem [OF that(1)] that(2)] by (simp add: phase_fits_def)
  from owner [OF assms(10,11)] obtain c where c: "cur = Some c" "EqualFold c (cr_owner (rs' ! i))" by blast
  from owner [OF assms(12,13)] c(1) have "EqualFold c (cr_owner (rs' ! j))" by simp
  with c(2) show ?thesis by (rule EqualFold_facts(3))
qed

text \<open>What happens while the service runs on its own cache: checks of contacts, the passing of time, and the removal of what has expired. Each is one call.\<close>

datatype ('r, 'l, 'd) degraded_event =
    ChecksContact string string string string string "('r, 'l, 'd) contact_lookup"
  | TimePasses nat
  | RemovesExpired

fun degraded_event_step ::
  "('r, 'l, 'd) UserService \<Rightarrow> ('r, 'l, 'd) degraded_event \<Rightarrow> ('r, 'l, 'd) service_world \<Rightarrow> ('r, 'l, 'd) service_world" where
  "degraded_event_step V (ChecksContact k u l v f look) w = snd (ensureContactUnique V k u l v f look w)"
| "degraded_event_step V (TimePasses n) w = sw_sleep (int n) w"
| "degraded_event_step V RemovesExpired w = cleanupContactDegradeCache w"

fun event_time :: "('r, 'l, 'd) degraded_event \<Rightarrow> int" where
  "event_time (TimePasses n) = int n"
| "event_time ev = 0"

text \<open>A look-up changes nothing but the table.\<close>

fun event_plain :: "('r, 'l, 'd) degraded_event \<Rightarrow> bool" where
  "event_plain (ChecksContact k u l v f look) \<longleftrightarrow> (\<forall>t v w. \<exists>r d. look t v w = (r, w\<lparr>sw_db := d\<rparr>))"
| "event_plain ev \<longleftrightarrow> True"

definition entry_kept :: "('r, 'l, 'd) UserService \<Rightarrow> string \<Rightarrow> contactDegradeCacheEntry \<Rightarrow> instant \<Rightarrow> int \<Rightarrow> ('r, 'l, 'd) service_world \<Rightarrow> bool" where
  "entry_kept V key e until room w \<longleftrightarrow> contacts_ok V w \<and> sw_degraded w \<and> map_of (sw_contacts w) key = Some e
     \<and> de_expires e = UnixNano until \<and> in64 (until - unix_epoch) \<and> in64 (sw_clock w - unix_epoch) \<and> sw_clock w \<le> until
     \<and> int (length (sw_contacts w)) + room \<le> contactRedisDegradeCacheLimit V"

lemma kept_fresh: "entry_kept V key e until room w \<Longrightarrow> \<not> contact_expired w e"
  by (auto simp: entry_kept_def contact_expired_def UnixNano_def wrap64_id)

lemma kept_clock:
  assumes "entry_kept V key e until room w" and "0 \<le> d" and "sw_clock w + d \<le> until"
  shows "entry_kept V key e until room (w\<lparr>sw_clock := sw_clock w + d\<rparr>)"
  using assms by (auto simp: entry_kept_def contacts_ok_def in64_def)

lemma map_le_length:
  assumes "map_of m \<subseteq>\<^sub>m map_of m'" and "distinct (map fst m)"
  shows "length m \<le> length m'"
proof -
  have "length m = card (dom (map_of m))" using assms(2) by (metis distinct_card dom_map_of_conv_image_fst length_map set_map)
  also have "\<dots> \<le> card (dom (map_of m'))" using map_le_implies_dom_le [OF assms(1)] by (intro card_mono) (simp_all add: finite_dom_map_of)
  also have "\<dots> \<le> length m'" by (metis card_length dom_map_of_conv_image_fst length_map set_map)
  finally show ?thesis .
qed

lemma kept_cleanup:
  assumes "entry_kept V key e until room w"
  shows "entry_kept V key e until room (cleanupContactDegradeCache w)"
proof -
  have ok: "contacts_ok V w" and at: "map_of (sw_contacts w) key = Some e" using assms by (simp_all add: entry_kept_def)
  have only: "\<forall>(k, x)\<in>set (sw_contacts w). k = key \<longrightarrow> \<not> contact_expired w x"
  proof clarify
    fix x assume "(key, x) \<in> set (sw_contacts w)" and "contact_expired w x"
    then have "x = e" using at ok by (simp add: contacts_ok_def)
    with kept_fresh [OF assms] \<open>contact_expired w x\<close> show False by simp
  qed
  let ?del = "\<lambda>(k, x) v. if contact_expired w x then snd (contactDegradeCacheDelete k v) else v"
  have "map_of (sw_contacts (fold ?del es v)) key = map_of (sw_contacts v) key"
    if "\<forall>(k, x)\<in>set es. k = key \<longrightarrow> \<not> contact_expired w x" "contacts_ok V v" for es v
    using that
  proof (induction es arbitrary: v)
    case (Cons a es)
    obtain k x where a: "a = (k, x)" by (cases a)
    with Cons delete_contact [OF Cons.prems(2), of k] show ?case by auto
  qed simp
  from this [OF only ok] have "map_of (sw_contacts (cleanupContactDegradeCache w)) key = Some e"
    unfolding cleanup_as_fold [OF refl] using at by simp
  moreover have "length (sw_contacts (cleanupContactDegradeCache w)) \<le> length (sw_contacts w)"
    using cleanup_contacts [OF ok] map_le_length unfolding contacts_ok_def by blast
  ultimately show ?thesis using cleanup_contacts [OF ok] assms by (auto simp: entry_kept_def)
qed

text \<open>Claiming the entry of another contact.\<close>

lemma kept_claim:
  assumes "entry_kept V key e until room w" and "0 < room" and "k \<noteq> key"
  shows "entry_kept V key e until (room - 1) (contactDegradeCacheSet V k owner w)"
proof (cases "TrimSpace k = []")
  case True
  with assms(1,2) show ?thesis by (simp add: contactDegradeCacheSet_def entry_kept_def)
next
  case False
  have ok: "contacts_ok V w" and room: "int (length (sw_contacts w)) + room \<le> contactRedisDegradeCacheLimit V" using assms(1) by (simp_all add: entry_kept_def)
  have ttl: "\<not> contactRedisDegradeTTL V \<le> 0" by (simp add: contactRedisDegradeTTL_def positive_or_def Second_def)
  define w1 where "w1 = (case map_of (sw_contacts w) k of None \<Rightarrow> w
     | Some x \<Rightarrow> if contact_expired w x then snd (contactDegradeCacheDelete k w) else w)"
  have w1: "contacts_ok V w1" "map_of (sw_contacts w1) key = map_of (sw_contacts w) key" "map_of (sw_contacts w1) \<subseteq>\<^sub>m map_of (sw_contacts w)"
    using ok delete_contact(1,2) [OF ok, of k] assms(3) by (auto simp: w1_def map_le_def split: option.splits)
  have "length (sw_contacts w1) \<le> length (sw_contacts w)" using map_le_length [OF w1(3)] w1(1) by (simp add: contacts_ok_def)
  then have size: "sw_contacts_size w1 < contactRedisDegradeCacheLimit V" using w1(1) room assms(2) by (simp add: contacts_ok_def)
  then have cap: "ensureContactDegradeCacheCapacity V w1 = (True, w1)" by (simp add: ensureContactDegradeCacheCapacity_def)
  let ?put = "\<lambda>v. AList.update k \<lparr>de_owner = owner, de_expires = UnixNano (time_Add (sw_clock v) (contactRedisDegradeTTL V))\<rparr> (sw_contacts v)"
  have set: "sw_contacts (contactDegradeCacheSet V k owner w) = ?put w1"
    using False ttl cap by (auto simp: contactDegradeCacheSet_def w1_def split: option.splits)
  have len: "length (AList.update k x m) \<le> Suc (length m)" for x and m :: "(string \<times> contactDegradeCacheEntry) list"
    by (induction m) auto
  have "map_of (?put w1) key = Some e" using w1(2) assms(1,3) by (simp add: update_conv' entry_kept_def)
  moreover have "int (length (?put w1)) + (room - 1) \<le> contactRedisDegradeCacheLimit V"
    using len [of "\<lparr>de_owner = owner, de_expires = UnixNano (time_Add (sw_clock w1) (contactRedisDegradeTTL V))\<rparr>" "sw_contacts w1"]
      \<open>length (sw_contacts w1) \<le> length (sw_contacts w)\<close> room by linarith
  ultimately show ?thesis using assms(1) put_contacts(1-3) [OF ok, of k owner] by (simp add: entry_kept_def set)
qed

lemma kept_frame: "entry_kept V key e until room (w\<lparr>sw_db := d\<rparr>) = entry_kept V key e until room w"
  by (simp add: entry_kept_def contacts_ok_def)

text \<open>The check of the contact itself is decided by the entry.\<close>

lemma kept_refuses:
  assumes "entry_kept V key e until room w" and "de_owner e \<noteq> []" and "TrimSpace key \<noteq> []"
  shows "ensureContactUnique V key u l v f look w = (if EqualFold (de_owner e) u then None else Some (taken_error l v), w)"
  using assms kept_fresh [OF assms(1)]
  by (simp add: entry_kept_def ensureContactUnique_def ensureContactUniqueDegraded_def contactDegradeCacheGet_def)

lemma check_clock:
  assumes "contacts_ok V w" and "sw_degraded w" and "\<forall>t v w. \<exists>r d. look t v w = (r, w\<lparr>sw_db := d\<rparr>)"
  shows "sw_clock (snd (ensureContactUnique V k u l v f look w)) = sw_clock w"
proof -
  obtain o1 w1 where g: "contactDegradeCacheGet k w = (o1, w1)" by fastforce
  have w1: "contacts_ok V w1" "sw_clock w1 = sw_clock w"
    using g assms(1) delete_contact [OF assms(1), of k] by (auto simp: contactDegradeCacheGet_def split: option.splits if_splits)
  obtain r d where L: "look (newDBContext (contactLookupTimeout V) w1) v w1 = (r, w1\<lparr>sw_db := d\<rparr>)" using assms(3) by blast
  have "contacts_ok V (w1\<lparr>sw_db := d\<rparr>)" using w1(1) by (simp add: contacts_ok_def)
  from put_contacts(2) [OF this, of k] g L w1(2) assms(2) show ?thesis
    by (auto simp: ensureContactUnique_def ensureContactUniqueDegraded_def Let_def split: option.splits sum.splits)
qed

lemma kept_check:
  assumes "entry_kept V key e until room w" and "0 < room" and "de_owner e \<noteq> []" and "\<forall>t v w. \<exists>r d. look t v w = (r, w\<lparr>sw_db := d\<rparr>)"
  shows "entry_kept V key e until (room - 1) (snd (ensureContactUnique V k u l v f look w))"
proof (cases "TrimSpace k = [] \<or> k = key")
  case True
  have "snd (ensureContactUnique V k u l v f look w) = w"
  proof (cases "TrimSpace k = []")
    case False
    with True kept_refuses [OF assms(1,3), of u l v f look] show ?thesis by simp
  qed (simp add: ensureContactUnique_def)
  with assms(1) show ?thesis by (simp add: entry_kept_def)
next
  case False
  have deg: "sw_degraded w" and ok: "contacts_ok V w" using assms(1) by (simp_all add: entry_kept_def)
  have less: "entry_kept V key e until (room - 1) v" if "entry_kept V key e until room v" for v using that by (simp add: entry_kept_def)
  obtain o1 w1 where g: "contactDegradeCacheGet k w = (o1, w1)" by fastforce
  have "length (sw_contacts (snd (contactDegradeCacheDelete k w))) \<le> length (sw_contacts w)"
    using delete_contact(1,2) [OF ok, of k] by (intro map_le_length) (auto simp: contacts_ok_def map_le_def)
  then have "entry_kept V key e until room (snd (contactDegradeCacheDelete k w))"
    using assms(1) delete_contact [OF ok, of k] False by (auto simp: entry_kept_def)
  then have w1: "entry_kept V key e until room w1" using g assms(1) by (auto simp: contactDegradeCacheGet_def split: option.splits if_splits)
  obtain r d where L: "look (newDBContext (contactLookupTimeout V) w1) v w1 = (r, w1\<lparr>sw_db := d\<rparr>)" using assms(4) by blast
  have w2: "entry_kept V key e until room (w1\<lparr>sw_db := d\<rparr>)" using w1 by (simp add: kept_frame)
  have "entry_kept V key e until (room - 1) (contactDegradeCacheSet V k owner (w1\<lparr>sw_db := d\<rparr>))" for owner
    using kept_claim [OF w2 assms(2)] False by blast
  with False deg g L less [OF w1] less [OF w2] show ?thesis
    by (auto simp: ensureContactUnique_def ensureContactUniqueDegraded_def Let_def split: option.splits sum.splits)
qed

definition checks_in :: "('r, 'l, 'd) degraded_event list \<Rightarrow> int" where
  "checks_in evs = int (length (filter (\<lambda>ev. case ev of ChecksContact k u l v f look \<Rightarrow> True | _ \<Rightarrow> False) evs))"

lemma kept_run:
  assumes "entry_kept V key e until (checks_in evs + room) w" and "0 \<le> room" and "de_owner e \<noteq> []" and "\<forall>ev\<in>set evs. event_plain ev"
    and "sw_clock w + sum_list (map event_time evs) \<le> until"
  shows "entry_kept V key e until room (fold (degraded_event_step V) evs w)"
  using assms
proof (induction evs arbitrary: w)
  case (Cons ev evs)
  have pos: "0 \<le> event_time x" for x :: "('a, 'b, 'c) degraded_event" by (cases x) simp_all
  then have rest: "0 \<le> sum_list (map event_time evs)" by (induction evs) simp_all
  have "entry_kept V key e until (checks_in evs + room) (degraded_event_step V ev w) \<and> sw_clock (degraded_event_step V ev w) = sw_clock w + event_time ev"
  proof (cases ev)
    case (ChecksContact k u l v f look)
    have n: "checks_in (ev # evs) + room - 1 = checks_in evs + room" "0 < checks_in (ev # evs) + room" using Cons.prems(2) ChecksContact by (simp_all add: checks_in_def)
    have plain: "\<forall>t v w. \<exists>r d. look t v w = (r, w\<lparr>sw_db := d\<rparr>)" using Cons.prems(4) ChecksContact by simp
    note K = kept_check [OF Cons.prems(1) n(2) Cons.prems(3) plain, of k u l v f, unfolded n(1)]
    have "sw_clock (snd (ensureContactUnique V k u l v f look w)) = sw_clock w" by (rule check_clock [OF _ _ plain]) (use Cons.prems(1) in \<open>simp_all add: entry_kept_def\<close>)
    with K ChecksContact show ?thesis by simp
  next
    case (TimePasses n)
    have "checks_in (ev # evs) = checks_in evs" using TimePasses by (simp add: checks_in_def)
    with kept_clock [of V key e until "checks_in evs + room" w "int n"] Cons.prems(1,5) rest TimePasses show ?thesis by (simp add: sw_sleep_def)
  next
    case RemovesExpired
    have "checks_in (ev # evs) = checks_in evs" using RemovesExpired by (simp add: checks_in_def)
    moreover have "sw_clock (cleanupContactDegradeCache w) = sw_clock w" using cleanup_contacts(2) Cons.prems(1) unfolding entry_kept_def by blast
    ultimately show ?thesis using kept_cleanup [OF Cons.prems(1)] RemovesExpired by simp
  qed
  with Cons.IH [of "degraded_event_step V ev w"] Cons.prems show ?case by simp
qed (simp add: checks_in_def)

lemma look_plain: "\<exists>r d. contact_lookup_of query preflight field asked t v w = (r, w\<lparr>sw_db := d\<rparr>)"
  by (auto simp: contact_lookup_of_def sw_table_def split: option.splits prod.splits intro: exI [of _ "sw_db w"])

text \<open>C15. A contact has one owner, without Redis: the service runs on its own cache, one check at a time. Once the check of a contact the cache does not
  have has let one user take it, every check of it by a user of another name (up to case) is refused, whatever the table then says, whatever checks of
  this and other contacts by anybody and removals of expired entries come between: as long as no more time has passed than an entry
  lives (20 seconds unless configured), Redis stays given up, and the cache cannot have become full. Two checks at the same time are another
  matter: see below.\<close>

theorem degraded_contact_exclusive:
  assumes "contacts_ok V w" and "sw_degraded w" and "TrimSpace key \<noteq> []" and "TrimSpace u1 \<noteq> []" and "\<not> EqualFold u1 u2"
    and free: "fst (contactDegradeCacheGet key w) = None"
    and r: "ensureContactUnique V key u1 l1 v1 f1 (contact_lookup_of query preflight field asked) w = (None, w1)"
    and clock: "in64 (sw_clock w - unix_epoch)" "in64 (sw_clock w + contactRedisDegradeTTL V - unix_epoch)"
    and plain: "\<forall>ev\<in>set evs. event_plain ev" and time: "sum_list (map event_time evs) \<le> contactRedisDegradeTTL V"
    and room: "int (length (sw_contacts w1)) + checks_in evs \<le> contactRedisDegradeCacheLimit V"
  shows "\<exists>w3. ensureContactUnique V key u2 l2 v2 f2 look (fold (degraded_event_step V) evs w1) = (Some (taken_error l2 v2), w3)"
proof -
  let ?look = "contact_lookup_of query preflight field asked"
  have ttl: "0 < contactRedisDegradeTTL V" by (simp add: contactRedisDegradeTTL_def positive_or_def Second_def)
  have u1: "u1 \<noteq> []" using assms(4) by auto
  obtain w' where g: "contactDegradeCacheGet key w = (None, w')" using free by (metis prod.collapse)
  have w': "contacts_ok V w'" "sw_degraded w'" "sw_clock w' = sw_clock w"
    using g assms(1,2) delete_contact [OF assms(1), of key] by (auto simp: contactDegradeCacheGet_def split: option.splits if_splits)
  obtain x d where L: "?look (newDBContext (contactLookupTimeout V) w') v1 w' = (x, w'\<lparr>sw_db := d\<rparr>)" using look_plain [of query preflight field asked _ v1 w'] by blast
  have ok: "contacts_ok V (w'\<lparr>sw_db := d\<rparr>)" using w'(1) by (simp add: contacts_ok_def)
  obtain c where c: "c \<noteq> []" "EqualFold c u1" "w1 = contactDegradeCacheSet V key c (w'\<lparr>sw_db := d\<rparr>)"
    using r assms(2,3) g L u1 EqualFold_facts(1) [of u1]
    by (auto simp: ensureContactUnique_def ensureContactUniqueDegraded_def Let_def split: sum.splits if_splits)
  let ?e = "\<lparr>de_owner = c, de_expires = UnixNano (sw_clock w + contactRedisDegradeTTL V)\<rparr>"
  note put = put_contacts [OF ok, of key c]
  have "entry_kept V key ?e (sw_clock w + contactRedisDegradeTTL V) (checks_in evs + 0) w1"
    using put(1,2,3) put(4) [OF assms(3)] w' clock room ttl by (simp add: entry_kept_def c(3) time_Add_def)
  from kept_run [OF this _ _ plain] time c(1) put(2) w'(3)
  have K: "entry_kept V key ?e (sw_clock w + contactRedisDegradeTTL V) 0 (fold (degraded_event_step V) evs w1)" by (simp add: c(3))
  have "\<not> EqualFold c u2" using c(2) assms(5) EqualFold_facts(2) by blast
  with kept_refuses [OF K _ assms(3), of u2 l2 v2 f2 look] c(1) show ?thesis by auto
qed

section \<open>Two claims at once\<close>

text \<open>Undisturbed, six commands are the whole check without Redis.\<close>

lemma degraded_alone:
  assumes "contacts_ok V w" and "dg_phase q = AskCache" and "\<forall>t v w. \<exists>r d. dg_lookup q t v w = (r, w\<lparr>sw_db := d\<rparr>)"
  shows "degraded_run V key [0, 0, 0, 0, 0, 0] ([q], w)
    = ([q\<lparr>dg_phase := Answered (fst (ensureContactUniqueDegraded V key (dg_user q) (dg_label q) (dg_value q) (dg_lookup q) w))\<rparr>],
       snd (ensureContactUniqueDegraded V key (dg_user q) (dg_label q) (dg_value q) (dg_lookup q) w))"
proof -
  let ?t = "degrade_step V key (dg_user q) (dg_label q) (dg_value q) (dg_lookup q)"
  have run: "degraded_run V key (replicate n 0) ([q\<lparr>dg_phase := p\<rparr>], v) = ([q\<lparr>dg_phase := fst (((\<lambda>(p, v). ?t p v) ^^ n) (p, v))\<rparr>], snd (((\<lambda>(p, v). ?t p v) ^^ n) (p, v)))"
    for n p v by (induction n arbitrary: p v) (simp_all add: funpow_swap1 split: prod.splits)
  have ended: "((\<lambda>(p, v). ?t p v) ^^ n) (Answered r, v) = (Answered r, v)" for n r v by (induction n) simp_all
  have claim: "((\<lambda>(p, v). ?t p v) ^^ 4) (LoadEntry owner r, v) = (Answered r, contactDegradeCacheSet V key owner v)" if "contacts_ok V v" for owner r v
  proof -
    have still: "sw_clock (snd (ensureContactDegradeCacheCapacity V v1)) = sw_clock v1" if "contacts_ok V v1" for v1
      using capacity_contacts [OF that] by (metis prod.collapse)
    note del = delete_contact [OF that, of key]
    show ?thesis using still [OF that] still [OF del(1)] del(3)
      by (auto simp: contactDegradeCacheSet_def numeral_eq_Suc Let_def split: option.splits prod.splits bool.splits)
  qed
  obtain o1 w1 where g: "contactDegradeCacheGet key w = (o1, w1)" by fastforce
  have w1: "contacts_ok V w1"
    using g assms(1) delete_contact [OF assms(1), of key] by (auto simp: contactDegradeCacheGet_def split: option.splits if_splits)
  obtain r d where L: "dg_lookup q (newDBContext (contactLookupTimeout V) w1) (dg_value q) w1 = (r, w1\<lparr>sw_db := d\<rparr>)" using assms(3) by blast
  have "contacts_ok V (w1\<lparr>sw_db := d\<rparr>)" using w1 by (simp add: contacts_ok_def)
  note claim = claim [OF this]
  have six: "((\<lambda>(p, v). ?t p v) ^^ 6) (AskCache, w) = ((\<lambda>(p, v). ?t p v) ^^ 4) (case ?t AskCache w of (p, v) \<Rightarrow> ?t p v)"
    by (simp add: numeral_eq_Suc funpow_swap1)
  have "((\<lambda>(p, v). ?t p v) ^^ 6) (AskCache, w)
      = (Answered (fst (ensureContactUniqueDegraded V key (dg_user q) (dg_label q) (dg_value q) (dg_lookup q) w)),
         snd (ensureContactUniqueDegraded V key (dg_user q) (dg_label q) (dg_value q) (dg_lookup q) w))"
    unfolding six using g L claim ended by (auto simp: ensureContactUniqueDegraded_def Let_def split: option.splits sum.splits)
  with run [of 6 AskCache w] assms(2) show ?thesis by (simp add: numeral_eq_Suc)
qed

text \<open>C37. Two claims at once, without Redis: nothing locks the service's own cache between the look-up and the claim, nor the entry and the counter. Two checks of a
  contact that neither the cache nor the table has, by two users, command by command in turn, let both take it; the cache
  has one entry more, its counter is two higher, and stays wrong.\<close>

theorem degraded_check_race:
  assumes "contacts_ok V w" and "TrimSpace key \<noteq> []" and "map_of (sw_contacts w) key = None" and "sw_contacts_size w < contactRedisDegradeCacheLimit V"
    and "request_error w = None" and "nobody_has query v free" and "free (sw_db w)"
    and q: "q1 = \<lparr>dg_user = u1, dg_label = l, dg_value = v, dg_lookup = contact_lookup_of query [] f False, dg_phase = AskCache\<rparr>"
      "q2 = \<lparr>dg_user = u2, dg_label = l, dg_value = v, dg_lookup = contact_lookup_of query [] f False, dg_phase = AskCache\<rparr>"
  shows "\<exists>w'. degraded_run V key [0, 1, 0, 1, 0, 1, 0, 1, 0, 1, 0, 1] ([q1, q2], w)
        = ([q1\<lparr>dg_phase := Answered None\<rparr>, q2\<lparr>dg_phase := Answered None\<rparr>], w')
    \<and> length (sw_contacts w') = length (sw_contacts w) + 1 \<and> sw_contacts_size w' = sw_contacts_size w + 2 \<and> \<not> contacts_ok V w'"
proof -
  let ?L = "contact_lookup_of query [] f False"
  have ttl: "\<not> contactRedisDegradeTTL V \<le> 0" by (simp add: contactRedisDegradeTTL_def positive_or_def Second_def)
  have nobody: "\<exists>d. ?L t v (w\<lparr>sw_db := d0\<rparr>) = (r0, w\<lparr>sw_db := d\<rparr>) \<and> finds_nobody r0 \<and> free d"
    if "free d0" "r0 = fst (query t v d0)" for t d0 r0
    using that assms(5,6) unfolding nobody_has_def
    by (intro exI [of _ "snd (query t v d0)"]) (simp add: contact_lookup_of_def sw_table_def split: prod.splits)
  have ask: "\<exists>d. degrade_step V key u l v ?L AskUsers (w\<lparr>sw_db := d0\<rparr>) = (LoadEntry u None, w\<lparr>sw_db := d\<rparr>) \<and> free d" if "free d0" for u d0
    using nobody [OF that refl, of "newDBContext (contactLookupTimeout V) (w\<lparr>sw_db := d0\<rparr>)"]
    by (auto simp: finds_nobody_def Let_def split: sum.splits)
  obtain d1 where d1: "degrade_step V key u1 l v ?L AskUsers w = (LoadEntry u1 None, w\<lparr>sw_db := d1\<rparr>)" "free d1"
  proof -
    have "w\<lparr>sw_db := sw_db w\<rparr> = w" by simp
    with ask [OF assms(7), of u1] that show ?thesis by metis
  qed
  obtain d2 where d2: "degrade_step V key u2 l v ?L AskUsers (w\<lparr>sw_db := d1\<rparr>) = (LoadEntry u2 None, w\<lparr>sw_db := d2\<rparr>)"
    using ask [OF d1(2)] by blast
  have look: "degrade_step V key u l v ?L AskCache w = (AskUsers, w)" for u using assms(3) by (simp add: contactDegradeCacheGet_def)
  have load: "degrade_step V key u l v ?L (LoadEntry u None) (w\<lparr>sw_db := d\<rparr>) = (MakeRoom u None (sw_clock w), w\<lparr>sw_db := d\<rparr>)" for u d
    using assms(2,3) ttl by simp
  have make: "degrade_step V key u l v ?L (MakeRoom u None n) (w\<lparr>sw_db := d\<rparr>) = (StoreEntry u None n False, w\<lparr>sw_db := d\<rparr>)" for u n d
    using assms(4) by (simp add: ensureContactDegradeCacheCapacity_def)
  have put: "AList.update key x m = m @ [(key, x)]" if "map_of m key = None" for x and m :: "(string \<times> contactDegradeCacheEntry) list"
    using that by (induction m) (auto split: if_splits)
  have again: "AList.update key y (m @ [(key, x)]) = m @ [(key, y)]" if "map_of m key = None" for x y and m :: "(string \<times> contactDegradeCacheEntry) list"
    using that by (induction m) (auto split: if_splits)
  note steps = look load make d1(1) d2
  show ?thesis
    unfolding q using assms(1) by (simp add: steps put [OF assms(3)] again [OF assms(3)] contacts_ok_def del: degrade_step.simps(1-4))
qed

section \<open>Copying the stored users\<close>

definition contact_keys :: "User \<Rightarrow> string list" where
  "contact_keys u = [EmailKey (NormalizeEmail (us_Email u)), PhoneKey (NormalizePhone (us_Phone u))]"

text \<open>The answers of a database with these users, the newest first, to the query of a page.\<close>

definition table_lists :: "'d database \<Rightarrow> User list \<Rightarrow> bool" where
  "table_lists run users \<longleftrightarrow> (\<forall>n i d. \<exists>d'. run (list_query '' WHERE status = ?'') [ArgInt 1, ArgInt n, ArgInt i] d
     = (Inr (take (nat n) (drop (nat i) (filter (\<lambda>u. us_Status u = 1) users))), d'))"

lemma warm_key_up:
  assumes "redis_up V view"
  shows "\<exists>p. warm_key V k name w = (None, w\<lparr>sw_pending := p\<rparr>)
    \<and> key_at V view (w\<lparr>sw_pending := p\<rparr>) = (if k = [] then key_at V view w else (key_at V view w)(k \<mapsto> name))"
  using up_svc_set [OF assms, of k name contactCacheTTL w]
  by (cases "k = []") (auto simp: warm_key_def intro: exI [of _ "sw_pending w"])

text \<open>Copying a page shows the contacts of its users, and leaves every other key alone.\<close>

lemma warm_entries_up:
  assumes "redis_up V view"
  shows "\<exists>p. warm_entries V (map Some us) w = (None, w\<lparr>sw_pending := p\<rparr>)
    \<and> (\<forall>k. k \<notin> (\<Union>u\<in>set us. set (contact_keys u)) \<longrightarrow> key_at V view (w\<lparr>sw_pending := p\<rparr>) k = key_at V view w k)
    \<and> (\<forall>k. k \<noteq> [] \<longrightarrow> k \<in> (\<Union>u\<in>set us. set (contact_keys u)) \<longrightarrow>
         (\<exists>u\<in>set us. k \<in> set (contact_keys u) \<and> key_at V view (w\<lparr>sw_pending := p\<rparr>) k = Some (om_Name u)))"
proof (induction us arbitrary: w)
  case Nil
  show ?case by (intro exI [of _ "sw_pending w"]) simp
next
  case (Cons u us)
  let ?e = "EmailKey (NormalizeEmail (us_Email u))" and ?f = "PhoneKey (NormalizePhone (us_Phone u))"
  obtain p where p: "warm_key V ?e (om_Name u) w = (None, w\<lparr>sw_pending := p\<rparr>)"
      "key_at V view (w\<lparr>sw_pending := p\<rparr>) = (if ?e = [] then key_at V view w else (key_at V view w)(?e \<mapsto> om_Name u))"
    using warm_key_up [OF assms] by blast
  obtain q where q: "warm_key V ?f (om_Name u) (w\<lparr>sw_pending := p\<rparr>) = (None, w\<lparr>sw_pending := q\<rparr>)"
      "key_at V view (w\<lparr>sw_pending := q\<rparr>) = (if ?f = [] then key_at V view (w\<lparr>sw_pending := p\<rparr>) else (key_at V view (w\<lparr>sw_pending := p\<rparr>))(?f \<mapsto> om_Name u))"
    using warm_key_up [OF assms, of ?f "om_Name u" "w\<lparr>sw_pending := p\<rparr>"] by auto
  obtain r where r: "warm_entries V (map Some us) (w\<lparr>sw_pending := q\<rparr>) = (None, w\<lparr>sw_pending := r\<rparr>)"
      "\<And>k. k \<notin> (\<Union>u\<in>set us. set (contact_keys u)) \<Longrightarrow> key_at V view (w\<lparr>sw_pending := r\<rparr>) k = key_at V view (w\<lparr>sw_pending := q\<rparr>) k"
      "\<And>k. k \<noteq> [] \<Longrightarrow> k \<in> (\<Union>u\<in>set us. set (contact_keys u)) \<Longrightarrow>
         \<exists>u\<in>set us. k \<in> set (contact_keys u) \<and> key_at V view (w\<lparr>sw_pending := r\<rparr>) k = Some (om_Name u)"
    using Cons.IH [of "w\<lparr>sw_pending := q\<rparr>"] by auto
  show ?case
  proof (intro exI [of _ r] conjI allI impI)
    show "warm_entries V (map Some (u # us)) w = (None, w\<lparr>sw_pending := r\<rparr>)" using p(1) q(1) r(1) by simp
  next
    fix k assume k: "k \<notin> (\<Union>u\<in>set (u # us). set (contact_keys u))"
    then have "k \<noteq> ?e" "k \<noteq> ?f" by (auto simp: contact_keys_def)
    then have "key_at V view (w\<lparr>sw_pending := q\<rparr>) k = key_at V view w k" by (simp add: p(2) q(2))
    with r(2) [of k] k show "key_at V view (w\<lparr>sw_pending := r\<rparr>) k = key_at V view w k" by simp
  next
    fix k assume k: "k \<noteq> []" "k \<in> (\<Union>u\<in>set (u # us). set (contact_keys u))"
    show "\<exists>u\<in>set (u # us). k \<in> set (contact_keys u) \<and> key_at V view (w\<lparr>sw_pending := r\<rparr>) k = Some (om_Name u)"
    proof (cases "k \<in> (\<Union>u\<in>set us. set (contact_keys u))")
      case True
      from r(3) [OF k(1) this] show ?thesis by auto
    next
      case False
      with k have "k \<in> {?e, ?f}" by (auto simp: contact_keys_def)
      with k(1) have "key_at V view (w\<lparr>sw_pending := q\<rparr>) k = Some (om_Name u)" by (auto simp: p(2) q(2))
      with r(2) [OF False] \<open>k \<in> {?e, ?f}\<close> show ?thesis by (auto simp: contact_keys_def)
    qed
  qed
qed

text \<open>One page ends the copying: it is never as full as the copying expects a page with a successor to be.\<close>

lemma first_page_up:
  assumes "st_List (sr_store V) = users_page run" and "table_lists run users"
  shows "\<exists>d. list_page V 0 w = (Inr (Some (map Some (take 100 (filter (\<lambda>u. us_Status u = 1) users)))), w\<lparr>sw_db := d\<rparr>)"
proof -
  have "page_limit contactWarmupBatchSize = 100" by (simp add: page_limit_def contactWarmupBatchSize_def DefaultLimit_def)
  moreover obtain d where "run (list_query '' WHERE status = ?'') [ArgInt 1, ArgInt 100, ArgInt 0] (sw_db w)
      = (Inr (take 100 (filter (\<lambda>u. us_Status u = 1) users)), d)"
    using assms(2) [unfolded table_lists_def, rule_format, of 100 0 "sw_db w"] by auto
  ultimately show ?thesis unfolding list_page_def by (intro exI [of _ d] retry_first) (simp_all add: sw_table_def assms(1) users_page_eq)
qed

lemma warm_first_page:
  assumes "redis_up V view" and "st_List (sr_store V) = users_page run" and "table_lists run users" and "request_error w = None" and "0 < n"
  shows "\<exists>p d. warm_pages V n 0 w = (Some None, w\<lparr>sw_pending := p, sw_db := d\<rparr>)
    \<and> (\<forall>k. k \<notin> (\<Union>u\<in>set (take 100 (filter (\<lambda>u. us_Status u = 1) users)). set (contact_keys u))
         \<longrightarrow> key_at V view (w\<lparr>sw_pending := p, sw_db := d\<rparr>) k = key_at V view w k)"
proof -
  let ?us = "take 100 (filter (\<lambda>u. us_Status u = 1) users)"
  obtain m where n: "n = Suc m" using assms(5) by (cases n) auto
  obtain d where d: "list_page V 0 w = (Inr (Some (map Some ?us)), w\<lparr>sw_db := d\<rparr>)" using first_page_up [OF assms(2,3)] by blast
  obtain p where p: "warm_entries V (map Some ?us) (w\<lparr>sw_db := d\<rparr>) = (None, w\<lparr>sw_db := d, sw_pending := p\<rparr>)"
    "\<forall>k. k \<notin> (\<Union>u\<in>set ?us. set (contact_keys u)) \<longrightarrow> key_at V view (w\<lparr>sw_db := d, sw_pending := p\<rparr>) k = key_at V view (w\<lparr>sw_db := d\<rparr>) k"
    using warm_entries_up [OF assms(1), of ?us "w\<lparr>sw_db := d\<rparr>"] by blast
  have swap: "w\<lparr>sw_db := d, sw_pending := p\<rparr> = w\<lparr>sw_pending := p, sw_db := d\<rparr>" by simp
  note p = p [unfolded swap]
  show ?thesis
  proof (cases "?us = []")
    case True
    have "key_at V view (w\<lparr>sw_pending := sw_pending w, sw_db := d\<rparr>) = key_at V view w" by (rule ext) (simp add: key_at_def)
    with True d assms(4) n show ?thesis by (intro exI [of _ "sw_pending w"] exI [of _ d]) simp
  next
    case False
    have "int (length ?us) < contactWarmupBatchSize" by (simp add: contactWarmupBatchSize_def)
    with False d p assms(4) n show ?thesis by (intro exI [of _ p] exI [of _ d]) simp
  qed
qed

text \<open>When the cache is ready, claiming a free key is the whole check.\<close>

lemma ready_claim:
  assumes "service_good V view w" and "key_at V view w k = None" and "sw_ready w" and "TrimSpace u \<noteq> []" and "\<not> EqualFold u NegativeCacheSentinel"
  shows "\<exists>w2. check_cached (contact_ck V) (contact_field V k u l v f look) (service_client V) w = (None, w2)
    \<and> key_at V view w2 = (key_at V view w)(k \<mapsto> u)"
proof -
  let ?F = "contact_field V k u l v f look"
  have up: "redis_up V view" using assms(1) by (rule service_good_up)
  obtain p where p: "svc_GetKey V k w = (Inr None, w\<lparr>sw_pending := p\<rparr>)" "key_at V view (w\<lparr>sw_pending := p\<rparr>) = key_at V view w"
    using up_svc_get [OF up, of k w] assms(2) by auto
  obtain q where q: "svc_SetNX V k u contactPlaceholderTTL (w\<lparr>sw_pending := p\<rparr>) = (Inr True, w\<lparr>sw_pending := q\<rparr>)"
    "key_at V view (w\<lparr>sw_pending := q\<rparr>) = (key_at V view w)(k \<mapsto> u)"
    using up_svc_setnx [OF up, of k u contactPlaceholderTTL "w\<lparr>sw_pending := p\<rparr>"] p(2) assms(2) by auto
  have "holds_of (fc_SkipPlaceholderLookup ?F) u" using assms(4,5) by (auto simp: contact_field_def holds_of_def)
  with p(1) q assms(3,4) have "check_cached (contact_ck V) ?F (service_client V) w = (None, w\<lparr>sw_pending := q\<rparr>)"
    by (simp add: check_cached_def claim_key_def service_client_def contact_field_simps holds_of_def contacts.instant_command)
  with q(2) show ?thesis by blast
qed

text \<open>C38. Taken contacts pass after the copying: with the table of users as it lists them, the copying at the start ends without an error and the cache counts
  as ready, but only the first hundred active users have been copied. A mail address (or phone number) of any other stored user, if its key was free, is still
  free; and the check, which does not ask the table when the cache is ready, lets any named user take it.\<close>

theorem warmup_lets_taken_contacts_pass:
  assumes "service_good V view w" and "st_List (sr_store V) = users_page run" and "table_lists run users" and "0 < n"
    and "so_EnableContactWarmup (sr_opts V)" and "\<not> sw_ready w" and "\<not> sw_warming w"
    and "owner \<in> set users" and "key \<in> set (contact_keys owner)" and "TrimSpace key \<noteq> []" and "key_at V view w key = None"
    and "key \<notin> (\<Union>u\<in>set (take 100 (filter (\<lambda>u. us_Status u = 1) users)). set (contact_keys u))"
    and "TrimSpace other \<noteq> []" and "\<not> EqualFold other (om_Name owner)" and "\<not> EqualFold other NegativeCacheSentinel"
  shows "\<exists>w1 w2. WarmupContactCacheBlocking V n w = (Some None, w1) \<and> sw_ready w1
    \<and> ensureContactUnique V key other l v f look w1 = (None, w2) \<and> key_at V view w2 key = Some other"
proof -
  have up: "redis_up V view" using assms(1) by (rule service_good_up)
  let ?w = "(w\<lparr>sw_warming := True\<rparr>)"
  let ?v = "if rq_end ?w = None then ?w\<lparr>rq_end := Some (sw_clock ?w + contactWarmupTimeout)\<rparr> else ?w"
  have "request_error w = None" using assms(1) by (simp add: service_good_def)
  then have re: "request_error ?v = None"
    by (cases "rq_end w") (auto simp: request_error_def contactWarmupTimeout_def Minute_def Second_def split: if_splits)
  obtain p d where r: "warm_pages V n 0 ?v = (Some None, ?v\<lparr>sw_pending := p, sw_db := d\<rparr>)"
      "key_at V view (?v\<lparr>sw_pending := p, sw_db := d\<rparr>) key = key_at V view ?v key"
    using warm_first_page [OF up assms(2,3) re assms(4)] assms(12) by blast
  let ?x = "(?v\<lparr>sw_pending := p, sw_db := d\<rparr>)\<lparr>rq_end := rq_end ?w\<rparr>" let ?w1 = "completeContactWarmup None ?x"
  have c: "warmContactCache V n ?w = (Some None, ?x)" unfolding warmContactCache_def r(1) by simp
  have "pe_redis (sr_env V) \<noteq> None" using up by (simp add: redis_up_def)
  then have W: "WarmupContactCacheBlocking V n w = (Some None, ?w1)"
    using assms(5-7) by (simp add: WarmupContactCacheBlocking_def c del: fun_upd_apply)
  have ready: "sw_ready ?w1" by (simp add: completeContactWarmup_def)
  have at: "key_at V view ?w1 key = None" using r(2) assms(11) by (simp add: completeContactWarmup_def)
  have "request_error ?w1 = request_error w" by (cases "rq_end w") (simp_all add: request_error_def completeContactWarmup_def)
  then have good: "service_good V view ?w1" using assms(1) by (simp add: service_good_def completeContactWarmup_def IsCreateDegraded_def)
  let ?F = "contact_field V key other l v f look"
  obtain w2 where w2: "check_cached (contact_ck V) ?F (service_client V) ?w1 = (None, w2)" "key_at V view w2 = (key_at V view ?w1)(key \<mapsto> other)"
    using ready_claim [OF good at ready assms(13,15)] by blast
  have "ensureContactUnique V key other l v f look ?w1 = (None, w2)" unfolding check_is_cached [OF good assms(10)] by (rule w2(1))
  with W ready w2(2) show ?thesis by (intro exI [of _ ?w1] exI [of _ w2]) simp
qed

section \<open>What is cached about a name\<close>

definition cached_value :: "('r, 'l, 'd) UserService \<Rightarrow> string \<Rightarrow> svc_error + User option \<times> bool" where
  "cached_value V data =
    (if data = NegativeCacheSentinel then Inr (Some (sentinel_user NegativeCacheSentinel (- 1)), True)
     else if data = BlacklistSentinel then Inr (Some (sentinel_user BlacklistSentinel (- 2)), True)
     else case payload_Unmarshal (sr_payload V) data of
            Inl e \<Rightarrow> Inl (Coded code_ErrDecodingFailed svc_decode_failed)
          | Inr None \<Rightarrow> Inl (Library False svc_invalid_user)
          | Inr (Some u) \<Rightarrow> Inr (Some u, True))"

lemma get_cache_up:
  assumes "redis_up V view"
  shows "\<exists>p. getFromCache V k w = (case key_at V view w k of None \<Rightarrow> Inr (None, False) | Some data \<Rightarrow> cached_value V data, w\<lparr>sw_pending := p\<rparr>)
    \<and> view (pd_redis p) = view (pd_redis (sw_pending w))"
proof -
  obtain p where "svc_GetKey V k w = (Inr (key_at V view w k), w\<lparr>sw_pending := p\<rparr>)" "view (pd_redis p) = view (pd_redis (sw_pending w))"
    using read_svc_get [OF assms] by blast
  then show ?thesis by (intro exI [of _ p]) (simp add: getFromCache_def cached_value_def split: option.splits)
qed

lemma sentinels_differ: "BlacklistSentinel \<noteq> NegativeCacheSentinel" by (simp add: BlacklistSentinel_def NegativeCacheSentinel_def)

text \<open>C39. The sentinels do not work: a name whose cached copy is the mark of a missing or of a blocked user is answered as if
  nothing were cached, and the mark is deleted, because the users that stand for the marks have version 0.\<close>

theorem sentinel_answers_miss:
  assumes "redis_up V view" and "key_at V view w (UserKey u) = Some NegativeCacheSentinel \<or> key_at V view w (UserKey u) = Some BlacklistSentinel"
  shows "\<exists>w'. tryGetFromCache V u w = (Inr (None, False), w') \<and> key_at V view w' = (key_at V view w)(UserKey u := None)"
proof -
  obtain p where p: "getFromCache V (UserKey u) w = (case key_at V view w (UserKey u) of None \<Rightarrow> Inr (None, False) | Some data \<Rightarrow> cached_value V data, w\<lparr>sw_pending := p\<rparr>)"
      "key_at V view (w\<lparr>sw_pending := p\<rparr>) = key_at V view w"
    using get_cache_up [OF assms(1)] key_at_same by blast
  obtain q where q: "svc_DeleteKey V (UserKey u) (w\<lparr>sw_pending := p\<rparr>) = (None, w\<lparr>sw_pending := q\<rparr>)"
      "key_at V view (w\<lparr>sw_pending := q\<rparr>) = (key_at V view w)(UserKey u := None)"
    using up_svc_delete [OF assms(1), of "UserKey u" "w\<lparr>sw_pending := p\<rparr>"] p(2) by auto
  obtain x where x: "getFromCache V (UserKey u) w = (Inr (Some x, True), w\<lparr>sw_pending := p\<rparr>)" "om_Version x = 0"
    using assms(2) p(1) sentinels_differ by (auto simp: cached_value_def sentinel_user_def zero_user_def)
  with q redis_upD(3) [OF assms(1)] show ?thesis by (auto simp: tryGetFromCache_def)
qed

section \<open>Reading through the cache\<close>

lemma colon_apart:
  assumes "CHR '':'' \<notin> set u"
  shows "u \<noteq> ''blacklist:'' @ v" "u \<noteq> ''block-counter:'' @ v"
  using assms by (auto dest!: arg_cong [where f = set])

lemma own_keys:
  assumes "CHR '':'' \<notin> set u"
  shows "UserKey u \<noteq> BlacklistKey u" "UserKey u \<noteq> BlockCounterKey u" "NegativeCounterKey u \<noteq> BlockCounterKey u \<or> NegativeCounterKey u = []"
    "BlacklistKey u \<noteq> NegativeCounterKey u \<or> BlacklistKey u = []" "BlacklistKey u \<noteq> BlockCounterKey u \<or> BlacklistKey u = []"
  using colon_apart [OF assms, of "TrimSpace u"]
  by (simp_all add: UserKey_def BlacklistKey_def NegativeCounterKey_def BlockCounterKey_def userPrefix_def blacklistPrefix_def
      negativeCounterPrefix_def blockCounterPrefix_def Let_def)

lemma blacklist_up:
  assumes "redis_up V view" and "TrimSpace u \<noteq> []"
  shows "\<exists>p. isUserBlacklisted V u w = (Inr (key_at V view w (BlacklistKey u) = Some BlacklistSentinel), w\<lparr>sw_pending := p\<rparr>)
    \<and> view (pd_redis p) = view (pd_redis (sw_pending w))"
proof -
  have "u \<noteq> []" "BlacklistKey u \<noteq> []" using assms(2) by (auto simp: BlacklistKey_def blacklistPrefix_def Let_def)
  with read_svc_get [OF assms(1), of "BlacklistKey u" w] redis_upD(3) [OF assms(1)] show ?thesis
    by (auto simp: isUserBlacklisted_def)
qed

lemma blocked_get:
  assumes "redis_up V view" and "TrimSpace u \<noteq> []" and "key_at V view w (BlacklistKey u) = Some BlacklistSentinel"
  shows "\<exists>w'. service_Get V u w = (Inr (Some (sentinel_user BlacklistSentinel 0)), w') \<and> sw_db w' = sw_db w"
proof -
  let ?w = "w\<lparr>rq_primary := rq_force w \<or> rq_primary w\<rparr>"
  obtain p where "isUserBlacklisted V u ?w = (Inr True, ?w\<lparr>sw_pending := p\<rparr>)"
    using blacklist_up [OF assms(1,2), of ?w] assms(3) by auto
  then show ?thesis unfolding service_Get_def with_primary_def by simp
qed

lemma miss_up:
  assumes "redis_up V view" and "key_at V view w (UserKey u) = None"
  shows "\<exists>p. tryGetFromCache V u w = (Inr (None, False), w\<lparr>sw_pending := p\<rparr>) \<and> view (pd_redis p) = view (pd_redis (sw_pending w))"
  using get_cache_up [OF assms(1), of "UserKey u" w] assms(2) by (auto simp: tryGetFromCache_def)

lemma hit_up:
  assumes "redis_up V view" and "key_at V view w (UserKey u) = Some data" and "data \<noteq> NegativeCacheSentinel" and "data \<noteq> BlacklistSentinel"
    and "payload_Unmarshal (sr_payload V) data = Inr (Some y)" and "om_Version y \<noteq> 0" and "\<not> is_sentinel y"
  shows "\<exists>p. tryGetFromCache V u w = (Inr (Some y, True), w\<lparr>sw_pending := p\<rparr>) \<and> view (pd_redis p) = view (pd_redis (sw_pending w))"
  using get_cache_up [OF assms(1), of "UserKey u" w] assms(2-)
  by (auto simp: tryGetFromCache_def cached_value_def cached_answer_def is_sentinel_def)

text \<open>The two ways of a Get of a name that is not blocked.\<close>

lemma get_miss:
  assumes "\<not> rq_force w" and "isUserBlacklisted V u w = (Inr False, w1)" and "tryGetFromCache V u w1 = (Inr (None, False), w2)"
    and "getUserFromDBAndSetCache V (rq_end w2) u w2 = (r, w3)" and "rq_primary w3 = rq_primary w"
  shows "service_Get V u w = (r, w3)"
proof -
  have "w3\<lparr>rq_primary := rq_primary w\<rparr> = w3" by (simp add: assms(5) [symmetric])
  with assms(1-4) show ?thesis by (simp add: service_Get_def with_primary_def)
qed

lemma get_hit:
  assumes "\<not> rq_force w" and "isUserBlacklisted V u w = (Inr False, w1)" and "tryGetFromCache V u w1 = (Inr (Some y, True), w2)"
    and "\<not> rq_force w2" and "rq_primary w2 = rq_primary w"
  shows "service_Get V u w = (Inr (Some y), w2)"
proof -
  have "w2\<lparr>rq_primary := rq_primary w\<rparr> = w2" by (simp add: assms(5) [symmetric])
  with assms(1-4) show ?thesis by (simp add: service_Get_def with_primary_def)
qed

text \<open>C36. Reading through the cache: a user that was not cached is read from the table, and the next Get answers the decoded copy
  from the cache, without the table.\<close>

theorem get_reads_through:
  assumes "redis_up V view" and "\<not> rq_force w" and "TrimSpace u \<noteq> []" and "CHR '':'' \<notin> set u"
    and "key_at V view w (BlacklistKey u) \<noteq> Some BlacklistSentinel" and "key_at V view w (UserKey u) = None"
    and "st_Get (sr_store V) (rq_end w) (rq_primary w) u (sw_db w) = (Inr (Some x), d)"
    and "payload_Marshal (sr_payload V) x = Inr body" and "payload_Unmarshal (sr_payload V) body = Inr (Some y)"
    and "body \<noteq> NegativeCacheSentinel" and "body \<noteq> BlacklistSentinel" and "om_Version y \<noteq> 0" and "\<not> is_sentinel y"
  shows "\<exists>w1 w2. service_Get V u w = (Inr (Some x), w1) \<and> service_Get V u w1 = (Inr (Some y), w2) \<and> sw_db w2 = sw_db w1"
proof -
  obtain p where p: "isUserBlacklisted V u w = (Inr False, w\<lparr>sw_pending := p\<rparr>)" "view (pd_redis p) = view (pd_redis (sw_pending w))"
    using blacklist_up [OF assms(1,3), of w] assms(5) by auto
  have "key_at V view (w\<lparr>sw_pending := p\<rparr>) (UserKey u) = None" using key_at_same [OF p(2), of V] assms(6) by simp
  from miss_up [OF assms(1) this] obtain q where q: "tryGetFromCache V u (w\<lparr>sw_pending := p\<rparr>) = (Inr (None, False), w\<lparr>sw_pending := q\<rparr>)"
      "view (pd_redis q) = view (pd_redis (sw_pending w))"
    using p(2) by auto
  have qk: "key_at V view (w\<lparr>sw_pending := q\<rparr>) = key_at V view w" by (rule key_at_same [OF q(2)])
  let ?v = "(w\<lparr>sw_pending := q\<rparr>)\<lparr>sw_db := d\<rparr>"
  obtain s where s: "svc_SetKey V (UserKey u) body (Hour + sr_rand V 300 * Second) ?v = (None, ?v\<lparr>sw_pending := s\<rparr>)"
      "key_at V view (?v\<lparr>sw_pending := s\<rparr>) = (key_at V view w)(UserKey u \<mapsto> body)"
    using up_svc_set [OF assms(1), of "UserKey u" body _ ?v] qk by fastforce
  let ?w1 = "?v\<lparr>sw_pending := s\<rparr>"
  have "getUserFromDBAndSetCache V (rq_end w) u (w\<lparr>sw_pending := q\<rparr>) = (Inr (Some x), ?w1)"
    using s(1) assms(7,8)
    by (simp add: getUserFromDBAndSetCache_def strongConsistencyMaxRetries_def numeral_3_eq_3 sw_table_def service_setUserCache_def)
  then have first: "service_Get V u w = (Inr (Some x), ?w1)" by (intro get_miss [OF assms(2) p(1) q(1)]) simp_all
  obtain p2 where p2: "isUserBlacklisted V u ?w1 = (Inr False, ?w1\<lparr>sw_pending := p2\<rparr>)" "view (pd_redis p2) = view (pd_redis (sw_pending ?w1))"
    using blacklist_up [OF assms(1,3), of ?w1] s(2) own_keys(1) [OF assms(4)] assms(5) by auto
  have "key_at V view (?w1\<lparr>sw_pending := p2\<rparr>) (UserKey u) = Some body" using key_at_same [OF p2(2), of V] s(2) by simp
  from hit_up [OF assms(1) this assms(10,11,9,12,13)] obtain q2 where
    q2: "tryGetFromCache V u (?w1\<lparr>sw_pending := p2\<rparr>) = (Inr (Some y, True), ?w1\<lparr>sw_pending := q2\<rparr>)" by auto
  have "service_Get V u ?w1 = (Inr (Some y), ?w1\<lparr>sw_pending := q2\<rparr>)"
    by (rule get_hit [OF _ p2(1) q2]) (simp_all add: assms(2))
  with first show ?thesis by (intro exI [of _ ?w1] exI [of _ "?w1\<lparr>sw_pending := q2\<rparr>"]) simp
qed

section \<open>Names asked for in vain\<close>

definition entry_at :: "('r, 'l, 'd) UserService \<Rightarrow> ('r \<Rightarrow> kview) \<Rightarrow> ('r, 'l, 'd) service_world \<Rightarrow> string \<Rightarrow> (string \<times> instant option) option" where
  "entry_at V view w k = view (pd_redis (sw_pending w)) (fixKey (sr_prefix V) k)"

lemma redis_leaves:
  assumes "leaves view (fixKey (sr_prefix V) k) f" and "sw_redis f w = (x, w')"
  shows "\<exists>p. w' = w\<lparr>sw_pending := p\<rparr> \<and> entry_at V view w' k = entry_at V view w k"
proof -
  obtain r where r: "f (pd_redis (sw_pending w)) = (x, r)" "w' = w\<lparr>sw_pending := (sw_pending w)\<lparr>pd_redis := r\<rparr>\<rparr>"
    using assms(2) by (auto simp: sw_redis_def on_redis_def split: prod.splits)
  with leavesD [OF assms(1) r(1)] show ?thesis by (intro exI [of _ "(sw_pending w)\<lparr>pd_redis := r\<rparr>"]) (simp add: entry_at_def)
qed

lemma err_leaves: "leaves view k f \<Longrightarrow> leaves view k (\<lambda>r. err_of (f r))"
  by (rule leavesI) (auto simp: err_of_def dest: leavesD split: prod.splits sum.splits)

lemma commands_leave:
  assumes "redis_up V view"
  shows "svc_GetKey V k w = (x, w') \<Longrightarrow> \<exists>p. w' = w\<lparr>sw_pending := p\<rparr> \<and> entry_at V view w' k' = entry_at V view w k'"
    and "k' \<noteq> k \<Longrightarrow> svc_SetKey V k v ttl w = (y, w') \<Longrightarrow> \<exists>p. w' = w\<lparr>sw_pending := p\<rparr> \<and> entry_at V view w' k' = entry_at V view w k'"
    and "k' \<noteq> k \<Longrightarrow> svc_DeleteKey V k w = (y, w') \<Longrightarrow> \<exists>p. w' = w\<lparr>sw_pending := p\<rparr> \<and> entry_at V view w' k' = entry_at V view w k'"
    and "k' \<noteq> k \<or> k = [] \<Longrightarrow> count_miss V k d w = (n, w') \<Longrightarrow> \<exists>p. w' = w\<lparr>sw_pending := p\<rparr> \<and> entry_at V view w' k' = entry_at V view w k'"
proof -
  note L = redis_upD(1) [OF assms]
  have ne: "k' \<noteq> k \<Longrightarrow> fixKey (sr_prefix V) k' \<noteq> fixKey (sr_prefix V) k" by simp
  show "svc_GetKey V k w = (x, w') \<Longrightarrow> \<exists>p. w' = w\<lparr>sw_pending := p\<rparr> \<and> entry_at V view w' k' = entry_at V view w k'"
    unfolding svc_GetKey_def by (rule redis_leaves [OF reader_leaves(1) [OF L]])
  show "k' \<noteq> k \<Longrightarrow> svc_SetKey V k v ttl w = (y, w') \<Longrightarrow> \<exists>p. w' = w\<lparr>sw_pending := p\<rparr> \<and> entry_at V view w' k' = entry_at V view w k'"
    unfolding svc_SetKey_def cache_SetKey_def by (rule redis_leaves [OF err_leaves [OF wrapper_leaves(1) [OF L ne]]])
  show "k' \<noteq> k \<Longrightarrow> svc_DeleteKey V k w = (y, w') \<Longrightarrow> \<exists>p. w' = w\<lparr>sw_pending := p\<rparr> \<and> entry_at V view w' k' = entry_at V view w k'"
    unfolding svc_DeleteKey_def DeleteKey_def by (rule redis_leaves [OF err_leaves [OF wrapper_leaves(3) [OF L ne]]])
  show "k' \<noteq> k \<or> k = [] \<Longrightarrow> count_miss V k d w = (n, w') \<Longrightarrow> \<exists>p. w' = w\<lparr>sw_pending := p\<rparr> \<and> entry_at V view w' k' = entry_at V view w k'"
    using redis_leaves [OF wrapper_leaves(4) [OF L ne]] by (cases "k = []") (auto simp: count_miss_def intro: exI [of _ "sw_pending w"])
qed

lemma count_up:
  assumes "redis_up V view" and "k \<noteq> []" and "counter_value (kv_live (sw_clock w) (entry_at V view w k)) n t"
    and "0 \<le> n" and "in64 n" and "in64 (n + 1)"
  shows "\<exists>p. count_miss V k d w = (n + 1, w\<lparr>sw_pending := p\<rparr>)"
proof -
  let ?S = "sr_server V" and ?k = "fixKey (sr_prefix V) k" and ?now = "sw_clock w"
  note L = redis_upD(1) [OF assms(1)]
  obtain r1 where s: "send ?S (sv_INCR ?S ?now ?k) (pd_redis (sw_pending w)) = (Inr (fst (sv_INCR ?S ?now ?k r1)), snd (sv_INCR ?S ?now ?k r1))"
    and v: "view r1 = view (pd_redis (sw_pending w))" using up_send [OF L redis_upD(2) [OF assms(1)]] by blast
  have "fst (sv_INCR ?S ?now ?k r1) = Inr (n + 1)"
    using number_facts(1) [OF L _ assms(5,6)] assms(3) v unfolding entry_at_def by (metis fst_conv)
  moreover have "sv_up ?S (pd_redis (sw_pending w))" using redis_upD(2) [OF assms(1)] by (simp add: server_up_def)
  ultimately have "fst (IncrememntWithExpire ?S (sr_prefix V) ?now k (durationToSecondsCeil d) (pd_redis (sw_pending w))) = n + 1"
    using s by (simp add: IncrememntWithExpire_def Let_def)
  then show ?thesis using assms(2) by (auto simp: count_miss_def sw_redis_def on_redis_def split: prod.splits)
qed

lemma negative_frame:
  assumes "redis_up V view" and "negative_step V cfg u w = (a, w1)" and "k \<noteq> NegativeCounterKey u \<or> NegativeCounterKey u = []" and "k \<noteq> UserKey u"
  shows "\<exists>p. w1 = w\<lparr>sw_pending := p\<rparr> \<and> entry_at V view w1 k = entry_at V view w k"
proof -
  obtain n v where c: "count_miss V (NegativeCounterKey u) (pr_NegativeCacheWindow cfg) w = (n, v)" by fastforce
  obtain p where p: "v = w\<lparr>sw_pending := p\<rparr>" "entry_at V view v k = entry_at V view w k"
    using commands_leave(4) [OF assms(1,3) c] by blast
  obtain e v2 where e: "cacheNullValue V u (pr_NegativeCacheTTL cfg) v = (e, v2)" by fastforce
  have "\<exists>p. v2 = v\<lparr>sw_pending := p\<rparr> \<and> entry_at V view v2 k = entry_at V view v k"
    using e commands_leave(2) [OF assms(1,4)] by (auto simp: cacheNullValue_def split: if_splits intro: exI [of _ "sw_pending v"])
  then obtain q where q: "v2 = w\<lparr>sw_pending := q\<rparr>" "entry_at V view v2 k = entry_at V view w k" using p by auto
  from assms(2) c e p q show ?thesis
    by (auto simp: negative_step_def split: if_splits prod.splits intro: exI [of _ "sw_pending w"])
qed

lemma protection_positive: "0 < pr_BlockThreshold (protectionConfig V)" "0 < pr_BlockWindow (protectionConfig V)"
  by (auto simp: protectionConfig_def Let_def positive_or_def defaultProtectionConfig_def Minute_def Second_def split: option.splits)

lemma block_up:
  assumes "redis_up V view" and "TrimSpace u \<noteq> []" and "CHR '':'' \<notin> set u"
    and "counter_value (kv_live (sw_clock w) (entry_at V view w (BlockCounterKey u))) n t"
    and "0 \<le> n" and "in64 n" and "in64 (n + 1)" and "pr_BlockThreshold (protectionConfig V) \<le> n + 1"
  shows "\<exists>p. block_step V (protectionConfig V) u a w = ((True, True), w\<lparr>sw_pending := p\<rparr>)
    \<and> key_at V view (w\<lparr>sw_pending := p\<rparr>) (BlacklistKey u) = Some BlacklistSentinel"
proof -
  let ?c = "protectionConfig V"
  have keys: "BlockCounterKey u \<noteq> []" "NegativeCounterKey u \<noteq> []" "BlacklistKey u \<noteq> []" "u \<noteq> []"
    using assms(2) by (auto simp: BlockCounterKey_def NegativeCounterKey_def BlacklistKey_def blockCounterPrefix_def negativeCounterPrefix_def
        blacklistPrefix_def Let_def)
  obtain p where p: "count_miss V (BlockCounterKey u) (pr_BlockWindow ?c) w = (n + 1, w\<lparr>sw_pending := p\<rparr>)"
    using count_up [OF assms(1) keys(1) assms(4-7)] by blast
  obtain q where q: "setBlacklist V u (pr_BlockDuration ?c) (w\<lparr>sw_pending := p\<rparr>) = (None, w\<lparr>sw_pending := q\<rparr>)"
      "key_at V view (w\<lparr>sw_pending := q\<rparr>) (BlacklistKey u) = Some BlacklistSentinel"
    using up_svc_set [OF assms(1), of "BlacklistKey u" BlacklistSentinel _ "w\<lparr>sw_pending := p\<rparr>"] keys redis_upD(3) [OF assms(1)]
    unfolding setBlacklist_def by fastforce
  obtain s where s: "cacheBlacklistSentinel V u (pr_BlockDuration ?c) (w\<lparr>sw_pending := q\<rparr>) = (None, w\<lparr>sw_pending := s\<rparr>)"
      "key_at V view (w\<lparr>sw_pending := s\<rparr>) (BlacklistKey u) = Some BlacklistSentinel"
    using up_svc_set [OF assms(1), of "UserKey u" BlacklistSentinel _ "w\<lparr>sw_pending := q\<rparr>"] q(2) keys redis_upD(3) [OF assms(1)] own_keys(1) [OF assms(3)]
    unfolding cacheBlacklistSentinel_def by fastforce
  obtain x where x: "svc_DeleteKey V (NegativeCounterKey u) (w\<lparr>sw_pending := s\<rparr>) = (None, w\<lparr>sw_pending := x\<rparr>)"
      "key_at V view (w\<lparr>sw_pending := x\<rparr>) (BlacklistKey u) = Some BlacklistSentinel"
    using up_svc_delete [OF assms(1), of "NegativeCounterKey u" "w\<lparr>sw_pending := s\<rparr>"] s(2) own_keys(4) [OF assms(3)] keys(3) by auto
  obtain y where y: "svc_DeleteKey V (BlockCounterKey u) (w\<lparr>sw_pending := x\<rparr>) = (None, w\<lparr>sw_pending := y\<rparr>)"
      "key_at V view (w\<lparr>sw_pending := y\<rparr>) (BlacklistKey u) = Some BlacklistSentinel"
    using up_svc_delete [OF assms(1), of "BlockCounterKey u" "w\<lparr>sw_pending := x\<rparr>"] x(2) own_keys(5) [OF assms(3)] keys(3) by auto
  have "clearProtectionCounters V u (w\<lparr>sw_pending := s\<rparr>) = w\<lparr>sw_pending := y\<rparr>"
    using x(1) y(1) keys redis_upD(3) [OF assms(1)] by (auto simp: clearProtectionCounters_def)
  with p q s y assms(5,8) protection_positive [of V] show ?thesis by (intro exI [of _ y]) (simp add: block_step_def)
qed

text \<open>C35. A name asked for in vain too often is blocked: the Get whose miss brings the counter of the name to the threshold answers
  the mark of a blocked user, and so does the next Get, without the table.\<close>

theorem misses_block_name:
  assumes "redis_up V view" and "\<not> rq_force w" and "\<not> rq_primary w" and "TrimSpace u \<noteq> []" and "CHR '':'' \<notin> set u"
    and "key_at V view w (BlacklistKey u) \<noteq> Some BlacklistSentinel" and "key_at V view w (UserKey u) = None"
    and "st_Get (sr_store V) (rq_end w) False u (sw_db w) = (Inl e, d)" and "IsCode e code_ErrUserNotFound"
    and "counter_value (kv_live (sw_clock w) (entry_at V view w (BlockCounterKey u))) n t"
    and "0 \<le> n" and "in64 n" and "in64 (n + 1)" and "pr_BlockThreshold (protectionConfig V) \<le> n + 1"
  shows "\<exists>w1 w2. service_Get V u w = (Inr (Some (sentinel_user BlacklistSentinel 0)), w1)
    \<and> service_Get V u w1 = (Inr (Some (sentinel_user BlacklistSentinel 0)), w2) \<and> sw_db w2 = sw_db w1"
proof -
  note up = assms(1)
  let ?B = "BlockCounterKey u"
  obtain p where p: "isUserBlacklisted V u w = (Inr False, w\<lparr>sw_pending := p\<rparr>)" "view (pd_redis p) = view (pd_redis (sw_pending w))"
    using blacklist_up [OF up assms(4), of w] assms(6) by auto
  obtain q where q: "tryGetFromCache V u (w\<lparr>sw_pending := p\<rparr>) = (Inr (None, False), w\<lparr>sw_pending := q\<rparr>)"
      "view (pd_redis q) = view (pd_redis (sw_pending w))"
    using miss_up [OF up, of "w\<lparr>sw_pending := p\<rparr>" u] p(2) assms(7) key_at_same [OF p(2), of V] by auto
  have qe: "entry_at V view (w\<lparr>sw_pending := q\<rparr>) ?B = entry_at V view w ?B" using q(2) by (simp add: entry_at_def)
  let ?v = "(w\<lparr>sw_pending := q\<rparr>)\<lparr>sw_db := d\<rparr>"
  obtain a v1 where a: "negative_step V (protectionConfig V) u ?v = (a, v1)" by fastforce
  have nk: "?B \<noteq> NegativeCounterKey u \<or> NegativeCounterKey u = []" "?B \<noteq> UserKey u" using own_keys(2,3) [OF assms(5)] by metis+
  obtain s where s: "v1 = ?v\<lparr>sw_pending := s\<rparr>" "entry_at V view v1 ?B = entry_at V view ?v ?B"
    using negative_frame [OF up a nk] by blast
  have "entry_at V view ?v ?B = entry_at V view (w\<lparr>sw_pending := q\<rparr>) ?B" by (simp add: entry_at_def)
  with s qe assms(10) have "counter_value (kv_live (sw_clock v1) (entry_at V view v1 ?B)) n t" by simp
  from block_up [OF up assms(4,5) this assms(11-14)] obtain x where
    x: "block_step V (protectionConfig V) u a v1 = ((True, True), v1\<lparr>sw_pending := x\<rparr>)"
      "key_at V view (v1\<lparr>sw_pending := x\<rparr>) (BlacklistKey u) = Some BlacklistSentinel" by blast
  have "u \<noteq> []" using assms(4) by auto
  then have h: "handleProtectionForMiss V u ?v = ((True, True), v1\<lparr>sw_pending := x\<rparr>)"
    using a x(1) redis_upD(3) [OF up] by (simp add: handleProtectionForMiss_def Let_def)
  have "getUserFromDBAndSetCache V (rq_end w) u (w\<lparr>sw_pending := q\<rparr>) = (Inr (Some (sentinel_user BlacklistSentinel 0)), v1\<lparr>sw_pending := x\<rparr>)"
    using h assms(2,3,8,9) s(1)
    by (simp add: getUserFromDBAndSetCache_def strongConsistencyMaxRetries_def numeral_3_eq_3 sw_table_def
        missing_user_def isStrongConsistencyRequest_def no_marker_state_def)
  then have "service_Get V u w = (Inr (Some (sentinel_user BlacklistSentinel 0)), v1\<lparr>sw_pending := x\<rparr>)"
    by (intro get_miss [OF assms(2) p(1) q(1)]) (simp_all add: s(1))
  with blocked_get [OF up assms(4) x(2)] show ?thesis by blast
qed

section \<open>A service\<close>

text \<open>A service on the table of values, with a list of users as its table.\<close>

definition demo_person :: "string \<Rightarrow> string \<Rightarrow> User" where
  "demo_person name email = zero_user\<lparr>om_Name := name, us_Email := email, om_Version := 1\<rparr>"

definition demo_find :: "(User \<Rightarrow> bool) \<Rightarrow> User list \<Rightarrow> (svc_error + User option) \<times> User list" where
  "demo_find p d = (case find p d of Some u \<Rightarrow> Inr (Some u) | None \<Rightarrow> Inl (Coded code_ErrUserNotFound []), d)"

definition demo_store :: "User list UserStore" where
  "demo_store = \<lparr>st_Get = (\<lambda>t b n. demo_find (\<lambda>u. om_Name u = n)), st_GetByEmail = (\<lambda>t v. demo_find (\<lambda>u. us_Email u = v)),
     st_GetByPhone = (\<lambda>t v. demo_find (\<lambda>u. us_Phone u = v)), st_PreflightConflicts = (\<lambda>t n e f d. (Inr [], d)),
     st_List = (\<lambda>i n d. (Inr (map Some (take (nat n) (drop (nat i) [demo_person ''ann'' ''a@b'']))), d))\<rparr>"

definition demo_options :: ServiceOptions where
  "demo_options = \<lparr>so_Protection = None, so_MaxRetries = 3, so_ContactLookupTimeout = 0, so_ContactRefreshTimeout = 0,
     so_EnableContactWarmup = True, so_DegradeCacheTTL = 0, so_DegradeCacheMaxEntries = 0\<rparr>"

definition demo_service :: "(ptable, unit, User list) UserService" where
  "demo_service = \<lparr>sr_env = demo_env False name_codec, sr_coordinated = True, sr_store = demo_store, sr_opts = demo_options,
     sr_payload = \<lparr>pc_marshal = (\<lambda>p. Inr ''json''), pc_unmarshal = (\<lambda>s. Inr (FromUser (demo_person ''ann'' ''a@b'')))\<rparr>,
     sr_rand = (\<lambda>n. 0), sr_permit = (\<lambda>t. None), sr_marker = (\<lambda>s. Inl [])\<rparr>"

definition demo_world :: "(string \<times> string \<times> instant option) list \<Rightarrow> User list \<Rightarrow> (ptable, unit, User list) service_world" where
  "demo_world kvs users = \<lparr>sw_pending = demo_st kvs, sw_db = users, sw_clock = demo_t0, sw_degraded = False, sw_since = 0,
     sw_contacts = [], sw_contacts_size = 0, sw_ready = False, sw_warming = False, sw_nextRetry = 0,
     rq_state = None, rq_force = False, rq_primary = False, rq_batch = None, rq_end = None,
     rq_canceled = False\<rparr>"

lemma demo_service_up: "redis_up demo_service pt_view"
  by (simp add: redis_up_def demo_service_def demo_env_def server_of_def table_server_laws table_up)

definition demo_key :: string where "demo_key = ''user:email:a@b''"

abbreviation demo_look where "demo_look \<equiv> contact_lookup_of (st_GetByEmail demo_store) [] ''email'' False"

abbreviation demo_claim where "demo_claim user w \<equiv> ensureContactUnique demo_service demo_key user svc_email ''a@b'' ''email'' demo_look w"

text \<open>Three requests for a free address: two of them by one user.\<close>

definition demo_request :: "string \<Rightarrow> (ptable, unit, User list) contact_request" where
  "demo_request user = \<lparr>cr_world = demo_world [] [], cr_owner = user, cr_label = svc_email, cr_value = ''a@b'', cr_field = ''email'',
     cr_lookup = demo_look, cr_phase = None\<rparr>"

definition demo_requests :: "(ptable, unit, User list) contact_request list" where
  "demo_requests = [demo_request ''ann'', demo_request ''bob'', demo_request ''Ann'']"

definition demo_shared :: "(ptable, User list) contact_shared" where "demo_shared = shared_of (demo_world [] [])"

definition demo_turns :: "(ptable, User list) contact_turn list" where
  "demo_turns = concat (replicate 6 [Takes 0, Takes 1, Elapses 2, Takes 2])"

definition demo_free :: "User list \<Rightarrow> bool" where "demo_free d \<longleftrightarrow> find (\<lambda>u. us_Email u = ''a@b'') d = None"

lemma demo_nobody: "nobody_has (st_GetByEmail demo_store) ''a@b'' demo_free"
  by (simp add: nobody_has_def demo_free_def demo_store_def demo_find_def finds_nobody_def IsCode_def)

lemma demo_request_ready: "TrimSpace user \<noteq> [] \<Longrightarrow> request_ready (st_GetByEmail demo_store) demo_free until (demo_request user)"
  using demo_nobody by (simp add: request_ready_def demo_request_def demo_world_def IsCreateDegraded_def) (metis map_of.simps(1))

theorem contact_exclusive_witness:
  "EqualFold (cr_owner (snd (contact_run demo_service demo_key demo_turns (demo_shared, demo_requests)) ! 0))
     (cr_owner (snd (contact_run demo_service demo_key demo_turns (demo_shared, demo_requests)) ! 2))
   \<and> cr_phase (snd (contact_run demo_service demo_key demo_turns (demo_shared, demo_requests)) ! 1)
     = Some (Decided (Some (taken_error svc_email ''a@b'')))"
proof -
  let ?r = "contact_run demo_service demo_key demo_turns (demo_shared, demo_requests)"
  have len: "length (snd ?r) = 3" by code_simp
  have phases: "map cr_phase (snd ?r) = [Some (Decided None), Some (Decided (Some (taken_error svc_email ''a@b''))), Some (Decided None)]" by code_simp
  then have p: "cr_phase (snd ?r ! 0) = Some (Decided None)" "cr_phase (snd ?r ! 1) = Some (Decided (Some (taken_error svc_email ''a@b'')))"
    "cr_phase (snd ?r ! 2) = Some (Decided None)"
    using nth_map [of 0 "snd ?r" cr_phase] nth_map [of 1 "snd ?r" cr_phase] nth_map [of 2 "snd ?r" cr_phase] len by simp_all
  have names: "TrimSpace ''ann'' \<noteq> []" "TrimSpace ''bob'' \<noteq> []" "TrimSpace ''Ann'' \<noteq> []" "TrimSpace demo_key \<noteq> []" by code_simp+
  have "EqualFold (cr_owner (snd ?r ! 0)) (cr_owner (snd ?r ! 2))"
  proof (rule contact_exclusive [OF demo_service_up names(4), where free = demo_free and query = "st_GetByEmail demo_store"])
    show "kv_live (ch_clock demo_shared) (pt_view (ch_redis demo_shared) (fixKey (sr_prefix demo_service) demo_key)) = None" by code_simp
    show "demo_free (ch_db demo_shared)" by code_simp
    show "\<forall>q\<in>set demo_requests. cr_phase q = None
        \<and> request_ready (st_GetByEmail demo_store) demo_free (ch_clock demo_shared + contactPlaceholderTTL) q"
      using demo_request_ready names by (simp add: demo_requests_def) (simp add: demo_request_def)
    show "\<forall>turn\<in>set demo_turns. turn_apart pt_view (fixKey (sr_prefix demo_service) demo_key) demo_free turn" by (simp add: demo_turns_def numeral_eq_Suc)
    show "sum_list (map turn_time demo_turns) < contactPlaceholderTTL" by code_simp
    show "?r = (fst ?r, snd ?r)" by simp
  qed (use len p in simp_all)
  with p(2) show ?thesis by blast
qed

definition demo_events :: "(ptable, unit, User list) degraded_event list" where
  "demo_events = [TimePasses 5000000000, ChecksContact ''user:email:c@d'' ''cy'' svc_email ''c@d'' ''email'' demo_look, RemovesExpired]"

definition demo_degraded :: "(ptable, unit, User list) service_world" where
  "demo_degraded = enableRedisDegrade ((demo_world [] [])\<lparr>sw_clock := unix_epoch\<rparr>)"

theorem degraded_contact_exclusive_witness:
  "\<exists>w3. demo_claim ''bob'' (fold (degraded_event_step demo_service) demo_events (snd (demo_claim ''ann'' demo_degraded)))
    = (Some (taken_error svc_email ''a@b''), w3)"
proof -
  let ?w = demo_degraded
  have "fst (demo_claim ''ann'' ?w) = None" by code_simp
  then have r: "demo_claim ''ann'' ?w = (None, snd (demo_claim ''ann'' ?w))" by (metis prod.collapse)
  have c: "sw_contacts ?w = []" "sw_degraded ?w" "sw_contacts_size ?w = 0" "sw_clock ?w = unix_epoch" by (simp_all add: demo_degraded_def enableRedisDegrade_def demo_world_def)
  have names: "TrimSpace demo_key \<noteq> []" "TrimSpace ''ann'' \<noteq> []" "\<not> EqualFold ''ann'' ''bob''" by code_simp+
  show ?thesis
  proof (rule degraded_contact_exclusive [OF _ c(2) names _ r])
    show "contacts_ok demo_service ?w" using c limit_positive [of demo_service] by (simp add: contacts_ok_def)
    show "fst (contactDegradeCacheGet demo_key ?w) = None" using c by (simp add: contactDegradeCacheGet_def)
    show "in64 (sw_clock ?w - unix_epoch)" "in64 (sw_clock ?w + contactRedisDegradeTTL demo_service - unix_epoch)" unfolding c(4) by code_simp+
    show "\<forall>ev\<in>set demo_events. event_plain ev" by (simp add: demo_events_def) (intro allI look_plain)
    show "sum_list (map event_time demo_events) \<le> contactRedisDegradeTTL demo_service"
      by (simp add: demo_events_def contactRedisDegradeTTL_def demo_service_def demo_options_def positive_or_def Second_def)
    show "int (length (sw_contacts (snd (demo_claim ''ann'' ?w)))) + checks_in demo_events \<le> contactRedisDegradeCacheLimit demo_service"
    proof -
      have "length (sw_contacts (snd (demo_claim ''ann'' ?w))) = 1" by code_simp
      then show ?thesis by (simp add: checks_in_def demo_events_def contactRedisDegradeCacheLimit_def demo_service_def demo_options_def
            positive_or_def contactDegradeCacheDefaultMaxEntries_def)
    qed
  qed
qed

definition demo_degraded_request :: "string \<Rightarrow> (ptable, unit, User list) degraded_request" where
  "demo_degraded_request user = \<lparr>dg_user = user, dg_label = svc_email, dg_value = ''a@b'', dg_lookup = demo_look, dg_phase = AskCache\<rparr>"

theorem degraded_check_race_witness:
  "\<exists>w'. degraded_run demo_service demo_key [0, 1, 0, 1, 0, 1, 0, 1, 0, 1, 0, 1]
        ([demo_degraded_request ''ann'', demo_degraded_request ''bob''], enableRedisDegrade (demo_world [] []))
      = ([(demo_degraded_request ''ann'')\<lparr>dg_phase := Answered None\<rparr>, (demo_degraded_request ''bob'')\<lparr>dg_phase := Answered None\<rparr>], w')
    \<and> length (sw_contacts w') = 1 \<and> sw_contacts_size w' = 2 \<and> \<not> contacts_ok demo_service w'"
proof -
  let ?w = "enableRedisDegrade (demo_world [] []) :: (ptable, unit, User list) service_world"
  have c: "sw_contacts ?w = []" "sw_contacts_size ?w = 0" "request_error ?w = None" "sw_db ?w = []"
    by (simp_all add: enableRedisDegrade_def demo_world_def request_error_def)
  have ok: "contacts_ok demo_service ?w" using c limit_positive [of demo_service] by (simp add: contacts_ok_def)
  have "TrimSpace demo_key \<noteq> []" by code_simp
  then show ?thesis
    using degraded_check_race [OF ok _ _ _ c(3) demo_nobody _ demo_degraded_request_def demo_degraded_request_def] c limit_positive [of demo_service]
    by (simp add: demo_free_def)
qed

text \<open>A database that lists users, and one user whose status is not the active one.\<close>

definition demo_listing :: "User list \<Rightarrow> User list database" where
  "demo_listing users q args d =
    (Inr (case args of [ArgInt s, ArgInt n, ArgInt i] \<Rightarrow> take (nat n) (drop (nat i) (filter (\<lambda>u. us_Status u = s) users)) | _ \<Rightarrow> []), d)"

lemma demo_table_lists: "table_lists (demo_listing users) users"
  by (simp add: table_lists_def demo_listing_def)

definition listing_service :: "User list \<Rightarrow> (ptable, unit, User list) UserService" where
  "listing_service users = demo_service\<lparr>sr_store := demo_store\<lparr>st_List := users_page (demo_listing users)\<rparr>\<rparr>"

theorem warmup_lets_taken_contacts_pass_witness:
  "\<exists>w1 w2. WarmupContactCacheBlocking (listing_service [demo_person ''ann'' ''a@b'']) 1 (demo_world [] []) = (Some None, w1) \<and> sw_ready w1
    \<and> ensureContactUnique (listing_service [demo_person ''ann'' ''a@b'']) demo_key ''bob'' svc_email ''a@b'' ''email'' demo_look w1 = (None, w2)
    \<and> key_at (listing_service [demo_person ''ann'' ''a@b'']) pt_view w2 demo_key = Some ''bob''"
proof (rule warmup_lets_taken_contacts_pass [where run = "demo_listing [demo_person ''ann'' ''a@b'']" and owner = "demo_person ''ann'' ''a@b''"])
  let ?V = "listing_service [demo_person ''ann'' ''a@b'']"
  have "redis_up ?V pt_view" using demo_service_up by (simp add: redis_up_def listing_service_def)
  then show "service_good ?V pt_view (demo_world [] [])"
    by (simp add: service_good_def) (simp add: demo_world_def IsCreateDegraded_def request_error_def)
  show "TrimSpace demo_key \<noteq> []" "TrimSpace ''bob'' \<noteq> []" "\<not> EqualFold ''bob'' NegativeCacheSentinel" by code_simp+
  show "demo_key \<in> set (contact_keys (demo_person ''ann'' ''a@b''))" by code_simp
  show "\<not> EqualFold ''bob'' (om_Name (demo_person ''ann'' ''a@b''))" by code_simp
  show "key_at ?V pt_view (demo_world [] []) demo_key = None" by code_simp
  show "demo_key \<notin> (\<Union>u\<in>set (take 100 (filter (\<lambda>u. us_Status u = 1) [demo_person ''ann'' ''a@b''])). set (contact_keys u))"
    by (simp add: demo_person_def zero_user_def)
qed (simp_all add: demo_table_lists listing_service_def demo_service_def demo_options_def demo_world_def)


theorem sentinel_answers_miss_witness:
  "\<exists>w'. tryGetFromCache demo_service ''bob'' (demo_world [(''iam:user:bob'', ''rate_limit_prevention'', None)] []) = (Inr (None, False), w')
    \<and> key_at demo_service pt_view w' = (key_at demo_service pt_view (demo_world [(''iam:user:bob'', ''rate_limit_prevention'', None)] []))(''user:bob'' := None)"
proof -
  let ?w = "demo_world [(''iam:user:bob'', ''rate_limit_prevention'', None)] []"
  have k: "UserKey ''bob'' = ''user:bob''" by code_simp
  have "key_at demo_service pt_view ?w (UserKey ''bob'') = Some NegativeCacheSentinel" by code_simp
  then show ?thesis using sentinel_answers_miss [OF demo_service_up, of ?w "''bob''"] unfolding k by blast
qed

theorem get_reads_through_witness:
  "\<exists>w1 w2. service_Get demo_service ''ann'' (demo_world [] [demo_person ''ann'' ''a@b'']) = (Inr (Some (demo_person ''ann'' ''a@b'')), w1)
    \<and> service_Get demo_service ''ann'' w1 = (Inr (Some (demo_person ''ann'' ''a@b'')), w2) \<and> sw_db w2 = sw_db w1"
proof (rule get_reads_through [OF demo_service_up])
  show "TrimSpace ''ann'' \<noteq> []" by code_simp
  show "key_at demo_service pt_view (demo_world [] [demo_person ''ann'' ''a@b'']) (BlacklistKey ''ann'') \<noteq> Some BlacklistSentinel" by code_simp
  show "key_at demo_service pt_view (demo_world [] [demo_person ''ann'' ''a@b'']) (UserKey ''ann'') = None" by code_simp
  show "payload_Unmarshal (sr_payload demo_service) ''json'' = Inr (Some (demo_person ''ann'' ''a@b''))"
    by (simp add: payload_Unmarshal_def demo_service_def demo_person_def ToUser_FromUser) (simp add: zero_user_def)
qed (simp_all add: demo_world_def demo_service_def demo_store_def demo_find_def demo_person_def payload_Marshal_def is_sentinel_def
      NegativeCacheSentinel_def BlacklistSentinel_def)

theorem misses_block_name_witness:
  "\<exists>w1 w2. service_Get demo_service ''bob'' (demo_world [(''iam:user:block-counter:bob'', ''9'', None)] []) = (Inr (Some (sentinel_user BlacklistSentinel 0)), w1)
    \<and> service_Get demo_service ''bob'' w1 = (Inr (Some (sentinel_user BlacklistSentinel 0)), w2) \<and> sw_db w2 = sw_db w1"
proof (rule misses_block_name [OF demo_service_up, where n = 9 and t = None])
  let ?w = "demo_world [(''iam:user:block-counter:bob'', ''9'', None)] []"
  show "TrimSpace ''bob'' \<noteq> []" by code_simp
  show "key_at demo_service pt_view ?w (BlacklistKey ''bob'') \<noteq> Some BlacklistSentinel" by code_simp
  show "key_at demo_service pt_view ?w (UserKey ''bob'') = None" by code_simp
  have "kv_live (sw_clock ?w) (entry_at demo_service pt_view ?w (BlockCounterKey ''bob'')) = Some (FormatInt 9, None)" by code_simp
  then show "counter_value (kv_live (sw_clock ?w) (entry_at demo_service pt_view ?w (BlockCounterKey ''bob''))) 9 None"
    by (simp add: counter_value_def)
  show "pr_BlockThreshold (protectionConfig demo_service) \<le> 9 + 1" by code_simp
  show "st_Get (sr_store demo_service) (rq_end ?w) False ''bob'' (sw_db ?w) = (Inl (Coded code_ErrUserNotFound []), [])"
    by (simp add: demo_world_def demo_service_def demo_store_def demo_find_def)
qed (simp_all add: demo_world_def IsCode_def in64I)

end
