(* ===== verification/Spec2Isabelle.thy ===== *)
theory Spec2Isabelle
  imports BackpressureProperties ProfileProperties PendingMemoryProperties OperationOutcomes RedisPipeline
    RedisStateProperties OperationModeProperties LimiterProperties PendingRedisProperties RetryProperties
    ConsumerProperties ConsumerCommit
    ServiceProperties
begin

text \<open>
  A verification development for the user service of cdmp-mini. Paths without a leading directory are below
  cdmp-mini/ in the repository.

  \<^bold>\<open>The program.\<close> A request to create a user takes a \<^emph>\<open>pending lease\<close> on the name (internal/pkg/usercache), is checked and
  turned into a message (internal/common/producer/create, internal/pkg/server/producer.go), and is written to the
  table by the \<^emph>\<open>main consumer\<close> (internal/pkg/server/consumer.go), which clears the lease. What it cannot do yet goes
  to a retry topic and its own consumer (retry_consumer.go), what it cannot do at all to the dead letters. Updates
  and deletions take the same way; operations on several users go through a pipeline with a queue and a state store
  (internal/common/service/operation). Rate limits stand before all of it (internal/pkg/middleware/common).

  \<^bold>\<open>How the code is modelled.\<close> Each theory follows one file or one part of it. A struct is a record, an enumeration or a
  tagged value a datatype, an error a value of a sum or an option; a method that changes state takes the state and
  returns it. Integers are \<open>int\<close> with the wrap-around of 64 bits written out (GoBase), unsigned versions and identifiers
  64-bit words, \<open>float64\<close> the rationals rounded to 53 bits (GoFloat), strings lists of bytes (GoStrings). An instant is
  the number of nanoseconds since the year 1, a duration a number of nanoseconds; every operation is told the time, and
  sleeping moves it. Code that is not in the repository is an argument: Redis is a record of commands over an abstract
  state with the laws that its documentation gives (RedisServer, PendingServer), a command may fail before, and for the leases
  also after, its effect, and a Lua script in the repository is translated into those commands; the table is a record of
  statements; JSON and the printing of times are codecs; the choices of a Go \<open>select\<close>, of goroutines and of random
  numbers are arguments. Concurrency is a step relation or a sequence of events chosen by the environment. Logs,
  metrics and traces are left out everywhere.

  \<^bold>\<open>Theories.\<close>

  \<^item> GoBase, GoStrings, GoFloat, Prelude: integers, text, floats and durations of Go, shared lemmas.
  \<^item> CacheKeys, Backpressure, BackpressureProperties, DelayProfile, ProfileDefaults, ProfileProperties:
    keys, levels of load with hysteresis, delays (internal/pkg/usercache: keys.go, backpressure_profile.go,
    pending_state_machine.go). The level does not flap within its window; keys can be read back.
  \<^item> PendingTypes, PendingMemory and the theories that start so: the coordinator in memory (pending_state_memory.go). One
    holder at a time under any interleaving, exact counters, and a refinement of an abstract table of leases; LeaseContract
    is the interface both coordinators implement.
  \<^item> PendingServer, PendingLimiter, PendingConfig, PendingRedis, PendingRedisLease, PendingRedisAcquire,
    PendingCalibration and the theories of facts beside them: the coordinator over Redis (pending_state_machine.go),
    leases, counters, expiry, recounting, for any server that keeps its laws and any number of processes.
  \<^item> OperationTypes, OperationMemory, OperationPipeline, OperationRuns, OperationProperties, OperationOutcomes: the
    pipeline of operations, its state machine, its bound on attempts, completion and compensation.
  \<^item> RedisServer, RedisTable, RedisScripts, RedisQueue and the theories that start so, RedisPipeline: the queue over Redis,
    its invariant, exclusive delivery, redelivery after a crash, a refinement to an abstract queue.
  \<^item> RedisState, RedisStateProperties, OperationMode, OperationModeProperties: the durable state store
    (state/redisdb/store.go) and the mode controller (operation_mode_controller.go).
  \<^item> RateLimiter, WriteLimiter, LimiterProperties: the limits of logins and of writes.
  \<^item> KafkaOptions, KafkaMessages, KafkaProducer, CreatePipelines: settings, messages and headers, the producer with its
    fallback file, the generic pipelines of a creation.
  \<^item> UserRecord, UserCacheOps: users, patches, rows and cached payloads, copies in the cache, keys of the data for logins.
  \<^item> RetryConsumer, RetryGroup, RetryProperties: the retry consumer; its messages are handed over at most
    once, and come back a bounded number of times unless they go through the fallback file.
  \<^item> ConsumerIntake, ConsumerBatching, ConsumerCommit: how the main consumer fetches, routes and collects messages, and
    which offsets it commits. UserConditions: the where clause of a batch update. ConsumerErrors, UserConsumer,
    ConsumerHandlers, ConsumerBatches: its errors, storage, handlers and batches. ConsumerProperties: an
    update keeps the optimistic lock, a worker hands a message over at most once, and the ways in which a message is
    acknowledged and yet lost.
  \<^item> UniqueChecker: the generic check that a field is unique (internal/common/service/unique), with the interface
    \<open>cache_client\<close> of its cache, as one call and command by command. UserListing: the pages of users the store answers
    (store/user/list_store.go). UserService, ServiceContacts: how the user service reads users and protects the table
    (service/v1/user/get_service.go, user_service.go), and its checks of mail addresses and phone numbers, the commands of several requests interleaved.
    ServiceProperties: on Redis a free contact gets one owner under any interleaving, as long as a placeholder lives; without Redis it does so only if one check runs
    at a time, and two at once both pass; the copying at the start reaches the first hundred active users only, so that the
    contacts of the others can be taken; a Get reads through the cache; a name asked for in vain too often is blocked.

  \<^bold>\<open>Bounds and fuel.\<close> Loops of the code that count attempts are recursions on the attempts left, started with the number
  in the code; loops over a list recurse on it; the committing loop ends because each turn removes a waiting offset.
  The drain loops of the queue have fuel, and \<open>queue_scripts_return\<close> shows that the fuel given suffices. Copying the
  stored users has fuel for its pages, and \<open>warmup_lets_taken_contacts_pass\<close> shows that one page suffices with the store of the repository, whose pages are never
  full in the eyes of the copying. Nothing else may fail to return.

  \<^bold>\<open>What is assumed of the surroundings.\<close> A reply of Redis that is lost after the command took effect is represented for the leases, not for the queue of
  operations, where a call that fails has changed nothing. The clock of Redis and those of the processes are one. SCAN may repeat keys.
  The functions on the service's own cache of contacts run alone, except in \<open>degraded_check_race\<close>, which shows what a disturbed claim does; a
  disturbed clearing of that cache is not represented. A mail address and a phone number of one request are checked one after the other.

  \<^bold>\<open>Not modelled.\<close> The HTTP layer (controllers, router, middleware other than the limiters, authentication), because it
  is mostly calls of a web framework and of a token library; the creation, change and deletion of users in the service
  (create_operation_pipeline.go, create_service.go and the files beside them), whose steps are those of the generic
  pipelines with hooks into the parts modelled here; metrics, traces, logs and audit, which only observe; the construction of clients and servers;
  the rest of the storage client; the libraries of nexuscore other than the parts named above; the laboratories,
  tools and tests, and third-party code.
\<close>

end
